(* ===== verification/Prelude.thy ===== *)
theory Prelude
  imports Main
begin

text \<open>
  Generic material shared by every component: the errors the code throws, the asynchronous
  state-and-exception monad in which the Workers' handlers are written, the rely/guarantee rules
  for it, and the list model of a SQL table.

  A handler of a Worker runs between \<open>await\<close> points; at every \<open>await\<close> other requests may run and
  time may pass.  The \<open>world\<close> therefore carries, beside the database, the clock and the supply of
  random UUIDs, a list of pending interferences: each one is what happens to the clock and to the
  database at the next \<open>await\<close>.  An empty list is an undisturbed (\<open>quiet\<close>) execution.
\<close>

named_theorems act_simps "evaluation of the primitives of the asynchronous monad"
named_theorems table_simps "lookups in and updates of SQL tables"

subsection \<open>Errors\<close>

text \<open>One constructor per class of exception the modelled code throws.\<close>

datatype err =
    Thrown string
  | DomainValidationError string
  | FeePolicyError string
  | QuoteError string
  | PreflightError "string list"
  | EvidenceMismatchError string
  | SignerLeaseBusyError
  | CircleFeeError string
  | ConstraintFailed
  | ExternalError string

text \<open>Code that may throw but does not wait returns a sum; \<open>bindE\<close> sequences it.\<close>

definition bindE :: "err + 'a \<Rightarrow> ('a \<Rightarrow> err + 'b) \<Rightarrow> err + 'b" where
  "bindE r f = (case r of Inl e \<Rightarrow> Inl e | Inr x \<Rightarrow> f x)"

definition guardE :: "bool \<Rightarrow> err \<Rightarrow> err + unit" where
  "guardE ok e = (if ok then Inr () else Inl e)"

fun mapE :: "('a \<Rightarrow> err + 'b) \<Rightarrow> 'a list \<Rightarrow> err + 'b list" where
  "mapE f [] = Inr []"
| "mapE f (x # xs) = bindE (f x) (\<lambda>y. bindE (mapE f xs) (\<lambda>ys. Inr (y # ys)))"

lemma bindE_simps [simp]:
  "bindE (Inl e) f = Inl e"
  "bindE (Inr x) f = f x"
  by (simp_all add: bindE_def)

lemma bindE_Inr_iff: "bindE r f = Inr y \<longleftrightarrow> (\<exists>x. r = Inr x \<and> f x = Inr y)"
  by (cases r) auto

lemma bindE_guard [simp]: "bindE (guardE ok e) f = (if ok then f () else Inl e)"
  by (simp add: guardE_def)

lemma mapE_Inr: "mapE f xs = Inr ys \<Longrightarrow> list_all2 (\<lambda>x y. f x = Inr y) xs ys"
  by (induction xs arbitrary: ys) (auto simp: bindE_Inr_iff)

subsection \<open>Worlds and actions\<close>

record ('d, 'm) world =
  w_db :: 'd
  w_now :: int
  w_env :: "(nat \<times> ('d \<Rightarrow> 'd)) list"
  w_uuid :: "nat \<Rightarrow> string"
  w_ix :: nat
  w_sent :: "'m list"

type_synonym ('d, 'm, 'a) act = "('d, 'm) world \<Rightarrow> (err + 'a) \<times> ('d, 'm) world"

definition await :: "('d, 'm) world \<Rightarrow> ('d, 'm) world" where
  "await w = (case w_env w of [] \<Rightarrow> w
     | (dt, f) # es \<Rightarrow> w\<lparr>w_env := es, w_now := w_now w + int dt, w_db := f (w_db w)\<rparr>)"

definition ret :: "'a \<Rightarrow> ('d, 'm, 'a) act" where
  "ret x w = (Inr x, w)"

definition throw :: "err \<Rightarrow> ('d, 'm, 'a) act" where
  "throw e w = (Inl e, w)"

definition bindA :: "('d, 'm, 'a) act \<Rightarrow> ('a \<Rightarrow> ('d, 'm, 'b) act) \<Rightarrow> ('d, 'm, 'b) act" where
  "bindA m f w = (case m w of (Inl e, w') \<Rightarrow> (Inl e, w') | (Inr x, w') \<Rightarrow> f x w')"

definition catchA :: "('d, 'm, 'a) act \<Rightarrow> (err \<Rightarrow> ('d, 'm, 'a) act) \<Rightarrow> ('d, 'm, 'a) act" where
  "catchA m h w = (case m w of (Inl e, w') \<Rightarrow> h e w' | (Inr x, w') \<Rightarrow> (Inr x, w'))"

definition liftE :: "err + 'a \<Rightarrow> ('d, 'm, 'a) act" where
  "liftE r w = (r, w)"

text \<open>\<open>Date.now()\<close> (milliseconds since the epoch) and \<open>crypto.randomUUID()\<close>.\<close>

definition date_now :: "('d, 'm, int) act" where
  "date_now w = (Inr (w_now w), w)"

definition randomUUID :: "('d, 'm, string) act" where
  "randomUUID w = (Inr (w_uuid w (w_ix w)), w\<lparr>w_ix := Suc (w_ix w)\<rparr>)"

text \<open>
  One awaited D1 call: a read, a single statement, or a transactional batch.  A statement returns
  the new database and the number of changed rows, or \<open>None\<close> when a constraint aborts it.
\<close>

type_synonym 'd stmt = "'d \<Rightarrow> ('d \<times> nat) option"

fun batch :: "'d stmt list \<Rightarrow> 'd \<Rightarrow> ('d \<times> nat list) option" where
  "batch [] d = Some (d, [])"
| "batch (s # ss) d = (case s d of None \<Rightarrow> None
     | Some (d', n) \<Rightarrow> (case batch ss d' of None \<Rightarrow> None | Some (d'', ns) \<Rightarrow> Some (d'', n # ns)))"

definition dbq :: "('d \<Rightarrow> 'a) \<Rightarrow> ('d, 'm, 'a) act" where
  "dbq f w = (let w' = await w in (Inr (f (w_db w')), w'))"

definition dbx :: "('d \<Rightarrow> ('d \<times> 'n) option) \<Rightarrow> ('d, 'm, 'n) act" where
  "dbx s w = (let w' = await w in case s (w_db w') of
       None \<Rightarrow> (Inl ConstraintFailed, w')
     | Some (d, n) \<Rightarrow> (Inr n, w'\<lparr>w_db := d\<rparr>))"

definition dbb :: "'d stmt list \<Rightarrow> ('d, 'm, nat list) act" where
  "dbb ss = dbx (batch ss)"

text \<open>An awaited call of an external service: its answer may depend on the time.\<close>

definition extcall :: "(int \<Rightarrow> 'a option) \<Rightarrow> string \<Rightarrow> ('d, 'm, 'a) act" where
  "extcall f name w = (let w' = await w in case f (w_now w') of
       None \<Rightarrow> (Inl (ExternalError name), w') | Some x \<Rightarrow> (Inr x, w'))"

definition sendA :: "'m \<Rightarrow> ('d, 'm, unit) act" where
  "sendA x w = (let w' = await w in (Inr (), w'\<lparr>w_sent := w_sent w' @ [x]\<rparr>))"

text \<open>
  An awaited request that leaves the program, such as a message sent to a queue: it is recorded, and
  its answer (or its failure) is the service's.
\<close>

definition callA :: "'m \<Rightarrow> (int \<Rightarrow> 'a option) \<Rightarrow> string \<Rightarrow> ('d, 'm, 'a) act" where
  "callA x f name w = (let w' = await w; w'' = w'\<lparr>w_sent := w_sent w' @ [x]\<rparr> in case f (w_now w') of
       None \<Rightarrow> (Inl (ExternalError name), w'') | Some y \<Rightarrow> (Inr y, w''))"

text \<open>A call that does not wait, such as acknowledging a message: it is recorded.\<close>

definition emitA :: "'m \<Rightarrow> ('d, 'm, unit) act" where
  "emitA x w = (Inr (), w\<lparr>w_sent := w_sent w @ [x]\<rparr>)"

text \<open>Code between two awaits that changes the memory of the process.\<close>

definition syncA :: "('d \<Rightarrow> 'a \<times> 'd) \<Rightarrow> ('d, 'm, 'a) act" where
  "syncA f w = (case f (w_db w) of (x, d) \<Rightarrow> (Inr x, w\<lparr>w_db := d\<rparr>))"

text \<open>\<open>for (const x of xs) await f(x)\<close>, and the optional \<open>await\<close> of a conditional.\<close>

fun forA :: "('a \<Rightarrow> ('d, 'm, unit) act) \<Rightarrow> 'a list \<Rightarrow> ('d, 'm, unit) act" where
  "forA f [] = ret ()"
| "forA f (x # xs) = bindA (f x) (\<lambda>_. forA f xs)"

definition whenA :: "bool \<Rightarrow> ('d, 'm, unit) act \<Rightarrow> ('d, 'm, unit) act" where
  "whenA b m = (if b then m else ret ())"

fun mapA :: "('a \<Rightarrow> ('d, 'm, 'b) act) \<Rightarrow> 'a list \<Rightarrow> ('d, 'm, 'b list) act" where
  "mapA f [] = ret []"
| "mapA f (x # xs) = bindA (f x) (\<lambda>y. bindA (mapA f xs) (\<lambda>ys. ret (y # ys)))"

subsection \<open>Quiet executions\<close>

lemma await_quiet [simp]: "w_env w = [] \<Longrightarrow> await w = w"
  by (simp add: await_def)

lemma ret_apply [act_simps]: "ret x w = (Inr x, w)"
  by (simp add: ret_def)

lemma throw_apply [act_simps]: "throw e w = (Inl e, w)"
  by (simp add: throw_def)

lemma liftE_apply [act_simps]: "liftE r w = (r, w)"
  by (simp add: liftE_def)

lemma date_now_apply [act_simps]: "date_now w = (Inr (w_now w), w)"
  by (simp add: date_now_def)

lemma randomUUID_apply [act_simps]:
  "randomUUID w = (Inr (w_uuid w (w_ix w)), w\<lparr>w_ix := Suc (w_ix w)\<rparr>)"
  by (simp add: randomUUID_def)

lemma dbq_quiet [act_simps]: "w_env w = [] \<Longrightarrow> dbq f w = (Inr (f (w_db w)), w)"
  by (simp add: dbq_def)

lemma dbx_quiet [act_simps]:
  "w_env w = [] \<Longrightarrow> dbx s w = (case s (w_db w) of None \<Rightarrow> (Inl ConstraintFailed, w)
     | Some (d, n) \<Rightarrow> (Inr n, w\<lparr>w_db := d\<rparr>))"
  by (simp add: dbx_def)

lemma extcall_quiet [act_simps]:
  "w_env w = [] \<Longrightarrow> extcall f s w = (case f (w_now w) of None \<Rightarrow> (Inl (ExternalError s), w)
     | Some x \<Rightarrow> (Inr x, w))"
  by (simp add: extcall_def)

lemma sendA_quiet [act_simps]:
  "w_env w = [] \<Longrightarrow> sendA x w = (Inr (), w\<lparr>w_sent := w_sent w @ [x]\<rparr>)"
  by (simp add: sendA_def)

lemma callA_quiet [act_simps]:
  "w_env w = [] \<Longrightarrow> callA x f s w = (case f (w_now w) of
       None \<Rightarrow> (Inl (ExternalError s), w\<lparr>w_sent := w_sent w @ [x]\<rparr>)
     | Some y \<Rightarrow> (Inr y, w\<lparr>w_sent := w_sent w @ [x]\<rparr>))"
  by (simp add: callA_def Let_def)

lemma bindA_Inr [act_simps]: "m w = (Inr x, w') \<Longrightarrow> bindA m f w = f x w'"
  by (simp add: bindA_def)

lemma bindA_Inl [act_simps]: "m w = (Inl e, w') \<Longrightarrow> bindA m f w = (Inl e, w')"
  by (simp add: bindA_def)

lemma catchA_Inr [act_simps]: "m w = (Inr x, w') \<Longrightarrow> catchA m h w = (Inr x, w')"
  by (simp add: catchA_def)

lemma catchA_Inl [act_simps]: "m w = (Inl e, w') \<Longrightarrow> catchA m h w = h e w'"
  by (simp add: catchA_def)

lemma bindA_assoc: "bindA (bindA m f) g = bindA m (\<lambda>x. bindA (f x) g)"
  by (rule ext) (auto simp: bindA_def split: prod.splits sum.splits)

lemma bindA_ret [simp]: "bindA (ret x) f = f x"
  by (rule ext) (simp add: bindA_def ret_def)

lemma bindA_throw [simp]: "bindA (throw e) f = throw e"
  by (rule ext) (simp add: bindA_def throw_def)

subsection \<open>Rely and guarantee\<close>

text \<open>
  An invariant \<open>I g k\<close> of the database may depend on the supply \<open>g\<close> of random UUIDs and on the
  number \<open>k\<close> of those already drawn: that is how it says that the UUIDs still to be drawn do not
  occur in the database.  \<open>env_ok I R w\<close>: every pending interference keeps the invariant \<open>I\<close> and moves
  the database along the relation \<open>R\<close>.  \<open>guar I R m\<close>: from a world that satisfies \<open>I\<close>, under such
  interferences, the action \<open>m\<close> ends (normally or by an exception) in a world that satisfies
  \<open>I\<close>, with a database \<open>R\<close>-related to the one it started from.  \<open>guarP I R P m\<close> says it of the worlds
  whose database satisfies \<open>P\<close>, a fact learnt by an earlier read and stable under \<open>R\<close>; \<open>owns I R P u m\<close>
  says it of an action that runs after the UUID \<open>u\<close> was drawn and may use it once.
\<close>

type_synonym 'd invariant = "(nat \<Rightarrow> string) \<Rightarrow> nat \<Rightarrow> 'd \<Rightarrow> bool"

definition holds_at :: "'d invariant \<Rightarrow> nat \<Rightarrow> ('d, 'm) world \<Rightarrow> bool" where
  "holds_at I k w \<longleftrightarrow> I (w_uuid w) k (w_db w)"

definition env_ok :: "'d invariant \<Rightarrow> ('d \<Rightarrow> 'd \<Rightarrow> bool) \<Rightarrow> ('d, 'm) world \<Rightarrow> bool" where
  "env_ok I R w \<longleftrightarrow> (\<forall>(dt, f) \<in> set (w_env w). \<forall>k d. I (w_uuid w) k d \<longrightarrow> I (w_uuid w) k (f d) \<and> R d (f d))"

definition ends_ok :: "'d invariant \<Rightarrow> ('d \<Rightarrow> 'd \<Rightarrow> bool) \<Rightarrow> ('d, 'm) world \<Rightarrow> ('d, 'm) world \<Rightarrow> bool" where
  "ends_ok I R w w' \<longleftrightarrow> holds_at I (w_ix w') w' \<and> R (w_db w) (w_db w') \<and> env_ok I R w' \<and>
     w_uuid w' = w_uuid w"

definition guar :: "'d invariant \<Rightarrow> ('d \<Rightarrow> 'd \<Rightarrow> bool) \<Rightarrow> ('d, 'm, 'a) act \<Rightarrow> bool" where
  "guar I R m \<longleftrightarrow> (\<forall>w. holds_at I (w_ix w) w \<and> env_ok I R w \<longrightarrow> ends_ok I R w (snd (m w)))"

definition guarP ::
    "'d invariant \<Rightarrow> ('d \<Rightarrow> 'd \<Rightarrow> bool) \<Rightarrow> ('d \<Rightarrow> bool) \<Rightarrow> ('d, 'm, 'a) act \<Rightarrow> bool" where
  "guarP I R P m \<longleftrightarrow> (\<forall>w. holds_at I (w_ix w) w \<and> env_ok I R w \<and> P (w_db w) \<longrightarrow> ends_ok I R w (snd (m w)))"

definition owns ::
    "'d invariant \<Rightarrow> ('d \<Rightarrow> 'd \<Rightarrow> bool) \<Rightarrow> ('d \<Rightarrow> bool) \<Rightarrow> string \<Rightarrow> ('d, 'm, 'a) act \<Rightarrow> bool" where
  "owns I R P u m \<longleftrightarrow> (\<forall>w k. holds_at I k w \<and> w_ix w = Suc k \<and> w_uuid w k = u \<and> env_ok I R w \<and>
     P (w_db w) \<longrightarrow> ends_ok I R w (snd (m w)))"

definition stable :: "('d \<Rightarrow> 'd \<Rightarrow> bool) \<Rightarrow> ('d \<Rightarrow> bool) \<Rightarrow> bool" where
  "stable R P \<longleftrightarrow> (\<forall>d d'. P d \<longrightarrow> R d d' \<longrightarrow> P d')"

text \<open>A calm action keeps the invariant at every index and draws nothing.\<close>

definition calm :: "'d invariant \<Rightarrow> ('d \<Rightarrow> 'd \<Rightarrow> bool) \<Rightarrow> ('d, 'm, 'a) act \<Rightarrow> bool" where
  "calm I R m \<longleftrightarrow> (\<forall>w k. holds_at I k w \<and> env_ok I R w \<longrightarrow>
     holds_at I k (snd (m w)) \<and> R (w_db w) (w_db (snd (m w))) \<and> env_ok I R (snd (m w)) \<and>
     w_uuid (snd (m w)) = w_uuid w \<and> w_ix (snd (m w)) = w_ix w)"

lemma guarD:
  assumes "guar I R m" and "holds_at I (w_ix w) w" and "env_ok I R w"
  shows "ends_ok I R w (snd (m w))"
  using assms by (auto simp: guar_def)

lemma calm_guar: "calm I R m \<Longrightarrow> guar I R m"
  by (auto simp: calm_def guar_def ends_ok_def)

lemma env_ok_quiet [simp]: "w_env w = [] \<Longrightarrow> env_ok I R w"
  by (simp add: env_ok_def)

lemma env_ok_update [simp]:
  "env_ok I R (w\<lparr>w_db := d\<rparr>) = env_ok I R w"
  "env_ok I R (w\<lparr>w_ix := k\<rparr>) = env_ok I R w"
  "env_ok I R (w\<lparr>w_sent := ms\<rparr>) = env_ok I R w"
  by (simp_all add: env_ok_def)

lemma holds_at_update [simp]:
  "holds_at I k (w\<lparr>w_db := d\<rparr>) = I (w_uuid w) k d"
  "holds_at I k (w\<lparr>w_ix := j\<rparr>) = holds_at I k w"
  "holds_at I k (w\<lparr>w_sent := ms\<rparr>) = holds_at I k w"
  by (simp_all add: holds_at_def)

lemma await_same [simp]: "w_uuid (await w) = w_uuid w" "w_ix (await w) = w_ix w"
  by (auto simp: await_def split: list.splits prod.splits)

locale rely_guarantee =
  fixes I :: "'d invariant" and R :: "'d \<Rightarrow> 'd \<Rightarrow> bool"
  assumes R_refl: "R d d"
    and R_trans: "R d1 d2 \<Longrightarrow> R d2 d3 \<Longrightarrow> R d1 d3"
    and I_Suc: "I g k d \<Longrightarrow> I g (Suc k) d"
begin

definition stmt_ok :: "('d \<Rightarrow> ('d \<times> 'n) option) \<Rightarrow> bool" where
  "stmt_ok s \<longleftrightarrow> (\<forall>g k d d' n. I g k d \<longrightarrow> s d = Some (d', n) \<longrightarrow> I g k d' \<and> R d d')"

lemma await_ok:
  assumes "holds_at I k w" "env_ok I R w"
  shows "holds_at I k (await w) \<and> R (w_db w) (w_db (await w)) \<and> env_ok I R (await w)"
proof (cases "w_env w")
  case Nil
  then show ?thesis using assms R_refl by simp
next
  case (Cons p es)
  obtain dt f where p: "p = (dt, f)" by (cases p)
  have "I (w_uuid w) k (f (w_db w)) \<and> R (w_db w) (f (w_db w))"
    using assms Cons p by (auto simp: env_ok_def holds_at_def)
  moreover have "env_ok I R (await w)"
    using assms(2) Cons p by (auto simp: env_ok_def await_def)
  ultimately show ?thesis using Cons p by (simp add: await_def holds_at_def)
qed

lemma calm_ret [intro]: "calm I R (ret x)"
  by (auto simp: calm_def ret_def R_refl)

lemma calm_throw [intro]: "calm I R (throw e)"
  by (auto simp: calm_def throw_def R_refl)

lemma calm_liftE [intro]: "calm I R (liftE r)"
  by (auto simp: calm_def liftE_def R_refl)

lemma calm_date_now [intro]: "calm I R date_now"
  by (auto simp: calm_def date_now_def R_refl)

lemma calm_dbq [intro]: "calm I R (dbq f)"
  using await_ok by (auto simp: calm_def dbq_def Let_def)

lemma calm_emitA [intro]: "calm I R (emitA x)"
  by (auto simp: calm_def emitA_def R_refl)

lemma calm_sendA [intro]: "calm I R (sendA x)"
  using await_ok by (auto simp: calm_def sendA_def Let_def)

lemma calm_extcall [intro]: "calm I R (extcall f s)"
  using await_ok by (auto simp: calm_def extcall_def Let_def split: option.splits)

lemma calm_callA [intro]: "calm I R (callA x f s)"
  using await_ok by (auto simp: calm_def callA_def Let_def split: option.splits)

lemma calm_syncA:
  assumes "\<And>g k d. I g k d \<Longrightarrow> I g k (snd (f d)) \<and> R d (snd (f d))"
  shows "calm I R (syncA f)"
  using assms by (auto simp: calm_def syncA_def holds_at_def split: prod.split) (metis snd_conv)+

lemma calm_dbx:
  assumes "stmt_ok s"
  shows "calm I R (dbx s :: ('d, 'm, 'n) act)"
  unfolding calm_def
proof (intro allI impI, elim conjE)
  fix w :: "('d, 'm) world" and k
  assume "holds_at I k w" "env_ok I R w"
  note a = await_ok [OF this]
  show "holds_at I k (snd (dbx s w)) \<and> R (w_db w) (w_db (snd (dbx s w))) \<and>
      env_ok I R (snd (dbx s w)) \<and> w_uuid (snd (dbx s w)) = w_uuid w \<and> w_ix (snd (dbx s w)) = w_ix w"
  proof (cases "s (w_db (await w))")
    case None
    then show ?thesis using a by (simp add: dbx_def Let_def)
  next
    case (Some p)
    then obtain d' n where p: "s (w_db (await w)) = Some (d', n)" by (cases p) auto
    with a assms have "I (w_uuid w) k d' \<and> R (w_db (await w)) d'"
      by (auto simp: stmt_ok_def holds_at_def)
    then show ?thesis using a p R_trans by (auto simp: dbx_def Let_def)
  qed
qed

lemma guar_calm [intro]:
  "guar I R (ret x)" "guar I R (throw e)" "guar I R (liftE r)" "guar I R date_now"
  "guar I R (dbq f)" "guar I R (sendA y)" "guar I R (extcall h s)" "guar I R (callA z h s)"
  by (rule calm_guar, auto)+

lemma guar_dbx: "stmt_ok s \<Longrightarrow> guar I R (dbx s)"
  by (rule calm_guar, rule calm_dbx)

lemma guar_randomUUID [intro]: "guar I R randomUUID"
  using I_Suc by (auto simp: guar_def ends_ok_def randomUUID_def R_refl holds_at_def)

lemma stmt_ok_batch:
  assumes "\<And>s. s \<in> set ss \<Longrightarrow> stmt_ok s"
  shows "stmt_ok (batch ss)"
  using assms
proof (induction ss)
  case Nil
  then show ?case by (auto simp: stmt_ok_def R_refl)
next
  case (Cons s ss)
  then have ok: "stmt_ok s" "stmt_ok (batch ss)" by auto
  show ?case
    unfolding stmt_ok_def
  proof (intro allI impI)
    fix g k d d' ns
    assume d: "I g k d" and run: "batch (s # ss) d = Some (d', ns)"
    then obtain d1 n1 n2 where s: "s d = Some (d1, n1)" and b: "batch ss d1 = Some (d', n2)"
      by (auto split: option.splits)
    have 1: "I g k d1" "R d d1" using ok(1) d s by (auto simp: stmt_ok_def)
    have 2: "I g k d'" "R d1 d'" using ok(2) 1(1) b by (auto simp: stmt_ok_def)
    show "I g k d' \<and> R d d'" using 2(1) R_trans [OF 1(2) 2(2)] by simp
  qed
qed

lemma ends_ok_trans: "ends_ok I R w1 w2 \<Longrightarrow> ends_ok I R w2 w3 \<Longrightarrow> ends_ok I R w1 w3"
  by (auto simp: ends_ok_def intro: R_trans)

lemma guar_bindA [intro]:
  fixes m :: "('d, 'm, 'a) act" and f :: "'a \<Rightarrow> ('d, 'm, 'b) act"
  assumes "guar I R m" and "\<And>x. guar I R (f x)"
  shows "guar I R (bindA m f)"
  unfolding guar_def
proof (intro allI impI, elim conjE)
  fix w :: "('d, 'm) world"
  assume w: "holds_at I (w_ix w) w" "env_ok I R w"
  obtain r w' where mw: "m w = (r, w')" by (cases "m w")
  have 1: "ends_ok I R w w'" using guarD [OF assms(1) w] mw by simp
  then have w': "holds_at I (w_ix w') w'" "env_ok I R w'" by (auto simp: ends_ok_def)
  show "ends_ok I R w (snd (bindA m f w))"
  proof (cases r)
    case (Inl e)
    then show ?thesis using mw 1 by (simp add: bindA_def)
  next
    case (Inr x)
    then show ?thesis using mw ends_ok_trans [OF 1 guarD [OF assms(2) w']] by (simp add: bindA_def)
  qed
qed

text \<open>The continuation may rely on what every result of the first action satisfies.\<close>

lemma guar_bindA_post:
  fixes m :: "('d, 'm, 'a) act" and f :: "'a \<Rightarrow> ('d, 'm, 'b) act"
  assumes "guar I R m" and "\<And>w x w'. m w = (Inr x, w') \<Longrightarrow> P x" and "\<And>x. P x \<Longrightarrow> guar I R (f x)"
  shows "guar I R (bindA m f)"
  unfolding guar_def
proof (intro allI impI, elim conjE)
  fix w :: "('d, 'm) world"
  assume w: "holds_at I (w_ix w) w" "env_ok I R w"
  obtain r w' where mw: "m w = (r, w')" by (cases "m w")
  have 1: "ends_ok I R w w'" using guarD [OF assms(1) w] mw by simp
  then have w': "holds_at I (w_ix w') w'" "env_ok I R w'" by (auto simp: ends_ok_def)
  show "ends_ok I R w (snd (bindA m f w))"
  proof (cases r)
    case (Inl e)
    then show ?thesis using mw 1 by (simp add: bindA_def)
  next
    case (Inr x)
    then have "guar I R (f x)" using assms(2) [of w x w'] mw assms(3) by simp
    then show ?thesis using Inr mw ends_ok_trans [OF 1 guarD [OF _ w']] by (simp add: bindA_def)
  qed
qed

lemma guar_catchA [intro]:
  fixes m :: "('d, 'm, 'a) act"
  assumes "guar I R m" and "\<And>e. guar I R (h e)"
  shows "guar I R (catchA m h)"
  unfolding guar_def
proof (intro allI impI, elim conjE)
  fix w :: "('d, 'm) world"
  assume w: "holds_at I (w_ix w) w" "env_ok I R w"
  obtain r w' where mw: "m w = (r, w')" by (cases "m w")
  have 1: "ends_ok I R w w'" using guarD [OF assms(1) w] mw by simp
  then have w': "holds_at I (w_ix w') w'" "env_ok I R w'" by (auto simp: ends_ok_def)
  show "ends_ok I R w (snd (catchA m h w))"
  proof (cases r)
    case (Inr x)
    then show ?thesis using mw 1 by (simp add: catchA_def)
  next
    case (Inl e)
    then show ?thesis using mw ends_ok_trans [OF 1 guarD [OF assms(2) w']] by (simp add: catchA_def)
  qed
qed

lemma guar_mapA [intro]:
  assumes "\<And>x. guar I R (f x)"
  shows "guar I R (mapA f xs)"
  using assms by (induction xs) auto

lemma guar_forA [intro]:
  assumes "\<And>x. x \<in> set xs \<Longrightarrow> guar I R (f x)"
  shows "guar I R (forA f xs)"
  using assms by (induction xs) auto

lemma guar_whenA [intro]: "guar I R m \<Longrightarrow> guar I R (whenA b m)"
  by (auto simp: whenA_def)

lemma guar_guarP: "guar I R m \<Longrightarrow> guarP I R P m"
  by (auto simp: guar_def guarP_def)

lemma guarP_True: "guarP I R (\<lambda>d. True) m \<Longrightarrow> guar I R m"
  by (auto simp: guar_def guarP_def)

lemma guarP_read:
  fixes G :: "'x \<Rightarrow> ('d, 'm, 'b) act"
  assumes "\<And>g k d. I g k d \<Longrightarrow> P d \<Longrightarrow> Q (f d) d" and "stable R P"
    and "\<And>x. guarP I R (Q x) (G x)"
  shows "guarP I R P (bindA (dbq f) G)"
  unfolding guarP_def
proof (intro allI impI, elim conjE)
  fix w :: "('d, 'm) world"
  assume w: "holds_at I (w_ix w) w" "env_ok I R w" "P (w_db w)"
  let ?w = "await w"
  note a = await_ok [OF w(1,2)]
  have "P (w_db ?w)" using assms(2) w(3) a by (auto simp: stable_def)
  then have "Q (f (w_db ?w)) (w_db ?w)" using assms(1) a by (auto simp: holds_at_def)
  then have "ends_ok I R ?w (snd (G (f (w_db ?w)) ?w))"
    using assms(3) [of "f (w_db ?w)"] a by (simp add: guarP_def)
  moreover have "ends_ok I R w ?w" using a by (simp add: ends_ok_def)
  ultimately show "ends_ok I R w (snd (bindA (dbq f) G w))"
    using ends_ok_trans by (simp add: bindA_def dbq_def Let_def)
qed

lemma guarP_calm_bindA:
  fixes m :: "('d, 'm, 'a) act" and f :: "'a \<Rightarrow> ('d, 'm, 'b) act"
  assumes "calm I R m" and "stable R P" and "\<And>x. guarP I R P (f x)"
  shows "guarP I R P (bindA m f)"
  unfolding guarP_def
proof (intro allI impI, elim conjE)
  fix w :: "('d, 'm) world"
  assume w: "holds_at I (w_ix w) w" "env_ok I R w" "P (w_db w)"
  obtain r w' where mw: "m w = (r, w')" by (cases "m w")
  have 1: "ends_ok I R w w'" using guarD [OF calm_guar [OF assms(1)] w(1,2)] mw by simp
  have P: "P (w_db w')" using assms(2) w(3) 1 by (auto simp: stable_def ends_ok_def)
  show "ends_ok I R w (snd (bindA m f w))"
  proof (cases r)
    case (Inl e)
    then show ?thesis using mw 1 by (simp add: bindA_def)
  next
    case (Inr x)
    have "ends_ok I R w' (snd (f x w'))"
      using assms(3) [of x] 1 P by (simp add: guarP_def ends_ok_def)
    then show ?thesis using Inr mw ends_ok_trans [OF 1] by (simp add: bindA_def)
  qed
qed

lemma guarP_dbx_bindA:
  fixes s :: "'d \<Rightarrow> ('d \<times> 'n) option" and f :: "'n \<Rightarrow> ('d, 'm, 'b) act"
  assumes "\<And>g k d d' n. I g k d \<Longrightarrow> P d \<Longrightarrow> s d = Some (d', n) \<Longrightarrow> I g k d' \<and> R d d'"
    and "stable R P" and "\<And>n. guar I R (f n)"
  shows "guarP I R P (bindA (dbx s) f)"
  unfolding guarP_def
proof (intro allI impI, elim conjE)
  fix w :: "('d, 'm) world"
  assume w: "holds_at I (w_ix w) w" "env_ok I R w" "P (w_db w)"
  note a = await_ok [OF w(1,2)]
  have P: "P (w_db (await w))" using assms(2) w(3) a by (auto simp: stable_def)
  show "ends_ok I R w (snd (bindA (dbx s) f w))"
  proof (cases "s (w_db (await w))")
    case None
    then show ?thesis using a by (simp add: bindA_def dbx_def Let_def ends_ok_def)
  next
    case (Some q)
    then obtain d n where q: "s (w_db (await w)) = Some (d, n)" by (cases q) auto
    let ?w = "(await w)\<lparr>w_db := d\<rparr>"
    have "I (w_uuid w) (w_ix w) d \<and> R (w_db (await w)) d"
      using assms(1) [OF _ P q] a by (auto simp: holds_at_def)
    then have 1: "ends_ok I R w ?w" using a R_trans by (auto simp: ends_ok_def)
    then have "ends_ok I R ?w (snd (f n ?w))" using assms(3) guarD unfolding ends_ok_def by metis
    then show ?thesis using ends_ok_trans [OF 1] q by (simp add: bindA_def dbx_def Let_def)
  qed
qed

lemma guarP_uuid:
  fixes f :: "string \<Rightarrow> ('d, 'm, 'b) act"
  assumes "\<And>u. owns I R P u (f u)"
  shows "guarP I R P (bindA randomUUID f)"
  unfolding guarP_def
proof (intro allI impI, elim conjE)
  fix w :: "('d, 'm) world"
  assume w: "holds_at I (w_ix w) w" "env_ok I R w" "P (w_db w)"
  let ?w = "w\<lparr>w_ix := Suc (w_ix w)\<rparr>"
  have "owns I R P (w_uuid w (w_ix w)) (f (w_uuid w (w_ix w)))" by (rule assms)
  then have "ends_ok I R ?w (snd (f (w_uuid w (w_ix w)) ?w))"
    using w unfolding owns_def by (elim allE [of _ ?w] allE [of _ "w_ix w"]) simp
  then show "ends_ok I R w (snd (bindA randomUUID f w))"
    by (simp add: bindA_def randomUUID_def ends_ok_def)
qed

lemma owns_bindA:
  fixes m :: "('d, 'm, 'a) act" and f :: "'a \<Rightarrow> ('d, 'm, 'b) act"
  assumes "calm I R m" and "stable R P" and "\<And>x. owns I R P u (f x)"
  shows "owns I R P u (bindA m f)"
  unfolding owns_def
proof (intro allI impI, elim conjE)
  fix w :: "('d, 'm) world" and k
  assume w: "holds_at I k w" "w_ix w = Suc k" "w_uuid w k = u" "env_ok I R w" "P (w_db w)"
  obtain r w' where mw: "m w = (r, w')" by (cases "m w")
  have 1: "holds_at I k w'" "R (w_db w) (w_db w')" "env_ok I R w'" "w_uuid w' = w_uuid w" "w_ix w' = w_ix w"
    using assms(1) w mw unfolding calm_def by (metis snd_conv)+
  have P: "P (w_db w')" using assms(2) w(5) 1(2) by (auto simp: stable_def)
  show "ends_ok I R w (snd (bindA m f w))"
  proof (cases r)
    case (Inl e)
    then show ?thesis using mw 1 w I_Suc by (auto simp: bindA_def ends_ok_def holds_at_def)
  next
    case (Inr x)
    have "ends_ok I R w' (snd (f x w'))" using assms(3) [of x] 1 w P unfolding owns_def by metis
    then show ?thesis using Inr mw 1 by (auto simp: bindA_def ends_ok_def intro: R_trans)
  qed
qed

lemma owns_dbx_bindA:
  fixes s :: "'d \<Rightarrow> ('d \<times> 'n) option" and f :: "'n \<Rightarrow> ('d, 'm, 'b) act"
  assumes "\<And>g k d d' n. I g k d \<Longrightarrow> P d \<Longrightarrow> g k = u \<Longrightarrow> s d = Some (d', n) \<Longrightarrow> I g (Suc k) d' \<and> R d d'"
    and "stable R P" and "\<And>n. guar I R (f n)"
  shows "owns I R P u (bindA (dbx s) f)"
  unfolding owns_def
proof (intro allI impI, elim conjE)
  fix w :: "('d, 'm) world" and k
  assume w: "holds_at I k w" "w_ix w = Suc k" "w_uuid w k = u" "env_ok I R w" "P (w_db w)"
  note a = await_ok [OF w(1,4)]
  have P: "P (w_db (await w))" using assms(2) w(5) a by (auto simp: stable_def)
  show "ends_ok I R w (snd (bindA (dbx s) f w))"
  proof (cases "s (w_db (await w))")
    case None
    then show ?thesis
      using a w I_Suc by (auto simp: bindA_def dbx_def Let_def ends_ok_def holds_at_def)
  next
    case (Some q)
    then obtain d n where q: "s (w_db (await w)) = Some (d, n)" by (cases q) auto
    let ?w = "(await w)\<lparr>w_db := d\<rparr>"
    have "I (w_uuid w) (Suc k) d \<and> R (w_db (await w)) d"
      using assms(1) [OF _ P _ q] a w by (auto simp: holds_at_def)
    then have 1: "ends_ok I R w ?w" using a w R_trans by (auto simp: ends_ok_def)
    then have "ends_ok I R ?w (snd (f n ?w))"
      using assms(3) guarD unfolding ends_ok_def by metis
    then show ?thesis
      using ends_ok_trans [OF 1] q by (simp add: bindA_def dbx_def Let_def)
  qed
qed


end

subsection \<open>SQL tables\<close>

text \<open>
  A table is the list of its rows in insertion order.  \<open>UPDATE\<close> maps over the rows its \<open>WHERE\<close>
  clause selects, \<open>hits\<close> counts them, and \<open>SELECT ... LIMIT 1\<close> is \<open>find\<close>.
\<close>

definition upd :: "('r \<Rightarrow> bool) \<Rightarrow> ('r \<Rightarrow> 'r) \<Rightarrow> 'r list \<Rightarrow> 'r list" where
  "upd p f rs = map (\<lambda>r. if p r then f r else r) rs"

definition hits :: "('r \<Rightarrow> bool) \<Rightarrow> 'r list \<Rightarrow> nat" where
  "hits p rs = length (filter p rs)"

lemma upd_simps [table_simps]:
  "upd p f [] = []"
  "upd p f (r # rs) = (if p r then f r else r) # upd p f rs"
  by (simp_all add: upd_def)

lemma hits_simps [table_simps]:
  "hits p [] = 0"
  "hits p (r # rs) = (if p r then Suc (hits p rs) else hits p rs)"
  by (simp_all add: hits_def)

lemma upd_none: "(\<And>r. r \<in> set rs \<Longrightarrow> \<not> p r) \<Longrightarrow> upd p f rs = rs"
  by (induction rs) (auto simp: upd_def)

lemma hits_zero: "hits p rs = 0 \<longleftrightarrow> (\<forall>r \<in> set rs. \<not> p r)"
  by (auto simp: hits_def filter_empty_conv)

lemma hits_pos: "0 < hits p rs \<longleftrightarrow> (\<exists>r \<in> set rs. p r)"
  using hits_zero [of p rs] by (metis not_gr0)

lemma set_upd: "set (upd p f rs) = (\<lambda>r. if p r then f r else r) ` set rs"
  by (simp add: upd_def)

lemma map_upd: "(\<And>r. r \<in> set rs \<Longrightarrow> p r \<Longrightarrow> k (f r) = k r) \<Longrightarrow> map k (upd p f rs) = map k rs"
  by (induction rs) (auto simp: upd_def)

text \<open>A row found by its key, in a table whose keys are distinct, is the only one with it.\<close>

lemma find_key:
  assumes "distinct (map k rs)" and "r \<in> set rs"
  shows "find (\<lambda>x. k x = k r) rs = Some r"
  using assms by (induction rs) auto

lemma find_SomeD: "find p rs = Some r \<Longrightarrow> r \<in> set rs \<and> p r"
  by (induction rs) (auto split: if_splits)

lemma find_upd_key:
  assumes "\<And>r. k (f r) = k r"
  shows "find (\<lambda>r. k r = x) (upd p f rs) =
    map_option (\<lambda>r. if p r then f r else r) (find (\<lambda>r. k r = x) rs)"
  using assms by (induction rs) (auto simp: upd_def)

lemma key_unique: "distinct (map k rs) \<Longrightarrow> r \<in> set rs \<Longrightarrow> s \<in> set rs \<Longrightarrow> k r = k s \<Longrightarrow> r = s"
  by (induction rs) (auto simp: image_iff)

subsection \<open>Tables that only grow\<close>

text \<open>
  \<open>grows step rs rs'\<close>: the rows of \<open>rs\<close> are still there, at their place, each moved along \<open>step\<close>; rows
  may have been appended.
\<close>

definition grows :: "('r \<Rightarrow> 'r \<Rightarrow> bool) \<Rightarrow> 'r list \<Rightarrow> 'r list \<Rightarrow> bool" where
  "grows step rs rs' \<longleftrightarrow> list_all2 step rs (take (length rs) rs')"

lemma grows_refl: "(\<And>r. step r r) \<Longrightarrow> grows step rs rs"
  by (simp add: grows_def list.rel_refl)

lemma grows_trans:
  assumes tr: "\<And>a b c. step a b \<Longrightarrow> step b c \<Longrightarrow> step a c"
    and "grows step rs1 rs2" and "grows step rs2 rs3"
  shows "grows step rs1 rs3"
proof -
  have l: "length rs1 \<le> length rs2" using assms(2) by (auto simp: grows_def dest: list_all2_lengthD)
  have "list_all2 step (take (length rs1) rs2) (take (length rs1) (take (length rs2) rs3))"
    using assms(3) unfolding grows_def by (rule list_all2_takeI)
  then have "list_all2 step (take (length rs1) rs2) (take (length rs1) rs3)" using l by simp
  then show ?thesis
    using assms(2) tr unfolding grows_def by (blast intro: list_all2_trans)
qed

lemma grows_append: "(\<And>r. step r r) \<Longrightarrow> grows step rs (rs @ xs)"
  by (simp add: grows_def list.rel_refl)

lemma grows_upd: "(\<And>r. step r r) \<Longrightarrow> (\<And>r. r \<in> set rs \<Longrightarrow> p r \<Longrightarrow> step r (f r)) \<Longrightarrow> grows step rs (upd p f rs)"
  by (auto simp: grows_def upd_def list_all2_conv_all_nth)

lemma grows_mem:
  assumes "grows step rs rs'" and "r \<in> set rs"
  obtains r' where "r' \<in> set rs'" and "step r r'"
proof -
  obtain i where i: "i < length rs" "rs ! i = r" using assms(2) by (auto simp: in_set_conv_nth)
  have "step r (take (length rs) rs' ! i)" "i < length rs'"
    using assms(1) i by (auto simp: grows_def list_all2_conv_all_nth)
  then show ?thesis using that [of "rs' ! i"] i(1) by simp
qed

end
