(* ===== verification/Js.thy ===== *)
theory Js
  imports Prelude
begin

text \<open>
  What the code uses of JavaScript: JSON values, \<open>String.prototype.trim\<close>, \<open>toLowerCase\<close>,
  \<open>startsWith\<close>, \<open>Number.isSafeInteger\<close>, the decimal text of a \<open>BigInt\<close>, and truncating time
  division.  A string is a list of characters, one per code unit; the modelled texts (identifiers,
  hexadecimal numbers, decimal numbers, enumerations) are ASCII.
\<close>

subsection \<open>JSON values\<close>

text \<open>
  What \<open>JSON.parse\<close> returns.  \<open>JInt\<close> is an integral number below 10^21 in size, \<open>JDec\<close> any
  other number (kept by the text \<open>String\<close> gives it); objects have the keys of \<open>JSON.parse\<close>'s result, each once.
\<close>

datatype json =
    JNull
  | JBool bool
  | JInt int
  | JDec string
  | JStr string
  | JArr "json list"
  | JObj "(string \<times> json) list"

text \<open>Reading a property of a record: \<open>None\<close> is \<open>undefined\<close>.\<close>

definition jget :: "(string \<times> json) list \<Rightarrow> string \<Rightarrow> json option" where
  "jget fs k = map_of fs k"

definition MAX_SAFE_INTEGER :: int where
  "MAX_SAFE_INTEGER = 9007199254740991"

definition isSafeInteger :: "int \<Rightarrow> bool" where
  "isSafeInteger n \<longleftrightarrow> - MAX_SAFE_INTEGER \<le> n \<and> n \<le> MAX_SAFE_INTEGER"

subsection \<open>Characters and strings\<close>

definition ccode :: "char \<Rightarrow> nat" where
  "ccode c = of_char c"

definition is_digit :: "char \<Rightarrow> bool" where
  "is_digit c \<longleftrightarrow> 48 \<le> ccode c \<and> ccode c \<le> 57"

definition is_lower :: "char \<Rightarrow> bool" where
  "is_lower c \<longleftrightarrow> 97 \<le> ccode c \<and> ccode c \<le> 122"

definition is_upper :: "char \<Rightarrow> bool" where
  "is_upper c \<longleftrightarrow> 65 \<le> ccode c \<and> ccode c \<le> 90"

definition is_alnum :: "char \<Rightarrow> bool" where
  "is_alnum c \<longleftrightarrow> is_digit c \<or> is_lower c \<or> is_upper c"

definition is_hex :: "char \<Rightarrow> bool" where
  "is_hex c \<longleftrightarrow> is_digit c \<or> (97 \<le> ccode c \<and> ccode c \<le> 102) \<or> (65 \<le> ccode c \<and> ccode c \<le> 70)"

definition is_hex_lower :: "char \<Rightarrow> bool" where
  "is_hex_lower c \<longleftrightarrow> is_digit c \<or> (97 \<le> ccode c \<and> ccode c \<le> 102)"

definition is_ws :: "char \<Rightarrow> bool" where
  "is_ws c \<longleftrightarrow> (9 \<le> ccode c \<and> ccode c \<le> 13) \<or> ccode c = 32 \<or> ccode c = 160"

definition trim :: "string \<Rightarrow> string" where
  "trim s = rev (dropWhile is_ws (rev (dropWhile is_ws s)))"

definition lower_char :: "char \<Rightarrow> char" where
  "lower_char c = (if is_upper c then char_of (ccode c + 32) else c)"

text \<open>Evaluation by the bits of a character.\<close>

lemma ccode_Char: "ccode (Char b0 b1 b2 b3 b4 b5 b6 b7) = of_bool b0 + 2 * (of_bool b1 + 2 * (of_bool b2 + 2 * (of_bool b3 +
    2 * (of_bool b4 + 2 * (of_bool b5 + 2 * (of_bool b6 + 2 * of_bool b7))))))"
  by (simp add: ccode_def)

lemma is_upper_Char [code]:
  "is_upper (Char b0 b1 b2 b3 b4 b5 b6 b7) \<longleftrightarrow> \<not> b7 \<and> b6 \<and> \<not> b5 \<and> (b0 \<or> b1 \<or> b2 \<or> b3 \<or> b4) \<and> \<not> (b4 \<and> b3 \<and> (b2 \<or> b1 \<and> b0))"
  unfolding is_upper_def ccode_Char by (cases b0; cases b1; cases b2; cases b3; cases b4; cases b5; cases b6; cases b7) simp_all

lemma is_digit_Char [code]:
  "is_digit (Char b0 b1 b2 b3 b4 b5 b6 b7) \<longleftrightarrow> \<not> b7 \<and> \<not> b6 \<and> b5 \<and> b4 \<and> \<not> (b3 \<and> (b2 \<or> b1))"
  unfolding is_digit_def ccode_Char by (cases b0; cases b1; cases b2; cases b3; cases b4; cases b5; cases b6; cases b7) simp_all

lemma is_hex_lower_Char [code]:
  "is_hex_lower (Char b0 b1 b2 b3 b4 b5 b6 b7) \<longleftrightarrow> is_digit (Char b0 b1 b2 b3 b4 b5 b6 b7) \<or>
    \<not> b7 \<and> b6 \<and> b5 \<and> \<not> b4 \<and> \<not> b3 \<and> (b0 \<or> b1 \<or> b2) \<and> \<not> (b2 \<and> b1 \<and> b0)"
  unfolding is_hex_lower_def is_digit_Char ccode_Char
  by (cases b0; cases b1; cases b2; cases b3; cases b4; cases b5; cases b6; cases b7) simp_all

lemma lower_char_Char [code]:
  "lower_char (Char b0 b1 b2 b3 b4 b5 b6 b7) = (if is_upper (Char b0 b1 b2 b3 b4 b5 b6 b7) then Char b0 b1 b2 b3 b4 True b6 b7
     else Char b0 b1 b2 b3 b4 b5 b6 b7)"
proof (cases "is_upper (Char b0 b1 b2 b3 b4 b5 b6 b7)")
  case True
  then have "\<not> b5" by (simp add: is_upper_Char)
  then have "ccode (Char b0 b1 b2 b3 b4 True b6 b7) = ccode (Char b0 b1 b2 b3 b4 b5 b6 b7) + 32" by (simp add: ccode_Char)
  then have "char_of (ccode (Char b0 b1 b2 b3 b4 b5 b6 b7) + 32) = Char b0 b1 b2 b3 b4 True b6 b7" by (metis ccode_def char_of_char)
  then show ?thesis using True by (simp add: lower_char_def)
qed (simp add: lower_char_def)

text \<open>\<open>xs.join(sep)\<close>.\<close>

fun text_join :: "string \<Rightarrow> string list \<Rightarrow> string" where
  "text_join sep [] = []"
| "text_join sep [x] = x"
| "text_join sep (x # y # ys) = x @ sep @ text_join sep (y # ys)"

definition toLowerCase :: "string \<Rightarrow> string" where
  "toLowerCase s = map lower_char s"

fun startsWith :: "string \<Rightarrow> string \<Rightarrow> bool" where
  "startsWith s [] = True"
| "startsWith [] (p # ps) = False"
| "startsWith (c # s) (p # ps) = (c = p \<and> startsWith s ps)"

lemma startsWith_append: "startsWith s p \<longleftrightarrow> (\<exists>t. s = p @ t)"
  by (induction s p rule: startsWith.induct) auto

lemma ccode_lower_char: "is_upper c \<Longrightarrow> ccode (lower_char c) = ccode c + 32"
  by (simp add: lower_char_def is_upper_def ccode_def)

lemma lower_char_not_upper: "\<not> is_upper (lower_char c)"
proof (cases "is_upper c")
  case True
  then show ?thesis using ccode_lower_char [OF True] by (simp add: is_upper_def)
next
  case False
  then show ?thesis by (simp add: lower_char_def)
qed

lemma lower_char_idem [simp]: "lower_char (lower_char c) = lower_char c"
  using lower_char_not_upper [of c] by (simp add: lower_char_def)

lemma toLowerCase_idem [simp]: "toLowerCase (toLowerCase s) = toLowerCase s"
  by (simp add: toLowerCase_def)

lemma length_toLowerCase [simp]: "length (toLowerCase s) = length s"
  by (simp add: toLowerCase_def)

lemma dropWhile_idem: "dropWhile P (dropWhile P xs) = dropWhile P xs"
  by (induction xs) auto

lemma trim_Nil [simp]: "trim [] = []"
  by (simp add: trim_def)

lemma length_trim: "length (trim s) \<le> length s"
proof -
  have "length (trim s) \<le> length (dropWhile is_ws s)"
    unfolding trim_def by (metis length_rev length_dropWhile_le)
  also have "\<dots> \<le> length s" by (rule length_dropWhile_le)
  finally show ?thesis .
qed

text \<open>A string with no white space at either end is its own trimming.\<close>

lemma trim_id:
  assumes "s = [] \<or> (\<not> is_ws (hd s) \<and> \<not> is_ws (last s))"
  shows "trim s = s"
proof (cases "s = []")
  case True
  then show ?thesis by simp
next
  case False
  with assms have h: "\<not> is_ws (hd s)" and l: "\<not> is_ws (last s)" by auto
  have 1: "dropWhile is_ws s = s"
    using h False by (cases s) auto
  have "\<not> is_ws (hd (rev s))" using l False by (simp add: hd_rev)
  then have "dropWhile is_ws (rev s) = rev s"
    using False by (cases "rev s") auto
  with 1 show ?thesis by (simp add: trim_def)
qed

lemma last_dropWhile: "dropWhile P xs \<noteq> [] \<Longrightarrow> last (dropWhile P xs) = last xs"
  by (metis last_appendR takeWhile_dropWhile_id)

lemma trim_ends:
  assumes "trim s \<noteq> []"
  shows "\<not> is_ws (hd (trim s)) \<and> \<not> is_ws (last (trim s))"
proof -
  let ?a = "dropWhile is_ws s" and ?b = "dropWhile is_ws (rev (dropWhile is_ws s))"
  have b: "?b \<noteq> []" and t: "trim s = rev ?b" using assms by (auto simp: trim_def)
  have "\<not> is_ws (hd ?b)" using b by (rule hd_dropWhile)
  moreover have "last (trim s) = hd ?b" using b t by (simp add: last_rev)
  moreover have "?a \<noteq> []"
  proof
    assume "?a = []"
    then have "?b = []" by (simp only: rev.simps(1) dropWhile.simps(1))
    with b show False by contradiction
  qed
  moreover have "hd (trim s) = hd ?a"
    using b t last_dropWhile [OF b] by (simp add: hd_rev last_rev)
  moreover have "\<not> is_ws (hd ?a)" using \<open>?a \<noteq> []\<close> by (rule hd_dropWhile)
  ultimately show ?thesis by simp
qed

lemma trim_idem [simp]: "trim (trim s) = trim s"
  using trim_ends [of s] by (intro trim_id) auto

subsection \<open>Decimal texts of natural numbers\<close>

text \<open>\<open>String(n)\<close> and \<open>n.toString()\<close> of a non-negative integer, and \<open>BigInt(text)\<close>.\<close>

definition digit_char :: "nat \<Rightarrow> char" where
  "digit_char n = char_of (48 + n)"

fun dec :: "nat \<Rightarrow> string" where
  "dec n = (if n < 10 then [digit_char n] else dec (n div 10) @ [digit_char (n mod 10)])"

declare dec.simps [simp del]

definition digits_value :: "string \<Rightarrow> nat" where
  "digits_value s = foldl (\<lambda>v c. 10 * v + (ccode c - 48)) 0 s"

lemma ccode_digit_char: "n < 10 \<Longrightarrow> ccode (digit_char n) = 48 + n"
  by (simp add: ccode_def digit_char_def)

lemma digits_value_snoc: "digits_value (s @ [c]) = 10 * digits_value s + (ccode c - 48)"
  by (simp add: digits_value_def)

lemma digits_value_dec [simp]: "digits_value (dec n) = n"
proof (induction n rule: dec.induct)
  case (1 n)
  show ?case
  proof (cases "n < 10")
    case True
    then show ?thesis by (simp add: dec.simps [of n] digits_value_def ccode_digit_char)
  next
    case False
    with "1.IH" show ?thesis
      by (simp add: dec.simps [of n] digits_value_snoc ccode_digit_char)
  qed
qed

lemma dec_inject: "dec m = dec n \<longleftrightarrow> m = n"
  by (metis digits_value_dec)

lemma dec_digits: "list_all is_digit (dec n)"
proof (induction n rule: dec.induct)
  case (1 n)
  show ?case
  proof (cases "n < 10")
    case True
    then show ?thesis by (simp add: dec.simps [of n] is_digit_def ccode_digit_char)
  next
    case False
    with "1.IH" show ?thesis
      by (simp add: dec.simps [of n] is_digit_def ccode_digit_char)
  qed
qed

lemma dec_nonempty [simp]: "dec n \<noteq> []"
  by (simp add: dec.simps [of n])

definition string_of_int :: "int \<Rightarrow> string" where
  "string_of_int n = (if n < 0 then CHR ''-'' # dec (nat (- n)) else dec (nat n))"

text \<open>The same text computed on integers, which is how it is evaluated.\<close>

function dec_int :: "int \<Rightarrow> string" where
  "dec_int n = (if n < 10 then [digit_char (nat n)] else dec_int (n div 10) @ [digit_char (nat (n mod 10))])"
  by pat_completeness auto
termination by (relation "measure nat") auto

declare dec_int.simps [simp del]

lemma dec_int: "0 \<le> n \<Longrightarrow> dec_int n = dec (nat n)"
proof (induction n rule: dec_int.induct)
  case (1 n)
  show ?case
  proof (cases "n < 10")
    case True
    then have "nat n < 10" by simp
    then show ?thesis using True by (simp add: dec_int.simps [of n] dec.simps [of "nat n"])
  next
    case False
    then show ?thesis
      using 1 by (simp add: dec_int.simps [of n] dec.simps [of "nat n"] nat_div_distrib nat_mod_distrib)
  qed
qed

lemma string_of_int_code [code]:
  "string_of_int n = (if n < 0 then CHR ''-'' # dec_int (- n) else dec_int n)"
  by (simp add: string_of_int_def dec_int)

lemma string_of_int_inject_nonneg: "0 \<le> m \<Longrightarrow> 0 \<le> n \<Longrightarrow> string_of_int m = string_of_int n \<longleftrightarrow> m = n"
  by (auto simp: string_of_int_def dec_inject)

text \<open>Evaluating a numeral without unary numbers.\<close>

definition digits_int :: "string \<Rightarrow> int" where
  "digits_int s = foldl (\<lambda>v c. 10 * v + int (ccode c - 48)) 0 s"

lemma digits_value_int [code_unfold]: "int (digits_value s) = digits_int s"
  by (induction s rule: rev_induct) (simp_all add: digits_value_def digits_int_def)

text \<open>
  \<open>Number(text)\<close> of an integer numeral: blank texts are 0, a sign is allowed.  Numerals with a point,
  an exponent or a base prefix do not occur in the configuration and are read as \<open>NaN\<close>.
\<close>

definition js_Number :: "string \<Rightarrow> int option" where
  "js_Number text = (case trim text of [] \<Rightarrow> Some 0
     | c # s \<Rightarrow> if list_all is_digit (c # s) then Some (int (digits_value (c # s)))
         else if c = CHR ''-'' \<and> s \<noteq> [] \<and> list_all is_digit s then Some (- int (digits_value s))
         else if c = CHR ''+'' \<and> s \<noteq> [] \<and> list_all is_digit s then Some (int (digits_value s))
         else None)"

subsection \<open>Times\<close>

text \<open>\<open>Math.floor(ms / 1000)\<close>, \<open>Math.ceil(ms / 1000)\<close>.\<close>

definition floor_sec :: "int \<Rightarrow> int" where
  "floor_sec ms = ms div 1000"

definition ceil_div :: "int \<Rightarrow> int \<Rightarrow> int" where
  "ceil_div a b = - ((- a) div b)"

lemma ceil_div_ge: "0 < b \<Longrightarrow> a \<le> b * ceil_div a b"
proof -
  assume b: "0 < b"
  have "b * ((- a) div b) \<le> - a"
    using b by (metis div_mult_mod_eq le_add_same_cancel1 mult.commute pos_mod_sign)
  then show ?thesis by (simp add: ceil_div_def)
qed

lemma ceil_div_less: "0 < b \<Longrightarrow> b * (ceil_div a b - 1) < a"
proof -
  assume b: "0 < b"
  have "- a < b * ((- a) div b + 1)"
  proof -
    have "- a mod b < b" using b by (rule pos_mod_bound)
    moreover have "b * ((- a) div b) + - a mod b = - a" by (rule mult_div_mod_eq)
    ultimately show ?thesis by (simp only: distrib_left mult_1_right)
  qed
  then show ?thesis by (simp add: ceil_div_def algebra_simps)
qed

text \<open>\<open>new Date(ms).toISOString()\<close>, by the days of the civil calendar since 0000-03-01.\<close>

definition padded :: "nat \<Rightarrow> int \<Rightarrow> string" where
  "padded k n = (let t = string_of_int n in replicate (k - length t) (CHR ''0'') @ t)"

definition iso_date :: "int \<Rightarrow> string" where
  "iso_date days = (let z = days + 719468; era = z div 146097; doe = z mod 146097;
     yoe = (doe - doe div 1460 + doe div 36524 - doe div 146096) div 365;
     doy = doe - (365 * yoe + yoe div 4 - yoe div 100); mp = (5 * doy + 2) div 153;
     m = (if mp < 10 then mp + 3 else mp - 9); y = yoe + era * 400 + (if m \<le> 2 then 1 else 0)
     in padded 4 y @ ''-'' @ padded 2 m @ ''-'' @ padded 2 (doy - (153 * mp + 2) div 5 + 1))"

definition toISOString :: "int \<Rightarrow> string" where
  "toISOString ms = (let s = ms div 1000; t = s mod 86400 in iso_date (s div 86400) @ ''T'' @
     padded 2 (t div 3600) @ '':'' @ padded 2 (t div 60 mod 60) @ '':'' @ padded 2 (t mod 60) @ ''.'' @
     padded 3 (ms mod 1000) @ ''Z'')"

end
