(* ===== verification/Models.thy ===== *)
theory Models
  imports Js
begin

text \<open>
  The data of the Payments Worker: the economic contracts of \<^verbatim>\<open>shared/fees.ts\<close>, the domain
  objects of \<^verbatim>\<open>payments-worker/src/domain/models.ts\<close>, and the error contract's HTTP answers.

  Atomic amounts (decimal texts of at most 78 digits in the database, \<open>bigint\<close> in the code) are
  integers; ISO timestamps are milliseconds since the epoch, whose order is the order of the
  fixed-width texts the code compares.
\<close>

subsection \<open>Enumerations\<close>

datatype mode = Test | Live
datatype route = Local | CctpFast | CctpStandard
datatype merchant_status = MerchantActive | MerchantDisabled
datatype amount_mode = Fixed | PayerDefined
datatype fee_bearer = BearerNone | BearerPayer
datatype fee_source = FeeLocal | FeeCircleLive

datatype intent_status =
    AwaitingPayment | IntentProcessing | IntentPaid | IntentOverpaid
  | IntentCanceled | IntentExpired | IntentFailed

datatype link_status = LinkPending | LinkPaid | LinkCanceled | LinkExpired

datatype attempt_status =
    Reserved | Submitted | Processing | Paid | Overpaid | Failed | Expired | Canceled

datatype fee_type = FeePlatform | FeeNetwork
datatype fee_status = FeeQuoted | FeeWaived | FeeCharged

subsection \<open>Domain objects\<close>

record merchant =
  m_id :: string
  m_ownerUid :: string
  m_displayName :: string
  m_settlementWallet :: string
  m_settlementChainId :: int
  m_accountVersion :: int
  m_status :: merchant_status
  m_createdAt :: int
  m_updatedAt :: int

record payment_intent =
  i_id :: string
  i_merchantId :: string
  i_linkId :: "string option"
  i_amount :: string
  i_amountAtomic :: int
  i_amountMode :: amount_mode
  i_reference :: string
  i_metadata :: json
  i_mode :: mode
  i_status :: intent_status
  i_settlementWallet :: string
  i_settlementChainId :: int
  i_settlementAccountVersion :: int
  i_paidAmountAtomic :: int
  i_paidTxHash :: "string option"
  i_paidAt :: "int option"
  i_expiresAt :: "int option"
  i_createdAt :: int
  i_updatedAt :: int

record payment_link =
  l_id :: string
  l_intentId :: string
  l_merchantId :: string
  l_ownerUid :: string
  l_wallet :: string
  l_amount :: string
  l_reference :: string
  l_status :: link_status
  l_txHash :: "string option"
  l_paidAt :: "int option"
  l_paidBy :: "string option"
  l_createdAt :: int
  l_updatedAt :: int

text \<open>The immutable economic snapshot a quote and an attempt carry.\<close>

record fee_snapshot =
  f_policyId :: string
  f_policyVersion :: int
  f_ruleId :: string
  f_platformFeeBps :: int
  f_platformFeeBearer :: fee_bearer
  f_platformFeeRecipient :: "string option"
  f_routeFeeCapBps :: int

definition FREE_PAYMENT_FEE_SNAPSHOT :: fee_snapshot where
  "FREE_PAYMENT_FEE_SNAPSHOT = \<lparr>f_policyId = ''free-default'', f_policyVersion = 1,
     f_ruleId = ''free-default'', f_platformFeeBps = 0, f_platformFeeBearer = BearerNone,
     f_platformFeeRecipient = None, f_routeFeeCapBps = 0\<rparr>"

record payment_quote =
  q_id :: string
  q_intentId :: string
  q_payer :: string
  q_sourceChainId :: int
  q_route :: route
  q_settlementAmountAtomic :: int
  q_platformFeeAtomic :: int
  q_cctpFeeAtomic :: int
  q_grossPayerAmountAtomic :: int
  q_fee :: fee_snapshot
  q_feeSource :: fee_source
  q_feeObservedAt :: int
  q_expiresAt :: int
  q_quoteHash :: string
  q_createdAt :: int

text \<open>
  The typed data a payer's router verifies: \<open>SerializedPaymentAuthorization\<close> on the local route,
  the CCTP authorization otherwise.
\<close>

datatype authorization =
    PaymentAuthorization (au_intentId: string) (au_attemptId: string) (au_payer: string)
      (au_merchant: string) (au_settlementAmount: int) (au_platformFee: int)
      (au_validAfter: int) (au_validUntil: int) (au_metadataHash: string)
  | CctpPaymentAuthorization (au_intentId: string) (au_attemptId: string) (au_payer: string)
      (au_merchant: string) (au_settlementChainId: int) (au_destinationDomain: int)
      (au_settlementAmount: int) (au_grossPayerAmount: int) (au_platformFee: int)
      (au_maxCctpFee: int) (au_minFinalityThreshold: int)
      (au_validAfter: int) (au_validUntil: int) (au_metadataHash: string)

text \<open>
  The columns a row of \<open>payment_attempts\<close> shares with the domain object; the object adds
  \<open>expiresAt\<close>, the row the idempotency key and the last error.
\<close>

record attempt_core =
  a_id :: string
  a_attemptHash :: string
  a_intentId :: string
  a_quoteId :: string
  a_payerUid :: "string option"
  a_payerAddress :: string
  a_sourceChainId :: int
  a_route :: route
  a_status :: attempt_status
  a_routerAddress :: string
  a_authorizationHash :: string
  a_authorization :: authorization
  a_signature :: string
  a_checkoutCapabilityHash :: "string option"
  a_payerProofSignature :: "string option"
  a_payerProofMessageHash :: "string option"
  a_validAfter :: int
  a_validUntil :: int
  a_userOpHash :: "string option"
  a_sourceTxHash :: "string option"
  a_destinationTxHash :: "string option"
  a_settlementAmountAtomic :: int
  a_platformFeeAtomic :: int
  a_cctpFeeAtomic :: int
  a_grossPayerAmountAtomic :: int
  a_fee :: fee_snapshot
  a_settledAmountAtomic :: int
  a_createdAt :: int
  a_updatedAt :: int

record payment_attempt = attempt_core +
  a_expiresAt :: int

record payment_fee_line =
  fl_type :: fee_type
  fl_bearer :: fee_bearer
  fl_quotedAmountAtomic :: int
  fl_actualAmountAtomic :: "int option"
  fl_recipient :: "string option"
  fl_status :: fee_status
  fl_policyId :: string
  fl_policyVersion :: int
  fl_ruleId :: string

record payment_fee_breakdown =
  fb_platform :: payment_fee_line
  fb_network :: payment_fee_line
  fb_totalQuotedAtomic :: int
  fb_totalActualAtomic :: "int option"

definition active_status :: "attempt_status \<Rightarrow> bool" where
  "active_status s \<longleftrightarrow> s = Reserved \<or> s = Submitted \<or> s = Processing"

definition settled_status :: "attempt_status \<Rightarrow> bool" where
  "settled_status s \<longleftrightarrow> s = Paid \<or> s = Overpaid"

lemma active_not_settled: "active_status s \<Longrightarrow> \<not> settled_status s"
  by (auto simp: active_status_def settled_status_def)

subsection \<open>Third-party functions\<close>

text \<open>
  What the code calls of the package \<^verbatim>\<open>viem\<close> and of Web Crypto, as parameters: none of it is in the
  repository.  So are \<open>JSON.parse\<close>, \<open>JSON.stringify\<close>, \<open>Date.parse\<close> (\<open>None\<close> is an exception or
  \<open>NaN\<close>), \<open>localeCompare\<close>, the host name and the parts of a \<open>URL\<close>, base64 (\<open>btoa\<close>, \<open>atob\<close>), random bytes (a function of a
  fresh UUID), AES-GCM (key, nonce, additional data, text) and HMAC, and for a number that is not an integer
  the test of lying between 0 and 100 and the floating-point \<open>Math.ceil(x * 100)\<close>: the host decides their results.  Nothing is assumed
  of a function here; a property that needs a documented fact of one of them says so in its
  hypotheses.
\<close>

record web_url =
  u_protocol :: string
  u_username :: string
  u_password :: string
  u_hostname :: string
  u_port :: string
  u_text :: string

record viem =
  v_keccak256 :: "string \<Rightarrow> string"
  v_isAddress :: "string \<Rightarrow> bool"
  v_isAddressLax :: "string \<Rightarrow> bool"
  v_getAddress :: "string \<Rightarrow> string"
  v_parseUnits6 :: "string \<Rightarrow> int"
  v_formatUnits6 :: "int \<Rightarrow> string"
  v_hashAuthorization :: "int \<Rightarrow> string \<Rightarrow> authorization \<Rightarrow> string"
  v_signAuthorization :: "string \<Rightarrow> int \<Rightarrow> string \<Rightarrow> authorization \<Rightarrow> string"
  v_addressOfKey :: "string \<Rightarrow> string"
  v_hashMessage :: "string \<Rightarrow> string"
  v_recoverMessageAddress :: "string \<Rightarrow> string \<Rightarrow> string option"
  v_sha256 :: "string \<Rightarrow> string"
  v_jsonText :: "json \<Rightarrow> string"
  v_jsonParse :: "string \<Rightarrow> json option"
  v_dateParse :: "string \<Rightarrow> int option"
  v_localeCompare :: "string \<Rightarrow> string \<Rightarrow> int"
  v_hostname :: "string \<Rightarrow> string option"
  v_parseUrl :: "string \<Rightarrow> web_url option"
  v_ceilHundredfold :: "string \<Rightarrow> int"
  v_numberLe100 :: "string \<Rightarrow> bool"
  v_btoa :: "string \<Rightarrow> string"
  v_atob :: "string \<Rightarrow> string option"
  v_bytesToHex :: "string \<Rightarrow> string"
  v_randomBytes :: "string \<Rightarrow> nat \<Rightarrow> string"
  v_aesEncrypt :: "string \<Rightarrow> string \<Rightarrow> string option \<Rightarrow> string \<Rightarrow> string"
  v_aesDecrypt :: "string \<Rightarrow> string \<Rightarrow> string option \<Rightarrow> string \<Rightarrow> string option"
  v_hmac :: "string \<Rightarrow> string \<Rightarrow> string"

text \<open>
  A concrete instance, at which the witnesses evaluate the code.  Identity functions stand for the
  hashes and signatures; only amounts without decimals are read.
\<close>

fun text_compare :: "string \<Rightarrow> string \<Rightarrow> int" where
  "text_compare [] [] = 0"
| "text_compare [] (y # ys) = -1"
| "text_compare (x # xs) [] = 1"
| "text_compare (x # xs) (y # ys) =
     (if ccode x < ccode y then -1 else if ccode y < ccode x then 1 else text_compare xs ys)"

definition sample_viem :: viem where
  "sample_viem = \<lparr>v_keccak256 = (\<lambda>s. ''0x'' @ s), v_isAddress = (\<lambda>s. s \<noteq> []),
     v_isAddressLax = (\<lambda>s. s \<noteq> []), v_getAddress = (\<lambda>s. s),
     v_parseUnits6 = (\<lambda>s. 1000000 * int (digits_value s)),
     v_formatUnits6 = (\<lambda>n. string_of_int (n div 1000000)),
     v_hashAuthorization = (\<lambda>c r au. ''0xh'' @ au_attemptId au),
     v_signAuthorization = (\<lambda>k c r au. ''0xs'' @ au_attemptId au), v_addressOfKey = (\<lambda>k. k),
     v_hashMessage = (\<lambda>s. s), v_recoverMessageAddress = (\<lambda>m s. Some s), v_sha256 = (\<lambda>s. s),
     v_jsonText = (\<lambda>j. ''{}''), v_jsonParse = (\<lambda>s. None), v_dateParse = (\<lambda>s. Some 0),
     v_localeCompare = text_compare, v_hostname = (\<lambda>s. Some s), v_parseUrl = (\<lambda>s. None), v_ceilHundredfold = (\<lambda>s. 0),
     v_numberLe100 = (\<lambda>s. False), v_btoa = (\<lambda>s. s), v_atob = (\<lambda>s. Some s),
     v_bytesToHex = (\<lambda>s. ''0x'' @ s), v_randomBytes = (\<lambda>u n. u), v_aesEncrypt = (\<lambda>k n a s. s), v_aesDecrypt = (\<lambda>k n a s. Some s),
     v_hmac = (\<lambda>k s. s)\<rparr>"

subsection \<open>Configuration\<close>

text \<open>The bindings of \<^verbatim>\<open>payments-worker/src/env.ts\<close> the modelled code reads.\<close>

record bindings =
  e_feePolicyJson :: "string option"
  e_feeRecipient :: "string option"
  e_routerPreflight :: "string option"
  e_authorizationSignerKey :: "string option"
  e_authorizationTtlSeconds :: "int option"
  e_enabledChainIds :: "string"
  e_settlementChainId :: "int option"
  e_liveEnabled :: "string option"
  e_bootstrapMode :: "string option"
  e_cutoverChecksum :: "string option"
  e_confirmationsJson :: "string option"
  e_queueAvailable :: bool
  e_schedulerAvailable :: bool
  e_rpcUrls :: "string option"
  e_relayerKey :: "string option"
  e_webhookKey :: "string option"
  e_webhookKeyId :: "string option"
  e_webhookKeysPrevious :: "string option"
  e_checkoutBaseUrl :: string

definition sample_env :: bindings where
  "sample_env = \<lparr>e_feePolicyJson = None, e_feeRecipient = Some ''0xfee'', e_routerPreflight = Some ''true'',
     e_authorizationSignerKey = Some ''0xkey'', e_authorizationTtlSeconds = Some 300,
     e_enabledChainIds = ''421614,84532'', e_settlementChainId = Some 421614, e_liveEnabled = None,
     e_bootstrapMode = None, e_cutoverChecksum = None, e_confirmationsJson = None,
     e_queueAvailable = True, e_schedulerAvailable = True, e_rpcUrls = None, e_relayerKey = None,
     e_webhookKey = None, e_webhookKeyId = None, e_webhookKeysPrevious = None, e_checkoutBaseUrl = ''https://pay''\<rparr>"

definition sample_intent :: payment_intent where
  "sample_intent = \<lparr>i_id = ''pi_1'', i_merchantId = ''mer_1'', i_linkId = Some ''lnk_1'', i_amount = ''10'',
     i_amountAtomic = 10000000, i_amountMode = Fixed, i_reference = ''order 1'', i_metadata = JObj [],
     i_mode = Test, i_status = AwaitingPayment, i_settlementWallet = ''0xmerchant'',
     i_settlementChainId = 421614, i_settlementAccountVersion = 1, i_paidAmountAtomic = 0,
     i_paidTxHash = None, i_paidAt = None, i_expiresAt = Some 3600000, i_createdAt = 0,
     i_updatedAt = 0\<rparr>"

end
