(* ===== verification/EmailCodes.thy ===== *)
theory EmailCodes
  imports Models
begin

unbundle bit_operations_syntax

text \<open>
  The one-time codes and step-up sessions of the App backend (\<^verbatim>\<open>src/server/src/services/emailOtp.ts\<close>).  HMAC-SHA-256,
  the mail service, Firebase and random bytes are parameters; texts of time are integers.
\<close>

subsection \<open>Rows and parameters\<close>

datatype code_purpose = SignIn | StepUp

datatype code_locale = Es | En

record code_row =
  oc_id :: string
  oc_emailHash :: string
  oc_codeHash :: string
  oc_purpose :: code_purpose
  oc_locale :: code_locale
  oc_ipHash :: string
  oc_subjectUid :: "string option"
  oc_attempts :: int
  oc_maxAttempts :: int
  oc_expiresAt :: int
  oc_claimId :: "string option"
  oc_claimedAt :: "int option"
  oc_firebaseUid :: "string option"
  oc_consumedAt :: "int option"
  oc_createdAt :: int

record session_row =
  su_id :: string
  su_uid :: string
  su_tokenHash :: string
  su_expiresAt :: int
  su_consumedAt :: "int option"
  su_createdAt :: int

record auth_db =
  au_codes :: "code_row list"
  au_sessions :: "session_row list"
  au_linkChallenges :: "(string \<times> int) list"

record mail =
  ma_purpose :: code_purpose
  ma_to :: string
  ma_code :: string
  ma_locale :: code_locale
  ma_expiresInMinutes :: int
  ma_idempotencyKey :: string

text \<open>
  \<open>xs_random u\<close> are the three-byte values drawn after the UUID \<open>u\<close>, \<open>xs_token u\<close> is the base64url text of 32
  random bytes.
\<close>

record auth_services =
  xs_hmac :: "string \<Rightarrow> string \<Rightarrow> string"
  xs_random :: "string \<Rightarrow> nat \<Rightarrow> nat"
  xs_token :: "string \<Rightarrow> string"
  xs_send :: "int \<Rightarrow> unit option"
  xs_firebaseUser :: "string \<Rightarrow> string \<Rightarrow> int \<Rightarrow> string option"
  xs_customToken :: "string \<Rightarrow> int \<Rightarrow> string option"

type_synonym 'a oact = "(auth_db, mail, 'a) act"

definition CODE_TTL_SECONDS :: int where "CODE_TTL_SECONDS = 10 * 60"

definition RESEND_AFTER_SECONDS :: int where "RESEND_AFTER_SECONDS = 60"

definition MAX_ATTEMPTS :: int where "MAX_ATTEMPTS = 5"

definition STEP_UP_TTL_SECONDS :: int where "STEP_UP_TTL_SECONDS = 10 * 60"

definition InvalidEmailCodeError :: err where
  "InvalidEmailCodeError = Thrown ''Email code is invalid or expired''"

definition EmailOtpConfigurationError :: "string \<Rightarrow> err" where
  "EmailOtpConfigurationError message = Thrown message"

subsection \<open>Codes, addresses and hashes\<close>

definition pepper :: "string option \<Rightarrow> err + string" where
  "pepper configured = (case map_option trim configured of
       None \<Rightarrow> Inl (EmailOtpConfigurationError ''Email code authentication is not configured'')
     | Some v \<Rightarrow> if length v < 32 then Inl (EmailOtpConfigurationError ''Email code authentication is not configured'') else Inr v)"

definition constantTimeEqual :: "string \<Rightarrow> string \<Rightarrow> bool" where
  "constantTimeEqual left right \<longleftrightarrow> (if length left \<noteq> length right then False
     else foldl (\<lambda>difference (a, b). difference OR (ccode a XOR ccode b)) 0 (zip left right) = 0)"

text \<open>The loop over draws of 24 random bits; not to end would be \<open>None\<close>.\<close>

partial_function (option) draw_below :: "nat \<Rightarrow> (nat \<Rightarrow> nat) \<Rightarrow> nat \<Rightarrow> nat option" where
  "draw_below ceiling draws k = (if draws k < ceiling then Some (draws k) else draw_below ceiling draws (Suc k))"

definition pad_start :: "nat \<Rightarrow> char \<Rightarrow> string \<Rightarrow> string" where
  "pad_start n c s = replicate (n - length s) c @ s"

definition six_digits :: "nat \<Rightarrow> string" where
  "six_digits value = pad_start 6 (CHR ''0'') (string_of_int (int (value mod 1000000)))"

definition randomSixDigitCode :: "(nat \<Rightarrow> nat) \<Rightarrow> string option" where
  "randomSixDigitCode draws = map_option six_digits (draw_below 16000000 draws 0)"

text \<open>The pattern \<^verbatim>\<open>^\S+@\S+\.\S+$\<close>.\<close>

definition email_shape :: "string \<Rightarrow> bool" where
  "email_shape s \<longleftrightarrow> list_all (\<lambda>c. \<not> is_ws c) s \<and>
     list_ex (\<lambda>i. s ! i = CHR ''@'' \<and> list_ex (\<lambda>j. s ! j = CHR ''.'') [i + 2..<length s - 1]) [1..<length s]"

definition normalizeEmail :: "json option \<Rightarrow> string option" where
  "normalizeEmail value = (case value of
       Some (JStr raw) \<Rightarrow> (let email = toLowerCase (trim raw) in
         if length email < 3 \<or> 254 < length email \<or> \<not> email_shape email \<or>
           list_ex (\<lambda>c. ccode c \<le> 31 \<or> ccode c = 127) email then None else Some email)
     | _ \<Rightarrow> None)"

definition emailOtpRateLimitKeys :: "auth_services \<Rightarrow> string option \<Rightarrow> string \<Rightarrow> string \<Rightarrow> err + string \<times> string" where
  "emailOtpRateLimitKeys X cfg email ip = bindE (pepper cfg) (\<lambda>secret.
     Inr (xs_hmac X secret (''email:'' @ email), xs_hmac X secret (''ip:'' @ ip)))"

definition codeHash :: "auth_services \<Rightarrow> string option \<Rightarrow> string \<Rightarrow> string \<Rightarrow> string \<Rightarrow> err + string" where
  "codeHash X cfg x emailHash code = bindE (pepper cfg) (\<lambda>secret.
     Inr (xs_hmac X secret (''code:'' @ x @ '':'' @ emailHash @ '':'' @ code)))"

definition stepUpTokenHash :: "auth_services \<Rightarrow> string option \<Rightarrow> string \<Rightarrow> err + string" where
  "stepUpTokenHash X cfg token = bindE (pepper cfg) (\<lambda>secret. Inr (xs_hmac X secret (''step-up:'' @ token)))"

definition code_text_ok :: "string \<Rightarrow> bool" where
  "code_text_ok s \<longleftrightarrow> length s = 6 \<and> list_all is_digit s"

definition token_text_ok :: "string \<Rightarrow> bool" where
  "token_text_ok s \<longleftrightarrow> length s = 43 \<and> list_all (\<lambda>c. is_alnum c \<or> c = CHR ''_'' \<or> c = CHR ''-'') s"

subsection \<open>Statements\<close>

definition map_codes :: "(code_row \<Rightarrow> bool) \<Rightarrow> (code_row \<Rightarrow> code_row) \<Rightarrow> auth_db stmt" where
  "map_codes p f d = Some (d\<lparr>au_codes := upd p f (au_codes d)\<rparr>, hits p (au_codes d))"

definition insert_code :: "code_row \<Rightarrow> auth_db stmt" where
  "insert_code r d = (if oc_id r \<in> oc_id ` set (au_codes d) then None
     else Some (d\<lparr>au_codes := au_codes d @ [r]\<rparr>, 1))"

definition delete_code :: "string \<Rightarrow> auth_db stmt" where
  "delete_code x d = Some (d\<lparr>au_codes := filter (\<lambda>r. oc_id r \<noteq> x) (au_codes d)\<rparr>, hits (\<lambda>r. oc_id r = x) (au_codes d))"

definition open_codes :: "string \<Rightarrow> code_purpose \<Rightarrow> string option \<Rightarrow> code_row \<Rightarrow> bool" where
  "open_codes emailHash purpose subject r \<longleftrightarrow> oc_emailHash r = emailHash \<and> oc_purpose r = purpose \<and>
     oc_subjectUid r = subject \<and> oc_consumedAt r = None"

definition retire_stmt :: "code_row \<Rightarrow> auth_db stmt" where
  "retire_stmt n = map_codes (\<lambda>r. open_codes (oc_emailHash n) (oc_purpose n) (oc_subjectUid n) r \<and>
       (oc_createdAt r < oc_createdAt n \<or> oc_createdAt r = oc_createdAt n \<and> text_compare (oc_id r) (oc_id n) < 0))
     (\<lambda>r. r\<lparr>oc_consumedAt := Some (oc_createdAt n)\<rparr>)"

text \<open>The newest open code; rows of the same time come in the order of the table.\<close>

fun newest :: "code_row list \<Rightarrow> code_row option" where
  "newest [] = None"
| "newest (r # rs) = (case newest rs of None \<Rightarrow> Some r | Some q \<Rightarrow> if oc_createdAt r < oc_createdAt q then Some q else Some r)"

definition find_code :: "string \<Rightarrow> code_purpose \<Rightarrow> string option \<Rightarrow> auth_db \<Rightarrow> code_row option" where
  "find_code emailHash purpose subject d = newest (filter (open_codes emailHash purpose subject) (au_codes d))"

definition reserve_stmt :: "string \<Rightarrow> int \<Rightarrow> auth_db stmt" where
  "reserve_stmt x now = map_codes (\<lambda>r. oc_id r = x \<and> oc_consumedAt r = None \<and> oc_claimId r = None \<and>
       oc_attempts r < oc_maxAttempts r \<and> now < oc_expiresAt r)
     (\<lambda>r. r\<lparr>oc_attempts := oc_attempts r + 1\<rparr>)"

definition claim_stmt :: "string \<Rightarrow> string \<Rightarrow> int \<Rightarrow> auth_db stmt" where
  "claim_stmt x claimId now = map_codes (\<lambda>r. oc_id r = x \<and> oc_consumedAt r = None \<and> oc_claimId r = None \<and>
       oc_attempts r \<le> oc_maxAttempts r \<and> now < oc_expiresAt r)
     (\<lambda>r. r\<lparr>oc_claimId := Some claimId, oc_claimedAt := Some now\<rparr>)"

definition release_stmt :: "string \<Rightarrow> string \<Rightarrow> auth_db stmt" where
  "release_stmt x claimId = map_codes (\<lambda>r. oc_id r = x \<and> oc_claimId r = Some claimId \<and> oc_consumedAt r = None)
     (\<lambda>r. r\<lparr>oc_claimId := None, oc_claimedAt := None\<rparr>)"

definition consume_stmt :: "string \<Rightarrow> string \<Rightarrow> string option \<Rightarrow> int \<Rightarrow> auth_db stmt" where
  "consume_stmt x claimId uid now = map_codes (\<lambda>r. oc_id r = x \<and> oc_claimId r = Some claimId \<and> oc_consumedAt r = None)
     (\<lambda>r. r\<lparr>oc_consumedAt := Some now, oc_firebaseUid := (case uid of None \<Rightarrow> oc_firebaseUid r | Some u \<Rightarrow> Some u)\<rparr>)"

definition insert_session :: "session_row \<Rightarrow> auth_db stmt" where
  "insert_session r d = (if su_id r \<in> su_id ` set (au_sessions d) \<or> su_tokenHash r \<in> su_tokenHash ` set (au_sessions d) then None
     else Some (d\<lparr>au_sessions := au_sessions d @ [r]\<rparr>, 1))"

definition delete_session :: "string \<Rightarrow> auth_db stmt" where
  "delete_session x d = Some (d\<lparr>au_sessions := filter (\<lambda>r. su_id r \<noteq> x) (au_sessions d)\<rparr>, hits (\<lambda>r. su_id r = x) (au_sessions d))"

definition session_open :: "string \<Rightarrow> string \<Rightarrow> int \<Rightarrow> session_row \<Rightarrow> bool" where
  "session_open uid hash now r \<longleftrightarrow> su_uid r = uid \<and> su_tokenHash r = hash \<and> su_consumedAt r = None \<and> now < su_expiresAt r"

definition consume_session :: "string \<Rightarrow> string \<Rightarrow> int \<Rightarrow> auth_db stmt" where
  "consume_session uid hash now d = Some (d\<lparr>au_sessions := upd (session_open uid hash now)
       (\<lambda>r. r\<lparr>su_consumedAt := Some now\<rparr>) (au_sessions d)\<rparr>, hits (session_open uid hash now) (au_sessions d))"

definition expire_stmts :: "int \<Rightarrow> auth_db stmt list" where
  "expire_stmts cutoff =
     [\<lambda>d. Some (d\<lparr>au_codes := filter (\<lambda>r. \<not> oc_expiresAt r < cutoff) (au_codes d)\<rparr>, hits (\<lambda>r. oc_expiresAt r < cutoff) (au_codes d)),
      \<lambda>d. Some (d\<lparr>au_sessions := filter (\<lambda>r. \<not> su_expiresAt r < cutoff) (au_sessions d)\<rparr>, hits (\<lambda>r. su_expiresAt r < cutoff) (au_sessions d)),
      \<lambda>d. Some (d\<lparr>au_linkChallenges := filter (\<lambda>(x, e). \<not> e < cutoff) (au_linkChallenges d)\<rparr>,
        hits (\<lambda>(x, e). e < cutoff) (au_linkChallenges d))]"

subsection \<open>Issuing a code\<close>

record issue_input =
  is_email :: string
  is_ip :: string
  is_locale :: code_locale
  is_purpose :: code_purpose
  is_subjectUid :: "string option"

definition new_code :: "issue_input \<Rightarrow> string \<Rightarrow> string \<times> string \<Rightarrow> string \<Rightarrow> int \<Rightarrow> code_row" where
  "new_code inp x keys hash now = \<lparr>oc_id = x, oc_emailHash = fst keys, oc_codeHash = hash, oc_purpose = is_purpose inp,
     oc_locale = is_locale inp, oc_ipHash = snd keys, oc_subjectUid = is_subjectUid inp, oc_attempts = 0,
     oc_maxAttempts = MAX_ATTEMPTS, oc_expiresAt = now + CODE_TTL_SECONDS * 1000, oc_claimId = None, oc_claimedAt = None,
     oc_firebaseUid = None, oc_consumedAt = None, oc_createdAt = now\<rparr>"

definition code_mail :: "issue_input \<Rightarrow> string \<Rightarrow> string \<Rightarrow> mail" where
  "code_mail inp x code = \<lparr>ma_purpose = is_purpose inp, ma_to = is_email inp, ma_code = code, ma_locale = is_locale inp,
     ma_expiresInMinutes = CODE_TTL_SECONDS div 60,
     ma_idempotencyKey = ''auth_code_'' @ map (\<lambda>c. if c = CHR ''-'' then CHR ''_'' else c) x\<rparr>"

text \<open>After the code \<open>code\<close> was drawn for the id \<open>x\<close>.\<close>

definition issue_drawn :: "auth_services \<Rightarrow> string option \<Rightarrow> issue_input \<Rightarrow> string \<Rightarrow> string \<Rightarrow> (int \<times> int) oact" where
  "issue_drawn X cfg inp x code =
     bindA (liftE (emailOtpRateLimitKeys X cfg (is_email inp) (is_ip inp))) (\<lambda>keys.
     bindA (liftE (codeHash X cfg x (fst keys) code)) (\<lambda>hash.
     bindA date_now (\<lambda>now. let row = new_code inp x keys hash now in
     bindA (dbx (insert_code row)) (\<lambda>_.
     bindA (catchA (callA (code_mail inp x code) (xs_send X) ''mail'')
       (\<lambda>e. bindA (catchA (bindA (dbx (delete_code x)) (\<lambda>_. ret ())) (\<lambda>_. ret ())) (\<lambda>_. throw e))) (\<lambda>_.
     bindA (dbx (retire_stmt row)) (\<lambda>_. ret (CODE_TTL_SECONDS, RESEND_AFTER_SECONDS)))))))"

text \<open>A run of draws that never ends is \<open>None\<close>.\<close>

definition issueEmailCode ::
    "auth_services \<Rightarrow> string option \<Rightarrow> issue_input \<Rightarrow> (auth_db, mail) world \<Rightarrow> ((err + (int \<times> int)) \<times> (auth_db, mail) world) option" where
  "issueEmailCode X cfg inp w = (if is_purpose inp = StepUp \<and> (is_subjectUid inp = None \<or> is_subjectUid inp = Some [])
     then Some (Inl (EmailOtpConfigurationError ''Step-up subject is required''), w)
     else case randomUUID w of (Inr x, w1) \<Rightarrow>
         map_option (\<lambda>code. issue_drawn X cfg inp x code w1) (randomSixDigitCode (xs_random X x))
       | (Inl e, w1) \<Rightarrow> Some (Inl e, w1))"

definition issueEmailSignInCode ::
    "auth_services \<Rightarrow> string option \<Rightarrow> string \<Rightarrow> string \<Rightarrow> code_locale \<Rightarrow> (auth_db, mail) world \<Rightarrow>
     ((err + (int \<times> int)) \<times> (auth_db, mail) world) option" where
  "issueEmailSignInCode X cfg email ip locale = issueEmailCode X cfg
     \<lparr>is_email = email, is_ip = ip, is_locale = locale, is_purpose = SignIn, is_subjectUid = None\<rparr>"

definition issueEmailStepUpCode ::
    "auth_services \<Rightarrow> string option \<Rightarrow> string \<Rightarrow> string \<Rightarrow> code_locale \<Rightarrow> string \<Rightarrow> (auth_db, mail) world \<Rightarrow>
     ((err + (int \<times> int)) \<times> (auth_db, mail) world) option" where
  "issueEmailStepUpCode X cfg email ip locale uid = issueEmailCode X cfg
     \<lparr>is_email = email, is_ip = ip, is_locale = locale, is_purpose = StepUp, is_subjectUid = Some uid\<rparr>"

subsection \<open>Verifying a code\<close>

text \<open>With an attempt reserved: the comparison of the digests, and the claim of the code.\<close>

definition compare_and_claim :: "auth_services \<Rightarrow> string option \<Rightarrow> code_row \<Rightarrow> string \<Rightarrow> int \<Rightarrow> (code_row \<times> string) oact" where
  "compare_and_claim X cfg r code now = bindA (liftE (codeHash X cfg (oc_id r) (oc_emailHash r) code)) (\<lambda>presented.
     if \<not> constantTimeEqual presented (oc_codeHash r) then throw InvalidEmailCodeError
     else bindA randomUUID (\<lambda>claimId. bindA (dbx (claim_stmt (oc_id r) claimId now)) (\<lambda>claimed.
       if claimed \<noteq> 1 then throw InvalidEmailCodeError else ret (r, claimId))))"

definition claimEmailCode ::
    "auth_services \<Rightarrow> string option \<Rightarrow> string \<Rightarrow> string \<Rightarrow> code_purpose \<Rightarrow> string option \<Rightarrow> (code_row \<times> string) oact" where
  "claimEmailCode X cfg email code purpose subject = (if \<not> code_text_ok code then throw InvalidEmailCodeError
     else bindA (liftE (emailOtpRateLimitKeys X cfg email ''verification'')) (\<lambda>keys.
     bindA date_now (\<lambda>now.
     bindA (dbq (find_code (fst keys) purpose subject)) (\<lambda>row. case row of
       None \<Rightarrow> throw InvalidEmailCodeError
     | Some r \<Rightarrow>
       if oc_expiresAt r \<le> now \<or> oc_maxAttempts r \<le> oc_attempts r \<or> (oc_claimId r \<noteq> None \<and> oc_claimId r \<noteq> Some [])
       then throw InvalidEmailCodeError
       else bindA (dbx (reserve_stmt (oc_id r) now)) (\<lambda>reserved.
         if reserved \<noteq> 1 then throw InvalidEmailCodeError else compare_and_claim X cfg r code now)))))"

definition releaseEmailCodeClaim :: "code_row \<times> string \<Rightarrow> unit oact" where
  "releaseEmailCodeClaim claim = catchA (bindA (dbx (release_stmt (oc_id (fst claim)) (snd claim))) (\<lambda>_. ret ())) (\<lambda>_. ret ())"

definition or_release :: "code_row \<times> string \<Rightarrow> 'a oact \<Rightarrow> 'a oact" where
  "or_release claim m = catchA m (\<lambda>e. bindA (releaseEmailCodeClaim claim) (\<lambda>_. throw e))"

definition verifyEmailSignInCode :: "auth_services \<Rightarrow> string option \<Rightarrow> string \<Rightarrow> string \<Rightarrow> string oact" where
  "verifyEmailSignInCode X cfg email code = bindA (claimEmailCode X cfg email code SignIn None) (\<lambda>claim.
     or_release claim (
       bindA (extcall (xs_firebaseUser X email (''email_'' @ take 40 (oc_emailHash (fst claim)))) ''firebase'') (\<lambda>uid.
       bindA (extcall (xs_customToken X uid) ''firebase'') (\<lambda>customToken.
       bindA date_now (\<lambda>now.
       bindA (dbx (consume_stmt (oc_id (fst claim)) (snd claim) (Some uid) now)) (\<lambda>consumed.
       if consumed \<noteq> 1 then throw InvalidEmailCodeError else ret customToken))))))"

definition verifyEmailStepUpCode :: "auth_services \<Rightarrow> string option \<Rightarrow> string \<Rightarrow> string \<Rightarrow> string \<Rightarrow> (string \<times> int) oact" where
  "verifyEmailStepUpCode X cfg email code uid = bindA (claimEmailCode X cfg email code StepUp (Some uid)) (\<lambda>claim.
     bindA randomUUID (\<lambda>seed. let stepUpToken = xs_token X seed in
     bindA (liftE (stepUpTokenHash X cfg stepUpToken)) (\<lambda>tokenHash.
     bindA date_now (\<lambda>now. bindA randomUUID (\<lambda>sessionId.
     or_release claim (
       bindA (dbb [insert_session \<lparr>su_id = sessionId, su_uid = uid, su_tokenHash = tokenHash,
             su_expiresAt = now + STEP_UP_TTL_SECONDS * 1000, su_consumedAt = None, su_createdAt = now\<rparr>,
           consume_stmt (oc_id (fst claim)) (snd claim) None now]) (\<lambda>ns.
       if ns ! 1 \<noteq> 1
       then bindA (catchA (bindA (dbx (delete_session sessionId)) (\<lambda>_. ret ())) (\<lambda>_. ret ())) (\<lambda>_. throw InvalidEmailCodeError)
       else ret (stepUpToken, STEP_UP_TTL_SECONDS))))))))"

subsection \<open>Step-up sessions\<close>

definition presented_token :: "string option \<Rightarrow> string" where
  "presented_token token = (case token of None \<Rightarrow> [] | Some t \<Rightarrow> trim t)"

definition consumeRecoveryStepUp :: "auth_services \<Rightarrow> string option \<Rightarrow> string \<Rightarrow> string option \<Rightarrow> bool oact" where
  "consumeRecoveryStepUp X cfg uid token = (if \<not> token_text_ok (presented_token token) then ret False
     else bindA (liftE (stepUpTokenHash X cfg (presented_token token))) (\<lambda>hash. bindA date_now (\<lambda>now.
       bindA (dbx (consume_session uid hash now)) (\<lambda>n. ret (n = 1)))))"

definition validateRecoveryStepUp :: "auth_services \<Rightarrow> string option \<Rightarrow> string \<Rightarrow> string option \<Rightarrow> bool oact" where
  "validateRecoveryStepUp X cfg uid token = (if \<not> token_text_ok (presented_token token) then ret False
     else bindA (liftE (stepUpTokenHash X cfg (presented_token token))) (\<lambda>hash. bindA date_now (\<lambda>now.
       dbq (\<lambda>d. list_ex (session_open uid hash now) (au_sessions d)))))"

definition deleteExpiredEmailCodes :: "unit oact" where
  "deleteExpiredEmailCodes = bindA date_now (\<lambda>now. bindA (dbb (expire_stmts (now - 24 * 60 * 60 * 1000))) (\<lambda>_. ret ()))"

end
