(* ===== verification/EmailProps.thy ===== *)
theory EmailProps
  imports EmailCodes
begin

text \<open>
  What a code of the mail is worth: how many guesses it takes and how often it can be used, in any order of the
  statements of concurrent requests, and when a sign-in succeeds.
\<close>

subsection \<open>Statements in any order\<close>

datatype auth_op =
    InsertCode code_row | DeleteCode string | RetireOlder code_row | Reserve string int | Claim string string int
  | ReleaseClaim string string | Consume string string "string option" int | ExpireCodes int

definition stmt_of :: "auth_op \<Rightarrow> auth_db stmt" where
  "stmt_of op = (case op of
       InsertCode r \<Rightarrow> insert_code r | DeleteCode x \<Rightarrow> delete_code x | RetireOlder r \<Rightarrow> retire_stmt r
     | Reserve x now \<Rightarrow> reserve_stmt x now | Claim x c now \<Rightarrow> claim_stmt x c now | ReleaseClaim x c \<Rightarrow> release_stmt x c
     | Consume x c u now \<Rightarrow> consume_stmt x c u now | ExpireCodes cutoff \<Rightarrow> hd (expire_stmts cutoff))"

text \<open>The number of rows the selected statements of a run change; a statement that fails changes nothing.\<close>

fun tally :: "(auth_op \<Rightarrow> bool) \<Rightarrow> auth_op list \<Rightarrow> auth_db \<Rightarrow> nat" where
  "tally P [] d = 0"
| "tally P (op # ops) d = (case stmt_of op d of None \<Rightarrow> tally P ops d
     | Some (d', n) \<Rightarrow> (if P op then n else 0) + tally P ops d')"

fun inserted :: "auth_op list \<Rightarrow> code_row list" where
  "inserted [] = []"
| "inserted (InsertCode r # ops) = r # inserted ops"
| "inserted (op # ops) = inserted ops"

definition potential :: "(code_row \<Rightarrow> nat) \<Rightarrow> string \<Rightarrow> code_row list \<Rightarrow> nat" where
  "potential f x rs = sum_list (map f (filter (\<lambda>r. oc_id r = x) rs))"

lemma potential_simps [simp]:
  "potential f x [] = 0"
  "potential f x (r # rs) = (if oc_id r = x then f r else 0) + potential f x rs"
  "potential f x (rs @ qs) = potential f x rs + potential f x qs"
  by (simp_all add: potential_def)

lemma potential_upd:
  assumes "\<And>r. oc_id (g r) = oc_id r" and "\<And>r. oc_id r = x \<Longrightarrow> p r \<Longrightarrow> c + f (g r) \<le> f r"
    and "c = 0 \<or> (\<forall>r. p r \<longrightarrow> oc_id r = x)"
  shows "c * hits p rs + potential f x (upd p g rs) \<le> potential f x rs"
proof (induction rs)
  case (Cons r rs)
  then show ?case using assms(1) [of r] assms(2) [of r] assms(3) by (cases "p r"; cases "oc_id r = x") (auto simp: upd_def hits_def algebra_simps)
qed (simp add: upd_def hits_def)

lemmas potential_kept = potential_upd [where c = 0, simplified]

lemmas potential_paid = potential_upd [where c = 1, simplified]

lemma potential_filter: "potential f x (filter p rs) \<le> potential f x rs"
  by (induction rs) auto

text \<open>
  A function \<open>f\<close> of a row that no statement increases, and that every row the selected statements count pays for with one,
  bounds their number by what the inserted rows bring.
\<close>

definition pays :: "(auth_op \<Rightarrow> bool) \<Rightarrow> (code_row \<Rightarrow> nat) \<Rightarrow> string \<Rightarrow> bool" where
  "pays P f x \<longleftrightarrow> (\<forall>op d d' n. stmt_of op d = Some (d', n) \<longrightarrow>
     (if P op then n else 0) + potential f x (au_codes d') \<le> potential f x (au_codes d) +
       (case op of InsertCode r \<Rightarrow> potential f x [r] | _ \<Rightarrow> 0))"

lemma tally_bound:
  assumes "pays P f x"
  shows "tally P ops d \<le> potential f x (au_codes d) + potential f x (inserted ops)"
proof (induction ops arbitrary: d)
  case (Cons op ops)
  have ins: "potential f x (inserted (op # ops)) =
      (case op of InsertCode r \<Rightarrow> potential f x [r] | _ \<Rightarrow> 0) + potential f x (inserted ops)"
    by (cases op) simp_all
  show ?case
  proof (cases "stmt_of op d")
    case None
    then show ?thesis using Cons [of d] ins by (simp del: inserted.simps)
  next
    case (Some p)
    obtain d' n where p: "p = (d', n)" by (cases p)
    have "(if P op then n else 0) + potential f x (au_codes d') \<le> potential f x (au_codes d) +
        (case op of InsertCode r \<Rightarrow> potential f x [r] | _ \<Rightarrow> 0)"
      using assms Some p by (auto simp: pays_def)
    then show ?thesis using Cons [of d'] ins Some p by (simp del: inserted.simps)
  qed
qed simp

definition reserves :: "string \<Rightarrow> auth_op \<Rightarrow> bool" where
  "reserves x op \<longleftrightarrow> (case op of Reserve y now \<Rightarrow> y = x | _ \<Rightarrow> False)"

definition consumes :: "string \<Rightarrow> auth_op \<Rightarrow> bool" where
  "consumes x op \<longleftrightarrow> (case op of Consume y c u now \<Rightarrow> y = x | _ \<Rightarrow> False)"

definition guesses_left :: "code_row \<Rightarrow> nat" where
  "guesses_left r = nat (oc_maxAttempts r - oc_attempts r)"

definition uses_left :: "code_row \<Rightarrow> nat" where
  "uses_left r = (if oc_consumedAt r = None then 1 else 0)"

lemmas code_stmts = insert_code_def delete_code_def retire_stmt_def reserve_stmt_def claim_stmt_def release_stmt_def
  consume_stmt_def expire_stmts_def map_codes_def

lemma pays_reserves: "pays (reserves x) guesses_left x"
  unfolding pays_def
proof (intro allI impI)
  fix op d d' n assume run: "stmt_of op d = Some (d', n)"
  show "(if reserves x op then n else 0) + potential guesses_left x (au_codes d') \<le> potential guesses_left x (au_codes d) +
      (case op of InsertCode r \<Rightarrow> potential guesses_left x [r] | _ \<Rightarrow> 0)"
  proof (cases op)
    case (InsertCode r)
    then show ?thesis using run by (auto simp: stmt_of_def code_stmts reserves_def guesses_left_def split: if_splits)
  next
    case (DeleteCode y)
    then show ?thesis using run by (auto simp: stmt_of_def code_stmts reserves_def guesses_left_def intro: potential_filter)
  next
    case (RetireOlder r)
    then show ?thesis using run by (auto simp: stmt_of_def code_stmts reserves_def guesses_left_def intro!: potential_kept)
  next
    case (Reserve y now)
    then show ?thesis using run
      by (cases "y = x") (auto simp: stmt_of_def code_stmts reserves_def guesses_left_def intro!: potential_paid potential_kept)
  next
    case (Claim y c now)
    then show ?thesis using run by (auto simp: stmt_of_def code_stmts reserves_def guesses_left_def intro!: potential_kept)
  next
    case (ReleaseClaim y c)
    then show ?thesis using run by (auto simp: stmt_of_def code_stmts reserves_def guesses_left_def intro!: potential_kept)
  next
    case (Consume y c u now)
    then show ?thesis using run by (auto simp: stmt_of_def code_stmts reserves_def guesses_left_def intro!: potential_kept)
  next
    case (ExpireCodes t)
    then show ?thesis using run by (auto simp: stmt_of_def code_stmts reserves_def guesses_left_def intro: potential_filter)
  qed
qed

lemma pays_consumes: "pays (consumes x) uses_left x"
  unfolding pays_def
proof (intro allI impI)
  fix op d d' n assume run: "stmt_of op d = Some (d', n)"
  show "(if consumes x op then n else 0) + potential uses_left x (au_codes d') \<le> potential uses_left x (au_codes d) +
      (case op of InsertCode r \<Rightarrow> potential uses_left x [r] | _ \<Rightarrow> 0)"
  proof (cases op)
    case (InsertCode r)
    then show ?thesis using run by (auto simp: stmt_of_def code_stmts consumes_def uses_left_def split: if_splits)
  next
    case (DeleteCode y)
    then show ?thesis using run by (auto simp: stmt_of_def code_stmts consumes_def uses_left_def intro: potential_filter)
  next
    case (RetireOlder r)
    then show ?thesis using run by (auto simp: stmt_of_def code_stmts consumes_def uses_left_def intro!: potential_kept)
  next
    case (Reserve y now)
    then show ?thesis using run by (auto simp: stmt_of_def code_stmts consumes_def uses_left_def intro!: potential_kept)
  next
    case (Claim y c now)
    then show ?thesis using run by (auto simp: stmt_of_def code_stmts consumes_def uses_left_def intro!: potential_kept)
  next
    case (ReleaseClaim y c)
    then show ?thesis using run by (auto simp: stmt_of_def code_stmts consumes_def uses_left_def intro!: potential_kept)
  next
    case (Consume y c u now)
    then show ?thesis using run
      by (cases "y = x") (auto simp: stmt_of_def code_stmts consumes_def uses_left_def intro!: potential_paid potential_kept)
  next
    case (ExpireCodes t)
    then show ?thesis using run by (auto simp: stmt_of_def code_stmts consumes_def uses_left_def intro: potential_filter)
  qed
qed

lemma other_ids: "distinct (map oc_id (r # rs)) \<Longrightarrow> q \<in> set rs \<Longrightarrow> oc_id q \<noteq> oc_id r"
  by (metis distinct.simps(2) image_eqI list.simps(9) set_map)

lemma potential_inserted:
  assumes "distinct (map oc_id rs)" and "list_all (\<lambda>r. f r \<le> b) rs"
  shows "potential f x rs \<le> b"
  using assms
proof (induction rs)
  case (Cons r rs)
  have "potential f x rs = 0" if "oc_id r = x"
  proof -
    have "filter (\<lambda>r. oc_id r = x) rs = []" using other_ids [OF Cons.prems(1)] that by (simp add: filter_empty_conv)
    then show ?thesis by (simp add: potential_def)
  qed
  then show ?case using Cons by auto
qed simp


subsection \<open>Signing in\<close>

lemma code_xor_zero: "(a XOR b = (0 :: nat)) \<longleftrightarrow> a = b"
  by (metis xor.assoc xor.left_neutral xor.right_neutral xor_self_eq)

lemma foldl_or_zero: "foldl (\<lambda>m (a, b). m OR (ccode a XOR ccode b)) n xs = 0 \<longleftrightarrow> n = 0 \<and> list_all (\<lambda>(a, b). a = b) xs"
proof (induction xs arbitrary: n)
  case (Cons p xs)
  obtain a b where p: "p = (a, b)" by (cases p)
  have "(ccode a XOR ccode b) = 0 \<longleftrightarrow> a = b"
    by (simp add: code_xor_zero ccode_def)
  then show ?case using Cons p by (simp add: or_eq_0_iff)
qed simp

lemma constantTimeEqual_iff: "constantTimeEqual left right \<longleftrightarrow> left = right"
  unfolding constantTimeEqual_def foldl_or_zero
  by (auto simp: list_all_iff list_eq_iff_zip_eq)

lemma newest_mem: "newest rs = Some r \<Longrightarrow> r \<in> set rs"
  by (induction rs) (auto split: option.splits if_splits)

lemma find_code_mem: "find_code h p u d = Some r \<Longrightarrow> r \<in> set (au_codes d) \<and> open_codes h p u r"
  by (auto simp: find_code_def dest!: newest_mem)

lemma hits_one:
  assumes "distinct (map oc_id rs)" and "r \<in> set rs"
  shows "hits (\<lambda>q. oc_id q = oc_id r \<and> C q) rs = (if C r then 1 else 0)"
  using assms
proof (induction rs)
  case (Cons q rs)
  have "hits (\<lambda>q'. oc_id q' = oc_id r \<and> C q') rs = 0" if "oc_id q = oc_id r"
    using other_ids [OF Cons.prems(1)] that by (simp add: hits_def filter_empty_conv)
  then show ?case using Cons by (auto simp: hits_def)
qed simp

definition good_code :: "auth_services \<Rightarrow> string \<Rightarrow> string \<Rightarrow> int \<Rightarrow> code_row \<Rightarrow> bool" where
  "good_code X secret code now r \<longleftrightarrow> code_text_ok code \<and> now < oc_expiresAt r \<and> oc_attempts r < oc_maxAttempts r \<and>
     oc_claimId r = None \<and> oc_codeHash r = xs_hmac X secret (''code:'' @ oc_id r @ '':'' @ oc_emailHash r @ '':'' @ code)"

text \<open>A statement on the row of an id: what it counts and the rows after it.\<close>

lemma map_codes_row:
  assumes "distinct (map oc_id (au_codes d))" and "r \<in> set (au_codes d)" and "\<And>q. oc_id (f q) = oc_id q"
    and "map_codes (\<lambda>q. oc_id q = oc_id r \<and> C q) f d = Some (d', n)"
  shows "n = (if C r then 1 else 0) \<and> distinct (map oc_id (au_codes d')) \<and> (if C r then f r else r) \<in> set (au_codes d')"
proof -
  have d': "d' = d\<lparr>au_codes := upd (\<lambda>q. oc_id q = oc_id r \<and> C q) f (au_codes d)\<rparr>"
      "n = hits (\<lambda>q. oc_id q = oc_id r \<and> C q) (au_codes d)"
    using assms(4) by (simp_all add: map_codes_def)
  have "map oc_id (au_codes d') = map oc_id (au_codes d)"
    unfolding d' by (simp add: map_upd assms(3))
  moreover have "(if C r then f r else r) \<in> set (au_codes d')"
    unfolding d' using assms(2) by (auto simp: set_upd)
  ultimately show ?thesis using assms(1) d'(2) hits_one [OF assms(1,2), of C] by simp
qed

lemma map_codes_total: "\<exists>d' n. map_codes p f d = Some (d', n)"
  by (simp add: map_codes_def)

lemma claim_quiet:
  assumes q: "w_env w = []" and dist: "distinct (map oc_id (au_codes (w_db w)))" and pep: "pepper cfg = Inr s"
    and found: "find_code (xs_hmac X s (''email:'' @ email)) purpose subject (w_db w) = found"
  shows "case claimEmailCode X cfg email code purpose subject w of
      (Inl e, w') \<Rightarrow> \<not> (\<exists>r. found = Some r \<and> good_code X s code (w_now w) r)
    | (Inr (r, c), w') \<Rightarrow> found = Some r \<and> good_code X s code (w_now w) r \<and> w_env w' = [] \<and> w_now w' = w_now w \<and>
        distinct (map oc_id (au_codes (w_db w'))) \<and>
        (\<exists>q \<in> set (au_codes (w_db w')). oc_id q = oc_id r \<and> oc_consumedAt q = None \<and> oc_claimId q = Some c)"
proof (cases "code_text_ok code \<and> (\<exists>r. found = Some r \<and> \<not> (oc_expiresAt r \<le> w_now w \<or> oc_maxAttempts r \<le> oc_attempts r \<or>
    (oc_claimId r \<noteq> None \<and> oc_claimId r \<noteq> Some [])))")
  case False
  then have "\<exists>e w'. claimEmailCode X cfg email code purpose subject w = (Inl e, w')"
    using q pep found by (auto simp: claimEmailCode_def emailOtpRateLimitKeys_def bindA_def act_simps split: option.split)
  moreover have "\<not> (\<exists>r. found = Some r \<and> good_code X s code (w_now w) r)"
    using False by (auto simp: good_code_def)
  ultimately show ?thesis by auto
next
  case True
  then obtain r where r: "found = Some r" "\<not> oc_expiresAt r \<le> w_now w" "\<not> oc_maxAttempts r \<le> oc_attempts r"
      "oc_claimId r = None \<or> oc_claimId r = Some []" by auto
  let ?d = "w_db w" and ?now = "w_now w"
  have open_r: "r \<in> set (au_codes ?d)" "oc_consumedAt r = None"
    using find_code_mem found r(1) by (auto simp: open_codes_def)
  obtain d1 n1 where s1: "reserve_stmt (oc_id r) ?now ?d = Some (d1, n1)"
    using map_codes_total unfolding reserve_stmt_def by blast
  have row1: "n1 = (if oc_claimId r = None then 1 else 0)" "distinct (map oc_id (au_codes d1))"
      "oc_claimId r = None \<longrightarrow> r\<lparr>oc_attempts := oc_attempts r + 1\<rparr> \<in> set (au_codes d1)"
    using map_codes_row [OF dist open_r(1) _ s1 [unfolded reserve_stmt_def]] open_r(2) r(2,3) by auto
  have start: "claimEmailCode X cfg email code purpose subject w =
      (if n1 \<noteq> 1 then (Inl InvalidEmailCodeError, w\<lparr>w_db := d1\<rparr>) else compare_and_claim X cfg r code ?now (w\<lparr>w_db := d1\<rparr>))"
    using q pep found r True s1
    by (auto simp: claimEmailCode_def emailOtpRateLimitKeys_def bindA_def act_simps split: if_splits)
  have hash: "codeHash X cfg (oc_id r) (oc_emailHash r) code = Inr (xs_hmac X s (''code:'' @ oc_id r @ '':'' @ oc_emailHash r @ '':'' @ code))"
    using pep by (simp add: codeHash_def)
  show ?thesis
  proof (cases "good_code X s code ?now r")
    case False
    then have "oc_codeHash r \<noteq> xs_hmac X s (''code:'' @ oc_id r @ '':'' @ oc_emailHash r @ '':'' @ code) \<or> oc_claimId r \<noteq> None"
      using r(2,3) True by (auto simp: good_code_def)
    then have "claimEmailCode X cfg email code purpose subject w = (Inl InvalidEmailCodeError, w\<lparr>w_db := d1\<rparr>)"
      unfolding start row1(1) by (auto simp: compare_and_claim_def hash constantTimeEqual_iff bindA_def act_simps)
    then show ?thesis using False r(1) by simp
  next
    case good: True
    then have cl: "oc_claimId r = None" by (simp add: good_code_def)
    let ?r1 = "r\<lparr>oc_attempts := oc_attempts r + 1\<rparr>" and ?c = "w_uuid w (w_ix w)"
    obtain d2 n2 where s2: "claim_stmt (oc_id ?r1) ?c ?now d1 = Some (d2, n2)"
      using map_codes_total unfolding claim_stmt_def by blast
    have r1: "?r1 \<in> set (au_codes d1)" using row1(3) cl by simp
    have "n2 = 1" "distinct (map oc_id (au_codes d2))"
        "?r1\<lparr>oc_claimId := Some ?c, oc_claimedAt := Some ?now\<rparr> \<in> set (au_codes d2)"
      using map_codes_row [OF row1(2) r1 _ s2 [unfolded claim_stmt_def]] cl open_r(2) r(2,3) by auto
    moreover have "claimEmailCode X cfg email code purpose subject w = (Inr (r, ?c), w\<lparr>w_ix := Suc (w_ix w), w_db := d2\<rparr>)"
      using row1(1) cl good s2 q \<open>n2 = 1\<close>
      unfolding start by (simp add: compare_and_claim_def hash good_code_def constantTimeEqual_iff bindA_def act_simps)
    moreover have "\<exists>q \<in> set (au_codes d2). oc_id q = oc_id r \<and> oc_consumedAt q = None \<and> oc_claimId q = Some ?c"
      by (rule bexI [OF _ calculation(3)]) (simp add: open_r(2))
    ultimately show ?thesis using r(1) good q by simp
  qed
qed

text \<open>
  C30: when a code signs in.  Undisturbed, a sign-in answers a token exactly when the newest open code of the address has
  not expired, has attempts left and is not being used, the presented six digits hash to what it stored, and Firebase
  answers; the code is then consumed.
\<close>
theorem sign_in_iff:
  assumes "w_env w = []" and "distinct (map oc_id (au_codes (w_db w)))" and "pepper cfg = Inr s"
  shows "case verifyEmailSignInCode X cfg email code w of
      (Inr token, w') \<Rightarrow> (\<exists>r u. find_code (xs_hmac X s (''email:'' @ email)) SignIn None (w_db w) = Some r \<and>
        good_code X s code (w_now w) r \<and> xs_firebaseUser X email (''email_'' @ take 40 (oc_emailHash r)) (w_now w) = Some u \<and>
        xs_customToken X u (w_now w) = Some token \<and>
        list_ex (\<lambda>q. oc_id q = oc_id r \<and> oc_consumedAt q = Some (w_now w) \<and> oc_firebaseUid q = Some u) (au_codes (w_db w')))
    | (Inl e, w') \<Rightarrow> \<not> (\<exists>r u. find_code (xs_hmac X s (''email:'' @ email)) SignIn None (w_db w) = Some r \<and>
        good_code X s code (w_now w) r \<and> xs_firebaseUser X email (''email_'' @ take 40 (oc_emailHash r)) (w_now w) = Some u \<and>
        xs_customToken X u (w_now w) \<noteq> None)"
proof -
  obtain c w1 where claim: "claimEmailCode X cfg email code SignIn None w = (c, w1)"
    by (cases "claimEmailCode X cfg email code SignIn None w")
  note out = claim_quiet [OF assms refl, where X = X and code = code and email = email and purpose = SignIn and subject = None,
    unfolded claim]
  show ?thesis
  proof (cases c)
    case (Inl e)
    then show ?thesis using out claim by (auto simp: verifyEmailSignInCode_def bindA_def)
  next
    case (Inr p)
    obtain r ci where p: "p = (r, ci)" by (cases p)
    from out Inr p obtain q where o: "find_code (xs_hmac X s (''email:'' @ email)) SignIn None (w_db w) = Some r"
        "good_code X s code (w_now w) r" "w_env w1 = []" "w_now w1 = w_now w" "distinct (map oc_id (au_codes (w_db w1)))"
        "q \<in> set (au_codes (w_db w1))" "oc_id q = oc_id r" "oc_consumedAt q = None" "oc_claimId q = Some ci" by auto
    let ?u = "xs_firebaseUser X email (''email_'' @ take 40 (oc_emailHash r)) (w_now w)"
    define body :: "string oact" where "body = bindA (extcall (xs_firebaseUser X email (''email_'' @ take 40 (oc_emailHash r))) ''firebase'') (\<lambda>uid.
        bindA (extcall (xs_customToken X uid) ''firebase'') (\<lambda>customToken. bindA date_now (\<lambda>now.
        bindA (dbx (consume_stmt (oc_id r) ci (Some uid) now)) (\<lambda>consumed.
        if consumed \<noteq> 1 then throw InvalidEmailCodeError else ret customToken))))"
    have run: "verifyEmailSignInCode X cfg email code w = or_release (r, ci) body w1"
      using claim Inr p by (simp add: verifyEmailSignInCode_def bindA_def body_def)
    have fails: "\<exists>e w'. verifyEmailSignInCode X cfg email code w = (Inl e, w')" if "body w1 = (Inl e, w1)" for e
      using that o(3) unfolding run by (auto simp: or_release_def releaseEmailCodeClaim_def catchA_def bindA_def act_simps split: prod.split sum.split option.split)
    show ?thesis
    proof (cases ?u)
      case None
      then have "body w1 = (Inl (ExternalError ''firebase''), w1)" using o(3,4) by (simp add: body_def bindA_def act_simps)
      then show ?thesis using fails o(1) None by fastforce
    next
      case (Some u)
      show ?thesis
      proof (cases "xs_customToken X u (w_now w)")
        case None
        then have "body w1 = (Inl (ExternalError ''firebase''), w1)" using o(3,4) Some by (simp add: body_def bindA_def act_simps)
        then show ?thesis using fails o(1) None Some by fastforce
      next
        case t: (Some token)
        obtain d' n where st: "consume_stmt (oc_id q) ci (Some u) (w_now w) (w_db w1) = Some (d', n)"
          using map_codes_total unfolding consume_stmt_def by blast
        have "n = 1" "q\<lparr>oc_consumedAt := Some (w_now w), oc_firebaseUid := Some u\<rparr> \<in> set (au_codes d')"
          using map_codes_row [OF o(5,6) _ st [unfolded consume_stmt_def]] o(8,9) by auto
        moreover have "verifyEmailSignInCode X cfg email code w = (Inr token, w1\<lparr>w_db := d'\<rparr>)"
          using run o(3,4,7) Some t st \<open>n = 1\<close> by (simp add: or_release_def body_def catchA_def bindA_def act_simps)
        moreover have "list_ex (\<lambda>q. oc_id q = oc_id r \<and> oc_consumedAt q = Some (w_now w) \<and> oc_firebaseUid q = Some u) (au_codes d')"
          unfolding list_ex_iff by (rule bexI [OF _ calculation(2)]) (simp add: o(7))
        ultimately show ?thesis using o(1,2) Some t by simp
      qed
    qed
  qed
qed

subsection \<open>Instances\<close>

definition sample_auth :: auth_services where
  "sample_auth = \<lparr>xs_hmac = (\<lambda>k m. m), xs_random = (\<lambda>u k. 16000000 - k), xs_token = (\<lambda>u. replicate 43 CHR ''t''),
     xs_send = (\<lambda>t. Some ()), xs_firebaseUser = (\<lambda>e new t. Some new), xs_customToken = (\<lambda>u t. Some (''token '' @ u))\<rparr>"

definition sample_pepper :: "string option" where
  "sample_pepper = Some (replicate 32 CHR ''p'')"

definition sample_code :: code_row where
  "sample_code = \<lparr>oc_id = ''c1'', oc_emailHash = ''email:ana@example.com'', oc_codeHash = ''code:c1:email:ana@example.com:123456'',
     oc_purpose = SignIn, oc_locale = Es, oc_ipHash = ''ip:1'', oc_subjectUid = None, oc_attempts = 0, oc_maxAttempts = MAX_ATTEMPTS,
     oc_expiresAt = 600000, oc_claimId = None, oc_claimedAt = None, oc_firebaseUid = None, oc_consumedAt = None, oc_createdAt = 0\<rparr>"

definition auth_world :: "(auth_db, mail) world" where
  "auth_world = \<lparr>w_db = \<lparr>au_codes = [sample_code], au_sessions = [], au_linkChallenges = []\<rparr>, w_now = 1000, w_env = [],
     w_uuid = (\<lambda>k. ''u'' @ string_of_int (int k)), w_ix = 0, w_sent = []\<rparr>"

theorem sign_in_iff_witness:
  "\<exists>token w'. verifyEmailSignInCode sample_auth sample_pepper ''ana@example.com'' ''123456'' auth_world = (Inr token, w') \<and>
    list_ex (\<lambda>q. oc_id q = ''c1'' \<and> oc_consumedAt q = Some 1000) (au_codes (w_db w'))"
proof -
  have w: "w_env auth_world = []" "distinct (map oc_id (au_codes (w_db auth_world)))" "w_now auth_world = 1000"
    by (simp_all add: auth_world_def)
  have pep: "pepper sample_pepper = Inr (replicate 32 CHR ''p'')" by code_simp
  have found: "find_code (xs_hmac sample_auth (replicate 32 CHR ''p'') (''email:'' @ ''ana@example.com'')) SignIn None (w_db auth_world) =
      Some sample_code"
    by (simp add: find_code_def sample_auth_def auth_world_def sample_code_def open_codes_def)
  have good: "good_code sample_auth (replicate 32 CHR ''p'') ''123456'' 1000 sample_code"
    by (simp add: good_code_def sample_code_def sample_auth_def code_text_ok_def is_digit_def ccode_def MAX_ATTEMPTS_def)
  have fb: "xs_firebaseUser sample_auth e n t = Some n" "xs_customToken sample_auth u t = Some (''token '' @ u)" for e n t u
    by (simp_all add: sample_auth_def)
  obtain res w' where run: "verifyEmailSignInCode sample_auth sample_pepper ''ana@example.com'' ''123456'' auth_world = (res, w')"
    by (cases "verifyEmailSignInCode sample_auth sample_pepper ''ana@example.com'' ''123456'' auth_world")
  note out = sign_in_iff [OF w(1,2) pep, of sample_auth "''ana@example.com''" "''123456''", unfolded run w(3) found fb]
  show ?thesis
  proof (cases res)
    case (Inl e)
    then show ?thesis using out good by simp
  next
    case (Inr token)
    then have "list_ex (\<lambda>q. oc_id q = oc_id sample_code \<and> oc_consumedAt q = Some 1000) (au_codes (w_db w'))"
      using out by (auto simp: list_ex_iff)
    then show ?thesis using run Inr by (simp add: sample_code_def)
  qed
qed

definition guessing :: "auth_op list" where
  "guessing = InsertCode sample_code # replicate 7 (Reserve ''c1'' 1000) @ [Claim ''c1'' ''k'' 1000, Consume ''c1'' ''k'' None 1000,
     ReleaseClaim ''c1'' ''k'', Consume ''c1'' ''k'' None 1000]"


end
