(* ===== verification/EventScheduler.thy ===== *)
theory EventScheduler
  imports Models
begin

text \<open>
  The event scheduler of the App backend (\<^verbatim>\<open>src/server/src/services/eventScheduler.ts\<close>): a Durable Object that keeps one
  wake-up per job and partition, coalesces equivalent ones, and hands the due ones to a queue when its alarm goes
  off.  Its storage operations follow one another without another event in between; only while a batch is being sent to
  the queue can other schedule requests arrive, so the alarm is modelled as a first part, the send, and a last part.
\<close>

subsection \<open>Requests and messages\<close>

definition EVENT_JOB_NAMES :: "string list" where
  "EVENT_JOB_NAMES = [''indexer_wallet_registry'', ''reorg_replay'', ''indexer_safety_sweep'', ''indexer'', ''balance_safety_refresh'',
     ''user_operation_watcher'', ''router_watcher'', ''recovery_watcher'', ''alchemy_address_sync'', ''balance_refresh'',
     ''payment_reconciler'', ''account_operation_reconciler'', ''crosschain_relayer'', ''webhook_delivery'', ''user_event_delivery'',
     ''payments_boundary_sync'', ''webhook_key_rotation'']"

record event_request =
  er_job :: string
  er_partition :: string
  er_runAt :: int
  er_reason :: string
  er_targetBlock :: "string option"

record event_message =
  em_job :: string
  em_partition :: string
  em_generation :: int
  em_scheduledAt :: string
  em_reason :: string
  em_targetBlock :: "string option"

datatype event_state = Scheduled | Dispatching

record event_job =
  ej_request :: event_request
  ej_generation :: int
  ej_state :: event_state
  ej_dispatchAttempts :: int
  ej_createdAt :: int
  ej_updatedAt :: int

definition isEventJobName :: "json option \<Rightarrow> string option" where
  "isEventJobName value = (case value of Some (JStr s) \<Rightarrow> if s \<in> set EVENT_JOB_NAMES then Some s else None | _ \<Rightarrow> None)"

definition normalizedReason :: "json option \<Rightarrow> string option" where
  "normalizedReason value = (case value of
       Some (JStr s) \<Rightarrow> (let reason = trim s in if reason = [] \<or> 160 < length reason then None else Some reason)
     | _ \<Rightarrow> None)"

definition partition_char :: "char \<Rightarrow> bool" where
  "partition_char c \<longleftrightarrow> is_alnum c \<or> c \<in> set '':._-''"

definition normalizedPartition :: "json option \<Rightarrow> string option" where
  "normalizedPartition value = (case value of
       Some (JStr s) \<Rightarrow> (let p = trim s in
         if p = [] \<or> 180 < length p \<or> \<not> list_all partition_char p then None else Some p)
     | _ \<Rightarrow> None)"

text \<open>The pattern \<^verbatim>\<open>^(0|[1-9]\d*)$\<close>: \<open>BigInt\<close> prints such a text as it is.\<close>

definition block_text_ok :: "string \<Rightarrow> bool" where
  "block_text_ok s \<longleftrightarrow> s \<noteq> [] \<and> list_all is_digit s \<and> (hd s = CHR ''0'' \<longrightarrow> s = ''0'')"

text \<open>\<open>Some None\<close> is \<open>undefined\<close>, \<open>None\<close> is the rejected value \<open>null\<close>.\<close>

definition normalizedTargetBlock :: "json option \<Rightarrow> string option option" where
  "normalizedTargetBlock value = (case value of None \<Rightarrow> Some None
     | Some (JStr s) \<Rightarrow> if block_text_ok s then Some (Some s) else None | _ \<Rightarrow> None)"

definition parseScheduleRequest :: "json \<Rightarrow> event_request option" where
  "parseScheduleRequest value = (case value of JObj fs \<Rightarrow> (case (isEventJobName (jget fs ''job''), jget fs ''runAt'') of
       (Some job, Some (JInt runAt)) \<Rightarrow> if \<not> isSafeInteger runAt \<or> runAt < 0 then None
         else (case (normalizedReason (jget fs ''reason''), normalizedPartition (jget fs ''partition''),
             normalizedTargetBlock (jget fs ''targetBlock'')) of
           (Some reason, Some p, Some target) \<Rightarrow> Some \<lparr>er_job = job, er_partition = p, er_runAt = runAt,
             er_reason = reason, er_targetBlock = target\<rparr>
         | _ \<Rightarrow> None)
     | _ \<Rightarrow> None) | _ \<Rightarrow> None)"

definition parseEventJobMessage :: "viem \<Rightarrow> json \<Rightarrow> event_message option" where
  "parseEventJobMessage V value = (case value of JObj fs \<Rightarrow> if jget fs ''schemaVersion'' \<noteq> Some (JInt 3) then None
       else (case (isEventJobName (jget fs ''job''), jget fs ''generation'', jget fs ''scheduledAt'') of
         (Some job, Some (JInt generation), Some (JStr scheduledAt)) \<Rightarrow>
           if \<not> isSafeInteger generation \<or> generation < 1 \<or> v_dateParse V scheduledAt = None then None
           else (case (normalizedReason (jget fs ''reason''), normalizedPartition (jget fs ''partition''),
               normalizedTargetBlock (jget fs ''targetBlock'')) of
             (Some reason, Some p, Some target) \<Rightarrow> Some \<lparr>em_job = job, em_partition = p, em_generation = generation,
               em_scheduledAt = scheduledAt, em_reason = reason, em_targetBlock = target\<rparr>
           | _ \<Rightarrow> None)
       | _ \<Rightarrow> None) | _ \<Rightarrow> None)"

text \<open>\<open>isoText\<close> is the text \<open>toISOString\<close> gives a time.\<close>

definition toQueueMessage :: "(int \<Rightarrow> string) \<Rightarrow> event_job \<Rightarrow> event_message" where
  "toQueueMessage isoText j = (let r = ej_request j in \<lparr>em_job = er_job r, em_partition = er_partition r,
     em_generation = ej_generation j, em_scheduledAt = isoText (er_runAt r), em_reason = er_reason r,
     em_targetBlock = er_targetBlock r\<rparr>)"

definition message_json :: "event_message \<Rightarrow> json" where
  "message_json m = JObj ([(''schemaVersion'', JInt 3), (''job'', JStr (em_job m)), (''partition'', JStr (em_partition m)),
     (''generation'', JInt (em_generation m)), (''scheduledAt'', JStr (em_scheduledAt m)), (''reason'', JStr (em_reason m))] @
     (case em_targetBlock m of None \<Rightarrow> [] | Some t \<Rightarrow> [(''targetBlock'', JStr t)]))"

subsection \<open>Coalescing\<close>

definition block_of :: "string \<Rightarrow> nat" where
  "block_of s = digits_value s"

definition targetAdvanced :: "event_job \<Rightarrow> event_request \<Rightarrow> bool" where
  "targetAdvanced j r \<longleftrightarrow> (case (er_targetBlock r, er_targetBlock (ej_request j)) of
       (None, _) \<Rightarrow> False | (Some t, None) \<Rightarrow> True | (Some t, Some u) \<Rightarrow> block_of u < block_of t)"

definition merged_target :: "event_job option \<Rightarrow> event_request \<Rightarrow> string option" where
  "merged_target existing r = (case map_option (er_targetBlock \<circ> ej_request) existing of
       None \<Rightarrow> er_targetBlock r
     | Some None \<Rightarrow> er_targetBlock r
     | Some (Some u) \<Rightarrow> (case er_targetBlock r of None \<Rightarrow> Some u | Some t \<Rightarrow> if block_of t \<le> block_of u then Some u else Some t))"

definition mergeScheduledJob :: "event_job option \<Rightarrow> event_request \<Rightarrow> int \<Rightarrow> event_job \<times> bool" where
  "mergeScheduledJob existing r now = (
     if (case existing of None \<Rightarrow> False | Some j \<Rightarrow> ej_state j = Scheduled \<and> er_runAt (ej_request j) \<le> er_runAt r \<and> \<not> targetAdvanced j r)
     then (the existing, False)
     else (\<lparr>ej_request = r\<lparr>er_runAt := (case existing of None \<Rightarrow> er_runAt r
              | Some j \<Rightarrow> if ej_state j = Scheduled then min (er_runAt (ej_request j)) (er_runAt r) else er_runAt r),
            er_targetBlock := merged_target existing r\<rparr>,
          ej_generation = (case existing of None \<Rightarrow> 0 | Some j \<Rightarrow> ej_generation j) + 1, ej_state = Scheduled,
          ej_dispatchAttempts = (case existing of None \<Rightarrow> 0 | Some j \<Rightarrow> ej_dispatchAttempts j),
          ej_createdAt = (case existing of None \<Rightarrow> now | Some j \<Rightarrow> ej_createdAt j), ej_updatedAt = now\<rparr>, True))"

definition dispatchRetryMs :: "int \<Rightarrow> int" where
  "dispatchRetryMs attempts = min (15 * 60000) (60000 * 2 ^ nat (max 0 (min 4 (attempts - 1))))"

definition storageKey :: "event_request \<Rightarrow> string" where
  "storageKey r = ''job:'' @ er_job r @ '':'' @ er_partition r"

subsection \<open>The Durable Object\<close>

text \<open>The stored jobs in the order of their keys, in which \<open>list\<close> returns them, and the alarm.\<close>

record event_storage =
  es_jobs :: "(string \<times> event_job) list"
  es_alarm :: "int option"

fun put_event :: "string \<Rightarrow> event_job \<Rightarrow> (string \<times> event_job) list \<Rightarrow> (string \<times> event_job) list" where
  "put_event k j [] = [(k, j)]"
| "put_event k j ((k', j') # js) = (if k = k' then (k, j) # js
     else if text_compare k k' < 0 then (k, j) # (k', j') # js else (k', j') # put_event k j js)"

definition earliest :: "(string \<times> event_job) list \<Rightarrow> int option" where
  "earliest js = foldl (\<lambda>e (k, j). case e of None \<Rightarrow> Some (er_runAt (ej_request j))
     | Some t \<Rightarrow> if er_runAt (ej_request j) < t then Some (er_runAt (ej_request j)) else e) None js"

definition armEarliestJob :: "int \<Rightarrow> event_storage \<Rightarrow> event_storage" where
  "armEarliestJob now s = s\<lparr>es_alarm := map_option (max now) (earliest (es_jobs s))\<rparr>"

definition scheduleParsed :: "int \<Rightarrow> event_request \<Rightarrow> event_storage \<Rightarrow> event_job \<times> event_storage" where
  "scheduleParsed now r s = (let key = storageKey r; (j, changed) = mergeScheduledJob (map_of (es_jobs s) key) r now;
       s1 = (if changed then s\<lparr>es_jobs := put_event key j (es_jobs s)\<rparr> else s) in
     (j, if changed \<and> (case es_alarm s1 of None \<Rightarrow> True | Some a \<Rightarrow> er_runAt (ej_request j) < a)
         then s1\<lparr>es_alarm := Some (max now (er_runAt (ej_request j)))\<rparr> else s1))"

definition schedule :: "int \<Rightarrow> json \<Rightarrow> event_storage \<Rightarrow> (err + event_job) \<times> event_storage" where
  "schedule now value s = (case parseScheduleRequest value of
       None \<Rightarrow> (Inl (Thrown ''Invalid event job schedule request''), s)
     | Some r \<Rightarrow> (case scheduleParsed now r s of (j, s1) \<Rightarrow> (Inr j, s1)))"

definition by_runAt :: "string \<times> event_job \<Rightarrow> string \<times> event_job \<Rightarrow> bool" where
  "by_runAt x y \<longleftrightarrow> er_runAt (ej_request (snd x)) \<le> er_runAt (ej_request (snd y))"

fun insert_by :: "('a \<Rightarrow> 'a \<Rightarrow> bool) \<Rightarrow> 'a \<Rightarrow> 'a list \<Rightarrow> 'a list" where
  "insert_by le x [] = [x]"
| "insert_by le x (y # ys) = (if le x y then x # y # ys else y # insert_by le x ys)"

definition dueCandidates :: "int \<Rightarrow> event_storage \<Rightarrow> (string \<times> event_job) list" where
  "dueCandidates now s = foldr (insert_by by_runAt) (filter (\<lambda>(k, j). er_runAt (ej_request j) \<le> now) (es_jobs s)) []"

definition status :: "event_storage \<Rightarrow> int option \<times> event_job list" where
  "status s = (es_alarm s, map snd (foldr (insert_by by_runAt) (es_jobs s) []))"

text \<open>Marking one candidate, unless it changed meanwhile.\<close>

fun claim_due :: "int \<Rightarrow> (string \<times> event_job) list \<Rightarrow> event_storage \<Rightarrow> (string \<times> event_job) list \<times> event_storage" where
  "claim_due now [] s = ([], s)"
| "claim_due now ((k, candidate) # cs) s = (case map_of (es_jobs s) k of
       None \<Rightarrow> claim_due now cs s
     | Some current \<Rightarrow> if ej_generation current \<noteq> ej_generation candidate then claim_due now cs s
         else let j = current\<lparr>ej_state := Dispatching, ej_updatedAt := now\<rparr> in
           case claim_due now cs (s\<lparr>es_jobs := put_event k j (es_jobs s)\<rparr>) of (due, s1) \<Rightarrow> ((k, j) # due, s1))"

text \<open>The first part of \<open>alarm\<close>, which the runtime calls with the alarm unset: what is to be sent, empty when it returned.\<close>

definition alarm_start :: "int \<Rightarrow> event_storage \<Rightarrow> (string \<times> event_job) list \<times> event_storage" where
  "alarm_start now s0 = (let s = s0\<lparr>es_alarm := None\<rparr> in case claim_due now (dueCandidates now s) s of
     (due, s1) \<Rightarrow> if due = [] then ([], armEarliestJob now s1) else (due, s1))"

definition retry_event :: "int \<Rightarrow> string \<times> event_job \<Rightarrow> event_storage \<Rightarrow> event_storage" where
  "retry_event now kj s = (case kj of (k, job) \<Rightarrow> (case map_of (es_jobs s) k of None \<Rightarrow> s
     | Some current \<Rightarrow> if ej_generation current \<noteq> ej_generation job then s
         else let n = ej_dispatchAttempts current + 1; r = ej_request current in
           s\<lparr>es_jobs := put_event k (current\<lparr>ej_request := r\<lparr>er_runAt := now + dispatchRetryMs n\<rparr>, ej_state := Scheduled,
               ej_dispatchAttempts := n, ej_updatedAt := now\<rparr>) (es_jobs s)\<rparr>))"

definition delete_dispatched :: "string \<times> event_job \<Rightarrow> event_storage \<Rightarrow> event_storage" where
  "delete_dispatched kj s = (case kj of (k, dispatched) \<Rightarrow> (case map_of (es_jobs s) k of None \<Rightarrow> s
     | Some current \<Rightarrow> if ej_generation current = ej_generation dispatched
         then s\<lparr>es_jobs := filter (\<lambda>(k', j). k' \<noteq> k) (es_jobs s)\<rparr> else s))"

text \<open>
  The last part, with the jobs \<open>due\<close> of an alarm that began at \<open>began\<close>: after the batch was sent, and after there was no
  queue or sending failed.
\<close>

definition alarm_sent :: "int \<Rightarrow> (string \<times> event_job) list \<Rightarrow> event_storage \<Rightarrow> event_storage" where
  "alarm_sent now due s = armEarliestJob now (fold delete_dispatched due s)"

definition alarm_failed :: "int \<Rightarrow> int \<Rightarrow> (string \<times> event_job) list \<Rightarrow> event_storage \<Rightarrow> event_storage" where
  "alarm_failed began now due s = armEarliestJob now (fold (retry_event began) due s)"

subsection \<open>Runs\<close>

text \<open>
  A run of the object: its storage, the clock, the alarm in progress with the time it began and the jobs being sent, the
  keys with a request that no batch being sent includes, and what the queue has taken.
\<close>

record event_run =
  rn_storage :: event_storage
  rn_now :: int
  rn_inflight :: "(int \<times> (string \<times> event_job) list) option"
  rn_open :: "string set"
  rn_sent :: "event_message list"

definition inflight_keys :: "event_run \<Rightarrow> string set" where
  "inflight_keys u = (case rn_inflight u of None \<Rightarrow> {} | Some (began, due) \<Rightarrow> fst ` set due)"

definition new_run :: event_run where
  "new_run = \<lparr>rn_storage = \<lparr>es_jobs = [], es_alarm = None\<rparr>, rn_now = 0, rn_inflight = None, rn_open = {}, rn_sent = []\<rparr>"

text \<open>
  What happens to it: a request at any time, also while a batch is being sent; the alarm when it is due; the end of
  the send; and the loss of the isolate during the send, after which the runtime calls the alarm again.
\<close>

inductive event_reach :: "(int \<Rightarrow> string) \<Rightarrow> event_run \<Rightarrow> bool" for isoText where
  start: "event_reach isoText new_run"
| request: "event_reach isoText u \<Longrightarrow> rn_now u \<le> now \<Longrightarrow> parseScheduleRequest value = Some r \<Longrightarrow> scheduleParsed now r (rn_storage u) = (j, s) \<Longrightarrow>
    event_reach isoText (u\<lparr>rn_storage := s, rn_now := now, rn_open := insert (storageKey r) (rn_open u)\<rparr>)"
| alarm: "event_reach isoText u \<Longrightarrow> rn_now u \<le> now \<Longrightarrow> rn_inflight u = None \<Longrightarrow> es_alarm (rn_storage u) = Some a \<Longrightarrow> a \<le> now \<Longrightarrow>
    alarm_start now (rn_storage u) = (due, s) \<Longrightarrow>
    event_reach isoText (u\<lparr>rn_storage := s, rn_now := now, rn_inflight := (if due = [] then None else Some (now, due)),
      rn_open := rn_open u - fst ` set due\<rparr>)"
| sent: "event_reach isoText u \<Longrightarrow> rn_now u \<le> now \<Longrightarrow> rn_inflight u = Some (began, due) \<Longrightarrow>
    event_reach isoText (u\<lparr>rn_storage := alarm_sent now due (rn_storage u), rn_now := now, rn_inflight := None,
      rn_sent := rn_sent u @ map (toQueueMessage isoText \<circ> snd) due\<rparr>)"
| failed: "event_reach isoText u \<Longrightarrow> rn_now u \<le> now \<Longrightarrow> rn_inflight u = Some (began, due) \<Longrightarrow>
    event_reach isoText (u\<lparr>rn_storage := alarm_failed began now due (rn_storage u), rn_now := now, rn_inflight := None,
      rn_open := rn_open u \<union> fst ` set due\<rparr>)"
| lost: "event_reach isoText u \<Longrightarrow> rn_now u \<le> now \<Longrightarrow> rn_inflight u = Some (began, due) \<Longrightarrow>
    event_reach isoText (u\<lparr>rn_storage := (rn_storage u)\<lparr>es_alarm := Some now\<rparr>, rn_now := now, rn_inflight := None,
      rn_open := rn_open u \<union> fst ` set due\<rparr>)"

subsection \<open>No wake-up is lost\<close>

lemma map_of_put [simp]: "map_of (put_event k j js) = (map_of js)(k \<mapsto> j)"
  by (induction k j js rule: put_event.induct) auto

lemma map_of_without: "map_of (filter (\<lambda>(k', j). k' \<noteq> k) js) = (map_of js)(k := None)"
  by (induction js) auto

lemma earliest_job_le:
  assumes "(k, j) \<in> set js"
  shows "\<exists>t. earliest js = Some t \<and> t \<le> er_runAt (ej_request j)"
proof -
  let ?f = "\<lambda>e (k, j). case e of None \<Rightarrow> Some (er_runAt (ej_request j))
     | Some t \<Rightarrow> if er_runAt (ej_request j) < t then Some (er_runAt (ej_request j)) else e"
  have keep: "\<exists>t. foldl ?f (Some a) js = Some t \<and> t \<le> a" for a js
    by (induction js arbitrary: a) (force split: prod.split)+
  have "\<exists>t. foldl ?f e js = Some t \<and> t \<le> er_runAt (ej_request j)" if "(k, j) \<in> set js" for e js
    using that
  proof (induction js arbitrary: e)
    case (Cons x js)
    show ?case
    proof (cases "x = (k, j)")
      case True
      have "\<exists>a. ?f e x = Some a \<and> a \<le> er_runAt (ej_request j)" using True by (auto split: option.split)
      then obtain a where a: "?f e x = Some a" "a \<le> er_runAt (ej_request j)" by blast
      show ?thesis using keep [of a js] a by auto
    next
      case False
      then show ?thesis using Cons by simp
    qed
  qed simp
  then show ?thesis using assms by (simp add: earliest_def)
qed

definition covered_at :: "int \<Rightarrow> event_storage \<Rightarrow> bool" where
  "covered_at now s \<longleftrightarrow> (\<forall>k j. map_of (es_jobs s) k = Some j \<longrightarrow>
     (\<exists>a. es_alarm s = Some a \<and> a \<le> max now (er_runAt (ej_request j))))"

lemma arm_jobs [simp]: "es_jobs (armEarliestJob now s) = es_jobs s"
  by (simp add: armEarliestJob_def)

lemma arm_covers: "covered_at now (armEarliestJob now s)"
proof -
  have "\<exists>a. es_alarm (armEarliestJob now s) = Some a \<and> a \<le> max now (er_runAt (ej_request j))"
    if "map_of (es_jobs s) k = Some j" for k j
    using earliest_job_le [OF map_of_SomeD [OF that]] by (auto simp: armEarliestJob_def)
  then show ?thesis by (simp add: covered_at_def)
qed

lemma covered_later:
  assumes "covered_at now s" and "now \<le> now'"
  shows "covered_at now' s"
  unfolding covered_at_def
proof (intro allI impI)
  fix k j assume "map_of (es_jobs s) k = Some j"
  then obtain a where "es_alarm s = Some a" "a \<le> max now (er_runAt (ej_request j))"
    using assms(1) unfolding covered_at_def by blast
  then show "\<exists>a. es_alarm s = Some a \<and> a \<le> max now' (er_runAt (ej_request j))" using assms(2) by auto
qed

text \<open>What a request does to the stored jobs: its own key keeps an equivalent job, or gets the next generation.\<close>

lemma scheduleParsed_jobs:
  assumes "scheduleParsed now r s = (j, s1)"
  shows "(map_of (es_jobs s) (storageKey r) = Some j \<and> ej_state j = Scheduled \<and> s1 = s) \<or>
    map_of (es_jobs s1) = (map_of (es_jobs s))(storageKey r \<mapsto> j) \<and> ej_state j = Scheduled \<and>
    ej_generation j = (case map_of (es_jobs s) (storageKey r) of None \<Rightarrow> 0 | Some i \<Rightarrow> ej_generation i) + 1 \<and>
    (\<exists>a. es_alarm s1 = Some a \<and> (es_alarm s1 = es_alarm s \<and> a \<le> er_runAt (ej_request j) \<or>
       a = max now (er_runAt (ej_request j)) \<and> (\<forall>b. es_alarm s = Some b \<longrightarrow> er_runAt (ej_request j) < b)))"
proof -
  obtain i c where m: "mergeScheduledJob (map_of (es_jobs s) (storageKey r)) r now = (i, c)"
    by (cases "mergeScheduledJob (map_of (es_jobs s) (storageKey r)) r now")
  show ?thesis
  proof (cases c)
    case True
    then have "ej_state i = Scheduled" "ej_generation i = (case map_of (es_jobs s) (storageKey r) of None \<Rightarrow> 0 | Some i \<Rightarrow> ej_generation i) + 1"
      using m by (auto simp: mergeScheduledJob_def split: if_splits)
    then show ?thesis using assms m True
      by (auto simp: scheduleParsed_def Let_def split: if_splits option.splits)
  next
    case False
    then show ?thesis using assms m
      by (auto simp: scheduleParsed_def mergeScheduledJob_def Let_def split: if_splits option.splits)
  qed
qed

lemma request_covers:
  assumes "scheduleParsed now r s = (j, s1)" and "covered_at now s"
  shows "covered_at now s1"
  using scheduleParsed_jobs [OF assms(1)] assms(2)
  unfolding covered_at_def by (fastforce split: if_splits)

text \<open>What the parts of the alarm do to the generations of the stored jobs.\<close>

definition generation_of :: "event_storage \<Rightarrow> string \<Rightarrow> int option" where
  "generation_of s k = map_option ej_generation (map_of (es_jobs s) k)"

definition dispatching_at :: "event_storage \<Rightarrow> string \<Rightarrow> bool" where
  "dispatching_at s k \<longleftrightarrow> (\<exists>c. map_of (es_jobs s) k = Some c \<and> ej_state c = Dispatching)"

lemma generation_dom: "dom (generation_of s) = dom (map_of (es_jobs s))"
  by (auto simp: generation_of_def dom_def simp del: map_of_eq_Some_iff)

lemma claim_due_step:
  assumes "claim_due now ((k, candidate) # cs) s = (due, s1)"
    and c: "map_of (es_jobs s) k = Some c" "ej_generation c = ej_generation candidate"
    and t: "claim_due now cs (s\<lparr>es_jobs := put_event k (c\<lparr>ej_state := Dispatching, ej_updatedAt := now\<rparr>) (es_jobs s)\<rparr>) = (rest, t)"
  shows "due = (k, c\<lparr>ej_state := Dispatching, ej_updatedAt := now\<rparr>) # rest" and "s1 = t"
  using assms(1) unfolding claim_due.simps c option.case Let_def t prod.case by simp_all

definition marks :: "event_storage \<Rightarrow> (string \<times> event_job) list \<Rightarrow> event_storage \<Rightarrow> bool" where
  "marks s due s1 \<longleftrightarrow> generation_of s1 = generation_of s \<and> (\<forall>k. dispatching_at s k \<longrightarrow> dispatching_at s1 k) \<and>
     (\<forall>(k, j) \<in> set due. generation_of s1 k = Some (ej_generation j) \<and> dispatching_at s1 k)"

lemma marks_step:
  assumes c: "map_of (es_jobs s) k = Some c" and j: "j = c\<lparr>ej_state := Dispatching, ej_updatedAt := now\<rparr>"
    and m: "marks (s\<lparr>es_jobs := put_event k j (es_jobs s)\<rparr>) due s1"
  shows "marks s ((k, j) # due) s1"
proof -
  define s' where "s' = s\<lparr>es_jobs := put_event k j (es_jobs s)\<rparr>"
  have jobs: "map_of (es_jobs s') = (map_of (es_jobs s))(k \<mapsto> j)" by (simp add: s'_def)
  have g: "generation_of s' = generation_of s"
    unfolding generation_of_def jobs using c by (simp add: j fun_eq_iff)
  have d: "dispatching_at s' k" "\<And>i. dispatching_at s i \<Longrightarrow> dispatching_at s' i"
    unfolding dispatching_at_def jobs by (simp_all add: j)
  have "generation_of s k = Some (ej_generation j)" using c by (simp add: generation_of_def j)
  then show ?thesis using m [folded s'_def] g d by (auto simp: marks_def)
qed

lemma claim_due_marks: "claim_due now cs s = (due, s1) \<Longrightarrow> marks s due s1"
proof (induction now cs s arbitrary: due s1 rule: claim_due.induct)
  case (1 now s)
  then show ?case by (simp add: marks_def)
next
  case (2 now k candidate cs s)
  show ?case
  proof (cases "map_of (es_jobs s) k")
    case None
    then show ?thesis using "2.IH"(1) "2.prems" by (simp del: map_of_eq_None_iff)
  next
    case c: (Some c)
    show ?thesis
    proof (cases "ej_generation c = ej_generation candidate")
      case False
      then show ?thesis using "2.IH"(2) [OF c] "2.prems" c by (simp del: map_of_eq_Some_iff)
    next
      case True
      define j where "j = c\<lparr>ej_state := Dispatching, ej_updatedAt := now\<rparr>"
      define s' where "s' = s\<lparr>es_jobs := put_event k j (es_jobs s)\<rparr>"
      obtain rest t where t: "claim_due now cs s' = (rest, t)" by (cases "claim_due now cs s'")
      note due = claim_due_step [OF "2.prems" c True t [unfolded s'_def j_def]]
      have "\<not> ej_generation c \<noteq> ej_generation candidate" using True by simp
      then have "marks s' rest t" using "2.IH"(3) [OF c _ j_def] t by (simp add: s'_def)
      then show ?thesis using marks_step [OF c j_def] due by (simp add: s'_def j_def)
    qed
  qed
qed

lemma retry_keeps: "generation_of (retry_event now kj s) = generation_of s"
  by (cases kj) (auto simp: retry_event_def generation_of_def Let_def fun_eq_iff split: option.splits simp del: map_of_eq_Some_iff)

lemma retries_keep: "generation_of (fold (retry_event now) due s) = generation_of s"
  by (induction due arbitrary: s) (simp_all add: retry_keeps)

lemma delete_keeps:
  assumes "generation_of s k = Some g" and "\<And>j. kj = (k, j) \<Longrightarrow> ej_generation j < g"
  shows "generation_of (delete_dispatched kj s) k = Some g"
  using assms by (cases kj) (auto simp: delete_dispatched_def generation_of_def map_of_without split: option.splits simp del: map_of_eq_Some_iff)

lemma deletes_keep:
  assumes "generation_of s k = Some g" and "\<And>j. (k, j) \<in> set due \<Longrightarrow> ej_generation j < g"
  shows "generation_of (fold delete_dispatched due s) k = Some g"
  using assms
proof (induction due arbitrary: s)
  case (Cons kj due)
  have "generation_of (delete_dispatched kj s) k = Some g"
    using Cons.prems by (intro delete_keeps) auto
  then show ?case using Cons.IH Cons.prems(2) by simp
qed simp

lemma arm_generation [simp]: "generation_of (armEarliestJob now s) = generation_of s"
  by (simp add: generation_of_def fun_eq_iff)

text \<open>
  The invariant of a run: every request that waits and every job being sent has its stored job; while a batch is being
  sent, a job in it that was requested again has a later generation, and the others are the ones marked.
\<close>

definition sending_at :: "string set \<Rightarrow> event_storage \<Rightarrow> string \<Rightarrow> event_job \<Rightarrow> bool" where
  "sending_at opn s k j \<longleftrightarrow> (\<exists>g. generation_of s k = Some g \<and>
     (if k \<in> opn then ej_generation j < g else g = ej_generation j \<and> dispatching_at s k))"

definition wakeups_kept :: "event_run \<Rightarrow> bool" where
  "wakeups_kept u \<longleftrightarrow> rn_open u \<union> inflight_keys u \<subseteq> dom (generation_of (rn_storage u)) \<and>
     (case rn_inflight u of None \<Rightarrow> covered_at (rn_now u) (rn_storage u)
      | Some (began, due) \<Rightarrow> \<forall>(k, j) \<in> set due. sending_at (rn_open u) (rn_storage u) k j)"

lemma request_generation:
  assumes "scheduleParsed now r s = (j, s1)"
  shows "\<exists>g. generation_of s1 (storageKey r) = Some g \<and> (\<forall>i. generation_of s (storageKey r) = Some i \<longrightarrow> i \<le> g) \<and>
      (dispatching_at s (storageKey r) \<longrightarrow> generation_of s (storageKey r) \<noteq> Some g)"
    and "k \<noteq> storageKey r \<Longrightarrow> generation_of s1 k = generation_of s k \<and> (dispatching_at s1 k \<longleftrightarrow> dispatching_at s k)"
  using scheduleParsed_jobs [OF assms]
  by (auto simp: generation_of_def dispatching_at_def simp del: map_of_eq_Some_iff)

lemma request_dom:
  assumes "scheduleParsed now r s = (j, s1)"
  shows "dom (generation_of s1) = insert (storageKey r) (dom (generation_of s))"
proof -
  have "k \<in> dom (generation_of s1) \<longleftrightarrow> k \<in> insert (storageKey r) (dom (generation_of s))" for k
    using request_generation(1) [OF assms] request_generation(2) [OF assms, of k] by (cases "k = storageKey r") (auto simp: dom_def)
  then show ?thesis by blast
qed

lemma request_sending:
  assumes "scheduleParsed now r s = (j, s1)" and "sending_at opn s k i"
  shows "sending_at (insert (storageKey r) opn) s1 k i"
proof (cases "k = storageKey r")
  case False
  then have "generation_of s1 k = generation_of s k" "dispatching_at s1 k = dispatching_at s k"
    using request_generation(2) [OF assms(1) False] by auto
  then show ?thesis using assms(2) False unfolding sending_at_def by (cases "k \<in> opn") simp_all
next
  case True
  obtain g where g: "generation_of s1 k = Some g" "\<forall>i. generation_of s k = Some i \<longrightarrow> i \<le> g"
      "dispatching_at s k \<longrightarrow> generation_of s k \<noteq> Some g"
    using request_generation(1) [OF assms(1)] True by blast
  obtain h where h: "generation_of s k = Some h" "if k \<in> opn then ej_generation i < h else h = ej_generation i \<and> dispatching_at s k"
    using assms(2) unfolding sending_at_def by blast
  have "ej_generation i < g" using g h by (cases "k \<in> opn") fastforce+
  then show ?thesis using g(1) True by (simp add: sending_at_def)
qed

lemma alarm_start_cases:
  assumes "alarm_start now s0 = (due, s)"
  shows "generation_of s = generation_of s0" and "due = [] \<Longrightarrow> covered_at now s"
    and "(k, j) \<in> set due \<Longrightarrow> generation_of s k = Some (ej_generation j) \<and> dispatching_at s k"
proof -
  define s' where "s' = s0\<lparr>es_alarm := None\<rparr>"
  obtain d s1 where c: "claim_due now (dueCandidates now s') s' = (d, s1)"
    by (cases "claim_due now (dueCandidates now s') s'")
  have r: "d = due \<and> s = (if due = [] then armEarliestJob now s1 else s1)"
    using assms c by (auto simp: alarm_start_def s'_def Let_def split: if_splits)
  have "generation_of s' = generation_of s0" by (simp add: s'_def generation_of_def fun_eq_iff)
  then show "generation_of s = generation_of s0" using claim_due_marks [OF c] r by (simp add: marks_def)
  show "due = [] \<Longrightarrow> covered_at now s" using r arm_covers by simp
  show "(k, j) \<in> set due \<Longrightarrow> generation_of s k = Some (ej_generation j) \<and> dispatching_at s k"
    using claim_due_marks [OF c] r by (auto simp: marks_def split: if_splits)
qed

lemma run_keeps_wakeups:
  assumes "event_reach isoText u"
  shows "wakeups_kept u"
  using assms
proof induction
  case start
  then show ?case by (simp add: wakeups_kept_def new_run_def inflight_keys_def covered_at_def)
next
  case (request u now val r j s)
  note g = request_generation [OF request.hyps(4)] and d = request_dom [OF request.hyps(4)]
  show ?case
  proof (cases "rn_inflight u")
    case None
    have "covered_at now s"
      using request_covers [OF request.hyps(4)] covered_later request.IH request.hyps(2) None
      by (auto simp: wakeups_kept_def)
    then show ?thesis
      using None d request.IH by (auto simp: wakeups_kept_def inflight_keys_def)
  next
    case (Some bd)
    obtain began due where bd: "bd = (began, due)" by (cases bd)
    have "sending_at (insert (storageKey r) (rn_open u)) s k i" if "(k, i) \<in> set due" for k i
    proof -
      have "sending_at (rn_open u) (rn_storage u) k i"
        using request.IH that Some bd unfolding wakeups_kept_def by auto
      then show ?thesis by (rule request_sending [OF request.hyps(4)])
    qed
    moreover have "insert (storageKey r) (rn_open u) \<union> fst ` set due \<subseteq> dom (generation_of s)"
      using request.IH d Some bd by (auto simp: wakeups_kept_def inflight_keys_def)
    ultimately show ?thesis using Some bd by (auto simp: wakeups_kept_def inflight_keys_def)
  qed
next
  case (alarm u now a due s)
  note c = alarm_start_cases [OF alarm.hyps(6)]
  show ?case
  proof (cases "due = []")
    case True
    then show ?thesis using alarm.IH c alarm.hyps(3) by (simp add: wakeups_kept_def inflight_keys_def)
  next
    case False
    have "sending_at (rn_open u - fst ` set due) s k j" if "(k, j) \<in> set due" for k j
      using c(3) [OF that] that by (force simp: sending_at_def)
    moreover have "fst ` set due \<subseteq> dom (generation_of s)" using c(3) by force
    ultimately show ?thesis
      using alarm.IH c(1) False by (auto simp: wakeups_kept_def inflight_keys_def)
  qed
next
  case (sent u now began due)
  have "k \<in> dom (generation_of (alarm_sent now due (rn_storage u)))" if k: "k \<in> rn_open u" for k
  proof -
    obtain g where g: "generation_of (rn_storage u) k = Some g"
      using sent.IH k by (auto simp: wakeups_kept_def)
    have "ej_generation j < g" if "(k, j) \<in> set due" for j
    proof -
      have "sending_at (rn_open u) (rn_storage u) k j"
        using sent.IH sent.hyps(3) that unfolding wakeups_kept_def by auto
      then show ?thesis using k g by (simp add: sending_at_def)
    qed
    then show ?thesis using deletes_keep [OF g] by (simp add: alarm_sent_def dom_def)
  qed
  then show ?case by (auto simp: wakeups_kept_def inflight_keys_def alarm_sent_def arm_covers)
next
  case (failed u now began due)
  then show ?case
    by (auto simp: wakeups_kept_def inflight_keys_def alarm_failed_def arm_covers retries_keep)
next
  case (lost u now began due)
  have "generation_of ((rn_storage u)\<lparr>es_alarm := Some now\<rparr>) = generation_of (rn_storage u)"
    by (simp add: generation_of_def fun_eq_iff)
  moreover have "covered_at now ((rn_storage u)\<lparr>es_alarm := Some now\<rparr>)" by (simp add: covered_at_def)
  ultimately show ?case using lost by (auto simp: wakeups_kept_def inflight_keys_def)
qed

text \<open>
  C25: The event scheduler loses no wake-up.  Whatever requests arrive, also while a batch is being sent, and whether sending
  succeeds, fails, or is cut off: a requested job that no batch being sent includes, and every job of that batch,
  is stored; and when no alarm runs, an alarm is set no later than the time of each stored job, or now when that has passed.
\<close>

theorem no_wakeup_lost:
  assumes "event_reach isoText u"
  shows "rn_open u \<union> inflight_keys u \<subseteq> dom (map_of (es_jobs (rn_storage u))) \<and>
    (rn_inflight u = None \<longrightarrow> (\<forall>k j. map_of (es_jobs (rn_storage u)) k = Some j \<longrightarrow>
       (\<exists>a. es_alarm (rn_storage u) = Some a \<and> a \<le> max (rn_now u) (er_runAt (ej_request j)))))"
  using run_keeps_wakeups [OF assms]
  by (auto simp: wakeups_kept_def generation_dom covered_at_def simp del: map_of_eq_Some_iff split: option.splits)

text \<open>A run in which the same job is requested again while its first message is being sent.\<close>

definition sample_event :: event_request where
  "sample_event = \<lparr>er_job = ''indexer'', er_partition = ''global'', er_runAt = 5, er_reason = ''new block'', er_targetBlock = Some ''9''\<rparr>"

definition sample_run :: event_run where
  "sample_run = (let s1 = snd (scheduleParsed 1 sample_event (rn_storage new_run)); (due, s2) = alarm_start 6 s1;
     s3 = snd (scheduleParsed 7 (sample_event\<lparr>er_targetBlock := Some ''10''\<rparr>) s2) in
     \<lparr>rn_storage = alarm_sent 8 due s3, rn_now = 8, rn_inflight = None, rn_open = {storageKey sample_event},
      rn_sent = map (toQueueMessage (\<lambda>_. ''1970'') \<circ> snd) due\<rparr>)"

definition sample_value :: "string \<Rightarrow> json" where
  "sample_value target = JObj [(''job'', JStr ''indexer''), (''partition'', JStr ''global''), (''runAt'', JInt 5),
     (''reason'', JStr ''new block''), (''targetBlock'', JStr target)]"

lemma sample_value_parses:
  "parseScheduleRequest (sample_value ''9'') = Some sample_event"
  "parseScheduleRequest (sample_value ''10'') = Some (sample_event\<lparr>er_targetBlock := Some ''10''\<rparr>)"
  by code_simp+

lemma sample_key [simp]: "storageKey (r\<lparr>er_targetBlock := t\<rparr>) = storageKey r"
  by (simp add: storageKey_def)

lemma sample_run_reach: "event_reach (\<lambda>_. ''1970'') sample_run"
proof -
  obtain j1 s1 where 1: "scheduleParsed 1 sample_event (rn_storage new_run) = (j1, s1)" by fastforce
  obtain due s2 where 2: "alarm_start 6 s1 = (due, s2)" by fastforce
  define r2 where "r2 = sample_event\<lparr>er_targetBlock := Some ''10''\<rparr>"
  obtain j3 s3 where 3: "scheduleParsed 7 r2 s2 = (j3, s3)" by fastforce
  have a: "es_alarm s1 = Some 5"
    using 1 by (auto simp: scheduleParsed_def mergeScheduledJob_def new_run_def sample_event_def Let_def)
  have "fst ` set (fst (alarm_start 6 (snd (scheduleParsed 1 sample_event (rn_storage new_run))))) = {storageKey sample_event}"
    by code_simp
  then have keys: "fst ` set due = {storageKey sample_event}" using 1 2 by simp
  then have due: "due \<noteq> []" by auto
  define u1 where "u1 = new_run\<lparr>rn_storage := s1, rn_now := 1, rn_open := insert (storageKey sample_event) (rn_open new_run)\<rparr>"
  have r1: "event_reach (\<lambda>_. ''1970'') u1"
    unfolding u1_def by (rule event_reach.request [OF event_reach.start _ sample_value_parses(1) 1]) (simp add: new_run_def)
  define u2 where "u2 = u1\<lparr>rn_storage := s2, rn_now := 6, rn_inflight := (if due = [] then None else Some (6, due)),
      rn_open := rn_open u1 - fst ` set due\<rparr>"
  have r2: "event_reach (\<lambda>_. ''1970'') u2"
    unfolding u2_def by (rule event_reach.alarm [OF r1, where a = 5]) (simp_all add: u1_def new_run_def a 2)
  define u3 where "u3 = u2\<lparr>rn_storage := s3, rn_now := 7, rn_open := insert (storageKey r2) (rn_open u2)\<rparr>"
  have r3: "event_reach (\<lambda>_. ''1970'') u3"
    unfolding u3_def by (rule event_reach.request [OF r2 _ sample_value_parses(2) [folded r2_def]]) (simp_all add: u2_def 3)
  have "event_reach (\<lambda>_. ''1970'') (u3\<lparr>rn_storage := alarm_sent 8 due (rn_storage u3), rn_now := 8, rn_inflight := None,
      rn_sent := rn_sent u3 @ map (toQueueMessage (\<lambda>_. ''1970'') \<circ> snd) due\<rparr>)"
    by (rule event_reach.sent [OF r3]) (simp_all add: u3_def u2_def due)
  moreover have "sample_run = \<lparr>rn_storage = alarm_sent 8 due s3, rn_now = 8, rn_inflight = None, rn_open = {storageKey sample_event},
      rn_sent = map (toQueueMessage (\<lambda>_. ''1970'') \<circ> snd) due\<rparr>"
    by (simp only: sample_run_def Let_def 1 2 3 [unfolded r2_def] prod.case snd_conv)
  ultimately show ?thesis
    using keys by (simp add: u3_def u2_def u1_def new_run_def r2_def)
qed

theorem no_wakeup_lost_witness:
  "rn_inflight sample_run = None \<and> rn_open sample_run = {storageKey sample_event} \<and>
   storageKey sample_event \<in> dom (map_of (es_jobs (rn_storage sample_run)))"
  using no_wakeup_lost [OF sample_run_reach] by (simp add: sample_run_def Let_def split: prod.splits)

end
