(* ===== verification/EventMessages.thy ===== *)
theory EventMessages
  imports EventScheduler
begin

text \<open>
  The producers' side of the event scheduler (\<open>scheduleEventJob\<close> of \<^verbatim>\<open>src/server/src/services/eventScheduler.ts\<close>), and what the
  two parsers make of the requests and messages that the code itself builds.
\<close>

subsection \<open>Asking for a job\<close>

record event_options =
  so_runAt :: "int option"
  so_delayMs :: "int option"
  so_reason :: string
  so_partition :: "string option"
  so_targetBlock :: "string option"

record event_env =
  ee_CHAIN_KEY :: "string option"
  ee_EVENT_JOB_SCHEDULER :: bool
  ee_SCHEDULED_JOBS_QUEUE :: bool

datatype event_call =
    Invalid_options
  | Call_scheduler string event_request
  | Send_message event_message int
  | Unavailable

definition event_runAt :: "int \<Rightarrow> event_options \<Rightarrow> int" where
  "event_runAt now opts = max now (case so_runAt opts of Some t \<Rightarrow> t
     | None \<Rightarrow> now + (case so_delayMs opts of None \<Rightarrow> 0 | Some d \<Rightarrow> d))"

definition event_partition :: "event_env \<Rightarrow> event_options \<Rightarrow> string option" where
  "event_partition env opts = (case normalizedPartition (Some (JStr (case so_partition opts of None \<Rightarrow> ''global'' | Some p \<Rightarrow> p))) of
       None \<Rightarrow> None
     | Some raw \<Rightarrow> (case ee_CHAIN_KEY env of
           None \<Rightarrow> Some raw
         | Some chain \<Rightarrow> if chain = [] then Some raw
             else normalizedPartition (Some (JStr (''chain:'' @ chain @ '':'' @ raw)))))"

text \<open>The longest delay of a queue is 12 hours; times are in milliseconds.\<close>

definition fallback_delay :: "int \<Rightarrow> int \<Rightarrow> int" where
  "fallback_delay now runAt = min (12 * 60 * 60) (max 0 ((runAt - now + 999) div 1000))"

definition first_job :: "int \<Rightarrow> event_request \<Rightarrow> event_job" where
  "first_job now r = \<lparr>ej_request = r, ej_generation = 1, ej_state = Scheduled, ej_dispatchAttempts = 0, ej_createdAt = now, ej_updatedAt = now\<rparr>"

definition scheduleEventJob :: "(int \<Rightarrow> string) \<Rightarrow> event_env \<Rightarrow> int \<Rightarrow> string \<Rightarrow> event_options \<Rightarrow> event_call" where
  "scheduleEventJob isoText env now job opts = (
     case (normalizedReason (Some (JStr (so_reason opts))), event_partition env opts,
         normalizedTargetBlock (map_option JStr (so_targetBlock opts))) of
       (Some reason, Some p, Some target) \<Rightarrow> (
         let r = \<lparr>er_job = job, er_partition = p, er_runAt = event_runAt now opts, er_reason = reason, er_targetBlock = target\<rparr> in
         if ee_EVENT_JOB_SCHEDULER env then Call_scheduler (job @ '':'' @ p) r
         else if ee_SCHEDULED_JOBS_QUEUE env
           then Send_message (toQueueMessage isoText (first_job now r)) (fallback_delay now (er_runAt r))
         else Unavailable)
     | _ \<Rightarrow> Invalid_options)"

definition request_json :: "event_request \<Rightarrow> json" where
  "request_json r = JObj ([(''job'', JStr (er_job r)), (''partition'', JStr (er_partition r)), (''runAt'', JInt (er_runAt r)),
     (''reason'', JStr (er_reason r))] @ (case er_targetBlock r of None \<Rightarrow> [] | Some t \<Rightarrow> [(''targetBlock'', JStr t)]))"

subsection \<open>What the parsers keep\<close>

text \<open>The texts of a request that the parsers return as they are.\<close>

definition texts_ok :: "string \<Rightarrow> string \<Rightarrow> string \<Rightarrow> string option \<Rightarrow> bool" where
  "texts_ok job p reason target \<longleftrightarrow> job \<in> set EVENT_JOB_NAMES \<and> normalizedPartition (Some (JStr p)) = Some p \<and>
     normalizedReason (Some (JStr reason)) = Some reason \<and> normalizedTargetBlock (map_option JStr target) = Some target"

lemma normalizedReason_again:
  assumes "normalizedReason v = Some s"
  shows "normalizedReason (Some (JStr s)) = Some s"
  using assms by (auto simp: normalizedReason_def Let_def split: option.splits json.splits if_splits)

lemma normalizedPartition_again:
  assumes "normalizedPartition v = Some s"
  shows "normalizedPartition (Some (JStr s)) = Some s"
  using assms by (auto simp: normalizedPartition_def Let_def split: option.splits json.splits if_splits)

lemma normalizedTargetBlock_again:
  assumes "normalizedTargetBlock v = Some t"
  shows "normalizedTargetBlock (map_option JStr t) = Some t"
  using assms by (auto simp: normalizedTargetBlock_def split: option.splits json.splits if_splits)

lemma parsed_texts_ok:
  assumes "parseScheduleRequest v = Some r"
  shows "texts_ok (er_job r) (er_partition r) (er_reason r) (er_targetBlock r)"
  using assms
  by (auto simp: parseScheduleRequest_def texts_ok_def isEventJobName_def split: option.splits json.splits if_splits
      intro: normalizedReason_again normalizedPartition_again normalizedTargetBlock_again)

lemma request_parses:
  assumes "texts_ok (er_job r) (er_partition r) (er_reason r) (er_targetBlock r)"
    and "0 \<le> er_runAt r" and "isSafeInteger (er_runAt r)"
  shows "parseScheduleRequest (request_json r) = Some r"
  using assms
  by (cases "er_targetBlock r") (simp_all add: parseScheduleRequest_def request_json_def texts_ok_def isEventJobName_def jget_def)

lemma message_parses:
  assumes "texts_ok (em_job m) (em_partition m) (em_reason m) (em_targetBlock m)"
    and "1 \<le> em_generation m" and "isSafeInteger (em_generation m)" and "v_dateParse V (em_scheduledAt m) \<noteq> None"
  shows "parseEventJobMessage V (message_json m) = Some m"
  using assms
  by (cases "em_targetBlock m") (simp_all add: parseEventJobMessage_def message_json_def texts_ok_def isEventJobName_def jget_def)

subsection \<open>A request is served\<close>

lemma call_texts:
  assumes "scheduleEventJob isoText env now job opts = Call_scheduler name r" and "job \<in> set EVENT_JOB_NAMES"
  shows "texts_ok (er_job r) (er_partition r) (er_reason r) (er_targetBlock r)" and "now \<le> er_runAt r"
    and "''job:'' @ name = storageKey r"
proof -
  have "\<exists>v. normalizedPartition v = Some p" if "event_partition env opts = Some p" for p
    using that by (auto simp: event_partition_def split: option.splits if_splits)
  then show "texts_ok (er_job r) (er_partition r) (er_reason r) (er_targetBlock r)"
    using assms
    by (auto simp: scheduleEventJob_def texts_ok_def Let_def split: option.splits if_splits
        intro: normalizedReason_again normalizedTargetBlock_again normalizedPartition_again)
  show "now \<le> er_runAt r" "''job:'' @ name = storageKey r"
    using assms by (auto simp: scheduleEventJob_def event_runAt_def storageKey_def Let_def split: option.splits if_splits)
qed

lemma merge_serves:
  assumes "mergeScheduledJob existing r now = (j, c)"
  shows "ej_state j = Scheduled" and "er_runAt (ej_request j) \<le> er_runAt r"
    and "er_targetBlock r = Some t \<Longrightarrow> \<exists>u. er_targetBlock (ej_request j) = Some u \<and> block_of t \<le> block_of u"
    and "c \<or> existing = Some j"
  using assms
  by (auto simp: mergeScheduledJob_def merged_target_def targetAdvanced_def split: if_splits option.splits)

text \<open>
  C26: A job asked for with \<open>scheduleEventJob\<close> is accepted and served.  The request it sends to the object it names passes that object's
  parser unchanged; and then the stored job, a new one or one the request was merged into, is scheduled, no later than asked and
  for a block at least as high.
\<close>

theorem asked_job_scheduled:
  assumes "scheduleEventJob isoText env now job opts = Call_scheduler name r" and "job \<in> set EVENT_JOB_NAMES"
    and "0 \<le> now" and "isSafeInteger (er_runAt r)"
  shows "\<exists>j s1. schedule later (request_json r) s = (Inr j, s1) \<and> map_of (es_jobs s1) (''job:'' @ name) = Some j \<and>
    ej_state j = Scheduled \<and> er_runAt (ej_request j) \<le> er_runAt r \<and>
    (\<forall>t. er_targetBlock r = Some t \<longrightarrow> (\<exists>u. er_targetBlock (ej_request j) = Some u \<and> block_of t \<le> block_of u))"
proof -
  note c = call_texts [OF assms(1,2)]
  obtain j ch where m: "mergeScheduledJob (map_of (es_jobs s) (storageKey r)) r later = (j, ch)" by fastforce
  have "parseScheduleRequest (request_json r) = Some r" using request_parses [OF c(1)] c(2) assms(3,4) by simp
  then obtain s1 where s1: "schedule later (request_json r) s = (Inr j, s1)" "scheduleParsed later r s = (j, s1)"
    using m by (auto simp: schedule_def scheduleParsed_def Let_def)
  have "map_of (es_jobs s1) (storageKey r) = Some j" using scheduleParsed_jobs [OF s1(2)] by auto
  then show ?thesis using s1(1) merge_serves(1-3) [OF m] c(3) by metis
qed

definition sample_options :: event_options where
  "sample_options = \<lparr>so_runAt = None, so_delayMs = Some 3, so_reason = '' new block '', so_partition = None, so_targetBlock = Some ''9''\<rparr>"

definition sample_event_env :: event_env where
  "sample_event_env = \<lparr>ee_CHAIN_KEY = Some ''base'', ee_EVENT_JOB_SCHEDULER = True, ee_SCHEDULED_JOBS_QUEUE = True\<rparr>"

lemma sample_call:
  "scheduleEventJob (\<lambda>_. ''1970'') sample_event_env 2 ''indexer'' sample_options =
    Call_scheduler ''indexer:chain:base:global'' (sample_event\<lparr>er_partition := ''chain:base:global''\<rparr>)"
  by code_simp

theorem asked_job_scheduled_witness:
  "\<exists>j s1. schedule 2 (request_json (sample_event\<lparr>er_partition := ''chain:base:global''\<rparr>)) (rn_storage new_run) = (Inr j, s1) \<and>
    map_of (es_jobs s1) ''job:indexer:chain:base:global'' = Some j \<and> er_runAt (ej_request j) \<le> 5"
  using asked_job_scheduled [OF sample_call, of 2 "rn_storage new_run"]
  by (auto simp: EVENT_JOB_NAMES_def isSafeInteger_def MAX_SAFE_INTEGER_def sample_event_def)

subsection \<open>A message is understood\<close>

definition job_ok :: "event_job \<Rightarrow> bool" where
  "job_ok j \<longleftrightarrow> texts_ok (er_job (ej_request j)) (er_partition (ej_request j)) (er_reason (ej_request j)) (er_targetBlock (ej_request j)) \<and>
     1 \<le> ej_generation j"

definition jobs_ok :: "(string \<times> event_job) list \<Rightarrow> bool" where
  "jobs_ok js \<longleftrightarrow> (\<forall>(k, j) \<in> set js. job_ok j)"

lemma jobs_ok_lookup: "jobs_ok js \<Longrightarrow> map_of js k = Some j \<Longrightarrow> job_ok j"
  by (auto simp: jobs_ok_def dest: map_of_SomeD)

lemma set_put: "set (put_event k j js) \<subseteq> insert (k, j) (set js)"
  by (induction k j js rule: put_event.induct) auto

lemma jobs_ok_put: "jobs_ok js \<Longrightarrow> job_ok j \<Longrightarrow> jobs_ok (put_event k j js)"
  using set_put [of k j js] by (auto simp: jobs_ok_def)

lemma merge_job_ok:
  assumes "mergeScheduledJob existing r now = (j, c)" and "\<And>i. existing = Some i \<Longrightarrow> job_ok i"
    and "texts_ok (er_job r) (er_partition r) (er_reason r) (er_targetBlock r)"
  shows "job_ok j"
  using assms
  by (auto simp: mergeScheduledJob_def merged_target_def job_ok_def texts_ok_def split: if_splits option.splits)

lemma request_jobs_ok:
  assumes "scheduleParsed now r s = (j, s1)" and "jobs_ok (es_jobs s)"
    and "texts_ok (er_job r) (er_partition r) (er_reason r) (er_targetBlock r)"
  shows "jobs_ok (es_jobs s1)"
proof -
  obtain i c where m: "mergeScheduledJob (map_of (es_jobs s) (storageKey r)) r now = (i, c)" by fastforce
  have "job_ok i" using merge_job_ok [OF m _ assms(3)] jobs_ok_lookup [OF assms(2)] by blast
  then show ?thesis using assms(1,2) m by (auto simp: scheduleParsed_def Let_def jobs_ok_put split: if_splits)
qed

lemma job_ok_fields [simp]:
  "job_ok (j\<lparr>ej_state := st, ej_updatedAt := n\<rparr>) = job_ok j"
  "job_ok (j\<lparr>ej_request := (ej_request j)\<lparr>er_runAt := t\<rparr>, ej_state := st, ej_dispatchAttempts := a, ej_updatedAt := n\<rparr>) = job_ok j"
  by (simp_all add: job_ok_def)

lemma claim_jobs_ok:
  "claim_due now cs s = (due, s1) \<Longrightarrow> jobs_ok (es_jobs s) \<Longrightarrow> jobs_ok due \<and> jobs_ok (es_jobs s1)"
proof (induction now cs s arbitrary: due s1 rule: claim_due.induct)
  case (1 now s)
  then show ?case by (simp add: jobs_ok_def)
next
  case (2 now k candidate cs s)
  show ?case
  proof (cases "map_of (es_jobs s) k")
    case None
    then show ?thesis using "2.IH"(1) "2.prems" by (simp del: map_of_eq_None_iff)
  next
    case c: (Some c)
    show ?thesis
    proof (cases "ej_generation c = ej_generation candidate")
      case False
      then show ?thesis using "2.IH"(2) [OF c] "2.prems" c by (simp del: map_of_eq_Some_iff)
    next
      case True
      define j where "j = c\<lparr>ej_state := Dispatching, ej_updatedAt := now\<rparr>"
      define s' where "s' = s\<lparr>es_jobs := put_event k j (es_jobs s)\<rparr>"
      obtain rest t where t: "claim_due now cs s' = (rest, t)" by fastforce
      note due = claim_due_step [OF "2.prems"(1) c True t [unfolded s'_def j_def]]
      have j: "job_ok j" using jobs_ok_lookup [OF "2.prems"(2) c] by (simp add: j_def)
      then have "jobs_ok (es_jobs s')" using "2.prems"(2) by (simp add: s'_def jobs_ok_put)
      moreover have "\<not> ej_generation c \<noteq> ej_generation candidate" using True by simp
      ultimately have "jobs_ok rest \<and> jobs_ok (es_jobs t)" using "2.IH"(3) [OF c _ j_def] t by (simp add: s'_def)
      then show ?thesis using due j by (simp add: jobs_ok_def j_def)
    qed
  qed
qed

lemma alarm_start_jobs_ok:
  assumes "alarm_start now s0 = (due, s)" and "jobs_ok (es_jobs s0)"
  shows "jobs_ok due \<and> jobs_ok (es_jobs s)"
proof -
  define s' where "s' = s0\<lparr>es_alarm := None\<rparr>"
  obtain d s1 where c: "claim_due now (dueCandidates now s') s' = (d, s1)" by fastforce
  have "d = due \<and> s = (if due = [] then armEarliestJob now s1 else s1)"
    using assms(1) c by (auto simp: alarm_start_def s'_def Let_def split: if_splits)
  then show ?thesis using claim_jobs_ok [OF c] assms(2) by (simp add: s'_def)
qed

lemma retry_jobs_ok: "jobs_ok (es_jobs s) \<Longrightarrow> jobs_ok (es_jobs (retry_event now kj s))"
  by (cases kj) (auto simp: retry_event_def Let_def jobs_ok_put jobs_ok_lookup split: option.splits simp del: map_of_eq_Some_iff)

lemma retries_jobs_ok: "jobs_ok (es_jobs s) \<Longrightarrow> jobs_ok (es_jobs (fold (retry_event now) due s))"
  by (induction due arbitrary: s) (simp_all add: retry_jobs_ok)

lemma delete_jobs_ok: "jobs_ok (es_jobs s) \<Longrightarrow> jobs_ok (es_jobs (delete_dispatched kj s))"
  by (cases kj) (auto simp: delete_dispatched_def jobs_ok_def split: option.splits)

lemma deletes_jobs_ok: "jobs_ok (es_jobs s) \<Longrightarrow> jobs_ok (es_jobs (fold delete_dispatched due s))"
  by (induction due arbitrary: s) (simp_all add: delete_jobs_ok)

definition message_ok :: "(int \<Rightarrow> string) \<Rightarrow> event_message \<Rightarrow> bool" where
  "message_ok isoText m \<longleftrightarrow> texts_ok (em_job m) (em_partition m) (em_reason m) (em_targetBlock m) \<and>
     1 \<le> em_generation m \<and> em_scheduledAt m \<in> range isoText"

lemma job_message_ok: "job_ok j \<Longrightarrow> message_ok isoText (toQueueMessage isoText j)"
  by (auto simp: job_ok_def message_ok_def toQueueMessage_def Let_def)

lemma run_jobs_ok:
  assumes "event_reach isoText u"
  shows "jobs_ok (es_jobs (rn_storage u)) \<and> (\<forall>began due. rn_inflight u = Some (began, due) \<longrightarrow> jobs_ok due) \<and>
    list_all (message_ok isoText) (rn_sent u)"
  using assms
proof induction
  case start
  then show ?case by (simp add: new_run_def jobs_ok_def)
next
  case (request u now val r j s)
  then show ?case using request_jobs_ok [OF request.hyps(4) _ parsed_texts_ok [OF request.hyps(3)]] by simp
next
  case (alarm u now a due s)
  then show ?case using alarm_start_jobs_ok [OF alarm.hyps(6)] by simp
next
  case (sent u now began due)
  then have "jobs_ok due" by blast
  then have "list_all (message_ok isoText) (map (toQueueMessage isoText \<circ> snd) due)"
    using job_message_ok by (fastforce simp: jobs_ok_def list_all_iff)
  then show ?case using sent.IH by (simp add: alarm_sent_def deletes_jobs_ok)
next
  case (failed u now began due)
  then show ?case by (simp add: alarm_failed_def retries_jobs_ok)
qed simp

text \<open>
  The consumer understands every message.  Whatever the event scheduler has sent on a run parses at the consumer
  to the message that was sent, as long as the printed times parse as dates and the generation is a safe integer.
\<close>

theorem sent_message_parses:
  assumes "event_reach isoText u" and "m \<in> set (rn_sent u)" and "isSafeInteger (em_generation m)"
    and "\<And>t. v_dateParse V (isoText t) \<noteq> None"
  shows "parseEventJobMessage V (message_json m) = Some m"
proof -
  have "message_ok isoText m" using run_jobs_ok [OF assms(1)] assms(2) by (simp add: list_all_iff)
  then show ?thesis using assms(3,4) by (auto simp: message_ok_def intro: message_parses)
qed

definition sample_message :: event_message where
  "sample_message = \<lparr>em_job = ''indexer'', em_partition = ''global'', em_generation = 1, em_scheduledAt = ''1970'',
     em_reason = ''new block'', em_targetBlock = Some ''9''\<rparr>"

lemma sample_run_sent: "rn_sent sample_run = [sample_message]"
  by code_simp

theorem sent_message_parses_witness:
  "parseEventJobMessage sample_viem (message_json sample_message) = Some sample_message"
  using sent_message_parses [OF sample_run_reach, of sample_message sample_viem]
  by (simp add: sample_run_sent sample_message_def isSafeInteger_def MAX_SAFE_INTEGER_def sample_viem_def)

end
