(* ===== verification/LogScan.thy ===== *)
theory LogScan
  imports Js
begin

text \<open>
  The ranged log scanner of the App backend (\<^verbatim>\<open>src/server/src/services/adaptiveLogs.ts\<close>): it walks a range of
  blocks in spans that shrink when the provider rejects a range and grow while the answers are sparse.  The provider
  and the consumer of the logs are parameters: what \<open>fetchRange\<close> and \<open>onRange\<close> do may differ at every call, so
  both take the number of the call.
\<close>

subsection \<open>Errors\<close>

text \<open>What is thrown: an \<open>Error\<close> with its name, message and the message of a cause, or another value with its text.\<close>

datatype thrown =
    JsError string string "string option"
  | OtherValue string

definition errorText :: "thrown \<Rightarrow> string" where
  "errorText e = toLowerCase (case e of
       JsError name message cause \<Rightarrow> name @ '' '' @ message @ (case cause of None \<Rightarrow> [] | Some m \<Rightarrow> '' '' @ m)
     | OtherValue s \<Rightarrow> s)"

fun text_includes :: "string \<Rightarrow> string \<Rightarrow> bool" where
  "text_includes [] needle = (needle = [])"
| "text_includes (c # s) needle = (startsWith (c # s) needle \<or> text_includes s needle)"

definition isRangeCapacityError :: "thrown \<Rightarrow> bool" where
  "isRangeCapacityError e = list_ex (text_includes (errorText e))
     [''block range'', ''range limit'', ''maximum block'', ''max block'', ''too many blocks'', ''query returned more than'',
      ''response size'', ''result window'', ''limit exceeded'', ''-32005'', ''413'']"

definition isTransientRpcError :: "thrown \<Rightarrow> bool" where
  "isTransientRpcError e = list_ex (text_includes (errorText e))
     [''429'', ''rate limit'', ''timeout'', ''timed out'', ''network'', ''fetch failed'', ''503'', ''502'',
      ''temporarily unavailable'', ''rpc circuit is open'', ''rpc lane admission deadline'']"

definition budget_error :: "int \<Rightarrow> thrown" where
  "budget_error maxCalls = JsError ''AdaptiveLogScanBudgetExceededError''
     (''Adaptive log scan exhausted its '' @ string_of_int maxCalls @ ''-call budget'') None"

definition clamp :: "int \<Rightarrow> int \<Rightarrow> int \<Rightarrow> int" where
  "clamp v lo hi = (if v < lo then lo else if hi < v then hi else v)"

subsection \<open>Options and state\<close>

record scan_options =
  so_fromBlock :: int
  so_toBlock :: int
  so_minBlockSpan :: int
  so_maxBlockSpan :: int
  so_initialBlockSpan :: "int option"
  so_maxTransientRetries :: "int option"
  so_maxCalls :: "int option"

text \<open>The provider and the consumer: the call's number, then the range (and its logs).\<close>

record 'l scan_world =
  sw_fetchRange :: "int \<Rightarrow> int \<Rightarrow> int \<Rightarrow> thrown + 'l list"
  sw_onRange :: "int \<Rightarrow> 'l list \<Rightarrow> int \<Rightarrow> int \<Rightarrow> thrown option"

text \<open>The local variables; \<open>sc_done\<close> lists the ranges whose logs \<open>onRange\<close> has taken, with their logs.\<close>

record 'l scan_state =
  sc_span :: int
  sc_cursor :: int
  sc_calls :: int
  sc_retries :: int
  sc_ranges :: int
  sc_totalLogs :: int
  sc_minSpanUsed :: int
  sc_maxSpanUsed :: int
  sc_done :: "('l list \<times> int \<times> int) list"

record scan_stats =
  ss_calls :: int
  ss_retries :: int
  ss_ranges :: int
  ss_minSpanUsed :: int
  ss_maxSpanUsed :: int
  ss_finalSpan :: int
  ss_logs :: int

subsection \<open>The loops\<close>

text \<open>The body of the \<open>try\<close>, up to the update of the counters.\<close>

definition call_range ::
    "scan_options \<Rightarrow> 'l scan_world \<Rightarrow> int \<Rightarrow> 'l scan_state \<Rightarrow> (thrown + 'l list) \<times> 'l scan_state" where
  "call_range opts W stop s = (if (case so_maxCalls opts of None \<Rightarrow> False | Some m \<Rightarrow> m \<le> sc_calls s)
     then (Inl (budget_error (the (so_maxCalls opts))), s)
     else let s1 = s\<lparr>sc_calls := sc_calls s + 1\<rparr> in
       case sw_fetchRange W (sc_calls s1) (sc_cursor s) stop of
         Inl e \<Rightarrow> (Inl e, s1)
       | Inr logs \<Rightarrow> (case sw_onRange W (sc_calls s1) logs (sc_cursor s) stop of
           Some e \<Rightarrow> (Inl e, s1) | None \<Rightarrow> (Inr logs, s1)))"

definition advance :: "scan_options \<Rightarrow> int \<Rightarrow> 'l list \<Rightarrow> 'l scan_state \<Rightarrow> 'l scan_state" where
  "advance opts stop logs s = (let actualSpan = stop - sc_cursor s + 1 in
     s\<lparr>sc_ranges := sc_ranges s + 1, sc_totalLogs := sc_totalLogs s + int (length logs),
       sc_minSpanUsed := (if actualSpan < sc_minSpanUsed s then actualSpan else sc_minSpanUsed s),
       sc_maxSpanUsed := (if sc_maxSpanUsed s < actualSpan then actualSpan else sc_maxSpanUsed s),
       sc_span := (if length logs \<le> 100 \<and> sc_span s < so_maxBlockSpan opts
         then clamp (sc_span s * 2) (so_minBlockSpan opts) (so_maxBlockSpan opts) else sc_span s),
       sc_cursor := stop + 1, sc_done := sc_done s @ [(logs, sc_cursor s, stop)]\<rparr>)"

definition shrink :: "scan_options \<Rightarrow> 'l scan_state \<Rightarrow> 'l scan_state" where
  "shrink opts s = s\<lparr>sc_span := clamp ((sc_span s + 1) div 2) (so_minBlockSpan opts) (so_maxBlockSpan opts),
     sc_retries := sc_retries s + 1\<rparr>"

definition maxTransientRetries :: "scan_options \<Rightarrow> int" where
  "maxTransientRetries opts = (case so_maxTransientRetries opts of None \<Rightarrow> 3 | Some n \<Rightarrow> n)"

text \<open>\<open>for (;;)\<close>: the retries of one range; \<open>Inr ()\<close> leaves the loop by \<open>break\<close>.\<close>

function scan_range ::
    "scan_options \<Rightarrow> 'l scan_world \<Rightarrow> int \<Rightarrow> int \<Rightarrow> 'l scan_state \<Rightarrow> (thrown + unit) \<times> 'l scan_state" where
  "scan_range opts W stop attempt s = (case call_range opts W stop s of
       (Inr logs, s1) \<Rightarrow> (Inr (), advance opts stop logs s1)
     | (Inl e, s1) \<Rightarrow>
         if isRangeCapacityError e \<and> so_minBlockSpan opts < sc_span s1 then (Inr (), shrink opts s1)
         else if isTransientRpcError e \<and> attempt < maxTransientRetries opts
         then scan_range opts W stop (attempt + 1) (s1\<lparr>sc_retries := sc_retries s1 + 1\<rparr>)
         else (Inl e, s1))"
  by pat_completeness auto

termination
  by (relation "measure (\<lambda>(opts, W, stop, attempt, s). nat (maxTransientRetries opts - attempt))") auto

text \<open>\<open>while (cursor <= toBlock)\<close>; not to return would be \<open>None\<close>.\<close>

partial_function (option) scan_while ::
    "scan_options \<Rightarrow> 'l scan_world \<Rightarrow> 'l scan_state \<Rightarrow> ((thrown + unit) \<times> 'l scan_state) option" where
  "scan_while opts W s = (if so_toBlock opts < sc_cursor s then Some (Inr (), s)
     else let stop = (if so_toBlock opts < sc_cursor s + sc_span s - 1 then so_toBlock opts else sc_cursor s + sc_span s - 1)
       in case scan_range opts W stop 0 s of
         (Inl e, s1) \<Rightarrow> Some (Inl e, s1)
       | (Inr _, s1) \<Rightarrow> scan_while opts W s1)"

declare scan_while.simps [code]

definition no_stats :: scan_stats where
  "no_stats = \<lparr>ss_calls = 0, ss_retries = 0, ss_ranges = 0, ss_minSpanUsed = 0, ss_maxSpanUsed = 0,
     ss_finalSpan = 0, ss_logs = 0\<rparr>"

definition initial_state :: "scan_options \<Rightarrow> 'l scan_state" where
  "initial_state opts = \<lparr>sc_span = clamp (case so_initialBlockSpan opts of None \<Rightarrow> so_maxBlockSpan opts | Some n \<Rightarrow> n)
       (so_minBlockSpan opts) (so_maxBlockSpan opts),
     sc_cursor = so_fromBlock opts, sc_calls = 0, sc_retries = 0, sc_ranges = 0, sc_totalLogs = 0,
     sc_minSpanUsed = so_maxBlockSpan opts, sc_maxSpanUsed = 0, sc_done = []\<rparr>"

definition final_stats :: "'l scan_state \<Rightarrow> scan_stats" where
  "final_stats s = \<lparr>ss_calls = sc_calls s, ss_retries = sc_retries s, ss_ranges = sc_ranges s,
     ss_minSpanUsed = (if sc_ranges s = 0 then 0 else sc_minSpanUsed s), ss_maxSpanUsed = sc_maxSpanUsed s,
     ss_finalSpan = sc_span s, ss_logs = sc_totalLogs s\<rparr>"

text \<open>The result, and the ranges the consumer has taken by then.\<close>

definition scanLogsAdaptive ::
    "scan_options \<Rightarrow> 'l scan_world \<Rightarrow> ((thrown + scan_stats) \<times> ('l list \<times> int \<times> int) list) option" where
  "scanLogsAdaptive opts W = (if so_toBlock opts < so_fromBlock opts then Some (Inr no_stats, [])
     else if so_minBlockSpan opts < 1 then Some (Inl (JsError ''Error'' ''minBlockSpan must be at least one block'' None), [])
     else if so_maxBlockSpan opts < so_minBlockSpan opts
     then Some (Inl (JsError ''Error'' ''maxBlockSpan must be >= minBlockSpan'' None), [])
     else if (case so_maxCalls opts of None \<Rightarrow> False | Some m \<Rightarrow> \<not> isSafeInteger m \<or> m < 1)
     then Some (Inl (JsError ''Error'' ''maxCalls must be a positive safe integer'' None), [])
     else map_option (\<lambda>(r, s). (map_sum id (\<lambda>_. final_stats s) r, sc_done s)) (scan_while opts W (initial_state opts)))"

subsection \<open>Shards\<close>

function chunks :: "'a list \<Rightarrow> nat \<Rightarrow> 'a list list" where
  "chunks xs n = (if xs = [] \<or> n = 0 then [] else take n xs # chunks (drop n xs) n)"
  by pat_completeness auto

termination
  by (relation "measure (\<lambda>(xs, n). length xs)") auto

definition shardValues :: "'a list \<Rightarrow> int \<Rightarrow> thrown + 'a list list" where
  "shardValues values shardSize = (if \<not> isSafeInteger shardSize \<or> shardSize < 1
     then Inl (JsError ''Error'' ''shardSize must be a positive safe integer'' None)
     else Inr (chunks values (nat shardSize)))"

subsection \<open>What the scan covers\<close>

text \<open>Ranges that follow one another without a gap or an overlap, from \<open>a\<close> on; where they end.\<close>

fun tiles :: "int \<Rightarrow> ('l list \<times> int \<times> int) list \<Rightarrow> bool" where
  "tiles a [] = True"
| "tiles a ((logs, f, t) # ds) = (f = a \<and> f \<le> t \<and> tiles (t + 1) ds)"

fun reached :: "int \<Rightarrow> ('l list \<times> int \<times> int) list \<Rightarrow> int" where
  "reached a [] = a"
| "reached a ((logs, f, t) # ds) = reached (t + 1) ds"

lemma tiles_snoc: "tiles a (ds @ [(logs, f, t)]) \<longleftrightarrow> tiles a ds \<and> f = reached a ds \<and> f \<le> t"
  by (induction a ds rule: tiles.induct) auto

lemma reached_snoc [simp]: "reached a (ds @ [(logs, f, t)]) = t + 1"
  by (induction a ds rule: reached.induct) auto

text \<open>A range was fetched as it was handed on, and is no longer than the limit.\<close>

definition fetched_as :: "scan_options \<Rightarrow> 'l scan_world \<Rightarrow> 'l list \<times> int \<times> int \<Rightarrow> bool" where
  "fetched_as opts W d = (case d of (logs, f, t) \<Rightarrow> t - f < so_maxBlockSpan opts \<and> (\<exists>k. sw_fetchRange W k f t = Inr logs))"

definition in_budget :: "scan_options \<Rightarrow> int \<Rightarrow> bool" where
  "in_budget opts n \<longleftrightarrow> (case so_maxCalls opts of None \<Rightarrow> True | Some m \<Rightarrow> n \<le> m)"

definition scan_ok :: "scan_options \<Rightarrow> 'l scan_world \<Rightarrow> 'l scan_state \<Rightarrow> bool" where
  "scan_ok opts W s \<longleftrightarrow> so_minBlockSpan opts \<le> sc_span s \<and> sc_span s \<le> so_maxBlockSpan opts \<and>
     tiles (so_fromBlock opts) (sc_done s) \<and> sc_cursor s = reached (so_fromBlock opts) (sc_done s) \<and>
     sc_cursor s \<le> so_toBlock opts + 1 \<and> list_all (fetched_as opts W) (sc_done s) \<and>
     sc_ranges s = int (length (sc_done s)) \<and> sc_totalLogs s = int (length (concat (map fst (sc_done s)))) \<and>
     in_budget opts (sc_calls s)"

definition spans_ok :: "scan_options \<Rightarrow> bool" where
  "spans_ok opts \<longleftrightarrow> 1 \<le> so_minBlockSpan opts \<and> so_minBlockSpan opts \<le> so_maxBlockSpan opts"

lemma clamp_bounds: "lo \<le> hi \<Longrightarrow> lo \<le> clamp v lo hi \<and> clamp v lo hi \<le> hi"
  by (simp add: clamp_def)

lemma call_range_cases:
  assumes "call_range opts W stop s = (r, s1)"
  obtains e j where "r = Inl e" and "s1 = s\<lparr>sc_calls := sc_calls s + j\<rparr>"
      and "in_budget opts (sc_calls s) \<Longrightarrow> in_budget opts (sc_calls s + j)"
  | logs where "r = Inr logs" and "s1 = s\<lparr>sc_calls := sc_calls s + 1\<rparr>" and "in_budget opts (sc_calls s + 1)"
      and "sw_fetchRange W (sc_calls s + 1) (sc_cursor s) stop = Inr logs"
proof (cases "case so_maxCalls opts of None \<Rightarrow> False | Some m \<Rightarrow> m \<le> sc_calls s")
  case True
  then show ?thesis using assms that(1) [of _ 0] by (auto simp: call_range_def split: option.splits)
next
  case False
  then have m: "in_budget opts (sc_calls s + 1)" by (auto simp: in_budget_def split: option.splits)
  show ?thesis
  proof (cases "sw_fetchRange W (sc_calls s + 1) (sc_cursor s) stop")
    case (Inl e)
    then show ?thesis using assms False m by (intro that(1) [of e 1]) (simp_all add: call_range_def Let_def)
  next
    case (Inr logs)
    show ?thesis
    proof (cases "sw_onRange W (sc_calls s + 1) logs (sc_cursor s) stop")
      case None
      then show ?thesis using assms False m Inr by (intro that(2) [of logs]) (simp_all add: call_range_def Let_def)
    next
      case (Some e)
      then show ?thesis using assms False m Inr by (intro that(1) [of e 1]) (simp_all add: call_range_def Let_def)
    qed
  qed
qed

text \<open>One range: it is taken, or the span shrinks, or the scan stops with what it has taken so far.\<close>

lemma scan_range_step:
  assumes "scan_range opts W stop k s = (r, s1)" and "scan_ok opts W s" and "spans_ok opts"
    and "sc_cursor s \<le> stop" and "stop \<le> so_toBlock opts" and "stop - sc_cursor s < so_maxBlockSpan opts"
  shows "scan_ok opts W s1 \<and> (r = Inr () \<longrightarrow> sc_cursor s < sc_cursor s1 \<or> sc_cursor s1 = sc_cursor s \<and> sc_span s1 < sc_span s)"
  using assms
proof (induction opts W stop k s arbitrary: r s1 rule: scan_range.induct)
  case (1 opts W stop k s)
  obtain c s2 where call: "call_range opts W stop s = (c, s2)" by (cases "call_range opts W stop s")
  show ?case
  proof (cases rule: call_range_cases [OF call, case_names Err Ok])
    case (Err e j)
    have s2: "scan_ok opts W s2"
      using Err "1.prems"(2) by (simp add: scan_ok_def)
    consider (shrink) "isRangeCapacityError e \<and> so_minBlockSpan opts < sc_span s2"
      | (again) "\<not> (isRangeCapacityError e \<and> so_minBlockSpan opts < sc_span s2)"
          "isTransientRpcError e \<and> k < maxTransientRetries opts"
      | (fail) "\<not> (isRangeCapacityError e \<and> so_minBlockSpan opts < sc_span s2)"
          "\<not> (isTransientRpcError e \<and> k < maxTransientRetries opts)"
      by blast
    then show ?thesis
    proof cases
      case shrink
      then have r: "r = Inr ()" "s1 = shrink opts s2"
        using "1.prems"(1) call Err(1) by (simp_all add: scan_range.simps [of opts W stop k s])
      have "scan_ok opts W s1" using s2 r(2) clamp_bounds [of "so_minBlockSpan opts" "so_maxBlockSpan opts"] "1.prems"(3)
        by (simp add: scan_ok_def shrink_def spans_ok_def)
      moreover have "sc_span s1 < sc_span s2"
        using shrink r(2) "1.prems"(3) s2 by (auto simp: shrink_def clamp_def spans_ok_def scan_ok_def)
      ultimately show ?thesis using r Err(2) by (simp add: shrink_def)
    next
      case again
      let ?s3 = "s2\<lparr>sc_retries := sc_retries s2 + 1\<rparr>"
      have "scan_range opts W stop (k + 1) ?s3 = (r, s1)"
        using "1.prems"(1) call Err(1) again by (simp add: scan_range.simps [of opts W stop k s])
      moreover have "scan_ok opts W ?s3" using s2 by (simp add: scan_ok_def)
      ultimately show ?thesis
        using "1.IH" [OF call [symmetric] Err(1) again, of r s1] "1.prems"(3-6) Err(2) by simp
    next
      case fail
      then show ?thesis
        using "1.prems"(1) call Err(1) s2 by (auto simp: scan_range.simps [of opts W stop k s])
    qed
  next
    case (Ok logs)
    then have r: "r = Inr ()" "s1 = advance opts stop logs s2"
      using "1.prems"(1) call by (simp_all add: scan_range.simps [of opts W stop k s])
    have "fetched_as opts W (logs, sc_cursor s, stop)" using Ok(4) "1.prems"(6) by (auto simp: fetched_as_def)
    then have "scan_ok opts W s1"
      using r(2) Ok(2,3) "1.prems" clamp_bounds [of "so_minBlockSpan opts" "so_maxBlockSpan opts"]
      by (auto simp: scan_ok_def advance_def Let_def tiles_snoc spans_ok_def)
    then show ?thesis using r Ok(2) "1.prems"(4) by (simp add: advance_def Let_def)
  qed
qed

lemma scan_while_returns:
  assumes "spans_ok opts" and "scan_ok opts W s"
  shows "\<exists>r s1. scan_while opts W s = Some (r, s1) \<and> scan_ok opts W s1 \<and>
    (case r of Inl e \<Rightarrow> True | Inr _ \<Rightarrow> so_toBlock opts < sc_cursor s1)"
  using assms(2)
proof (induction s rule: wf_induct_rule [OF wf_measures [of "[\<lambda>s. nat (so_toBlock opts + 1 - sc_cursor s), \<lambda>s. nat (sc_span s)]"]])
  case (1 s)
  show ?case
  proof (cases "so_toBlock opts < sc_cursor s")
    case True
    then show ?thesis using 1(2) by (simp add: scan_while.simps)
  next
    case False
    define stop where "stop = (if so_toBlock opts < sc_cursor s + sc_span s - 1 then so_toBlock opts else sc_cursor s + sc_span s - 1)"
    obtain r s1 where run: "scan_range opts W stop 0 s = (r, s1)" by (cases "scan_range opts W stop 0 s")
    have bounds: "sc_cursor s \<le> stop" "stop \<le> so_toBlock opts" "stop - sc_cursor s < so_maxBlockSpan opts" "1 \<le> sc_span s"
      using 1(2) assms(1) False by (auto simp: stop_def scan_ok_def spans_ok_def)
    note step = scan_range_step [OF run 1(2) assms(1) bounds(1-3)]
    have loop: "scan_while opts W s = (case r of Inl e \<Rightarrow> Some (Inl e, s1) | Inr _ \<Rightarrow> scan_while opts W s1)"
      using False run by (simp add: scan_while.simps [of opts W s] stop_def [symmetric] Let_def)
    show ?thesis
    proof (cases r)
      case (Inl e)
      then show ?thesis using loop step by simp
    next
      case (Inr u)
      then have "(s1, s) \<in> measures [\<lambda>s. nat (so_toBlock opts + 1 - sc_cursor s), \<lambda>s. nat (sc_span s)]"
        using step False bounds(4) by auto
      then show ?thesis using 1(1) [of s1] step loop Inr by simp
    qed
  qed
qed

text \<open>
  C27: the log scan always returns, whatever the provider and the consumer do at each call.  The ranges it has handed on
  follow one another from the first block without a gap or an overlap, each with the logs the provider answered for
  exactly that range and no longer than the configured maximum.  When it succeeds they end at the last block, and
  its statistics count them, their logs, and no more calls than its budget.
\<close>
theorem scan_covers_range:
  "\<exists>r ds. scanLogsAdaptive opts W = Some (r, ds) \<and> tiles (so_fromBlock opts) ds \<and> list_all (fetched_as opts W) ds \<and>
    (case r of
       Inl e \<Rightarrow> reached (so_fromBlock opts) ds \<le> so_toBlock opts + 1
     | Inr st \<Rightarrow> reached (so_fromBlock opts) ds = max (so_fromBlock opts) (so_toBlock opts + 1) \<and>
         ss_ranges st = int (length ds) \<and> ss_logs st = int (length (concat (map fst ds))) \<and>
         (ss_calls st = 0 \<or> in_budget opts (ss_calls st)))"
proof (cases "so_fromBlock opts \<le> so_toBlock opts \<and> spans_ok opts \<and>
    (case so_maxCalls opts of None \<Rightarrow> True | Some m \<Rightarrow> isSafeInteger m \<and> 1 \<le> m)")
  case True
  have s0: "scan_ok opts W (initial_state opts)"
    using True clamp_bounds [of "so_minBlockSpan opts" "so_maxBlockSpan opts"]
    by (auto simp: scan_ok_def initial_state_def spans_ok_def in_budget_def split: option.splits)
  obtain r s1 where run: "scan_while opts W (initial_state opts) = Some (r, s1)" "scan_ok opts W s1"
      "case r of Inl e \<Rightarrow> True | Inr _ \<Rightarrow> so_toBlock opts < sc_cursor s1"
    using scan_while_returns [OF _ s0] True by blast
  have "scanLogsAdaptive opts W = Some (map_sum id (\<lambda>_. final_stats s1) r, sc_done s1)"
    using True run(1) by (auto simp: scanLogsAdaptive_def spans_ok_def split: option.splits)
  then show ?thesis
    using run(2,3) True by (cases r) (auto simp: scan_ok_def final_stats_def)
next
  case False
  then show ?thesis
    by (auto simp: scanLogsAdaptive_def spans_ok_def no_stats_def split: option.splits)
qed

lemma concat_chunks: "0 < n \<Longrightarrow> concat (chunks xs n) = xs \<and> list_all (\<lambda>c. c \<noteq> [] \<and> length c \<le> n) (chunks xs n)"
  by (induction xs n rule: chunks.induct) (subst (1 2) chunks.simps, simp)

end
