(* ===== verification/RpcAdmission.thy ===== *)
theory RpcAdmission
  imports LogScan "HOL-Library.AList"
begin

text \<open>
  How the App backend limits its calls of one RPC endpoint: the Durable Object that hands out expiring leases
  (\<^verbatim>\<open>src/server/src/services/rpcAdmission.ts\<close>) and the semaphore of one isolate (\<^verbatim>\<open>LocalSemaphore\<close> of
  \<^verbatim>\<open>rpcControlPlane.ts\<close>).  A Durable Object handles no other event between the end of a storage operation
  and its next one, so each of its methods is one step.
\<close>

subsection \<open>Leases of the Durable Object\<close>

type_synonym lease_record = "(string \<times> int) list"

record admission_request =
  ar_maxConcurrency :: int
  ar_leaseTtlMs :: int

datatype admission_result = Granted string | Refused int

text \<open>The object's storage: the record under \<open>leases\<close> and the alarm.\<close>

record admission =
  ad_leases :: "lease_record option"
  ad_alarm :: "int option"

definition request_valid :: "admission_request \<Rightarrow> bool" where
  "request_valid r \<longleftrightarrow> isSafeInteger (ar_maxConcurrency r) \<and> 1 \<le> ar_maxConcurrency r \<and> ar_maxConcurrency r \<le> 1000 \<and>
     isSafeInteger (ar_leaseTtlMs r) \<and> 1000 \<le> ar_leaseTtlMs r \<and> ar_leaseTtlMs r \<le> 120000"

definition entries :: "lease_record option \<Rightarrow> lease_record" where
  "entries l = (case l of None \<Rightarrow> [] | Some es \<Rightarrow> es)"

definition liveLeases :: "lease_record option \<Rightarrow> int \<Rightarrow> lease_record" where
  "liveLeases l now = filter (\<lambda>(token, e). now < e) (entries l)"

fun earliestExpiry :: "lease_record \<Rightarrow> int option" where
  "earliestExpiry [] = None"
| "earliestExpiry ((token, e) # l) = Some (case earliestExpiry l of None \<Rightarrow> e | Some m \<Rightarrow> min e m)"

definition sameLeaseRecord :: "lease_record option \<Rightarrow> lease_record \<Rightarrow> bool" where
  "sameLeaseRecord left right \<longleftrightarrow> length (entries left) = length right \<and>
     list_all (\<lambda>(token, e). map_of right token = Some e) (entries left)"

datatype alarm_change = NoChange | SetAlarm int | DeleteAlarm

definition applyAlarmChange :: "alarm_change \<Rightarrow> admission \<Rightarrow> admission" where
  "applyAlarmChange c s = (case c of NoChange \<Rightarrow> s | SetAlarm t \<Rightarrow> s\<lparr>ad_alarm := Some t\<rparr> | DeleteAlarm \<Rightarrow> s\<lparr>ad_alarm := None\<rparr>)"

text \<open>\<open>acquire\<close> at time \<open>now\<close>; \<open>token\<close> is the UUID it draws when it grants.\<close>

definition acquire :: "int \<Rightarrow> string \<Rightarrow> admission_request \<Rightarrow> admission \<Rightarrow> (err + admission_result) \<times> admission" where
  "acquire now token r s = (if \<not> request_valid r then (Inl (Thrown ''Invalid RPC admission request''), s)
     else let stored = ad_leases s; leases = liveLeases stored now; pruned = \<not> sameLeaseRecord stored leases in
       if ar_maxConcurrency r \<le> int (length leases)
       then let expiry = (case earliestExpiry leases of None \<Rightarrow> now + 100 | Some e \<Rightarrow> e);
              s1 = (if pruned then s\<lparr>ad_leases := Some leases\<rparr> else s)
            in (Inr (Refused (max 25 (min 250 (expiry - now)))), applyAlarmChange (if pruned then SetAlarm expiry else NoChange) s1)
       else let previousExpiry = earliestExpiry leases; granted = AList.update token (now + ar_leaseTtlMs r) leases;
              expiry = the (earliestExpiry granted)
            in (Inr (Granted token), applyAlarmChange
              (if pruned \<or> previousExpiry = None \<or> Some expiry \<noteq> previousExpiry then SetAlarm expiry else NoChange)
              (s\<lparr>ad_leases := Some granted\<rparr>)))"

definition token_ok :: "string \<Rightarrow> bool" where
  "token_ok t \<longleftrightarrow> length t = 36 \<and> list_all (\<lambda>c. is_hex_lower c \<or> c = CHR ''-'') t"

definition release :: "int \<Rightarrow> string \<Rightarrow> admission \<Rightarrow> admission" where
  "release now token s = (if \<not> token_ok token then s
     else let stored = ad_leases s; current = liveLeases stored now; previousExpiry = earliestExpiry (entries stored);
            removed = token \<in> set (map fst current);
            rest = (if removed then AList.delete token current else current);
            changed = (removed \<or> \<not> sameLeaseRecord stored rest)
       in if \<not> changed then s
          else let expiry = earliestExpiry rest in
            applyAlarmChange (case expiry of None \<Rightarrow> DeleteAlarm
                | Some e \<Rightarrow> if expiry \<noteq> previousExpiry then SetAlarm e else NoChange)
              (s\<lparr>ad_leases := (if rest = [] then None else Some rest)\<rparr>))"

text \<open>The alarm is unset when it goes off.\<close>

definition admission_alarm :: "int \<Rightarrow> admission \<Rightarrow> admission" where
  "admission_alarm now s = (let s0 = s\<lparr>ad_alarm := None\<rparr>; stored = ad_leases s; leases = liveLeases stored now in
     if leases = [] then (if stored \<noteq> None then s0\<lparr>ad_leases := None\<rparr> else s0)
     else (if sameLeaseRecord stored leases then s0 else s0\<lparr>ad_leases := Some leases\<rparr>)\<lparr>ad_alarm := earliestExpiry leases\<rparr>)"

subsection \<open>Runs\<close>

datatype admission_op = Acquire string admission_request | Release string | Alarm

definition admission_step :: "int \<times> admission_op \<Rightarrow> admission \<Rightarrow> (err + admission_result) option \<times> admission" where
  "admission_step x s = (case x of
       (now, Acquire token r) \<Rightarrow> (case acquire now token r s of (a, s1) \<Rightarrow> (Some a, s1))
     | (now, Release token) \<Rightarrow> (None, release now token s)
     | (now, Alarm) \<Rightarrow> (None, admission_alarm now s))"

fun admission_run ::
    "(int \<times> admission_op) list \<Rightarrow> admission \<Rightarrow> (err + admission_result) option list \<times> admission" where
  "admission_run [] s = ([], s)"
| "admission_run (x # xs) s = (case admission_step x s of (a, s1) \<Rightarrow>
     (case admission_run xs s1 of (rs, s2) \<Rightarrow> (a # rs, s2)))"

definition fresh_admission :: admission where
  "fresh_admission = \<lparr>ad_leases = None, ad_alarm = None\<rparr>"

subsection \<open>The semaphore it implements\<close>

text \<open>Who holds a lease until when, kept without ever forgetting an expired one.\<close>

type_synonym holders = "string \<rightharpoonup> int"

definition live :: "int \<Rightarrow> holders \<Rightarrow> string set" where
  "live now h = {t. \<exists>e. h t = Some e \<and> now < e}"

definition semaphore_step :: "int \<times> admission_op \<Rightarrow> holders \<Rightarrow> (err + admission_result) option \<times> holders" where
  "semaphore_step x h = (case x of
       (now, Acquire token r) \<Rightarrow>
         if \<not> request_valid r then (Some (Inl (Thrown ''Invalid RPC admission request'')), h)
         else if int (card (live now h)) < ar_maxConcurrency r
         then (Some (Inr (Granted token)), h(token \<mapsto> now + ar_leaseTtlMs r))
         else (Some (Inr (Refused (max 25 (min 250 (Min {e. \<exists>t. h t = Some e \<and> now < e} - now))))), h)
     | (now, Release token) \<Rightarrow> (None, if token_ok token then h(token := None) else h)
     | (now, Alarm) \<Rightarrow> (None, h))"

fun semaphore_run :: "(int \<times> admission_op) list \<Rightarrow> holders \<Rightarrow> (err + admission_result) option list \<times> holders" where
  "semaphore_run [] h = ([], h)"
| "semaphore_run (x # xs) h = (case semaphore_step x h of (a, h1) \<Rightarrow>
     (case semaphore_run xs h1 of (rs, h2) \<Rightarrow> (a # rs, h2)))"

subsection \<open>Leases as a map\<close>

lemma earliestExpiry_Min: "l \<noteq> [] \<Longrightarrow> earliestExpiry l = Some (Min (snd ` set l))"
proof (induction l rule: earliestExpiry.induct)
  case (2 token e l)
  then show ?case by (cases "l = []") (auto simp: image_image)
qed simp

lemma earliestExpiry_None: "earliestExpiry l = None \<longleftrightarrow> l = []"
  by (cases l rule: earliestExpiry.cases) auto

text \<open>At time \<open>now\<close> the stored leases that have not expired are those of the semaphore.\<close>

definition agrees :: "int \<Rightarrow> holders \<Rightarrow> lease_record \<Rightarrow> bool" where
  "agrees now h l \<longleftrightarrow> distinct (map fst l) \<and> (\<forall>t e. now < e \<longrightarrow> ((t, e) \<in> set l \<longleftrightarrow> h t = Some e))"

lemma agrees_later: "agrees now h l \<Longrightarrow> now \<le> now' \<Longrightarrow> agrees now' h l"
  by (auto simp: agrees_def)

lemma distinct_filter_keys: "distinct (map fst l) \<Longrightarrow> distinct (map fst (filter P l))"
  by (simp add: distinct_map_filter)

lemma agrees_live:
  assumes "agrees now h (entries l)"
  shows "agrees now h (liveLeases l now)"
  using assms by (auto simp: agrees_def liveLeases_def distinct_filter_keys)

lemma agrees_map_of:
  "agrees now h l \<longleftrightarrow> distinct (map fst l) \<and> (\<forall>t e. now < e \<longrightarrow> (map_of l t = Some e \<longleftrightarrow> h t = Some e))"
  by (auto simp: agrees_def)

lemma live_members:
  assumes "agrees now h (entries l)"
  shows "(t, e) \<in> set (liveLeases l now) \<longleftrightarrow> h t = Some e \<and> now < e"
  using assms by (auto simp: agrees_def liveLeases_def)

lemma live_card:
  assumes "agrees now h (entries l)"
  shows "card (live now h) = length (liveLeases l now)"
proof -
  have "live now h = fst ` set (liveLeases l now)"
    using live_members [OF assms] by (force simp: live_def)
  moreover have "distinct (map fst (liveLeases l now))"
    using agrees_live [OF assms] by (simp add: agrees_def)
  ultimately show ?thesis by (metis distinct_card length_map set_map)
qed

lemma live_expiries:
  assumes "agrees now h (entries l)"
  shows "snd ` set (liveLeases l now) = {e. \<exists>t. h t = Some e \<and> now < e}"
  using live_members [OF assms] by force

lemma same_kept: "sameLeaseRecord l (liveLeases l now) \<Longrightarrow> liveLeases l now = entries l"
  unfolding sameLeaseRecord_def liveLeases_def by (metis (mono_tags) filter_True length_filter_less less_irrefl)

lemma same_live:
  assumes "distinct (map fst (entries l))"
  shows "sameLeaseRecord l (liveLeases l now) \<longleftrightarrow> liveLeases l now = entries l"
proof
  assume "sameLeaseRecord l (liveLeases l now)"
  then show "liveLeases l now = entries l" by (rule same_kept)
next
  assume e: "liveLeases l now = entries l"
  show "sameLeaseRecord l (liveLeases l now)"
    unfolding e using assms by (auto simp: sameLeaseRecord_def list_all_iff map_of_is_SomeI)
qed

subsection \<open>One step\<close>

lemma applyAlarmChange_leases [simp]: "ad_leases (applyAlarmChange c s) = ad_leases s"
  by (simp add: applyAlarmChange_def split: alarm_change.split)

lemma entries_simps [simp]: "entries None = []" "entries (Some l) = l"
  by (simp_all add: entries_def)

lemma acquire_refines:
  assumes "agrees now h (entries (ad_leases s))" and "acquire now token r s = (a, s1)"
  shows "semaphore_step (now, Acquire token r) h = (Some a, snd (semaphore_step (now, Acquire token r) h)) \<and>
    agrees now (snd (semaphore_step (now, Acquire token r) h)) (entries (ad_leases s1))"
proof (cases "request_valid r")
  case False
  then show ?thesis using assms by (auto simp: acquire_def semaphore_step_def)
next
  case True
  let ?l = "liveLeases (ad_leases s) now"
  have card: "card (live now h) = length ?l" by (rule live_card [OF assms(1)])
  have al: "agrees now h ?l" by (rule agrees_live [OF assms(1)])
  show ?thesis
  proof (cases "ar_maxConcurrency r \<le> int (length ?l)")
    case full: True
    then have "?l \<noteq> []" using True by (auto simp: request_valid_def)
    then have e: "earliestExpiry ?l = Some (Min {e. \<exists>t. h t = Some e \<and> now < e})"
      using earliestExpiry_Min live_expiries [OF assms(1)] by metis
    show ?thesis
      using assms al True full card e
      by (auto simp: acquire_def semaphore_step_def Let_def applyAlarmChange_def entries_def [of "Some _"])
  next
    case free: False
    have d: "distinct (map fst ?l)" using al by (simp add: agrees_def)
    have "agrees now (h(token \<mapsto> now + ar_leaseTtlMs r)) (AList.update token (now + ar_leaseTtlMs r) ?l)"
      using al [unfolded agrees_map_of] distinct_update [OF d]
      unfolding agrees_map_of update_conv' by (simp del: map_of_eq_Some_iff)
    moreover have "ad_leases s1 = Some (AList.update token (now + ar_leaseTtlMs r) ?l)" "a = Inr (Granted token)"
      using assms(2) True free by (auto simp: acquire_def Let_def applyAlarmChange_def split: if_splits)
    ultimately show ?thesis using True free card by (simp add: semaphore_step_def entries_def)
  qed
qed

lemma release_leases:
  assumes "rest = (if token \<in> set (map fst (liveLeases (ad_leases s) now))
    then AList.delete token (liveLeases (ad_leases s) now) else liveLeases (ad_leases s) now)"
  shows "entries (ad_leases (release now token s)) = (if \<not> token_ok token then entries (ad_leases s)
    else if token \<in> set (map fst (liveLeases (ad_leases s) now)) \<or> \<not> sameLeaseRecord (ad_leases s) rest then rest
    else entries (ad_leases s))"
  unfolding release_def Let_def assms [symmetric] by simp

lemma release_refines:
  assumes "agrees now h (entries (ad_leases s))"
  shows "agrees now (snd (semaphore_step (now, Release token) h)) (entries (ad_leases (release now token s)))"
proof (cases "token_ok token")
  case True
  let ?l = "liveLeases (ad_leases s) now"
  define rest where "rest = (if token \<in> set (map fst ?l) then AList.delete token ?l else ?l)"
  have al: "agrees now h ?l" by (rule agrees_live [OF assms])
  have d: "distinct (map fst ?l)" using al by (simp add: agrees_def)
  have "agrees now (h(token := None)) (AList.delete token ?l)"
    using al [unfolded agrees_map_of] distinct_delete [OF d]
    unfolding agrees_map_of delete_conv' by (simp del: map_of_eq_Some_iff)
  moreover have "rest = AList.delete token ?l" by (simp add: rest_def)
  ultimately have rest: "agrees now (h(token := None)) rest" by simp
  have "entries (ad_leases (release now token s)) = rest"
  proof (cases "token \<in> set (map fst ?l) \<or> \<not> sameLeaseRecord (ad_leases s) rest")
    case changed: True
    then show ?thesis using release_leases [OF rest_def] True by simp
  next
    case same: False
    then have "rest = ?l" by (simp add: rest_def)
    then have "rest = entries (ad_leases s)"
      using same same_live [of "ad_leases s" now] assms by (simp add: agrees_def)
    then show ?thesis using release_leases [OF rest_def] True same by simp
  qed
  then show ?thesis using rest True by (simp add: semaphore_step_def)
next
  case False
  then show ?thesis using assms by (simp add: release_def semaphore_step_def)
qed

lemma alarm_refines:
  assumes "agrees now h (entries (ad_leases s))"
  shows "agrees now h (entries (ad_leases (admission_alarm now s)))"
  using assms agrees_live [OF assms]
  by (auto simp: admission_alarm_def Let_def entries_def [of None] entries_def [of "Some _"] agrees_def)

lemma step_refines:
  assumes "agrees (fst x) h (entries (ad_leases s))" and "admission_step x s = (a, s1)"
  shows "fst (semaphore_step x h) = a \<and> agrees (fst x) (snd (semaphore_step x h)) (entries (ad_leases s1))"
proof -
  obtain now op where x: "x = (now, op)" by (cases x)
  show ?thesis
  proof (cases op)
    case (Acquire token r)
    then show ?thesis
      using assms acquire_refines [of now h s token r] x
      by (auto simp: admission_step_def split: prod.splits) (metis fst_conv)
  next
    case (Release token)
    then show ?thesis using assms release_refines [of now h s token] x
      by (auto simp: admission_step_def semaphore_step_def)
  next
    case Alarm
    then show ?thesis using assms alarm_refines [of now h s] x by (auto simp: admission_step_def semaphore_step_def)
  qed
qed

lemma run_refines:
  assumes "agrees t h (entries (ad_leases s))" and "sorted (t # map fst ops)"
  shows "fst (admission_run ops s) = fst (semaphore_run ops h)"
  using assms
proof (induction ops arbitrary: t h s)
  case (Cons x ops)
  obtain a s1 where st: "admission_step x s = (a, s1)" by (cases "admission_step x s")
  have "agrees (fst x) h (entries (ad_leases s))" using agrees_later Cons.prems by auto
  note step = step_refines [OF this st]
  have "fst (admission_run ops s1) = fst (semaphore_run ops (snd (semaphore_step x h)))"
    using Cons.IH [of "fst x" "snd (semaphore_step x h)" s1] step Cons.prems(2) by simp
  then show ?case using st step by (auto split: prod.splits)
qed simp

subsection \<open>How many hold a lease\<close>

definition asks_at_most :: "int \<Rightarrow> int \<times> admission_op \<Rightarrow> bool" where
  "asks_at_most m x \<longleftrightarrow> (case snd x of Acquire token r \<Rightarrow> ar_maxConcurrency r \<le> m | _ \<Rightarrow> True)"

lemma live_later: "t \<le> now \<Longrightarrow> live now h \<subseteq> live t h"
  by (auto simp: live_def)

lemma finite_live: "finite (dom h) \<Longrightarrow> finite (live t h)"
  by (rule finite_subset [of _ "dom h"]) (auto simp: live_def)

lemma semaphore_step_bound:
  assumes "int (card (live (fst x) h)) \<le> m" and "finite (dom h)" and "asks_at_most m x"
  shows "int (card (live (fst x) (snd (semaphore_step x h)))) \<le> m \<and> finite (dom (snd (semaphore_step x h)))"
proof -
  obtain now op where x: "x = (now, op)" by (cases x)
  have sub: "card (live now (h(t := None))) \<le> card (live now h)" for t
    by (rule card_mono [OF finite_live [OF assms(2)]]) (auto simp: live_def split: if_splits)
  have add: "card (live now (h(t \<mapsto> e))) \<le> Suc (card (live now h))" for t e
  proof -
    have "live now (h(t \<mapsto> e)) \<subseteq> insert t (live now h)" by (auto simp: live_def)
    then have "card (live now (h(t \<mapsto> e))) \<le> card (insert t (live now h))"
      by (intro card_mono) (simp_all add: finite_live assms(2))
    also have "\<dots> \<le> Suc (card (live now h))" by (rule card_insert_le_m1) simp_all
    finally show ?thesis .
  qed
  show ?thesis
  proof (cases op)
    case (Acquire token r)
    then show ?thesis using assms add [of token "now + ar_leaseTtlMs r"] x
      by (auto simp: semaphore_step_def asks_at_most_def)
  next
    case (Release token)
    then show ?thesis using assms sub [of token] x by (auto simp: semaphore_step_def)
  next
    case Alarm
    then show ?thesis using assms x by (simp add: semaphore_step_def)
  qed
qed

lemma semaphore_run_bound:
  assumes "int (card (live t h)) \<le> m" and "finite (dom h)" and "list_all (asks_at_most m) ops"
    and "sorted (t # map fst ops @ [now])"
  shows "int (card (live now (snd (semaphore_run ops h)))) \<le> m"
  using assms
proof (induction ops arbitrary: t h)
  case Nil
  then show ?case using card_mono [OF finite_live live_later, of h t now] by simp
next
  case (Cons x ops)
  have "int (card (live (fst x) h)) \<le> m"
    using card_mono [OF finite_live live_later, of h t "fst x"] Cons.prems by simp
  from semaphore_step_bound [OF this Cons.prems(2)] Cons.prems(3)
  have step: "int (card (live (fst x) (snd (semaphore_step x h)))) \<le> m" "finite (dom (snd (semaphore_step x h)))" by auto
  have "int (card (live now (snd (semaphore_run ops (snd (semaphore_step x h)))))) \<le> m"
    by (rule Cons.IH [OF step]) (use Cons.prems in auto)
  then show ?case by (auto split: prod.splits)
qed

text \<open>
  C28: the admission controller is a semaphore with expiring leases.  Over any sequence of requests, releases and alarms in
  the order of time it answers exactly as a semaphore that never forgets who holds a lease until when, although
  it drops expired leases as it goes; and when no request asks for more than \<open>m\<close> places, at most \<open>m\<close> leases are
  held, granted and neither released nor expired, at any time.
\<close>
theorem admission_refines_semaphore:
  assumes "sorted (map fst ops @ [now])" and "list_all (asks_at_most m) ops" and "0 \<le> m"
  shows "fst (admission_run ops fresh_admission) = fst (semaphore_run ops Map.empty) \<and>
    int (card (live now (snd (semaphore_run ops Map.empty)))) \<le> m"
proof -
  define t where "t = (case ops of [] \<Rightarrow> now | x # _ \<Rightarrow> fst x)"
  have s: "sorted (t # map fst ops @ [now])" using assms(1) by (cases ops) (force simp: t_def)+
  have "agrees t Map.empty (entries (ad_leases fresh_admission))"
    by (simp add: agrees_def fresh_admission_def)
  moreover have "int (card (live t Map.empty)) \<le> m" using assms(3) by (simp add: live_def)
  ultimately show ?thesis
    using run_refines [of t Map.empty fresh_admission ops] semaphore_run_bound [OF _ _ assms(2) s] s
    by (simp add: sorted_append)
qed

definition sample_token :: "char \<Rightarrow> string" where
  "sample_token c = replicate 36 c"

definition sample_ops :: "(int \<times> admission_op) list" where
  "sample_ops = (let r = \<lparr>ar_maxConcurrency = 2, ar_leaseTtlMs = 1000\<rparr> in
     [(0, Acquire (sample_token CHR ''a'') r), (10, Acquire (sample_token CHR ''b'') r), (20, Acquire (sample_token CHR ''c'') r),
      (30, Release (sample_token CHR ''a'')), (40, Acquire (sample_token CHR ''d'') r), (1020, Acquire (sample_token CHR ''e'') r)])"

lemma sample_answers: "fst (admission_run sample_ops fresh_admission) =
    [Some (Inr (Granted (sample_token CHR ''a''))), Some (Inr (Granted (sample_token CHR ''b''))), Some (Inr (Refused 250)),
     None, Some (Inr (Granted (sample_token CHR ''d''))), Some (Inr (Granted (sample_token CHR ''e'')))]"
  by code_simp

theorem admission_refines_semaphore_witness:
  "fst (semaphore_run sample_ops Map.empty) =
    [Some (Inr (Granted (sample_token CHR ''a''))), Some (Inr (Granted (sample_token CHR ''b''))), Some (Inr (Refused 250)),
     None, Some (Inr (Granted (sample_token CHR ''d''))), Some (Inr (Granted (sample_token CHR ''e'')))] \<and>
   int (card (live 1020 (snd (semaphore_run sample_ops Map.empty)))) \<le> 2"
proof -
  have "sorted (map fst sample_ops @ [1020])" "list_all (asks_at_most 2) sample_ops" by code_simp+
  from admission_refines_semaphore [OF this] show ?thesis unfolding sample_answers by simp
qed

subsection \<open>The alarm\<close>

definition armed :: "admission \<Rightarrow> bool" where
  "armed s \<longleftrightarrow> ad_alarm s = earliestExpiry (entries (ad_leases s)) \<and> ad_leases s \<noteq> Some []"

lemma update_not_Nil: "AList.update k v l \<noteq> []"
  by (cases l) auto

lemma acquire_armed: "armed s \<Longrightarrow> armed (snd (acquire now token r s))"
  using update_not_Nil [of token "now + ar_leaseTtlMs r" "liveLeases (ad_leases s) now"] same_kept [of "ad_leases s" now]
  by (auto simp: armed_def acquire_def applyAlarmChange_def Let_def request_valid_def earliestExpiry_None
      split: option.split)

lemma release_armed:
  assumes "armed s"
  shows "armed (release now token s)"
proof -
  let ?l = "liveLeases (ad_leases s) now"
  define rest where "rest = (if token \<in> set (map fst ?l) then AList.delete token ?l else ?l)"
  show ?thesis
    using assms unfolding release_def Let_def rest_def [symmetric]
    by (auto simp: armed_def applyAlarmChange_def earliestExpiry_None split: option.split)
qed

lemma alarm_armed: "armed s \<Longrightarrow> armed (admission_alarm now s)"
  using same_kept [of "ad_leases s" now]
  by (auto simp: armed_def admission_alarm_def Let_def entries_def split: option.split)

text \<open>
  No lease is forgotten.  After any sequence of requests, releases and alarms, at any times, the object's alarm
  is set exactly to the earliest expiry of the leases it stores, and there is none exactly when it stores none.
\<close>
theorem admission_alarm_set:
  "ad_alarm (snd (admission_run ops fresh_admission)) =
    earliestExpiry (entries (ad_leases (snd (admission_run ops fresh_admission)))) \<and>
   (ad_alarm (snd (admission_run ops fresh_admission)) = None \<longleftrightarrow> ad_leases (snd (admission_run ops fresh_admission)) = None)"
proof -
  have step: "armed (snd (admission_step x s))" if "armed s" for x s
    using that acquire_armed release_armed alarm_armed
    by (auto simp: admission_step_def split: prod.split admission_op.split) (metis snd_conv)
  have "armed (snd (admission_run ops s))" if "armed s" for s
    using that
  proof (induction ops arbitrary: s)
    case (Cons x ops)
    then have "armed (snd (admission_run ops (snd (admission_step x s))))" using step by blast
    then show ?case by (simp add: case_prod_unfold)
  qed simp
  moreover have "armed fresh_admission" by (simp add: armed_def fresh_admission_def)
  ultimately have "armed (snd (admission_run ops fresh_admission))" by blast
  then show ?thesis
    by (cases "ad_leases (snd (admission_run ops fresh_admission))") (auto simp: armed_def earliestExpiry_None)
qed

subsection \<open>The semaphore of one isolate\<close>

text \<open>
  \<open>active\<close> and the waiters of \<open>LocalSemaphore\<close>, each waiter and holder by a number; \<open>lm_holders\<close> are the
  callers whose release function has not been called, \<open>lm_timedOut\<close> those whose wait was rejected.
\<close>

record local_semaphore =
  lm_active :: nat
  lm_waiters :: "nat list"
  lm_holders :: "nat list"
  lm_timedOut :: "nat list"

definition new_semaphore :: local_semaphore where
  "new_semaphore = \<lparr>lm_active = 0, lm_waiters = [], lm_holders = [], lm_timedOut = []\<rparr>"

definition local_acquire :: "nat \<Rightarrow> nat \<Rightarrow> local_semaphore \<Rightarrow> local_semaphore" where
  "local_acquire maximum c s = (if maximum \<le> lm_active s then s\<lparr>lm_waiters := lm_waiters s @ [c]\<rparr>
     else s\<lparr>lm_active := lm_active s + 1, lm_holders := lm_holders s @ [c]\<rparr>)"

text \<open>A release function does nothing when it is called again.  A waiter takes over the place of the releasing holder.\<close>

definition local_release :: "nat \<Rightarrow> local_semaphore \<Rightarrow> local_semaphore" where
  "local_release c s = (if c \<notin> set (lm_holders s) then s
     else let s1 = s\<lparr>lm_holders := remove1 c (lm_holders s)\<rparr> in
       case lm_waiters s of
         next # ws \<Rightarrow> s1\<lparr>lm_waiters := ws, lm_holders := lm_holders s1 @ [next]\<rparr>
       | [] \<Rightarrow> s1\<lparr>lm_active := lm_active s - 1\<rparr>)"

text \<open>The timer of a waiter; a waiter that was resolved has cleared it.\<close>

definition local_timeout :: "nat \<Rightarrow> local_semaphore \<Rightarrow> local_semaphore" where
  "local_timeout c s = (if c \<in> set (lm_waiters s)
     then s\<lparr>lm_waiters := remove1 c (lm_waiters s), lm_timedOut := lm_timedOut s @ [c]\<rparr> else s)"

text \<open>What can happen to it: calls are numbered in the order they are made.\<close>

inductive semaphore_reach :: "nat \<Rightarrow> nat \<Rightarrow> local_semaphore \<Rightarrow> bool" for maximum where
  start: "semaphore_reach maximum 0 new_semaphore"
| acquired: "semaphore_reach maximum n s \<Longrightarrow> semaphore_reach maximum (Suc n) (local_acquire maximum n s)"
| released: "semaphore_reach maximum n s \<Longrightarrow> semaphore_reach maximum n (local_release c s)"
| timed_out: "semaphore_reach maximum n s \<Longrightarrow> semaphore_reach maximum n (local_timeout c s)"

lemma sorted_wrt_remove1: "sorted_wrt P xs \<Longrightarrow> sorted_wrt P (remove1 c xs)"
  by (induction xs) (auto dest: notin_set_remove1)

text \<open>
  The local semaphore neither oversubscribes nor starves.  However acquisitions, releases (repeated ones too) and
  time-outs follow one another, exactly as many callers hold a place as it counts, at most its maximum; somebody
  waits only when every place is taken, in the order of the calls; and every call so far holds, waits, was
  rejected or has released, never two of these.
\<close>
theorem local_semaphore_sound:
  assumes "semaphore_reach maximum n s"
  shows "length (lm_holders s) = lm_active s \<and> lm_active s \<le> maximum \<and>
    (lm_waiters s = [] \<or> lm_active s = maximum) \<and> sorted_wrt (<) (lm_waiters s) \<and>
    distinct (lm_holders s @ lm_waiters s @ lm_timedOut s) \<and> list_all (\<lambda>c. c < n) (lm_holders s @ lm_waiters s @ lm_timedOut s)"
  using assms
proof induction
  case start
  then show ?case by (simp add: new_semaphore_def)
next
  case (acquired n s)
  then show ?case by (auto simp: local_acquire_def sorted_wrt_append list_all_iff less_Suc_eq)
next
  case (released n s c)
  then show ?case
    using length_pos_if_in_set [of c "lm_holders s"]
    by (auto simp: local_release_def Let_def length_remove1 list_all_iff split: list.split dest: in_set_remove1 notin_set_remove1)
next
  case (timed_out n s c)
  then show ?case
    by (auto simp: local_timeout_def list_all_iff sorted_wrt_remove1 dest: notin_set_remove1)
qed

theorem local_semaphore_sound_witness:
  "let s = local_release 0 (local_acquire 1 2 (local_acquire 1 1 (local_acquire 1 0 new_semaphore))) in
    lm_holders s = [1] \<and> lm_waiters s = [2] \<and> length (lm_holders s) = lm_active s \<and> lm_active s \<le> 1"
proof -
  let ?s = "local_release 0 (local_acquire 1 2 (local_acquire 1 1 (local_acquire 1 0 new_semaphore)))"
  have "semaphore_reach 1 (Suc (Suc (Suc 0))) ?s"
    using released acquired [OF acquired [OF acquired [OF start]], of 1] by (simp add: numeral_2_eq_2)
  moreover have "lm_holders ?s = [1] \<and> lm_waiters ?s = [2]" by code_simp
  ultimately show ?thesis using local_semaphore_sound [of 1 "Suc (Suc (Suc 0))" ?s] unfolding Let_def by blast
qed

end
