(* ===== verification/RpcCircuit.thy ===== *)
theory RpcCircuit
  imports RpcAdmission Models "HOL-Library.Word"
begin

text \<open>
  The control plane of the App backend's RPC endpoints (\<^verbatim>\<open>src/server/src/services/rpcControlPlane.ts\<close>): a circuit breaker per
  endpoint, stored in D1 and cached in the isolate, and the two admissions, local and distributed, around each call.
  Timestamps are integers.  What waits and what a node answers is the parameter \<open>circuit_services\<close>.
\<close>

unbundle bit_operations_syntax

subsection \<open>Names and limits\<close>

datatype rpc_role = RoleRead | RoleWrite | RoleIndexer | RoleArchive | RoleBundler

datatype rpc_lane = CriticalWrite | CanonicalIngest | ActiveReconcile | Maintenance | Backfill

definition role_text :: "rpc_role \<Rightarrow> string" where
  "role_text r = (case r of RoleRead \<Rightarrow> ''read'' | RoleWrite \<Rightarrow> ''write'' | RoleIndexer \<Rightarrow> ''indexer''
     | RoleArchive \<Rightarrow> ''archive'' | RoleBundler \<Rightarrow> ''bundler'')"

definition lane_text :: "rpc_lane \<Rightarrow> string" where
  "lane_text l = (case l of CriticalWrite \<Rightarrow> ''critical-write'' | CanonicalIngest \<Rightarrow> ''canonical-ingest''
     | ActiveReconcile \<Rightarrow> ''active-reconcile'' | Maintenance \<Rightarrow> ''maintenance'' | Backfill \<Rightarrow> ''backfill'')"

definition CIRCUIT_FAILURE_THRESHOLD :: int where "CIRCUIT_FAILURE_THRESHOLD = 3"

definition CIRCUIT_OPEN_MS :: int where "CIRCUIT_OPEN_MS = 120000"

definition RATE_LIMIT_CIRCUIT_OPEN_MS :: int where "RATE_LIMIT_CIRCUIT_OPEN_MS = 30000"

definition CIRCUIT_PROBE_LEASE_MS :: int where "CIRCUIT_PROBE_LEASE_MS = 15000"

definition CIRCUIT_CACHE_MS :: int where "CIRCUIT_CACHE_MS = 5000"

text \<open>The code's signed 32-bit numbers and the unsigned ones here have the same bits.\<close>

fun fnv1a_hash :: "string \<Rightarrow> 32 word \<Rightarrow> 32 word" where
  "fnv1a_hash [] h = h"
| "fnv1a_hash (c # cs) h = fnv1a_hash cs ((h XOR of_nat (ccode c)) * 0x01000193)"

definition hex_digit :: "nat \<Rightarrow> char" where
  "hex_digit n = ''0123456789abcdef'' ! n"

fun hex_pad :: "nat \<Rightarrow> nat \<Rightarrow> string" where
  "hex_pad 0 n = []"
| "hex_pad (Suc k) n = hex_pad k (n div 16) @ [hex_digit (n mod 16)]"

definition fnv1a :: "string \<Rightarrow> string" where
  "fnv1a s = hex_pad 8 (unat (fnv1a_hash s 0x811c9dc5))"

definition ends_with :: "string \<Rightarrow> string \<Rightarrow> bool" where
  "ends_with s suffix \<longleftrightarrow> length suffix \<le> length s \<and> drop (length s - length suffix) s = suffix"

definition providerAliasForUrl :: "viem \<Rightarrow> string \<Rightarrow> rpc_role \<Rightarrow> nat \<Rightarrow> string" where
  "providerAliasForUrl V url role slot = (let other = role_text role @ ''-endpoint-'' @ string_of_int (int slot + 1) in
     case v_hostname V url of None \<Rightarrow> other
     | Some h \<Rightarrow> (let hostname = toLowerCase h in
         if ends_with hostname ''.alchemy.com'' \<or> ends_with hostname ''.alchemyapi.io'' then ''alchemy''
         else if hostname = ''sepolia-rollup.arbitrum.io'' then ''arbitrum-public-sepolia''
         else if hostname = ''arb1.arbitrum.io'' then ''arbitrum-public-one'' else other))"

definition laneForRole :: "rpc_role \<Rightarrow> rpc_lane" where
  "laneForRole role = (if role = RoleWrite \<or> role = RoleBundler then CriticalWrite
     else if role = RoleIndexer then CanonicalIngest else if role = RoleArchive then Backfill else ActiveReconcile)"

definition concurrencyForLane :: "rpc_lane \<Rightarrow> int" where
  "concurrencyForLane lane = (if lane = CriticalWrite then 4 else if lane = CanonicalIngest then 4
     else if lane = ActiveReconcile then 8 else if lane = Maintenance then 2 else 1)"

definition RpcAdmissionTimeoutError :: thrown where
  "RpcAdmissionTimeoutError = JsError ''RpcAdmissionTimeoutError'' ''RPC lane admission deadline exceeded'' None"

definition RpcCircuitOpenError :: "string \<Rightarrow> rpc_lane \<Rightarrow> thrown" where
  "RpcCircuitOpenError alias lane = JsError ''RpcCircuitOpenError'' (''RPC circuit is open for '' @ alias @ '' in '' @ lane_text lane) None"

text \<open>The text of \<open>failureCode\<close> has no cause.\<close>

definition failure_text :: "thrown \<Rightarrow> string" where
  "failure_text e = (case e of JsError name msg cause \<Rightarrow> toLowerCase (name @ '' '' @ msg) | _ \<Rightarrow> errorText e)"

datatype failure_code = RATE_LIMITED | TIMEOUT | HTTP_503 | HTTP_502 | NETWORK | RPC_TRANSIENT

definition failureCode :: "thrown \<Rightarrow> failure_code" where
  "failureCode e = (let text = failure_text e in
     if text_includes text ''429'' \<or> text_includes text ''rate limit'' then RATE_LIMITED
     else if text_includes text ''timeout'' \<or> text_includes text ''timed out'' then TIMEOUT
     else if text_includes text ''503'' then HTTP_503
     else if text_includes text ''502'' then HTTP_502
     else if text_includes text ''fetch failed'' \<or> text_includes text ''network'' then NETWORK else RPC_TRANSIENT)"

definition failureThreshold :: "failure_code \<Rightarrow> int" where
  "failureThreshold code = (if code = RATE_LIMITED then 1 else CIRCUIT_FAILURE_THRESHOLD)"

definition circuitOpenMs :: "failure_code \<Rightarrow> int" where
  "circuitOpenMs code = (if code = RATE_LIMITED then RATE_LIMIT_CIRCUIT_OPEN_MS else CIRCUIT_OPEN_MS)"

definition admissionWaitMs :: "rpc_lane \<Rightarrow> int \<Rightarrow> int" where
  "admissionWaitMs lane requestTimeoutMs = (let laneBudget = (if lane = Backfill then 250 else if lane = CriticalWrite then 2000 else 1000)
     in max 100 (min laneBudget (requestTimeoutMs div 2)))"

definition admissionLeaseTtlMs :: "int \<Rightarrow> int" where
  "admissionLeaseTtlMs requestTimeoutMs = max 1000 (min 120000 (requestTimeoutMs + 10000))"

subsection \<open>The table of endpoints\<close>

datatype circuit_state = Closed | Open | HalfOpen

record health_row =
  he_key :: string
  he_role :: rpc_role
  he_alias :: string
  he_state :: circuit_state
  he_failures :: int
  he_openedUntil :: "int option"
  he_lastSuccessAt :: "int option"
  he_lastFailureAt :: "int option"
  he_lastErrorCode :: "failure_code option"
  he_lastLatencyMs :: "int option"
  he_updatedAt :: int

definition opens_circuit :: "failure_code \<Rightarrow> health_row \<Rightarrow> bool" where
  "opens_circuit code r \<longleftrightarrow> he_state r = HalfOpen \<or> failureThreshold code \<le> he_failures r + 1"

definition failed_row :: "rpc_role \<Rightarrow> string \<Rightarrow> failure_code \<Rightarrow> int \<Rightarrow> int \<Rightarrow> health_row \<Rightarrow> health_row" where
  "failed_row role alias code latency now r = r\<lparr>he_role := role, he_alias := alias, he_failures := he_failures r + 1,
     he_state := (if opens_circuit code r then Open else he_state r),
     he_openedUntil := (if opens_circuit code r then Some (now + circuitOpenMs code) else he_openedUntil r),
     he_lastFailureAt := Some now, he_lastErrorCode := Some code, he_lastLatencyMs := Some latency, he_updatedAt := now\<rparr>"

definition first_failure :: "string \<Rightarrow> rpc_role \<Rightarrow> string \<Rightarrow> failure_code \<Rightarrow> int \<Rightarrow> int \<Rightarrow> health_row" where
  "first_failure key role alias code latency now = (let opensImmediately = failureThreshold code \<le> 1 in
     \<lparr>he_key = key, he_role = role, he_alias = alias, he_state = (if opensImmediately then Open else Closed), he_failures = 1,
       he_openedUntil = (if opensImmediately then Some (now + circuitOpenMs code) else None), he_lastSuccessAt = None,
       he_lastFailureAt = Some now, he_lastErrorCode = Some code, he_lastLatencyMs = Some latency, he_updatedAt = now\<rparr>)"

text \<open>\<open>INSERT ... ON CONFLICT(endpoint_key) DO UPDATE\<close>.\<close>

definition upsert_row :: "string \<Rightarrow> health_row \<Rightarrow> (health_row \<Rightarrow> health_row) \<Rightarrow> health_row list \<Rightarrow> health_row list" where
  "upsert_row key new f rows = (if list_ex (\<lambda>r. he_key r = key) rows
     then map (\<lambda>r. if he_key r = key then f r else r) rows else rows @ [new])"

definition failure_stmt :: "string \<Rightarrow> rpc_role \<Rightarrow> string \<Rightarrow> failure_code \<Rightarrow> int \<Rightarrow> int \<Rightarrow> health_row list \<Rightarrow> health_row list" where
  "failure_stmt key role alias code latency now =
     upsert_row key (first_failure key role alias code latency now) (failed_row role alias code latency now)"

definition probe_free :: "string \<Rightarrow> int \<Rightarrow> health_row \<Rightarrow> bool" where
  "probe_free key now r \<longleftrightarrow> he_key r = key \<and> he_state r \<in> {Open, HalfOpen} \<and>
     (case he_openedUntil r of None \<Rightarrow> True | Some t \<Rightarrow> t \<le> now)"

definition probe_stmt :: "string \<Rightarrow> int \<Rightarrow> health_row list \<Rightarrow> health_row list \<times> nat" where
  "probe_stmt key now rows = (map (\<lambda>r. if probe_free key now r
       then r\<lparr>he_state := HalfOpen, he_openedUntil := Some (now + CIRCUIT_PROBE_LEASE_MS), he_updatedAt := now\<rparr> else r) rows,
     length (filter (probe_free key now) rows))"

definition recovered_row :: "rpc_role \<Rightarrow> string \<Rightarrow> int \<Rightarrow> int \<Rightarrow> health_row \<Rightarrow> health_row" where
  "recovered_row role alias latency now r = r\<lparr>he_role := role, he_alias := alias, he_state := Closed, he_failures := 0,
     he_openedUntil := None, he_lastSuccessAt := Some now, he_lastErrorCode := None, he_lastLatencyMs := Some latency,
     he_updatedAt := now\<rparr>"

definition recovery_stmt :: "string \<Rightarrow> rpc_role \<Rightarrow> string \<Rightarrow> int \<Rightarrow> int \<Rightarrow> health_row list \<Rightarrow> health_row list" where
  "recovery_stmt key role alias latency now = upsert_row key
     \<lparr>he_key = key, he_role = role, he_alias = alias, he_state = Closed, he_failures = 0, he_openedUntil = None,
       he_lastSuccessAt = Some now, he_lastFailureAt = None, he_lastErrorCode = None, he_lastLatencyMs = Some latency,
       he_updatedAt = now\<rparr> (recovered_row role alias latency now)"

subsection \<open>The memory of a transport and its services\<close>

record circuit =
  ci_state :: circuit_state
  ci_failures :: int
  ci_openedUntil :: int

text \<open>
  Beside the table: what the closure of the transport remembers, its semaphore with the number of calls made to it, and
  the Durable Object of its distributed admission.
\<close>

record rpc_memory =
  rm_health :: "health_row list"
  rm_cached :: "circuit option"
  rm_cachedUntil :: int
  rm_semaphore :: local_semaphore
  rm_calls :: nat
  rm_admission :: admission

datatype rpc_event = SlotAsked nat | TokenGranted string | RpcCall string | TokenReturned string

text \<open>
  Whether D1 and the stub of the Durable Object answer at a time, and what the node answers to a method.
\<close>

record 'r circuit_services =
  xc_d1 :: "int \<Rightarrow> unit option"
  xc_stub :: "int \<Rightarrow> unit option"
  xc_answer :: "string \<Rightarrow> int \<Rightarrow> thrown + 'r"

record transport =
  tr_key :: string
  tr_alias :: string
  tr_role :: rpc_role
  tr_lane :: rpc_lane
  tr_timeoutMs :: int
  tr_maxConcurrency :: int
  tr_distributed :: bool

record transport_options =
  to_role :: rpc_role
  to_slot :: nat
  to_lane :: "rpc_lane option"
  to_timeoutMs :: int
  to_providerAlias :: "string option"
  to_maxConcurrency :: "int option"

definition new_transport :: "viem \<Rightarrow> bool \<Rightarrow> string \<Rightarrow> transport_options \<Rightarrow> transport" where
  "new_transport V distributed url opts = (let lane = (case to_lane opts of None \<Rightarrow> laneForRole (to_role opts) | Some l \<Rightarrow> l) in
     \<lparr>tr_key = role_text (to_role opts) @ '':'' @ string_of_int (int (to_slot opts)) @ '':'' @ fnv1a url,
       tr_alias = (case to_providerAlias opts of None \<Rightarrow> providerAliasForUrl V url (to_role opts) (to_slot opts) | Some a \<Rightarrow> a),
       tr_role = to_role opts, tr_lane = lane, tr_timeoutMs = to_timeoutMs opts,
       tr_maxConcurrency = (case to_maxConcurrency opts of None \<Rightarrow> concurrencyForLane lane | Some n \<Rightarrow> n),
       tr_distributed = distributed\<rparr>)"

type_synonym 'a ract = "(rpc_memory, rpc_event, 'a) act"

subsection \<open>The circuit\<close>

definition closed_circuit :: circuit where
  "closed_circuit = \<lparr>ci_state = Closed, ci_failures = 0, ci_openedUntil = 0\<rparr>"

definition circuit_of :: "string \<Rightarrow> health_row list \<Rightarrow> circuit" where
  "circuit_of key rows = (case find (\<lambda>r. he_key r = key) rows of None \<Rightarrow> closed_circuit
     | Some r \<Rightarrow> \<lparr>ci_state = he_state r, ci_failures = he_failures r,
         ci_openedUntil = (case he_openedUntil r of None \<Rightarrow> 0 | Some t \<Rightarrow> t)\<rparr>)"

text \<open>A call of D1, which may fail, and then runs its statement.\<close>

definition d1 :: "'r circuit_services \<Rightarrow> (health_row list \<Rightarrow> 'a \<times> health_row list) \<Rightarrow> 'a ract" where
  "d1 X f = bindA (extcall (xc_d1 X) ''d1'') (\<lambda>_. syncA (\<lambda>m. case f (rm_health m) of (x, rows) \<Rightarrow> (x, m\<lparr>rm_health := rows\<rparr>)))"

definition readCircuit :: "'r circuit_services \<Rightarrow> string \<Rightarrow> circuit ract" where
  "readCircuit X key = catchA (d1 X (\<lambda>rows. (circuit_of key rows, rows))) (\<lambda>_. ret closed_circuit)"

definition recordFailure :: "'r circuit_services \<Rightarrow> transport \<Rightarrow> failure_code \<Rightarrow> int \<Rightarrow> unit ract" where
  "recordFailure X T code latency = bindA date_now (\<lambda>now. catchA
     (d1 X (\<lambda>rows. ((), failure_stmt (tr_key T) (tr_role T) (tr_alias T) code latency now rows))) (\<lambda>_. ret ()))"

datatype probe_claim = Claimed | Busy | Unavailable

definition claimHalfOpenProbe :: "'r circuit_services \<Rightarrow> string \<Rightarrow> probe_claim ract" where
  "claimHalfOpenProbe X key = bindA date_now (\<lambda>now. catchA
     (d1 X (\<lambda>rows. case probe_stmt key now rows of (rows', n) \<Rightarrow> (if 0 < n then Claimed else Busy, rows'))) (\<lambda>_. ret Unavailable))"

definition recordRecovery :: "'r circuit_services \<Rightarrow> transport \<Rightarrow> int \<Rightarrow> unit ract" where
  "recordRecovery X T latency = bindA date_now (\<lambda>now. catchA
     (d1 X (\<lambda>rows. ((), recovery_stmt (tr_key T) (tr_role T) (tr_alias T) latency now rows))) (\<lambda>_. ret ()))"

definition blocked :: "circuit \<Rightarrow> int \<Rightarrow> bool" where
  "blocked c now \<longleftrightarrow> ci_state c \<in> {Open, HalfOpen} \<and> now < ci_openedUntil c"

definition set_cached :: "circuit \<Rightarrow> int option \<Rightarrow> unit ract" where
  "set_cached c validUntil = syncA (\<lambda>m. ((), m\<lparr>rm_cached := Some c,
     rm_cachedUntil := (case validUntil of None \<Rightarrow> rm_cachedUntil m | Some t \<Rightarrow> t)\<rparr>))"

text \<open>\<open>cachedCircuit\<close>; reading a property of \<open>null\<close> would throw.\<close>

definition cached :: "circuit ract" where
  "cached = bindA (syncA (\<lambda>m. (rm_cached m, m))) (\<lambda>c. case c of None \<Rightarrow> throw (Thrown ''TypeError'') | Some x \<Rightarrow> ret x)"

text \<open>Up to the admissions: \<open>Some\<close> error when the circuit is open.\<close>

definition try_probe :: "'r circuit_services \<Rightarrow> transport \<Rightarrow> thrown option ract" where
  "try_probe X T = bindA (claimHalfOpenProbe X (tr_key T)) (\<lambda>claim. case claim of
       Busy \<Rightarrow> bindA (readCircuit X (tr_key T)) (\<lambda>c. bindA date_now (\<lambda>t. bindA (set_cached c (Some (t + CIRCUIT_CACHE_MS))) (\<lambda>_.
         ret (if blocked c t then Some (RpcCircuitOpenError (tr_alias T) (tr_lane T)) else None))))
     | Claimed \<Rightarrow> bindA cached (\<lambda>c. bindA date_now (\<lambda>t. bindA (set_cached
           \<lparr>ci_state = HalfOpen, ci_failures = ci_failures c, ci_openedUntil = t + CIRCUIT_PROBE_LEASE_MS\<rparr>
           (Some (t + CIRCUIT_CACHE_MS))) (\<lambda>_. ret None)))
     | Unavailable \<Rightarrow> ret None)"

definition pass_circuit :: "'r circuit_services \<Rightarrow> transport \<Rightarrow> thrown option ract" where
  "pass_circuit X T = bindA date_now (\<lambda>now.
     bindA (syncA (\<lambda>m. (rm_cached m = None \<or> rm_cachedUntil m \<le> now, m))) (\<lambda>stale.
     bindA (whenA stale (bindA (readCircuit X (tr_key T)) (\<lambda>c. set_cached c (Some (now + CIRCUIT_CACHE_MS))))) (\<lambda>_.
     bindA cached (\<lambda>c.
       if blocked c now then ret (Some (RpcCircuitOpenError (tr_alias T) (tr_lane T)))
       else if ci_state c \<in> {Open, HalfOpen} then try_probe X T else ret None))))"

subsection \<open>The admissions\<close>

text \<open>Waiting for a place lets other calls run; then the caller has been handed one, or its timer fires.\<close>

definition limiter_acquire :: "transport \<Rightarrow> (thrown + nat) ract" where
  "limiter_acquire T = bindA (syncA (\<lambda>m. let c = rm_calls m in (c, m\<lparr>rm_calls := Suc c,
       rm_semaphore := local_acquire (nat (tr_maxConcurrency T)) c (rm_semaphore m)\<rparr>))) (\<lambda>c.
     bindA (emitA (SlotAsked c)) (\<lambda>_.
     bindA (syncA (\<lambda>m. (c \<in> set (lm_holders (rm_semaphore m)), m))) (\<lambda>got.
       if got then ret (Inr c)
       else bindA (extcall (\<lambda>_. Some ()) ''slot'') (\<lambda>_. syncA (\<lambda>m. if c \<in> set (lm_holders (rm_semaphore m)) then (Inr c, m)
         else (Inl RpcAdmissionTimeoutError, m\<lparr>rm_semaphore := local_timeout c (rm_semaphore m)\<rparr>))))))"

definition limiter_release :: "nat \<Rightarrow> unit ract" where
  "limiter_release c = syncA (\<lambda>m. ((), m\<lparr>rm_semaphore := local_release c (rm_semaphore m)\<rparr>))"

definition stub_acquire :: "'r circuit_services \<Rightarrow> transport \<Rightarrow> admission_result ract" where
  "stub_acquire X T = bindA (extcall (xc_stub X) ''admission'') (\<lambda>_. bindA date_now (\<lambda>now. bindA randomUUID (\<lambda>u.
     bindA (syncA (\<lambda>m. case acquire now u \<lparr>ar_maxConcurrency = tr_maxConcurrency T, ar_leaseTtlMs = admissionLeaseTtlMs (tr_timeoutMs T)\<rparr>
         (rm_admission m) of (r, a) \<Rightarrow> (r, m\<lparr>rm_admission := a\<rparr>))) liftE)))"

definition sleep :: "int \<Rightarrow> unit ract" where
  "sleep ms w = (let w' = await w in (Inr (), w'\<lparr>w_now := w_now w' + ms\<rparr>))"

text \<open>\<open>for (;;)\<close>: each refusal is followed by a sleep, so the deadline comes.\<close>

lemma refused_later: "acquire now u r s = (Inr (Refused ms), s') \<Longrightarrow> 25 \<le> ms"
  by (auto simp: acquire_def Let_def split: if_splits)

lemma await_later: "w_now w \<le> w_now (await w)"
  by (auto simp: await_def split: list.splits)

lemma stub_acquire_later:
  assumes "stub_acquire X T w = (Inr (Refused ms), w')"
  shows "25 \<le> ms \<and> w_now w \<le> w_now w'"
  using assms await_later [of w]
  by (auto simp: stub_acquire_def bindA_def extcall_def date_now_def randomUUID_def syncA_def liftE_def Let_def
      split: option.splits prod.splits sum.splits dest: refused_later)

function acquireDistributedAdmission ::
    "'r circuit_services \<Rightarrow> transport \<Rightarrow> int \<Rightarrow> (rpc_memory, rpc_event) world \<Rightarrow>
     (err + (thrown + string)) \<times> (rpc_memory, rpc_event) world" where
  "acquireDistributedAdmission X T deadline w = (case stub_acquire X T w of
       (Inl e, w1) \<Rightarrow> (Inl e, w1)
     | (Inr (Granted token), w1) \<Rightarrow> bindA (emitA (TokenGranted token)) (\<lambda>_. ret (Inr token)) w1
     | (Inr (Refused ms), w1) \<Rightarrow> (let remainingMs = deadline - w_now w1 in
         if remainingMs \<le> 0 then (Inr (Inl RpcAdmissionTimeoutError), w1)
         else acquireDistributedAdmission X T deadline (snd (sleep (min ms remainingMs) w1))))"
  by pat_completeness auto

termination
proof (relation "measure (\<lambda>(X, T, deadline, w). nat (deadline - w_now w))", goal_cases)
  case (2 X T deadline w r w1 x ms remainingMs)
  have "25 \<le> ms" "w_now w \<le> w_now w1" using stub_acquire_later [of X T w ms w1] 2 by auto
  moreover have "w_now w1 \<le> w_now (await w1)" by (rule await_later)
  ultimately show ?case using 2 by (auto simp: sleep_def Let_def)
qed simp

subsection \<open>One request\<close>

definition finallyA :: "'a ract \<Rightarrow> unit ract \<Rightarrow> 'a ract" where
  "finallyA m f w = (case m w of (r, w1) \<Rightarrow> (case f w1 of (Inl e, w2) \<Rightarrow> (Inl e, w2) | (Inr _, w2) \<Rightarrow> (r, w2)))"

text \<open>An exception of another part as a thrown error.\<close>

definition as_thrown :: "err \<Rightarrow> thrown" where
  "as_thrown e = (case e of Thrown s \<Rightarrow> JsError ''Error'' s None | ExternalError s \<Rightarrow> JsError ''Error'' s None
     | _ \<Rightarrow> OtherValue ''error'')"

definition admit :: "'r circuit_services \<Rightarrow> transport \<Rightarrow> (thrown + string option) ract" where
  "admit X T = (if \<not> tr_distributed T then ret (Inr None)
     else bindA date_now (\<lambda>now. catchA
       (bindA (acquireDistributedAdmission X T (now + admissionWaitMs (tr_lane T) (tr_timeoutMs T))) (\<lambda>r. ret (map_sum id Some r)))
       (\<lambda>e. ret (Inl (as_thrown e)))))"

definition note_success :: "'r circuit_services \<Rightarrow> transport \<Rightarrow> int \<Rightarrow> unit ract" where
  "note_success X T latency = bindA cached (\<lambda>c.
     bindA (whenA (ci_state c \<noteq> Closed \<or> 0 < ci_failures c) (recordRecovery X T latency)) (\<lambda>_. set_cached closed_circuit None))"

definition note_failure :: "'r circuit_services \<Rightarrow> transport \<Rightarrow> thrown \<Rightarrow> int \<Rightarrow> unit ract" where
  "note_failure X T e latency = bindA cached (\<lambda>c. let wasHalfOpen = (ci_state c = HalfOpen) in
     if isTransientRpcError e
     then let code = failureCode e in bindA (recordFailure X T code latency) (\<lambda>_. bindA cached (\<lambda>c1. bindA date_now (\<lambda>t.
       let failures = ci_failures c1 + 1; shouldOpen = (wasHalfOpen \<or> failureThreshold code \<le> failures) in
       set_cached \<lparr>ci_state = (if shouldOpen then Open else Closed), ci_failures = failures,
         ci_openedUntil = (if shouldOpen then t + circuitOpenMs code else 0)\<rparr> (Some (t + CIRCUIT_CACHE_MS)))))
     else if wasHalfOpen
     then bindA (recordRecovery X T latency) (\<lambda>_. bindA date_now (\<lambda>t. set_cached closed_circuit (Some (t + CIRCUIT_CACHE_MS))))
     else ret ())"

definition call_node :: "'r circuit_services \<Rightarrow> transport \<Rightarrow> string \<Rightarrow> (thrown + 'r) ract" where
  "call_node X T rpc_method = bindA date_now (\<lambda>startedAt.
     bindA (callA (RpcCall rpc_method) (\<lambda>t. Some (xc_answer X rpc_method t)) ''rpc'') (\<lambda>ans. bindA date_now (\<lambda>t. case ans of
       Inr r \<Rightarrow> bindA (note_success X T (t - startedAt)) (\<lambda>_. ret (Inr r))
     | Inl e \<Rightarrow> bindA (note_failure X T e (t - startedAt)) (\<lambda>_. ret (Inl e)))))"

definition return_token :: "'r circuit_services \<Rightarrow> string option \<Rightarrow> unit ract" where
  "return_token X token = (case token of None \<Rightarrow> ret ()
     | Some t \<Rightarrow> catchA (bindA (callA (TokenReturned t) (xc_stub X) ''admission'') (\<lambda>_. bindA date_now (\<lambda>now.
         syncA (\<lambda>m. ((), m\<lparr>rm_admission := release now t (rm_admission m)\<rparr>))))) (\<lambda>_. ret ()))"

definition give_back :: "'r circuit_services \<Rightarrow> nat \<Rightarrow> string option \<Rightarrow> unit ract" where
  "give_back X c token = bindA (return_token X token) (\<lambda>_. limiter_release c)"

definition controlled_request :: "'r circuit_services \<Rightarrow> transport \<Rightarrow> string \<Rightarrow> (thrown + 'r) ract" where
  "controlled_request X T rpc_method = bindA (pass_circuit X T) (\<lambda>refused. case refused of
       Some e \<Rightarrow> ret (Inl e)
     | None \<Rightarrow> bindA (limiter_acquire T) (\<lambda>slot. case slot of
         Inl e \<Rightarrow> ret (Inl e)
       | Inr c \<Rightarrow> bindA (admit X T) (\<lambda>admitted. case admitted of
           Inl e \<Rightarrow> bindA (limiter_release c) (\<lambda>_. ret (Inl e))
         | Inr token \<Rightarrow> finallyA (call_node X T rpc_method) (give_back X c token))))"

definition getRpcHealthSummary :: "'r circuit_services \<Rightarrow> health_row list ract" where
  "getRpcHealthSummary X = catchA (d1 X (\<lambda>rows. (rows, rows))) (\<lambda>_. ret [])"

subsection \<open>One probe at a time\<close>

text \<open>What happens to the table, with the time and the endpoint, role, alias and latency.\<close>

datatype circuit_op =
    Fails int string rpc_role string failure_code int
  | Probes int string
  | Recovers int string rpc_role string int

fun op_time :: "circuit_op \<Rightarrow> int" where
  "op_time (Fails now key role alias code latency) = now"
| "op_time (Probes now key) = now"
| "op_time (Recovers now key role alias latency) = now"

fun op_run :: "circuit_op \<Rightarrow> health_row list \<Rightarrow> health_row list" where
  "op_run (Fails now key role alias code latency) rows = failure_stmt key role alias code latency now rows"
| "op_run (Probes now key) rows = fst (probe_stmt key now rows)"
| "op_run (Recovers now key role alias latency) rows = recovery_stmt key role alias latency now rows"

text \<open>No row of the endpoint can be taken for a probe before \<open>t\<close>.\<close>

definition not_before :: "string \<Rightarrow> int \<Rightarrow> health_row list \<Rightarrow> bool" where
  "not_before key t rows \<longleftrightarrow> (\<forall>r \<in> set rows. he_key r = key \<longrightarrow> he_state r = Closed \<or>
     (\<exists>u. he_openedUntil r = Some u \<and> t \<le> u))"

lemma circuitOpenMs_min: "CIRCUIT_PROBE_LEASE_MS \<le> circuitOpenMs code"
  by (simp add: circuitOpenMs_def CIRCUIT_PROBE_LEASE_MS_def CIRCUIT_OPEN_MS_def RATE_LIMIT_CIRCUIT_OPEN_MS_def)

lemma op_run_not_before:
  assumes "not_before key (t + CIRCUIT_PROBE_LEASE_MS) rows" and "t \<le> op_time x"
  shows "not_before key (t + CIRCUIT_PROBE_LEASE_MS) (op_run x rows)"
  using assms
proof (cases x)
  case (Fails now k role al code latency)
  have "CIRCUIT_PROBE_LEASE_MS \<le> circuitOpenMs code" by (rule circuitOpenMs_min)
  then show ?thesis using assms Fails
    by (force simp: not_before_def failure_stmt_def upsert_row_def failed_row_def first_failure_def Let_def split: if_splits)
next
  case (Probes now k)
  then show ?thesis using assms by (force simp: not_before_def probe_stmt_def split: if_splits)
next
  case (Recovers now k role al latency)
  then show ?thesis using assms
    by (force simp: not_before_def recovery_stmt_def upsert_row_def recovered_row_def split: if_splits)
qed

lemma probe_taken: "not_before key (now + CIRCUIT_PROBE_LEASE_MS) (fst (probe_stmt key now rows))"
  if "0 < snd (probe_stmt key now rows)" and "distinct (map he_key rows)"
proof -
  from that(1) obtain p where p: "p \<in> set rows" "probe_free key now p" by (auto simp: probe_stmt_def filter_empty_conv)
  have "r = p" if "r \<in> set rows" "he_key r = key" for r
    using p that \<open>distinct (map he_key rows)\<close> by (auto simp: probe_free_def distinct_map inj_on_def)
  then show ?thesis using p by (auto simp: not_before_def probe_stmt_def)
qed

lemma probe_denied:
  assumes "not_before key t rows" and "now < t"
  shows "snd (probe_stmt key now rows) = 0"
  using assms by (force simp: probe_stmt_def probe_free_def not_before_def filter_empty_conv)

text \<open>
  C31: an open circuit lets one probe through per lease.  After a request has claimed the probe of an endpoint, no other
  claim of that endpoint succeeds for 15 seconds, whatever failures, recoveries and claims of any endpoint other
  requests record in between.
\<close>

theorem probes_spaced:
  assumes "distinct (map he_key rows)" and "0 < snd (probe_stmt key now rows)"
    and "sorted (now # map op_time ops)" and "later < now + 15000"
  shows "snd (probe_stmt key later (fold op_run ops (fst (probe_stmt key now rows)))) = 0"
proof -
  have "not_before key (now + CIRCUIT_PROBE_LEASE_MS) (fold op_run ops r)"
    if "not_before key (now + CIRCUIT_PROBE_LEASE_MS) r" "list_all (\<lambda>x. now \<le> op_time x) ops" for r ops
    using that by (induction ops arbitrary: r) (auto intro: op_run_not_before)
  moreover have "list_all (\<lambda>x. now \<le> op_time x) ops" using assms(3) by (auto simp: list_all_iff)
  ultimately show ?thesis
    using probe_taken [OF assms(2,1)] assms(4) by (intro probe_denied) (auto simp: CIRCUIT_PROBE_LEASE_MS_def)
qed

definition limited_row :: health_row where
  "limited_row = first_failure ''read:0'' RoleRead ''alchemy'' RATE_LIMITED 40 0"

theorem probes_spaced_witness:
  "snd (probe_stmt ''read:0'' 44999 (fold op_run [Fails 31000 ''read:0'' RoleRead ''alchemy'' TIMEOUT 7,
      Recovers 32000 ''read:1'' RoleRead ''other'' 9] (fst (probe_stmt ''read:0'' 30000 [limited_row])))) = 0"
proof -
  have "0 < snd (probe_stmt ''read:0'' 30000 [limited_row])" by code_simp
  then show ?thesis by (intro probes_spaced) simp_all
qed

end
