(* ===== verification/RpcCircuitProps.thy ===== *)
theory RpcCircuitProps
  imports RpcCircuit
begin

text \<open>
  Whatever becomes of a request to an RPC node, it gives its places back: other requests of the same isolate may run at
  every \<open>await\<close>, as long as they use the semaphore through its three operations and finished callers stay finished.
\<close>

subsection \<open>What other requests keep\<close>

definition finished :: "nat \<Rightarrow> rpc_memory \<Rightarrow> bool" where
  "finished c m \<longleftrightarrow> c \<notin> set (lm_holders (rm_semaphore m)) \<and> c \<notin> set (lm_waiters (rm_semaphore m))"

definition slots_I :: "nat \<Rightarrow> rpc_memory invariant" where
  "slots_I n g k m \<longleftrightarrow> semaphore_reach n (rm_calls m) (rm_semaphore m)"

definition slots_R :: "rpc_memory \<Rightarrow> rpc_memory \<Rightarrow> bool" where
  "slots_R m m' \<longleftrightarrow> rm_calls m \<le> rm_calls m' \<and> (\<forall>c < rm_calls m.
     (c \<notin> set (lm_waiters (rm_semaphore m)) \<longrightarrow> c \<notin> set (lm_waiters (rm_semaphore m'))) \<and> (finished c m \<longrightarrow> finished c m'))"

interpretation slots: rely_guarantee "slots_I n" slots_R
proof
  show "slots_R d d" for d by (simp add: slots_R_def)
  show "slots_R d1 d2 \<Longrightarrow> slots_R d2 d3 \<Longrightarrow> slots_R d1 d3" for d1 d2 d3
    unfolding slots_R_def by (meson less_le_trans order_trans)
  show "slots_I n g k d \<Longrightarrow> slots_I n g (Suc k) d" for g k d by (simp add: slots_I_def)
qed

text \<open>The operations of the semaphore keep this themselves.\<close>

lemma slots_apart:
  assumes "slots_I n g k m"
  shows "distinct (lm_holders (rm_semaphore m) @ lm_waiters (rm_semaphore m))"
    and "c \<in> set (lm_holders (rm_semaphore m) @ lm_waiters (rm_semaphore m)) \<Longrightarrow> c < rm_calls m"
  using local_semaphore_sound [of n "rm_calls m" "rm_semaphore m"] assms
  by (auto simp: slots_I_def list_all_iff)

lemma slots_acquire:
  assumes "slots_I n g k m"
  shows "slots_I n g k (m\<lparr>rm_calls := Suc (rm_calls m), rm_semaphore := local_acquire n (rm_calls m) (rm_semaphore m)\<rparr>)"
    and "slots_R m (m\<lparr>rm_calls := Suc (rm_calls m), rm_semaphore := local_acquire n (rm_calls m) (rm_semaphore m)\<rparr>)"
proof -
  show "slots_I n g k (m\<lparr>rm_calls := Suc (rm_calls m), rm_semaphore := local_acquire n (rm_calls m) (rm_semaphore m)\<rparr>)"
    using assms by (auto simp: slots_I_def intro: semaphore_reach.acquired)
  show "slots_R m (m\<lparr>rm_calls := Suc (rm_calls m), rm_semaphore := local_acquire n (rm_calls m) (rm_semaphore m)\<rparr>)"
    using slots_apart(2) [OF assms] by (auto simp: slots_R_def finished_def local_acquire_def)
qed

lemma slots_timeout:
  assumes "slots_I n g k m"
  shows "slots_I n g k (m\<lparr>rm_semaphore := local_timeout c (rm_semaphore m)\<rparr>)"
    and "slots_R m (m\<lparr>rm_semaphore := local_timeout c (rm_semaphore m)\<rparr>)"
    and "c \<notin> set (lm_holders (rm_semaphore m)) \<Longrightarrow> finished c (m\<lparr>rm_semaphore := local_timeout c (rm_semaphore m)\<rparr>)"
proof -
  show "slots_I n g k (m\<lparr>rm_semaphore := local_timeout c (rm_semaphore m)\<rparr>)"
    using assms by (auto simp: slots_I_def intro: semaphore_reach.timed_out)
  show "slots_R m (m\<lparr>rm_semaphore := local_timeout c (rm_semaphore m)\<rparr>)"
    by (auto simp: slots_R_def finished_def local_timeout_def dest: notin_set_remove1)
  show "c \<notin> set (lm_holders (rm_semaphore m)) \<Longrightarrow> finished c (m\<lparr>rm_semaphore := local_timeout c (rm_semaphore m)\<rparr>)"
    using slots_apart(1) [OF assms] by (auto simp: finished_def local_timeout_def)
qed

lemma slots_release:
  assumes "slots_I n g k m"
  shows "slots_I n g k (m\<lparr>rm_semaphore := local_release c (rm_semaphore m)\<rparr>)"
    and "slots_R m (m\<lparr>rm_semaphore := local_release c (rm_semaphore m)\<rparr>)"
    and "c \<notin> set (lm_waiters (rm_semaphore m)) \<Longrightarrow> finished c (m\<lparr>rm_semaphore := local_release c (rm_semaphore m)\<rparr>)"
proof -
  show "slots_I n g k (m\<lparr>rm_semaphore := local_release c (rm_semaphore m)\<rparr>)"
    using assms by (auto simp: slots_I_def intro: semaphore_reach.released)
  show "slots_R m (m\<lparr>rm_semaphore := local_release c (rm_semaphore m)\<rparr>)"
    using slots_apart(1) [OF assms]
    by (auto simp: slots_R_def finished_def local_release_def Let_def split: list.splits dest: notin_set_remove1)
  show "c \<notin> set (lm_waiters (rm_semaphore m)) \<Longrightarrow> finished c (m\<lparr>rm_semaphore := local_release c (rm_semaphore m)\<rparr>)"
    using slots_apart(1) [OF assms]
    by (auto simp: finished_def local_release_def Let_def split: list.splits)
qed

subsection \<open>Parts that leave the places alone\<close>

text \<open>\<open>plain n m\<close>: the action keeps to the contract above and sends nothing.\<close>

definition plain_act :: "nat \<Rightarrow> 'a ract \<Rightarrow> bool" where
  "plain_act n m \<longleftrightarrow> guar (slots_I n) slots_R m \<and> (\<forall>w. w_sent (snd (m w)) = w_sent w)"

lemma sent_same [simp]: "w_sent (await w) = w_sent w"
  by (auto simp: await_def split: list.splits prod.splits)

lemma plain_bindA: "plain_act n m \<Longrightarrow> (\<And>x. plain_act n (f x)) \<Longrightarrow> plain_act n (bindA m f)"
  by (auto simp: plain_act_def bindA_def split: prod.split sum.split) (metis snd_conv)+

lemma plain_catchA: "plain_act n m \<Longrightarrow> (\<And>e. plain_act n (h e)) \<Longrightarrow> plain_act n (catchA m h)"
  by (auto simp: plain_act_def catchA_def split: prod.split sum.split) (metis snd_conv)+

lemma plain_basic:
  "plain_act n (ret x)" "plain_act n (throw e)" "plain_act n (liftE r)" "plain_act n date_now" "plain_act n (extcall f s)"
  "plain_act n randomUUID"
  unfolding plain_act_def
  by (auto simp: ret_def throw_def liftE_def date_now_def extcall_def randomUUID_def Let_def split: option.split)

lemma plain_whenA: "plain_act n m \<Longrightarrow> plain_act n (whenA b m)"
  by (simp add: whenA_def plain_basic)

lemma plain_syncA:
  assumes "\<And>m. rm_calls (snd (f m)) = rm_calls m \<and> rm_semaphore (snd (f m)) = rm_semaphore m"
  shows "plain_act n (syncA f)"
proof -
  have "calm (slots_I n) slots_R (syncA f)"
    by (rule slots.calm_syncA) (simp add: slots_I_def slots_R_def finished_def assms)
  then show ?thesis by (auto simp: plain_act_def syncA_def intro: calm_guar split: prod.split)
qed

lemmas plain_rules = plain_basic plain_bindA plain_catchA plain_whenA plain_syncA

lemma plain_d1: "plain_act n (d1 X f)"
  unfolding d1_def by (intro plain_rules) (simp split: prod.split)

lemma plain_cached: "plain_act n cached" "plain_act n (set_cached c t)"
  unfolding cached_def set_cached_def by (intro plain_rules; simp add: plain_basic split: option.split)+

lemma plain_circuit:
  "plain_act n (readCircuit X key)" "plain_act n (recordFailure X T code l)" "plain_act n (claimHalfOpenProbe X key)"
  "plain_act n (recordRecovery X T l)"
  unfolding readCircuit_def recordFailure_def claimHalfOpenProbe_def recordRecovery_def by (intro plain_rules plain_d1)+

lemma plain_pass: "plain_act n (pass_circuit X T)"
proof -
  have probe: "plain_act n (try_probe X T)"
    unfolding try_probe_def
    by (intro plain_rules plain_circuit) (auto split: probe_claim.split intro!: plain_rules plain_circuit plain_cached)
  show ?thesis
    unfolding pass_circuit_def by (intro plain_rules plain_circuit plain_cached | simp add: probe plain_basic split: if_split)+
qed

lemma plain_notes: "plain_act n (note_success X T l)" "plain_act n (note_failure X T e l)"
  unfolding note_success_def note_failure_def Let_def
  by (intro plain_rules plain_circuit plain_cached | simp split: if_split | intro conjI impI)+

lemma plain_stub: "plain_act n (stub_acquire X T)"
  unfolding stub_acquire_def by (intro plain_rules) (auto split: prod.split)

lemma plain_sleep: "plain_act n (sleep ms)"
proof -
  have "ends_ok (slots_I n) slots_R w (snd (sleep ms w))"
    if "holds_at (slots_I n) (w_ix w) w" "env_ok (slots_I n) slots_R w" for w
    using slots.await_ok [OF that] by (simp add: sleep_def Let_def ends_ok_def holds_at_def env_ok_def)
  then show ?thesis by (auto simp: plain_act_def guar_def sleep_def Let_def)
qed

subsection \<open>The parts that take and give places\<close>

abbreviation good_world :: "nat \<Rightarrow> (rpc_memory, rpc_event) world \<Rightarrow> bool" where
  "good_world n w \<equiv> holds_at (slots_I n) (w_ix w) w \<and> env_ok (slots_I n) slots_R w"

text \<open>What an action sends, what it ends with, and that it keeps to the contract.\<close>

definition does :: "nat \<Rightarrow> (rpc_memory \<Rightarrow> bool) \<Rightarrow> 'a ract \<Rightarrow> (rpc_event list \<Rightarrow> (err + 'a) \<Rightarrow> rpc_memory \<Rightarrow> bool) \<Rightarrow> bool" where
  "does n P m Q \<longleftrightarrow> (\<forall>w. good_world n w \<and> P (w_db w) \<longrightarrow>
     ends_ok (slots_I n) slots_R w (snd (m w)) \<and>
     (\<exists>es. w_sent (snd (m w)) = w_sent w @ es \<and> Q es (fst (m w)) (w_db (snd (m w)))))"

lemma doesD:
  assumes "does n P m Q" and "good_world n w" and "P (w_db w)" and "m w = (r, w')"
  shows "good_world n w' \<and> ends_ok (slots_I n) slots_R w w' \<and> (\<exists>es. w_sent w' = w_sent w @ es \<and> Q es r (w_db w'))"
  using assms by (auto simp: does_def ends_ok_def)

lemma does_plain: "plain_act n m \<Longrightarrow> does n P m (\<lambda>es r d. es = [])"
  by (auto simp: does_def plain_act_def guar_def)

text \<open>A place that is asked for is held, or its caller is finished; a caller that has asked never waits again.\<close>

definition asked :: "nat \<Rightarrow> rpc_memory \<Rightarrow> bool" where
  "asked c m \<longleftrightarrow> c < rm_calls m \<and> c \<notin> set (lm_waiters (rm_semaphore m))"

lemma asked_stable: "slots_R m m' \<Longrightarrow> asked c m \<Longrightarrow> asked c m'"
  by (auto simp: slots_R_def asked_def)

lemma finished_stable: "slots_R m m' \<Longrightarrow> asked c m \<Longrightarrow> finished c m \<Longrightarrow> finished c m'"
  by (auto simp: slots_R_def asked_def)

lemma does_limiter:
  assumes n: "n = nat (tr_maxConcurrency T)"
  shows "does n (\<lambda>d. True) (limiter_acquire T) (\<lambda>es r d. \<exists>c. es = [SlotAsked c] \<and> asked c d \<and>
    (case r of Inl e \<Rightarrow> False | Inr (Inl e) \<Rightarrow> finished c d | Inr (Inr c') \<Rightarrow> c' = c))"
  unfolding does_def
proof (intro allI impI, elim conjE)
  fix w :: "(rpc_memory, rpc_event) world"
  assume w: "holds_at (slots_I n) (w_ix w) w" "env_ok (slots_I n) slots_R w"
  define c where "c = rm_calls (w_db w)"
  define d1 where "d1 = (w_db w)\<lparr>rm_calls := Suc c, rm_semaphore := local_acquire n c (rm_semaphore (w_db w))\<rparr>"
  define w1 where "w1 = w\<lparr>w_db := d1, w_sent := w_sent w @ [SlotAsked c]\<rparr>"
  have I: "slots_I n (w_uuid w) (w_ix w) (w_db w)" using w(1) by (simp add: holds_at_def)
  have 1: "slots_I n (w_uuid w) (w_ix w) d1" "slots_R (w_db w) d1"
    using slots_acquire [OF I] by (simp_all add: d1_def c_def)
  then have w1: "ends_ok (slots_I n) slots_R w w1" using w by (simp add: w1_def ends_ok_def holds_at_def)
  have c: "c < rm_calls d1" by (simp add: d1_def)
  define w2 where "w2 = await w1"
  have w2: "holds_at (slots_I n) (w_ix w) w2" "slots_R d1 (w_db w2)" "env_ok (slots_I n) slots_R w2"
    using slots.await_ok [of n "w_ix w" w1] w1 by (auto simp: w2_def w1_def ends_ok_def)
  have I2: "slots_I n (w_uuid w) (w_ix w) (w_db w2)" using w2(1) by (simp add: holds_at_def w2_def w1_def)
  define d3 where "d3 = (w_db w2)\<lparr>rm_semaphore := local_timeout c (rm_semaphore (w_db w2))\<rparr>"
  note t = slots_timeout [OF I2, of c, folded d3_def]
  have calls: "c < rm_calls (w_db w2)" using w2(2) c by (auto simp: slots_R_def)
  have apart: "c \<in> set (lm_holders (rm_semaphore d)) \<Longrightarrow> c \<notin> set (lm_waiters (rm_semaphore d))"
    if "slots_I n (w_uuid w) (w_ix w) d" for d using slots_apart(1) [OF that] by auto
  have run: "limiter_acquire T w = (if c \<in> set (lm_holders (rm_semaphore d1)) then (Inr (Inr c), w1)
      else if c \<in> set (lm_holders (rm_semaphore (w_db w2))) then (Inr (Inr c), w2)
      else (Inr (Inl RpcAdmissionTimeoutError), w2\<lparr>w_db := d3\<rparr>))"
    by (simp add: limiter_acquire_def bindA_def syncA_def emitA_def ret_def extcall_def Let_def n c_def d1_def w1_def w2_def d3_def)
  show "ends_ok (slots_I n) slots_R w (snd (limiter_acquire T w)) \<and>
     (\<exists>es. w_sent (snd (limiter_acquire T w)) = w_sent w @ es \<and>
       (\<exists>c. es = [SlotAsked c] \<and> asked c (w_db (snd (limiter_acquire T w))) \<and>
        (case fst (limiter_acquire T w) of Inl e \<Rightarrow> False | Inr (Inl e) \<Rightarrow> finished c (w_db (snd (limiter_acquire T w)))
         | Inr (Inr c') \<Rightarrow> c' = c)))"
  proof (cases "c \<in> set (lm_holders (rm_semaphore d1))")
    case True
    then show ?thesis using run w1 c apart [OF 1(1)] by (auto simp: w1_def asked_def)
  next
    case no: False
    have e2: "ends_ok (slots_I n) slots_R w w2"
      using w2 1(2) slots.R_trans [of "w_db w" d1 "w_db w2"] by (simp add: ends_ok_def w2_def w1_def)
    have s2: "w_sent w2 = w_sent w @ [SlotAsked c]" by (simp add: w2_def w1_def)
    show ?thesis
    proof (cases "c \<in> set (lm_holders (rm_semaphore (w_db w2)))")
      case True
      then show ?thesis using run no e2 s2 calls apart [OF I2] by (auto simp: asked_def)
    next
      case False
      have f: "finished c d3" using t(3) False by simp
      have "ends_ok (slots_I n) slots_R w (w2\<lparr>w_db := d3\<rparr>)"
        using e2 t(1,2) w slots.R_trans [of "w_db w" "w_db w2" d3] by (simp add: ends_ok_def holds_at_def w2_def w1_def)
      moreover have "asked c d3" using f calls by (simp add: asked_def finished_def d3_def)
      ultimately show ?thesis using run no False s2 f by simp
    qed
  qed
qed

lemma does_release: "does n (asked c) (limiter_release c) (\<lambda>es r d. es = [] \<and> r = Inr () \<and> finished c d)"
  unfolding does_def
proof (intro allI impI, elim conjE)
  fix w :: "(rpc_memory, rpc_event) world"
  assume w: "holds_at (slots_I n) (w_ix w) w" "env_ok (slots_I n) slots_R w" "asked c (w_db w)"
  have "slots_I n (w_uuid w) (w_ix w) (w_db w)" using w(1) by (simp add: holds_at_def)
  note r = slots_release [OF this, of c]
  show "ends_ok (slots_I n) slots_R w (snd (limiter_release c w)) \<and>
    (\<exists>es. w_sent (snd (limiter_release c w)) = w_sent w @ es \<and> es = [] \<and> fst (limiter_release c w) = Inr () \<and>
      finished c (w_db (snd (limiter_release c w))))"
    using r w by (simp add: limiter_release_def syncA_def ends_ok_def holds_at_def asked_def)
qed

text \<open>The tokens of the distributed admission.\<close>

definition grants :: "(err + (thrown + string option)) \<Rightarrow> rpc_event list" where
  "grants r = (case r of Inr (Inr (Some t)) \<Rightarrow> [TokenGranted t] | _ \<Rightarrow> [])"

lemma ends_ok_emit: "good_world n w \<Longrightarrow> ends_ok (slots_I n) slots_R w (snd (emitA x w))"
  by (simp add: emitA_def ends_ok_def slots.R_refl)

lemma ends_ok_good: "good_world n w \<Longrightarrow> ends_ok (slots_I n) slots_R w w' \<Longrightarrow> good_world n w'"
  by (auto simp: ends_ok_def)

lemma acquire_token:
  "good_world n w \<Longrightarrow> acquireDistributedAdmission X T deadline w = (r, w') \<Longrightarrow>
    ends_ok (slots_I n) slots_R w w' \<and>
    w_sent w' = w_sent w @ (case r of Inr (Inr t) \<Rightarrow> [TokenGranted t] | _ \<Rightarrow> [])"
proof (induction X T deadline w rule: acquireDistributedAdmission.induct)
  case (1 X T deadline w)
  obtain r1 w1 where s: "stub_acquire X T w = (r1, w1)" by fastforce
  have p: "ends_ok (slots_I n) slots_R w w1" "w_sent w1 = w_sent w"
    using plain_stub [of n X T] "1.prems"(1) s by (auto simp: plain_act_def guar_def) (metis snd_conv)+
  show ?case
  proof (cases r1)
    case (Inl e)
    then show ?thesis using "1.prems"(2) s p by (auto simp: acquireDistributedAdmission.simps [of X T deadline w])
  next
    case (Inr a)
    show ?thesis
    proof (cases a)
      case (Granted t)
      have "ends_ok (slots_I n) slots_R w1 (snd (emitA (TokenGranted t) w1))"
        by (rule ends_ok_emit [OF ends_ok_good [OF "1.prems"(1) p(1)]])
      then show ?thesis
        using "1.prems"(2) s p Inr Granted slots.ends_ok_trans [OF p(1)]
        by (auto simp: acquireDistributedAdmission.simps [of X T deadline w] bindA_def emitA_def ret_def)
    next
      case (Refused ms)
      show ?thesis
      proof (cases "deadline - w_now w1 \<le> 0")
        case True
        then show ?thesis
          using "1.prems"(2) s p Inr Refused by (auto simp: acquireDistributedAdmission.simps [of X T deadline w] Let_def)
      next
        case False
        define w2 where "w2 = snd (sleep (min ms (deadline - w_now w1)) w1)"
        have q: "ends_ok (slots_I n) slots_R w1 w2" "w_sent w2 = w_sent w1"
          using plain_sleep [of n] ends_ok_good [OF "1.prems"(1) p(1)] by (auto simp: plain_act_def guar_def w2_def)
        have rest: "acquireDistributedAdmission X T deadline w2 = (r, w')"
          using "1.prems"(2) s Inr Refused False by (simp add: acquireDistributedAdmission.simps [of X T deadline w] Let_def w2_def)
        have "good_world n w2" using ends_ok_good [OF ends_ok_good [OF "1.prems"(1) p(1)] q(1)] .
        from "1.IH" [OF s [symmetric] Inr Refused refl False, folded w2_def, OF this rest]
        show ?thesis using p q slots.ends_ok_trans [OF slots.ends_ok_trans [OF p(1) q(1)]] by auto
      qed
    qed
  qed
qed

lemma does_admit:
  "does n (\<lambda>d. True) (admit X T) (\<lambda>es r d. es = grants r \<and> (\<exists>x. r = Inr x))"
  unfolding does_def
proof (intro allI impI, elim conjE)
  fix w :: "(rpc_memory, rpc_event) world"
  assume w: "holds_at (slots_I n) (w_ix w) w" "env_ok (slots_I n) slots_R w"
  show "ends_ok (slots_I n) slots_R w (snd (admit X T w)) \<and> (\<exists>es. w_sent (snd (admit X T w)) = w_sent w @ es \<and>
      es = grants (fst (admit X T w)) \<and> (\<exists>x. fst (admit X T w) = Inr x))"
  proof (cases "tr_distributed T")
    case False
    then show ?thesis using w by (simp add: admit_def ret_def grants_def ends_ok_def slots.R_refl)
  next
    case True
    define deadline where "deadline = w_now w + admissionWaitMs (tr_lane T) (tr_timeoutMs T)"
    obtain r w' where r: "acquireDistributedAdmission X T deadline w = (r, w')" by fastforce
    have "admit X T w = (Inr (case r of Inl e \<Rightarrow> Inl (as_thrown e) | Inr x \<Rightarrow> map_sum id Some x), w')"
      using True r by (auto simp: admit_def deadline_def bindA_def date_now_def catchA_def ret_def split: sum.split)
    then show ?thesis using acquire_token [OF _ r] w by (auto simp: grants_def split: sum.splits)
  qed
qed

lemma does_call:
  fixes X :: "'r circuit_services"
  shows "does n (\<lambda>d. True) (call_node X T k) (\<lambda>es r d. es = [RpcCall k])"
  unfolding does_def
proof (intro allI impI, elim conjE)
  fix w :: "(rpc_memory, rpc_event) world"
  assume w: "holds_at (slots_I n) (w_ix w) w" "env_ok (slots_I n) slots_R w"
  define w1 where "w1 = (await w)\<lparr>w_sent := w_sent w @ [RpcCall k]\<rparr>"
  define note_of :: "thrown + 'r \<Rightarrow> (thrown + 'r) ract" where "note_of = (\<lambda>ans. bindA date_now (\<lambda>t. case ans of
       Inr r \<Rightarrow> bindA (note_success X T (t - w_now w)) (\<lambda>_. ret (Inr r))
     | Inl e \<Rightarrow> bindA (note_failure X T e (t - w_now w)) (\<lambda>_. ret (Inl e))))"
  have run: "call_node X T k w = note_of (xc_answer X k (w_now (await w))) w1"
    by (cases "xc_answer X k (w_now (await w))") (simp_all add: call_node_def bindA_def date_now_def callA_def Let_def w1_def note_of_def)
  have e1: "ends_ok (slots_I n) slots_R w w1"
    using slots.await_ok [OF w] by (simp add: w1_def ends_ok_def)
  have p: "plain_act n (note_of ans)" for ans
    unfolding note_of_def by (intro plain_rules) (auto split: sum.split intro!: plain_rules plain_notes)
  have "ends_ok (slots_I n) slots_R w1 (snd (note_of ans w1)) \<and> w_sent (snd (note_of ans w1)) = w_sent w @ [RpcCall k]" for ans
    using p [of ans] ends_ok_good [OF conjI [OF w] e1] by (auto simp: plain_act_def guar_def w1_def)
  then show "ends_ok (slots_I n) slots_R w (snd (call_node X T k w)) \<and>
      (\<exists>es. w_sent (snd (call_node X T k w)) = w_sent w @ es \<and> es = [RpcCall k])"
    unfolding run using slots.ends_ok_trans [OF e1] by blast
qed

definition returns_of :: "string option \<Rightarrow> rpc_event list" where
  "returns_of token = (case token of None \<Rightarrow> [] | Some t \<Rightarrow> [TokenReturned t])"

lemma does_return: "does n (\<lambda>d. True) (return_token X token) (\<lambda>es r d. es = returns_of token \<and> r = Inr ())"
proof (cases token)
  case None
  then show ?thesis by (simp add: return_token_def does_def ret_def returns_of_def ends_ok_def slots.R_refl)
next
  case (Some t)
  define rest :: "unit ract" where "rest = bindA date_now (\<lambda>now. syncA (\<lambda>m. ((), m\<lparr>rm_admission := release now t (rm_admission m)\<rparr>)))"
  have p: "plain_act n rest" unfolding rest_def by (intro plain_rules) simp
  have ok: "fst (rest w) = Inr ()" for w by (simp add: rest_def bindA_def date_now_def syncA_def)
  show ?thesis
    unfolding does_def return_token_def Some option.case rest_def [symmetric]
  proof (intro allI impI, elim conjE)
    fix w :: "(rpc_memory, rpc_event) world"
    assume w: "holds_at (slots_I n) (w_ix w) w" "env_ok (slots_I n) slots_R w"
    define w1 where "w1 = (await w)\<lparr>w_sent := w_sent w @ [TokenReturned t]\<rparr>"
    have e1: "ends_ok (slots_I n) slots_R w w1" using slots.await_ok [OF w] by (simp add: w1_def ends_ok_def)
    have q: "ends_ok (slots_I n) slots_R w1 (snd (rest w1)) \<and> w_sent (snd (rest w1)) = w_sent w @ [TokenReturned t]"
      using p ends_ok_good [OF conjI [OF w] e1] by (auto simp: plain_act_def guar_def w1_def)
    have run: "catchA (bindA (callA (TokenReturned t) (xc_stub X) ''admission'') (\<lambda>_. rest)) (\<lambda>_. ret ()) w =
        (Inr (), if xc_stub X (w_now (await w)) = None then w1 else snd (rest w1))"
      using ok [of w1]
      by (cases "xc_stub X (w_now (await w))"; cases "rest w1") (auto simp: catchA_def bindA_def callA_def Let_def ret_def w1_def)
    show "ends_ok (slots_I n) slots_R w
        (snd (catchA (bindA (callA (TokenReturned t) (xc_stub X) ''admission'') (\<lambda>_. rest)) (\<lambda>_. ret ()) w)) \<and>
      (\<exists>es. w_sent (snd (catchA (bindA (callA (TokenReturned t) (xc_stub X) ''admission'') (\<lambda>_. rest)) (\<lambda>_. ret ()) w)) = w_sent w @ es \<and>
        es = returns_of (Some t) \<and>
        fst (catchA (bindA (callA (TokenReturned t) (xc_stub X) ''admission'') (\<lambda>_. rest)) (\<lambda>_. ret ()) w) = Inr ())"
      unfolding run using e1 q slots.ends_ok_trans [OF e1] by (auto simp: returns_of_def w1_def)
  qed
qed

subsection \<open>The whole request\<close>

text \<open>What a request may send: nothing, or its place, or with it its token and its call, or all of them and the return.\<close>

definition request_trace :: "string \<Rightarrow> rpc_event list \<Rightarrow> bool" where
  "request_trace k es \<longleftrightarrow> es = [] \<or> (\<exists>c. es = [SlotAsked c] \<or> es = [SlotAsked c, RpcCall k] \<or>
     (\<exists>t. es = [SlotAsked c, TokenGranted t, RpcCall k, TokenReturned t]))"

lemma does_give_back:
  "does n (asked c) (give_back X c token) (\<lambda>es r d. es = returns_of token \<and> r = Inr () \<and> finished c d)"
  unfolding does_def
proof (intro allI impI, elim conjE)
  fix w :: "(rpc_memory, rpc_event) world"
  assume w: "holds_at (slots_I n) (w_ix w) w" "env_ok (slots_I n) slots_R w" "asked c (w_db w)"
  obtain r w1 where mw: "return_token X token w = (r, w1)" by fastforce
  have 1: "good_world n w1" "ends_ok (slots_I n) slots_R w w1" "w_sent w1 = w_sent w @ returns_of token" "r = Inr ()"
    using doesD [OF does_return conjI [OF w(1,2)] TrueI mw] by auto
  have a: "asked c (w_db w1)" using 1(2) w(3) asked_stable by (auto simp: ends_ok_def)
  obtain r2 w2 where fw: "limiter_release c w1 = (r2, w2)" by fastforce
  have 2: "ends_ok (slots_I n) slots_R w1 w2" "w_sent w2 = w_sent w1" "r2 = Inr ()" "finished c (w_db w2)"
    using doesD [OF does_release 1(1) a fw] by auto
  have "give_back X c token w = (Inr (), w2)"
    using mw fw 1(4) 2(3) by (simp add: give_back_def bindA_def)
  then show "ends_ok (slots_I n) slots_R w (snd (give_back X c token w)) \<and>
     (\<exists>es. w_sent (snd (give_back X c token w)) = w_sent w @ es \<and> es = returns_of token \<and>
       fst (give_back X c token w) = Inr () \<and> finished c (w_db (snd (give_back X c token w))))"
    using 1 2 slots.ends_ok_trans [OF 1(2) 2(1)] by simp
qed

lemma does_served:
  "does n (asked c) (finallyA (call_node X T k) (give_back X c token)) (\<lambda>es r d. es = RpcCall k # returns_of token \<and> finished c d)"
  unfolding does_def
proof (intro allI impI, elim conjE)
  fix w :: "(rpc_memory, rpc_event) world"
  assume w: "holds_at (slots_I n) (w_ix w) w" "env_ok (slots_I n) slots_R w" "asked c (w_db w)"
  obtain r w1 where mw: "call_node X T k w = (r, w1)" by fastforce
  have 1: "good_world n w1" "ends_ok (slots_I n) slots_R w w1" "w_sent w1 = w_sent w @ [RpcCall k]"
    using doesD [OF does_call conjI [OF w(1,2)] TrueI mw] by auto
  have a: "asked c (w_db w1)" using 1(2) w(3) asked_stable by (auto simp: ends_ok_def)
  obtain r2 w2 where fw: "give_back X c token w1 = (r2, w2)" by fastforce
  have 2: "ends_ok (slots_I n) slots_R w1 w2" "w_sent w2 = w_sent w1 @ returns_of token" "r2 = Inr ()" "finished c (w_db w2)"
    using doesD [OF does_give_back 1(1) a fw] by auto
  have "finallyA (call_node X T k) (give_back X c token) w = (r, w2)"
    using mw fw 2(3) by (simp add: finallyA_def)
  then show "ends_ok (slots_I n) slots_R w (snd (finallyA (call_node X T k) (give_back X c token) w)) \<and>
     (\<exists>es. w_sent (snd (finallyA (call_node X T k) (give_back X c token) w)) = w_sent w @ es \<and>
       es = RpcCall k # returns_of token \<and> finished c (w_db (snd (finallyA (call_node X T k) (give_back X c token) w))))"
    using 1 2 slots.ends_ok_trans [OF 1(2) 2(1)] by simp
qed

lemma does_admitted:
  "does n (asked c) (bindA (admit X T) (\<lambda>admitted. case admitted of
       Inl e \<Rightarrow> bindA (limiter_release c) (\<lambda>_. ret (Inl e))
     | Inr token \<Rightarrow> finallyA (call_node X T k) (give_back X c token)))
   (\<lambda>es r d. finished c d \<and> (es = [] \<or> es = [RpcCall k] \<or> (\<exists>t. es = [TokenGranted t, RpcCall k, TokenReturned t])))"
  unfolding does_def
proof (intro allI impI, elim conjE)
  fix w :: "(rpc_memory, rpc_event) world"
  assume w: "holds_at (slots_I n) (w_ix w) w" "env_ok (slots_I n) slots_R w" "asked c (w_db w)"
  define f where "f = (\<lambda>admitted. case admitted of Inl e \<Rightarrow> bindA (limiter_release c) (\<lambda>_. ret (Inl e))
     | Inr token \<Rightarrow> finallyA (call_node X T k) (give_back X c token))"
  obtain r w1 where mw: "admit X T w = (r, w1)" by fastforce
  obtain a where 1: "good_world n w1" "ends_ok (slots_I n) slots_R w w1" "w_sent w1 = w_sent w @ grants r" "r = Inr a"
    using doesD [OF does_admit conjI [OF w(1,2)] TrueI mw] by auto
  have c: "asked c (w_db w1)" using 1(2) w(3) asked_stable by (auto simp: ends_ok_def)
  obtain r2 w2 where fw: "f a w1 = (r2, w2)" by fastforce
  have 2: "ends_ok (slots_I n) slots_R w1 w2 \<and> finished c (w_db w2) \<and>
      w_sent w2 = w_sent w1 @ (case a of Inl e \<Rightarrow> [] | Inr token \<Rightarrow> RpcCall k # returns_of token)"
  proof (cases a)
    case (Inl e)
    obtain r3 w3 where l: "limiter_release c w1 = (r3, w3)" by fastforce
    have "ends_ok (slots_I n) slots_R w1 w3" "w_sent w3 = w_sent w1" "r3 = Inr ()" "finished c (w_db w3)"
      using doesD [OF does_release 1(1) c l] by auto
    then show ?thesis using fw l Inl by (auto simp: f_def bindA_def ret_def)
  next
    case (Inr token)
    then have run: "finallyA (call_node X T k) (give_back X c token) w1 = (r2, w2)" using fw by (simp add: f_def)
    show ?thesis using doesD [OF does_served 1(1) c run] Inr by auto
  qed
  have "bindA (admit X T) f w = (r2, w2)" using mw fw 1(4) by (simp add: bindA_def)
  then show "ends_ok (slots_I n) slots_R w (snd (bindA (admit X T) f w)) \<and>
     (\<exists>es. w_sent (snd (bindA (admit X T) f w)) = w_sent w @ es \<and> finished c (w_db (snd (bindA (admit X T) f w))) \<and>
       (es = [] \<or> es = [RpcCall k] \<or> (\<exists>t. es = [TokenGranted t, RpcCall k, TokenReturned t])))"
    using 1 2 slots.ends_ok_trans [OF 1(2), of w2]
    by (auto simp: grants_def returns_of_def split: sum.splits option.splits)
qed


definition idle_memory :: rpc_memory where
  "idle_memory = \<lparr>rm_health = [limited_row], rm_cached = None, rm_cachedUntil = 0, rm_semaphore = new_semaphore, rm_calls = 0,
     rm_admission = fresh_admission\<rparr>"

definition idle_world :: "(rpc_memory, rpc_event) world" where
  "idle_world = \<lparr>w_db = idle_memory, w_now = 60000, w_env = [], w_uuid = (\<lambda>_. sample_token CHR ''a''), w_ix = 0, w_sent = []\<rparr>"

definition answering :: "nat circuit_services" where
  "answering = \<lparr>xc_d1 = (\<lambda>_. Some ()), xc_stub = (\<lambda>_. Some ()), xc_answer = (\<lambda>_ _. Inr 7)\<rparr>"

definition sample_transport :: transport where
  "sample_transport = \<lparr>tr_key = ''read:0'', tr_alias = ''alchemy'', tr_role = RoleRead, tr_lane = ActiveReconcile,
     tr_timeoutMs = 10000, tr_maxConcurrency = 8, tr_distributed = True\<rparr>"


end
