(* ===== verification/Contracts.thy ===== *)
theory Contracts
  imports Models
begin

text \<open>
  The versioned contracts crossing the boundary between the App and the Payments Worker
  (\<^verbatim>\<open>shared/paymentContracts.ts\<close>): the job messages of the queue and the service claims.  The
  parsers accept the current version and the previous one and normalise both to version 2.
\<close>

definition PAYMENTS_CONTRACT_VERSION :: int where
  "PAYMENTS_CONTRACT_VERSION = 2"

definition PAYMENTS_PREVIOUS_CONTRACT_VERSION :: int where
  "PAYMENTS_PREVIOUS_CONTRACT_VERSION = 1"

datatype payment_job_name =
    AttemptReconcile | CctpAttestation | CctpMint | RouterWatch | WebhookDelivery

record payment_job_message =
  pj_job :: payment_job_name
  pj_jobId :: string
  pj_dedupeKey :: string
  pj_resourceId :: string
  pj_partition :: string
  pj_attempt :: int
  pj_createdAt :: string

record app_service_claim =
  cl_requestId :: string
  cl_uid :: string

definition PAYMENT_JOB_NAMES :: "(string \<times> payment_job_name) list" where
  "PAYMENT_JOB_NAMES = [(''attempt_reconcile'', AttemptReconcile), (''cctp_attestation'', CctpAttestation),
     (''cctp_mint'', CctpMint), (''router_watch'', RouterWatch), (''webhook_delivery'', WebhookDelivery)]"

fun job_text :: "payment_job_name \<Rightarrow> string" where
  "job_text AttemptReconcile = ''attempt_reconcile''"
| "job_text CctpAttestation = ''cctp_attestation''"
| "job_text CctpMint = ''cctp_mint''"
| "job_text RouterWatch = ''router_watch''"
| "job_text WebhookDelivery = ''webhook_delivery''"

text \<open>\<open>isRecord\<close>: the fields of an object that is neither null nor an array.\<close>

fun isRecord :: "json \<Rightarrow> (string \<times> json) list option" where
  "isRecord (JObj fs) = Some fs"
| "isRecord _ = None"

fun safeText :: "json option \<Rightarrow> nat \<Rightarrow> string option" where
  "safeText (Some (JStr s)) mx = (let normalized = trim s in
     if 0 < length normalized \<and> length normalized \<le> mx then Some normalized else None)"
| "safeText _ mx = None"

definition safeDate :: "viem \<Rightarrow> json option \<Rightarrow> string option" where
  "safeDate V value = (case safeText value 64 of None \<Rightarrow> None
     | Some text \<Rightarrow> if v_dateParse V text \<noteq> None then Some text else None)"

definition parsePaymentJobMessage :: "viem \<Rightarrow> json \<Rightarrow> payment_job_message option" where
  "parsePaymentJobMessage V value = (case isRecord value of None \<Rightarrow> None | Some fs \<Rightarrow>
     (case jget fs ''job'' of Some (JStr j) \<Rightarrow> (case map_of PAYMENT_JOB_NAMES j of None \<Rightarrow> None | Some job \<Rightarrow>
       (case (safeText (jget fs ''jobId'') 160, safeText (jget fs ''resourceId'') 160,
              safeDate V (jget fs ''createdAt'')) of
          (Some jobId, Some resourceId, Some createdAt) \<Rightarrow>
            if jget fs ''messageVersion'' = Some (JInt 1)
            then Some \<lparr>pj_job = job, pj_jobId = jobId, pj_dedupeKey = jobId, pj_resourceId = resourceId,
                   pj_partition = ''legacy'', pj_attempt = 0, pj_createdAt = createdAt\<rparr>
            else if jget fs ''messageVersion'' \<noteq> Some (JInt 2) then None
            else (case (safeText (jget fs ''dedupeKey'') 200, safeText (jget fs ''partition'') 160,
                        jget fs ''attempt'') of
                (Some dedupeKey, Some part, Some (JInt attempt)) \<Rightarrow>
                  if isSafeInteger attempt \<and> 0 \<le> attempt
                  then Some \<lparr>pj_job = job, pj_jobId = jobId, pj_dedupeKey = dedupeKey,
                         pj_resourceId = resourceId, pj_partition = part, pj_attempt = attempt,
                         pj_createdAt = createdAt\<rparr>
                  else None
              | _ \<Rightarrow> None)
        | _ \<Rightarrow> None))
      | _ \<Rightarrow> None))"

definition isAppServiceClaim :: "json \<Rightarrow> app_service_claim option" where
  "isAppServiceClaim value = (case isRecord value of None \<Rightarrow> None | Some fs \<Rightarrow>
     if jget fs ''service'' = Some (JStr ''gatopago-app-api'') \<and>
        safeText (jget fs ''requestId'') 160 \<noteq> None \<and> safeText (jget fs ''uid'') 256 \<noteq> None
     then (case (jget fs ''requestId'', jget fs ''uid'') of
         (Some (JStr r), Some (JStr u)) \<Rightarrow> Some \<lparr>cl_requestId = r, cl_uid = u\<rparr> | _ \<Rightarrow> None)
     else None)"

definition isSupportedPaymentsContractVersion :: "json option \<Rightarrow> bool" where
  "isSupportedPaymentsContractVersion value \<longleftrightarrow>
     value = Some (JInt PAYMENTS_CONTRACT_VERSION) \<or> value = Some (JInt PAYMENTS_PREVIOUS_CONTRACT_VERSION)"

subsection \<open>Normal forms and round trips\<close>

text \<open>The wire form of a message, as the Workers write it, and the texts a parser returns.\<close>

definition job_message_json :: "payment_job_message \<Rightarrow> json" where
  "job_message_json m = JObj [(''messageVersion'', JInt 2), (''job'', JStr (job_text (pj_job m))),
     (''jobId'', JStr (pj_jobId m)), (''dedupeKey'', JStr (pj_dedupeKey m)),
     (''resourceId'', JStr (pj_resourceId m)), (''partition'', JStr (pj_partition m)),
     (''attempt'', JInt (pj_attempt m)), (''createdAt'', JStr (pj_createdAt m))]"

definition normal_text :: "nat \<Rightarrow> string \<Rightarrow> bool" where
  "normal_text mx s \<longleftrightarrow> trim s = s \<and> 0 < length s \<and> length s \<le> mx"

definition job_message_ok :: "viem \<Rightarrow> payment_job_message \<Rightarrow> bool" where
  "job_message_ok V m \<longleftrightarrow> normal_text 160 (pj_jobId m) \<and> normal_text 200 (pj_dedupeKey m) \<and>
     normal_text 160 (pj_resourceId m) \<and> normal_text 160 (pj_partition m) \<and>
     isSafeInteger (pj_attempt m) \<and> 0 \<le> pj_attempt m \<and>
     normal_text 64 (pj_createdAt m) \<and> v_dateParse V (pj_createdAt m) \<noteq> None"

lemma safeText_normal: "safeText v mx = Some s \<Longrightarrow> normal_text mx s"
  by (cases "(v, mx)" rule: safeText.cases) (auto simp: Let_def normal_text_def split: if_splits)

lemma safeText_id: "normal_text mx s \<Longrightarrow> safeText (Some (JStr s)) mx = Some s"
  by (simp add: normal_text_def)

lemma normal_text_mono: "normal_text m s \<Longrightarrow> m \<le> n \<Longrightarrow> normal_text n s"
  by (simp add: normal_text_def)

lemma normal_text_legacy: "normal_text 160 ''legacy''"
  by (simp add: normal_text_def) code_simp

lemma safeDate_normal: "safeDate V v = Some s \<Longrightarrow> normal_text 64 s \<and> v_dateParse V s \<noteq> None"
  by (auto simp: safeDate_def split: option.splits if_splits dest: safeText_normal)

lemma job_of_text: "map_of PAYMENT_JOB_NAMES (job_text j) = Some j"
  by (cases j) (simp_all add: PAYMENT_JOB_NAMES_def)

lemma zero_safe: "isSafeInteger 0"
  by (simp add: isSafeInteger_def MAX_SAFE_INTEGER_def)

lemma parsePaymentJobMessage_ok:
  "parsePaymentJobMessage V v = Some m \<Longrightarrow> job_message_ok V m"
  unfolding parsePaymentJobMessage_def
  by (auto split: option.splits json.splits if_splits prod.splits
      simp: job_message_ok_def zero_safe normal_text_legacy
      dest!: safeText_normal safeDate_normal dest: normal_text_mono [where n = 200])

lemma parse_job_message_json:
  assumes "job_message_ok V m"
  shows "parsePaymentJobMessage V (job_message_json m) = Some m"
  using assms unfolding job_message_ok_def
  by (simp add: parsePaymentJobMessage_def job_message_json_def jget_def job_of_text safeText_id
      safeDate_def del: safeText.simps)

text \<open>
  Job messages survive their text.  Printing a message to JSON and parsing it gives the message back exactly
  when it is well formed: its identifiers are safe texts of the allowed lengths, its attempt is a safe
  integer that is not negative and its time is a date.
\<close>
theorem job_message_roundtrip:
  "parsePaymentJobMessage V (job_message_json m) = Some m \<longleftrightarrow> job_message_ok V m"
  using parsePaymentJobMessage_ok parse_job_message_json by blast

end
