(* ===== verification/Networks.thy ===== *)
theory Networks
  imports Models
begin

text \<open>
  The network manifest of \<^verbatim>\<open>shared/networks.ts\<close>: the CCTP registry, the payment capabilities of
  every chain with their lookups, and \<^verbatim>\<open>services/capabilities.ts\<close>, which derives from them whether
  live payments are offered.
\<close>

datatype permit_mode = Eip2612 | Approve

record cctp_chain =
  c_chainId :: int
  c_name :: string
  c_domain :: int
  c_tokenMessenger :: string
  c_messageTransmitter :: string
  c_usdc :: string

record network =
  n_chainId :: int
  n_name :: string
  n_isTestnet :: bool
  n_isHomeChain :: bool
  n_settlementChainId :: int
  n_cctpDomain :: int
  n_paymentSource :: bool
  n_cctpStandard :: bool
  n_cctpFast :: bool
  n_localPaymentRouter :: "string option"
  n_cctpPaymentRouter :: "string option"
  n_localPaymentMaxPlatformFeeBps :: "int option"
  n_cctpPaymentMaxPlatformFeeBps :: "int option"
  n_permitMode :: permit_mode
  n_usdc :: string
  n_tokenMessenger :: string

definition CCTP_V2_TOKEN_MESSENGER :: string where
  "CCTP_V2_TOKEN_MESSENGER = ''0x8FE6B999Dc680CcFDD5Bf7EB0974218be2542DAA''"

definition CCTP_V2_MESSAGE_TRANSMITTER :: string where
  "CCTP_V2_MESSAGE_TRANSMITTER = ''0xE737e5cEBEEBa77EFE34D4aa090756590b1CE275''"

definition CCTP_V2_MAINNET_TOKEN_MESSENGER :: string where
  "CCTP_V2_MAINNET_TOKEN_MESSENGER = ''0x28b5a0e9C621a5BadaA536219b3a228C8168cf5d''"

definition CCTP_CHAINS :: "(int \<times> cctp_chain) list" where
  "CCTP_CHAINS = [
     (421614, \<lparr>c_chainId = 421614, c_name = ''Arbitrum Sepolia'', c_domain = 3,
       c_tokenMessenger = CCTP_V2_TOKEN_MESSENGER, c_messageTransmitter = CCTP_V2_MESSAGE_TRANSMITTER,
       c_usdc = ''0x75faf114eafb1BDbe2F0316DF893fd58CE46AA4d''\<rparr>),
     (84532, \<lparr>c_chainId = 84532, c_name = ''Base Sepolia'', c_domain = 6,
       c_tokenMessenger = CCTP_V2_TOKEN_MESSENGER, c_messageTransmitter = CCTP_V2_MESSAGE_TRANSMITTER,
       c_usdc = ''0x036CbD53842c5426634e7929541eC2318f3dCF7e''\<rparr>),
     (11155111, \<lparr>c_chainId = 11155111, c_name = ''Ethereum Sepolia'', c_domain = 0,
       c_tokenMessenger = CCTP_V2_TOKEN_MESSENGER, c_messageTransmitter = CCTP_V2_MESSAGE_TRANSMITTER,
       c_usdc = ''0x1c7D4B196Cb0C7B01d743Fbc6116a902379C7238''\<rparr>),
     (43113, \<lparr>c_chainId = 43113, c_name = ''Avalanche Fuji'', c_domain = 1,
       c_tokenMessenger = CCTP_V2_TOKEN_MESSENGER, c_messageTransmitter = CCTP_V2_MESSAGE_TRANSMITTER,
       c_usdc = ''0x5425890298aed601595a70AB815c96711a31Bc65''\<rparr>)]"

definition getCctpChainByChainId :: "int \<Rightarrow> cctp_chain option" where
  "getCctpChainByChainId chainId = map_of CCTP_CHAINS chainId"

definition PAYMENT_NETWORKS :: "(int \<times> network) list" where
  "PAYMENT_NETWORKS = [
     (421614, \<lparr>n_chainId = 421614, n_name = ''Arbitrum Sepolia'', n_isTestnet = True, n_isHomeChain = True,
       n_settlementChainId = 421614, n_cctpDomain = 3, n_paymentSource = True, n_cctpStandard = True,
       n_cctpFast = True,
       n_localPaymentRouter = Some ''0x64e0B48A4D360B235C3fEDe2431D79413aebb7A4'',
       n_cctpPaymentRouter = None,
       n_localPaymentMaxPlatformFeeBps = Some 100, n_cctpPaymentMaxPlatformFeeBps = None,
       n_permitMode = Eip2612, n_usdc = ''0x75faf114eafb1BDbe2F0316DF893fd58CE46AA4d'',
       n_tokenMessenger = CCTP_V2_TOKEN_MESSENGER\<rparr>),
     (84532, \<lparr>n_chainId = 84532, n_name = ''Base Sepolia'', n_isTestnet = True, n_isHomeChain = False,
       n_settlementChainId = 421614, n_cctpDomain = 6, n_paymentSource = True, n_cctpStandard = True,
       n_cctpFast = True,
       n_localPaymentRouter = None,
       n_cctpPaymentRouter = Some ''0x961C08Bd5a11EFB7264B06d7f14a44FB4d9958Ba'',
       n_localPaymentMaxPlatformFeeBps = None, n_cctpPaymentMaxPlatformFeeBps = Some 0,
       n_permitMode = Eip2612, n_usdc = ''0x036CbD53842c5426634e7929541eC2318f3dCF7e'',
       n_tokenMessenger = CCTP_V2_TOKEN_MESSENGER\<rparr>),
     (43113, \<lparr>n_chainId = 43113, n_name = ''Avalanche Fuji'', n_isTestnet = True, n_isHomeChain = False,
       n_settlementChainId = 421614, n_cctpDomain = 1, n_paymentSource = True, n_cctpStandard = True,
       n_cctpFast = False,
       n_localPaymentRouter = None,
       n_cctpPaymentRouter = Some ''0xd8289B87b155e8691Da192b12E12E2b592fE7D1E'',
       n_localPaymentMaxPlatformFeeBps = None, n_cctpPaymentMaxPlatformFeeBps = Some 0,
       n_permitMode = Eip2612, n_usdc = ''0x5425890298aed601595a70AB815c96711a31Bc65'',
       n_tokenMessenger = CCTP_V2_TOKEN_MESSENGER\<rparr>),
     (42161, \<lparr>n_chainId = 42161, n_name = ''Arbitrum One'', n_isTestnet = False, n_isHomeChain = True,
       n_settlementChainId = 42161, n_cctpDomain = 3, n_paymentSource = False, n_cctpStandard = True,
       n_cctpFast = True,
       n_localPaymentRouter = None,
       n_cctpPaymentRouter = None,
       n_localPaymentMaxPlatformFeeBps = None, n_cctpPaymentMaxPlatformFeeBps = None,
       n_permitMode = Approve, n_usdc = ''0xaf88d065e77c8cC2239327C5EDb3A432268e5831'',
       n_tokenMessenger = CCTP_V2_MAINNET_TOKEN_MESSENGER\<rparr>),
     (8453, \<lparr>n_chainId = 8453, n_name = ''Base'', n_isTestnet = False, n_isHomeChain = False,
       n_settlementChainId = 42161, n_cctpDomain = 6, n_paymentSource = False, n_cctpStandard = True,
       n_cctpFast = True,
       n_localPaymentRouter = None,
       n_cctpPaymentRouter = None,
       n_localPaymentMaxPlatformFeeBps = None, n_cctpPaymentMaxPlatformFeeBps = None,
       n_permitMode = Approve, n_usdc = ''0x833589fCD6eDb6E08f4c7C32D4f71b54bdA02913'',
       n_tokenMessenger = CCTP_V2_MAINNET_TOKEN_MESSENGER\<rparr>),
     (43114, \<lparr>n_chainId = 43114, n_name = ''Avalanche'', n_isTestnet = False, n_isHomeChain = False,
       n_settlementChainId = 42161, n_cctpDomain = 1, n_paymentSource = False, n_cctpStandard = True,
       n_cctpFast = False,
       n_localPaymentRouter = None,
       n_cctpPaymentRouter = None,
       n_localPaymentMaxPlatformFeeBps = None, n_cctpPaymentMaxPlatformFeeBps = None,
       n_permitMode = Approve, n_usdc = ''0xB97EF9Ef8734C71904D8002F8b6Bc66Dd9c48a6E'',
       n_tokenMessenger = CCTP_V2_MAINNET_TOKEN_MESSENGER\<rparr>)]"

definition getPaymentNetworkCapabilities :: "int \<Rightarrow> network option" where
  "getPaymentNetworkCapabilities chainId = map_of PAYMENT_NETWORKS chainId"

subsection \<open>Consistency of the manifest\<close>

text \<open>
  What the payment code relies on of an entry: it is stored under its own chain id; it settles on a
  home chain of the same kind of network, at which it is itself home when they coincide; a payment
  source has exactly one router, the local one exactly on its settlement chain, with a fee cap of at
  most one percent; and where the chain is in the CCTP registry, domain, token and messenger agree.
\<close>

definition network_consistent :: "int \<times> network \<Rightarrow> bool" where
  "network_consistent e = (case e of (chainId, n) \<Rightarrow>
     n_chainId n = chainId \<and>
     (case getPaymentNetworkCapabilities (n_settlementChainId n) of None \<Rightarrow> False
      | Some s \<Rightarrow> n_isHomeChain s \<and> n_isTestnet s = n_isTestnet n) \<and>
     n_isHomeChain n = (n_settlementChainId n = chainId) \<and>
     (if n_paymentSource n
      then (n_localPaymentRouter n \<noteq> None) = (n_settlementChainId n = chainId) \<and>
        (n_localPaymentRouter n \<noteq> None) \<noteq> (n_cctpPaymentRouter n \<noteq> None)
      else n_localPaymentRouter n = None \<and> n_cctpPaymentRouter n = None) \<and>
     (n_localPaymentRouter n \<noteq> None) = (n_localPaymentMaxPlatformFeeBps n \<noteq> None) \<and>
     (n_cctpPaymentRouter n \<noteq> None) = (n_cctpPaymentMaxPlatformFeeBps n \<noteq> None) \<and>
     (case n_localPaymentMaxPlatformFeeBps n of None \<Rightarrow> True | Some c \<Rightarrow> 0 \<le> c \<and> c \<le> 100) \<and>
     (case n_cctpPaymentMaxPlatformFeeBps n of None \<Rightarrow> True | Some c \<Rightarrow> 0 \<le> c \<and> c \<le> 100) \<and>
     (case getCctpChainByChainId chainId of None \<Rightarrow> \<not> n_paymentSource n
      | Some c \<Rightarrow> c_domain c = n_cctpDomain n \<and> c_usdc c = n_usdc n \<and>
          c_tokenMessenger c = n_tokenMessenger n))"

lemma PAYMENT_NETWORKS_consistent: "list_all network_consistent PAYMENT_NETWORKS"
  by code_simp

lemma network_consistentI:
  assumes "getPaymentNetworkCapabilities c = Some n"
  shows "network_consistent (c, n)"
proof -
  have "(c, n) \<in> set PAYMENT_NETWORKS"
    using assms by (auto simp: getPaymentNetworkCapabilities_def dest: map_of_SomeD)
  then show ?thesis using PAYMENT_NETWORKS_consistent by (auto simp: list_all_iff)
qed

lemma network_chainId: "getPaymentNetworkCapabilities c = Some n \<Longrightarrow> n_chainId n = c"
  using network_consistentI by (auto simp: network_consistent_def)

lemma network_local_router:
  assumes "getPaymentNetworkCapabilities c = Some n" and "n_localPaymentRouter n = Some r"
  shows "n_settlementChainId n = c" and "n_paymentSource n"
  using network_consistentI [OF assms(1)] assms(2)
  by (auto simp: network_consistent_def split: if_splits)

lemma network_cctp_router:
  assumes "getPaymentNetworkCapabilities c = Some n" and "n_cctpPaymentRouter n = Some r"
  shows "n_settlementChainId n \<noteq> c" and "n_paymentSource n"
  using network_consistentI [OF assms(1)] assms(2)
  by (auto simp: network_consistent_def split: if_splits)

subsection \<open>Mode capabilities\<close>

datatype live_reason =
    feature_flag_disabled | settlement_network_unknown | settlement_is_testnet
  | mainnet_routes_unavailable

record mode_capabilities =
  mc_chainId :: "int option"
  mc_name :: "string option"
  mc_isTestnet :: "bool option"
  mc_live_enabled :: bool
  mc_live_reason :: "live_reason option"

fun split_comma :: "string \<Rightarrow> string list" where
  "split_comma [] = [[]]"
| "split_comma (c # s) = (if c = CHR '','' then [] # split_comma s
     else (case split_comma s of [] \<Rightarrow> [[c]] | w # ws \<Rightarrow> (c # w) # ws))"

definition enabledChainIds :: "bindings \<Rightarrow> int list" where
  "enabledChainIds env =
     filter isSafeInteger (List.map_filter (\<lambda>v. js_Number (trim v)) (split_comma (e_enabledChainIds env)))"

definition routable_mainnet_source :: "int \<Rightarrow> int \<Rightarrow> bool" where
  "routable_mainnet_source chainId sourceChainId = (case getPaymentNetworkCapabilities sourceChainId of
       None \<Rightarrow> False
     | Some s \<Rightarrow> \<not> n_isTestnet s \<and> n_paymentSource s \<and> n_settlementChainId s = chainId \<and>
         (n_localPaymentRouter s \<noteq> None \<or> n_cctpPaymentRouter s \<noteq> None))"

definition paymentModeCapabilities :: "bindings \<Rightarrow> int option \<Rightarrow> mode_capabilities" where
  "paymentModeCapabilities env settlementChainId = (
     let configured = (case settlementChainId of Some c \<Rightarrow> Some c | None \<Rightarrow> e_settlementChainId env);
         chainId = (case configured of None \<Rightarrow> None | Some c \<Rightarrow> if isSafeInteger c then Some c else None);
         settlement = (case chainId of None \<Rightarrow> None | Some c \<Rightarrow> getPaymentNetworkCapabilities c);
         reason = (if e_liveEnabled env \<noteq> Some ''true'' then Some feature_flag_disabled
           else (case settlement of None \<Rightarrow> Some settlement_network_unknown
             | Some s \<Rightarrow> if n_isTestnet s then Some settlement_is_testnet
                 else if list_ex (routable_mainnet_source (the chainId)) (enabledChainIds env) then None
                 else Some mainnet_routes_unavailable))
     in \<lparr>mc_chainId = chainId, mc_name = map_option n_name settlement,
         mc_isTestnet = map_option n_isTestnet settlement,
         mc_live_enabled = (reason = None), mc_live_reason = reason\<rparr>)"

text \<open>
  Live payments are offered exactly for a mainnet settlement chain with an operator flag and an
  enabled source whose router is deployed; with the shipped manifest no such source exists.
\<close>

lemma no_mainnet_source: "\<not> routable_mainnet_source c s"
proof -
  have "list_all (\<lambda>(k, n). n_paymentSource n \<longrightarrow> n_isTestnet n) PAYMENT_NETWORKS" by code_simp
  then show ?thesis
    by (auto simp: routable_mainnet_source_def getPaymentNetworkCapabilities_def list_all_iff
        split: option.splits dest!: map_of_SomeD)
qed

end
