(* ===== verification/PaymentsDb.thy ===== *)
theory PaymentsDb
  imports Contracts Networks
begin

text \<open>
  The D1 database of the Payments Worker (\<^verbatim>\<open>payments-worker/migrations\<close>, row types of
  \<^verbatim>\<open>repositories/payments.ts\<close> and \<^verbatim>\<open>stores\<close>): one list of rows per table, the uniqueness
  constraints, the foreign keys and the trigger that abort a statement, and the mapping of rows to
  the domain objects.
\<close>

subsection \<open>Rows\<close>

record intent_row = payment_intent +
  ir_idempotencyKey :: "string option"

record attempt_row = attempt_core +
  ar_idempotencyKey :: string
  ar_lastErrorCode :: "string option"

record account_command =
  ac_commandId :: string
  ac_ownerUid :: string
  ac_accountVersion :: int
  ac_applied :: bool
  ac_createdAt :: int

record app_command =
  xc_commandId :: string
  xc_attemptId :: string
  xc_userOpHash :: string
  xc_createdAt :: int

record fee_row = payment_fee_line +
  fr_id :: string
  fr_attemptId :: string
  fr_intentId :: string
  fr_sourceChainId :: int
  fr_route :: route
  fr_chargedTxHash :: "string option"
  fr_createdAt :: int
  fr_updatedAt :: int

record commit_row =
  sc_commitId :: string
  sc_attemptId :: string
  sc_intentId :: string
  sc_previousPaid :: int
  sc_settled :: int
  sc_resultingPaid :: int
  sc_expected :: int
  sc_status :: intent_status
  sc_createdAt :: int

record event_row =
  ev_id :: string
  ev_merchantId :: string
  ev_type :: string
  ev_objectId :: string
  ev_dedupeKey :: "string option"
  ev_mode :: mode
  ev_payload :: json
  ev_createdAt :: int

datatype outbox_status = ObPending | ObEnqueued | ObCompleted | ObFailed

record outbox_row =
  ob_id :: string
  ob_topic :: string
  ob_resourceId :: string
  ob_status :: outbox_status
  ob_attemptCount :: int
  ob_nextAttemptAt :: int
  ob_createdAt :: int
  ob_updatedAt :: int

record endpoint_row =
  ep_id :: string
  ep_merchantId :: string
  ep_url :: string
  ep_ciphertext :: string
  ep_keyId :: string
  ep_mode :: mode
  ep_enabledEvents :: "string list option"
  ep_active :: bool
  ep_createdAt :: int
  ep_updatedAt :: int

datatype delivery_status = WdPending | WdProcessing | WdDelivered | WdFailed | WdDead

record delivery_row =
  wd_id :: string
  wd_eventId :: string
  wd_endpointId :: string
  wd_status :: delivery_status
  wd_attemptCount :: int
  wd_nextRetryAt :: int
  wd_leaseOwner :: "string option"
  wd_leaseExpiresAt :: "int option"
  wd_lastStatusCode :: "int option"
  wd_lastError :: "string option"
  wd_deliveredAt :: "int option"
  wd_createdAt :: int
  wd_updatedAt :: int

datatype cctp_status =
  AwaitingBurn | Burned | Attesting | Minting | CctpSettled | CctpFailed | NeedsSupport

record cctp_row =
  cc_opId :: string
  cc_attemptId :: string
  cc_sourceChainId :: int
  cc_destinationChainId :: int
  cc_route :: route
  cc_status :: cctp_status
  cc_sourceTxHash :: "string option"
  cc_messageHash :: "string option"
  cc_message :: "string option"
  cc_attestation :: "string option"
  cc_burnAmountAtomic :: "int option"
  cc_platformFeeAtomic :: "int option"
  cc_networkFeeAtomic :: "int option"
  cc_destinationTxHash :: "string option"
  cc_messageNonce :: "string option"
  cc_mintedAmountAtomic :: "int option"
  cc_mintRawTransaction :: "string option"
  cc_mintSignerAddress :: "string option"
  cc_mintNonce :: "int option"
  cc_mintBroadcastAt :: "int option"
  cc_attemptCount :: int
  cc_lastErrorCode :: "string option"
  cc_nextAttemptAt :: "int option"
  cc_createdAt :: int
  cc_updatedAt :: int

datatype mint_status = MintPrepared | MintBroadcast | MintPending | MintSuccess | MintReverted | MintUnknown

record mint_row =
  ma_id :: string
  ma_opId :: string
  ma_txHash :: string
  ma_status :: mint_status
  ma_createdAt :: int
  ma_updatedAt :: int

record block_row =
  bk_chainId :: int
  bk_number :: int
  bk_hash :: string
  bk_parentHash :: string
  bk_timestamp :: string
  bk_canonical :: bool

record chain_event_row =
  ce_chainId :: int
  ce_txHash :: string
  ce_logIndex :: int
  ce_blockNumber :: int
  ce_blockHash :: string
  ce_eventName :: string
  ce_intentHash :: "string option"
  ce_attemptHash :: "string option"
  ce_payload :: string
  ce_canonical :: bool
  ce_createdAt :: int

record checkpoint_row =
  cp_chainId :: int
  cp_blockNumber :: int
  cp_blockHash :: string
  cp_updatedAt :: int

record incident_row =
  ri_id :: string
  ri_chainId :: int
  ri_previousNumber :: int
  ri_previousHash :: string
  ri_ancestorNumber :: int
  ri_ancestorHash :: string
  ri_orphanedCount :: int
  ri_open :: bool
  ri_createdAt :: int

record api_key_row =
  ak_id :: string
  ak_merchantId :: string
  ak_mode :: mode
  ak_prefix :: string
  ak_keyHash :: string
  ak_name :: string
  ak_lastUsedAt :: "int option"
  ak_revokedAt :: "int option"
  ak_createdAt :: int

datatype job_status = JobProcessing | JobCompleted | JobFailed

record job_row =
  jr_dedupeKey :: string
  jr_jobId :: string
  jr_job :: payment_job_name
  jr_resourceId :: string
  jr_status :: job_status
  jr_leaseExpiresAt :: "int option"
  jr_attemptCount :: int
  jr_lastError :: "string option"
  jr_createdAt :: int
  jr_updatedAt :: int
  jr_completedAt :: "int option"

record rate_row =
  rl_scope :: string
  rl_keyHash :: string
  rl_windowStart :: int
  rl_count :: int
  rl_updatedAt :: int

record lease_row =
  ls_key :: string
  ls_owner :: string
  ls_expiresAt :: int
  ls_updatedAt :: int

record migration_row =
  mg_copyVersion :: int
  mg_completedAt :: "string option"
  mg_sourceChecksum :: "string option"
  mg_targetChecksum :: "string option"

text \<open>
  What a router answers to the preflight of \<^verbatim>\<open>services/routerHealth.ts\<close>.  Two maps in the memory
  of the isolate keep such observations, with the time the first one expires and the time of the second; they are
  the last two fields of the state, which the other requests of the isolate share.
\<close>

record router_observation =
  ro_codePresent :: bool
  ro_maxPlatformFeeBps :: "int option"
  ro_usdc :: "string option"
  ro_treasury :: "string option"
  ro_authorizationSigner :: "string option"
  ro_paused :: "bool option"
  ro_tokenMessenger :: "string option"
  ro_settlementChainId :: "int option"
  ro_fastTransferEnabled :: "bool option"

record pdb =
  db_merchants :: "merchant list"
  db_accountCommands :: "account_command list"
  db_intents :: "intent_row list"
  db_links :: "payment_link list"
  db_quotes :: "payment_quote list"
  db_attempts :: "attempt_row list"
  db_commits :: "commit_row list"
  db_fees :: "fee_row list"
  db_appCommands :: "app_command list"
  db_events :: "event_row list"
  db_outbox :: "outbox_row list"
  db_endpoints :: "endpoint_row list"
  db_deliveries :: "delivery_row list"
  db_cctp :: "cctp_row list"
  db_mints :: "mint_row list"
  db_blocks :: "block_row list"
  db_chainEvents :: "chain_event_row list"
  db_checkpoints :: "checkpoint_row list"
  db_incidents :: "incident_row list"
  db_apiKeys :: "api_key_row list"
  db_jobs :: "job_row list"
  db_rates :: "rate_row list"
  db_leases :: "lease_row list"
  db_migration :: "migration_row option"
  db_observationCache :: "(string \<times> int \<times> router_observation) list"
  db_lastObservations :: "(string \<times> int \<times> router_observation) list"

text \<open>
  The requests that leave the Worker with an effect: queue messages with their delay, calls of the
  job scheduler, signed transactions broadcast to a chain, webhook deliveries; and the answers to a queue's batch.
\<close>

record scheduled_input =
  sj_job :: payment_job_name
  sj_resourceId :: string
  sj_dedupeKey :: string
  sj_partition :: string
  sj_runAt :: int

record webhook_request =
  wr_url :: string
  wr_deliveryId :: string
  wr_eventId :: string
  wr_timestamp :: string
  wr_signature :: string
  wr_body :: string

datatype effect =
    SentJob payment_job_message int
  | SentSchedule string scheduled_input
  | SentRawTransaction int string
  | SentWebhook webhook_request
  | QueueAck string
  | QueueRetry string int
  | QueueRetryAll int

type_synonym pworld = "(pdb, effect) world"
type_synonym 'a pact = "(pdb, effect, 'a) act"

definition empty_db :: pdb where
  "empty_db = \<lparr>db_merchants = [], db_accountCommands = [], db_intents = [], db_links = [], db_quotes = [],
     db_attempts = [], db_commits = [], db_fees = [], db_appCommands = [], db_events = [],
     db_outbox = [], db_endpoints = [], db_deliveries = [], db_cctp = [], db_mints = [],
     db_blocks = [], db_chainEvents = [], db_checkpoints = [], db_incidents = [], db_apiKeys = [],
     db_jobs = [], db_rates = [], db_leases = [], db_migration = None,
     db_observationCache = [], db_lastObservations = []\<rparr>"

subsection \<open>Statements and constraints\<close>

text \<open>
  A statement that breaks a constraint aborts; \<open>OR IGNORE\<close> skips the row for a uniqueness
  constraint and still aborts for a foreign key.
\<close>

definition checked :: "('d \<Rightarrow> bool) \<Rightarrow> ('d \<Rightarrow> 'd \<times> nat) \<Rightarrow> 'd stmt" where
  "checked C s d = (if C (fst (s d)) then Some (s d) else None)"

definition or_ignore :: "('d \<Rightarrow> bool) \<Rightarrow> ('d \<Rightarrow> bool) \<Rightarrow> ('d \<Rightarrow> 'd \<times> nat) \<Rightarrow> 'd stmt" where
  "or_ignore C fk s d = (if \<not> C (fst (s d)) then Some (d, 0) else if fk d then Some (s d) else None)"

definition plain :: "('d \<Rightarrow> 'd \<times> nat) \<Rightarrow> 'd stmt" where
  "plain s d = Some (s d)"

text \<open>The non-null values of a column with a partial unique index.\<close>

definition keys_of :: "('r \<Rightarrow> 'k option) \<Rightarrow> 'r list \<Rightarrow> 'k list" where
  "keys_of k rs = List.map_filter k rs"

definition merchants_unique :: "pdb \<Rightarrow> bool" where
  "merchants_unique d \<longleftrightarrow> distinct (map m_id (db_merchants d)) \<and> distinct (map m_ownerUid (db_merchants d))"

definition intents_unique :: "pdb \<Rightarrow> bool" where
  "intents_unique d \<longleftrightarrow> distinct (map i_id (db_intents d)) \<and>
     distinct (keys_of (\<lambda>i. map_option (Pair (i_merchantId i)) (ir_idempotencyKey i)) (db_intents d)) \<and>
     distinct (keys_of i_linkId (db_intents d))"

definition links_unique :: "pdb \<Rightarrow> bool" where
  "links_unique d \<longleftrightarrow> distinct (map l_id (db_links d)) \<and> distinct (map l_intentId (db_links d))"

definition quotes_unique :: "pdb \<Rightarrow> bool" where
  "quotes_unique d \<longleftrightarrow> distinct (map q_id (db_quotes d)) \<and> distinct (map q_quoteHash (db_quotes d))"

definition attempts_unique :: "pdb \<Rightarrow> bool" where
  "attempts_unique d \<longleftrightarrow> distinct (map a_id (db_attempts d)) \<and>
     distinct (map a_attemptHash (db_attempts d)) \<and> distinct (map a_authorizationHash (db_attempts d)) \<and>
     distinct (keys_of a_userOpHash (db_attempts d)) \<and>
     distinct (keys_of (\<lambda>a. map_option (Pair (a_sourceChainId a)) (a_sourceTxHash a)) (db_attempts d)) \<and>
     distinct (map (\<lambda>a. (a_intentId a, a_payerAddress a, a_sourceChainId a, ar_idempotencyKey a))
       (db_attempts d))"

definition commits_unique :: "pdb \<Rightarrow> bool" where
  "commits_unique d \<longleftrightarrow> distinct (map sc_commitId (db_commits d)) \<and> distinct (map sc_attemptId (db_commits d))"

definition fees_unique :: "pdb \<Rightarrow> bool" where
  "fees_unique d \<longleftrightarrow> distinct (map fr_id (db_fees d)) \<and>
     distinct (map (\<lambda>f. (fr_attemptId f, fl_type f)) (db_fees d))"

definition events_unique :: "pdb \<Rightarrow> bool" where
  "events_unique d \<longleftrightarrow> distinct (map ev_id (db_events d)) \<and>
     distinct (keys_of (\<lambda>e. map_option (Pair (ev_merchantId e)) (ev_dedupeKey e)) (db_events d))"

definition outbox_unique :: "pdb \<Rightarrow> bool" where
  "outbox_unique d \<longleftrightarrow> distinct (map ob_id (db_outbox d)) \<and>
     distinct (map (\<lambda>b. (ob_topic b, ob_resourceId b)) (db_outbox d))"

definition deliveries_unique :: "pdb \<Rightarrow> bool" where
  "deliveries_unique d \<longleftrightarrow> distinct (map wd_id (db_deliveries d)) \<and>
     distinct (map (\<lambda>w. (wd_eventId w, wd_endpointId w)) (db_deliveries d))"

definition merchant_exists :: "string \<Rightarrow> pdb \<Rightarrow> bool" where
  "merchant_exists x d \<longleftrightarrow> list_ex (\<lambda>m. m_id m = x) (db_merchants d)"

definition intent_exists :: "string \<Rightarrow> pdb \<Rightarrow> bool" where
  "intent_exists x d \<longleftrightarrow> list_ex (\<lambda>i. i_id i = x) (db_intents d)"

definition quote_exists :: "string \<Rightarrow> pdb \<Rightarrow> bool" where
  "quote_exists x d \<longleftrightarrow> list_ex (\<lambda>q. q_id q = x) (db_quotes d)"

definition attempt_exists :: "string \<Rightarrow> pdb \<Rightarrow> bool" where
  "attempt_exists x d \<longleftrightarrow> list_ex (\<lambda>a. a_id a = x) (db_attempts d)"

definition event_exists :: "string \<Rightarrow> pdb \<Rightarrow> bool" where
  "event_exists x d \<longleftrightarrow> list_ex (\<lambda>e. ev_id e = x) (db_events d)"

definition endpoint_exists :: "string \<Rightarrow> pdb \<Rightarrow> bool" where
  "endpoint_exists x d \<longleftrightarrow> list_ex (\<lambda>e. ep_id e = x) (db_endpoints d)"

text \<open>The trigger \<^verbatim>\<open>payment_attempt_matches_payable_intent\<close>.\<close>

definition payable_for :: "string \<Rightarrow> int \<Rightarrow> pdb \<Rightarrow> bool" where
  "payable_for intentId settlement d \<longleftrightarrow> list_ex (\<lambda>i. i_id i = intentId \<and> i_status i = AwaitingPayment \<and>
     ((i_amountMode i = Fixed \<and> i_amountAtomic i = settlement) \<or>
      (i_amountMode i = PayerDefined \<and> i_paidAmountAtomic i = 0))) (db_intents d)"

subsection \<open>Rows to domain objects\<close>

definition mapIntent :: "intent_row \<Rightarrow> payment_intent" where
  "mapIntent row = payment_intent.truncate row"

definition mapAttempt :: "attempt_row \<Rightarrow> payment_attempt" where
  "mapAttempt row = attempt_core.extend (attempt_core.truncate row)
     (payment_attempt.fields (a_validUntil row * 1000))"

definition feeLine :: "fee_row \<Rightarrow> payment_fee_line" where
  "feeLine row = payment_fee_line.truncate row"

lemma mapIntent_simps [simp]:
  "i_id (mapIntent r) = i_id r" "i_merchantId (mapIntent r) = i_merchantId r"
  "i_linkId (mapIntent r) = i_linkId r" "i_amount (mapIntent r) = i_amount r"
  "i_amountAtomic (mapIntent r) = i_amountAtomic r" "i_amountMode (mapIntent r) = i_amountMode r"
  "i_reference (mapIntent r) = i_reference r" "i_metadata (mapIntent r) = i_metadata r"
  "i_mode (mapIntent r) = i_mode r" "i_status (mapIntent r) = i_status r"
  "i_settlementWallet (mapIntent r) = i_settlementWallet r"
  "i_settlementChainId (mapIntent r) = i_settlementChainId r"
  "i_paidAmountAtomic (mapIntent r) = i_paidAmountAtomic r" "i_expiresAt (mapIntent r) = i_expiresAt r"
  by (simp_all add: mapIntent_def payment_intent.truncate_def)

lemma mapAttempt_simps [simp]:
  "a_id (mapAttempt r) = a_id r" "a_attemptHash (mapAttempt r) = a_attemptHash r"
  "a_intentId (mapAttempt r) = a_intentId r" "a_quoteId (mapAttempt r) = a_quoteId r"
  "a_payerAddress (mapAttempt r) = a_payerAddress r" "a_sourceChainId (mapAttempt r) = a_sourceChainId r"
  "a_route (mapAttempt r) = a_route r" "a_status (mapAttempt r) = a_status r"
  "a_routerAddress (mapAttempt r) = a_routerAddress r" "a_userOpHash (mapAttempt r) = a_userOpHash r"
  "a_sourceTxHash (mapAttempt r) = a_sourceTxHash r"
  "a_destinationTxHash (mapAttempt r) = a_destinationTxHash r"
  "a_settlementAmountAtomic (mapAttempt r) = a_settlementAmountAtomic r"
  "a_platformFeeAtomic (mapAttempt r) = a_platformFeeAtomic r"
  "a_cctpFeeAtomic (mapAttempt r) = a_cctpFeeAtomic r" "a_fee (mapAttempt r) = a_fee r"
  "a_settledAmountAtomic (mapAttempt r) = a_settledAmountAtomic r"
  "a_validUntil (mapAttempt r) = a_validUntil r" "a_validAfter (mapAttempt r) = a_validAfter r"
  "a_authorization (mapAttempt r) = a_authorization r" "a_signature (mapAttempt r) = a_signature r"
  "a_authorizationHash (mapAttempt r) = a_authorizationHash r"
  "a_checkoutCapabilityHash (mapAttempt r) = a_checkoutCapabilityHash r"
  "a_expiresAt (mapAttempt r) = a_validUntil r * 1000" "a_createdAt (mapAttempt r) = a_createdAt r"
  by (simp_all add: mapAttempt_def attempt_core.truncate_def attempt_core.extend_def
      payment_attempt.fields_def)

end
