(* ===== verification/Chain.thy ===== *)
theory Chain
  imports PaymentsDb
begin

text \<open>
  The services the Worker talks to, and \<^verbatim>\<open>services/clients.ts\<close>.  What an RPC provider, Circle's API, the
  queue, the scheduler or a webhook endpoint answers is a function of the request and of the time (\<open>None\<close>: the
  request failed).  A log is given by what \<open>decodeEventLog\<close> reads from it under each of the four event
  ABIs of the code, and by the JSON text of the decoded arguments.
\<close>

record event_args =
  ea_intentId :: string
  ea_attemptId :: string
  ea_payer :: string
  ea_merchant :: string
  ea_settlementAmount :: int
  ea_platformFee :: int

record burn_args = event_args +
  ea_grossPayerAmount :: int
  ea_maxCctpFee :: int
  ea_amountBurned :: int

record chain_log =
  lg_address :: string
  lg_txHash :: "string option"
  lg_logIndex :: "int option"
  lg_blockNumber :: int
  lg_blockHash :: string
  lg_settled :: "event_args option"
  lg_burned :: "burn_args option"
  lg_messageSent :: "string option"
  lg_messageReceived :: "(string \<times> int) option"
  lg_evidence :: string

record chain_receipt =
  rc_success :: bool
  rc_from :: string
  rc_to :: "string option"
  rc_blockNumber :: int
  rc_logs :: "chain_log list"

datatype receipt_answer = ReceiptFound chain_receipt | ReceiptNotFound | ReceiptFailed

record chain_block =
  cb_hash :: string
  cb_parentHash :: string
  cb_timestamp :: int

record circle_message =
  cm_message :: string
  cm_attestation :: string
  cm_status :: string
  cm_cctpVersion :: int
  cm_sourceDomain :: "string option"
  cm_destinationDomain :: "string option"
  cm_burnToken :: "string option"
  cm_mintRecipient :: "string option"
  cm_messageSender :: "string option"
  cm_amount :: "string option"

text \<open>The answers of a router to the preflight's reads; the last three are those of a CCTP router.\<close>

record router_values =
  rv_maxPlatformFeeBps :: int
  rv_usdc :: string
  rv_treasury :: string
  rv_authorizationSigner :: string
  rv_paused :: bool
  rv_tokenMessenger :: "string option"
  rv_settlementChainId :: "int option"
  rv_fastTransferEnabled :: "bool option"

record services =
  sv_blockNumber :: "int \<Rightarrow> int \<Rightarrow> int option"
  sv_receipt :: "int \<Rightarrow> string \<Rightarrow> int \<Rightarrow> receipt_answer"
  sv_block :: "int \<Rightarrow> int \<Rightarrow> int \<Rightarrow> chain_block option"
  sv_logs :: "int \<Rightarrow> string list \<Rightarrow> int \<Rightarrow> int \<Rightarrow> int \<Rightarrow> chain_log list option"
  sv_receivedLogs :: "int \<Rightarrow> string \<Rightarrow> string \<Rightarrow> int \<Rightarrow> int \<Rightarrow> chain_log list option"
  sv_usedNonce :: "int \<Rightarrow> string \<Rightarrow> string \<Rightarrow> int \<Rightarrow> int option"
  sv_simulateMint :: "int \<Rightarrow> string \<Rightarrow> string \<Rightarrow> string \<Rightarrow> int \<Rightarrow> unit option"
  sv_prepareMint :: "int \<Rightarrow> string \<Rightarrow> string \<Rightarrow> string \<Rightarrow> int \<Rightarrow> int option option"
  sv_signMint :: "int \<Rightarrow> string \<Rightarrow> string \<Rightarrow> string \<Rightarrow> int \<Rightarrow> int \<Rightarrow> string"
  sv_sendRaw :: "int \<Rightarrow> string \<Rightarrow> int \<Rightarrow> string option"
  sv_transactionKnown :: "int \<Rightarrow> string \<Rightarrow> int \<Rightarrow> unit option"
  sv_code :: "int \<Rightarrow> string \<Rightarrow> int \<Rightarrow> string option option"
  sv_multicall :: "int \<Rightarrow> string \<Rightarrow> bool \<Rightarrow> int \<Rightarrow> router_values option"
  sv_circleFees :: "int \<Rightarrow> int \<Rightarrow> int \<Rightarrow> (int \<times> json) option"
  sv_circleMessages :: "int \<Rightarrow> string \<Rightarrow> int \<Rightarrow> (int \<times> circle_message list option) option"
  sv_webhook :: "webhook_request \<Rightarrow> int \<Rightarrow> int option"
  sv_queueSend :: "payment_job_message \<Rightarrow> int \<Rightarrow> unit option"
  sv_schedule :: "string \<Rightarrow> scheduled_input \<Rightarrow> int \<Rightarrow> unit option"

definition quiet_services :: services where
  "quiet_services = \<lparr>sv_blockNumber = (\<lambda>c t. Some 100), sv_receipt = (\<lambda>c h t. ReceiptNotFound),
     sv_block = (\<lambda>c n t. None), sv_logs = (\<lambda>c as f u t. Some []), sv_receivedLogs = (\<lambda>c m n u t. Some []),
     sv_usedNonce = (\<lambda>c m n t. Some 0), sv_simulateMint = (\<lambda>c m msg att t. Some ()),
     sv_prepareMint = (\<lambda>c m msg att t. Some (Some 7)), sv_signMint = (\<lambda>c m msg att n t. ''0xraw''),
     sv_sendRaw = (\<lambda>c r t. Some (''0x'' @ r)), sv_transactionKnown = (\<lambda>c h t. None),
     sv_code = (\<lambda>c a t. Some None), sv_multicall = (\<lambda>c a k t. None), sv_circleFees = (\<lambda>s d t. None),
     sv_circleMessages = (\<lambda>d h t. None), sv_webhook = (\<lambda>r t. Some 200), sv_queueSend = (\<lambda>m t. Some ()),
     sv_schedule = (\<lambda>p i t. Some ())\<rparr>"

subsection \<open>RPC clients\<close>

text \<open>\<open>sameAddress\<close> of \<^verbatim>\<open>services/reconciliation.ts\<close>; \<open>None\<close> is a value that is not a string.\<close>

definition sameAddress :: "string option \<Rightarrow> string \<Rightarrow> bool" where
  "sameAddress left right \<longleftrightarrow> (case left of None \<Rightarrow> False | Some l \<Rightarrow> toLowerCase l = toLowerCase right)"

definition configuredRpcMap :: "viem \<Rightarrow> bindings \<Rightarrow> err + (string \<times> json) list" where
  "configuredRpcMap V env = (case e_rpcUrls env of None \<Rightarrow> Inl (Thrown ''PAYMENT_RPC_URLS is not configured'')
     | Some t \<Rightarrow> if t = [] then Inl (Thrown ''PAYMENT_RPC_URLS is not configured'')
        else (case v_jsonParse V t of Some (JObj fs) \<Rightarrow> Inr fs
          | _ \<Rightarrow> Inl (Thrown ''PAYMENT_RPC_URLS is malformed'')))"

fun https_url :: "json \<Rightarrow> string option" where
  "https_url (JStr s) = (if startsWith s ''https://'' then Some s else None)"
| "https_url _ = None"

definition urls :: "viem \<Rightarrow> bindings \<Rightarrow> int \<Rightarrow> err + string list" where
  "urls V env chainId = bindE (configuredRpcMap V env) (\<lambda>m. case jget m (string_of_int chainId) of
       Some (JArr values) \<Rightarrow> if values = [] \<or> list_ex (\<lambda>v. https_url v = None) values
         then Inl (Thrown (''No HTTPS payment RPC configured for chain '' @ string_of_int chainId))
         else Inr (remdups (List.map_filter https_url values))
     | _ \<Rightarrow> Inl (Thrown (''No HTTPS payment RPC configured for chain '' @ string_of_int chainId)))"

definition rpc_issue :: "viem \<Rightarrow> (string \<times> json) list \<Rightarrow> int \<Rightarrow> string option" where
  "rpc_issue V parsed chainId = (let name = ''PAYMENT_RPC_URLS_'' @ string_of_int chainId in
     case jget parsed (string_of_int chainId) of
       Some (JArr values) \<Rightarrow> if list_ex (\<lambda>v. https_url v = None) values then Some (name @ ''_INVALID'')
         else (let hosts = remdups (filter (\<lambda>h. h \<noteq> []) (map (\<lambda>v. case https_url v of None \<Rightarrow> []
               | Some u \<Rightarrow> (case v_hostname V u of None \<Rightarrow> [] | Some h \<Rightarrow> toLowerCase h)) values))
           in if length hosts < 2 then Some (name @ ''_REDUNDANCY_REQUIRED'') else None)
     | _ \<Rightarrow> Some (name @ ''_INVALID''))"

definition validatePaymentRpcRedundancy :: "viem \<Rightarrow> bindings \<Rightarrow> int list \<Rightarrow> string list" where
  "validatePaymentRpcRedundancy V env chainIds = (case configuredRpcMap V env of
       Inl _ \<Rightarrow> [''PAYMENT_RPC_URLS_INVALID'']
     | Inr parsed \<Rightarrow> List.map_filter (rpc_issue V parsed) chainIds)"

definition paymentChain :: "int \<Rightarrow> err + network" where
  "paymentChain chainId = (case getPaymentNetworkCapabilities chainId of
       None \<Rightarrow> Inl (Thrown (''Unsupported payment chain '' @ string_of_int chainId)) | Some n \<Rightarrow> Inr n)"

definition paymentPublicClient :: "viem \<Rightarrow> bindings \<Rightarrow> int \<Rightarrow> err + unit" where
  "paymentPublicClient V env chainId = bindE (paymentChain chainId) (\<lambda>_. bindE (urls V env chainId) (\<lambda>_. Inr ()))"

text \<open>The pattern \<^verbatim>\<open>^(?:0x)?[0-9a-fA-F]{64}$\<close> of a private key, and the key with its prefix.\<close>

definition private_key_ok :: "string \<Rightarrow> bool" where
  "private_key_ok s \<longleftrightarrow> (length s = 64 \<and> list_all is_hex s) \<or>
     (length s = 66 \<and> startsWith s ''0x'' \<and> list_all is_hex (drop 2 s))"

definition prefixed_key :: "string \<Rightarrow> string" where
  "prefixed_key s = (if startsWith s ''0x'' then s else ''0x'' @ s)"

text \<open>The address of the relayer's account.\<close>

definition paymentWalletClient :: "viem \<Rightarrow> bindings \<Rightarrow> int \<Rightarrow> err + string" where
  "paymentWalletClient V env chainId = (case e_relayerKey env of
       None \<Rightarrow> Inl (Thrown ''Payment relayer key is not configured'')
     | Some key \<Rightarrow> if \<not> private_key_ok key then Inl (Thrown ''Payment relayer key is not configured'')
         else bindE (paymentChain chainId) (\<lambda>_. bindE (urls V env chainId) (\<lambda>_.
           Inr (v_addressOfKey V (prefixed_key key)))))"

definition requiredConfirmations :: "viem \<Rightarrow> bindings \<Rightarrow> int \<Rightarrow> err + int" where
  "requiredConfirmations V env chainId = (
     if e_confirmationsJson env = None \<or> e_confirmationsJson env = Some []
     then Inr (case getPaymentNetworkCapabilities chainId of None \<Rightarrow> 12 | Some n \<Rightarrow> if n_isTestnet n then 2 else 12)
     else (case v_jsonParse V (the (e_confirmationsJson env)) of
         None \<Rightarrow> Inl (Thrown ''PAYMENT_CONFIRMATIONS_JSON is malformed'')
       | Some JNull \<Rightarrow> Inl (Thrown ''PAYMENT_CONFIRMATIONS_JSON is malformed'')
       | Some (JObj fs) \<Rightarrow> (case jget fs (string_of_int chainId) of
            Some (JInt n) \<Rightarrow> Inr (if isSafeInteger n \<and> 1 \<le> n \<and> n \<le> 1000 then n else 12) | _ \<Rightarrow> Inr 12)
       | Some (JArr vs) \<Rightarrow> Inr (if 0 \<le> chainId \<and> chainId < int (length vs)
            then (case vs ! nat chainId of JInt n \<Rightarrow> if isSafeInteger n \<and> 1 \<le> n \<and> n \<le> 1000 then n else 12 | _ \<Rightarrow> 12)
            else 12)
       | Some _ \<Rightarrow> Inr 12))"

lemma requiredConfirmations_bounds:
  assumes "requiredConfirmations V env chainId = Inr n"
  shows "1 \<le> n \<and> n \<le> 1000"
  using assms unfolding requiredConfirmations_def
  by (auto split: if_splits option.splits json.splits)

end
