(* ===== verification/FeePolicy.thy ===== *)
theory FeePolicy
  imports Models
begin

text \<open>
  The platform fee policy (\<^verbatim>\<open>payments-worker/src/services/feePolicy.ts\<close>): the strict parser of the
  configured policy document, the choice of the rule that applies to a payment, and the audit of
  the configuration.
\<close>

subsection \<open>Parsing the policy document\<close>

record fee_rule =
  r_id :: string
  r_priority :: int
  r_feeBps :: int
  r_merchantIds :: "string list option"
  r_modes :: "mode list option"
  r_sourceChainIds :: "int list option"
  r_routes :: "route list option"
  r_minAmountAtomic :: "int option"
  r_maxAmountAtomic :: "int option"

record fee_policy =
  p_policyId :: string
  p_version :: int
  p_rules :: "fee_rule list"

definition MAX_POLICY_BYTES :: int where
  "MAX_POLICY_BYTES = 32 * 1024"

definition MAX_RULES :: nat where
  "MAX_RULES = 100"

definition POLICY_KEYS :: "string list" where
  "POLICY_KEYS = [''policyId'', ''version'', ''rules'']"

definition RULE_KEYS :: "string list" where
  "RULE_KEYS = [''id'', ''priority'', ''feeBps'', ''merchantIds'', ''modes'', ''sourceChainIds'',
     ''routes'', ''minAmountAtomic'', ''maxAmountAtomic'']"

definition FREE_POLICY :: fee_policy where
  "FREE_POLICY = \<lparr>p_policyId = ''free-default'', p_version = 1, p_rules = []\<rparr>"

definition invalid_policy :: err where
  "invalid_policy = FeePolicyError ''INVALID_FEE_POLICY''"

text \<open>The patterns \<^verbatim>\<open>^[a-z0-9][a-z0-9._-]{0,63}$\<close> and \<^verbatim>\<open>^(?:0|[1-9][0-9]{0,77})$\<close>.\<close>

definition policy_id_ok :: "string \<Rightarrow> bool" where
  "policy_id_ok s \<longleftrightarrow> s \<noteq> [] \<and> length s \<le> 64 \<and> (is_digit (hd s) \<or> is_lower (hd s)) \<and>
     list_all (\<lambda>c. is_digit c \<or> is_lower c \<or> c \<in> set ''._-'') (tl s)"

definition atomic_text_ok :: "string \<Rightarrow> bool" where
  "atomic_text_ok s \<longleftrightarrow> s = ''0'' \<or>
     (s \<noteq> [] \<and> length s \<le> 78 \<and> hd s \<noteq> CHR ''0'' \<and> list_all is_digit s)"

definition rejectUnknownKeys :: "(string \<times> json) list \<Rightarrow> string list \<Rightarrow> err + unit" where
  "rejectUnknownKeys fs allowed = guardE (list_all (\<lambda>(k, v). k \<in> set allowed) fs) invalid_policy"

text \<open>\<open>[...new Set(xs)]\<close> keeps the first occurrence of each element.\<close>

definition new_set :: "'a list \<Rightarrow> 'a list" where
  "new_set xs = rev (remdups (rev xs))"

fun json_text_in :: "nat \<Rightarrow> json \<Rightarrow> err + string" where
  "json_text_in mx (JStr s) = (if s \<noteq> [] \<and> length s \<le> mx then Inr s else Inl invalid_policy)"
| "json_text_in mx _ = Inl invalid_policy"

definition stringArray :: "json option \<Rightarrow> nat \<Rightarrow> err + string list option" where
  "stringArray value mx = (case value of None \<Rightarrow> Inr None
     | Some (JArr xs) \<Rightarrow> if xs = [] \<or> mx < length xs then Inl invalid_policy
         else bindE (mapE (json_text_in 160) xs) (\<lambda>ts. Inr (Some (new_set ts)))
     | _ \<Rightarrow> Inl invalid_policy)"

fun json_chain :: "json \<Rightarrow> err + int" where
  "json_chain (JInt n) = (if isSafeInteger n \<and> 0 < n then Inr n else Inl invalid_policy)"
| "json_chain _ = Inl invalid_policy"

definition chainArray :: "json option \<Rightarrow> err + int list option" where
  "chainArray value = (case value of None \<Rightarrow> Inr None
     | Some (JArr xs) \<Rightarrow> if xs = [] \<or> 20 < length xs then Inl invalid_policy
         else bindE (mapE json_chain xs) (\<lambda>ns. Inr (Some (new_set ns)))
     | _ \<Rightarrow> Inl invalid_policy)"

definition atomic :: "json option \<Rightarrow> err + int option" where
  "atomic value = (case value of None \<Rightarrow> Inr None
     | Some (JStr s) \<Rightarrow> if atomic_text_ok s then Inr (Some (int (digits_value s))) else Inl invalid_policy
     | _ \<Rightarrow> Inl invalid_policy)"

definition mode_of_text :: "string \<Rightarrow> err + mode" where
  "mode_of_text s = (if s = ''test'' then Inr Test else if s = ''live'' then Inr Live
     else Inl invalid_policy)"

definition route_of_text :: "string \<Rightarrow> err + route" where
  "route_of_text s = (if s = ''local'' then Inr Local else if s = ''cctp_fast'' then Inr CctpFast
     else if s = ''cctp_standard'' then Inr CctpStandard else Inl invalid_policy)"

definition optE :: "('a \<Rightarrow> err + 'b) \<Rightarrow> 'a list option \<Rightarrow> err + 'b list option" where
  "optE f xs = (case xs of None \<Rightarrow> Inr None | Some ys \<Rightarrow> bindE (mapE f ys) (\<lambda>zs. Inr (Some zs)))"

definition json_int_in :: "int \<Rightarrow> int \<Rightarrow> json option \<Rightarrow> err + int" where
  "json_int_in lo hi value = (case value of
       Some (JInt n) \<Rightarrow> if isSafeInteger n \<and> lo \<le> n \<and> n \<le> hi then Inr n else Inl invalid_policy
     | _ \<Rightarrow> Inl invalid_policy)"

definition parseRule :: "json \<Rightarrow> err + fee_rule" where
  "parseRule value = (case value of JObj raw \<Rightarrow>
     bindE (rejectUnknownKeys raw RULE_KEYS) (\<lambda>_.
     case jget raw ''id'' of Some (JStr i) \<Rightarrow>
       if \<not> policy_id_ok i then Inl invalid_policy else
       bindE (json_int_in (-10000) 10000 (jget raw ''priority'')) (\<lambda>priority.
       bindE (json_int_in 0 100 (jget raw ''feeBps'')) (\<lambda>feeBps.
       bindE (stringArray (jget raw ''merchantIds'') 100) (\<lambda>merchantIds.
       bindE (bindE (stringArray (jget raw ''modes'') 2) (optE mode_of_text)) (\<lambda>modes.
       bindE (bindE (stringArray (jget raw ''routes'') 3) (optE route_of_text)) (\<lambda>routes.
       bindE (atomic (jget raw ''minAmountAtomic'')) (\<lambda>minA.
       bindE (atomic (jget raw ''maxAmountAtomic'')) (\<lambda>maxA.
       bindE (guardE (\<not> (minA \<noteq> None \<and> maxA \<noteq> None \<and> the maxA < the minA)) invalid_policy) (\<lambda>_.
       bindE (chainArray (jget raw ''sourceChainIds'')) (\<lambda>chains.
       Inr \<lparr>r_id = i, r_priority = priority, r_feeBps = feeBps, r_merchantIds = merchantIds,
         r_modes = modes, r_sourceChainIds = chains, r_routes = routes,
         r_minAmountAtomic = minA, r_maxAmountAtomic = maxA\<rparr>)))))))))
     | _ \<Rightarrow> Inl invalid_policy)
     | _ \<Rightarrow> Inl invalid_policy)"

text \<open>The size of a text in bytes: one per ASCII character, two per other Latin-1 character.\<close>

definition utf8_length :: "string \<Rightarrow> nat" where
  "utf8_length s = sum_list (map (\<lambda>c. if ccode c < 128 then 1 else 2) s)"

definition paymentFeePolicy :: "viem \<Rightarrow> bindings \<Rightarrow> err + fee_policy" where
  "paymentFeePolicy V env = (let configured = map_option trim (e_feePolicyJson env) in
     if configured = None \<or> configured = Some [] then Inr FREE_POLICY
     else if MAX_POLICY_BYTES < int (utf8_length (the configured)) then Inl invalid_policy
     else (case v_jsonParse V (the configured) of
       Some (JObj raw) \<Rightarrow>
         bindE (rejectUnknownKeys raw POLICY_KEYS) (\<lambda>_.
         case jget raw ''policyId'' of Some (JStr i) \<Rightarrow>
           if \<not> policy_id_ok i then Inl invalid_policy else
           bindE (json_int_in 1 2147483647 (jget raw ''version'')) (\<lambda>version.
           case jget raw ''rules'' of Some (JArr rs) \<Rightarrow>
             if MAX_RULES < length rs then Inl invalid_policy else
             bindE (mapE parseRule rs) (\<lambda>rules.
             bindE (guardE (distinct (map r_id rules)) invalid_policy) (\<lambda>_.
             Inr \<lparr>p_policyId = i, p_version = version, p_rules = rules\<rparr>))
           | _ \<Rightarrow> Inl invalid_policy)
         | _ \<Rightarrow> Inl invalid_policy)
     | _ \<Rightarrow> Inl invalid_policy))"

subsection \<open>Choosing the rule\<close>

record fee_input =
  fi_intent :: payment_intent
  fi_sourceChainId :: int
  fi_route :: route

record resolved_fee =
  rf_snapshot :: fee_snapshot
  rf_platformFeeAtomic :: int

definition allows :: "'a list option \<Rightarrow> 'a \<Rightarrow> bool" where
  "allows xs x = (case xs of None \<Rightarrow> True | Some ys \<Rightarrow> x \<in> set ys)"

definition matches :: "fee_rule \<Rightarrow> fee_input \<Rightarrow> bool" where
  "matches rule inp = (let amount = i_amountAtomic (fi_intent inp) in
     allows (r_merchantIds rule) (i_merchantId (fi_intent inp)) \<and>
     allows (r_modes rule) (i_mode (fi_intent inp)) \<and>
     allows (r_sourceChainIds rule) (fi_sourceChainId inp) \<and>
     allows (r_routes rule) (fi_route inp) \<and>
     (case r_minAmountAtomic rule of None \<Rightarrow> True | Some a \<Rightarrow> a \<le> amount) \<and>
     (case r_maxAmountAtomic rule of None \<Rightarrow> True | Some a \<Rightarrow> amount \<le> a))"

text \<open>\<open>Array.prototype.sort\<close> is stable: a later element passes only strictly greater ones.\<close>

fun insert_by :: "('a \<Rightarrow> 'a \<Rightarrow> int) \<Rightarrow> 'a \<Rightarrow> 'a list \<Rightarrow> 'a list" where
  "insert_by cmp x [] = [x]"
| "insert_by cmp x (y # ys) = (if cmp x y \<le> 0 then x # y # ys else y # insert_by cmp x ys)"

definition sort_by :: "('a \<Rightarrow> 'a \<Rightarrow> int) \<Rightarrow> 'a list \<Rightarrow> 'a list" where
  "sort_by cmp xs = foldr (insert_by cmp) xs []"

definition compare_rules :: "viem \<Rightarrow> fee_rule \<Rightarrow> fee_rule \<Rightarrow> int" where
  "compare_rules V left right = (let byPriority = r_priority right - r_priority left in
     if byPriority \<noteq> 0 then byPriority else v_localeCompare V (r_id left) (r_id right))"

definition feeRecipient :: "viem \<Rightarrow> bindings \<Rightarrow> int \<Rightarrow> err + string option" where
  "feeRecipient V env feeBps = (if feeBps = 0 then Inr None
     else (case e_feeRecipient env of None \<Rightarrow> Inl invalid_policy
       | Some a \<Rightarrow> if a = [] \<or> \<not> v_isAddress V a then Inl invalid_policy
           else Inr (Some (v_getAddress V a))))"

definition resolvePaymentFee :: "viem \<Rightarrow> bindings \<Rightarrow> fee_input \<Rightarrow> int \<Rightarrow> err + resolved_fee" where
  "resolvePaymentFee V env inp cap = bindE (paymentFeePolicy V env) (\<lambda>policy.
     let candidates = sort_by (compare_rules V) (filter (\<lambda>r. matches r inp) (p_rules policy));
         rule = (case candidates of [] \<Rightarrow> None | r # _ \<Rightarrow> Some r);
         feeBps = (case rule of None \<Rightarrow> 0 | Some r \<Rightarrow> r_feeBps r)
     in if (case candidates of r0 # r1 # _ \<Rightarrow> r_priority r1 = r_priority r0 \<and> r_feeBps r1 \<noteq> r_feeBps r0
              | _ \<Rightarrow> False)
        then Inl (FeePolicyError ''AMBIGUOUS_FEE_POLICY'')
        else if \<not> isSafeInteger cap \<or> cap < 0 \<or> 100 < cap
        then Inl (FeePolicyError ''INVALID_ROUTE_CAPABILITY'')
        else if cap < feeBps then Inl (FeePolicyError ''ROUTER_FEE_CAP_EXCEEDED'')
        else if 0 < feeBps \<and> e_routerPreflight env \<noteq> Some ''true''
        then Inl (FeePolicyError ''ROUTER_PREFLIGHT_REQUIRED'')
        else bindE (feeRecipient V env feeBps) (\<lambda>recipient.
          Inr \<lparr>rf_snapshot = \<lparr>f_policyId = p_policyId policy, f_policyVersion = p_version policy,
                 f_ruleId = (case rule of None \<Rightarrow> ''free-default'' | Some r \<Rightarrow> r_id r),
                 f_platformFeeBps = feeBps,
                 f_platformFeeBearer = (if feeBps = 0 then BearerNone else BearerPayer),
                 f_platformFeeRecipient = recipient, f_routeFeeCapBps = cap\<rparr>,
               rf_platformFeeAtomic = i_amountAtomic (fi_intent inp) * feeBps div 10000\<rparr>))"

definition maximumConfiguredFeeBps :: "viem \<Rightarrow> bindings \<Rightarrow> int \<Rightarrow> route list \<Rightarrow> err + int" where
  "maximumConfiguredFeeBps V env sourceChainId routes = bindE (paymentFeePolicy V env) (\<lambda>policy.
     Inr (foldl (\<lambda>maximum rule.
       if \<not> allows (r_sourceChainIds rule) sourceChainId then maximum
       else if (case r_routes rule of None \<Rightarrow> False | Some rs \<Rightarrow> \<not> list_ex (\<lambda>x. x \<in> set routes) rs)
       then maximum
       else max maximum (r_feeBps rule)) 0 (p_rules policy)))"

definition validatePaymentFeePolicyConfig :: "viem \<Rightarrow> bindings \<Rightarrow> string list" where
  "validatePaymentFeePolicyConfig V env = (case bindE (paymentFeePolicy V env) (\<lambda>policy.
       if list_ex (\<lambda>r. 0 < r_feeBps r) (p_rules policy)
       then bindE (feeRecipient V env 1) (\<lambda>_.
         Inr (if e_routerPreflight env \<noteq> Some ''true'' then [''ROUTER_PREFLIGHT_REQUIRED''] else []))
       else Inr []) of
     Inr codes \<Rightarrow> codes
   | Inl (FeePolicyError code) \<Rightarrow> [code]
   | Inl _ \<Rightarrow> [''INVALID_FEE_POLICY''])"

subsection \<open>What a parsed policy satisfies\<close>

definition rule_ok :: "fee_rule \<Rightarrow> bool" where
  "rule_ok r \<longleftrightarrow> policy_id_ok (r_id r) \<and> -10000 \<le> r_priority r \<and> r_priority r \<le> 10000 \<and>
     0 \<le> r_feeBps r \<and> r_feeBps r \<le> 100 \<and>
     (case (r_minAmountAtomic r, r_maxAmountAtomic r) of (Some a, Some b) \<Rightarrow> a \<le> b | _ \<Rightarrow> True)"

definition policy_ok :: "fee_policy \<Rightarrow> bool" where
  "policy_ok p \<longleftrightarrow> policy_id_ok (p_policyId p) \<and> 1 \<le> p_version p \<and> p_version p \<le> 2147483647 \<and>
     length (p_rules p) \<le> MAX_RULES \<and> (\<forall>r \<in> set (p_rules p). rule_ok r) \<and>
     distinct (map r_id (p_rules p))"

lemma json_int_in_Inr: "json_int_in lo hi v = Inr n \<Longrightarrow> lo \<le> n \<and> n \<le> hi"
  by (auto simp: json_int_in_def split: option.splits json.splits if_splits)

lemma jstr_case_Inr:
  "(case v of Some (JStr i) \<Rightarrow> f i | _ \<Rightarrow> Inl e) = Inr y \<longleftrightarrow> (\<exists>i. v = Some (JStr i) \<and> f i = Inr y)"
  by (cases v rule: option.exhaust, simp) (rename_tac j, case_tac j; simp)

lemma jarr_case_Inr:
  "(case v of Some (JArr i) \<Rightarrow> f i | _ \<Rightarrow> Inl e) = Inr y \<longleftrightarrow> (\<exists>i. v = Some (JArr i) \<and> f i = Inr y)"
  by (cases v rule: option.exhaust, simp) (rename_tac j, case_tac j; simp)

lemma jobj_case_Inr:
  "(case v of JObj i \<Rightarrow> f i | _ \<Rightarrow> Inl e) = Inr y \<longleftrightarrow> (\<exists>i. v = JObj i \<and> f i = Inr y)"
  by (cases v) simp_all

lemma jobj_option_case_Inr:
  "(case v of Some (JObj i) \<Rightarrow> f i | _ \<Rightarrow> Inl e) = Inr y \<longleftrightarrow> (\<exists>i. v = Some (JObj i) \<and> f i = Inr y)"
  by (cases v rule: option.exhaust, simp) (rename_tac j, case_tac j; simp)

lemma if_Inl_Inr: "(if b then Inl e else r) = Inr y \<longleftrightarrow> \<not> b \<and> r = Inr y"
  by simp

lemma if_Inr_Inr: "(if b then Inr x else r) = Inr y \<longleftrightarrow> (if b then x = y else r = Inr y)"
  by simp

lemmas parse_Inr = bindE_Inr_iff jstr_case_Inr jarr_case_Inr jobj_case_Inr jobj_option_case_Inr
  if_Inl_Inr if_Inr_Inr

lemma parseRule_ok:
  assumes "parseRule v = Inr r"
  shows "rule_ok r"
  using assms unfolding parseRule_def
  by (simp only: parse_Inr, elim exE conjE)
    (auto simp: rule_ok_def guardE_def split: if_splits option.splits dest!: json_int_in_Inr)

lemma free_policy_ok: "policy_ok FREE_POLICY"
  by code_simp

lemma mapE_parseRule:
  "mapE parseRule rs = Inr rules \<Longrightarrow> (\<forall>r \<in> set rules. rule_ok r) \<and> length rules = length rs"
  using parseRule_ok by (induction rs arbitrary: rules) (auto simp: bindE_Inr_iff)

lemma paymentFeePolicy_ok:
  assumes "paymentFeePolicy V env = Inr p"
  shows "policy_ok p"
proof (cases "p = FREE_POLICY")
  case True
  then show ?thesis by (simp add: free_policy_ok)
next
  case False
  with assms show ?thesis
    unfolding paymentFeePolicy_def Let_def
    by (simp only: parse_Inr split: if_splits)
      (auto simp: policy_ok_def guardE_def
        dest!: json_int_in_Inr mapE_parseRule split: if_splits)
qed

subsection \<open>The sorted candidates\<close>

lemma set_insert_by: "set (insert_by cmp x ys) = insert x (set ys)"
  by (induction ys) auto

lemma set_sort_by: "set (sort_by cmp xs) = set xs"
  unfolding sort_by_def by (induction xs) (auto simp: set_insert_by)

lemma insert_by_priority:
  "sorted_wrt (\<lambda>a b. r_priority b \<le> r_priority a) rs \<Longrightarrow>
   sorted_wrt (\<lambda>a b. r_priority b \<le> r_priority a) (insert_by (compare_rules V) r rs)"
  by (induction rs) (auto simp: compare_rules_def Let_def set_insert_by split: if_splits)

lemma sort_by_priority: "sorted_wrt (\<lambda>a b. r_priority b \<le> r_priority a) (sort_by (compare_rules V) rs)"
  unfolding sort_by_def by (induction rs) (auto intro: insert_by_priority)

definition candidates :: "viem \<Rightarrow> fee_policy \<Rightarrow> fee_input \<Rightarrow> fee_rule list" where
  "candidates V policy inp = sort_by (compare_rules V) (filter (\<lambda>r. matches r inp) (p_rules policy))"

lemma candidates_set: "set (candidates V p inp) = {r \<in> set (p_rules p). matches r inp}"
  by (auto simp: candidates_def set_sort_by)

lemma candidates_head:
  assumes "candidates V p inp = r # rs"
  shows "r \<in> set (p_rules p)" "matches r inp"
    and "s \<in> set (p_rules p) \<Longrightarrow> matches s inp \<Longrightarrow> r_priority s \<le> r_priority r"
proof -
  have *: "r \<in> set (candidates V p inp)" using assms by simp
  then show "r \<in> set (p_rules p)" "matches r inp" by (auto simp: candidates_set)
  assume "s \<in> set (p_rules p)" "matches s inp"
  then have "s \<in> set (r # rs)" unfolding assms [symmetric] by (simp add: candidates_set)
  moreover have "sorted_wrt (\<lambda>a b. r_priority b \<le> r_priority a) (r # rs)"
    using sort_by_priority [of V] assms unfolding candidates_def by metis
  ultimately show "r_priority s \<le> r_priority r" by auto
qed

definition rule_bps :: "fee_rule list \<Rightarrow> int" where
  "rule_bps rs = (case rs of [] \<Rightarrow> 0 | r # _ \<Rightarrow> r_feeBps r)"

lemma rule_bps_bounds:
  "policy_ok p \<Longrightarrow> 0 \<le> rule_bps (candidates V p inp) \<and> rule_bps (candidates V p inp) \<le> 100"
  using candidates_head(1) [of V p inp]
  by (auto simp: rule_bps_def policy_ok_def rule_ok_def split: list.splits)

text \<open>A resolved fee, from the policy it was resolved from.\<close>

lemma resolvePaymentFee_cases:
  assumes "resolvePaymentFee V env inp cap = Inr rf"
  obtains p where "paymentFeePolicy V env = Inr p" and "policy_ok p"
    and "f_platformFeeBps (rf_snapshot rf) = rule_bps (candidates V p inp)"
    and "f_ruleId (rf_snapshot rf) =
      (case candidates V p inp of [] \<Rightarrow> ''free-default'' | r # _ \<Rightarrow> r_id r)"
    and "f_policyId (rf_snapshot rf) = p_policyId p" and "f_policyVersion (rf_snapshot rf) = p_version p"
    and "rf_platformFeeAtomic rf =
      i_amountAtomic (fi_intent inp) * f_platformFeeBps (rf_snapshot rf) div 10000"
    and "f_routeFeeCapBps (rf_snapshot rf) = cap" and "0 \<le> cap" and "cap \<le> 100"
    and "f_platformFeeBps (rf_snapshot rf) \<le> cap"
    and "f_platformFeeBps (rf_snapshot rf) \<le> 0 \<or> e_routerPreflight env = Some ''true''"
    and "feeRecipient V env (f_platformFeeBps (rf_snapshot rf)) =
      Inr (f_platformFeeRecipient (rf_snapshot rf))"
    and "f_platformFeeBearer (rf_snapshot rf) =
      (if f_platformFeeBps (rf_snapshot rf) = 0 then BearerNone else BearerPayer)"
proof -
  from assms obtain p where p: "paymentFeePolicy V env = Inr p"
    unfolding resolvePaymentFee_def by (auto simp: bindE_Inr_iff)
  have ok: "policy_ok p" using p by (rule paymentFeePolicy_ok)
  define cs where "cs = candidates V p inp"
  have bps: "(case (case cs of [] \<Rightarrow> None | r # _ \<Rightarrow> Some r) of None \<Rightarrow> 0 | Some r \<Rightarrow> r_feeBps r) = rule_bps cs"
    by (simp add: rule_bps_def split: list.splits)
  have nam: "(case (case cs of [] \<Rightarrow> None | r # _ \<Rightarrow> Some r) of None \<Rightarrow> ''free-default'' | Some r \<Rightarrow> r_id r) =
      (case cs of [] \<Rightarrow> ''free-default'' | r # _ \<Rightarrow> r_id r)"
    by (simp split: list.splits)
  obtain rc where rc: "feeRecipient V env (rule_bps cs) = Inr rc"
    and checks: "0 \<le> cap" "cap \<le> 100" "rule_bps cs \<le> cap"
      "rule_bps cs \<le> 0 \<or> e_routerPreflight env = Some ''true''"
    and rf: "rf = \<lparr>rf_snapshot = \<lparr>f_policyId = p_policyId p, f_policyVersion = p_version p,
         f_ruleId = (case cs of [] \<Rightarrow> ''free-default'' | r # _ \<Rightarrow> r_id r), f_platformFeeBps = rule_bps cs,
         f_platformFeeBearer = (if rule_bps cs = 0 then BearerNone else BearerPayer),
         f_platformFeeRecipient = rc, f_routeFeeCapBps = cap\<rparr>,
       rf_platformFeeAtomic = i_amountAtomic (fi_intent inp) * rule_bps cs div 10000\<rparr>"
    using assms
    unfolding resolvePaymentFee_def p bindE_simps Let_def candidates_def [symmetric]
      cs_def [symmetric] bps nam
    by (simp only: if_Inl_Inr bindE_Inr_iff) (elim exE conjE, simp add: not_less)
  show ?thesis
    by (rule that [OF p ok]) (use rc checks in \<open>simp_all add: rf cs_def\<close>)
qed

lemma percent_div:
  assumes "0 \<le> (a::int)" and "b \<le> c"
  shows "10000 * (a * b div 10000) \<le> a * c"
proof -
  have "10000 * (a * b div 10000) \<le> a * b" by simp
  also have "\<dots> \<le> a * c" using assms by (simp add: mult_left_mono)
  finally show ?thesis .
qed

lemma percent_nonneg: "0 \<le> (a::int) \<Longrightarrow> 0 \<le> b \<Longrightarrow> 0 \<le> a * b div 10000"
  by (simp add: pos_imp_zdiv_nonneg_iff)

subsection \<open>The properties of the fee policy\<close>

text \<open>
  C4: whatever policy is configured, a resolved platform fee is the amount's share of the resolved
  basis points rounded down, the basis points are within the deployed router's cap, the cap and so
  the fee are at most one percent, a positive fee is borne by the payer, has a recipient, and
  is only charged when the on-chain router preflight is enabled.
\<close>
theorem resolved_fee_bounds:
  assumes "resolvePaymentFee V env inp cap = Inr rf"
    and "0 \<le> i_amountAtomic (fi_intent inp)"
  shows "0 \<le> f_platformFeeBps (rf_snapshot rf) \<and> f_platformFeeBps (rf_snapshot rf) \<le> cap \<and>
    f_routeFeeCapBps (rf_snapshot rf) = cap \<and> cap \<le> 100 \<and>
    rf_platformFeeAtomic rf =
      i_amountAtomic (fi_intent inp) * f_platformFeeBps (rf_snapshot rf) div 10000 \<and>
    0 \<le> rf_platformFeeAtomic rf \<and>
    10000 * rf_platformFeeAtomic rf \<le> cap * i_amountAtomic (fi_intent inp) \<and>
    (f_platformFeeBps (rf_snapshot rf) = 0) = (f_platformFeeBearer (rf_snapshot rf) = BearerNone) \<and>
    (f_platformFeeBps (rf_snapshot rf) = 0) = (f_platformFeeRecipient (rf_snapshot rf) = None) \<and>
    (0 < f_platformFeeBps (rf_snapshot rf) \<longrightarrow> e_routerPreflight env = Some ''true'')"
proof -
  let ?bps = "f_platformFeeBps (rf_snapshot rf)" and ?a = "i_amountAtomic (fi_intent inp)"
  from assms(1) obtain p where p: "policy_ok p" "?bps = rule_bps (candidates V p inp)" "?bps \<le> cap"
      "f_routeFeeCapBps (rf_snapshot rf) = cap" "cap \<le> 100"
      "?bps \<le> 0 \<or> e_routerPreflight env = Some ''true''"
      "rf_platformFeeAtomic rf = ?a * ?bps div 10000"
      "feeRecipient V env ?bps = Inr (f_platformFeeRecipient (rf_snapshot rf))"
      "f_platformFeeBearer (rf_snapshot rf) = (if ?bps = 0 then BearerNone else BearerPayer)"
    by (rule resolvePaymentFee_cases)
  have "0 \<le> ?bps" using rule_bps_bounds p(1,2) by simp
  moreover have "(?bps = 0) = (f_platformFeeRecipient (rf_snapshot rf) = None)"
    using p(8) by (auto simp: feeRecipient_def dest: sym split: if_splits option.splits)
  ultimately show ?thesis
    using p percent_div [of ?a ?bps cap] percent_nonneg [of ?a ?bps] assms(2)
    by (auto simp: mult.commute)
qed

text \<open>
  C5: the rule charged is one of the configured rules that match the payment, no matching rule has
  a higher priority, and the free default applies exactly when no rule matches.
\<close>
theorem resolved_fee_rule:
  assumes "resolvePaymentFee V env inp cap = Inr rf" and "paymentFeePolicy V env = Inr p"
  shows "(\<exists>r. r \<in> set (p_rules p) \<and> matches r inp \<and> f_ruleId (rf_snapshot rf) = r_id r \<and>
      f_platformFeeBps (rf_snapshot rf) = r_feeBps r \<and>
      list_all (\<lambda>s. matches s inp \<longrightarrow> r_priority s \<le> r_priority r) (p_rules p)) \<or>
    (list_all (\<lambda>s. \<not> matches s inp) (p_rules p) \<and> f_ruleId (rf_snapshot rf) = ''free-default'' \<and>
      f_platformFeeBps (rf_snapshot rf) = 0 \<and> rf_platformFeeAtomic rf = 0)"
proof -
  from assms(1) obtain p' where p': "paymentFeePolicy V env = Inr p'"
      "f_platformFeeBps (rf_snapshot rf) = rule_bps (candidates V p' inp)"
      "f_ruleId (rf_snapshot rf) = (case candidates V p' inp of [] \<Rightarrow> ''free-default'' | r # _ \<Rightarrow> r_id r)"
      "rf_platformFeeAtomic rf =
        i_amountAtomic (fi_intent inp) * f_platformFeeBps (rf_snapshot rf) div 10000"
    by (rule resolvePaymentFee_cases)
  then have eq: "p' = p" using assms(2) by simp
  show ?thesis
  proof (cases "candidates V p inp")
    case Nil
    then have "{r \<in> set (p_rules p). matches r inp} = {}"
      using candidates_set [of V p inp] by simp
    then show ?thesis using p' Nil eq by (auto simp: list_all_iff rule_bps_def)
  next
    case (Cons r rs)
    then show ?thesis
      using p' eq candidates_head [OF Cons] by (auto simp: list_all_iff rule_bps_def)
  qed
qed

lemma foldl_max_ge:
  "(m::int) \<le> foldl (\<lambda>mx x. if P x then mx else if Q x then mx else max mx (f x)) m xs"
proof (induction xs arbitrary: m)
  case (Cons x xs)
  show ?case using Cons [of "max m (f x)"] Cons [of m] by auto
qed simp

lemma foldl_max_mem:
  "x \<in> set xs \<Longrightarrow> \<not> P x \<Longrightarrow> \<not> Q x \<Longrightarrow>
   f x \<le> foldl (\<lambda>mx x. if P x then mx else if Q x then mx else max mx (f x)) (m::int) xs"
proof (induction xs arbitrary: m)
  case (Cons y ys)
  show ?case
  proof (cases "x = y")
    case True
    then show ?thesis using Cons.prems foldl_max_ge [of "max m (f y)" P Q f ys] by simp
  next
    case False
    then show ?thesis using Cons by auto
  qed
qed simp

text \<open>
  The audit's maximum for an execution surface bounds every fee the policy can resolve on that
  surface: a router that the health check admits for \<open>maximumConfiguredFeeBps\<close> is never asked to
  charge more.
\<close>
theorem resolved_fee_le_maximum:
  assumes "resolvePaymentFee V env inp cap = Inr rf"
    and "maximumConfiguredFeeBps V env (fi_sourceChainId inp) routes = Inr m"
    and "fi_route inp \<in> set routes"
  shows "f_platformFeeBps (rf_snapshot rf) \<le> m"
proof -
  from assms(1) obtain p where p: "paymentFeePolicy V env = Inr p"
      "f_platformFeeBps (rf_snapshot rf) = rule_bps (candidates V p inp)"
    by (rule resolvePaymentFee_cases)
  let ?P = "\<lambda>rule. \<not> allows (r_sourceChainIds rule) (fi_sourceChainId inp)"
  let ?Q = "\<lambda>rule. case r_routes rule of None \<Rightarrow> False | Some rs \<Rightarrow> \<not> list_ex (\<lambda>x. x \<in> set routes) rs"
  have m: "m = foldl (\<lambda>mx r. if ?P r then mx else if ?Q r then mx else max mx (r_feeBps r)) 0 (p_rules p)"
    using assms(2) p(1) by (simp add: maximumConfiguredFeeBps_def)
  show ?thesis
  proof (cases "candidates V p inp")
    case Nil
    then show ?thesis using p(2) m foldl_max_ge [of 0 ?P ?Q r_feeBps] by (simp add: rule_bps_def)
  next
    case (Cons r rs)
    then have r: "r \<in> set (p_rules p)" "matches r inp" using candidates_head by metis+
    then have "\<not> ?P r" "\<not> ?Q r"
      using assms(3) by (auto simp: matches_def Let_def allows_def list_ex_iff split: option.splits)
    then show ?thesis
      using foldl_max_mem [OF r(1), of ?P ?Q r_feeBps 0] p(2) m Cons by (simp add: rule_bps_def)
  qed
qed


subsection \<open>A policy at which the properties are evaluated\<close>

definition rule_json :: "string \<Rightarrow> int \<Rightarrow> int \<Rightarrow> json" where
  "rule_json i priority bps = JObj [(''id'', JStr i), (''priority'', JInt priority), (''feeBps'', JInt bps)]"

definition policy_json :: "json list \<Rightarrow> json" where
  "policy_json rs = JObj [(''policyId'', JStr ''launch''), (''version'', JInt 3), (''rules'', JArr rs)]"

definition policy_viem :: "json list \<Rightarrow> viem" where
  "policy_viem rs = sample_viem\<lparr>v_jsonParse := (\<lambda>s. Some (policy_json rs))\<rparr>"

definition policy_env :: bindings where
  "policy_env = sample_env\<lparr>e_feePolicyJson := Some ''policy''\<rparr>"

definition sample_input :: fee_input where
  "sample_input = \<lparr>fi_intent = sample_intent, fi_sourceChainId = 421614, fi_route = Local\<rparr>"

definition sample_rules :: "json list" where
  "sample_rules = [rule_json ''base'' 0 10, rule_json ''promo'' 5 50]"

definition sample_resolved :: resolved_fee where
  "sample_resolved = \<lparr>rf_snapshot = \<lparr>f_policyId = ''launch'', f_policyVersion = 3, f_ruleId = ''promo'',
       f_platformFeeBps = 50, f_platformFeeBearer = BearerPayer, f_platformFeeRecipient = Some ''0xfee'',
       f_routeFeeCapBps = 100\<rparr>, rf_platformFeeAtomic = 50000\<rparr>"

definition sample_policy :: fee_policy where
  "sample_policy = \<lparr>p_policyId = ''launch'', p_version = 3, p_rules =
     [\<lparr>r_id = ''base'', r_priority = 0, r_feeBps = 10, r_merchantIds = None, r_modes = None,
        r_sourceChainIds = None, r_routes = None, r_minAmountAtomic = None, r_maxAmountAtomic = None\<rparr>,
      \<lparr>r_id = ''promo'', r_priority = 5, r_feeBps = 50, r_merchantIds = None, r_modes = None,
        r_sourceChainIds = None, r_routes = None, r_minAmountAtomic = None, r_maxAmountAtomic = None\<rparr>]\<rparr>"

lemma sample_resolve:
  "resolvePaymentFee (policy_viem sample_rules) policy_env sample_input 100 = Inr sample_resolved"
  by code_simp

lemma sample_parse: "paymentFeePolicy (policy_viem sample_rules) policy_env = Inr sample_policy"
  by code_simp

lemma sample_amount: "0 \<le> i_amountAtomic (fi_intent sample_input)"
  by (simp add: sample_input_def sample_intent_def)

lemma resolved_fee_bounds_witness:
  "0 \<le> rf_platformFeeAtomic sample_resolved \<and> f_platformFeeBps (rf_snapshot sample_resolved) \<le> 100"
  using resolved_fee_bounds [OF sample_resolve sample_amount] by simp

lemma resolved_fee_rule_witness:
  "\<exists>r. r \<in> set (p_rules sample_policy) \<and> f_ruleId (rf_snapshot sample_resolved) = r_id r"
  using resolved_fee_rule [OF sample_resolve sample_parse] by (auto simp: sample_resolved_def)

lemma sample_maximum:
  "maximumConfiguredFeeBps (policy_viem sample_rules) policy_env (fi_sourceChainId sample_input) [Local] = Inr 50"
  by code_simp

lemma resolved_fee_le_maximum_witness: "f_platformFeeBps (rf_snapshot sample_resolved) \<le> 50"
  using resolved_fee_le_maximum [OF sample_resolve sample_maximum]
  by (simp add: sample_input_def)

lemma sample_validated: "validatePaymentFeePolicyConfig (policy_viem sample_rules) policy_env = []"
  by code_simp

lemma sample_over_cap:
  "resolvePaymentFee (policy_viem sample_rules) policy_env sample_input 20 =
     Inl (FeePolicyError ''ROUTER_FEE_CAP_EXCEEDED'')"
  by code_simp


text \<open>
  The check for contradictory rules looks at the two first candidates only.  With three matching
  rules of one top priority, of which the two that sort first agree, the payment is priced although
  the third asks for another fee.
\<close>
theorem ambiguity_beyond_two_rules:
  "map_sum (\<lambda>e. e) (\<lambda>rf. f_platformFeeBps (rf_snapshot rf))
     (resolvePaymentFee (policy_viem [rule_json ''a'' 7 10, rule_json ''b'' 7 10, rule_json ''c'' 7 90])
        policy_env sample_input 100) = Inr 10 \<and>
   resolvePaymentFee (policy_viem [rule_json ''a'' 7 10, rule_json ''c'' 7 90])
        policy_env sample_input 100 = Inl (FeePolicyError ''AMBIGUOUS_FEE_POLICY'')"
  by code_simp

end
