(* ===== verification/RouterHealth.thy ===== *)
theory RouterHealth
  imports Chain FeePolicy
begin

text \<open>
  The preflight of the payment routers (\<^verbatim>\<open>services/routerHealth.ts\<close>): the routers the configuration
  expects, what the deployed contracts answer, the comparison of the two, the observations kept in the memory of the
  isolate, and the gate every authorization passes.
\<close>

subsection \<open>Targets\<close>

datatype router_kind = LocalRouter | CctpRouter

record router_target =
  rt_chainId :: int
  rt_kind :: router_kind
  rt_address :: string
  rt_declaredMaxPlatformFeeBps :: int
  rt_usdc :: string
  rt_tokenMessenger :: "string option"
  rt_settlementChainId :: int
  rt_standardTransferEnabled :: "bool option"
  rt_fastTransferEnabled :: "bool option"

definition kind_text :: "router_kind \<Rightarrow> string" where
  "kind_text k = (case k of LocalRouter \<Rightarrow> ''local'' | CctpRouter \<Rightarrow> ''cctp'')"

definition issuePrefix :: "router_target \<Rightarrow> string" where
  "issuePrefix t = ''payment_router_'' @ string_of_int (rt_chainId t) @ ''_'' @ kind_text (rt_kind t)"

text \<open>\<open>getAddress\<close> of viem throws on a text that is no address.\<close>

definition getAddress :: "viem \<Rightarrow> string \<Rightarrow> err + string" where
  "getAddress V s = (if v_isAddressLax V s then Inr (v_getAddress V s) else Inl (ExternalError ''InvalidAddressError''))"

definition same_checksummed :: "viem \<Rightarrow> string option \<Rightarrow> string \<Rightarrow> bool" where
  "same_checksummed V left right = (case left of None \<Rightarrow> False | Some l \<Rightarrow> if l = [] then False
     else (case (getAddress V l, getAddress V right) of (Inr x, Inr y) \<Rightarrow> x = y | _ \<Rightarrow> False))"

definition authorizationSigner :: "viem \<Rightarrow> bindings \<Rightarrow> string option" where
  "authorizationSigner V env = (case e_authorizationSignerKey env of None \<Rightarrow> None
     | Some key \<Rightarrow> if private_key_ok key then Some (v_addressOfKey V (prefixed_key key)) else None)"

definition targetFor :: "viem \<Rightarrow> network \<Rightarrow> err + router_target option" where
  "targetFor V n = (if n_isHomeChain n
     then (case (n_localPaymentRouter n, n_localPaymentMaxPlatformFeeBps n) of
         (Some router, Some cap) \<Rightarrow> if router = [] then Inr None
           else bindE (getAddress V router) (\<lambda>address. bindE (getAddress V (n_usdc n)) (\<lambda>usdc.
             Inr (Some \<lparr>rt_chainId = n_chainId n, rt_kind = LocalRouter, rt_address = address,
               rt_declaredMaxPlatformFeeBps = cap, rt_usdc = usdc, rt_tokenMessenger = None,
               rt_settlementChainId = n_settlementChainId n, rt_standardTransferEnabled = None,
               rt_fastTransferEnabled = None\<rparr>)))
       | _ \<Rightarrow> Inr None)
     else (case (n_cctpPaymentRouter n, n_cctpPaymentMaxPlatformFeeBps n) of
         (Some router, Some cap) \<Rightarrow> if router = [] then Inr None
           else bindE (getAddress V router) (\<lambda>address. bindE (getAddress V (n_usdc n)) (\<lambda>usdc.
             bindE (getAddress V (n_tokenMessenger n)) (\<lambda>messenger.
             Inr (Some \<lparr>rt_chainId = n_chainId n, rt_kind = CctpRouter, rt_address = address,
               rt_declaredMaxPlatformFeeBps = cap, rt_usdc = usdc, rt_tokenMessenger = Some messenger,
               rt_settlementChainId = n_settlementChainId n, rt_standardTransferEnabled = Some (n_cctpStandard n),
               rt_fastTransferEnabled = Some (n_cctpFast n)\<rparr>))))
       | _ \<Rightarrow> Inr None))"

text \<open>The target of one configured chain, or the issue it raises.\<close>

definition chain_target :: "viem \<Rightarrow> int \<Rightarrow> err + (string + router_target)" where
  "chain_target V chainId = (let name = ''payment_router_'' @ string_of_int chainId in
     case getPaymentNetworkCapabilities chainId of
       None \<Rightarrow> Inr (Inl (name @ ''_disabled''))
     | Some n \<Rightarrow> if \<not> n_paymentSource n then Inr (Inl (name @ ''_disabled''))
         else bindE (targetFor V n) (\<lambda>t. Inr (case t of None \<Rightarrow> Inl (name @ ''_capability_missing'') | Some x \<Rightarrow> Inr x)))"

definition chain_ids_valid :: "int option list \<Rightarrow> bool" where
  "chain_ids_valid ids \<longleftrightarrow> ids \<noteq> [] \<and>
     list_all (\<lambda>i. case i of None \<Rightarrow> False | Some n \<Rightarrow> isSafeInteger n \<and> 0 < n) ids \<and> distinct ids"

definition enabledTargets :: "viem \<Rightarrow> bindings \<Rightarrow> err + router_target list \<times> string list" where
  "enabledTargets V env = (
     let raw = filter (\<lambda>s. s \<noteq> []) (map trim (split_comma (e_enabledChainIds env))); ids = map js_Number raw
     in if \<not> chain_ids_valid ids then Inr ([], [''payment_enabled_chains_invalid''])
        else bindE (mapE (\<lambda>i. chain_target V (the i)) ids) (\<lambda>rs.
          Inr (List.map_filter (\<lambda>r. case r of Inl _ \<Rightarrow> None | Inr t \<Rightarrow> Some t) rs,
               List.map_filter (\<lambda>r. case r of Inl s \<Rightarrow> Some s | Inr _ \<Rightarrow> None) rs)))"

definition routesFor :: "router_target \<Rightarrow> route list" where
  "routesFor t = (if rt_kind t = LocalRouter then [Local]
     else (if rt_fastTransferEnabled t = Some True then [CctpFast] else []) @
       (if rt_standardTransferEnabled t = Some True then [CctpStandard] else []))"

definition configuredMaximumFeeBps :: "viem \<Rightarrow> bindings \<Rightarrow> router_target \<Rightarrow> int \<times> string option" where
  "configuredMaximumFeeBps V env t = (case maximumConfiguredFeeBps V env (rt_chainId t) (routesFor t) of
       Inr n \<Rightarrow> (n, None) | Inl _ \<Rightarrow> (0, Some ''payment_fee_policy_invalid''))"

subsection \<open>Comparing an observation with its target\<close>

definition issue :: "bool \<Rightarrow> string \<Rightarrow> string list" where
  "issue b s = (if b then [s] else [])"

definition evaluatePaymentRouterObservation ::
    "viem \<Rightarrow> router_target \<Rightarrow> router_observation \<Rightarrow> string option \<Rightarrow> string option \<Rightarrow> int \<Rightarrow> string list" where
  "evaluatePaymentRouterObservation V t obs expectedSigner expectedTreasury configuredMaxFeeBps = (
     let prefix = issuePrefix t in
     issue (\<not> ro_codePresent obs) (prefix @ ''_code_missing'') @
     issue (ro_maxPlatformFeeBps obs \<noteq> Some (rt_declaredMaxPlatformFeeBps t)) (prefix @ ''_fee_cap_mismatch'') @
     issue (rt_declaredMaxPlatformFeeBps t < configuredMaxFeeBps) (prefix @ ''_configured_fee_exceeds_cap'') @
     issue (case expectedSigner of None \<Rightarrow> True
         | Some s \<Rightarrow> s = [] \<or> \<not> same_checksummed V (ro_authorizationSigner obs) s)
       (prefix @ ''_authorization_signer_mismatch'') @
     issue (0 < configuredMaxFeeBps \<and> (case expectedTreasury of None \<Rightarrow> True
         | Some s \<Rightarrow> s = [] \<or> \<not> same_checksummed V (ro_treasury obs) s))
       (prefix @ ''_treasury_mismatch'') @
     issue (\<not> same_checksummed V (ro_usdc obs) (rt_usdc t)) (prefix @ ''_usdc_mismatch'') @
     issue (ro_paused obs \<noteq> Some False) (prefix @ ''_paused'') @
     (if rt_kind t = CctpRouter
      then issue (case rt_tokenMessenger t of None \<Rightarrow> True
             | Some m \<Rightarrow> m = [] \<or> \<not> same_checksummed V (ro_tokenMessenger obs) m)
           (prefix @ ''_token_messenger_mismatch'') @
         issue (ro_settlementChainId obs \<noteq> Some (rt_settlementChainId t)) (prefix @ ''_settlement_chain_mismatch'') @
         issue (ro_fastTransferEnabled obs \<noteq> rt_fastTransferEnabled t) (prefix @ ''_fast_transfer_mismatch'')
      else []))"

subsection \<open>Reading a router\<close>

definition missing_router :: router_observation where
  "missing_router = \<lparr>ro_codePresent = False, ro_maxPlatformFeeBps = None, ro_usdc = None, ro_treasury = None,
     ro_authorizationSigner = None, ro_paused = None, ro_tokenMessenger = None, ro_settlementChainId = None,
     ro_fastTransferEnabled = None\<rparr>"

definition observed_router :: "router_kind \<Rightarrow> router_values \<Rightarrow> router_observation" where
  "observed_router kind v = (let cctp = (kind = CctpRouter) in
     \<lparr>ro_codePresent = True, ro_maxPlatformFeeBps = Some (rv_maxPlatformFeeBps v), ro_usdc = Some (rv_usdc v),
      ro_treasury = Some (rv_treasury v), ro_authorizationSigner = Some (rv_authorizationSigner v),
      ro_paused = Some (rv_paused v), ro_tokenMessenger = (if cctp then rv_tokenMessenger v else None),
      ro_settlementChainId = (if cctp then rv_settlementChainId v else None),
      ro_fastTransferEnabled = (if cctp then rv_fastTransferEnabled v else None)\<rparr>)"

definition readPaymentRouter :: "viem \<Rightarrow> services \<Rightarrow> bindings \<Rightarrow> router_target \<Rightarrow> router_observation pact" where
  "readPaymentRouter V sv env t =
     bindA (liftE (paymentPublicClient V env (rt_chainId t))) (\<lambda>_.
     bindA (extcall (\<lambda>now. sv_code sv (rt_chainId t) (rt_address t) now) ''getCode'') (\<lambda>code.
     if code = None \<or> code = Some [] \<or> code = Some ''0x'' then ret missing_router
     else bindA (extcall (\<lambda>now. sv_multicall sv (rt_chainId t) (rt_address t) (rt_kind t = CctpRouter) now) ''multicall'') (\<lambda>v.
       ret (observed_router (rt_kind t) v))))"

definition OBSERVATION_TTL_MS :: int where
  "OBSERVATION_TTL_MS = 15000"

definition STALE_HEALTH_OBSERVATION_TTL_MS :: int where
  "STALE_HEALTH_OBSERVATION_TTL_MS = 300000"

definition observationKey :: "router_target \<Rightarrow> string" where
  "observationKey t = string_of_int (rt_chainId t) @ '':'' @ toLowerCase (rt_address t)"

definition map_set :: "string \<Rightarrow> 'v \<Rightarrow> (string \<times> 'v) list \<Rightarrow> (string \<times> 'v) list" where
  "map_set k v m = (k, v) # filter (\<lambda>(x, _). x \<noteq> k) m"

definition remember_last :: "string \<Rightarrow> int \<Rightarrow> router_observation \<Rightarrow> pdb \<Rightarrow> unit \<times> pdb" where
  "remember_last key observedAt obs d = ((), d\<lparr>db_lastObservations := map_set key (observedAt, obs) (db_lastObservations d)\<rparr>)"

definition remember :: "string \<Rightarrow> int \<Rightarrow> router_observation \<Rightarrow> pdb \<Rightarrow> unit \<times> pdb" where
  "remember key observedAt obs d = ((), d\<lparr>
     db_lastObservations := map_set key (observedAt, obs) (db_lastObservations d),
     db_observationCache := map_set key (observedAt + OBSERVATION_TTL_MS, obs) (db_observationCache d)\<rparr>)"

text \<open>The reader is \<open>readPaymentRouter\<close> (\<open>None\<close>) or another one a caller passes.\<close>

definition cachedObservation ::
    "viem \<Rightarrow> services \<Rightarrow> bindings \<Rightarrow> router_target \<Rightarrow> (router_target \<Rightarrow> router_observation pact) option \<Rightarrow> router_observation pact" where
  "cachedObservation V sv env t reader = (let key = observationKey t in
     case reader of
       Some read \<Rightarrow> bindA (read t) (\<lambda>obs. bindA date_now (\<lambda>now.
         bindA (syncA (remember_last key now obs)) (\<lambda>_. ret obs)))
     | None \<Rightarrow> bindA (syncA (\<lambda>d. (map_of (db_observationCache d) key, d))) (\<lambda>cached. bindA date_now (\<lambda>now.
         case cached of
           Some (expiresAt, obs) \<Rightarrow> if now < expiresAt then ret obs
             else bindA (readPaymentRouter V sv env t) (\<lambda>obs. bindA date_now (\<lambda>observedAt.
               bindA (syncA (remember key observedAt obs)) (\<lambda>_. ret obs)))
         | None \<Rightarrow> bindA (readPaymentRouter V sv env t) (\<lambda>obs. bindA date_now (\<lambda>observedAt.
             bindA (syncA (remember key observedAt obs)) (\<lambda>_. ret obs))))))"

definition recentObservation :: "router_target \<Rightarrow> router_observation option pact" where
  "recentObservation t = bindA (syncA (\<lambda>d. (map_of (db_lastObservations d) (observationKey t), d))) (\<lambda>lastKnown.
     bindA date_now (\<lambda>now. ret (case lastKnown of None \<Rightarrow> None
       | Some (observedAt, obs) \<Rightarrow> if STALE_HEALTH_OBSERVATION_TTL_MS < now - observedAt then None else Some obs)))"

definition expectedTreasury :: "viem \<Rightarrow> bindings \<Rightarrow> int \<Rightarrow> string option" where
  "expectedTreasury V env configuredMaxFeeBps = (
     if configuredMaxFeeBps = 0 then None else (case e_feeRecipient env of None \<Rightarrow> None
       | Some r \<Rightarrow> if r = [] then None else (case getAddress V r of Inr a \<Rightarrow> Some a | Inl _ \<Rightarrow> None)))"

subsection \<open>The health report\<close>

datatype health_status = HealthDisabled | HealthOk | HealthDegraded | HealthError

record router_health_route =
  hr_chainId :: int
  hr_kind :: router_kind
  hr_address :: string
  hr_status :: health_status
  hr_issues :: "string list"
  hr_observedMaxPlatformFeeBps :: "int option"
  hr_configuredMaxFeeBps :: int

record router_health =
  rh_status :: health_status
  rh_routes :: "router_health_route list"
  rh_issues :: "string list"

definition endsWith :: "string \<Rightarrow> string \<Rightarrow> bool" where
  "endsWith s t \<longleftrightarrow> startsWith (rev s) (rev t)"

definition route_health ::
    "router_target \<Rightarrow> int \<times> string option \<Rightarrow> bool \<Rightarrow> router_observation option \<Rightarrow> string list \<Rightarrow> router_health_route" where
  "route_health t configured stale obs found = (
     let issues = found @ (case snd configured of None \<Rightarrow> [] | Some s \<Rightarrow> [s]);
         hardIssues = filter (\<lambda>s. \<not> endsWith s ''_rpc_stale'') issues
     in \<lparr>hr_chainId = rt_chainId t, hr_kind = rt_kind t, hr_address = rt_address t,
         hr_status = (if hardIssues \<noteq> [] then HealthError else if stale then HealthDegraded else HealthOk),
         hr_issues = issues, hr_observedMaxPlatformFeeBps = Option.bind obs ro_maxPlatformFeeBps,
         hr_configuredMaxFeeBps = fst configured\<rparr>)"

definition check_route ::
    "viem \<Rightarrow> services \<Rightarrow> bindings \<Rightarrow> (router_target \<Rightarrow> router_observation pact) option \<Rightarrow> router_target \<Rightarrow> router_health_route pact" where
  "check_route V sv env reader t = (
     let configured = configuredMaximumFeeBps V env t; bps = fst configured;
         evaluate = (\<lambda>obs. evaluatePaymentRouterObservation V t obs (authorizationSigner V env) (expectedTreasury V env bps) bps)
     in bindA (catchA (bindA (cachedObservation V sv env t reader) (\<lambda>obs. ret (False, Some obs, evaluate obs)))
         (\<lambda>e. bindA (recentObservation t) (\<lambda>recent. ret (case recent of
             Some obs \<Rightarrow> (True, Some obs, evaluate obs @ [issuePrefix t @ ''_rpc_stale''])
           | None \<Rightarrow> (False, None, [issuePrefix t @ ''_rpc_unavailable'']))))) (\<lambda>(stale, obs, found).
       ret (route_health t configured stale obs found)))"

definition collectPaymentRouterHealth ::
    "viem \<Rightarrow> services \<Rightarrow> bindings \<Rightarrow> (router_target \<Rightarrow> router_observation pact) option \<Rightarrow> router_health pact" where
  "collectPaymentRouterHealth V sv env reader = (if e_routerPreflight env \<noteq> Some ''true''
     then ret \<lparr>rh_status = HealthDisabled, rh_routes = [], rh_issues = []\<rparr>
     else bindA (liftE (enabledTargets V env)) (\<lambda>(targets, configIssues).
       bindA (mapA (check_route V sv env reader) targets) (\<lambda>routes.
       ret \<lparr>rh_status = (if configIssues \<noteq> [] \<or> list_ex (\<lambda>r. hr_status r = HealthError) routes then HealthError
              else if list_ex (\<lambda>r. hr_status r = HealthDegraded) routes then HealthDegraded else HealthOk),
            rh_routes = routes, rh_issues = new_set (configIssues @ concat (map hr_issues routes))\<rparr>)))"

subsection \<open>The gate of an authorization\<close>

record gate_input =
  gi_chainId :: int
  gi_route :: route
  gi_platformFeeBps :: int
  gi_platformFeeRecipient :: "string option"

definition assertPaymentRouterReadyForAuthorization ::
    "viem \<Rightarrow> services \<Rightarrow> bindings \<Rightarrow> gate_input \<Rightarrow> (router_target \<Rightarrow> router_observation pact) option \<Rightarrow> unit pact" where
  "assertPaymentRouterReadyForAuthorization V sv env inp reader = (if e_routerPreflight env \<noteq> Some ''true''
     then (if 0 < gi_platformFeeBps inp then throw (PreflightError [''payment_router_preflight_required'']) else ret ())
     else bindA (liftE (case getPaymentNetworkCapabilities (gi_chainId inp) of None \<Rightarrow> Inr None | Some n \<Rightarrow> targetFor V n)) (\<lambda>target.
     let missing = throw (PreflightError [''payment_router_'' @ string_of_int (gi_chainId inp) @ ''_capability_missing'']) in
     case target of None \<Rightarrow> missing
     | Some t \<Rightarrow> if (gi_route inp = Local) \<noteq> (rt_kind t = LocalRouter) then missing
         else bindA (catchA (cachedObservation V sv env t reader)
             (\<lambda>e. throw (PreflightError [issuePrefix t @ ''_rpc_unavailable'']))) (\<lambda>obs.
           let issues = evaluatePaymentRouterObservation V t obs (authorizationSigner V env)
             (gi_platformFeeRecipient inp) (gi_platformFeeBps inp) in
           if issues \<noteq> [] then throw (PreflightError issues) else ret ())))"

definition upper_char :: "char \<Rightarrow> char" where
  "upper_char c = (if is_lower c then char_of (ccode c - 32) else c)"

definition toUpperCase :: "string \<Rightarrow> string" where
  "toUpperCase s = map upper_char s"

definition validatePaymentRouterPreflightConfig :: "viem \<Rightarrow> bindings \<Rightarrow> err + string list" where
  "validatePaymentRouterPreflightConfig V env = bindE (enabledTargets V env) (\<lambda>(targets, configIssues).
     let configured = map (configuredMaximumFeeBps V env) targets;
         hasMainnet = list_ex (\<lambda>t. case getPaymentNetworkCapabilities (rt_chainId t) of
             None \<Rightarrow> True | Some n \<Rightarrow> \<not> n_isTestnet n) targets;
         hasConfiguredFees = list_ex (\<lambda>r. 0 < fst r) configured
     in Inr (new_set (
          issue (e_routerPreflight env \<notin> {None, Some ''true'', Some ''false''}) ''PAYMENT_ROUTER_PREFLIGHT_INVALID'' @
          map toUpperCase configIssues @
          issue (list_ex (\<lambda>r. snd r \<noteq> None) configured) ''PAYMENT_FEE_POLICY_INVALID'' @
          issue ((hasMainnet \<or> hasConfiguredFees) \<and> e_routerPreflight env \<noteq> Some ''true'') ''PAYMENT_ROUTER_PREFLIGHT_REQUIRED'' @
          (if e_routerPreflight env = Some ''true''
           then validatePaymentRpcRedundancy V env (map rt_chainId targets) else []))))"

end
