(* ===== verification/AppNetworks.thy ===== *)
theory AppNetworks
  imports RouterHealth
begin

text \<open>
  The chains of the wallet (\<^verbatim>\<open>src/shared/networks.ts\<close>) and which of them a deployment of the App backend serves
  (\<^verbatim>\<open>src/server/src/services/chainScope.ts\<close>).  The names of explorers and faucets, and what is only shown to users, are left out.
\<close>

subsection \<open>The registry\<close>

record contract_addresses =
  ct_entryPoint :: string
  ct_factory :: string
  ct_paymaster :: string
  ct_verifier :: string
  ct_paymentRouter :: string
  ct_crosschainRouter :: string
  ct_usdc :: string
  ct_usdcDecimals :: int

text \<open>\<open>tc_address\<close> is \<open>None\<close> for the native asset.\<close>

record token_config =
  tc_symbol :: string
  tc_name :: string
  tc_address :: "string option"
  tc_decimals :: int
  tc_wrapped :: "string option"

record uniswap_config =
  us_universalRouter :: string
  us_permit2 :: string
  us_v3QuoterV2 :: string
  us_v4Quoter :: string
  us_v4PoolManager :: string

record aave_config =
  av_pool :: string
  av_aUsdc :: string

record app_network =
  an_key :: string
  an_chainId :: int
  an_name :: string
  an_native :: string
  an_testnet :: bool
  an_walletRail :: bool
  an_contracts :: contract_addresses
  an_routerHasPermit :: bool
  an_tokens :: "token_config list"
  an_uniswap :: "uniswap_config option"
  an_aave :: "aave_config option"

definition ENTRYPOINT_V09 :: string where "ENTRYPOINT_V09 = ''0x433709009B8330FDa32311DF1C2AFA402eD8D009''"

definition PERMIT2 :: string where "PERMIT2 = ''0x000000000022D473030F116dDEE9F6B43aC78BA3''"

definition TODO_DEPLOY :: string where "TODO_DEPLOY = ''0x0000000000000000000000000000000000000000''"

definition DEFAULT_CHAIN_KEY :: string where "DEFAULT_CHAIN_KEY = ''arbitrum-sepolia''"

definition native_token :: "string \<Rightarrow> string \<Rightarrow> string \<Rightarrow> token_config" where
  "native_token symbol name wrapped = \<lparr>tc_symbol = symbol, tc_name = name, tc_address = None, tc_decimals = 18, tc_wrapped = Some wrapped\<rparr>"

definition erc20 :: "string \<Rightarrow> string \<Rightarrow> string \<Rightarrow> int \<Rightarrow> token_config" where
  "erc20 symbol name address decimals = \<lparr>tc_symbol = symbol, tc_name = name, tc_address = Some address, tc_decimals = decimals, tc_wrapped = None\<rparr>"

definition base_sepolia :: app_network where
  "base_sepolia = \<lparr>an_key = ''base-sepolia'', an_chainId = 84532, an_name = ''Base Sepolia'', an_native = ''ETH'', an_testnet = True,
     an_walletRail = False,
     an_contracts = \<lparr>ct_entryPoint = ''0x433709009B8330FDa32311DF1C2AFA402eD8D009'', ct_factory = ''0x8c91e55b11287c9c3970b64602fe50763fac0345'',
       ct_paymaster = ''0xa1DC7ad6f4d2d0ea20bF5668F132c38c4f3c172D'', ct_verifier = ''0x0000000000000000000000000000000000000000'',
       ct_paymentRouter = TODO_DEPLOY, ct_crosschainRouter = TODO_DEPLOY, ct_usdc = ''0x036CbD53842c5426634e7929541eC2318f3dCF7e'',
       ct_usdcDecimals = 6\<rparr>,
     an_routerHasPermit = False, an_tokens = [], an_uniswap = None, an_aave = None\<rparr>"

definition arbitrum_sepolia :: app_network where
  "arbitrum_sepolia = \<lparr>an_key = ''arbitrum-sepolia'', an_chainId = 421614, an_name = ''Arbitrum Sepolia'', an_native = ''ETH'',
     an_testnet = True, an_walletRail = True,
     an_contracts = \<lparr>ct_entryPoint = ENTRYPOINT_V09, ct_factory = ''0xb97E923E27CB258012081446e4b436afd3974108'',
       ct_paymaster = ''0x913a1B51c4f5b1a458A56D0d700c956834cc1d15'', ct_verifier = ''0x14D5D46fc6ED1154F3719f87ae72C3020d4fb886'',
       ct_paymentRouter = ''0xaF5a6856F65eab6bd8d0e403E4cFd49aD0c0c04f'', ct_crosschainRouter = ''0xD089c3764a8F2E62eFDf280Eb2432c1dC647400c'',
       ct_usdc = ''0x75faf114eafb1BDbe2F0316DF893fd58CE46AA4d'', ct_usdcDecimals = 6\<rparr>,
     an_routerHasPermit = True,
     an_tokens = [native_token ''ETH'' ''Ethereum'' ''0x980B62Da83eFf3D4576C647993b0c1D7faf17c73'',
       erc20 ''USDC'' ''USD Coin'' ''0x75faf114eafb1BDbe2F0316DF893fd58CE46AA4d'' 6],
     an_uniswap = Some \<lparr>us_universalRouter = ''0xeFd1D4bD4cf1e86Da286BB4CB1B8BcED9C10BA47'', us_permit2 = PERMIT2,
       us_v3QuoterV2 = ''0x2779a0CC1c3e0E44D2542EC3e79e3864Ae93Ef0B'', us_v4Quoter = ''0x7dE51022d70A725b508085468052E25e22b5c4c9'',
       us_v4PoolManager = ''0xFB3e0C6F74eB1a21CC1Da29aeC80D2Dfe6C9a317''\<rparr>,
     an_aave = Some \<lparr>av_pool = ''0xBfC91D59fdAA134A4ED45f7B584cAf96D7792Eff'', av_aUsdc = ''0x460b97BD498E1157530AEb3086301d5225b91216''\<rparr>\<rparr>"

definition avalanche_fuji :: app_network where
  "avalanche_fuji = \<lparr>an_key = ''avalanche-fuji'', an_chainId = 43113, an_name = ''Avalanche Fuji'', an_native = ''AVAX'', an_testnet = True,
     an_walletRail = True,
     an_contracts = \<lparr>ct_entryPoint = ENTRYPOINT_V09, ct_factory = ''0x7a47D256cA1b52C9C699d3b7eF2Ed7DFd0006313'',
       ct_paymaster = ''0x5e10256DA2DFA684846D2E695aC32e77C7885535'', ct_verifier = ''0x121D4eca96a0CCA57bDc0A9556508A1728CF21b9'',
       ct_paymentRouter = TODO_DEPLOY, ct_crosschainRouter = ''0x64424C87E70F3973AAcA3F3Ab40593B994A52d06'',
       ct_usdc = ''0x5425890298aed601595a70AB815c96711a31Bc65'', ct_usdcDecimals = 6\<rparr>,
     an_routerHasPermit = False,
     an_tokens = [native_token ''AVAX'' ''Avalanche'' ''0xd00ae08403B9bbb9124bB305C09058E32C39A48c'',
       erc20 ''USDC'' ''USD Coin'' ''0x5425890298aed601595a70AB815c96711a31Bc65'' 6],
     an_uniswap = None, an_aave = None\<rparr>"

definition arbitrum_one :: app_network where
  "arbitrum_one = \<lparr>an_key = ''arbitrum-one'', an_chainId = 42161, an_name = ''Arbitrum One'', an_native = ''ETH'', an_testnet = False,
     an_walletRail = False,
     an_contracts = \<lparr>ct_entryPoint = ENTRYPOINT_V09, ct_factory = TODO_DEPLOY, ct_paymaster = TODO_DEPLOY, ct_verifier = TODO_DEPLOY,
       ct_paymentRouter = TODO_DEPLOY, ct_crosschainRouter = TODO_DEPLOY, ct_usdc = ''0xaf88d065e77c8cC2239327C5EDb3A432268e5831'',
       ct_usdcDecimals = 6\<rparr>,
     an_routerHasPermit = False,
     an_tokens = [native_token ''ETH'' ''Ethereum'' ''0x82aF49447D8a07e3bd95BD0d56f35241523fBab1'',
       erc20 ''USDC'' ''USD Coin'' ''0xaf88d065e77c8cC2239327C5EDb3A432268e5831'' 6,
       erc20 ''WBTC'' ''Wrapped Bitcoin'' ''0x2f2a2543B76A4166549F7aaB2e75Bef0aefC5B0f'' 8],
     an_uniswap = Some \<lparr>us_universalRouter = ''0xA51afAFe0263b40EdaEf0Df8781eA9aa03E381a3'', us_permit2 = PERMIT2,
       us_v3QuoterV2 = ''0x61fFE014bA17989E743c5F6cB21bF9697530B21e'', us_v4Quoter = ''0x3972C00f7ed4885e145823eb7C655375D275A1C5'',
       us_v4PoolManager = ''0x360E68faCcca8cA495c1B759Fd9EEe466db9FB32''\<rparr>,
     an_aave = Some \<lparr>av_pool = ''0x794a61358D6845594F94dc1DB02A252b5b4814aD'', av_aUsdc = ''0x724dc807b04555b71ed48a6896b6F41593b8C637''\<rparr>\<rparr>"

definition NETWORKS :: "app_network list" where
  "NETWORKS = [base_sepolia, arbitrum_sepolia, avalanche_fuji, arbitrum_one]"

definition isSupportedChainKey :: "string \<Rightarrow> bool" where
  "isSupportedChainKey k = list_ex (\<lambda>n. an_key n = k) NETWORKS"

text \<open>\<open>NETWORKS[key]\<close>; the default network stands for a key that is not one.\<close>

definition network_at :: "string \<Rightarrow> app_network" where
  "network_at k = (case find (\<lambda>n. an_key n = k) NETWORKS of Some n \<Rightarrow> n | None \<Rightarrow> arbitrum_sepolia)"

definition getNetworkConfig :: "string option \<Rightarrow> app_network" where
  "getNetworkConfig key = (case key of None \<Rightarrow> network_at DEFAULT_CHAIN_KEY
     | Some k \<Rightarrow> if k \<noteq> [] \<and> isSupportedChainKey k then network_at k else network_at DEFAULT_CHAIN_KEY)"

definition getTokenBySymbol :: "app_network \<Rightarrow> string \<Rightarrow> token_config option" where
  "getTokenBySymbol n symbol = find (\<lambda>t. tc_symbol t = toUpperCase (trim symbol)) (an_tokens n)"

definition isContractDeployed :: "string option \<Rightarrow> bool" where
  "isContractDeployed address = (case address of None \<Rightarrow> False | Some x \<Rightarrow> x \<noteq> [] \<and> toLowerCase x \<noteq> TODO_DEPLOY)"

text \<open>The contracts a flow asserts, by the names of the fields.\<close>

definition contract_named :: "contract_addresses \<Rightarrow> string \<Rightarrow> string option" where
  "contract_named x name = map_of [(''entryPoint'', ct_entryPoint x), (''factory'', ct_factory x), (''paymaster'', ct_paymaster x),
     (''verifier'', ct_verifier x), (''paymentRouter'', ct_paymentRouter x), (''crosschainRouter'', ct_crosschainRouter x),
     (''usdc'', ct_usdc x)] name"

definition ContractNotDeployedError :: "string \<Rightarrow> string \<Rightarrow> err" where
  "ContractNotDeployedError contract network = Thrown (''Contract '' @ [CHR 0x27] @ contract @ [CHR 0x27] @ '' is not deployed on '' @ network @ '' (TODO_DEPLOY placeholder).'')"

fun assertContractsDeployed :: "app_network \<Rightarrow> string list \<Rightarrow> err + unit" where
  "assertContractsDeployed n [] = Inr ()"
| "assertContractsDeployed n (name # names) = (case contract_named (an_contracts n) name of
       Some x \<Rightarrow> if \<not> isContractDeployed (Some x) then Inl (ContractNotDeployedError name (an_name n)) else assertContractsDeployed n names
     | None \<Rightarrow> assertContractsDeployed n names)"

subsection \<open>The environment\<close>

text \<open>What the App backend's chain readers use of their bindings; a missing variable is \<open>None\<close>.\<close>

record app_env =
  ve_chainKey :: "string option"
  ve_rpcUrl :: "string option"
  ve_readUrls :: "string option"
  ve_writeUrls :: "string option"
  ve_indexerUrls :: "string option"
  ve_archiveUrls :: "string option"
  ve_bundlerUrls :: "string option"
  ve_paymaster :: "string option"
  ve_enabledKeys :: "string option"
  ve_walletRailKeys :: "string option"
  ve_cctpRpcUrls :: "string option"
  ve_appRpcUrls :: "string option"
  ve_capabilities :: "string option"
  ve_maxBlockRange :: "string option"
  ve_minBlockRange :: "string option"
  ve_maxCalls :: "string option"
  ve_maxBlocks :: "string option"
  ve_maxEventBlocks :: "string option"
  ve_l1Confirmations :: "string option"
  ve_shardSize :: "string option"
  ve_privateKey :: string
  ve_faucetKey :: "string option"

text \<open>\<open>x || y\<close> and \<open>x?.trim() || y\<close>.\<close>

definition or_text :: "string option \<Rightarrow> string \<Rightarrow> string" where
  "or_text x y = (case x of None \<Rightarrow> y | Some s \<Rightarrow> if s = [] then y else s)"

definition or_trimmed :: "string option \<Rightarrow> string \<Rightarrow> string" where
  "or_trimmed x y = (case x of None \<Rightarrow> y | Some s \<Rightarrow> if trim s = [] then y else trim s)"

definition default_key :: "app_env \<Rightarrow> string" where
  "default_key env = or_text (ve_chainKey env) DEFAULT_CHAIN_KEY"

text \<open>\<open>[...new Set(xs)]\<close>.\<close>

definition unique :: "'a list \<Rightarrow> 'a list" where
  "unique xs = rev (remdups (rev xs))"

definition listed_keys :: "string option \<Rightarrow> app_env \<Rightarrow> string list" where
  "listed_keys x env = unique (filter isSupportedChainKey (map trim (split_comma (or_text x (default_key env)))))"

definition enabledAppChainKeys :: "app_env \<Rightarrow> string list" where
  "enabledAppChainKeys env = (let keys = listed_keys (ve_enabledKeys env) env in if keys \<noteq> [] then keys else [DEFAULT_CHAIN_KEY])"

definition enabledWalletRailChainKeys :: "app_env \<Rightarrow> string list" where
  "enabledWalletRailChainKeys env =
     filter (\<lambda>k. k \<in> set (enabledAppChainKeys env) \<and> an_walletRail (network_at k)) (listed_keys (ve_walletRailKeys env) env)"

text \<open>The requested key is a value of a request's body.\<close>

definition resolveAppChainKey :: "app_env \<Rightarrow> json option \<Rightarrow> bool \<Rightarrow> string option" where
  "resolveAppChainKey env requested requireWalletRail = (
     let key = (case requested of Some (JStr s) \<Rightarrow> if trim s \<noteq> [] then trim s else default_key env | _ \<Rightarrow> default_key env) in
     if \<not> isSupportedChainKey key \<or> key \<notin> set (enabledAppChainKeys env) then None
     else if requireWalletRail \<and> key \<notin> set (enabledWalletRailChainKeys env) then None
     else Some key)"

definition parseRpcMapValue :: "viem \<Rightarrow> string option \<Rightarrow> (string \<times> json) list" where
  "parseRpcMapValue V x = (case x of None \<Rightarrow> [] | Some s \<Rightarrow> if trim s = [] then [] else
     (case v_jsonParse V (trim s) of Some (JObj fs) \<Rightarrow> fs | _ \<Rightarrow> []))"

text \<open>The value of a key of the two maps; the second one's wins.\<close>

definition rpc_map_value :: "viem \<Rightarrow> app_env \<Rightarrow> string \<Rightarrow> json option" where
  "rpc_map_value V env key = (case jget (parseRpcMapValue V (ve_appRpcUrls env)) key of
       Some j \<Rightarrow> Some j | None \<Rightarrow> jget (parseRpcMapValue V (ve_cctpRpcUrls env)) key)"

text \<open>\<open>roles.r?.trim()\<close>: a value that is neither a text nor missing has no \<open>trim\<close>.\<close>

definition role_text :: "json option \<Rightarrow> err + string option" where
  "role_text x = (case x of None \<Rightarrow> Inr None | Some JNull \<Rightarrow> Inr None | Some (JStr s) \<Rightarrow> Inr (Some s)
     | _ \<Rightarrow> Inl (Thrown ''trim is not a function''))"

definition role_value :: "json option \<Rightarrow> string \<Rightarrow> err + string option" where
  "role_value value role = (case value of
       Some (JStr s) \<Rightarrow> Inr (if role = ''bundler'' then None else Some s)
     | Some (JObj fs) \<Rightarrow> role_text (jget fs role)
     | _ \<Rightarrow> Inr None)"

definition bindingsForChain :: "viem \<Rightarrow> app_env \<Rightarrow> string \<Rightarrow> err + app_env" where
  "bindingsForChain V env key = (if Some key = ve_chainKey env then Inr env
     else let n = getNetworkConfig (Some key); value = rpc_map_value V env (string_of_int (an_chainId n)) in
       bindE (role_value value ''read'') (\<lambda>r. let read = or_trimmed r [] in
       bindE (role_value value ''write'') (\<lambda>w. let write = or_trimmed w read in
       bindE (role_value value ''indexer'') (\<lambda>i. let indexer = or_trimmed i read in
       bindE (role_value value ''archive'') (\<lambda>a. let archive = or_trimmed a indexer in
       bindE (role_value value ''bundler'') (\<lambda>b. let bundler = or_trimmed b [] in
       Inr (env\<lparr>ve_chainKey := Some key, ve_rpcUrl := Some read, ve_readUrls := Some read, ve_writeUrls := Some write,
         ve_indexerUrls := Some indexer, ve_archiveUrls := Some archive, ve_bundlerUrls := Some bundler,
         ve_paymaster := Some (ct_paymaster (an_contracts n))\<rparr>)))))))"

record app_chain_capability =
  ak_key :: string
  ak_chainId :: int
  ak_name :: string
  ak_native :: string
  ak_testnet :: bool
  ak_walletRail :: bool
  ak_swap :: bool
  ak_assets :: "(string \<times> string \<times> int \<times> bool) list"
  ak_rpcConfigured :: bool

definition given :: "string option \<Rightarrow> bool" where
  "given x \<longleftrightarrow> (case x of None \<Rightarrow> False | Some s \<Rightarrow> trim s \<noteq> [])"

definition appChainCapabilities :: "viem \<Rightarrow> app_env \<Rightarrow> err + app_chain_capability list" where
  "appChainCapabilities V env = mapE (\<lambda>key. let n = network_at key in
     bindE (bindingsForChain V env key) (\<lambda>scoped.
     Inr \<lparr>ak_key = key, ak_chainId = an_chainId n, ak_name = an_name n, ak_native = an_native n, ak_testnet = an_testnet n,
       ak_walletRail = (key \<in> set (enabledWalletRailChainKeys env)), ak_swap = (an_uniswap n \<noteq> None),
       ak_assets = map (\<lambda>t. (tc_symbol t, tc_name t, tc_decimals t, tc_address t = None)) (an_tokens n),
       ak_rpcConfigured = (given (ve_readUrls scoped) \<or> given (ve_rpcUrl scoped))\<rparr>)) (enabledAppChainKeys env)"

end
