(* ===== verification/Validation.thy ===== *)
theory Validation
  imports Models
begin

text \<open>
  The request validators of \<^verbatim>\<open>payments-worker/src/domain/validation.ts\<close>.  A request value is
  \<open>json option\<close>: \<open>None\<close> is \<open>undefined\<close>.
\<close>

definition walletAddress :: "viem \<Rightarrow> json option \<Rightarrow> err + string" where
  "walletAddress V value = (case value of
       Some (JStr s) \<Rightarrow> if v_isAddressLax V s then Inr (v_getAddress V s)
         else Inl (DomainValidationError ''INVALID_WALLET'')
     | _ \<Rightarrow> Inl (DomainValidationError ''INVALID_WALLET''))"

text \<open>The pattern \<^verbatim>\<open>^(?:0|[1-9]\d*)(?:\.\d{1,6})?$\<close>.\<close>

definition decimal_ok :: "string \<Rightarrow> bool" where
  "decimal_ok s = (let whole = takeWhile (\<lambda>c. c \<noteq> CHR ''.'') s; rest = dropWhile (\<lambda>c. c \<noteq> CHR ''.'') s
     in (whole = ''0'' \<or> (whole \<noteq> [] \<and> list_all is_digit whole \<and> hd whole \<noteq> CHR ''0'')) \<and>
        (rest = [] \<or> (list_all is_digit (tl rest) \<and> 1 \<le> length (tl rest) \<and> length (tl rest) \<le> 6)))"

fun numeral_text :: "json option \<Rightarrow> string option" where
  "numeral_text (Some (JStr s)) = Some s"
| "numeral_text (Some (JInt n)) = Some (string_of_int n)"
| "numeral_text (Some (JDec s)) = Some s"
| "numeral_text _ = None"

definition amount :: "viem \<Rightarrow> json option \<Rightarrow> err + (string \<times> int)" where
  "amount V value = (case numeral_text value of
       None \<Rightarrow> Inl (DomainValidationError ''INVALID_AMOUNT'')
     | Some text \<Rightarrow> (let decimal = trim text in
         if \<not> decimal_ok decimal then Inl (DomainValidationError ''INVALID_AMOUNT'')
         else (let atomic = v_parseUnits6 V decimal in
           if atomic \<le> 0 then Inl (DomainValidationError ''INVALID_AMOUNT'')
           else Inr (decimal, atomic))))"

text \<open>
  \<open>String(value).trim() === ""\<close>: blank texts, and the arrays JavaScript prints as nothing.
\<close>

fun prints_blank :: "json \<Rightarrow> bool" where
  "prints_blank (JStr s) = (trim s = [])"
| "prints_blank (JArr []) = True"
| "prints_blank (JArr [x]) = (x = JNull \<or> prints_blank x)"
| "prints_blank _ = False"

definition optionalAmount :: "viem \<Rightarrow> json option \<Rightarrow> err + (string \<times> int \<times> amount_mode)" where
  "optionalAmount V value = (
     if value = None \<or> value = Some JNull \<or> prints_blank (the value) then Inr (''0'', 0, PayerDefined)
     else bindE (amount V value) (\<lambda>(decimal, atomic). Inr (decimal, atomic, Fixed)))"

definition shortText :: "json option \<Rightarrow> nat \<Rightarrow> string \<Rightarrow> err + string" where
  "shortText value mx fallback = (case value of None \<Rightarrow> Inr fallback | Some JNull \<Rightarrow> Inr fallback
     | Some (JStr s) \<Rightarrow> (let normalized = trim s in
         if mx < length normalized then Inl (DomainValidationError ''INVALID_TEXT'') else Inr normalized)
     | _ \<Rightarrow> Inl (DomainValidationError ''INVALID_TEXT''))"

definition metadata :: "viem \<Rightarrow> json option \<Rightarrow> err + json" where
  "metadata V value = (case value of None \<Rightarrow> Inr (JObj []) | Some JNull \<Rightarrow> Inr (JObj [])
     | Some (JObj fs) \<Rightarrow> if 8192 < int (length (v_jsonText V (JObj fs)))
         then Inl (DomainValidationError ''INVALID_METADATA'') else Inr (JObj fs)
     | _ \<Rightarrow> Inl (DomainValidationError ''INVALID_METADATA''))"

definition futureExpiry :: "viem \<Rightarrow> int \<Rightarrow> json option \<Rightarrow> err + int" where
  "futureExpiry V now value = (case value of None \<Rightarrow> Inr (now + 60 * 60000)
     | Some JNull \<Rightarrow> Inr (now + 60 * 60000)
     | Some (JStr s) \<Rightarrow> (case v_dateParse V s of None \<Rightarrow> Inl (DomainValidationError ''INVALID_EXPIRY'')
         | Some time \<Rightarrow> if time \<le> now \<or> now + 7 * 24 * 60 * 60000 < time
             then Inl (DomainValidationError ''INVALID_EXPIRY'') else Inr time)
     | _ \<Rightarrow> Inl (DomainValidationError ''INVALID_EXPIRY''))"

lemma amount_positive: "amount V value = Inr (d, a) \<Longrightarrow> 0 < a \<and> decimal_ok d \<and> a = v_parseUnits6 V d"
  by (auto simp: amount_def Let_def split: option.splits if_splits)

lemma optionalAmount_mode:
  assumes "optionalAmount V value = Inr (d, a, md)"
  shows "if md = Fixed then 0 < a else a = 0 \<and> d = ''0''"
  using assms amount_positive
  by (auto simp: optionalAmount_def bindE_Inr_iff split: if_splits prod.splits)

lemma shortText_bound: "shortText value mx fallback = Inr s \<Longrightarrow> s = fallback \<or> length s \<le> mx"
  by (auto simp: shortText_def Let_def split: option.splits json.splits if_splits)

lemma futureExpiry_window:
  assumes "futureExpiry V now value = Inr t"
  shows "now < t \<and> t \<le> now + 7 * 24 * 60 * 60000"
  using assms by (auto simp: futureExpiry_def split: option.splits json.splits if_splits)

end
