(* ===== verification/Intents.thy ===== *)
theory Intents
  imports PaymentsDb Validation
begin

text \<open>
  Merchants, payment intents and checkout links: the first half of
  \<^verbatim>\<open>payments-worker/src/repositories/payments.ts\<close>.  Every function is the sequence of awaited D1
  calls the code makes; a batch is one transaction.
\<close>

definition truthy :: "string option \<Rightarrow> bool" where
  "truthy s \<longleftrightarrow> s \<noteq> None \<and> s \<noteq> Some []"

subsection \<open>Merchants\<close>

definition merchantIdForUid :: "viem \<Rightarrow> string \<Rightarrow> string" where
  "merchantIdForUid V uid = ''mrc_'' @ take 32 (drop 2 (v_keccak256 V uid))"

definition getMerchantByOwner :: "string \<Rightarrow> merchant option pact" where
  "getMerchantByOwner ownerUid = dbq (\<lambda>d. find (\<lambda>m. m_ownerUid m = ownerUid) (db_merchants d))"

definition getMerchantById :: "string \<Rightarrow> merchant option pact" where
  "getMerchantById merchantId = dbq (\<lambda>d. find (\<lambda>m. m_id m = merchantId) (db_merchants d))"

record settlement_account_input =
  si_commandId :: string
  si_ownerUid :: string
  si_accountVersion :: int
  si_walletAddress :: string
  si_chainId :: int

record settlement_account_result =
  sa_merchantId :: string
  sa_accountVersion :: int
  sa_applied :: bool

definition merchants_ok :: "pdb \<Rightarrow> bool" where
  "merchants_ok d \<longleftrightarrow> merchants_unique d \<and> list_all (\<lambda>m. 1 \<le> m_accountVersion m) (db_merchants d)"

definition insert_merchant :: "merchant \<Rightarrow> pdb stmt" where
  "insert_merchant r = checked merchants_ok (\<lambda>d. (d\<lparr>db_merchants := db_merchants d @ [r]\<rparr>, 1))"

definition update_merchant_account :: "string \<Rightarrow> settlement_account_input \<Rightarrow> int \<Rightarrow> pdb stmt" where
  "update_merchant_account merchantId inp ts = (let p = (\<lambda>m. m_id m = merchantId \<and>
       m_accountVersion m < si_accountVersion inp) in
     checked merchants_ok (\<lambda>d. (d\<lparr>db_merchants := upd p (\<lambda>m. m\<lparr>m_settlementWallet := si_walletAddress inp,
       m_settlementChainId := si_chainId inp, m_accountVersion := si_accountVersion inp,
       m_updatedAt := ts\<rparr>) (db_merchants d)\<rparr>, hits p (db_merchants d))))"

definition insert_account_command :: "account_command \<Rightarrow> pdb stmt" where
  "insert_account_command r = checked (\<lambda>d. distinct (map ac_commandId (db_accountCommands d)))
     (\<lambda>d. (d\<lparr>db_accountCommands := db_accountCommands d @ [r]\<rparr>, 1))"

definition upsertSettlementAccount :: "viem \<Rightarrow> settlement_account_input \<Rightarrow> settlement_account_result pact" where
  "upsertSettlementAccount V inp =
     bindA (dbq (\<lambda>d. find (\<lambda>c. ac_commandId c = si_commandId inp) (db_accountCommands d))) (\<lambda>replay.
     let merchantId = merchantIdForUid V (si_ownerUid inp) in
     case replay of
       Some c \<Rightarrow> ret \<lparr>sa_merchantId = merchantId, sa_accountVersion = si_accountVersion inp,
                   sa_applied = ac_applied c\<rparr>
     | None \<Rightarrow>
         bindA date_now (\<lambda>ts.
         bindA (getMerchantByOwner (si_ownerUid inp)) (\<lambda>existing.
         let applied = (case existing of None \<Rightarrow> True | Some m \<Rightarrow> m_accountVersion m < si_accountVersion inp);
             change = (case existing of
               None \<Rightarrow> [insert_merchant \<lparr>m_id = merchantId, m_ownerUid = si_ownerUid inp, m_displayName = [],
                  m_settlementWallet = si_walletAddress inp, m_settlementChainId = si_chainId inp,
                  m_accountVersion = si_accountVersion inp, m_status = MerchantActive,
                  m_createdAt = ts, m_updatedAt = ts\<rparr>]
             | Some m \<Rightarrow> if applied then [update_merchant_account (m_id m) inp ts] else [])
         in bindA (dbb (change @ [insert_account_command \<lparr>ac_commandId = si_commandId inp,
               ac_ownerUid = si_ownerUid inp, ac_accountVersion = si_accountVersion inp,
               ac_applied = applied, ac_createdAt = ts\<rparr>])) (\<lambda>_.
            ret \<lparr>sa_merchantId = (case existing of None \<Rightarrow> merchantId | Some m \<Rightarrow> m_id m),
              sa_accountVersion = si_accountVersion inp, sa_applied = applied\<rparr>))))"

subsection \<open>Reading intents and links\<close>

definition getPaymentIntent :: "string \<Rightarrow> payment_intent option pact" where
  "getPaymentIntent i = dbq (\<lambda>d. map_option mapIntent (find (\<lambda>r. i_id r = i) (db_intents d)))"

definition getIntentByLink :: "string \<Rightarrow> payment_intent option pact" where
  "getIntentByLink linkId =
     dbq (\<lambda>d. map_option mapIntent (find (\<lambda>r. i_linkId r = Some linkId) (db_intents d)))"

definition getPaymentLink :: "string \<Rightarrow> payment_link option pact" where
  "getPaymentLink i = dbq (\<lambda>d. find (\<lambda>l. l_id l = i) (db_links d))"

text \<open>\<open>ORDER BY created_at DESC LIMIT\<close>; ties keep the order of the table.\<close>

definition newest_first :: "('r \<Rightarrow> int) \<Rightarrow> 'r list \<Rightarrow> 'r list" where
  "newest_first created rs = sort_key (\<lambda>r. - created r) rs"

definition listPaymentLinks :: "string \<Rightarrow> nat \<Rightarrow> payment_link list pact" where
  "listPaymentLinks ownerUid limit = dbq (\<lambda>d. take limit
     (newest_first l_createdAt (filter (\<lambda>l. l_ownerUid l = ownerUid) (db_links d))))"

record list_input =
  li_startingAfter :: "string option"
  li_status :: "intent_status option"
  li_mode :: "mode option"

definition after_cursor :: "string \<Rightarrow> string option \<Rightarrow> intent_row list \<Rightarrow> intent_row \<Rightarrow> bool" where
  "after_cursor merchantId cursor rs r = (case cursor of None \<Rightarrow> True
     | Some c \<Rightarrow> if c = [] then True else
        (case find (\<lambda>x. i_id x = c \<and> i_merchantId x = merchantId) rs of None \<Rightarrow> False
         | Some x \<Rightarrow> i_createdAt r < i_createdAt x \<or>
             (i_createdAt r = i_createdAt x \<and> text_compare (i_id r) c < 0)))"

fun insert_desc :: "intent_row \<Rightarrow> intent_row list \<Rightarrow> intent_row list" where
  "insert_desc r [] = [r]"
| "insert_desc r (x # xs) = (if i_createdAt x < i_createdAt r \<or>
       (i_createdAt x = i_createdAt r \<and> text_compare (i_id x) (i_id r) \<le> 0)
     then r # x # xs else x # insert_desc r xs)"

definition listPaymentIntents :: "string \<Rightarrow> nat \<Rightarrow> list_input \<Rightarrow> payment_intent list pact" where
  "listPaymentIntents merchantId limit inp = dbq (\<lambda>d. map mapIntent (take limit (foldr insert_desc
     (filter (\<lambda>r. i_merchantId r = merchantId \<and>
        (case li_status inp of None \<Rightarrow> True | Some s \<Rightarrow> i_status r = s) \<and>
        (case li_mode inp of None \<Rightarrow> True | Some m \<Rightarrow> i_mode r = m) \<and>
        after_cursor merchantId (li_startingAfter inp) (db_intents d) r) (db_intents d)) [])))"

subsection \<open>Public views\<close>

fun intent_status_text :: "intent_status \<Rightarrow> string" where
  "intent_status_text AwaitingPayment = ''awaiting_payment''"
| "intent_status_text IntentProcessing = ''processing''"
| "intent_status_text IntentPaid = ''paid''"
| "intent_status_text IntentOverpaid = ''overpaid''"
| "intent_status_text IntentCanceled = ''canceled''"
| "intent_status_text IntentExpired = ''expired''"
| "intent_status_text IntentFailed = ''failed''"

fun mode_text :: "mode \<Rightarrow> string" where
  "mode_text Test = ''test''"
| "mode_text Live = ''live''"

fun amount_mode_text :: "amount_mode \<Rightarrow> string" where
  "amount_mode_text Fixed = ''fixed''"
| "amount_mode_text PayerDefined = ''payer_defined''"

definition jopt :: "('a \<Rightarrow> json) \<Rightarrow> 'a option \<Rightarrow> json" where
  "jopt f x = (case x of None \<Rightarrow> JNull | Some y \<Rightarrow> f y)"

text \<open>Amounts are decimal texts; a timestamp is the number of milliseconds its ISO text denotes.\<close>

definition jatomic :: "int \<Rightarrow> json" where
  "jatomic n = JStr (string_of_int n)"

definition publicIntent :: "payment_intent \<Rightarrow> json" where
  "publicIntent intent = (
     let unconfirmed = i_amountMode intent = PayerDefined \<and> i_paidAmountAtomic intent = 0;
         publicAmount = (if unconfirmed then ''0'' else i_amount intent);
         expected = (if unconfirmed then 0 else i_amountAtomic intent);
         paid = i_paidAmountAtomic intent
     in JObj [(''id'', JStr (i_id intent)), (''object'', JStr ''payment_intent''),
       (''amount'', JStr publicAmount), (''amount_atomic'', jatomic expected),
       (''amount_mode'', JStr (amount_mode_text (i_amountMode intent))), (''currency'', JStr ''USDC''),
       (''reference'', JStr (i_reference intent)), (''metadata'', i_metadata intent),
       (''status'', JStr (intent_status_text (i_status intent))),
       (''mode'', JStr (mode_text (i_mode intent))), (''tx_hash'', jopt JStr (i_paidTxHash intent)),
       (''paid_at'', jopt JInt (i_paidAt intent)), (''paid_amount_atomic'', jatomic paid),
       (''overpaid_amount_atomic'', jatomic (if expected < paid then paid - expected else 0)),
       (''settlement_chain_id'', JInt (i_settlementChainId intent)),
       (''expires_at'', jopt JInt (i_expiresAt intent)), (''created_at'', JInt (i_createdAt intent)),
       (''updated_at'', JInt (i_updatedAt intent))])"

fun link_status_text :: "link_status \<Rightarrow> string" where
  "link_status_text LinkPending = ''pending''"
| "link_status_text LinkPaid = ''paid''"
| "link_status_text LinkCanceled = ''canceled''"
| "link_status_text LinkExpired = ''expired''"

definition publicLink :: "payment_link \<Rightarrow> json" where
  "publicLink link = JObj [(''id'', JStr (l_id link)), (''intentId'', JStr (l_intentId link)),
     (''amount'', JStr (l_amount link)), (''currency'', JStr ''USDC''),
     (''reference'', JStr (l_reference link)), (''wallet'', JStr (l_wallet link)),
     (''status'', JStr (link_status_text (l_status link))), (''txHash'', jopt JStr (l_txHash link)),
     (''paidAt'', jopt JInt (l_paidAt link)), (''paidBy'', jopt JStr (l_paidBy link)),
     (''createdAt'', JInt (l_createdAt link))]"

subsection \<open>Events, outbox and webhook deliveries\<close>

definition insert_event :: "event_row \<Rightarrow> pdb \<Rightarrow> pdb \<times> nat" where
  "insert_event r d = (d\<lparr>db_events := db_events d @ [r]\<rparr>, 1)"

definition insert_outbox :: "outbox_row \<Rightarrow> pdb \<Rightarrow> pdb \<times> nat" where
  "insert_outbox r d = (d\<lparr>db_outbox := db_outbox d @ [r]\<rparr>, 1)"

definition insert_delivery :: "delivery_row \<Rightarrow> pdb \<Rightarrow> pdb \<times> nat" where
  "insert_delivery r d = (d\<lparr>db_deliveries := db_deliveries d @ [r]\<rparr>, 1)"

definition outbox_for :: "string \<Rightarrow> int \<Rightarrow> outbox_row" where
  "outbox_for eventId ts = \<lparr>ob_id = ''out_'' @ eventId, ob_topic = ''webhook_delivery'',
     ob_resourceId = eventId, ob_status = ObPending, ob_attemptCount = 0, ob_nextAttemptAt = ts,
     ob_createdAt = ts, ob_updatedAt = ts\<rparr>"

definition delivery_for :: "string \<Rightarrow> string \<Rightarrow> int \<Rightarrow> delivery_row" where
  "delivery_for eventId endpointId ts = \<lparr>wd_id = ''whd_'' @ eventId @ ''_'' @ endpointId,
     wd_eventId = eventId, wd_endpointId = endpointId, wd_status = WdPending, wd_attemptCount = 0,
     wd_nextRetryAt = ts, wd_leaseOwner = None, wd_leaseExpiresAt = None, wd_lastStatusCode = None,
     wd_lastError = None, wd_deliveredAt = None, wd_createdAt = ts, wd_updatedAt = ts\<rparr>"

definition subscribed :: "string \<Rightarrow> mode \<Rightarrow> string \<Rightarrow> endpoint_row \<Rightarrow> bool" where
  "subscribed merchantId md eventType e \<longleftrightarrow> ep_merchantId e = merchantId \<and> ep_active e \<and> ep_mode e = md \<and>
     (case ep_enabledEvents e of None \<Rightarrow> True | Some ts \<Rightarrow> eventType \<in> set ts)"

definition delivery_fk :: "delivery_row \<Rightarrow> pdb \<Rightarrow> bool" where
  "delivery_fk r d \<longleftrightarrow> event_exists (wd_eventId r) d \<and> endpoint_exists (wd_endpointId r) d"

text \<open>\<open>INSERT OR IGNORE ... SELECT\<close>: one delivery per subscribed endpoint, each ignored on its own.\<close>

definition insert_subscribed_deliveries :: "string \<Rightarrow> string \<Rightarrow> mode \<Rightarrow> string \<Rightarrow> int \<Rightarrow> pdb stmt" where
  "insert_subscribed_deliveries eventId merchantId md eventType ts d =
     (case batch (map (\<lambda>e. let r = delivery_for eventId (ep_id e) ts in
          or_ignore deliveries_unique (delivery_fk r) (insert_delivery r))
        (filter (subscribed merchantId md eventType) (db_endpoints d))) d of
       None \<Rightarrow> None | Some (d', ns) \<Rightarrow> Some (d', sum_list ns))"

subsection \<open>Creating an intent with its link\<close>

record create_input =
  ci_merchant :: merchant
  ci_amount :: string
  ci_amountAtomic :: int
  ci_reference :: string
  ci_amountMode :: "amount_mode option"
  ci_metadata :: json
  ci_expiresAt :: int
  ci_idempotencyKey :: "string option"
  ci_mode :: "mode option"
  ci_intentId :: "string option"
  ci_linkId :: "string option"

record created_intent =
  cr_intent :: payment_intent
  cr_link :: payment_link
  cr_replay :: bool

definition insert_intent :: "intent_row \<Rightarrow> pdb stmt" where
  "insert_intent r = checked (\<lambda>d. intents_unique d \<and> merchant_exists (i_merchantId r) d)
     (\<lambda>d. (d\<lparr>db_intents := db_intents d @ [r]\<rparr>, 1))"

definition insert_link :: "payment_link \<Rightarrow> pdb stmt" where
  "insert_link r = checked (\<lambda>d. links_unique d \<and> merchant_exists (l_merchantId r) d \<and>
       intent_exists (l_intentId r) d)
     (\<lambda>d. (d\<lparr>db_links := db_links d @ [r]\<rparr>, 1))"

definition new_intent_row :: "create_input \<Rightarrow> string \<Rightarrow> string \<Rightarrow> int \<Rightarrow> intent_row" where
  "new_intent_row inp intentId linkId ts = \<lparr>i_id = intentId, i_merchantId = m_id (ci_merchant inp),
     i_linkId = Some linkId, i_amount = ci_amount inp, i_amountAtomic = ci_amountAtomic inp,
     i_amountMode = (case ci_amountMode inp of None \<Rightarrow> Fixed | Some a \<Rightarrow> a),
     i_reference = ci_reference inp, i_metadata = ci_metadata inp,
     i_mode = (case ci_mode inp of None \<Rightarrow> Test | Some md \<Rightarrow> md), i_status = AwaitingPayment,
     i_settlementWallet = m_settlementWallet (ci_merchant inp),
     i_settlementChainId = m_settlementChainId (ci_merchant inp),
     i_settlementAccountVersion = m_accountVersion (ci_merchant inp), i_paidAmountAtomic = 0,
     i_paidTxHash = None, i_paidAt = None, i_expiresAt = Some (ci_expiresAt inp), i_createdAt = ts,
     i_updatedAt = ts, ir_idempotencyKey = ci_idempotencyKey inp\<rparr>"

definition new_link_row :: "create_input \<Rightarrow> string \<Rightarrow> string \<Rightarrow> int \<Rightarrow> payment_link" where
  "new_link_row inp intentId linkId ts = \<lparr>l_id = linkId, l_intentId = intentId,
     l_merchantId = m_id (ci_merchant inp), l_ownerUid = m_ownerUid (ci_merchant inp),
     l_wallet = m_settlementWallet (ci_merchant inp), l_amount = ci_amount inp,
     l_reference = ci_reference inp, l_status = LinkPending, l_txHash = None, l_paidAt = None,
     l_paidBy = None, l_createdAt = ts, l_updatedAt = ts\<rparr>"

definition created_event :: "create_input \<Rightarrow> string \<Rightarrow> int \<Rightarrow> event_row" where
  "created_event inp intentId ts = (let r = new_intent_row inp intentId [] ts in
     \<lparr>ev_id = ''evt_created_'' @ intentId, ev_merchantId = m_id (ci_merchant inp),
      ev_type = ''payment.created'', ev_objectId = intentId,
      ev_dedupeKey = Some (''intent:'' @ intentId @ '':created''), ev_mode = i_mode r,
      ev_payload = JObj [(''id'', JStr intentId), (''object'', JStr ''payment_intent''),
        (''amount'', JStr (ci_amount inp)), (''amount_atomic'', jatomic (ci_amountAtomic inp)),
        (''amount_mode'', JStr (amount_mode_text (i_amountMode r))), (''currency'', JStr ''USDC''),
        (''reference'', JStr (ci_reference inp)), (''metadata'', ci_metadata inp),
        (''status'', JStr ''awaiting_payment''), (''mode'', JStr (mode_text (i_mode r))),
        (''tx_hash'', JNull), (''paid_at'', JNull),
        (''settlement_chain_id'', JInt (m_settlementChainId (ci_merchant inp))),
        (''expires_at'', JInt (ci_expiresAt inp)), (''created_at'', JInt ts), (''updated_at'', JInt ts)],
      ev_createdAt = ts\<rparr>)"

definition create_batch :: "create_input \<Rightarrow> string \<Rightarrow> string \<Rightarrow> int \<Rightarrow> pdb stmt list" where
  "create_batch inp intentId linkId ts = (let ev = created_event inp intentId ts in
     [insert_intent (new_intent_row inp intentId linkId ts),
      insert_link (new_link_row inp intentId linkId ts),
      checked (\<lambda>d. events_unique d \<and> merchant_exists (ev_merchantId ev) d) (insert_event ev),
      checked outbox_unique (insert_outbox (outbox_for (ev_id ev) ts)),
      insert_subscribed_deliveries (ev_id ev) (m_id (ci_merchant inp)) (ev_mode ev) ''payment.created'' ts])"

definition intent_of_key :: "string \<Rightarrow> string option \<Rightarrow> payment_intent option pact" where
  "intent_of_key merchantId key = dbq (\<lambda>d. map_option mapIntent
     (find (\<lambda>r. i_merchantId r = merchantId \<and> ir_idempotencyKey r = key) (db_intents d)))"

definition link_of :: "payment_intent \<Rightarrow> payment_link option pact" where
  "link_of intent = (if truthy (i_linkId intent) then getPaymentLink (the (i_linkId intent)) else ret None)"

definition insert_new_intent :: "create_input \<Rightarrow> created_intent pact" where
  "insert_new_intent inp =
     bindA (case ci_intentId inp of Some i \<Rightarrow> ret i | None \<Rightarrow> bindA randomUUID (\<lambda>u. ret (''pi_'' @ u))) (\<lambda>intentId.
     bindA (case ci_linkId inp of Some l \<Rightarrow> ret l | None \<Rightarrow> randomUUID) (\<lambda>linkId.
     bindA date_now (\<lambda>ts.
     bindA (catchA (bindA (dbb (create_batch inp intentId linkId ts)) (\<lambda>_. ret None))
       (\<lambda>error. if truthy (ci_idempotencyKey inp) then
           bindA (intent_of_key (m_id (ci_merchant inp)) (ci_idempotencyKey inp)) (\<lambda>winner.
           case winner of None \<Rightarrow> throw error
           | Some intent \<Rightarrow> bindA (link_of intent) (\<lambda>link. case link of None \<Rightarrow> throw error
               | Some l \<Rightarrow> ret (Some \<lparr>cr_intent = intent, cr_link = l, cr_replay = True\<rparr>)))
         else throw error)) (\<lambda>recovered.
     case recovered of Some r \<Rightarrow> ret r
     | None \<Rightarrow>
         bindA (getPaymentIntent intentId) (\<lambda>intent.
         bindA (getPaymentLink linkId) (\<lambda>link.
         case (intent, link) of
           (Some i, Some l) \<Rightarrow> ret \<lparr>cr_intent = i, cr_link = l, cr_replay = False\<rparr>
         | _ \<Rightarrow> throw (Thrown ''Payment intent creation was not durable'')))))))"

definition createIntentAndLink :: "create_input \<Rightarrow> created_intent pact" where
  "createIntentAndLink inp =
     (if truthy (ci_idempotencyKey inp) then
        bindA (intent_of_key (m_id (ci_merchant inp)) (ci_idempotencyKey inp)) (\<lambda>existing.
        case existing of None \<Rightarrow> insert_new_intent inp
        | Some intent \<Rightarrow> bindA (link_of intent) (\<lambda>link. case link of
              None \<Rightarrow> throw (Thrown ''Idempotent intent is missing its checkout link'')
            | Some l \<Rightarrow> ret \<lparr>cr_intent = intent, cr_link = l, cr_replay = True\<rparr>))
      else insert_new_intent inp)"

subsection \<open>Canceling\<close>

definition cancel_batch :: "string \<Rightarrow> string \<Rightarrow> int \<Rightarrow> pdb stmt list" where
  "cancel_batch merchantId i ts = (let p = (\<lambda>r. i_id r = i \<and> i_merchantId r = merchantId \<and>
       i_status r = AwaitingPayment) in
     [plain (\<lambda>d. (d\<lparr>db_intents := upd p (\<lambda>r. r\<lparr>i_status := IntentCanceled, i_updatedAt := ts\<rparr>) (db_intents d)\<rparr>,
        hits p (db_intents d))),
      plain (\<lambda>d. let q = (\<lambda>l. l_intentId l = i \<and>
            list_ex (\<lambda>r. i_id r = i \<and> i_status r = IntentCanceled) (db_intents d)) in
        (d\<lparr>db_links := upd q (\<lambda>l. l\<lparr>l_status := LinkCanceled, l_updatedAt := ts\<rparr>) (db_links d)\<rparr>,
         hits q (db_links d)))])"

definition cancelPaymentIntent :: "string \<Rightarrow> string \<Rightarrow> bool pact" where
  "cancelPaymentIntent merchantId i =
     bindA date_now (\<lambda>ts. bindA (dbb (cancel_batch merchantId i ts)) (\<lambda>ns. ret (0 < hd ns)))"

end
