(* ===== verification/Attempts.thy ===== *)
theory Attempts
  imports Intents
begin

text \<open>
  Quotes, attempts and the fee ledger: the part of
  \<^verbatim>\<open>payments-worker/src/repositories/payments.ts\<close> that reserves an attempt, attaches evidence of its
  execution to it, and releases it.
\<close>

subsection \<open>Reading\<close>

definition getQuote :: "string \<Rightarrow> payment_quote option pact" where
  "getQuote i = dbq (\<lambda>d. find (\<lambda>q. q_id q = i) (db_quotes d))"

definition getAttempt :: "string \<Rightarrow> payment_attempt option pact" where
  "getAttempt i = dbq (\<lambda>d. map_option mapAttempt (find (\<lambda>a. a_id a = i) (db_attempts d)))"

definition getCheckoutAttempt :: "string \<Rightarrow> string \<Rightarrow> payment_attempt option pact" where
  "getCheckoutAttempt i capabilityHash = dbq (\<lambda>d. map_option mapAttempt
     (find (\<lambda>a. a_id a = i \<and> a_checkoutCapabilityHash a = Some (toLowerCase capabilityHash))
       (db_attempts d)))"

definition getAttemptByHash :: "string \<Rightarrow> payment_attempt option pact" where
  "getAttemptByHash attemptHash = dbq (\<lambda>d. map_option mapAttempt
     (find (\<lambda>a. a_attemptHash a = toLowerCase attemptHash) (db_attempts d)))"

definition listActiveRouterAddressesByChain :: "int \<Rightarrow> string list pact" where
  "listActiveRouterAddressesByChain chainId = dbq (\<lambda>d. remdups (map a_routerAddress
     (filter (\<lambda>a. a_sourceChainId a = chainId \<and> active_status (a_status a)) (db_attempts d))))"

definition getAttemptByIdempotency :: "string \<Rightarrow> string \<Rightarrow> int \<Rightarrow> string \<Rightarrow> payment_attempt option pact" where
  "getAttemptByIdempotency intentId payer chainId key = dbq (\<lambda>d. map_option mapAttempt
     (find (\<lambda>a. a_intentId a = intentId \<and> a_payerAddress a = payer \<and> a_sourceChainId a = chainId \<and>
        ar_idempotencyKey a = key) (db_attempts d)))"

subsection \<open>The fee ledger\<close>

definition platform_line :: "payment_attempt \<Rightarrow> fee_row" where
  "platform_line attempt = (let quoted = a_platformFeeAtomic attempt in
     \<lparr>fl_type = FeePlatform, fl_bearer = f_platformFeeBearer (a_fee attempt), fl_quotedAmountAtomic = quoted,
      fl_actualAmountAtomic = (if quoted = 0 then Some 0 else None),
      fl_recipient = f_platformFeeRecipient (a_fee attempt),
      fl_status = (if quoted = 0 then FeeWaived else FeeQuoted), fl_policyId = f_policyId (a_fee attempt),
      fl_policyVersion = f_policyVersion (a_fee attempt), fl_ruleId = f_ruleId (a_fee attempt),
      fr_id = ''fee_'' @ a_id attempt @ ''_platform'', fr_attemptId = a_id attempt,
      fr_intentId = a_intentId attempt, fr_sourceChainId = a_sourceChainId attempt,
      fr_route = a_route attempt, fr_chargedTxHash = None, fr_createdAt = a_createdAt attempt,
      fr_updatedAt = a_createdAt attempt\<rparr>)"

fun route_text :: "route \<Rightarrow> string" where
  "route_text Local = ''local''"
| "route_text CctpFast = ''cctp_fast''"
| "route_text CctpStandard = ''cctp_standard''"

definition network_line :: "payment_attempt \<Rightarrow> fee_row" where
  "network_line attempt = (let quoted = a_cctpFeeAtomic attempt in
     \<lparr>fl_type = FeeNetwork, fl_bearer = (if quoted = 0 then BearerNone else BearerPayer),
      fl_quotedAmountAtomic = quoted, fl_actualAmountAtomic = (if quoted = 0 then Some 0 else None),
      fl_recipient = None, fl_status = (if quoted = 0 then FeeWaived else FeeQuoted),
      fl_policyId = ''circle-cctp-v2'', fl_policyVersion = 1, fl_ruleId = route_text (a_route attempt),
      fr_id = ''fee_'' @ a_id attempt @ ''_network'', fr_attemptId = a_id attempt,
      fr_intentId = a_intentId attempt, fr_sourceChainId = a_sourceChainId attempt,
      fr_route = a_route attempt, fr_chargedTxHash = None, fr_createdAt = a_createdAt attempt,
      fr_updatedAt = a_createdAt attempt\<rparr>)"

definition insert_fee :: "fee_row \<Rightarrow> pdb stmt" where
  "insert_fee r = or_ignore fees_unique
     (\<lambda>d. attempt_exists (fr_attemptId r) d \<and> intent_exists (fr_intentId r) d)
     (\<lambda>d. (d\<lparr>db_fees := db_fees d @ [r]\<rparr>, 1))"

definition feeLedgerStatements :: "payment_attempt \<Rightarrow> pdb stmt list" where
  "feeLedgerStatements attempt = [insert_fee (platform_line attempt), insert_fee (network_line attempt)]"

definition feeBreakdown :: "fee_row list \<Rightarrow> payment_fee_breakdown option" where
  "feeBreakdown rows = (case (find (\<lambda>r. fl_type r = FeePlatform) rows, find (\<lambda>r. fl_type r = FeeNetwork) rows) of
     (Some p, Some n) \<Rightarrow> (let platform = feeLine p; network = feeLine n in
       Some \<lparr>fb_platform = platform, fb_network = network,
         fb_totalQuotedAtomic = fl_quotedAmountAtomic platform + fl_quotedAmountAtomic network,
         fb_totalActualAtomic = (case (fl_actualAmountAtomic platform, fl_actualAmountAtomic network) of
             (Some a, Some b) \<Rightarrow> Some (a + b) | _ \<Rightarrow> None)\<rparr>)
   | _ \<Rightarrow> None)"

definition actualFeeBreakdown :: "payment_attempt \<Rightarrow> int \<Rightarrow> int \<Rightarrow> payment_fee_breakdown" where
  "actualFeeBreakdown attempt platformActual networkActual = \<lparr>
     fb_platform = \<lparr>fl_type = FeePlatform, fl_bearer = f_platformFeeBearer (a_fee attempt),
       fl_quotedAmountAtomic = a_platformFeeAtomic attempt, fl_actualAmountAtomic = Some platformActual,
       fl_recipient = f_platformFeeRecipient (a_fee attempt),
       fl_status = (if platformActual = 0 then FeeWaived else FeeCharged),
       fl_policyId = f_policyId (a_fee attempt), fl_policyVersion = f_policyVersion (a_fee attempt),
       fl_ruleId = f_ruleId (a_fee attempt)\<rparr>,
     fb_network = \<lparr>fl_type = FeeNetwork, fl_bearer = (if networkActual = 0 then BearerNone else BearerPayer),
       fl_quotedAmountAtomic = a_cctpFeeAtomic attempt, fl_actualAmountAtomic = Some networkActual,
       fl_recipient = None, fl_status = (if networkActual = 0 then FeeWaived else FeeCharged),
       fl_policyId = ''circle-cctp-v2'', fl_policyVersion = 1, fl_ruleId = route_text (a_route attempt)\<rparr>,
     fb_totalQuotedAtomic = a_platformFeeAtomic attempt + a_cctpFeeAtomic attempt,
     fb_totalActualAtomic = Some (platformActual + networkActual)\<rparr>"

definition free_line :: "fee_type \<Rightarrow> string \<Rightarrow> payment_fee_line" where
  "free_line ty policyId = \<lparr>fl_type = ty, fl_bearer = BearerNone, fl_quotedAmountAtomic = 0,
     fl_actualAmountAtomic = Some 0, fl_recipient = None, fl_status = FeeWaived, fl_policyId = policyId,
     fl_policyVersion = 1, fl_ruleId = ''free-default''\<rparr>"

definition freeFeeBreakdown :: payment_fee_breakdown where
  "freeFeeBreakdown = \<lparr>fb_platform = free_line FeePlatform ''free-default'',
     fb_network = free_line FeeNetwork ''sandbox'', fb_totalQuotedAtomic = 0,
     fb_totalActualAtomic = Some 0\<rparr>"

fun bearer_text :: "fee_bearer \<Rightarrow> string" where
  "bearer_text BearerNone = ''none''"
| "bearer_text BearerPayer = ''payer''"

fun fee_type_text :: "fee_type \<Rightarrow> string" where
  "fee_type_text FeePlatform = ''platform''"
| "fee_type_text FeeNetwork = ''network''"

fun fee_status_text :: "fee_status \<Rightarrow> string" where
  "fee_status_text FeeQuoted = ''quoted''"
| "fee_status_text FeeWaived = ''waived''"
| "fee_status_text FeeCharged = ''charged''"

definition public_line :: "payment_fee_line \<Rightarrow> json" where
  "public_line l = JObj [(''type'', JStr (fee_type_text (fl_type l))), (''bearer'', JStr (bearer_text (fl_bearer l))),
     (''quoted_amount_atomic'', jatomic (fl_quotedAmountAtomic l)),
     (''actual_amount_atomic'', jopt jatomic (fl_actualAmountAtomic l)),
     (''recipient'', jopt JStr (fl_recipient l)), (''status'', JStr (fee_status_text (fl_status l))),
     (''policy_id'', JStr (fl_policyId l)), (''policy_version'', JInt (fl_policyVersion l)),
     (''rule_id'', JStr (fl_ruleId l))]"

definition publicFeeBreakdown :: "payment_fee_breakdown option \<Rightarrow> json" where
  "publicFeeBreakdown fees = (case fees of None \<Rightarrow> JNull | Some f \<Rightarrow>
     JObj [(''currency'', JStr ''USDC''), (''platform'', public_line (fb_platform f)),
       (''network'', public_line (fb_network f)), (''total_quoted_atomic'', jatomic (fb_totalQuotedAtomic f)),
       (''total_actual_atomic'', jopt jatomic (fb_totalActualAtomic f))])"

definition getAttemptFeeBreakdown :: "string \<Rightarrow> payment_fee_breakdown option pact" where
  "getAttemptFeeBreakdown attemptId =
     dbq (\<lambda>d. feeBreakdown (filter (\<lambda>f. fr_attemptId f = attemptId) (db_fees d)))"

definition getPaymentIntentFeeBreakdown :: "string \<Rightarrow> payment_fee_breakdown option pact" where
  "getPaymentIntentFeeBreakdown intentId =
     bindA (dbq (\<lambda>d. newest_first a_createdAt (filter (\<lambda>a. a_intentId a = intentId) (db_attempts d)))) (\<lambda>as.
     case as of [] \<Rightarrow> ret None | a # _ \<Rightarrow> getAttemptFeeBreakdown (a_id a))"

text \<open>One line of the ledger receives its actual amount.\<close>

definition charge_line :: "string \<Rightarrow> fee_type \<Rightarrow> int \<Rightarrow> string \<Rightarrow> int \<Rightarrow> pdb stmt" where
  "charge_line attemptId ty actual txHash ts = (let p = (\<lambda>f. fr_attemptId f = attemptId \<and> fl_type f = ty) in
     plain (\<lambda>d. (d\<lparr>db_fees := upd p (\<lambda>f. f\<lparr>fl_actualAmountAtomic := Some actual,
         fl_status := (if actual = 0 then FeeWaived else FeeCharged),
         fr_chargedTxHash := Some (toLowerCase txHash), fr_updatedAt := ts\<rparr>) (db_fees d)\<rparr>,
       hits p (db_fees d))))"

definition recordAttemptFeeEvidence :: "string \<Rightarrow> int \<Rightarrow> int option \<Rightarrow> string \<Rightarrow> unit pact" where
  "recordAttemptFeeEvidence attemptId platformActual networkActual txHash =
     bindA (getAttempt attemptId) (\<lambda>attempt. case attempt of
       None \<Rightarrow> throw (Thrown ''Payment attempt is missing for fee evidence'')
     | Some a \<Rightarrow>
         if platformActual \<noteq> a_platformFeeAtomic a
         then throw (Thrown ''Actual platform fee does not match the signed attempt'')
         else if (case networkActual of None \<Rightarrow> False | Some n \<Rightarrow> n < 0 \<or> a_cctpFeeAtomic a < n)
         then throw (Thrown ''Actual network fee exceeds the signed quote'')
         else bindA date_now (\<lambda>ts.
           bindA (dbb (charge_line (a_id a) FeePlatform platformActual txHash ts #
               (case networkActual of None \<Rightarrow> []
                | Some n \<Rightarrow> [charge_line (a_id a) FeeNetwork n txHash ts]))) (\<lambda>_. ret ())))"

subsection \<open>Reserving an attempt\<close>

definition insert_quote_stmt :: "payment_quote \<Rightarrow> pdb stmt" where
  "insert_quote_stmt q = checked (\<lambda>d. quotes_unique d \<and> intent_exists (q_intentId q) d)
     (\<lambda>d. (d\<lparr>db_quotes := db_quotes d @ [q]\<rparr>, 1))"

definition insertQuote :: "payment_quote \<Rightarrow> unit pact" where
  "insertQuote q = bindA (dbx (insert_quote_stmt q)) (\<lambda>_. ret ())"

record checkout_access =
  ca_capabilityHash :: string
  ca_payerProofSignature :: string
  ca_payerProofMessageHash :: string

definition new_attempt_row :: "payment_attempt \<Rightarrow> string \<Rightarrow> checkout_access option \<Rightarrow> attempt_row" where
  "new_attempt_row attempt key access = attempt_core.extend
     ((attempt_core.truncate attempt)\<lparr>a_status := Reserved,
        a_checkoutCapabilityHash := map_option (\<lambda>c. toLowerCase (ca_capabilityHash c)) access,
        a_payerProofSignature := map_option ca_payerProofSignature access,
        a_payerProofMessageHash := map_option ca_payerProofMessageHash access,
        a_userOpHash := None, a_sourceTxHash := None, a_destinationTxHash := None,
        a_settledAmountAtomic := 0\<rparr>)
     (attempt_row.fields key None)"

definition insert_attempt_stmt :: "attempt_row \<Rightarrow> pdb stmt" where
  "insert_attempt_stmt r d = (if payable_for (a_intentId r) (a_settlementAmountAtomic r) d
     then checked (\<lambda>d. attempts_unique d \<and> intent_exists (a_intentId r) d \<and> quote_exists (a_quoteId r) d)
       (\<lambda>d. (d\<lparr>db_attempts := db_attempts d @ [r]\<rparr>, 1)) d
     else None)"

definition insertQuoteAndAttempt :: "payment_quote \<Rightarrow> payment_attempt \<Rightarrow> string \<Rightarrow> payment_attempt pact" where
  "insertQuoteAndAttempt quote attempt key =
     bindA (catchA
       (bindA (dbb (insert_quote_stmt quote # insert_attempt_stmt (new_attempt_row attempt key None) #
           feeLedgerStatements attempt)) (\<lambda>_. ret None))
       (\<lambda>error. bindA (getAttemptByIdempotency (a_intentId attempt) (a_payerAddress attempt)
           (a_sourceChainId attempt) key) (\<lambda>replay.
         case replay of Some r \<Rightarrow> ret (Some r) | None \<Rightarrow> throw error))) (\<lambda>replay.
     case replay of Some r \<Rightarrow> ret r
     | None \<Rightarrow> bindA (getAttempt (a_id attempt)) (\<lambda>stored. case stored of Some a \<Rightarrow> ret a
         | None \<Rightarrow> throw (Thrown ''Payment attempt creation was not durable'')))"

definition insertAttempt :: "payment_attempt \<Rightarrow> string \<Rightarrow> checkout_access option \<Rightarrow> payment_attempt pact" where
  "insertAttempt attempt key access =
     bindA (dbb (insert_attempt_stmt (new_attempt_row attempt key access) # feeLedgerStatements attempt)) (\<lambda>_.
     bindA (getAttempt (a_id attempt)) (\<lambda>stored. case stored of Some a \<Rightarrow> ret a
       | None \<Rightarrow> throw (Thrown ''Payment attempt creation was not durable'')))"

subsection \<open>Evidence of execution, cancellation and expiry\<close>

text \<open>An update of attempts; the unique indexes may abort it.\<close>

definition update_attempts :: "(attempt_row \<Rightarrow> bool) \<Rightarrow> (attempt_row \<Rightarrow> attempt_row) \<Rightarrow> pdb stmt" where
  "update_attempts p f = checked attempts_unique
     (\<lambda>d. (d\<lparr>db_attempts := upd p f (db_attempts d)\<rparr>, hits p (db_attempts d)))"

definition coalesce :: "'a option \<Rightarrow> 'a option \<Rightarrow> 'a option" where
  "coalesce x y = (case x of None \<Rightarrow> y | Some v \<Rightarrow> Some v)"

definition markAttemptProcessing :: "string \<Rightarrow> string \<Rightarrow> unit pact" where
  "markAttemptProcessing attemptId txHash = bindA date_now (\<lambda>ts.
     bindA (dbx (update_attempts (\<lambda>a. a_id a = attemptId)
       (\<lambda>a. a\<lparr>a_status := (if a_status a = Reserved \<or> a_status a = Submitted then Processing else a_status a),
          a_sourceTxHash := coalesce (a_sourceTxHash a) (Some (toLowerCase txHash)),
          a_updatedAt := ts\<rparr>))) (\<lambda>_. ret ()))"

definition ATTEMPT_EVIDENCE_GRACE_SECONDS :: int where
  "ATTEMPT_EVIDENCE_GRACE_SECONDS = 15 * 60"

definition expire_stmt :: "string \<Rightarrow> attempt_status \<Rightarrow> int \<Rightarrow> int \<Rightarrow> pdb stmt" where
  "expire_stmt intentId st before ts = update_attempts
     (\<lambda>a. a_intentId a = intentId \<and> a_status a = st \<and> a_validUntil a < before)
     (\<lambda>a. a\<lparr>a_status := Expired, ar_lastErrorCode := Some ''PAYMENT_EVIDENCE_TIMEOUT'', a_updatedAt := ts\<rparr>)"

definition release_batch :: "string \<Rightarrow> int \<Rightarrow> pdb stmt list" where
  "release_batch intentId ts = (let before = floor_sec ts - ATTEMPT_EVIDENCE_GRACE_SECONDS in
     [expire_stmt intentId Reserved before ts,
      expire_stmt intentId Submitted before ts,
      plain (\<lambda>d. let p = (\<lambda>i. i_id i = intentId \<and> i_amountMode i = PayerDefined \<and>
            i_status i = AwaitingPayment \<and>
            \<not> list_ex (\<lambda>a. a_intentId a = intentId \<and> active_status (a_status a)) (db_attempts d)) in
        (d\<lparr>db_intents := upd p (\<lambda>i. i\<lparr>i_amount := ''0'', i_amountAtomic := 0, i_updatedAt := ts\<rparr>) (db_intents d)\<rparr>,
         hits p (db_intents d))),
      plain (\<lambda>d. let p = (\<lambda>l. l_intentId l = intentId \<and>
            list_ex (\<lambda>i. i_id i = intentId \<and> i_amountMode i = PayerDefined \<and> i_amountAtomic i = 0) (db_intents d)) in
        (d\<lparr>db_links := upd p (\<lambda>l. l\<lparr>l_amount := ''0'', l_updatedAt := ts\<rparr>) (db_links d)\<rparr>,
         hits p (db_links d)))])"

definition releaseExpiredPayerDefinedAmount :: "string \<Rightarrow> unit pact" where
  "releaseExpiredPayerDefinedAmount intentId =
     bindA date_now (\<lambda>ts. bindA (dbb (release_batch intentId ts)) (\<lambda>_. ret ()))"

record app_execution_command =
  ae_commandId :: string
  ae_attemptId :: string
  ae_userOpHash :: string
  ae_sourceChainId :: int

record registered_execution =
  re_attemptId :: string
  re_status :: attempt_status
  re_userOpHash :: string
  re_replay :: bool

definition reported_status :: "attempt_status \<Rightarrow> attempt_status" where
  "reported_status s = (if s = Reserved then Submitted else s)"

definition app_execution_batch :: "string \<Rightarrow> app_execution_command \<Rightarrow> int \<Rightarrow> pdb stmt list" where
  "app_execution_batch attemptId command ts =
     [update_attempts (\<lambda>a. a_id a = attemptId \<and> a_status a \<in> {Reserved, Submitted, Processing, Paid})
        (\<lambda>a. a\<lparr>a_status := (if a_status a = Reserved then Submitted else a_status a),
           a_userOpHash := coalesce (a_userOpHash a) (Some (toLowerCase (ae_userOpHash command))),
           a_updatedAt := ts\<rparr>),
      checked (\<lambda>d. distinct (map xc_commandId (db_appCommands d)) \<and> attempt_exists attemptId d)
        (\<lambda>d. (d\<lparr>db_appCommands := db_appCommands d @ [\<lparr>xc_commandId = ae_commandId command,
            xc_attemptId = attemptId, xc_userOpHash = toLowerCase (ae_userOpHash command),
            xc_createdAt = ts\<rparr>]\<rparr>, 1))]"

definition registerAppExecution :: "app_execution_command \<Rightarrow> registered_execution option pact" where
  "registerAppExecution command =
     bindA (dbq (\<lambda>d. find (\<lambda>c. xc_commandId c = ae_commandId command) (db_appCommands d))) (\<lambda>replay.
     case replay of
       Some c \<Rightarrow> bindA (getAttempt (xc_attemptId c)) (\<lambda>attempt. ret (map_option (\<lambda>a.
           \<lparr>re_attemptId = a_id a, re_status = reported_status (a_status a),
            re_userOpHash = xc_userOpHash c, re_replay = True\<rparr>) attempt))
     | None \<Rightarrow>
         bindA (getAttempt (ae_attemptId command)) (\<lambda>attempt. case attempt of None \<Rightarrow> ret None
         | Some a \<Rightarrow>
             if a_sourceChainId a \<noteq> ae_sourceChainId command then ret None
             else if truthy (a_userOpHash a) \<and>
               toLowerCase (the (a_userOpHash a)) \<noteq> toLowerCase (ae_userOpHash command) then ret None
             else bindA date_now (\<lambda>ts.
               bindA (dbb (app_execution_batch (a_id a) command ts)) (\<lambda>_.
               bindA (getAttempt (a_id a)) (\<lambda>stored. ret (map_option (\<lambda>s.
                 \<lparr>re_attemptId = a_id s, re_status = reported_status (a_status s),
                  re_userOpHash = toLowerCase (ae_userOpHash command), re_replay = False\<rparr>) stored))))))"

definition registerSourceTransaction :: "string \<Rightarrow> string \<Rightarrow> string \<Rightarrow> payment_attempt option pact" where
  "registerSourceTransaction attemptId capabilityHash txHash =
     bindA date_now (\<lambda>ts.
     let tx = toLowerCase txHash; cap = toLowerCase capabilityHash in
     bindA (dbx (update_attempts
       (\<lambda>a. a_id a = attemptId \<and> a_checkoutCapabilityHash a = Some cap \<and>
          a_status a \<in> {Reserved, Submitted, Processing, Paid, Overpaid} \<and>
          (a_sourceTxHash a = None \<or> a_sourceTxHash a = Some tx))
       (\<lambda>a. a\<lparr>a_sourceTxHash := coalesce (a_sourceTxHash a) (Some tx),
          a_status := (if a_status a = Reserved then Submitted else a_status a), a_updatedAt := ts\<rparr>)))
     (\<lambda>n. if n = 0 then ret None else getCheckoutAttempt attemptId cap))"

definition cancelAttempt :: "string \<Rightarrow> string \<Rightarrow> bool pact" where
  "cancelAttempt attemptId capabilityHash = bindA date_now (\<lambda>ts.
     bindA (dbx (update_attempts
       (\<lambda>a. a_id a = attemptId \<and> a_checkoutCapabilityHash a = Some (toLowerCase capabilityHash) \<and>
          a_status a = Reserved \<and> a_sourceTxHash a = None \<and> a_userOpHash a = None)
       (\<lambda>a. a\<lparr>a_status := Canceled, a_updatedAt := ts\<rparr>))) (\<lambda>n. ret (0 < n)))"

end
