(* ===== verification/Settlement.thy ===== *)
theory Settlement
  imports Attempts
begin

text \<open>
  Settlement of a confirmed on-chain payment (\<open>settleAttempt\<close> of
  \<^verbatim>\<open>payments-worker/src/repositories/payments.ts\<close>) and the sandbox payment of a test intent
  (\<open>simulatePaymentIntent\<close>).  \<open>settleAttempt\<close> is an optimistic compare-and-set loop: it reads attempt
  and intent, computes the new totals, and commits them in one batch whose first statement inserts
  the commit row only if nothing has changed meanwhile; every other statement is conditional on that
  row.  After five lost races it gives up.
\<close>

record settle_input =
  st_attemptId :: string
  st_sourceTxHash :: string
  st_destinationTxHash :: "string option"
  st_settledAmountAtomic :: int
  st_payerAddress :: string
  st_platformFeeAtomic :: "int option"
  st_networkFeeAtomic :: "int option"

record settle_result =
  sr_applied :: bool
  sr_intent :: "payment_intent option"
  sr_eventId :: "string option"

text \<open>The values one round of the loop computes from the attempt and the intent it has read.\<close>

record settle_plan =
  sp_attemptId :: string
  sp_intentId :: string
  sp_commitId :: string
  sp_previousPaid :: int
  sp_settled :: int
  sp_expected :: int
  sp_paid :: int
  sp_status :: intent_status
  sp_canonicalAmount :: string
  sp_sourceTx :: string
  sp_destinationTx :: "string option"
  sp_settlementTx :: string
  sp_payer :: string
  sp_now :: int

definition settle_plan_of ::
    "viem \<Rightarrow> settle_input \<Rightarrow> payment_attempt \<Rightarrow> payment_intent \<Rightarrow> string \<Rightarrow> int \<Rightarrow> settle_plan" where
  "settle_plan_of V inp attempt intent commitId ts = (
     let previousPaid = i_paidAmountAtomic intent;
         firstOpen = i_amountMode intent = PayerDefined \<and> previousPaid = 0;
         expected = (if firstOpen then a_settlementAmountAtomic attempt else i_amountAtomic intent);
         paid = previousPaid + st_settledAmountAtomic inp
     in \<lparr>sp_attemptId = a_id attempt, sp_intentId = i_id intent, sp_commitId = commitId,
         sp_previousPaid = previousPaid, sp_settled = st_settledAmountAtomic inp,
         sp_expected = expected, sp_paid = paid,
         sp_status = (if expected < paid then IntentOverpaid else IntentPaid),
         sp_canonicalAmount = (if firstOpen then v_formatUnits6 V expected else i_amount intent),
         sp_sourceTx = toLowerCase (st_sourceTxHash inp),
         sp_destinationTx = map_option toLowerCase (st_destinationTxHash inp),
         sp_settlementTx = toLowerCase (case st_destinationTxHash inp of None \<Rightarrow> st_sourceTxHash inp
            | Some tx \<Rightarrow> tx),
         sp_payer = st_payerAddress inp, sp_now = ts\<rparr>)"

definition attempt_status_of :: "intent_status \<Rightarrow> attempt_status" where
  "attempt_status_of s = (if s = IntentOverpaid then Overpaid else Paid)"

definition event_type_of :: "intent_status \<Rightarrow> string" where
  "event_type_of s = (if s = IntentOverpaid then ''payment.overpaid'' else ''payment.paid'')"

definition settlement_event ::
    "settle_plan \<Rightarrow> payment_intent \<Rightarrow> payment_fee_breakdown \<Rightarrow> string \<Rightarrow> event_row" where
  "settlement_event p intent fees eventId = \<lparr>ev_id = eventId, ev_merchantId = i_merchantId intent,
     ev_type = event_type_of (sp_status p), ev_objectId = sp_intentId p,
     ev_dedupeKey = Some (''settlement:'' @ sp_attemptId p), ev_mode = i_mode intent,
     ev_payload = JObj [(''id'', JStr (i_id intent)), (''object'', JStr ''payment_intent''),
       (''status'', JStr (intent_status_text (sp_status p))), (''amount'', JStr (sp_canonicalAmount p)),
       (''currency'', JStr ''USDC''), (''reference'', JStr (i_reference intent)),
       (''metadata'', i_metadata intent), (''expected_amount_atomic'', jatomic (sp_expected p)),
       (''settled_amount_atomic'', jatomic (sp_settled p)), (''paid_amount_atomic'', jatomic (sp_paid p)),
       (''overpaid_amount_atomic'',
          jatomic (if sp_expected p < sp_paid p then sp_paid p - sp_expected p else 0)),
       (''source_tx_hash'', JStr (sp_sourceTx p)), (''destination_tx_hash'', jopt JStr (sp_destinationTx p)),
       (''fee_breakdown'', publicFeeBreakdown (Some fees))],
     ev_createdAt = sp_now p\<rparr>"

subsection \<open>The compare-and-set batch\<close>

definition accepts_settlement :: "intent_status \<Rightarrow> bool" where
  "accepts_settlement s \<longleftrightarrow> s \<in> {AwaitingPayment, IntentProcessing, IntentPaid, IntentOverpaid, IntentCanceled}"

definition cas_holds :: "settle_plan \<Rightarrow> pdb \<Rightarrow> bool" where
  "cas_holds p d \<longleftrightarrow> list_ex (\<lambda>i. i_id i = sp_intentId p \<and> i_paidAmountAtomic i = sp_previousPaid p \<and>
       accepts_settlement (i_status i) \<and>
       list_ex (\<lambda>a. a_intentId a = i_id i \<and> a_id a = sp_attemptId p \<and> active_status (a_status a)) (db_attempts d))
     (db_intents d)"

definition commit_of :: "settle_plan \<Rightarrow> commit_row" where
  "commit_of p = \<lparr>sc_commitId = sp_commitId p, sc_attemptId = sp_attemptId p, sc_intentId = sp_intentId p,
     sc_previousPaid = sp_previousPaid p, sc_settled = sp_settled p, sc_resultingPaid = sp_paid p,
     sc_expected = sp_expected p, sc_status = sp_status p, sc_createdAt = sp_now p\<rparr>"

definition commit_stmt :: "settle_plan \<Rightarrow> pdb stmt" where
  "commit_stmt p d = (if cas_holds p d
     then or_ignore commits_unique
       (\<lambda>d. attempt_exists (sp_attemptId p) d \<and> intent_exists (sp_intentId p) d)
       (\<lambda>d. (d\<lparr>db_commits := db_commits d @ [commit_of p]\<rparr>, 1)) d
     else Some (d, 0))"

definition committed :: "settle_plan \<Rightarrow> pdb \<Rightarrow> bool" where
  "committed p d \<longleftrightarrow> list_ex (\<lambda>c. sc_commitId c = sp_commitId p) (db_commits d)"

definition when_committed :: "settle_plan \<Rightarrow> pdb stmt \<Rightarrow> pdb stmt" where
  "when_committed p s d = (if committed p d then s d else Some (d, 0))"

definition settle_attempt_row :: "settle_plan \<Rightarrow> attempt_row \<Rightarrow> attempt_row" where
  "settle_attempt_row p a = a\<lparr>a_status := attempt_status_of (sp_status p),
     a_sourceTxHash := coalesce (a_sourceTxHash a) (Some (sp_sourceTx p)),
     a_destinationTxHash := coalesce (a_destinationTxHash a) (sp_destinationTx p),
     a_settledAmountAtomic := sp_settled p, a_updatedAt := sp_now p\<rparr>"

definition settle_intent_row :: "settle_plan \<Rightarrow> intent_row \<Rightarrow> intent_row" where
  "settle_intent_row p i = i\<lparr>i_amount := sp_canonicalAmount p, i_amountAtomic := sp_expected p,
     i_status := sp_status p, i_paidAmountAtomic := sp_paid p,
     i_paidTxHash := coalesce (i_paidTxHash i) (Some (sp_settlementTx p)),
     i_paidAt := coalesce (i_paidAt i) (Some (sp_now p)), i_updatedAt := sp_now p\<rparr>"

definition settle_link_row :: "settle_plan \<Rightarrow> payment_link \<Rightarrow> payment_link" where
  "settle_link_row p l = l\<lparr>l_amount := (if l_amount l = ''0'' then sp_canonicalAmount p else l_amount l),
     l_status := LinkPaid, l_txHash := coalesce (l_txHash l) (Some (sp_settlementTx p)),
     l_paidAt := coalesce (l_paidAt l) (Some (sp_now p)),
     l_paidBy := coalesce (l_paidBy l) (Some (sp_payer p)), l_updatedAt := sp_now p\<rparr>"

definition settle_batch :: "settle_plan \<Rightarrow> event_row \<Rightarrow> string list \<Rightarrow> pdb stmt list" where
  "settle_batch p ev endpoints =
     [commit_stmt p,
      when_committed p (update_attempts (\<lambda>a. a_id a = sp_attemptId p) (settle_attempt_row p)),
      when_committed p (plain (\<lambda>d. (d\<lparr>db_intents := upd (\<lambda>i. i_id i = sp_intentId p) (settle_intent_row p) (db_intents d)\<rparr>,
        hits (\<lambda>i. i_id i = sp_intentId p) (db_intents d)))),
      when_committed p (plain (\<lambda>d. (d\<lparr>db_links := upd (\<lambda>l. l_intentId l = sp_intentId p) (settle_link_row p) (db_links d)\<rparr>,
        hits (\<lambda>l. l_intentId l = sp_intentId p) (db_links d)))),
      when_committed p (or_ignore events_unique (merchant_exists (ev_merchantId ev)) (insert_event ev)),
      when_committed p (or_ignore outbox_unique (\<lambda>d. True) (insert_outbox (outbox_for (ev_id ev) (sp_now p))))] @
     map (\<lambda>e. let r = delivery_for (ev_id ev) e (sp_now p) in
       when_committed p (or_ignore deliveries_unique (delivery_fk r) (insert_delivery r))) endpoints"

definition endpoints_for :: "string \<Rightarrow> mode \<Rightarrow> string \<Rightarrow> string list pact" where
  "endpoints_for merchantId md eventType =
     dbq (\<lambda>d. map ep_id (filter (subscribed merchantId md eventType) (db_endpoints d)))"

subsection \<open>The loop\<close>

definition not_applied :: "payment_intent option \<Rightarrow> string option \<Rightarrow> settle_result" where
  "not_applied intent eventId = \<lparr>sr_applied = False, sr_intent = intent, sr_eventId = eventId\<rparr>"

text \<open>One round: \<open>None\<close> is a lost race, after which the loop reads again.\<close>

definition settle_round ::
    "viem \<Rightarrow> settle_input \<Rightarrow> payment_fee_breakdown \<Rightarrow> string \<Rightarrow> settle_result option pact" where
  "settle_round V inp fees eventId =
     bindA (getAttempt (st_attemptId inp)) (\<lambda>attempt. case attempt of
       None \<Rightarrow> ret (Some (not_applied None None))
     | Some a \<Rightarrow>
     bindA (getPaymentIntent (a_intentId a)) (\<lambda>intent. case intent of
       None \<Rightarrow> ret (Some (not_applied None None))
     | Some i \<Rightarrow>
       if settled_status (a_status a) then ret (Some (not_applied (Some i) (Some eventId)))
       else if \<not> active_status (a_status a) then ret (Some (not_applied (Some i) (Some eventId)))
       else
         bindA date_now (\<lambda>ts.
         bindA randomUUID (\<lambda>u.
         let p = settle_plan_of V inp a i (''stc_'' @ u) ts in
         bindA (endpoints_for (i_merchantId i) (i_mode i) (event_type_of (sp_status p))) (\<lambda>endpoints.
         bindA (dbb (settle_batch p (settlement_event p i fees eventId) endpoints)) (\<lambda>ns.
         if 0 < hd ns
         then bindA (getPaymentIntent (i_id i)) (\<lambda>stored.
           ret (Some \<lparr>sr_applied = True, sr_intent = stored, sr_eventId = Some eventId\<rparr>))
         else ret None))))))"

fun settle_loop ::
    "nat \<Rightarrow> viem \<Rightarrow> settle_input \<Rightarrow> payment_fee_breakdown \<Rightarrow> string \<Rightarrow> settle_result option pact" where
  "settle_loop 0 V inp fees eventId = ret None"
| "settle_loop (Suc n) V inp fees eventId =
     bindA (settle_round V inp fees eventId) (\<lambda>r. case r of Some x \<Rightarrow> ret (Some x)
       | None \<Rightarrow> settle_loop n V inp fees eventId)"

definition settle_exhausted :: "settle_input \<Rightarrow> string \<Rightarrow> settle_result pact" where
  "settle_exhausted inp eventId =
     bindA (getAttempt (st_attemptId inp)) (\<lambda>attempt.
     bindA (case attempt of None \<Rightarrow> ret None | Some a \<Rightarrow> getPaymentIntent (a_intentId a)) (\<lambda>intent.
     case attempt of
       Some a \<Rightarrow> if settled_status (a_status a) then ret (not_applied intent (Some eventId))
         else throw (Thrown ''Payment settlement compare-and-set retries were exhausted'')
     | None \<Rightarrow> throw (Thrown ''Payment settlement compare-and-set retries were exhausted'')))"

definition SETTLE_RETRIES :: nat where
  "SETTLE_RETRIES = 5"

definition settleAttempt :: "viem \<Rightarrow> settle_input \<Rightarrow> settle_result pact" where
  "settleAttempt V inp =
     bindA (getAttempt (st_attemptId inp)) (\<lambda>initial. case initial of
       None \<Rightarrow> ret (not_applied None None)
     | Some a \<Rightarrow>
       let eventId = ''evt_'' @ a_id a in
       bindA (getPaymentIntent (a_intentId a)) (\<lambda>intent. case intent of
         None \<Rightarrow> ret (not_applied None None)
       | Some i \<Rightarrow>
         if settled_status (a_status a) then ret (not_applied (Some i) (Some eventId))
         else if st_settledAmountAtomic inp \<le> 0 then throw (Thrown ''Settled amount must be positive'')
         else if a_route a \<noteq> Local \<and> st_networkFeeAtomic inp = None
         then throw (Thrown ''Actual CCTP network fee is required before settlement'')
         else
           let platformFee = (case st_platformFeeAtomic inp of None \<Rightarrow> a_platformFeeAtomic a | Some f \<Rightarrow> f);
               networkFee = (case st_networkFeeAtomic inp of None \<Rightarrow> 0 | Some f \<Rightarrow> f) in
           bindA (recordAttemptFeeEvidence (a_id a) platformFee (Some networkFee) (st_sourceTxHash inp)) (\<lambda>_.
           bindA (settle_loop SETTLE_RETRIES V inp (actualFeeBreakdown a platformFee networkFee) eventId) (\<lambda>r.
           case r of Some x \<Rightarrow> ret x | None \<Rightarrow> settle_exhausted inp eventId))))"

subsection \<open>Sandbox payments\<close>

definition sandbox_event :: "payment_intent \<Rightarrow> int \<Rightarrow> event_row" where
  "sandbox_event intent ts = \<lparr>ev_id = ''evt_sandbox_'' @ i_id intent, ev_merchantId = i_merchantId intent,
     ev_type = ''payment.paid'', ev_objectId = i_id intent,
     ev_dedupeKey = Some (''sandbox:'' @ i_id intent @ '':paid''), ev_mode = Test,
     ev_payload = JObj ((case publicIntent intent of JObj fs \<Rightarrow>
         filter (\<lambda>(k, v). k \<notin> {''status'', ''tx_hash'', ''paid_amount_atomic'', ''paid_at''}) fs | _ \<Rightarrow> []) @
       [(''status'', JStr ''paid''), (''tx_hash'', JStr (''sandbox_'' @ i_id intent)),
        (''paid_amount_atomic'', jatomic (i_amountAtomic intent)), (''paid_at'', JInt ts),
        (''simulated'', JBool True), (''fee_breakdown'', publicFeeBreakdown (Some freeFeeBreakdown))]),
     ev_createdAt = ts\<rparr>"

definition sandbox_batch :: "payment_intent \<Rightarrow> string \<Rightarrow> int \<Rightarrow> string list \<Rightarrow> pdb stmt list" where
  "sandbox_batch intent merchantId ts endpoints = (
     let tx = ''sandbox_'' @ i_id intent; ev = (sandbox_event intent ts)\<lparr>ev_merchantId := merchantId\<rparr>;
         p = (\<lambda>i. i_id i = i_id intent \<and> i_merchantId i = merchantId \<and> i_mode i = Test \<and> i_status i = AwaitingPayment);
         q = (\<lambda>l. l_intentId l = i_id intent \<and> l_status l = LinkPending)
     in [plain (\<lambda>d. (d\<lparr>db_intents := upd p (\<lambda>i. i\<lparr>i_status := IntentPaid, i_paidAmountAtomic := i_amountAtomic i,
             i_paidTxHash := Some tx, i_paidAt := Some ts, i_updatedAt := ts\<rparr>) (db_intents d)\<rparr>,
           hits p (db_intents d))),
         plain (\<lambda>d. (d\<lparr>db_links := upd q (\<lambda>l. l\<lparr>l_status := LinkPaid, l_txHash := Some tx,
             l_paidAt := Some ts, l_paidBy := Some ''sandbox'', l_updatedAt := ts\<rparr>) (db_links d)\<rparr>,
           hits q (db_links d))),
         or_ignore events_unique (merchant_exists merchantId) (insert_event ev),
         or_ignore outbox_unique (\<lambda>d. True) (insert_outbox (outbox_for (ev_id ev) ts))] @
        map (\<lambda>e. let r = delivery_for (ev_id ev) e ts in
          or_ignore deliveries_unique (delivery_fk r) (insert_delivery r)) endpoints)"

definition simulatePaymentIntent :: "string \<Rightarrow> string \<Rightarrow> payment_intent option pact" where
  "simulatePaymentIntent merchantId i =
     bindA (getPaymentIntent i) (\<lambda>found. case found of None \<Rightarrow> ret None
     | Some intent \<Rightarrow>
       if i_merchantId intent \<noteq> merchantId \<or> i_mode intent \<noteq> Test \<or> i_status intent \<noteq> AwaitingPayment
       then ret None
       else bindA date_now (\<lambda>ts.
         bindA (endpoints_for merchantId Test ''payment.paid'') (\<lambda>endpoints.
         bindA (dbb (sandbox_batch intent merchantId ts endpoints)) (\<lambda>ns.
         if 0 < hd ns then getPaymentIntent (i_id intent) else ret None))))"

end
