(* ===== verification/Accounting.thy ===== *)
theory Accounting
  imports Settlement
begin

text \<open>
  The accounting invariant of the payments database and the relation along which it evolves: what
  every operation of the repositories keeps at every moment, whatever other requests do between two
  of its awaited calls.  The last part interprets the rely/guarantee rules with them.
\<close>

subsection \<open>Status machines\<close>

definition attempt_next :: "attempt_status \<Rightarrow> attempt_status \<Rightarrow> bool" where
  "attempt_next s s' \<longleftrightarrow> s' = s \<or>
     (s = Reserved \<and> s' \<in> {Submitted, Processing, Paid, Overpaid, Expired, Canceled}) \<or>
     (s = Submitted \<and> s' \<in> {Processing, Paid, Overpaid, Expired}) \<or>
     (s = Processing \<and> s' \<in> {Paid, Overpaid})"

definition intent_next :: "intent_status \<Rightarrow> intent_status \<Rightarrow> bool" where
  "intent_next s s' \<longleftrightarrow> s' = s \<or>
     (s = AwaitingPayment \<and> s' \<in> {IntentPaid, IntentOverpaid, IntentCanceled}) \<or>
     (s = IntentCanceled \<and> s' \<in> {IntentPaid, IntentOverpaid}) \<or>
     (s = IntentPaid \<and> s' = IntentOverpaid)"

locale status_machine =
  fixes next_status :: "'s \<Rightarrow> 's \<Rightarrow> bool" and final :: "'s \<Rightarrow> bool"
  assumes next_refl: "next_status s s"
    and next_trans: "next_status s1 s2 \<Longrightarrow> next_status s2 s3 \<Longrightarrow> next_status s1 s3"
    and next_antisym: "next_status s s' \<Longrightarrow> next_status s' s \<Longrightarrow> s = s'"
    and final_next: "final s \<Longrightarrow> next_status s s' \<Longrightarrow> s' = s"
begin

lemma final_forever: "next_status\<^sup>*\<^sup>* s s' \<Longrightarrow> final s \<Longrightarrow> s' = s"
  by (induction rule: rtranclp_induct) (auto dest: final_next)

lemma reach_next: "next_status\<^sup>*\<^sup>* s s' \<Longrightarrow> next_status s s'"
  by (induction rule: rtranclp_induct) (auto intro: next_refl next_trans)

lemma no_return: "next_status s s' \<Longrightarrow> s' \<noteq> s \<Longrightarrow> \<not> next_status s' s"
  using next_antisym by blast

end

definition attempt_final :: "attempt_status \<Rightarrow> bool" where
  "attempt_final s \<longleftrightarrow> s \<in> {Paid, Overpaid, Failed, Expired, Canceled}"

interpretation attempts: status_machine attempt_next attempt_final
  by unfold_locales (auto simp: attempt_next_def attempt_final_def)

interpretation intents: status_machine intent_next "\<lambda>s. s = IntentOverpaid"
  by unfold_locales (auto simp: intent_next_def)

subsection \<open>How rows evolve\<close>

definition attempt_terms :: "attempt_row \<Rightarrow> attempt_core" where
  "attempt_terms a = (attempt_core.truncate a)\<lparr>a_status := Reserved, a_userOpHash := None,
     a_sourceTxHash := None, a_destinationTxHash := None, a_settledAmountAtomic := 0, a_updatedAt := 0\<rparr>"

definition kept :: "'a option \<Rightarrow> 'a option \<Rightarrow> bool" where
  "kept x y \<longleftrightarrow> x = None \<or> y = x"

definition attempt_step :: "attempt_row \<Rightarrow> attempt_row \<Rightarrow> bool" where
  "attempt_step a a' \<longleftrightarrow> attempt_terms a' = attempt_terms a \<and> ar_idempotencyKey a' = ar_idempotencyKey a \<and>
     attempt_next (a_status a) (a_status a') \<and>
     (settled_status (a_status a) \<longrightarrow> a_settledAmountAtomic a' = a_settledAmountAtomic a) \<and>
     kept (a_userOpHash a) (a_userOpHash a') \<and> kept (a_sourceTxHash a) (a_sourceTxHash a') \<and>
     kept (a_destinationTxHash a) (a_destinationTxHash a')"

definition intent_terms :: "intent_row \<Rightarrow> payment_intent" where
  "intent_terms i = (payment_intent.truncate i)\<lparr>i_amount := [], i_amountAtomic := 0,
     i_status := AwaitingPayment, i_paidAmountAtomic := 0, i_paidTxHash := None, i_paidAt := None,
     i_updatedAt := 0\<rparr>"

definition intent_step :: "intent_row \<Rightarrow> intent_row \<Rightarrow> bool" where
  "intent_step i i' \<longleftrightarrow> intent_terms i' = intent_terms i \<and> ir_idempotencyKey i' = ir_idempotencyKey i \<and>
     intent_next (i_status i) (i_status i') \<and> i_paidAmountAtomic i \<le> i_paidAmountAtomic i' \<and>
     (i_amountMode i = Fixed \<or> 0 < i_paidAmountAtomic i \<longrightarrow> i_amountAtomic i' = i_amountAtomic i)"

definition pay_R :: "pdb \<Rightarrow> pdb \<Rightarrow> bool" where
  "pay_R d d' \<longleftrightarrow> grows attempt_step (db_attempts d) (db_attempts d') \<and>
     grows intent_step (db_intents d) (db_intents d') \<and> grows (=) (db_commits d) (db_commits d')"

lemma kept_simps [simp]: "kept x x" "kept None y" "kept x (coalesce x y)"
  by (auto simp: kept_def coalesce_def split: option.splits)

lemma attempt_terms_ids:
  assumes "attempt_terms a' = attempt_terms a"
  shows "a_id a' = a_id a" "a_intentId a' = a_intentId a"
    "a_settlementAmountAtomic a' = a_settlementAmountAtomic a"
  using assms by (auto simp: attempt_terms_def attempt_core.truncate_def)

lemma intent_terms_ids:
  assumes "intent_terms i' = intent_terms i"
  shows "i_id i' = i_id i" "i_merchantId i' = i_merchantId i" "i_amountMode i' = i_amountMode i"
    "i_mode i' = i_mode i"
  using assms by (auto simp: intent_terms_def payment_intent.truncate_def)

lemma attempt_step_refl: "attempt_step a a"
  by (simp add: attempt_step_def attempts.next_refl)

lemma attempt_step_trans:
  assumes "attempt_step a b" and "attempt_step b c"
  shows "attempt_step a c"
proof -
  have nx: "attempt_next (a_status a) (a_status b)" "attempt_next (a_status b) (a_status c)"
    using assms by (auto simp only: attempt_step_def)
  have "settled_status (a_status a) \<Longrightarrow> a_status b = a_status a"
    using attempts.final_next [OF _ nx(1)] by (auto simp: attempt_final_def settled_status_def)
  then show ?thesis
    using assms attempts.next_trans [OF nx] by (simp add: attempt_step_def kept_def) metis
qed

lemma intent_step_refl: "intent_step i i"
  by (simp add: intent_step_def intents.next_refl)

lemma intent_step_trans:
  assumes "intent_step a b" and "intent_step b c"
  shows "intent_step a c"
proof -
  have nx: "intent_next (i_status a) (i_status b)" "intent_next (i_status b) (i_status c)"
    and tm: "intent_terms b = intent_terms a"
    using assms by (auto simp only: intent_step_def)
  show ?thesis
    using assms intents.next_trans [OF nx] intent_terms_ids(3) [OF tm]
    by (simp add: intent_step_def)
qed

lemma pay_R_refl: "pay_R d d"
  by (simp add: pay_R_def grows_refl attempt_step_refl intent_step_refl)

lemma grows_attempts_trans:
  "grows attempt_step as bs \<Longrightarrow> grows attempt_step bs cs \<Longrightarrow> grows attempt_step as cs"
  by (rule grows_trans [of attempt_step as bs cs]) (auto intro: attempt_step_trans)

lemma grows_intents_trans:
  "grows intent_step as bs \<Longrightarrow> grows intent_step bs cs \<Longrightarrow> grows intent_step as cs"
  by (rule grows_trans [of intent_step as bs cs]) (auto intro: intent_step_trans)

lemma grows_eq_trans: "grows (=) as bs \<Longrightarrow> grows (=) bs cs \<Longrightarrow> grows (=) as cs"
  by (rule grows_trans [of "(=)" as bs cs]) auto

lemma pay_R_trans: "pay_R d1 d2 \<Longrightarrow> pay_R d2 d3 \<Longrightarrow> pay_R d1 d3"
  unfolding pay_R_def
  by (blast intro: grows_attempts_trans grows_intents_trans grows_eq_trans)

subsection \<open>The invariant\<close>

definition intent_total :: "commit_row list \<Rightarrow> string \<Rightarrow> int" where
  "intent_total cs x = sum_list (map sc_settled (filter (\<lambda>c. sc_intentId c = x) cs))"

definition commit_ok :: "attempt_row list \<Rightarrow> commit_row \<Rightarrow> bool" where
  "commit_ok as c \<longleftrightarrow> 0 < sc_settled c \<and> 0 \<le> sc_previousPaid c \<and>
     sc_resultingPaid c = sc_previousPaid c + sc_settled c \<and>
     sc_status c = (if sc_expected c < sc_resultingPaid c then IntentOverpaid else IntentPaid) \<and>
     (\<exists>a \<in> set as. a_id a = sc_attemptId c \<and> a_intentId a = sc_intentId c \<and>
        a_status a = attempt_status_of (sc_status c) \<and> a_settledAmountAtomic a = sc_settled c)"

definition intent_ok :: "commit_row list \<Rightarrow> intent_row \<Rightarrow> bool" where
  "intent_ok cs i \<longleftrightarrow>
     i_status i \<in> {AwaitingPayment, IntentPaid, IntentOverpaid, IntentCanceled} \<and>
     (i_status i \<in> {AwaitingPayment, IntentCanceled} \<longrightarrow>
        i_paidAmountAtomic i = 0 \<and> intent_total cs (i_id i) = 0) \<and>
     (i_status i = IntentOverpaid \<longrightarrow> i_amountAtomic i < i_paidAmountAtomic i) \<and>
     (i_status i = IntentPaid \<longrightarrow> i_paidAmountAtomic i \<le> i_amountAtomic i) \<and>
     (i_amountMode i = Fixed \<longrightarrow> 0 \<le> i_amountAtomic i) \<and>
     (i_amountMode i = PayerDefined \<and> i_paidAmountAtomic i = 0 \<longrightarrow> i_amountAtomic i = 0) \<and>
     (i_paidAmountAtomic i = intent_total cs (i_id i) \<or>
      (i_mode i = Test \<and> i_amountMode i = Fixed \<and>
       i_paidAmountAtomic i = i_amountAtomic i + intent_total cs (i_id i)))"

fun link_status_of :: "intent_status \<Rightarrow> link_status" where
  "link_status_of AwaitingPayment = LinkPending"
| "link_status_of IntentPaid = LinkPaid"
| "link_status_of IntentOverpaid = LinkPaid"
| "link_status_of IntentCanceled = LinkCanceled"
| "link_status_of _ = LinkExpired"

definition find_intent :: "string \<Rightarrow> intent_row list \<Rightarrow> intent_row option" where
  "find_intent x is = find (\<lambda>i. i_id i = x) is"

definition link_ok :: "intent_row list \<Rightarrow> payment_link \<Rightarrow> bool" where
  "link_ok is l \<longleftrightarrow> (case find_intent (l_intentId l) is of None \<Rightarrow> False
     | Some i \<Rightarrow> l_status l = link_status_of (i_status i))"

definition accounts_ok ::
    "intent_row list \<Rightarrow> payment_link list \<Rightarrow> attempt_row list \<Rightarrow> commit_row list \<Rightarrow> bool" where
  "accounts_ok is ls as cs \<longleftrightarrow>
     distinct (map i_id is) \<and> distinct (map a_id as) \<and> distinct (map sc_attemptId cs) \<and>
     distinct (map sc_commitId cs) \<and>
     (\<forall>c \<in> set cs. commit_ok as c) \<and>
     (\<forall>a \<in> set as. settled_status (a_status a) \<longrightarrow> (\<exists>c \<in> set cs. sc_attemptId c = a_id a)) \<and>
     (\<forall>a \<in> set as. a_intentId a \<in> i_id ` set is) \<and>
     (\<forall>i \<in> set is. intent_ok cs i) \<and>
     (\<forall>l \<in> set ls. link_ok is l)"

definition pay_inv :: "pdb \<Rightarrow> bool" where
  "pay_inv d \<longleftrightarrow> accounts_ok (db_intents d) (db_links d) (db_attempts d) (db_commits d)"

definition fresh_commit :: "string \<Rightarrow> pdb \<Rightarrow> bool" where
  "fresh_commit u d \<longleftrightarrow> (\<forall>c \<in> set (db_commits d). sc_commitId c \<noteq> ''stc_'' @ u)"

text \<open>The UUIDs still to be drawn are distinct and name no commit: what \<open>crypto.randomUUID\<close> promises.\<close>

definition pay_I :: "pdb invariant" where
  "pay_I g k d \<longleftrightarrow> pay_inv d \<and> inj g \<and> (\<forall>j. k \<le> j \<longrightarrow> fresh_commit (g j) d)"

interpretation pay: rely_guarantee pay_I pay_R
  by unfold_locales (auto simp: pay_I_def intro: pay_R_refl pay_R_trans)

lemma empty_db_inv: "pay_inv empty_db"
  by (simp add: pay_inv_def accounts_ok_def empty_db_def)

subsection \<open>Statements that keep the accounts\<close>

text \<open>\<open>keeps s\<close>: the statement or batch keeps the invariant and the commits, and evolves along \<open>pay_R\<close>.\<close>

definition keeps :: "(pdb \<Rightarrow> (pdb \<times> 'n) option) \<Rightarrow> bool" where
  "keeps s \<longleftrightarrow> (\<forall>d d' n. pay_inv d \<longrightarrow> s d = Some (d', n) \<longrightarrow>
     pay_inv d' \<and> pay_R d d' \<and> db_commits d' = db_commits d)"

definition same_accounts :: "pdb \<Rightarrow> pdb \<Rightarrow> bool" where
  "same_accounts d d' \<longleftrightarrow> db_intents d' = db_intents d \<and> db_links d' = db_links d \<and>
     db_attempts d' = db_attempts d \<and> db_commits d' = db_commits d"

lemma keepsI:
  assumes "\<And>d d' n. pay_inv d \<Longrightarrow> s d = Some (d', n) \<Longrightarrow>
    pay_inv d' \<and> pay_R d d' \<and> db_commits d' = db_commits d"
  shows "keeps s"
  unfolding keeps_def using assms by blast

lemma keepsD:
  assumes "keeps s" and "pay_inv d" and "s d = Some (d', n)"
  shows "pay_inv d'" and "pay_R d d'" and "db_commits d' = db_commits d"
  using assms unfolding keeps_def by blast+

lemma keeps_same:
  assumes "\<And>d d' n. s d = Some (d', n) \<Longrightarrow> same_accounts d d'"
  shows "keeps s"
proof (rule keepsI)
  fix d d' n assume "pay_inv d" "s d = Some (d', n)"
  then have same: "same_accounts d d'" and inv: "pay_inv d" using assms by blast+
  have "pay_R d d'" using same pay_R_refl [of d] by (simp only: pay_R_def same_accounts_def)
  then show "pay_inv d' \<and> pay_R d d' \<and> db_commits d' = db_commits d"
    using same inv by (simp only: pay_inv_def same_accounts_def)
qed

lemma keeps_stmt_ok:
  assumes "keeps s"
  shows "pay.stmt_ok s"
  unfolding pay.stmt_ok_def
proof (intro allI impI)
  fix g k d d' n
  assume "pay_I g k d" "s d = Some (d', n)"
  then show "pay_I g k d' \<and> pay_R d d'"
    using keepsD [OF assms, of d d' n] by (simp add: pay_I_def fresh_commit_def)
qed

lemma keeps_batch:
  assumes "\<And>s. s \<in> set ss \<Longrightarrow> keeps s"
  shows "keeps (batch ss)"
  using assms
proof (induction ss)
  case Nil
  show ?case by (rule keeps_same) (simp add: same_accounts_def)
next
  case (Cons s ss)
  then have ok: "keeps s" "keeps (batch ss)" by auto
  show ?case
  proof (rule keepsI)
    fix d d' ns
    assume d: "pay_inv d" and run: "batch (s # ss) d = Some (d', ns)"
    then obtain d1 n1 n2 where s: "s d = Some (d1, n1)" and b: "batch ss d1 = Some (d', n2)"
      by (auto split: option.splits)
    note 1 = keepsD [OF ok(1) d s]
    note 2 = keepsD [OF ok(2) 1(1) b]
    show "pay_inv d' \<and> pay_R d d' \<and> db_commits d' = db_commits d"
      using 1 2 pay_R_trans [OF 1(2) 2(2)] by simp
  qed
qed

lemma batch_append:
  "batch (ss @ ts) d = (case batch ss d of None \<Rightarrow> None
     | Some (d1, ns) \<Rightarrow> (case batch ts d1 of None \<Rightarrow> None | Some (d2, ms) \<Rightarrow> Some (d2, ns @ ms)))"
  by (induction ss arbitrary: d) (auto split: option.splits prod.splits)

lemma keeps_append:
  assumes "keeps (batch ss)" and "keeps (batch ts)"
  shows "keeps (batch (ss @ ts))"
proof (rule keepsI)
  fix d d' ns
  assume d: "pay_inv d" and run: "batch (ss @ ts) d = Some (d', ns)"
  then obtain d1 n1 n2 where s: "batch ss d = Some (d1, n1)" and b: "batch ts d1 = Some (d', n2)"
    by (auto simp: batch_append split: option.splits prod.splits)
  note 1 = keepsD [OF assms(1) d s]
  note 2 = keepsD [OF assms(2) 1(1) b]
  show "pay_inv d' \<and> pay_R d d' \<and> db_commits d' = db_commits d"
    using 1 2 pay_R_trans [OF 1(2) 2(2)] by simp
qed

lemma checked_SomeD: "checked C s d = Some (d', n) \<Longrightarrow> s d = (d', n) \<and> C d'"
  by (auto simp: checked_def split: if_splits)

lemma or_ignore_SomeD: "or_ignore C fk s d = Some (d', n) \<Longrightarrow> (s d = (d', n) \<and> C d') \<or> (d' = d \<and> n = 0)"
  by (auto simp: or_ignore_def split: if_splits)

lemma plain_SomeD: "plain s d = Some (d', n) \<Longrightarrow> s d = (d', n)"
  by (simp add: plain_def)

lemmas stmt_SomeD = checked_SomeD or_ignore_SomeD plain_SomeD

text \<open>Statements on the other tables.\<close>

lemma keeps_event [intro]: "keeps (checked C (insert_event r))" "keeps (or_ignore C fk (insert_event r))"
  by (rule keeps_same; auto dest!: stmt_SomeD simp: insert_event_def same_accounts_def)+

lemma keeps_outbox [intro]: "keeps (checked C (insert_outbox r))" "keeps (or_ignore C fk (insert_outbox r))"
  by (rule keeps_same; auto dest!: stmt_SomeD simp: insert_outbox_def same_accounts_def)+

lemma keeps_delivery [intro]: "keeps (or_ignore C fk (insert_delivery r))"
  by (rule keeps_same; auto dest!: stmt_SomeD simp: insert_delivery_def same_accounts_def)+

lemma keeps_fee [intro]: "keeps (insert_fee r)"
  unfolding insert_fee_def by (rule keeps_same; auto dest!: stmt_SomeD simp: same_accounts_def)

lemma keeps_quote [intro]: "keeps (insert_quote_stmt q)"
  unfolding insert_quote_stmt_def by (rule keeps_same; auto dest!: stmt_SomeD simp: same_accounts_def)

lemma keeps_charge [intro]: "keeps (charge_line a ty n tx ts)"
  unfolding charge_line_def Let_def by (rule keeps_same; auto dest!: stmt_SomeD simp: same_accounts_def)

lemma keeps_merchant [intro]:
  "keeps (insert_merchant m)" "keeps (update_merchant_account i inp ts)" "keeps (insert_account_command c)"
  unfolding insert_merchant_def update_merchant_account_def insert_account_command_def Let_def
  by (rule keeps_same; auto dest!: stmt_SomeD simp: same_accounts_def)+

lemma keeps_subscribed [intro]: "keeps (insert_subscribed_deliveries e m md ty ts)"
proof (rule keepsI)
  fix d d' n
  assume inv: "pay_inv d" and run: "insert_subscribed_deliveries e m md ty ts d = Some (d', n)"
  have k: "keeps (batch (map (\<lambda>x. let r = delivery_for e (ep_id x) ts in
      or_ignore deliveries_unique (delivery_fk r) (insert_delivery r))
      (filter (subscribed m md ty) (db_endpoints d))))"
    by (rule keeps_batch) (auto simp: Let_def)
  obtain ns where "batch (map (\<lambda>x. let r = delivery_for e (ep_id x) ts in
      or_ignore deliveries_unique (delivery_fk r) (insert_delivery r))
      (filter (subscribed m md ty) (db_endpoints d))) d = Some (d', ns)"
    using run unfolding insert_subscribed_deliveries_def by (auto split: option.splits prod.splits)
  from keepsD [OF k inv this]
  show "pay_inv d' \<and> pay_R d d' \<and> db_commits d' = db_commits d" by simp
qed

subsection \<open>Attempts\<close>

lemma find_intent_Some: "find_intent x is = Some i \<Longrightarrow> i \<in> set is \<and> i_id i = x"
  unfolding find_intent_def by (drule find_SomeD) simp

lemma intent_total_append:
  "intent_total (cs @ [c]) x = intent_total cs x + (if sc_intentId c = x then sc_settled c else 0)"
  by (simp add: intent_total_def)

lemma map_id_upd: "(\<And>r. k (f r) = k r) \<Longrightarrow> map k (upd p f rs) = map k rs"
  by (simp add: map_upd)

text \<open>An update of attempts that settles none and leaves settled ones alone.\<close>

definition unsettling :: "(attempt_row \<Rightarrow> attempt_row) \<Rightarrow> attempt_row \<Rightarrow> bool" where
  "unsettling f a \<longleftrightarrow> attempt_step a (f a) \<and>
     (settled_status (a_status a) \<longrightarrow> a_status (f a) = a_status a) \<and>
     (settled_status (a_status (f a)) \<longrightarrow> settled_status (a_status a))"

lemma keeps_attempts:
  assumes "\<And>a. p a \<Longrightarrow> unsettling f a"
  shows "keeps (update_attempts p f)"
proof (rule keepsI)
  fix d d' n
  assume inv: "pay_inv d" and "update_attempts p f d = Some (d', n)"
  then have upd: "d' = d\<lparr>db_attempts := upd p f (db_attempts d)\<rparr>"
    by (auto simp: update_attempts_def dest!: stmt_SomeD)
  define h where "h a = (if p a then f a else a)" for a
  have d': "d' = d\<lparr>db_attempts := map h (db_attempts d)\<rparr>" using upd by (simp add: upd_def h_def [abs_def])
  have un: "unsettling h a" for a
  proof (cases "p a")
    case True
    then show ?thesis using assms [OF True] unfolding unsettling_def h_def by (simp only: if_True) blast
  next
    case False
    then show ?thesis using attempt_step_refl [of a] unfolding unsettling_def h_def by simp
  qed
  then have st: "attempt_step a (h a)" for a unfolding unsettling_def by blast
  have ids [simp]: "a_id (h a) = a_id a" "a_intentId (h a) = a_intentId a" for a
  proof -
    have "attempt_terms (h a) = attempt_terms a" using st [of a] unfolding attempt_step_def by blast
    then show "a_id (h a) = a_id a" "a_intentId (h a) = a_intentId a"
      by (rule attempt_terms_ids(1), rule attempt_terms_ids(2))
  qed
  have commit: "commit_ok (map h (db_attempts d)) c" if ok: "commit_ok (db_attempts d) c" for c
  proof -
    obtain a where a: "a \<in> set (db_attempts d)" "a_id a = sc_attemptId c" "a_intentId a = sc_intentId c"
        "a_status a = attempt_status_of (sc_status c)" "a_settledAmountAtomic a = sc_settled c"
      using ok unfolding commit_ok_def by blast
    then have se: "settled_status (a_status a)" by (simp add: attempt_status_of_def settled_status_def)
    have "a_status (h a) = a_status a" using un [of a] se unfolding unsettling_def by blast
    moreover have "a_settledAmountAtomic (h a) = a_settledAmountAtomic a"
      using st [of a] se unfolding attempt_step_def by blast
    ultimately have "h a \<in> set (map h (db_attempts d)) \<and> a_id (h a) = sc_attemptId c \<and>
        a_intentId (h a) = sc_intentId c \<and> a_status (h a) = attempt_status_of (sc_status c) \<and>
        a_settledAmountAtomic (h a) = sc_settled c"
      using a by simp
    then show ?thesis using ok unfolding commit_ok_def by blast
  qed
  have "accounts_ok (db_intents d) (db_links d) (map h (db_attempts d)) (db_commits d)"
    unfolding accounts_ok_def
  proof (intro conjI ballI impI)
    show "distinct (map a_id (map h (db_attempts d)))"
      using inv by (simp add: comp_def pay_inv_def accounts_ok_def)
  next
    fix a assume "a \<in> set (map h (db_attempts d))" and s: "settled_status (a_status a)"
    then obtain b where b: "b \<in> set (db_attempts d)" "a = h b" by auto
    then have "settled_status (a_status b)" using un [of b] s unfolding unsettling_def by blast
    then show "\<exists>c \<in> set (db_commits d). sc_attemptId c = a_id a"
      using inv b by (simp add: pay_inv_def accounts_ok_def)
  next
    fix a assume "a \<in> set (map h (db_attempts d))"
    then show "a_intentId a \<in> i_id ` set (db_intents d)"
      using inv by (auto simp: pay_inv_def accounts_ok_def)
  qed (use inv commit in \<open>simp_all add: pay_inv_def accounts_ok_def\<close>)
  then have "pay_inv d'" by (simp add: d' pay_inv_def)
  moreover have "pay_R d d'"
    using st by (simp add: d' pay_R_def grows_refl intent_step_refl grows_def list_all2_conv_all_nth)
  ultimately show "pay_inv d' \<and> pay_R d d' \<and> db_commits d' = db_commits d" by (simp add: d')
qed

lemmas unsettling_simps = unsettling_def attempt_step_def attempt_terms_def attempt_next_def
  attempt_core.truncate_def settled_status_def active_status_def

lemma keeps_expire:
  assumes "st = Reserved \<or> st = Submitted"
  shows "keeps (expire_stmt x st before ts)"
  unfolding expire_stmt_def by (rule keeps_attempts) (use assms in \<open>auto simp: unsettling_simps\<close>)

lemma keeps_insert_attempt:
  assumes "a_status r = Reserved"
  shows "keeps (insert_attempt_stmt r)"
proof (rule keepsI)
  fix d d' n
  assume inv: "pay_inv d" and run: "insert_attempt_stmt r d = Some (d', n)"
  then have d': "d' = d\<lparr>db_attempts := db_attempts d @ [r]\<rparr>" and u: "attempts_unique d'"
    and fk: "intent_exists (a_intentId r) d'"
    by (auto simp: insert_attempt_stmt_def split: if_splits dest!: stmt_SomeD)
  have commit: "commit_ok (db_attempts d @ [r]) c" if "commit_ok (db_attempts d) c" for c
  proof -
    have "set (db_attempts d) \<subseteq> set (db_attempts d @ [r])" by auto
    then show ?thesis using that unfolding commit_ok_def by blast
  qed
  have "accounts_ok (db_intents d) (db_links d) (db_attempts d @ [r]) (db_commits d)"
    unfolding accounts_ok_def
  proof (intro conjI ballI impI)
    show "distinct (map a_id (db_attempts d @ [r]))" using u by (simp add: d' attempts_unique_def)
  next
    fix a assume a: "a \<in> set (db_attempts d @ [r])" and s: "settled_status (a_status a)"
    have "a \<noteq> r" using s assms by (auto simp: settled_status_def)
    then show "\<exists>c \<in> set (db_commits d). sc_attemptId c = a_id a"
      using inv a s by (simp add: pay_inv_def accounts_ok_def)
  next
    fix a assume "a \<in> set (db_attempts d @ [r])"
    then show "a_intentId a \<in> i_id ` set (db_intents d)"
    proof (cases "a = r")
      case True
      then show ?thesis using fk by (auto simp: intent_exists_def d' list_ex_iff intro!: rev_image_eqI)
    next
      case False
      then show ?thesis
        using inv \<open>a \<in> set (db_attempts d @ [r])\<close> by (simp add: pay_inv_def accounts_ok_def)
    qed
  qed (use inv commit in \<open>simp_all add: pay_inv_def accounts_ok_def\<close>)
  then have "pay_inv d'" by (simp add: d' pay_inv_def)
  then show "pay_inv d' \<and> pay_R d d' \<and> db_commits d' = db_commits d"
    by (simp add: d' pay_R_def grows_append grows_refl attempt_step_refl intent_step_refl)
qed

lemma new_attempt_row_status [simp]: "a_status (new_attempt_row a key access) = Reserved"
  by (simp add: new_attempt_row_def attempt_core.extend_def attempt_row.fields_def)

lemma keeps_ledger [intro]: "s \<in> set (feeLedgerStatements a) \<Longrightarrow> keeps s"
  by (auto simp: feeLedgerStatements_def)

subsection \<open>Intents and links\<close>

lemma find_intent_append:
  "find_intent x (is @ [i]) = (case find_intent x is of Some j \<Rightarrow> Some j
     | None \<Rightarrow> if i_id i = x then Some i else None)"
  unfolding find_intent_def by (induction "is") auto

lemma find_intent_None: "find_intent x is = None \<longleftrightarrow> x \<notin> i_id ` set is"
  unfolding find_intent_def by (induction "is") auto

lemma find_intent_map:
  assumes "\<And>i. i_id (h i) = i_id i"
  shows "find_intent x (map h is) = map_option h (find_intent x is)"
  using assms unfolding find_intent_def by (induction "is") auto

lemma intent_total_0: "x \<notin> sc_intentId ` set cs \<Longrightarrow> intent_total cs x = 0"
proof -
  assume "x \<notin> sc_intentId ` set cs"
  then have "filter (\<lambda>c. sc_intentId c = x) cs = []" by (auto simp: filter_empty_conv)
  then show ?thesis by (simp add: intent_total_def)
qed

lemma commit_intent:
  assumes "accounts_ok is ls as cs" and "c \<in> set cs"
  shows "sc_intentId c \<in> i_id ` set is"
proof -
  have "commit_ok as c" using assms by (simp add: accounts_ok_def)
  then obtain a where "a \<in> set as" "a_intentId a = sc_intentId c" unfolding commit_ok_def by blast
  then show ?thesis using assms(1) unfolding accounts_ok_def by metis
qed

text \<open>Rows of intents and links change together, with the same ids.\<close>

lemma accounts_ok_map:
  assumes inv: "accounts_ok is ls as cs"
    and ids: "\<And>i. i_id (h i) = i_id i"
    and ok: "\<And>i. i \<in> set is \<Longrightarrow> intent_ok cs i \<Longrightarrow> intent_ok cs (h i)"
    and links: "\<And>l i. l \<in> set ls \<Longrightarrow> find_intent (l_intentId l) is = Some i \<Longrightarrow>
      l_status l = link_status_of (i_status i) \<Longrightarrow>
      l_intentId (k l) = l_intentId l \<and> l_status (k l) = link_status_of (i_status (h i))"
  shows "accounts_ok (map h is) (map k ls) as cs"
  unfolding accounts_ok_def
proof (intro conjI ballI impI)
  show "distinct (map i_id (map h is))" using inv ids by (simp add: comp_def accounts_ok_def)
next
  fix a assume "a \<in> set as"
  then show "a_intentId a \<in> i_id ` set (map h is)"
    using inv ids by (simp add: accounts_ok_def image_image)
next
  fix i assume "i \<in> set (map h is)"
  then show "intent_ok cs i" using inv ok by (auto simp: accounts_ok_def)
next
  fix l assume "l \<in> set (map k ls)"
  then obtain l' where l': "l' \<in> set ls" "l = k l'" by auto
  then have "link_ok is l'" using inv by (simp add: accounts_ok_def)
  then obtain i where i: "find_intent (l_intentId l') is = Some i" "l_status l' = link_status_of (i_status i)"
    unfolding link_ok_def by (auto split: option.splits)
  show "link_ok (map h is) l"
    using links [OF l'(1) i] i ids l'(2) by (simp add: link_ok_def find_intent_map)
qed (use inv in \<open>simp_all add: accounts_ok_def\<close>)

text \<open>A new intent that awaits payment, with its pending link.\<close>

lemma accounts_ok_new:
  assumes inv: "accounts_ok is ls as cs" and new: "i_id i \<notin> i_id ` set is"
    and i: "i_status i = AwaitingPayment" "i_paidAmountAtomic i = 0"
    and amount: "if i_amountMode i = Fixed then 0 \<le> i_amountAtomic i else i_amountAtomic i = 0"
    and l: "l_intentId l = i_id i" "l_status l = LinkPending"
  shows "accounts_ok (is @ [i]) (ls @ [l]) as cs"
  unfolding accounts_ok_def
proof (intro conjI ballI impI)
  show "distinct (map i_id (is @ [i]))" using inv new by (auto simp: accounts_ok_def)
next
  fix a assume "a \<in> set as"
  then show "a_intentId a \<in> i_id ` set (is @ [i])" using inv by (auto simp: accounts_ok_def)
next
  fix j assume j: "j \<in> set (is @ [i])"
  have "intent_total cs (i_id i) = 0"
    using commit_intent [OF inv] new by (intro intent_total_0) auto
  then have "intent_ok cs i" using i amount by (auto simp: intent_ok_def split: if_splits)
  then show "intent_ok cs j" using inv j by (auto simp: accounts_ok_def)
next
  fix m assume m: "m \<in> set (ls @ [l])"
  have "find_intent (i_id i) is = None" using new by (simp add: find_intent_None)
  then have "link_ok (is @ [i]) l" using i l by (simp add: link_ok_def find_intent_append)
  moreover have "link_ok (is @ [i]) m" if "link_ok is m"
    using that by (auto simp: link_ok_def find_intent_append split: option.splits)
  ultimately show "link_ok (is @ [i]) m" using inv m by (auto simp: accounts_ok_def)
qed (use inv in \<open>simp_all add: accounts_ok_def\<close>)

lemma list_ex_id:
  assumes "distinct (map i_id is)" and "find_intent x is = Some i"
  shows "list_ex (\<lambda>r. i_id r = x \<and> P r) is = P i"
proof -
  have i: "i \<in> set is" "i_id i = x" using find_intent_Some [OF assms(2)] by auto
  have "r = i" if "r \<in> set is" "i_id r = x" for r
    using key_unique [OF assms(1) that(1) i(1)] that(2) i(2) by simp
  then show ?thesis unfolding list_ex_iff using i by blast
qed

lemma upd_map: "upd p f rs = map (\<lambda>r. if p r then f r else r) rs"
  by (simp add: upd_def)

text \<open>From new rows of intents and links to the database.\<close>

lemma pay_inv_rows:
  assumes inv: "pay_inv d" and cs: "db_commits d' = db_commits d" and as: "db_attempts d' = db_attempts d"
    and ok: "accounts_ok (db_intents d') (db_links d') (db_attempts d) (db_commits d)"
    and gr: "grows intent_step (db_intents d) (db_intents d')"
  shows "pay_inv d' \<and> pay_R d d' \<and> db_commits d' = db_commits d"
  using assms by (simp add: pay_inv_def pay_R_def grows_refl attempt_step_refl)

lemma grows_map: "(\<And>r. r \<in> set rs \<Longrightarrow> step r (h r)) \<Longrightarrow> grows step rs (map h rs)"
  by (auto simp: grows_def list_all2_conv_all_nth)

definition create_ok :: "create_input \<Rightarrow> bool" where
  "create_ok inp \<longleftrightarrow> (if ci_amountMode inp = Some PayerDefined then ci_amountAtomic inp = 0
     else 0 \<le> ci_amountAtomic inp)"

lemma not_payer_defined: "am \<noteq> PayerDefined \<longleftrightarrow> am = Fixed"
  by (cases am) auto

lemma keeps_create:
  assumes "create_ok inp"
  shows "keeps (batch (create_batch inp x l ts))"
proof -
  let ?i = "new_intent_row inp x l ts" and ?l = "new_link_row inp x l ts"
  have "keeps (batch [insert_intent ?i, insert_link ?l])"
  proof (rule keepsI)
    fix d d' ns
    assume inv: "pay_inv d" and run: "batch [insert_intent ?i, insert_link ?l] d = Some (d', ns)"
    then obtain d1 n1 n2 where 1: "insert_intent ?i d = Some (d1, n1)" and 2: "insert_link ?l d1 = Some (d', n2)"
      by (auto split: option.splits)
    have d1: "d1 = d\<lparr>db_intents := db_intents d @ [?i]\<rparr>" and u: "intents_unique d1"
      using checked_SomeD [OF 1 [unfolded insert_intent_def]] by auto
    have d': "d' = d1\<lparr>db_links := db_links d1 @ [?l]\<rparr>"
      using checked_SomeD [OF 2 [unfolded insert_link_def]] by auto
    have new: "i_id ?i \<notin> i_id ` set (db_intents d)" using u by (simp add: d1 intents_unique_def)
    have "accounts_ok (db_intents d @ [?i]) (db_links d @ [?l]) (db_attempts d) (db_commits d)"
    proof (rule accounts_ok_new [OF _ new])
      show "accounts_ok (db_intents d) (db_links d) (db_attempts d) (db_commits d)"
        using inv by (simp add: pay_inv_def)
    qed (use assms in \<open>auto simp: new_intent_row_def new_link_row_def create_ok_def not_payer_defined
        split: if_splits option.splits\<close>)
    then show "pay_inv d' \<and> pay_R d d' \<and> db_commits d' = db_commits d"
      by (intro pay_inv_rows [OF inv]) (simp_all add: d' d1 grows_append intent_step_refl)
  qed
  moreover have "keeps (batch [checked (\<lambda>d. events_unique d \<and> merchant_exists (ev_merchantId ev) d) (insert_event ev),
      checked outbox_unique (insert_outbox ob), insert_subscribed_deliveries e m md ty t])" for ev ob e m md ty t
    by (rule keeps_batch) auto
  ultimately have "keeps (batch ([insert_intent ?i, insert_link ?l] @
      [checked (\<lambda>d. events_unique d \<and> merchant_exists (ev_merchantId (created_event inp x ts)) d)
         (insert_event (created_event inp x ts)),
       checked outbox_unique (insert_outbox (outbox_for (ev_id (created_event inp x ts)) ts)),
       insert_subscribed_deliveries (ev_id (created_event inp x ts)) (m_id (ci_merchant inp))
         (ev_mode (created_event inp x ts)) ''payment.created'' ts]))"
    by (rule keeps_append)
  then show ?thesis by (simp only: create_batch_def Let_def append_Cons append_Nil)
qed

lemma keeps_cancel: "keeps (batch (cancel_batch m x ts))"
proof (rule keepsI)
  fix d d' ns
  assume inv: "pay_inv d" and run: "batch (cancel_batch m x ts) d = Some (d', ns)"
  define h where "h i = (if i_id i = x \<and> i_merchantId i = m \<and> i_status i = AwaitingPayment
    then i\<lparr>i_status := IntentCanceled, i_updatedAt := ts\<rparr> else i)" for i :: intent_row
  define k where "k l = (if l_intentId l = x \<and> list_ex (\<lambda>r. i_id r = x \<and> i_status r = IntentCanceled)
      (map h (db_intents d)) then l\<lparr>l_status := LinkCanceled, l_updatedAt := ts\<rparr> else l)" for l :: payment_link
  have d': "db_intents d' = map h (db_intents d)" "db_links d' = map k (db_links d)"
      "db_attempts d' = db_attempts d" "db_commits d' = db_commits d"
    using run by (auto simp: cancel_batch_def Let_def plain_def upd_map h_def [abs_def] k_def [abs_def])
  have acc: "accounts_ok (db_intents d) (db_links d) (db_attempts d) (db_commits d)"
    using inv by (simp add: pay_inv_def)
  then have dist: "distinct (map i_id (db_intents d))" by (simp add: accounts_ok_def)
  have id: "i_id (h i) = i_id i" for i by (simp add: h_def)
  have "accounts_ok (map h (db_intents d)) (map k (db_links d)) (db_attempts d) (db_commits d)"
  proof (rule accounts_ok_map [OF acc id])
    fix i assume "intent_ok (db_commits d) i"
    then show "intent_ok (db_commits d) (h i)" by (auto simp: intent_ok_def h_def)
  next
    fix l :: payment_link and i
    assume f: "find_intent (l_intentId l) (db_intents d) = Some i" and s: "l_status l = link_status_of (i_status i)"
    show "l_intentId (k l) = l_intentId l \<and> l_status (k l) = link_status_of (i_status (h i))"
    proof (cases "l_intentId l = x")
      case False
      then show ?thesis using s find_intent_Some [OF f] by (simp add: k_def h_def)
    next
      case True
      have "list_ex (\<lambda>r. i_id r = x \<and> i_status r = IntentCanceled) (map h (db_intents d)) =
          (i_status (h i) = IntentCanceled)"
        by (rule list_ex_id) (use dist f id True in \<open>simp_all add: comp_def find_intent_map\<close>)
      then show ?thesis using True s by (auto simp: k_def h_def)
    qed
  qed
  moreover have "intent_step i (h i)" for i
    by (auto simp: h_def intent_step_def intent_terms_def intent_next_def payment_intent.truncate_def)
  ultimately show "pay_inv d' \<and> pay_R d d' \<and> db_commits d' = db_commits d"
    by (intro pay_inv_rows [OF inv]) (simp_all add: d' grows_map)
qed

lemma keeps_release: "keeps (batch (release_batch x ts))"
proof -
  let ?before = "floor_sec ts - ATTEMPT_EVIDENCE_GRACE_SECONDS"
  have "keeps s" if mem: "s \<in> set (release_batch x ts)" for s
  proof -
    consider "s = expire_stmt x Reserved ?before ts" | "s = expire_stmt x Submitted ?before ts"
      | "s = release_batch x ts ! 2" | "s = release_batch x ts ! 3"
      using mem by (auto simp: release_batch_def Let_def)
    then show ?thesis
    proof cases
      case 1 then show ?thesis using keeps_expire by blast
    next
      case 2 then show ?thesis using keeps_expire by blast
    next
      case 3
      show ?thesis
      proof (rule keepsI)
        fix d d' n assume inv: "pay_inv d" and run: "s d = Some (d', n)"
        define p where "p i \<longleftrightarrow> i_id i = x \<and> i_amountMode i = PayerDefined \<and> i_status i = AwaitingPayment \<and>
          \<not> list_ex (\<lambda>a. a_intentId a = x \<and> active_status (a_status a)) (db_attempts d)" for i :: intent_row
        define h where "h i = (if p i then i\<lparr>i_amount := ''0'', i_amountAtomic := 0, i_updatedAt := ts\<rparr> else i)" for i
        have d': "d' = d\<lparr>db_intents := map h (db_intents d)\<rparr>"
          using run 3 by (auto simp: release_batch_def Let_def plain_def upd_map h_def [abs_def] p_def [abs_def])
        have "accounts_ok (map h (db_intents d)) (map (\<lambda>l. l) (db_links d)) (db_attempts d) (db_commits d)"
        proof (rule accounts_ok_map)
          show "accounts_ok (db_intents d) (db_links d) (db_attempts d) (db_commits d)"
            using inv by (simp add: pay_inv_def)
        qed (auto simp: h_def p_def intent_ok_def)
        moreover have "intent_step i (h i)" if "i \<in> set (db_intents d)" for i
        proof -
          have "intent_ok (db_commits d) i" using inv that by (simp add: pay_inv_def accounts_ok_def)
          then show ?thesis
            by (auto simp: h_def p_def intent_ok_def intent_step_def intent_terms_def intent_next_def
                payment_intent.truncate_def)
        qed
        ultimately show "pay_inv d' \<and> pay_R d d' \<and> db_commits d' = db_commits d"
          by (intro pay_inv_rows [OF inv]) (simp_all add: d' grows_map)
      qed
    next
      case 4
      show ?thesis
      proof (rule keepsI)
        fix d d' n assume inv: "pay_inv d" and run: "s d = Some (d', n)"
        define k where "k l = (if l_intentId l = x \<and> list_ex (\<lambda>i. i_id i = x \<and> i_amountMode i = PayerDefined \<and>
            i_amountAtomic i = 0) (db_intents d) then l\<lparr>l_amount := ''0'', l_updatedAt := ts\<rparr> else l)"
          for l :: payment_link
        have d': "d' = d\<lparr>db_links := map k (db_links d)\<rparr>"
          using run 4 by (auto simp: release_batch_def Let_def plain_def upd_map k_def [abs_def])
        have "accounts_ok (map (\<lambda>i. i) (db_intents d)) (map k (db_links d)) (db_attempts d) (db_commits d)"
        proof (rule accounts_ok_map)
          show "accounts_ok (db_intents d) (db_links d) (db_attempts d) (db_commits d)"
            using inv by (simp add: pay_inv_def)
        qed (auto simp: k_def)
        then show "pay_inv d' \<and> pay_R d d' \<and> db_commits d' = db_commits d"
          by (intro pay_inv_rows [OF inv]) (simp_all add: d' grows_refl intent_step_refl)
      qed
    qed
  qed
  then show ?thesis by (rule keeps_batch)
qed

text \<open>A sandbox payment, of an intent that is a test intent of the merchant.\<close>

definition sandbox_target :: "string \<Rightarrow> string \<Rightarrow> pdb \<Rightarrow> bool" where
  "sandbox_target m x d \<longleftrightarrow> (\<exists>i \<in> set (db_intents d). i_id i = x \<and> i_merchantId i = m \<and> i_mode i = Test)"

lemma sandbox_pair:
  fixes x m tx :: string and ts :: int
  defines "p \<equiv> \<lambda>i::intent_row. i_id i = x \<and> i_merchantId i = m \<and> i_mode i = Test \<and> i_status i = AwaitingPayment"
    and "q \<equiv> \<lambda>l::payment_link. l_intentId l = x \<and> l_status l = LinkPending"
  defines "f \<equiv> \<lambda>i::intent_row. i\<lparr>i_status := IntentPaid, i_paidAmountAtomic := i_amountAtomic i,
      i_paidTxHash := Some tx, i_paidAt := Some ts, i_updatedAt := ts\<rparr>"
    and "g \<equiv> \<lambda>l::payment_link. l\<lparr>l_status := LinkPaid, l_txHash := Some tx,
      l_paidAt := Some ts, l_paidBy := Some ''sandbox'', l_updatedAt := ts\<rparr>"
  assumes inv: "pay_inv d" and target: "sandbox_target m x d"
  defines "d' \<equiv> d\<lparr>db_intents := upd p f (db_intents d), db_links := upd q g (db_links d)\<rparr>"
  shows "pay_inv d' \<and> pay_R d d' \<and> db_commits d' = db_commits d"
proof -
  let ?h = "\<lambda>i. if p i then f i else i" and ?k = "\<lambda>l. if q l then g l else l"
  have acc: "accounts_ok (db_intents d) (db_links d) (db_attempts d) (db_commits d)"
    using inv by (simp add: pay_inv_def)
  then have dist: "distinct (map i_id (db_intents d))" by (simp add: accounts_ok_def)
  have ok: "intent_ok (db_commits d) i" if "i \<in> set (db_intents d)" for i
    using acc that by (simp add: accounts_ok_def)
  obtain t where t: "t \<in> set (db_intents d)" "i_id t = x" "i_merchantId t = m" "i_mode t = Test"
    using target by (auto simp: sandbox_target_def)
  have "accounts_ok (map ?h (db_intents d)) (map ?k (db_links d)) (db_attempts d) (db_commits d)"
  proof (rule accounts_ok_map [OF acc])
    show "i_id (?h i) = i_id i" for i by (simp add: f_def)
  next
    fix i assume "intent_ok (db_commits d) i"
    then show "intent_ok (db_commits d) (?h i)"
      by (cases "i_amountMode i") (auto simp: intent_ok_def p_def f_def)
  next
    fix l :: payment_link and i
    assume fi: "find_intent (l_intentId l) (db_intents d) = Some i" and s: "l_status l = link_status_of (i_status i)"
    note i = find_intent_Some [OF fi]
    show "l_intentId (?k l) = l_intentId l \<and> l_status (?k l) = link_status_of (i_status (?h i))"
    proof (cases "l_intentId l = x")
      case False
      then show ?thesis using s i by (simp add: p_def q_def)
    next
      case True
      then have "i = t" using key_unique [OF dist] i t by metis
      moreover have "i_status i \<in> {AwaitingPayment, IntentPaid, IntentOverpaid, IntentCanceled}"
        using ok i by (simp add: intent_ok_def)
      ultimately show ?thesis using True s t by (auto simp: p_def q_def f_def g_def)
    qed
  qed
  moreover have "intent_step i (?h i)" if "i \<in> set (db_intents d)" for i
    using ok [OF that]
    by (cases "i_amountMode i") (auto simp: intent_ok_def p_def f_def intent_step_def intent_terms_def
        intent_next_def payment_intent.truncate_def)
  ultimately show ?thesis
    by (intro pay_inv_rows [OF inv]) (simp_all add: d'_def upd_map grows_map)
qed

lemma keeps_sandbox:
  assumes inv: "pay_inv d" and target: "sandbox_target m (i_id intent) d"
    and run: "batch (sandbox_batch intent m ts eps) d = Some (d', ns)"
  shows "pay_inv d' \<and> pay_R d d' \<and> db_commits d' = db_commits d"
proof -
  obtain s1 s2 ss where b: "sandbox_batch intent m ts eps = [s1, s2] @ ss"
    and ss: "\<And>s. s \<in> set ss \<Longrightarrow> keeps s"
    and pair: "\<And>d1 ms. batch [s1, s2] d = Some (d1, ms) \<Longrightarrow> pay_inv d1 \<and> pay_R d d1 \<and> db_commits d1 = db_commits d"
  proof
    show "sandbox_batch intent m ts eps = [sandbox_batch intent m ts eps ! 0, sandbox_batch intent m ts eps ! 1] @
        drop 2 (sandbox_batch intent m ts eps)"
      by (simp add: sandbox_batch_def Let_def)
    show "keeps s" if "s \<in> set (drop 2 (sandbox_batch intent m ts eps))" for s
      using that by (auto simp: sandbox_batch_def Let_def)
    show "pay_inv d1 \<and> pay_R d d1 \<and> db_commits d1 = db_commits d"
      if "batch [sandbox_batch intent m ts eps ! 0, sandbox_batch intent m ts eps ! 1] d = Some (d1, ms)" for d1 ms
      using that sandbox_pair [OF inv target] by (auto simp: sandbox_batch_def Let_def plain_def)
  qed
  from run b obtain d1 ms ks where 1: "batch [s1, s2] d = Some (d1, ms)" and 2: "batch ss d1 = Some (d', ks)"
    by (auto simp: batch_append simp del: batch.simps append.simps split: option.splits prod.splits)
  have k: "keeps (batch ss)" using ss by (rule keeps_batch)
  note p = pair [OF 1]
  show ?thesis using p keepsD [OF k _ 2] pay_R_trans by metis
qed

subsection \<open>Settlement\<close>

text \<open>A plan's numbers are computed as the code computes them.\<close>

definition plan_ok :: "settle_plan \<Rightarrow> bool" where
  "plan_ok p \<longleftrightarrow> 0 < sp_settled p \<and> sp_paid p = sp_previousPaid p + sp_settled p \<and>
     sp_status p = (if sp_expected p < sp_paid p then IntentOverpaid else IntentPaid)"

lemma total_nonneg:
  assumes "accounts_ok is ls as cs"
  shows "0 \<le> intent_total cs x"
proof -
  have "0 \<le> sc_settled c" if "c \<in> set cs" for c
    using assms that by (auto simp: accounts_ok_def commit_ok_def)
  then show ?thesis unfolding intent_total_def by (intro sum_list_nonneg) auto
qed

lemma paid_nonneg:
  assumes acc: "accounts_ok is ls as cs" and "i \<in> set is"
  shows "0 \<le> i_paidAmountAtomic i"
proof -
  have "intent_ok cs i" using assms by (simp add: accounts_ok_def)
  then show ?thesis using total_nonneg [OF acc, of "i_id i"] by (auto simp: intent_ok_def)
qed

text \<open>The settled intent row, and the rows of all four tables after a committed batch.\<close>

lemma settle_intent_ok:
  assumes acc: "accounts_ok is ls as cs" and i: "i \<in> set is" "i_id i = sp_intentId p"
    and prev: "i_paidAmountAtomic i = sp_previousPaid p" and plan: "plan_ok p"
    and expected: "i_amountMode i = Fixed \<or> 0 < sp_previousPaid p \<Longrightarrow> sp_expected p = i_amountAtomic i"
  shows "intent_ok (cs @ [commit_of p]) (settle_intent_row p i)"
    and "intent_step i (settle_intent_row p i)"
proof -
  have ok: "intent_ok cs i" using acc i by (simp add: accounts_ok_def)
  have pos: "0 \<le> sp_previousPaid p" using paid_nonneg [OF acc i(1)] prev by simp
  have tot: "intent_total (cs @ [commit_of p]) (sp_intentId p) = intent_total cs (i_id i) + sp_settled p"
    using i by (simp add: intent_total_append commit_of_def)
  show "intent_ok (cs @ [commit_of p]) (settle_intent_row p i)"
    using ok plan prev pos expected tot i(2)
    unfolding intent_ok_def plan_ok_def settle_intent_row_def
    by (cases "i_amountMode i") (auto split: if_splits)
  have over: "i_status i = IntentOverpaid \<Longrightarrow> sp_status p = IntentOverpaid"
  proof -
    assume "i_status i = IntentOverpaid"
    then have lt: "i_amountAtomic i < sp_previousPaid p" using ok prev by (simp add: intent_ok_def)
    then have "i_amountMode i = Fixed \<or> 0 < sp_previousPaid p"
      using ok prev pos by (cases "i_amountMode i") (auto simp: intent_ok_def)
    then have "sp_expected p < sp_paid p" using expected lt plan by (simp add: plan_ok_def)
    then show "sp_status p = IntentOverpaid" using plan by (simp add: plan_ok_def)
  qed
  show "intent_step i (settle_intent_row p i)"
    using ok plan prev expected over
    unfolding intent_step_def intent_ok_def plan_ok_def
    by (auto simp: settle_intent_row_def intent_terms_def intent_next_def payment_intent.truncate_def
        split: if_splits)
qed

lemma plan_ok_status: "plan_ok p \<Longrightarrow> attempt_status_of (sp_status p) \<in> {Paid, Overpaid} \<and>
    link_status_of (sp_status p) = LinkPaid"
  by (auto simp: plan_ok_def attempt_status_of_def)

lemma settle_attempt_step:
  assumes "active_status (a_status a)" and "plan_ok p"
  shows "attempt_step a (settle_attempt_row p a)"
  using assms plan_ok_status [OF assms(2)]
  by (auto simp: settle_attempt_row_def attempt_step_def attempt_terms_def attempt_next_def
      attempt_core.truncate_def active_status_def settled_status_def)

lemma accounts_ok_settle:
  fixes p :: settle_plan
  defines "h \<equiv> \<lambda>i. if i_id i = sp_intentId p then settle_intent_row p i else i"
    and "k \<equiv> \<lambda>l. if l_intentId l = sp_intentId p then settle_link_row p l else l"
    and "g \<equiv> \<lambda>a. if a_id a = sp_attemptId p then settle_attempt_row p a else a"
  assumes acc: "accounts_ok is ls as cs" and plan: "plan_ok p"
    and i: "i \<in> set is" "i_id i = sp_intentId p" "i_paidAmountAtomic i = sp_previousPaid p"
    and expected: "i_amountMode i = Fixed \<or> 0 < sp_previousPaid p \<Longrightarrow> sp_expected p = i_amountAtomic i"
    and a: "a \<in> set as" "a_id a = sp_attemptId p" "a_intentId a = sp_intentId p" "active_status (a_status a)"
    and fresh: "sp_commitId p \<notin> sc_commitId ` set cs"
  shows "accounts_ok (map h is) (map k ls) (map g as) (cs @ [commit_of p])"
proof -
  have dist: "distinct (map i_id is)" "distinct (map a_id as)" "distinct (map sc_attemptId cs)"
      "distinct (map sc_commitId cs)"
    using acc unfolding accounts_ok_def by blast+
  have idh [simp]: "i_id (h j) = i_id j" for j by (simp add: h_def settle_intent_row_def)
  have idg [simp]: "a_id (g b) = a_id b" "a_intentId (g b) = a_intentId b" for b
    by (simp_all add: g_def settle_attempt_row_def)
  have only_i: "j = i" if "j \<in> set is" "i_id j = sp_intentId p" for j
    using key_unique [OF dist(1) that(1) i(1)] that(2) i(2) by simp
  have only_a: "b = a" if "b \<in> set as" "a_id b = sp_attemptId p" for b
    using key_unique [OF dist(2) that(1) a(1)] that(2) a(2) by simp
  have nocommit: "sc_attemptId c \<noteq> sp_attemptId p" if c: "c \<in> set cs" for c
  proof
    assume e: "sc_attemptId c = sp_attemptId p"
    have "commit_ok as c" using acc c by (simp add: accounts_ok_def)
    then obtain b where "b \<in> set as" "a_id b = sc_attemptId c" "a_status b = attempt_status_of (sc_status c)"
      unfolding commit_ok_def by blast
    with only_a e have "a_status a = attempt_status_of (sc_status c)" by metis
    then show False using a(4) by (simp add: attempt_status_of_def active_status_def split: if_splits)
  qed
  have g_a: "g a = settle_attempt_row p a" using a(2) by (simp add: g_def)
  have "commit_ok (map g as) (commit_of p)"
  proof -
    have "g a \<in> set (map g as) \<and> a_id (g a) = sp_attemptId p \<and> a_intentId (g a) = sp_intentId p \<and>
        a_status (g a) = attempt_status_of (sp_status p) \<and> a_settledAmountAtomic (g a) = sp_settled p"
      using a by (simp add: g_def settle_attempt_row_def)
    then have "\<exists>b \<in> set (map g as). a_id b = sp_attemptId p \<and> a_intentId b = sp_intentId p \<and>
        a_status b = attempt_status_of (sp_status p) \<and> a_settledAmountAtomic b = sp_settled p"
      by blast
    then show ?thesis
      using plan paid_nonneg [OF acc i(1)] i(3) by (simp add: commit_ok_def commit_of_def plan_ok_def)
  qed
  moreover have "commit_ok (map g as) c" if c: "c \<in> set cs" for c
  proof -
    have ok: "commit_ok as c" using acc c by (simp add: accounts_ok_def)
    then obtain b where b: "b \<in> set as" "a_id b = sc_attemptId c" "a_intentId b = sc_intentId c"
        "a_status b = attempt_status_of (sc_status c)" "a_settledAmountAtomic b = sc_settled c"
      unfolding commit_ok_def by blast
    have "g b = b" using b(2) nocommit [OF c] by (simp add: g_def)
    then have "b \<in> set (map g as)" using b(1) by (metis image_eqI set_map)
    then show ?thesis using ok b unfolding commit_ok_def by blast
  qed
  ultimately have commits: "\<forall>c \<in> set (cs @ [commit_of p]). commit_ok (map g as) c" by auto
  have intents: "intent_ok (cs @ [commit_of p]) (h j)" if j: "j \<in> set is" for j
  proof (cases "i_id j = sp_intentId p")
    case True
    then have "j = i" using only_i j by simp
    then show ?thesis using settle_intent_ok(1) [OF acc i plan expected] True by (simp add: h_def)
  next
    case False
    then have "intent_total (cs @ [commit_of p]) (i_id j) = intent_total cs (i_id j)"
      by (simp add: intent_total_append commit_of_def)
    moreover have "intent_ok cs j" using acc j by (simp add: accounts_ok_def)
    ultimately show ?thesis using False by (simp add: h_def intent_ok_def)
  qed
  have links: "link_ok (map h is) (k l)" if l: "l \<in> set ls" for l
  proof -
    have "link_ok is l" using acc l by (simp add: accounts_ok_def)
    then obtain j where j: "find_intent (l_intentId l) is = Some j" "l_status l = link_status_of (i_status j)"
      unfolding link_ok_def by (auto split: option.splits)
    have "i_id j = l_intentId l" using find_intent_Some [OF j(1)] by simp
    then show ?thesis
      using j plan_ok_status [OF plan]
      by (auto simp: link_ok_def find_intent_map k_def h_def settle_link_row_def settle_intent_row_def)
  qed
  show ?thesis
    unfolding accounts_ok_def
  proof (intro conjI ballI impI)
    show "distinct (map i_id (map h is))" using dist(1) by (simp add: comp_def)
    show "distinct (map a_id (map g as))" using dist(2) by (simp add: comp_def)
    show "distinct (map sc_attemptId (cs @ [commit_of p]))"
    proof -
      have "sp_attemptId p \<notin> sc_attemptId ` set cs"
      proof
        assume "sp_attemptId p \<in> sc_attemptId ` set cs"
        then obtain c where "c \<in> set cs" "sc_attemptId c = sp_attemptId p" by (elim imageE) simp
        then show False using nocommit by blast
      qed
      moreover have "sc_attemptId (commit_of p) = sp_attemptId p" by (simp add: commit_of_def)
      ultimately show ?thesis using dist(3) by simp
    qed
    show "distinct (map sc_commitId (cs @ [commit_of p]))"
      using dist(4) fresh by (simp add: commit_of_def)
  next
    fix b assume "b \<in> set (map g as)" and s: "settled_status (a_status b)"
    then obtain b' where b': "b' \<in> set as" "b = g b'" by auto
    show "\<exists>c \<in> set (cs @ [commit_of p]). sc_attemptId c = a_id b"
    proof (cases "a_id b' = sp_attemptId p")
      case True
      then show ?thesis using b' by (simp add: commit_of_def)
    next
      case False
      then have "settled_status (a_status b')" using s b' by (simp add: g_def)
      then obtain c where "c \<in> set cs" "sc_attemptId c = a_id b'"
        using acc b'(1) unfolding accounts_ok_def by blast
      then show ?thesis using b'(2) by auto
    qed
  next
    fix b assume "b \<in> set (map g as)"
    then obtain b' where b': "b' \<in> set as" "b = g b'" by auto
    then have "a_intentId b' \<in> i_id ` set is" using acc unfolding accounts_ok_def by blast
    then show "a_intentId b \<in> i_id ` set (map h is)" using b'(2) by (simp add: image_image)
  next
    fix j assume "j \<in> set (map h is)"
    then show "intent_ok (cs @ [commit_of p]) j" using intents by auto
  next
    fix l assume "l \<in> set (map k ls)"
    then show "link_ok (map h is) l" using links by auto
  qed (use commits in blast)
qed

end
