(* ===== verification/Guarantees.thy ===== *)
theory Guarantees
  imports Accounting
begin

text \<open>
  The compare-and-set batch of a settlement either does nothing or moves all four tables together;
  and every operation of the repositories, run among arbitrary well-behaved interferences, keeps
  the accounting invariant and evolves the database along \<open>pay_R\<close>.
\<close>

subsection \<open>The batch of a settlement\<close>

definition settle_writes :: "settle_plan \<Rightarrow> pdb stmt list" where
  "settle_writes p =
     [update_attempts (\<lambda>a. a_id a = sp_attemptId p) (settle_attempt_row p),
      plain (\<lambda>d. (d\<lparr>db_intents := upd (\<lambda>i. i_id i = sp_intentId p) (settle_intent_row p) (db_intents d)\<rparr>,
        hits (\<lambda>i. i_id i = sp_intentId p) (db_intents d))),
      plain (\<lambda>d. (d\<lparr>db_links := upd (\<lambda>l. l_intentId l = sp_intentId p) (settle_link_row p) (db_links d)\<rparr>,
        hits (\<lambda>l. l_intentId l = sp_intentId p) (db_links d)))]"

definition settle_notices :: "settle_plan \<Rightarrow> event_row \<Rightarrow> string list \<Rightarrow> pdb stmt list" where
  "settle_notices p ev endpoints =
     [or_ignore events_unique (merchant_exists (ev_merchantId ev)) (insert_event ev),
      or_ignore outbox_unique (\<lambda>d. True) (insert_outbox (outbox_for (ev_id ev) (sp_now p)))] @
     map (\<lambda>e. let r = delivery_for (ev_id ev) e (sp_now p) in
       or_ignore deliveries_unique (delivery_fk r) (insert_delivery r)) endpoints"

lemma settle_batch_eq:
  "settle_batch p ev eps = commit_stmt p # map (when_committed p) (settle_writes p @ settle_notices p ev eps)"
  by (simp add: settle_batch_def settle_writes_def settle_notices_def Let_def comp_def)

definition inert :: "pdb stmt \<Rightarrow> bool" where
  "inert s \<longleftrightarrow> (\<forall>d d' n. s d = Some (d', n) \<longrightarrow> same_accounts d d')"

lemma inert_notices:
  assumes "s \<in> set (settle_notices p ev eps)"
  shows "inert s"
proof -
  have "inert (or_ignore C fk (insert_event r))" for C fk r
    by (auto simp: inert_def insert_event_def same_accounts_def dest!: or_ignore_SomeD)
  moreover have "inert (or_ignore C fk (insert_outbox r))" for C fk r
    by (auto simp: inert_def insert_outbox_def same_accounts_def dest!: or_ignore_SomeD)
  moreover have "inert (or_ignore C fk (insert_delivery r))" for C fk r
    by (auto simp: inert_def insert_delivery_def same_accounts_def dest!: or_ignore_SomeD)
  ultimately show ?thesis using assms by (auto simp: settle_notices_def Let_def)
qed

lemma same_accounts_trans: "same_accounts d1 d2 \<Longrightarrow> same_accounts d2 d3 \<Longrightarrow> same_accounts d1 d3"
  by (simp add: same_accounts_def)

lemma batch_inert:
  assumes "\<And>s. s \<in> set ss \<Longrightarrow> inert s" and "batch ss d = Some (d', ns)"
  shows "same_accounts d d'"
  using assms
proof (induction ss arbitrary: d ns)
  case Nil
  then show ?case by (simp add: same_accounts_def)
next
  case (Cons s ss)
  from Cons.prems(2) obtain d1 n1 n2 where 1: "s d = Some (d1, n1)" "batch ss d1 = Some (d', n2)"
    by (auto split: option.splits)
  have "same_accounts d d1" using Cons.prems(1) [of s] 1(1) by (auto simp: inert_def)
  moreover have "same_accounts d1 d'" using Cons.IH [OF _ 1(2)] Cons.prems(1) by simp
  ultimately show ?case by (rule same_accounts_trans)
qed

lemma batch_not_committed:
  "\<not> committed p d \<Longrightarrow> batch (map (when_committed p) ss) d = Some (d, replicate (length ss) 0)"
  by (induction ss) (auto simp: when_committed_def)

lemma batch_committed:
  assumes "committed p d" and "\<And>s d d' n. s \<in> set ss \<Longrightarrow> s d = Some (d', n) \<Longrightarrow> db_commits d' = db_commits d"
  shows "batch (map (when_committed p) ss) d = batch ss d"
  using assms
proof (induction ss arbitrary: d)
  case Nil
  then show ?case by simp
next
  case (Cons s ss)
  have 1: "batch (map (when_committed p) ss) d1 = batch ss d1" if "s d = Some (d1, n)" for d1 n
  proof (rule Cons.IH)
    have "db_commits d1 = db_commits d" using Cons.prems(2) [of s d d1 n] that by simp
    then show "committed p d1" using Cons.prems(1) by (simp add: committed_def)
  qed (use Cons.prems(2) in auto)
  have "when_committed p s d = s d" using Cons.prems(1) by (simp add: when_committed_def)
  then show ?case using 1 by (auto split: option.splits)
qed

lemma settle_statements_commits:
  assumes "s \<in> set (settle_writes p @ settle_notices p ev eps)" and "s d = Some (d', n)"
  shows "db_commits d' = db_commits d"
proof (cases "s \<in> set (settle_notices p ev eps)")
  case True
  then show ?thesis using inert_notices [OF True] assms(2) by (auto simp: inert_def same_accounts_def)
next
  case False
  then show ?thesis
    using assms by (auto simp: settle_writes_def update_attempts_def dest!: stmt_SomeD)
qed

definition settled_accounts :: "settle_plan \<Rightarrow> pdb \<Rightarrow> pdb \<Rightarrow> bool" where
  "settled_accounts p d d' \<longleftrightarrow>
     db_attempts d' = map (\<lambda>a. if a_id a = sp_attemptId p then settle_attempt_row p a else a) (db_attempts d) \<and>
     db_intents d' = map (\<lambda>i. if i_id i = sp_intentId p then settle_intent_row p i else i) (db_intents d) \<and>
     db_links d' = map (\<lambda>l. if l_intentId l = sp_intentId p then settle_link_row p l else l) (db_links d) \<and>
     db_commits d' = db_commits d @ [commit_of p]"

lemma settle_writes_run:
  assumes "batch (settle_writes p @ ss) d = Some (d', ns)" and "\<And>s. s \<in> set ss \<Longrightarrow> inert s"
  shows "db_attempts d' = map (\<lambda>a. if a_id a = sp_attemptId p then settle_attempt_row p a else a) (db_attempts d) \<and>
     db_intents d' = map (\<lambda>i. if i_id i = sp_intentId p then settle_intent_row p i else i) (db_intents d) \<and>
     db_links d' = map (\<lambda>l. if l_intentId l = sp_intentId p then settle_link_row p l else l) (db_links d) \<and>
     db_commits d' = db_commits d"
proof -
  from assms(1) obtain d1 ms ks where 1: "batch (settle_writes p) d = Some (d1, ms)"
    and 2: "batch ss d1 = Some (d', ks)"
    by (auto simp: batch_append split: option.splits prod.splits)
  have "same_accounts d1 d'" using batch_inert [OF assms(2) 2] .
  moreover have "d1 = d\<lparr>db_attempts := upd (\<lambda>a. a_id a = sp_attemptId p) (settle_attempt_row p) (db_attempts d),
      db_intents := upd (\<lambda>i. i_id i = sp_intentId p) (settle_intent_row p) (db_intents d),
      db_links := upd (\<lambda>l. l_intentId l = sp_intentId p) (settle_link_row p) (db_links d)\<rparr>"
    using 1 by (auto simp: settle_writes_def update_attempts_def checked_def plain_def split: if_splits option.splits)
  ultimately show ?thesis by (simp add: same_accounts_def upd_map)
qed

lemma cas_holdsE:
  assumes "cas_holds p d"
  obtains i a where "i \<in> set (db_intents d)" "i_id i = sp_intentId p" "i_paidAmountAtomic i = sp_previousPaid p"
    "accepts_settlement (i_status i)"
    "a \<in> set (db_attempts d)" "a_id a = sp_attemptId p" "a_intentId a = sp_intentId p"
    "active_status (a_status a)"
  using assms unfolding cas_holds_def list_ex_iff by metis

text \<open>An attempt without a settlement has no commit, so the commit row is never a duplicate.\<close>

lemma no_commit_yet:
  assumes acc: "accounts_ok is ls as cs" and a: "a \<in> set as" "active_status (a_status a)" and c: "c \<in> set cs"
  shows "sc_attemptId c \<noteq> a_id a"
proof
  assume e: "sc_attemptId c = a_id a"
  have dist: "distinct (map a_id as)" and "commit_ok as c" using acc c unfolding accounts_ok_def by blast+
  then obtain b where b: "b \<in> set as" "a_id b = sc_attemptId c" "a_status b = attempt_status_of (sc_status c)"
    unfolding commit_ok_def by blast
  have "b = a" using key_unique [OF dist b(1) a(1)] b(2) e by simp
  then show False using a(2) b(3) by (simp add: attempt_status_of_def active_status_def split: if_splits)
qed

lemma commit_stmt_run:
  assumes inv: "pay_inv d" and fresh: "\<not> committed p d" and cas: "cas_holds p d"
  shows "commit_stmt p d = Some (d\<lparr>db_commits := db_commits d @ [commit_of p]\<rparr>, 1)"
proof -
  obtain i a where i: "i \<in> set (db_intents d)" "i_id i = sp_intentId p"
    and a: "a \<in> set (db_attempts d)" "a_id a = sp_attemptId p" "active_status (a_status a)"
    using cas by (rule cas_holdsE)
  have acc: "accounts_ok (db_intents d) (db_links d) (db_attempts d) (db_commits d)"
    using inv by (simp add: pay_inv_def)
  have new: "sp_attemptId p \<notin> sc_attemptId ` set (db_commits d)"
    using no_commit_yet [OF acc a(1,3)] a(2) by force
  have id: "sp_commitId p \<notin> sc_commitId ` set (db_commits d)"
    using fresh by (auto simp: committed_def list_ex_iff)
  have "distinct (map sc_attemptId (db_commits d))" "distinct (map sc_commitId (db_commits d))"
    using acc unfolding accounts_ok_def by blast+
  then have "commits_unique (d\<lparr>db_commits := db_commits d @ [commit_of p]\<rparr>)"
    using new id by (simp add: commits_unique_def commit_of_def)
  moreover have "attempt_exists (sp_attemptId p) d" "intent_exists (sp_intentId p) d"
    using i a by (auto simp: attempt_exists_def intent_exists_def list_ex_iff)
  ultimately show ?thesis using cas by (simp add: commit_stmt_def or_ignore_def)
qed

lemma settle_batch_cases:
  assumes inv: "pay_inv d" and fresh: "\<not> committed p d"
    and run: "batch (settle_batch p ev eps) d = Some (d', ns)"
  shows "(\<not> cas_holds p d \<and> d' = d \<and> hd ns = 0) \<or>
    (cas_holds p d \<and> settled_accounts p d d' \<and> hd ns = 1)"
proof (cases "cas_holds p d")
  case False
  then have "commit_stmt p d = Some (d, 0)" by (simp add: commit_stmt_def)
  then show ?thesis
    using run False batch_not_committed [OF fresh, of "settle_writes p @ settle_notices p ev eps"]
    unfolding settle_batch_eq by (auto simp del: map_append)
next
  case True
  let ?d = "d\<lparr>db_commits := db_commits d @ [commit_of p]\<rparr>" and ?ss = "settle_writes p @ settle_notices p ev eps"
  have "committed p ?d" by (simp add: committed_def commit_of_def)
  then have "batch (map (when_committed p) ?ss) ?d = batch ?ss ?d"
    using settle_statements_commits by (rule batch_committed)
  then obtain ms where 1: "batch ?ss ?d = Some (d', ms)" and ns: "ns = 1 # ms"
    using run commit_stmt_run [OF inv fresh True] unfolding settle_batch_eq
    by (auto split: option.splits prod.splits)
  have "settled_accounts p d d'"
    using settle_writes_run [OF 1] inert_notices by (simp add: settled_accounts_def)
  then show ?thesis using True ns by simp
qed

subsection \<open>The settlement keeps the accounts\<close>

text \<open>What a read of the intent leaves known, whatever happens afterwards.\<close>

definition intent_known :: "payment_intent option \<Rightarrow> pdb \<Rightarrow> bool" where
  "intent_known found d \<longleftrightarrow> (case found of None \<Rightarrow> True | Some i \<Rightarrow>
     (\<exists>r \<in> set (db_intents d). i_id r = i_id i \<and> i_merchantId r = i_merchantId i \<and>
        i_amountMode r = i_amountMode i \<and> i_mode r = i_mode i \<and>
        i_paidAmountAtomic i \<le> i_paidAmountAtomic r \<and>
        (i_amountMode i = Fixed \<or> 0 < i_paidAmountAtomic i \<longrightarrow> i_amountAtomic r = i_amountAtomic i)))"

lemma intent_known_stable: "stable pay_R (intent_known found)"
  unfolding stable_def
proof (intro allI impI)
  fix d d' assume known: "intent_known found d" and R: "pay_R d d'"
  show "intent_known found d'"
  proof (cases found)
    case (Some i)
    with known obtain r where r: "r \<in> set (db_intents d)" "i_id r = i_id i" "i_merchantId r = i_merchantId i"
        "i_amountMode r = i_amountMode i" "i_mode r = i_mode i" "i_paidAmountAtomic i \<le> i_paidAmountAtomic r"
        "i_amountMode i = Fixed \<or> 0 < i_paidAmountAtomic i \<longrightarrow> i_amountAtomic r = i_amountAtomic i"
      unfolding intent_known_def by auto
    have "grows intent_step (db_intents d) (db_intents d')" using R by (simp add: pay_R_def)
    then obtain r' where r': "r' \<in> set (db_intents d')" "intent_step r r'" using r(1) by (rule grows_mem)
    then have tm: "intent_terms r' = intent_terms r" by (simp add: intent_step_def)
    note ids = intent_terms_ids [OF tm]
    have "i_paidAmountAtomic i \<le> i_paidAmountAtomic r'" "i_amountMode i = Fixed \<or> 0 < i_paidAmountAtomic i \<longrightarrow>
        i_amountAtomic r' = i_amountAtomic i"
      using r'(2) r(4,6,7) by (auto simp: intent_step_def)
    then have "i_id r' = i_id i \<and> i_merchantId r' = i_merchantId i \<and> i_amountMode r' = i_amountMode i \<and>
        i_mode r' = i_mode i \<and> i_paidAmountAtomic i \<le> i_paidAmountAtomic r' \<and>
        (i_amountMode i = Fixed \<or> 0 < i_paidAmountAtomic i \<longrightarrow> i_amountAtomic r' = i_amountAtomic i)"
      using r(2-5) ids by simp
    then show ?thesis using Some r'(1) unfolding intent_known_def by (simp only: option.case) blast
  qed (simp add: intent_known_def)
qed

lemma intent_known_read: "intent_known (map_option mapIntent (find P (db_intents d))) d"
proof (cases "find P (db_intents d)")
  case (Some r)
  then have "r \<in> set (db_intents d)" using find_SomeD by metis
  then show ?thesis using Some by (auto simp: intent_known_def)
qed (simp add: intent_known_def)

lemma plan_of_ok: "0 < st_settledAmountAtomic inp \<Longrightarrow> plan_ok (settle_plan_of V inp a i c ts)"
  by (simp add: plan_ok_def settle_plan_of_def Let_def)

lemma plan_expected:
  assumes known: "intent_known (Some i) d" and dist: "distinct (map i_id (db_intents d))"
    and r: "r \<in> set (db_intents d)" "i_id r = i_id i" "i_paidAmountAtomic r = i_paidAmountAtomic i"
    and pos: "0 \<le> i_paidAmountAtomic i"
    and f: "i_amountMode r = Fixed \<or> 0 < i_paidAmountAtomic i"
  shows "sp_expected (settle_plan_of V inp a i c ts) = i_amountAtomic r"
proof -
  obtain s where s: "s \<in> set (db_intents d)" "i_id s = i_id i" "i_amountMode s = i_amountMode i"
      "i_amountMode i = Fixed \<or> 0 < i_paidAmountAtomic i \<longrightarrow> i_amountAtomic s = i_amountAtomic i"
    using known by (auto simp: intent_known_def)
  have "s = r" using key_unique [OF dist s(1) r(1)] s(2) r(2) by simp
  then show ?thesis using s f pos by (auto simp: settle_plan_of_def Let_def)
qed

lemma settle_batch_ok:
  assumes I: "pay_I g k d" and known: "intent_known (Some i) d" and u: "g k = u"
    and pos: "0 < st_settledAmountAtomic inp"
    and run: "batch (settle_batch (settle_plan_of V inp a i (''stc_'' @ u) ts) ev eps) d = Some (d', ns)"
  shows "pay_I g (Suc k) d' \<and> pay_R d d'"
proof -
  define p where "p = settle_plan_of V inp a i (''stc_'' @ u) ts"
  have inv: "pay_inv d" and inj: "inj g" and fresh: "\<And>j. k \<le> j \<Longrightarrow> fresh_commit (g j) d"
    using I by (auto simp: pay_I_def)
  have p: "sp_commitId p = ''stc_'' @ u" "sp_intentId p = i_id i" "sp_previousPaid p = i_paidAmountAtomic i"
    by (simp_all add: p_def settle_plan_of_def Let_def)
  have nc: "\<not> committed p d" using fresh [of k] u p by (auto simp: committed_def list_ex_iff fresh_commit_def)
  have acc: "accounts_ok (db_intents d) (db_links d) (db_attempts d) (db_commits d)"
    using inv by (simp add: pay_inv_def)
  have dist: "distinct (map i_id (db_intents d))" "distinct (map a_id (db_attempts d))"
    using acc unfolding accounts_ok_def by blast+
  from settle_batch_cases [OF inv nc run [folded p_def]]
  consider "d' = d" | "cas_holds p d" "settled_accounts p d d'" by blast
  then show ?thesis
  proof cases
    case 1
    then show ?thesis using I pay.I_Suc pay_R_refl by simp
  next
    case 2
    obtain r b where r: "r \<in> set (db_intents d)" "i_id r = sp_intentId p" "i_paidAmountAtomic r = sp_previousPaid p"
      and b: "b \<in> set (db_attempts d)" "a_id b = sp_attemptId p" "a_intentId b = sp_intentId p"
        "active_status (a_status b)"
      using 2(1) by (rule cas_holdsE)
    have plan: "plan_ok p" using plan_of_ok [OF pos] by (simp add: p_def)
    have e: "sp_expected p = i_amountAtomic r" if f: "i_amountMode r = Fixed \<or> 0 < sp_previousPaid p"
      unfolding p_def
      by (rule plan_expected [OF known dist(1) r(1)])
        (use r p f paid_nonneg [OF acc r(1)] in simp_all)
    have ci: "sp_commitId p \<notin> sc_commitId ` set (db_commits d)"
      using nc by (auto simp: committed_def list_ex_iff)
    have acc': "accounts_ok (db_intents d') (db_links d') (db_attempts d') (db_commits d')"
      using accounts_ok_settle [OF acc plan r e b ci] 2(2) by (simp add: settled_accounts_def)
    have fr: "fresh_commit (g j) d'" if "Suc k \<le> j" for j
    proof -
      have "j \<noteq> k" using that by simp
      then have "g j \<noteq> u" using inj u by (auto simp: inj_def)
      then show ?thesis using fresh [of j] that 2(2) p
        by (auto simp: fresh_commit_def settled_accounts_def commit_of_def)
    qed
    have only_i: "j = r" if "j \<in> set (db_intents d)" "i_id j = sp_intentId p" for j
      using key_unique [OF dist(1) that(1) r(1)] that(2) r(2) by simp
    have only_a: "c = b" if "c \<in> set (db_attempts d)" "a_id c = sp_attemptId p" for c
      using key_unique [OF dist(2) that(1) b(1)] that(2) b(2) by simp
    have "grows attempt_step (db_attempts d) (db_attempts d')"
      using 2(2) only_a settle_attempt_step [OF b(4) plan] attempt_step_refl
      by (auto simp: settled_accounts_def intro!: grows_map)
    moreover have "grows intent_step (db_intents d) (db_intents d')"
      using 2(2) only_i settle_intent_ok(2) [OF acc r plan e] intent_step_refl
      by (auto simp: settled_accounts_def intro!: grows_map)
    moreover have "grows (=) (db_commits d) (db_commits d')"
      using 2(2) by (simp add: settled_accounts_def grows_append)
    ultimately show ?thesis using acc' inj fr by (simp add: pay_I_def pay_inv_def pay_R_def)
  qed
qed

subsection \<open>Every operation of the repositories\<close>

lemma guar_dbx_keeps: "keeps s \<Longrightarrow> guar pay_I pay_R (dbx s)"
  by (rule pay.guar_dbx, rule keeps_stmt_ok)

lemma guar_dbb_keeps: "keeps (batch ss) \<Longrightarrow> guar pay_I pay_R (dbb ss)"
  unfolding dbb_def by (rule guar_dbx_keeps)

lemmas guar_reads = getMerchantByOwner_def getMerchantById_def getPaymentIntent_def getIntentByLink_def
  getPaymentLink_def getQuote_def getAttempt_def getCheckoutAttempt_def getAttemptByHash_def
  getAttemptByIdempotency_def getAttemptFeeBreakdown_def intent_of_key_def endpoints_for_def

lemma guar_reads_ok [intro]:
  "guar pay_I pay_R (getMerchantByOwner x)" "guar pay_I pay_R (getMerchantById x)"
  "guar pay_I pay_R (getPaymentIntent x)" "guar pay_I pay_R (getIntentByLink x)"
  "guar pay_I pay_R (getPaymentLink x)" "guar pay_I pay_R (getQuote x)" "guar pay_I pay_R (getAttempt x)"
  "guar pay_I pay_R (getCheckoutAttempt x y)" "guar pay_I pay_R (getAttemptByHash x)"
  "guar pay_I pay_R (getAttemptByIdempotency x y c z)" "guar pay_I pay_R (getAttemptFeeBreakdown x)"
  "guar pay_I pay_R (intent_of_key x k)" "guar pay_I pay_R (endpoints_for x md ty)"
  unfolding guar_reads by auto

lemma guar_link_of [intro]: "guar pay_I pay_R (link_of i)"
  by (auto simp: link_of_def)

lemma keeps_upsert:
  "keeps (batch ((case existing of None \<Rightarrow> [insert_merchant m]
     | Some e \<Rightarrow> if a then [update_merchant_account (m_id e) inp ts] else []) @ [insert_account_command c]))"
  by (rule keeps_batch) (auto split: option.splits if_splits)

lemma guar_upsertSettlementAccount: "guar pay_I pay_R (upsertSettlementAccount V inp)"
  unfolding upsertSettlementAccount_def Let_def
  by (intro pay.guar_bindA guar_reads_ok pay.guar_calm guar_dbb_keeps keeps_upsert
      allI impI conjI | split option.split)+

lemma guar_insert_new_intent:
  assumes "create_ok inp"
  shows "guar pay_I pay_R (insert_new_intent inp)"
  unfolding insert_new_intent_def
  by (intro pay.guar_bindA pay.guar_catchA guar_reads_ok guar_link_of pay.guar_calm pay.guar_randomUUID
      guar_dbb_keeps keeps_create assms allI impI conjI | split option.split prod.split if_split)+

lemma guar_createIntentAndLink:
  assumes "create_ok inp"
  shows "guar pay_I pay_R (createIntentAndLink inp)"
  unfolding createIntentAndLink_def
  by (intro pay.guar_bindA guar_reads_ok guar_link_of pay.guar_calm guar_insert_new_intent
      assms allI impI conjI | split option.split if_split)+

lemma guar_cancelPaymentIntent: "guar pay_I pay_R (cancelPaymentIntent m i)"
  unfolding cancelPaymentIntent_def
  by (intro pay.guar_bindA pay.guar_calm guar_dbb_keeps keeps_cancel)

lemma guar_releaseExpired: "guar pay_I pay_R (releaseExpiredPayerDefinedAmount i)"
  unfolding releaseExpiredPayerDefinedAmount_def
  by (intro pay.guar_bindA pay.guar_calm guar_dbb_keeps keeps_release)

lemma guar_insertQuote: "guar pay_I pay_R (insertQuote q)"
  unfolding insertQuote_def by (intro pay.guar_bindA pay.guar_calm guar_dbx_keeps keeps_quote)

lemma keeps_attempt_batch: "keeps (batch (insert_attempt_stmt (new_attempt_row a k c) # feeLedgerStatements a))"
  by (rule keeps_batch) (auto intro: keeps_insert_attempt)

lemma keeps_quote_attempt_batch:
  "keeps (batch (insert_quote_stmt q # insert_attempt_stmt (new_attempt_row a k c) # feeLedgerStatements a))"
  by (rule keeps_batch) (auto intro: keeps_insert_attempt)

lemma guar_insertAttempt: "guar pay_I pay_R (insertAttempt a k c)"
  unfolding insertAttempt_def
  by (intro pay.guar_bindA pay.guar_calm guar_dbb_keeps keeps_attempt_batch guar_reads_ok allI impI conjI
      | split option.split)+

lemma guar_insertQuoteAndAttempt: "guar pay_I pay_R (insertQuoteAndAttempt q a k)"
  unfolding insertQuoteAndAttempt_def
  by (intro pay.guar_bindA pay.guar_catchA pay.guar_calm guar_dbb_keeps keeps_quote_attempt_batch guar_reads_ok
      allI impI conjI | split option.split)+

lemma guar_recordAttemptFeeEvidence: "guar pay_I pay_R (recordAttemptFeeEvidence a f n tx)"
proof -
  have "keeps (batch (charge_line x ty f tx ts # (case n of None \<Rightarrow> [] | Some m \<Rightarrow> [charge_line x ty' m tx ts])))" for x ty ty' ts
    by (rule keeps_batch) (auto split: option.splits)
  then show ?thesis
    unfolding recordAttemptFeeEvidence_def
    by (intro pay.guar_bindA pay.guar_calm guar_dbb_keeps guar_reads_ok allI impI conjI
        | split option.split if_split | simp)+
qed

lemma guar_markAttemptProcessing: "guar pay_I pay_R (markAttemptProcessing a tx)"
  unfolding markAttemptProcessing_def
  by (intro pay.guar_bindA pay.guar_calm guar_dbx_keeps keeps_attempts) (auto simp: unsettling_simps)

lemma guar_registerSourceTransaction: "guar pay_I pay_R (registerSourceTransaction a c tx)"
  unfolding registerSourceTransaction_def Let_def
  by (intro pay.guar_bindA pay.guar_calm guar_dbx_keeps keeps_attempts guar_reads_ok allI impI conjI
      | split if_split)+ (auto simp: unsettling_simps)

lemma guar_cancelAttempt: "guar pay_I pay_R (cancelAttempt a c)"
  unfolding cancelAttempt_def
  by (intro pay.guar_bindA pay.guar_calm guar_dbx_keeps keeps_attempts) (auto simp: unsettling_simps)

lemma keeps_app_execution: "keeps (batch (app_execution_batch a command ts))"
proof (rule keeps_batch)
  fix s assume "s \<in> set (app_execution_batch a command ts)"
  then consider "s = app_execution_batch a command ts ! 0" | "s = app_execution_batch a command ts ! 1"
    by (auto simp: app_execution_batch_def)
  then show "keeps s"
  proof cases
    case 1
    then show ?thesis
      unfolding app_execution_batch_def by (simp, intro keeps_attempts) (auto simp: unsettling_simps)
  next
    case 2
    then show ?thesis
      unfolding app_execution_batch_def
      by (simp, intro keeps_same) (auto dest!: stmt_SomeD simp: same_accounts_def)
  qed
qed

lemma guar_registerAppExecution: "guar pay_I pay_R (registerAppExecution command)"
  unfolding registerAppExecution_def
  by (intro pay.guar_bindA pay.guar_calm guar_dbb_keeps keeps_app_execution guar_reads_ok allI impI conjI
      | split option.split if_split)+

subsection \<open>Settlement and sandbox payment\<close>

lemma guar_settle_round:
  assumes pos: "0 < st_settledAmountAtomic inp"
  shows "guar pay_I pay_R (settle_round V inp fees eventId)"
proof -
  have body: "guarP pay_I pay_R (intent_known found) (case found of
       None \<Rightarrow> ret (Some (not_applied None None))
     | Some i \<Rightarrow>
       if settled_status (a_status a) then ret (Some (not_applied (Some i) (Some eventId)))
       else if \<not> active_status (a_status a) then ret (Some (not_applied (Some i) (Some eventId)))
       else bindA date_now (\<lambda>ts. bindA randomUUID (\<lambda>u.
         let p = settle_plan_of V inp a i (''stc_'' @ u) ts in
         bindA (endpoints_for (i_merchantId i) (i_mode i) (event_type_of (sp_status p))) (\<lambda>endpoints.
         bindA (dbb (settle_batch p (settlement_event p i fees eventId) endpoints)) (\<lambda>ns.
         if 0 < hd ns then bindA (getPaymentIntent (i_id i)) (\<lambda>stored.
           ret (Some \<lparr>sr_applied = True, sr_intent = stored, sr_eventId = Some eventId\<rparr>))
         else ret None)))))" for found a
  proof (cases found)
    case None
    then show ?thesis by (auto intro: pay.guar_guarP)
  next
    case (Some i)
    have "guarP pay_I pay_R (intent_known found) (bindA date_now (\<lambda>ts. bindA randomUUID (\<lambda>u.
         let p = settle_plan_of V inp a i (''stc_'' @ u) ts in
         bindA (endpoints_for (i_merchantId i) (i_mode i) (event_type_of (sp_status p))) (\<lambda>endpoints.
         bindA (dbb (settle_batch p (settlement_event p i fees eventId) endpoints)) (\<lambda>ns.
         if 0 < hd ns then bindA (getPaymentIntent (i_id i)) (\<lambda>stored.
           ret (Some \<lparr>sr_applied = True, sr_intent = stored, sr_eventId = Some eventId\<rparr>))
         else ret None)))))"
      unfolding Let_def endpoints_for_def dbb_def
    proof (rule pay.guarP_calm_bindA [OF pay.calm_date_now intent_known_stable], rule pay.guarP_uuid,
        rule pay.owns_bindA [OF pay.calm_dbq intent_known_stable],
        rule pay.owns_dbx_bindA [OF _ intent_known_stable], goal_cases)
      case (1 ts u eps g k d d' n)
      show ?case using settle_batch_ok [OF 1(1) _ 1(3) pos 1(4)] 1(2) Some by blast
    next
      case (2 ts u eps n)
      then show ?case by (auto intro!: pay.guar_bindA)
    qed
    then show ?thesis using Some by (auto intro: pay.guar_guarP)
  qed
  have read: "guar pay_I pay_R (bindA (getPaymentIntent x) (\<lambda>found. case found of
       None \<Rightarrow> ret (Some (not_applied None None))
     | Some i \<Rightarrow>
       if settled_status (a_status a) then ret (Some (not_applied (Some i) (Some eventId)))
       else if \<not> active_status (a_status a) then ret (Some (not_applied (Some i) (Some eventId)))
       else bindA date_now (\<lambda>ts. bindA randomUUID (\<lambda>u.
         let p = settle_plan_of V inp a i (''stc_'' @ u) ts in
         bindA (endpoints_for (i_merchantId i) (i_mode i) (event_type_of (sp_status p))) (\<lambda>endpoints.
         bindA (dbb (settle_batch p (settlement_event p i fees eventId) endpoints)) (\<lambda>ns.
         if 0 < hd ns then bindA (getPaymentIntent (i_id i)) (\<lambda>stored.
           ret (Some \<lparr>sr_applied = True, sr_intent = stored, sr_eventId = Some eventId\<rparr>))
         else ret None))))))" for x a
    unfolding getPaymentIntent_def [of x]
    by (rule pay.guarP_True, rule pay.guarP_read [where Q = intent_known, OF _ _ body])
      (auto simp: intent_known_read stable_def)
  show ?thesis
    unfolding settle_round_def
    by (intro pay.guar_bindA guar_reads_ok pay.guar_calm read allI impI conjI | split option.split)+
qed

lemma guar_settle_loop:
  "0 < st_settledAmountAtomic inp \<Longrightarrow> guar pay_I pay_R (settle_loop n V inp fees eventId)"
proof (induction n)
  case 0
  then show ?case by auto
next
  case (Suc n)
  show ?case
    unfolding settle_loop.simps
    by (intro pay.guar_bindA guar_settle_round Suc pay.guar_calm allI impI conjI | split option.split)+
qed

lemma guar_settle_exhausted: "guar pay_I pay_R (settle_exhausted inp eventId)"
  unfolding settle_exhausted_def
  by (intro pay.guar_bindA guar_reads_ok pay.guar_calm allI impI conjI | split option.split if_split)+

lemma guar_settleAttempt: "guar pay_I pay_R (settleAttempt V inp)"
proof (cases "0 < st_settledAmountAtomic inp")
  case True
  then show ?thesis
    unfolding settleAttempt_def Let_def
    by (intro pay.guar_bindA guar_reads_ok pay.guar_calm guar_recordAttemptFeeEvidence guar_settle_loop
        guar_settle_exhausted allI impI conjI | split option.split if_split | assumption)+
next
  case False
  then show ?thesis
    unfolding settleAttempt_def Let_def
    by (intro pay.guar_bindA guar_reads_ok pay.guar_calm allI impI conjI
        | split option.split if_split | simp)+
qed

lemma sandbox_target_stable: "stable pay_R (sandbox_target m x)"
  unfolding stable_def
proof (intro allI impI)
  fix d d' assume "sandbox_target m x d" and R: "pay_R d d'"
  then obtain i where i: "i \<in> set (db_intents d)" "i_id i = x" "i_merchantId i = m" "i_mode i = Test"
    by (auto simp: sandbox_target_def)
  have "grows intent_step (db_intents d) (db_intents d')" using R by (simp add: pay_R_def)
  then obtain i' where i': "i' \<in> set (db_intents d')" "intent_step i i'" using i(1) by (rule grows_mem)
  then have tm: "intent_terms i' = intent_terms i" by (simp add: intent_step_def)
  show "sandbox_target m x d'"
    using i i'(1) intent_terms_ids [OF tm] unfolding sandbox_target_def by metis
qed

lemma guar_simulatePaymentIntent: "guar pay_I pay_R (simulatePaymentIntent m x)"
proof -
  have body: "guarP pay_I pay_R (intent_known found) (case found of None \<Rightarrow> ret None
     | Some intent \<Rightarrow>
       if i_merchantId intent \<noteq> m \<or> i_mode intent \<noteq> Test \<or> i_status intent \<noteq> AwaitingPayment
       then ret None
       else bindA date_now (\<lambda>ts. bindA (endpoints_for m Test ''payment.paid'') (\<lambda>endpoints.
         bindA (dbb (sandbox_batch intent m ts endpoints)) (\<lambda>ns.
         if 0 < hd ns then getPaymentIntent (i_id intent) else ret None))))" for found
  proof (cases found)
    case None
    then show ?thesis by (auto intro: pay.guar_guarP)
  next
    case (Some i)
    show ?thesis
    proof (cases "i_merchantId i = m \<and> i_mode i = Test")
      case True
      have "guarP pay_I pay_R (intent_known found) (bindA date_now (\<lambda>ts.
          bindA (endpoints_for m Test ''payment.paid'') (\<lambda>endpoints.
          bindA (dbb (sandbox_batch i m ts endpoints)) (\<lambda>ns.
          if 0 < hd ns then getPaymentIntent (i_id i) else ret None))))"
        unfolding dbb_def endpoints_for_def
      proof (rule pay.guarP_calm_bindA [OF pay.calm_date_now intent_known_stable],
          rule pay.guarP_calm_bindA [OF pay.calm_dbq intent_known_stable],
          rule pay.guarP_dbx_bindA [OF _ intent_known_stable], goal_cases)
        case (1 ts eps g k d d' n)
        have "sandbox_target m (i_id i) d"
          using 1(2) True Some by (auto simp: intent_known_def sandbox_target_def)
        then show ?case
          using keeps_sandbox [OF _ _ 1(3)] 1(1) by (simp add: pay_I_def fresh_commit_def)
      next
        case (2 ts eps n)
        then show ?case by auto
      qed
      then show ?thesis using Some True by (auto intro: pay.guar_guarP)
    next
      case False
      then show ?thesis using Some by (auto intro: pay.guar_guarP)
    qed
  qed
  show ?thesis
    unfolding simulatePaymentIntent_def getPaymentIntent_def [of x]
    by (rule pay.guarP_True, rule pay.guarP_read [where Q = intent_known, OF _ _ body])
      (auto simp: intent_known_read stable_def)
qed

end
