(* ===== verification/ChainJournal.thy ===== *)
theory ChainJournal
  imports Chain Guarantees
begin

text \<open>
  The journal of router events read from the chains (\<^verbatim>\<open>stores/chainJournalStore.ts\<close>): the blocks up to
  which a chain was scanned, the events found, the checkpoint of the scan, and the rollback after a
  reorganisation.  The only stream of the code is \<open>routers\<close>.
\<close>

record router_checkpoint =
  rp_number :: int
  rp_hash :: string

definition block_checkpoint :: "block_row \<Rightarrow> router_checkpoint" where
  "block_checkpoint b = \<lparr>rp_number = bk_number b, rp_hash = bk_hash b\<rparr>"

definition listCanonicalRouterBlocksBefore :: "int \<Rightarrow> int \<Rightarrow> router_checkpoint list pact" where
  "listCanonicalRouterBlocksBefore chainId blockNumber = dbq (\<lambda>d. map block_checkpoint (take 128
     (sort_key (\<lambda>b. - bk_number b)
       (filter (\<lambda>b. bk_chainId b = chainId \<and> bk_canonical b \<and> bk_number b < blockNumber) (db_blocks d)))))"

text \<open>The constraints of the journal's tables.\<close>

definition blocks_unique :: "pdb \<Rightarrow> bool" where
  "blocks_unique d \<longleftrightarrow> distinct (map (\<lambda>b. (bk_chainId b, bk_number b, bk_hash b)) (db_blocks d)) \<and>
     distinct (map (\<lambda>b. (bk_chainId b, bk_number b)) (filter bk_canonical (db_blocks d)))"

definition incidents_unique :: "pdb \<Rightarrow> bool" where
  "incidents_unique d \<longleftrightarrow> distinct (map ri_id (db_incidents d))"

subsection \<open>Rolling back\<close>

definition orphan_events_stmt :: "int \<Rightarrow> int \<Rightarrow> pdb stmt" where
  "orphan_events_stmt chainId n = (let p = (\<lambda>e. ce_chainId e = chainId \<and> n < ce_blockNumber e \<and> ce_canonical e) in
     plain (\<lambda>d. (d\<lparr>db_chainEvents := upd p (\<lambda>e. e\<lparr>ce_canonical := False\<rparr>) (db_chainEvents d)\<rparr>,
       hits p (db_chainEvents d))))"

definition orphan_blocks_stmt :: "int \<Rightarrow> int \<Rightarrow> pdb stmt" where
  "orphan_blocks_stmt chainId n = (let p = (\<lambda>b. bk_chainId b = chainId \<and> n < bk_number b \<and> bk_canonical b) in
     plain (\<lambda>d. (d\<lparr>db_blocks := upd p (\<lambda>b. b\<lparr>bk_canonical := False\<rparr>) (db_blocks d)\<rparr>, hits p (db_blocks d))))"

definition move_checkpoint_stmt :: "int \<Rightarrow> router_checkpoint \<Rightarrow> int \<Rightarrow> pdb stmt" where
  "move_checkpoint_stmt chainId a ts = (let p = (\<lambda>c. cp_chainId c = chainId) in
     plain (\<lambda>d. (d\<lparr>db_checkpoints := upd p (\<lambda>c. c\<lparr>cp_blockNumber := rp_number a, cp_blockHash := rp_hash a,
       cp_updatedAt := ts\<rparr>) (db_checkpoints d)\<rparr>, hits p (db_checkpoints d))))"

definition insert_incident_stmt :: "incident_row \<Rightarrow> pdb stmt" where
  "insert_incident_stmt r = checked incidents_unique (\<lambda>d. (d\<lparr>db_incidents := db_incidents d @ [r]\<rparr>, 1))"

definition rollback_batch ::
    "int \<Rightarrow> router_checkpoint \<Rightarrow> router_checkpoint \<Rightarrow> int \<Rightarrow> string \<Rightarrow> int \<Rightarrow> pdb stmt list" where
  "rollback_batch chainId checkpoint ancestor orphanedCount u ts =
     [orphan_events_stmt chainId (rp_number ancestor),
      orphan_blocks_stmt chainId (rp_number ancestor),
      move_checkpoint_stmt chainId ancestor ts,
      insert_incident_stmt \<lparr>ri_id = ''reorg_'' @ u, ri_chainId = chainId,
        ri_previousNumber = rp_number checkpoint, ri_previousHash = rp_hash checkpoint,
        ri_ancestorNumber = rp_number ancestor, ri_ancestorHash = rp_hash ancestor,
        ri_orphanedCount = orphanedCount, ri_open = True, ri_createdAt = ts\<rparr>]"

definition rollbackRouterJournal :: "int \<Rightarrow> router_checkpoint \<Rightarrow> router_checkpoint \<Rightarrow> int pact" where
  "rollbackRouterJournal chainId checkpoint ancestor =
     bindA (dbq (\<lambda>d. int (hits (\<lambda>e. ce_chainId e = chainId \<and> ce_canonical e \<and> rp_number ancestor < ce_blockNumber e)
       (db_chainEvents d)))) (\<lambda>orphanedCount.
     bindA date_now (\<lambda>ts. bindA randomUUID (\<lambda>u.
     bindA (dbb (rollback_batch chainId checkpoint ancestor orphanedCount u ts)) (\<lambda>_. ret orphanedCount))))"

definition getRouterCheckpoint :: "int \<Rightarrow> router_checkpoint option pact" where
  "getRouterCheckpoint chainId = dbq (\<lambda>d. map_option
     (\<lambda>c. \<lparr>rp_number = cp_blockNumber c, rp_hash = cp_blockHash c\<rparr>)
     (find (\<lambda>c. cp_chainId c = chainId) (db_checkpoints d)))"

subsection \<open>Recording events and progress\<close>

text \<open>\<open>ON CONFLICT DO UPDATE\<close> on a key: the row of the key is changed, or a new one appended.\<close>

definition upsert :: "('r \<Rightarrow> bool) \<Rightarrow> ('r \<Rightarrow> 'r) \<Rightarrow> 'r \<Rightarrow> 'r list \<Rightarrow> 'r list" where
  "upsert p f r rs = (if list_ex p rs then upd p f rs else rs @ [r])"

definition same_event :: "chain_event_row \<Rightarrow> chain_event_row \<Rightarrow> bool" where
  "same_event r e \<longleftrightarrow> ce_chainId e = ce_chainId r \<and> ce_txHash e = ce_txHash r \<and> ce_logIndex e = ce_logIndex r"

definition upsert_event_stmt :: "chain_event_row \<Rightarrow> pdb stmt" where
  "upsert_event_stmt r = plain (\<lambda>d. (d\<lparr>db_chainEvents := upsert (same_event r)
     (\<lambda>e. r\<lparr>ce_createdAt := ce_createdAt e\<rparr>) r (db_chainEvents d)\<rparr>, 1))"

text \<open>The new event is given by its row; its mark and its time are set here.\<close>

definition upsertPaymentChainEvent :: "chain_event_row \<Rightarrow> unit pact" where
  "upsertPaymentChainEvent r = bindA date_now (\<lambda>ts.
     bindA (dbx (upsert_event_stmt (r\<lparr>ce_canonical := True, ce_createdAt := ts\<rparr>))) (\<lambda>_. ret ()))"

definition displace_block_stmt :: "block_row \<Rightarrow> pdb stmt" where
  "displace_block_stmt r = (let p = (\<lambda>b. bk_chainId b = bk_chainId r \<and> bk_number b = bk_number r \<and>
       bk_hash b \<noteq> bk_hash r \<and> bk_canonical b) in
     plain (\<lambda>d. (d\<lparr>db_blocks := upd p (\<lambda>b. b\<lparr>bk_canonical := False\<rparr>) (db_blocks d)\<rparr>, hits p (db_blocks d))))"

definition same_block :: "block_row \<Rightarrow> block_row \<Rightarrow> bool" where
  "same_block r b \<longleftrightarrow> bk_chainId b = bk_chainId r \<and> bk_number b = bk_number r \<and> bk_hash b = bk_hash r"

definition upsert_block_stmt :: "block_row \<Rightarrow> pdb stmt" where
  "upsert_block_stmt r = checked blocks_unique (\<lambda>d. (d\<lparr>db_blocks := upsert (same_block r)
     (\<lambda>b. b\<lparr>bk_canonical := True\<rparr>) r (db_blocks d)\<rparr>, 1))"

definition upsert_checkpoint_stmt :: "checkpoint_row \<Rightarrow> pdb stmt" where
  "upsert_checkpoint_stmt r = plain (\<lambda>d. (d\<lparr>db_checkpoints := upsert (\<lambda>c. cp_chainId c = cp_chainId r)
     (\<lambda>c. r) r (db_checkpoints d)\<rparr>, 1))"

definition checkpoint_batch :: "block_row \<Rightarrow> int \<Rightarrow> pdb stmt list" where
  "checkpoint_batch r ts =
     [displace_block_stmt r, upsert_block_stmt r,
      upsert_checkpoint_stmt \<lparr>cp_chainId = bk_chainId r, cp_blockNumber = bk_number r, cp_blockHash = bk_hash r,
        cp_updatedAt = ts\<rparr>]"

definition commitRouterCheckpoint :: "block_row \<Rightarrow> unit pact" where
  "commitRouterCheckpoint r = bindA date_now (\<lambda>ts.
     bindA (dbb (checkpoint_batch (r\<lparr>bk_canonical := True\<rparr>) ts)) (\<lambda>_. ret ()))"

subsection \<open>The journal leaves the accounts alone\<close>

lemma keeps_journal [intro]:
  "keeps (orphan_events_stmt c n)" "keeps (orphan_blocks_stmt c n)" "keeps (move_checkpoint_stmt c a ts)"
  "keeps (insert_incident_stmt i)" "keeps (upsert_event_stmt e)" "keeps (displace_block_stmt b)"
  "keeps (upsert_block_stmt b)" "keeps (upsert_checkpoint_stmt cp)"
  unfolding orphan_events_stmt_def orphan_blocks_stmt_def move_checkpoint_stmt_def insert_incident_stmt_def
    upsert_event_stmt_def displace_block_stmt_def upsert_block_stmt_def upsert_checkpoint_stmt_def Let_def
  by (rule keeps_same; auto dest!: stmt_SomeD simp: same_accounts_def)+

lemma guar_rollbackRouterJournal [intro]: "guar pay_I pay_R (rollbackRouterJournal c cp a)"
  unfolding rollbackRouterJournal_def
  by (intro pay.guar_bindA pay.guar_calm pay.guar_randomUUID guar_dbb_keeps keeps_batch)
    (auto simp: rollback_batch_def)

lemma guar_upsertPaymentChainEvent [intro]: "guar pay_I pay_R (upsertPaymentChainEvent e)"
  unfolding upsertPaymentChainEvent_def by (intro pay.guar_bindA pay.guar_calm guar_dbx_keeps keeps_journal)

lemma guar_commitRouterCheckpoint [intro]: "guar pay_I pay_R (commitRouterCheckpoint b)"
  unfolding commitRouterCheckpoint_def
  by (intro pay.guar_bindA pay.guar_calm guar_dbb_keeps keeps_batch) (auto simp: checkpoint_batch_def)

lemma guar_journal_reads [intro]:
  "guar pay_I pay_R (getRouterCheckpoint c)" "guar pay_I pay_R (listCanonicalRouterBlocksBefore c n)"
  unfolding getRouterCheckpoint_def listCanonicalRouterBlocksBefore_def by (intro pay.guar_calm)+

subsection \<open>The journal refines a map of heights\<close>

text \<open>
  What the journal promises: for every chain a partial map from heights to the hash of the block that is taken for
  canonical there, and the position up to which the chain was scanned.
\<close>

definition canon :: "pdb \<Rightarrow> int \<Rightarrow> int \<Rightarrow> string option" where
  "canon d c n = map_option bk_hash (find (\<lambda>b. bk_chainId b = c \<and> bk_number b = n \<and> bk_canonical b) (db_blocks d))"

definition scan_position :: "pdb \<Rightarrow> int \<Rightarrow> (int \<times> string) option" where
  "scan_position d c = map_option (\<lambda>r. (cp_blockNumber r, cp_blockHash r)) (find (\<lambda>r. cp_chainId r = c) (db_checkpoints d))"

definition block_key :: "block_row \<Rightarrow> int \<times> int \<times> string" where
  "block_key b = (bk_chainId b, bk_number b, bk_hash b)"

definition block_height :: "block_row \<Rightarrow> int \<times> int" where
  "block_height b = (bk_chainId b, bk_number b)"

lemma blocks_unique_iff:
  "blocks_unique d \<longleftrightarrow> distinct (map block_key (db_blocks d)) \<and>
     inj_on block_height {b \<in> set (db_blocks d). bk_canonical b}"
  by (auto simp: blocks_unique_def distinct_map block_key_def [abs_def] block_height_def [abs_def])

lemma canon_Some:
  assumes "blocks_unique d"
  shows "canon d c n = Some h \<longleftrightarrow>
    (\<exists>b \<in> set (db_blocks d). bk_chainId b = c \<and> bk_number b = n \<and> bk_hash b = h \<and> bk_canonical b)"
proof
  assume "\<exists>b \<in> set (db_blocks d). bk_chainId b = c \<and> bk_number b = n \<and> bk_hash b = h \<and> bk_canonical b"
  then obtain b where b: "b \<in> set (db_blocks d)" "bk_chainId b = c" "bk_number b = n" "bk_hash b = h" "bk_canonical b"
    by blast
  then obtain x where x: "find (\<lambda>b. bk_chainId b = c \<and> bk_number b = n \<and> bk_canonical b) (db_blocks d) = Some x"
    by (cases "find (\<lambda>b. bk_chainId b = c \<and> bk_number b = n \<and> bk_canonical b) (db_blocks d)") (auto simp: find_None_iff)
  note fx = find_SomeD [OF x]
  have "x = b"
  proof (rule inj_onD [of block_height "{b \<in> set (db_blocks d). bk_canonical b}"])
    show "inj_on block_height {b \<in> set (db_blocks d). bk_canonical b}" using assms by (simp add: blocks_unique_iff)
  qed (use b fx in \<open>simp_all add: block_height_def\<close>)
  then show "canon d c n = Some h" using x b by (simp add: canon_def)
next
  assume "canon d c n = Some h"
  then obtain x where x: "find (\<lambda>b. bk_chainId b = c \<and> bk_number b = n \<and> bk_canonical b) (db_blocks d) = Some x" "bk_hash x = h"
    by (auto simp: canon_def)
  show "\<exists>b \<in> set (db_blocks d). bk_chainId b = c \<and> bk_number b = n \<and> bk_hash b = h \<and> bk_canonical b"
    using find_SomeD [OF x(1)] x(2) by blast
qed

lemma canon_ext:
  assumes "blocks_unique d" and "\<And>c n h. (\<exists>b \<in> set (db_blocks d). bk_chainId b = c \<and> bk_number b = n \<and> bk_hash b = h \<and>
      bk_canonical b) \<longleftrightarrow> f c n = Some h"
  shows "canon d = f"
proof (intro ext)
  fix c n
  have e: "canon d c n = Some h \<longleftrightarrow> f c n = Some h" for h
    unfolding canon_Some [OF assms(1)] by (rule assms(2))
  show "canon d c n = f c n"
  proof (cases "f c n")
    case None
    then show ?thesis using e by (metis not_None_eq)
  next
    case (Some h)
    then show ?thesis using e [of h] by simp
  qed
qed

lemma set_upsert: "set (upsert p f r rs) = (if list_ex p rs then (\<lambda>x. if p x then f x else x) ` set rs else insert r (set rs))"
  by (simp add: upsert_def set_upd)

lemma find_upsert:
  assumes "\<And>x. k x = y \<Longrightarrow> k (f x) = y" and "k r = y"
  shows "find (\<lambda>x. k x = z) (upsert (\<lambda>x. k x = y) f r rs) =
    (if z = y then (case find (\<lambda>x. k x = y) rs of None \<Rightarrow> Some r | Some x \<Rightarrow> Some (f x)) else find (\<lambda>x. k x = z) rs)"
proof -
  have u: "find (\<lambda>x. k x = z) (upd (\<lambda>x. k x = y) f rs) =
      (if z = y then map_option f (find (\<lambda>x. k x = y) rs) else find (\<lambda>x. k x = z) rs)"
    using assms(1) by (induction rs) (auto simp: upd_def)
  have a: "find (\<lambda>x. k x = z) (rs @ [r]) = (case find (\<lambda>x. k x = z) rs of None \<Rightarrow> if z = y then Some r else None | Some x \<Rightarrow> Some x)"
    using assms(2) by (induction rs) auto
  have ex: "list_ex (\<lambda>x. k x = y) rs \<longleftrightarrow> find (\<lambda>x. k x = y) rs \<noteq> None"
    by (auto simp: list_ex_iff find_None_iff)
  show ?thesis by (cases "find (\<lambda>x. k x = y) rs") (simp_all add: upsert_def ex u a split: option.split)
qed

text \<open>A displaced and inserted block keeps the heights unique.\<close>

lemma commit_blocks:
  assumes u: "blocks_unique d" and "bk_canonical r"
  defines "displaced \<equiv> upd (\<lambda>b. bk_chainId b = bk_chainId r \<and> bk_number b = bk_number r \<and>
       bk_hash b \<noteq> bk_hash r \<and> bk_canonical b) (\<lambda>b. b\<lparr>bk_canonical := False\<rparr>) (db_blocks d)"
  assumes d': "db_blocks d' = upsert (same_block r) (\<lambda>b. b\<lparr>bk_canonical := True\<rparr>) r displaced"
  shows "blocks_unique d' \<and> canon d' = (canon d)(bk_chainId r := (canon d (bk_chainId r))(bk_number r \<mapsto> bk_hash r))"
proof -
  have kd: "map block_key displaced = map block_key (db_blocks d)"
    unfolding displaced_def by (rule map_upd) (simp add: block_key_def)
  have keys: "distinct (map block_key (db_blocks d'))"
  proof (cases "list_ex (same_block r) displaced")
    case True
    have "map block_key (upd (same_block r) (\<lambda>b. b\<lparr>bk_canonical := True\<rparr>) displaced) = map block_key displaced"
      by (rule map_upd) (simp add: block_key_def)
    then show ?thesis using True u kd by (simp add: d' upsert_def blocks_unique_iff)
  next
    case False
    then have "block_key r \<notin> set (map block_key displaced)"
      by (auto simp: list_ex_iff same_block_def block_key_def)
    then show ?thesis using False u kd by (simp add: d' upsert_def blocks_unique_iff)
  qed
  have dm: "x \<in> set displaced \<and> bk_canonical x \<longleftrightarrow> x \<in> set (db_blocks d) \<and> bk_canonical x \<and>
      (bk_chainId x = bk_chainId r \<and> bk_number x = bk_number r \<longrightarrow> bk_hash x = bk_hash r)" for x
    unfolding displaced_def set_upd by (auto split: if_splits)
  have mem: "(\<exists>b \<in> set (db_blocks d'). bk_chainId b = c \<and> bk_number b = n \<and> bk_hash b = h \<and> bk_canonical b) \<longleftrightarrow>
      (if c = bk_chainId r \<and> n = bk_number r then h = bk_hash r
       else \<exists>b \<in> set (db_blocks d). bk_chainId b = c \<and> bk_number b = n \<and> bk_hash b = h \<and> bk_canonical b)" for c n h
  proof
    assume "\<exists>b \<in> set (db_blocks d'). bk_chainId b = c \<and> bk_number b = n \<and> bk_hash b = h \<and> bk_canonical b"
    then obtain b where b: "b \<in> set (db_blocks d')" "bk_chainId b = c" "bk_number b = n" "bk_hash b = h" "bk_canonical b"
      by blast
    consider "same_block r b" | "b \<in> set displaced"
      using b(1) unfolding d' set_upsert by (auto simp: same_block_def split: if_splits)
    then show "if c = bk_chainId r \<and> n = bk_number r then h = bk_hash r
       else \<exists>b \<in> set (db_blocks d). bk_chainId b = c \<and> bk_number b = n \<and> bk_hash b = h \<and> bk_canonical b"
    proof cases
      case 1
      then show ?thesis using b by (simp add: same_block_def)
    next
      case 2
      then show ?thesis using b dm by auto
    qed
  next
    assume as: "if c = bk_chainId r \<and> n = bk_number r then h = bk_hash r
       else \<exists>b \<in> set (db_blocks d). bk_chainId b = c \<and> bk_number b = n \<and> bk_hash b = h \<and> bk_canonical b"
    show "\<exists>b \<in> set (db_blocks d'). bk_chainId b = c \<and> bk_number b = n \<and> bk_hash b = h \<and> bk_canonical b"
    proof (cases "c = bk_chainId r \<and> n = bk_number r")
      case True
      show ?thesis
      proof (cases "list_ex (same_block r) displaced")
        case ex: True
        then obtain x where x: "x \<in> set displaced" "same_block r x" by (auto simp: list_ex_iff)
        then have "x\<lparr>bk_canonical := True\<rparr> \<in> set (db_blocks d')" unfolding d' set_upsert using ex by force
        then show ?thesis using x(2) True as by (intro bexI) (auto simp: same_block_def)
      next
        case False
        then have "r \<in> set (db_blocks d')" unfolding d' set_upsert by simp
        then show ?thesis using True as assms(2) by (intro bexI [of _ r]) auto
      qed
    next
      case False
      then obtain b where b: "b \<in> set (db_blocks d)" "bk_chainId b = c" "bk_number b = n" "bk_hash b = h" "bk_canonical b"
        using as by auto
      then have "b \<in> set displaced" "\<not> same_block r b" using dm False by (auto simp: same_block_def)
      then have "b \<in> set (db_blocks d')" unfolding d' set_upsert by force
      then show ?thesis using b by blast
    qed
  qed
  have inj: "inj_on block_height {b \<in> set (db_blocks d'). bk_canonical b}"
  proof (rule inj_onI, clarify)
    fix x y assume x: "x \<in> set (db_blocks d')" "bk_canonical x" and y: "y \<in> set (db_blocks d')" "bk_canonical y"
      and h: "block_height x = block_height y"
    have ex: "if bk_chainId b = bk_chainId r \<and> bk_number b = bk_number r then bk_hash b = bk_hash r
       else \<exists>b' \<in> set (db_blocks d). bk_chainId b' = bk_chainId b \<and> bk_number b' = bk_number b \<and> bk_hash b' = bk_hash b \<and> bk_canonical b'"
      if "b \<in> set (db_blocks d')" "bk_canonical b" for b
      using that mem [of "bk_chainId b" "bk_number b" "bk_hash b"] by metis
    have "bk_hash x = bk_hash y"
    proof (cases "bk_chainId x = bk_chainId r \<and> bk_number x = bk_number r")
      case True
      then show ?thesis using ex [OF x] ex [OF y] h by (simp add: block_height_def)
    next
      case False
      then obtain x' y' where xy: "x' \<in> set (db_blocks d)" "bk_canonical x'" "block_height x' = block_height x" "bk_hash x' = bk_hash x"
          "y' \<in> set (db_blocks d)" "bk_canonical y'" "block_height y' = block_height y" "bk_hash y' = bk_hash y"
        using ex [OF x] ex [OF y] h by (auto simp: block_height_def)
      have "x' = y'" using u xy h by (intro inj_onD [of block_height "{b \<in> set (db_blocks d). bk_canonical b}" x' y'])
        (simp_all add: blocks_unique_iff)
      then show ?thesis using xy by simp
    qed
    then have "block_key x = block_key y" using h by (simp add: block_key_def block_height_def)
    then show "x = y" using keys x(1) y(1) by (auto simp: distinct_map dest: inj_onD)
  qed
  have u': "blocks_unique d'" using keys inj by (simp add: blocks_unique_iff)
  have "canon d' = (canon d)(bk_chainId r := (canon d (bk_chainId r))(bk_number r \<mapsto> bk_hash r))"
    by (rule canon_ext [OF u']) (auto simp: mem canon_Some [OF u])
  then show ?thesis using u' by simp
qed

text \<open>
  C12: the journal refines the map of heights and the scan position.  Committing a scanned block never
  aborts on the index of canonical heights, makes this block the canonical one of its height, moves the position to it and
  changes nothing else; rolling back to an ancestor, when it does not abort, forgets exactly the heights above the ancestor and
  moves the position back to it.
\<close>
theorem journal_refines_heights:
  assumes "blocks_unique d" and "bk_canonical r"
  shows "(\<exists>d' ns. batch (checkpoint_batch r ts) d = Some (d', ns) \<and> blocks_unique d' \<and>
      canon d' = (canon d)(bk_chainId r := (canon d (bk_chainId r))(bk_number r \<mapsto> bk_hash r)) \<and>
      scan_position d' = (scan_position d)(bk_chainId r \<mapsto> (bk_number r, bk_hash r))) \<and>
    (batch (rollback_batch c cp a k u ts) d = Some (d2, ns2) \<longrightarrow> blocks_unique d2 \<and>
      canon d2 = (canon d)(c := canon d c |` {..rp_number a}) \<and>
      scan_position d2 = (case scan_position d c of None \<Rightarrow> scan_position d
        | Some x \<Rightarrow> (scan_position d)(c \<mapsto> (rp_number a, rp_hash a))))"
proof (intro conjI impI)
  let ?displaced = "upd (\<lambda>b. bk_chainId b = bk_chainId r \<and> bk_number b = bk_number r \<and>
       bk_hash b \<noteq> bk_hash r \<and> bk_canonical b) (\<lambda>b. b\<lparr>bk_canonical := False\<rparr>) (db_blocks d)"
  let ?row = "\<lparr>cp_chainId = bk_chainId r, cp_blockNumber = bk_number r, cp_blockHash = bk_hash r, cp_updatedAt = ts\<rparr>"
  let ?blocks = "upsert (same_block r) (\<lambda>b. b\<lparr>bk_canonical := True\<rparr>) r ?displaced"
  let ?d = "d\<lparr>db_blocks := ?blocks, db_checkpoints := upsert (\<lambda>c. cp_chainId c = bk_chainId r) (\<lambda>c. ?row) ?row (db_checkpoints d)\<rparr>"
  note c = commit_blocks [OF assms]
  have u: "blocks_unique (d\<lparr>db_blocks := ?blocks\<rparr>)" by (rule conjunct1 [OF c]) simp
  have b: "\<exists>ns. batch (checkpoint_batch r ts) d = Some (?d, ns)"
    using u by (simp add: checkpoint_batch_def displace_block_stmt_def upsert_block_stmt_def upsert_checkpoint_stmt_def
        plain_def checked_def Let_def)
  have p: "scan_position ?d = (scan_position d)(bk_chainId r \<mapsto> (bk_number r, bk_hash r))"
    by (rule ext) (simp add: scan_position_def find_upsert split: option.split)
  have "blocks_unique ?d \<and> canon ?d = (canon d)(bk_chainId r := (canon d (bk_chainId r))(bk_number r \<mapsto> bk_hash r))"
    by (rule c) simp
  then show "\<exists>d' ns. batch (checkpoint_batch r ts) d = Some (d', ns) \<and> blocks_unique d' \<and>
      canon d' = (canon d)(bk_chainId r := (canon d (bk_chainId r))(bk_number r \<mapsto> bk_hash r)) \<and>
      scan_position d' = (scan_position d)(bk_chainId r \<mapsto> (bk_number r, bk_hash r))"
    using b p by blast
next
  assume run: "batch (rollback_batch c cp a k u ts) d = Some (d2, ns2)"
  then have blocks: "db_blocks d2 = upd (\<lambda>b. bk_chainId b = c \<and> rp_number a < bk_number b \<and> bk_canonical b)
        (\<lambda>b. b\<lparr>bk_canonical := False\<rparr>) (db_blocks d)"
    and cps: "db_checkpoints d2 = upd (\<lambda>r. cp_chainId r = c) (\<lambda>r. r\<lparr>cp_blockNumber := rp_number a, cp_blockHash := rp_hash a,
       cp_updatedAt := ts\<rparr>) (db_checkpoints d)"
    by (auto simp: rollback_batch_def orphan_events_stmt_def orphan_blocks_stmt_def move_checkpoint_stmt_def
        insert_incident_stmt_def plain_def checked_def Let_def split: if_splits)
  have mem: "(\<exists>b \<in> set (db_blocks d2). bk_chainId b = c' \<and> bk_number b = n \<and> bk_hash b = h \<and> bk_canonical b) \<longleftrightarrow>
      (c' = c \<longrightarrow> n \<le> rp_number a) \<and>
      (\<exists>b \<in> set (db_blocks d). bk_chainId b = c' \<and> bk_number b = n \<and> bk_hash b = h \<and> bk_canonical b)" for c' n h
    unfolding blocks set_upd by (auto simp: not_less split: if_splits) (metis+)?
  have "map block_key (db_blocks d2) = map block_key (db_blocks d)"
    unfolding blocks by (rule map_upd) (simp add: block_key_def)
  moreover have "{b \<in> set (db_blocks d2). bk_canonical b} \<subseteq> {b \<in> set (db_blocks d). bk_canonical b}"
    unfolding blocks set_upd by (auto split: if_splits)
  ultimately show u2: "blocks_unique d2" using assms(1) by (auto simp: blocks_unique_iff dest: inj_on_subset)
  show "canon d2 = (canon d)(c := canon d c |` {..rp_number a})"
    by (rule canon_ext [OF u2]) (auto simp: mem canon_Some [OF assms(1)] restrict_map_def)
  have "find (\<lambda>r. cp_chainId r = x) (db_checkpoints d2) = (if x = c then map_option (\<lambda>r. r\<lparr>cp_blockNumber := rp_number a,
      cp_blockHash := rp_hash a, cp_updatedAt := ts\<rparr>) (find (\<lambda>r. cp_chainId r = x) (db_checkpoints d))
      else find (\<lambda>r. cp_chainId r = x) (db_checkpoints d))" for x
    unfolding cps
    by (subst find_upd_key) (simp, cases "find (\<lambda>r. cp_chainId r = x) (db_checkpoints d)", auto dest: find_SomeD)
  then show "scan_position d2 = (case scan_position d c of None \<Rightarrow> scan_position d
      | Some x \<Rightarrow> (scan_position d)(c \<mapsto> (rp_number a, rp_hash a)))"
    by (intro ext) (auto simp: scan_position_def split: option.split)
qed

definition journal_db :: pdb where
  "journal_db = empty_db\<lparr>db_blocks := [\<lparr>bk_chainId = 1, bk_number = 10, bk_hash = ''0xa'', bk_parentHash = ''0x9'',
     bk_timestamp = [], bk_canonical = True\<rparr>],
     db_checkpoints := [\<lparr>cp_chainId = 1, cp_blockNumber = 10, cp_blockHash = ''0xa'', cp_updatedAt = 0\<rparr>]\<rparr>"

definition journal_block :: block_row where
  "journal_block = \<lparr>bk_chainId = 1, bk_number = 12, bk_hash = ''0xc'', bk_parentHash = ''0xb'', bk_timestamp = [], bk_canonical = True\<rparr>"

lemma journal_refines_heights_witness:
  "\<exists>d' ns. batch (checkpoint_batch journal_block 5) journal_db = Some (d', ns) \<and> canon d' 1 12 = Some ''0xc'' \<and>
     canon d' 1 10 = Some ''0xa'' \<and> scan_position d' 1 = Some (12, ''0xc'')"
proof -
  have u: "blocks_unique journal_db" "bk_canonical journal_block" by code_simp+
  have c: "canon journal_db 1 10 = Some ''0xa''" by code_simp
  obtain d' ns where "batch (checkpoint_batch journal_block 5) journal_db = Some (d', ns)"
      "canon d' = (canon journal_db)(bk_chainId journal_block := (canon journal_db (bk_chainId journal_block))
        (bk_number journal_block \<mapsto> bk_hash journal_block))"
      "scan_position d' = (scan_position journal_db)(bk_chainId journal_block \<mapsto> (bk_number journal_block, bk_hash journal_block))"
    using journal_refines_heights [OF u, of 5 1 undefined undefined 0 "[]" undefined undefined] by blast
  then show ?thesis using c by (simp add: journal_block_def)
qed

end
