(* ===== verification/AppDb.thy ===== *)
theory AppDb
  imports ChainJournal EventMessages "HOL-Library.List_Lexorder" "HOL-Library.Char_ord"
begin

text \<open>
  The tables of the App backend's database that its chain journal, projections and indexers share
  (\<^verbatim>\<open>src/server/migrations\<close>), the epoch guard (\<^verbatim>\<open>services/chainEpoch.ts\<close>), the indexers' cursors (\<^verbatim>\<open>services/storage/syncState.ts\<close>)
  and the wake-up of a job.  Timestamps are integers.  \<open>CHECK\<close> constraints on the sign of numbers, the versions of the Home page that
  triggers count, and tables of other features are left out.
\<close>

subsection \<open>Rows\<close>

datatype consistency = Sequenced | BatchPosted | L1Confirmed | AssertionConfirmed | SafeLevel | Finalized

record journal_block =
  ab_chainId :: int
  ab_number :: int
  ab_hash :: string
  ab_parentHash :: "string option"
  ab_timestamp :: "int option"
  ab_level :: consistency
  ab_canonical :: bool
  ab_source :: string
  ab_observedAt :: int
  ab_l1BatchNumber :: "int option"
  ab_l1Confirmations :: "int option"

record journal_row =
  av_id :: string
  av_chainId :: int
  av_txHash :: string
  av_logIndex :: int
  av_kind :: string
  av_blockNumber :: int
  av_blockHash :: string
  av_transactionIndex :: "int option"
  av_contract :: string
  av_topic0 :: "string option"
  av_payload :: string
  av_canonical :: bool
  av_source :: string
  av_observedAt :: int

datatype account_role = FromRole | ToRole | AccountRole | PayerRole | RecipientRole

record event_account =
  ea_eventId :: string
  ea_blockHash :: string
  ea_uid :: string
  ea_account :: string
  ea_asset :: string
  ea_role :: account_role
  ea_delta :: "int option"

record stream_checkpoint =
  ac_chainId :: int
  ac_stream :: string
  ac_number :: int
  ac_hash :: string
  ac_level :: consistency
  ac_updatedAt :: int
  ac_epoch :: int

record watermark =
  wm_chainId :: int
  wm_projector :: string
  wm_version :: int
  wm_number :: int
  wm_hash :: string
  wm_checkpoint :: string
  wm_updatedAt :: int

record applied_event =
  ap_chainId :: int
  ap_projector :: string
  ap_version :: int
  ap_eventId :: string
  ap_blockHash :: string
  ap_appliedAt :: int

record delta_row =
  bd_chainId :: int
  bd_projector :: string
  bd_version :: int
  bd_eventId :: string
  bd_blockHash :: string
  bd_uid :: string
  bd_account :: string
  bd_asset :: string
  bd_delta :: int
  bd_canonical :: bool
  bd_appliedAt :: int
  bd_revertedAt :: "int option"

record baseline_row =
  bb_chainId :: int
  bb_account :: string
  bb_asset :: string
  bb_version :: int
  bb_balance :: int
  bb_number :: int
  bb_hash :: string
  bb_observedAt :: int

datatype projection_strategy = FromEvents | EventsPlusRpc | RpcOnly | KnownOperations

record policy_row =
  ip_chainId :: int
  ip_asset :: string
  ip_strategy :: projection_strategy
  ip_version :: int
  ip_enabled :: bool
  ip_tolerance :: int

record snapshot_row =
  bs_uid :: string
  bs_account :: string
  bs_chainId :: int
  bs_asset :: string
  bs_balance :: int
  bs_decimals :: int
  bs_number :: int
  bs_hash :: string
  bs_level :: consistency
  bs_strategy :: projection_strategy
  bs_version :: int
  bs_observedAt :: int
  bs_reconciledAt :: "int option"
  bs_source :: string
  bs_canonical :: bool

record user_event_row =
  ue_id :: string
  ue_dedupeKey :: string
  ue_uid :: string
  ue_type :: string
  ue_payload :: string
  ue_priority :: int
  ue_status :: string
  ue_attempts :: int
  ue_nextAttemptAt :: int
  ue_leaseOwner :: "string option"
  ue_leaseExpiresAt :: "int option"
  ue_lastErrorCode :: "string option"
  ue_createdAt :: int
  ue_updatedAt :: int
  ue_deliveredAt :: "int option"

record operation_row =
  uo_chainId :: int
  uo_hash :: string
  uo_eventId :: string
  uo_txHash :: string
  uo_number :: int
  uo_blockHash :: string
  uo_logIndex :: int
  uo_transactionIndex :: "int option"
  uo_sender :: string
  uo_nonce :: int
  uo_success :: bool
  uo_gasCost :: int
  uo_gasUsed :: int
  uo_level :: consistency
  uo_canonical :: bool
  uo_source :: string
  uo_observedAt :: int

datatype refresh_status = RefreshPending | RefreshProcessing | RefreshCompleted | RefreshFailed

record refresh_row =
  rr_chainId :: int
  rr_account :: string
  rr_uid :: string
  rr_reason :: string
  rr_priority :: int
  rr_status :: refresh_status
  rr_requiredBlock :: "int option"
  rr_attempts :: int
  rr_requestedAt :: int
  rr_updatedAt :: int
  rr_leaseOwner :: "string option"
  rr_leaseExpiresAt :: "int option"
  rr_lastErrorCode :: "string option"

datatype delivery_state = DeliveryReceived | DeliveryProcessed | DeliveryRejected

record source_delivery =
  sd_provider :: string
  sd_id :: string
  sd_webhookId :: "string option"
  sd_status :: delivery_state
  sd_eventCount :: int
  sd_firstSeenAt :: int
  sd_processedAt :: "int option"
  sd_lastErrorCode :: "string option"

record ledger_row =
  lr_id :: string
  lr_uid :: string
  lr_direction :: string
  lr_kind :: string
  lr_txHash :: string
  lr_logIndex :: "int option"
  lr_token :: string
  lr_amount :: string
  lr_amountSource :: string
  lr_amountRaw :: "string option"
  lr_decimals :: "int option"
  lr_chainId :: "int option"
  lr_number :: "int option"
  lr_blockHash :: "string option"
  lr_transactionIndex :: "int option"
  lr_level :: "consistency option"
  lr_version :: "int option"
  lr_counterparty :: "string option"
  lr_counterpartyUid :: "string option"
  lr_reference :: "string option"
  lr_linkId :: "string option"
  lr_createdAt :: int
  lr_canonical :: bool

record reorg_state =
  rs_chainId :: int
  rs_epoch :: int
  rs_ancestorNumber :: "int option"
  rs_ancestorHash :: "string option"
  rs_updatedAt :: int

record epoch_guard =
  eg_id :: string
  eg_chainId :: int
  eg_expectedEpoch :: int
  eg_createdAt :: int

record replay_row =
  rq_chainId :: int
  rq_stream :: string
  rq_ancestorNumber :: int
  rq_epoch :: int
  rq_failed :: bool
  rq_attempts :: int
  rq_nextAttemptAt :: int
  rq_lastErrorCode :: "string option"
  rq_createdAt :: int
  rq_updatedAt :: int

record reorg_incident =
  in_id :: string
  in_chainId :: int
  in_stream :: string
  in_detectedAt :: int
  in_previousNumber :: int
  in_previousHash :: string
  in_observedHash :: string
  in_ancestorNumber :: "int option"
  in_ancestorHash :: "string option"
  in_depth :: "int option"
  in_recovered :: bool
  in_affectedEvents :: int
  in_affectedAccounts :: int

text \<open>\<open>last_block\<close> is a column of type \<open>TEXT\<close>; texts are ordered by their first different character, as in SQLite.\<close>

record cursor_row =
  sy_key :: string
  sy_lastBlock :: string
  sy_updatedAt :: int

datatype shard_status = ShardActive | ShardDraining | ShardRetired

record shard_row =
  sh_chainId :: int
  sh_stream :: string
  sh_id :: int
  sh_generation :: int
  sh_maxWallets :: int
  sh_status :: shard_status
  sh_createdAt :: int
  sh_updatedAt :: int

record assignment_row =
  wl_chainId :: int
  wl_stream :: string
  wl_account :: string
  wl_uid :: string
  wl_shard :: int
  wl_version :: int
  wl_active :: bool
  wl_assignedAt :: int
  wl_updatedAt :: int

record sweep_row =
  sg_chainId :: int
  sg_targetBlock :: int
  sg_cursorStream :: string
  sg_cursorShard :: int
  sg_startedAt :: int
  sg_updatedAt :: int

datatype audit_outcome = AuditBaseline | AuditMatch | AuditDrift | AuditDeferred

record audit_row =
  ba_id :: string
  ba_chainId :: int
  ba_account :: string
  ba_uid :: string
  ba_asset :: string
  ba_version :: int
  ba_projected :: "int option"
  ba_onchain :: int
  ba_drift :: "int option"
  ba_tolerance :: int
  ba_number :: int
  ba_hash :: string
  ba_outcome :: audit_outcome
  ba_reason :: "string option"
  ba_checkedAt :: int

record lease_row =
  kl_key :: string
  kl_owner :: string
  kl_expiresAt :: int
  kl_updatedAt :: int

datatype account_kind = AccountCreate | Faucet | RecoveryPropose | RecoveryExecute | RecoveryCancel

datatype account_status = OpPrepared | OpSubmitted | OpConfirmed | OpFailed | OpNeedsReview

record account_operation =
  kp_id :: string
  kp_uid :: string
  kp_chainId :: int
  kp_chainKey :: string
  kp_kind :: account_kind
  kp_status :: account_status
  kp_txHash :: string
  kp_rawTransaction :: string
  kp_signer :: string
  kp_nonce :: int
  kp_metadata :: json
  kp_attempts :: int
  kp_lastError :: "string option"
  kp_errorCode :: "string option"
  kp_createdAt :: int
  kp_updatedAt :: int
  kp_confirmedAt :: "int option"
  kp_expiresAt :: int

record bundler_row =
  kb_endpoint :: string
  kb_chainId :: int
  kb_entryPoint :: string
  kb_supported :: bool
  kb_checkedAt :: int

record app_user =
  au_uid :: string
  au_wallet :: "string option"

record app_db =
  ad_users :: "app_user list"
  ad_blocks :: "journal_block list"
  ad_events :: "journal_row list"
  ad_accounts :: "event_account list"
  ad_checkpoints :: "stream_checkpoint list"
  ad_watermarks :: "watermark list"
  ad_applied :: "applied_event list"
  ad_deltas :: "delta_row list"
  ad_baselines :: "baseline_row list"
  ad_policies :: "policy_row list"
  ad_snapshots :: "snapshot_row list"
  ad_userEvents :: "user_event_row list"
  ad_operations :: "operation_row list"
  ad_refreshes :: "refresh_row list"
  ad_deliveries :: "source_delivery list"
  ad_ledger :: "ledger_row list"
  ad_reorgStates :: "reorg_state list"
  ad_guards :: "epoch_guard list"
  ad_replays :: "replay_row list"
  ad_incidents :: "reorg_incident list"
  ad_cursors :: "cursor_row list"
  ad_shards :: "shard_row list"
  ad_assignments :: "assignment_row list"
  ad_sweeps :: "sweep_row list"
  ad_audits :: "audit_row list"
  ad_leases :: "lease_row list"
  ad_accountOps :: "account_operation list"
  ad_bundlers :: "bundler_row list"

definition empty_app_db :: app_db where
  "empty_app_db = \<lparr>ad_users = [], ad_blocks = [], ad_events = [], ad_accounts = [], ad_checkpoints = [], ad_watermarks = [],
     ad_applied = [], ad_deltas = [], ad_baselines = [], ad_policies = [], ad_snapshots = [], ad_userEvents = [],
     ad_operations = [], ad_refreshes = [], ad_deliveries = [], ad_ledger = [], ad_reorgStates = [], ad_guards = [],
     ad_replays = [], ad_incidents = [], ad_cursors = [], ad_shards = [], ad_assignments = [], ad_sweeps = [], ad_audits = [],
     ad_leases = [], ad_accountOps = [], ad_bundlers = []\<rparr>"

definition user_exists :: "string \<Rightarrow> app_db \<Rightarrow> bool" where
  "user_exists u d \<longleftrightarrow> list_ex (\<lambda>r. au_uid r = u) (ad_users d)"

subsection \<open>Statements\<close>

text \<open>\<open>INSERT OR IGNORE\<close> into a table with a unique key: \<open>clash\<close> says which rows exclude the new one.\<close>

definition insert_ignore :: "('r \<Rightarrow> bool) \<Rightarrow> 'r \<Rightarrow> 'r list \<Rightarrow> 'r list" where
  "insert_ignore clash r rows = (if list_ex clash rows then rows else rows @ [r])"

definition ignored :: "('r \<Rightarrow> bool) \<Rightarrow> 'r list \<Rightarrow> nat" where
  "ignored clash rows = (if list_ex clash rows then 0 else 1)"

text \<open>
  \<open>INSERT ... ON CONFLICT(key) DO UPDATE SET f WHERE ok\<close>; the number of changed rows is 0 when the conflicting row does not
  satisfy the condition.
\<close>

definition upsert_if :: "('r \<Rightarrow> bool) \<Rightarrow> ('r \<Rightarrow> bool) \<Rightarrow> ('r \<Rightarrow> 'r) \<Rightarrow> 'r \<Rightarrow> 'r list \<Rightarrow> 'r list \<times> nat" where
  "upsert_if key ok f r rows = (if list_ex key rows
     then (upd (\<lambda>x. key x \<and> ok x) f rows, hits (\<lambda>x. key x \<and> ok x) rows) else (rows @ [r], 1))"

type_synonym ('m, 'a) appact = "(app_db, 'm, 'a) act"

subsection \<open>The epoch of a chain\<close>

definition epoch_of :: "int \<Rightarrow> app_db \<Rightarrow> int" where
  "epoch_of chain d = (case find (\<lambda>s. rs_chainId s = chain) (ad_reorgStates d) of None \<Rightarrow> 0 | Some s \<Rightarrow> rs_epoch s)"

definition getChainReorgEpoch :: "int \<Rightarrow> ('m, int) appact" where
  "getChainReorgEpoch chain = dbq (epoch_of chain)"

definition createChainEpochGuard :: "int \<Rightarrow> int \<Rightarrow> ('m, epoch_guard) appact" where
  "createChainEpochGuard chain expected = (
     if \<not> isSafeInteger chain \<or> chain < 1 \<or> \<not> isSafeInteger expected \<or> expected < 0
     then throw (Thrown ''Chain epoch guard is invalid'')
     else bindA randomUUID (\<lambda>u. bindA date_now (\<lambda>now.
       ret \<lparr>eg_id = u, eg_chainId = chain, eg_expectedEpoch = expected, eg_createdAt = now\<rparr>)))"

text \<open>The trigger \<open>trg_chain_reorg_epoch_guard\<close> aborts the transaction when the epoch is another one.\<close>

definition guard_insert :: "epoch_guard \<Rightarrow> app_db stmt" where
  "guard_insert g d = (if epoch_of (eg_chainId g) d \<noteq> eg_expectedEpoch g \<or> list_ex (\<lambda>x. eg_id x = eg_id g) (ad_guards d)
     then None else Some (d\<lparr>ad_guards := ad_guards d @ [g]\<rparr>, 1))"

definition guard_delete :: "epoch_guard \<Rightarrow> app_db stmt" where
  "guard_delete g = plain (\<lambda>d. (d\<lparr>ad_guards := filter (\<lambda>x. eg_id x \<noteq> eg_id g) (ad_guards d)\<rparr>,
     hits (\<lambda>x. eg_id x = eg_id g) (ad_guards d)))"

subsection \<open>The indexers' cursors\<close>

definition getSyncCursor :: "string \<Rightarrow> ('m, int option) appact" where
  "getSyncCursor key = dbq (\<lambda>d. map_option (\<lambda>r. digits_int (sy_lastBlock r)) (find (\<lambda>r. sy_key r = key) (ad_cursors d)))"

definition cursor_stmt :: "string \<Rightarrow> int \<Rightarrow> int \<Rightarrow> app_db stmt" where
  "cursor_stmt key lastBlock now = plain (\<lambda>d. (let r = \<lparr>sy_key = key, sy_lastBlock = string_of_int lastBlock, sy_updatedAt = now\<rparr> in
     d\<lparr>ad_cursors := upsert (\<lambda>x. sy_key x = key) (\<lambda>x. r) r (ad_cursors d)\<rparr>, 1))"

definition setSyncCursor :: "string \<Rightarrow> int \<Rightarrow> int option \<Rightarrow> int option \<Rightarrow> ('m, unit) appact" where
  "setSyncCursor key lastBlock chainId expectedReorgEpoch = (case (chainId, expectedReorgEpoch) of
       (None, Some e) \<Rightarrow> throw (Thrown ''Epoch-guarded cursors require a chain id'')
     | (Some c, Some e) \<Rightarrow> bindA (createChainEpochGuard c e) (\<lambda>g. bindA date_now (\<lambda>now.
         bindA (dbb [guard_insert g, cursor_stmt key lastBlock now, guard_delete g]) (\<lambda>_. ret ())))
     | _ \<Rightarrow> bindA date_now (\<lambda>now. bindA (dbx (cursor_stmt key lastBlock now)) (\<lambda>_. ret ())))"

subsection \<open>Waking a job\<close>

text \<open>
  What leaves the App backend: calls of the scheduler object (whose answer is \<open>accepted\<close>), messages of the fallback queue, and
  calls of a chain's node.
\<close>

datatype app_event = SchedulerCalled string event_request | MessageSent event_message int | NodeCalled string

record app_services =
  as_iso :: "int \<Rightarrow> string"
  as_env :: event_env
  as_scheduler :: "int \<Rightarrow> bool option"
  as_queue :: "int \<Rightarrow> unit option"

definition wake :: "app_services \<Rightarrow> string \<Rightarrow> event_options \<Rightarrow> (app_event, bool) appact" where
  "wake A job opts = bindA date_now (\<lambda>now. case scheduleEventJob (as_iso A) (as_env A) now job opts of
       Invalid_options \<Rightarrow> throw (Thrown ''Event job schedule options are invalid'')
     | Call_scheduler name r \<Rightarrow> callA (SchedulerCalled name r) (as_scheduler A) ''scheduler''
     | Send_message m delay \<Rightarrow> bindA (callA (MessageSent m delay) (as_queue A) ''queue'') (\<lambda>_. ret True)
     | EventMessages.event_call.Unavailable \<Rightarrow> ret False)"

definition job_reason :: "string \<Rightarrow> event_options" where
  "job_reason reason = \<lparr>so_runAt = None, so_delayMs = None, so_reason = reason, so_partition = None, so_targetBlock = None\<rparr>"

end
