(* ===== verification/AppJournal.thy ===== *)
theory AppJournal
  imports AppDb
begin

text \<open>
  The canonical journal of the chain (\<^verbatim>\<open>src/server/src/services/chainJournal.ts\<close>): one batch writes a block, its events with the
  accounts they touch, effects for users, receipts of user operations, and the checkpoint of the stream, all under the
  guard of the chain's epoch.
\<close>

subsection \<open>Input\<close>

record journal_account =
  ja_uid :: string
  ja_account :: string
  ja_asset :: string
  ja_role :: account_role
  ja_delta :: "int option"

record journal_event =
  je_txHash :: string
  je_logIndex :: int
  je_kind :: string
  je_blockNumber :: int
  je_blockHash :: string
  je_transactionIndex :: "int option"
  je_contract :: string
  je_topic0 :: "string option"
  je_payload :: json
  je_source :: string
  je_observedAt :: int
  je_canonical :: "bool option"
  je_accounts :: "journal_account list"

record journal_user_event =
  ju_dedupeKey :: string
  ju_uid :: string
  ju_type :: string
  ju_payload :: json
  ju_priority :: "int option"

text \<open>The kind of such an event is always \<open>entrypoint.UserOperationEvent\<close>.\<close>

record journal_operation =
  jo_hash :: string
  jo_txHash :: string
  jo_logIndex :: int
  jo_blockNumber :: int
  jo_blockHash :: string
  jo_transactionIndex :: "int option"
  jo_sender :: string
  jo_nonce :: int
  jo_success :: bool
  jo_gasCost :: int
  jo_gasUsed :: int
  jo_source :: string
  jo_observedAt :: int

text \<open>The block is given as a \<open>journal_block\<close>; its mark \<open>ab_canonical\<close> is not used, and its timestamp is in seconds.\<close>

record journal_input =
  ji_stream :: string
  ji_block :: journal_block
  ji_events :: "journal_event list"
  ji_userEvents :: "journal_user_event list"
  ji_operations :: "journal_operation list"
  ji_expectedEpoch :: "int option"

record journal_result =
  jr_inserted :: "string set"
  jr_duplicate :: "string set"
  jr_userEvents :: nat
  jr_operations :: nat
  jr_advanced :: bool

text \<open>\<open>new Date(n)\<close> has no ISO text beyond 8.64e15 milliseconds from the epoch; \<open>toISOString\<close> then throws.\<close>

definition isoFromBlockTimestamp :: "int option \<Rightarrow> err + int option" where
  "isoFromBlockTimestamp t = (case t of None \<Rightarrow> Inr None
     | Some s \<Rightarrow> (let milliseconds = s * 1000 in
         if MAX_SAFE_INTEGER < milliseconds then Inr None
         else if 8640000000000000 < milliseconds \<or> milliseconds < -8640000000000000 then Inl (Thrown ''Invalid time value'')
         else Inr (Some milliseconds)))"

definition chainEventId :: "int \<Rightarrow> string \<Rightarrow> int \<Rightarrow> string \<Rightarrow> string" where
  "chainEventId chain txHash logIndex kind =
     string_of_int chain @ '':'' @ toLowerCase txHash @ '':'' @ string_of_int logIndex @ '':'' @ kind"

subsection \<open>Statements\<close>

definition demote_blocks :: "journal_block \<Rightarrow> app_db stmt" where
  "demote_blocks b = (let p = (\<lambda>x. ab_chainId x = ab_chainId b \<and> ab_number x = ab_number b \<and> ab_hash x \<noteq> ab_hash b \<and> ab_canonical x) in
     plain (\<lambda>d. (d\<lparr>ad_blocks := upd p (\<lambda>x. x\<lparr>ab_canonical := False\<rparr>) (ad_blocks d)\<rparr>, hits p (ad_blocks d))))"

definition same_block_key :: "journal_block \<Rightarrow> journal_block \<Rightarrow> bool" where
  "same_block_key b x \<longleftrightarrow> ab_chainId x = ab_chainId b \<and> ab_number x = ab_number b \<and> ab_hash x = ab_hash b"

text \<open>Primary key, and one canonical row per height.\<close>

definition block_clash :: "journal_block \<Rightarrow> journal_block \<Rightarrow> bool" where
  "block_clash b x \<longleftrightarrow> same_block_key b x \<or> ab_chainId x = ab_chainId b \<and> ab_number x = ab_number b \<and> ab_canonical x"

definition insert_block :: "journal_block \<Rightarrow> app_db stmt" where
  "insert_block b = plain (\<lambda>d. (d\<lparr>ad_blocks := insert_ignore (block_clash b) b (ad_blocks d)\<rparr>, ignored (block_clash b) (ad_blocks d)))"

definition app_blocks_unique :: "app_db \<Rightarrow> bool" where
  "app_blocks_unique d \<longleftrightarrow> distinct (map (\<lambda>b. (ab_chainId b, ab_number b, ab_hash b)) (ad_blocks d)) \<and>
     distinct (map (\<lambda>b. (ab_chainId b, ab_number b)) (filter ab_canonical (ad_blocks d)))"

definition refresh_block :: "journal_block \<Rightarrow> app_db stmt" where
  "refresh_block b = checked app_blocks_unique (\<lambda>d. (d\<lparr>ad_blocks := upd (same_block_key b) (\<lambda>x. x\<lparr>
       ab_parentHash := coalesce (ab_parentHash b) (ab_parentHash x), ab_timestamp := coalesce (ab_timestamp b) (ab_timestamp x),
       ab_level := ab_level b, ab_canonical := True, ab_source := ab_source b, ab_observedAt := ab_observedAt b,
       ab_l1BatchNumber := coalesce (ab_l1BatchNumber b) (ab_l1BatchNumber x),
       ab_l1Confirmations := coalesce (ab_l1Confirmations b) (ab_l1Confirmations x)\<rparr>) (ad_blocks d)\<rparr>,
     hits (same_block_key b) (ad_blocks d)))"

definition same_log :: "journal_row \<Rightarrow> journal_row \<Rightarrow> bool" where
  "same_log r x \<longleftrightarrow> av_chainId x = av_chainId r \<and> av_txHash x = av_txHash r \<and> av_logIndex x = av_logIndex r \<and> av_kind x = av_kind r"

definition demote_events :: "journal_row \<Rightarrow> app_db stmt" where
  "demote_events r = (let p = (\<lambda>x. same_log r x \<and> av_blockHash x \<noteq> av_blockHash r \<and> av_canonical x) in
     plain (\<lambda>d. (d\<lparr>ad_events := upd p (\<lambda>x. x\<lparr>av_canonical := False\<rparr>) (ad_events d)\<rparr>, hits p (ad_events d))))"

definition same_occurrence :: "journal_row \<Rightarrow> journal_row \<Rightarrow> bool" where
  "same_occurrence r x \<longleftrightarrow> av_id x = av_id r \<and> av_blockHash x = av_blockHash r"

definition event_clash :: "journal_row \<Rightarrow> journal_row \<Rightarrow> bool" where
  "event_clash r x \<longleftrightarrow> same_occurrence r x \<or> same_log r x \<and> av_canonical r \<and> av_canonical x"

text \<open>The row's block must exist.\<close>

definition insert_journal_row :: "journal_row \<Rightarrow> app_db stmt" where
  "insert_journal_row r d = (if list_ex (event_clash r) (ad_events d) then Some (d, 0)
     else if \<not> list_ex (\<lambda>b. ab_chainId b = av_chainId r \<and> ab_number b = av_blockNumber r \<and> ab_hash b = av_blockHash r) (ad_blocks d)
       then None
     else Some (d\<lparr>ad_events := ad_events d @ [r]\<rparr>, 1))"

definition app_events_unique :: "app_db \<Rightarrow> bool" where
  "app_events_unique d \<longleftrightarrow> distinct (map (\<lambda>e. (av_id e, av_blockHash e)) (ad_events d)) \<and>
     distinct (map (\<lambda>e. (av_chainId e, av_txHash e, av_logIndex e, av_kind e)) (filter av_canonical (ad_events d)))"

definition refresh_event :: "journal_row \<Rightarrow> app_db stmt" where
  "refresh_event r = checked app_events_unique (\<lambda>d. (d\<lparr>ad_events := upd (same_occurrence r) (\<lambda>x. x\<lparr>
       av_canonical := av_canonical r, av_source := av_source r, av_observedAt := av_observedAt r\<rparr>) (ad_events d)\<rparr>,
     hits (same_occurrence r) (ad_events d)))"

definition account_clash :: "event_account \<Rightarrow> event_account \<Rightarrow> bool" where
  "account_clash a x \<longleftrightarrow> ea_eventId x = ea_eventId a \<and> ea_blockHash x = ea_blockHash a \<and> ea_uid x = ea_uid a \<and>
     ea_role x = ea_role a \<and> ea_asset x = ea_asset a"

text \<open>The event and the user must exist.\<close>

definition insert_event_account :: "event_account \<Rightarrow> app_db stmt" where
  "insert_event_account a d = (if list_ex (account_clash a) (ad_accounts d) then Some (d, 0)
     else if \<not> list_ex (\<lambda>e. av_id e = ea_eventId a \<and> av_blockHash e = ea_blockHash a) (ad_events d) \<or> \<not> user_exists (ea_uid a) d then None
     else Some (d\<lparr>ad_accounts := ad_accounts d @ [a]\<rparr>, 1))"

definition insert_user_event :: "user_event_row \<Rightarrow> app_db stmt" where
  "insert_user_event u d = (if list_ex (\<lambda>x. ue_id x = ue_id u \<or> ue_dedupeKey x = ue_dedupeKey u) (ad_userEvents d) then Some (d, 0)
     else if \<not> user_exists (ue_uid u) d then None
     else Some (d\<lparr>ad_userEvents := ad_userEvents d @ [u]\<rparr>, 1))"

definition demote_operations :: "operation_row \<Rightarrow> app_db stmt" where
  "demote_operations r = (let p = (\<lambda>x. uo_chainId x = uo_chainId r \<and> uo_hash x = uo_hash r \<and> uo_blockHash x \<noteq> uo_blockHash r \<and> uo_canonical x) in
     plain (\<lambda>d. (d\<lparr>ad_operations := upd p (\<lambda>x. x\<lparr>uo_canonical := False\<rparr>) (ad_operations d)\<rparr>, hits p (ad_operations d))))"

definition operations_unique :: "app_db \<Rightarrow> bool" where
  "operations_unique d \<longleftrightarrow> distinct (map (\<lambda>r. (uo_chainId r, uo_hash r, uo_blockHash r)) (ad_operations d)) \<and>
     distinct (map (\<lambda>r. (uo_chainId r, uo_txHash r, uo_logIndex r, uo_blockHash r)) (ad_operations d)) \<and>
     distinct (map (\<lambda>r. (uo_chainId r, uo_hash r)) (filter uo_canonical (ad_operations d)))"

text \<open>The conflict with the primary key is an update of all columns; its event must exist.\<close>

definition upsert_operation :: "operation_row \<Rightarrow> app_db stmt" where
  "upsert_operation r = checked (\<lambda>d. operations_unique d \<and> list_ex (\<lambda>e. av_id e = uo_eventId r \<and> av_blockHash e = uo_blockHash r) (ad_events d))
     (\<lambda>d. (d\<lparr>ad_operations := upsert (\<lambda>x. uo_chainId x = uo_chainId r \<and> uo_hash x = uo_hash r \<and> uo_blockHash x = uo_blockHash r)
       (\<lambda>x. r) r (ad_operations d)\<rparr>, 1))"

definition same_stream :: "stream_checkpoint \<Rightarrow> stream_checkpoint \<Rightarrow> bool" where
  "same_stream c x \<longleftrightarrow> ac_chainId x = ac_chainId c \<and> ac_stream x = ac_stream c"

definition not_behind :: "stream_checkpoint \<Rightarrow> stream_checkpoint \<Rightarrow> bool" where
  "not_behind c x \<longleftrightarrow> ac_number x < ac_number c \<or> ac_number c = ac_number x \<and> ac_hash c = ac_hash x"

definition checkpoint_stmt :: "stream_checkpoint \<Rightarrow> app_db stmt" where
  "checkpoint_stmt c = plain (\<lambda>d. (case upsert_if (same_stream c) (not_behind c) (\<lambda>x. c) c (ad_checkpoints d) of
     (cs, n) \<Rightarrow> (d\<lparr>ad_checkpoints := cs\<rparr>, n)))"

subsection \<open>One block\<close>

text \<open>What the code reads of the result of a statement.\<close>

datatype journal_tag = Plain_stmt | Inserts_event string | Enqueues_user_event | Projects_operation | Advances_checkpoint

definition lower_option :: "string option \<Rightarrow> string option" where
  "lower_option = map_option toLowerCase"

definition block_record :: "journal_block \<Rightarrow> int option \<Rightarrow> journal_block" where
  "block_record b timestamp = b\<lparr>ab_hash := toLowerCase (ab_hash b), ab_parentHash := lower_option (ab_parentHash b),
     ab_timestamp := timestamp, ab_canonical := True\<rparr>"

definition event_record :: "viem \<Rightarrow> int \<Rightarrow> journal_event \<Rightarrow> journal_row" where
  "event_record V chain e = \<lparr>av_id = chainEventId chain (je_txHash e) (je_logIndex e) (je_kind e), av_chainId = chain,
     av_txHash = toLowerCase (je_txHash e), av_logIndex = je_logIndex e, av_kind = je_kind e, av_blockNumber = je_blockNumber e,
     av_blockHash = toLowerCase (je_blockHash e), av_transactionIndex = je_transactionIndex e,
     av_contract = toLowerCase (je_contract e), av_topic0 = lower_option (je_topic0 e), av_payload = v_jsonText V (je_payload e),
     av_canonical = (je_canonical e \<noteq> Some False), av_source = je_source e, av_observedAt = je_observedAt e\<rparr>"

definition account_record :: "journal_row \<Rightarrow> journal_account \<Rightarrow> event_account" where
  "account_record r a = \<lparr>ea_eventId = av_id r, ea_blockHash = av_blockHash r, ea_uid = ja_uid a,
     ea_account = toLowerCase (ja_account a), ea_asset = ja_asset a, ea_role = ja_role a, ea_delta = ja_delta a\<rparr>"

definition event_stmts :: "viem \<Rightarrow> int \<Rightarrow> journal_event \<Rightarrow> (journal_tag \<times> app_db stmt) list" where
  "event_stmts V chain e = (let r = event_record V chain e in
     (if av_canonical r then [(Plain_stmt, demote_events r)] else []) @
     [(Inserts_event (av_id r), insert_journal_row r), (Plain_stmt, refresh_event r)] @
     map (\<lambda>a. (Plain_stmt, insert_event_account (account_record r a))) (je_accounts e))"

definition user_event_record :: "viem \<Rightarrow> int \<Rightarrow> journal_user_event \<Rightarrow> user_event_row" where
  "user_event_record V now u = \<lparr>ue_id = ju_dedupeKey u, ue_dedupeKey = ju_dedupeKey u, ue_uid = ju_uid u, ue_type = ju_type u,
     ue_payload = v_jsonText V (ju_payload u), ue_priority = (case ju_priority u of None \<Rightarrow> 2 | Some p \<Rightarrow> p), ue_status = ''pending'',
     ue_attempts = 0, ue_nextAttemptAt = now, ue_leaseOwner = None, ue_leaseExpiresAt = None, ue_lastErrorCode = None,
     ue_createdAt = now, ue_updatedAt = now, ue_deliveredAt = None\<rparr>"

definition operation_record :: "journal_block \<Rightarrow> journal_operation \<Rightarrow> operation_row" where
  "operation_record b r = \<lparr>uo_chainId = ab_chainId b, uo_hash = toLowerCase (jo_hash r),
     uo_eventId = chainEventId (ab_chainId b) (jo_txHash r) (jo_logIndex r) ''entrypoint.UserOperationEvent'',
     uo_txHash = toLowerCase (jo_txHash r), uo_number = jo_blockNumber r, uo_blockHash = toLowerCase (jo_blockHash r),
     uo_logIndex = jo_logIndex r, uo_transactionIndex = jo_transactionIndex r, uo_sender = toLowerCase (jo_sender r),
     uo_nonce = jo_nonce r, uo_success = jo_success r, uo_gasCost = jo_gasCost r, uo_gasUsed = jo_gasUsed r,
     uo_level = ab_level b, uo_canonical = True, uo_source = jo_source r, uo_observedAt = jo_observedAt r\<rparr>"

definition operation_stmts :: "journal_block \<Rightarrow> journal_operation \<Rightarrow> (journal_tag \<times> app_db stmt) list" where
  "operation_stmts b r = (let row = operation_record b r in
     [(Plain_stmt, demote_operations row), (Projects_operation, upsert_operation row)])"

definition checkpoint_record :: "journal_block \<Rightarrow> string \<Rightarrow> int \<Rightarrow> stream_checkpoint" where
  "checkpoint_record b stream epoch = \<lparr>ac_chainId = ab_chainId b, ac_stream = stream, ac_number = ab_number b,
     ac_hash = toLowerCase (ab_hash b), ac_level = ab_level b, ac_updatedAt = ab_observedAt b, ac_epoch = epoch\<rparr>"

definition journal_stmts :: "viem \<Rightarrow> journal_input \<Rightarrow> epoch_guard \<Rightarrow> int option \<Rightarrow> (journal_tag \<times> app_db stmt) list" where
  "journal_stmts V inp g timestamp = (let b = ji_block inp; row = block_record b timestamp in
     [(Plain_stmt, guard_insert g), (Plain_stmt, demote_blocks row), (Plain_stmt, insert_block row), (Plain_stmt, refresh_block row)] @
     concat (map (event_stmts V (ab_chainId b)) (ji_events inp)) @
     map (\<lambda>u. (Enqueues_user_event, insert_user_event (user_event_record V (ab_observedAt b) u))) (ji_userEvents inp) @
     concat (map (operation_stmts b) (ji_operations inp)) @
     [(Advances_checkpoint, checkpoint_stmt (checkpoint_record b (ji_stream inp) (eg_expectedEpoch g))), (Plain_stmt, guard_delete g)])"

definition in_block :: "journal_block \<Rightarrow> int \<Rightarrow> string \<Rightarrow> bool" where
  "in_block b n h \<longleftrightarrow> n = ab_number b \<and> toLowerCase h = toLowerCase (ab_hash b)"

definition journal_outcome :: "(journal_tag \<times> nat) list \<Rightarrow> journal_result" where
  "journal_outcome rs = \<lparr>jr_inserted = set [i. (Inserts_event i, n) \<leftarrow> rs, 0 < n],
     jr_duplicate = set [i. (Inserts_event i, n) \<leftarrow> rs, n = 0],
     jr_userEvents = length (filter (\<lambda>(t, n). t = Enqueues_user_event \<and> 0 < n) rs),
     jr_operations = length (filter (\<lambda>(t, n). t = Projects_operation \<and> 0 < n) rs),
     jr_advanced = list_ex (\<lambda>(t, n). t = Advances_checkpoint \<and> 0 < n) rs\<rparr>"

definition journalBlockEvents :: "viem \<Rightarrow> app_services \<Rightarrow> journal_input \<Rightarrow> (app_event, journal_result) appact" where
  "journalBlockEvents V A inp = (let b = ji_block inp in
     if \<not> list_all (\<lambda>e. in_block b (je_blockNumber e) (je_blockHash e)) (ji_events inp)
       then throw (Thrown ''Journal batch contains events from a different block'')
     else if \<not> list_all (\<lambda>r. in_block b (jo_blockNumber r) (jo_blockHash r)) (ji_operations inp)
       then throw (Thrown ''Journal batch contains UserOperation evidence from a different block'')
     else bindA (case ji_expectedEpoch inp of None \<Rightarrow> getChainReorgEpoch (ab_chainId b) | Some e \<Rightarrow> ret e) (\<lambda>epoch.
       bindA (createChainEpochGuard (ab_chainId b) epoch) (\<lambda>g.
       bindA (liftE (isoFromBlockTimestamp (ab_timestamp b))) (\<lambda>timestamp. let ss = journal_stmts V inp g timestamp in
       bindA (dbb (map snd ss)) (\<lambda>ns. let result = journal_outcome (zip (map fst ss) ns) in
       bindA (if 0 < jr_operations result then wake A ''payment_reconciler'' (job_reason ''canonical_userop_projected'') else ret True) (\<lambda>_.
       ret result))))))"

subsection \<open>Deliveries of a provider\<close>

definition recordSourceDelivery :: "string \<Rightarrow> string \<Rightarrow> string option \<Rightarrow> delivery_state \<Rightarrow> int option \<Rightarrow> string option \<Rightarrow> ('m, bool) appact" where
  "recordSourceDelivery provider deliveryId webhookId st eventCount errorCode = bindA date_now (\<lambda>now.
     let same = (\<lambda>x. sd_provider x = provider \<and> sd_id x = deliveryId) in
     bindA (dbx (plain (\<lambda>d. (d\<lparr>ad_deliveries := insert_ignore same \<lparr>sd_provider = provider, sd_id = deliveryId, sd_webhookId = webhookId,
       sd_status = st, sd_eventCount = (case eventCount of None \<Rightarrow> 0 | Some n \<Rightarrow> n), sd_firstSeenAt = now,
       sd_processedAt = (if st = DeliveryProcessed then Some now else None), sd_lastErrorCode = errorCode\<rparr> (ad_deliveries d)\<rparr>,
       ignored same (ad_deliveries d))))) (\<lambda>n. ret (0 < n)))"

definition getSourceDelivery :: "string \<Rightarrow> string \<Rightarrow> ('m, (delivery_state \<times> int) option) appact" where
  "getSourceDelivery provider deliveryId = dbq (\<lambda>d. map_option (\<lambda>x. (sd_status x, sd_eventCount x))
     (find (\<lambda>x. sd_provider x = provider \<and> sd_id x = deliveryId) (ad_deliveries d)))"

definition finishSourceDelivery :: "string \<Rightarrow> string \<Rightarrow> delivery_state \<Rightarrow> int \<Rightarrow> string option \<Rightarrow> ('m, unit) appact" where
  "finishSourceDelivery provider deliveryId st eventCount errorCode = bindA date_now (\<lambda>now.
     let same = (\<lambda>x. sd_provider x = provider \<and> sd_id x = deliveryId) in
     bindA (dbx (plain (\<lambda>d. (d\<lparr>ad_deliveries := upd same (\<lambda>x. x\<lparr>sd_status := st, sd_eventCount := eventCount,
       sd_processedAt := Some now, sd_lastErrorCode := errorCode\<rparr>) (ad_deliveries d)\<rparr>, hits same (ad_deliveries d))))) (\<lambda>_. ret ()))"

end
