(* ===== verification/BalanceModel.thy ===== *)
theory BalanceModel
  imports AppDb
begin

text \<open>
  The read model of balances (\<^verbatim>\<open>src/server/src/services/balanceReadModel.ts\<close>): the last known balance of each account and
  asset, and the table of requested refreshes with its leases.
\<close>

subsection \<open>Snapshots\<close>

definition listBalanceSnapshots :: "string \<Rightarrow> int \<Rightarrow> ('m, snapshot_row list) appact" where
  "listBalanceSnapshots uid chain = dbq (\<lambda>d. sort_key bs_asset
     (filter (\<lambda>r. bs_uid r = uid \<and> bs_chainId r = chain \<and> bs_canonical r) (ad_snapshots d)))"

definition same_balance :: "snapshot_row \<Rightarrow> snapshot_row \<Rightarrow> bool" where
  "same_balance r x \<longleftrightarrow> bs_chainId x = bs_chainId r \<and> bs_account x = bs_account r \<and> bs_asset x = bs_asset r"

text \<open>Which stored row the new one may replace.\<close>

definition replaceable :: "snapshot_row \<Rightarrow> snapshot_row \<Rightarrow> bool" where
  "replaceable r x \<longleftrightarrow> \<not> bs_canonical x \<or> bs_number x < bs_number r \<or> bs_number r = bs_number x \<and> bs_hash r = bs_hash x"

definition snapshot_record :: "snapshot_row \<Rightarrow> snapshot_row" where
  "snapshot_record r = r\<lparr>bs_account := toLowerCase (bs_account r), bs_hash := toLowerCase (bs_hash r), bs_canonical := True\<rparr>"

text \<open>The user of a written row must exist.\<close>

definition snapshot_stmt :: "snapshot_row \<Rightarrow> app_db stmt" where
  "snapshot_stmt r d = (case upsert_if (same_balance r) (replaceable r) (\<lambda>x. r) r (ad_snapshots d) of (rows, n) \<Rightarrow>
     if 0 < n \<and> \<not> user_exists (bs_uid r) d then None else Some (d\<lparr>ad_snapshots := rows\<rparr>, n))"

definition upsertBalanceSnapshots :: "snapshot_row list \<Rightarrow> ('m, nat \<times> nat) appact" where
  "upsertBalanceSnapshots snapshots = (if snapshots = [] then ret (0, 0)
     else bindA (dbb (map (\<lambda>s. snapshot_stmt (snapshot_record s)) snapshots)) (\<lambda>ns.
       let written = length (filter (\<lambda>n. 0 < n) ns) in ret (written, length snapshots - written)))"

subsection \<open>Requests for a refresh\<close>

text \<open>The key of a message is its chain and account; both are in it.\<close>

record refresh_message =
  rm_uid :: string
  rm_account :: string
  rm_chainId :: int
  rm_reason :: string
  rm_priority :: int
  rm_notBefore :: "int option"

definition balanceRefreshKey :: "int \<Rightarrow> string \<Rightarrow> string" where
  "balanceRefreshKey chain account = string_of_int chain @ '':'' @ toLowerCase account"

definition message_key :: "refresh_message \<Rightarrow> string" where
  "message_key m = balanceRefreshKey (rm_chainId m) (rm_account m)"

definition buildBalanceRefreshMessage :: "refresh_message \<Rightarrow> refresh_message" where
  "buildBalanceRefreshMessage m = m\<lparr>rm_account := toLowerCase (rm_account m)\<rparr>"

definition coalesceBalanceRefreshMessages :: "refresh_message \<Rightarrow> refresh_message \<Rightarrow> refresh_message" where
  "coalesceBalanceRefreshMessages prior next_one = (
     if rm_priority next_one < rm_priority prior then next_one
     else if rm_priority prior < rm_priority next_one then prior
     else case rm_notBefore next_one of None \<Rightarrow> prior
       | Some n \<Rightarrow> (case rm_notBefore prior of None \<Rightarrow> next_one | Some p \<Rightarrow> if n \<le> p then prior else next_one))"

definition refresh_key :: "refresh_message \<Rightarrow> refresh_row \<Rightarrow> bool" where
  "refresh_key m r \<longleftrightarrow> rr_chainId r = rm_chainId m \<and> rr_account r = rm_account m"

definition finished_refresh :: "refresh_row \<Rightarrow> bool" where
  "finished_refresh r \<longleftrightarrow> rr_status r \<in> {RefreshCompleted, RefreshFailed}"

text \<open>The condition of the update.\<close>

definition refresh_wanted :: "refresh_message \<Rightarrow> int \<Rightarrow> refresh_row \<Rightarrow> bool" where
  "refresh_wanted m now r \<longleftrightarrow> finished_refresh r \<or>
     rr_status r = RefreshProcessing \<and> (case rr_leaseExpiresAt r of None \<Rightarrow> False | Some t \<Rightarrow> t \<le> now) \<or>
     rm_priority m < rr_priority r \<or>
     rm_priority m = rr_priority r \<and> (case rm_notBefore m of None \<Rightarrow> False
       | Some n \<Rightarrow> (case rr_requiredBlock r of None \<Rightarrow> True | Some b \<Rightarrow> b < n))"

definition merged_block :: "refresh_message \<Rightarrow> refresh_row \<Rightarrow> int option" where
  "merged_block m r = (if finished_refresh r \<or> rm_priority m < rr_priority r then rm_notBefore m
     else if rr_priority r < rm_priority m then rr_requiredBlock r
     else case (rm_notBefore m, rr_requiredBlock r) of (None, b) \<Rightarrow> b | (Some n, None) \<Rightarrow> Some n | (Some n, Some b) \<Rightarrow> Some (max b n))"

definition requested_again :: "refresh_message \<Rightarrow> int \<Rightarrow> refresh_row \<Rightarrow> refresh_row" where
  "requested_again m now r = r\<lparr>rr_uid := rm_uid m,
     rr_reason := (if finished_refresh r \<or> rm_priority m \<le> rr_priority r then rm_reason m else rr_reason r),
     rr_priority := min (rr_priority r) (rm_priority m), rr_status := RefreshPending, rr_requiredBlock := merged_block m r,
     rr_attempts := (if finished_refresh r \<or> rm_priority m < rr_priority r then 0 else rr_attempts r),
     rr_requestedAt := (if finished_refresh r \<or> rm_priority m \<le> rr_priority r then now else rr_requestedAt r),
     rr_updatedAt := now, rr_leaseOwner := None, rr_leaseExpiresAt := None, rr_lastErrorCode := None\<rparr>"

definition first_request :: "refresh_message \<Rightarrow> int \<Rightarrow> refresh_row" where
  "first_request m now = \<lparr>rr_chainId = rm_chainId m, rr_account = rm_account m, rr_uid = rm_uid m, rr_reason = rm_reason m,
     rr_priority = rm_priority m, rr_status = RefreshPending, rr_requiredBlock = rm_notBefore m, rr_attempts = 0,
     rr_requestedAt = now, rr_updatedAt = now, rr_leaseOwner = None, rr_leaseExpiresAt = None, rr_lastErrorCode = None\<rparr>"

definition refresh_rows :: "refresh_message \<Rightarrow> int \<Rightarrow> refresh_row list \<Rightarrow> refresh_row list \<times> nat" where
  "refresh_rows m now = upsert_if (refresh_key m) (refresh_wanted m now) (requested_again m now) (first_request m now)"

text \<open>The user must exist.\<close>

definition refresh_stmt :: "refresh_message \<Rightarrow> int \<Rightarrow> app_db stmt" where
  "refresh_stmt m now d = (case refresh_rows m now (ad_refreshes d) of (rows, n) \<Rightarrow>
     if 0 < n \<and> \<not> user_exists (rm_uid m) d then None else Some (d\<lparr>ad_refreshes := rows\<rparr>, n))"

definition dispatchBalanceRefreshJob :: "app_services \<Rightarrow> (app_event, unit) appact" where
  "dispatchBalanceRefreshJob A = bindA (wake A ''balance_refresh'' (job_reason ''balance_refresh_requested'')) (\<lambda>_. ret ())"

definition requestBalanceRefresh :: "app_services \<Rightarrow> refresh_message \<Rightarrow> (app_event, refresh_message) appact" where
  "requestBalanceRefresh A inp = bindA date_now (\<lambda>now. let m = buildBalanceRefreshMessage inp in
     bindA (dbx (refresh_stmt m now)) (\<lambda>n. if 0 < n then bindA (dispatchBalanceRefreshJob A) (\<lambda>_. ret m) else ret m))"

text \<open>The map from keys to messages, in the order in which the keys came.\<close>

definition add_message :: "refresh_message list \<Rightarrow> refresh_message \<Rightarrow> refresh_message list" where
  "add_message ms m = (if list_ex (\<lambda>x. message_key x = message_key m) ms
     then map (\<lambda>x. if message_key x = message_key m then coalesceBalanceRefreshMessages x m else x) ms else ms @ [m])"

definition coalesced :: "refresh_message list \<Rightarrow> refresh_message list" where
  "coalesced inputs = foldl add_message [] (map buildBalanceRefreshMessage inputs)"

text \<open>Batches of 100, at most \<open>k\<close> of them, and whether one of them changed a row.\<close>

fun refresh_chunks :: "int \<Rightarrow> nat \<Rightarrow> refresh_message list \<Rightarrow> (app_event, bool) appact" where
  "refresh_chunks now 0 ms = ret False"
| "refresh_chunks now (Suc k) ms = (if ms = [] then ret False
     else bindA (dbb (map (\<lambda>m. refresh_stmt m now) (take 100 ms))) (\<lambda>ns.
       bindA (refresh_chunks now k (drop 100 ms)) (\<lambda>later. ret (list_ex (\<lambda>n. 0 < n) ns \<or> later))))"

definition requestBalanceRefreshBatch :: "app_services \<Rightarrow> refresh_message list \<Rightarrow> (app_event, refresh_message list) appact" where
  "requestBalanceRefreshBatch A inputs = (let messages = coalesced inputs in
     if messages = [] then ret [] else bindA date_now (\<lambda>now.
       bindA (refresh_chunks now (length messages) messages) (\<lambda>shouldDispatch.
       bindA (whenA shouldDispatch (dispatchBalanceRefreshJob A)) (\<lambda>_. ret messages))))"

subsection \<open>Serving requests\<close>

record refresh_request =
  rf_message :: refresh_message
  rf_attempts :: int
  rf_requestedAt :: int

definition mapRefreshRequest :: "refresh_row \<Rightarrow> refresh_request" where
  "mapRefreshRequest r = \<lparr>rf_message = \<lparr>rm_uid = rr_uid r, rm_account = rr_account r, rm_chainId = rr_chainId r, rm_reason = rr_reason r,
       rm_priority = rr_priority r, rm_notBefore = rr_requiredBlock r\<rparr>, rf_attempts = rr_attempts r, rf_requestedAt = rr_requestedAt r\<rparr>"

definition refresh_due :: "int \<Rightarrow> refresh_row \<Rightarrow> bool" where
  "refresh_due now r \<longleftrightarrow> rr_status r \<in> {RefreshPending, RefreshFailed} \<or>
     rr_status r = RefreshProcessing \<and> (case rr_leaseExpiresAt r of None \<Rightarrow> False | Some t \<Rightarrow> t \<le> now)"

definition listDueBalanceRefreshes :: "nat \<Rightarrow> ('m, refresh_request list) appact" where
  "listDueBalanceRefreshes limit = bindA date_now (\<lambda>now. dbq (\<lambda>d. map mapRefreshRequest (take limit
     (sort_key rr_priority (sort_key rr_requestedAt (filter (refresh_due now) (ad_refreshes d)))))))"

definition claim_refresh_stmt :: "refresh_message \<times> string \<Rightarrow> int \<Rightarrow> int \<Rightarrow> app_db stmt" where
  "claim_refresh_stmt c now leaseExpiresAt = (case c of (m, owner) \<Rightarrow>
     let p = (\<lambda>r. rr_chainId r = rm_chainId m \<and> rr_account r = toLowerCase (rm_account m) \<and> refresh_due now r) in
     plain (\<lambda>d. (d\<lparr>ad_refreshes := upd p (\<lambda>r. r\<lparr>rr_status := RefreshProcessing, rr_leaseOwner := Some owner,
       rr_leaseExpiresAt := Some leaseExpiresAt, rr_attempts := rr_attempts r + 1, rr_updatedAt := now\<rparr>) (ad_refreshes d)\<rparr>,
       hits p (ad_refreshes d))))"

definition claimBalanceRefreshBatch :: "refresh_message list \<Rightarrow> int \<Rightarrow> ('m, (refresh_message \<times> string) list) appact" where
  "claimBalanceRefreshBatch requests leaseMs = (if requests = [] then ret []
     else bindA date_now (\<lambda>now. bindA (mapA (\<lambda>m. bindA randomUUID (\<lambda>u. ret (m, u))) requests) (\<lambda>claims.
       bindA (dbb (map (\<lambda>c. claim_refresh_stmt c now (now + leaseMs)) claims)) (\<lambda>ns.
       ret (map fst (filter (\<lambda>(c, n). 0 < n) (zip claims ns)))))))"

record refresh_outcome =
  ro_claim :: "refresh_message \<times> string"
  ro_completed :: bool
  ro_errorCode :: "string option"

definition finish_refresh_stmt :: "int \<Rightarrow> refresh_outcome \<Rightarrow> app_db stmt" where
  "finish_refresh_stmt now out = (case ro_claim out of (m, owner) \<Rightarrow>
     let p = (\<lambda>r. rr_chainId r = rm_chainId m \<and> rr_account r = toLowerCase (rm_account m) \<and> rr_status r = RefreshProcessing \<and>
       rr_leaseOwner r = Some owner) in
     plain (\<lambda>d. (d\<lparr>ad_refreshes := upd p (\<lambda>r. r\<lparr>rr_status := (if ro_completed out then RefreshCompleted else RefreshFailed),
       rr_updatedAt := now, rr_leaseOwner := None, rr_leaseExpiresAt := None,
       rr_lastErrorCode := (if ro_completed out then None
         else Some (case ro_errorCode out of None \<Rightarrow> ''RPC_RECONCILE_FAILED'' | Some c \<Rightarrow> c))\<rparr>) (ad_refreshes d)\<rparr>,
       hits p (ad_refreshes d))))"

definition finishBalanceRefreshBatch :: "refresh_outcome list \<Rightarrow> ('m, unit) appact" where
  "finishBalanceRefreshBatch outcomes = (if outcomes = [] then ret ()
     else bindA date_now (\<lambda>now. bindA (dbb (map (finish_refresh_stmt now) outcomes)) (\<lambda>_. ret ())))"

end
