(* ===== verification/Reorg.thy ===== *)
theory Reorg
  imports AppJournal BalanceModel
begin

text \<open>
  Reorganisations of the chain (\<^verbatim>\<open>src/server/src/services/reorg.ts\<close>): the check of a stream's checkpoint against the chain, the
  rollback of every table to the common ancestor, and the outbox of replay requests; with the names of streams and partitions
  (\<^verbatim>\<open>services/indexerPartitions.ts\<close>).
\<close>

subsection \<open>Names of streams and partitions\<close>

datatype transfer_direction = TransferFrom | TransferTo

record transfer_partition =
  tp_token :: string
  tp_direction :: transfer_direction
  tp_shard :: int

definition direction_text :: "transfer_direction \<Rightarrow> string" where
  "direction_text x = (case x of TransferFrom \<Rightarrow> ''from'' | TransferTo \<Rightarrow> ''to'')"

definition transferPartitionKey :: "transfer_partition \<Rightarrow> string" where
  "transferPartitionKey p = ''transfer:'' @ toLowerCase (tp_token p) @ '':'' @ direction_text (tp_direction p) @ '':shard:'' @ string_of_int (tp_shard p)"

definition transferJournalStream :: "int \<Rightarrow> transfer_partition \<Rightarrow> err + string" where
  "transferJournalStream chain p = (if \<not> isSafeInteger chain \<or> chain < 1 then Inl (Thrown ''Indexer chain id is invalid'')
     else Inr (''erc20_transfers:'' @ string_of_int chain @ '':'' @ toLowerCase (tp_token p) @ '':'' @ direction_text (tp_direction p) @
       '':shard:'' @ string_of_int (tp_shard p)))"

definition transferSyncCursorKey :: "int \<Rightarrow> transfer_partition \<Rightarrow> err + string" where
  "transferSyncCursorKey chain p = (if \<not> isSafeInteger chain \<or> chain < 1 then Inl (Thrown ''Indexer chain id is invalid'')
     else Inr (''transfers:'' @ string_of_int chain @ '':'' @ toLowerCase (tp_token p) @ '':'' @ direction_text (tp_direction p) @
       '':shard:'' @ string_of_int (tp_shard p)))"

definition shardPartitionKey :: "int \<Rightarrow> err + string" where
  "shardPartitionKey shard = (if \<not> isSafeInteger shard \<or> shard < 0 then Inl (Thrown ''Indexer shard id is invalid'')
     else Inr (''shard:'' @ string_of_int shard))"

fun split_on :: "char \<Rightarrow> string \<Rightarrow> string list" where
  "split_on x [] = [[]]"
| "split_on x (c # s) = (if c = x then [] # split_on x s else (case split_on x s of [] \<Rightarrow> [[c]] | w # ws \<Rightarrow> (c # w) # ws))"

text \<open>\<open>\d+\<close> as a safe integer that is at least \<open>least\<close>.\<close>

definition digits_number :: "int \<Rightarrow> string \<Rightarrow> int option" where
  "digits_number least s = (if s \<noteq> [] \<and> list_all is_digit s \<and> isSafeInteger (digits_int s) \<and> least \<le> digits_int s then Some (digits_int s) else None)"

definition address_shape :: "string \<Rightarrow> bool" where
  "address_shape s \<longleftrightarrow> length s = 42 \<and> take 2 s = ''0x'' \<and> list_all is_hex (drop 2 s)"

definition direction_of :: "string \<Rightarrow> transfer_direction option" where
  "direction_of s = (if s = ''from'' then Some TransferFrom else if s = ''to'' then Some TransferTo else None)"

definition partition_of :: "string \<Rightarrow> string \<Rightarrow> string \<Rightarrow> transfer_partition option" where
  "partition_of token direction shard = (case (address_shape token, direction_of direction, digits_number 0 shard) of
       (True, Some x, Some n) \<Rightarrow> Some \<lparr>tp_token = toLowerCase token, tp_direction = x, tp_shard = n\<rparr>
     | _ \<Rightarrow> None)"

text \<open>The texts between the colons match the groups of the regular expressions.\<close>

definition parseTransferPartition :: "string \<Rightarrow> transfer_partition option" where
  "parseTransferPartition s = (case split_on CHR '':'' s of
       [kind, token, direction, sh, shard] \<Rightarrow> if kind = ''transfer'' \<and> sh = ''shard'' then partition_of token direction shard else None
     | _ \<Rightarrow> None)"

definition parseTransferJournalStream :: "string \<Rightarrow> (int \<times> transfer_partition) option" where
  "parseTransferJournalStream s = (case split_on CHR '':'' s of
       [kind, chain, token, direction, sh, shard] \<Rightarrow>
         if kind = ''erc20_transfers'' \<and> sh = ''shard'' then
           (case (digits_number 1 chain, partition_of token direction shard) of (Some c, Some p) \<Rightarrow> Some (c, p) | _ \<Rightarrow> None)
         else None
     | _ \<Rightarrow> None)"

definition parseShardPartition :: "string \<Rightarrow> int option" where
  "parseShardPartition s = (case split_on CHR '':'' s of [kind, shard] \<Rightarrow> if kind = ''shard'' then digits_number 0 shard else None | _ \<Rightarrow> None)"

definition watcherShardId :: "string \<Rightarrow> string \<Rightarrow> int \<Rightarrow> int option" where
  "watcherShardId stream kind chain = (let expected = kind @ '':'' @ string_of_int chain @ '':shard:'' in
     if \<not> startsWith stream expected then None else digits_number 0 (drop (length expected) stream))"

subsection \<open>Replaying a stream\<close>

definition partition_job :: "string \<Rightarrow> string \<Rightarrow> event_options" where
  "partition_job reason p = (job_reason reason)\<lparr>so_partition := Some p\<rparr>"

definition replay_wake :: "app_services \<Rightarrow> int \<Rightarrow> string \<Rightarrow> (app_event, bool) appact" where
  "replay_wake A chain stream = (
     case parseTransferJournalStream stream of
       Some (c, p) \<Rightarrow> if c = chain then wake A ''indexer'' (partition_job ''chain_reorg_replay'' (transferPartitionKey p))
         else wake A ''indexer_safety_sweep'' (job_reason ''chain_reorg_legacy_stream'')
     | None \<Rightarrow> if stream = ''router:'' @ string_of_int chain then ret True
         else (case watcherShardId stream ''recovery'' chain of
             Some n \<Rightarrow> bindA (liftE (shardPartitionKey n)) (\<lambda>p. wake A ''recovery_watcher'' (partition_job ''chain_reorg_replay'' p))
           | None \<Rightarrow> (case watcherShardId stream ''userops'' chain of
               Some n \<Rightarrow> bindA (liftE (shardPartitionKey n)) (\<lambda>p. wake A ''user_operation_watcher'' (partition_job ''chain_reorg_replay'' p))
             | None \<Rightarrow> wake A ''indexer_safety_sweep'' (job_reason ''chain_reorg_legacy_stream''))))"

definition scheduleReplayStream :: "app_services \<Rightarrow> replay_row \<Rightarrow> (app_event, unit) appact" where
  "scheduleReplayStream A r = bindA (replay_wake A (rq_chainId r) (rq_stream r)) (\<lambda>accepted.
     if accepted then ret () else throw (Thrown (''Unable to schedule reorg replay for '' @ rq_stream r)))"

definition same_request :: "replay_row \<Rightarrow> replay_row \<Rightarrow> bool" where
  "same_request r x \<longleftrightarrow> rq_chainId x = rq_chainId r \<and> rq_stream x = rq_stream r \<and> rq_epoch x = rq_epoch r"

definition replayed_stmt :: "replay_row \<Rightarrow> app_db stmt" where
  "replayed_stmt r = plain (\<lambda>d. (d\<lparr>ad_replays := filter (\<lambda>x. \<not> same_request r x) (ad_replays d)\<rparr>, hits (same_request r) (ad_replays d)))"

definition replay_delay :: "int \<Rightarrow> int" where
  "replay_delay attempt = min (15 * 60000) (15000 * 2 ^ nat (min 6 (attempt - 1)))"

definition replay_failed_stmt :: "replay_row \<Rightarrow> int \<Rightarrow> int \<Rightarrow> app_db stmt" where
  "replay_failed_stmt r attempt now = plain (\<lambda>d. (d\<lparr>ad_replays := upd (same_request r) (\<lambda>x. x\<lparr>rq_failed := True,
     rq_attempts := attempt, rq_nextAttemptAt := now + replay_delay attempt,
     rq_lastErrorCode := Some ''REORG_REPLAY_SCHEDULE_FAILED'', rq_updatedAt := now\<rparr>) (ad_replays d)\<rparr>, hits (same_request r) (ad_replays d)))"

definition due_replays :: "int \<Rightarrow> app_db \<Rightarrow> replay_row list" where
  "due_replays now d = take 25 (sort_key rq_nextAttemptAt (sort_key rq_updatedAt (filter (\<lambda>r. rq_nextAttemptAt r \<le> now) (ad_replays d))))"

definition drain_one :: "app_services \<Rightarrow> replay_row \<Rightarrow> (app_event, nat) appact" where
  "drain_one A r = catchA
     (bindA (scheduleReplayStream A r) (\<lambda>_. bindA (dbx (replayed_stmt r)) (\<lambda>_. ret 1)))
     (\<lambda>e. bindA date_now (\<lambda>now. bindA (dbx (replay_failed_stmt r (rq_attempts r + 1) now)) (\<lambda>_. ret 0)))"

definition drainChainReorgReplayRequests :: "app_services \<Rightarrow> (app_event, nat \<times> int option) appact" where
  "drainChainReorgReplayRequests A = bindA date_now (\<lambda>now. bindA (dbq (due_replays now)) (\<lambda>rows.
     bindA (mapA (drain_one A) rows) (\<lambda>ns.
     bindA (dbq (\<lambda>d. case ad_replays d of [] \<Rightarrow> None | rs \<Rightarrow> Some (Min (set (map rq_nextAttemptAt rs))))) (\<lambda>next_run.
     bindA date_now (\<lambda>t. ret (sum_list ns, map_option (max (t + 1000)) next_run))))))"

subsection \<open>Rolling back\<close>

definition raise_epoch :: "int \<Rightarrow> int \<Rightarrow> string \<Rightarrow> int \<Rightarrow> app_db stmt" where
  "raise_epoch c n h now = plain (\<lambda>d. (d\<lparr>ad_reorgStates := upsert (\<lambda>x. rs_chainId x = c)
     (\<lambda>x. x\<lparr>rs_epoch := rs_epoch x + 1, rs_ancestorNumber := Some n, rs_ancestorHash := Some h, rs_updatedAt := now\<rparr>)
     \<lparr>rs_chainId = c, rs_epoch = 1, rs_ancestorNumber = Some n, rs_ancestorHash = Some h, rs_updatedAt = now\<rparr> (ad_reorgStates d)\<rparr>, 1))"

definition beyond :: "int \<Rightarrow> int \<Rightarrow> stream_checkpoint \<Rightarrow> bool" where
  "beyond c n x \<longleftrightarrow> ac_chainId x = c \<and> n < ac_number x"

definition request_replay :: "int \<Rightarrow> int \<Rightarrow> int \<Rightarrow> stream_checkpoint \<Rightarrow> replay_row list \<Rightarrow> replay_row list" where
  "request_replay n epoch now cp = upsert (\<lambda>x. rq_chainId x = ac_chainId cp \<and> rq_stream x = ac_stream cp)
     (\<lambda>x. x\<lparr>rq_ancestorNumber := n, rq_epoch := epoch, rq_failed := False, rq_attempts := 0, rq_nextAttemptAt := now,
       rq_lastErrorCode := None, rq_updatedAt := now\<rparr>)
     \<lparr>rq_chainId = ac_chainId cp, rq_stream = ac_stream cp, rq_ancestorNumber = n, rq_epoch = epoch, rq_failed = False, rq_attempts = 0,
       rq_nextAttemptAt = now, rq_lastErrorCode = None, rq_createdAt = now, rq_updatedAt = now\<rparr>"

definition request_replays :: "int \<Rightarrow> int \<Rightarrow> int \<Rightarrow> app_db stmt" where
  "request_replays c n now = plain (\<lambda>d. (d\<lparr>ad_replays := fold (request_replay n (epoch_of c d) now)
     (if list_ex (\<lambda>x. rs_chainId x = c) (ad_reorgStates d) then filter (beyond c n) (ad_checkpoints d) else []) (ad_replays d)\<rparr>,
     hits (beyond c n) (ad_checkpoints d)))"

definition orphaned_event :: "int \<Rightarrow> int \<Rightarrow> journal_row \<Rightarrow> bool" where
  "orphaned_event c n e \<longleftrightarrow> av_chainId e = c \<and> av_canonical e \<and> n < av_blockNumber e"

definition revert_deltas :: "int \<Rightarrow> int \<Rightarrow> int \<Rightarrow> app_db stmt" where
  "revert_deltas c n now = plain (\<lambda>d. (let p = (\<lambda>x. bd_chainId x = c \<and> bd_canonical x \<and>
       list_ex (\<lambda>e. orphaned_event c n e \<and> av_id e = bd_eventId x \<and> av_blockHash e = bd_blockHash x) (ad_events d)) in
     (d\<lparr>ad_deltas := upd p (\<lambda>x. x\<lparr>bd_canonical := False, bd_revertedAt := Some now\<rparr>) (ad_deltas d)\<rparr>, hits p (ad_deltas d))))"

definition orphan_events :: "int \<Rightarrow> int \<Rightarrow> app_db stmt" where
  "orphan_events c n = plain (\<lambda>d. (d\<lparr>ad_events := upd (orphaned_event c n) (\<lambda>e. e\<lparr>av_canonical := False\<rparr>) (ad_events d)\<rparr>,
     hits (orphaned_event c n) (ad_events d)))"

definition orphan_blocks :: "int \<Rightarrow> int \<Rightarrow> app_db stmt" where
  "orphan_blocks c n = (let p = (\<lambda>b. ab_chainId b = c \<and> ab_canonical b \<and> n < ab_number b) in
     plain (\<lambda>d. (d\<lparr>ad_blocks := upd p (\<lambda>b. b\<lparr>ab_canonical := False\<rparr>) (ad_blocks d)\<rparr>, hits p (ad_blocks d))))"

definition orphan_ledger :: "int \<Rightarrow> int \<Rightarrow> app_db stmt" where
  "orphan_ledger c n = (let p = (\<lambda>r. lr_chainId r = Some c \<and> lr_canonical r \<and> (case lr_number r of None \<Rightarrow> False | Some k \<Rightarrow> n < k)) in
     plain (\<lambda>d. (d\<lparr>ad_ledger := upd p (\<lambda>r. r\<lparr>lr_canonical := False\<rparr>) (ad_ledger d)\<rparr>, hits p (ad_ledger d))))"

definition orphan_operations :: "int \<Rightarrow> int \<Rightarrow> app_db stmt" where
  "orphan_operations c n = (let p = (\<lambda>r. uo_chainId r = c \<and> uo_canonical r \<and> n < uo_number r) in
     plain (\<lambda>d. (d\<lparr>ad_operations := upd p (\<lambda>r. r\<lparr>uo_canonical := False\<rparr>) (ad_operations d)\<rparr>, hits p (ad_operations d))))"

definition orphan_snapshots :: "int \<Rightarrow> int \<Rightarrow> app_db stmt" where
  "orphan_snapshots c n = (let p = (\<lambda>r. bs_chainId r = c \<and> bs_canonical r \<and> n < bs_number r) in
     plain (\<lambda>d. (d\<lparr>ad_snapshots := upd p (\<lambda>r. r\<lparr>bs_canonical := False\<rparr>) (ad_snapshots d)\<rparr>, hits p (ad_snapshots d))))"

definition drop_baselines :: "int \<Rightarrow> int \<Rightarrow> app_db stmt" where
  "drop_baselines c n = (let p = (\<lambda>r. bb_chainId r = c \<and> n < bb_number r) in
     plain (\<lambda>d. (d\<lparr>ad_baselines := filter (\<lambda>r. \<not> p r) (ad_baselines d)\<rparr>, hits p (ad_baselines d))))"

definition rewind_checkpoints :: "int \<Rightarrow> int \<Rightarrow> string \<Rightarrow> int \<Rightarrow> app_db stmt" where
  "rewind_checkpoints c n h now = plain (\<lambda>d. (d\<lparr>ad_checkpoints := upd (beyond c n) (\<lambda>x. x\<lparr>ac_number := n, ac_hash := h, ac_level := Sequenced,
     ac_updatedAt := now, ac_epoch := epoch_of c d\<rparr>) (ad_checkpoints d)\<rparr>, hits (beyond c n) (ad_checkpoints d)))"

text \<open>
  \<open>last_block > ?\<close> compares two texts.  \<open>LIKE\<close> does not distinguish the case of ASCII letters.
\<close>

definition cursor_of_chain :: "int \<Rightarrow> string \<Rightarrow> bool" where
  "cursor_of_chain c key \<longleftrightarrow> key = ''router:'' @ string_of_int c \<or>
     list_ex (\<lambda>kind. startsWith (toLowerCase key) (kind @ '':'' @ string_of_int c @ '':'')) [''transfers'', ''recovery'', ''userops'']"

definition rewound_cursor :: "int \<Rightarrow> int \<Rightarrow> cursor_row \<Rightarrow> bool" where
  "rewound_cursor c n x \<longleftrightarrow> string_of_int n < sy_lastBlock x \<and> cursor_of_chain c (sy_key x)"

definition rewind_cursors :: "int \<Rightarrow> int \<Rightarrow> int \<Rightarrow> app_db stmt" where
  "rewind_cursors c n now = plain (\<lambda>d. (d\<lparr>ad_cursors := upd (rewound_cursor c n) (\<lambda>x. x\<lparr>sy_lastBlock := string_of_int n, sy_updatedAt := now\<rparr>)
     (ad_cursors d)\<rparr>, hits (rewound_cursor c n) (ad_cursors d)))"

definition rewind_watermarks :: "int \<Rightarrow> int \<Rightarrow> string \<Rightarrow> int \<Rightarrow> app_db stmt" where
  "rewind_watermarks c n h now = (let p = (\<lambda>x. wm_chainId x = c \<and> n < wm_number x) in
     plain (\<lambda>d. (d\<lparr>ad_watermarks := upd p (\<lambda>x. x\<lparr>wm_number := n, wm_hash := h, wm_updatedAt := now\<rparr>) (ad_watermarks d)\<rparr>,
       hits p (ad_watermarks d))))"

definition insert_incident :: "reorg_incident \<Rightarrow> app_db stmt" where
  "insert_incident i = checked (\<lambda>d. distinct (map in_id (ad_incidents d))) (\<lambda>d. (d\<lparr>ad_incidents := ad_incidents d @ [i]\<rparr>, 1))"

definition recovery_batch :: "int \<Rightarrow> int \<Rightarrow> string \<Rightarrow> int \<Rightarrow> reorg_incident \<Rightarrow> app_db stmt list" where
  "recovery_batch c n h now i =
     [raise_epoch c n h now, request_replays c n now, revert_deltas c n now, orphan_events c n, orphan_blocks c n, orphan_ledger c n,
      orphan_operations c n, orphan_snapshots c n, drop_baselines c n, rewind_checkpoints c n h now, rewind_cursors c n now,
      rewind_watermarks c n h now, insert_incident i]"

subsection \<open>Checking a stream\<close>

text \<open>The chain: the hash of the block at a height, at a time; \<open>None\<close> is a failed call, \<open>Some None\<close> a block without a hash.\<close>

type_synonym block_reader = "int \<Rightarrow> int \<Rightarrow> string option option"

definition read_hash :: "block_reader \<Rightarrow> int \<Rightarrow> ('m, string option) appact" where
  "read_hash client n = extcall (client n) ''getBlock''"

definition known_blocks :: "int \<Rightarrow> int \<Rightarrow> int \<Rightarrow> app_db \<Rightarrow> journal_block list" where
  "known_blocks c below from d = take 128 (sort_key (\<lambda>b. - ab_number b)
     (filter (\<lambda>b. ab_chainId b = c \<and> ab_canonical b \<and> ab_number b < below \<and> from \<le> ab_number b) (ad_blocks d)))"

fun find_ancestor :: "block_reader \<Rightarrow> journal_block list \<Rightarrow> ('m, (int \<times> string) option) appact" where
  "find_ancestor client [] = ret None"
| "find_ancestor client (b # bs) = bindA (read_hash client (ab_number b)) (\<lambda>hash. case hash of
       Some h \<Rightarrow> if h \<noteq> [] \<and> toLowerCase h = toLowerCase (ab_hash b) then ret (Some (ab_number b, h)) else find_ancestor client bs
     | None \<Rightarrow> find_ancestor client bs)"

definition affected_accounts :: "int \<Rightarrow> int \<Rightarrow> app_db \<Rightarrow> (string \<times> string) list" where
  "affected_accounts c n d = remdups (
     [(ea_uid a, ea_account a). a \<leftarrow> ad_accounts d,
       list_ex (\<lambda>e. av_id e = ea_eventId a \<and> av_blockHash e = ea_blockHash a \<and> orphaned_event c n e) (ad_events d)] @
     [(bs_uid r, bs_account r). r \<leftarrow> ad_snapshots d, bs_chainId r = c \<and> bs_canonical r \<and> n < bs_number r])"

definition ReorgOutsideWindowError :: "int \<Rightarrow> string \<Rightarrow> err" where
  "ReorgOutsideWindowError c stream = Thrown (''No canonical ancestor found for '' @ stream @ '' on chain '' @ string_of_int c)"

record recovery =
  rc_checkpoint :: int
  rc_depth :: int
  rc_events :: int
  rc_accounts :: int
  rc_streams :: int
  rc_epoch :: int

datatype reorg_check = EmptyStream | CanonicalAt int | Recovered recovery

definition observed_text :: "string option \<Rightarrow> string" where
  "observed_text observed = (case observed of None \<Rightarrow> ''unavailable'' | Some h \<Rightarrow> toLowerCase h)"

definition refresh_affected :: "int \<Rightarrow> string \<times> string \<Rightarrow> refresh_message" where
  "refresh_affected c ua = \<lparr>rm_uid = fst ua, rm_account = snd ua, rm_chainId = c, rm_reason = ''chain_reorg_recovery'', rm_priority = 0,
     rm_notBefore = None\<rparr>"

definition recover :: "app_services \<Rightarrow> int \<Rightarrow> string \<Rightarrow> stream_checkpoint \<Rightarrow> string option \<Rightarrow> int \<times> string \<Rightarrow> int \<Rightarrow> string \<Rightarrow>
    (app_event, reorg_check) appact" where
  "recover A c stream cp observed ancestor detectedAt incidentId = (case ancestor of (n, h) \<Rightarrow>
     bindA (dbq (affected_accounts c n)) (\<lambda>accounts.
     bindA (dbq (\<lambda>d. int (hits (orphaned_event c n) (ad_events d)))) (\<lambda>events.
     bindA (dbq (\<lambda>d. int (hits (beyond c n) (ad_checkpoints d)))) (\<lambda>streams.
     let depth = ac_number cp - n;
       incident = \<lparr>in_id = incidentId, in_chainId = c, in_stream = stream, in_detectedAt = detectedAt, in_previousNumber = ac_number cp,
         in_previousHash = ac_hash cp, in_observedHash = observed_text observed, in_ancestorNumber = Some n,
         in_ancestorHash = Some (toLowerCase h), in_depth = Some depth, in_recovered = True, in_affectedEvents = events,
         in_affectedAccounts = int (length accounts)\<rparr> in
     bindA (dbb (recovery_batch c n (toLowerCase h) detectedAt incident)) (\<lambda>_.
     bindA (getChainReorgEpoch c) (\<lambda>epoch.
     bindA (whenA (0 < streams) (bindA (wake A ''reorg_replay'' (job_reason ''chain_reorg_detected'')) (\<lambda>_. ret ()))) (\<lambda>_.
     bindA (requestBalanceRefreshBatch A (map (refresh_affected c) accounts)) (\<lambda>_.
     ret (Recovered \<lparr>rc_checkpoint = n, rc_depth = depth, rc_events = events, rc_accounts = int (length accounts), rc_streams = streams,
       rc_epoch = epoch\<rparr>)))))))))"

definition verifyAndRecoverStream :: "app_services \<Rightarrow> block_reader \<Rightarrow> int \<Rightarrow> string \<Rightarrow> int option \<Rightarrow> (app_event, reorg_check) appact" where
  "verifyAndRecoverStream A client c stream maxWindowBlocks =
     bindA (dbq (\<lambda>d. find (\<lambda>x. ac_chainId x = c \<and> ac_stream x = stream) (ad_checkpoints d))) (\<lambda>checkpoint. case checkpoint of
       None \<Rightarrow> ret EmptyStream
     | Some cp \<Rightarrow> bindA (read_hash client (ac_number cp)) (\<lambda>observed.
         if (case observed of None \<Rightarrow> False | Some h \<Rightarrow> h \<noteq> [] \<and> toLowerCase h = toLowerCase (ac_hash cp)) then ret (CanonicalAt (ac_number cp))
         else let maxWindow = (case maxWindowBlocks of None \<Rightarrow> 4096 | Some k \<Rightarrow> k);
             lowest = (if maxWindow < ac_number cp then ac_number cp - maxWindow else 0) in
         bindA (dbq (known_blocks c (ac_number cp) lowest)) (\<lambda>known.
         bindA (find_ancestor client known) (\<lambda>ancestor.
         bindA date_now (\<lambda>detectedAt. bindA randomUUID (\<lambda>incidentId. case ancestor of
           None \<Rightarrow> bindA (dbx (insert_incident \<lparr>in_id = incidentId, in_chainId = c, in_stream = stream, in_detectedAt = detectedAt,
               in_previousNumber = ac_number cp, in_previousHash = ac_hash cp, in_observedHash = observed_text observed, in_ancestorNumber = None,
               in_ancestorHash = None, in_depth = None, in_recovered = False, in_affectedEvents = 0, in_affectedAccounts = 0\<rparr>))
             (\<lambda>_. throw (ReorgOutsideWindowError c stream))
         | Some a \<Rightarrow> recover A c stream cp observed a detectedAt incidentId))))))"

end
