(* ===== verification/ChainReader.thy ===== *)
theory ChainReader
  imports AppNetworks LogScan Reorg
begin

text \<open>
  How the App backend reads a chain: the providers configured for each role and their limits
  (\<^verbatim>\<open>src/server/src/services/rpcProviders.ts\<close>, \<^verbatim>\<open>services/clients.ts\<close>), the head that indexers scan to (\<^verbatim>\<open>services/chainHead.ts\<close>), and the
  evidence of a block's settlement (\<^verbatim>\<open>services/arbitrumFinality.ts\<close>).
\<close>

subsection \<open>Configuration\<close>

datatype rpc_role = ReadRole | WriteRole | IndexerRole | ArchiveRole | BundlerRole

definition role_name :: "rpc_role \<Rightarrow> string" where
  "role_name r = (case r of ReadRole \<Rightarrow> ''read'' | WriteRole \<Rightarrow> ''write'' | IndexerRole \<Rightarrow> ''indexer'' | ArchiveRole \<Rightarrow> ''archive''
     | BundlerRole \<Rightarrow> ''bundler'')"

definition RPC_ROLE_NAMES :: "rpc_role list" where
  "RPC_ROLE_NAMES = [ReadRole, WriteRole, IndexerRole, ArchiveRole, BundlerRole]"

definition role_urls :: "app_env \<Rightarrow> rpc_role \<Rightarrow> string option" where
  "role_urls env r = (case r of ReadRole \<Rightarrow> ve_readUrls env | WriteRole \<Rightarrow> ve_writeUrls env | IndexerRole \<Rightarrow> ve_indexerUrls env
     | ArchiveRole \<Rightarrow> ve_archiveUrls env | BundlerRole \<Rightarrow> ve_bundlerUrls env)"

definition configuredRpcValue :: "app_env \<Rightarrow> rpc_role \<Rightarrow> string" where
  "configuredRpcValue env r = (if given (role_urls env r) then the (role_urls env r)
     else if r = BundlerRole then []
     else if r = ArchiveRole \<and> given (ve_indexerUrls env) then the (ve_indexerUrls env)
     else if r = WriteRole \<and> given (ve_readUrls env) then the (ve_readUrls env)
     else (case ve_rpcUrl env of None \<Rightarrow> [] | Some s \<Rightarrow> s))"

definition getRpcUrls :: "app_env \<Rightarrow> rpc_role \<Rightarrow> string list" where
  "getRpcUrls env r = filter (\<lambda>s. s \<noteq> []) (map trim (split_comma (configuredRpcValue env r)))"

text \<open>\<open>Number(env.X)\<close> of a missing variable is \<open>NaN\<close>.\<close>

definition env_number :: "string option \<Rightarrow> int option" where
  "env_number x = (case x of None \<Rightarrow> None | Some s \<Rightarrow> (case js_Number s of None \<Rightarrow> None | Some n \<Rightarrow> if isSafeInteger n then Some n else None))"

definition boundedConfigInteger :: "string option \<Rightarrow> int \<Rightarrow> int \<Rightarrow> int \<Rightarrow> int" where
  "boundedConfigInteger x fallbackValue lo hi = (case env_number x of None \<Rightarrow> fallbackValue | Some n \<Rightarrow> min hi (max lo n))"

subsection \<open>Capabilities of the providers\<close>

record rpc_capability =
  rk_id :: string
  rk_priority :: int
  rk_maxConcurrency :: int
  rk_maxLogRange :: "int option"

definition MAX_CONFIGURED_LOG_RANGE :: int where "MAX_CONFIGURED_LOG_RANGE = 10000000"

definition MAX_CONFIGURED_CONCURRENCY :: int where "MAX_CONFIGURED_CONCURRENCY = 1000"

definition MAX_CONFIGURED_PRIORITY :: int where "MAX_CONFIGURED_PRIORITY = 10000"

definition provider_id_ok :: "string \<Rightarrow> bool" where
  "provider_id_ok s \<longleftrightarrow> (case s of [] \<Rightarrow> False | c # cs \<Rightarrow> (is_lower c \<or> is_digit c) \<and> length cs \<le> 63 \<and>
     list_all (\<lambda>x. is_lower x \<or> is_digit x \<or> x = CHR ''_'' \<or> x = CHR ''-'') cs)"

text \<open>\<open>safeInteger(value, minimum, maximum)\<close>: the number, when it is one.\<close>

definition safeInteger :: "json option \<Rightarrow> int \<Rightarrow> int \<Rightarrow> int option" where
  "safeInteger v lo hi = (case v of Some (JInt n) \<Rightarrow> if isSafeInteger n \<and> lo \<le> n \<and> n \<le> hi then Some n else None | _ \<Rightarrow> None)"

definition defaultConcurrency :: "rpc_role \<Rightarrow> int" where
  "defaultConcurrency r = (if r = ArchiveRole then 1 else if r = ReadRole then 8 else 4)"

definition legacyIndexerRange :: "app_env \<Rightarrow> int" where
  "legacyIndexerRange env = (case js_Number (case ve_maxBlockRange env of None \<Rightarrow> ''2000'' | Some s \<Rightarrow> s) of
       None \<Rightarrow> 2000
     | Some n \<Rightarrow> if isSafeInteger n \<and> 1 \<le> n \<and> n \<le> MAX_CONFIGURED_LOG_RANGE then n else 2000)"

text \<open>The fields of the document; \<open>None\<close> is a document that is not an object.\<close>

definition parseDocument :: "viem \<Rightarrow> string option \<Rightarrow> (string \<times> json) list option" where
  "parseDocument V x = (if \<not> given x then Some [] else (case v_jsonParse V (the x) of Some (JObj fs) \<Rightarrow> Some fs | _ \<Rightarrow> None))"

text \<open>\<open>configured?.[slot]\<close>, and a property of it.\<close>

definition entry_at :: "json option \<Rightarrow> nat \<Rightarrow> json option" where
  "entry_at configured slot = (case configured of
       Some (JArr xs) \<Rightarrow> if slot < length xs then Some (xs ! slot) else None
     | Some (JObj fs) \<Rightarrow> jget fs (string_of_int (int slot))
     | _ \<Rightarrow> None)"

definition entry_field :: "json option \<Rightarrow> string \<Rightarrow> json option" where
  "entry_field x k = (case x of Some (JObj fs) \<Rightarrow> jget fs k | _ \<Rightarrow> None)"

definition normalizeCapability :: "app_env \<Rightarrow> rpc_role \<Rightarrow> nat \<Rightarrow> json option \<Rightarrow> rpc_capability" where
  "normalizeCapability env r slot inp = \<lparr>
     rk_id = (case entry_field inp ''id'' of
         Some (JStr s) \<Rightarrow> if provider_id_ok s then s else role_name r @ ''-endpoint-'' @ string_of_int (int slot + 1)
       | _ \<Rightarrow> role_name r @ ''-endpoint-'' @ string_of_int (int slot + 1)),
     rk_priority = (case safeInteger (entry_field inp ''priority'') 0 MAX_CONFIGURED_PRIORITY of None \<Rightarrow> int slot | Some n \<Rightarrow> n),
     rk_maxConcurrency = (case safeInteger (entry_field inp ''maxConcurrency'') 1 MAX_CONFIGURED_CONCURRENCY of
       None \<Rightarrow> defaultConcurrency r | Some n \<Rightarrow> n),
     rk_maxLogRange = (if r = IndexerRole then Some (case safeInteger (entry_field inp ''maxLogRange'') 1 MAX_CONFIGURED_LOG_RANGE of
       None \<Rightarrow> legacyIndexerRange env | Some n \<Rightarrow> n) else None)\<rparr>"

definition getRpcEndpointCapabilities :: "viem \<Rightarrow> app_env \<Rightarrow> rpc_role \<Rightarrow> nat \<Rightarrow> rpc_capability list" where
  "getRpcEndpointCapabilities V env r endpointCount = (
     let configured = (case parseDocument V (ve_capabilities env) of None \<Rightarrow> None | Some fs \<Rightarrow> jget fs (role_name r)) in
     map (\<lambda>slot. normalizeCapability env r slot (entry_at configured slot)) [0..<endpointCount])"

text \<open>An issue is its code; its message adds the name of the role.\<close>

definition entry_issues :: "rpc_role \<Rightarrow> string list \<Rightarrow> (string \<times> json) list \<Rightarrow> string list \<times> string list" where
  "entry_issues r ids fs = (
     let id_ok = (case jget fs ''id'' of Some (JStr s) \<Rightarrow> provider_id_ok s \<and> s \<notin> set ids | _ \<Rightarrow> False);
       absent = (\<lambda>k. jget fs k = None);
       bad = (\<lambda>k lo hi. safeInteger (jget fs k) lo hi = None) in
     (if id_ok then (case jget fs ''id'' of Some (JStr s) \<Rightarrow> ids @ [s] | _ \<Rightarrow> ids) else ids,
      (if id_ok then [] else [''RPC_PROVIDER_ID_INVALID'']) @
      (if \<not> absent ''priority'' \<and> bad ''priority'' 0 MAX_CONFIGURED_PRIORITY then [''RPC_PROVIDER_PRIORITY_INVALID''] else []) @
      (if \<not> absent ''maxConcurrency'' \<and> bad ''maxConcurrency'' 1 MAX_CONFIGURED_CONCURRENCY
       then [''RPC_PROVIDER_CONCURRENCY_INVALID''] else []) @
      (if r = IndexerRole \<and> bad ''maxLogRange'' 1 MAX_CONFIGURED_LOG_RANGE then [''RPC_PROVIDER_LOG_RANGE_INVALID''] else []) @
      (if r \<noteq> IndexerRole \<and> \<not> absent ''maxLogRange'' then [''RPC_PROVIDER_LOG_RANGE_ROLE_INVALID''] else [])))"

fun entries_issues :: "rpc_role \<Rightarrow> string list \<Rightarrow> json list \<Rightarrow> string list" where
  "entries_issues r ids [] = []"
| "entries_issues r ids (j # js) = (case j of
       JObj fs \<Rightarrow> (case entry_issues r ids fs of (ids', issues) \<Rightarrow> issues @ entries_issues r ids' js)
     | _ \<Rightarrow> ''RPC_PROVIDER_CAPABILITY_INVALID'' # entries_issues r ids js)"

definition role_issues :: "(string \<times> json) list \<Rightarrow> (rpc_role \<Rightarrow> nat) \<Rightarrow> rpc_role \<Rightarrow> string list" where
  "role_issues document endpointCounts r = (case jget document (role_name r) of
       None \<Rightarrow> []
     | Some (JArr js) \<Rightarrow> if length js \<noteq> endpointCounts r then [''RPC_PROVIDER_CAPABILITIES_COUNT_MISMATCH''] else entries_issues r [] js
     | Some _ \<Rightarrow> [''RPC_PROVIDER_CAPABILITIES_ROLE_INVALID''])"

definition validateRpcProviderCapabilities :: "viem \<Rightarrow> app_env \<Rightarrow> (rpc_role \<Rightarrow> nat) \<Rightarrow> string list" where
  "validateRpcProviderCapabilities V env endpointCounts = (if \<not> given (ve_capabilities env) then []
     else (case parseDocument V (ve_capabilities env) of
         None \<Rightarrow> [''RPC_PROVIDER_CAPABILITIES_INVALID'']
       | Some document \<Rightarrow> if list_ex (\<lambda>(k, _). k \<notin> set (map role_name RPC_ROLE_NAMES)) document
           then [''RPC_PROVIDER_CAPABILITIES_ROLE_INVALID'']
           else concat (map (role_issues document endpointCounts) RPC_ROLE_NAMES)))"

subsection \<open>The pool of log providers\<close>

text \<open>A provider is its capability with the position of its URL, which names its client.\<close>

definition provider_order :: "viem \<Rightarrow> rpc_capability \<times> nat \<Rightarrow> rpc_capability \<times> nat \<Rightarrow> int" where
  "provider_order V x y = (let k = rk_priority (fst x) - rk_priority (fst y) in
     if k \<noteq> 0 then k else v_localeCompare V (rk_id (fst x)) (rk_id (fst y)))"

definition pool_providers :: "viem \<Rightarrow> app_env \<Rightarrow> (rpc_capability \<times> nat) list" where
  "pool_providers V env = (let n = length (getRpcUrls env IndexerRole) in
     sort_by (provider_order V) (zip (getRpcEndpointCapabilities V env IndexerRole n) [0..<n]))"

definition configured_ranges :: "(rpc_capability \<times> nat) list \<Rightarrow> int list" where
  "configured_ranges ps = List.map_filter (\<lambda>p. rk_maxLogRange (fst p)) ps"

definition pool_maxLogRange :: "(rpc_capability \<times> nat) list \<Rightarrow> int" where
  "pool_maxLogRange ps = (if configured_ranges ps = [] then 1 else Max (set (configured_ranges ps)))"

definition pool_minLogRange :: "(rpc_capability \<times> nat) list \<Rightarrow> int" where
  "pool_minLogRange ps = (if configured_ranges ps = [] then 1 else Min (set (configured_ranges ps)))"

definition serves :: "int \<Rightarrow> rpc_capability \<times> nat \<Rightarrow> bool" where
  "serves span p \<longleftrightarrow> (case rk_maxLogRange (fst p) of None \<Rightarrow> False | Some n \<Rightarrow> span \<le> n)"

definition too_small :: "int \<Rightarrow> rpc_capability \<times> nat \<Rightarrow> bool" where
  "too_small span p \<longleftrightarrow> (case rk_maxLogRange (fst p) of None \<Rightarrow> False | Some n \<Rightarrow> n < span)"

definition thrown_message :: "thrown \<Rightarrow> string option" where
  "thrown_message e = (case e of JsError name message cause \<Rightarrow> Some message | OtherValue s \<Rightarrow> None)"

definition RpcIndexerRangeFallbackError :: "thrown option \<Rightarrow> thrown" where
  "RpcIndexerRangeFallbackError cause = JsError ''RpcIndexerRangeFallbackError''
     ''No healthy indexer provider can serve the requested block range'' (case cause of None \<Rightarrow> None | Some e \<Rightarrow> thrown_message e)"

text \<open>The loop over the eligible providers: the answer, or whether the error ends the loop.\<close>

fun try_providers :: "(nat \<Rightarrow> thrown + 'l list) \<Rightarrow> (rpc_capability \<times> nat) list \<Rightarrow> thrown option \<Rightarrow> (thrown \<times> bool) + 'l list" where
  "try_providers ask [] last_error = Inl (case last_error of None \<Rightarrow> OtherValue ''undefined'' | Some e \<Rightarrow> e, False)"
| "try_providers ask (p # ps) last_error = (case ask (snd p) of
       Inr logs \<Rightarrow> Inr logs
     | Inl e \<Rightarrow> if \<not> isTransientRpcError e \<and> \<not> isRangeCapacityError e then Inl (e, True) else try_providers ask ps (Some e))"

definition requestLogs :: "(rpc_capability \<times> nat) list \<Rightarrow> int \<Rightarrow> int \<Rightarrow> (nat \<Rightarrow> thrown + 'l list) \<Rightarrow> thrown + 'l list" where
  "requestLogs providers fromBlock toBlock ask = (let span = toBlock - fromBlock + 1; eligible = filter (serves span) providers in
     if eligible = [] then Inl (RpcIndexerRangeFallbackError None)
     else (case try_providers ask eligible None of
         Inr logs \<Rightarrow> Inr logs
       | Inl (e, final) \<Rightarrow> if final then Inl e
           else if list_ex (too_small span) providers \<or> isRangeCapacityError e then Inl (RpcIndexerRangeFallbackError (Some e))
           else Inl e))"

subsection \<open>The chain's node\<close>

record node_block =
  nb_number :: "int option"
  nb_hash :: "string option"
  nb_parentHash :: string
  nb_timestamp :: int

record transfer_log =
  tl_address :: string
  tl_from :: "string option"
  tl_to :: "string option"
  tl_value :: "int option"
  tl_blockHash :: "string option"
  tl_blockNumber :: "int option"
  tl_logIndex :: "int option"
  tl_txHash :: "string option"
  tl_transactionIndex :: "int option"
  tl_topics :: "string list"
  tl_removed :: bool

text \<open>
  The answers of the point client and of the log providers, at a time; a failed call is \<open>None\<close>, or the error of the log scan.  \<open>Some None\<close> of a
  contract call is a value that is not a \<open>bigint\<close>.  A scan of logs asks a provider with the number of the call and its
  range for the transfers of a token from or to the addresses.
\<close>

record node_services =
  nd_blockNumber :: "int \<Rightarrow> int option"
  nd_safeNumber :: "int \<Rightarrow> int option option"
  nd_blockByHash :: "string \<Rightarrow> int \<Rightarrow> node_block option"
  nd_blockByNumber :: "int \<Rightarrow> int \<Rightarrow> node_block option"
  nd_l1Confirmations :: "string \<Rightarrow> int \<Rightarrow> int option option"
  nd_batchNumber :: "int \<Rightarrow> int \<Rightarrow> int option option"
  nd_logs :: "nat \<Rightarrow> string \<Rightarrow> transfer_direction \<Rightarrow> string list \<Rightarrow> int \<Rightarrow> int \<Rightarrow> int \<Rightarrow> int \<Rightarrow> thrown + transfer_log list"

text \<open>The hash of a block for the check of a checkpoint.\<close>

definition hash_reader :: "node_services \<Rightarrow> block_reader" where
  "hash_reader N n t = map_option nb_hash (nd_blockByNumber N n t)"

subsection \<open>The head to scan to\<close>

datatype finality_source = SafeHead | ConfirmationsHead

record scan_head =
  hd_latest :: int
  hd_scanHead :: int
  hd_source :: finality_source

definition buffered_head :: "int \<Rightarrow> scan_head" where
  "buffered_head latest = \<lparr>hd_latest = latest, hd_scanHead = (if 64 < latest then latest - 64 else 0), hd_source = ConfirmationsHead\<rparr>"

definition head_of :: "int option \<Rightarrow> int \<Rightarrow> scan_head" where
  "head_of safe latest = (case safe of
       Some n \<Rightarrow> if n \<le> latest \<and> latest - n \<le> 512 then \<lparr>hd_latest = latest, hd_scanHead = n, hd_source = SafeHead\<rparr> else buffered_head latest
     | None \<Rightarrow> buffered_head latest)"

definition getIndexerScanHead :: "node_services \<Rightarrow> ('d, 'm, scan_head) act" where
  "getIndexerScanHead N = bindA (catchA (extcall (nd_safeNumber N) ''getBlock'') (\<lambda>_. ret None)) (\<lambda>safe.
     bindA (extcall (nd_blockNumber N) ''getBlockNumber'') (\<lambda>latest. ret (head_of safe latest)))"

subsection \<open>Evidence of settlement\<close>

record block_evidence =
  ev_level :: consistency
  ev_confirmations :: "int option"
  ev_batch :: "int option"
  ev_nodeInterface :: bool
  ev_calls :: int

definition requiredL1Confirmations :: "app_env \<Rightarrow> int" where
  "requiredL1Confirmations env = (case env_number (ve_l1Confirmations env) of None \<Rightarrow> 12 | Some n \<Rightarrow> if 1 \<le> n \<and> n \<le> 256 then n else 12)"

definition classifyArbitrumConsistency :: "int \<Rightarrow> int \<Rightarrow> consistency" where
  "classifyArbitrumConsistency confirmations required = (if confirmations \<le> 0 then Sequenced
     else if confirmations < required then BatchPosted else L1Confirmed)"

definition no_evidence :: block_evidence where
  "no_evidence = \<lparr>ev_level = Sequenced, ev_confirmations = None, ev_batch = None, ev_nodeInterface = False, ev_calls = 1\<rparr>"

definition read_bigint :: "(int \<Rightarrow> int option option) \<Rightarrow> string \<Rightarrow> ('d, 'm, int) act" where
  "read_bigint f message = bindA (extcall f ''readContract'') (\<lambda>r. case r of None \<Rightarrow> throw (Thrown message) | Some n \<Rightarrow> ret n)"

definition getArbitrumBlockEvidence :: "app_env \<Rightarrow> node_services \<Rightarrow> int \<Rightarrow> string \<Rightarrow> ('d, 'm, block_evidence) act" where
  "getArbitrumBlockEvidence env N blockNumber blockHash = catchA
     (bindA (read_bigint (nd_l1Confirmations N blockHash) ''NodeInterface returned invalid L1 confirmations'') (\<lambda>confirmations.
       if confirmations = 0
       then ret \<lparr>ev_level = Sequenced, ev_confirmations = Some 0, ev_batch = None, ev_nodeInterface = True, ev_calls = 1\<rparr>
       else bindA (read_bigint (nd_batchNumber N blockNumber) ''NodeInterface returned invalid batch number'') (\<lambda>batch_number.
         ret \<lparr>ev_level = classifyArbitrumConsistency confirmations (requiredL1Confirmations env), ev_confirmations = Some confirmations,
           ev_batch = Some batch_number, ev_nodeInterface = True, ev_calls = 2\<rparr>)))
     (\<lambda>_. ret no_evidence)"

end
