(* ===== verification/IndexerShards.thy ===== *)
theory IndexerShards
  imports AppDb
begin

text \<open>
  The assignment of wallets to the shards of an indexed stream (\<^verbatim>\<open>src/server/src/services/indexerShards.ts\<close>).
\<close>

subsection \<open>Operations\<close>

record shard_assignment =
  wa_stream :: string
  wa_shard :: int
  wa_uid :: string
  wa_wallet :: string

definition wallet_shape :: "string \<Rightarrow> bool" where
  "wallet_shape s \<longleftrightarrow> length s = 42 \<and> take 2 s = ''0x'' \<and> list_all is_hex_lower (drop 2 s)"

definition normalizeWalletAddress :: "string \<Rightarrow> err + string" where
  "normalizeWalletAddress s = (if wallet_shape (toLowerCase s) then Inr (toLowerCase s)
     else Inl (Thrown ''Indexer wallet address is malformed''))"

definition in_stream :: "int \<Rightarrow> string \<Rightarrow> assignment_row \<Rightarrow> bool" where
  "in_stream c stream a \<longleftrightarrow> wl_chainId a = c \<and> wl_stream a = stream \<and> wl_active a"

definition moved_away :: "int \<Rightarrow> string \<Rightarrow> string \<Rightarrow> string option \<Rightarrow> assignment_row \<Rightarrow> bool" where
  "moved_away c stream uid wallet a \<longleftrightarrow> in_stream c stream a \<and> wl_uid a = uid \<and> (case wallet of None \<Rightarrow> True | Some x \<Rightarrow> wl_account a \<noteq> x)"

definition deactivate_stmt :: "(assignment_row \<Rightarrow> bool) \<Rightarrow> int \<Rightarrow> app_db stmt" where
  "deactivate_stmt p now = plain (\<lambda>d. (d\<lparr>ad_assignments := upd p (\<lambda>a. a\<lparr>wl_active := False, wl_updatedAt := now\<rparr>) (ad_assignments d)\<rparr>,
     hits p (ad_assignments d)))"

definition load :: "int \<Rightarrow> string \<Rightarrow> int \<Rightarrow> app_db \<Rightarrow> nat" where
  "load c stream n d = length (filter (\<lambda>a. in_stream c stream a \<and> wl_shard a = n) (ad_assignments d))"

definition has_room :: "int \<Rightarrow> string \<Rightarrow> app_db \<Rightarrow> shard_row \<Rightarrow> bool" where
  "has_room c stream d s \<longleftrightarrow> sh_chainId s = c \<and> sh_stream s = stream \<and> sh_status s = ShardActive \<and> int (load c stream (sh_id s) d) < sh_maxWallets s"

definition free_shard :: "int \<Rightarrow> string \<Rightarrow> app_db \<Rightarrow> int option" where
  "free_shard c stream d = (case sort_key sh_id (filter (has_room c stream d) (ad_shards d)) of [] \<Rightarrow> None | s # _ \<Rightarrow> Some (sh_id s))"

definition next_shard :: "int \<Rightarrow> string \<Rightarrow> app_db \<Rightarrow> int" where
  "next_shard c stream d = (case filter (\<lambda>s. sh_chainId s = c \<and> sh_stream s = stream) (ad_shards d) of [] \<Rightarrow> 0
     | ss \<Rightarrow> Max (set (map sh_id ss)) + 1)"

definition same_shard :: "int \<Rightarrow> string \<Rightarrow> int \<Rightarrow> shard_row \<Rightarrow> bool" where
  "same_shard c stream n s \<longleftrightarrow> sh_chainId s = c \<and> sh_stream s = stream \<and> sh_id s = n"

text \<open>The primary key.\<close>

definition insert_shard :: "shard_row \<Rightarrow> app_db stmt" where
  "insert_shard s d = (if list_ex (same_shard (sh_chainId s) (sh_stream s) (sh_id s)) (ad_shards d) then None
     else Some (d\<lparr>ad_shards := ad_shards d @ [s]\<rparr>, 1))"

definition latest_version :: "int \<Rightarrow> string \<Rightarrow> string \<Rightarrow> app_db \<Rightarrow> int" where
  "latest_version c stream wallet d = (case filter (\<lambda>a. wl_chainId a = c \<and> wl_stream a = stream \<and> wl_account a = wallet) (ad_assignments d) of
       [] \<Rightarrow> 0 | xs \<Rightarrow> Max (set (map wl_version xs)))"

text \<open>The primary key and the one active assignment of an account; the shard and the user must exist.\<close>

definition assignment_clash :: "assignment_row \<Rightarrow> assignment_row \<Rightarrow> bool" where
  "assignment_clash a x \<longleftrightarrow> wl_chainId x = wl_chainId a \<and> wl_stream x = wl_stream a \<and> wl_account x = wl_account a \<and>
     (wl_version x = wl_version a \<or> wl_active x \<and> wl_active a)"

definition insert_assignment :: "assignment_row \<Rightarrow> app_db stmt" where
  "insert_assignment a d = (if list_ex (assignment_clash a) (ad_assignments d) \<or>
       \<not> list_ex (same_shard (wl_chainId a) (wl_stream a) (wl_shard a)) (ad_shards d) \<or> \<not> user_exists (wl_uid a) d then None
     else Some (d\<lparr>ad_assignments := ad_assignments d @ [a]\<rparr>, 1))"

record assign_input =
  sa_chainId :: int
  sa_stream :: string
  sa_uid :: string
  sa_wallet :: "string option"
  sa_maxWallets :: int

definition holds_wallet :: "assign_input \<Rightarrow> string \<Rightarrow> assignment_row \<Rightarrow> bool" where
  "holds_wallet inp wallet a \<longleftrightarrow> in_stream (sa_chainId inp) (sa_stream inp) a \<and> wl_account a = wallet"

definition assignment_of :: "assign_input \<Rightarrow> string \<Rightarrow> int \<Rightarrow> shard_assignment" where
  "assignment_of inp wallet n = \<lparr>wa_stream = sa_stream inp, wa_shard = n, wa_uid = sa_uid inp, wa_wallet = wallet\<rparr>"

text \<open>The shard for a new assignment: a free one, or a new one.\<close>

definition choose_shard :: "assign_input \<Rightarrow> int \<Rightarrow> ('m, int) appact" where
  "choose_shard inp now = (let c = sa_chainId inp; stream = sa_stream inp in
     bindA (dbq (free_shard c stream)) (\<lambda>shard. case shard of Some n \<Rightarrow> ret n
     | None \<Rightarrow> bindA (dbq (next_shard c stream)) (\<lambda>n.
         bindA (dbx (insert_shard \<lparr>sh_chainId = c, sh_stream = stream, sh_id = n, sh_generation = 1, sh_maxWallets = sa_maxWallets inp,
           sh_status = ShardActive, sh_createdAt = now, sh_updatedAt = now\<rparr>)) (\<lambda>_. ret n))))"

definition assign_new :: "assign_input \<Rightarrow> string \<Rightarrow> int \<Rightarrow> ('m, shard_assignment) appact" where
  "assign_new inp wallet now = (let c = sa_chainId inp; stream = sa_stream inp in
     bindA (dbx (deactivate_stmt (holds_wallet inp wallet) now)) (\<lambda>_.
     bindA (choose_shard inp now) (\<lambda>n.
     bindA (dbq (latest_version c stream wallet)) (\<lambda>version.
     bindA (dbx (insert_assignment \<lparr>wl_chainId = c, wl_stream = stream, wl_account = wallet, wl_uid = sa_uid inp, wl_shard = n,
       wl_version = version + 1, wl_active = True, wl_assignedAt = now, wl_updatedAt = now\<rparr>)) (\<lambda>_.
     ret (assignment_of inp wallet n))))))"

text \<open>With the normalized wallet.\<close>

definition assign_wallet :: "assign_input \<Rightarrow> string option \<Rightarrow> int \<Rightarrow> ('m, shard_assignment option) appact" where
  "assign_wallet inp wallet now = bindA (dbx (deactivate_stmt (moved_away (sa_chainId inp) (sa_stream inp) (sa_uid inp) wallet) now)) (\<lambda>_.
     case wallet of None \<Rightarrow> ret None
     | Some w \<Rightarrow> bindA (dbq (\<lambda>d. find (\<lambda>a. holds_wallet inp w a \<and> wl_uid a = sa_uid inp) (ad_assignments d))) (\<lambda>current. case current of
         Some a \<Rightarrow> ret (Some (assignment_of inp w (wl_shard a)))
       | None \<Rightarrow> bindA (assign_new inp w now) (\<lambda>a. ret (Some a))))"

definition assignWalletToStableShard :: "assign_input \<Rightarrow> ('m, shard_assignment option) appact" where
  "assignWalletToStableShard inp = (
     if \<not> isSafeInteger (sa_maxWallets inp) \<or> sa_maxWallets inp < 1
     then throw (Thrown ''Indexer shard capacity must be a positive safe integer'')
     else bindA (case sa_wallet inp of None \<Rightarrow> ret None | Some x \<Rightarrow> bindA (liftE (normalizeWalletAddress x)) (\<lambda>w. ret (Some w))) (\<lambda>wallet.
       bindA date_now (\<lambda>now. assign_wallet inp wallet now)))"

definition listWalletsForIndexerShard :: "int \<Rightarrow> string \<Rightarrow> int \<Rightarrow> ('m, (string \<times> string) list) appact" where
  "listWalletsForIndexerShard c stream n = dbq (\<lambda>d. map (\<lambda>a. (wl_uid a, wl_account a))
     (sort_key wl_account (filter (\<lambda>a. in_stream c stream a \<and> wl_shard a = n) (ad_assignments d))))"

definition listIndexerShardIds :: "int \<Rightarrow> string \<Rightarrow> ('m, int list) appact" where
  "listIndexerShardIds c stream = dbq (\<lambda>d. map sh_id (sort_key sh_id (filter (\<lambda>s. sh_chainId s = c \<and> sh_stream s = stream \<and>
     sh_status s = ShardActive \<and> list_ex (\<lambda>a. in_stream c stream a \<and> wl_shard a = sh_id s) (ad_assignments d)) (ad_shards d))))"

definition listWalletShardAssignments :: "int \<Rightarrow> string list \<Rightarrow> string list \<Rightarrow> ('m, shard_assignment list) appact" where
  "listWalletShardAssignments c streams wallets = bindA (liftE (mapE normalizeWalletAddress wallets)) (\<lambda>addresses.
     if streams = [] \<or> addresses = [] then ret []
     else dbq (\<lambda>d. map (\<lambda>a. \<lparr>wa_stream = wl_stream a, wa_shard = wl_shard a, wa_uid = wl_uid a, wa_wallet = wl_account a\<rparr>)
       (filter (\<lambda>a. wl_chainId a = c \<and> wl_active a \<and> wl_stream a \<in> set streams \<and> wl_account a \<in> set addresses) (ad_assignments d))))"

subsection \<open>Capacity and stability\<close>

text \<open>No shard of a stream holds more active wallets than its limit, a shard has one row, and an account one active assignment.\<close>

definition shards_ok :: "app_db \<Rightarrow> bool" where
  "shards_ok d \<longleftrightarrow> distinct (map (\<lambda>s. (sh_chainId s, sh_stream s, sh_id s)) (ad_shards d)) \<and>
     (\<forall>s \<in> set (ad_shards d). int (load (sh_chainId s) (sh_stream s) (sh_id s) d) \<le> sh_maxWallets s) \<and>
     distinct (map (\<lambda>a. (wl_chainId a, wl_stream a, wl_account a)) (filter wl_active (ad_assignments d))) \<and>
     (\<forall>a \<in> set (ad_assignments d). list_ex (same_shard (wl_chainId a) (wl_stream a) (wl_shard a)) (ad_shards d))"

definition active_in :: "int \<Rightarrow> string \<Rightarrow> app_db \<Rightarrow> (string \<times> string \<times> int) set" where
  "active_in c stream d = {(wl_account a, wl_uid a, wl_shard a) |a. a \<in> set (ad_assignments d) \<and> in_stream c stream a}"

end
