(* ===== verification/AppLedger.thy ===== *)
theory AppLedger
  imports AppJournal
begin

text \<open>
  The movements of the users' accounts (\<^verbatim>\<open>src/server/src/services/storage/ledger.ts\<close>): idempotent writes under the epoch guard,
  and pages of the history with an opaque cursor.  The names of counterparties that a page joins from the users are left out.
\<close>

subsection \<open>Writing\<close>

text \<open>An entry is a row; its id, its mark and a missing source of the amount are set when it is written.\<close>

definition ledger_key :: "ledger_row \<Rightarrow> ledger_row \<Rightarrow> bool" where
  "ledger_key r x \<longleftrightarrow> lr_uid x = lr_uid r \<and> lr_txHash x = lr_txHash r \<and> lr_direction x = lr_direction r \<and> lr_token x = lr_token r \<and>
     (case lr_logIndex x of None \<Rightarrow> -1 | Some n \<Rightarrow> n) = (case lr_logIndex r of None \<Rightarrow> -1 | Some n \<Rightarrow> n)"

definition ledger_again :: "ledger_row \<Rightarrow> ledger_row \<Rightarrow> ledger_row" where
  "ledger_again r x = r\<lparr>lr_id := lr_id x, lr_uid := lr_uid x, lr_direction := lr_direction x, lr_kind := lr_kind x, lr_txHash := lr_txHash x,
     lr_logIndex := lr_logIndex x, lr_token := lr_token x, lr_canonical := True\<rparr>"

text \<open>
  \<open>ON CONFLICT DO UPDATE ... WHERE ledger.canonical = 0 AND excluded.block_hash IS NOT NULL\<close>, with either of the two unique keys; the user
  must exist.
\<close>

definition ledger_stmt :: "ledger_row \<Rightarrow> app_db stmt" where
  "ledger_stmt r d = (case upsert_if (\<lambda>x. lr_id x = lr_id r \<or> ledger_key r x) (\<lambda>x. \<not> lr_canonical x \<and> lr_blockHash r \<noteq> None) (ledger_again r) r (ad_ledger d) of
     (rows, n) \<Rightarrow> if 0 < n \<and> \<not> user_exists (lr_uid r) d then None else Some (d\<lparr>ad_ledger := rows\<rparr>, n))"

definition ledger_record :: "ledger_row \<Rightarrow> string \<Rightarrow> ledger_row" where
  "ledger_record e u = e\<lparr>lr_id := u, lr_amountSource := (if lr_amountSource e = [] then ''executed'' else lr_amountSource e),
     lr_blockHash := lower_option (lr_blockHash e), lr_counterparty := lower_option (lr_counterparty e), lr_canonical := True\<rparr>"

definition ledger_guard :: "ledger_row list \<Rightarrow> int option \<Rightarrow> ('m, epoch_guard option) appact" where
  "ledger_guard entries expectedEpoch = (let chainIds = remdups (List.map_filter lr_chainId entries) in
     case expectedEpoch of None \<Rightarrow> ret None
     | Some e \<Rightarrow> (case chainIds of [c] \<Rightarrow> bindA (createChainEpochGuard c e) (\<lambda>g. ret (Some g))
         | _ \<Rightarrow> throw (Thrown ''Epoch-guarded ledger writes must belong to exactly one chain'')))"

definition writeLedgerEntries ::
    "viem \<Rightarrow> ledger_row list \<Rightarrow> journal_user_event list \<Rightarrow> int option \<Rightarrow> ('m, bool list) appact" where
  "writeLedgerEntries V entries userEvents expectedEpoch = (if entries = [] then ret []
     else bindA (ledger_guard entries expectedEpoch) (\<lambda>guard.
       bindA (mapA (\<lambda>e. bindA randomUUID (\<lambda>u. ret (ledger_record e u))) entries) (\<lambda>rows. bindA date_now (\<lambda>now.
       let opening = (case guard of None \<Rightarrow> [] | Some g \<Rightarrow> [guard_insert g]); closing = (case guard of None \<Rightarrow> [] | Some g \<Rightarrow> [guard_delete g]) in
       bindA (dbb (opening @ map ledger_stmt rows @ map (\<lambda>u. insert_user_event (user_event_record V now u)) userEvents @ closing)) (\<lambda>ns.
       ret (map (\<lambda>n. 0 < n) (take (length entries) (drop (length opening) ns))))))))"

definition enqueueUserEvent :: "viem \<Rightarrow> journal_user_event \<Rightarrow> ('m, bool) appact" where
  "enqueueUserEvent V u = bindA date_now (\<lambda>now. bindA (dbx (insert_user_event (user_event_record V now u))) (\<lambda>n. ret (n = 1)))"

subsection \<open>Pages\<close>

definition LEDGER_PAGE_DEFAULT :: int where "LEDGER_PAGE_DEFAULT = 50"

definition LEDGER_PAGE_MAX :: int where "LEDGER_PAGE_MAX = 100"

definition InvalidLedgerCursorError :: err where
  "InvalidLedgerCursorError = DomainValidationError ''Invalid ledger pagination cursor''"

definition base64url_char :: "char \<Rightarrow> char" where
  "base64url_char c = (if c = CHR ''+'' then CHR ''-'' else if c = CHR ''/'' then CHR ''_'' else c)"

definition base64_char :: "char \<Rightarrow> char" where
  "base64_char c = (if c = CHR ''-'' then CHR ''+'' else if c = CHR ''_'' then CHR ''/'' else c)"

definition drop_padding :: "string \<Rightarrow> string" where
  "drop_padding s = rev (dropWhile (\<lambda>c. c = CHR ''='') (rev s))"

definition add_padding :: "string \<Rightarrow> string" where
  "add_padding s = s @ replicate (4 * ((length s + 3) div 4) - length s) (CHR ''='')"

text \<open>The time of a row is written as its ISO text; a position is a time and an id.\<close>

type_synonym position = "int \<times> string"

definition encodeLedgerCursor :: "viem \<Rightarrow> position \<Rightarrow> string" where
  "encodeLedgerCursor V p = drop_padding (map base64url_char (v_btoa V (v_jsonText V
     (JObj [(''v'', JInt 1), (''createdAt'', JStr (toISOString (fst p))), (''id'', JStr (snd p))]))))"

definition cursor_fields :: "viem \<Rightarrow> json \<Rightarrow> position option" where
  "cursor_fields V j = (case j of JObj fs \<Rightarrow>
       (case (jget fs ''v'', jget fs ''createdAt'', jget fs ''id'') of
         (Some (JInt v), Some (JStr created), Some (JStr x)) \<Rightarrow>
           (case v_dateParse V created of None \<Rightarrow> None
            | Some t \<Rightarrow> if v = 1 \<and> 20 \<le> length created \<and> length created \<le> 40 \<and> 1 \<le> length x \<and> length x \<le> 128 then Some (t, x) else None)
       | _ \<Rightarrow> None)
     | _ \<Rightarrow> None)"

definition decodeLedgerCursor :: "viem \<Rightarrow> string \<Rightarrow> err + position" where
  "decodeLedgerCursor V s = (
     if length s < 1 \<or> 512 < length s \<or> \<not> list_all (\<lambda>c. is_alnum c \<or> c = CHR ''_'' \<or> c = CHR ''-'') s then Inl InvalidLedgerCursorError
     else (case v_atob V (add_padding (map base64_char s)) of None \<Rightarrow> Inl InvalidLedgerCursorError
       | Some text \<Rightarrow> (case v_jsonParse V text of None \<Rightarrow> Inl InvalidLedgerCursorError
           | Some j \<Rightarrow> (case cursor_fields V j of None \<Rightarrow> Inl InvalidLedgerCursorError | Some p \<Rightarrow> Inr p))))"

text \<open>\<open>created_at < ? OR (created_at = ? AND id < ?)\<close>, and the order of a page.\<close>

definition position_of :: "ledger_row \<Rightarrow> position" where
  "position_of r = (lr_createdAt r, lr_id r)"

definition precedes :: "position \<Rightarrow> position \<Rightarrow> bool" where
  "precedes p q \<longleftrightarrow> fst p < fst q \<or> fst p = fst q \<and> snd p < snd q"

definition newest_first :: "ledger_row list \<Rightarrow> ledger_row list" where
  "newest_first rows = rev (sort_key lr_createdAt (sort_key lr_id rows))"

definition history :: "string \<Rightarrow> app_db \<Rightarrow> ledger_row list" where
  "history uid d = newest_first (filter (\<lambda>r. lr_uid r = uid \<and> lr_canonical r) (ad_ledger d))"

definition page_limit :: "int option \<Rightarrow> nat" where
  "page_limit limit = nat (min LEDGER_PAGE_MAX (max 1 (case limit of None \<Rightarrow> LEDGER_PAGE_DEFAULT | Some n \<Rightarrow> n)))"

definition listLedgerPageByUid ::
    "viem \<Rightarrow> string \<Rightarrow> int option \<Rightarrow> string option \<Rightarrow> ('m, ledger_row list \<times> string option) appact" where
  "listLedgerPageByUid V uid limit before = (let n = page_limit limit in
     bindA (case before of None \<Rightarrow> ret None | Some s \<Rightarrow> if s = [] then ret None else bindA (liftE (decodeLedgerCursor V s)) (\<lambda>p. ret (Some p))) (\<lambda>start.
     bindA (dbq (\<lambda>d. take (n + 1) (filter (\<lambda>r. case start of None \<Rightarrow> True | Some p \<Rightarrow> precedes (position_of r) p) (history uid d)))) (\<lambda>rows.
     let page = take n rows in
     ret (page, if n < length rows then Some (encodeLedgerCursor V (position_of (last page))) else None))))"

end
