(* ===== verification/Projector.thy ===== *)
theory Projector
  imports AppJournal
begin

text \<open>
  The projection of balances from the journal (\<^verbatim>\<open>src/server/src/services/balanceProjector.ts\<close>): reversible deltas per event, user
  and asset, and the snapshots recomputed from a baseline and the canonical deltas after it.
\<close>

definition BALANCE_PROJECTOR_NAME :: string where "BALANCE_PROJECTOR_NAME = ''asset_balance_deltas''"

definition BALANCE_PROJECTOR_VERSION :: int where "BALANCE_PROJECTOR_VERSION = 1"

definition balanceProjectionAccountKey :: "string \<Rightarrow> string \<Rightarrow> string" where
  "balanceProjectionAccountKey uid account = uid @ '':'' @ toLowerCase account"

subsection \<open>The deltas of an event\<close>

text \<open>The map from \<open>uid:asset\<close> to the sum, in the order in which the keys came.\<close>

definition delta_key :: "string \<Rightarrow> string \<Rightarrow> string" where
  "delta_key uid asset = uid @ '':'' @ asset"

definition add_delta :: "journal_account list \<Rightarrow> journal_account \<Rightarrow> journal_account list" where
  "add_delta totals a = (case ja_delta a of None \<Rightarrow> totals
     | Some x \<Rightarrow> (let same = (\<lambda>t. delta_key (ja_uid t) (ja_asset t) = delta_key (ja_uid a) (ja_asset a)) in
         if list_ex same totals then map (\<lambda>t. if same t then t\<lparr>ja_delta := map_option (\<lambda>y. y + x) (ja_delta t)\<rparr> else t) totals
         else totals @ [a]))"

definition aggregateEventDeltas :: "journal_account list \<Rightarrow> journal_account list" where
  "aggregateEventDeltas accounts = filter (\<lambda>t. ja_delta t \<noteq> Some 0) (foldl add_delta [] accounts)"

text \<open>The map from \<open>account:asset\<close>; setting a key again keeps its place.\<close>

record affected_account =
  aa_uid :: string
  aa_account :: string
  aa_asset :: string

definition account_key :: "affected_account \<Rightarrow> string" where
  "account_key a = aa_account a @ '':'' @ aa_asset a"

definition set_account :: "affected_account list \<Rightarrow> affected_account \<Rightarrow> affected_account list" where
  "set_account xs a = upsert (\<lambda>x. account_key x = account_key a) (\<lambda>x. a) a xs"

definition affectedEventAccounts :: "journal_event list \<Rightarrow> affected_account list" where
  "affectedEventAccounts events = foldl set_account [] [\<lparr>aa_uid = ja_uid t, aa_account = toLowerCase (ja_account t), aa_asset = ja_asset t\<rparr>.
     e \<leftarrow> events, t \<leftarrow> aggregateEventDeltas (je_accounts e)]"

subsection \<open>Statements\<close>

definition applied_key :: "applied_event \<Rightarrow> applied_event \<Rightarrow> bool" where
  "applied_key r x \<longleftrightarrow> ap_chainId x = ap_chainId r \<and> ap_projector x = ap_projector r \<and> ap_version x = ap_version r \<and>
     ap_eventId x = ap_eventId r \<and> ap_blockHash x = ap_blockHash r"

text \<open>The event must exist.\<close>

definition event_exists :: "string \<Rightarrow> string \<Rightarrow> app_db \<Rightarrow> bool" where
  "event_exists x h d \<longleftrightarrow> list_ex (\<lambda>e. av_id e = x \<and> av_blockHash e = h) (ad_events d)"

definition insert_applied :: "applied_event \<Rightarrow> app_db stmt" where
  "insert_applied r d = (if list_ex (applied_key r) (ad_applied d) then Some (d, 0)
     else if \<not> event_exists (ap_eventId r) (ap_blockHash r) d then None else Some (d\<lparr>ad_applied := ad_applied d @ [r]\<rparr>, 1))"

definition delta_row_key :: "delta_row \<Rightarrow> delta_row \<Rightarrow> bool" where
  "delta_row_key r x \<longleftrightarrow> bd_chainId x = bd_chainId r \<and> bd_projector x = bd_projector r \<and> bd_version x = bd_version r \<and>
     bd_eventId x = bd_eventId r \<and> bd_blockHash x = bd_blockHash r \<and> bd_uid x = bd_uid r \<and> bd_asset x = bd_asset r"

definition insert_delta :: "delta_row \<Rightarrow> app_db stmt" where
  "insert_delta r d = (if list_ex (delta_row_key r) (ad_deltas d) then Some (d, 0)
     else if \<not> event_exists (bd_eventId r) (bd_blockHash r) d \<or> \<not> user_exists (bd_uid r) d then None
     else Some (d\<lparr>ad_deltas := ad_deltas d @ [r]\<rparr>, 1))"

definition same_watermark :: "watermark \<Rightarrow> watermark \<Rightarrow> bool" where
  "same_watermark r x \<longleftrightarrow> wm_chainId x = wm_chainId r \<and> wm_projector x = wm_projector r \<and> wm_version x = wm_version r"

definition watermark_stmt :: "watermark \<Rightarrow> app_db stmt" where
  "watermark_stmt r = plain (\<lambda>d. (case upsert_if (same_watermark r)
     (\<lambda>x. wm_number x < wm_number r \<or> wm_number r = wm_number x \<and> wm_hash r = wm_hash x)
     (\<lambda>x. x\<lparr>wm_number := wm_number r, wm_hash := wm_hash r, wm_updatedAt := wm_updatedAt r\<rparr>) r (ad_watermarks d) of
     (rows, n) \<Rightarrow> (d\<lparr>ad_watermarks := rows\<rparr>, n)))"

definition projection_event_stmts :: "int \<Rightarrow> int \<Rightarrow> journal_event \<Rightarrow> app_db stmt list" where
  "projection_event_stmts c appliedAt e = (let x = chainEventId c (je_txHash e) (je_logIndex e) (je_kind e); h = toLowerCase (je_blockHash e) in
     insert_applied \<lparr>ap_chainId = c, ap_projector = BALANCE_PROJECTOR_NAME, ap_version = BALANCE_PROJECTOR_VERSION, ap_eventId = x,
       ap_blockHash = h, ap_appliedAt = appliedAt\<rparr> #
     map (\<lambda>t. insert_delta \<lparr>bd_chainId = c, bd_projector = BALANCE_PROJECTOR_NAME, bd_version = BALANCE_PROJECTOR_VERSION, bd_eventId = x,
       bd_blockHash = h, bd_uid = ja_uid t, bd_account = toLowerCase (ja_account t), bd_asset = ja_asset t, bd_delta = the (ja_delta t),
       bd_canonical = (je_canonical e \<noteq> Some False), bd_appliedAt = appliedAt, bd_revertedAt = None\<rparr>)
       (aggregateEventDeltas (je_accounts e)))"

definition projection_stmts :: "journal_block \<Rightarrow> journal_event list \<Rightarrow> epoch_guard \<Rightarrow> int \<Rightarrow> app_db stmt list" where
  "projection_stmts b events g appliedAt = [guard_insert g] @ concat (map (projection_event_stmts (ab_chainId b) appliedAt) events) @
     [watermark_stmt \<lparr>wm_chainId = ab_chainId b, wm_projector = BALANCE_PROJECTOR_NAME, wm_version = BALANCE_PROJECTOR_VERSION,
        wm_number = ab_number b, wm_hash = toLowerCase (ab_hash b), wm_checkpoint = ''{}'', wm_updatedAt = appliedAt\<rparr>, guard_delete g]"

subsection \<open>The snapshots\<close>

record projection_state =
  ps_snapshot :: snapshot_row
  ps_policy :: policy_row
  ps_baseline :: "baseline_row option"

definition projection_state_of :: "int \<Rightarrow> affected_account \<Rightarrow> app_db \<Rightarrow> projection_state option" where
  "projection_state_of c a d = (case find (\<lambda>r. bs_chainId r = c \<and> bs_account r = aa_account a \<and> bs_asset r = aa_asset a \<and> bs_canonical r) (ad_snapshots d) of
       None \<Rightarrow> None
     | Some s \<Rightarrow> (case find (\<lambda>p. ip_chainId p = c \<and> ip_asset p = aa_asset a) (ad_policies d) of
           None \<Rightarrow> None
         | Some p \<Rightarrow> Some \<lparr>ps_snapshot = s, ps_policy = p, ps_baseline = find (\<lambda>b. bb_chainId b = c \<and> bb_account b = aa_account a \<and>
             bb_asset b = aa_asset a \<and> bb_version b = ip_version p) (ad_baselines d)\<rparr>))"

definition baseline_key :: "baseline_row \<Rightarrow> baseline_row \<Rightarrow> bool" where
  "baseline_key r x \<longleftrightarrow> bb_chainId x = bb_chainId r \<and> bb_account x = bb_account r \<and> bb_asset x = bb_asset r \<and> bb_version x = bb_version r"

definition insert_baseline :: "baseline_row \<Rightarrow> app_db stmt" where
  "insert_baseline r = plain (\<lambda>d. (d\<lparr>ad_baselines := insert_ignore (baseline_key r) r (ad_baselines d)\<rparr>, ignored (baseline_key r) (ad_baselines d)))"

text \<open>The canonical deltas of canonical events after the baseline, up to the block.\<close>

definition delta_counts :: "int \<Rightarrow> int \<Rightarrow> affected_account \<Rightarrow> int \<Rightarrow> int \<Rightarrow> app_db \<Rightarrow> delta_row \<Rightarrow> bool" where
  "delta_counts c version a from last_block d x \<longleftrightarrow> bd_chainId x = c \<and> bd_projector x = BALANCE_PROJECTOR_NAME \<and> bd_version x = version \<and>
     bd_account x = aa_account a \<and> bd_asset x = aa_asset a \<and> bd_canonical x \<and>
     list_ex (\<lambda>e. av_id e = bd_eventId x \<and> av_blockHash e = bd_blockHash x \<and> av_canonical e \<and> from < av_blockNumber e \<and> av_blockNumber e \<le> last_block)
       (ad_events d)"

definition projected_balance :: "int \<Rightarrow> int \<Rightarrow> affected_account \<Rightarrow> int \<Rightarrow> int \<Rightarrow> int \<Rightarrow> app_db \<Rightarrow> int" where
  "projected_balance c version a baseline from last_block d = baseline + sum_list (map bd_delta (filter (delta_counts c version a from last_block d) (ad_deltas d)))"

definition project_snapshot_stmt :: "journal_block \<Rightarrow> policy_row \<Rightarrow> affected_account \<Rightarrow> int \<Rightarrow> app_db stmt" where
  "project_snapshot_stmt b p a raw = (let hash = toLowerCase (ab_hash b);
       hit = (\<lambda>r. bs_chainId r = ab_chainId b \<and> bs_account r = aa_account a \<and> bs_asset r = aa_asset a \<and> bs_canonical r \<and>
         (bs_number r < ab_number b \<or> bs_number r = ab_number b \<and> bs_hash r = hash \<and> bs_source r = ''event_projection'')) in
     plain (\<lambda>d. (d\<lparr>ad_snapshots := upd hit (\<lambda>r. r\<lparr>bs_balance := raw, bs_number := ab_number b, bs_hash := hash, bs_level := ab_level b,
       bs_strategy := ip_strategy p, bs_version := ip_version p, bs_observedAt := ab_observedAt b, bs_source := ''event_projection'',
       bs_canonical := True\<rparr>) (ad_snapshots d)\<rparr>, hits hit (ad_snapshots d))))"

definition projectable :: "policy_row \<Rightarrow> bool" where
  "projectable p \<longleftrightarrow> ip_enabled p \<and> ip_strategy p \<in> {FromEvents, EventsPlusRpc} \<and> ip_version p = BALANCE_PROJECTOR_VERSION"

text \<open>Whether a snapshot was updated, and whether the account needs no refresh.\<close>

definition refresh_account :: "journal_block \<Rightarrow> affected_account \<Rightarrow> ('m, bool \<times> bool) appact" where
  "refresh_account b a = bindA (dbq (projection_state_of (ab_chainId b) a)) (\<lambda>state. case state of
       None \<Rightarrow> ret (False, False)
     | Some s \<Rightarrow> if \<not> projectable (ps_policy s) then ret (False, False)
       else (let p = ps_policy s; first = \<lparr>bb_chainId = ab_chainId b, bb_account = aa_account a, bb_asset = aa_asset a, bb_version = ip_version p,
             bb_balance = bs_balance (ps_snapshot s), bb_number = bs_number (ps_snapshot s), bb_hash = toLowerCase (bs_hash (ps_snapshot s)),
             bb_observedAt = ab_observedAt b\<rparr>;
           baseline = (case ps_baseline s of None \<Rightarrow> first | Some x \<Rightarrow> x); only = (ip_strategy p = FromEvents) in
         bindA (if ps_baseline s = None then dbx (insert_baseline first) else ret 0) (\<lambda>_.
         if ab_number b \<le> bb_number baseline then ret (False, only)
         else bindA (dbq (projected_balance (ab_chainId b) (ip_version p) a (bb_balance baseline) (bb_number baseline) (ab_number b))) (\<lambda>raw.
           if raw < 0 then ret (False, False)
           else bindA (dbx (project_snapshot_stmt b p a raw)) (\<lambda>n. ret (0 < n, 0 < n \<and> only))))))"

definition refreshProjectedSnapshots :: "journal_block \<Rightarrow> journal_event list \<Rightarrow> ('m, nat \<times> string set) appact" where
  "refreshProjectedSnapshots b events = (let accounts = affectedEventAccounts events in
     bindA (mapA (refresh_account b) accounts) (\<lambda>rs. ret (length (filter fst rs),
       set [balanceProjectionAccountKey (aa_uid a) (aa_account a). (a, r) \<leftarrow> zip accounts rs, snd r])))"

definition projectBalanceDeltas :: "journal_block \<Rightarrow> journal_event list \<Rightarrow> int option \<Rightarrow> ('m, nat \<times> string set) appact" where
  "projectBalanceDeltas b events expectedEpoch =
     bindA (case expectedEpoch of None \<Rightarrow> getChainReorgEpoch (ab_chainId b) | Some e \<Rightarrow> ret e) (\<lambda>epoch.
     bindA (createChainEpochGuard (ab_chainId b) epoch) (\<lambda>g. bindA date_now (\<lambda>appliedAt.
     bindA (dbb (projection_stmts b events g appliedAt)) (\<lambda>_. refreshProjectedSnapshots b events))))"

end
