(* ===== verification/Indexer.thy ===== *)
theory Indexer
  imports ChainReader IndexerShards AppLedger Projector
begin

text \<open>
  The indexer of ERC-20 transfers (\<^verbatim>\<open>src/server/src/services/indexer.ts\<close>): one delivery scans a bounded window of blocks for the wallets
  of one shard, journals every relevant block, projects its balances, writes the deposits into the ledger, and moves the
  cursor last.  The log scan is one awaited step: nothing of it touches the database.
\<close>

subsection \<open>Bounds\<close>

definition BACKFILL_BLOCKS :: int where "BACKFILL_BLOCKS = 5000"

definition DEFAULT_MAX_BLOCKS_PER_RUN :: int where "DEFAULT_MAX_BLOCKS_PER_RUN = 20000"

definition DEFAULT_MAX_LOG_SCAN_REQUESTS_PER_JOB :: int where "DEFAULT_MAX_LOG_SCAN_REQUESTS_PER_JOB = 16"

definition DEFAULT_MAX_EVENT_BLOCKS_PER_JOB :: int where "DEFAULT_MAX_EVENT_BLOCKS_PER_JOB = 8"

text \<open>The smallest and the largest span of a range.\<close>

definition logRangeConfig :: "app_env \<Rightarrow> int \<Rightarrow> int \<times> int" where
  "logRangeConfig env providerMaximum = (let lo = boundedConfigInteger (ve_minBlockRange env) 10 1 10000000;
     hi = (if 0 < providerMaximum then providerMaximum else 1) in (if hi < lo then hi else lo, hi))"

definition maxLogCallsPerJob :: "app_env \<Rightarrow> int" where
  "maxLogCallsPerJob env = boundedConfigInteger (ve_maxCalls env) DEFAULT_MAX_LOG_SCAN_REQUESTS_PER_JOB 1 1000"

definition maxBlocksPerJob :: "app_env \<Rightarrow> int" where
  "maxBlocksPerJob env = boundedConfigInteger (ve_maxBlocks env) DEFAULT_MAX_BLOCKS_PER_RUN 1 10000000"

definition maxEventBlocksPerJob :: "app_env \<Rightarrow> int" where
  "maxEventBlocksPerJob env = boundedConfigInteger (ve_maxEventBlocks env) DEFAULT_MAX_EVENT_BLOCKS_PER_JOB 1 100"

definition journalConsistency :: "finality_source \<Rightarrow> consistency" where
  "journalConsistency s = (if s = SafeHead then SafeLevel else Sequenced)"

definition boundedScanWindowEnd :: "int \<Rightarrow> int \<Rightarrow> int \<Rightarrow> int \<Rightarrow> int \<Rightarrow> int \<Rightarrow> err + int" where
  "boundedScanWindowEnd fromBlock latest maxBlockSpan filterCount maxCalls maxBlocks = (
     if \<not> isSafeInteger filterCount \<or> filterCount < 1 then Inl (Thrown ''Indexer filter count must be a positive safe integer'')
     else if maxCalls < filterCount
     then Inl (Thrown (''Indexer requires '' @ string_of_int filterCount @ '' filters; split the stream across Queue jobs''))
     else let budgetedBlocks = maxBlockSpan * max 1 (maxCalls div filterCount);
         windowBlocks = (if budgetedBlocks < maxBlocks then budgetedBlocks else maxBlocks); capped = fromBlock + windowBlocks - 1 in
       Inr (if latest < capped then latest else capped))"

definition boundedEvidenceWindowEnd :: "int \<Rightarrow> transfer_log list \<Rightarrow> int \<Rightarrow> err + int" where
  "boundedEvidenceWindowEnd requestedEnd logs maximumEventBlocks = (
     if \<not> isSafeInteger maximumEventBlocks \<or> maximumEventBlocks < 1
     then Inl (Thrown ''Indexer event-block budget must be a positive safe integer'')
     else let blocks = sort (remdups (List.map_filter tl_blockNumber logs)) in
       Inr (if maximumEventBlocks < int (length blocks) then blocks ! nat (maximumEventBlocks - 1) else requestedEnd))"

subsection \<open>Logs\<close>

definition truthy_text :: "string option \<Rightarrow> bool" where
  "truthy_text x \<longleftrightarrow> (case x of None \<Rightarrow> False | Some s \<Rightarrow> s \<noteq> [])"

definition transferLogKey :: "transfer_log \<Rightarrow> string option" where
  "transferLogKey l = (if \<not> truthy_text (tl_txHash l) \<or> tl_logIndex l = None \<or> \<not> truthy_text (tl_blockHash l) then None
     else Some (toLowerCase (the (tl_txHash l)) @ '':'' @ string_of_int (the (tl_logIndex l)) @ '':'' @ toLowerCase (the (tl_blockHash l))))"

text \<open>The map from keys to logs, in the order in which the keys came; a later log replaces the one with its key.\<close>

definition set_log :: "transfer_log list \<Rightarrow> transfer_log \<Rightarrow> transfer_log list" where
  "set_log ls l = (if transferLogKey l = None then ls else upsert (\<lambda>x. transferLogKey x = transferLogKey l) (\<lambda>_. l) l ls)"

definition logs_by_identity :: "transfer_log list \<Rightarrow> transfer_log list" where
  "logs_by_identity logs = foldl set_log [] logs"

definition committed_logs :: "transfer_log list \<Rightarrow> int \<Rightarrow> transfer_log list" where
  "committed_logs logs committedEnd = filter (\<lambda>l. case tl_blockNumber l of None \<Rightarrow> False | Some n \<Rightarrow> n \<le> committedEnd) logs"

text \<open>The logs of a block, by its number and hash.\<close>

definition groupable :: "transfer_log \<Rightarrow> bool" where
  "groupable l \<longleftrightarrow> \<not> tl_removed l \<and> tl_blockNumber l \<noteq> None \<and> truthy_text (tl_blockHash l) \<and> truthy_text (tl_txHash l) \<and> tl_logIndex l \<noteq> None"

definition block_of :: "transfer_log \<Rightarrow> int \<times> string" where
  "block_of l = (the (tl_blockNumber l), toLowerCase (the (tl_blockHash l)))"

definition logs_by_block :: "transfer_log list \<Rightarrow> transfer_log list list" where
  "logs_by_block logs = (let ls = filter groupable logs in
     sort_key (\<lambda>g. fst (block_of (hd g))) (map (\<lambda>b. filter (\<lambda>l. block_of l = b) ls) (unique (map block_of ls))))"

subsection \<open>Users\<close>

definition wallet_texts :: "transfer_log list \<Rightarrow> string list" where
  "wallet_texts logs = concat (map (\<lambda>l. [case tl_from l of None \<Rightarrow> [] | Some s \<Rightarrow> s, case tl_to l of None \<Rightarrow> [] | Some s \<Rightarrow> s]) logs)"

text \<open>The chunks of 100 addresses are read one after the other.\<close>

definition users_with :: "string list \<Rightarrow> app_db \<Rightarrow> (string \<times> string) list" where
  "users_with chunk d = List.map_filter (\<lambda>u. case au_wallet u of None \<Rightarrow> None
     | Some w \<Rightarrow> if w \<in> set chunk then Some (au_uid u, w) else None) (ad_users d)"

definition listUsersByWalletAddresses :: "string list \<Rightarrow> ('m, (string \<times> string) list) appact" where
  "listUsersByWalletAddresses addresses = (let normalized = unique (filter wallet_shape (map toLowerCase addresses)) in
     bindA (mapA (\<lambda>chunk. dbq (users_with chunk)) (chunks normalized 100)) (\<lambda>rows. ret (concat rows)))"

text \<open>The map from lower-case wallets to uids; the last one of a wallet stays.\<close>

definition by_wallet :: "(string \<times> string) list \<Rightarrow> string \<Rightarrow> string option" where
  "by_wallet users w = map_of (rev (map (\<lambda>(uid, x). (toLowerCase x, uid)) users)) w"

definition internalTransferSenderAddresses :: "viem \<Rightarrow> app_env \<Rightarrow> string set" where
  "internalTransferSenderAddresses V env = {toLowerCase (v_addressOfKey V (ve_privateKey env))} \<union>
     (if given (ve_faucetKey env) then {toLowerCase (v_addressOfKey V (the (ve_faucetKey env)))} else {})"

subsection \<open>The events and entries of a block\<close>

text \<open>What the loop over a block's logs knows besides the log; \<open>formatUnits\<close> is the library's.\<close>

record block_context =
  bx_chainId :: int
  bx_token :: token_config
  bx_user :: "string \<Rightarrow> string option"
  bx_internal :: "string set"
  bx_number :: int
  bx_hash :: string
  bx_timestamp :: int
  bx_level :: consistency
  bx_observedAt :: int
  bx_formatUnits :: "int \<Rightarrow> int \<Rightarrow> string"

definition log_from :: "transfer_log \<Rightarrow> string" where
  "log_from l = toLowerCase (case tl_from l of None \<Rightarrow> [] | Some s \<Rightarrow> s)"

definition log_to :: "transfer_log \<Rightarrow> string" where
  "log_to l = toLowerCase (case tl_to l of None \<Rightarrow> [] | Some s \<Rightarrow> s)"

definition log_value :: "transfer_log \<Rightarrow> int" where
  "log_value l = (case tl_value l of None \<Rightarrow> 0 | Some n \<Rightarrow> n)"

text \<open>An empty uid is falsy.\<close>

definition user_at :: "block_context \<Rightarrow> string \<Rightarrow> string option" where
  "user_at X w = (case bx_user X w of None \<Rightarrow> None | Some u \<Rightarrow> if u = [] then None else Some u)"

definition log_accounts :: "block_context \<Rightarrow> transfer_log \<Rightarrow> journal_account list" where
  "log_accounts X l = (let side = (\<lambda>w r delta. case user_at X w of None \<Rightarrow> []
       | Some u \<Rightarrow> [\<lparr>ja_uid = u, ja_account = w, ja_asset = tc_symbol (bx_token X), ja_role = r, ja_delta = Some delta\<rparr>]) in
     side (log_from l) FromRole (- log_value l) @ side (log_to l) ToRole (log_value l))"

definition token_address :: "token_config \<Rightarrow> string" where
  "token_address t = (case tc_address t of None \<Rightarrow> [] | Some s \<Rightarrow> s)"

definition relevant :: "block_context \<Rightarrow> transfer_log \<Rightarrow> bool" where
  "relevant X l \<longleftrightarrow> toLowerCase (tl_address l) = toLowerCase (token_address (bx_token X)) \<and> truthy_text (tl_txHash l) \<and> tl_logIndex l \<noteq> None \<and>
     0 \<le> log_value l \<and> log_accounts X l \<noteq> []"

definition log_event :: "block_context \<Rightarrow> transfer_log \<Rightarrow> journal_event" where
  "log_event X l = \<lparr>je_txHash = the (tl_txHash l), je_logIndex = the (tl_logIndex l), je_kind = ''erc20.Transfer'', je_blockNumber = bx_number X,
     je_blockHash = bx_hash X, je_transactionIndex = tl_transactionIndex l, je_contract = tl_address l,
     je_topic0 = (case tl_topics l of [] \<Rightarrow> None | t # _ \<Rightarrow> Some t),
     je_payload = JObj [(''from'', JStr (log_from l)), (''to'', JStr (log_to l)), (''value'', JStr (string_of_int (log_value l))),
       (''asset'', JStr (tc_symbol (bx_token X))), (''decimals'', JInt (tc_decimals (bx_token X)))],
     je_source = ''rpc_log_poller'', je_observedAt = bx_observedAt X, je_canonical = None, je_accounts = log_accounts X l\<rparr>"

definition deposit :: "block_context \<Rightarrow> transfer_log \<Rightarrow> bool" where
  "deposit X l \<longleftrightarrow> user_at X (log_to l) \<noteq> None \<and> user_at X (log_from l) = None \<and> log_from l \<notin> bx_internal X"

definition log_entry :: "block_context \<Rightarrow> transfer_log \<Rightarrow> ledger_row" where
  "log_entry X l = \<lparr>lr_id = [], lr_uid = the (user_at X (log_to l)), lr_direction = ''in'', lr_kind = ''external'', lr_txHash = the (tl_txHash l),
     lr_logIndex = tl_logIndex l, lr_token = tc_symbol (bx_token X), lr_amount = bx_formatUnits X (log_value l) (tc_decimals (bx_token X)),
     lr_amountSource = [], lr_amountRaw = Some (string_of_int (log_value l)), lr_decimals = Some (tc_decimals (bx_token X)),
     lr_chainId = Some (bx_chainId X), lr_number = Some (bx_number X), lr_blockHash = Some (bx_hash X),
     lr_transactionIndex = tl_transactionIndex l, lr_level = Some (bx_level X), lr_version = Some 1, lr_counterparty = Some (log_from l),
     lr_counterpartyUid = None, lr_reference = Some (''Dep'' @ [CHR 0xF3] @ ''sito recibido''), lr_linkId = None, lr_createdAt = bx_timestamp X * 1000, lr_canonical = True\<rparr>"

definition block_events :: "block_context \<Rightarrow> transfer_log list \<Rightarrow> journal_event list" where
  "block_events X ls = map (log_event X) (filter (relevant X) ls)"

definition block_entries :: "block_context \<Rightarrow> transfer_log list \<Rightarrow> ledger_row list" where
  "block_entries X ls = map (log_entry X) (filter (deposit X) (filter (relevant X) ls))"

text \<open>The map from uids to accounts: setting a key again keeps its place.\<close>

definition set_affected :: "(string \<times> string) list \<Rightarrow> journal_account \<Rightarrow> (string \<times> string) list" where
  "set_affected m a = upsert (\<lambda>x. fst x = ja_uid a) (\<lambda>_. (ja_uid a, ja_account a)) (ja_uid a, ja_account a) m"

definition block_affected :: "block_context \<Rightarrow> transfer_log list \<Rightarrow> (string \<times> string) list" where
  "block_affected X ls = foldl set_affected [] (concat (map (log_accounts X) (filter (relevant X) ls)))"

definition deposit_notice :: "int \<Rightarrow> ledger_row \<Rightarrow> journal_user_event" where
  "deposit_notice c e = \<lparr>ju_dedupeKey = chainEventId c (lr_txHash e) (case lr_logIndex e of None \<Rightarrow> 0 | Some n \<Rightarrow> n) ''erc20.Transfer'' @ '':'' @
       lr_uid e @ '':deposit-received'',
     ju_uid = lr_uid e, ju_type = ''activity.deposit_received'',
     ju_payload = JObj [(''title'', JStr (''Recibiste un dep'' @ [CHR 0xF3] @ ''sito'')), (''body'', JStr ''Abre GatoPago para ver el movimiento confirmado.''),
       (''link'', JStr ''/'')],
     ju_priority = Some 1\<rparr>"

subsection \<open>One block\<close>

text \<open>What every step of a run has at hand.\<close>

record indexer_run =
  ir_viem :: viem
  ir_services :: app_services
  ir_node :: node_services
  ir_env :: app_env
  ir_network :: app_network
  ir_token :: token_config
  ir_partition :: transfer_partition
  ir_wallets :: "string list"
  ir_stream :: string
  ir_cursorKey :: string
  ir_epoch :: int
  ir_source :: finality_source
  ir_formatUnits :: "int \<Rightarrow> int \<Rightarrow> string"

definition evidence_level :: "indexer_run \<Rightarrow> block_evidence \<Rightarrow> consistency" where
  "evidence_level G ev = (if ev_nodeInterface ev then ev_level ev else journalConsistency (ir_source G))"

definition run_block :: "indexer_run \<Rightarrow> int \<Rightarrow> string \<Rightarrow> node_block \<Rightarrow> block_evidence \<Rightarrow> int \<Rightarrow> journal_block" where
  "run_block G n h b ev observedAt = \<lparr>ab_chainId = an_chainId (ir_network G), ab_number = n, ab_hash = h, ab_parentHash = Some (nb_parentHash b),
     ab_timestamp = Some (nb_timestamp b), ab_level = evidence_level G ev, ab_canonical = True, ab_source = ''rpc_log_poller'',
     ab_observedAt = observedAt, ab_l1BatchNumber = ev_batch ev, ab_l1Confirmations = ev_confirmations ev\<rparr>"

definition run_journal :: "indexer_run \<Rightarrow> journal_block \<Rightarrow> journal_event list \<Rightarrow> (app_event, journal_result) appact" where
  "run_journal G b events = journalBlockEvents (ir_viem G) (ir_services G) \<lparr>ji_stream = ir_stream G, ji_block = b, ji_events = events,
     ji_userEvents = [], ji_operations = [], ji_expectedEpoch = Some (ir_epoch G)\<rparr>"

definition block_matches :: "int \<Rightarrow> string \<Rightarrow> node_block \<Rightarrow> bool" where
  "block_matches n h b \<longleftrightarrow> (case nb_hash b of None \<Rightarrow> False | Some x \<Rightarrow> x \<noteq> [] \<and> toLowerCase x = toLowerCase h) \<and> nb_number b = Some n"

text \<open>\<open>new Date(Number(timestamp) * 1_000).toISOString()\<close> of a deposit throws beyond the range of dates.\<close>

definition date_range :: "int \<Rightarrow> bool" where
  "date_range ms \<longleftrightarrow> -8640000000000000 \<le> ms \<and> ms \<le> 8640000000000000"

definition run_context :: "indexer_run \<Rightarrow> (string \<times> string) list \<Rightarrow> int \<Rightarrow> string \<Rightarrow> node_block \<Rightarrow> block_evidence \<Rightarrow> int \<Rightarrow> block_context" where
  "run_context G users n h b ev observedAt = \<lparr>bx_chainId = an_chainId (ir_network G), bx_token = ir_token G, bx_user = by_wallet users,
     bx_internal = internalTransferSenderAddresses (ir_viem G) (ir_env G), bx_number = n, bx_hash = h, bx_timestamp = nb_timestamp b,
     bx_level = evidence_level G ev, bx_observedAt = observedAt, bx_formatUnits = ir_formatUnits G\<rparr>"

definition deposit_refresh :: "indexer_run \<Rightarrow> int \<Rightarrow> string \<times> string \<Rightarrow> refresh_message" where
  "deposit_refresh G n ua = \<lparr>rm_uid = fst ua, rm_account = snd ua, rm_chainId = an_chainId (ir_network G),
     rm_reason = ''canonical_transfer_event'', rm_priority = 1, rm_notBefore = Some n\<rparr>"

definition index_events :: "indexer_run \<Rightarrow> block_context \<Rightarrow> journal_block \<Rightarrow> transfer_log list \<Rightarrow> (app_event, nat) appact" where
  "index_events G X b ls = (let events = block_events X ls; entries = block_entries X ls in
     if entries \<noteq> [] \<and> \<not> date_range (bx_timestamp X * 1000) then throw (Thrown ''Invalid time value'')
     else if events = [] then ret 0
     else bindA (run_journal G b events) (\<lambda>_.
       bindA (projectBalanceDeltas b events (Some (ir_epoch G))) (\<lambda>projection.
       bindA (whenA (entries \<noteq> []) (bindA (writeLedgerEntries (ir_viem G) entries (map (deposit_notice (bx_chainId X)) entries) (Some (ir_epoch G)))
         (\<lambda>_. ret ()))) (\<lambda>_.
       bindA (forA (\<lambda>ua. whenA (balanceProjectionAccountKey (fst ua) (snd ua) \<notin> snd projection)
         (bindA (requestBalanceRefresh (ir_services G) (deposit_refresh G (bx_number X) ua)) (\<lambda>_. ret ()))) (block_affected X ls)) (\<lambda>_.
       ret (length events))))))"

text \<open>A group of logs has at least one.\<close>

definition index_block :: "indexer_run \<Rightarrow> (string \<times> string) list \<Rightarrow> transfer_log list \<Rightarrow> (app_event, unit) appact" where
  "index_block G users ls = (let n = the (tl_blockNumber (hd ls)); h = the (tl_blockHash (hd ls)) in
     bindA (extcall (nd_blockByHash (ir_node G) h) ''getBlock'') (\<lambda>b.
       if \<not> block_matches n h b then throw (Thrown ''RPC log block evidence did not match its block header'')
       else bindA date_now (\<lambda>observedAt.
         bindA (getArbitrumBlockEvidence (ir_env G) (ir_node G) n h) (\<lambda>ev.
         bindA (index_events G (run_context G users n h b ev observedAt) (run_block G n h b ev observedAt) ls) (\<lambda>_. ret ())))))"

text \<open>The end of the window is a checkpoint even when no relevant event is in it.\<close>

definition index_checkpoint :: "indexer_run \<Rightarrow> int \<Rightarrow> (app_event, unit) appact" where
  "index_checkpoint G committedEnd = bindA (extcall (nd_blockByNumber (ir_node G) committedEnd) ''getBlock'') (\<lambda>b.
     if \<not> truthy_text (nb_hash b) then throw (Thrown ''RPC returned scan checkpoint block without hash'')
     else bindA (getArbitrumBlockEvidence (ir_env G) (ir_node G) committedEnd (the (nb_hash b))) (\<lambda>ev.
       bindA date_now (\<lambda>observedAt.
       bindA (run_journal G (run_block G committedEnd (the (nb_hash b)) b ev observedAt) []) (\<lambda>_.
       setSyncCursor (ir_cursorKey G) committedEnd (Some (an_chainId (ir_network G))) (Some (ir_epoch G))))))"

subsection \<open>One run\<close>

record index_result =
  ix_cursor :: int
  ix_target :: int
  ix_scanHead :: int
  ix_caughtUp :: bool

definition thrown_err :: "thrown \<Rightarrow> err" where
  "thrown_err e = (case e of JsError name message cause \<Rightarrow> Thrown message | OtherValue s \<Rightarrow> Thrown s)"

text \<open>The scan of the window: the answers of the providers in the pool at a time.\<close>

definition scan_setup :: "indexer_run \<Rightarrow> int \<Rightarrow> int \<Rightarrow> scan_options" where
  "scan_setup G fromBlock scanEnd = (let span = logRangeConfig (ir_env G) (pool_maxLogRange (pool_providers (ir_viem G) (ir_env G))) in
     \<lparr>so_fromBlock = fromBlock, so_toBlock = scanEnd, so_minBlockSpan = fst span, so_maxBlockSpan = snd span, so_initialBlockSpan = None,
      so_maxTransientRetries = None, so_maxCalls = Some (maxLogCallsPerJob (ir_env G))\<rparr>)"

definition log_source :: "indexer_run \<Rightarrow> int \<Rightarrow> transfer_log scan_world" where
  "log_source G t = \<lparr>sw_fetchRange = (\<lambda>k a b. requestLogs (pool_providers (ir_viem G) (ir_env G)) a b
       (\<lambda>slot. nd_logs (ir_node G) slot (token_address (ir_token G)) (tp_direction (ir_partition G)) (ir_wallets G) t k a b)),
     sw_onRange = (\<lambda>_ _ _ _. None)\<rparr>"

definition scan_window :: "indexer_run \<Rightarrow> int \<Rightarrow> int \<Rightarrow> (app_event, transfer_log list) appact" where
  "scan_window G fromBlock scanEnd = bindA (extcall (\<lambda>t. scanLogsAdaptive (scan_setup G fromBlock scanEnd) (log_source G t)) ''scanLogsAdaptive'')
     (\<lambda>outcome. case outcome of (Inl e, _) \<Rightarrow> throw (thrown_err e) | (Inr _, ds) \<Rightarrow> ret (logs_by_identity (concat (map fst ds))))"

text \<open>From the cursor on.\<close>

definition first_block :: "int option \<Rightarrow> int \<Rightarrow> int" where
  "first_block cursor scanHead = (case cursor of Some c \<Rightarrow> c + 1 | None \<Rightarrow> if BACKFILL_BLOCKS < scanHead then scanHead - BACKFILL_BLOCKS else 0)"

definition index_range :: "indexer_run \<Rightarrow> int \<Rightarrow> int \<Rightarrow> (app_event, int) appact" where
  "index_range G fromBlock scanHead = bindA (liftE (boundedScanWindowEnd fromBlock scanHead
       (snd (logRangeConfig (ir_env G) (pool_maxLogRange (pool_providers (ir_viem G) (ir_env G))))) 1 (maxLogCallsPerJob (ir_env G))
       (maxBlocksPerJob (ir_env G)))) (\<lambda>scanEnd.
     bindA (scan_window G fromBlock scanEnd) (\<lambda>fetched.
     bindA (liftE (boundedEvidenceWindowEnd scanEnd fetched (maxEventBlocksPerJob (ir_env G)))) (\<lambda>committedEnd.
     let logs = committed_logs fetched committedEnd in
     bindA (listUsersByWalletAddresses (wallet_texts logs)) (\<lambda>users.
     bindA (forA (index_block G users) (logs_by_block logs)) (\<lambda>_.
     bindA (index_checkpoint G committedEnd) (\<lambda>_. ret committedEnd))))))"

definition index_window :: "indexer_run \<Rightarrow> int option \<Rightarrow> int \<Rightarrow> int option \<Rightarrow> (app_event, index_result) appact" where
  "index_window G cursor scanHead targetBlock = (let fromBlock = first_block cursor scanHead;
       target = (case targetBlock of None \<Rightarrow> scanHead | Some t \<Rightarrow> max t scanHead); reached_so_far = (case cursor of None \<Rightarrow> scanHead | Some c \<Rightarrow> c) in
     if scanHead < fromBlock
     then ret \<lparr>ix_cursor = reached_so_far, ix_target = target, ix_scanHead = scanHead, ix_caughtUp = (target \<le> reached_so_far)\<rparr>
     else bindA (index_range G fromBlock scanHead) (\<lambda>committedEnd.
       ret \<lparr>ix_cursor = committedEnd, ix_target = target, ix_scanHead = scanHead, ix_caughtUp = (target \<le> committedEnd)\<rparr>))"

definition partition_token :: "app_network \<Rightarrow> transfer_partition \<Rightarrow> token_config option" where
  "partition_token n p = find (\<lambda>t. case tc_address t of None \<Rightarrow> False | Some x \<Rightarrow> toLowerCase x = toLowerCase (tp_token p)) (an_tokens n)"

definition transferAssignmentStream :: "int \<Rightarrow> string" where
  "transferAssignmentStream chainId = ''erc20_transfers:'' @ string_of_int chainId"

text \<open>
  \<open>None\<close> is a run that has nothing to read: no provider, or no wallet in the shard.  \<open>formatUnits\<close> of the library is a parameter.
\<close>

definition runIndexer :: "viem \<Rightarrow> app_services \<Rightarrow> node_services \<Rightarrow> app_env \<Rightarrow> (int \<Rightarrow> int \<Rightarrow> string) \<Rightarrow> transfer_partition \<Rightarrow> int option \<Rightarrow>
    (app_event, index_result option) appact" where
  "runIndexer V A N env formatUnits part targetBlock = (let network = getNetworkConfig (ve_chainKey env); c = an_chainId network in
     case partition_token network part of
       None \<Rightarrow> throw (Thrown ''Transfer indexer partition references an unsupported token'')
     | Some token \<Rightarrow> if token_address token = [] then throw (Thrown ''Transfer indexer partition references an unsupported token'')
         else if getRpcUrls env IndexerRole = [] then ret None
         else bindA (listWalletsForIndexerShard c (transferAssignmentStream c) (tp_shard part)) (\<lambda>wallets.
           if wallets = [] then ret None
           else bindA (getIndexerScanHead N) (\<lambda>head.
             bindA (liftE (transferSyncCursorKey c part)) (\<lambda>cursorKey.
             bindA (liftE (transferJournalStream c part)) (\<lambda>stream.
             bindA (verifyAndRecoverStream A (hash_reader N) c stream None) (\<lambda>_.
             bindA (getChainReorgEpoch c) (\<lambda>epoch.
             bindA (getSyncCursor cursorKey) (\<lambda>cursor.
             bindA (index_window \<lparr>ir_viem = V, ir_services = A, ir_node = N, ir_env = env, ir_network = network, ir_token = token,
                 ir_partition = part, ir_wallets = map snd wallets, ir_stream = stream, ir_cursorKey = cursorKey, ir_epoch = epoch,
                 ir_source = hd_source head, ir_formatUnits = formatUnits\<rparr> cursor (hd_scanHead head) targetBlock) (\<lambda>r. ret (Some r))))))))))"

end
