(* ===== verification/BalanceProps.thy ===== *)
theory BalanceProps
  imports BalanceModel
begin

text \<open>
  The batched request for refreshes is equivalent to single requests, up to who asked last and when; and what happens to the
  priority of a finished request.
\<close>

subsection \<open>Keys\<close>

lemma int_text_chars: "c \<in> set (string_of_int n) \<Longrightarrow> is_digit c \<or> c = CHR ''-''"
  using dec_digits by (auto simp: string_of_int_def list_all_iff split: if_splits)

lemma dec_no_minus: "dec n \<noteq> CHR ''-'' # t"
  using dec_digits [of n] by (cases "dec n") (auto simp: is_digit_def ccode_def)

lemma int_text_inject: "string_of_int m = string_of_int n \<longleftrightarrow> m = n"
  using dec_no_minus by (auto simp: string_of_int_def dec_inject) metis

lemma key_inject: "balanceRefreshKey c a = balanceRefreshKey c' a' \<longleftrightarrow> c = c' \<and> toLowerCase a = toLowerCase a'"
proof
  assume eq: "balanceRefreshKey c a = balanceRefreshKey c' a'"
  have no: "CHR '':'' \<notin> set (string_of_int n)" for n
    using int_text_chars [of "CHR '':''" n] by (auto simp: is_digit_def ccode_def)
  have 1: "takeWhile (\<lambda>x. x \<noteq> CHR '':'') (balanceRefreshKey n s) = string_of_int n" for n s
    using no [of n] unfolding balanceRefreshKey_def by (subst takeWhile_append2) auto
  have 2: "dropWhile (\<lambda>x. x \<noteq> CHR '':'') (balanceRefreshKey n s) = CHR '':'' # toLowerCase s" for n s
    using no [of n] unfolding balanceRefreshKey_def by (subst dropWhile_append2) auto
  show "c = c' \<and> toLowerCase a = toLowerCase a'"
    using eq 1 [of c a] 1 [of c' a'] 2 [of c a] 2 [of c' a'] int_text_inject by simp
qed (simp add: balanceRefreshKey_def)

definition built :: "refresh_message \<Rightarrow> bool" where
  "built m \<longleftrightarrow> toLowerCase (rm_account m) = rm_account m"

lemma refresh_key_eq: "refresh_key x = refresh_key y \<longleftrightarrow> rm_chainId x = rm_chainId y \<and> rm_account x = rm_account y"
proof
  assume "refresh_key x = refresh_key y"
  then have "refresh_key x (first_request x 0) = refresh_key y (first_request x 0)" by simp
  then show "rm_chainId x = rm_chainId y \<and> rm_account x = rm_account y" by (simp add: refresh_key_def first_request_def)
qed (auto simp: refresh_key_def fun_eq_iff)

lemma built_key: "built x \<Longrightarrow> built y \<Longrightarrow> message_key x = message_key y \<longleftrightarrow> refresh_key x = refresh_key y"
  by (simp add: message_key_def key_inject built_def refresh_key_eq)

lemma built_build: "built (buildBalanceRefreshMessage m)"
  by (simp add: built_def buildBalanceRefreshMessage_def)

subsection \<open>One row\<close>

definition ask_again :: "int \<Rightarrow> refresh_message \<Rightarrow> refresh_row \<Rightarrow> refresh_row" where
  "ask_again now m r = (if refresh_wanted m now r then requested_again m now r else r)"

definition ask_row :: "int \<Rightarrow> refresh_message \<Rightarrow> refresh_row option \<Rightarrow> refresh_row option" where
  "ask_row now m x = (case x of None \<Rightarrow> Some (first_request m now) | Some r \<Rightarrow> Some (ask_again now m r))"

text \<open>What a request decides: not its user, reason and times.\<close>

definition refresh_view :: "refresh_row \<Rightarrow>
    refresh_status \<times> int \<times> int option \<times> int \<times> string option \<times> int option \<times> string option" where
  "refresh_view r = (rr_status r, rr_priority r, rr_requiredBlock r, rr_attempts r, rr_leaseOwner r, rr_leaseExpiresAt r, rr_lastErrorCode r)"

lemma wanted_view: "refresh_view r = refresh_view r' \<Longrightarrow> refresh_wanted m now r = refresh_wanted m now r'"
  by (simp add: refresh_view_def refresh_wanted_def finished_refresh_def cong: option.case_cong)

lemma ask_view: "refresh_view r = refresh_view r' \<Longrightarrow> refresh_view (ask_again now m r) = refresh_view (ask_again now m r')"
  using wanted_view [of r r' m now]
  by (simp add: ask_again_def) (simp add: refresh_view_def requested_again_def merged_block_def finished_refresh_def)

lemmas ask_simps = ask_again_def refresh_wanted_def requested_again_def merged_block_def finished_refresh_def refresh_view_def
  coalesceBalanceRefreshMessages_def first_request_def

lemma ask_twice_first:
  "refresh_view (ask_again now m2 (first_request m1 now)) = refresh_view (first_request (coalesceBalanceRefreshMessages m1 m2) now)"
  by (simp add: ask_simps split: option.splits)

lemma ask_twice_finished:
  assumes "finished_refresh r" and "rm_priority m1 \<le> rr_priority r" and "rm_priority m2 \<le> rr_priority r"
  shows "refresh_view (ask_again now m2 (ask_again now m1 r)) = refresh_view (ask_again now (coalesceBalanceRefreshMessages m1 m2) r)"
proof -
  have "refresh_wanted m now r" for m using assms(1) by (simp add: refresh_wanted_def)
  then have again: "refresh_view (ask_again now m r) = refresh_view (first_request m now)" if "rm_priority m \<le> rr_priority r" for m
    using assms(1) that by (simp add: ask_simps)
  have "rm_priority (coalesceBalanceRefreshMessages m1 m2) \<le> rr_priority r"
    using assms(2,3) by (simp add: coalesceBalanceRefreshMessages_def split: option.splits)
  then show ?thesis using ask_view [OF again [OF assms(2)]] again ask_twice_first by metis
qed

definition better :: "refresh_message \<Rightarrow> int \<Rightarrow> int option \<Rightarrow> bool" where
  "better m p b \<longleftrightarrow> rm_priority m < p \<or> rm_priority m = p \<and> (case rm_notBefore m of None \<Rightarrow> False
     | Some n \<Rightarrow> (case b of None \<Rightarrow> True | Some k \<Rightarrow> k < n))"

lemma coalesce_better:
  "coalesceBalanceRefreshMessages m1 m2 = (if better m2 (rm_priority m1) (rm_notBefore m1) then m2 else m1)"
  by (simp add: coalesceBalanceRefreshMessages_def better_def split: option.splits)

lemma better_trans: "better m2 (rm_priority m1) (rm_notBefore m1) \<Longrightarrow> better m1 p b \<Longrightarrow> better m2 p b"
  by (auto simp: better_def split: option.splits)

lemma better_over: "better m2 p b \<Longrightarrow> \<not> better m1 p b \<Longrightarrow> better m2 (rm_priority m1) (rm_notBefore m1)"
  by (auto simp: better_def split: option.splits)

definition lease_over :: "int \<Rightarrow> refresh_row \<Rightarrow> bool" where
  "lease_over now r \<longleftrightarrow> rr_status r = RefreshProcessing \<and> (case rr_leaseExpiresAt r of None \<Rightarrow> False | Some t \<Rightarrow> t \<le> now)"

lemma open_view:
  assumes "rr_status r \<in> {RefreshPending, RefreshProcessing}"
  shows "refresh_view (ask_again now m r) = (if lease_over now r \<or> better m (rr_priority r) (rr_requiredBlock r)
    then (RefreshPending, min (rr_priority r) (rm_priority m),
      if better m (rr_priority r) (rr_requiredBlock r) then rm_notBefore m else rr_requiredBlock r,
      if rm_priority m < rr_priority r then 0 else rr_attempts r, None, None, None)
    else refresh_view r)"
proof -
  have open_row: "\<not> finished_refresh r" using assms by (auto simp: finished_refresh_def)
  then have w: "refresh_wanted m now r \<longleftrightarrow> lease_over now r \<or> better m (rr_priority r) (rr_requiredBlock r)"
    by (simp add: refresh_wanted_def lease_over_def better_def)
  have "merged_block m r = (if better m (rr_priority r) (rr_requiredBlock r) then rm_notBefore m else rr_requiredBlock r)"
    using open_row by (auto simp: merged_block_def better_def split: option.splits)
  then show ?thesis using open_row w by (simp add: ask_again_def requested_again_def refresh_view_def)
qed

lemma ask_twice_open:
  assumes "rr_status r \<in> {RefreshPending, RefreshProcessing}"
  shows "refresh_view (ask_again now m2 (ask_again now m1 r)) = refresh_view (ask_again now (coalesceBalanceRefreshMessages m1 m2) r)"
proof (cases "lease_over now r \<or> better m1 (rr_priority r) (rr_requiredBlock r)")
  case False
  then have "refresh_view (ask_again now m1 r) = refresh_view r" using open_view [OF assms, of now m1] by simp
  then have "refresh_view (ask_again now m2 (ask_again now m1 r)) = refresh_view (ask_again now m2 r)" by (rule ask_view)
  moreover have "refresh_view (ask_again now m2 r) = refresh_view (ask_again now m1 r)"
    if "\<not> better m2 (rm_priority m1) (rm_notBefore m1)"
    using that False better_over [of m2 "rr_priority r" "rr_requiredBlock r" m1] open_view [OF assms, of now m2]
      open_view [OF assms, of now m1] by metis
  ultimately show ?thesis by (simp add: coalesce_better)
next
  case True
  let ?r = "ask_again now m1 r"
  have r: "rr_status ?r = RefreshPending" "rr_priority ?r = min (rr_priority r) (rm_priority m1)"
    "rr_requiredBlock ?r = (if better m1 (rr_priority r) (rr_requiredBlock r) then rm_notBefore m1 else rr_requiredBlock r)"
    "rr_attempts ?r = (if rm_priority m1 < rr_priority r then 0 else rr_attempts r)"
    "refresh_view ?r = (RefreshPending, rr_priority ?r, rr_requiredBlock ?r, rr_attempts ?r, None, None, None)"
    using True open_view [OF assms, of now m1] by (simp_all add: refresh_view_def)
  have over: "\<not> lease_over now ?r" using r(1) by (simp add: lease_over_def)
  have low: "better m1 (rr_priority r) (rr_requiredBlock r) \<Longrightarrow> rm_priority m1 \<le> rr_priority r" by (auto simp: better_def)
  have 2: "refresh_view (ask_again now m2 ?r) = (if better m2 (rr_priority ?r) (rr_requiredBlock ?r)
     then (RefreshPending, min (rr_priority ?r) (rm_priority m2), rm_notBefore m2,
       if rm_priority m2 < rr_priority ?r then 0 else rr_attempts ?r, None, None, None)
     else (RefreshPending, rr_priority ?r, rr_requiredBlock ?r, rr_attempts ?r, None, None, None))"
    using open_view [of ?r now m2] over r(1,5) by auto
  show ?thesis
  proof (cases "better m1 (rr_priority r) (rr_requiredBlock r)")
    case m1: True
    have at: "rr_priority ?r = rm_priority m1" "rr_requiredBlock ?r = rm_notBefore m1" using r(2,3) m1 low by simp_all
    show ?thesis
    proof (cases "better m2 (rm_priority m1) (rm_notBefore m1)")
      case b: True
      have "better m2 (rr_priority r) (rr_requiredBlock r)" by (rule better_trans [OF b m1])
      moreover have "rm_priority m2 \<le> rm_priority m1" using b by (auto simp: better_def)
      ultimately show ?thesis
        using 2 r(4) at b low [OF m1] open_view [OF assms, of now m2] by (simp add: coalesce_better)
    next
      case b: False
      then show ?thesis using 2 r(5) at by (simp add: coalesce_better)
    qed
  next
    case m1: False
    have at: "rr_priority ?r = rr_priority r" "rr_requiredBlock ?r = rr_requiredBlock r" "rr_attempts ?r = rr_attempts r"
      using r(2-4) m1 by (auto simp: better_def)
    have lease: "lease_over now r" using True m1 by blast
    show ?thesis
    proof (cases "better m2 (rm_priority m1) (rm_notBefore m1)")
      case b: True
      have "\<not> better m2 (rr_priority r) (rr_requiredBlock r) \<Longrightarrow> \<not> rm_priority m2 < rr_priority r" by (auto simp: better_def)
      then show ?thesis using 2 at b lease open_view [OF assms, of now m2] by (auto simp: coalesce_better)
    next
      case b: False
      then have "\<not> better m2 (rr_priority r) (rr_requiredBlock r)" using better_over m1 by blast
      then show ?thesis using 2 at b r(5) by (simp add: coalesce_better)
    qed
  qed
qed

lemma ask_twice:
  assumes "finished_refresh r \<Longrightarrow> rm_priority m1 \<le> rr_priority r \<and> rm_priority m2 \<le> rr_priority r"
  shows "refresh_view (ask_again now m2 (ask_again now m1 r)) = refresh_view (ask_again now (coalesceBalanceRefreshMessages m1 m2) r)"
proof (cases "finished_refresh r")
  case False
  then show ?thesis by (intro ask_twice_open) (cases "rr_status r"; simp add: finished_refresh_def)
qed (use assms ask_twice_finished in blast)

text \<open>A list of messages for one row, and their coalescence.\<close>

lemma ask_all:
  assumes "\<And>r m'. x = Some r \<Longrightarrow> finished_refresh r \<Longrightarrow> m' \<in> set (m # ms) \<Longrightarrow> rm_priority m' \<le> rr_priority r"
  shows "map_option refresh_view (fold (ask_row now) (m # ms) x) =
    map_option refresh_view (ask_row now (foldl coalesceBalanceRefreshMessages m ms) x)"
  using assms
proof (induction ms arbitrary: m)
  case (Cons m2 ms)
  let ?c = "coalesceBalanceRefreshMessages m m2"
  have views: "map_option refresh_view (fold (ask_row now) l y) = map_option refresh_view (fold (ask_row now) l z)"
    if "map_option refresh_view y = map_option refresh_view z" for l y z
    using that
  proof (induction l arbitrary: y z)
    case (Cons k l)
    have "map_option refresh_view (ask_row now k y) = map_option refresh_view (ask_row now k z)"
    proof (cases y)
      case None
      then show ?thesis using Cons.prems by simp
    next
      case (Some r)
      then obtain r' where "z = Some r'" "refresh_view r = refresh_view r'"
        using Cons.prems by (cases z) auto
      then show ?thesis using Some ask_view [of r r' now k] by (simp add: ask_row_def)
    qed
    then show ?case using Cons.IH [of "ask_row now k y" "ask_row now k z"] by simp
  qed simp
  have "map_option refresh_view (ask_row now m2 (ask_row now m x)) = map_option refresh_view (ask_row now ?c x)"
  proof (cases x)
    case None
    then show ?thesis using ask_twice_first by (simp add: ask_row_def)
  next
    case (Some r)
    then show ?thesis using ask_twice [of r m m2 now] Cons.prems [OF Some] by (simp add: ask_row_def)
  qed
  then have "map_option refresh_view (fold (ask_row now) (m # m2 # ms) x) = map_option refresh_view (fold (ask_row now) (?c # ms) x)"
    using views [of "ask_row now m2 (ask_row now m x)" "ask_row now ?c x" ms] by simp
  also have "\<dots> = map_option refresh_view (ask_row now (foldl coalesceBalanceRefreshMessages ?c ms) x)"
  proof (rule Cons.IH)
    fix r m' assume "x = Some r" "finished_refresh r" "m' \<in> set (?c # ms)"
    moreover have "?c = m \<or> ?c = m2" by (simp add: coalesce_better)
    ultimately show "rm_priority m' \<le> rr_priority r" using Cons.prems [of r] by auto
  qed
  finally show ?case by simp
qed simp

subsection \<open>The table\<close>

lemma find_upsert_if:
  assumes "\<And>x. key (f x) = key x" and "key r"
  shows "find key (fst (upsert_if key ok f r rows)) =
    (case find key rows of None \<Rightarrow> Some r | Some x \<Rightarrow> Some (if ok x then f x else x))"
proof (cases "list_ex key rows")
  case True
  then obtain x where x: "find key rows = Some x" by (cases "find key rows") (auto simp: find_None_iff list_ex_iff)
  have "find key (upd (\<lambda>x. key x \<and> ok x) f rows) = map_option (\<lambda>x. if ok x then f x else x) (find key rows)" for rows
    using assms(1) by (induction rows) (auto simp: upd_simps)
  then show ?thesis using True x by (simp add: upsert_if_def)
next
  case False
  then have "find key rows = None" by (auto simp: find_None_iff list_ex_iff)
  moreover have "find key (rows @ [r]) = Some r" if "find key rows = None" for rows
    using that assms(2) by (induction rows) (auto split: if_splits)
  ultimately show ?thesis using False by (simp add: upsert_if_def)
qed

lemma find_upsert_other:
  assumes "\<And>x. key x \<Longrightarrow> key (f x) \<and> \<not> k (f x) \<and> \<not> k x" and "\<not> k r"
  shows "find k (fst (upsert_if key ok f r rows)) = find k rows"
proof -
  have "find k (upd (\<lambda>x. key x \<and> ok x) f rows) = find k rows" for rows
    using assms(1) by (induction rows) (auto simp: upd_simps)
  moreover have "find k (rows @ [r]) = find k rows" for rows using assms(2) by (induction rows) auto
  ultimately show ?thesis by (simp add: upsert_if_def)
qed

lemma refresh_rows_find:
  "find (refresh_key k) (fst (refresh_rows m now rows)) =
    (if refresh_key m = refresh_key k then ask_row now m (find (refresh_key k) rows) else find (refresh_key k) rows)"
proof (cases "refresh_key m = refresh_key k")
  case True
  have "find (refresh_key m) (fst (refresh_rows m now rows)) = ask_row now m (find (refresh_key m) rows)"
    unfolding refresh_rows_def
    by (subst find_upsert_if)
      (auto simp: refresh_key_def requested_again_def first_request_def ask_row_def ask_again_def split: option.splits)
  then show ?thesis using True by simp
next
  case False
  then have ne: "rm_chainId m \<noteq> rm_chainId k \<or> rm_account m \<noteq> rm_account k" by (auto simp: refresh_key_def fun_eq_iff)
  then have "find (refresh_key k) (fst (refresh_rows m now rows)) = find (refresh_key k) rows"
    unfolding refresh_rows_def
    by (intro find_upsert_other) (auto simp: refresh_key_def requested_again_def first_request_def)
  then show ?thesis using False by simp
qed

lemma refresh_rows_all:
  "find (refresh_key k) (fold (\<lambda>m rows. fst (refresh_rows m now rows)) ms rows) =
    fold (ask_row now) (filter (\<lambda>m. refresh_key m = refresh_key k) ms) (find (refresh_key k) rows)"
  by (induction ms arbitrary: rows) (simp_all add: refresh_rows_find)

lemma coalesce_key: "refresh_key x = refresh_key m \<Longrightarrow> refresh_key (coalesceBalanceRefreshMessages x m) = refresh_key m"
  by (simp add: coalesce_better)

lemma coalesce_built: "built x \<Longrightarrow> built m \<Longrightarrow> built (coalesceBalanceRefreshMessages x m)"
  by (simp add: coalesce_better)

lemma add_message_built: "list_all built ms \<Longrightarrow> built m \<Longrightarrow> list_all built (add_message ms m)"
  by (auto simp: add_message_def list_all_iff coalesce_built)

lemma coalesced_filter:
  assumes "list_all built ms"
  shows "list_all built (foldl add_message [] ms) \<and> filter (\<lambda>m. refresh_key m = k) (foldl add_message [] ms) =
    (case filter (\<lambda>m. refresh_key m = k) ms of [] \<Rightarrow> [] | m # ms' \<Rightarrow> [foldl coalesceBalanceRefreshMessages m ms'])"
  using assms
proof (induction ms rule: rev_induct)
  case (snoc m ms)
  let ?L = "foldl add_message [] ms"
  have L: "list_all built ?L" "built m" using snoc by auto
  have keys: "message_key x = message_key m \<longleftrightarrow> refresh_key x = refresh_key m" if "x \<in> set ?L" for x
    using L that built_key [of x m] by (simp add: list_all_iff)
  have add: "add_message ?L m = (if list_ex (\<lambda>x. refresh_key x = refresh_key m) ?L
      then map (\<lambda>x. if refresh_key x = refresh_key m then coalesceBalanceRefreshMessages x m else x) ?L else ?L @ [m])"
    using keys by (auto simp: add_message_def list_ex_iff)
  have other: "filter (\<lambda>x. refresh_key x = k)
      (map (\<lambda>x. if refresh_key x = refresh_key m then coalesceBalanceRefreshMessages x m else x) l) = filter (\<lambda>x. refresh_key x = k) l"
    if "refresh_key m \<noteq> k" for l using that by (induction l) (auto simp: coalesce_key)
  have same: "filter (\<lambda>x. refresh_key x = k)
      (map (\<lambda>x. if refresh_key x = refresh_key m then coalesceBalanceRefreshMessages x m else x) l) =
      map (\<lambda>x. coalesceBalanceRefreshMessages x m) (filter (\<lambda>x. refresh_key x = k) l)"
    if "refresh_key m = k" for l using that by (induction l) (auto simp: coalesce_key)
  have IH: "filter (\<lambda>x. refresh_key x = k) ?L =
    (case filter (\<lambda>x. refresh_key x = k) ms of [] \<Rightarrow> [] | m # ms' \<Rightarrow> [foldl coalesceBalanceRefreshMessages m ms'])"
    using snoc by simp
  have "filter (\<lambda>x. refresh_key x = k) (add_message ?L m) =
    (case filter (\<lambda>x. refresh_key x = k) (ms @ [m]) of [] \<Rightarrow> [] | m # ms' \<Rightarrow> [foldl coalesceBalanceRefreshMessages m ms'])"
  proof (cases "refresh_key m = k")
    case True
    have "list_ex (\<lambda>x. refresh_key x = refresh_key m) ?L \<longleftrightarrow> filter (\<lambda>x. refresh_key x = k) ?L \<noteq> []"
      using True by (auto simp: list_ex_iff filter_empty_conv)
    then show ?thesis using IH add same [OF True, of ?L] True by (auto split: list.splits)
  next
    case False
    then show ?thesis using IH add other [OF False, of ?L] by simp
  qed
  then show ?case using L add_message_built by simp
qed simp

lemma coalesced_mem: "m \<in> set (foldl add_message [] ms) \<Longrightarrow> m \<in> set ms"
proof (induction ms arbitrary: m rule: rev_induct)
  case (snoc x ms)
  then show ?case by (auto simp: add_message_def coalesce_better split: if_splits)
qed simp

lemma coalesced_rows:
  assumes "list_all built ms"
    and "\<And>m r. m \<in> set ms \<Longrightarrow> r \<in> set rows \<Longrightarrow> refresh_key m r \<Longrightarrow> finished_refresh r \<Longrightarrow> rm_priority m \<le> rr_priority r"
  shows "map_option refresh_view (find (refresh_key k) (fold (\<lambda>m rows. fst (refresh_rows m now rows)) (foldl add_message [] ms) rows)) =
    map_option refresh_view (find (refresh_key k) (fold (\<lambda>m rows. fst (refresh_rows m now rows)) ms rows))"
proof (cases "filter (\<lambda>m. refresh_key m = refresh_key k) ms")
  case Nil
  then show ?thesis using coalesced_filter [OF assms(1), of "refresh_key k"] by (simp add: refresh_rows_all)
next
  case (Cons m ms')
  have "map_option refresh_view (fold (ask_row now) (m # ms') (find (refresh_key k) rows)) =
    map_option refresh_view (ask_row now (foldl coalesceBalanceRefreshMessages m ms') (find (refresh_key k) rows))"
  proof (rule ask_all)
    fix r m' assume r: "find (refresh_key k) rows = Some r" "finished_refresh r" "m' \<in> set (m # ms')"
    then have "m' \<in> set ms" "refresh_key m' = refresh_key k" 
      using Cons [symmetric] by (metis (mono_tags, lifting) filter_set mem_Collect_eq set_filter)+
    moreover have "r \<in> set rows" "refresh_key k r" using r(1) by (auto simp: find_Some_iff)
    ultimately show "rm_priority m' \<le> rr_priority r" using assms(2) r(2) by auto
  qed
  then show ?thesis using Cons coalesced_filter [OF assms(1), of "refresh_key k"] by (simp add: refresh_rows_all)
qed

subsection \<open>The requests\<close>

abbreviation asked_rows :: "int \<Rightarrow> refresh_message list \<Rightarrow> refresh_row list \<Rightarrow> refresh_row list" where
  "asked_rows now \<equiv> fold (\<lambda>m rows. fst (refresh_rows m now rows))"

lemma refresh_stmt_user: "user_exists (rm_uid m) d \<Longrightarrow>
    refresh_stmt m now d = Some (d\<lparr>ad_refreshes := asked_rows now [m] (ad_refreshes d)\<rparr>, snd (refresh_rows m now (ad_refreshes d)))"
  by (simp add: refresh_stmt_def split: prod.splits)

lemma user_exists_refreshes [simp]: "user_exists u (d\<lparr>ad_refreshes := rows\<rparr>) = user_exists u d"
  by (simp add: user_exists_def)

lemma refresh_batch: "\<forall>m \<in> set ms. user_exists (rm_uid m) d \<Longrightarrow>
    \<exists>ns. batch (map (\<lambda>m. refresh_stmt m now) ms) d = Some (d\<lparr>ad_refreshes := asked_rows now ms (ad_refreshes d)\<rparr>, ns)"
proof (induction ms arbitrary: d)
  case (Cons m ms)
  have "\<forall>x \<in> set ms. user_exists (rm_uid x) (d\<lparr>ad_refreshes := asked_rows now [m] (ad_refreshes d)\<rparr>)"
    using Cons.prems by simp
  from Cons.IH [OF this] show ?case using Cons.prems refresh_stmt_user [of m d now] by auto
qed simp

lemma refresh_chunks_quiet:
  assumes "w_env w = []" and "\<forall>m \<in> set ms. user_exists (rm_uid m) (w_db w)" and "length ms \<le> k"
  shows "\<exists>b. refresh_chunks now k ms w = (Inr b, w\<lparr>w_db := (w_db w)\<lparr>ad_refreshes := asked_rows now ms (ad_refreshes (w_db w))\<rparr>\<rparr>)"
  using assms
proof (induction k arbitrary: ms w)
  case (Suc k)
  show ?case
  proof (cases "ms = []")
    case False
    have "\<forall>m \<in> set (take 100 ms). user_exists (rm_uid m) (w_db w)" using Suc.prems(2) by (auto dest: in_set_takeD)
    then obtain ns where b: "batch (map (\<lambda>m. refresh_stmt m now) (take 100 ms)) (w_db w) =
        Some ((w_db w)\<lparr>ad_refreshes := asked_rows now (take 100 ms) (ad_refreshes (w_db w))\<rparr>, ns)" using refresh_batch by blast
    let ?w = "w\<lparr>w_db := (w_db w)\<lparr>ad_refreshes := asked_rows now (take 100 ms) (ad_refreshes (w_db w))\<rparr>\<rparr>"
    have "\<exists>x. refresh_chunks now k (drop 100 ms) ?w =
      (Inr x, ?w\<lparr>w_db := (w_db ?w)\<lparr>ad_refreshes := asked_rows now (drop 100 ms) (ad_refreshes (w_db ?w))\<rparr>\<rparr>)"
      using Suc.prems False by (intro Suc.IH) (auto dest: in_set_dropD)
    moreover have "asked_rows now (drop 100 ms) (asked_rows now (take 100 ms) rows) = asked_rows now ms rows" for rows
      by (metis append_take_drop_id comp_apply fold_append)
    ultimately show ?thesis
      using False Suc.prems(1) b by (auto simp: bindA_def dbb_def dbx_quiet ret_def)
  qed (intro exI [of _ False], simp add: ret_def)
qed (intro exI [of _ False], simp add: ret_def)

lemma wake_quiet:
  assumes "w_env w = []"
  shows "w_db (snd (wake A job opts w)) = w_db w \<and> w_env (snd (wake A job opts w)) = [] \<and> w_now (snd (wake A job opts w)) = w_now w"
  using assms by (auto simp: wake_def bindA_def date_now_def throw_def callA_quiet ret_def split: event_call.splits option.splits)

lemma dispatch_quiet:
  assumes "w_env w = []"
  shows "w_db (snd (dispatchBalanceRefreshJob A w)) = w_db w \<and> w_env (snd (dispatchBalanceRefreshJob A w)) = [] \<and>
    w_now (snd (dispatchBalanceRefreshJob A w)) = w_now w"
  using wake_quiet [OF assms] by (auto simp: dispatchBalanceRefreshJob_def bindA_def ret_def split: prod.splits sum.splits) (metis snd_conv)+

lemma batch_rows:
  assumes "w_env w = []" and "\<forall>m \<in> set inputs. user_exists (rm_uid m) (w_db w)"
  shows "ad_refreshes (w_db (snd (requestBalanceRefreshBatch A inputs w))) =
    asked_rows (w_now w) (coalesced inputs) (ad_refreshes (w_db w))"
proof (cases "coalesced inputs = []")
  case False
  have "\<forall>m \<in> set (coalesced inputs). user_exists (rm_uid m) (w_db w)"
    using assms(2) coalesced_mem by (fastforce simp: coalesced_def buildBalanceRefreshMessage_def)
  from refresh_chunks_quiet [OF assms(1) this le_refl, of "w_now w"]
  obtain b where c: "refresh_chunks (w_now w) (length (coalesced inputs)) (coalesced inputs) w =
      (Inr b, w\<lparr>w_db := (w_db w)\<lparr>ad_refreshes := asked_rows (w_now w) (coalesced inputs) (ad_refreshes (w_db w))\<rparr>\<rparr>)" by blast
  show ?thesis
    using False c dispatch_quiet [of "w\<lparr>w_db := (w_db w)\<lparr>ad_refreshes := asked_rows (w_now w) (coalesced inputs) (ad_refreshes (w_db w))\<rparr>\<rparr>" A]
      assms(1)
    by (auto simp: requestBalanceRefreshBatch_def Let_def bindA_def date_now_def whenA_def ret_def split: prod.splits sum.splits)
qed (simp add: requestBalanceRefreshBatch_def ret_def)

lemma single_rows:
  assumes "w_env w = []" and "user_exists (rm_uid m) (w_db w)"
  shows "let w' = snd (requestBalanceRefresh A m w) in w_env w' = [] \<and> w_now w' = w_now w \<and>
    w_db w' = (w_db w)\<lparr>ad_refreshes := asked_rows (w_now w) [buildBalanceRefreshMessage m] (ad_refreshes (w_db w))\<rparr>"
proof -
  let ?m = "buildBalanceRefreshMessage m"
  let ?w = "w\<lparr>w_db := (w_db w)\<lparr>ad_refreshes := asked_rows (w_now w) [?m] (ad_refreshes (w_db w))\<rparr>\<rparr>"
  have "user_exists (rm_uid ?m) (w_db w)" using assms(2) by (simp add: buildBalanceRefreshMessage_def)
  then have "dbx (refresh_stmt ?m (w_now w)) w = (Inr (snd (refresh_rows ?m (w_now w) (ad_refreshes (w_db w)))), ?w)"
    using assms(1) by (simp add: dbx_quiet refresh_stmt_user)
  then show ?thesis
    using dispatch_quiet [of ?w A] assms(1)
    by (auto simp: requestBalanceRefresh_def Let_def bindA_def date_now_def ret_def split: prod.splits sum.splits)
qed

lemma singles_rows:
  assumes "w_env w = []" and "\<forall>m \<in> set inputs. user_exists (rm_uid m) (w_db w)"
  shows "ad_refreshes (w_db (fold (\<lambda>m w. snd (requestBalanceRefresh A m w)) inputs w)) =
    asked_rows (w_now w) (map buildBalanceRefreshMessage inputs) (ad_refreshes (w_db w))"
  using assms
proof (induction inputs arbitrary: w)
  case (Cons m ms)
  note 1 = single_rows [of w m A, unfolded Let_def]
  have "\<forall>m' \<in> set ms. user_exists (rm_uid m') (w_db (snd (requestBalanceRefresh A m w)))" using 1 Cons.prems by auto
  then show ?case using Cons.IH [of "snd (requestBalanceRefresh A m w)"] 1 Cons.prems by auto
qed simp


definition refresh_db :: app_db where
  "refresh_db = empty_app_db\<lparr>ad_users := [\<lparr>au_uid = ''u1'', au_wallet = Some ''0xa''\<rparr>],
     ad_refreshes := [(first_request \<lparr>rm_uid = ''u1'', rm_account = ''0xa'', rm_chainId = 1, rm_reason = ''first'', rm_priority = 2,
       rm_notBefore = Some 5\<rparr> 0)\<lparr>rr_status := RefreshCompleted\<rparr>]\<rparr>"

definition refresh_world :: "(app_db, app_event) world" where
  "refresh_world = \<lparr>w_db = refresh_db, w_now = 1000, w_env = [], w_uuid = (\<lambda>_. []), w_ix = 0, w_sent = []\<rparr>"

definition asks :: "int \<Rightarrow> int option \<Rightarrow> refresh_message" where
  "asks priority block = \<lparr>rm_uid = ''u1'', rm_account = ''0xA'', rm_chainId = 1, rm_reason = ''again'', rm_priority = priority, rm_notBefore = block\<rparr>"

text \<open>An environment without scheduler and queue.\<close>

definition lone_services :: app_services where
  "lone_services = \<lparr>as_iso = (\<lambda>_. []), as_env = \<lparr>ee_CHAIN_KEY = None, ee_EVENT_JOB_SCHEDULER = False, ee_SCHEDULED_JOBS_QUEUE = False\<rparr>,
     as_scheduler = (\<lambda>_. None), as_queue = (\<lambda>_. None)\<rparr>"


text \<open>
  The priority of a finished request stays when a new one starts: after an urgent request was served, two requests of an
  ordinary priority are taken for less urgent than the row, and the later block of the second is forgotten.
\<close>

lemma finished_priority_sticks:
  defines "rows \<equiv> [(first_request (buildBalanceRefreshMessage (asks 0 None)) 0)\<lparr>rr_status := RefreshCompleted\<rparr>]"
  shows "map rr_requiredBlock (asked_rows 1000 (map buildBalanceRefreshMessage [asks 2 (Some 10), asks 2 (Some 20)]) rows) = [Some 10]"
    and "map rr_requiredBlock (asked_rows 1000 (map buildBalanceRefreshMessage [asks 2 (Some 10), asks 2 (Some 20)]) []) = [Some 20]"
  unfolding rows_def by code_simp+

end
