(* ===== verification/ReorgProps.thy ===== *)
theory ReorgProps
  imports Reorg AppLedger Projector BalanceProps
begin

text \<open>
  Recovery from a reorganisation: the epoch of a chain never goes down, a recovery raises it, and writes prepared before a recovery
  never land after it.
\<close>

subsection \<open>Epochs never go down\<close>

definition epochs_I :: "app_db invariant" where
  "epochs_I g k d \<longleftrightarrow> True"

definition epochs_R :: "app_db \<Rightarrow> app_db \<Rightarrow> bool" where
  "epochs_R d d' \<longleftrightarrow> (\<forall>c. epoch_of c d \<le> epoch_of c d')"

interpretation epochs: rely_guarantee epochs_I epochs_R
  by unfold_locales (auto simp: epochs_I_def epochs_R_def intro: order_trans)

lemma epoch_same: "ad_reorgStates d' = ad_reorgStates d \<Longrightarrow> epoch_of c d' = epoch_of c d"
  by (simp add: epoch_of_def)

text \<open>Statements that leave the epochs alone.\<close>

definition same_epochs :: "app_db stmt \<Rightarrow> bool" where
  "same_epochs s \<longleftrightarrow> (\<forall>d d' n. s d = Some (d', n) \<longrightarrow> ad_reorgStates d' = ad_reorgStates d)"

lemma same_epochs_batch: "list_all same_epochs ss \<Longrightarrow> batch ss d = Some (d', ns) \<Longrightarrow> ad_reorgStates d' = ad_reorgStates d"
proof (induction ss arbitrary: d ns)
  case (Cons s ss)
  from Cons.prems(2) obtain d1 n1 n2 where "s d = Some (d1, n1)" "batch ss d1 = Some (d', n2)"
    by (auto split: option.splits)
  then show ?case using Cons.prems(1) Cons.IH [of d1 n2] by (auto simp: same_epochs_def)
qed simp

lemma same_epochs_ok: "same_epochs s \<Longrightarrow> epochs.stmt_ok s"
  unfolding epochs.stmt_ok_def same_epochs_def epochs_I_def epochs_R_def by (metis epoch_same order_refl)

lemma same_epochs_plain: "(\<And>d. ad_reorgStates (fst (f d)) = ad_reorgStates d) \<Longrightarrow> same_epochs (plain f)"
  unfolding same_epochs_def plain_def by (metis fst_conv option.inject)

lemma same_epochs_checked: "(\<And>d. ad_reorgStates (fst (f d)) = ad_reorgStates d) \<Longrightarrow> same_epochs (checked C f)"
  unfolding same_epochs_def checked_def by (metis fst_conv option.distinct(1) option.inject)

lemma same_epochs_recovery:
  "same_epochs (request_replays c n now)" "same_epochs (revert_deltas c n now)" "same_epochs (orphan_events c n)"
  "same_epochs (orphan_blocks c n)" "same_epochs (orphan_ledger c n)" "same_epochs (orphan_operations c n)"
  "same_epochs (orphan_snapshots c n)" "same_epochs (drop_baselines c n)" "same_epochs (rewind_checkpoints c n h now)"
  "same_epochs (rewind_cursors c n now)" "same_epochs (rewind_watermarks c n h now)" "same_epochs (insert_incident i)"
  unfolding request_replays_def revert_deltas_def orphan_events_def orphan_blocks_def orphan_ledger_def orphan_operations_def
    orphan_snapshots_def drop_baselines_def rewind_checkpoints_def rewind_cursors_def rewind_watermarks_def insert_incident_def Let_def
  by ((rule same_epochs_plain same_epochs_checked, simp)+)

lemma same_epochs_refresh: "same_epochs (refresh_stmt m now)"
  unfolding same_epochs_def refresh_stmt_def case_prod_beta by auto

lemma raise_epoch_raises:
  assumes "raise_epoch c n h now d = Some (d', k)"
  shows "epoch_of c d' = epoch_of c d + 1 \<and> (\<forall>c'. c' \<noteq> c \<longrightarrow> epoch_of c' d' = epoch_of c' d)"
proof -
  let ?r = "\<lparr>rs_chainId = c, rs_epoch = 1, rs_ancestorNumber = Some n, rs_ancestorHash = Some h, rs_updatedAt = now\<rparr>"
  let ?f = "\<lambda>x. x\<lparr>rs_epoch := rs_epoch x + 1, rs_ancestorNumber := Some n, rs_ancestorHash := Some h, rs_updatedAt := now\<rparr>"
  have upd: "find (\<lambda>s. rs_chainId s = c') (upd (\<lambda>x. rs_chainId x = c) ?f rows) =
      (if c' = c then map_option ?f (find (\<lambda>s. rs_chainId s = c') rows) else find (\<lambda>s. rs_chainId s = c') rows)" for c' rows
    by (induction rows) (auto simp: upd_simps)
  have app: "find (\<lambda>s. rs_chainId s = c') (rows @ [?r]) = (case find (\<lambda>s. rs_chainId s = c') rows of None \<Rightarrow> if c' = c then Some ?r else None
      | Some x \<Rightarrow> Some x)" for c' rows by (induction rows) auto
  have ex: "list_ex (\<lambda>x. rs_chainId x = c) (ad_reorgStates d) \<longleftrightarrow> find (\<lambda>s. rs_chainId s = c) (ad_reorgStates d) \<noteq> None"
    by (auto simp: find_None_iff list_ex_iff)
  show ?thesis
    using assms ex by (auto simp: raise_epoch_def plain_def epoch_of_def upsert_def upd app split: option.splits)
qed

lemma batch_ConsD: "batch (s # ss) d = Some (d', ns) \<Longrightarrow> \<exists>d1 n ms. s d = Some (d1, n) \<and> batch ss d1 = Some (d', ms) \<and> ns = n # ms"
  by (auto split: option.splits)

lemma recovery_batch_raises:
  assumes "batch (recovery_batch c n h now i) d = Some (d', ns)"
  shows "epoch_of c d' = epoch_of c d + 1 \<and> (\<forall>c'. c' \<noteq> c \<longrightarrow> epoch_of c' d' = epoch_of c' d)"
proof -
  obtain d1 k ms where r: "raise_epoch c n h now d = Some (d1, k)" "batch (tl (recovery_batch c n h now i)) d1 = Some (d', ms)"
    using batch_ConsD [OF assms [unfolded recovery_batch_def]] unfolding recovery_batch_def list.sel by blast
  have "ad_reorgStates d' = ad_reorgStates d1"
    by (rule same_epochs_batch [OF _ r(2)]) (simp add: recovery_batch_def same_epochs_recovery)
  then show ?thesis using raise_epoch_raises [OF r(1)] epoch_same [of d' d1] by simp
qed

lemma recovery_batch_ok: "epochs.stmt_ok (batch (recovery_batch c n h now i))"
  unfolding epochs.stmt_ok_def epochs_I_def epochs_R_def
proof (intro allI impI conjI TrueI)
  fix d d' ns c' assume "batch (recovery_batch c n h now i) d = Some (d', ns)"
  from recovery_batch_raises [OF this] show "epoch_of c' d \<le> epoch_of c' d'" by (cases "c' = c") auto
qed

subsection \<open>A recovery raises the epoch\<close>

lemma guar_dbb_epochs: "list_all same_epochs ss \<Longrightarrow> guar epochs_I epochs_R (dbb ss)"
  unfolding dbb_def by (intro epochs.guar_dbx epochs.stmt_ok_batch) (auto simp: list_all_iff intro: same_epochs_ok)

lemma guar_find_ancestor: "guar epochs_I epochs_R (find_ancestor client bs)"
  by (induction bs) (auto simp: read_hash_def intro!: epochs.guar_bindA split: option.splits)

lemma guar_wake: "guar epochs_I epochs_R (wake A job opts)"
  unfolding wake_def by (intro epochs.guar_bindA epochs.guar_calm) (auto intro!: epochs.guar_bindA split: event_call.splits)

lemma guar_refresh_chunks: "guar epochs_I epochs_R (refresh_chunks now k ms)"
  by (induction k arbitrary: ms) (auto intro!: epochs.guar_bindA guar_dbb_epochs simp: list_all_iff same_epochs_refresh)

lemma guar_refresh_batch: "guar epochs_I epochs_R (requestBalanceRefreshBatch A ms)"
  unfolding requestBalanceRefreshBatch_def dispatchBalanceRefreshJob_def Let_def
  by (auto intro!: epochs.guar_bindA epochs.guar_whenA guar_refresh_chunks guar_wake)

definition raises_on :: "int \<Rightarrow> ('a \<Rightarrow> bool) \<Rightarrow> (app_event, 'a) appact \<Rightarrow> bool" where
  "raises_on c P m \<longleftrightarrow> (\<forall>w x w'. env_ok epochs_I epochs_R w \<longrightarrow> m w = (Inr x, w') \<longrightarrow> P x \<longrightarrow> epoch_of c (w_db w) < epoch_of c (w_db w'))"

lemma epochs_step:
  assumes "guar epochs_I epochs_R m" and "env_ok epochs_I epochs_R w" and "m w = (x, w')"
  shows "env_ok epochs_I epochs_R w' \<and> epoch_of c (w_db w) \<le> epoch_of c (w_db w')"
proof -
  have "ends_ok epochs_I epochs_R w (snd (m w))"
    by (rule guarD [OF assms(1)]) (simp_all add: holds_at_def epochs_I_def assms(2))
  then show ?thesis using assms(3) by (simp add: ends_ok_def epochs_R_def)
qed

lemma raises_pre:
  assumes "guar epochs_I epochs_R m" and "\<And>x. raises_on c P (f x)"
  shows "raises_on c P (bindA m f)"
  unfolding raises_on_def
proof (intro allI impI)
  fix w y w'' assume w: "env_ok epochs_I epochs_R w" and run: "bindA m f w = (Inr y, w'')" and "P y"
  then obtain x w' where m: "m w = (Inr x, w')" "f x w' = (Inr y, w'')" by (auto simp: bindA_def split: prod.splits sum.splits)
  note 1 = epochs_step [OF assms(1) w m(1), of c]
  have "epoch_of c (w_db w') < epoch_of c (w_db w'')" using assms(2) [of x] 1 m(2) \<open>P y\<close> unfolding raises_on_def by blast
  then show "epoch_of c (w_db w) < epoch_of c (w_db w'')" using 1 by simp
qed

lemma raises_post:
  assumes "raises_on c (\<lambda>_. True) m" and "guar epochs_I epochs_R m" and "\<And>x. guar epochs_I epochs_R (f x)"
  shows "raises_on c P (bindA m f)"
  unfolding raises_on_def
proof (intro allI impI)
  fix w y w'' assume w: "env_ok epochs_I epochs_R w" and run: "bindA m f w = (Inr y, w'')" and "P y"
  then obtain x w' where m: "m w = (Inr x, w')" "f x w' = (Inr y, w'')" by (auto simp: bindA_def split: prod.splits sum.splits)
  have "epoch_of c (w_db w) < epoch_of c (w_db w')" using assms(1) w m(1) unfolding raises_on_def by blast
  moreover have "env_ok epochs_I epochs_R w'" using epochs_step [OF assms(2) w m(1)] by blast
  ultimately show "epoch_of c (w_db w) < epoch_of c (w_db w'')" using epochs_step [OF assms(3) _ m(2), of c] by fastforce
qed

lemma raises_ret: "\<not> P x \<Longrightarrow> raises_on c P (ret x)"
  by (simp add: raises_on_def ret_def)

lemma raises_throw: "raises_on c P (throw e)"
  by (simp add: raises_on_def throw_def)

lemma raises_branch:
  "raises_on c P m1 \<Longrightarrow> (\<And>x. raises_on c P (m2 x)) \<Longrightarrow> raises_on c P (case y of None \<Rightarrow> m1 | Some x \<Rightarrow> m2 x)"
  "raises_on c P m \<Longrightarrow> raises_on c P m' \<Longrightarrow> raises_on c P (if b then m else m')"
  by (cases y; simp) simp

lemma raises_recovery: "raises_on c (\<lambda>_. True) (dbb (recovery_batch c n h now i))"
  unfolding raises_on_def
proof (intro allI impI)
  fix w :: "(app_db, app_event) world" and x w'
  assume w: "env_ok epochs_I epochs_R w" and run: "dbb (recovery_batch c n h now i) w = (Inr x, w')"
  then obtain d where d: "batch (recovery_batch c n h now i) (w_db (await w)) = Some (d, x)" "w_db w' = d"
    by (auto simp: dbb_def dbx_def Let_def split: option.splits)
  have "epoch_of c (w_db w) \<le> epoch_of c (w_db (await w))"
    using epochs.await_ok [of "w_ix w" w] w by (auto simp: holds_at_def epochs_I_def epochs_R_def)
  then show "epoch_of c (w_db w) < epoch_of c (w_db w')" using recovery_batch_raises [OF d(1)] d(2) by simp
qed

lemma raises_verify: "raises_on c (\<lambda>x. \<exists>r. x = Recovered r) (verifyAndRecoverStream A client c stream k)"
proof -
  have batch: "guar epochs_I epochs_R (dbb (recovery_batch c n h now i))" for n h now i
    unfolding dbb_def by (intro epochs.guar_dbx recovery_batch_ok)
  have last: "guar epochs_I epochs_R (bindA (getChainReorgEpoch c) (\<lambda>epoch.
      bindA (whenA b (bindA (wake A ''reorg_replay'' (job_reason ''chain_reorg_detected'')) (\<lambda>_. ret ()))) (\<lambda>_.
      bindA (requestBalanceRefreshBatch A ms) (\<lambda>_. ret (g epoch)))))" for b ms g
    unfolding getChainReorgEpoch_def
    by (intro epochs.guar_bindA epochs.guar_whenA epochs.guar_calm guar_wake guar_refresh_batch)
  have recover: "raises_on c P (recover A c stream cp observed (n, h) now u)" for P cp observed n h now u
    unfolding recover_def Let_def prod.case
    by (intro raises_pre epochs.guar_calm raises_post [OF raises_recovery batch] last)
  have incident: "guar epochs_I epochs_R (dbx (insert_incident i))" for i
    by (intro epochs.guar_dbx same_epochs_ok same_epochs_recovery)
  show ?thesis
    unfolding verifyAndRecoverStream_def Let_def read_hash_def
  proof (intro raises_pre raises_branch epochs.guar_calm epochs.guar_randomUUID guar_find_ancestor incident raises_throw)
    show "raises_on c P (recover A c stream cp observed a now u)" for P cp observed a now u
      by (cases a) (simp add: recover)
  qed (rule raises_ret, simp)+
qed

subsection \<open>Stale writes\<close>

text \<open>An action fails, and the database is what other requests made of it.\<close>

definition rejected :: "('m, 'a) appact \<Rightarrow> (app_db, 'm) world \<Rightarrow> bool" where
  "rejected m w \<longleftrightarrow> (\<exists>e w'. m w = (Inl e, w') \<and> (w_db w' = w_db w \<or> w_db w' = w_db (await w)))"

lemma guard_stale: "epoch_of (eg_chainId g) d \<noteq> eg_expectedEpoch g \<Longrightarrow> batch (guard_insert g # ss) d = None"
  by (simp add: guard_insert_def)

lemma await_ix: "await (w\<lparr>w_ix := k\<rparr>) = (await w)\<lparr>w_ix := k\<rparr>"
  by (simp add: await_def split: list.splits)

lemma dbb_stale: "epoch_of (eg_chainId g) (w_db (await w)) \<noteq> eg_expectedEpoch g \<Longrightarrow>
    dbb (guard_insert g # ss) (w\<lparr>w_ix := k\<rparr>) = (Inl ConstraintFailed, (await w)\<lparr>w_ix := k\<rparr>)"
  using guard_stale [of g "w_db (await w)"] by (simp add: dbb_def dbx_def await_ix Let_def)

lemma createChainEpochGuard_cases:
  "(\<exists>er. createChainEpochGuard c e w = (Inl er, w)) \<or>
   (\<exists>g. createChainEpochGuard c e w = (Inr g, w\<lparr>w_ix := Suc (w_ix w)\<rparr>) \<and> eg_chainId g = c \<and> eg_expectedEpoch g = e)"
  by (auto simp: createChainEpochGuard_def throw_def bindA_def randomUUID_def date_now_def ret_def)

lemma mapA_draws: "\<exists>rows k. mapA (\<lambda>e. bindA randomUUID (\<lambda>u. ret (f e u))) es w = (Inr rows, w\<lparr>w_ix := k\<rparr>)"
proof (induction es arbitrary: w)
  case Nil
  show ?case by (rule exI, rule exI [of _ "w_ix w"]) (simp add: ret_def)
next
  case (Cons e es)
  have step: "bindA randomUUID (\<lambda>u. ret (f e u)) w = (Inr (f e (w_uuid w (w_ix w))), w\<lparr>w_ix := Suc (w_ix w)\<rparr>)"
    by (simp add: bindA_def randomUUID_def ret_def)
  obtain rows k where rest: "mapA (\<lambda>e. bindA randomUUID (\<lambda>u. ret (f e u))) es (w\<lparr>w_ix := Suc (w_ix w)\<rparr>) =
      (Inr rows, w\<lparr>w_ix := Suc (w_ix w)\<rparr>\<lparr>w_ix := k\<rparr>)" using Cons.IH by blast
  show ?case
    by (intro exI [of _ "f e (w_uuid w (w_ix w)) # rows"] exI [of _ k])
      (simp only: mapA.simps bindA_Inr [where m = "bindA randomUUID (\<lambda>u. ret (f e u))", OF step]
        bindA_Inr [where m = "mapA (\<lambda>e. bindA randomUUID (\<lambda>u. ret (f e u))) es", OF rest], simp add: ret_apply)
qed

lemma stale_rejected:
  assumes stale: "epoch_of c (w_db (await w)) \<noteq> e"
  shows "ab_chainId (ji_block inp) = c \<Longrightarrow> ji_expectedEpoch inp = Some e \<Longrightarrow> rejected (journalBlockEvents V A inp) w"
    and "ab_chainId b = c \<Longrightarrow> rejected (projectBalanceDeltas b events (Some e)) w"
    and "remdups (List.map_filter lr_chainId entries) = [c] \<Longrightarrow> rejected (writeLedgerEntries V entries effects (Some e)) w"
    and "rejected (setSyncCursor key lastBlock (Some c) (Some e)) w"
proof -
  note simps = bindA_def ret_def throw_def date_now_def liftE_def Let_def
  note guard = createChainEpochGuard_cases [of c e w]
  have stop: "dbb (guard_insert g # ss) (w\<lparr>w_ix := k\<rparr>) = (Inl ConstraintFailed, (await w)\<lparr>w_ix := k\<rparr>)"
    if "eg_chainId g = c" "eg_expectedEpoch g = e" for g ss k by (rule dbb_stale) (use that stale in simp)
  show "rejected (journalBlockEvents V A inp) w" if "ab_chainId (ji_block inp) = c" "ji_expectedEpoch inp = Some e"
    using that guard
    by (auto simp: rejected_def journalBlockEvents_def journal_stmts_def simps stop split: sum.splits)
  show "rejected (projectBalanceDeltas b events (Some e)) w" if "ab_chainId b = c"
    using that guard by (auto simp: rejected_def projectBalanceDeltas_def projection_stmts_def simps stop)
  show "rejected (setSyncCursor key lastBlock (Some c) (Some e)) w"
    using guard by (auto simp: rejected_def setSyncCursor_def simps stop)
  show "rejected (writeLedgerEntries V entries effects (Some e)) w" if "remdups (List.map_filter lr_chainId entries) = [c]"
  proof -
    have "entries \<noteq> []" using that by (auto simp: map_filter_simps)
    obtain rows k where "mapA (\<lambda>e. bindA randomUUID (\<lambda>u. ret (ledger_record e u))) entries (w\<lparr>w_ix := Suc (w_ix w)\<rparr>) =
        (Inr rows, w\<lparr>w_ix := Suc (w_ix w)\<rparr>\<lparr>w_ix := k\<rparr>)" using mapA_draws [of ledger_record entries] by blast
    then show ?thesis
      using that guard \<open>entries \<noteq> []\<close>
      by (auto simp: rejected_def writeLedgerEntries_def ledger_guard_def simps stop)
  qed
qed

text \<open>
  C33: what was prepared before a recovery is never written after it.  Other requests may do anything but lower an epoch.
  Once a stream of a chain has been recovered, at any later time every write that expects an epoch read before the recovery fails
  and changes nothing: journal batches, balance projections, ledger entries and the indexers' cursors.
\<close>

theorem stale_writes_rejected:
  assumes "env_ok epochs_I epochs_R w" and "verifyAndRecoverStream A client c stream k w = (Inr (Recovered r), w1)"
    and "e \<le> epoch_of c (w_db w)" and "env_ok epochs_I epochs_R w2" and "epoch_of c (w_db w1) \<le> epoch_of c (w_db w2)"
  shows "(ab_chainId (ji_block inp) = c \<and> ji_expectedEpoch inp = Some e \<longrightarrow> rejected (journalBlockEvents V A inp) w2) \<and>
    (ab_chainId b = c \<longrightarrow> rejected (projectBalanceDeltas b events (Some e)) w2) \<and>
    (remdups (List.map_filter lr_chainId entries) = [c] \<longrightarrow> rejected (writeLedgerEntries V entries effects (Some e)) w2) \<and>
    rejected (setSyncCursor key lastBlock (Some c) (Some e)) w2"
proof -
  have "epoch_of c (w_db w) < epoch_of c (w_db w1)"
    using raises_verify assms(1,2) unfolding raises_on_def by blast
  moreover have "epoch_of c (w_db w2) \<le> epoch_of c (w_db (await w2))"
    using epochs.await_ok [of "w_ix w2" w2] assms(4) by (auto simp: holds_at_def epochs_I_def epochs_R_def)
  ultimately have "epoch_of c (w_db (await w2)) \<noteq> e" using assms(3,5) by simp
  from stale_rejected [OF this] show ?thesis by blast
qed

text \<open>A chain whose block 101 was replaced after the router's stream had read it, with an event, a delta and a cursor of that block.\<close>

definition old_block :: "int \<Rightarrow> string \<Rightarrow> journal_block" where
  "old_block n h = \<lparr>ab_chainId = 1, ab_number = n, ab_hash = h, ab_parentHash = None, ab_timestamp = None, ab_level = Sequenced,
     ab_canonical = True, ab_source = ''rpc'', ab_observedAt = 0, ab_l1BatchNumber = None, ab_l1Confirmations = None\<rparr>"

definition old_event :: journal_row where
  "old_event = \<lparr>av_id = ''e'', av_chainId = 1, av_txHash = ''t'', av_logIndex = 0, av_kind = ''pay'', av_blockNumber = 101,
     av_blockHash = ''bb'', av_transactionIndex = None, av_contract = ''c'', av_topic0 = None, av_payload = '''', av_canonical = True,
     av_source = ''rpc'', av_observedAt = 0\<rparr>"

definition old_delta :: delta_row where
  "old_delta = \<lparr>bd_chainId = 1, bd_projector = ''p'', bd_version = 1, bd_eventId = ''e'', bd_blockHash = ''bb'', bd_uid = ''u'',
     bd_account = ''a'', bd_asset = ''s'', bd_delta = 5, bd_canonical = True, bd_appliedAt = 0, bd_revertedAt = None\<rparr>"

definition fork_db :: app_db where
  "fork_db = empty_app_db\<lparr>ad_blocks := [old_block 100 ''aa'', old_block 101 ''bb''], ad_events := [old_event], ad_deltas := [old_delta],
     ad_checkpoints := [\<lparr>ac_chainId = 1, ac_stream = ''router:1'', ac_number = 101, ac_hash = ''bb'', ac_level = Sequenced, ac_updatedAt = 0, ac_epoch = 0\<rparr>],
     ad_cursors := [\<lparr>sy_key = ''router:1'', sy_lastBlock = ''101'', sy_updatedAt = 0\<rparr>]\<rparr>"

definition fork_world :: "(app_db, app_event) world" where
  "fork_world = \<lparr>w_db = fork_db, w_now = 1000, w_env = [], w_uuid = (\<lambda>k. replicate k CHR ''u''), w_ix = 0, w_sent = []\<rparr>"

definition fork_chain :: block_reader where
  "fork_chain n t = Some (Some (if n = 100 then ''AA'' else ''cc''))"

definition fork_incident :: reorg_incident where
  "fork_incident = \<lparr>in_id = '''', in_chainId = 1, in_stream = ''router:1'', in_detectedAt = 1000, in_previousNumber = 101,
     in_previousHash = ''bb'', in_observedHash = ''cc'', in_ancestorNumber = Some 100, in_ancestorHash = Some ''aa'', in_depth = Some 1,
     in_recovered = True, in_affectedEvents = 1, in_affectedAccounts = 0\<rparr>"

definition fork_batch :: "(app_db \<times> nat list) option" where
  "fork_batch = batch (recovery_batch 1 100 ''aa'' 1000 fork_incident) fork_db"

definition fork_after :: app_db where
  "fork_after = (case fork_batch of None \<Rightarrow> fork_db | Some (d, ns) \<Rightarrow> d)"

lemma fork_batch_done: "fork_batch \<noteq> None"
  by code_simp

lemma fork_batch_eq: "batch (recovery_batch 1 100 ''aa'' 1000 fork_incident) fork_db = Some (fork_after, snd (the fork_batch))"
  using fork_batch_done by (auto simp: fork_after_def fork_batch_def)

lemma fork_epochs: "epoch_of 1 fork_db = 0" "epoch_of 1 fork_after = 1"
  by code_simp+

lemma fork_reads:
  "find (\<lambda>x. ac_chainId x = 1 \<and> ac_stream x = ''router:1'') (ad_checkpoints fork_db) = Some \<lparr>ac_chainId = 1, ac_stream = ''router:1'',
     ac_number = 101, ac_hash = ''bb'', ac_level = Sequenced, ac_updatedAt = 0, ac_epoch = 0\<rparr>"
  "known_blocks 1 101 0 fork_db = [old_block 100 ''aa'']" "affected_accounts 1 100 fork_db = []"
  "hits (orphaned_event 1 100) (ad_events fork_db) = 1" "hits (beyond 1 100) (ad_checkpoints fork_db) = 1"
  "toLowerCase ''AA'' = ''aa''" "toLowerCase ''aa'' = ''aa''" "toLowerCase ''bb'' = ''bb''" "toLowerCase ''cc'' = ''cc''"
  by code_simp+

lemma lone_call: "scheduleEventJob (as_iso lone_services) (as_env lone_services) now ''reorg_replay'' (job_reason ''chain_reorg_detected'') =
    EventMessages.event_call.Unavailable"
  by code_simp

lemma fork_recovery:
  "verifyAndRecoverStream lone_services fork_chain 1 ''router:1'' None fork_world =
    (Inr (Recovered \<lparr>rc_checkpoint = 100, rc_depth = 1, rc_events = 1, rc_accounts = 0, rc_streams = 1, rc_epoch = 1\<rparr>),
     fork_world\<lparr>w_db := fork_after, w_ix := 1\<rparr>)"
  by (simp add: verifyAndRecoverStream_def fork_world_def recover_def bindA_def dbq_def dbb_def dbx_def ret_def await_def Let_def
    read_hash_def extcall_def fork_chain_def fork_reads fork_epochs fork_batch_eq [unfolded fork_incident_def] date_now_def randomUUID_def
    old_block_def getChainReorgEpoch_def whenA_def wake_def lone_call requestBalanceRefreshBatch_def coalesced_def observed_text_def)

theorem stale_writes_rejected_witness:
  "rejected (setSyncCursor ''router:1'' 102 (Some 1) (Some 0)) (fork_world\<lparr>w_db := fork_after, w_ix := 1\<rparr>) \<and>
   rejected (projectBalanceDeltas (old_block 101 ''bb'') [] (Some 0)) (fork_world\<lparr>w_db := fork_after, w_ix := 1\<rparr>)"
  using stale_writes_rejected [where w = fork_world and ?w2.0 = "fork_world\<lparr>w_db := fork_after, w_ix := 1\<rparr>" and e = 0,
    OF _ fork_recovery, where b = "old_block 101 ''bb''" and events = "[]" and key = "''router:1''" and lastBlock = 102]
  by (simp add: env_ok_def fork_world_def fork_epochs old_block_def)

end
