(* ===== verification/RollbackProps.thy ===== *)
theory RollbackProps
  imports ReorgProps
begin

text \<open>
  What a recovery does to the tables: everything of the chain above the common ancestor is rolled back, nothing else is
  touched, and every stream that was further is asked to be read again.
\<close>

subsection \<open>The batch\<close>

definition fresh_request :: "int \<Rightarrow> int \<Rightarrow> int \<Rightarrow> replay_row \<Rightarrow> bool" where
  "fresh_request n epoch now r \<longleftrightarrow> rq_ancestorNumber r = n \<and> rq_epoch r = epoch \<and> \<not> rq_failed r \<and> rq_attempts r = 0 \<and>
     rq_nextAttemptAt r = now \<and> rq_lastErrorCode r = None"

definition requested :: "int \<Rightarrow> int \<Rightarrow> int \<Rightarrow> replay_row list \<Rightarrow> stream_checkpoint \<Rightarrow> bool" where
  "requested n epoch now rows cp \<longleftrightarrow> (\<exists>r \<in> set rows. rq_chainId r = ac_chainId cp \<and> rq_stream r = ac_stream cp \<and> fresh_request n epoch now r)"

lemma upsert_new: "(\<And>x. key x \<Longrightarrow> Q (f x)) \<Longrightarrow> Q r \<Longrightarrow> \<exists>x \<in> set (upsert key f r rows). Q x"
  by (auto simp: upsert_def list_ex_iff set_upd image_iff)

lemma upsert_old: "\<exists>x \<in> set rows. Q x \<Longrightarrow> (\<And>x. key x \<Longrightarrow> Q x \<Longrightarrow> Q (f x)) \<Longrightarrow> \<exists>x \<in> set (upsert key f r rows). Q x"
  by (auto simp: upsert_def list_ex_iff set_upd image_iff)

lemma request_replay_requested: "requested n epoch now (request_replay n epoch now cp rows) cp"
  unfolding requested_def request_replay_def by (rule upsert_new) (auto simp: fresh_request_def)

lemma request_replay_keeps: "requested n epoch now rows x \<Longrightarrow> requested n epoch now (request_replay n epoch now cp rows) x"
  unfolding requested_def request_replay_def by (erule upsert_old) (auto simp: fresh_request_def)

lemma request_replays_requested: "cp \<in> set cps \<or> requested n epoch now rows cp \<Longrightarrow> requested n epoch now (fold (request_replay n epoch now) cps rows) cp"
proof (induction cps arbitrary: rows)
  case (Cons x cps)
  then show ?case using request_replay_requested request_replay_keeps by (metis fold_simps(2) set_ConsD)
qed simp

lemma upd_keeps: "x \<in> set rows \<Longrightarrow> \<not> p x \<Longrightarrow> x \<in> set (upd p f rows)"
  by (auto simp: set_upd image_iff)

lemma upd_mem: "y \<in> set (upd p f rows) \<Longrightarrow> (y \<in> set rows \<and> \<not> p y) \<or> (\<exists>x \<in> set rows. p x \<and> y = f x)"
  by (auto simp: set_upd split: if_splits)

text \<open>A statement that leaves a part of the database alone, and a batch of which one statement changes it.\<close>

definition untouched :: "('d \<Rightarrow> 't) \<Rightarrow> 'd stmt \<Rightarrow> bool" where
  "untouched T s \<longleftrightarrow> (\<forall>d d' n. s d = Some (d', n) \<longrightarrow> T d' = T d)"

lemma untouched_plain: "(\<And>d. T (fst (f d)) = T d) \<Longrightarrow> untouched T (plain f)"
  unfolding untouched_def plain_def by (metis fst_conv option.inject)

lemma untouched_checked: "(\<And>d. T (fst (f d)) = T d) \<Longrightarrow> untouched T (checked C f)"
  unfolding untouched_def checked_def by (metis fst_conv option.distinct(1) option.inject)

lemma untouched_batch: "list_all (untouched T) ss \<Longrightarrow> batch ss d = Some (d', ns) \<Longrightarrow> T d' = T d"
proof (induction ss arbitrary: d ns)
  case (Cons s ss)
  from Cons.prems(2) obtain d1 n1 n2 where "s d = Some (d1, n1)" "batch ss d1 = Some (d', n2)" by (auto split: option.splits)
  then show ?case using Cons.prems(1) Cons.IH [of d1 n2] by (auto simp: untouched_def)
qed simp

lemma batch_split: "batch (xs @ ys) d = Some (d', ns) \<Longrightarrow> \<exists>e ms ks. batch xs d = Some (e, ms) \<and> batch ys e = Some (d', ks)"
proof (induction xs arbitrary: d ns)
  case (Cons x xs)
  from Cons.prems obtain d1 n1 n2 where 1: "x d = Some (d1, n1)" "batch (xs @ ys) d1 = Some (d', n2)" by (auto split: option.splits)
  from Cons.IH [OF 1(2)] 1(1) show ?case by auto
qed simp

lemma batch_one:
  assumes "batch ss d = Some (d', ns)" and "k < length ss" and "list_all (untouched T) (take k ss)" and "list_all (untouched U) (drop (Suc k) ss)"
  shows "\<exists>e e' j. T e = T d \<and> (ss ! k) e = Some (e', j) \<and> U d' = U e'"
proof -
  obtain e ms ks where 1: "batch (take k ss) d = Some (e, ms)" "batch (ss ! k # drop (Suc k) ss) e = Some (d', ks)"
    using batch_split [of "take k ss"] assms(1) id_take_nth_drop [OF assms(2)] by metis
  obtain e' j js where 2: "(ss ! k) e = Some (e', j)" "batch (drop (Suc k) ss) e' = Some (d', js)" using batch_ConsD [OF 1(2)] by blast
  show ?thesis using untouched_batch [OF assms(3) 1(1)] 2(1) untouched_batch [OF assms(4) 2(2)] by blast
qed

lemmas recovery_stmts = raise_epoch_def request_replays_def revert_deltas_def orphan_events_def orphan_blocks_def orphan_ledger_def
  orphan_operations_def orphan_snapshots_def drop_baselines_def rewind_checkpoints_def rewind_cursors_def rewind_watermarks_def
  insert_incident_def Let_def

lemmas untouched_intros = untouched_plain untouched_checked

text \<open>The tables after the batch, one by one.\<close>

lemma recovery_one:
  assumes "batch (recovery_batch c n h now i) d = Some (d', ns)" and "k < 13"
    and "list_all (untouched T) (take k (recovery_batch c n h now i))" and "list_all (untouched U) (drop (Suc k) (recovery_batch c n h now i))"
    and "\<And>e e' j. (recovery_batch c n h now i ! k) e = Some (e', j) \<Longrightarrow> Q (T e) (U e')"
  shows "Q (T d) (U d')"
  using batch_one [OF assms(1) _ assms(3,4)] assms(2,5) by (fastforce simp: recovery_batch_def)

lemma recovery_table:
  assumes "batch (recovery_batch c n h now i) d = Some (d', ns)" and "k < 13"
    and "list_all (untouched T) (take k (recovery_batch c n h now i))" and "list_all (untouched T) (drop (Suc k) (recovery_batch c n h now i))"
    and "\<And>e e' j. (recovery_batch c n h now i ! k) e = Some (e', j) \<Longrightarrow> T e' = f (T e)"
  shows "T d' = f (T d)"
  using recovery_one [OF assms(1-4), where Q = "\<lambda>t u. u = f t"] assms(5) by blast

lemmas recovery_unfold = recovery_batch_def recovery_stmts plain_def

lemma recovery_tables:
  assumes run: "batch (recovery_batch c n h now i) d = Some (d', ns)"
  shows "ad_events d' = upd (orphaned_event c n) (\<lambda>e. e\<lparr>av_canonical := False\<rparr>) (ad_events d)"
    and "ad_blocks d' = upd (\<lambda>b. ab_chainId b = c \<and> ab_canonical b \<and> n < ab_number b) (\<lambda>b. b\<lparr>ab_canonical := False\<rparr>) (ad_blocks d)"
    and "ad_ledger d' = upd (\<lambda>r. lr_chainId r = Some c \<and> lr_canonical r \<and> (case lr_number r of None \<Rightarrow> False | Some k \<Rightarrow> n < k))
      (\<lambda>r. r\<lparr>lr_canonical := False\<rparr>) (ad_ledger d)"
    and "ad_operations d' = upd (\<lambda>r. uo_chainId r = c \<and> uo_canonical r \<and> n < uo_number r) (\<lambda>r. r\<lparr>uo_canonical := False\<rparr>) (ad_operations d)"
    and "ad_snapshots d' = upd (\<lambda>r. bs_chainId r = c \<and> bs_canonical r \<and> n < bs_number r) (\<lambda>r. r\<lparr>bs_canonical := False\<rparr>) (ad_snapshots d)"
    and "ad_baselines d' = filter (\<lambda>r. \<not> (bb_chainId r = c \<and> n < bb_number r)) (ad_baselines d)"
    and "ad_cursors d' = upd (rewound_cursor c n) (\<lambda>x. x\<lparr>sy_lastBlock := string_of_int n, sy_updatedAt := now\<rparr>) (ad_cursors d)"
    and "ad_watermarks d' = upd (\<lambda>x. wm_chainId x = c \<and> n < wm_number x) (\<lambda>x. x\<lparr>wm_number := n, wm_hash := h, wm_updatedAt := now\<rparr>) (ad_watermarks d)"
    and "ad_incidents d' = ad_incidents d @ [i]"
proof -
  show "ad_events d' = upd (orphaned_event c n) (\<lambda>e. e\<lparr>av_canonical := False\<rparr>) (ad_events d)"
    by (rule recovery_table [OF run, where k = 3]) (auto simp: recovery_unfold intro!: untouched_intros)
  show "ad_blocks d' = upd (\<lambda>b. ab_chainId b = c \<and> ab_canonical b \<and> n < ab_number b) (\<lambda>b. b\<lparr>ab_canonical := False\<rparr>) (ad_blocks d)"
    by (rule recovery_table [OF run, where k = 4]) (auto simp: recovery_unfold intro!: untouched_intros)
  show "ad_ledger d' = upd (\<lambda>r. lr_chainId r = Some c \<and> lr_canonical r \<and> (case lr_number r of None \<Rightarrow> False | Some k \<Rightarrow> n < k))
      (\<lambda>r. r\<lparr>lr_canonical := False\<rparr>) (ad_ledger d)"
    by (rule recovery_table [OF run, where k = 5]) (auto simp: recovery_unfold intro!: untouched_intros)
  show "ad_operations d' = upd (\<lambda>r. uo_chainId r = c \<and> uo_canonical r \<and> n < uo_number r) (\<lambda>r. r\<lparr>uo_canonical := False\<rparr>) (ad_operations d)"
    by (rule recovery_table [OF run, where k = 6]) (auto simp: recovery_unfold intro!: untouched_intros)
  show "ad_snapshots d' = upd (\<lambda>r. bs_chainId r = c \<and> bs_canonical r \<and> n < bs_number r) (\<lambda>r. r\<lparr>bs_canonical := False\<rparr>) (ad_snapshots d)"
    by (rule recovery_table [OF run, where k = 7]) (auto simp: recovery_unfold intro!: untouched_intros)
  show "ad_baselines d' = filter (\<lambda>r. \<not> (bb_chainId r = c \<and> n < bb_number r)) (ad_baselines d)"
    by (rule recovery_table [OF run, where k = 8]) (auto simp: recovery_unfold intro!: untouched_intros)
  show "ad_cursors d' = upd (rewound_cursor c n) (\<lambda>x. x\<lparr>sy_lastBlock := string_of_int n, sy_updatedAt := now\<rparr>) (ad_cursors d)"
    by (rule recovery_table [OF run, where k = 10]) (auto simp: recovery_unfold intro!: untouched_intros)
  show "ad_watermarks d' = upd (\<lambda>x. wm_chainId x = c \<and> n < wm_number x) (\<lambda>x. x\<lparr>wm_number := n, wm_hash := h, wm_updatedAt := now\<rparr>) (ad_watermarks d)"
    by (rule recovery_table [OF run, where k = 11]) (auto simp: recovery_unfold intro!: untouched_intros)
  show "ad_incidents d' = ad_incidents d @ [i]"
    by (rule recovery_table [OF run, where k = 12]) (auto simp: recovery_unfold checked_def split: if_splits intro!: untouched_intros)
qed

lemma recovery_deltas:
  assumes run: "batch (recovery_batch c n h now i) d = Some (d', ns)"
  shows "ad_deltas d' = upd (\<lambda>x. bd_chainId x = c \<and> bd_canonical x \<and> list_ex (\<lambda>e. orphaned_event c n e \<and> av_id e = bd_eventId x \<and>
      av_blockHash e = bd_blockHash x) (ad_events d)) (\<lambda>x. x\<lparr>bd_canonical := False, bd_revertedAt := Some now\<rparr>) (ad_deltas d)"
proof -
  let ?Q = "\<lambda>t u. u = upd (\<lambda>x. bd_chainId x = c \<and> bd_canonical x \<and> list_ex (\<lambda>e. orphaned_event c n e \<and> av_id e = bd_eventId x \<and>
      av_blockHash e = bd_blockHash x) (snd t)) (\<lambda>x. x\<lparr>bd_canonical := False, bd_revertedAt := Some now\<rparr>) (fst t)"
  have "?Q (ad_deltas d, ad_events d) (ad_deltas d')"
    by (rule recovery_one [OF run, where k = 2 and T = "\<lambda>d. (ad_deltas d, ad_events d)" and Q = ?Q])
      (auto simp: recovery_unfold intro!: untouched_intros)
  then show ?thesis by simp
qed

lemma recovery_checkpoints:
  assumes run: "batch (recovery_batch c n h now i) d = Some (d', ns)"
  shows "ad_checkpoints d' = upd (beyond c n) (\<lambda>x. x\<lparr>ac_number := n, ac_hash := h, ac_level := Sequenced, ac_updatedAt := now,
      ac_epoch := epoch_of c d'\<rparr>) (ad_checkpoints d)"
proof -
  let ?Q = "\<lambda>t u. fst u = upd (beyond c n) (\<lambda>x. x\<lparr>ac_number := n, ac_hash := h, ac_level := Sequenced, ac_updatedAt := now, ac_epoch := snd u\<rparr>) t"
  have "?Q (ad_checkpoints d) (ad_checkpoints d', epoch_of c d')"
    by (rule recovery_one [OF run, where k = 9 and U = "\<lambda>d. (ad_checkpoints d, epoch_of c d)" and Q = ?Q])
      (auto simp: recovery_unfold epoch_of_def intro!: untouched_intros)
  then show ?thesis by simp
qed

lemma recovery_replays:
  assumes run: "batch (recovery_batch c n h now i) d = Some (d', ns)" and "cp \<in> set (ad_checkpoints d)" and "beyond c n cp"
  shows "requested n (epoch_of c d') now (ad_replays d') cp"
proof -
  let ?P = "\<lambda>t u. list_ex (\<lambda>x. rs_chainId x = c) u"
  have "?P () (ad_reorgStates d')"
    by (rule recovery_one [OF run, where k = 0 and T = "\<lambda>d. ()" and Q = ?P])
      (auto simp: recovery_unfold list_ex_iff intro!: untouched_intros upsert_new)
  moreover
  let ?Q = "\<lambda>t u. fst u = fold (request_replay n (snd (snd u)) now)
    (if list_ex (\<lambda>x. rs_chainId x = c) (fst (snd u)) then filter (beyond c n) (fst t) else []) (snd t)"
  have "?Q (ad_checkpoints d, ad_replays d) (ad_replays d', ad_reorgStates d', epoch_of c d')"
    by (rule recovery_one [OF run, where k = 1 and T = "\<lambda>d. (ad_checkpoints d, ad_replays d)" and U = "\<lambda>d. (ad_replays d, ad_reorgStates d, epoch_of c d)" and
      Q = ?Q]) (auto simp: recovery_unfold epoch_of_def intro!: untouched_intros)
  ultimately show ?thesis using request_replays_requested [of cp "filter (beyond c n) (ad_checkpoints d)"] assms(2,3) by simp
qed

subsection \<open>A run\<close>

lemma refresh_batch_frame: "batch (map (\<lambda>m. refresh_stmt m now) ms) d = Some (d', ns) \<Longrightarrow> \<exists>rows. d' = d\<lparr>ad_refreshes := rows\<rparr>"
proof (induction ms arbitrary: d ns)
  case Nil
  then show ?case by (intro exI [of _ "ad_refreshes d"]) simp
next
  case (Cons m ms)
  then obtain d1 n1 n2 where 1: "refresh_stmt m now d = Some (d1, n1)" "batch (map (\<lambda>m. refresh_stmt m now) ms) d1 = Some (d', n2)"
    by (auto split: option.splits)
  from 1(1) obtain rows where "d1 = d\<lparr>ad_refreshes := rows\<rparr>" by (auto simp: refresh_stmt_def split: prod.splits if_splits)
  then show ?case using Cons.IH [OF 1(2)] by auto
qed

definition only_refreshes :: "(app_db, 'm) world \<Rightarrow> (app_db, 'm) world \<Rightarrow> bool" where
  "only_refreshes w w' \<longleftrightarrow> w_env w' = [] \<and> (\<exists>rows. w_db w' = (w_db w)\<lparr>ad_refreshes := rows\<rparr>)"

lemma only_refreshes_refl: "w_env w' = [] \<Longrightarrow> w_db w' = w_db w \<Longrightarrow> only_refreshes w w'"
  unfolding only_refreshes_def by (intro conjI exI [of _ "ad_refreshes (w_db w)"]) simp_all

lemma only_refreshes_trans: "only_refreshes w w' \<Longrightarrow> only_refreshes w' w'' \<Longrightarrow> only_refreshes w w''"
  by (auto simp: only_refreshes_def)

lemma refresh_chunks_frame: "w_env w = [] \<Longrightarrow> only_refreshes w (snd (refresh_chunks now k ms w))"
proof (induction k arbitrary: ms w)
  case (Suc k)
  show ?case
  proof (cases "ms = [] \<or> batch (map (\<lambda>m. refresh_stmt m now) (take 100 ms)) (w_db w) = None")
    case True
    then show ?thesis using Suc.prems by (auto simp: bindA_def dbb_def dbx_quiet ret_def intro!: only_refreshes_refl)
  next
    case False
    then obtain d ns where b: "batch (map (\<lambda>m. refresh_stmt m now) (take 100 ms)) (w_db w) = Some (d, ns)" by auto
    have 1: "only_refreshes w (w\<lparr>w_db := d\<rparr>)" using refresh_batch_frame [OF b] Suc.prems by (auto simp: only_refreshes_def)
    have "only_refreshes (w\<lparr>w_db := d\<rparr>) (snd (refresh_chunks now k (drop 100 ms) (w\<lparr>w_db := d\<rparr>)))" using Suc by simp
    from only_refreshes_trans [OF 1 this] show ?thesis
      using False b Suc.prems by (auto simp: bindA_def dbb_def dbx_quiet ret_def split: prod.splits sum.splits)
  qed
qed (simp add: ret_def only_refreshes_refl)

lemma refresh_frame:
  assumes "w_env w = []"
  shows "only_refreshes w (snd (requestBalanceRefreshBatch A ms w))"
proof (cases "coalesced ms = []")
  case False
  obtain x w' where c: "refresh_chunks (w_now w) (length (coalesced ms)) (coalesced ms) w = (x, w')" by fastforce
  have w': "only_refreshes w w'" using refresh_chunks_frame [OF assms] c by (metis snd_conv)
  then have "only_refreshes w' (snd (dispatchBalanceRefreshJob A w'))"
    using dispatch_quiet [of w' A] by (auto simp: only_refreshes_def intro!: only_refreshes_refl)
  then show ?thesis
    using False c w' only_refreshes_trans [OF w']
    by (auto simp: requestBalanceRefreshBatch_def Let_def bindA_def date_now_def whenA_def ret_def split: prod.splits sum.splits)
qed (simp add: requestBalanceRefreshBatch_def ret_def assms only_refreshes_refl)

lemma find_ancestor_quiet:
  assumes "w_env w = []" and "find_ancestor client bs w = (Inr a, w')"
  shows "w' = w \<and> (\<forall>n h. a = Some (n, h) \<longrightarrow> (\<exists>b \<in> set bs. ab_number b = n \<and> toLowerCase (ab_hash b) = toLowerCase h \<and> client n (w_now w) = Some (Some h)))"
  using assms
  by (induction bs) (auto simp: bindA_def read_hash_def extcall_quiet ret_def split: option.splits if_splits)

text \<open>After the batch only the refresh requests change.\<close>

lemma after_batch_frame:
  assumes "w_env w = []"
  shows "only_refreshes w (snd (bindA (whenA b (bindA (wake A job opts) (\<lambda>_. ret ()))) (\<lambda>_. bindA (requestBalanceRefreshBatch A ms) (\<lambda>_. ret x)) w))"
    and "bindA (whenA b (bindA (wake A job opts) (\<lambda>_. ret ()))) (\<lambda>_. bindA (requestBalanceRefreshBatch A ms) (\<lambda>_. ret x)) w = (Inr y, w') \<Longrightarrow> y = x"
proof -
  obtain r w1 where wk: "whenA b (bindA (wake A job opts) (\<lambda>_. ret ())) w = (r, w1)" by fastforce
  have 1: "only_refreshes w w1"
    using wk wake_quiet [OF assms, of A job opts] assms
    by (auto simp: whenA_def bindA_def ret_def intro!: only_refreshes_refl split: if_splits prod.splits sum.splits)
  have 2: "only_refreshes w (snd (requestBalanceRefreshBatch A ms w1))"
    using refresh_frame [of w1 A ms] only_refreshes_trans [OF 1] 1 by (auto simp: only_refreshes_def)
  show "only_refreshes w (snd (bindA (whenA b (bindA (wake A job opts) (\<lambda>_. ret ()))) (\<lambda>_. bindA (requestBalanceRefreshBatch A ms) (\<lambda>_. ret x)) w))"
    using wk 1 2 by (auto simp: bindA_def ret_def split: prod.splits sum.splits)
  show "y = x" if "bindA (whenA b (bindA (wake A job opts) (\<lambda>_. ret ()))) (\<lambda>_. bindA (requestBalanceRefreshBatch A ms) (\<lambda>_. ret x)) w = (Inr y, w')"
    using that wk by (auto simp: bindA_def ret_def split: prod.splits sum.splits)
qed

lemma recover_run:
  assumes quiet: "w_env w = []" and run: "recover A c stream cp observed (n, h) now u w = (Inr (Recovered r), w1)"
  shows "\<exists>d1 ns i rows. batch (recovery_batch c n (toLowerCase h) now i) (w_db w) = Some (d1, ns) \<and> w_db w1 = d1\<lparr>ad_refreshes := rows\<rparr> \<and>
    rc_checkpoint r = n \<and> rc_epoch r = epoch_of c d1"
proof -
  define i where "i = \<lparr>in_id = u, in_chainId = c, in_stream = stream, in_detectedAt = now, in_previousNumber = ac_number cp,
    in_previousHash = ac_hash cp, in_observedHash = observed_text observed, in_ancestorNumber = Some n, in_ancestorHash = Some (toLowerCase h),
    in_depth = Some (ac_number cp - n), in_recovered = True, in_affectedEvents = int (hits (orphaned_event c n) (ad_events (w_db w))),
    in_affectedAccounts = int (length (affected_accounts c n (w_db w)))\<rparr>"
  have b: "batch (recovery_batch c n (toLowerCase h) now i) (w_db w) \<noteq> None"
    using run quiet by (auto simp: recover_def bindA_def dbq_quiet dbb_def dbx_quiet Let_def i_def split: option.splits)
  then obtain d1 ns where d1: "batch (recovery_batch c n (toLowerCase h) now i) (w_db w) = Some (d1, ns)" by auto
  let ?b = "0 < int (hits (beyond c n) (ad_checkpoints (w_db w)))" and ?ms = "map (refresh_affected c) (affected_accounts c n (w_db w))"
  let ?x = "Recovered \<lparr>rc_checkpoint = n, rc_depth = ac_number cp - n, rc_events = int (hits (orphaned_event c n) (ad_events (w_db w))),
    rc_accounts = int (length (affected_accounts c n (w_db w))), rc_streams = int (hits (beyond c n) (ad_checkpoints (w_db w))), rc_epoch = epoch_of c d1\<rparr>"
  have tail: "bindA (whenA ?b (bindA (wake A ''reorg_replay'' (job_reason ''chain_reorg_detected'')) (\<lambda>_. ret ())))
      (\<lambda>_. bindA (requestBalanceRefreshBatch A ?ms) (\<lambda>_. ret ?x)) (w\<lparr>w_db := d1\<rparr>) = (Inr (Recovered r), w1)"
    using run quiet d1 by (simp add: recover_def bindA_def [of "dbq f" for f] bindA_def [of "dbx f" for f]
      getChainReorgEpoch_def dbq_quiet dbb_def dbx_quiet Let_def i_def)
  have quiet1: "w_env (w\<lparr>w_db := d1\<rparr>) = []" using quiet by simp
  have "only_refreshes (w\<lparr>w_db := d1\<rparr>) w1" using after_batch_frame(1) [OF quiet1] tail by (metis snd_conv)
  moreover have "Recovered r = ?x" by (rule after_batch_frame(2) [OF quiet1 tail])
  ultimately show ?thesis using d1 by (auto simp: only_refreshes_def)
qed

lemma verify_run:
  assumes quiet: "w_env w = []" and run: "verifyAndRecoverStream A client c stream k w = (Inr (Recovered r), w1)"
  shows "\<exists>cp h d1 ns i rows. cp \<in> set (ad_checkpoints (w_db w)) \<and> ac_chainId cp = c \<and> ac_stream cp = stream \<and> rc_checkpoint r < ac_number cp \<and>
    (\<exists>b \<in> set (ad_blocks (w_db w)). ab_chainId b = c \<and> ab_canonical b \<and> ab_number b = rc_checkpoint r \<and> toLowerCase (ab_hash b) = toLowerCase h) \<and>
    client (rc_checkpoint r) (w_now w) = Some (Some h) \<and>
    batch (recovery_batch c (rc_checkpoint r) (toLowerCase h) (w_now w) i) (w_db w) = Some (d1, ns) \<and> w_db w1 = d1\<lparr>ad_refreshes := rows\<rparr> \<and>
    rc_epoch r = epoch_of c d1"
proof -
  obtain cp where cp: "find (\<lambda>x. ac_chainId x = c \<and> ac_stream x = stream) (ad_checkpoints (w_db w)) = Some cp"
    using run quiet by (auto simp: verifyAndRecoverStream_def bindA_def dbq_quiet ret_def split: option.splits)
  define tail where "tail = (\<lambda>observed ancestor. bindA date_now (\<lambda>detectedAt. bindA randomUUID (\<lambda>incidentId. case ancestor of
     None \<Rightarrow> bindA (dbx (insert_incident \<lparr>in_id = incidentId, in_chainId = c, in_stream = stream, in_detectedAt = detectedAt,
         in_previousNumber = ac_number cp, in_previousHash = ac_hash cp, in_observedHash = observed_text observed, in_ancestorNumber = None,
         in_ancestorHash = None, in_depth = None, in_recovered = False, in_affectedEvents = 0, in_affectedAccounts = 0\<rparr>))
       (\<lambda>_. throw (ReorgOutsideWindowError c stream))
   | Some a \<Rightarrow> recover A c stream cp observed a detectedAt incidentId)))"
  obtain observed lowest where "bindA (find_ancestor client (known_blocks c (ac_number cp) lowest (w_db w))) (tail observed) w = (Inr (Recovered r), w1)"
    using run quiet cp
    by (auto simp: verifyAndRecoverStream_def bindA_def [of "dbq f" for f] bindA_def [of "extcall f g" for f g] dbq_quiet ret_def read_hash_def
      extcall_quiet Let_def tail_def split: option.splits if_splits)
  then obtain a w' where anc: "find_ancestor client (known_blocks c (ac_number cp) lowest (w_db w)) w = (Inr a, w')" "tail observed a w' = (Inr (Recovered r), w1)"
    by (auto simp: bindA_def [of "find_ancestor f g" for f g] split: prod.splits sum.splits)
  note found = find_ancestor_quiet [OF quiet anc(1)]
  have "tail observed None w \<noteq> (Inr (Recovered r), w1)"
    by (auto simp: tail_def bindA_def date_now_def randomUUID_def throw_def split: prod.splits sum.splits)
  then obtain n h where a: "a = Some (n, h)" using anc(2) found by (cases a) auto
  have rec: "recover A c stream cp observed (n, h) (w_now w) (w_uuid w (w_ix w)) (w\<lparr>w_ix := Suc (w_ix w)\<rparr>) = (Inr (Recovered r), w1)"
    using anc(2) found a by (simp add: tail_def bindA_def date_now_def randomUUID_def)
  have "w_env (w\<lparr>w_ix := Suc (w_ix w)\<rparr>) = []" using quiet by simp
  note r = recover_run [OF this rec]
  have cp': "cp \<in> set (ad_checkpoints (w_db w)) \<and> ac_chainId cp = c \<and> ac_stream cp = stream" using find_SomeD [OF cp] by simp
  obtain b where "b \<in> set (known_blocks c (ac_number cp) lowest (w_db w))" "ab_number b = n" "toLowerCase (ab_hash b) = toLowerCase h"
      "client n (w_now w) = Some (Some h)" using found a by blast
  moreover from this(1) have "b \<in> set (ad_blocks (w_db w)) \<and> ab_chainId b = c \<and> ab_canonical b \<and> ab_number b < ac_number cp"
    by (auto simp: known_blocks_def dest!: in_set_takeD)
  ultimately show ?thesis using r cp' by auto blast
qed

subsection \<open>The rollback\<close>

text \<open>Nothing canonical, and no position, of the chain beyond a height.\<close>

definition nothing_beyond :: "int \<Rightarrow> int \<Rightarrow> app_db \<Rightarrow> bool" where
  "nothing_beyond c n d \<longleftrightarrow>
     (\<forall>b \<in> set (ad_blocks d). ab_chainId b = c \<and> ab_canonical b \<longrightarrow> ab_number b \<le> n) \<and>
     (\<forall>e \<in> set (ad_events d). av_chainId e = c \<and> av_canonical e \<longrightarrow> av_blockNumber e \<le> n) \<and>
     (\<forall>r \<in> set (ad_ledger d). \<forall>k. lr_chainId r = Some c \<and> lr_canonical r \<and> lr_number r = Some k \<longrightarrow> k \<le> n) \<and>
     (\<forall>r \<in> set (ad_operations d). uo_chainId r = c \<and> uo_canonical r \<longrightarrow> uo_number r \<le> n) \<and>
     (\<forall>r \<in> set (ad_snapshots d). bs_chainId r = c \<and> bs_canonical r \<longrightarrow> bs_number r \<le> n) \<and>
     (\<forall>r \<in> set (ad_baselines d). bb_chainId r = c \<longrightarrow> bb_number r \<le> n) \<and>
     (\<forall>x \<in> set (ad_checkpoints d). ac_chainId x = c \<longrightarrow> ac_number x \<le> n) \<and>
     (\<forall>x \<in> set (ad_watermarks d). wm_chainId x = c \<longrightarrow> wm_number x \<le> n)"

text \<open>The rows of other chains, and those up to the height, are still there.\<close>

definition rest_kept :: "int \<Rightarrow> int \<Rightarrow> app_db \<Rightarrow> app_db \<Rightarrow> bool" where
  "rest_kept c n d d' \<longleftrightarrow>
     (\<forall>b \<in> set (ad_blocks d). ab_chainId b \<noteq> c \<or> ab_number b \<le> n \<longrightarrow> b \<in> set (ad_blocks d')) \<and>
     (\<forall>e \<in> set (ad_events d). av_chainId e \<noteq> c \<or> av_blockNumber e \<le> n \<longrightarrow> e \<in> set (ad_events d')) \<and>
     (\<forall>r \<in> set (ad_ledger d). lr_chainId r \<noteq> Some c \<or> (\<forall>k. lr_number r = Some k \<longrightarrow> k \<le> n) \<longrightarrow> r \<in> set (ad_ledger d')) \<and>
     (\<forall>r \<in> set (ad_operations d). uo_chainId r \<noteq> c \<or> uo_number r \<le> n \<longrightarrow> r \<in> set (ad_operations d')) \<and>
     (\<forall>r \<in> set (ad_snapshots d). bs_chainId r \<noteq> c \<or> bs_number r \<le> n \<longrightarrow> r \<in> set (ad_snapshots d')) \<and>
     (\<forall>r \<in> set (ad_baselines d). bb_chainId r \<noteq> c \<or> bb_number r \<le> n \<longrightarrow> r \<in> set (ad_baselines d')) \<and>
     (\<forall>x \<in> set (ad_checkpoints d). ac_chainId x \<noteq> c \<or> ac_number x \<le> n \<longrightarrow> x \<in> set (ad_checkpoints d')) \<and>
     (\<forall>x \<in> set (ad_watermarks d). wm_chainId x \<noteq> c \<or> wm_number x \<le> n \<longrightarrow> x \<in> set (ad_watermarks d')) \<and>
     (\<forall>x \<in> set (ad_deltas d). bd_chainId x \<noteq> c \<longrightarrow> x \<in> set (ad_deltas d'))"

lemma upd_ball: "(\<forall>y \<in> set (upd p f rows). P y) \<longleftrightarrow> (\<forall>x \<in> set rows. if p x then P (f x) else P x)"
  by (auto simp: set_upd)

lemma upd_keep_all: "(\<And>x. Q x \<Longrightarrow> \<not> p x) \<Longrightarrow> \<forall>x \<in> set rows. Q x \<longrightarrow> x \<in> set (upd p f rows)"
  by (auto intro!: upd_keeps)

lemma refreshes_apart [simp]:
  "nothing_beyond c n (d\<lparr>ad_refreshes := rows\<rparr>) = nothing_beyond c n d" "rest_kept c n e (d\<lparr>ad_refreshes := rows\<rparr>) = rest_kept c n e d"
  by (simp_all add: nothing_beyond_def rest_kept_def)

lemma batch_nothing_beyond:
  assumes "batch (recovery_batch c n h now i) d = Some (d', ns)"
  shows "nothing_beyond c n d'"
  unfolding nothing_beyond_def recovery_tables [OF assms] recovery_checkpoints [OF assms] upd_ball
  by (intro conjI ballI) (simp_all add: orphaned_event_def beyond_def not_less split: option.splits)

lemma batch_rest_kept:
  assumes "batch (recovery_batch c n h now i) d = Some (d', ns)"
  shows "rest_kept c n d d'"
  unfolding rest_kept_def recovery_tables [OF assms] recovery_checkpoints [OF assms] recovery_deltas [OF assms]
proof (intro conjI upd_keep_all)
qed (auto simp: orphaned_event_def beyond_def split: option.splits)



subsection \<open>What is not rolled back\<close>

text \<open>
  Cursors are compared as texts: one of more digits than the ancestor may stay beyond it, and one of fewer digits may be moved
  forward to it, past blocks that were never read.
\<close>

lemma cursors_compared_as_text:
  "\<not> rewound_cursor 1 99999 \<lparr>sy_key = ''router:1'', sy_lastBlock = ''100000'', sy_updatedAt = 0\<rparr>"
  "rewound_cursor 1 10000 \<lparr>sy_key = ''router:1'', sy_lastBlock = ''9999'', sy_updatedAt = 0\<rparr>"
  by code_simp+

text \<open>
  When the chain returns to a block that was orphaned, the journal makes its event canonical again, but the projector finds
  the delta's key taken and leaves the delta reverted.
\<close>

lemma delta_stays_reverted:
  shows "insert_delta old_delta fork_after = Some (fork_after, 0)" and "map bd_canonical (ad_deltas fork_after) = [False]"
    and "map_option (\<lambda>(d, n). map av_canonical (ad_events d)) (refresh_event old_event fork_after) = Some [True]"
  by code_simp+

end
