(* ===== verification/IndexerProps.thy ===== *)
theory IndexerProps
  imports Indexer RollbackProps
begin

text \<open>
  No deposit is lost: when a run of the indexer moves the cursor, every deposit of the blocks it has passed is in the ledger,
  whatever other requests and rollbacks do in between.
\<close>

subsection \<open>What others may do\<close>

text \<open>The deposit that is followed: its recipient and sender, and what identifies its row of the ledger.\<close>

record tracked =
  tk_chainId :: int
  tk_uid :: string
  tk_wallet :: string
  tk_sender :: string
  tk_txHash :: string
  tk_logIndex :: int
  tk_token :: string

definition in_ledger :: "tracked \<Rightarrow> app_db \<Rightarrow> bool" where
  "in_ledger k d \<longleftrightarrow> (\<exists>x \<in> set (ad_ledger d). lr_uid x = tk_uid k \<and> lr_txHash x = tk_txHash k \<and> lr_direction x = ''in'' \<and>
     lr_token x = tk_token k \<and> lr_logIndex x = Some (tk_logIndex k) \<and> lr_canonical x)"

text \<open>The wallet belongs to the user and to nobody else, and the sender's to no user.\<close>

definition recipient_known :: "tracked \<Rightarrow> app_db \<Rightarrow> bool" where
  "recipient_known k d \<longleftrightarrow> (\<exists>x \<in> set (ad_users d). au_uid x = tk_uid k \<and> au_wallet x = Some (tk_wallet k)) \<and>
     (\<forall>x \<in> set (ad_users d). (au_wallet x = Some (tk_wallet k) \<longrightarrow> au_uid x = tk_uid k) \<and> au_wallet x \<noteq> Some (tk_sender k))"

text \<open>
  Rows of the ledger are only withdrawn by a rollback, which raises the epoch; the recipient stays known.
\<close>

definition keeps_deposit :: "tracked \<Rightarrow> app_db \<Rightarrow> app_db \<Rightarrow> bool" where
  "keeps_deposit k d d' \<longleftrightarrow> epoch_of (tk_chainId k) d \<le> epoch_of (tk_chainId k) d' \<and>
     (epoch_of (tk_chainId k) d' = epoch_of (tk_chainId k) d \<and> in_ledger k d \<longrightarrow> in_ledger k d') \<and>
     (recipient_known k d \<longrightarrow> recipient_known k d')"

text \<open>No random id that is still to be drawn is that of a row of the ledger.\<close>

definition fresh_ledger_ids :: "app_db invariant" where
  "fresh_ledger_ids g n d \<longleftrightarrow> inj g \<and> (\<forall>j \<ge> n. g j \<notin> lr_id ` set (ad_ledger d))"

interpretation dep: rely_guarantee fresh_ledger_ids "keeps_deposit k" for k
proof unfold_locales
  show "keeps_deposit k d d" for d by (simp add: keeps_deposit_def)
  show "keeps_deposit k d1 d3" if "keeps_deposit k d1 d2" "keeps_deposit k d2 d3" for d1 d2 d3
    using that unfolding keeps_deposit_def by (metis order_antisym order_trans)
  show "fresh_ledger_ids g (Suc n) d" if "fresh_ledger_ids g n d" for g n d
    using that by (simp add: fresh_ledger_ids_def)
qed

subsection \<open>Statements that leave the ledger, the users and the epochs alone\<close>

definition silent :: "app_db stmt \<Rightarrow> bool" where
  "silent s \<longleftrightarrow> (\<forall>d d' n. s d = Some (d', n) \<longrightarrow> ad_ledger d' = ad_ledger d \<and> ad_users d' = ad_users d \<and> ad_reorgStates d' = ad_reorgStates d)"

lemma silent_ok: "silent s \<Longrightarrow> dep.stmt_ok k s"
  unfolding dep.stmt_ok_def
proof (intro allI impI)
  fix g n d d' m
  assume s: "silent s" and I: "fresh_ledger_ids g n d" and run: "s d = Some (d', m)"
  have same: "ad_ledger d' = ad_ledger d" "ad_users d' = ad_users d" "ad_reorgStates d' = ad_reorgStates d"
    using s run unfolding silent_def by blast+
  show "fresh_ledger_ids g n d' \<and> keeps_deposit k d d'"
    using I epoch_same [OF same(3)] same by (simp add: fresh_ledger_ids_def keeps_deposit_def in_ledger_def recipient_known_def)
qed

lemma silent_plain:
  "(\<And>d. ad_ledger (fst (f d)) = ad_ledger d \<and> ad_users (fst (f d)) = ad_users d \<and> ad_reorgStates (fst (f d)) = ad_reorgStates d) \<Longrightarrow> silent (plain f)"
  unfolding silent_def plain_def by (metis fst_conv option.inject)

lemma silent_checked:
  "(\<And>d. ad_ledger (fst (f d)) = ad_ledger d \<and> ad_users (fst (f d)) = ad_users d \<and> ad_reorgStates (fst (f d)) = ad_reorgStates d) \<Longrightarrow> silent (checked C f)"
  unfolding silent_def checked_def by (metis fst_conv option.distinct(1) option.inject)

lemma silent_updates:
  "silent (guard_delete g)" "silent (cursor_stmt key n now)" "silent (demote_blocks b)" "silent (insert_block b)" "silent (refresh_block b)"
  "silent (demote_events r)" "silent (refresh_event r)" "silent (checkpoint_stmt cp)" "silent (watermark_stmt m)"
  "silent (insert_baseline l)" "silent (project_snapshot_stmt b p a i)"
  unfolding guard_delete_def cursor_stmt_def demote_blocks_def insert_block_def refresh_block_def demote_events_def refresh_event_def
    checkpoint_stmt_def watermark_stmt_def insert_baseline_def project_snapshot_stmt_def Let_def
  by ((rule silent_plain silent_checked, simp split: prod.split)+)

lemma silent_inserts:
  "silent (guard_insert g)" "silent (insert_journal_row r)" "silent (insert_event_account a)" "silent (insert_user_event u)"
  "silent (insert_applied x)" "silent (insert_delta y)" "silent (refresh_stmt m now)"
  unfolding silent_def guard_insert_def insert_journal_row_def insert_event_account_def insert_user_event_def insert_applied_def insert_delta_def
    refresh_stmt_def case_prod_beta
  by auto

lemma silent_batch_ok: "(\<And>s. s \<in> set ss \<Longrightarrow> silent s) \<Longrightarrow> dep.stmt_ok k (batch ss)"
  by (rule dep.stmt_ok_batch) (rule silent_ok)

lemma guar_silent [intro]: "silent s \<Longrightarrow> guar fresh_ledger_ids (keeps_deposit k) (dbx s)"
  by (rule dep.guar_dbx) (rule silent_ok)

lemma guar_silent_batch [intro]: "(\<And>s. s \<in> set ss \<Longrightarrow> silent s) \<Longrightarrow> guar fresh_ledger_ids (keeps_deposit k) (dbb ss)"
  unfolding dbb_def by (rule dep.guar_dbx) (rule silent_batch_ok)

subsection \<open>What an action ensures\<close>

definition run_ok :: "tracked \<Rightarrow> (app_db, app_event) world \<Rightarrow> bool" where
  "run_ok k w \<longleftrightarrow> holds_at fresh_ledger_ids (w_ix w) w \<and> env_ok fresh_ledger_ids (keeps_deposit k) w"

definition ensures :: "tracked \<Rightarrow> (app_db \<Rightarrow> bool) \<Rightarrow> (app_event, 'a) appact \<Rightarrow> ('a \<Rightarrow> app_db \<Rightarrow> bool) \<Rightarrow> bool" where
  "ensures k P m Q \<longleftrightarrow> (\<forall>w x w'. run_ok k w \<longrightarrow> P (w_db w) \<longrightarrow> m w = (Inr x, w') \<longrightarrow> Q x (w_db w'))"

abbreviation keeping :: "tracked \<Rightarrow> (app_event, 'a) appact \<Rightarrow> bool" where
  "keeping k m \<equiv> guar fresh_ledger_ids (keeps_deposit k) m"

lemma keeping_step:
  assumes "keeping k m" and "run_ok k w" and "m w = (r, w')"
  shows "run_ok k w' \<and> keeps_deposit k (w_db w) (w_db w')"
proof -
  have "ends_ok fresh_ledger_ids (keeps_deposit k) w (snd (m w))" using guarD [OF assms(1)] assms(2) by (simp add: run_ok_def)
  then show ?thesis using assms(3) by (simp add: ends_ok_def run_ok_def)
qed

lemma bindA_InrD: "bindA m f w = (Inr y, w'') \<Longrightarrow> \<exists>x w'. m w = (Inr x, w') \<and> f x w' = (Inr y, w'')"
  by (auto simp: bindA_def split: prod.splits sum.splits)

lemma ensures_bind:
  assumes "keeping k m" and "ensures k P m Q" and "\<And>x. ensures k (Q x) (f x) S"
  shows "ensures k P (bindA m f) S"
  unfolding ensures_def
proof (intro allI impI)
  fix w y w''
  assume w: "run_ok k w" "P (w_db w)" and run: "bindA m f w = (Inr y, w'')"
  obtain x w' where m: "m w = (Inr x, w')" "f x w' = (Inr y, w'')" using bindA_InrD [OF run] by blast
  show "S y (w_db w'')"
    using keeping_step [OF assms(1) w(1) m(1)] assms(2,3) w m unfolding ensures_def by blast
qed

lemma ensures_keep: "keeping k m \<Longrightarrow> stable (keeps_deposit k) F \<Longrightarrow> ensures k F m (\<lambda>_. F)"
  unfolding ensures_def stable_def using keeping_step by blast

lemma ensures_any: "ensures k P m (\<lambda>_ _. True)"
  by (simp add: ensures_def)

lemma ensures_weaken: "ensures k P m Q \<Longrightarrow> (\<And>d. P' d \<Longrightarrow> P d) \<Longrightarrow> (\<And>x d. Q x d \<Longrightarrow> Q' x d) \<Longrightarrow> ensures k P' m Q'"
  unfolding ensures_def by blast

text \<open>Established early, kept by the rest; or established by the rest.\<close>

lemma ensures_first:
  assumes "keeping k m" and "ensures k P m (\<lambda>_. F)" and "\<And>x. keeping k (f x)" and "stable (keeps_deposit k) F"
  shows "ensures k P (bindA m f) (\<lambda>_. F)"
  by (rule ensures_bind [OF assms(1,2)]) (rule ensures_keep [OF assms(3,4)])

lemma ensures_later:
  assumes "keeping k m" and "\<And>x. ensures k (\<lambda>_. True) (f x) Q"
  shows "ensures k P (bindA m f) Q"
  by (rule ensures_bind [OF assms(1) ensures_any]) (rule assms(2))

lemma ensures_forA:
  assumes "x \<in> set xs" and "ensures k (\<lambda>_. True) (f x) (\<lambda>_. F)" and "\<And>x. keeping k (f x)" and "stable (keeps_deposit k) F"
  shows "ensures k (\<lambda>_. True) (forA f xs) (\<lambda>_. F)"
  using assms(1)
proof (induction xs)
  case (Cons y ys)
  show ?case
  proof (cases "x = y")
    case True
    then show ?thesis using assms(2-4) by (simp add: ensures_first dep.guar_forA)
  next
    case False
    then show ?thesis using Cons assms(3) by (simp add: ensures_later)
  qed
qed simp

subsection \<open>The steps of a run\<close>

lemma keeping_wake: "keeping k (wake A job opts)"
  unfolding wake_def by (intro dep.guar_bindA dep.guar_calm) (auto intro!: dep.guar_bindA split: event_call.splits)

lemma keeping_refresh: "keeping k (requestBalanceRefresh A m)"
  unfolding requestBalanceRefresh_def dispatchBalanceRefreshJob_def Let_def
  by (auto intro!: dep.guar_bindA keeping_wake guar_silent silent_inserts)

lemma keeping_guard: "keeping k (createChainEpochGuard c e)"
  unfolding createChainEpochGuard_def by (auto intro!: dep.guar_bindA)

lemma event_stmts_silent: "\<forall>p \<in> set (event_stmts V c e). silent (snd p)"
  by (auto simp: event_stmts_def Let_def silent_updates silent_inserts split: if_splits)

lemma keeping_journal:
  assumes "ji_operations inp = []"
  shows "keeping k (journalBlockEvents V A inp)"
proof -
  have "list_all (\<lambda>p. silent (snd p)) (journal_stmts V inp g t)" for g t
    using assms event_stmts_silent
    by (simp add: journal_stmts_def Let_def list_all_iff ball_Un silent_updates silent_inserts)
  then have batch: "keeping k (dbb (map snd (journal_stmts V inp g t)))" for g t by (intro guar_silent_batch) (auto simp: list_all_iff)
  have epoch: "keeping k (case e of None \<Rightarrow> getChainReorgEpoch c | Some x \<Rightarrow> ret x)" for e c
    by (cases e) (auto simp: getChainReorgEpoch_def intro!: dep.guar_calm)
  show ?thesis
    unfolding journalBlockEvents_def Let_def
    by (auto intro!: dep.guar_bindA dep.guar_calm keeping_wake keeping_guard batch epoch)
qed

lemma keeping_projection: "keeping k (projectBalanceDeltas b events e)"
proof -
  have "silent s" if "s \<in> set (projection_stmts b events g t)" for s g t
    using that by (auto simp: projection_stmts_def projection_event_stmts_def Let_def silent_updates silent_inserts)
  then have batch: "keeping k (dbb (projection_stmts b events g t))" for g t by (intro guar_silent_batch)
  have account: "keeping k (refresh_account b a)" for a
    unfolding refresh_account_def Let_def
    by (auto intro!: dep.guar_bindA dep.guar_calm guar_silent silent_updates split: option.splits)
  show ?thesis
    unfolding projectBalanceDeltas_def refreshProjectedSnapshots_def Let_def getChainReorgEpoch_def
    by (auto intro!: dep.guar_bindA dep.guar_calm dep.guar_mapA batch account keeping_guard split: option.splits)
qed

lemma keeping_evidence: "keeping k (getArbitrumBlockEvidence env N n h)"
  unfolding getArbitrumBlockEvidence_def read_bigint_def
  by (auto intro!: dep.guar_catchA dep.guar_bindA dep.guar_calm split: option.splits)

lemma keeping_cursor: "keeping k (setSyncCursor key n c e)"
  unfolding setSyncCursor_def
  by (auto intro!: dep.guar_bindA dep.guar_calm keeping_guard guar_silent guar_silent_batch silent_updates silent_inserts split: option.splits)

subsection \<open>Writing the ledger\<close>

definition same_movement :: "ledger_row \<Rightarrow> ledger_row \<Rightarrow> bool" where
  "same_movement x y \<longleftrightarrow> lr_uid y = lr_uid x \<and> lr_txHash y = lr_txHash x \<and> lr_direction y = lr_direction x \<and> lr_token y = lr_token x \<and>
     lr_logIndex y = lr_logIndex x"

text \<open>Every row has a successor, which is canonical if the row was.\<close>

definition rows_stay :: "app_db \<Rightarrow> app_db \<Rightarrow> bool" where
  "rows_stay d d' \<longleftrightarrow> (\<forall>x \<in> set (ad_ledger d). \<exists>y \<in> set (ad_ledger d'). same_movement x y \<and> (lr_canonical x \<longrightarrow> lr_canonical y))"

definition present :: "ledger_row \<Rightarrow> app_db \<Rightarrow> bool" where
  "present r d \<longleftrightarrow> (\<exists>x \<in> set (ad_ledger d). ledger_key r x \<and> lr_canonical x)"

lemma rows_stay_refl: "rows_stay d d"
  by (auto simp: rows_stay_def same_movement_def)

lemma rows_stay_trans: "rows_stay d1 d2 \<Longrightarrow> rows_stay d2 d3 \<Longrightarrow> rows_stay d1 d3"
  unfolding rows_stay_def same_movement_def by metis

lemma rows_stay_present: "rows_stay d d' \<Longrightarrow> present r d \<Longrightarrow> present r d'"
  unfolding rows_stay_def present_def same_movement_def ledger_key_def by metis

lemma rows_stay_in_ledger: "rows_stay d d' \<Longrightarrow> in_ledger k d \<Longrightarrow> in_ledger k d'"
  unfolding rows_stay_def in_ledger_def same_movement_def by metis

lemma ledger_stmt_run:
  assumes run: "ledger_stmt r d = Some (d', n)" and new: "lr_id r \<notin> lr_id ` set (ad_ledger d)"
    and row: "lr_canonical r" "lr_blockHash r \<noteq> None"
  shows "ad_users d' = ad_users d \<and> ad_reorgStates d' = ad_reorgStates d \<and> lr_id ` set (ad_ledger d') \<subseteq> insert (lr_id r) (lr_id ` set (ad_ledger d)) \<and>
    rows_stay d d' \<and> present r d'"
proof -
  let ?key = "\<lambda>x. lr_id x = lr_id r \<or> ledger_key r x" and ?ok = "\<lambda>x. \<not> lr_canonical x \<and> lr_blockHash r \<noteq> None"
  let ?rows = "fst (upsert_if ?key ?ok (ledger_again r) r (ad_ledger d))"
  have d': "d' = d\<lparr>ad_ledger := ?rows\<rparr>" using run by (auto simp: ledger_stmt_def split: prod.splits if_splits)
  have key: "?key x \<longleftrightarrow> ledger_key r x" if "x \<in> set (ad_ledger d)" for x using new that by (metis image_eqI)
  show ?thesis
  proof (cases "list_ex ?key (ad_ledger d)")
    case True
    then have rows: "?rows = upd (\<lambda>x. ?key x \<and> ?ok x) (ledger_again r) (ad_ledger d)" by (simp add: upsert_if_def)
    obtain x where x: "x \<in> set (ad_ledger d)" "ledger_key r x" using True key by (auto simp: list_ex_iff)
    have ledger: "ad_ledger d' = upd (\<lambda>x. ?key x \<and> ?ok x) (ledger_again r) (ad_ledger d)" using d' rows by simp
    define succ where "succ z = (if ?key z \<and> ?ok z then ledger_again r z else z)" for z
    have mem: "succ z \<in> set (ad_ledger d')" if "z \<in> set (ad_ledger d)" for z
      unfolding ledger set_upd succ_def using that by (rule imageI)
    have succ: "same_movement z (succ z)" "lr_canonical z \<Longrightarrow> lr_canonical (succ z)" for z
      by (auto simp: succ_def same_movement_def ledger_again_def)
    have "ledger_key r (succ x)" "lr_canonical (succ x)" using x(2) row(2) by (auto simp: succ_def ledger_again_def ledger_key_def)
    then have "present r d'" unfolding present_def using mem [OF x(1)] by blast
    moreover have "rows_stay d d'" unfolding rows_stay_def using mem succ by blast
    moreover have "lr_id ` set (ad_ledger d') \<subseteq> lr_id ` set (ad_ledger d)" by (auto simp: ledger set_upd ledger_again_def intro: rev_image_eqI)
    ultimately show ?thesis using d' by auto
  next
    case False
    then have "?rows = ad_ledger d @ [r]" by (simp add: upsert_if_def)
    then show ?thesis using row(1) by (auto simp: d' present_def ledger_key_def rows_stay_def same_movement_def)
  qed
qed

lemma ledger_batch_run:
  assumes "batch (map ledger_stmt rows) d = Some (d', ns)" and "distinct (map lr_id rows)"
    and "\<forall>r \<in> set rows. lr_id r \<notin> lr_id ` set (ad_ledger d) \<and> lr_canonical r \<and> lr_blockHash r \<noteq> None"
  shows "ad_users d' = ad_users d \<and> ad_reorgStates d' = ad_reorgStates d \<and>
    lr_id ` set (ad_ledger d') \<subseteq> lr_id ` set rows \<union> lr_id ` set (ad_ledger d) \<and> rows_stay d d' \<and> (\<forall>r \<in> set rows. present r d')"
  using assms
proof (induction rows arbitrary: d ns)
  case Nil
  then show ?case by (simp add: rows_stay_refl)
next
  case (Cons r rows)
  obtain d1 n ms where 1: "ledger_stmt r d = Some (d1, n)" "batch (map ledger_stmt rows) d1 = Some (d', ms)"
    using batch_ConsD [of "ledger_stmt r" "map ledger_stmt rows"] Cons.prems(1) by (metis list.simps(9))
  note one = ledger_stmt_run [OF 1(1)]
  have o: "ad_users d1 = ad_users d" "ad_reorgStates d1 = ad_reorgStates d"
      "lr_id ` set (ad_ledger d1) \<subseteq> insert (lr_id r) (lr_id ` set (ad_ledger d))" "rows_stay d d1" "present r d1"
    using one Cons.prems(3) by auto
  have "\<forall>r \<in> set rows. lr_id r \<notin> lr_id ` set (ad_ledger d1) \<and> lr_canonical r \<and> lr_blockHash r \<noteq> None"
  proof
    fix x assume x: "x \<in> set rows"
    then have "lr_id x \<noteq> lr_id r" using Cons.prems(2) by (metis distinct.simps(2) image_eqI list.set_map list.simps(9))
    then show "lr_id x \<notin> lr_id ` set (ad_ledger d1) \<and> lr_canonical x \<and> lr_blockHash x \<noteq> None" using o(3) Cons.prems(3) x by auto
  qed
  from Cons.IH [OF 1(2) _ this] Cons.prems(2)
  have rest: "ad_users d' = ad_users d1" "ad_reorgStates d' = ad_reorgStates d1"
      "lr_id ` set (ad_ledger d') \<subseteq> lr_id ` set rows \<union> lr_id ` set (ad_ledger d1)" "rows_stay d1 d'" "\<forall>r \<in> set rows. present r d'"
    by auto
  have "lr_id ` set (ad_ledger d') \<subseteq> lr_id ` set (r # rows) \<union> lr_id ` set (ad_ledger d)" using rest(3) o(3) by (simp, blast)
  then show ?case using rest o by (auto intro: rows_stay_trans rows_stay_present)
qed

lemma draw_rows:
  "mapA (\<lambda>e. bindA randomUUID (\<lambda>u. ret (ledger_record e u))) es w =
    (Inr (map2 ledger_record es (map (w_uuid w) [w_ix w..<w_ix w + length es])), w\<lparr>w_ix := w_ix w + length es\<rparr>)"
proof (induction es arbitrary: w)
  case (Cons e es)
  show ?case
    using Cons [of "w\<lparr>w_ix := Suc (w_ix w)\<rparr>"]
    by (simp add: bindA_def randomUUID_def ret_def upt_conv_Cons del: upt_Suc)
qed (simp add: ret_def)

text \<open>Either a rollback has come after the epoch, or the deposit is in the ledger.\<close>

definition settled_since :: "tracked \<Rightarrow> int \<Rightarrow> app_db \<Rightarrow> bool" where
  "settled_since k e d \<longleftrightarrow> e < epoch_of (tk_chainId k) d \<or> epoch_of (tk_chainId k) d = e \<and> in_ledger k d"

lemma settled_stable: "stable (keeps_deposit k) (settled_since k e)"
  unfolding stable_def settled_since_def keeps_deposit_def by (metis order_le_less order_less_le_trans)

lemma guard_run:
  "createChainEpochGuard c e w = (r, w1) \<Longrightarrow> (case r of Inl x \<Rightarrow> w1 = w
     | Inr g \<Rightarrow> eg_chainId g = c \<and> eg_expectedEpoch g = e \<and> w1 = w\<lparr>w_ix := Suc (w_ix w)\<rparr>)"
  by (auto simp: createChainEpochGuard_def bindA_def randomUUID_def date_now_def ret_def throw_def split: if_splits)

lemma guard_insert_run: "guard_insert g d = Some (d', n) \<Longrightarrow> epoch_of (eg_chainId g) d = eg_expectedEpoch g"
  by (auto simp: guard_insert_def split: if_splits)

lemma silent_batch: "(\<And>s. s \<in> set ss \<Longrightarrow> silent s) \<Longrightarrow> batch ss d = Some (d', ns) \<Longrightarrow>
    ad_ledger d' = ad_ledger d \<and> ad_users d' = ad_users d \<and> ad_reorgStates d' = ad_reorgStates d"
proof (induction ss arbitrary: d ns)
  case (Cons s ss)
  obtain d1 n ms where 1: "s d = Some (d1, n)" "batch ss d1 = Some (d', ms)" using batch_ConsD [OF Cons.prems(2)] by blast
  have "ad_ledger d1 = ad_ledger d \<and> ad_users d1 = ad_users d \<and> ad_reorgStates d1 = ad_reorgStates d"
    using Cons.prems(1) [of s] 1(1) unfolding silent_def by (metis list.set_intros(1))
  then show ?case using Cons.prems(1) Cons.IH [OF _ 1(2)] by simp
qed simp

text \<open>The batch of the ledger, with the ids it has drawn.\<close>

lemma ledger_write_batch:
  assumes run: "batch ([guard_insert g] @ map ledger_stmt rows @ map insert_user_event us @ [guard_delete g]) d = Some (d', ns)"
    and ids: "map lr_id rows = map u [n..<n + length rows]" and rows: "\<forall>r \<in> set rows. lr_canonical r \<and> lr_blockHash r \<noteq> None"
    and I: "fresh_ledger_ids u n d"
  shows "epoch_of (eg_chainId g) d = eg_expectedEpoch g \<and> fresh_ledger_ids u (n + length rows) d' \<and> keeps_deposit k d d' \<and>
    epoch_of c d' = epoch_of c d \<and> (\<forall>r \<in> set rows. present r d')"
proof -
  obtain d1 d2 m1 m2 m3 where b: "batch [guard_insert g] d = Some (d1, m1)" "batch (map ledger_stmt rows) d1 = Some (d2, m2)"
      "batch (map insert_user_event us @ [guard_delete g]) d2 = Some (d', m3)"
    using batch_split [OF run] batch_split by metis
  have 1: "epoch_of (eg_chainId g) d = eg_expectedEpoch g" using b(1) guard_insert_run by (auto split: option.splits)
  have s1: "ad_ledger d1 = ad_ledger d" "ad_users d1 = ad_users d" "ad_reorgStates d1 = ad_reorgStates d"
    using silent_batch [OF _ b(1)] silent_inserts(1) by auto
  have s3: "ad_ledger d' = ad_ledger d2" "ad_users d' = ad_users d2" "ad_reorgStates d' = ad_reorgStates d2"
    using silent_batch [OF _ b(3)] silent_inserts(4) silent_updates(1) by auto
  have inj: "inj u" using I by (simp add: fresh_ledger_ids_def)
  then have dist: "distinct (map lr_id rows)" unfolding ids by (simp add: distinct_map inj_on_def)
  have idset: "lr_id ` set rows = u ` {n..<n + length rows}" using arg_cong [OF ids, of set] by simp
  have new: "\<forall>r \<in> set rows. lr_id r \<notin> lr_id ` set (ad_ledger d1) \<and> lr_canonical r \<and> lr_blockHash r \<noteq> None"
  proof
    fix r assume r: "r \<in> set rows"
    then have "lr_id r \<in> u ` {n..<n + length rows}" using idset by blast
    then obtain j where "lr_id r = u j" "n \<le> j" by auto
    then show "lr_id r \<notin> lr_id ` set (ad_ledger d1) \<and> lr_canonical r \<and> lr_blockHash r \<noteq> None"
      using I rows r s1(1) by (simp add: fresh_ledger_ids_def)
  qed
  note led = ledger_batch_run [OF b(2) dist new]
  have "u j \<notin> lr_id ` set (ad_ledger d')" if "n + length rows \<le> j" for j
  proof -
    have "u j \<notin> u ` {n..<n + length rows}" using inj that by (auto simp: inj_eq)
    moreover have "u j \<notin> lr_id ` set (ad_ledger d)" using I that by (simp add: fresh_ledger_ids_def)
    ultimately show ?thesis using led idset s1(1) s3(1) by auto
  qed
  then have fresh: "fresh_ledger_ids u (n + length rows) d'" using inj by (simp add: fresh_ledger_ids_def)
  have same: "ad_users d' = ad_users d" "ad_reorgStates d' = ad_reorgStates d"
    using led s1 s3 by simp_all
  have "rows_stay d d'" using led unfolding rows_stay_def s1(1) s3(1) by blast
  then have "keeps_deposit k d d'"
    using rows_stay_in_ledger [of d d' k] epoch_same [OF same(2)] unfolding keeps_deposit_def recipient_known_def same(1) by simp
  moreover have "\<forall>r \<in> set rows. present r d'" using led unfolding present_def s3(1) by blast
  ultimately show ?thesis using 1 fresh epoch_same [OF same(2)] by simp
qed

text \<open>The entry of the deposit.\<close>

definition tracks :: "tracked \<Rightarrow> ledger_row \<Rightarrow> bool" where
  "tracks k x \<longleftrightarrow> lr_uid x = tk_uid k \<and> lr_txHash x = tk_txHash k \<and> lr_direction x = ''in'' \<and> lr_token x = tk_token k \<and>
     lr_logIndex x = Some (tk_logIndex k) \<and> lr_chainId x = Some (tk_chainId k)"

lemma present_in_ledger:
  assumes "present (ledger_record x u) d" and "tracks k x" and "0 \<le> tk_logIndex k"
  shows "in_ledger k d"
proof -
  obtain y where y: "y \<in> set (ad_ledger d)" "ledger_key (ledger_record x u) y" "lr_canonical y" using assms(1) unfolding present_def by blast
  then have "lr_uid y = tk_uid k" "lr_txHash y = tk_txHash k" "lr_direction y = ''in''" "lr_token y = tk_token k"
      "(case lr_logIndex y of None \<Rightarrow> -1 | Some n \<Rightarrow> n) = tk_logIndex k"
    using assms(2) by (simp_all add: ledger_key_def ledger_record_def tracks_def)
  moreover from this(5) have "lr_logIndex y = Some (tk_logIndex k)" using assms(3) by (cases "lr_logIndex y") auto
  ultimately show ?thesis using y unfolding in_ledger_def by blast
qed

lemma ledger_guard_run:
  assumes "ledger_guard entries (Some e) w = (r, w1)"
  shows "case r of Inl x \<Rightarrow> w1 = w
    | Inr g \<Rightarrow> \<exists>h. g = Some h \<and> eg_expectedEpoch h = e \<and> w1 = w\<lparr>w_ix := Suc (w_ix w)\<rparr> \<and> (\<forall>x \<in> set entries. \<forall>c. lr_chainId x = Some c \<longrightarrow> eg_chainId h = c)"
proof (cases "remdups (List.map_filter lr_chainId entries)")
  case (Cons c cs)
  show ?thesis
  proof (cases cs)
    case Nil
    then have "set (List.map_filter lr_chainId entries) = {c}" using Cons by (metis list.set(1) list.simps(15) set_remdups)
    then have all: "lr_chainId x = Some c' \<Longrightarrow> c' = c" if "x \<in> set entries" for x c'
      using that by (fastforce simp: List.map_filter_def image_def)
    obtain r' w2 where g: "createChainEpochGuard c e w = (r', w2)" by (cases "createChainEpochGuard c e w") auto
    show ?thesis using assms guard_run [OF g] all g Cons Nil by (cases r') (auto simp: ledger_guard_def bindA_def ret_def)
  qed (use assms Cons in \<open>auto simp: ledger_guard_def throw_def\<close>)
qed (use assms in \<open>auto simp: ledger_guard_def throw_def\<close>)

lemma drawn_ids: "map lr_id (map2 ledger_record es (map u [n..<n + length es])) = map u [n..<n + length es]"
  by (rule nth_equalityI) (simp_all add: ledger_record_def)

lemma write_ledger_run:
  assumes run: "writeLedgerEntries V entries us (Some e) w = (r, w')" and w: "run_ok k w"
    and entries: "\<forall>x \<in> set entries. lr_blockHash x \<noteq> None"
  shows "ends_ok fresh_ledger_ids (keeps_deposit k) w w' \<and>
    (case r of Inl x \<Rightarrow> True | Inr y \<Rightarrow> \<forall>x \<in> set entries. tracks k x \<and> 0 \<le> tk_logIndex k \<longrightarrow> settled_since k e (w_db w'))"
proof (cases "entries = []")
  case True
  then show ?thesis using run w dep.R_refl [of k] by (auto simp: writeLedgerEntries_def ret_def ends_ok_def run_ok_def)
next
  case False
  obtain r1 w1 where g: "ledger_guard entries (Some e) w = (r1, w1)" by (cases "ledger_guard entries (Some e) w") auto
  show ?thesis
  proof (cases r1)
    case (Inl x)
    then have "r = Inl x" "w' = w" using run False g ledger_guard_run [OF g] by (simp_all add: writeLedgerEntries_def bindA_def)
    then show ?thesis using w dep.R_refl [of k] by (simp add: ends_ok_def run_ok_def)
  next
    case (Inr g')
    then obtain h where h: "r1 = Inr (Some h)" "eg_expectedEpoch h = e" "w1 = w\<lparr>w_ix := Suc (w_ix w)\<rparr>"
        "\<forall>x \<in> set entries. \<forall>c. lr_chainId x = Some c \<longrightarrow> eg_chainId h = c"
      using ledger_guard_run [OF g] by auto
    define n where "n = Suc (w_ix w)"
    define rows where "rows = map2 ledger_record entries (map (w_uuid w) [n..<n + length entries])"
    define w2 where "w2 = w\<lparr>w_ix := n + length entries\<rparr>"
    define ss where "ss = [guard_insert h] @ map ledger_stmt rows @ map insert_user_event (map (user_event_record V (w_now w)) us) @ [guard_delete h]"
    have len: "length rows = length entries" by (simp add: rows_def del: upt_Suc)
    have tail: "writeLedgerEntries V entries us (Some e) w =
        bindA (dbb ss) (\<lambda>ns. ret (map (\<lambda>n. 0 < n) (take (length entries) (drop 1 ns)))) w2"
      using False g h(1,3) draw_rows [of entries "w\<lparr>w_ix := n\<rparr>"]
      by (simp add: writeLedgerEntries_def bindA_def date_now_def comp_def ss_def rows_def w2_def n_def del: upt_Suc)
    have uuid: "w_uuid w2 = w_uuid w" "w_db w2 = w_db w" "w_ix w2 = n + length entries" by (simp_all add: w2_def)
    have pre: "holds_at fresh_ledger_ids (w_ix w) w2" "env_ok fresh_ledger_ids (keeps_deposit k) w2" using w by (simp_all add: run_ok_def w2_def)
    note a = dep.await_ok [OF pre]
    have I: "fresh_ledger_ids (w_uuid w) n (w_db (await w2))"
      using a dep.I_Suc uuid by (simp add: holds_at_def n_def)
    have later: "fresh_ledger_ids (w_uuid w) (n + length entries) (w_db (await w2))"
      using I by (simp add: fresh_ledger_ids_def)
    show ?thesis
    proof (cases "batch ss (w_db (await w2))")
      case None
      then have "r = Inl ConstraintFailed" "w' = await w2" using run tail by (simp_all add: bindA_def dbb_def dbx_def Let_def)
      then show ?thesis using a later uuid by (simp add: ends_ok_def holds_at_def)
    next
      case (Some p)
      then obtain d ns where b: "batch ss (w_db (await w2)) = Some (d, ns)" by (cases p) auto
      have rows: "\<forall>r \<in> set rows. lr_canonical r \<and> lr_blockHash r \<noteq> None"
        using entries by (auto simp: rows_def ledger_record_def lower_option_def set_zip)
      have ids: "map lr_id rows = map (w_uuid w) [n..<n + length rows]" using drawn_ids len by (metis rows_def)
      note res = ledger_write_batch [OF b [unfolded ss_def] ids rows I, of k]
      have w': "w' = (await w2)\<lparr>w_db := d\<rparr>" using run tail b by (simp add: bindA_def dbb_def dbx_def ret_def Let_def)
      have "ends_ok fresh_ledger_ids (keeps_deposit k) w w'"
        using res a dep.R_trans [of k "w_db w" "w_db (await w2)" d] len uuid by (simp add: w' ends_ok_def holds_at_def)
      moreover have "settled_since k e (w_db w')" if x: "x \<in> set entries" "tracks k x" "0 \<le> tk_logIndex k" for x
      proof -
        obtain i where i: "i < length entries" "x = entries ! i" using x(1) by (auto simp: in_set_conv_nth)
        then have "ledger_record x (w_uuid w (n + i)) = rows ! i" by (simp add: rows_def)
        then have "present (ledger_record x (w_uuid w (n + i))) d" using res i(1) len by (metis nth_mem)
        then have "in_ledger k d" using present_in_ledger x(2,3) by blast
        moreover have "epoch_of (tk_chainId k) d = e"
          using res h(2,4) x(1,2) unfolding tracks_def by metis
        ultimately show ?thesis by (simp add: w' settled_since_def)
      qed
      ultimately show ?thesis by (auto split: sum.split)
    qed
  qed
qed

lemma keeping_ledger: "\<forall>x \<in> set entries. lr_blockHash x \<noteq> None \<Longrightarrow> keeping k (writeLedgerEntries V entries us (Some e))"
  unfolding guar_def run_ok_def [symmetric] using write_ledger_run [OF surjective_pairing] by blast

lemma ensures_ledger:
  assumes "\<forall>x \<in> set entries. lr_blockHash x \<noteq> None" and "x \<in> set entries" and "tracks k x" and "0 \<le> tk_logIndex k"
  shows "ensures k P (writeLedgerEntries V entries us (Some e)) (\<lambda>_. settled_since k e)"
  unfolding ensures_def
proof (intro allI impI)
  fix w y w' assume w: "run_ok k w" and run: "writeLedgerEntries V entries us (Some e) w = (Inr y, w')"
  show "settled_since k e (w_db w')" using write_ledger_run [OF run w assms(1)] assms(2-4) by auto
qed

subsection \<open>One block\<close>

lemma ensures_throw: "ensures k P (throw x) Q"
  by (simp add: ensures_def throw_def)

lemma keeping_events: "keeping k (index_events G X b ls)"
proof -
  have "\<forall>x \<in> set (block_entries X ls). lr_blockHash x \<noteq> None" by (auto simp: block_entries_def log_entry_def)
  then have ledger: "keeping k (whenA c (bindA (writeLedgerEntries V (block_entries X ls) us (Some e)) (\<lambda>_. ret ())))" for c V us e
    by (intro dep.guar_whenA dep.guar_bindA dep.guar_calm keeping_ledger)
  show ?thesis
    unfolding index_events_def run_journal_def Let_def
    by (auto simp only: split: if_split intro!: ledger keeping_journal keeping_projection dep.guar_bindA dep.guar_calm dep.guar_forA dep.guar_whenA
      keeping_refresh journal_input.simps)
qed

lemma keeping_block: "keeping k (index_block G users ls)"
  unfolding index_block_def Let_def
  by (auto intro!: dep.guar_bindA dep.guar_calm keeping_evidence keeping_events)

lemma ensures_events:
  assumes "l \<in> set ls" and "relevant X l" and "deposit X l" and "tracks k (log_entry X l)" and "0 \<le> tk_logIndex k"
  shows "ensures k P (index_events G X b ls) (\<lambda>_. settled_since k (ir_epoch G))"
proof -
  have entry: "log_entry X l \<in> set (block_entries X ls)" and event: "log_event X l \<in> set (block_events X ls)"
    using assms(1-3) by (auto simp: block_entries_def block_events_def)
  have hash: "\<forall>x \<in> set (block_entries X ls). lr_blockHash x \<noteq> None" by (auto simp: block_entries_def log_entry_def)
  note ledger = keeping_ledger [OF hash] and written = ensures_ledger [OF hash entry assms(4,5)]
  have "ensures k Q (bindA (whenA (block_entries X ls \<noteq> []) (bindA (writeLedgerEntries (ir_viem G) (block_entries X ls) us (Some (ir_epoch G))) (\<lambda>_. ret ()))) f)
      (\<lambda>_. settled_since k (ir_epoch G))" if "\<And>x. keeping k (f x)" for Q us f
  proof -
    have "ensures k Q (bindA (writeLedgerEntries (ir_viem G) (block_entries X ls) us (Some (ir_epoch G))) (\<lambda>_. ret ()))
        (\<lambda>_. settled_since k (ir_epoch G))"
      by (rule ensures_first [OF ledger written]) (auto intro: dep.guar_calm settled_stable)
    moreover have "block_entries X ls \<noteq> []" using entry by auto
    ultimately show ?thesis
      using that by (intro ensures_first settled_stable) (auto simp: whenA_def intro!: dep.guar_bindA dep.guar_calm ledger)
  qed
  note step = this
  have "ensures k (\<lambda>_. True) (index_events G X b ls) (\<lambda>_. settled_since k (ir_epoch G))"
  proof (cases "date_range (bx_timestamp X * 1000)")
    case True
    have ne: "block_events X ls \<noteq> []" using event by auto
    show ?thesis
      unfolding index_events_def Let_def run_journal_def
      using True ne
      by (auto intro!: ensures_later keeping_journal keeping_projection step dep.guar_bindA dep.guar_forA dep.guar_whenA dep.guar_calm keeping_refresh)
  next
    case False
    then show ?thesis using entry unfolding index_events_def Let_def by (auto simp: ensures_throw)
  qed
  then show ?thesis by (rule ensures_weaken) simp_all
qed

text \<open>A transfer that is the deposit.\<close>

definition deposit_log :: "indexer_run \<Rightarrow> tracked \<Rightarrow> transfer_log \<Rightarrow> bool" where
  "deposit_log G k l \<longleftrightarrow> log_to l = tk_wallet k \<and> log_from l = tk_sender k \<and> tl_txHash l = Some (tk_txHash k) \<and> tl_logIndex l = Some (tk_logIndex k) \<and>
     0 \<le> tk_logIndex k \<and> 0 \<le> log_value l \<and> tc_symbol (ir_token G) = tk_token k \<and> an_chainId (ir_network G) = tk_chainId k \<and> tk_uid k \<noteq> [] \<and>
     wallet_shape (tk_wallet k) \<and> tk_sender k \<notin> internalTransferSenderAddresses (ir_viem G) (ir_env G)"

definition users_answer :: "tracked \<Rightarrow> (string \<times> string) list \<Rightarrow> bool" where
  "users_answer k users \<longleftrightarrow> by_wallet users (tk_wallet k) = Some (tk_uid k) \<and> by_wallet users (tk_sender k) = None"

lemma ensures_block:
  assumes "l \<in> set ls" and "groupable l" and "deposit_log G k l" and "users_answer k users"
    and "toLowerCase (tl_address l) = toLowerCase (token_address (ir_token G))"
  shows "ensures k P (index_block G users ls) (\<lambda>_. settled_since k (ir_epoch G))"
proof -
  have events: "ensures k Q (index_events G (run_context G users n h b ev t) j ls) (\<lambda>_. settled_since k (ir_epoch G))" for Q n h b ev t j
  proof (rule ensures_events [OF assms(1)])
    let ?X = "run_context G users n h b ev t"
    have users: "user_at ?X (log_to l) = Some (tk_uid k)" "user_at ?X (log_from l) = None"
      using assms(3,4) by (simp_all add: user_at_def run_context_def deposit_log_def users_answer_def)
    show "relevant ?X l"
      using assms(2,3,5) users by (auto simp: relevant_def groupable_def run_context_def log_accounts_def deposit_log_def Let_def)
    show "deposit ?X l" using users assms(3) by (simp add: deposit_def deposit_log_def run_context_def)
    show "tracks k (log_entry ?X l)" using users assms(3) by (simp add: tracks_def log_entry_def deposit_log_def run_context_def)
    show "0 \<le> tk_logIndex k" using assms(3) by (simp add: deposit_log_def)
  qed
  have last: "ensures k Q (bindA (index_events G (run_context G users n h b ev t) j ls) (\<lambda>_. ret ())) (\<lambda>_. settled_since k (ir_epoch G))"
    for Q n h b ev t j
    by (rule ensures_first [OF keeping_events events]) (rule dep.guar_calm, rule settled_stable)
  have "ensures k (\<lambda>_. True) (index_block G users ls) (\<lambda>_. settled_since k (ir_epoch G))"
    unfolding index_block_def Let_def
  proof (rule ensures_later)
    show "keeping k (extcall (nd_blockByHash (ir_node G) (the (tl_blockHash (hd ls)))) ''getBlock'')" by (rule dep.guar_calm)
    show "ensures k (\<lambda>_. True) (if \<not> block_matches (the (tl_blockNumber (hd ls))) (the (tl_blockHash (hd ls))) b
        then throw (Thrown ''RPC log block evidence did not match its block header'')
        else bindA date_now (\<lambda>observedAt.
          bindA (getArbitrumBlockEvidence (ir_env G) (ir_node G) (the (tl_blockNumber (hd ls))) (the (tl_blockHash (hd ls)))) (\<lambda>ev.
          bindA (index_events G (run_context G users (the (tl_blockNumber (hd ls))) (the (tl_blockHash (hd ls))) b ev observedAt)
            (run_block G (the (tl_blockNumber (hd ls))) (the (tl_blockHash (hd ls))) b ev observedAt) ls) (\<lambda>_. ret ()))))
        (\<lambda>_. settled_since k (ir_epoch G))" for b
      by (cases "block_matches (the (tl_blockNumber (hd ls))) (the (tl_blockHash (hd ls))) b")
        (simp_all only: if_True if_False not_True_eq_False not_False_eq_True, (intro last ensures_later dep.guar_calm keeping_evidence ensures_throw)+)
  qed
  then show ?thesis by (rule ensures_weaken) simp_all
qed

subsection \<open>The users of a window\<close>

declare chunks.simps [simp del]

lemma list_all2_left: "list_all2 P xs ys \<Longrightarrow> x \<in> set xs \<Longrightarrow> \<exists>y \<in> set ys. P x y"
  by (induction rule: list_all2_induct) auto

lemma list_all2_right: "list_all2 P xs ys \<Longrightarrow> y \<in> set ys \<Longrightarrow> \<exists>x \<in> set xs. P x y"
  by (induction rule: list_all2_induct) auto

lemma set_unique [simp]: "set (unique xs) = set xs"
  by (simp add: unique_def)

definition answer_of :: "tracked \<Rightarrow> string list \<Rightarrow> (string \<times> string) list \<Rightarrow> bool" where
  "answer_of k chunk users \<longleftrightarrow> (tk_wallet k \<in> set chunk \<longrightarrow> (tk_uid k, tk_wallet k) \<in> set users) \<and>
     (\<forall>(u, x) \<in> set users. x \<in> set chunk \<and> (x = tk_wallet k \<longrightarrow> u = tk_uid k) \<and> x \<noteq> tk_sender k)"

lemma users_with_answer: "recipient_known k d \<Longrightarrow> answer_of k chunk (users_with chunk d)"
  by (fastforce simp: recipient_known_def answer_of_def users_with_def List.map_filter_def image_iff split: option.splits if_splits)

lemma recipient_stable: "stable (keeps_deposit k) (recipient_known k)"
  by (simp add: stable_def keeps_deposit_def)

lemma ensures_chunks:
  "ensures k (recipient_known k) (mapA (\<lambda>chunk. dbq (users_with chunk)) cs) (\<lambda>rows d. recipient_known k d \<and> list_all2 (answer_of k) cs rows)"
proof (induction cs)
  case Nil
  then show ?case by (simp add: ensures_def ret_def)
next
  case (Cons c cs)
  have read: "ensures k (recipient_known k) (dbq (users_with c)) (\<lambda>x d. recipient_known k d \<and> answer_of k c x)"
    unfolding ensures_def
  proof (intro allI impI)
    fix w x w' assume w: "run_ok k w" "recipient_known k (w_db w)" and run: "dbq (users_with c) w = (Inr x, w')"
    have "recipient_known k (w_db w')"
      using keeping_step [OF dep.guar_calm(5) w(1), where r = "Inr x" and w' = w'] run w(2) by (simp add: keeps_deposit_def)
    moreover have "x = users_with c (w_db w')" using run by (auto simp: dbq_def Let_def)
    ultimately show "recipient_known k (w_db w') \<and> answer_of k c x" using users_with_answer by blast
  qed
  have rest: "ensures k (\<lambda>d. recipient_known k d \<and> answer_of k c x) (bindA (mapA (\<lambda>chunk. dbq (users_with chunk)) cs) (\<lambda>ys. ret (x # ys)))
      (\<lambda>rows d. recipient_known k d \<and> list_all2 (answer_of k) (c # cs) rows)" for x
    unfolding ensures_def
  proof (intro allI impI)
    fix w rows w' assume w: "run_ok k w" "recipient_known k (w_db w) \<and> answer_of k c x"
      and run: "bindA (mapA (\<lambda>chunk. dbq (users_with chunk)) cs) (\<lambda>ys. ret (x # ys)) w = (Inr rows, w')"
    obtain ys where "mapA (\<lambda>chunk. dbq (users_with chunk)) cs w = (Inr ys, w')" "rows = x # ys"
      using bindA_InrD [OF run] by (auto simp: ret_def)
    then show "recipient_known k (w_db w') \<and> list_all2 (answer_of k) (c # cs) rows"
      using Cons w unfolding ensures_def by auto
  qed
  show ?case unfolding mapA.simps by (rule ensures_bind [OF _ read rest]) (rule dep.guar_calm)
qed

lemma map_of_all:
  assumes "(x, u) \<in> set ps" and "\<And>v. (x, v) \<in> set ps \<Longrightarrow> v = u"
  shows "map_of ps x = Some u"
proof -
  have "x \<in> fst ` set ps" using assms(1) image_eqI [of x fst "(x, u)" "set ps"] by simp
  then have "map_of ps x \<noteq> None" by (simp add: map_of_eq_None_iff)
  then obtain v where v: "map_of ps x = Some v" by blast
  then show ?thesis using assms(2) [OF map_of_SomeD [OF v]] by simp
qed

lemma answers_all:
  assumes "list_all2 (answer_of k) cs rows" and "tk_wallet k \<in> set (concat cs)" and "\<forall>x \<in> set (concat cs). toLowerCase x = x"
  shows "users_answer k (concat rows)"
proof -
  have each: "x \<in> set (concat cs) \<and> (x = tk_wallet k \<longrightarrow> u = tk_uid k) \<and> x \<noteq> tk_sender k" if mem: "(u, x) \<in> set (concat rows)" for u x
  proof -
    obtain us where us: "us \<in> set rows" "(u, x) \<in> set us" using mem by auto
    obtain c where c: "c \<in> set cs" "answer_of k c us" using list_all2_right [OF assms(1)] us(1) by blast
    show ?thesis using c us(2) unfolding answer_of_def by auto
  qed
  obtain c where c: "c \<in> set cs" "tk_wallet k \<in> set c" using assms(2) by auto
  obtain us where us: "us \<in> set rows" "answer_of k c us" using list_all2_left [OF assms(1)] c(1) by blast
  have member: "(tk_uid k, tk_wallet k) \<in> set (concat rows)" using us c(2) unfolding answer_of_def by auto
  have low: "toLowerCase x = x" if "(u, x) \<in> set (concat rows)" for u x using each [OF that] assms(3) by blast
  define ps where "ps = rev (map (\<lambda>(uid, x). (toLowerCase x, uid)) (concat rows))"
  have pairs: "(x, u) \<in> set ps \<longleftrightarrow> (u, x) \<in> set (concat rows)" for x u
  proof
    assume "(x, u) \<in> set ps"
    then obtain y where "(u, y) \<in> set (concat rows)" "x = toLowerCase y" by (auto simp: ps_def simp del: set_concat)
    then show "(u, x) \<in> set (concat rows)" using low by simp
  next
    assume "(u, x) \<in> set (concat rows)"
    then have "(toLowerCase x, u) \<in> set ps" by (force simp: ps_def simp del: set_concat)
    then show "(x, u) \<in> set ps" using low \<open>(u, x) \<in> set (concat rows)\<close> by simp
  qed
  have "map_of ps (tk_wallet k) = Some (tk_uid k)"
    by (rule map_of_all) (use pairs member each in blast)+
  moreover have "map_of ps (tk_sender k) = None"
  proof (rule ccontr)
    assume "map_of ps (tk_sender k) \<noteq> None"
    then obtain u where "(tk_sender k, u) \<in> set ps" using map_of_SomeD by (metis not_None_eq)
    then show False using pairs each by blast
  qed
  ultimately show ?thesis by (simp add: users_answer_def by_wallet_def ps_def)
qed

lemma ensures_users:
  assumes "tk_wallet k \<in> set (map toLowerCase addresses)" and "wallet_shape (tk_wallet k)"
  shows "ensures k (recipient_known k) (listUsersByWalletAddresses addresses) (\<lambda>users _. users_answer k users)"
proof -
  let ?cs = "chunks (unique (filter wallet_shape (map toLowerCase addresses))) 100"
  have cs: "set (concat ?cs) = {x \<in> set (map toLowerCase addresses). wallet_shape x}"
    using concat_chunks [of 100 "unique (filter wallet_shape (map toLowerCase addresses))"] by auto
  have answer: "users_answer k (concat rows)" if "list_all2 (answer_of k) ?cs rows" for rows
    by (rule answers_all [OF that]) (use cs assms in auto)
  show ?thesis
    unfolding ensures_def
  proof (intro allI impI)
    fix w users w' assume w: "run_ok k w" "recipient_known k (w_db w)" and run: "listUsersByWalletAddresses addresses w = (Inr users, w')"
    obtain rows where "mapA (\<lambda>chunk. dbq (users_with chunk)) ?cs w = (Inr rows, w')" "users = concat rows"
      using bindA_InrD [OF run [unfolded listUsersByWalletAddresses_def Let_def]] by (auto simp: ret_def)
    then show "users_answer k users" using ensures_chunks [of k ?cs] w answer unfolding ensures_def by blast
  qed
qed

lemma keeping_users: "keeping k (listUsersByWalletAddresses addresses)"
  unfolding listUsersByWalletAddresses_def Let_def by (auto intro!: dep.guar_bindA dep.guar_mapA dep.guar_calm)

subsection \<open>The logs of a window\<close>

lemma scan_success:
  assumes "scanLogsAdaptive opts W = Some (Inr st, ds)" and "so_fromBlock opts \<le> so_toBlock opts"
  shows "tiles (so_fromBlock opts) ds \<and> reached (so_fromBlock opts) ds = so_toBlock opts + 1 \<and> list_all (fetched_as opts W) ds"
proof -
  have spans: "spans_ok opts" and calls: "case so_maxCalls opts of None \<Rightarrow> True | Some m \<Rightarrow> isSafeInteger m \<and> 1 \<le> m"
    using assms by (auto simp: scanLogsAdaptive_def spans_ok_def split: if_splits option.splits)
  have s0: "scan_ok opts W (initial_state opts)"
    using assms(2) spans calls clamp_bounds [of "so_minBlockSpan opts" "so_maxBlockSpan opts"]
    by (auto simp: scan_ok_def initial_state_def spans_ok_def in_budget_def split: option.splits)
  obtain r s1 where run: "scan_while opts W (initial_state opts) = Some (r, s1)" "scan_ok opts W s1"
      "case r of Inl e \<Rightarrow> True | Inr _ \<Rightarrow> so_toBlock opts < sc_cursor s1"
    using scan_while_returns [OF spans s0] by blast
  have "scanLogsAdaptive opts W = Some (map_sum id (\<lambda>_. final_stats s1) r, sc_done s1)"
    using assms(2) spans calls run(1) by (auto simp: scanLogsAdaptive_def spans_ok_def split: option.splits)
  then show ?thesis using assms(1) run(2,3) by (cases r) (auto simp: scan_ok_def)
qed

lemma tiles_cover: "tiles a ds \<Longrightarrow> a \<le> n \<Longrightarrow> n < reached a ds \<Longrightarrow> \<exists>logs f t. (logs, f, t) \<in> set ds \<and> f \<le> n \<and> n \<le> t"
proof (induction a ds rule: tiles.induct)
  case (2 a logs f t ds)
  then show ?case by (cases "n \<le> t") fastforce+
qed simp

lemma tiles_bounds: "tiles a ds \<Longrightarrow> (logs, f, t) \<in> set ds \<Longrightarrow> a \<le> f \<and> f \<le> t \<and> t < reached a ds"
proof (induction a ds rule: tiles.induct)
  case (2 a ls g u ds)
  have "u + 1 \<le> reached (u + 1) ds" if "tiles (u + 1) ds"
    using that by (induction "u + 1" ds arbitrary: u rule: tiles.induct) fastforce+
  then show ?case using 2 by fastforce
qed simp

lemma try_providers_answer: "try_providers ask ps e = Inr logs \<Longrightarrow> \<exists>slot. ask slot = Inr logs"
  by (induction ask ps e rule: try_providers.induct) (auto split: sum.splits if_splits)

lemma requestLogs_answer: "requestLogs ps a b ask = Inr logs \<Longrightarrow> \<exists>slot. ask slot = Inr logs"
  unfolding requestLogs_def Let_def by (auto split: if_splits sum.splits prod.splits dest: try_providers_answer)

text \<open>
  The providers of the pool serve one chain: what a successful call answers are the transfers of its range to or from the wallets.
  A log has its block, its hashes and its position, and no two have the same identity.
\<close>

definition in_partition :: "indexer_run \<Rightarrow> transfer_log \<Rightarrow> bool" where
  "in_partition G l \<longleftrightarrow> toLowerCase (tl_address l) = toLowerCase (token_address (ir_token G)) \<and>
     (case tp_direction (ir_partition G) of TransferFrom \<Rightarrow> log_from l | TransferTo \<Rightarrow> log_to l) \<in> set (ir_wallets G)"

definition serves_chain :: "indexer_run \<Rightarrow> transfer_log set \<Rightarrow> bool" where
  "serves_chain G C \<longleftrightarrow> (\<forall>l \<in> C. groupable l) \<and> inj_on transferLogKey C \<and>
     (\<forall>slot t j a b logs. nd_logs (ir_node G) slot (token_address (ir_token G)) (tp_direction (ir_partition G)) (ir_wallets G) t j a b = Inr logs \<longrightarrow>
       set logs = {l \<in> C. in_partition G l \<and> a \<le> the (tl_blockNumber l) \<and> the (tl_blockNumber l) \<le> b})"

lemma groupable_key: "groupable l \<Longrightarrow> transferLogKey l \<noteq> None"
  by (auto simp: groupable_def transferLogKey_def)

lemma set_logs_by_identity:
  assumes "inj_on transferLogKey C" and "\<forall>l \<in> C. groupable l" and "set logs \<subseteq> C"
  shows "set (logs_by_identity logs) = set logs"
proof -
  have step: "set (set_log ls l) = insert l (set ls)" if "set ls \<subseteq> C" "l \<in> C" for ls l
  proof -
    have same: "transferLogKey x = transferLogKey l \<longleftrightarrow> x = l" if "x \<in> set ls" for x
      using assms(1) that \<open>set ls \<subseteq> C\<close> \<open>l \<in> C\<close> by (auto simp: inj_on_def)
    have key: "transferLogKey l \<noteq> None" using assms(2) that(2) groupable_key by blast
    show ?thesis
    proof (cases "l \<in> set ls")
      case True
      then have ex: "list_ex (\<lambda>x. transferLogKey x = transferLogKey l) ls" using same by (auto simp: list_ex_iff)
      have "upd (\<lambda>x. transferLogKey x = transferLogKey l) (\<lambda>_. l) ls = ls" unfolding upd_def using same by (intro map_idI) auto
      then show ?thesis using ex True key by (auto simp: set_log_def upsert_def)
    next
      case False
      then have "\<not> list_ex (\<lambda>x. transferLogKey x = transferLogKey l) ls" using same by (auto simp: list_ex_iff)
      then show ?thesis using key by (auto simp: set_log_def upsert_def)
    qed
  qed
  have "set (foldl set_log acc logs) = set acc \<union> set logs" if "set acc \<subseteq> C" "set logs \<subseteq> C" for acc
    using that
  proof (induction logs arbitrary: acc)
    case (Cons l logs)
    then show ?case using step [of acc l] by simp
  qed simp
  then show ?thesis using assms(3) by (simp add: logs_by_identity_def)
qed

lemma scan_window_logs:
  assumes chain: "serves_chain G C" and run: "scan_window G a z w = (Inr logs, w')" and az: "a \<le> z"
  shows "set logs = {l \<in> C. in_partition G l \<and> a \<le> the (tl_blockNumber l) \<and> the (tl_blockNumber l) \<le> z}"
proof -
  obtain t st ds where scan: "scanLogsAdaptive (scan_setup G a z) (log_source G t) = Some (Inr st, ds)" "logs = logs_by_identity (concat (map fst ds))"
    using run by (auto simp: scan_window_def bindA_def extcall_def Let_def throw_def ret_def split: option.splits sum.splits prod.splits)
  have ft: "so_fromBlock (scan_setup G a z) = a" "so_toBlock (scan_setup G a z) = z" by (simp_all add: scan_setup_def Let_def)
  note ok = scan_success [OF scan(1), unfolded ft, OF az]
  have range: "set ls = {l \<in> C. in_partition G l \<and> f \<le> the (tl_blockNumber l) \<and> the (tl_blockNumber l) \<le> u}" if "(ls, f, u) \<in> set ds" for ls f u
  proof -
    have "fetched_as (scan_setup G a z) (log_source G t) (ls, f, u)" using ok that by (auto simp: list_all_iff)
    then obtain j where "requestLogs (pool_providers (ir_viem G) (ir_env G)) f u
        (\<lambda>slot. nd_logs (ir_node G) slot (token_address (ir_token G)) (tp_direction (ir_partition G)) (ir_wallets G) t j f u) = Inr ls"
      unfolding fetched_as_def log_source_def by auto
    then obtain slot where ans:
        "nd_logs (ir_node G) slot (token_address (ir_token G)) (tp_direction (ir_partition G)) (ir_wallets G) t j f u = Inr ls"
      using requestLogs_answer by blast
    show ?thesis using conjunct2 [OF conjunct2 [OF chain [unfolded serves_chain_def]]] ans by blast
  qed
  have "set (concat (map fst ds)) = {l \<in> C. in_partition G l \<and> a \<le> the (tl_blockNumber l) \<and> the (tl_blockNumber l) \<le> z}" (is "?lhs = ?rhs")
  proof
    show "?lhs \<subseteq> ?rhs"
    proof
      fix l assume "l \<in> ?lhs"
      then obtain ls f u where d: "(ls, f, u) \<in> set ds" "l \<in> set ls" by auto
      have "a \<le> f \<and> u \<le> z" using tiles_bounds [OF conjunct1 [OF ok] d(1)] ok by auto
      then show "l \<in> ?rhs" using range [OF d(1)] d(2) by auto
    qed
    show "?rhs \<subseteq> ?lhs"
    proof
      fix l assume l: "l \<in> ?rhs"
      then obtain ls f u where d: "(ls, f, u) \<in> set ds" "f \<le> the (tl_blockNumber l)" "the (tl_blockNumber l) \<le> u"
        using tiles_cover [OF conjunct1 [OF ok], of "the (tl_blockNumber l)"] ok by auto
      then have "l \<in> set ls" using range [OF d(1)] l by auto
      then show "l \<in> ?lhs" using d(1) by force
    qed
  qed
  moreover have "?thesis = (set logs = set (concat (map fst ds)))" using calculation by simp
  moreover have "set logs = set (concat (map fst ds))"
    unfolding scan(2) by (rule set_logs_by_identity [of C]) (use chain calculation(1) in \<open>auto simp: serves_chain_def\<close>)
  ultimately show ?thesis by simp
qed

lemma keeping_scan: "keeping k (scan_window G a z)"
  unfolding scan_window_def by (auto intro!: dep.guar_bindA dep.guar_calm split: sum.splits prod.splits)

lemma group_of:
  assumes "l \<in> set logs" and "groupable l"
  shows "\<exists>g \<in> set (logs_by_block logs). l \<in> set g"
proof
  let ?g = "filter (\<lambda>x. block_of x = block_of l) (filter groupable logs)"
  show "?g \<in> set (logs_by_block logs)" using assms unfolding logs_by_block_def Let_def by (auto simp: image_iff)
  show "l \<in> set ?g" using assms by simp
qed

lemma committed_end:
  assumes "boundedEvidenceWindowEnd z logs m = Inr n" and "\<forall>l \<in> set logs. tl_blockNumber l \<noteq> None \<and> a \<le> the (tl_blockNumber l) \<and> the (tl_blockNumber l) \<le> z"
    and "a \<le> z"
  shows "a \<le> n \<and> n \<le> z"
proof -
  let ?bs = "sort (remdups (List.map_filter tl_blockNumber logs))"
  have all: "a \<le> x \<and> x \<le> z" if "x \<in> set ?bs" for x using that assms(2) by (auto simp: List.map_filter_def)
  show ?thesis
  proof (cases "m < int (length ?bs)")
    case True
    then have "n = ?bs ! nat (m - 1)" "nat (m - 1) < length ?bs"
      using assms(1) by (auto simp: boundedEvidenceWindowEnd_def Let_def split: if_splits)
    then show ?thesis using all nth_mem by metis
  next
    case False
    then have "n = z" using assms(1) by (auto simp: boundedEvidenceWindowEnd_def Let_def split: if_splits)
    then show ?thesis using assms(3) by simp
  qed
qed

lemma scan_end:
  assumes "boundedScanWindowEnd a h span 1 calls blocks = Inr z" and "a \<le> h" and "1 \<le> span" and "1 \<le> blocks"
  shows "a \<le> z \<and> z \<le> h \<and> z - a < blocks"
proof -
  have "1 \<le> span * max 1 (calls div 1)" using assms(3) by (simp add: mult_le_cancel_left1 zero_less_mult_iff int_one_le_iff_zero_less)
  then show ?thesis using assms by (auto simp: boundedScanWindowEnd_def Let_def split: if_splits)
qed

lemma config_bounds: "lo \<le> hi \<Longrightarrow> lo \<le> d \<Longrightarrow> lo \<le> boundedConfigInteger x d lo hi"
  by (auto simp: boundedConfigInteger_def split: option.splits)

lemma span_bounds: "1 \<le> snd (logRangeConfig env n)"
  by (simp add: logRangeConfig_def Let_def)

subsection \<open>The whole run\<close>

lemma keeping_checkpoint: "keeping k (index_checkpoint G n)"
  unfolding index_checkpoint_def run_journal_def
  by (auto simp only: split: if_split intro!: dep.guar_bindA dep.guar_calm keeping_evidence keeping_journal keeping_cursor journal_input.simps)

text \<open>The cursor moves under the epoch of the run, in the last step.\<close>

lemma cursor_moved:
  assumes "setSyncCursor key n (Some c) (Some e) w = (Inr x, w')"
  shows "epoch_of c (w_db w') = e \<and> find (\<lambda>r. sy_key r = key) (ad_cursors (w_db w')) \<noteq> None \<and>
    map_option sy_lastBlock (find (\<lambda>r. sy_key r = key) (ad_cursors (w_db w'))) = Some (string_of_int n)"
proof -
  obtain g w1 where g: "createChainEpochGuard c e w = (Inr g, w1)"
      "bindA date_now (\<lambda>now. bindA (dbb [guard_insert g, cursor_stmt key n now, guard_delete g]) (\<lambda>_. ret ())) w1 = (Inr x, w')"
    using bindA_InrD [OF assms [unfolded setSyncCursor_def prod.case option.case]] by auto
  have eg: "eg_chainId g = c" "eg_expectedEpoch g = e" using guard_run [OF g(1)] by auto
  obtain d ns where b: "batch [guard_insert g, cursor_stmt key n (w_now w1), guard_delete g] (w_db (await w1)) = Some (d, ns)" "w_db w' = d"
    using g(2) by (auto simp: bindA_def date_now_def dbb_def dbx_def Let_def ret_def split: option.splits)
  obtain d1 where d1: "guard_insert g (w_db (await w1)) = Some (d1, 1)" "ad_reorgStates d1 = ad_reorgStates (w_db (await w1))"
    using b(1) by (auto simp: guard_insert_def split: if_splits)
  have last: "d = fst (the (guard_delete g (fst (the (cursor_stmt key n (w_now w1) d1)))))"
    using b(1) d1(1) by (auto simp: cursor_stmt_def guard_delete_def plain_def split: option.splits)
  have cur: "find (\<lambda>r. sy_key r = key) (upsert (\<lambda>x. sy_key x = key) (\<lambda>x. r) r rows) = Some r" if "sy_key r = key" for r rows
  proof (cases "list_ex (\<lambda>x. sy_key x = key) rows")
    case True
    then have "upsert (\<lambda>x. sy_key x = key) (\<lambda>x. r) r rows = upd (\<lambda>x. sy_key x = key) (\<lambda>x. r) rows" by (simp add: upsert_def)
    moreover have "find (\<lambda>r. sy_key r = key) (upd (\<lambda>x. sy_key x = key) (\<lambda>x. r) rows) = Some r"
      using True that by (induction rows) (auto simp: upd_simps)
    ultimately show ?thesis by simp
  next
    case False
    then have "find (\<lambda>r. sy_key r = key) (rows @ [r]) = Some r" using that by (induction rows) auto
    then show ?thesis using False by (simp add: upsert_def)
  qed
  have "epoch_of c d = e"
    using guard_insert_run [OF d1(1)] eg d1(2) last by (simp add: epoch_of_def cursor_stmt_def guard_delete_def plain_def Let_def)
  then show ?thesis using b(2) last by (simp add: cursor_stmt_def guard_delete_def plain_def Let_def cur)
qed

lemma checkpoint_moves:
  assumes "index_checkpoint G n w = (Inr x, w')"
  shows "epoch_of (an_chainId (ir_network G)) (w_db w') = ir_epoch G \<and>
    map_option sy_lastBlock (find (\<lambda>r. sy_key r = ir_cursorKey G) (ad_cursors (w_db w'))) = Some (string_of_int n)"
proof -
  obtain w1 where "setSyncCursor (ir_cursorKey G) n (Some (an_chainId (ir_network G))) (Some (ir_epoch G)) w1 = (Inr x, w')"
    using assms unfolding index_checkpoint_def
    by (auto simp: bindA_def throw_def split: prod.splits sum.splits if_splits)
  then show ?thesis using cursor_moved by blast
qed

lemma range_run:
  assumes run: "index_range G a h w = (Inr n, w')" and ah: "a \<le> h" and chain: "serves_chain G C"
  shows "a \<le> n \<and> n \<le> h \<and> n - a < maxBlocksPerJob (ir_env G) \<and>
    map_option sy_lastBlock (find (\<lambda>r. sy_key r = ir_cursorKey G) (ad_cursors (w_db w'))) = Some (string_of_int n) \<and>
    (run_ok k w \<and> recipient_known k (w_db w) \<longrightarrow> (\<forall>l \<in> C. in_partition G l \<and> deposit_log G k l \<and> a \<le> the (tl_blockNumber l) \<and>
      the (tl_blockNumber l) \<le> n \<longrightarrow> in_ledger k (w_db w')))"
proof -
  let ?span = "snd (logRangeConfig (ir_env G) (pool_maxLogRange (pool_providers (ir_viem G) (ir_env G))))"
  obtain z logs w1 users w2 w3 where
      z: "boundedScanWindowEnd a h ?span 1 (maxLogCallsPerJob (ir_env G)) (maxBlocksPerJob (ir_env G)) = Inr z" and
      scan: "scan_window G a z w = (Inr logs, w1)" and
      n: "boundedEvidenceWindowEnd z logs (maxEventBlocksPerJob (ir_env G)) = Inr n" and
      users: "listUsersByWalletAddresses (wallet_texts (committed_logs logs n)) w1 = (Inr users, w2)" and
      blocks: "forA (index_block G users) (logs_by_block (committed_logs logs n)) w2 = (Inr (), w3)" and
      check: "index_checkpoint G n w3 = (Inr (), w')"
    using run unfolding index_range_def Let_def
    by (auto simp: bindA_def liftE_def ret_def split: prod.splits sum.splits)
  have "1 \<le> maxBlocksPerJob (ir_env G)" by (simp add: maxBlocksPerJob_def config_bounds DEFAULT_MAX_BLOCKS_PER_RUN_def)
  then have az: "a \<le> z" "z \<le> h" "z - a < maxBlocksPerJob (ir_env G)" using scan_end [OF z ah span_bounds] by auto
  note logs = scan_window_logs [OF chain scan az(1)]
  have "\<forall>l \<in> set logs. tl_blockNumber l \<noteq> None \<and> a \<le> the (tl_blockNumber l) \<and> the (tl_blockNumber l) \<le> z"
    using logs chain by (auto simp: serves_chain_def groupable_def)
  note bounds = committed_end [OF n this az(1)]
  have ledger: "in_ledger k (w_db w')" if w: "run_ok k w" "recipient_known k (w_db w)" and l: "l \<in> C" "in_partition G l" "deposit_log G k l"
      "a \<le> the (tl_blockNumber l)" "the (tl_blockNumber l) \<le> n" for l
  proof -
    have g: "groupable l" using chain l(1) by (simp add: serves_chain_def)
    then have com: "l \<in> set (committed_logs logs n)"
      using logs l bounds by (auto simp: committed_logs_def groupable_def)
    have k1: "run_ok k w1" "recipient_known k (w_db w1)"
      using keeping_step [OF keeping_scan w(1) scan] w(2) by (simp_all add: keeps_deposit_def)
    have "(case tl_to l of None \<Rightarrow> [] | Some s \<Rightarrow> s) \<in> set (wallet_texts (committed_logs logs n))"
      using com by (auto simp: wallet_texts_def)
    then have "tk_wallet k \<in> set (map toLowerCase (wallet_texts (committed_logs logs n)))"
      using l(3) unfolding deposit_log_def log_to_def by (metis image_eqI list.set_map)
    then have ans: "users_answer k users"
      using ensures_users l(3) k1 users unfolding ensures_def deposit_log_def by blast
    have k2: "run_ok k w2" using keeping_step [OF keeping_users k1(1) users] by simp
    obtain ls where ls: "ls \<in> set (logs_by_block (committed_logs logs n))" "l \<in> set ls" using group_of [OF com g] by blast
    have "ensures k (\<lambda>_. True) (forA (index_block G users) (logs_by_block (committed_logs logs n))) (\<lambda>_. settled_since k (ir_epoch G))"
      by (rule ensures_forA [OF ls(1)]) (use ensures_block [OF ls(2) g l(3) ans] l(2) keeping_block settled_stable in \<open>auto simp: in_partition_def\<close>)
    then have "settled_since k (ir_epoch G) (w_db w3)" using k2 blocks unfolding ensures_def by blast
    moreover have all: "keeping k (forA (index_block G users) (logs_by_block (committed_logs logs n)))" by (intro dep.guar_forA keeping_block)
    have "run_ok k w3" using keeping_step [OF all k2 blocks] by simp
    ultimately have "settled_since k (ir_epoch G) (w_db w')"
      using keeping_step [OF keeping_checkpoint _ check] settled_stable unfolding stable_def by blast
    then show ?thesis using checkpoint_moves [OF check] l(3) by (auto simp: settled_since_def deposit_log_def)
  qed
  show ?thesis using bounds az checkpoint_moves [OF check] ledger by auto
qed

text \<open>
  C36: no deposit is lost.  Let the providers serve one chain, let interference only take rows of the ledger away together with a new
  epoch, and let a transfer in the partition of the run pay a wallet that belongs to one user, from an address that is neither
  a user's nor the service's.  When a run returns a cursor at or above the transfer's block, having started at or below it, then
  the deposit has its canonical row in the ledger, and the cursor is the one that is stored.
\<close>
theorem deposits_credited:
  assumes "index_window G cursor scanHead targetBlock w = (Inr r, w')"
    and "serves_chain G C" and "l \<in> C" and "in_partition G l" and "deposit_log G k l"
    and "first_block cursor scanHead \<le> the (tl_blockNumber l)" and "the (tl_blockNumber l) \<le> ix_cursor r"
    and "holds_at fresh_ledger_ids (w_ix w) w" and "env_ok fresh_ledger_ids (keeps_deposit k) w" and "recipient_known k (w_db w)"
  shows "in_ledger k (w_db w') \<and>
    map_option sy_lastBlock (find (\<lambda>x. sy_key x = ir_cursorKey G) (ad_cursors (w_db w'))) = Some (string_of_int (ix_cursor r))"
proof -
  have head: "first_block cursor scanHead \<le> scanHead"
    using assms(1,6,7) by (auto simp: index_window_def Let_def ret_def first_block_def BACKFILL_BLOCKS_def split: option.splits if_splits)
  then obtain n where n: "index_range G (first_block cursor scanHead) scanHead w = (Inr n, w')" "ix_cursor r = n"
    using assms(1) by (auto simp: index_window_def Let_def bindA_def ret_def split: prod.splits sum.splits)
  show ?thesis using range_run [OF n(1) head assms(2), of k] assms(3-10) n(2) by (auto simp: run_ok_def)
qed

text \<open>
  C37: a run makes progress within its bounds.  When a run that had a block to read returns, its cursor is at or past that block, not
  past the head it scans to, and no further than the configured number of blocks.
\<close>
theorem window_advances:
  assumes "index_window G cursor scanHead targetBlock w = (Inr r, w')"
    and "serves_chain G C" and "first_block cursor scanHead \<le> scanHead"
  shows "first_block cursor scanHead \<le> ix_cursor r \<and> ix_cursor r \<le> scanHead \<and>
    ix_cursor r < first_block cursor scanHead + maxBlocksPerJob (ir_env G)"
proof -
  obtain n where n: "index_range G (first_block cursor scanHead) scanHead w = (Inr n, w')" "ix_cursor r = n"
    using assms(1,3) by (auto simp: index_window_def Let_def bindA_def ret_def split: prod.splits sum.splits)
  then show ?thesis using range_run [OF n(1) assms(3,2)] by (metis diff_less_eq add.commute)
qed

subsection \<open>A concrete run\<close>

definition payee :: string where "payee = ''0x'' @ replicate 40 (CHR ''a'')"

definition payer :: string where "payer = ''0x'' @ replicate 40 (CHR ''b'')"

definition usdc :: string where "usdc = ''0x75faf114eafb1bdbe2f0316df893fd58ce46aa4d''"

definition sample_transfer :: transfer_log where
  "sample_transfer = \<lparr>tl_address = usdc, tl_from = Some payer, tl_to = Some payee, tl_value = Some 25, tl_blockHash = Some ''0xb7'',
     tl_blockNumber = Some 7, tl_logIndex = Some 3, tl_txHash = Some ''0xt1'', tl_transactionIndex = Some 0, tl_topics = [''0xdd''], tl_removed = False\<rparr>"

definition sample_block :: "int \<Rightarrow> string \<Rightarrow> node_block" where
  "sample_block n h = \<lparr>nb_number = Some n, nb_hash = Some h, nb_parentHash = ''0xb0'', nb_timestamp = 1700\<rparr>"

definition sample_node :: node_services where
  "sample_node = \<lparr>nd_blockNumber = (\<lambda>_. Some 100), nd_safeNumber = (\<lambda>_. Some (Some 9)),
     nd_blockByHash = (\<lambda>h _. if h = ''0xb7'' then Some (sample_block 7 h) else None), nd_blockByNumber = (\<lambda>n _. Some (sample_block n ''0xb9'')),
     nd_l1Confirmations = (\<lambda>_ _. None), nd_batchNumber = (\<lambda>_ _. None),
     nd_logs = (\<lambda>_ _ dir ws _ _ a b. Inr (if dir = TransferTo \<and> payee \<in> set ws \<and> a \<le> 7 \<and> 7 \<le> b then [sample_transfer] else []))\<rparr>"

definition indexer_env :: app_env where
  "indexer_env = \<lparr>ve_chainKey = None, ve_rpcUrl = Some ''https://rpc'', ve_readUrls = None, ve_writeUrls = None, ve_indexerUrls = None,
     ve_archiveUrls = None, ve_bundlerUrls = None, ve_paymaster = None, ve_enabledKeys = None, ve_walletRailKeys = None, ve_cctpRpcUrls = None,
     ve_appRpcUrls = None, ve_capabilities = None, ve_maxBlockRange = None, ve_minBlockRange = None, ve_maxCalls = None, ve_maxBlocks = None,
     ve_maxEventBlocks = None, ve_l1Confirmations = None, ve_shardSize = None, ve_privateKey = ''0xkey'', ve_faucetKey = None\<rparr>"

definition sample_tracked :: tracked where
  "sample_tracked = \<lparr>tk_chainId = 421614, tk_uid = ''u1'', tk_wallet = payee, tk_sender = payer, tk_txHash = ''0xt1'', tk_logIndex = 3,
     tk_token = ''USDC''\<rparr>"

definition sample_services :: app_services where
  "sample_services = \<lparr>as_iso = (\<lambda>_. []), as_env = \<lparr>ee_CHAIN_KEY = None, ee_EVENT_JOB_SCHEDULER = False, ee_SCHEDULED_JOBS_QUEUE = False\<rparr>,
     as_scheduler = (\<lambda>_. None), as_queue = (\<lambda>_. None)\<rparr>"

definition usdc_run :: indexer_run where
  "usdc_run = \<lparr>ir_viem = sample_viem, ir_services = sample_services, ir_node = sample_node, ir_env = indexer_env,
     ir_network = arbitrum_sepolia, ir_token = erc20 ''USDC'' ''USD Coin'' ''0x75faf114eafb1BDbe2F0316DF893fd58CE46AA4d'' 6,
     ir_partition = \<lparr>tp_token = usdc, tp_direction = TransferTo, tp_shard = 0\<rparr>, ir_wallets = [payee], ir_stream = ''s'', ir_cursorKey = ''c'',
     ir_epoch = 0, ir_source = SafeHead, ir_formatUnits = (\<lambda>n _. string_of_int n)\<rparr>"

definition sample_index_db :: app_db where
  "sample_index_db = empty_app_db\<lparr>ad_users := [\<lparr>au_uid = ''u1'', au_wallet = Some payee\<rparr>, \<lparr>au_uid = ''u2'', au_wallet = None\<rparr>]\<rparr>"

definition sample_index_world :: "(app_db, app_event) world" where
  "sample_index_world = \<lparr>w_db = sample_index_db, w_now = 1000, w_env = [(250, \<lambda>d. d)], w_uuid = (\<lambda>n. replicate n (CHR ''u'')), w_ix = 0, w_sent = []\<rparr>"

definition sample_answered :: "(app_db, app_event) world" where
  "sample_answered = sample_index_world\<lparr>w_now := 1250, w_env := []\<rparr>"

definition sample_indexed :: "(app_db, app_event) world" where
  "sample_indexed = snd (index_block usdc_run [(''u1'', payee)] [sample_transfer] sample_answered)"

lemma sample_scan: "(case scanLogsAdaptive (scan_setup usdc_run 6 9) (log_source usdc_run 1250) of
    Some (Inr st, ds) \<Rightarrow> ds = [([sample_transfer], 6, 9)] | _ \<Rightarrow> False)"
  by code_simp

lemma sample_users: "fst (listUsersByWalletAddresses (wallet_texts [sample_transfer]) sample_answered) = Inr [(''u1'', payee)]"
  by code_simp

lemma sample_block_done: "fst (index_block usdc_run [(''u1'', payee)] [sample_transfer] sample_answered) = Inr ()"
  by code_simp

lemma sample_checkpoint_done: "fst (index_checkpoint usdc_run 9 sample_indexed) = Inr ()"
  by code_simp

lemma sample_bounds:
  "boundedScanWindowEnd 6 9 (snd (logRangeConfig (ir_env usdc_run) (pool_maxLogRange (pool_providers (ir_viem usdc_run) (ir_env usdc_run)))))
     1 (maxLogCallsPerJob (ir_env usdc_run)) (maxBlocksPerJob (ir_env usdc_run)) = Inr 9"
  "boundedEvidenceWindowEnd 9 [sample_transfer] (maxEventBlocksPerJob (ir_env usdc_run)) = Inr 9"
  "committed_logs [sample_transfer] 9 = [sample_transfer]" "logs_by_identity [sample_transfer] = [sample_transfer]"
  "logs_by_block [sample_transfer] = [[sample_transfer]]"
  by code_simp+

lemma quiet_users: "w_env w = [] \<Longrightarrow> snd (listUsersByWalletAddresses addresses w) = w"
proof -
  assume w: "w_env w = []"
  have "snd (mapA (\<lambda>chunk. dbq (users_with chunk)) cs w) = w \<and> (\<exists>x. fst (mapA (\<lambda>chunk. dbq (users_with chunk)) cs w) = Inr x)" for cs
    using w by (induction cs) (auto simp: ret_def bindA_def dbq_def split: prod.splits sum.splits)
  then show ?thesis
    unfolding listUsersByWalletAddresses_def Let_def by (auto simp: bindA_def ret_def split: prod.splits sum.splits)
      (metis snd_conv)+
qed

lemma sample_window:
  "fst (index_window usdc_run (Some 5) 9 None sample_index_world) = Inr \<lparr>ix_cursor = 9, ix_target = 9, ix_scanHead = 9, ix_caughtUp = True\<rparr>"
proof -
  obtain r ds where r: "scanLogsAdaptive (scan_setup usdc_run 6 9) (log_source usdc_run 1250) = Some (r, ds)"
    using sample_scan by (auto split: option.splits)
  then obtain st where "scanLogsAdaptive (scan_setup usdc_run 6 9) (log_source usdc_run 1250) = Some (Inr st, [([sample_transfer], 6, 9)])"
    using sample_scan by (cases r) auto
  then have scan: "scan_window usdc_run 6 9 sample_index_world = (Inr [sample_transfer], sample_answered)"
    by (simp add: scan_window_def bindA_def extcall_def await_def sample_index_world_def sample_answered_def ret_def sample_bounds(4))
  have quiet: "snd (listUsersByWalletAddresses (wallet_texts [sample_transfer]) sample_answered) = sample_answered"
    by (rule quiet_users) (simp add: sample_answered_def)
  have users: "listUsersByWalletAddresses (wallet_texts [sample_transfer]) sample_answered = (Inr [(''u1'', payee)], sample_answered)"
    by (rule prod_eqI) (simp_all only: sample_users fst_conv snd_conv quiet)
  have block: "index_block usdc_run [(''u1'', payee)] [sample_transfer] sample_answered = (Inr (), sample_indexed)"
    using sample_block_done by (simp add: sample_indexed_def prod_eq_iff)
  obtain w where check: "index_checkpoint usdc_run 9 sample_indexed = (Inr (), w)"
    using sample_checkpoint_done by (metis prod.collapse)
  show ?thesis
    by (simp add: index_window_def first_block_def index_range_def bindA_def liftE_def ret_def Let_def sample_bounds scan users block check)
qed

lemma usdc_chain: "serves_chain usdc_run {sample_transfer}"
  unfolding serves_chain_def
proof (intro conjI allI impI)
  show "\<forall>l \<in> {sample_transfer}. groupable l" by code_simp
  have part: "in_partition usdc_run sample_transfer" by code_simp
  have n: "the (tl_blockNumber sample_transfer) = 7" by (simp add: sample_transfer_def)
  fix slot t j a b logs
  assume "nd_logs (ir_node usdc_run) slot (token_address (ir_token usdc_run)) (tp_direction (ir_partition usdc_run)) (ir_wallets usdc_run) t j a b = Inr logs"
  then have "logs = (if a \<le> 7 \<and> 7 \<le> b then [sample_transfer] else [])" by (auto simp: usdc_run_def sample_node_def)
  then show "set logs = {l \<in> {sample_transfer}. in_partition usdc_run l \<and> a \<le> the (tl_blockNumber l) \<and> the (tl_blockNumber l) \<le> b}"
    using part n by auto
qed simp

lemma sample_fresh: "holds_at fresh_ledger_ids (w_ix sample_index_world) sample_index_world"
proof -
  have "inj (\<lambda>n. replicate n (CHR ''u''))" by (rule injI) (metis length_replicate)
  then show ?thesis by (simp add: holds_at_def fresh_ledger_ids_def sample_index_world_def sample_index_db_def empty_app_db_def)
qed

lemma sample_calm: "env_ok fresh_ledger_ids (keeps_deposit sample_tracked) sample_index_world"
  using dep.R_refl by (simp add: env_ok_def sample_index_world_def)

lemma sample_known: "recipient_known sample_tracked (w_db sample_index_world)"
  by (simp add: recipient_known_def sample_index_world_def sample_index_db_def sample_tracked_def payee_def payer_def numeral_eq_Suc)

lemma sample_deposit: "deposit_log usdc_run sample_tracked sample_transfer"
  by code_simp

theorem deposits_credited_witness:
  "in_ledger sample_tracked (w_db (snd (index_window usdc_run (Some 5) 9 None sample_index_world))) \<and>
    map_option sy_lastBlock (find (\<lambda>x. sy_key x = ''c'') (ad_cursors (w_db (snd (index_window usdc_run (Some 5) 9 None sample_index_world))))) = Some ''9''"
proof -
  have run: "index_window usdc_run (Some 5) 9 None sample_index_world = (Inr \<lparr>ix_cursor = 9, ix_target = 9, ix_scanHead = 9, ix_caughtUp = True\<rparr>,
      snd (index_window usdc_run (Some 5) 9 None sample_index_world))"
    using sample_window by (metis prod.collapse)
  have nine: "string_of_int 9 = ''9''" by code_simp
  have part: "in_partition usdc_run sample_transfer" by code_simp
  have n: "the (tl_blockNumber sample_transfer) = 7" by (simp add: sample_transfer_def)
  show ?thesis
    using deposits_credited [OF run usdc_chain singletonI part sample_deposit _ _ sample_fresh sample_calm sample_known] n nine
    by (simp add: first_block_def usdc_run_def)
qed

theorem window_advances_witness:
  "6 \<le> ix_cursor (projr (fst (index_window usdc_run (Some 5) 9 None sample_index_world))) \<and>
    ix_cursor (projr (fst (index_window usdc_run (Some 5) 9 None sample_index_world))) \<le> 9"
proof -
  have run: "index_window usdc_run (Some 5) 9 None sample_index_world = (Inr \<lparr>ix_cursor = 9, ix_target = 9, ix_scanHead = 9, ix_caughtUp = True\<rparr>,
      snd (index_window usdc_run (Some 5) 9 None sample_index_world))"
    using sample_window by (metis prod.collapse)
  show ?thesis
    using window_advances [OF run usdc_chain] by (simp add: sample_window first_block_def)
qed

end
