(* ===== verification/ShardProps.thy ===== *)
theory ShardProps
  imports IndexerShards
begin

text \<open>
  What an assignment of a wallet does to the shards: capacities are kept, and no other wallet moves.
\<close>

definition deactivated :: "(assignment_row \<Rightarrow> bool) \<Rightarrow> int \<Rightarrow> app_db \<Rightarrow> app_db" where
  "deactivated p now d = d\<lparr>ad_assignments := upd p (\<lambda>a. a\<lparr>wl_active := False, wl_updatedAt := now\<rparr>) (ad_assignments d)\<rparr>"

lemma deactivate_run: "deactivate_stmt p now d = Some (deactivated p now d, hits p (ad_assignments d))"
  by (simp add: deactivate_stmt_def deactivated_def plain_def)

lemma filter_deactivated:
  "filter wl_active (upd p (\<lambda>a. a\<lparr>wl_active := False, wl_updatedAt := now\<rparr>) rows) = filter (\<lambda>a. wl_active a \<and> \<not> p a) rows"
  by (induction rows) (auto simp: upd_simps)

lemma load_filter: "load c s n d = length (filter (\<lambda>a. wl_chainId a = c \<and> wl_stream a = s \<and> wl_shard a = n) (filter wl_active (ad_assignments d)))"
  unfolding load_def by (rule arg_cong [where f = length]) (simp add: in_stream_def conj_commute conj_left_commute)

lemma length_filter_less: "length (filter (\<lambda>a. P a \<and> Q a) xs) \<le> length (filter P xs)"
  by (induction xs) auto

lemma load_deactivated: "load c s n (deactivated p now d) \<le> load c s n d"
proof -
  let ?q = "\<lambda>a. wl_chainId a = c \<and> wl_stream a = s \<and> wl_shard a = n"
  have "length (filter ?q (filter (\<lambda>a. wl_active a \<and> \<not> p a) xs)) \<le> length (filter ?q (filter wl_active xs))" for xs
    by (induction xs) auto
  then show ?thesis by (simp add: load_filter deactivated_def filter_deactivated)
qed

lemma distinct_filter_more: "distinct (map k (filter P xs)) \<Longrightarrow> distinct (map k (filter (\<lambda>x. P x \<and> Q x) xs))"
  by (induction xs) (auto split: if_splits)

lemma deactivated_ok:
  assumes "shards_ok d"
  shows "shards_ok (deactivated p now d)"
proof -
  have shards: "ad_shards (deactivated p now d) = ad_shards d" by (simp add: deactivated_def)
  have "int (load (sh_chainId s) (sh_stream s) (sh_id s) (deactivated p now d)) \<le> sh_maxWallets s" if "s \<in> set (ad_shards d)" for s
    using assms load_deactivated [of "sh_chainId s" "sh_stream s" "sh_id s" p now d] that by (auto simp: shards_ok_def)
  moreover have "distinct (map (\<lambda>a. (wl_chainId a, wl_stream a, wl_account a)) (filter wl_active (ad_assignments (deactivated p now d))))"
    using assms by (simp add: deactivated_def filter_deactivated shards_ok_def distinct_filter_more)
  moreover have "\<forall>a \<in> set (ad_assignments (deactivated p now d)). list_ex (same_shard (wl_chainId a) (wl_stream a) (wl_shard a)) (ad_shards d)"
    using assms by (auto simp: deactivated_def set_upd shards_ok_def)
  ultimately show ?thesis using assms unfolding shards_ok_def shards by blast
qed

lemma active_deactivated:
  "active_in c s (deactivated p now d) = {(wl_account a, wl_uid a, wl_shard a) |a. a \<in> set (ad_assignments d) \<and> in_stream c s a \<and> \<not> p a}"
  (is "?lhs = ?rhs")
proof
  show "?lhs \<subseteq> ?rhs" by (auto simp: active_in_def deactivated_def set_upd in_stream_def split: if_splits)
  show "?rhs \<subseteq> ?lhs"
  proof
    fix t assume "t \<in> ?rhs"
    then obtain a where a: "t = (wl_account a, wl_uid a, wl_shard a)" "a \<in> set (ad_assignments d)" "in_stream c s a" "\<not> p a" by auto
    then have "a \<in> set (ad_assignments (deactivated p now d))" by (auto simp: deactivated_def set_upd image_iff)
    then show "t \<in> ?lhs" using a unfolding active_in_def by blast
  qed
qed

text \<open>The choice of the shard.\<close>

definition roomy :: "assign_input \<Rightarrow> int \<Rightarrow> app_db \<Rightarrow> bool" where
  "roomy inp n d \<longleftrightarrow> shards_ok d \<and> (\<exists>s \<in> set (ad_shards d). same_shard (sa_chainId inp) (sa_stream inp) n s \<and>
     int (load (sa_chainId inp) (sa_stream inp) n d) < sh_maxWallets s)"

lemma next_shard_new: "s \<in> set (ad_shards d) \<Longrightarrow> sh_chainId s = c \<Longrightarrow> sh_stream s = t \<Longrightarrow> sh_id s < next_shard c t d"
proof -
  assume s: "s \<in> set (ad_shards d)" "sh_chainId s = c" "sh_stream s = t"
  let ?ss = "filter (\<lambda>s. sh_chainId s = c \<and> sh_stream s = t) (ad_shards d)"
  have mem: "s \<in> set ?ss" using s by simp
  then have "sh_id s \<le> Max (set (map sh_id ?ss))" by (intro Max_ge) auto
  then show ?thesis using mem unfolding next_shard_def by (cases ?ss) auto
qed

lemma choose_shard_run:
  assumes "shards_ok d" and "w_env w = []" and "w_db w = d" and "1 \<le> sa_maxWallets inp" and "choose_shard inp now w = (Inr n, w')"
  shows "w_env w' = [] \<and> roomy inp n (w_db w') \<and> ad_assignments (w_db w') = ad_assignments d"
proof (cases "free_shard (sa_chainId inp) (sa_stream inp) d")
  case (Some m)
  then have n: "n = m" "w' = w" using assms(2,3,5) by (auto simp: choose_shard_def bindA_def dbq_def Let_def ret_def)
  obtain s ss where s: "sort_key sh_id (filter (has_room (sa_chainId inp) (sa_stream inp) d) (ad_shards d)) = s # ss" "sh_id s = m"
    using Some by (auto simp: free_shard_def split: list.splits)
  have "s \<in> set (sort_key sh_id (filter (has_room (sa_chainId inp) (sa_stream inp) d) (ad_shards d)))" unfolding s(1) by simp
  then have "s \<in> set (ad_shards d)" "has_room (sa_chainId inp) (sa_stream inp) d s" "sh_id s = m" using s(2) by auto
  then show ?thesis using assms(1-3) n by (auto simp: roomy_def has_room_def same_shard_def)
next
  case None
  let ?c = "sa_chainId inp" and ?t = "sa_stream inp"
  let ?s = "\<lparr>sh_chainId = ?c, sh_stream = ?t, sh_id = next_shard ?c ?t d, sh_generation = 1, sh_maxWallets = sa_maxWallets inp,
           sh_status = ShardActive, sh_createdAt = now, sh_updatedAt = now\<rparr>"
  have new: "\<not> same_shard ?c ?t (next_shard ?c ?t d) s" if "s \<in> set (ad_shards d)" for s
    using next_shard_new [OF that refl refl] by (auto simp: same_shard_def)
  then have fresh: "\<forall>s \<in> set (ad_shards d). \<not> same_shard ?c ?t (next_shard ?c ?t d) s" by blast
  then have "\<not> list_ex (same_shard ?c ?t (next_shard ?c ?t d)) (ad_shards d)" by (auto simp: list_ex_iff)
  then have run: "n = next_shard ?c ?t d" "w' = w\<lparr>w_db := d\<lparr>ad_shards := ad_shards d @ [?s]\<rparr>\<rparr>"
    using assms(2,3,5) None by (auto simp: choose_shard_def bindA_def dbq_def dbx_def insert_shard_def Let_def ret_def)
  have empty: "load ?c ?t (next_shard ?c ?t d) d' = 0" if "ad_assignments d' = ad_assignments d" for d'
  proof -
    have "\<not> (in_stream ?c ?t a \<and> wl_shard a = next_shard ?c ?t d)" if "a \<in> set (ad_assignments d)" for a
      using assms(1) that new by (fastforce simp: shards_ok_def in_stream_def list_ex_iff)
    then show ?thesis using that by (simp add: load_def filter_empty_conv)
  qed
  have load: "load c t m (d\<lparr>ad_shards := ss\<rparr>) = load c t m d" for c t m ss by (simp add: load_def)
  have "shards_ok (w_db w')"
    using assms(1,4) fresh empty [of d] run(2) by (auto simp: shards_ok_def load same_shard_def list_ex_iff)
  then show ?thesis using run assms(2,4) empty [of "w_db w'"] by (auto simp: roomy_def same_shard_def)
qed

text \<open>The new row.\<close>

lemma insert_run:
  assumes ins: "insert_assignment a d = Some (d', k)" and ok: "shards_ok d"
    and room: "\<exists>s \<in> set (ad_shards d). same_shard (wl_chainId a) (wl_stream a) (wl_shard a) s \<and>
      int (load (wl_chainId a) (wl_stream a) (wl_shard a) d) < sh_maxWallets s" and act: "wl_active a"
  shows "shards_ok d' \<and> (\<forall>c s. active_in c s d' = active_in c s d \<union> (if wl_chainId a = c \<and> wl_stream a = s then {(wl_account a, wl_uid a, wl_shard a)} else {}))"
proof -
  have d': "d' = d\<lparr>ad_assignments := ad_assignments d @ [a]\<rparr>" and clash: "\<not> list_ex (assignment_clash a) (ad_assignments d)"
    and fk: "list_ex (same_shard (wl_chainId a) (wl_stream a) (wl_shard a)) (ad_shards d)"
    using ins by (auto simp: insert_assignment_def split: if_splits)
  have load: "load c s n d' = load c s n d + (if c = wl_chainId a \<and> s = wl_stream a \<and> n = wl_shard a then 1 else 0)" for c s n
    using act by (auto simp: load_def d' in_stream_def)
  have cap: "int (load (sh_chainId s) (sh_stream s) (sh_id s) d') \<le> sh_maxWallets s" if s: "s \<in> set (ad_shards d)" for s
  proof (cases "same_shard (wl_chainId a) (wl_stream a) (wl_shard a) s")
    case True
    obtain s' where s': "s' \<in> set (ad_shards d)" "same_shard (wl_chainId a) (wl_stream a) (wl_shard a) s'"
        "int (load (wl_chainId a) (wl_stream a) (wl_shard a) d) < sh_maxWallets s'" using room by blast
    have "s' = s" using ok s s'(1,2) True key_unique [of "\<lambda>s. (sh_chainId s, sh_stream s, sh_id s)" "ad_shards d" s' s]
      by (simp add: shards_ok_def same_shard_def)
    then show ?thesis using s'(3) True load by (auto simp: same_shard_def)
  next
    case False
    then show ?thesis using ok s load by (auto simp: shards_ok_def same_shard_def)
  qed
  have "distinct (map (\<lambda>a. (wl_chainId a, wl_stream a, wl_account a)) (filter wl_active (ad_assignments d')))"
    using ok clash act by (auto simp: d' shards_ok_def list_ex_iff assignment_clash_def)
  then have "shards_ok d'" using ok cap fk by (auto simp: shards_ok_def d')
  moreover have "active_in c s d' = active_in c s d \<union> (if wl_chainId a = c \<and> wl_stream a = s then {(wl_account a, wl_uid a, wl_shard a)} else {})" for c s
    using act by (auto simp: active_in_def d' in_stream_def)
  ultimately show ?thesis by blast
qed

text \<open>The wallet's own assignment.\<close>

lemma assign_new_run:
  assumes ok: "shards_ok d" and w: "w_env w = []" "w_db w = d" and cap: "1 \<le> sa_maxWallets inp" and run: "assign_new inp wallet now w = (Inr r, w')"
  defines "others \<equiv> {(x, u, n) \<in> active_in (sa_chainId inp) (sa_stream inp) d. x \<noteq> wallet}"
  shows "shards_ok (w_db w') \<and> r = assignment_of inp wallet (wa_shard r) \<and>
    active_in (sa_chainId inp) (sa_stream inp) (w_db w') = others \<union> {(wallet, sa_uid inp, wa_shard r)} \<and>
    (\<forall>c s. (c, s) \<noteq> (sa_chainId inp, sa_stream inp) \<longrightarrow> active_in c s (w_db w') = active_in c s d)"
proof -
  let ?c = "sa_chainId inp" and ?t = "sa_stream inp" and ?p = "holds_wallet inp wallet"
  let ?d1 = "deactivated ?p now d"
  let ?w1 = "w\<lparr>w_db := ?d1\<rparr>"
  obtain n w2 where choose: "choose_shard inp now ?w1 = (Inr n, w2)" and
    rest: "bindA (dbq (latest_version ?c ?t wallet)) (\<lambda>version.
       bindA (dbx (insert_assignment \<lparr>wl_chainId = ?c, wl_stream = ?t, wl_account = wallet, wl_uid = sa_uid inp, wl_shard = n,
         wl_version = version + 1, wl_active = True, wl_assignedAt = now, wl_updatedAt = now\<rparr>)) (\<lambda>_. ret (assignment_of inp wallet n))) w2 = (Inr r, w')"
    using run w unfolding assign_new_def Let_def
    by (auto simp: bindA_def dbx_def deactivate_run split: prod.splits sum.splits)
  note c = choose_shard_run [OF deactivated_ok [OF ok] _ _ cap choose]
  have w2: "w_env w2 = []" "roomy inp n (w_db w2)" "ad_assignments (w_db w2) = ad_assignments ?d1" using c w by auto
  let ?a = "\<lparr>wl_chainId = ?c, wl_stream = ?t, wl_account = wallet, wl_uid = sa_uid inp, wl_shard = n,
         wl_version = latest_version ?c ?t wallet (w_db w2) + 1, wl_active = True, wl_assignedAt = now, wl_updatedAt = now\<rparr>"
  obtain d3 k where ins: "insert_assignment ?a (w_db w2) = Some (d3, k)" "w' = w2\<lparr>w_db := d3\<rparr>" "r = assignment_of inp wallet n"
    using rest w2(1) by (auto simp: bindA_def dbq_def dbx_def ret_def split: option.splits)
  have "shards_ok (w_db w2)" "\<exists>s \<in> set (ad_shards (w_db w2)). same_shard ?c ?t n s \<and> int (load ?c ?t n (w_db w2)) < sh_maxWallets s"
    using w2(2) by (auto simp: roomy_def)
  then have new: "shards_ok d3" "\<And>c s. active_in c s d3 = active_in c s (w_db w2) \<union> (if ?c = c \<and> ?t = s then {(wallet, sa_uid inp, n)} else {})"
    using insert_run [OF ins(1)] by auto
  have same: "active_in c s (w_db w2) = active_in c s ?d1" for c s using w2(3) by (simp add: active_in_def)
  have "active_in ?c ?t ?d1 = others"
    unfolding active_deactivated others_def by (auto simp: active_in_def holds_wallet_def)
  moreover have "active_in c s ?d1 = active_in c s d" if "(c, s) \<noteq> (?c, ?t)" for c s
    using that unfolding active_deactivated by (auto simp: active_in_def holds_wallet_def in_stream_def)
  ultimately show ?thesis using new ins(2,3) same by (auto simp: assignment_of_def)
qed

text \<open>
  C38: an undisturbed assignment of a wallet to a shard keeps every shard within its capacity and every wallet in at most one shard.
  The user's other wallet and the wallet's other owner lose their places; the wallet gets the place that is returned, and no
  other wallet of any stream moves.
\<close>
theorem assignment_is_stable:
  assumes "assignWalletToStableShard inp w = (Inr r, w')" and "w_env w = []" and "shards_ok (w_db w)"
  shows "shards_ok (w_db w') \<and> (\<forall>c s. (c, s) \<noteq> (sa_chainId inp, sa_stream inp) \<longrightarrow> active_in c s (w_db w') = active_in c s (w_db w)) \<and>
    (case r of
       None \<Rightarrow> active_in (sa_chainId inp) (sa_stream inp) (w_db w') = {(x, u, n) \<in> active_in (sa_chainId inp) (sa_stream inp) (w_db w). u \<noteq> sa_uid inp}
     | Some a \<Rightarrow> wa_uid a = sa_uid inp \<and> active_in (sa_chainId inp) (sa_stream inp) (w_db w') =
         {(x, u, n) \<in> active_in (sa_chainId inp) (sa_stream inp) (w_db w). u \<noteq> sa_uid inp \<and> x \<noteq> wa_wallet a} \<union>
         {(wa_wallet a, sa_uid inp, wa_shard a)})"
proof -
  let ?c = "sa_chainId inp" and ?t = "sa_stream inp"
  have cap: "1 \<le> sa_maxWallets inp" using assms(1) by (auto simp: assignWalletToStableShard_def throw_def split: if_splits)
  obtain wallet where rest: "assign_wallet inp wallet (w_now w) w = (Inr r, w')"
    using assms(1) by (cases "sa_wallet inp")
      (auto simp: assignWalletToStableShard_def bindA_def liftE_def date_now_def ret_def throw_def split: if_splits sum.splits)
  let ?p = "moved_away ?c ?t (sa_uid inp) wallet"
  let ?d = "w_db w"
  let ?d1 = "deactivated ?p (w_now w) ?d"
  have ok1: "shards_ok ?d1" by (rule deactivated_ok [OF assms(3)])
  have others: "active_in c s ?d1 = active_in c s ?d" if "(c, s) \<noteq> (?c, ?t)" for c s
    using that unfolding active_deactivated by (auto simp: active_in_def moved_away_def in_stream_def)
  show ?thesis
  proof (cases wallet)
    case None
    then have "r = None" "w_db w' = ?d1" using rest assms(2) unfolding assign_wallet_def by (auto simp: bindA_def dbx_def deactivate_run ret_def)
    moreover have "active_in ?c ?t ?d1 = {(x, u, n) \<in> active_in ?c ?t ?d. u \<noteq> sa_uid inp}"
      unfolding active_deactivated using None by (auto simp: active_in_def moved_away_def)
    ultimately show ?thesis using ok1 others by simp
  next
    case wallet: (Some v)
    let ?w1 = "w\<lparr>w_db := ?d1\<rparr>"
    have mid: "active_in ?c ?t ?d1 = {(x, u, n) \<in> active_in ?c ?t ?d. u \<noteq> sa_uid inp \<or> x = v}"
      unfolding active_deactivated using wallet by (auto simp: active_in_def moved_away_def)
    show ?thesis
    proof (cases "find (\<lambda>a. holds_wallet inp v a \<and> wl_uid a = sa_uid inp) (ad_assignments ?d1)")
      case None
      note none = None [unfolded wallet]
      obtain a where a: "assign_new inp v (w_now w) ?w1 = (Inr a, w')" "r = Some a"
        using rest assms(2) unfolding assign_wallet_def wallet none by (auto simp: bindA_def dbx_def dbq_def deactivate_run none ret_def split: prod.splits sum.splits)
      note new = assign_new_run [OF ok1 _ _ cap a(1)]
      have "a = assignment_of inp v (wa_shard a)" using new assms(2) by simp
      then have mine: "wa_wallet a = v" "wa_uid a = sa_uid inp" by (cases a, simp add: assignment_of_def)+
      have "active_in ?c ?t (w_db w') = {(x, u, n) \<in> active_in ?c ?t ?d. u \<noteq> sa_uid inp \<and> x \<noteq> v} \<union> {(v, sa_uid inp, wa_shard a)}"
        using new assms(2) unfolding mid by auto
      moreover have "shards_ok (w_db w')" "\<forall>c s. (c, s) \<noteq> (?c, ?t) \<longrightarrow> active_in c s (w_db w') = active_in c s ?d"
        using new assms(2) others by auto
      ultimately show ?thesis using mine a(2) by simp
    next
      case (Some b)
      then have b: "b \<in> set (ad_assignments ?d1)" "holds_wallet inp v b" "wl_uid b = sa_uid inp"
        using find_SomeD by fastforce+
      note found = Some [unfolded wallet]
      have r: "r = Some (assignment_of inp v (wl_shard b))" "w_db w' = ?d1"
        using rest assms(2) unfolding assign_wallet_def wallet by (auto simp: bindA_def dbx_def dbq_def deactivate_run found ret_def)
      have mine: "(v, sa_uid inp, wl_shard b) \<in> active_in ?c ?t ?d1" using b unfolding active_in_def holds_wallet_def by force
      have only: "(u, n) = (sa_uid inp, wl_shard b)" if t: "(v, u, n) \<in> active_in ?c ?t ?d1" for u n
      proof -
        obtain b' where b': "b' \<in> set (ad_assignments ?d1)" "in_stream ?c ?t b'" "wl_account b' = v" "wl_uid b' = u" "wl_shard b' = n"
          using t by (auto simp: active_in_def)
        have "b' = b"
          using ok1 b b' key_unique [of "\<lambda>a. (wl_chainId a, wl_stream a, wl_account a)" "filter wl_active (ad_assignments ?d1)" b' b]
          by (simp add: shards_ok_def in_stream_def holds_wallet_def)
        then show ?thesis using b b' by simp
      qed
      have "active_in ?c ?t ?d1 = {(x, u, n) \<in> active_in ?c ?t ?d. u \<noteq> sa_uid inp \<and> x \<noteq> v} \<union> {(v, sa_uid inp, wl_shard b)}"
        using mine only unfolding mid by blast
      then show ?thesis using r ok1 others by (simp add: assignment_of_def)
    qed
  qed
qed

definition sample_wallet :: "char \<Rightarrow> string" where
  "sample_wallet c = ''0x'' @ replicate 40 c"

definition sample_shard_world :: "(app_db, app_event) world" where
  "sample_shard_world = \<lparr>w_db = empty_app_db\<lparr>ad_users := [\<lparr>au_uid = ''alice'', au_wallet = None\<rparr>, \<lparr>au_uid = ''bob'', au_wallet = None\<rparr>],
       ad_shards := [\<lparr>sh_chainId = 1, sh_stream = ''s'', sh_id = 0, sh_generation = 1, sh_maxWallets = 2, sh_status = ShardActive, sh_createdAt = 0, sh_updatedAt = 0\<rparr>],
       ad_assignments := [
         \<lparr>wl_chainId = 1, wl_stream = ''s'', wl_account = sample_wallet (CHR ''a''), wl_uid = ''alice'', wl_shard = 0, wl_version = 1, wl_active = True, wl_assignedAt = 0, wl_updatedAt = 0\<rparr>,
         \<lparr>wl_chainId = 1, wl_stream = ''s'', wl_account = sample_wallet (CHR ''b''), wl_uid = ''bob'', wl_shard = 0, wl_version = 1, wl_active = True, wl_assignedAt = 0, wl_updatedAt = 0\<rparr>]\<rparr>,
     w_now = 5, w_env = [], w_uuid = (\<lambda>n. []), w_ix = 0, w_sent = []\<rparr>"

definition sample_assign :: assign_input where
  "sample_assign = \<lparr>sa_chainId = 1, sa_stream = ''s'', sa_uid = ''alice'', sa_wallet = Some (sample_wallet (CHR ''c'')), sa_maxWallets = 2\<rparr>"

lemma sample_assigned: "fst (assignWalletToStableShard sample_assign sample_shard_world) =
    Inr (Some \<lparr>wa_stream = ''s'', wa_shard = 0, wa_uid = ''alice'', wa_wallet = sample_wallet (CHR ''c'')\<rparr>)"
  by code_simp

lemma sample_shards_ok: "shards_ok (w_db sample_shard_world)"
  unfolding shards_ok_def by code_simp

lemma active_in_filter: "active_in c s d = set (map (\<lambda>a. (wl_account a, wl_uid a, wl_shard a)) (filter (in_stream c s) (ad_assignments d)))"
  by (auto simp: active_in_def)

lemma sample_before: "active_in 1 ''s'' (w_db sample_shard_world) =
    {(sample_wallet (CHR ''a''), ''alice'', 0), (sample_wallet (CHR ''b''), ''bob'', 0)}"
  by (simp add: active_in_filter sample_shard_world_def in_stream_def)

theorem assignment_is_stable_witness:
  "shards_ok (w_db (snd (assignWalletToStableShard sample_assign sample_shard_world))) \<and>
    active_in 1 ''s'' (w_db (snd (assignWalletToStableShard sample_assign sample_shard_world))) =
      {(sample_wallet (CHR ''b''), ''bob'', 0), (sample_wallet (CHR ''c''), ''alice'', 0)}"
proof -
  have run: "assignWalletToStableShard sample_assign sample_shard_world =
      (Inr (Some \<lparr>wa_stream = ''s'', wa_shard = 0, wa_uid = ''alice'', wa_wallet = sample_wallet (CHR ''c'')\<rparr>),
       snd (assignWalletToStableShard sample_assign sample_shard_world))"
    using sample_assigned by (metis prod.collapse)
  have calm: "w_env sample_shard_world = []" by (simp add: sample_shard_world_def)
  have inp: "sa_chainId sample_assign = 1" "sa_stream sample_assign = ''s''" "sa_uid sample_assign = ''alice''" by (simp_all add: sample_assign_def)
  have other: "sample_wallet (CHR ''b'') \<noteq> sample_wallet (CHR ''c'')" by code_simp
  show ?thesis
    using assignment_is_stable [OF run calm sample_shards_ok] other by (auto simp: inp sample_before)
qed

end
