(* ===== verification/UserOps.thy ===== *)
theory UserOps
  imports AppNetworks LogScan RpcCircuit
begin

text \<open>
  The packed and the unpacked form of a user operation (\<^verbatim>\<open>src/server/src/services/userOperationTransport.ts\<close>, \<^verbatim>\<open>services/userOp.ts\<close>), the
  paymaster's part of it (\<^verbatim>\<open>services/paymaster.ts\<close>), and the choice of the transport.
\<close>

subsection \<open>Hexadecimal texts\<close>

definition hex_chars :: "string \<Rightarrow> bool" where
  "hex_chars s \<longleftrightarrow> take 2 s = ''0x'' \<and> list_all is_hex (drop 2 s)"

text \<open>\<^verbatim>\<open>^0x[0-9a-fA-F]+$\<close>, and with a number of digits.\<close>

definition hex_text :: "string \<Rightarrow> bool" where
  "hex_text s \<longleftrightarrow> hex_chars s \<and> drop 2 s \<noteq> []"

definition hex_digits :: "nat \<Rightarrow> string \<Rightarrow> bool" where
  "hex_digits n s \<longleftrightarrow> hex_chars s \<and> length s = n + 2"

definition hex_char_value :: "char \<Rightarrow> nat" where
  "hex_char_value c = (if is_digit c then ccode c - 48 else if 97 \<le> ccode c then ccode c - 87 else ccode c - 55)"

text \<open>\<open>BigInt(`0x${s}`)\<close>.\<close>

definition hex_value :: "string \<Rightarrow> nat" where
  "hex_value s = foldl (\<lambda>n c. 16 * n + hex_char_value c) 0 s"

text \<open>\<open>n.toString(16)\<close>.\<close>

fun hex_of :: "nat \<Rightarrow> string" where
  "hex_of n = (if n < 16 then [hex_digit n] else hex_of (n div 16) @ [hex_digit (n mod 16)])"

declare hex_of.simps [simp del]

text \<open>\<open>BigInt(s)\<close> of a text; \<open>None\<close> is a \<open>SyntaxError\<close>.\<close>

definition js_BigInt :: "string \<Rightarrow> int option" where
  "js_BigInt s = (if hex_text s then Some (int (hex_value (drop 2 s))) else js_Number s)"

definition hex_slice :: "nat \<Rightarrow> nat \<Rightarrow> string \<Rightarrow> string" where
  "hex_slice i j s = drop i (take j s)"

text \<open>Evaluation by the bits of a character.\<close>

declare ccode_Char [code]

lemma is_hex_lowered [code]: "is_hex c \<longleftrightarrow> is_hex_lower (lower_char c)"
proof (cases "is_upper c")
  case True
  then show ?thesis using ccode_lower_char [OF True] by (auto simp: is_hex_def is_hex_lower_def is_digit_def is_upper_def)
next
  case False
  then show ?thesis by (auto simp: lower_char_def is_hex_def is_hex_lower_def is_digit_def is_upper_def)
qed

subsection \<open>User operations\<close>

record packed_user_op =
  po_sender :: string
  po_nonce :: int
  po_initCode :: string
  po_callData :: string
  po_accountGasLimits :: string
  po_preVerificationGas :: int
  po_gasFees :: string
  po_paymasterAndData :: string
  po_signature :: string

record rpc_user_op =
  ro_sender :: string
  ro_nonce :: string
  ro_callData :: string
  ro_callGasLimit :: string
  ro_verificationGasLimit :: string
  ro_preVerificationGas :: string
  ro_maxFeePerGas :: string
  ro_maxPriorityFeePerGas :: string
  ro_signature :: string
  ro_factory :: "string option"
  ro_factoryData :: "string option"
  ro_paymaster :: "string option"
  ro_paymasterData :: "string option"
  ro_paymasterVerificationGasLimit :: "string option"
  ro_paymasterPostOpGasLimit :: "string option"

datatype transport_mode = SelfRelay | Bundler

text \<open>\<open>UserOperationTransportError\<close>; another exception of the transports is kept with the codes of its chain of causes.\<close>

record transport_error =
  te_message :: string
  te_code :: string
  te_retryable :: bool
  te_possiblySubmitted :: bool
  te_transport :: "transport_mode option"

definition transport_error :: "string \<Rightarrow> string \<Rightarrow> bool \<Rightarrow> transport_error" where
  "transport_error message code retryable = \<lparr>te_message = message, te_code = code, te_retryable = retryable, te_possiblySubmitted = False,
     te_transport = None\<rparr>"

text \<open>The functions of viem on hexadecimal texts.\<close>

record hex_lib =
  hx_toHex :: "int \<Rightarrow> string"
  hx_pad :: "nat \<Rightarrow> string \<Rightarrow> string"
  hx_concat :: "string list \<Rightarrow> string"

subsection \<open>Packing and unpacking\<close>

definition packedPair :: "string \<Rightarrow> string \<Rightarrow> transport_error + int \<times> int" where
  "packedPair value label = (if \<not> hex_digits 64 value
     then Inl (transport_error (label @ '' must contain two packed uint128 values'') ''PAYMENT_FAILED'' False)
     else Inr (int (hex_value (hex_slice 2 34 value)), int (hex_value (hex_slice 34 66 value))))"

definition splitInitCode :: "string \<Rightarrow> transport_error + (string \<times> string) option" where
  "splitInitCode value = (if value = ''0x'' then Inr None
     else if \<not> hex_text value \<or> length value < 42 then Inl (transport_error ''initCode is malformed'' ''PAYMENT_FAILED'' False)
     else Inr (Some (take 42 value, ''0x'' @ drop 42 value)))"

text \<open>The paymaster, its two gas limits and its data.\<close>

record paymaster_parts =
  pp_paymaster :: string
  pp_verificationGas :: int
  pp_postOpGas :: int
  pp_data :: string

definition splitPaymasterAndData :: "string \<Rightarrow> transport_error + paymaster_parts option" where
  "splitPaymasterAndData value = (if value = ''0x'' then Inr None
     else if \<not> hex_text value \<or> length value < 106 then Inl (transport_error ''paymasterAndData is malformed'' ''PAYMASTER_REJECTED'' False)
     else Inr (Some \<lparr>pp_paymaster = take 42 value, pp_verificationGas = int (hex_value (hex_slice 42 74 value)),
       pp_postOpGas = int (hex_value (hex_slice 74 106 value)), pp_data = ''0x'' @ drop 106 value\<rparr>))"

text \<open>The first error of the parts is thrown.\<close>

definition bindT :: "transport_error + 'a \<Rightarrow> ('a \<Rightarrow> transport_error + 'b) \<Rightarrow> transport_error + 'b" where
  "bindT r f = (case r of Inl e \<Rightarrow> Inl e | Inr x \<Rightarrow> f x)"

definition packedUserOperationToRpc :: "hex_lib \<Rightarrow> packed_user_op \<Rightarrow> string option \<Rightarrow> transport_error + rpc_user_op" where
  "packedUserOperationToRpc H uop signatureOverride =
     bindT (packedPair (po_accountGasLimits uop) ''accountGasLimits'') (\<lambda>(verificationGasLimit, callGasLimit).
     bindT (packedPair (po_gasFees uop) ''gasFees'') (\<lambda>(maxPriorityFeePerGas, maxFeePerGas).
     bindT (splitInitCode (po_initCode uop)) (\<lambda>init.
     bindT (splitPaymasterAndData (po_paymasterAndData uop)) (\<lambda>paymaster.
     Inr \<lparr>ro_sender = po_sender uop, ro_nonce = hx_toHex H (po_nonce uop), ro_callData = po_callData uop,
       ro_callGasLimit = hx_toHex H callGasLimit, ro_verificationGasLimit = hx_toHex H verificationGasLimit,
       ro_preVerificationGas = hx_toHex H (po_preVerificationGas uop), ro_maxFeePerGas = hx_toHex H maxFeePerGas,
       ro_maxPriorityFeePerGas = hx_toHex H maxPriorityFeePerGas,
       ro_signature = (case signatureOverride of None \<Rightarrow> po_signature uop | Some s \<Rightarrow> s),
       ro_factory = map_option fst init, ro_factoryData = map_option snd init,
       ro_paymaster = map_option pp_paymaster paymaster, ro_paymasterData = map_option pp_data paymaster,
       ro_paymasterVerificationGasLimit = map_option (\<lambda>p. hx_toHex H (pp_verificationGas p)) paymaster,
       ro_paymasterPostOpGasLimit = map_option (\<lambda>p. hx_toHex H (pp_postOpGas p)) paymaster\<rparr>))))"

definition packGasLimits :: "hex_lib \<Rightarrow> int \<Rightarrow> int \<Rightarrow> string" where
  "packGasLimits H verificationGasLimit callGasLimit =
     hx_concat H [hx_pad H 16 (hx_toHex H verificationGasLimit), hx_pad H 16 (hx_toHex H callGasLimit)]"

subsection \<open>Gas\<close>

definition PAYMASTER_VERIFICATION_GAS_LIMIT :: int where "PAYMASTER_VERIFICATION_GAS_LIMIT = 100000"

definition PAYMASTER_POST_OP_GAS_LIMIT :: int where "PAYMASTER_POST_OP_GAS_LIMIT = 50000"

definition HANDLE_OPS_TX_GAS_OVERHEAD :: int where "HANDLE_OPS_TX_GAS_OVERHEAD = 300000"

definition HANDLE_OPS_FALLBACK_GAS :: int where
  "HANDLE_OPS_FALLBACK_GAS = 500000 + 300000 + 100000 + PAYMASTER_VERIFICATION_GAS_LIMIT + PAYMASTER_POST_OP_GAS_LIMIT + HANDLE_OPS_TX_GAS_OVERHEAD"

text \<open>The text of a gas limit is never empty, and is read back as the number it was written from.\<close>

definition handleOpsGasFor :: "packed_user_op \<Rightarrow> int" where
  "handleOpsGasFor uop = (case packedPair (po_accountGasLimits uop) ''accountGasLimits'' of
       Inl _ \<Rightarrow> HANDLE_OPS_FALLBACK_GAS
     | Inr (verificationGas, callGas) \<Rightarrow> (case splitPaymasterAndData (po_paymasterAndData uop) of
         Inl _ \<Rightarrow> HANDLE_OPS_FALLBACK_GAS
       | Inr p \<Rightarrow> verificationGas + callGas + po_preVerificationGas uop +
           (case p of None \<Rightarrow> PAYMASTER_VERIFICATION_GAS_LIMIT | Some q \<Rightarrow> pp_verificationGas q) +
           (case p of None \<Rightarrow> PAYMASTER_POST_OP_GAS_LIMIT | Some q \<Rightarrow> pp_postOpGas q) + HANDLE_OPS_TX_GAS_OVERHEAD))"

text \<open>\<open>None\<close> is an unsafe estimate.\<close>

definition bufferedEstimate :: "int \<Rightarrow> int \<Rightarrow> int \<Rightarrow> err + int" where
  "bufferedEstimate value basisPoints maximum = (if value \<le> 0 \<or> maximum < value then Inl (Thrown ''Bundler returned an unsafe gas estimate'')
     else let buffered = (value * basisPoints + 9999) div 10000 in
       if maximum < buffered then Inl (Thrown ''Bundler returned an unsafe gas estimate'') else Inr buffered)"

definition maximumSelfFundedUserOpCost :: "int \<Rightarrow> int \<Rightarrow> int \<Rightarrow> int \<Rightarrow> err + int" where
  "maximumSelfFundedUserOpCost verificationGasLimit callGasLimit preVerificationGas maxFeePerGas = (
     if verificationGasLimit < 0 \<or> callGasLimit < 0 \<or> preVerificationGas < 0 \<or> maxFeePerGas < 0
     then Inl (Thrown ''UserOperation gas values cannot be negative'')
     else Inr ((verificationGasLimit + callGasLimit + preVerificationGas) * maxFeePerGas))"

subsection \<open>Keys\<close>

definition P256_N :: int where
  "P256_N = 0xFFFFFFFF00000000FFFFFFFFFFFFFFFFBCE6FAADA7179E84F3B9CAC2FC632551"

text \<open>\<open>s.padStart(n, "0")\<close>.\<close>

definition pad_start :: "nat \<Rightarrow> string \<Rightarrow> string" where
  "pad_start n s = replicate (n - length s) (CHR ''0'') @ s"

definition int_hex :: "int \<Rightarrow> string" where
  "int_hex n = (if n < 0 then CHR ''-'' # hex_of (nat (- n)) else hex_of (nat n))"

definition normalizeLowS :: "string \<Rightarrow> err + string" where
  "normalizeLowS s = (case js_BigInt s of None \<Rightarrow> Inl (Thrown ''Cannot convert to a BigInt'')
     | Some n \<Rightarrow> Inr (''0x'' @ pad_start 64 (int_hex (if P256_N div 2 < n then P256_N - n else n))))"

definition matchOnchainSigner :: "string list \<Rightarrow> string \<Rightarrow> string \<Rightarrow> string option" where
  "matchOnchainSigner signers qx qy = (let suffix = toLowerCase (drop 2 qx @ drop 2 qy) in
     if length suffix \<noteq> 128 then None else find (\<lambda>s. ends_with (toLowerCase s) suffix) signers)"

record passkey_ref =
  pk_qx :: string
  pk_qy :: string
  pk_rpId :: "string option"

definition passkeySignerActivity :: "string list \<Rightarrow> passkey_ref list \<Rightarrow> bool list" where
  "passkeySignerActivity signers keys = map (\<lambda>k. case matchOnchainSigner signers (pk_qx k) (pk_qy k) of None \<Rightarrow> False | Some s \<Rightarrow> s \<noteq> []) keys"

definition isCompletePasskeyInventory :: "int \<Rightarrow> string list \<Rightarrow> passkey_ref list \<Rightarrow> bool" where
  "isCompletePasskeyInventory signerCount signers keys = (
     if signerCount \<noteq> int (length signers) \<or> length signers \<noteq> length keys \<or> list_ex (\<lambda>k. case pk_rpId k of None \<Rightarrow> True | Some r \<Rightarrow> r = []) keys
     then False
     else let matched = map (\<lambda>k. matchOnchainSigner signers (pk_qx k) (pk_qy k)) keys in
       list_all (\<lambda>m. case m of None \<Rightarrow> False | Some s \<Rightarrow> s \<noteq> []) matched \<and>
       card (set (map (\<lambda>m. toLowerCase (the m)) matched)) = length signers)"

subsection \<open>The choice of the transport\<close>

definition fnv1aPercent :: "string \<Rightarrow> nat" where
  "fnv1aPercent s = unat (fnv1a_hash s 0x811c9dc5) mod 100"

definition selectUserOperationTransport :: "string option \<Rightarrow> string option \<Rightarrow> string \<Rightarrow> transport_mode" where
  "selectUserOperationTransport relayerMode rollout stableSubject = (if relayerMode \<noteq> Some ''bundler'' then SelfRelay
     else let percentage = (case js_Number (case rollout of None \<Rightarrow> ''100'' | Some s \<Rightarrow> s) of
         None \<Rightarrow> 0 | Some n \<Rightarrow> if isSafeInteger n then min 100 (max 0 n) else 0) in
       if int (fnv1aPercent stableSubject) < percentage then Bundler else SelfRelay)"

subsection \<open>Hexadecimal texts and numbers\<close>

lemma hex_value_snoc [simp]: "hex_value [] = 0" "hex_value (s @ [c]) = 16 * hex_value s + hex_char_value c"
  by (simp_all add: hex_value_def)

lemma hex_char_value_digit: "n < 16 \<Longrightarrow> hex_char_value (hex_digit n) = n"
proof -
  assume "n < 16"
  then have "n \<in> set [0..<16]" by simp
  moreover have "\<forall>n \<in> set [0..<16]. hex_char_value (hex_digit n) = n" by code_simp
  ultimately show ?thesis by blast
qed

lemma hex_value_of: "hex_value (hex_of n) = n"
proof (induction n rule: hex_of.induct)
  case (1 n)
  show ?case
  proof (cases "n < 16")
    case True
    then show ?thesis by (simp add: hex_of.simps [of n] hex_value_def hex_char_value_digit)
  next
    case False
    then show ?thesis using 1 by (subst hex_of.simps) (simp add: hex_char_value_digit)
  qed
qed

lemma hex_digit_of_value: "is_hex c \<Longrightarrow> hex_digit (hex_char_value c) = lower_char c \<and> hex_char_value c < 16"
proof -
  assume c: "is_hex c"
  have "\<forall>c \<in> set ''0123456789abcdefABCDEF''. hex_digit (hex_char_value c) = lower_char c \<and> hex_char_value c < 16" by code_simp
  moreover have "c \<in> set ''0123456789abcdefABCDEF''"
  proof -
    have "ccode c \<in> set (map ccode ''0123456789abcdefABCDEF'')"
    proof -
      have "ccode c \<in> set ([48..<58] @ [97..<103] @ [65..<71])" using c by (auto simp: is_hex_def is_digit_def simp del: upt_rec_numeral)
      moreover have "map ccode ''0123456789abcdefABCDEF'' = [48..<58] @ [97..<103] @ [65..<71]" by code_simp
      ultimately show ?thesis by simp
    qed
    then obtain c' where c': "c' \<in> set ''0123456789abcdefABCDEF''" "ccode c = ccode c'" unfolding set_map by (rule imageE)
    then have "c = c'" by (simp add: ccode_def)
    then show ?thesis using c'(1) by simp
  qed
  ultimately show ?thesis by blast
qed

lemma hex_pad_value: "list_all is_hex s \<Longrightarrow> hex_pad (length s) (hex_value s) = toLowerCase s"
proof (induction s rule: rev_induct)
  case (snoc c s)
  then have "hex_digit (hex_char_value c) = lower_char c" "hex_char_value c < 16" "list_all is_hex s" using hex_digit_of_value [of c] by auto
  then show ?case using snoc.IH by (simp add: toLowerCase_def)
qed (simp add: toLowerCase_def)

subsection \<open>The unpacked form loses nothing\<close>

text \<open>What the EntryPoint's packed form is for an unpacked one.\<close>

definition quantity :: "string \<Rightarrow> nat" where
  "quantity s = hex_value (drop 2 s)"

definition joined_init :: "string option \<Rightarrow> string option \<Rightarrow> string" where
  "joined_init f x = (case (f, x) of (Some a, Some b) \<Rightarrow> a @ drop 2 b | _ \<Rightarrow> ''0x'')"

definition joined_paymaster :: "string option \<Rightarrow> string option \<Rightarrow> string option \<Rightarrow> string option \<Rightarrow> string" where
  "joined_paymaster p v g x = (case (p, v, g, x) of
       (Some a, Some b, Some c, Some e) \<Rightarrow> a @ hex_pad 32 (quantity b) @ hex_pad 32 (quantity c) @ drop 2 e | _ \<Rightarrow> ''0x'')"

definition packed_form :: "rpc_user_op \<Rightarrow> packed_user_op" where
  "packed_form r = \<lparr>po_sender = ro_sender r, po_nonce = int (quantity (ro_nonce r)),
     po_initCode = joined_init (ro_factory r) (ro_factoryData r),
     po_callData = ro_callData r,
     po_accountGasLimits = ''0x'' @ hex_pad 32 (quantity (ro_verificationGasLimit r)) @ hex_pad 32 (quantity (ro_callGasLimit r)),
     po_preVerificationGas = int (quantity (ro_preVerificationGas r)),
     po_gasFees = ''0x'' @ hex_pad 32 (quantity (ro_maxPriorityFeePerGas r)) @ hex_pad 32 (quantity (ro_maxFeePerGas r)),
     po_paymasterAndData = joined_paymaster (ro_paymaster r) (ro_paymasterVerificationGasLimit r) (ro_paymasterPostOpGasLimit r) (ro_paymasterData r),
     po_signature = ro_signature r\<rparr>"

text \<open>Numbers have no letter case.\<close>

definition lower_gas :: "string \<Rightarrow> string" where
  "lower_gas s = (if s = ''0x'' then s else take 42 s @ toLowerCase (hex_slice 42 106 s) @ drop 106 s)"

lemma hex_slices:
  assumes "hex_chars s" and "2 \<le> i" and "i + 32 \<le> length s"
  shows "hex_pad 32 (hex_value (hex_slice i (i + 32) s)) = toLowerCase (hex_slice i (i + 32) s)"
proof -
  have "set (hex_slice i (i + 32) s) \<subseteq> set (drop 2 s)"
  proof -
    obtain j where i: "i = j + 2" using assms(2) by (metis le_add_diff_inverse2)
    have "drop i (take (i + 32) s) = take 32 (drop j (drop 2 s))" by (simp add: i drop_take)
    then show ?thesis unfolding hex_slice_def by (metis order_trans set_drop_subset set_take_subset)
  qed
  then have "list_all is_hex (hex_slice i (i + 32) s)" using assms(1) by (auto simp: hex_chars_def list_all_iff)
  moreover have "length (hex_slice i (i + 32) s) = 32" using assms(3) by (simp add: hex_slice_def)
  ultimately show ?thesis using hex_pad_value by metis
qed

lemma slices_join: "i \<le> j \<Longrightarrow> j \<le> k \<Longrightarrow> hex_slice i j s @ hex_slice j k s = hex_slice i k s"
proof -
  assume "i \<le> j" "j \<le> k"
  then have "hex_slice i j s = take (j - i) (hex_slice i k s)" "hex_slice j k s = drop (j - i) (hex_slice i k s)"
    by (simp_all add: hex_slice_def take_drop min_def)
  then show ?thesis by simp
qed

lemma prefixed: "hex_chars s \<Longrightarrow> ''0x'' @ drop 2 s = s"
  by (metis append_take_drop_id hex_chars_def)

lemma packed_pair_text:
  assumes "packedPair s l = Inr (a, b)"
  shows "''0x'' @ hex_pad 32 (nat a) @ hex_pad 32 (nat b) = toLowerCase s \<and> 0 \<le> a \<and> 0 \<le> b"
proof -
  have s: "hex_chars s" "length s = 66" and ab: "a = int (hex_value (hex_slice 2 34 s))" "b = int (hex_value (hex_slice 34 66 s))"
    using assms by (auto simp: packedPair_def hex_digits_def split: if_splits)
  have "hex_pad 32 (nat a) @ hex_pad 32 (nat b) = toLowerCase (hex_slice 2 34 s @ hex_slice 34 66 s)"
    using hex_slices [OF s(1), of 2] hex_slices [OF s(1), of 34] s(2) by (simp add: ab toLowerCase_def)
  also have "\<dots> = toLowerCase (drop 2 s)" using s(2) by (simp add: slices_join) (simp add: hex_slice_def)
  finally have "''0x'' @ hex_pad 32 (nat a) @ hex_pad 32 (nat b) = toLowerCase (''0x'' @ drop 2 s)"
    by (simp add: toLowerCase_def lower_char_Char is_upper_Char)
  then show ?thesis using prefixed [OF s(1)] ab by simp
qed

lemma init_code_text:
  assumes "splitInitCode s = Inr r"
  shows "(case r of None \<Rightarrow> ''0x'' | Some (f, x) \<Rightarrow> f @ drop 2 x) = s"
  using assms by (auto simp: splitInitCode_def split: if_splits)

lemma paymaster_text:
  assumes "splitPaymasterAndData s = Inr r"
  shows "(case r of None \<Rightarrow> ''0x'' | Some p \<Rightarrow> pp_paymaster p @ hex_pad 32 (nat (pp_verificationGas p)) @ hex_pad 32 (nat (pp_postOpGas p)) @
      drop 2 (pp_data p)) = lower_gas s \<and> (case r of None \<Rightarrow> True | Some p \<Rightarrow> 0 \<le> pp_verificationGas p \<and> 0 \<le> pp_postOpGas p)"
proof (cases "s = ''0x''")
  case True
  then show ?thesis using assms by (auto simp: splitPaymasterAndData_def lower_gas_def)
next
  case False
  then have s: "hex_chars s" "106 \<le> length s" and r: "r = Some \<lparr>pp_paymaster = take 42 s,
      pp_verificationGas = int (hex_value (hex_slice 42 74 s)), pp_postOpGas = int (hex_value (hex_slice 74 106 s)), pp_data = ''0x'' @ drop 106 s\<rparr>"
    using assms by (auto simp: splitPaymasterAndData_def hex_text_def split: if_splits)
  have "hex_pad 32 (hex_value (hex_slice 42 74 s)) @ hex_pad 32 (hex_value (hex_slice 74 106 s)) = toLowerCase (hex_slice 42 74 s @ hex_slice 74 106 s)"
    using hex_slices [OF s(1), of 42] hex_slices [OF s(1), of 74] s(2) by (simp add: toLowerCase_def)
  then show ?thesis using False by (simp add: r lower_gas_def slices_join)
qed

text \<open>
  C40: the form that a user operation is sent to a bundler in loses nothing.  When a packed operation has an unpacked form, packing that
  form as the EntryPoint does gives the operation back, with the signature it was sent with and its gas fields in lower case.
\<close>
theorem rpc_form_is_lossless:
  assumes "packedUserOperationToRpc H uop signature = Inr r" and "\<forall>n\<ge>0. hx_toHex H n = ''0x'' @ hex_of (nat n)"
    and "0 \<le> po_nonce uop" and "0 \<le> po_preVerificationGas uop"
  shows "packed_form r = uop\<lparr>po_accountGasLimits := toLowerCase (po_accountGasLimits uop), po_gasFees := toLowerCase (po_gasFees uop),
    po_paymasterAndData := lower_gas (po_paymasterAndData uop), po_signature := (case signature of None \<Rightarrow> po_signature uop | Some s \<Rightarrow> s)\<rparr>"
proof -
  obtain v c where account: "packedPair (po_accountGasLimits uop) ''accountGasLimits'' = Inr (v, c)"
    using assms(1) by (auto simp: packedUserOperationToRpc_def bindT_def split: sum.splits)
  obtain p m where fees: "packedPair (po_gasFees uop) ''gasFees'' = Inr (p, m)"
    using assms(1) account by (auto simp: packedUserOperationToRpc_def bindT_def split: sum.splits)
  obtain init where init: "splitInitCode (po_initCode uop) = Inr init"
    using assms(1) account fees by (auto simp: packedUserOperationToRpc_def bindT_def split: sum.splits)
  obtain paymaster where pm: "splitPaymasterAndData (po_paymasterAndData uop) = Inr paymaster"
    using assms(1) account fees init by (auto simp: packedUserOperationToRpc_def bindT_def split: sum.splits)
  have q: "quantity (hx_toHex H n) = nat n" if "0 \<le> n" for n using assms(2) that by (simp add: quantity_def hex_value_of)
  note parts = packed_pair_text [OF account] packed_pair_text [OF fees] init_code_text [OF init] paymaster_text [OF pm]
  have joined: "joined_init (map_option fst init) (map_option snd init) = po_initCode uop"
    using parts(3) by (cases init) (auto simp: joined_init_def)
  have "joined_paymaster (map_option pp_paymaster paymaster) (map_option (\<lambda>p. hx_toHex H (pp_verificationGas p)) paymaster)
      (map_option (\<lambda>p. hx_toHex H (pp_postOpGas p)) paymaster) (map_option pp_data paymaster) = lower_gas (po_paymasterAndData uop)"
    using parts(4) by (cases paymaster) (auto simp: joined_paymaster_def q)
  note joined = joined this
  show ?thesis
    using assms(1,3,4) parts(1,2) by (auto simp: packedUserOperationToRpc_def bindT_def account fees init pm packed_form_def q joined)
qed

definition sample_hex :: hex_lib where
  "sample_hex = \<lparr>hx_toHex = (\<lambda>n. ''0x'' @ hex_of (nat n)), hx_pad = (\<lambda>n s. ''0x'' @ pad_start (2 * n) (drop 2 s)),
     hx_concat = (\<lambda>ss. ''0x'' @ concat (map (drop 2) ss))\<rparr>"

definition sample_uop :: packed_user_op where
  "sample_uop = \<lparr>po_sender = ''0xs'', po_nonce = 7, po_initCode = ''0x'', po_callData = ''0xda'',
     po_accountGasLimits = ''0x0000000000000000000000000000001F00000000000000000000000000000010'', po_preVerificationGas = 300,
     po_gasFees = ''0x0000000000000000000000000000000100000000000000000000000000000002'',
     po_paymasterAndData = ''0x'' @ replicate 40 (CHR ''B'') @ replicate 31 (CHR ''0'') @ ''c'' @ replicate 31 (CHR ''0'') @ ''D'' @ ''fE'', po_signature = ''0x''\<rparr>"

lemma sample_rpc_form: "(case packedUserOperationToRpc sample_hex sample_uop (Some ''0x99'') of Inl _ \<Rightarrow> False
    | Inr r \<Rightarrow> ro_verificationGasLimit r = ''0x1f'' \<and> ro_paymasterData r = Some ''0xfE'')"
  by code_simp

theorem rpc_form_is_lossless_witness:
  "\<exists>r. packedUserOperationToRpc sample_hex sample_uop (Some ''0x99'') = Inr r \<and> po_nonce (packed_form r) = 7 \<and>
    po_paymasterAndData (packed_form r) = lower_gas (po_paymasterAndData sample_uop) \<and> po_signature (packed_form r) = ''0x99''"
proof -
  obtain r where r: "packedUserOperationToRpc sample_hex sample_uop (Some ''0x99'') = Inr r"
    using sample_rpc_form by (auto split: sum.splits)
  have "\<forall>n\<ge>0. hx_toHex sample_hex n = ''0x'' @ hex_of (nat n)" by (simp add: sample_hex_def)
  moreover have "0 \<le> po_nonce sample_uop" "0 \<le> po_preVerificationGas sample_uop" "po_nonce sample_uop = 7" by (simp_all add: sample_uop_def)
  ultimately show ?thesis using rpc_form_is_lossless [OF r] r by simp
qed

end
