(* ===== verification/Leases.thy ===== *)
theory Leases
  imports PaymentsDb
begin

text \<open>
  Leases: the contract every lease table of the Worker is meant to honour, as a locale, and the signer lease
  (\<^verbatim>\<open>stores/signerLeaseStore.ts\<close>, \<^verbatim>\<open>services/signerLease.ts\<close>) that serialises the transactions of the
  relayer.  A lease is taken by one of several statements, so that the contract has a statement parameter.
\<close>

subsection \<open>The contract of a lease table\<close>

datatype ('s, 'k, 'o) lease_op = Take 's 'k 'o int int | Free 'k 'o

locale lease =
  fixes inv :: "'d \<Rightarrow> bool"
    and holder :: "'d \<Rightarrow> 'k \<Rightarrow> ('o \<times> int) option"
    and take_lease :: "'s \<Rightarrow> 'k \<Rightarrow> 'o \<Rightarrow> int \<Rightarrow> int \<Rightarrow> 'd \<Rightarrow> 'd \<times> bool"
    and free_lease :: "'k \<Rightarrow> 'o \<Rightarrow> 'd \<Rightarrow> 'd"
  assumes take_inv: "inv d \<Longrightarrow> inv (fst (take_lease s k u now e d))"
    and free_inv: "inv d \<Longrightarrow> inv (free_lease k u d)"
    and take_granted: "inv d \<Longrightarrow> snd (take_lease s k u now e d) \<Longrightarrow>
      holder (fst (take_lease s k u now e d)) k = Some (u, e) \<and>
      (case holder d k of None \<Rightarrow> True | Some (u', e') \<Rightarrow> e' \<le> now)"
    and take_refused: "inv d \<Longrightarrow> \<not> snd (take_lease s k u now e d) \<Longrightarrow>
      holder (fst (take_lease s k u now e d)) k = holder d k"
    and take_other: "inv d \<Longrightarrow> k' \<noteq> k \<Longrightarrow> holder (fst (take_lease s k u now e d)) k' = holder d k'"
    and free_own: "inv d \<Longrightarrow> holder (free_lease k u d) k = (case holder d k of None \<Rightarrow> None
      | Some (u', e') \<Rightarrow> if u' = u then None else Some (u', e'))"
    and free_other: "inv d \<Longrightarrow> k' \<noteq> k \<Longrightarrow> holder (free_lease k u d) k' = holder d k'"
begin

fun run_op :: "('s, 'k, 'o) lease_op \<Rightarrow> 'd \<Rightarrow> 'd" where
  "run_op (Take s k u now e) d = fst (take_lease s k u now e d)"
| "run_op (Free k u) d = free_lease k u d"

text \<open>An operation of somebody else while the lease of \<open>u\<close> on \<open>k\<close> runs until \<open>e\<close>.\<close>

fun yields_to :: "'k \<Rightarrow> 'o \<Rightarrow> int \<Rightarrow> ('s, 'k, 'o) lease_op \<Rightarrow> bool" where
  "yields_to k u e (Take s k' u' now e') = (k' = k \<longrightarrow> now < e)"
| "yields_to k u e (Free k' u') = (k' = k \<longrightarrow> u' \<noteq> u)"

lemma refused_while_held:
  assumes "inv d" and "holder d k = Some (u, e)" and "now < e"
  shows "\<not> snd (take_lease s k u' now e' d)"
  using take_granted [OF assms(1), of s k u' now e'] assms(2,3) by auto

lemma run_op_keeps:
  assumes "inv d" and "holder d k = Some (u, e)" and "yields_to k u e op"
  shows "inv (run_op op d) \<and> holder (run_op op d) k = Some (u, e)"
proof (cases op)
  case (Take s k' u' now e')
  show ?thesis
  proof (cases "k' = k")
    case True
    then have "now < e" using assms(3) Take by simp
    then have "\<not> snd (take_lease s k u' now e' d)" using refused_while_held assms(1,2) by blast
    then show ?thesis using take_refused take_inv assms(1,2) Take True by simp
  next
    case False
    then show ?thesis using take_other take_inv assms(1,2) Take by simp
  qed
next
  case (Free k' u')
  then show ?thesis
    using assms free_own [OF assms(1), of k u'] free_other [OF assms(1), of k k' u'] free_inv
    by (cases "k' = k") auto
qed

theorem held_through:
  assumes "inv d" and "holder d k = Some (u, e)" and "\<forall>op \<in> set ops. yields_to k u e op"
  shows "inv (fold run_op ops d) \<and> holder (fold run_op ops d) k = Some (u, e)"
  using assms
proof (induction ops arbitrary: d)
  case (Cons op ops)
  then show ?case using run_op_keeps [of d k u e op] by simp
qed simp

text \<open>Mutual exclusion: after a grant, nobody is granted the key before the lease ends.\<close>

theorem exclusive:
  assumes "inv d" and "snd (take_lease s k u now e d)"
    and "\<forall>op \<in> set ops. yields_to k u e op" and "now' < e"
  shows "\<not> snd (take_lease s' k u' now' e' (fold run_op ops (fst (take_lease s k u now e d))))"
  using held_through [OF take_inv [OF assms(1)] conjunct1 [OF take_granted [OF assms(1,2)]] assms(3)]
    refused_while_held assms(4) by blast

end

subsection \<open>The signer lease\<close>

datatype signer_statement = TakeExpired | TakeAbsent

definition leases_unique :: "pdb \<Rightarrow> bool" where
  "leases_unique d \<longleftrightarrow> distinct (map ls_key (db_leases d))"

definition update_lease_stmt :: "string \<Rightarrow> string \<Rightarrow> int \<Rightarrow> int \<Rightarrow> pdb stmt" where
  "update_lease_stmt key owner now expires = plain (\<lambda>d.
     let p = (\<lambda>l. ls_key l = key \<and> ls_expiresAt l \<le> now)
     in (d\<lparr>db_leases := upd p (\<lambda>l. l\<lparr>ls_owner := owner, ls_expiresAt := expires, ls_updatedAt := now\<rparr>) (db_leases d)\<rparr>,
         hits p (db_leases d)))"

definition insert_lease_stmt :: "string \<Rightarrow> string \<Rightarrow> int \<Rightarrow> int \<Rightarrow> pdb stmt" where
  "insert_lease_stmt key owner now expires = or_ignore leases_unique (\<lambda>d. True)
     (\<lambda>d. (d\<lparr>db_leases := db_leases d @ [\<lparr>ls_key = key, ls_owner = owner, ls_expiresAt = expires,
        ls_updatedAt = now\<rparr>]\<rparr>, 1))"

definition delete_lease_stmt :: "string \<Rightarrow> string \<Rightarrow> pdb stmt" where
  "delete_lease_stmt key owner = plain (\<lambda>d.
     let p = (\<lambda>l. ls_key l = key \<and> ls_owner l = owner)
     in (d\<lparr>db_leases := filter (\<lambda>l. \<not> p l) (db_leases d)\<rparr>, hits p (db_leases d)))"

definition acquirePaymentSignerLease :: "string \<Rightarrow> int \<Rightarrow> string option pact" where
  "acquirePaymentSignerLease leaseKey ttlMs =
     (if leaseKey = [] \<or> 160 < length leaseKey then throw (Thrown ''Invalid payment signer lease key'')
      else bindA date_now (\<lambda>now.
        bindA randomUUID (\<lambda>owner.
        bindA (dbx (update_lease_stmt leaseKey owner now (now + ttlMs))) (\<lambda>n.
        if 0 < n then ret (Some owner)
        else bindA (dbx (insert_lease_stmt leaseKey owner now (now + ttlMs))) (\<lambda>n.
          ret (if 0 < n then Some owner else None))))))"

definition releasePaymentSignerLease :: "string \<Rightarrow> string \<Rightarrow> unit pact" where
  "releasePaymentSignerLease leaseKey owner = bindA (dbx (delete_lease_stmt leaseKey owner)) (\<lambda>_. ret ())"

definition PAYMENT_SIGNER_LEASE_TTL_MS :: int where
  "PAYMENT_SIGNER_LEASE_TTL_MS = 120000"

text \<open>The pattern \<^verbatim>\<open>^0x[0-9a-fA-F]{40}$\<close>.\<close>

definition hex_address_ok :: "string \<Rightarrow> bool" where
  "hex_address_ok s \<longleftrightarrow> take 2 s = ''0x'' \<and> length s = 42 \<and> list_all is_hex (drop 2 s)"

definition paymentSignerLeaseKey :: "int \<Rightarrow> string \<Rightarrow> err + string" where
  "paymentSignerLeaseKey chainId signerAddress =
     (if \<not> isSafeInteger chainId \<or> chainId \<le> 0 then Inl (Thrown ''Invalid signer chain ID'')
      else if \<not> hex_address_ok signerAddress then Inl (Thrown ''Invalid signer address'')
      else Inr (''cctp-mint:'' @ string_of_int chainId @ '':'' @ toLowerCase signerAddress))"

text \<open>\<open>try ... finally\<close>: the lease is released whatever the action does; a failing release is only logged.\<close>

definition withPaymentSignerLease :: "int \<Rightarrow> string \<Rightarrow> 'a pact \<Rightarrow> 'a pact" where
  "withPaymentSignerLease chainId signerAddress action =
     bindA (liftE (paymentSignerLeaseKey chainId signerAddress)) (\<lambda>key.
     bindA (acquirePaymentSignerLease key PAYMENT_SIGNER_LEASE_TTL_MS) (\<lambda>owner. case owner of
       None \<Rightarrow> throw SignerLeaseBusyError
     | Some o' \<Rightarrow>
         let release = catchA (releasePaymentSignerLease key o') (\<lambda>_. ret ()) in
         bindA (catchA action (\<lambda>e. bindA release (\<lambda>_. throw e))) (\<lambda>x.
         bindA release (\<lambda>_. ret x))))"

subsection \<open>The signer lease honours the contract\<close>

definition lease_holder :: "pdb \<Rightarrow> string \<Rightarrow> (string \<times> int) option" where
  "lease_holder d key = map_option (\<lambda>l. (ls_owner l, ls_expiresAt l)) (find (\<lambda>l. ls_key l = key) (db_leases d))"

definition take_signer :: "signer_statement \<Rightarrow> string \<Rightarrow> string \<Rightarrow> int \<Rightarrow> int \<Rightarrow> pdb \<Rightarrow> pdb \<times> bool" where
  "take_signer s key owner now expires d =
     (case (case s of TakeExpired \<Rightarrow> update_lease_stmt | TakeAbsent \<Rightarrow> insert_lease_stmt) key owner now expires d of
       None \<Rightarrow> (d, False) | Some (d', n) \<Rightarrow> (d', 0 < n))"

definition free_signer :: "string \<Rightarrow> string \<Rightarrow> pdb \<Rightarrow> pdb" where
  "free_signer key owner d = (case delete_lease_stmt key owner d of None \<Rightarrow> d | Some (d', n) \<Rightarrow> d')"

lemma take_signer_update:
  "take_signer TakeExpired key owner now expires d = (let p = (\<lambda>l. ls_key l = key \<and> ls_expiresAt l \<le> now) in
     (d\<lparr>db_leases := upd p (\<lambda>l. l\<lparr>ls_owner := owner, ls_expiresAt := expires, ls_updatedAt := now\<rparr>) (db_leases d)\<rparr>,
      list_ex p (db_leases d)))"
  by (simp add: take_signer_def update_lease_stmt_def plain_def Let_def hits_pos list_ex_iff)

lemma take_signer_insert:
  "leases_unique d \<Longrightarrow> take_signer TakeAbsent key owner now expires d =
     (if key \<in> ls_key ` set (db_leases d) then (d, False)
      else (d\<lparr>db_leases := db_leases d @ [\<lparr>ls_key = key, ls_owner = owner, ls_expiresAt = expires,
        ls_updatedAt = now\<rparr>]\<rparr>, True))"
  by (auto simp: take_signer_def insert_lease_stmt_def or_ignore_def leases_unique_def)

lemma free_signer_eq:
  "free_signer key owner d = d\<lparr>db_leases := filter (\<lambda>l. \<not> (ls_key l = key \<and> ls_owner l = owner)) (db_leases d)\<rparr>"
  by (simp add: free_signer_def delete_lease_stmt_def plain_def Let_def)

text \<open>Lookups by a unique key in tables that grow or lose rows.\<close>

lemma find_append: "find P (xs @ ys) = (case find P xs of None \<Rightarrow> find P ys | Some x \<Rightarrow> Some x)"
  by (induction xs) auto

lemma list_ex_key:
  assumes "distinct (map k rs)"
  shows "list_ex (\<lambda>r. k r = x \<and> q r) rs = (case find (\<lambda>r. k r = x) rs of None \<Rightarrow> False | Some r \<Rightarrow> q r)"
  using assms
proof (induction rs)
  case (Cons r rs)
  have "k r = x \<Longrightarrow> \<not> list_ex (\<lambda>r. k r = x \<and> q r) rs" using Cons.prems by (auto simp: list_ex_iff image_iff)
  then show ?case using Cons by auto
qed simp

lemma find_filter_key:
  assumes "distinct (map k rs)"
  shows "find (\<lambda>r. k r = x) (filter (\<lambda>r. k r = y \<longrightarrow> q r) rs) =
    (case find (\<lambda>r. k r = x) rs of None \<Rightarrow> None | Some r \<Rightarrow> if x = y \<and> \<not> q r then None else Some r)"
  using assms
proof (induction rs)
  case (Cons r rs)
  show ?case
  proof (cases "k r = x")
    case True
    then have "find (\<lambda>r. k r = x) (filter (\<lambda>r. k r = y \<longrightarrow> q r) rs) = None"
      using Cons.prems by (auto simp: find_None_iff image_iff)
    then show ?thesis using True by auto
  next
    case False
    then show ?thesis using Cons by auto
  qed
qed simp

lemma holder_update: "lease_holder (fst (take_signer TakeExpired k u now e d)) x = (case lease_holder d x of
    None \<Rightarrow> None | Some (u', e') \<Rightarrow> if x = k \<and> e' \<le> now then Some (u, e) else Some (u', e'))"
  by (auto simp: take_signer_update lease_holder_def Let_def find_upd_key dest: find_SomeD split: option.split)

lemma granted_update: "leases_unique d \<Longrightarrow> snd (take_signer TakeExpired k u now e d) = (case lease_holder d k of
    None \<Rightarrow> False | Some (u', e') \<Rightarrow> e' \<le> now)"
  by (simp add: take_signer_update lease_holder_def Let_def leases_unique_def list_ex_key split: option.split)

lemma no_holder: "lease_holder d k = None \<longleftrightarrow> k \<notin> ls_key ` set (db_leases d)"
  by (auto simp: lease_holder_def find_None_iff)

lemma holder_insert: "leases_unique d \<Longrightarrow> lease_holder (fst (take_signer TakeAbsent k u now e d)) x =
    (case lease_holder d x of None \<Rightarrow> if x = k then Some (u, e) else None | Some y \<Rightarrow> Some y)"
proof (cases "k \<in> ls_key ` set (db_leases d)")
  case True
  then have "lease_holder d k \<noteq> None" by (simp add: no_holder)
  moreover assume "leases_unique d"
  ultimately show ?thesis using True by (auto simp: take_signer_insert split: option.split)
next
  case False
  then have "find (\<lambda>l. ls_key l = k) (db_leases d) = None" by (auto simp: find_None_iff)
  moreover assume "leases_unique d"
  ultimately show ?thesis
    using False by (auto simp: take_signer_insert lease_holder_def find_append split: option.split)
qed

lemma granted_insert: "leases_unique d \<Longrightarrow> snd (take_signer TakeAbsent k u now e d) = (lease_holder d k = None)"
  using no_holder [of d k] by (simp add: take_signer_insert)

lemma holder_free: "leases_unique d \<Longrightarrow> lease_holder (free_signer k u d) x = (case lease_holder d x of
    None \<Rightarrow> None | Some (u', e') \<Rightarrow> if x = k \<and> u' = u then None else Some (u', e'))"
  using find_filter_key [of ls_key "db_leases d" x k "\<lambda>l. ls_owner l \<noteq> u"]
  by (simp add: free_signer_eq lease_holder_def leases_unique_def split: option.split)

lemma take_signer_unique: "leases_unique d \<Longrightarrow> leases_unique (fst (take_signer s k u now e d))"
  by (cases s) (auto simp: take_signer_update take_signer_insert leases_unique_def Let_def map_upd)

lemma free_signer_unique: "leases_unique d \<Longrightarrow> leases_unique (free_signer k u d)"
  by (auto simp: free_signer_eq leases_unique_def distinct_map_filter)

lemmas signer_lease_simps = holder_update granted_update holder_insert granted_insert holder_free

interpretation signer: lease leases_unique lease_holder take_signer free_signer
proof unfold_locales
  fix d s k u now e k'
  assume inv: "leases_unique d"
  show "leases_unique (fst (take_signer s k u now e d))" using inv by (rule take_signer_unique)
  show "leases_unique (free_signer k u d)" using inv by (rule free_signer_unique)
  show "lease_holder (fst (take_signer s k u now e d)) k = Some (u, e) \<and>
      (case lease_holder d k of None \<Rightarrow> True | Some (u', e') \<Rightarrow> e' \<le> now)"
    if "snd (take_signer s k u now e d)"
    using that inv by (cases s) (auto simp: signer_lease_simps split: option.splits)
  show "lease_holder (fst (take_signer s k u now e d)) k = lease_holder d k"
    if "\<not> snd (take_signer s k u now e d)"
    using that inv by (cases s) (auto simp: signer_lease_simps split: option.splits)
  show "lease_holder (fst (take_signer s k u now e d)) k' = lease_holder d k'" if "k' \<noteq> k"
    using that inv by (cases s) (auto simp: signer_lease_simps split: option.split)
  show "lease_holder (free_signer k u d) k = (case lease_holder d k of None \<Rightarrow> None
      | Some (u', e') \<Rightarrow> if u' = u then None else Some (u', e'))"
    using inv by (simp add: holder_free split: option.split)
  show "lease_holder (free_signer k u d) k' = lease_holder d k'" if "k' \<noteq> k"
    using that inv by (auto simp: holder_free split: option.split)
qed

subsection \<open>Properties\<close>

text \<open>
  C7: the signer lease excludes.  Once a statement has granted the lease of a key until \<open>e\<close>, then after
  any sequence of grants and releases in which nobody frees it in its owner's name and every other
  request comes before \<open>e\<close>, a further request before \<open>e\<close> is refused, whichever statement it uses.
\<close>
theorem signer_lease_exclusive:
  assumes "leases_unique d" and "snd (take_signer s k u now e d)"
    and "\<forall>op \<in> set ops. signer.yields_to k u e op" and "now' < e"
  shows "\<not> snd (take_signer s' k u' now' e' (fold signer.run_op ops (fst (take_signer s k u now e d))))"
  using assms by (rule signer.exclusive)

lemma dec_length: "n < 10 ^ Suc k \<Longrightarrow> length (dec n) \<le> Suc k"
proof (induction k arbitrary: n)
  case 0
  then show ?case by (simp add: dec.simps [of n])
next
  case (Suc k)
  show ?case
  proof (cases "n < 10")
    case False
    have "n div 10 < 10 ^ Suc k" using Suc.prems by auto
    then show ?thesis using Suc.IH [of "n div 10"] False by (simp add: dec.simps [of n])
  qed (simp add: dec.simps [of n])
qed

lemma lease_key_length:
  assumes "paymentSignerLeaseKey c a = Inr key"
  shows "0 < length key \<and> length key \<le> 160"
proof -
  have c: "0 < c" "c \<le> MAX_SAFE_INTEGER" and a: "length a = 42"
    and key: "key = ''cctp-mint:'' @ string_of_int c @ '':'' @ toLowerCase a"
    using assms by (auto simp: paymentSignerLeaseKey_def isSafeInteger_def hex_address_ok_def split: if_splits)
  have "nat c < 10 ^ Suc 15" using c by (simp add: MAX_SAFE_INTEGER_def)
  then have "length (dec (nat c)) \<le> 16" using dec_length by fastforce
  then show ?thesis using c(1) a by (simp add: key string_of_int_def toLowerCase_def)
qed

lemma acquire_quiet:
  assumes "w_env w = []" and "leases_unique (w_db w)" and "0 < length key \<and> length key \<le> 160"
  defines "u \<equiv> w_uuid w (w_ix w)"
  shows "(case lease_holder (w_db w) key of Some (u', e') \<Rightarrow> w_now w < e' | None \<Rightarrow> False) \<Longrightarrow>
      acquirePaymentSignerLease key ttl w = (Inr None, w\<lparr>w_ix := Suc (w_ix w)\<rparr>)"
    and "\<not> (case lease_holder (w_db w) key of Some (u', e') \<Rightarrow> w_now w < e' | None \<Rightarrow> False) \<Longrightarrow>
      \<exists>d. acquirePaymentSignerLease key ttl w = (Inr (Some u), w\<lparr>w_ix := Suc (w_ix w), w_db := d\<rparr>) \<and>
        lease_holder d key = Some (u, w_now w + ttl) \<and> leases_unique d"
proof -
  let ?t = "\<lambda>s. take_signer s key u (w_now w) (w_now w + ttl) (w_db w)"
  have run: "acquirePaymentSignerLease key ttl w =
     (if snd (?t TakeExpired) then (Inr (Some u), w\<lparr>w_ix := Suc (w_ix w), w_db := fst (?t TakeExpired)\<rparr>)
      else if snd (?t TakeAbsent) then (Inr (Some u), w\<lparr>w_ix := Suc (w_ix w), w_db := fst (?t TakeAbsent)\<rparr>)
      else (Inr None, w\<lparr>w_ix := Suc (w_ix w)\<rparr>))"
    if "\<not> snd (?t TakeExpired) \<Longrightarrow> fst (?t TakeExpired) = w_db w" "\<not> snd (?t TakeAbsent) \<Longrightarrow> fst (?t TakeAbsent) = w_db w"
    using assms that
    by (auto simp: acquirePaymentSignerLease_def bindA_def date_now_def randomUUID_def dbx_quiet ret_def
        take_signer_def update_lease_stmt_def insert_lease_stmt_def plain_def or_ignore_def Let_def u_def)
  have un: "\<not> snd (?t TakeExpired) \<Longrightarrow> fst (?t TakeExpired) = w_db w"
    by (auto simp: take_signer_update Let_def list_ex_iff upd_none)
  have ab: "\<not> snd (?t TakeAbsent) \<Longrightarrow> fst (?t TakeAbsent) = w_db w"
    using assms(2) by (auto simp: take_signer_insert split: if_splits)
  note r = run [OF un ab]
  show "acquirePaymentSignerLease key ttl w = (Inr None, w\<lparr>w_ix := Suc (w_ix w)\<rparr>)"
    if "case lease_holder (w_db w) key of Some (u', e') \<Rightarrow> w_now w < e' | None \<Rightarrow> False"
    using that r granted_update [OF assms(2)] granted_insert [OF assms(2)] by (auto split: option.splits)
  show "\<exists>d. acquirePaymentSignerLease key ttl w = (Inr (Some u), w\<lparr>w_ix := Suc (w_ix w), w_db := d\<rparr>) \<and>
        lease_holder d key = Some (u, w_now w + ttl) \<and> leases_unique d"
    if "\<not> (case lease_holder (w_db w) key of Some (u', e') \<Rightarrow> w_now w < e' | None \<Rightarrow> False)"
  proof (cases "lease_holder (w_db w) key")
    case None
    then have g: "\<not> snd (?t TakeExpired)" "snd (?t TakeAbsent)"
      by (simp_all add: granted_update [OF assms(2)] granted_insert [OF assms(2)])
    then show ?thesis
      using r signer.take_granted [OF assms(2) g(2)] signer.take_inv [OF assms(2)] by auto
  next
    case (Some ue)
    then have g: "snd (?t TakeExpired)" using that by (auto simp: granted_update [OF assms(2)] split: prod.splits)
    then show ?thesis
      using r signer.take_granted [OF assms(2) g] signer.take_inv [OF assms(2)] by auto
  qed
qed

definition live_holder :: "pdb \<Rightarrow> string \<Rightarrow> int \<Rightarrow> bool" where
  "live_holder d key now \<longleftrightarrow> (case lease_holder d key of Some (u, e) \<Rightarrow> now < e | None \<Rightarrow> False)"

lemma release_quiet:
  assumes "w_env w = []"
  shows "catchA (releasePaymentSignerLease key u) h w = (Inr (), w\<lparr>w_db := free_signer key u (w_db w)\<rparr>)"
  using assms
  by (simp add: catchA_def releasePaymentSignerLease_def bindA_def dbx_quiet ret_def free_signer_def
      delete_lease_stmt_def plain_def Let_def)

text \<open>
  An action of the relayer runs under the lease of its signer or not at all.  Undisturbed, and with a
  well-formed signer: while somebody's lease is live the request fails as busy and changes nothing;
  otherwise the action runs with the lease held for two minutes from now, its result or error is
  the result, and the lease is gone afterwards, also when the action failed.
\<close>
theorem signer_lease_used:
  assumes "w_env w = []" and "leases_unique (w_db w)" and "paymentSignerLeaseKey c a = Inr key"
  shows "if live_holder (w_db w) key (w_now w)
    then withPaymentSignerLease c a action w = (Inl SignerLeaseBusyError, w\<lparr>w_ix := Suc (w_ix w)\<rparr>)
    else \<exists>w1. lease_holder (w_db w1) key = Some (w_uuid w (w_ix w), w_now w + PAYMENT_SIGNER_LEASE_TTL_MS) \<and>
      w_env w1 = [] \<and> fst (withPaymentSignerLease c a action w) = fst (action w1) \<and>
      (w_env (snd (action w1)) = [] \<longrightarrow> withPaymentSignerLease c a action w = (fst (action w1),
        (snd (action w1))\<lparr>w_db := free_signer key (w_uuid w (w_ix w)) (w_db (snd (action w1)))\<rparr>))"
proof (cases "live_holder (w_db w) key (w_now w)")
  case True
  then show ?thesis
    using acquire_quiet(1) [OF assms(1,2) lease_key_length [OF assms(3)], of PAYMENT_SIGNER_LEASE_TTL_MS] assms(3)
    by (simp add: live_holder_def withPaymentSignerLease_def bindA_def liftE_def throw_def)
next
  case False
  then obtain d where d: "acquirePaymentSignerLease key PAYMENT_SIGNER_LEASE_TTL_MS w =
      (Inr (Some (w_uuid w (w_ix w))), w\<lparr>w_ix := Suc (w_ix w), w_db := d\<rparr>)"
      "lease_holder d key = Some (w_uuid w (w_ix w), w_now w + PAYMENT_SIGNER_LEASE_TTL_MS)"
    using acquire_quiet(2) [OF assms(1,2) lease_key_length [OF assms(3)], of PAYMENT_SIGNER_LEASE_TTL_MS]
    by (auto simp: live_holder_def)
  define w1 where "w1 = w\<lparr>w_ix := Suc (w_ix w), w_db := d\<rparr>"
  obtain r w2 where act: "action w1 = (r, w2)" by (cases "action w1")
  define release where "release = catchA (releasePaymentSignerLease key (w_uuid w (w_ix w))) (\<lambda>_. ret ())"
  have rel: "fst (release w2) = Inr ()" for w2 :: pworld
    by (simp add: release_def catchA_def releasePaymentSignerLease_def bindA_def ret_def dbx_def Let_def
        delete_lease_stmt_def plain_def)
  have run: "withPaymentSignerLease c a action w =
      bindA (catchA action (\<lambda>e. bindA release (\<lambda>_. throw e))) (\<lambda>x. bindA release (\<lambda>_. ret x)) w1"
    using d(1) assms(3)
    by (simp add: withPaymentSignerLease_def bindA_def liftE_def w1_def release_def Let_def)
  have out: "withPaymentSignerLease c a action w = (r, snd (release w2))"
    using rel [of w2] act
    by (cases r; cases "release w2") (simp_all add: run bindA_def catchA_def ret_def throw_def)
  have "w_env w2 = [] \<Longrightarrow> snd (release w2) = w2\<lparr>w_db := free_signer key (w_uuid w (w_ix w)) (w_db w2)\<rparr>"
    by (simp add: release_def release_quiet)
  moreover have "lease_holder (w_db w1) key = Some (w_uuid w (w_ix w), w_now w + PAYMENT_SIGNER_LEASE_TTL_MS)"
      "w_env w1 = []"
    using d(2) assms(1) by (simp_all add: w1_def)
  ultimately show ?thesis using False out act by (intro if_not_P [THEN iffD2] exI [of _ w1]) auto
qed

definition sample_signer :: string where
  "sample_signer = ''0x'' @ replicate 40 (CHR ''a'')"

definition lease_db :: pdb where
  "lease_db = empty_db\<lparr>db_leases := [\<lparr>ls_key = ''k'', ls_owner = ''a'', ls_expiresAt = 10, ls_updatedAt = 0\<rparr>]\<rparr>"

lemma signer_lease_exclusive_witness:
  "\<not> snd (take_signer TakeExpired ''k'' ''c'' 110 200
      (fold signer.run_op [Take TakeAbsent ''k'' ''d'' 50 90, Free ''k'' ''a'']
        (fst (take_signer TakeExpired ''k'' ''b'' 20 120 lease_db))))"
  by (rule signer_lease_exclusive)
    (simp_all add: lease_db_def leases_unique_def empty_db_def take_signer_update)

definition lease_world :: pworld where
  "lease_world = \<lparr>w_db = empty_db, w_now = 5000, w_env = [], w_uuid = (\<lambda>n. ''u''), w_ix = 0, w_sent = []\<rparr>"

lemma sample_signer_key:
  "paymentSignerLeaseKey 421614 sample_signer = Inr (''cctp-mint:421614:0x'' @ replicate 40 (CHR ''a''))"
  by code_simp

lemma signer_lease_used_witness:
  "\<exists>w1. lease_holder (w_db w1) (''cctp-mint:421614:0x'' @ replicate 40 (CHR ''a'')) = Some (''u'', 125000) \<and>
     fst (withPaymentSignerLease 421614 sample_signer (throw (Thrown ''boom'')) lease_world) =
     fst (throw (Thrown ''boom'') w1 :: (err + unit) \<times> pworld)"
proof -
  have "leases_unique (w_db lease_world)" "w_env lease_world = []"
    by (simp_all add: lease_world_def leases_unique_def empty_db_def)
  moreover have "\<not> live_holder (w_db lease_world) (''cctp-mint:421614:0x'' @ replicate 40 (CHR ''a'')) (w_now lease_world)"
    by (simp add: lease_world_def live_holder_def lease_holder_def empty_db_def)
  ultimately show ?thesis
    using signer_lease_used [OF _ _ sample_signer_key, of lease_world "throw (Thrown ''boom'') :: unit pact"]
    by (auto simp: lease_world_def PAYMENT_SIGNER_LEASE_TTL_MS_def)
qed

end
