(* ===== verification/AccountStore.thy ===== *)
theory AccountStore
  imports AppDb AppNetworks Leases
begin

text \<open>
  The leases of the App backend (\<^verbatim>\<open>src/server/src/services/storage/leases.ts\<close>), its signed transactions
  (\<^verbatim>\<open>services/storage/accountOperations.ts\<close>), and the lease of a signer (\<^verbatim>\<open>services/signerLease.ts\<close>).
\<close>

subsection \<open>Leases\<close>

definition update_app_lease :: "string \<Rightarrow> string \<Rightarrow> int \<Rightarrow> int \<Rightarrow> app_db stmt" where
  "update_app_lease key owner now expires = plain (\<lambda>d. let p = (\<lambda>l. kl_key l = key \<and> kl_expiresAt l \<le> now) in
     (d\<lparr>ad_leases := upd p (\<lambda>l. l\<lparr>kl_owner := owner, kl_expiresAt := expires, kl_updatedAt := now\<rparr>) (ad_leases d)\<rparr>, hits p (ad_leases d)))"

text \<open>The key is the primary key.\<close>

definition insert_app_lease :: "string \<Rightarrow> string \<Rightarrow> int \<Rightarrow> int \<Rightarrow> app_db stmt" where
  "insert_app_lease key owner now expires = plain (\<lambda>d. if list_ex (\<lambda>l. kl_key l = key) (ad_leases d) then (d, 0)
     else (d\<lparr>ad_leases := ad_leases d @ [\<lparr>kl_key = key, kl_owner = owner, kl_expiresAt = expires, kl_updatedAt = now\<rparr>]\<rparr>, 1))"

definition acquireLease :: "string \<Rightarrow> int \<Rightarrow> ('m, string option) appact" where
  "acquireLease key ttlMs = (if key = [] \<or> 160 < length key then throw (Thrown ''Invalid lease key'')
     else bindA date_now (\<lambda>now. bindA randomUUID (\<lambda>owner.
       bindA (dbx (update_app_lease key owner now (now + ttlMs))) (\<lambda>updated.
       if 0 < updated then ret (Some owner)
       else bindA (dbx (insert_app_lease key owner now (now + ttlMs))) (\<lambda>inserted.
         ret (if 0 < inserted then Some owner else None))))))"

definition renewLease :: "string \<Rightarrow> string \<Rightarrow> int \<Rightarrow> ('m, bool) appact" where
  "renewLease key owner ttlMs = bindA date_now (\<lambda>now.
     bindA (dbx (plain (\<lambda>d. let p = (\<lambda>l. kl_key l = key \<and> kl_owner l = owner) in
       (d\<lparr>ad_leases := upd p (\<lambda>l. l\<lparr>kl_expiresAt := now + ttlMs, kl_updatedAt := now\<rparr>) (ad_leases d)\<rparr>, hits p (ad_leases d))))) (\<lambda>n.
     ret (0 < n)))"

definition delete_app_lease :: "string \<Rightarrow> string \<Rightarrow> app_db stmt" where
  "delete_app_lease key owner = plain (\<lambda>d. let p = (\<lambda>l. kl_key l = key \<and> kl_owner l = owner) in
     (d\<lparr>ad_leases := filter (\<lambda>l. \<not> p l) (ad_leases d)\<rparr>, hits p (ad_leases d)))"

definition releaseLease :: "string \<Rightarrow> string \<Rightarrow> ('m, unit) appact" where
  "releaseLease key owner = bindA (dbx (delete_app_lease key owner)) (\<lambda>_. ret ())"

subsection \<open>Account operations\<close>

text \<open>The primary key, the unique hash of the transaction, and the one active operation of a kind, a user and a chain.\<close>

definition op_active :: "account_operation \<Rightarrow> bool" where
  "op_active p \<longleftrightarrow> kp_status p \<in> {OpPrepared, OpSubmitted, OpNeedsReview}"

definition op_pending :: "account_operation \<Rightarrow> bool" where
  "op_pending p \<longleftrightarrow> kp_status p \<in> {OpPrepared, OpSubmitted}"

definition op_clash :: "account_operation \<Rightarrow> account_operation \<Rightarrow> bool" where
  "op_clash p q \<longleftrightarrow> kp_id q = kp_id p \<or> kp_txHash q = kp_txHash p \<or>
     op_active p \<and> op_active q \<and> kp_uid q = kp_uid p \<and> kp_kind q = kp_kind p \<and> kp_chainId q = kp_chainId p"

definition insert_operation :: "account_operation \<Rightarrow> app_db stmt" where
  "insert_operation p = plain (\<lambda>d. if list_ex (op_clash p) (ad_accountOps d) \<or> kp_nonce p < 0 then (d, 0)
     else (d\<lparr>ad_accountOps := ad_accountOps d @ [p]\<rparr>, 1))"

text \<open>The row that is inserted: prepared, with no attempt yet.\<close>

definition new_operation :: "account_operation \<Rightarrow> account_operation" where
  "new_operation p = p\<lparr>kp_status := OpPrepared, kp_signer := toLowerCase (kp_signer p), kp_attempts := 0, kp_lastError := None, kp_errorCode := None,
     kp_updatedAt := kp_createdAt p, kp_confirmedAt := None\<rparr>"

definition createAccountOperation :: "app_services \<Rightarrow> account_operation \<Rightarrow> (app_event, bool) appact" where
  "createAccountOperation A p = bindA (wake A ''account_operation_reconciler'' ((job_reason ''account_operation_created'')\<lparr>so_delayMs := Some 5000\<rparr>)) (\<lambda>_.
     bindA (dbx (insert_operation (new_operation p))) (\<lambda>n. ret (0 < n)))"

definition getAccountOperationById :: "string \<Rightarrow> ('m, account_operation option) appact" where
  "getAccountOperationById i = dbq (\<lambda>d. find (\<lambda>p. kp_id p = i) (ad_accountOps d))"

definition getActiveAccountOperation :: "string \<Rightarrow> account_kind \<Rightarrow> int \<Rightarrow> ('m, account_operation option) appact" where
  "getActiveAccountOperation uid kind chainId = dbq (\<lambda>d.
     case sort_key (\<lambda>p. - kp_createdAt p) (filter (\<lambda>p. kp_uid p = uid \<and> kp_kind p = kind \<and> kp_chainId p = chainId \<and> op_active p) (ad_accountOps d)) of
       [] \<Rightarrow> None | p # _ \<Rightarrow> Some p)"

definition listActiveAccountOperations :: "nat \<Rightarrow> ('m, account_operation list) appact" where
  "listActiveAccountOperations limit = dbq (\<lambda>d. take limit (sort_key kp_updatedAt (filter op_pending (ad_accountOps d))))"

definition signer_blocker :: "string \<Rightarrow> int \<Rightarrow> app_db \<Rightarrow> account_operation option" where
  "signer_blocker signer chainId d = (case sort_key kp_updatedAt (filter (\<lambda>p. kp_signer p = toLowerCase signer \<and> kp_chainId p = chainId \<and>
       kp_status p \<in> {OpPrepared, OpNeedsReview}) (ad_accountOps d)) of [] \<Rightarrow> None | p # _ \<Rightarrow> Some p)"

definition getSignerBlockingAccountOperation :: "int \<Rightarrow> string \<Rightarrow> ('m, account_operation option) appact" where
  "getSignerBlockingAccountOperation chainId signer = dbq (signer_blocker signer chainId)"

definition hasAccountOperationNeedsReview :: "('m, bool) appact" where
  "hasAccountOperationNeedsReview = dbq (\<lambda>d. list_ex (\<lambda>p. kp_status p = OpNeedsReview) (ad_accountOps d))"

definition update_operation :: "(account_operation \<Rightarrow> bool) \<Rightarrow> (account_operation \<Rightarrow> account_operation) \<Rightarrow> app_db stmt" where
  "update_operation p f = plain (\<lambda>d. (d\<lparr>ad_accountOps := upd p f (ad_accountOps d)\<rparr>, hits p (ad_accountOps d)))"

definition markAccountOperationSubmitted :: "string \<Rightarrow> ('m, unit) appact" where
  "markAccountOperationSubmitted i = bindA date_now (\<lambda>now. bindA (dbx (update_operation (\<lambda>p. kp_id p = i \<and> kp_status p = OpPrepared)
     (\<lambda>p. p\<lparr>kp_status := OpSubmitted, kp_updatedAt := now\<rparr>))) (\<lambda>_. ret ()))"

definition recordAccountOperationAttempt :: "string \<Rightarrow> string option \<Rightarrow> ('m, unit) appact" where
  "recordAccountOperationAttempt i lastError = bindA date_now (\<lambda>now. bindA (dbx (update_operation (\<lambda>p. kp_id p = i \<and> op_pending p)
     (\<lambda>p. p\<lparr>kp_attempts := kp_attempts p + 1, kp_lastError := lastError, kp_updatedAt := now\<rparr>))) (\<lambda>_. ret ()))"

definition finishAccountOperation :: "string \<Rightarrow> account_status \<Rightarrow> string option \<Rightarrow> string option \<Rightarrow> ('m, bool) appact" where
  "finishAccountOperation i s errorCode lastError = bindA date_now (\<lambda>now. bindA (dbx (update_operation (\<lambda>p. kp_id p = i \<and> op_pending p)
     (\<lambda>p. p\<lparr>kp_status := s, kp_errorCode := errorCode, kp_lastError := lastError, kp_updatedAt := now,
       kp_confirmedAt := (if s = OpConfirmed then Some now else None)\<rparr>))) (\<lambda>n. ret (0 < n)))"

definition sweepAccountOperations :: "('m, unit) appact" where
  "sweepAccountOperations = bindA date_now (\<lambda>now. bindA (dbx (plain (\<lambda>d.
     let p = (\<lambda>p. kp_status p \<in> {OpConfirmed, OpFailed} \<and> kp_updatedAt p \<le> now - 604800000) in
     (d\<lparr>ad_accountOps := filter (\<lambda>x. \<not> p x) (ad_accountOps d)\<rparr>, hits p (ad_accountOps d))))) (\<lambda>_. ret ()))"

subsection \<open>The lease of a signer\<close>

definition SIGNER_LEASE_TTL_MS :: int where "SIGNER_LEASE_TTL_MS = 120000"

definition signerLeaseKey :: "int \<Rightarrow> string \<Rightarrow> err + string" where
  "signerLeaseKey chainId signer = (if \<not> isSafeInteger chainId \<or> chainId \<le> 0 then Inl (Thrown ''Invalid signer chain ID'')
     else if \<not> hex_address_ok signer then Inl (Thrown ''Invalid signer address'')
     else Inr (''tx:'' @ string_of_int chainId @ '':'' @ toLowerCase signer))"

text \<open>
  \<open>blockChain\<close> is the chain of the environment, on which the unresolved operation of the signer is looked up.  A failing release is only
  logged.
\<close>

definition signer_free :: "string option \<Rightarrow> account_operation option \<Rightarrow> bool" where
  "signer_free operationId blocker \<longleftrightarrow> (case blocker of None \<Rightarrow> True | Some p \<Rightarrow> operationId = Some (kp_id p))"

definition withSignerLease :: "int \<Rightarrow> int \<Rightarrow> string \<Rightarrow> string option \<Rightarrow> ('m, 'a) appact \<Rightarrow> ('m, 'a) appact" where
  "withSignerLease blockChain chainId signer operationId action = bindA (liftE (signerLeaseKey chainId signer)) (\<lambda>key.
     bindA (acquireLease key SIGNER_LEASE_TTL_MS) (\<lambda>owner. case owner of
       None \<Rightarrow> throw SignerLeaseBusyError
     | Some u \<Rightarrow> (let release = catchA (releaseLease key u) (\<lambda>_. ret ());
           guarded = bindA (getSignerBlockingAccountOperation blockChain signer) (\<lambda>blocker.
             if signer_free operationId blocker then action else throw SignerLeaseBusyError) in
         bindA (catchA guarded (\<lambda>e. bindA release (\<lambda>_. throw e))) (\<lambda>x. bindA release (\<lambda>_. ret x)))))"

end
