(* ===== verification/UserOpTransport.thy ===== *)
theory UserOpTransport
  imports UserOps AccountStore ChainReader
begin

text \<open>
  How a signed user operation reaches the chain (\<^verbatim>\<open>src/server/src/services/userOperationTransport.ts\<close>): through the configured bundlers, one
  after the other, or by the server's own transaction.  What the bundlers and the node answer is the parameter \<open>relay_services\<close>.
\<close>

subsection \<open>Failures\<close>

text \<open>
  An exception of a request: the error, the text that \<open>extractErrorMessage\<close> makes of it, and the numeric codes of it and of its causes, from
  the outside in, where \<open>None\<close> has no code.
\<close>

record rpc_failure =
  rf_error :: thrown
  rf_text :: string
  rf_codes :: "int option list"

datatype op_failure = TransportFailure transport_error | RequestFailure rpc_failure

fun first_code :: "nat \<Rightarrow> int option list \<Rightarrow> int option" where
  "first_code 0 cs = None"
| "first_code (Suc n) [] = None"
| "first_code (Suc n) (c # cs) = (case c of Some k \<Rightarrow> Some k | None \<Rightarrow> first_code n cs)"

definition nestedRpcCode :: "rpc_failure \<Rightarrow> int option" where
  "nestedRpcCode f = first_code 5 (rf_codes f)"

definition normalizeBundlerError :: "op_failure \<Rightarrow> transport_error" where
  "normalizeBundlerError e = (case e of TransportFailure t \<Rightarrow> t
     | RequestFailure f \<Rightarrow> if isTransientRpcError (rf_error f) then transport_error ''Bundler is temporarily unavailable'' ''BUNDLER_UNAVAILABLE'' True
         else if nestedRpcCode f = Some (- 32507) \<or> text_includes (rf_text f) ''AA24''
         then transport_error ''Bundler rejected the account signature'' ''PASSKEY_MISMATCH'' False
         else if nestedRpcCode f \<in> {Some (- 32501), Some (- 32508)} \<or> text_includes (rf_text f) ''AA31'' \<or> text_includes (rf_text f) ''AA33'' \<or>
           text_includes (rf_text f) ''AA34''
         then transport_error ''Bundler rejected paymaster validation'' ''PAYMASTER_REJECTED'' False
         else transport_error ''Bundler rejected the UserOperation'' ''PAYMENT_FAILED'' False)"

subsection \<open>Services\<close>

datatype relay_event = AskedBundler nat string | AskedRelayer string

text \<open>A receipt of the node with its user operation events.\<close>

record uop_event =
  ux_hash :: "string option"
  ux_success :: "bool option"
  ux_gasCost :: "int option"
  ux_gasUsed :: "int option"

record node_receipt =
  nt_blockNumber :: int
  nt_blockHash :: "string option"
  nt_events :: "uop_event list"

record relay_services =
  rl_hex :: hex_lib
  rl_chainId :: "nat \<Rightarrow> int \<Rightarrow> rpc_failure + json"
  rl_entryPoints :: "nat \<Rightarrow> int \<Rightarrow> rpc_failure + json"
  rl_estimate :: "nat \<Rightarrow> rpc_user_op \<Rightarrow> string \<Rightarrow> int \<Rightarrow> rpc_failure + json"
  rl_send :: "nat \<Rightarrow> rpc_user_op \<Rightarrow> string \<Rightarrow> int \<Rightarrow> rpc_failure + json"
  rl_receipt :: "nat \<Rightarrow> string \<Rightarrow> int \<Rightarrow> rpc_failure + json"
  rl_simulate :: "packed_user_op \<Rightarrow> string \<Rightarrow> int \<Rightarrow> int \<Rightarrow> rpc_failure + unit"
  rl_handleOps :: "packed_user_op \<Rightarrow> string \<Rightarrow> int \<Rightarrow> int \<Rightarrow> rpc_failure + string"
  rl_transaction :: "string \<Rightarrow> int \<Rightarrow> rpc_failure + node_receipt"

record relay_env =
  rv_app :: app_env
  rv_dummySignature :: "string option"
  rv_selfFallback :: "string option"

record relay_input =
  ri_userOp :: packed_user_op
  ri_hash :: string
  ri_entryPoint :: string

record send_result =
  sr_transport :: transport_mode
  sr_userOpHash :: string
  sr_txHash :: "string option"

type_synonym 'a relay_act = "(relay_event, op_failure + 'a) appact"

text \<open>An awaited request; its failure is a value.\<close>

definition asked :: "(int \<Rightarrow> rpc_failure + 'a) \<Rightarrow> 'a relay_act" where
  "asked f = bindA (extcall (\<lambda>t. Some (f t)) ''request'') (\<lambda>r. ret (case r of Inl e \<Rightarrow> Inl (RequestFailure e) | Inr x \<Rightarrow> Inr x))"

text \<open>A request that submits is recorded.\<close>

definition submitted :: "relay_event \<Rightarrow> (int \<Rightarrow> rpc_failure + 'a) \<Rightarrow> 'a relay_act" where
  "submitted e f = bindA (callA e (\<lambda>t. Some (f t)) ''request'') (\<lambda>r. ret (case r of Inl e \<Rightarrow> Inl (RequestFailure e) | Inr x \<Rightarrow> Inr x))"

definition andThen :: "'a relay_act \<Rightarrow> ('a \<Rightarrow> 'b relay_act) \<Rightarrow> 'b relay_act" where
  "andThen m f = bindA m (\<lambda>r. case r of Inl e \<Rightarrow> ret (Inl e) | Inr x \<Rightarrow> f x)"

definition network_of :: "relay_env \<Rightarrow> app_network" where
  "network_of E = getNetworkConfig (ve_chainKey (rv_app E))"

subsection \<open>Does a bundler serve the EntryPoint?\<close>

definition CAPABILITY_CACHE_MS :: int where "CAPABILITY_CACHE_MS = 300000"

definition opaqueBundlerEndpointKey :: "viem \<Rightarrow> string \<Rightarrow> nat \<Rightarrow> string" where
  "opaqueBundlerEndpointKey V url slot = ''bundler:'' @ string_of_int (int slot) @ '':'' @ v_sha256 V url"

definition same_endpoint :: "string \<Rightarrow> int \<Rightarrow> string \<Rightarrow> bundler_row \<Rightarrow> bool" where
  "same_endpoint key c entryPoint r \<longleftrightarrow> kb_endpoint r = key \<and> kb_chainId r = c \<and> kb_entryPoint r = entryPoint"

definition upsert_bundler :: "bundler_row \<Rightarrow> app_db stmt" where
  "upsert_bundler r = plain (\<lambda>d. (d\<lparr>ad_bundlers := upsert (same_endpoint (kb_endpoint r) (kb_chainId r) (kb_entryPoint r)) (\<lambda>_. r) r (ad_bundlers d)\<rparr>, 1))"

definition lists_entry_point :: "string \<Rightarrow> json \<Rightarrow> bool" where
  "lists_entry_point entryPoint j \<longleftrightarrow> (case j of JArr xs \<Rightarrow> list_ex (\<lambda>x. case x of JStr s \<Rightarrow> toLowerCase s = entryPoint | _ \<Rightarrow> False) xs | _ \<Rightarrow> False)"

text \<open>The number of a chain that is not one raises a \<open>SyntaxError\<close>.\<close>

definition syntax_failure :: "string \<Rightarrow> op_failure" where
  "syntax_failure s = RequestFailure \<lparr>rf_error = JsError ''SyntaxError'' (''Cannot convert '' @ s @ '' to a BigInt'') None,
     rf_text = ''Cannot convert '' @ s @ '' to a BigInt'', rf_codes = []\<rparr>"

definition supports :: "int \<Rightarrow> string \<Rightarrow> json \<Rightarrow> json \<Rightarrow> op_failure + bool" where
  "supports c entryPoint chain points = (case chain of
       JStr s \<Rightarrow> (case js_BigInt s of None \<Rightarrow> Inl (syntax_failure s) | Some n \<Rightarrow> Inr (n = c \<and> lists_entry_point entryPoint points))
     | _ \<Rightarrow> Inr False)"

definition discover :: "relay_services \<Rightarrow> int \<Rightarrow> string \<Rightarrow> string \<Rightarrow> nat \<Rightarrow> bool relay_act" where
  "discover S c key ep slot = andThen (asked (rl_chainId S slot)) (\<lambda>chain. andThen (asked (rl_entryPoints S slot)) (\<lambda>points.
     case supports c ep chain points of
       Inl e \<Rightarrow> ret (Inl e)
     | Inr b \<Rightarrow> bindA date_now (\<lambda>now. bindA (catchA (dbx (upsert_bundler \<lparr>kb_endpoint = key, kb_chainId = c, kb_entryPoint = ep, kb_supported = b,
           kb_checkedAt = now\<rparr>)) (\<lambda>_. ret 0)) (\<lambda>_. ret (Inr b)))))"

definition endpointSupports :: "viem \<Rightarrow> relay_services \<Rightarrow> relay_env \<Rightarrow> string \<Rightarrow> nat \<Rightarrow> string \<Rightarrow> bool relay_act" where
  "endpointSupports V S E url slot entryPoint = (let c = an_chainId (network_of E); key = opaqueBundlerEndpointKey V url slot; ep = toLowerCase entryPoint in
     bindA (dbq (\<lambda>d. find (same_endpoint key c ep) (ad_bundlers d))) (\<lambda>cached. bindA date_now (\<lambda>now.
     case cached of
       Some r \<Rightarrow> if now - kb_checkedAt r < CAPABILITY_CACHE_MS then ret (Inr (kb_supported r)) else discover S c key ep slot
     | None \<Rightarrow> discover S c key ep slot)))"

subsection \<open>Bundlers\<close>

definition is_hash :: "json \<Rightarrow> string option" where
  "is_hash j = (case j of JStr s \<Rightarrow> if hex_digits 64 s then Some s else None | _ \<Rightarrow> None)"

definition parseRpcQuantity :: "json option \<Rightarrow> string \<Rightarrow> op_failure + int" where
  "parseRpcQuantity v label = (let bad = Inl (TransportFailure (transport_error (''Bundler returned invalid '' @ label) ''BUNDLER_UNAVAILABLE'' True)) in
     case v of Some (JStr s) \<Rightarrow> if hex_text s then Inr (int (hex_value (drop 2 s))) else bad | _ \<Rightarrow> bad)"

text \<open>The endpoints with their slots; none is an error.\<close>

definition endpoints :: "relay_env \<Rightarrow> (nat \<times> string) list" where
  "endpoints E = enumerate 0 (getRpcUrls (rv_app E) BundlerRole)"

definition no_endpoint :: transport_error where
  "no_endpoint = transport_error ''No bundler endpoint is configured'' ''BUNDLER_UNAVAILABLE'' True"

definition unsupported :: transport_error where
  "unsupported = transport_error ''Configured bundlers do not support GatoPago EntryPoint v0.9'' ''BUNDLER_ENTRYPOINT_UNSUPPORTED'' False"

text \<open>What came of one endpoint; \<open>Failed\<close> tells whether the request itself had been reached.\<close>

datatype 'a attempt = Skipped | Succeeded 'a | Failed bool op_failure

definition tried :: "op_failure + 'a \<Rightarrow> 'a attempt" where
  "tried r = (case r of Inl e \<Rightarrow> Failed True e | Inr x \<Rightarrow> Succeeded x)"

definition with_support :: "viem \<Rightarrow> relay_services \<Rightarrow> relay_env \<Rightarrow> string \<Rightarrow> nat \<times> string \<Rightarrow> 'a relay_act \<Rightarrow> (relay_event, 'a attempt) appact" where
  "with_support V S E entryPoint ep request = bindA (endpointSupports V S E (snd ep) (fst ep) entryPoint) (\<lambda>b. case b of
       Inl e \<Rightarrow> ret (Failed False e)
     | Inr False \<Rightarrow> ret Skipped
     | Inr True \<Rightarrow> bindA request (\<lambda>r. ret (tried r)))"

record gas_estimate =
  ge_verificationGasLimit :: int
  ge_callGasLimit :: int
  ge_preVerificationGas :: int
  ge_paymasterVerificationGasLimit :: "int option"
  ge_paymasterPostOpGasLimit :: "int option"

definition bindO :: "op_failure + 'a \<Rightarrow> ('a \<Rightarrow> op_failure + 'b) \<Rightarrow> op_failure + 'b" where
  "bindO r f = (case r of Inl e \<Rightarrow> Inl e | Inr x \<Rightarrow> f x)"

definition optional_quantity :: "(string \<times> json) list \<Rightarrow> string \<Rightarrow> op_failure + int option" where
  "optional_quantity fs k = (case jget fs k of None \<Rightarrow> Inr None | Some v \<Rightarrow> bindO (parseRpcQuantity (Some v) k) (\<lambda>n. Inr (Some n)))"

definition read_estimate :: "json \<Rightarrow> op_failure + gas_estimate" where
  "read_estimate j = (case (case j of JObj fs \<Rightarrow> Some fs | JArr xs \<Rightarrow> Some [] | _ \<Rightarrow> None) of
       None \<Rightarrow> Inl (TransportFailure (transport_error ''Bundler returned an invalid gas estimate'' ''BUNDLER_UNAVAILABLE'' True))
     | Some fs \<Rightarrow> bindO (parseRpcQuantity (jget fs ''verificationGasLimit'') ''verificationGasLimit'') (\<lambda>v.
         bindO (parseRpcQuantity (jget fs ''callGasLimit'') ''callGasLimit'') (\<lambda>c.
         bindO (parseRpcQuantity (jget fs ''preVerificationGas'') ''preVerificationGas'') (\<lambda>p.
         bindO (optional_quantity fs ''paymasterVerificationGasLimit'') (\<lambda>pv.
         bindO (optional_quantity fs ''paymasterPostOpGasLimit'') (\<lambda>po.
         Inr \<lparr>ge_verificationGasLimit = v, ge_callGasLimit = c, ge_preVerificationGas = p, ge_paymasterVerificationGasLimit = pv,
           ge_paymasterPostOpGasLimit = po\<rparr>))))))"

definition rpc_form :: "relay_services \<Rightarrow> packed_user_op \<Rightarrow> string option \<Rightarrow> op_failure + rpc_user_op" where
  "rpc_form S uop signature = (case packedUserOperationToRpc (rl_hex S) uop signature of Inl e \<Rightarrow> Inl (TransportFailure e) | Inr r \<Rightarrow> Inr r)"

definition liftO :: "op_failure + 'a \<Rightarrow> 'a relay_act" where
  "liftO r = ret r"

definition dummy_signature :: "relay_env \<Rightarrow> string" where
  "dummy_signature E = (case rv_dummySignature E of None \<Rightarrow> ''0x'' | Some s \<Rightarrow> if hex_chars s then s else ''0x'')"

definition ask_estimate :: "relay_services \<Rightarrow> relay_env \<Rightarrow> packed_user_op \<Rightarrow> string \<Rightarrow> nat \<Rightarrow> gas_estimate relay_act" where
  "ask_estimate S E uop entryPoint slot = andThen (liftO (rpc_form S uop (Some (dummy_signature E)))) (\<lambda>r.
     andThen (asked (rl_estimate S slot r entryPoint)) (\<lambda>j. liftO (read_estimate j)))"

fun estimate_loop :: "viem \<Rightarrow> relay_services \<Rightarrow> relay_env \<Rightarrow> packed_user_op \<Rightarrow> string \<Rightarrow> (nat \<times> string) list \<Rightarrow> bool \<Rightarrow> transport_error option \<Rightarrow>
    gas_estimate relay_act" where
  "estimate_loop V S E uop entryPoint [] compatible transient = ret (Inl (TransportFailure (
     if \<not> compatible \<and> transient = None then unsupported
     else (case transient of Some e \<Rightarrow> e | None \<Rightarrow> transport_error ''Bundler gas estimation failed'' ''BUNDLER_UNAVAILABLE'' True))))"
| "estimate_loop V S E uop entryPoint (ep # eps) compatible transient =
     bindA (with_support V S E entryPoint ep (ask_estimate S E uop entryPoint (fst ep))) (\<lambda>r. case r of
       Skipped \<Rightarrow> estimate_loop V S E uop entryPoint eps compatible transient
     | Succeeded x \<Rightarrow> ret (Inr x)
     | Failed made e \<Rightarrow> (let n = normalizeBundlerError e in
         if \<not> te_retryable n then ret (Inl (TransportFailure n))
         else estimate_loop V S E uop entryPoint eps (compatible \<or> made) (Some n)))"

definition bundler_estimate :: "viem \<Rightarrow> relay_services \<Rightarrow> relay_env \<Rightarrow> packed_user_op \<Rightarrow> string \<Rightarrow> gas_estimate relay_act" where
  "bundler_estimate V S E uop entryPoint = (if endpoints E = [] then ret (Inl (TransportFailure no_endpoint))
     else estimate_loop V S E uop entryPoint (endpoints E) False None)"

definition self_estimate :: "packed_user_op \<Rightarrow> op_failure + gas_estimate" where
  "self_estimate uop = (case packedPair (po_accountGasLimits uop) ''accountGasLimits'' of Inl e \<Rightarrow> Inl (TransportFailure e)
     | Inr (v, c) \<Rightarrow> Inr \<lparr>ge_verificationGasLimit = v, ge_callGasLimit = c, ge_preVerificationGas = po_preVerificationGas uop,
         ge_paymasterVerificationGasLimit = None, ge_paymasterPostOpGasLimit = None\<rparr>)"

subsection \<open>Sending\<close>

definition hash_matches :: "string \<Rightarrow> json \<Rightarrow> bool" where
  "hash_matches h j \<longleftrightarrow> (case is_hash j of None \<Rightarrow> False | Some s \<Rightarrow> toLowerCase s = toLowerCase h)"

definition ask_send :: "relay_services \<Rightarrow> relay_input \<Rightarrow> nat \<Rightarrow> send_result relay_act" where
  "ask_send S inp slot = andThen (liftO (rpc_form S (ri_userOp inp) None)) (\<lambda>r.
     andThen (submitted (AskedBundler slot (ri_hash inp)) (rl_send S slot r (ri_entryPoint inp))) (\<lambda>j.
     if \<not> hash_matches (ri_hash inp) j
     then ret (Inl (TransportFailure (transport_error ''Bundler returned a different UserOperation hash'' ''PAYMENT_FAILED'' False)))
     else ret (Inr \<lparr>sr_transport = Bundler, sr_userOpHash = the (is_hash j), sr_txHash = None\<rparr>)))"

definition unknown_submission :: transport_error where
  "unknown_submission = \<lparr>te_message = ''Bundler submission result is unknown'', te_code = ''BUNDLER_UNAVAILABLE'', te_retryable = True,
     te_possiblySubmitted = True, te_transport = Some Bundler\<rparr>"

fun send_loop :: "viem \<Rightarrow> relay_services \<Rightarrow> relay_env \<Rightarrow> relay_input \<Rightarrow> (nat \<times> string) list \<Rightarrow> bool \<Rightarrow> transport_error option \<Rightarrow> bool \<Rightarrow>
    send_result relay_act" where
  "send_loop V S E inp [] compatible transient possiblySubmitted = ret (Inl (TransportFailure (
     if \<not> compatible \<and> transient = None then unsupported
     else (case transient of Some e \<Rightarrow> e | None \<Rightarrow> transport_error ''Bundler submission failed'' ''BUNDLER_UNAVAILABLE'' True))))"
| "send_loop V S E inp (ep # eps) compatible transient possiblySubmitted =
     bindA (with_support V S E (ri_entryPoint inp) ep (ask_send S inp (fst ep))) (\<lambda>r. case r of
       Skipped \<Rightarrow> send_loop V S E inp eps compatible transient possiblySubmitted
     | Succeeded x \<Rightarrow> ret (Inr x)
     | Failed attemptedSubmission e \<Rightarrow> (let n = normalizeBundlerError e; p = possiblySubmitted \<or> attemptedSubmission in
         if \<not> te_retryable n then ret (Inl (TransportFailure (if possiblySubmitted then unknown_submission else n)))
         else send_loop V S E inp eps (compatible \<or> attemptedSubmission)
           (Some \<lparr>te_message = te_message n, te_code = te_code n, te_retryable = True, te_possiblySubmitted = p, te_transport = Some Bundler\<rparr>) p))"

definition bundler_send :: "viem \<Rightarrow> relay_services \<Rightarrow> relay_env \<Rightarrow> relay_input \<Rightarrow> send_result relay_act" where
  "bundler_send V S E inp = (if endpoints E = [] then ret (Inl (TransportFailure no_endpoint))
     else send_loop V S E inp (endpoints E) False None False)"

text \<open>A transient failure of the server's transaction, or of its lease, leaves open whether it was sent.\<close>

definition unknown_relay :: transport_error where
  "unknown_relay = \<lparr>te_message = ''Relayer submission result is unknown'', te_code = ''SERVICE_UNAVAILABLE'', te_retryable = True,
     te_possiblySubmitted = True, te_transport = Some SelfRelay\<rparr>"

definition self_send :: "viem \<Rightarrow> relay_services \<Rightarrow> relay_env \<Rightarrow> relay_input \<Rightarrow> send_result relay_act" where
  "self_send V S E inp = (let account = v_addressOfKey V (ve_privateKey (rv_app E)); c = an_chainId (network_of E); gas = handleOpsGasFor (ri_userOp inp) in
     andThen (asked (rl_simulate S (ri_userOp inp) (ri_entryPoint inp) gas)) (\<lambda>_.
     bindA (withSignerLease c c account None (callA (AskedRelayer (ri_hash inp))
         (\<lambda>t. Some (rl_handleOps S (ri_userOp inp) (ri_entryPoint inp) gas t)) ''writeContract'')) (\<lambda>r. case r of
       Inl f \<Rightarrow> ret (Inl (if isTransientRpcError (rf_error f) then TransportFailure unknown_relay else RequestFailure f))
     | Inr h \<Rightarrow> ret (Inr \<lparr>sr_transport = SelfRelay, sr_userOpHash = ri_hash inp, sr_txHash = Some h\<rparr>))))"

definition sendUserOperation :: "viem \<Rightarrow> relay_services \<Rightarrow> relay_env \<Rightarrow> transport_mode \<Rightarrow> relay_input \<Rightarrow> send_result relay_act" where
  "sendUserOperation V S E mode inp = (case mode of
       SelfRelay \<Rightarrow> self_send V S E inp
     | Bundler \<Rightarrow> bindA (bundler_send V S E inp) (\<lambda>r. case r of
         Inl (TransportFailure e) \<Rightarrow> if rv_selfFallback E = Some ''true'' \<and> te_retryable e \<and> \<not> te_possiblySubmitted e then self_send V S E inp
           else ret (Inl (TransportFailure e))
       | _ \<Rightarrow> ret r))"

subsection \<open>Receipts\<close>

record op_receipt =
  or_userOpHash :: string
  or_txHash :: string
  or_blockNumber :: int
  or_blockHash :: string
  or_success :: bool
  or_gasCost :: int
  or_gasUsed :: int

definition parseUserOperationReceiptFromLogs :: "uop_event list \<Rightarrow> string \<Rightarrow> (bool \<times> int \<times> int) option" where
  "parseUserOperationReceiptFromLogs events h = (case find (\<lambda>e. case ux_hash e of None \<Rightarrow> False | Some x \<Rightarrow> toLowerCase x = toLowerCase h) events of
       None \<Rightarrow> None
     | Some e \<Rightarrow> map_option (\<lambda>b. (b, case ux_gasCost e of None \<Rightarrow> 0 | Some n \<Rightarrow> n, case ux_gasUsed e of None \<Rightarrow> 0 | Some n \<Rightarrow> n)) (ux_success e))"

definition self_receipt :: "relay_services \<Rightarrow> string \<Rightarrow> string option \<Rightarrow> op_receipt option relay_act" where
  "self_receipt S h tx = (case tx of None \<Rightarrow> ret (Inr None) | Some t \<Rightarrow> if t = [] then ret (Inr None)
     else bindA (asked (rl_transaction S t)) (\<lambda>r. case r of
       Inl (RequestFailure f) \<Rightarrow> ret (if isTransientRpcError (rf_error f) then Inr None else Inl (RequestFailure f))
     | Inl (TransportFailure e) \<Rightarrow> ret (Inl (TransportFailure e))
     | Inr n \<Rightarrow> ret (Inr (case nt_blockHash n of None \<Rightarrow> None | Some b \<Rightarrow> if b = [] then None
         else map_option (\<lambda>(ok, cost, used). \<lparr>or_userOpHash = h, or_txHash = t, or_blockNumber = nt_blockNumber n, or_blockHash = b, or_success = ok,
           or_gasCost = cost, or_gasUsed = used\<rparr>) (parseUserOperationReceiptFromLogs (nt_events n) h)))))"

text \<open>\<open>Inr None\<close> makes the loop go on to the next endpoint, as an error of a quantity does.\<close>

definition obj_at :: "(string \<times> json) list \<Rightarrow> string \<Rightarrow> (string \<times> json) list" where
  "obj_at fs k = (case jget fs k of Some (JObj gs) \<Rightarrow> gs | _ \<Rightarrow> [])"

definition hash_at :: "(string \<times> json) list \<Rightarrow> string \<Rightarrow> string option" where
  "hash_at fs k = (case jget fs k of None \<Rightarrow> None | Some j \<Rightarrow> is_hash j)"

definition read_receipt :: "string \<Rightarrow> json \<Rightarrow> op_failure + op_receipt option" where
  "read_receipt h j = (case j of JObj fs \<Rightarrow> (let receipt = obj_at fs ''receipt'' in
       case (hash_at fs ''userOpHash'', hash_at receipt ''transactionHash'', hash_at receipt ''blockHash'', jget fs ''success'') of
         (Some u, Some t, Some b, Some (JBool ok)) \<Rightarrow> if toLowerCase u \<noteq> toLowerCase h then Inr None
           else bindO (parseRpcQuantity (jget receipt ''blockNumber'') ''receipt.blockNumber'') (\<lambda>n.
             bindO (parseRpcQuantity (jget fs ''actualGasCost'') ''actualGasCost'') (\<lambda>cost.
             bindO (parseRpcQuantity (jget fs ''actualGasUsed'') ''actualGasUsed'') (\<lambda>used.
             Inr (Some \<lparr>or_userOpHash = u, or_txHash = t, or_blockNumber = n, or_blockHash = b, or_success = ok, or_gasCost = cost, or_gasUsed = used\<rparr>))))
       | _ \<Rightarrow> Inr None)
     | _ \<Rightarrow> Inr None)"

fun receipt_loop :: "relay_services \<Rightarrow> string \<Rightarrow> (nat \<times> string) list \<Rightarrow> op_receipt option relay_act" where
  "receipt_loop S h [] = ret (Inr None)"
| "receipt_loop S h (ep # eps) = bindA (andThen (asked (rl_receipt S (fst ep) h)) (\<lambda>j. liftO (read_receipt h j))) (\<lambda>r. case r of
       Inr (Some x) \<Rightarrow> ret (Inr (Some x)) | _ \<Rightarrow> receipt_loop S h eps)"

definition bundler_receipt :: "relay_services \<Rightarrow> relay_env \<Rightarrow> string \<Rightarrow> op_receipt option relay_act" where
  "bundler_receipt S E h = (if endpoints E = [] then ret (Inl (TransportFailure no_endpoint)) else receipt_loop S h (endpoints E))"

end
