(* ===== verification/RelayProps.thy ===== *)
theory RelayProps
  imports UserOpTransport "HOL-Library.Sublist"
begin

text \<open>
  A user operation is not relayed twice: what a call of the transports asks of the bundlers and of the server's signer, and what its errors
  say of it.
\<close>

subsection \<open>What an action asks for\<close>

text \<open>\<open>appends P m\<close>: whatever else happens, \<open>m\<close> appends to the sent requests a list that is related to its outcome by \<open>P\<close>.\<close>

definition appends :: "(err + 'a \<Rightarrow> 'm list \<Rightarrow> bool) \<Rightarrow> ('d, 'm, 'a) act \<Rightarrow> bool" where
  "appends P m \<longleftrightarrow> (\<forall>w. \<exists>es. w_sent (snd (m w)) = w_sent w @ es \<and> P (fst (m w)) es)"

abbreviation asks_nothing :: "('d, 'm, 'a) act \<Rightarrow> bool" where
  "asks_nothing \<equiv> appends (\<lambda>r es. es = [])"

lemma appendsD: "appends P m \<Longrightarrow> m w = (r, w') \<Longrightarrow> \<exists>es. w_sent w' = w_sent w @ es \<and> P r es"
  unfolding appends_def by (metis fst_conv snd_conv)

lemma appends_weaken: "appends P m \<Longrightarrow> (\<And>r es. P r es \<Longrightarrow> Q r es) \<Longrightarrow> appends Q m"
  unfolding appends_def by blast

lemma await_sent: "w_sent (await w) = w_sent w"
  by (auto simp: await_def split: list.splits prod.splits)

lemma appends_ret: "P (Inr x) [] \<Longrightarrow> appends P (ret x)"
  by (simp add: appends_def ret_def)

lemma asks_nothing_basic [simp]:
  "asks_nothing (ret x)" "asks_nothing (throw e)" "asks_nothing (liftE r)" "asks_nothing date_now" "asks_nothing randomUUID"
  "asks_nothing (dbq f)" "asks_nothing (dbx s)" "asks_nothing (extcall g n)"
  by (auto simp: appends_def ret_def throw_def liftE_def date_now_def randomUUID_def dbq_def dbx_def extcall_def Let_def await_sent
      split: option.split prod.split)

lemma appends_bind:
  assumes m: "appends P m" and f: "\<And>x. appends (Q x) (f x)"
    and fail: "\<And>e es. P (Inl e) es \<Longrightarrow> S (Inl e) es" and go: "\<And>x r es es'. P (Inr x) es \<Longrightarrow> Q x r es' \<Longrightarrow> S r (es @ es')"
  shows "appends S (bindA m f)"
  unfolding appends_def
proof
  fix w
  obtain r w1 where mw: "m w = (r, w1)" by (cases "m w")
  obtain es where es: "w_sent w1 = w_sent w @ es" "P r es" using appendsD [OF m mw] by blast
  show "\<exists>es. w_sent (snd (bindA m f w)) = w_sent w @ es \<and> S (fst (bindA m f w)) es"
  proof (cases r)
    case (Inl e)
    then show ?thesis using es mw fail by (auto simp: bindA_def)
  next
    case (Inr x)
    obtain r' w2 where fx: "f x w1 = (r', w2)" by (cases "f x w1")
    obtain es' where "w_sent w2 = w_sent w1 @ es'" "Q x r' es'" using appendsD [OF f fx] by blast
    then have "w_sent (snd (bindA m f w)) = w_sent w @ es @ es' \<and> S (fst (bindA m f w)) (es @ es')"
      using es mw Inr fx go by (auto simp: bindA_def)
    then show ?thesis by blast
  qed
qed

lemma appends_catch:
  assumes m: "appends P m" and h: "\<And>e. appends (Q e) (h e)"
    and ok: "\<And>x es. P (Inr x) es \<Longrightarrow> S (Inr x) es" and go: "\<And>e r es es'. P (Inl e) es \<Longrightarrow> Q e r es' \<Longrightarrow> S r (es @ es')"
  shows "appends S (catchA m h)"
  unfolding appends_def
proof
  fix w
  obtain r w1 where mw: "m w = (r, w1)" by (cases "m w")
  obtain es where es: "w_sent w1 = w_sent w @ es" "P r es" using appendsD [OF m mw] by blast
  show "\<exists>es. w_sent (snd (catchA m h w)) = w_sent w @ es \<and> S (fst (catchA m h w)) es"
  proof (cases r)
    case (Inr x)
    then show ?thesis using es mw ok by (auto simp: catchA_def)
  next
    case (Inl e)
    obtain r' w2 where fx: "h e w1 = (r', w2)" by (cases "h e w1")
    obtain es' where "w_sent w2 = w_sent w1 @ es'" "Q e r' es'" using appendsD [OF h fx] by blast
    then have "w_sent (snd (catchA m h w)) = w_sent w @ es @ es' \<and> S (fst (catchA m h w)) (es @ es')"
      using es mw Inl fx go by (auto simp: catchA_def)
    then show ?thesis by blast
  qed
qed

lemma asks_nothing_bind [intro]: "asks_nothing m \<Longrightarrow> (\<And>x. asks_nothing (f x)) \<Longrightarrow> asks_nothing (bindA m f)"
  by (rule appends_bind [where P = "\<lambda>r es. es = []" and Q = "\<lambda>x r es. es = []"]) auto

lemma asks_nothing_catch [intro]: "asks_nothing m \<Longrightarrow> (\<And>e. asks_nothing (h e)) \<Longrightarrow> asks_nothing (catchA m h)"
  by (rule appends_catch [where P = "\<lambda>r es. es = []" and Q = "\<lambda>x r es. es = []"]) auto

text \<open>First something that asks for nothing.\<close>

lemma appends_after: "asks_nothing m \<Longrightarrow> (\<And>x. appends P (f x)) \<Longrightarrow> (\<And>e. P (Inl e) []) \<Longrightarrow> appends P (bindA m f)"
  by (rule appends_bind [where P = "\<lambda>r es. es = []" and Q = "\<lambda>_. P"]) auto

text \<open>An exception that is not caught leaves the value open: \<open>on P\<close> reads \<open>P\<close> of a result that is one.\<close>

definition on :: "('a \<Rightarrow> bool) \<Rightarrow> err + 'a \<Rightarrow> bool" where
  "on P r \<longleftrightarrow> (case r of Inl e \<Rightarrow> True | Inr x \<Rightarrow> P x)"

lemma on_simps [simp]: "on P (Inl e)" "on P (Inr x) = P x"
  by (simp_all add: on_def)

subsection \<open>The transports\<close>

lemma asks_nothing_asked [simp]: "asks_nothing (asked f)"
  unfolding asked_def by (rule asks_nothing_bind) simp_all

lemma asks_nothing_andThen [intro]: "asks_nothing m \<Longrightarrow> (\<And>x. asks_nothing (f x)) \<Longrightarrow> asks_nothing (andThen m f)"
  unfolding andThen_def by (rule asks_nothing_bind) (auto split: sum.split)

lemma asks_nothing_supports [simp]: "asks_nothing (endpointSupports V S E url slot ep)"
proof -
  have "asks_nothing (discover S c key e slot)" for c key e
    unfolding discover_def
    by (intro asks_nothing_andThen) (auto split: sum.split intro!: asks_nothing_bind asks_nothing_catch)
  then show ?thesis unfolding endpointSupports_def Let_def by (auto intro!: asks_nothing_bind split: option.split)
qed

text \<open>One request of a bundler.\<close>

definition asked_slots :: "string \<Rightarrow> nat list \<Rightarrow> relay_event list" where
  "asked_slots h ns = map (\<lambda>n. AskedBundler n h) ns"

lemma appends_submitted: "appends (\<lambda>r es. es = [e]) (submitted e f)"
proof -
  have "appends (\<lambda>r es. es = [e]) (callA e (\<lambda>t. Some (f t)) name)" for name
    by (simp add: appends_def callA_def Let_def await_sent)
  then show ?thesis unfolding submitted_def
    by (rule appends_bind [where P = "\<lambda>r es. es = [e]" and Q = "\<lambda>_ _ es. es = []"]) auto
qed

lemma appends_ask_send: "appends (\<lambda>r es. es = [] \<or> es = [AskedBundler slot (ri_hash inp)]) (ask_send S inp slot)"
  (is "appends ?P _")
proof -
  have send: "appends ?P (andThen (submitted (AskedBundler slot (ri_hash inp)) f) g)"
    if "\<And>x. asks_nothing (g x)" for f :: "int \<Rightarrow> rpc_failure + json" and g :: "json \<Rightarrow> send_result relay_act"
    unfolding andThen_def
    by (rule appends_bind [OF appends_submitted, where Q = "\<lambda>_ _ es. es = []"]) (auto simp: that split: sum.split)
  have lift: "appends ?P (andThen (liftO r) f)" if "\<And>x. appends ?P (f x)" for r and f :: "rpc_user_op \<Rightarrow> send_result relay_act"
    unfolding andThen_def liftO_def by (cases r) (auto intro: appends_ret that)
  show ?thesis unfolding ask_send_def by (intro lift send) simp
qed

definition bundler_part :: "string \<Rightarrow> nat \<Rightarrow> send_result attempt \<Rightarrow> relay_event list \<Rightarrow> bool" where
  "bundler_part h slot a es \<longleftrightarrow> (case a of Skipped \<Rightarrow> es = [] | Failed False e \<Rightarrow> es = [] | _ \<Rightarrow> es = [] \<or> es = [AskedBundler slot h])"

lemma appends_support:
  "appends (\<lambda>r es. on (\<lambda>a. bundler_part (ri_hash inp) (fst ep) a es) r \<and> (es = [] \<or> es = [AskedBundler (fst ep) (ri_hash inp)]))
    (with_support V S E p ep (ask_send S inp (fst ep)))" (is "appends ?P _")
proof -
  have made: "appends ?P (bindA (ask_send S inp (fst ep)) (\<lambda>r. ret (tried r)))"
    by (rule appends_bind [OF appends_ask_send, where Q = "\<lambda>x r es. es = [] \<and> r = Inr (tried x)"])
      (auto simp: bundler_part_def tried_def split: sum.splits intro: appends_ret)
  have rest: "appends ?P (case b of Inl e \<Rightarrow> ret (Failed False e) | Inr False \<Rightarrow> ret Skipped
      | Inr True \<Rightarrow> bindA (ask_send S inp (fst ep)) (\<lambda>r. ret (tried r)))" for b
  proof (cases b)
    case (Inl e)
    then show ?thesis by (auto intro!: appends_ret simp: bundler_part_def)
  next
    case (Inr x)
    then show ?thesis using made by (cases x) (auto intro!: appends_ret simp: bundler_part_def)
  qed
  show ?thesis unfolding with_support_def by (rule appends_after [OF _ rest]) simp_all
qed

text \<open>A retryable error without its mark says that nothing was asked.\<close>

definition clean :: "op_failure + 'a \<Rightarrow> bool" where
  "clean r \<longleftrightarrow> (\<exists>e. r = Inl (TransportFailure e) \<and> te_retryable e \<and> \<not> te_possiblySubmitted e)"

definition marked :: "transport_error option \<Rightarrow> bool \<Rightarrow> bool" where
  "marked t p \<longleftrightarrow> (case t of None \<Rightarrow> \<not> p | Some e \<Rightarrow> te_possiblySubmitted e = p)"

definition loop_part :: "string \<Rightarrow> nat list \<Rightarrow> bool \<Rightarrow> err + (op_failure + send_result) \<Rightarrow> relay_event list \<Rightarrow> bool" where
  "loop_part h slots p r es \<longleftrightarrow> (\<exists>ns. es = asked_slots h ns \<and> subseq ns slots) \<and> on (\<lambda>x. clean x \<longrightarrow> es = [] \<and> \<not> p) r"

lemma one_slot: "es = [] \<or> es = [AskedBundler n h] \<Longrightarrow> \<exists>ns. es = asked_slots h ns \<and> subseq ns (n # slots)"
proof (elim disjE)
  assume "es = []"
  then show ?thesis by (intro exI [of _ "[]"]) (simp add: asked_slots_def)
next
  assume "es = [AskedBundler n h]"
  then show ?thesis by (intro exI [of _ "[n]"]) (simp add: asked_slots_def)
qed

lemma loop_part_skip: "loop_part h slots p r es \<Longrightarrow> loop_part h (n # slots) p r es"
  by (auto simp: loop_part_def)

lemma loop_part_more:
  assumes "loop_part h slots q r es'" and "es = [] \<and> q = p \<or> es = [AskedBundler n h] \<and> q \<or> es = [] \<and> q"
  shows "loop_part h (n # slots) p r (es @ es')"
proof -
  obtain ns where ns: "es' = asked_slots h ns" "subseq ns slots" using assms(1) by (auto simp: loop_part_def)
  have "\<exists>ms. es @ es' = asked_slots h ms \<and> subseq ms (n # slots)"
    using assms(2) ns by (auto simp: asked_slots_def intro: exI [of _ "n # ns"] exI [of _ ns])
  moreover have "on (\<lambda>x. clean x \<longrightarrow> es @ es' = [] \<and> \<not> p) r"
    using assms by (auto simp: loop_part_def on_def split: sum.splits)
  ultimately show ?thesis by (simp add: loop_part_def)
qed

lemma appends_send_loop:
  "marked transient p \<Longrightarrow> appends (loop_part (ri_hash inp) (map fst eps) p) (send_loop V S E inp eps compatible transient p)"
proof (induction eps arbitrary: compatible transient p)
  case Nil
  then show ?case
    by (auto simp: loop_part_def asked_slots_def clean_def marked_def unsupported_def transport_error_def intro!: appends_ret split: option.splits)
next
  case (Cons ep eps)
  let ?h = "ri_hash inp"
  let ?Q = "\<lambda>a r es. case a of Skipped \<Rightarrow> loop_part ?h (map fst eps) p r es
    | Succeeded x \<Rightarrow> es = [] \<and> r = Inr (Inr x)
    | Failed b e \<Rightarrow> loop_part ?h (map fst eps) (p \<or> b) r es \<or> es = [] \<and> (\<exists>t. r = Inr (Inl (TransportFailure t)) \<and> (te_retryable t \<longrightarrow> te_possiblySubmitted t))"
  show ?case unfolding send_loop.simps
  proof (rule appends_bind [OF appends_support, where Q = ?Q])
    fix a :: "send_result attempt"
    show "appends (?Q a) (case a of Skipped \<Rightarrow> send_loop V S E inp eps compatible transient p | Succeeded x \<Rightarrow> ret (Inr x)
      | Failed attemptedSubmission e \<Rightarrow> (let n = normalizeBundlerError e; q = p \<or> attemptedSubmission in
          if \<not> te_retryable n then ret (Inl (TransportFailure (if p then unknown_submission else n)))
          else send_loop V S E inp eps (compatible \<or> attemptedSubmission)
            (Some \<lparr>te_message = te_message n, te_code = te_code n, te_retryable = True, te_possiblySubmitted = q, te_transport = Some Bundler\<rparr>) q))"
    proof (cases a)
      case Skipped
      then show ?thesis using Cons.IH [OF Cons.prems] by simp
    next
      case (Succeeded x)
      then show ?thesis by (auto intro: appends_ret)
    next
      case (Failed b e)
      show ?thesis
      proof (cases "te_retryable (normalizeBundlerError e)")
        case True
        have "appends (loop_part ?h (map fst eps) (p \<or> b)) (send_loop V S E inp eps (compatible \<or> b)
            (Some \<lparr>te_message = te_message (normalizeBundlerError e), te_code = te_code (normalizeBundlerError e), te_retryable = True,
              te_possiblySubmitted = p \<or> b, te_transport = Some Bundler\<rparr>) (p \<or> b))"
          by (rule Cons.IH) (simp add: marked_def)
        then have "appends (?Q a) (send_loop V S E inp eps (compatible \<or> b)
            (Some \<lparr>te_message = te_message (normalizeBundlerError e), te_code = te_code (normalizeBundlerError e), te_retryable = True,
              te_possiblySubmitted = p \<or> b, te_transport = Some Bundler\<rparr>) (p \<or> b))"
          by (rule appends_weaken) (simp add: Failed)
        then show ?thesis using True by (simp add: Failed Let_def)
      next
        case False
        then show ?thesis by (simp add: Failed Let_def unknown_submission_def appends_def ret_def)
      qed
    qed
  next
    fix e es
    assume "on (\<lambda>a. bundler_part ?h (fst ep) a es) (Inl e) \<and> (es = [] \<or> es = [AskedBundler (fst ep) ?h])"
    then show "loop_part ?h (map fst (ep # eps)) p (Inl e) es"
      using one_slot by (simp add: loop_part_def)
  next
    fix a r es es'
    assume first: "on (\<lambda>a. bundler_part ?h (fst ep) a es) (Inr a) \<and> (es = [] \<or> es = [AskedBundler (fst ep) ?h])" and rest: "?Q a r es'"
    have alone: "loop_part ?h (map fst (ep # eps)) p r es" if "on (\<lambda>x. \<not> clean x) r"
      using that one_slot [OF conjunct2 [OF first]] by (auto simp: loop_part_def on_def split: sum.splits)
    show "loop_part ?h (map fst (ep # eps)) p r (es @ es')"
    proof (cases a)
      case Skipped
      then show ?thesis using first rest by (simp add: bundler_part_def loop_part_skip)
    next
      case (Succeeded x)
      then show ?thesis using rest alone by (simp add: clean_def)
    next
      case (Failed b e)
      then consider "loop_part ?h (map fst eps) (p \<or> b) r es'"
        | t where "es' = []" "r = Inr (Inl (TransportFailure t))" "te_retryable t \<longrightarrow> te_possiblySubmitted t" using rest by auto
      then show ?thesis
      proof cases
        case 1
        have "es = [] \<and> (p \<or> b) = p \<or> es = [AskedBundler (fst ep) ?h] \<and> (p \<or> b) \<or> es = [] \<and> (p \<or> b)"
          using first Failed by (cases b) (auto simp: bundler_part_def)
        then show ?thesis using loop_part_more [OF 1] by simp
      next
        case (2 t)
        then show ?thesis using alone by (simp add: clean_def)
      qed
    qed
  qed
qed

lemma appends_bundler_send: "appends (loop_part (ri_hash inp) (map fst (endpoints E)) False) (bundler_send V S E inp)"
  unfolding bundler_send_def using appends_send_loop [of None False inp "endpoints E"]
  by (auto simp: marked_def loop_part_def asked_slots_def intro!: appends_ret)

text \<open>The server's own transaction.\<close>

lemma appends_lease:
  assumes "appends (\<lambda>r es. es = [ev]) m"
  shows "appends (\<lambda>r es. es = [ev] \<or> es = [] \<and> (\<exists>e. r = Inl e)) (withSignerLease c c' signer operation m)" (is "appends ?P _")
proof -
  have quiet: "asks_nothing (acquireLease key ttl)" "asks_nothing (releaseLease key u)" for key ttl u
    unfolding acquireLease_def releaseLease_def by (auto intro!: asks_nothing_bind)
  have release: "asks_nothing (catchA (releaseLease key u) (\<lambda>_. ret ()))" for key u using quiet by (intro asks_nothing_catch) simp_all
  have guarded: "appends ?P (bindA (getSignerBlockingAccountOperation c signer) (\<lambda>blocker.
      if signer_free operation blocker then m else throw SignerLeaseBusyError))"
  proof (rule appends_after)
    fix b
    show "appends ?P (if signer_free operation b then m else throw SignerLeaseBusyError)"
      using appends_weaken [OF assms, of ?P] by (simp add: appends_def throw_def)
  qed (simp_all add: getSignerBlockingAccountOperation_def)
  have "appends ?P (let release = catchA (releaseLease key u) (\<lambda>_. ret ());
        guarded = bindA (getSignerBlockingAccountOperation c signer) (\<lambda>blocker. if signer_free operation blocker then m else throw SignerLeaseBusyError) in
      bindA (catchA guarded (\<lambda>e. bindA release (\<lambda>_. throw e))) (\<lambda>x. bindA release (\<lambda>_. ret x)))" for key u
    unfolding Let_def
  proof (rule appends_bind [where P = ?P and Q = "\<lambda>_ _ es. es = []"])
    show "appends ?P (catchA (bindA (getSignerBlockingAccountOperation c signer) (\<lambda>blocker.
        if signer_free operation blocker then m else throw SignerLeaseBusyError)) (\<lambda>e. bindA (catchA (releaseLease key u) (\<lambda>_. ret ())) (\<lambda>_. throw e)))"
    proof (rule appends_catch [OF guarded, where Q = "\<lambda>_ r es. es = [] \<and> (\<exists>e. r = Inl e)"])
      fix e
      show "appends (\<lambda>r es. es = [] \<and> (\<exists>e. r = Inl e)) (bindA (catchA (releaseLease key u) (\<lambda>_. ret ())) (\<lambda>_. throw e))"
        by (rule appends_after [OF release]) (simp_all add: appends_def throw_def)
    qed auto
  qed (auto intro: asks_nothing_bind release)
  note locked = this
  have none: "appends ?P (throw e)" for e by (simp add: appends_def throw_def)
  have "appends ?P (case owner of None \<Rightarrow> throw SignerLeaseBusyError
      | Some u \<Rightarrow> (let release = catchA (releaseLease key u) (\<lambda>_. ret ());
          guarded = bindA (getSignerBlockingAccountOperation c signer) (\<lambda>blocker. if signer_free operation blocker then m else throw SignerLeaseBusyError) in
        bindA (catchA guarded (\<lambda>e. bindA release (\<lambda>_. throw e))) (\<lambda>x. bindA release (\<lambda>_. ret x))))" for owner key
    using none locked by (cases owner) (simp_all del: Let_def)
  then show ?thesis unfolding withSignerLease_def by (intro appends_after) (simp_all add: quiet)
qed

definition relay_part :: "string \<Rightarrow> err + (op_failure + send_result) \<Rightarrow> relay_event list \<Rightarrow> bool" where
  "relay_part h r es \<longleftrightarrow> (es = [] \<or> es = [AskedRelayer h]) \<and> on (\<lambda>x. \<not> clean x) r"

lemma appends_asked: "appends (\<lambda>r es. es = [] \<and> on (\<lambda>x. \<not> clean x) r) (asked f)"
  unfolding asked_def
  by (rule appends_bind [where P = "\<lambda>r es. es = []" and Q = "\<lambda>_ r es. es = [] \<and> on (\<lambda>x. \<not> clean x) r"])
    (auto simp: clean_def split: sum.split intro!: appends_ret)

lemma appends_self_send: "appends (relay_part (ri_hash inp)) (self_send V S E inp)"
proof -
  let ?h = "ri_hash inp"
  have call: "appends (\<lambda>r es. es = [AskedRelayer ?h]) (callA (AskedRelayer ?h) (\<lambda>t. Some (f t)) name)" for f :: "int \<Rightarrow> rpc_failure + string" and name
    by (simp add: appends_def callA_def Let_def await_sent)
  have relay: "appends (relay_part ?h) (bindA (withSignerLease c c account None (callA (AskedRelayer ?h) (\<lambda>t. Some (f t)) ''writeContract''))
      (\<lambda>r. case r of
       Inl f \<Rightarrow> ret (Inl (if isTransientRpcError (rf_error f) then TransportFailure unknown_relay else RequestFailure f))
     | Inr h \<Rightarrow> ret (Inr \<lparr>sr_transport = SelfRelay, sr_userOpHash = ?h, sr_txHash = Some h\<rparr>)))" for c account f
    by (rule appends_bind [OF appends_lease [OF call], where Q = "\<lambda>_ r es. es = [] \<and> on (\<lambda>x. \<not> clean x) r"])
      (auto simp: relay_part_def clean_def unknown_relay_def split: sum.split intro!: appends_ret)
  show ?thesis unfolding self_send_def andThen_def Let_def
  proof (rule appends_bind [OF appends_asked, where Q = "\<lambda>x r es. relay_part ?h r es \<and> (\<forall>e. x = Inl e \<longrightarrow> es = [] \<and> r = Inr (Inl e)) \<or> \<not> relay_part ?h r es \<and> clean x"])
    fix x :: "op_failure + unit"
    show "appends (\<lambda>r es. relay_part ?h r es \<and> (\<forall>e. x = Inl e \<longrightarrow> es = [] \<and> r = Inr (Inl e)) \<or> \<not> relay_part ?h r es \<and> clean x) (case x of Inl e \<Rightarrow> ret (Inl e)
        | Inr _ \<Rightarrow> bindA (withSignerLease (an_chainId (network_of E)) (an_chainId (network_of E)) (v_addressOfKey V (ve_privateKey (rv_app E))) None
            (callA (AskedRelayer ?h) (\<lambda>t. Some (rl_handleOps S (ri_userOp inp) (ri_entryPoint inp) (handleOpsGasFor (ri_userOp inp)) t)) ''writeContract''))
          (\<lambda>r. case r of Inl f \<Rightarrow> ret (Inl (if isTransientRpcError (rf_error f) then TransportFailure unknown_relay else RequestFailure f))
           | Inr h \<Rightarrow> ret (Inr \<lparr>sr_transport = SelfRelay, sr_userOpHash = ?h, sr_txHash = Some h\<rparr>)))"
    proof (cases x)
      case (Inl e)
      then show ?thesis by (auto simp: relay_part_def clean_def intro!: appends_ret)
    next
      case (Inr y)
      then show ?thesis using appends_weaken [OF relay] by fastforce
    qed
  qed (auto simp: relay_part_def on_def clean_def)
qed

subsection \<open>No second relay\<close>

lemma increasing_subseq: "subseq xs ys \<Longrightarrow> sorted_wrt (<) ys \<Longrightarrow> sorted_wrt (<) (xs :: nat list)"
proof (induction rule: list_emb.induct)
  case (list_emb_Cons2 x y xs ys)
  then have "y < z" if "z \<in> set xs" for z using list_emb_set [OF list_emb_Cons2(2) that] by auto
  then show ?case using list_emb_Cons2 by simp
qed auto

lemma endpoint_slots: "sorted_wrt (<) (map fst (endpoints E))"
  by (simp add: endpoints_def)

definition once :: "string \<Rightarrow> relay_event list \<Rightarrow> bool" where
  "once h es \<longleftrightarrow> es = [AskedRelayer h] \<or> (\<exists>ns. es = map (\<lambda>n. AskedBundler n h) ns \<and> sorted_wrt (<) ns)"

lemma once_bundlers: "loop_part h (map fst (endpoints E)) p r es \<Longrightarrow> once h es"
  using increasing_subseq [OF _ endpoint_slots] by (auto simp: loop_part_def once_def asked_slots_def)

lemma once_nothing: "once h []"
  by (simp add: once_def)

lemma once_relay: "relay_part h r es \<Longrightarrow> once h es"
  using once_nothing [of h] unfolding relay_part_def by (elim conjE disjE) (simp_all add: once_def)

lemma appends_send: "appends (\<lambda>r es. once (ri_hash inp) es \<and> on (\<lambda>x. clean x \<longrightarrow> es = []) r) (sendUserOperation V S E mode inp)"
  (is "appends ?P _")
proof (cases mode)
  case SelfRelay
  have "?P r es" if "relay_part (ri_hash inp) r es" for r es
    using that once_relay [OF that] by (cases r) (simp_all add: relay_part_def)
  then have "appends ?P (self_send V S E inp)" by (rule appends_weaken [OF appends_self_send])
  then show ?thesis using SelfRelay by (simp add: sendUserOperation_def)
next
  case Bundler
  let ?h = "ri_hash inp"
  let ?Q = "\<lambda>x r es. if clean x then relay_part ?h r es \<or> es = [] else es = [] \<and> r = Inr x"
  have after: "appends (?Q x) (case x of
         Inl (TransportFailure e) \<Rightarrow> if rv_selfFallback E = Some ''true'' \<and> te_retryable e \<and> \<not> te_possiblySubmitted e then self_send V S E inp
           else ret (Inl (TransportFailure e))
       | _ \<Rightarrow> ret x)" for x :: "op_failure + send_result"
  proof (cases "clean x")
    case True
    then obtain e where e: "x = Inl (TransportFailure e)" "te_retryable e" "\<not> te_possiblySubmitted e" by (auto simp: clean_def)
    show ?thesis
    proof (cases "rv_selfFallback E = Some ''true''")
      case fallback: True
      then show ?thesis using appends_weaken [OF appends_self_send, where Q = "?Q x"] True e by simp
    next
      case False
      then show ?thesis using True e by (simp add: appends_def ret_def)
    qed
  next
    case False
    then show ?thesis by (auto simp: clean_def appends_def ret_def split: sum.split op_failure.split)
  qed
  have "appends ?P (bindA (bundler_send V S E inp) (\<lambda>x. case x of
         Inl (TransportFailure e) \<Rightarrow> if rv_selfFallback E = Some ''true'' \<and> te_retryable e \<and> \<not> te_possiblySubmitted e then self_send V S E inp
           else ret (Inl (TransportFailure e))
       | _ \<Rightarrow> ret x))"
  proof (rule appends_bind [OF appends_bundler_send after])
    fix e es assume "loop_part ?h (map fst (endpoints E)) False (Inl e) es"
    then show "once ?h es \<and> on (\<lambda>x. clean x \<longrightarrow> es = []) (Inl e)" using once_bundlers by simp
  next
    fix x r es es'
    assume b: "loop_part ?h (map fst (endpoints E)) False (Inr x) es" and q: "?Q x r es'"
    show "once ?h (es @ es') \<and> on (\<lambda>x. clean x \<longrightarrow> es @ es' = []) r"
    proof (cases "clean x")
      case True
      then have es: "es = []" using b by (simp add: loop_part_def)
      have "relay_part ?h r es' \<or> es' = []" using q by (simp only: True if_True)
      then have "once ?h es'" "on (\<lambda>x. \<not> clean x) r \<or> es' = []" using once_relay once_nothing by (auto simp: relay_part_def)
      then show ?thesis by (cases r) (auto simp: es)
    next
      case False
      then show ?thesis using q once_bundlers [OF b] by simp
    qed
  qed
  then show ?thesis using Bundler by (simp add: sendUserOperation_def)
qed

text \<open>
  C39: a user operation is never handed over twice.  Whatever the bundlers, the node and the database do, a call asks either the server's
  own signer, once, or the bundlers, each at most once and in their order, but never both; and an error that is said to be retryable and
  is not marked as possibly submitted means that nobody was asked, so that its caller may take the operation back.
\<close>
theorem never_relayed_twice:
  assumes "sendUserOperation V S E mode inp w = (r, w')"
  shows "\<exists>es. w_sent w' = w_sent w @ es \<and>
    (es = [AskedRelayer (ri_hash inp)] \<or> (\<exists>ns. es = map (\<lambda>n. AskedBundler n (ri_hash inp)) ns \<and> sorted_wrt (<) ns)) \<and>
    (\<forall>e. r = Inr (Inl (TransportFailure e)) \<and> te_retryable e \<and> \<not> te_possiblySubmitted e \<longrightarrow> es = [])"
proof -
  obtain es where "w_sent w' = w_sent w @ es" "once (ri_hash inp) es" "on (\<lambda>x. clean x \<longrightarrow> es = []) r"
    using appendsD [OF appends_send assms] by blast
  then show ?thesis by (intro exI [of _ es]) (auto simp: once_def clean_def)
qed

subsection \<open>An instance\<close>

text \<open>The first of two bundlers does not answer in time, and the second one rejects the operation.\<close>

definition two_bundlers :: relay_env where
  "two_bundlers = \<lparr>rv_app = \<lparr>ve_chainKey = None, ve_rpcUrl = None, ve_readUrls = None, ve_writeUrls = None, ve_indexerUrls = None,
     ve_archiveUrls = None, ve_bundlerUrls = Some ''a,b'', ve_paymaster = None, ve_enabledKeys = None, ve_walletRailKeys = None,
     ve_cctpRpcUrls = None, ve_appRpcUrls = None, ve_capabilities = None, ve_maxBlockRange = None, ve_minBlockRange = None, ve_maxCalls = None,
     ve_maxBlocks = None, ve_maxEventBlocks = None, ve_l1Confirmations = None, ve_shardSize = None, ve_privateKey = ''0xkey'',
     ve_faucetKey = None\<rparr>, rv_dummySignature = None, rv_selfFallback = Some ''true''\<rparr>"

definition failing :: "string \<Rightarrow> rpc_failure" where
  "failing m = \<lparr>rf_error = JsError ''Error'' m None, rf_text = m, rf_codes = []\<rparr>"

definition slow_and_strict :: relay_services where
  "slow_and_strict = \<lparr>rl_hex = sample_hex, rl_chainId = (\<lambda>_ _. Inr (JStr ''0x66eee'')), rl_entryPoints = (\<lambda>_ _. Inr (JArr [JStr ''0xEP''])),
     rl_estimate = (\<lambda>_ _ _ _. Inr JNull), rl_send = (\<lambda>n _ _ _. Inl (failing (if n = 0 then ''timeout'' else ''AA25''))),
     rl_receipt = (\<lambda>_ _ _. Inr JNull), rl_simulate = (\<lambda>_ _ _ _. Inr ()), rl_handleOps = (\<lambda>_ _ _ _. Inr ''0xtx''),
     rl_transaction = (\<lambda>_ _. Inl (failing ''timeout''))\<rparr>"

definition cached_bundler :: "nat \<Rightarrow> string \<Rightarrow> bundler_row" where
  "cached_bundler n url = \<lparr>kb_endpoint = opaqueBundlerEndpointKey sample_viem url n, kb_chainId = 421614, kb_entryPoint = ''0xep'',
     kb_supported = True, kb_checkedAt = 900\<rparr>"

definition cached_world :: "(app_db, relay_event) world" where
  "cached_world = \<lparr>w_db = empty_app_db\<lparr>ad_bundlers := [cached_bundler 0 ''a'', cached_bundler 1 ''b'']\<rparr>, w_now = 1000, w_env = [],
     w_uuid = (\<lambda>n. []), w_ix = 0, w_sent = []\<rparr>"

definition sample_relay :: relay_input where
  "sample_relay = \<lparr>ri_userOp = sample_uop, ri_hash = ''0xh'', ri_entryPoint = ''0xEP''\<rparr>"

lemma sample_relay_result:
  "fst (sendUserOperation sample_viem slow_and_strict two_bundlers Bundler sample_relay cached_world) = Inr (Inl (TransportFailure unknown_submission))"
  by code_simp

lemma sample_relay_sent:
  "length (w_sent (snd (sendUserOperation sample_viem slow_and_strict two_bundlers Bundler sample_relay cached_world))) = 2"
  by code_simp

text \<open>
  A bundler that answers with another hash has been asked, and may have kept the operation, but the error is final and unmarked.
\<close>

definition other_hash :: relay_services where
  "other_hash = slow_and_strict\<lparr>rl_send := (\<lambda>_ _ _ _. Inr (JStr (''0x'' @ replicate 64 (CHR ''b''))))\<rparr>"

lemma other_hash_unmarked:
  "(case sendUserOperation sample_viem other_hash two_bundlers Bundler sample_relay cached_world of
      (Inr (Inl (TransportFailure e)), w') \<Rightarrow> \<not> te_retryable e \<and> \<not> te_possiblySubmitted e \<and> length (w_sent w') = 1
    | _ \<Rightarrow> False)"
  by code_simp

theorem never_relayed_twice_witness:
  "\<exists>m n. m < n \<and> w_sent (snd (sendUserOperation sample_viem slow_and_strict two_bundlers Bundler sample_relay cached_world)) =
    [AskedBundler m ''0xh'', AskedBundler n ''0xh'']"
proof -
  let ?w = "snd (sendUserOperation sample_viem slow_and_strict two_bundlers Bundler sample_relay cached_world)"
  have run: "sendUserOperation sample_viem slow_and_strict two_bundlers Bundler sample_relay cached_world = (Inr (Inl (TransportFailure unknown_submission)), ?w)"
    using sample_relay_result by (metis prod.collapse)
  have h: "ri_hash sample_relay = ''0xh''" and empty: "w_sent cached_world = []" by (simp_all add: sample_relay_def cached_world_def)
  have "w_sent ?w = [AskedRelayer ''0xh''] \<or> (\<exists>ns. w_sent ?w = map (\<lambda>n. AskedBundler n ''0xh'') ns \<and> sorted_wrt (<) ns)"
    using never_relayed_twice [OF run] unfolding h empty by auto
  then obtain ns where ns: "w_sent ?w = map (\<lambda>n. AskedBundler n ''0xh'') ns" "sorted_wrt (<) ns" using sample_relay_sent by auto
  then have "length ns = 2" using sample_relay_sent by simp
  then obtain m n where "ns = [m, n]" by (metis length_0_conv length_Suc_conv numeral_2_eq_2)
  then show ?thesis using ns by auto
qed

end
