(* ===== verification/Samples.thy ===== *)
theory Samples
  imports Accounting
begin

text \<open>
  Concrete databases and worlds at which the witnesses evaluate the code: one merchant, one intent
  with its checkout link, one quote and one reserved attempt on the local route.
\<close>

definition sample_merchant :: merchant where
  "sample_merchant = \<lparr>m_id = ''mer_1'', m_ownerUid = ''uid_1'', m_displayName = [],
     m_settlementWallet = ''0xmerchant'', m_settlementChainId = 421614, m_accountVersion = 1,
     m_status = MerchantActive, m_createdAt = 0, m_updatedAt = 0\<rparr>"

definition sample_link :: payment_link where
  "sample_link = \<lparr>l_id = ''lnk_1'', l_intentId = ''pi_1'', l_merchantId = ''mer_1'', l_ownerUid = ''uid_1'',
     l_wallet = ''0xmerchant'', l_amount = ''10'', l_reference = ''order 1'', l_status = LinkPending,
     l_txHash = None, l_paidAt = None, l_paidBy = None, l_createdAt = 0, l_updatedAt = 0\<rparr>"

definition sample_intent_row :: intent_row where
  "sample_intent_row = payment_intent.extend sample_intent (intent_row.fields None)"

definition sample_quote :: payment_quote where
  "sample_quote = \<lparr>q_id = ''quo_1'', q_intentId = ''pi_1'', q_payer = ''0xpayer'', q_sourceChainId = 421614,
     q_route = Local, q_settlementAmountAtomic = 10000000, q_platformFeeAtomic = 0, q_cctpFeeAtomic = 0,
     q_grossPayerAmountAtomic = 10000000, q_fee = FREE_PAYMENT_FEE_SNAPSHOT, q_feeSource = FeeLocal,
     q_feeObservedAt = 0, q_expiresAt = 300000, q_quoteHash = ''0xq1'', q_createdAt = 0\<rparr>"

definition sample_authorization :: authorization where
  "sample_authorization = PaymentAuthorization ''0xpi_1'' ''0xatt_1'' ''0xpayer'' ''0xmerchant'' 10000000 0 0 300 ''0xmeta''"

definition sample_attempt :: attempt_core where
  "sample_attempt = \<lparr>a_id = ''att_1'', a_attemptHash = ''0xatt_1'', a_intentId = ''pi_1'', a_quoteId = ''quo_1'',
     a_payerUid = None, a_payerAddress = ''0xpayer'', a_sourceChainId = 421614, a_route = Local,
     a_status = Reserved, a_routerAddress = ''0xrouter'', a_authorizationHash = ''0xauth1'',
     a_authorization = sample_authorization, a_signature = ''0xsig'', a_checkoutCapabilityHash = Some ''0xcap'',
     a_payerProofSignature = None, a_payerProofMessageHash = None, a_validAfter = 0, a_validUntil = 300,
     a_userOpHash = None, a_sourceTxHash = None, a_destinationTxHash = None,
     a_settlementAmountAtomic = 10000000, a_platformFeeAtomic = 0, a_cctpFeeAtomic = 0,
     a_grossPayerAmountAtomic = 10000000, a_fee = FREE_PAYMENT_FEE_SNAPSHOT, a_settledAmountAtomic = 0,
     a_createdAt = 0, a_updatedAt = 0\<rparr>"

definition sample_attempt_row :: attempt_row where
  "sample_attempt_row = attempt_core.extend sample_attempt (attempt_row.fields ''key_1'' None)"

definition sample_db :: pdb where
  "sample_db = empty_db\<lparr>db_merchants := [sample_merchant], db_intents := [sample_intent_row],
     db_links := [sample_link], db_quotes := [sample_quote], db_attempts := [sample_attempt_row]\<rparr>"

definition sample_uuid :: "nat \<Rightarrow> string" where
  "sample_uuid n = replicate n (CHR ''u'')"

definition sample_world :: pworld where
  "sample_world = \<lparr>w_db = sample_db, w_now = 5000, w_env = [], w_uuid = sample_uuid, w_ix = 0, w_sent = []\<rparr>"

definition sample_settle :: settle_input where
  "sample_settle = \<lparr>st_attemptId = ''att_1'', st_sourceTxHash = ''0xTX'', st_destinationTxHash = None,
     st_settledAmountAtomic = 10000000, st_payerAddress = ''0xpayer'', st_platformFeeAtomic = Some 0,
     st_networkFeeAtomic = Some 0\<rparr>"

lemmas sample_defs = sample_world_def sample_db_def sample_intent_row_def sample_attempt_row_def
  sample_attempt_def sample_intent_def sample_link_def sample_quote_def sample_merchant_def empty_db_def
  sample_settle_def payment_intent.defs attempt_core.defs intent_row.defs attempt_row.defs

lemma inj_sample_uuid: "inj sample_uuid"
  unfolding inj_def sample_uuid_def by (metis length_replicate)

lemma sample_inv: "pay_inv sample_db"
  by (simp add: pay_inv_def accounts_ok_def sample_defs commit_ok_def settled_status_def intent_ok_def
      intent_total_def link_ok_def find_intent_def)

lemma sample_I: "holds_at pay_I (w_ix sample_world) sample_world"
  using sample_inv inj_sample_uuid
  by (simp add: holds_at_def pay_I_def sample_world_def fresh_commit_def sample_db_def empty_db_def)

end
