(* ===== verification/Queue.thy ===== *)
theory Queue
  imports Chain Guarantees Samples
begin

text \<open>
  Producing jobs: the transactional outbox (\<^verbatim>\<open>stores/outboxStore.ts\<close>), the queue producer
  (\<^verbatim>\<open>services/queue.ts\<close>) and the Durable Object that coalesces delayed jobs
  (\<^verbatim>\<open>services/jobScheduler.ts\<close>).
\<close>

subsection \<open>The outbox\<close>

definition outbox_due :: "int \<Rightarrow> outbox_row \<Rightarrow> bool" where
  "outbox_due ts b \<longleftrightarrow> (ob_status b = ObPending \<or> ob_status b = ObFailed) \<and> ob_nextAttemptAt b \<le> ts"

definition listDuePaymentOutbox :: "int \<Rightarrow> outbox_row list pact" where
  "listDuePaymentOutbox limit = bindA date_now (\<lambda>ts.
     dbq (\<lambda>d. take (nat (max 1 (min limit 100))) (sort_key ob_createdAt (filter (outbox_due ts) (db_outbox d)))))"

definition enqueued_stmt :: "string \<Rightarrow> int \<Rightarrow> pdb stmt" where
  "enqueued_stmt x ts = (let p = (\<lambda>b. ob_id b = x \<and> (ob_status b = ObPending \<or> ob_status b = ObFailed)) in
     plain (\<lambda>d. (d\<lparr>db_outbox := upd p (\<lambda>b. b\<lparr>ob_status := ObEnqueued, ob_attemptCount := ob_attemptCount b + 1,
         ob_updatedAt := ts\<rparr>) (db_outbox d)\<rparr>, hits p (db_outbox d))))"

definition markPaymentOutboxEnqueued :: "string \<Rightarrow> unit pact" where
  "markPaymentOutboxEnqueued x = bindA date_now (\<lambda>ts. bindA (dbx (enqueued_stmt x ts)) (\<lambda>_. ret ()))"

definition outbox_backoff :: "int \<Rightarrow> int" where
  "outbox_backoff attempt = min 300000 (5000 * 2 ^ nat (min attempt 6))"

definition outbox_failed_stmt :: "string \<Rightarrow> int \<Rightarrow> int \<Rightarrow> pdb stmt" where
  "outbox_failed_stmt x attempt ts = plain (\<lambda>d. (d\<lparr>db_outbox := upd (\<lambda>b. ob_id b = x)
       (\<lambda>b. b\<lparr>ob_status := ObFailed, ob_attemptCount := attempt, ob_nextAttemptAt := ts + outbox_backoff attempt,
         ob_updatedAt := ts\<rparr>) (db_outbox d)\<rparr>, hits (\<lambda>b. ob_id b = x) (db_outbox d)))"

definition markPaymentOutboxFailed :: "string \<Rightarrow> int \<Rightarrow> unit pact" where
  "markPaymentOutboxFailed x attempt = bindA date_now (\<lambda>ts.
     bindA (dbx (outbox_failed_stmt x attempt ts)) (\<lambda>_. ret ()))"

subsection \<open>Publishing jobs\<close>

record job_input =
  ji_job :: payment_job_name
  ji_resourceId :: string
  ji_dedupeKey :: "string option"
  ji_partition :: "string option"
  ji_delaySeconds :: "int option"

definition dedupe_of :: "job_input \<Rightarrow> string" where
  "dedupe_of inp = (case ji_dedupeKey inp of Some k \<Rightarrow> k
     | None \<Rightarrow> job_text (ji_job inp) @ '':'' @ ji_resourceId inp)"

definition partition_of :: "job_input \<Rightarrow> string" where
  "partition_of inp = (case ji_partition inp of Some p \<Rightarrow> p | None \<Rightarrow> ''default'')"

definition paymentJobMessage :: "job_input \<Rightarrow> payment_job_message pact" where
  "paymentJobMessage inp = bindA randomUUID (\<lambda>u. bindA date_now (\<lambda>ts.
     ret \<lparr>pj_job = ji_job inp, pj_jobId = u, pj_dedupeKey = dedupe_of inp, pj_resourceId = ji_resourceId inp,
       pj_partition = partition_of inp, pj_attempt = 0, pj_createdAt = toISOString ts\<rparr>))"

definition validateDelay :: "int option \<Rightarrow> err + int" where
  "validateDelay delaySeconds = (let delay = (case delaySeconds of None \<Rightarrow> 0 | Some n \<Rightarrow> n) in
     if \<not> isSafeInteger delay \<or> delay < 0
     then Inl (Thrown ''Payment job delaySeconds must be a non-negative integer'') else Inr delay)"

definition enqueuePaymentJob :: "services \<Rightarrow> bindings \<Rightarrow> job_input \<Rightarrow> unit pact" where
  "enqueuePaymentJob sv env inp =
     (if \<not> e_queueAvailable env then throw (Thrown ''Payment jobs Queue is unavailable'')
      else bindA (liftE (validateDelay (ji_delaySeconds inp))) (\<lambda>delay.
        bindA (paymentJobMessage inp) (\<lambda>m. callA (SentJob m delay) (\<lambda>t. sv_queueSend sv m t) ''queue'')))"

datatype scheduled_by = ByScheduler | ByQueue

definition schedulePaymentJob :: "services \<Rightarrow> bindings \<Rightarrow> job_input \<Rightarrow> scheduled_by pact" where
  "schedulePaymentJob sv env inp = bindA (liftE (validateDelay (ji_delaySeconds inp))) (\<lambda>delay.
     if delay = 0 \<or> \<not> e_schedulerAvailable env
     then bindA (enqueuePaymentJob sv env inp) (\<lambda>_. ret ByQueue)
     else bindA date_now (\<lambda>now.
       let i = \<lparr>sj_job = ji_job inp, sj_resourceId = ji_resourceId inp, sj_dedupeKey = dedupe_of inp,
           sj_partition = partition_of inp, sj_runAt = now + delay * 1000\<rparr>
       in bindA (callA (SentSchedule (partition_of inp) i) (\<lambda>t. sv_schedule sv (partition_of inp) i t) ''scheduler'')
         (\<lambda>_. ret ByScheduler)))"

definition outbox_job :: "outbox_row \<Rightarrow> job_input" where
  "outbox_job row = \<lparr>ji_job = WebhookDelivery, ji_resourceId = ob_resourceId row,
     ji_dedupeKey = Some (''outbox:'' @ ob_id row), ji_partition = None, ji_delaySeconds = None\<rparr>"

fun publish_rows :: "services \<Rightarrow> bindings \<Rightarrow> outbox_row list \<Rightarrow> nat \<Rightarrow> nat pact" where
  "publish_rows sv env [] published = ret published"
| "publish_rows sv env (row # rows) published =
     bindA (catchA
       (bindA (enqueuePaymentJob sv env (outbox_job row)) (\<lambda>_. markPaymentOutboxEnqueued (ob_id row)))
       (\<lambda>e. bindA (markPaymentOutboxFailed (ob_id row) (ob_attemptCount row + 1)) (\<lambda>_. throw e)))
     (\<lambda>_. publish_rows sv env rows (Suc published))"

definition flushPaymentOutbox :: "services \<Rightarrow> bindings \<Rightarrow> int \<Rightarrow> nat pact" where
  "flushPaymentOutbox sv env limit =
     (if \<not> e_queueAvailable env then throw (Thrown ''Payment jobs Queue is unavailable'')
      else bindA (listDuePaymentOutbox limit) (\<lambda>due. publish_rows sv env due 0))"

subsection \<open>The job scheduler\<close>

text \<open>
  The storage of one Durable Object: the jobs under their keys, in key order, and the alarm.  Its
  transactions are single statements on this state; other calls of the object may run while \<open>alarm\<close>
  awaits.
\<close>

record scheduled_job = scheduled_input +
  sj_generation :: int

record scheduler =
  sd_jobs :: "(string \<times> scheduled_job) list"
  sd_alarm :: "int option"

type_synonym 'a sact = "(scheduler, effect, 'a) act"

definition job_key :: "scheduled_input \<Rightarrow> string" where
  "job_key inp = ''job:'' @ job_text (sj_job inp) @ '':'' @ sj_partition inp @ '':'' @ sj_resourceId inp"

fun put_job :: "string \<Rightarrow> scheduled_job \<Rightarrow> (string \<times> scheduled_job) list \<Rightarrow> (string \<times> scheduled_job) list" where
  "put_job k j [] = [(k, j)]"
| "put_job k j ((k', j') # js) = (if k = k' then (k, j) # js
     else if text_compare k k' < 0 then (k, j) # (k', j') # js else (k', j') # put_job k j js)"

record schedule_answer =
  sa_generation :: int
  sa_runAt :: int

definition next_job :: "scheduled_input \<Rightarrow> scheduled_job option \<Rightarrow> scheduled_job" where
  "next_job inp previous = scheduled_input.extend
     (inp\<lparr>sj_runAt := (case previous of None \<Rightarrow> sj_runAt inp | Some p \<Rightarrow> min (sj_runAt p) (sj_runAt inp))\<rparr>)
     (scheduled_job.fields ((case previous of None \<Rightarrow> 0 | Some p \<Rightarrow> sj_generation p) + 1))"

definition schedule_tx :: "scheduled_input \<Rightarrow> int \<Rightarrow> scheduler \<Rightarrow> (scheduler \<times> schedule_answer) option" where
  "schedule_tx inp now s = (let key = job_key inp; j = next_job inp (map_of (sd_jobs s) key);
       s1 = s\<lparr>sd_jobs := put_job key j (sd_jobs s)\<rparr>;
       s2 = (if (case sd_alarm s of None \<Rightarrow> True | Some a \<Rightarrow> sj_runAt j < a)
             then s1\<lparr>sd_alarm := Some (max now (sj_runAt j))\<rparr> else s1)
     in Some (s2, \<lparr>sa_generation = sj_generation j, sa_runAt = sj_runAt j\<rparr>))"

definition schedule :: "scheduled_input \<Rightarrow> schedule_answer sact" where
  "schedule inp = (if \<not> isSafeInteger (sj_runAt inp) \<or> sj_runAt inp < 0 then throw (Thrown ''Invalid runAt'')
     else bindA date_now (\<lambda>now. dbx (schedule_tx inp now)))"

definition delete_if_same :: "string \<Rightarrow> int \<Rightarrow> scheduler \<Rightarrow> (scheduler \<times> unit) option" where
  "delete_if_same key generation s = Some (case map_of (sd_jobs s) key of
       Some j \<Rightarrow> if sj_generation j = generation then s\<lparr>sd_jobs := filter (\<lambda>(k, j). k \<noteq> key) (sd_jobs s)\<rparr> else s
     | None \<Rightarrow> s, ())"

definition earliest :: "(string \<times> scheduled_job) list \<Rightarrow> int option" where
  "earliest js = foldl (\<lambda>m (k, j). Some (case m of None \<Rightarrow> sj_runAt j | Some a \<Rightarrow> min a (sj_runAt j))) None js"

definition rearm_tx :: "int \<Rightarrow> scheduler \<Rightarrow> (scheduler \<times> unit) option" where
  "rearm_tx now s = Some (s\<lparr>sd_alarm := map_option (max now) (earliest (sd_jobs s))\<rparr>, ())"

definition dispatch_job :: "services \<Rightarrow> string \<Rightarrow> scheduled_job \<Rightarrow> unit sact" where
  "dispatch_job sv key j = bindA randomUUID (\<lambda>u. bindA date_now (\<lambda>ts.
     let m = \<lparr>pj_job = sj_job j, pj_jobId = u,
         pj_dedupeKey = sj_dedupeKey j @ '':'' @ string_of_int (sj_generation j),
         pj_resourceId = sj_resourceId j, pj_partition = sj_partition j, pj_attempt = 0,
         pj_createdAt = toISOString ts\<rparr>
     in bindA (callA (SentJob m 0) (\<lambda>t. sv_queueSend sv m t) ''queue'') (\<lambda>_.
        dbx (delete_if_same key (sj_generation j)))))"

definition alarm :: "services \<Rightarrow> bindings \<Rightarrow> unit sact" where
  "alarm sv env = (if \<not> e_queueAvailable env then throw (Thrown ''Payment jobs Queue is unavailable'')
     else bindA (dbq sd_jobs) (\<lambda>jobs. bindA date_now (\<lambda>now.
       bindA (forA (\<lambda>(key, j). dispatch_job sv key j) (filter (\<lambda>(k, j). sj_runAt j \<le> now) jobs)) (\<lambda>_.
       bindA date_now (\<lambda>ts. dbx (rearm_tx ts))))))"

subsection \<open>Producers leave the accounts alone\<close>

lemma keeps_enqueued [intro]: "keeps (enqueued_stmt x ts)"
  unfolding enqueued_stmt_def Let_def by (rule keeps_same; auto dest!: stmt_SomeD simp: same_accounts_def)

lemma keeps_outbox_failed [intro]: "keeps (outbox_failed_stmt x a ts)"
  unfolding outbox_failed_stmt_def by (rule keeps_same; auto dest!: stmt_SomeD simp: same_accounts_def)

lemma guar_paymentJobMessage [intro]: "guar pay_I pay_R (paymentJobMessage inp)"
  unfolding paymentJobMessage_def by (intro pay.guar_bindA pay.guar_randomUUID pay.guar_calm)

lemma guar_enqueuePaymentJob [intro]: "guar pay_I pay_R (enqueuePaymentJob sv env inp)"
  unfolding enqueuePaymentJob_def
  by (intro pay.guar_bindA pay.guar_calm guar_paymentJobMessage conjI impI | split if_split)+

lemma guar_schedulePaymentJob [intro]: "guar pay_I pay_R (schedulePaymentJob sv env inp)"
  unfolding schedulePaymentJob_def Let_def
  by (intro pay.guar_bindA pay.guar_calm guar_enqueuePaymentJob conjI impI | split if_split)+

lemma guar_markEnqueued [intro]: "guar pay_I pay_R (markPaymentOutboxEnqueued x)"
  unfolding markPaymentOutboxEnqueued_def by (intro pay.guar_bindA pay.guar_calm guar_dbx_keeps keeps_enqueued)

lemma guar_markFailed [intro]: "guar pay_I pay_R (markPaymentOutboxFailed x a)"
  unfolding markPaymentOutboxFailed_def by (intro pay.guar_bindA pay.guar_calm guar_dbx_keeps keeps_outbox_failed)

lemma guar_publish_rows [intro]: "guar pay_I pay_R (publish_rows sv env rows n)"
  by (induction rows arbitrary: n) (auto intro!: pay.guar_bindA pay.guar_catchA)

lemma guar_flushPaymentOutbox [intro]: "guar pay_I pay_R (flushPaymentOutbox sv env limit)"
  unfolding flushPaymentOutbox_def listDuePaymentOutbox_def
  by (intro pay.guar_bindA pay.guar_calm guar_publish_rows conjI impI | split if_split)+

subsection \<open>The scheduler never forgets a job\<close>

text \<open>
  The life of a scheduler: time passes, a job is scheduled, the alarm fires (the platform clears it and
  runs \<open>alarm\<close>, repeating it after an exception), a published job is deleted, the handler sets the alarm
  again and ends.
\<close>

record scheduler_state =
  ss_now :: int
  ss_firing :: bool
  ss_storage :: scheduler

inductive scheduler_step :: "scheduler_state \<Rightarrow> scheduler_state \<Rightarrow> bool" where
  tick: "0 \<le> dt \<Longrightarrow> scheduler_step s (s\<lparr>ss_now := ss_now s + dt\<rparr>)"
| scheduled: "schedule_tx inp (ss_now s) (ss_storage s) = Some (st, ans) \<Longrightarrow>
    scheduler_step s (s\<lparr>ss_storage := st\<rparr>)"
| fires: "\<not> ss_firing s \<Longrightarrow> sd_alarm (ss_storage s) = Some a \<Longrightarrow> a \<le> ss_now s \<Longrightarrow>
    scheduler_step s (s\<lparr>ss_firing := True, ss_storage := (ss_storage s)\<lparr>sd_alarm := None\<rparr>\<rparr>)"
| published: "ss_firing s \<Longrightarrow> delete_if_same key g (ss_storage s) = Some (st, ()) \<Longrightarrow>
    scheduler_step s (s\<lparr>ss_storage := st\<rparr>)"
| rearmed: "ss_firing s \<Longrightarrow> rearm_tx (ss_now s) (ss_storage s) = Some (st, ()) \<Longrightarrow>
    scheduler_step s (s\<lparr>ss_firing := False, ss_storage := st\<rparr>)"

inductive_cases scheduler_stepE: "scheduler_step s s'"

definition new_scheduler :: "int \<Rightarrow> scheduler_state" where
  "new_scheduler t = \<lparr>ss_now = t, ss_firing = False, ss_storage = \<lparr>sd_jobs = [], sd_alarm = None\<rparr>\<rparr>"

definition covered :: "int \<Rightarrow> scheduler \<Rightarrow> bool" where
  "covered now s \<longleftrightarrow> (\<forall>(k, j) \<in> set (sd_jobs s). case sd_alarm s of None \<Rightarrow> False
     | Some a \<Rightarrow> a \<le> max now (sj_runAt j))"

lemma set_put_job: "x \<in> set (put_job k j js) \<Longrightarrow> x = (k, j) \<or> x \<in> set js"
  by (induction js) (auto split: if_splits)

lemma put_job_lookup: "map_of (put_job k j js) k' = (if k' = k then Some j else map_of js k')"
  by (induction js) auto

lemma earliest_fold:
  "foldl (\<lambda>m (k, j). Some (case m of None \<Rightarrow> sj_runAt j | Some a \<Rightarrow> min a (sj_runAt j))) m js = None \<longleftrightarrow>
     m = None \<and> js = []"
  by (induction js arbitrary: m) auto

lemma earliest_le:
  assumes "foldl (\<lambda>m (k, j). Some (case m of None \<Rightarrow> sj_runAt j | Some a \<Rightarrow> min a (sj_runAt j))) m js = Some e"
  shows "(\<forall>a. m = Some a \<longrightarrow> e \<le> a) \<and> (\<forall>(k, j) \<in> set js. e \<le> sj_runAt j)"
  using assms
proof (induction js arbitrary: m)
  case (Cons kj js)
  then show ?case by (cases kj; cases m) fastforce+
qed simp

lemma covered_schedule:
  assumes "covered now s" and "schedule_tx inp now s = Some (s', ans)"
  shows "covered now s'"
  unfolding covered_def
proof
  fix kj assume kj: "kj \<in> set (sd_jobs s')"
  let ?j = "next_job inp (map_of (sd_jobs s) (job_key inp))"
  have jobs: "sd_jobs s' = put_job (job_key inp) ?j (sd_jobs s)"
    and al: "sd_alarm s' = (if (case sd_alarm s of None \<Rightarrow> True | Some a \<Rightarrow> sj_runAt ?j < a)
      then Some (max now (sj_runAt ?j)) else sd_alarm s)"
    using assms(2) by (auto simp: schedule_tx_def Let_def split: if_splits)
  from kj consider "kj = (job_key inp, ?j)" | "kj \<in> set (sd_jobs s)" unfolding jobs by (blast dest: set_put_job)
  then show "case kj of (k, j) \<Rightarrow> case sd_alarm s' of None \<Rightarrow> False | Some a \<Rightarrow> a \<le> max now (sj_runAt j)"
  proof cases
    case 1
    then show ?thesis by (auto simp: al split: option.splits)
  next
    case 2
    obtain k j where kj': "kj = (k, j)" by (cases kj)
    then have "case sd_alarm s of None \<Rightarrow> False | Some a \<Rightarrow> a \<le> max now (sj_runAt j)"
      using assms(1) 2 by (auto simp: covered_def)
    then show ?thesis by (auto simp: al kj' split: option.splits)
  qed
qed

lemma covered_rearm: "rearm_tx now s = Some (s', ()) \<Longrightarrow> covered now s'"
  unfolding rearm_tx_def covered_def
  using earliest_le [of None "sd_jobs s"] earliest_fold [of None "sd_jobs s"]
  by (auto simp: earliest_def split: option.splits) fastforce

lemma covered_tick: "covered now s \<Longrightarrow> 0 \<le> dt \<Longrightarrow> covered (now + dt) s"
  unfolding covered_def by (fastforce split: option.splits)

lemma covered_delete: "covered now s \<Longrightarrow> delete_if_same key g s = Some (s', ()) \<Longrightarrow> covered now s'"
  by (auto simp: covered_def delete_if_same_def split: option.splits if_splits)


text \<open>
  A job that is scheduled while its previous run is being published is not lost: deleting the published
  generation leaves the new one, which has the next generation number and the earlier of the two times.
\<close>
theorem rescheduled_job_survives:
  assumes "map_of (sd_jobs s) (job_key inp) = Some j" and "schedule_tx inp now s = Some (s1, ans)"
    and "delete_if_same (job_key inp) (sj_generation j) s1 = Some (s2, ())"
  shows "\<exists>j'. map_of (sd_jobs s2) (job_key inp) = Some j' \<and> sj_generation j' = sj_generation j + 1 \<and>
    sj_runAt j' = min (sj_runAt j) (sj_runAt inp) \<and> sj_dedupeKey j' = sj_dedupeKey inp"
  using assms
  by (auto simp: schedule_tx_def delete_if_same_def Let_def put_job_lookup next_job_def scheduled_input.defs
      scheduled_job.defs split: if_splits)

definition sample_scheduled :: scheduled_input where
  "sample_scheduled = \<lparr>sj_job = CctpAttestation, sj_resourceId = ''op'', sj_dedupeKey = ''k'',
     sj_partition = ''p'', sj_runAt = 9000\<rparr>"

definition after_schedule :: "scheduler \<Rightarrow> scheduler" where
  "after_schedule s = (case schedule_tx sample_scheduled 4000 s of None \<Rightarrow> s | Some (s', ans) \<Rightarrow> s')"

definition scheduler_once :: scheduler where
  "scheduler_once = after_schedule (ss_storage (new_scheduler 0))"

lemma rescheduled_job_survives_witness:
  "\<exists>j'. map_of (sd_jobs (case delete_if_same (job_key sample_scheduled) 1 (after_schedule scheduler_once) of
      Some (s, u) \<Rightarrow> s | None \<Rightarrow> scheduler_once)) (job_key sample_scheduled) = Some j' \<and> sj_generation j' = 2"
proof -
  have 1: "map_of (sd_jobs scheduler_once) (job_key sample_scheduled) = Some (next_job sample_scheduled None)"
    by (simp add: scheduler_once_def after_schedule_def schedule_tx_def new_scheduler_def Let_def)
  have 2: "\<exists>ans. schedule_tx sample_scheduled 4000 scheduler_once = Some (after_schedule scheduler_once, ans)"
    by (simp add: after_schedule_def schedule_tx_def Let_def)
  obtain s where 3: "delete_if_same (job_key sample_scheduled) (sj_generation (next_job sample_scheduled None))
      (after_schedule scheduler_once) = Some (s, ())"
    by (simp add: delete_if_same_def)
  have g: "sj_generation (next_job sample_scheduled None) = 1"
    by (simp add: next_job_def scheduled_input.defs scheduled_job.defs)
  from 2 obtain ans where "schedule_tx sample_scheduled 4000 scheduler_once = Some (after_schedule scheduler_once, ans)" ..
  from rescheduled_job_survives [OF 1 this 3] 3 g show ?thesis by auto
qed

text \<open>
  The generation number of a job restarts once the job was published and deleted, so that two runs
  scheduled one after the other carry the same deduplication key.
\<close>
theorem dedupe_key_repeats:
  "sj_generation (next_job inp (map_of (sd_jobs s1) (job_key inp))) = 1 \<and>
   sj_generation (next_job inp (map_of (sd_jobs (fst (the (delete_if_same (job_key inp) 1
     (fst (the (schedule_tx inp now s1))))))) (job_key inp))) = 1"
  if "map_of (sd_jobs s1) (job_key inp) = None"
proof -
  have d: "map_of (filter (\<lambda>(k, j). k \<noteq> x) js) x = None" for x and js :: "(string \<times> scheduled_job) list"
    by (induction js) auto
  show ?thesis
    using that d
    by (auto simp: schedule_tx_def delete_if_same_def Let_def put_job_lookup next_job_def scheduled_input.defs
        scheduled_job.defs)
qed

lemma dedupe_key_repeats_witness:
  "sj_generation (next_job sample_scheduled (map_of (sd_jobs (ss_storage (new_scheduler 0))) (job_key sample_scheduled))) = 1"
  using dedupe_key_repeats [of "ss_storage (new_scheduler 0)" sample_scheduled] by (simp add: new_scheduler_def)


subsection \<open>Flushing the outbox\<close>

definition open_outbox :: "outbox_row \<Rightarrow> bool" where
  "open_outbox b \<longleftrightarrow> ob_status b = ObPending \<or> ob_status b = ObFailed"

definition enqueue_row :: "int \<Rightarrow> outbox_row \<Rightarrow> outbox_row" where
  "enqueue_row ts b = b\<lparr>ob_status := ObEnqueued, ob_attemptCount := ob_attemptCount b + 1, ob_updatedAt := ts\<rparr>"

fun sent_keys :: "effect list \<Rightarrow> (string \<times> string) list" where
  "sent_keys [] = []"
| "sent_keys (SentJob m delay # es) = (pj_dedupeKey m, pj_resourceId m) # sent_keys es"
| "sent_keys (e # es) = sent_keys es"

lemma sent_keys_append: "sent_keys (xs @ ys) = sent_keys xs @ sent_keys ys"
  by (induction xs rule: sent_keys.induct) auto

lemma upd_twice:
  "upd (\<lambda>b. ob_id b \<in> S \<and> open_outbox b) (enqueue_row ts) (upd (\<lambda>b. ob_id b = x \<and> open_outbox b) (enqueue_row ts) bs) =
   upd (\<lambda>b. ob_id b \<in> insert x S \<and> open_outbox b) (enqueue_row ts) bs"
  by (induction bs) (auto simp: upd_def enqueue_row_def open_outbox_def)

lemma enqueue_outbox_job:
  assumes "w_env w = []" and "e_queueAvailable env" and "\<And>m t. sv_queueSend sv m t = Some ()"
  shows "\<exists>m. enqueuePaymentJob sv env (outbox_job b) w =
      (Inr (), w\<lparr>w_ix := Suc (w_ix w), w_sent := w_sent w @ [SentJob m 0]\<rparr>) \<and>
      pj_dedupeKey m = ''outbox:'' @ ob_id b \<and> pj_resourceId m = ob_resourceId b"
proof -
  let ?m = "\<lparr>pj_job = WebhookDelivery, pj_jobId = w_uuid w (w_ix w), pj_dedupeKey = ''outbox:'' @ ob_id b,
    pj_resourceId = ob_resourceId b, pj_partition = partition_of (outbox_job b), pj_attempt = 0,
    pj_createdAt = toISOString (w_now w)\<rparr>"
  have "enqueuePaymentJob sv env (outbox_job b) w =
      (Inr (), w\<lparr>w_ix := Suc (w_ix w), w_sent := w_sent w @ [SentJob ?m 0]\<rparr>)"
    using assms
    by (simp add: enqueuePaymentJob_def outbox_job_def validateDelay_def isSafeInteger_def MAX_SAFE_INTEGER_def
        bindA_def liftE_def paymentJobMessage_def randomUUID_def date_now_def ret_def callA_quiet dedupe_of_def)
  then show ?thesis by (intro exI [of _ ?m]) simp
qed

lemma mark_enqueued_quiet:
  assumes "w_env w = []"
  shows "markPaymentOutboxEnqueued x w = (Inr (), w\<lparr>w_db := (w_db w)\<lparr>db_outbox :=
    upd (\<lambda>b. ob_id b = x \<and> open_outbox b) (enqueue_row (w_now w)) (db_outbox (w_db w))\<rparr>\<rparr>)"
  using assms
  by (simp add: markPaymentOutboxEnqueued_def bindA_def date_now_def dbx_quiet enqueued_stmt_def Let_def plain_def
      ret_def open_outbox_def enqueue_row_def [abs_def])

lemma publish_rows_quiet:
  assumes "w_env w = []" and "e_queueAvailable env" and "\<And>m t. sv_queueSend sv m t = Some ()"
  shows "\<exists>ms k. publish_rows sv env rows n w = (Inr (n + length rows), w\<lparr>w_ix := k, w_sent := w_sent w @ ms,
      w_db := (w_db w)\<lparr>db_outbox := upd (\<lambda>b. ob_id b \<in> ob_id ` set rows \<and> open_outbox b) (enqueue_row (w_now w))
        (db_outbox (w_db w))\<rparr>\<rparr>) \<and>
    sent_keys ms = map (\<lambda>b. (''outbox:'' @ ob_id b, ob_resourceId b)) rows"
  using assms
proof (induction rows arbitrary: n w)
  case Nil
  have "upd (\<lambda>b. ob_id b \<in> {} \<and> open_outbox b) (enqueue_row (w_now w)) (db_outbox (w_db w)) = db_outbox (w_db w)"
    by (rule upd_none) simp
  then show ?case by (intro exI [of _ "[]"] exI [of _ "w_ix w"]) (simp add: ret_def)
next
  case (Cons row rows)
  from enqueue_outbox_job [OF Cons.prems, of row] obtain m where m:
    "enqueuePaymentJob sv env (outbox_job row) w =
      (Inr (), w\<lparr>w_ix := Suc (w_ix w), w_sent := w_sent w @ [SentJob m 0]\<rparr>)"
    "pj_dedupeKey m = ''outbox:'' @ ob_id row" "pj_resourceId m = ob_resourceId row"
    by blast
  let ?w1 = "w\<lparr>w_ix := Suc (w_ix w), w_sent := w_sent w @ [SentJob m 0], w_db := (w_db w)\<lparr>db_outbox :=
    upd (\<lambda>b. ob_id b = ob_id row \<and> open_outbox b) (enqueue_row (w_now w)) (db_outbox (w_db w))\<rparr>\<rparr>"
  have step: "publish_rows sv env (row # rows) n w = publish_rows sv env rows (Suc n) ?w1"
    using m(1) mark_enqueued_quiet [of "w\<lparr>w_ix := Suc (w_ix w), w_sent := w_sent w @ [SentJob m 0]\<rparr>"] Cons.prems(1)
    by (simp add: bindA_def catchA_def)
  obtain ms k where ih: "publish_rows sv env rows (Suc n) ?w1 = (Inr (Suc n + length rows), ?w1\<lparr>w_ix := k,
      w_sent := w_sent ?w1 @ ms, w_db := (w_db ?w1)\<lparr>db_outbox := upd (\<lambda>b. ob_id b \<in> ob_id ` set rows \<and> open_outbox b)
        (enqueue_row (w_now ?w1)) (db_outbox (w_db ?w1))\<rparr>\<rparr>)"
      "sent_keys ms = map (\<lambda>b. (''outbox:'' @ ob_id b, ob_resourceId b)) rows"
    using Cons.IH [of ?w1 "Suc n"] Cons.prems by auto
  show ?case
    unfolding step
    by (intro exI [of _ "SentJob m 0 # ms"] exI [of _ k]) (use ih m in \<open>simp add: upd_twice\<close>)
qed

text \<open>
  An undisturbed flush with a working queue publishes every due row (up to the limit), oldest first,
  each once and under its own deduplication key, marks exactly those rows as enqueued, and touches nothing else.
\<close>
theorem flush_publishes_due_rows:
  fixes limit :: int
  assumes "w_env w = []" and "e_queueAvailable env" and "\<And>m t. sv_queueSend sv m t = Some ()"
  defines "due \<equiv> take (nat (max 1 (min limit 100)))
    (sort_key ob_createdAt (filter (outbox_due (w_now w)) (db_outbox (w_db w))))"
  shows "\<exists>w' ms. flushPaymentOutbox sv env limit w = (Inr (length due), w') \<and>
    w_db w' = (w_db w)\<lparr>db_outbox := upd (\<lambda>b. ob_id b \<in> ob_id ` set due \<and> open_outbox b)
      (enqueue_row (w_now w)) (db_outbox (w_db w))\<rparr> \<and>
    w_sent w' = w_sent w @ ms \<and> sent_keys ms = map (\<lambda>b. (''outbox:'' @ ob_id b, ob_resourceId b)) due"
  using publish_rows_quiet [OF assms(1-3), of due 0] assms(1,2)
  by (auto simp: flushPaymentOutbox_def listDuePaymentOutbox_def bindA_def date_now_def dbq_quiet due_def)

definition sample_outbox_row :: outbox_row where
  "sample_outbox_row = outbox_for ''evt_1'' 1000"

definition outbox_world :: pworld where
  "outbox_world = sample_world\<lparr>w_db := sample_db\<lparr>db_outbox := [sample_outbox_row]\<rparr>\<rparr>"

lemma flush_publishes_due_rows_witness:
  "\<exists>w' ms. flushPaymentOutbox quiet_services sample_env 50 outbox_world = (Inr 1, w') \<and>
     w_sent w' = w_sent outbox_world @ ms \<and> sent_keys ms = [(''outbox:out_evt_1'', ''evt_1'')]"
proof -
  have q: "w_env outbox_world = []" "e_queueAvailable sample_env" "\<And>m t. sv_queueSend quiet_services m t = Some ()"
    by (simp_all add: outbox_world_def sample_world_def sample_env_def quiet_services_def)
  have due: "take (nat (max 1 (min 50 100))) (sort_key ob_createdAt
      (filter (outbox_due (w_now outbox_world)) (db_outbox (w_db outbox_world)))) = [sample_outbox_row]"
    by (simp add: outbox_world_def sample_world_def outbox_due_def sample_outbox_row_def outbox_for_def)
  show ?thesis
    using flush_publishes_due_rows [OF q, of 50, unfolded due]
    by (auto simp: sample_outbox_row_def outbox_for_def)
qed

end
