(* ===== verification/JobStore.thy ===== *)
theory JobStore
  imports Leases Queue
begin

text \<open>
  The store of job runs and webhook deliveries (\<^verbatim>\<open>stores/jobStore.ts\<close>): claiming a job under its
  deduplication key, ending it, and the lease of a webhook delivery.
\<close>

subsection \<open>Job runs\<close>

definition JOB_LEASE_MS :: int where
  "JOB_LEASE_MS = 16 * 60000"

datatype job_claim = Claimed | AlreadyCompleted | Leased int

definition jobs_unique :: "pdb \<Rightarrow> bool" where
  "jobs_unique d \<longleftrightarrow> distinct (map jr_dedupeKey (db_jobs d))"

definition job_of :: "string \<Rightarrow> pdb \<Rightarrow> job_row option" where
  "job_of key d = find (\<lambda>r. jr_dedupeKey r = key) (db_jobs d)"

definition new_job_row :: "payment_job_message \<Rightarrow> int \<Rightarrow> job_row" where
  "new_job_row m now = \<lparr>jr_dedupeKey = pj_dedupeKey m, jr_jobId = pj_jobId m, jr_job = pj_job m,
     jr_resourceId = pj_resourceId m, jr_status = JobProcessing, jr_leaseExpiresAt = Some (now + JOB_LEASE_MS),
     jr_attemptCount = 1, jr_lastError = None, jr_createdAt = now, jr_updatedAt = now, jr_completedAt = None\<rparr>"

definition insert_job_stmt :: "payment_job_message \<Rightarrow> int \<Rightarrow> pdb stmt" where
  "insert_job_stmt m now = or_ignore jobs_unique (\<lambda>d. True)
     (\<lambda>d. (d\<lparr>db_jobs := db_jobs d @ [new_job_row m now]\<rparr>, 1))"

definition reclaimable :: "string \<Rightarrow> int \<Rightarrow> job_row \<Rightarrow> bool" where
  "reclaimable key now r \<longleftrightarrow> jr_dedupeKey r = key \<and> jr_status r \<noteq> JobCompleted \<and>
     (jr_status r = JobFailed \<or> (case jr_leaseExpiresAt r of None \<Rightarrow> True | Some e \<Rightarrow> e \<le> now))"

definition reclaimed :: "payment_job_message \<Rightarrow> int \<Rightarrow> job_row \<Rightarrow> job_row" where
  "reclaimed m now r = r\<lparr>jr_jobId := pj_jobId m, jr_job := pj_job m, jr_resourceId := pj_resourceId m,
     jr_status := JobProcessing, jr_leaseExpiresAt := Some (now + JOB_LEASE_MS),
     jr_attemptCount := jr_attemptCount r + 1, jr_lastError := None, jr_updatedAt := now\<rparr>"

definition reclaim_stmt :: "payment_job_message \<Rightarrow> int \<Rightarrow> pdb stmt" where
  "reclaim_stmt m now = (let p = reclaimable (pj_dedupeKey m) now in
     plain (\<lambda>d. (d\<lparr>db_jobs := upd p (reclaimed m now) (db_jobs d)\<rparr>, hits p (db_jobs d))))"

definition seconds_left :: "int \<Rightarrow> int \<Rightarrow> int" where
  "seconds_left until now = max 1 (ceil_div (until - now) 1000)"

definition claimPaymentJob :: "payment_job_message \<Rightarrow> job_claim pact" where
  "claimPaymentJob m = bindA date_now (\<lambda>now.
     bindA (dbx (insert_job_stmt m now)) (\<lambda>n. if 0 < n then ret Claimed else
     bindA (dbq (job_of (pj_dedupeKey m))) (\<lambda>existing.
       let status = map_option jr_status existing;
           leaseExpiresAt = (case existing of None \<Rightarrow> 0
             | Some r \<Rightarrow> (case jr_leaseExpiresAt r of None \<Rightarrow> 0 | Some e \<Rightarrow> e))
       in if status = Some JobCompleted then ret AlreadyCompleted
       else if status = Some JobProcessing \<and> now < leaseExpiresAt
       then ret (Leased (seconds_left leaseExpiresAt now))
       else bindA (dbx (reclaim_stmt m now)) (\<lambda>n. if 0 < n then ret Claimed else
         bindA (dbq (job_of (pj_dedupeKey m))) (\<lambda>winner.
         if map_option jr_status winner = Some JobCompleted then ret AlreadyCompleted
         else let winnerLease = (case winner of None \<Rightarrow> now + 1000
                | Some r \<Rightarrow> (case jr_leaseExpiresAt r of None \<Rightarrow> now + 1000 | Some e \<Rightarrow> e))
           in ret (Leased (seconds_left winnerLease now)))))))"

definition complete_job :: "int \<Rightarrow> job_row \<Rightarrow> job_row" where
  "complete_job ts r = r\<lparr>jr_status := JobCompleted, jr_leaseExpiresAt := None, jr_lastError := None,
     jr_updatedAt := ts, jr_completedAt := coalesce (jr_completedAt r) (Some ts)\<rparr>"

definition complete_outbox_stmt :: "string \<Rightarrow> int \<Rightarrow> pdb stmt" where
  "complete_outbox_stmt x ts = (let p = (\<lambda>b. ob_id b = x \<and> ob_status b \<noteq> ObCompleted) in
     plain (\<lambda>d. (d\<lparr>db_outbox := upd p (\<lambda>b. b\<lparr>ob_status := ObCompleted, ob_updatedAt := ts\<rparr>) (db_outbox d)\<rparr>,
       hits p (db_outbox d))))"

definition complete_batch :: "string \<Rightarrow> int \<Rightarrow> pdb stmt list" where
  "complete_batch key ts = (let p = (\<lambda>r. jr_dedupeKey r = key) in
     plain (\<lambda>d. (d\<lparr>db_jobs := upd p (complete_job ts) (db_jobs d)\<rparr>, hits p (db_jobs d))) #
     (if startsWith key ''outbox:'' then [complete_outbox_stmt (drop 7 key) ts] else []))"

definition completePaymentJob :: "string \<Rightarrow> unit pact" where
  "completePaymentJob key = bindA date_now (\<lambda>ts. bindA (dbb (complete_batch key ts)) (\<lambda>_. ret ()))"

text \<open>The message of an exception; a third party's is its name here.\<close>

fun err_message :: "err \<Rightarrow> string" where
  "err_message (Thrown s) = s"
| "err_message (EvidenceMismatchError s) = s"
| "err_message (CircleFeeError s) = s"
| "err_message (ExternalError s) = s"
| "err_message (DomainValidationError s) = s"
| "err_message (FeePolicyError s) = s"
| "err_message (QuoteError s) = s"
| "err_message (PreflightError issues) = ''Payment router preflight failed: '' @ text_join '', '' issues"
| "err_message SignerLeaseBusyError = ''The payment relayer signer is busy. Retry shortly.''"
| "err_message ConstraintFailed = ''D1_ERROR''"

definition fail_job :: "string \<Rightarrow> int \<Rightarrow> job_row \<Rightarrow> job_row" where
  "fail_job message ts r = r\<lparr>jr_status := JobFailed, jr_leaseExpiresAt := None,
     jr_lastError := Some (take 500 message), jr_updatedAt := ts\<rparr>"

definition fail_stmt :: "string \<Rightarrow> string \<Rightarrow> int \<Rightarrow> pdb stmt" where
  "fail_stmt key message ts = (let p = (\<lambda>r. jr_dedupeKey r = key) in
     plain (\<lambda>d. (d\<lparr>db_jobs := upd p (fail_job message ts) (db_jobs d)\<rparr>, hits p (db_jobs d))))"

definition failPaymentJob :: "string \<Rightarrow> err \<Rightarrow> unit pact" where
  "failPaymentJob key e = bindA date_now (\<lambda>ts. bindA (dbx (fail_stmt key (err_message e) ts)) (\<lambda>_. ret ()))"

subsection \<open>Webhook deliveries\<close>

record delivery_job =
  dj_id :: string
  dj_url :: string
  dj_ciphertext :: string
  dj_keyId :: string
  dj_eventId :: string
  dj_eventType :: string
  dj_payload :: json
  dj_attemptCount :: int

definition unfinished :: "delivery_status \<Rightarrow> bool" where
  "unfinished s \<longleftrightarrow> s = WdPending \<or> s = WdProcessing \<or> s = WdFailed"

definition join_delivery :: "pdb \<Rightarrow> delivery_row \<Rightarrow> delivery_job option" where
  "join_delivery d r =
     (case (find (\<lambda>e. ep_id e = wd_endpointId r \<and> ep_active e) (db_endpoints d),
            find (\<lambda>e. ev_id e = wd_eventId r) (db_events d)) of
        (Some w, Some e) \<Rightarrow> Some \<lparr>dj_id = wd_id r, dj_url = ep_url w, dj_ciphertext = ep_ciphertext w,
          dj_keyId = ep_keyId w, dj_eventId = ev_id e, dj_eventType = ev_type e, dj_payload = ev_payload e,
          dj_attemptCount = wd_attemptCount r\<rparr>
      | _ \<Rightarrow> None)"

definition listWebhookDeliveryJobs :: "string \<Rightarrow> delivery_job list pact" where
  "listWebhookDeliveryJobs resourceId = dbq (\<lambda>d. List.map_filter (join_delivery d)
     (filter (\<lambda>r. (wd_id r = resourceId \<or> wd_eventId r = resourceId) \<and> unfinished (wd_status r)) (db_deliveries d)))"

definition delivery_free :: "string \<Rightarrow> int \<Rightarrow> delivery_row \<Rightarrow> bool" where
  "delivery_free x now r \<longleftrightarrow> wd_id r = x \<and>
     (((wd_status r = WdPending \<or> wd_status r = WdFailed) \<and>
        (case wd_leaseExpiresAt r of None \<Rightarrow> True | Some e \<Rightarrow> e \<le> now)) \<or>
      (wd_status r = WdProcessing \<and> (case wd_leaseExpiresAt r of None \<Rightarrow> False | Some e \<Rightarrow> e \<le> now)))"

definition lease_delivery :: "string \<Rightarrow> int \<Rightarrow> int \<Rightarrow> delivery_row \<Rightarrow> delivery_row" where
  "lease_delivery owner until ts r = r\<lparr>wd_status := WdProcessing, wd_leaseOwner := Some owner,
     wd_leaseExpiresAt := Some until, wd_updatedAt := ts\<rparr>"

definition claim_delivery_stmt :: "string \<Rightarrow> string \<Rightarrow> int \<Rightarrow> int \<Rightarrow> pdb stmt" where
  "claim_delivery_stmt x owner now until = (let p = delivery_free x now in
     plain (\<lambda>d. (d\<lparr>db_deliveries := upd p (lease_delivery owner until now) (db_deliveries d)\<rparr>,
       hits p (db_deliveries d))))"

definition claimWebhookDelivery :: "string \<Rightarrow> string \<Rightarrow> int \<Rightarrow> bool pact" where
  "claimWebhookDelivery x owner until = bindA date_now (\<lambda>ts.
     bindA (dbx (claim_delivery_stmt x owner ts until)) (\<lambda>n. ret (0 < n)))"

definition delivery_backoff :: "int \<Rightarrow> int" where
  "delivery_backoff attempts = min 3600000 (15000 * 2 ^ nat attempts)"

text \<open>The end of a delivery attempt, by the owner of its lease only.\<close>

definition end_delivery_stmt :: "string \<Rightarrow> string \<Rightarrow> (delivery_row \<Rightarrow> delivery_row) \<Rightarrow> int \<Rightarrow> pdb stmt" where
  "end_delivery_stmt x owner f ts = (let p = (\<lambda>r. wd_id r = x \<and> wd_leaseOwner r = Some owner) in
     plain (\<lambda>d. (d\<lparr>db_deliveries := upd p (\<lambda>r. (f r)\<lparr>wd_id := wd_id r, wd_leaseOwner := None,
         wd_leaseExpiresAt := None, wd_updatedAt := ts\<rparr>) (db_deliveries d)\<rparr>, hits p (db_deliveries d))))"

definition failed_status :: "int \<Rightarrow> delivery_status" where
  "failed_status attempts = (if 8 \<le> attempts then WdDead else WdFailed)"

definition recordWebhookNetworkFailure :: "string \<Rightarrow> string \<Rightarrow> int \<Rightarrow> err \<Rightarrow> unit pact" where
  "recordWebhookNetworkFailure x owner attempts e = bindA date_now (\<lambda>ts.
     bindA (dbx (end_delivery_stmt x owner (\<lambda>r. r\<lparr>wd_status := failed_status attempts, wd_attemptCount := attempts,
       wd_nextRetryAt := ts + delivery_backoff attempts, wd_lastError := Some (take 500 (err_message e))\<rparr>) ts))
     (\<lambda>_. ret ()))"

definition recordWebhookResponse :: "string \<Rightarrow> string \<Rightarrow> int \<Rightarrow> int \<Rightarrow> bool \<Rightarrow> unit pact" where
  "recordWebhookResponse x owner attempts statusCode delivered = bindA date_now (\<lambda>ts.
     if delivered
     then bindA (dbx (end_delivery_stmt x owner (\<lambda>r. r\<lparr>wd_status := WdDelivered, wd_attemptCount := attempts,
         wd_lastStatusCode := Some statusCode, wd_deliveredAt := Some ts, wd_lastError := None\<rparr>) ts)) (\<lambda>_. ret ())
     else bindA (dbx (end_delivery_stmt x owner (\<lambda>r. r\<lparr>wd_status := failed_status attempts,
         wd_attemptCount := attempts, wd_nextRetryAt := ts + delivery_backoff attempts,
         wd_lastStatusCode := Some statusCode, wd_lastError := Some (''HTTP '' @ string_of_int statusCode)\<rparr>) ts))
       (\<lambda>_. ret ()))"

subsection \<open>The delivery lease honours the contract\<close>

definition deliveries_keyed :: "pdb \<Rightarrow> bool" where
  "deliveries_keyed d \<longleftrightarrow> distinct (map wd_id (db_deliveries d))"

definition row_lease :: "delivery_row \<Rightarrow> (string \<times> int) option" where
  "row_lease r = (case (wd_leaseOwner r, wd_leaseExpiresAt r) of (Some u, Some e) \<Rightarrow> Some (u, e) | _ \<Rightarrow> None)"

definition delivery_holder :: "pdb \<Rightarrow> string \<Rightarrow> (string \<times> int) option" where
  "delivery_holder d x = Option.bind (find (\<lambda>r. wd_id r = x) (db_deliveries d)) row_lease"

definition take_delivery :: "unit \<Rightarrow> string \<Rightarrow> string \<Rightarrow> int \<Rightarrow> int \<Rightarrow> pdb \<Rightarrow> pdb \<times> bool" where
  "take_delivery s x owner now until d = (case claim_delivery_stmt x owner now until d of
     None \<Rightarrow> (d, False) | Some (d', n) \<Rightarrow> (d', 0 < n))"

definition free_delivery :: "(delivery_row \<Rightarrow> delivery_row) \<Rightarrow> int \<Rightarrow> string \<Rightarrow> string \<Rightarrow> pdb \<Rightarrow> pdb" where
  "free_delivery f ts x owner d = (case end_delivery_stmt x owner f ts d of None \<Rightarrow> d | Some (d', n) \<Rightarrow> d')"

lemma take_delivery_eq:
  "take_delivery s x owner now until d =
     (d\<lparr>db_deliveries := upd (delivery_free x now) (lease_delivery owner until now) (db_deliveries d)\<rparr>,
      list_ex (delivery_free x now) (db_deliveries d))"
  by (simp add: take_delivery_def claim_delivery_stmt_def plain_def Let_def hits_pos list_ex_iff)

lemma free_delivery_eq:
  "free_delivery f ts x owner d = d\<lparr>db_deliveries := upd (\<lambda>r. wd_id r = x \<and> wd_leaseOwner r = Some owner)
     (\<lambda>r. (f r)\<lparr>wd_id := wd_id r, wd_leaseOwner := None, wd_leaseExpiresAt := None, wd_updatedAt := ts\<rparr>)
     (db_deliveries d)\<rparr>"
  by (simp add: free_delivery_def end_delivery_stmt_def plain_def Let_def)

lemma holder_take_delivery:
  "delivery_holder (fst (take_delivery s x owner now until d)) y = (case find (\<lambda>r. wd_id r = y) (db_deliveries d) of
     None \<Rightarrow> None | Some r \<Rightarrow> if delivery_free x now r then Some (owner, until) else row_lease r)"
  by (simp add: take_delivery_eq delivery_holder_def find_upd_key lease_delivery_def row_lease_def
      split: option.split)

lemma granted_delivery: "deliveries_keyed d \<Longrightarrow> snd (take_delivery s x owner now until d) =
    (case find (\<lambda>r. wd_id r = x) (db_deliveries d) of None \<Rightarrow> False | Some r \<Rightarrow> delivery_free x now r)"
  using list_ex_key [of wd_id "db_deliveries d" x "delivery_free x now"]
  by (simp add: take_delivery_eq deliveries_keyed_def delivery_free_def [abs_def] conj_ac cong: conj_cong)

lemma holder_free_delivery:
  "delivery_holder (free_delivery f ts x owner d) y = (case find (\<lambda>r. wd_id r = y) (db_deliveries d) of
     None \<Rightarrow> None | Some r \<Rightarrow> if wd_id r = x \<and> wd_leaseOwner r = Some owner then None else row_lease r)"
  by (simp add: free_delivery_eq delivery_holder_def find_upd_key row_lease_def split: option.split)

lemma free_no_lease: "delivery_free x now r \<Longrightarrow> case row_lease r of None \<Rightarrow> True | Some (u, e) \<Rightarrow> e \<le> now"
  by (auto simp: delivery_free_def row_lease_def split: option.splits)

interpretation delivery: lease deliveries_keyed delivery_holder take_delivery "free_delivery f ts" for f ts
proof unfold_locales
  fix d s k u now e k'
  assume inv: "deliveries_keyed d"
  show "deliveries_keyed (fst (take_delivery s k u now e d))"
    using inv by (simp add: take_delivery_eq deliveries_keyed_def map_upd lease_delivery_def)
  show "deliveries_keyed (free_delivery f ts k u d)"
    using inv by (simp add: free_delivery_eq deliveries_keyed_def map_upd)
  show "delivery_holder (fst (take_delivery s k u now e d)) k = Some (u, e) \<and>
      (case delivery_holder d k of None \<Rightarrow> True | Some (u', e') \<Rightarrow> e' \<le> now)"
    if "snd (take_delivery s k u now e d)"
  proof -
    from that obtain r where r: "find (\<lambda>r. wd_id r = k) (db_deliveries d) = Some r" "delivery_free k now r"
      using inv by (auto simp: granted_delivery split: option.splits)
    then show ?thesis
      using free_no_lease [OF r(2)] by (simp add: holder_take_delivery) (simp add: delivery_holder_def)
  qed
  show "delivery_holder (fst (take_delivery s k u now e d)) k = delivery_holder d k"
    if "\<not> snd (take_delivery s k u now e d)"
    using that inv by (simp add: granted_delivery holder_take_delivery split: option.splits)
      (simp_all add: delivery_holder_def)
  show "delivery_holder (fst (take_delivery s k u now e d)) k' = delivery_holder d k'" if k: "k' \<noteq> k"
  proof (cases "find (\<lambda>r. wd_id r = k') (db_deliveries d)")
    case (Some r)
    then have "\<not> delivery_free k now r" using k find_SomeD [OF Some] by (simp add: delivery_free_def)
    then show ?thesis using Some by (simp add: holder_take_delivery) (simp add: delivery_holder_def)
  qed (simp add: holder_take_delivery, simp add: delivery_holder_def)
  show "delivery_holder (free_delivery f ts k u d) k = (case delivery_holder d k of None \<Rightarrow> None
      | Some (u', e') \<Rightarrow> if u' = u then None else Some (u', e'))"
  proof (cases "find (\<lambda>r. wd_id r = k) (db_deliveries d)")
    case (Some r)
    then show ?thesis using find_SomeD [OF Some]
      by (simp add: holder_free_delivery) (auto simp: delivery_holder_def row_lease_def split: option.split)
  qed (simp add: holder_free_delivery, simp add: delivery_holder_def)
  show "delivery_holder (free_delivery f ts k u d) k' = delivery_holder d k'" if k: "k' \<noteq> k"
  proof (cases "find (\<lambda>r. wd_id r = k') (db_deliveries d)")
    case (Some r)
    then show ?thesis using k find_SomeD [OF Some]
      by (simp add: holder_free_delivery) (simp add: delivery_holder_def)
  qed (simp add: holder_free_delivery, simp add: delivery_holder_def)
qed

subsection \<open>The job store leaves the accounts alone\<close>

lemma keeps_job_statements [intro]:
  "keeps (insert_job_stmt m now)" "keeps (reclaim_stmt m now)" "keeps (fail_stmt key e ts)"
  "keeps (complete_outbox_stmt x ts)" "keeps (claim_delivery_stmt x u now until)" "keeps (end_delivery_stmt x u f ts)"
  unfolding insert_job_stmt_def reclaim_stmt_def fail_stmt_def complete_outbox_stmt_def claim_delivery_stmt_def
    end_delivery_stmt_def Let_def
  by (rule keeps_same; auto dest!: stmt_SomeD simp: same_accounts_def)+

lemma keeps_complete_batch [intro]: "keeps (batch (complete_batch key ts))"
proof (rule keeps_batch)
  have "keeps (plain (\<lambda>d. (d\<lparr>db_jobs := upd (\<lambda>r. jr_dedupeKey r = key) (complete_job ts) (db_jobs d)\<rparr>, f d)))" for f
    by (rule keeps_same; auto dest!: stmt_SomeD simp: same_accounts_def)
  then show "keeps s" if "s \<in> set (complete_batch key ts)" for s
    using that by (auto simp: complete_batch_def Let_def split: if_splits)
qed

lemma guar_job_store [intro]:
  "guar pay_I pay_R (claimPaymentJob m)" "guar pay_I pay_R (completePaymentJob key)"
  "guar pay_I pay_R (failPaymentJob key e)" "guar pay_I pay_R (listWebhookDeliveryJobs x)"
  "guar pay_I pay_R (claimWebhookDelivery x u until)" "guar pay_I pay_R (recordWebhookNetworkFailure x u n e)"
  "guar pay_I pay_R (recordWebhookResponse x u n code ok)"
  unfolding claimPaymentJob_def completePaymentJob_def failPaymentJob_def listWebhookDeliveryJobs_def
    claimWebhookDelivery_def recordWebhookNetworkFailure_def recordWebhookResponse_def Let_def
  by (intro pay.guar_bindA pay.guar_calm guar_dbx_keeps guar_dbb_keeps keeps_job_statements keeps_complete_batch
      conjI impI | split if_split)+

subsection \<open>Claiming a job\<close>

lemma job_of_none: "job_of key d = None \<longleftrightarrow> key \<notin> jr_dedupeKey ` set (db_jobs d)"
  by (auto simp: job_of_def find_None_iff)

lemma insert_job_present:
  "key = pj_dedupeKey m \<Longrightarrow> job_of key d = Some r \<Longrightarrow> insert_job_stmt m now d = Some (d, 0)"
  using find_SomeD [of "\<lambda>r. jr_dedupeKey r = key" "db_jobs d" r]
  by (auto simp: insert_job_stmt_def or_ignore_def jobs_unique_def new_job_row_def job_of_def intro: rev_image_eqI)

lemma insert_job_absent:
  "jobs_unique d \<Longrightarrow> job_of (pj_dedupeKey m) d = None \<Longrightarrow>
   insert_job_stmt m now d = Some (d\<lparr>db_jobs := db_jobs d @ [new_job_row m now]\<rparr>, 1)"
  by (auto simp: insert_job_stmt_def or_ignore_def jobs_unique_def new_job_row_def job_of_none)

lemma reclaim_hits:
  assumes "jobs_unique d" and "job_of (pj_dedupeKey m) d = Some r"
  shows "0 < hits (reclaimable (pj_dedupeKey m) now) (db_jobs d) \<longleftrightarrow> reclaimable (pj_dedupeKey m) now r"
proof -
  have "list_ex (reclaimable (pj_dedupeKey m) now) (db_jobs d) = reclaimable (pj_dedupeKey m) now r"
    using list_ex_key [of jr_dedupeKey "db_jobs d" "pj_dedupeKey m" "reclaimable (pj_dedupeKey m) now"] assms
      find_SomeD [of "\<lambda>r. jr_dedupeKey r = pj_dedupeKey m" "db_jobs d" r]
    by (simp add: jobs_unique_def job_of_def reclaimable_def [abs_def] cong: conj_cong)
  then show ?thesis by (simp add: hits_pos list_ex_iff)
qed

text \<open>
  What an undisturbed claim of a job answers, on every branch.  A new key is claimed and inserted; a completed
  one is reported as completed and a running one with the time its lease has left, both unchanged; a
  failed one, or one whose lease has ended, is claimed again for its new message.
\<close>
theorem claim_job_outcome:
  assumes "w_env w = []" and "jobs_unique (w_db w)" and "0 \<le> w_now w"
  shows "claimPaymentJob m w = (case job_of (pj_dedupeKey m) (w_db w) of
      None \<Rightarrow> (Inr Claimed, w\<lparr>w_db := (w_db w)\<lparr>db_jobs := db_jobs (w_db w) @ [new_job_row m (w_now w)]\<rparr>\<rparr>)
    | Some r \<Rightarrow> if jr_status r = JobCompleted then (Inr AlreadyCompleted, w)
        else if reclaimable (pj_dedupeKey m) (w_now w) r
        then (Inr Claimed, w\<lparr>w_db := (w_db w)\<lparr>db_jobs :=
          upd (reclaimable (pj_dedupeKey m) (w_now w)) (reclaimed m (w_now w)) (db_jobs (w_db w))\<rparr>\<rparr>)
        else (Inr (Leased (seconds_left (the (jr_leaseExpiresAt r)) (w_now w))), w))"
proof (cases "job_of (pj_dedupeKey m) (w_db w)")
  case None
  then show ?thesis
    using assms by (simp add: claimPaymentJob_def bindA_def date_now_def dbx_quiet insert_job_absent ret_def)
next
  case (Some r)
  let ?now = "w_now w"
  have key: "jr_dedupeKey r = pj_dedupeKey m"
    using Some find_SomeD [of "\<lambda>r. jr_dedupeKey r = pj_dedupeKey m" "db_jobs (w_db w)" r] by (simp add: job_of_def)
  note rc = reclaim_hits [OF assms(2) Some, of ?now]
  show ?thesis
  proof (cases "jr_status r")
    case JobCompleted
    then show ?thesis
      using Some assms by (simp add: claimPaymentJob_def bindA_def date_now_def dbx_quiet dbq_quiet
          insert_job_present ret_def Let_def)
  next
    case JobFailed
    then have "reclaimable (pj_dedupeKey m) ?now r" by (simp add: reclaimable_def key)
    then show ?thesis
      using Some assms JobFailed rc
      by (simp add: claimPaymentJob_def bindA_def date_now_def dbx_quiet dbq_quiet insert_job_present ret_def Let_def
          reclaim_stmt_def plain_def)
  next
    case JobProcessing
    show ?thesis
    proof (cases "case jr_leaseExpiresAt r of None \<Rightarrow> False | Some e \<Rightarrow> ?now < e")
      case True
      then obtain e where e: "jr_leaseExpiresAt r = Some e" "?now < e" by (auto split: option.splits)
      then have "\<not> reclaimable (pj_dedupeKey m) ?now r" using JobProcessing by (simp add: reclaimable_def)
      then show ?thesis
        using Some assms JobProcessing e
        by (simp add: claimPaymentJob_def bindA_def date_now_def dbx_quiet dbq_quiet insert_job_present ret_def Let_def)
    next
      case False
      then have rec: "reclaimable (pj_dedupeKey m) ?now r"
        using JobProcessing key by (auto simp: reclaimable_def split: option.splits)
      then have h: "0 < hits (reclaimable (pj_dedupeKey m) ?now) (db_jobs (w_db w))" using rc by simp
      show ?thesis
        using Some assms JobProcessing rec h False
        by (auto simp: claimPaymentJob_def bindA_def date_now_def dbx_quiet dbq_quiet insert_job_present ret_def Let_def
            reclaim_stmt_def plain_def split: option.splits)
    qed
  qed
qed

definition sample_message :: payment_job_message where
  "sample_message = \<lparr>pj_job = AttemptReconcile, pj_jobId = ''job_2'', pj_dedupeKey = ''key_1'',
     pj_resourceId = ''att_1'', pj_partition = ''p'', pj_attempt = 0, pj_createdAt = ''2025''\<rparr>"

definition jobs_world :: "job_status \<Rightarrow> int option \<Rightarrow> pworld" where
  "jobs_world s lease_until = sample_world\<lparr>w_db := sample_db\<lparr>db_jobs :=
     [(new_job_row sample_message 0)\<lparr>jr_jobId := ''job_1'', jr_status := s, jr_leaseExpiresAt := lease_until\<rparr>]\<rparr>\<rparr>"

lemma jobs_world_simps [simp]: "w_env (jobs_world s l) = []" "jobs_unique (w_db (jobs_world s l))"
    "0 \<le> w_now (jobs_world s l)"
  by (simp_all add: jobs_world_def sample_world_def jobs_unique_def)

lemma claim_job_outcome_witness:
  "fst (claimPaymentJob sample_message (jobs_world JobProcessing (Some 7500))) = Inr (Leased 3)"
proof -
  let ?w = "jobs_world JobProcessing (Some 7500)"
  have row: "job_of (pj_dedupeKey sample_message) (w_db ?w) =
      Some ((new_job_row sample_message 0)\<lparr>jr_jobId := ''job_1'', jr_leaseExpiresAt := Some 7500\<rparr>)"
    by (simp add: jobs_world_def job_of_def new_job_row_def)
  have "w_now ?w = 5000" by (simp add: jobs_world_def sample_world_def)
  then show ?thesis
    using claim_job_outcome [of ?w sample_message] row
    by (simp add: new_job_row_def reclaimable_def seconds_left_def ceil_div_def)
qed

text \<open>
  The end of a run is recorded under the deduplication key alone, whoever reports it.  So a worker that fails
  late takes the job from the worker that has reclaimed it since, or reopens it after its completion: whatever the state of the
  run and the time its lease has left, after a failure is reported the next claim is granted.
\<close>
theorem late_failure_reopens_job:
  assumes "w_env w = []" and "jobs_unique (w_db w)" and "0 \<le> w_now w"
    and "job_of (pj_dedupeKey m) (w_db w) = Some r"
  shows "\<exists>w1 w2. failPaymentJob (pj_dedupeKey m) e w = (Inr (), w1) \<and> claimPaymentJob m w1 = (Inr Claimed, w2)"
proof -
  let ?k = "pj_dedupeKey m"
  define w1 where "w1 = w\<lparr>w_db := (w_db w)\<lparr>db_jobs := upd (\<lambda>r. jr_dedupeKey r = ?k)
    (fail_job (err_message e) (w_now w)) (db_jobs (w_db w))\<rparr>\<rparr>"
  have 1: "failPaymentJob ?k e w = (Inr (), w1)"
    using assms(1) by (simp add: failPaymentJob_def bindA_def date_now_def dbx_quiet fail_stmt_def plain_def ret_def
        Let_def w1_def)
  have key: "jr_dedupeKey r = ?k"
    using assms(4) find_SomeD [of "\<lambda>r. jr_dedupeKey r = ?k" "db_jobs (w_db w)" r] by (simp add: job_of_def)
  have row: "job_of ?k (w_db w1) = Some (fail_job (err_message e) (w_now w) r)"
    using assms(4) key by (simp add: w1_def job_of_def find_upd_key fail_job_def)
  have "jobs_unique (w_db w1)" using assms(2) by (simp add: w1_def jobs_unique_def map_upd fail_job_def)
  then have "\<exists>w2. claimPaymentJob m w1 = (Inr Claimed, w2)"
    using claim_job_outcome [of w1 m] row key assms(1,3)
    by (auto simp: w1_def fail_job_def reclaimable_def)
  with 1 show ?thesis by blast
qed

lemma late_failure_reopens_job_witness:
  "\<exists>w1 w2. failPaymentJob ''key_1'' (Thrown ''late'') (jobs_world JobCompleted None) = (Inr (), w1) \<and>
     claimPaymentJob sample_message w1 = (Inr Claimed, w2)"
proof -
  have k: "''key_1'' = pj_dedupeKey sample_message" by (simp add: sample_message_def)
  have "\<exists>r. job_of (pj_dedupeKey sample_message) (w_db (jobs_world JobCompleted None)) = Some r"
    by (simp add: jobs_world_def job_of_def new_job_row_def)
  then show ?thesis using late_failure_reopens_job [of "jobs_world JobCompleted None" sample_message] k by auto
qed

text \<open>
  C9: the lease of a webhook delivery excludes: after a claim that was granted until \<open>e\<close>, and any claims and
  reports by others before \<open>e\<close>, a further claim of that delivery before \<open>e\<close> is refused.
\<close>
theorem delivery_lease_exclusive:
  assumes "deliveries_keyed d" and "snd (take_delivery () x u now e d)"
    and "\<forall>op \<in> set ops. delivery.yields_to x u e op" and "now' < e"
  shows "\<not> snd (take_delivery () x u' now' e' (fold (delivery.run_op f ts) ops (fst (take_delivery () x u now e d))))"
  using assms by (rule delivery.exclusive)

definition delivery_db :: pdb where
  "delivery_db = empty_db\<lparr>db_deliveries := [delivery_for ''evt_1'' ''ep_1'' 0]\<rparr>"

lemma delivery_lease_exclusive_witness:
  "\<not> snd (take_delivery () ''whd_evt_1_ep_1'' ''b'' 20 60
     (fold (delivery.run_op (\<lambda>r. r) 0) [Free ''whd_evt_1_ep_1'' ''c'']
       (fst (take_delivery () ''whd_evt_1_ep_1'' ''a'' 10 40 delivery_db))))"
  by (rule delivery_lease_exclusive)
    (simp_all add: delivery_db_def empty_db_def deliveries_keyed_def take_delivery_eq delivery_free_def delivery_for_def)

end
