(* ===== verification/Webhooks.thy ===== *)
theory Webhooks
  imports JobStore FeePolicy
begin

text \<open>
  The merchants' API keys, webhook endpoints and event history (\<^verbatim>\<open>repositories/merchant.ts\<close>), with the
  envelope in which webhook secrets are stored and the rotation of its keys.
\<close>

subsection \<open>API keys\<close>

text \<open>\<open>sha256Hex\<close> and \<open>randomSecret\<close> of \<^verbatim>\<open>services/crypto.ts\<close>; a digest is awaited.\<close>

definition sha256Hex :: "viem \<Rightarrow> string \<Rightarrow> string pact" where
  "sha256Hex V s = extcall (\<lambda>t. Some (v_sha256 V s)) ''digest''"

definition randomSecret :: "viem \<Rightarrow> nat \<Rightarrow> string pact" where
  "randomSecret V n = bindA randomUUID (\<lambda>u. ret (drop 2 (v_bytesToHex V (v_randomBytes V u n))))"

definition keys_unique :: "pdb \<Rightarrow> bool" where
  "keys_unique d \<longleftrightarrow> distinct (map ak_id (db_apiKeys d)) \<and> distinct (map ak_keyHash (db_apiKeys d))"

definition insert_key_stmt :: "api_key_row \<Rightarrow> pdb stmt" where
  "insert_key_stmt r = checked (\<lambda>d. keys_unique d \<and> merchant_exists (ak_merchantId r) d)
     (\<lambda>d. (d\<lparr>db_apiKeys := db_apiKeys d @ [r]\<rparr>, 1))"

definition createApiKey :: "viem \<Rightarrow> string \<Rightarrow> mode \<Rightarrow> string \<Rightarrow> (string \<times> api_key_row) pact" where
  "createApiKey V merchantId md name = bindA (randomSecret V 24) (\<lambda>secret.
     let raw = ''sk_'' @ mode_text md @ ''_'' @ secret in
     bindA date_now (\<lambda>ts. bindA randomUUID (\<lambda>u. bindA (sha256Hex V raw) (\<lambda>h.
       let row = \<lparr>ak_id = ''key_'' @ u, ak_merchantId = merchantId, ak_mode = md, ak_prefix = take 16 raw,
           ak_keyHash = h, ak_name = name, ak_lastUsedAt = None, ak_revokedAt = None, ak_createdAt = ts\<rparr>
       in bindA (dbx (insert_key_stmt row)) (\<lambda>_. ret (raw, row))))))"

text \<open>The pattern \<^verbatim>\<open>^sk_(?:test|live)_[0-9a-f]{48}$\<close>.\<close>

definition api_key_ok :: "string \<Rightarrow> bool" where
  "api_key_ok raw \<longleftrightarrow> (startsWith raw ''sk_test_'' \<or> startsWith raw ''sk_live_'') \<and> length raw = 56 \<and>
     list_all is_hex_lower (drop 8 raw)"

definition touch_key_stmt :: "string \<Rightarrow> int \<Rightarrow> pdb stmt" where
  "touch_key_stmt x ts = plain (\<lambda>d. (d\<lparr>db_apiKeys := upd (\<lambda>k. ak_id k = x) (\<lambda>k. k\<lparr>ak_lastUsedAt := Some ts\<rparr>)
     (db_apiKeys d)\<rparr>, hits (\<lambda>k. ak_id k = x) (db_apiKeys d)))"

definition authenticateApiKey :: "viem \<Rightarrow> string \<Rightarrow> (string \<times> mode) option pact" where
  "authenticateApiKey V raw = (if \<not> api_key_ok raw then ret None
     else bindA (sha256Hex V raw) (\<lambda>h.
       bindA (dbq (\<lambda>d. find (\<lambda>k. ak_keyHash k = h \<and> ak_revokedAt k = None) (db_apiKeys d))) (\<lambda>row.
       case row of None \<Rightarrow> ret None
       | Some k \<Rightarrow> bindA date_now (\<lambda>ts. bindA (dbx (touch_key_stmt (ak_id k) ts)) (\<lambda>_.
           ret (Some (ak_merchantId k, ak_mode k)))))))"

definition listApiKeys :: "string \<Rightarrow> api_key_row list pact" where
  "listApiKeys merchantId = dbq (\<lambda>d. newest_first ak_createdAt (filter (\<lambda>k. ak_merchantId k = merchantId) (db_apiKeys d)))"

definition revoke_stmt :: "string \<Rightarrow> string \<Rightarrow> int \<Rightarrow> pdb stmt" where
  "revoke_stmt merchantId x ts = (let p = (\<lambda>k. ak_id k = x \<and> ak_merchantId k = merchantId \<and> ak_revokedAt k = None) in
     plain (\<lambda>d. (d\<lparr>db_apiKeys := upd p (\<lambda>k. k\<lparr>ak_revokedAt := Some ts\<rparr>) (db_apiKeys d)\<rparr>, hits p (db_apiKeys d))))"

definition revokeApiKey :: "string \<Rightarrow> string \<Rightarrow> bool pact" where
  "revokeApiKey merchantId x = bindA date_now (\<lambda>ts. bindA (dbx (revoke_stmt merchantId x ts)) (\<lambda>n. ret (0 < n)))"

subsection \<open>The envelope of webhook secrets\<close>

fun hex_value :: "char \<Rightarrow> nat" where
  "hex_value c = (if is_digit c then ccode c - 48 else if 97 \<le> ccode c then ccode c - 87 else ccode c - 55)"

fun unhex :: "string \<Rightarrow> string" where
  "unhex (a # b # s) = char_of (16 * hex_value a + hex_value b) # unhex s"
| "unhex _ = []"

definition decodedKey :: "viem \<Rightarrow> string \<Rightarrow> string \<Rightarrow> err + string" where
  "decodedKey V encoded label = bindE
     (if length encoded = 64 \<and> list_all is_hex encoded then Inr (unhex encoded)
      else (case v_atob V encoded of None \<Rightarrow> Inl (ExternalError ''atob'') | Some s \<Rightarrow> Inr s))
     (\<lambda>raw. if length raw \<noteq> 32 then Inl (Thrown (label @ '' must be 32 bytes'')) else Inr raw)"

text \<open>The pattern \<^verbatim>\<open>^[A-Za-z0-9_.-]{1,64}$\<close>.\<close>

definition key_id_ok :: "string \<Rightarrow> bool" where
  "key_id_ok s \<longleftrightarrow> 1 \<le> length s \<and> length s \<le> 64 \<and>
     list_all (\<lambda>c. is_alnum c \<or> c = CHR ''_'' \<or> c = CHR ''.'' \<or> c = CHR ''-'') s"

definition currentKeyId :: "bindings \<Rightarrow> err + string" where
  "currentKeyId env = (case e_webhookKeyId env of None \<Rightarrow> Inl (Thrown ''Webhook encryption key ID is invalid'')
     | Some s \<Rightarrow> if key_id_ok (trim s) then Inr (trim s) else Inl (Thrown ''Webhook encryption key ID is invalid''))"

definition previousKeys :: "viem \<Rightarrow> bindings \<Rightarrow> err + (string \<times> string) list" where
  "previousKeys V env = (case e_webhookKeysPrevious env of None \<Rightarrow> Inr []
     | Some t \<Rightarrow> if trim t = [] then Inr [] else (case v_jsonParse V t of
         Some (JObj entries) \<Rightarrow> if 16 < length entries \<or> list_ex (\<lambda>(x, v). \<not> key_id_ok x \<or>
             (case v of JStr s \<Rightarrow> s = [] | _ \<Rightarrow> True)) entries
           then Inl (Thrown ''Previous webhook encryption keyring is invalid'')
           else Inr (List.map_filter (\<lambda>(x, v). case v of JStr s \<Rightarrow> Some (x, s) | _ \<Rightarrow> None) entries)
       | _ \<Rightarrow> Inl (Thrown ''Previous webhook encryption keyring is malformed'')))"

definition encodedKeyFor :: "viem \<Rightarrow> bindings \<Rightarrow> string \<Rightarrow> err + string" where
  "encodedKeyFor V env keyId = bindE (currentKeyId env) (\<lambda>active.
     if keyId = active then (case e_webhookKey env of
         None \<Rightarrow> Inl (Thrown ''Webhook encryption key is not configured'')
       | Some k \<Rightarrow> if k = [] then Inl (Thrown ''Webhook encryption key is not configured'') else Inr k)
     else bindE (previousKeys V env) (\<lambda>ks. case map_of ks keyId of
         None \<Rightarrow> Inl (Thrown (''Webhook encryption key '' @ keyId @ '' is unavailable'')) | Some k \<Rightarrow> Inr k))"

definition encryptionKey :: "viem \<Rightarrow> bindings \<Rightarrow> string \<Rightarrow> err + string" where
  "encryptionKey V env keyId = bindE (encodedKeyFor V env keyId)
     (\<lambda>k. decodedKey V k (''Webhook encryption key '' @ keyId))"

definition webhookAad :: "string \<Rightarrow> string" where
  "webhookAad keyId = ''gatopago-webhook:'' @ keyId"

definition seal :: "viem \<Rightarrow> string \<Rightarrow> string \<Rightarrow> string \<Rightarrow> string \<Rightarrow> string" where
  "seal V keyId key nonce secret = ''enc:v2:'' @ keyId @ '':'' @ v_btoa V nonce @ ''.'' @
     v_btoa V (v_aesEncrypt V key nonce (Some (webhookAad keyId)) secret)"

definition encryptWebhookSecret :: "viem \<Rightarrow> bindings \<Rightarrow> string \<Rightarrow> (string \<times> string) pact" where
  "encryptWebhookSecret V env secret = bindA (liftE (currentKeyId env)) (\<lambda>keyId.
     bindA randomUUID (\<lambda>u. let nonce = v_randomBytes V u 12 in
     bindA (liftE (encryptionKey V env keyId)) (\<lambda>key.
     bindA (extcall (\<lambda>t. Some (seal V keyId key nonce secret)) ''encrypt'') (\<lambda>c. ret (c, keyId)))))"

text \<open>The pattern \<^verbatim>\<open>^enc:v2:([A-Za-z0-9_.-]{1,64}):(.+)$\<close>: the key and the payload of an envelope.\<close>

definition envelope :: "string \<Rightarrow> (string \<times> string) option" where
  "envelope c = (let rest = drop 7 c; x = takeWhile (\<lambda>a. a \<noteq> CHR '':'') rest;
       payload = drop (Suc (length x)) rest
     in if startsWith c ''enc:v2:'' \<and> key_id_ok x \<and> payload \<noteq> [] \<and>
          list_all (\<lambda>a. ccode a \<noteq> 10 \<and> ccode a \<noteq> 13) payload
        then Some (x, payload) else None)"

definition dot_pieces :: "string \<Rightarrow> string \<times> string option" where
  "dot_pieces s = (let first = takeWhile (\<lambda>a. a \<noteq> CHR ''.'') s; rest = dropWhile (\<lambda>a. a \<noteq> CHR ''.'') s
     in (first, if rest = [] then None else Some (takeWhile (\<lambda>a. a \<noteq> CHR ''.'') (tl rest))))"

definition unbase64 :: "viem \<Rightarrow> string \<Rightarrow> err + string" where
  "unbase64 V s = (case v_atob V s of None \<Rightarrow> Inl (ExternalError ''atob'') | Some b \<Rightarrow> Inr b)"

definition unseal :: "viem \<Rightarrow> bindings \<Rightarrow> string \<Rightarrow> string \<Rightarrow> err + string" where
  "unseal V env ciphertext storedKeyId = (let m = envelope ciphertext in
     if (case m of None \<Rightarrow> False | Some (x, p) \<Rightarrow> x \<noteq> storedKeyId)
     then Inl (Thrown ''Webhook ciphertext key ID mismatch'')
     else let payload = (case m of None \<Rightarrow> ciphertext | Some (x, p) \<Rightarrow> p) in
       (case dot_pieces payload of
          (nonce, Some encrypted) \<Rightarrow> if nonce = [] \<or> encrypted = [] then Inl (Thrown ''Invalid webhook ciphertext'')
            else bindE (unbase64 V nonce) (\<lambda>n. bindE (unbase64 V encrypted) (\<lambda>c.
              bindE (encryptionKey V env storedKeyId) (\<lambda>key.
              case v_aesDecrypt V key n (map_option (\<lambda>_. webhookAad storedKeyId) m) c of
                None \<Rightarrow> Inl (ExternalError ''decrypt'') | Some s \<Rightarrow> Inr s)))
        | (nonce, None) \<Rightarrow> Inl (Thrown ''Invalid webhook ciphertext'')))"

definition decryptWebhookSecret :: "viem \<Rightarrow> bindings \<Rightarrow> string \<Rightarrow> string \<Rightarrow> string pact" where
  "decryptWebhookSecret V env ciphertext storedKeyId =
     bindA (extcall (\<lambda>t. Some ()) ''importKey'') (\<lambda>_. liftE (unseal V env ciphertext storedKeyId))"

definition validateWebhookEncryptionConfig :: "viem \<Rightarrow> bindings \<Rightarrow> string list" where
  "validateWebhookEncryptionConfig V env = (case
     bindE (currentKeyId env) (\<lambda>active. bindE (encodedKeyFor V env active) (\<lambda>k.
     bindE (decodedKey V k (''Webhook encryption key '' @ active)) (\<lambda>_. bindE (previousKeys V env) (\<lambda>ks.
     mapE (\<lambda>(x, encoded). if x = active \<and> Some encoded \<noteq> e_webhookKey env
         then Inl (Thrown ''Active webhook key ID conflicts with the previous keyring'')
         else decodedKey V encoded (''Previous webhook encryption key '' @ x)) ks)))) of
       Inr _ \<Rightarrow> [] | Inl e \<Rightarrow> [err_message e])"

subsection \<open>Rotation\<close>

record rotation =
  ro_scanned :: nat
  ro_rotated :: nat
  ro_remaining :: nat

definition rotate_stmt :: "endpoint_row \<Rightarrow> string \<Rightarrow> string \<Rightarrow> int \<Rightarrow> pdb stmt" where
  "rotate_stmt row ciphertext keyId ts = (let p = (\<lambda>e. ep_id e = ep_id row \<and> ep_keyId e = ep_keyId row \<and>
       ep_ciphertext e = ep_ciphertext row) in
     plain (\<lambda>d. (d\<lparr>db_endpoints := upd p (\<lambda>e. e\<lparr>ep_ciphertext := ciphertext, ep_keyId := keyId, ep_updatedAt := ts\<rparr>)
       (db_endpoints d)\<rparr>, hits p (db_endpoints d))))"

fun rotate_rows :: "viem \<Rightarrow> bindings \<Rightarrow> endpoint_row list \<Rightarrow> nat \<Rightarrow> nat pact" where
  "rotate_rows V env [] rotated = ret rotated"
| "rotate_rows V env (row # rows) rotated =
     bindA (decryptWebhookSecret V env (ep_ciphertext row) (ep_keyId row)) (\<lambda>plaintext.
     bindA (encryptWebhookSecret V env plaintext) (\<lambda>(c, keyId). bindA date_now (\<lambda>ts.
     bindA (dbx (rotate_stmt row c keyId ts)) (\<lambda>n.
     rotate_rows V env rows (if 0 < n then Suc rotated else rotated)))))"

definition rotation_due :: "string \<Rightarrow> pdb \<Rightarrow> endpoint_row list" where
  "rotation_due active d = sort_by (\<lambda>a b. if ep_updatedAt a \<noteq> ep_updatedAt b then ep_updatedAt a - ep_updatedAt b
     else text_compare (ep_id a) (ep_id b)) (filter (\<lambda>e. ep_keyId e \<noteq> active) (db_endpoints d))"

definition rotateWebhookEncryptionBatch :: "viem \<Rightarrow> bindings \<Rightarrow> int \<Rightarrow> rotation pact" where
  "rotateWebhookEncryptionBatch V env limit = bindA (liftE (currentKeyId env)) (\<lambda>active.
     if \<not> isSafeInteger limit \<or> limit < 1 \<or> 100 < limit then throw (Thrown ''Invalid webhook rotation batch size'')
     else bindA (dbq (\<lambda>d. take (nat limit) (rotation_due active d))) (\<lambda>rows.
       bindA (rotate_rows V env rows 0) (\<lambda>rotated.
       bindA (dbq (\<lambda>d. length (filter (\<lambda>e. ep_keyId e \<noteq> active) (db_endpoints d)))) (\<lambda>remaining.
       ret \<lparr>ro_scanned = length rows, ro_rotated = rotated, ro_remaining = remaining\<rparr>))))"

subsection \<open>Endpoints, events and deliveries\<close>

definition insert_endpoint_stmt :: "endpoint_row \<Rightarrow> pdb stmt" where
  "insert_endpoint_stmt r = checked (\<lambda>d. distinct (map ep_id (db_endpoints d)) \<and> merchant_exists (ep_merchantId r) d)
     (\<lambda>d. (d\<lparr>db_endpoints := db_endpoints d @ [r]\<rparr>, 1))"

definition createWebhookEndpoint ::
    "viem \<Rightarrow> bindings \<Rightarrow> string \<Rightarrow> string \<Rightarrow> mode \<Rightarrow> string list option \<Rightarrow> (string \<times> endpoint_row) pact" where
  "createWebhookEndpoint V env merchantId url md events = bindA (randomSecret V 32) (\<lambda>s.
     let secret = ''whsec_'' @ s in
     bindA (encryptWebhookSecret V env secret) (\<lambda>(c, keyId). bindA date_now (\<lambda>ts. bindA randomUUID (\<lambda>u.
       let row = \<lparr>ep_id = ''whe_'' @ u, ep_merchantId = merchantId, ep_url = url, ep_ciphertext = c, ep_keyId = keyId,
           ep_mode = md, ep_enabledEvents = events, ep_active = True, ep_createdAt = ts, ep_updatedAt = ts\<rparr>
       in bindA (dbx (insert_endpoint_stmt row)) (\<lambda>_. ret (secret, row))))))"

definition listWebhookEndpoints :: "string \<Rightarrow> endpoint_row list pact" where
  "listWebhookEndpoints merchantId = dbq (\<lambda>d. newest_first ep_createdAt
     (filter (\<lambda>e. ep_merchantId e = merchantId) (db_endpoints d)))"

definition disable_endpoint_stmt :: "string \<Rightarrow> string \<Rightarrow> int \<Rightarrow> pdb stmt" where
  "disable_endpoint_stmt merchantId x ts = (let p = (\<lambda>e. ep_id e = x \<and> ep_merchantId e = merchantId \<and> ep_active e) in
     plain (\<lambda>d. (d\<lparr>db_endpoints := upd p (\<lambda>e. e\<lparr>ep_active := False, ep_updatedAt := ts\<rparr>) (db_endpoints d)\<rparr>,
       hits p (db_endpoints d))))"

definition disableWebhookEndpoint :: "string \<Rightarrow> string \<Rightarrow> bool pact" where
  "disableWebhookEndpoint merchantId x = bindA date_now (\<lambda>ts.
     bindA (dbx (disable_endpoint_stmt merchantId x ts)) (\<lambda>n. ret (0 < n)))"

fun insert_event_desc :: "event_row \<Rightarrow> event_row list \<Rightarrow> event_row list" where
  "insert_event_desc r [] = [r]"
| "insert_event_desc r (x # xs) = (if ev_createdAt x < ev_createdAt r \<or>
       (ev_createdAt x = ev_createdAt r \<and> text_compare (ev_id x) (ev_id r) \<le> 0)
     then r # x # xs else x # insert_event_desc r xs)"

definition event_after :: "string \<Rightarrow> string option \<Rightarrow> event_row list \<Rightarrow> event_row \<Rightarrow> bool" where
  "event_after merchantId cursor rs r = (case cursor of None \<Rightarrow> True
     | Some c \<Rightarrow> if c = [] then True else (case find (\<lambda>x. ev_id x = c \<and> ev_merchantId x = merchantId) rs of
         None \<Rightarrow> False
       | Some x \<Rightarrow> ev_createdAt r < ev_createdAt x \<or>
           (ev_createdAt r = ev_createdAt x \<and> text_compare (ev_id r) c < 0)))"

definition listEvents :: "string \<Rightarrow> nat \<Rightarrow> string option \<Rightarrow> event_row list pact" where
  "listEvents merchantId limit cursor = dbq (\<lambda>d. take limit (foldr insert_event_desc
     (filter (\<lambda>r. ev_merchantId r = merchantId \<and> event_after merchantId cursor (db_events d) r) (db_events d)) []))"

definition listWebhookDeliveries :: "string \<Rightarrow> nat \<Rightarrow> (delivery_row \<times> event_row \<times> endpoint_row) list pact" where
  "listWebhookDeliveries merchantId limit = dbq (\<lambda>d. take limit (newest_first (\<lambda>(r, e, w). wd_createdAt r)
     (List.map_filter (\<lambda>r. case (find (\<lambda>e. ev_id e = wd_eventId r \<and> ev_merchantId e = merchantId) (db_events d),
         find (\<lambda>w. ep_id w = wd_endpointId r) (db_endpoints d)) of
       (Some e, Some w) \<Rightarrow> Some (r, e, w) | _ \<Rightarrow> None) (db_deliveries d))))"

definition resend_stmt :: "string \<Rightarrow> string \<Rightarrow> int \<Rightarrow> pdb stmt" where
  "resend_stmt merchantId x ts = plain (\<lambda>d. let p = (\<lambda>r. wd_id r = x \<and>
       list_ex (\<lambda>e. ev_id e = wd_eventId r \<and> ev_merchantId e = merchantId) (db_events d)) in
     (d\<lparr>db_deliveries := upd p (\<lambda>r. r\<lparr>wd_status := WdPending, wd_nextRetryAt := ts, wd_leaseOwner := None,
        wd_leaseExpiresAt := None, wd_updatedAt := ts\<rparr>) (db_deliveries d)\<rparr>, hits p (db_deliveries d)))"

definition resendWebhookDelivery :: "string \<Rightarrow> string \<Rightarrow> bool pact" where
  "resendWebhookDelivery merchantId x = bindA date_now (\<lambda>ts.
     bindA (dbx (resend_stmt merchantId x ts)) (\<lambda>n. ret (0 < n)))"

subsection \<open>Sealing and unsealing\<close>

text \<open>What the documentation of base64, Web Crypto's AES-GCM and its random source promises.\<close>

definition crypto_ok :: "viem \<Rightarrow> bool" where
  "crypto_ok V \<longleftrightarrow> (\<forall>s. v_atob V (v_btoa V s) = Some s) \<and> (\<forall>s. s \<noteq> [] \<longrightarrow> v_btoa V s \<noteq> []) \<and>
     (\<forall>s. \<forall>c \<in> set (v_btoa V s). c \<noteq> CHR ''.'' \<and> ccode c \<noteq> 10 \<and> ccode c \<noteq> 13) \<and>
     (\<forall>k n a s. v_aesDecrypt V k n a (v_aesEncrypt V k n a s) = Some s) \<and>
     (\<forall>k n a s. v_aesEncrypt V k n a s \<noteq> []) \<and> (\<forall>u. v_randomBytes V u 12 \<noteq> [])"

lemma takeWhile_stop: "(\<And>a. a \<in> set xs \<Longrightarrow> a \<noteq> c) \<Longrightarrow> takeWhile (\<lambda>a. a \<noteq> c) (xs @ c # ys) = xs"
  by (induction xs) auto

lemma dropWhile_stop: "(\<And>a. a \<in> set xs \<Longrightarrow> a \<noteq> c) \<Longrightarrow> dropWhile (\<lambda>a. a \<noteq> c) (xs @ c # ys) = c # ys"
  by (induction xs) auto

lemma takeWhile_all: "(\<And>a. a \<in> set xs \<Longrightarrow> a \<noteq> c) \<Longrightarrow> takeWhile (\<lambda>a. a \<noteq> c) xs = xs"
  by (induction xs) auto

lemma key_id_no_colon: "key_id_ok x \<Longrightarrow> a \<in> set x \<Longrightarrow> a \<noteq> CHR '':''"
  by (auto simp: key_id_ok_def list_all_iff is_alnum_def is_digit_def is_lower_def is_upper_def ccode_def)

lemma envelope_seal:
  assumes "key_id_ok x" and "crypto_ok V" and "nonce \<noteq> []"
  shows "envelope (seal V x key nonce s) =
    Some (x, v_btoa V nonce @ ''.'' @ v_btoa V (v_aesEncrypt V key nonce (Some (webhookAad x)) s))"
proof -
  let ?p = "v_btoa V nonce @ ''.'' @ v_btoa V (v_aesEncrypt V key nonce (Some (webhookAad x)) s)"
  have c: "seal V x key nonce s = ''enc:v2:'' @ x @ '':'' @ ?p" by (simp add: seal_def)
  have x: "takeWhile (\<lambda>a. a \<noteq> CHR '':'') (x @ '':'' @ ?p) = x"
    using takeWhile_stop [of x "CHR '':''" ?p] key_id_no_colon [OF assms(1)] by simp
  have p: "list_all (\<lambda>a. ccode a \<noteq> 10 \<and> ccode a \<noteq> 13) ?p"
    using assms(2) by (auto simp: crypto_ok_def list_all_iff ccode_def)
  have rest: "drop 7 (seal V x key nonce s) = x @ '':'' @ ?p" by (simp add: c)
  have st: "startsWith (seal V x key nonce s) ''enc:v2:''" unfolding c by simp
  have dr: "drop (Suc (length x)) (x @ '':'' @ ?p) = ?p" by simp
  show ?thesis
    unfolding envelope_def Let_def rest x dr using st p assms(1) by simp
qed

lemma unseal_seal:
  assumes "crypto_ok V" and "key_id_ok x" and "encryptionKey V env x = Inr key" and "nonce \<noteq> []"
  shows "unseal V env (seal V x key nonce s) x = Inr s"
proof -
  let ?c = "v_aesEncrypt V key nonce (Some (webhookAad x)) s"
  have nd: "\<And>s a. a \<in> set (v_btoa V s) \<Longrightarrow> a \<noteq> CHR ''.''" using assms(1) by (auto simp: crypto_ok_def)
  have pieces: "dot_pieces (v_btoa V nonce @ ''.'' @ v_btoa V ?c) = (v_btoa V nonce, Some (v_btoa V ?c))"
    using takeWhile_stop [of "v_btoa V nonce" "CHR ''.''" "v_btoa V ?c"] nd [of _ nonce] nd [of _ ?c]
      dropWhile_stop [of "v_btoa V nonce" "CHR ''.''" "v_btoa V ?c"] takeWhile_all [of "v_btoa V ?c" "CHR ''.''"]
    by (simp add: dot_pieces_def)
  have ne: "v_btoa V nonce \<noteq> []" "v_btoa V ?c \<noteq> []" using assms(1,4) by (simp_all add: crypto_ok_def)
  have b: "unbase64 V (v_btoa V t) = Inr t" for t using assms(1) by (simp add: crypto_ok_def unbase64_def)
  have dec: "v_aesDecrypt V key nonce (Some (webhookAad x)) ?c = Some s" using assms(1) by (simp add: crypto_ok_def)
  show ?thesis
    unfolding unseal_def envelope_seal [OF assms(2,1,4)] Let_def option.case prod.case pieces
    using ne assms(3) dec by (simp add: b)
qed

lemma currentKeyId_ok: "currentKeyId env = Inr x \<Longrightarrow> key_id_ok x"
  by (auto simp: currentKeyId_def split: option.splits if_splits)

lemma webhook_secret_opens:
  assumes "crypto_ok V" and "encryptWebhookSecret V env secret w = (Inr (ciphertext, keyId), w')"
  shows "unseal V env ciphertext keyId = Inr secret"
proof -
  from assms(2) obtain x key u where x: "currentKeyId env = Inr x" "encryptionKey V env x = Inr key" "keyId = x"
      "ciphertext = seal V x key (v_randomBytes V u 12) secret"
    by (auto simp: encryptWebhookSecret_def bindA_def liftE_def randomUUID_def extcall_def ret_def Let_def
        split: sum.splits prod.splits)
  show ?thesis
    unfolding x(3,4) using assms(1) unseal_seal [OF assms(1) currentKeyId_ok [OF x(1)] x(2)]
    by (simp add: crypto_ok_def)
qed

text \<open>
  A webhook secret that was encrypted is decrypted again: whatever the world does meanwhile, what
  \<open>encryptWebhookSecret\<close> returns is opened by \<open>decryptWebhookSecret\<close> under the returned key and gives the secret.
\<close>
theorem webhook_secret_roundtrip:
  assumes "crypto_ok V" and "encryptWebhookSecret V env secret w = (Inr (ciphertext, keyId), w')"
  shows "fst (decryptWebhookSecret V env ciphertext keyId w'') = Inr secret"
  using webhook_secret_opens [OF assms] by (simp add: decryptWebhookSecret_def bindA_def extcall_def liftE_def Let_def)

text \<open>A transparent cipher, at which the hypotheses hold.\<close>

definition letter_pair :: "char \<Rightarrow> string" where
  "letter_pair c = [char_of (65 + ccode c div 16), char_of (65 + ccode c mod 16)]"

fun unpair :: "string \<Rightarrow> string" where
  "unpair (a # b # s) = char_of (16 * (ccode a - 65) + (ccode b - 65)) # unpair s"
| "unpair _ = []"

definition plain_crypto :: viem where
  "plain_crypto = sample_viem\<lparr>v_btoa := \<lambda>s. concat (map letter_pair s), v_atob := \<lambda>s. Some (unpair s),
     v_aesEncrypt := \<lambda>k n a s. CHR ''x'' # s, v_aesDecrypt := \<lambda>k n a s. Some (tl s),
     v_randomBytes := \<lambda>u n. ''nonce''\<rparr>"

lemma ccode_char_of: "n < 256 \<Longrightarrow> ccode (char_of n) = n"
  by (simp add: ccode_def)

lemma ccode_less: "ccode c < 256"
  by (simp add: ccode_def)

lemma unpair_pairs: "unpair (concat (map letter_pair s)) = s"
proof (induction s)
  case (Cons c s)
  have "ccode c div 16 < 16" using ccode_less [of c] by simp
  then have a: "ccode (char_of (65 + ccode c div 16) :: char) = 65 + ccode c div 16"
    and b: "ccode (char_of (65 + ccode c mod 16) :: char) = 65 + ccode c mod 16"
    by (auto intro!: ccode_char_of)
  have "char_of (16 * (ccode c div 16) + ccode c mod 16) = c" by (simp add: ccode_def)
  then show ?case using Cons by (simp add: letter_pair_def a b)
qed simp

lemma plain_crypto_ok: "crypto_ok plain_crypto"
proof -
  have "ccode a \<noteq> 46 \<and> ccode a \<noteq> 10 \<and> ccode a \<noteq> 13" if "a \<in> set (letter_pair c)" for a c
  proof -
    have "ccode c div 16 < 16" using ccode_less [of c] by simp
    then have "ccode (char_of (65 + ccode c div 16) :: char) \<ge> 65" "ccode (char_of (65 + ccode c mod 16) :: char) \<ge> 65"
      by (simp_all add: ccode_char_of)
    then show ?thesis using that by (auto simp: letter_pair_def)
  qed
  moreover have "ccode CHR ''.'' = 46" by (simp add: ccode_def)
  ultimately have "a \<noteq> CHR ''.'' \<and> ccode a \<noteq> 10 \<and> ccode a \<noteq> 13" if "a \<in> set (letter_pair c)" for a c
    using that by metis
  then show ?thesis by (auto simp: crypto_ok_def plain_crypto_def unpair_pairs letter_pair_def)
qed

definition webhook_env :: bindings where
  "webhook_env = sample_env\<lparr>e_webhookKeyId := Some ''k2'', e_webhookKey := Some (replicate 64 (CHR ''0''))\<rparr>"

lemma webhook_secret_roundtrip_witness:
  "case encryptWebhookSecret plain_crypto webhook_env ''whsec_1'' sample_world of
     (Inr (ciphertext, keyId), w') \<Rightarrow>
       fst (decryptWebhookSecret plain_crypto webhook_env ciphertext keyId sample_world) = Inr ''whsec_1''
   | (Inl e, w') \<Rightarrow> False"
proof -
  have k: "currentKeyId webhook_env = Inr ''k2''" by code_simp
  have "case encryptionKey plain_crypto webhook_env ''k2'' of Inr key \<Rightarrow> True | Inl e \<Rightarrow> False" by code_simp
  then have e: "\<exists>key. encryptionKey plain_crypto webhook_env ''k2'' = Inr key" by (simp split: sum.splits)
  obtain c x w' where run: "encryptWebhookSecret plain_crypto webhook_env ''whsec_1'' sample_world = (Inr (c, x), w')"
    using k e by (auto simp: encryptWebhookSecret_def bindA_def liftE_def randomUUID_def extcall_def ret_def Let_def)
  show ?thesis using webhook_secret_roundtrip [OF plain_crypto_ok run] by (simp add: run)
qed

subsection \<open>Rotating the keys loses no secret\<close>

text \<open>
  \<open>secrets_kept\<close>: every endpoint whose secret can be read is still there and its secret is read
  to the same text, possibly under another key.
\<close>

definition endpoint_secret :: "viem \<Rightarrow> bindings \<Rightarrow> endpoint_row \<Rightarrow> string option" where
  "endpoint_secret V env e = (case unseal V env (ep_ciphertext e) (ep_keyId e) of Inl _ \<Rightarrow> None | Inr s \<Rightarrow> Some s)"

definition secrets_kept :: "viem \<Rightarrow> bindings \<Rightarrow> pdb \<Rightarrow> pdb \<Rightarrow> bool" where
  "secrets_kept V env d d' \<longleftrightarrow> (\<forall>e \<in> set (db_endpoints d). \<forall>s. endpoint_secret V env e = Some s \<longrightarrow>
     (\<exists>e' \<in> set (db_endpoints d'). ep_id e' = ep_id e \<and> ep_url e' = ep_url e \<and> endpoint_secret V env e' = Some s))"

lemma secrets_kept_refl: "secrets_kept V env d d"
  by (auto simp: secrets_kept_def)

lemma secrets_kept_trans: "secrets_kept V env d1 d2 \<Longrightarrow> secrets_kept V env d2 d3 \<Longrightarrow> secrets_kept V env d1 d3"
  unfolding secrets_kept_def by metis

abbreviation any_db :: "pdb invariant" where
  "any_db \<equiv> \<lambda>g k d. True"

interpretation secrets: rely_guarantee any_db "secrets_kept V env" for V env
  by unfold_locales (auto intro: secrets_kept_refl secrets_kept_trans)

lemma rotate_stmt_kept:
  assumes "\<And>s. endpoint_secret V env row = Some s \<Longrightarrow> unseal V env c x = Inr s"
  shows "secrets.stmt_ok V env (rotate_stmt row c x ts)"
  unfolding secrets.stmt_ok_def
proof (intro allI impI conjI TrueI)
  fix d d' n assume "rotate_stmt row c x ts d = Some (d', n)"
  then have d': "db_endpoints d' = upd (\<lambda>e. ep_id e = ep_id row \<and> ep_keyId e = ep_keyId row \<and> ep_ciphertext e = ep_ciphertext row)
      (\<lambda>e. e\<lparr>ep_ciphertext := c, ep_keyId := x, ep_updatedAt := ts\<rparr>) (db_endpoints d)"
    by (auto simp: rotate_stmt_def plain_def Let_def)
  show "secrets_kept V env d d'"
    unfolding secrets_kept_def
  proof (intro ballI allI impI)
    fix e s assume e: "e \<in> set (db_endpoints d)" and s: "endpoint_secret V env e = Some s"
    let ?e = "if ep_id e = ep_id row \<and> ep_keyId e = ep_keyId row \<and> ep_ciphertext e = ep_ciphertext row
      then e\<lparr>ep_ciphertext := c, ep_keyId := x, ep_updatedAt := ts\<rparr> else e"
    have "endpoint_secret V env ?e = Some s"
      using s assms by (auto simp: endpoint_secret_def)
    moreover have "?e \<in> set (db_endpoints d')" unfolding d' set_upd using e by (rule imageI)
    moreover have "ep_id ?e = ep_id e \<and> ep_url ?e = ep_url e" by simp
    ultimately show "\<exists>e' \<in> set (db_endpoints d'). ep_id e' = ep_id e \<and> ep_url e' = ep_url e \<and> endpoint_secret V env e' = Some s"
      by blast
  qed
qed

lemma guar_encrypt: "guar any_db (secrets_kept V env) (encryptWebhookSecret V env' s)"
  unfolding encryptWebhookSecret_def Let_def
  by (intro secrets.guar_bindA secrets.guar_calm secrets.guar_randomUUID)

lemma decrypt_result: "decryptWebhookSecret V env c x w = (Inr s, w') \<Longrightarrow> unseal V env c x = Inr s"
  by (auto simp: decryptWebhookSecret_def bindA_def extcall_def liftE_def Let_def)

lemma encrypt_result:
  assumes "crypto_ok V" and "encryptWebhookSecret V env s w = (Inr cx, w')"
  shows "unseal V env (fst cx) (snd cx) = Inr s"
  using webhook_secret_opens [OF assms(1), of env s w "fst cx" "snd cx" w'] assms(2) by simp

lemma guar_rotate_rows:
  assumes "crypto_ok V"
  shows "guar any_db (secrets_kept V env) (rotate_rows V env rows n)"
proof (induction rows arbitrary: n)
  case Nil
  show ?case by (simp only: rotate_rows.simps) (rule secrets.guar_calm)
next
  case (Cons row rows)
  show ?case
    unfolding rotate_rows.simps
  proof (rule secrets.guar_bindA_post [where P = "\<lambda>s. unseal V env (ep_ciphertext row) (ep_keyId row) = Inr s"])
    show "guar any_db (secrets_kept V env) (decryptWebhookSecret V env (ep_ciphertext row) (ep_keyId row))"
      unfolding decryptWebhookSecret_def by (intro secrets.guar_bindA secrets.guar_calm)
  next
    fix s assume s: "unseal V env (ep_ciphertext row) (ep_keyId row) = Inr s"
    show "guar any_db (secrets_kept V env) (bindA (encryptWebhookSecret V env s) (\<lambda>(c, keyId). bindA date_now (\<lambda>ts.
        bindA (dbx (rotate_stmt row c keyId ts)) (\<lambda>m. rotate_rows V env rows (if 0 < m then Suc n else n)))))"
    proof (rule secrets.guar_bindA_post [where P = "\<lambda>cx. unseal V env (fst cx) (snd cx) = Inr s"])
      fix cx assume cx: "unseal V env (fst cx) (snd cx) = Inr s"
      then have "secrets.stmt_ok V env (rotate_stmt row (fst cx) (snd cx) ts)" for ts
        using s by (intro rotate_stmt_kept) (simp add: endpoint_secret_def)
      then show "guar any_db (secrets_kept V env) (case cx of (c, keyId) \<Rightarrow> bindA date_now (\<lambda>ts.
          bindA (dbx (rotate_stmt row c keyId ts)) (\<lambda>m. rotate_rows V env rows (if 0 < m then Suc n else n))))"
        by (cases cx) (auto intro!: secrets.guar_bindA secrets.guar_calm secrets.guar_dbx Cons.IH)
    qed (use guar_encrypt encrypt_result [OF assms] in blast)+
  qed (use decrypt_result in blast)
qed

text \<open>
  Rotating the encryption keys loses no secret.  Whatever other requests do between its steps, as long as they
  lose none either, and also when it stops at a secret it cannot read, every endpoint whose
  secret could be read before is still there, with the same address and the same secret.
\<close>
theorem rotation_keeps_secrets:
  assumes "crypto_ok V" and "env_ok any_db (secrets_kept V env) w"
  shows "secrets_kept V env (w_db w) (w_db (snd (rotateWebhookEncryptionBatch V env limit w)))"
proof -
  have "guar any_db (secrets_kept V env) (rotateWebhookEncryptionBatch V env limit)"
    unfolding rotateWebhookEncryptionBatch_def
    by (intro secrets.guar_bindA secrets.guar_calm guar_rotate_rows [OF assms(1)] conjI impI | split if_split)+
  from guarD [OF this _ assms(2)] show ?thesis by (simp add: holds_at_def ends_ok_def)
qed

text \<open>An endpoint sealed under the older key of a keyring, rotated to the active key.\<close>

definition ring_crypto :: viem where
  "ring_crypto = plain_crypto\<lparr>v_jsonParse := \<lambda>s. Some (JObj [(''k1'', JStr (replicate 64 (CHR ''1'')))])\<rparr>"

definition ring_env :: bindings where
  "ring_env = webhook_env\<lparr>e_webhookKeysPrevious := Some ''ring''\<rparr>"

definition old_endpoint :: endpoint_row where
  "old_endpoint = \<lparr>ep_id = ''whe_1'', ep_merchantId = ''mer_1'', ep_url = ''https://m.example/h'',
     ep_ciphertext = seal ring_crypto ''k1'' [] ''nonce'' ''whsec_1'', ep_keyId = ''k1'', ep_mode = Test,
     ep_enabledEvents = None, ep_active = True, ep_createdAt = 0, ep_updatedAt = 0\<rparr>"

definition ring_world :: pworld where
  "ring_world = sample_world\<lparr>w_db := sample_db\<lparr>db_endpoints := [old_endpoint]\<rparr>\<rparr>"

lemma ring_crypto_ok: "crypto_ok ring_crypto"
  using plain_crypto_ok by (simp add: ring_crypto_def crypto_ok_def)

lemma rotation_keeps_secrets_witness:
  "endpoint_secret ring_crypto ring_env old_endpoint = Some ''whsec_1'' \<and>
   secrets_kept ring_crypto ring_env (w_db ring_world)
     (w_db (snd (rotateWebhookEncryptionBatch ring_crypto ring_env 25 ring_world))) \<and>
   map ep_keyId (db_endpoints (w_db (snd (rotateWebhookEncryptionBatch ring_crypto ring_env 25 ring_world)))) = [''k2'']"
proof (intro conjI)
  show "endpoint_secret ring_crypto ring_env old_endpoint = Some ''whsec_1''" by code_simp
  have "w_env ring_world = []" by (simp add: ring_world_def sample_world_def)
  then show "secrets_kept ring_crypto ring_env (w_db ring_world)
      (w_db (snd (rotateWebhookEncryptionBatch ring_crypto ring_env 25 ring_world)))"
    by (intro rotation_keeps_secrets ring_crypto_ok env_ok_quiet)
  show "map ep_keyId (db_endpoints (w_db (snd (rotateWebhookEncryptionBatch ring_crypto ring_env 25 ring_world)))) = [''k2'']"
    by code_simp
qed

subsection \<open>API keys authenticate until they are revoked\<close>

lemma authenticate_quiet:
  assumes "w_env w = []" and "api_key_ok raw"
  shows "fst (authenticateApiKey V raw w) = Inr (map_option (\<lambda>k. (ak_merchantId k, ak_mode k))
    (find (\<lambda>k. ak_keyHash k = v_sha256 V raw \<and> ak_revokedAt k = None) (db_apiKeys (w_db w))))"
  using assms
  by (auto simp: authenticateApiKey_def sha256Hex_def bindA_def extcall_quiet dbq_quiet ret_def date_now_def
      dbx_quiet touch_key_stmt_def plain_def split: option.splits)

lemma find_append_last: "(\<And>x. x \<in> set xs \<Longrightarrow> \<not> P x) \<Longrightarrow> find P (xs @ [y]) = (if P y then Some y else None)"
  by (induction xs) auto

text \<open>
  The life of an API key.  A key that was created authenticates as its merchant in its mode; only
  its own merchant can revoke it; once revoked it authenticates nobody.  (Undisturbed, for random bytes that print as
  48 hexadecimal digits.)
\<close>
theorem api_key_lifecycle:
  assumes "w_env w = []" and "createApiKey V m md name w = (Inr (raw, row), w1)"
    and "length (drop 2 (v_bytesToHex V (v_randomBytes V (w_uuid w (w_ix w)) 24))) = 48"
    and "list_all is_hex_lower (drop 2 (v_bytesToHex V (v_randomBytes V (w_uuid w (w_ix w)) 24)))"
  shows "fst (authenticateApiKey V raw w1) = Inr (Some (m, md)) \<and>
    fst (revokeApiKey m (ak_id row) w1) = Inr True \<and>
    fst (authenticateApiKey V raw (snd (revokeApiKey m (ak_id row) w1))) = Inr None \<and>
    (m' \<noteq> m \<longrightarrow> revokeApiKey m' (ak_id row) w1 = (Inr False, w1))"
proof -
  let ?s = "drop 2 (v_bytesToHex V (v_randomBytes V (w_uuid w (w_ix w)) 24))"
  have raw: "raw = ''sk_'' @ mode_text md @ ''_'' @ ?s" and row: "ak_merchantId row = m" "ak_mode row = md"
      "ak_keyHash row = v_sha256 V raw" "ak_revokedAt row = None"
    and db: "db_apiKeys (w_db w1) = db_apiKeys (w_db w) @ [row]" and u: "keys_unique (w_db w1)" and q: "w_env w1 = []"
    using assms(1,2)
    by (auto simp: createApiKey_def randomSecret_def bindA_def randomUUID_def ret_def date_now_def sha256Hex_def
        extcall_quiet dbx_quiet insert_key_stmt_def checked_def Let_def split: if_splits)
  have ok: "api_key_ok raw"
    using assms(3,4) by (cases md) (simp_all add: raw api_key_ok_def)
  have ids: "\<And>k. k \<in> set (db_apiKeys (w_db w)) \<Longrightarrow> ak_id k \<noteq> ak_id row \<and> ak_keyHash k \<noteq> v_sha256 V raw"
    using u row(3) by (auto simp: keys_unique_def db image_iff)
  have found: "find (\<lambda>k. ak_keyHash k = v_sha256 V raw \<and> ak_revokedAt k = None) (db_apiKeys (w_db w1)) = Some row"
    unfolding db using ids row(3,4) by (subst find_append_last) auto
  let ?p = "\<lambda>m' k. ak_id k = ak_id row \<and> ak_merchantId k = m' \<and> ak_revokedAt k = None"
  have hits: "hits (?p m) (db_apiKeys (w_db w1)) > 0" using row by (auto simp: hits_pos db)
  have none: "m' \<noteq> m \<Longrightarrow> upd (?p m') f (db_apiKeys (w_db w1)) = db_apiKeys (w_db w1) \<and>
      hits (?p m') (db_apiKeys (w_db w1)) = 0" for f
    using ids row(1) by (auto simp: db hits_zero intro!: upd_none)
  let ?w2 = "snd (revokeApiKey m (ak_id row) w1)"
  have w2: "db_apiKeys (w_db ?w2) = upd (?p m) (\<lambda>k. k\<lparr>ak_revokedAt := Some (w_now w1)\<rparr>) (db_apiKeys (w_db w1))"
      "w_env ?w2 = []" "fst (revokeApiKey m (ak_id row) w1) = Inr True"
    using q hits by (auto simp: revokeApiKey_def revoke_stmt_def bindA_def date_now_def dbx_quiet plain_def ret_def Let_def)
  have gone: "find (\<lambda>k. ak_keyHash k = v_sha256 V raw \<and> ak_revokedAt k = None) (db_apiKeys (w_db ?w2)) = None"
    unfolding w2(1) using ids row by (auto simp: find_None_iff set_upd db)
  have other: "m' \<noteq> m \<longrightarrow> revokeApiKey m' (ak_id row) w1 = (Inr False, w1)"
    using q none by (auto simp: revokeApiKey_def revoke_stmt_def bindA_def date_now_def dbx_quiet plain_def ret_def Let_def)
  show ?thesis
    using authenticate_quiet [OF q ok, of V] authenticate_quiet [OF w2(2) ok, of V] found gone w2(3) other row
    by simp
qed

definition hex_crypto :: viem where
  "hex_crypto = sample_viem\<lparr>v_randomBytes := \<lambda>u n. replicate (2 * n) (CHR ''a'')\<rparr>"

lemma api_key_lifecycle_witness:
  "case createApiKey hex_crypto ''mer_1'' Live ''shop'' sample_world of
     (Inr (raw, row), w1) \<Rightarrow> fst (authenticateApiKey hex_crypto raw w1) = Inr (Some (''mer_1'', Live)) \<and>
       fst (authenticateApiKey hex_crypto raw (snd (revokeApiKey ''mer_1'' (ak_id row) w1))) = Inr None
   | (Inl e, w1) \<Rightarrow> False"
proof -
  have q: "w_env sample_world = []" by (simp add: sample_world_def)
  have hex: "length (drop 2 (v_bytesToHex hex_crypto (v_randomBytes hex_crypto (w_uuid sample_world (w_ix sample_world)) 24))) = 48"
    "list_all is_hex_lower (drop 2 (v_bytesToHex hex_crypto (v_randomBytes hex_crypto (w_uuid sample_world (w_ix sample_world)) 24)))"
    by code_simp+
  have "case fst (createApiKey hex_crypto ''mer_1'' Live ''shop'' sample_world) of Inr _ \<Rightarrow> True | Inl _ \<Rightarrow> False"
    by code_simp
  then obtain raw row w1 where run: "createApiKey hex_crypto ''mer_1'' Live ''shop'' sample_world = (Inr (raw, row), w1)"
    by (cases "createApiKey hex_crypto ''mer_1'' Live ''shop'' sample_world") (auto split: sum.splits)
  show ?thesis using api_key_lifecycle [OF q run hex] by (simp add: run)
qed

subsection \<open>Sending a delivery again\<close>

text \<open>
  Sending a delivery again breaks its lease: while a consumer is still delivering the webhook, the merchant's
  request puts it back and the next claim is granted at once, so that two consumers deliver it.
\<close>
theorem resend_breaks_lease:
  assumes "w_env w = []" and "r \<in> set (db_deliveries (w_db w))" and "e \<in> set (db_events (w_db w))"
    and "ev_id e = wd_eventId r" and "ev_merchantId e = m"
  shows "fst (resendWebhookDelivery m (wd_id r) w) = Inr True \<and>
    fst (claimWebhookDelivery (wd_id r) owner until (snd (resendWebhookDelivery m (wd_id r) w))) = Inr True"
proof -
  let ?p = "\<lambda>s. wd_id s = wd_id r \<and> list_ex (\<lambda>e. ev_id e = wd_eventId s \<and> ev_merchantId e = m) (db_events (w_db w))"
  let ?f = "\<lambda>s. s\<lparr>wd_status := WdPending, wd_nextRetryAt := w_now w, wd_leaseOwner := None,
        wd_leaseExpiresAt := None, wd_updatedAt := w_now w\<rparr>"
  have p: "?p r" using assms(3-5) by (auto simp: list_ex_iff)
  let ?w = "snd (resendWebhookDelivery m (wd_id r) w)"
  have run: "fst (resendWebhookDelivery m (wd_id r) w) = Inr True" "w_env ?w = []" "w_now ?w = w_now w"
      "db_deliveries (w_db ?w) = upd ?p ?f (db_deliveries (w_db w))"
    using assms(1,2) p
    by (auto simp: resendWebhookDelivery_def resend_stmt_def bindA_def date_now_def dbx_quiet plain_def ret_def Let_def hits_pos)
  have "?f r \<in> set (db_deliveries (w_db ?w))" unfolding run(4) set_upd using assms(2) p by force
  then have "0 < hits (delivery_free (wd_id r) (w_now ?w)) (db_deliveries (w_db ?w))"
    unfolding hits_pos by (rule bexI [rotated]) (simp add: delivery_free_def)
  then show ?thesis
    using run(1,2) by (simp add: claimWebhookDelivery_def claim_delivery_stmt_def bindA_def date_now_def dbx_quiet
        plain_def ret_def Let_def)
qed

definition leased_delivery :: delivery_row where
  "leased_delivery = (delivery_for ''evt_1'' ''whe_1'' 0)\<lparr>wd_status := WdProcessing, wd_leaseOwner := Some ''u1'',
     wd_leaseExpiresAt := Some 90000\<rparr>"

definition delivered_event :: event_row where
  "delivered_event = \<lparr>ev_id = ''evt_1'', ev_merchantId = ''mer_1'', ev_type = ''payment.paid'', ev_objectId = ''pi_1'',
     ev_dedupeKey = None, ev_mode = Test, ev_payload = JNull, ev_createdAt = 0\<rparr>"

definition resend_world :: pworld where
  "resend_world = sample_world\<lparr>w_db := sample_db\<lparr>db_deliveries := [leased_delivery], db_events := [delivered_event]\<rparr>\<rparr>"

lemma resend_breaks_lease_witness:
  "fst (claimWebhookDelivery (wd_id leased_delivery) ''u2'' 95000 resend_world) = Inr False \<and>
   fst (claimWebhookDelivery (wd_id leased_delivery) ''u2'' 95000
     (snd (resendWebhookDelivery ''mer_1'' (wd_id leased_delivery) resend_world))) = Inr True"
proof -
  have "fst (claimWebhookDelivery (wd_id leased_delivery) ''u2'' 95000 resend_world) = Inr False" by code_simp
  moreover have "leased_delivery \<in> set (db_deliveries (w_db resend_world))" "w_env resend_world = []"
      "delivered_event \<in> set (db_events (w_db resend_world))" "ev_id delivered_event = wd_eventId leased_delivery"
      "ev_merchantId delivered_event = ''mer_1''"
    by (simp_all add: resend_world_def sample_world_def delivered_event_def leased_delivery_def delivery_for_def)
  ultimately show ?thesis using resend_breaks_lease [of resend_world leased_delivery delivered_event] by blast
qed

end
