(* ===== verification/Access.thy ===== *)
theory Access
  imports Webhooks
begin

text \<open>
  What stands before the public routes: the wallet-bound capability of a checkout
  (\<^verbatim>\<open>services/checkoutAccess.ts\<close>), the fixed-window rate limiter
  (\<^verbatim>\<open>stores/rateLimitStore.ts\<close>, \<^verbatim>\<open>middlewares/rateLimit.ts\<close>) and the API key
  (\<^verbatim>\<open>middlewares/apiAuth.ts\<close>).
\<close>

subsection \<open>Requests and responses\<close>

text \<open>The part of a request the handlers read; \<open>rq_body\<close> is \<open>None\<close> when the body is not JSON.\<close>

record http_request =
  rq_id :: string
  rq_connectingIp :: "string option"
  rq_realIp :: "string option"
  rq_authorization :: "string option"
  rq_apiKey :: "string option"
  rq_capability :: "string option"
  rq_idempotencyKey :: "string option"
  rq_body :: "json option"
  rq_user :: "string option"

record http_response =
  hs_status :: int
  hs_body :: json

definition respond :: "int \<Rightarrow> json \<Rightarrow> http_response" where
  "respond status body = \<lparr>hs_status = status, hs_body = body\<rparr>"

definition error_fields :: "http_request \<Rightarrow> string \<Rightarrow> string \<Rightarrow> (string \<times> json) list" where
  "error_fields rq message code = [(''error'', JStr message), (''error_code'', JStr code), (''requestId'', JStr (rq_id rq))]"

definition respond_error :: "http_request \<Rightarrow> int \<Rightarrow> string \<Rightarrow> string \<Rightarrow> http_response" where
  "respond_error rq status message code = respond status (JObj (error_fields rq message code))"

text \<open>\<open>await c.req.json()\<close>, and the properties of the value: reading one of \<open>null\<close> throws.\<close>

definition json_fields :: "json option \<Rightarrow> err + (string \<times> json) list" where
  "json_fields body = (case body of None \<Rightarrow> Inl (ExternalError ''SyntaxError'')
     | Some JNull \<Rightarrow> Inl (ExternalError ''TypeError'') | Some (JObj fs) \<Rightarrow> Inr fs | Some _ \<Rightarrow> Inr [])"

definition read_body :: "http_request \<Rightarrow> (string \<times> json) list pact" where
  "read_body rq = bindA (extcall (\<lambda>t. Some ()) ''json'') (\<lambda>_. liftE (json_fields (rq_body rq)))"

subsection \<open>The capability of a checkout\<close>

definition capability_text_ok :: "string \<Rightarrow> bool" where
  "capability_text_ok s \<longleftrightarrow> length s = 43 \<and> list_all (\<lambda>c. is_alnum c \<or> c = CHR ''_'' \<or> c = CHR ''-'') s"

definition isCheckoutCapability :: "string option \<Rightarrow> bool" where
  "isCheckoutCapability value = (case value of None \<Rightarrow> False | Some s \<Rightarrow> capability_text_ok s)"

definition isCheckoutCapabilityHash :: "json option \<Rightarrow> bool" where
  "isCheckoutCapabilityHash value = (case value of
       Some (JStr s) \<Rightarrow> length s = 66 \<and> startsWith s ''0x'' \<and> list_all is_hex_lower (drop 2 s) | _ \<Rightarrow> False)"

definition isCheckoutProofSignature :: "json option \<Rightarrow> bool" where
  "isCheckoutProofSignature value = (case value of
       Some (JStr s) \<Rightarrow> (length s = 130 \<or> length s = 132) \<and> startsWith (toLowerCase s) ''0x'' \<and> list_all is_hex (drop 2 s)
     | _ \<Rightarrow> False)"

definition hashCheckoutCapability :: "viem \<Rightarrow> string \<Rightarrow> string pact" where
  "hashCheckoutCapability V capability = (if \<not> isCheckoutCapability (Some capability)
     then throw (Thrown ''Invalid checkout capability'') else extcall (\<lambda>t. Some (v_sha256 V capability)) ''digest'')"

definition checkoutPayerProofMessage :: "string \<Rightarrow> payment_quote \<Rightarrow> string \<Rightarrow> string" where
  "checkoutPayerProofMessage linkId q capabilityHash = text_join [char_of (10 :: nat)] [
     ''GatoPago Checkout Authorization'',
     [],
     ''This signature authorizes one checkout attempt. It does not move funds.'',
     ''Version: 1'',
     ''Link: '' @ linkId,
     ''Quote: '' @ q_id q,
     ''Quote hash: '' @ toLowerCase (q_quoteHash q),
     ''Payer: '' @ toLowerCase (q_payer q),
     ''Source chain: '' @ string_of_int (q_sourceChainId q),
     ''Capability hash: '' @ toLowerCase capabilityHash,
     ''Expires at: '' @ toISOString (q_expiresAt q)]"

record payer_proof =
  pp_valid :: bool
  pp_messageHash :: string

definition verifyCheckoutPayerProof :: "viem \<Rightarrow> string \<Rightarrow> string \<Rightarrow> string \<Rightarrow> payer_proof pact" where
  "verifyCheckoutPayerProof V message payer signature = (let messageHash = v_hashMessage V message in
     catchA (bindA (extcall (\<lambda>t. v_recoverMessageAddress V message signature) ''recoverMessageAddress'') (\<lambda>recovered.
         ret \<lparr>pp_valid = (toLowerCase recovered = toLowerCase payer), pp_messageHash = messageHash\<rparr>))
       (\<lambda>_. ret \<lparr>pp_valid = False, pp_messageHash = messageHash\<rparr>))"

subsection \<open>The rate limiter\<close>

definition rate_row_is :: "string \<Rightarrow> string \<Rightarrow> int \<Rightarrow> rate_row \<Rightarrow> bool" where
  "rate_row_is scope keyHash windowStart r \<longleftrightarrow> rl_scope r = scope \<and> rl_keyHash r = keyHash \<and> rl_windowStart r = windowStart"

definition insert_rate_stmt :: "string \<Rightarrow> string \<Rightarrow> int \<Rightarrow> int \<Rightarrow> pdb stmt" where
  "insert_rate_stmt scope keyHash windowStart ts = plain (\<lambda>d.
     if list_ex (rate_row_is scope keyHash windowStart) (db_rates d) then (d, 0)
     else (d\<lparr>db_rates := db_rates d @ [\<lparr>rl_scope = scope, rl_keyHash = keyHash, rl_windowStart = windowStart,
         rl_count = 0, rl_updatedAt = ts\<rparr>]\<rparr>, 1))"

definition count_rate_stmt :: "string \<Rightarrow> string \<Rightarrow> int \<Rightarrow> int \<Rightarrow> pdb stmt" where
  "count_rate_stmt scope keyHash windowStart ts = (let p = rate_row_is scope keyHash windowStart in
     plain (\<lambda>d. (d\<lparr>db_rates := upd p (\<lambda>r. r\<lparr>rl_count := rl_count r + 1, rl_updatedAt := ts\<rparr>) (db_rates d)\<rparr>, hits p (db_rates d))))"

definition rate_count :: "string \<Rightarrow> string \<Rightarrow> int \<Rightarrow> pdb \<Rightarrow> int option" where
  "rate_count scope keyHash windowStart d = map_option rl_count (find (rate_row_is scope keyHash windowStart) (db_rates d))"

definition incrementRateLimit :: "string \<Rightarrow> string \<Rightarrow> int \<Rightarrow> int option pact" where
  "incrementRateLimit scope keyHash windowStart = bindA date_now (\<lambda>ts.
     bindA (dbb [insert_rate_stmt scope keyHash windowStart ts, count_rate_stmt scope keyHash windowStart ts]) (\<lambda>_.
     dbq (rate_count scope keyHash windowStart)))"

definition requestIdentity :: "http_request \<Rightarrow> string" where
  "requestIdentity rq = (case rq_connectingIp rq of Some ip \<Rightarrow> ip
     | None \<Rightarrow> (case rq_realIp rq of Some ip \<Rightarrow> ip | None \<Rightarrow> ''unknown''))"

record rate_rule =
  ru_scope :: string
  ru_key :: string
  ru_limit :: int
  ru_windowSeconds :: int

definition per_minute :: "string \<Rightarrow> string \<Rightarrow> int \<Rightarrow> rate_rule" where
  "per_minute scope key limit = \<lparr>ru_scope = scope, ru_key = key, ru_limit = limit, ru_windowSeconds = 60\<rparr>"

definition window_start :: "rate_rule \<Rightarrow> int \<Rightarrow> int" where
  "window_start ru nowSeconds = nowSeconds div ru_windowSeconds ru * ru_windowSeconds ru"

definition enforceRateLimit :: "viem \<Rightarrow> http_request \<Rightarrow> rate_rule \<Rightarrow> http_response option pact" where
  "enforceRateLimit V rq ru = bindA date_now (\<lambda>nowMs.
     let nowSeconds = floor_sec nowMs; windowStart = window_start ru nowSeconds in
     bindA (sha256Hex V (ru_key ru)) (\<lambda>keyHash.
     bindA (incrementRateLimit (ru_scope ru) keyHash windowStart) (\<lambda>count.
     if (case count of None \<Rightarrow> ru_limit ru + 1 | Some n \<Rightarrow> n) \<le> ru_limit ru then ret None
     else let retryAfter = max 1 (windowStart + ru_windowSeconds ru - nowSeconds) in
       ret (Some (respond 429 (JObj (error_fields rq ''Too many requests'' ''RATE_LIMITED'' @
         [(''retry_after'', JInt retryAfter)])))))))"

subsection \<open>API keys\<close>

definition requireApiKey :: "viem \<Rightarrow> http_request \<Rightarrow> (string \<times> mode \<Rightarrow> http_response pact) \<Rightarrow> http_response pact" where
  "requireApiKey V rq next_handler = (
     let raw = (case rq_authorization rq of
         Some a \<Rightarrow> if startsWith a ''Bearer '' then Some (drop 7 a) else rq_apiKey rq
       | None \<Rightarrow> rq_apiKey rq)
     in bindA (case raw of None \<Rightarrow> ret None | Some k \<Rightarrow> if k = [] then ret None else authenticateApiKey V k) (\<lambda>auth.
        case auth of None \<Rightarrow> ret (respond_error rq 401 ''Invalid API key'' ''UNAUTHENTICATED'')
        | Some merchant \<Rightarrow> next_handler merchant))"

end
