(* ===== verification/Circle.thy ===== *)
theory Circle
  imports Chain
begin

text \<open>
  Circle's API (\<^verbatim>\<open>rails/onchain/circleClient.ts\<close>): the live fee of a CCTP route and the attested
  messages of a burn.  A response is its status and its parsed body; a body that cannot be read is a failed request.
\<close>

subsection \<open>\<open>BigInt\<close> of a text\<close>

definition based_value :: "int \<Rightarrow> string \<Rightarrow> int" where
  "based_value b s = foldl (\<lambda>n c. b * n + (if is_digit c then int (ccode c) - 48
     else if 97 \<le> ccode c then int (ccode c) - 87 else int (ccode c) - 55)) 0 s"

definition digits_below :: "nat \<Rightarrow> string \<Rightarrow> bool" where
  "digits_below b s \<longleftrightarrow> s \<noteq> [] \<and> list_all (\<lambda>c. 48 \<le> ccode c \<and> ccode c < 48 + b) s"

text \<open>Whitespace around the number, a sign before a decimal, the prefixes of other bases; \<open>None\<close> is a \<open>SyntaxError\<close>.\<close>

definition to_BigInt :: "string \<Rightarrow> int option" where
  "to_BigInt text = (let s = trim text in
     if s = [] then Some 0
     else if digits_below 10 s then Some (based_value 10 s)
     else if hd s = CHR ''-'' \<and> digits_below 10 (tl s) then Some (- based_value 10 (tl s))
     else if hd s = CHR ''+'' \<and> digits_below 10 (tl s) then Some (based_value 10 (tl s))
     else let p = toLowerCase (take 2 s); ds = drop 2 s in
       if p = ''0x'' \<and> ds \<noteq> [] \<and> list_all is_hex ds then Some (based_value 16 ds)
       else if p = ''0o'' \<and> digits_below 8 ds then Some (based_value 8 ds)
       else if p = ''0b'' \<and> digits_below 2 ds then Some (based_value 2 ds)
       else None)"

subsection \<open>Fees\<close>

record live_fee =
  lf_minimumFee :: json
  lf_maxFeeAtomic :: int
  lf_observedAt :: int

record live_fee_input =
  lq_sourceDomain :: int
  lq_destinationDomain :: int
  lq_finalityThreshold :: int
  lq_settlementAmountAtomic :: int

text \<open>A fee of the response that fits: a finite number of basis points between 0 and 100.\<close>

definition fee_entry :: "viem \<Rightarrow> int \<Rightarrow> json \<Rightarrow> json option" where
  "fee_entry V threshold candidate = (case candidate of
       JObj fs \<Rightarrow> if jget fs ''finalityThreshold'' = Some (JInt threshold)
         then (case jget fs ''minimumFee'' of
             Some (JInt n) \<Rightarrow> if 0 \<le> n \<and> n \<le> 100 then Some (JInt n) else None
           | Some (JDec s) \<Rightarrow> if v_numberLe100 V s then Some (JDec s) else None
           | _ \<Rightarrow> None)
         else None
     | _ \<Rightarrow> None)"

fun first_fee :: "viem \<Rightarrow> int \<Rightarrow> json list \<Rightarrow> json option" where
  "first_fee V threshold [] = None"
| "first_fee V threshold (c # cs) = (case fee_entry V threshold c of Some f \<Rightarrow> Some f | None \<Rightarrow> first_fee V threshold cs)"

definition hundredths_of_bps :: "viem \<Rightarrow> json \<Rightarrow> int" where
  "hundredths_of_bps V fee = (case fee of JInt n \<Rightarrow> n * 100 | JDec s \<Rightarrow> v_ceilHundredfold V s | _ \<Rightarrow> 0)"

definition fee_denominator :: int where
  "fee_denominator = 1000000"

definition protocol_fee :: "int \<Rightarrow> int \<Rightarrow> int" where
  "protocol_fee amount hundredths = (amount * hundredths + fee_denominator - 1) div fee_denominator"

definition max_fee :: "int \<Rightarrow> int" where
  "max_fee protocolFee = (protocolFee * 120 + 99) div 100"

definition fee_response :: "viem \<Rightarrow> live_fee_input \<Rightarrow> int \<times> json \<Rightarrow> int \<Rightarrow> err + live_fee" where
  "fee_response V inp r now = (case r of (status, payload) \<Rightarrow>
     if status < 200 \<or> 299 < status then Inl (CircleFeeError (''Circle fee API returned '' @ string_of_int status))
     else (case payload of
         JArr cs \<Rightarrow> (case first_fee V (lq_finalityThreshold inp) cs of
             None \<Rightarrow> Inl (CircleFeeError ''Circle did not return the requested finality fee'')
           | Some fee \<Rightarrow> Inr \<lparr>lf_minimumFee = fee,
               lf_maxFeeAtomic = max_fee (protocol_fee (lq_settlementAmountAtomic inp) (hundredths_of_bps V fee)),
               lf_observedAt = now\<rparr>)
       | _ \<Rightarrow> Inl (CircleFeeError ''Circle fee response is malformed'')))"

definition getLiveCctpFee :: "viem \<Rightarrow> services \<Rightarrow> live_fee_input \<Rightarrow> live_fee pact" where
  "getLiveCctpFee V sv inp =
     bindA (extcall (\<lambda>t. sv_circleFees sv (lq_sourceDomain inp) (lq_destinationDomain inp) t) ''fetch'') (\<lambda>r.
     bindA (extcall (\<lambda>t. Some ()) ''body'') (\<lambda>_. bindA date_now (\<lambda>now. liftE (fee_response V inp r now))))"

subsection \<open>Messages\<close>

definition messages_response :: "int \<times> circle_message list option \<Rightarrow> err + circle_message list option" where
  "messages_response r = (case r of (status, payload) \<Rightarrow>
     if status = 404 then Inr None
     else if status < 200 \<or> 299 < status then Inl (Thrown (''Circle messages API returned '' @ string_of_int status))
     else Inr (Some (case payload of None \<Rightarrow> [] | Some ms \<Rightarrow> ms)))"

definition getCctpMessages :: "services \<Rightarrow> int \<Rightarrow> string \<Rightarrow> circle_message list option pact" where
  "getCctpMessages sv sourceDomain txHash =
     bindA (extcall (\<lambda>t. sv_circleMessages sv sourceDomain txHash t) ''fetch'') (\<lambda>r.
     bindA (extcall (\<lambda>t. Some ()) ''body'') (\<lambda>_. liftE (messages_response r)))"

subsection \<open>The quoted maximum covers the live fee\<close>

lemma div_up_bounds:
  fixes a b :: int
  assumes "0 < b"
  shows "a \<le> b * ((a + b - 1) div b) \<and> b * ((a + b - 1) div b) < a + b"
proof -
  have "b * ((a + b - 1) div b) + (a + b - 1) mod b = a + b - 1" by (rule mult_div_mod_eq)
  moreover have "0 \<le> (a + b - 1) mod b \<and> (a + b - 1) mod b < b" using assms by simp
  ultimately show ?thesis by linarith
qed

lemma live_fee_run:
  assumes "w_env w = []"
  shows "getLiveCctpFee V sv inp w = (case sv_circleFees sv (lq_sourceDomain inp) (lq_destinationDomain inp) (w_now w) of
      None \<Rightarrow> (Inl (ExternalError ''fetch''), w) | Some r \<Rightarrow> (fee_response V inp r (w_now w), w))"
  using assms by (simp add: getLiveCctpFee_def bindA_def extcall_quiet liftE_def date_now_def split: option.split)

lemma fee_response_Inr:
  assumes "fee_response V inp r now = Inr f"
  shows "lf_maxFeeAtomic f = max_fee (protocol_fee (lq_settlementAmountAtomic inp) (hundredths_of_bps V (lf_minimumFee f))) \<and>
    lf_observedAt f = now"
proof -
  obtain status payload where r: "r = (status, payload)" by (cases r)
  from assms r obtain cs fee where "payload = JArr cs" "first_fee V (lq_finalityThreshold inp) cs = Some fee"
    by (cases payload) (auto simp: fee_response_def split: if_splits option.splits)
  then show ?thesis using assms r by (auto simp: fee_response_def split: if_splits)
qed


definition fee_services :: services where
  "fee_services = quiet_services\<lparr>sv_circleFees := \<lambda>s d t. Some (200, JArr [JObj [(''finalityThreshold'', JInt 1000),
     (''minimumFee'', JInt 1)]])\<rparr>"

definition fee_request :: live_fee_input where
  "fee_request = \<lparr>lq_sourceDomain = 3, lq_destinationDomain = 6, lq_finalityThreshold = 1000,
     lq_settlementAmountAtomic = 10000000\<rparr>"

definition fee_world :: pworld where
  "fee_world = \<lparr>w_db = empty_db, w_now = 5000, w_env = [], w_uuid = \<lambda>n. [], w_ix = 0, w_sent = []\<rparr>"


end
