(* ===== verification/QuoteEngine.thy ===== *)
theory QuoteEngine
  imports RouterHealth Circle Attempts
begin

text \<open>
  Quotes and signed authorizations (\<^verbatim>\<open>services/quoteEngine.ts\<close>) and the hashes they use
  (\<^verbatim>\<open>services/crypto.ts\<close>).  A \<open>QuoteError\<close> is given by its code.
\<close>

subsection \<open>Hashes\<close>

text \<open>\<open>Object.keys(record).sort()\<close>: the default order of texts, by their UTF-16 code units.\<close>

definition code_unit_order :: "string \<times> 'v \<Rightarrow> string \<times> 'v \<Rightarrow> int" where
  "code_unit_order x y = text_compare (fst x) (fst y)"

definition stableMetadataHash :: "viem \<Rightarrow> json \<Rightarrow> string" where
  "stableMetadataHash V value = (case value of
       JObj fs \<Rightarrow> v_keccak256 V (v_jsonText V (JObj (sort_by code_unit_order fs)))
     | _ \<Rightarrow> v_keccak256 V ''{}'')"

definition uuidHash :: "viem \<Rightarrow> string \<Rightarrow> string" where
  "uuidHash V x = v_keccak256 V x"

subsection \<open>Configuration\<close>

definition enabledChains :: "bindings \<Rightarrow> int list" where
  "enabledChains env = filter isSafeInteger (List.map_filter (\<lambda>v. js_Number (trim v)) (split_comma (e_enabledChainIds env)))"

text \<open>The private key of the authorization signer.\<close>

definition signer :: "bindings \<Rightarrow> err + string" where
  "signer env = (case e_authorizationSignerKey env of None \<Rightarrow> Inl (QuoteError ''SIGNER_UNAVAILABLE'')
     | Some key \<Rightarrow> if private_key_ok key then Inr (prefixed_key key) else Inl (QuoteError ''SIGNER_UNAVAILABLE''))"

definition authorizationWindow :: "bindings \<Rightarrow> payment_intent \<Rightarrow> int \<Rightarrow> int \<Rightarrow> err + int \<times> int" where
  "authorizationWindow env i quoteExpiresAt nowMs = (let now = floor_sec nowMs in
     case e_authorizationTtlSeconds env of None \<Rightarrow> Inl (QuoteError ''INVALID_TTL_CONFIG'')
     | Some ttl \<Rightarrow> if \<not> isSafeInteger ttl \<or> ttl < 60 \<or> 3600 < ttl then Inl (QuoteError ''INVALID_TTL_CONFIG'')
       else let quoted = min (now + ttl) (floor_sec quoteExpiresAt);
                validUntil = (case i_expiresAt i of None \<Rightarrow> quoted | Some e \<Rightarrow> min quoted (floor_sec e))
         in if validUntil \<le> now + 15 then Inl (QuoteError ''INTENT_EXPIRED'') else Inr (now - 15, validUntil))"

subsection \<open>Quotes\<close>

datatype requested_route = RequestFast | RequestStandard | RequestAuto

record quote_input =
  qi_intent :: payment_intent
  qi_payer :: string
  qi_sourceChainId :: int
  qi_requestedRoute :: requested_route

definition choose_route :: "network \<Rightarrow> requested_route \<Rightarrow> err + route" where
  "choose_route source requested = (if n_isHomeChain source then Inr Local
     else (case requested of
         RequestFast \<Rightarrow> if n_cctpFast source then Inr CctpFast else Inl (QuoteError ''ROUTE_UNAVAILABLE'')
       | RequestStandard \<Rightarrow> if n_cctpStandard source then Inr CctpStandard else Inl (QuoteError ''ROUTE_UNAVAILABLE'')
       | RequestAuto \<Rightarrow> Inr (if n_cctpFast source then CctpFast else CctpStandard)))"

text \<open>The checks before the first wait: the two networks, the route, its cap and the platform fee.\<close>

record quote_terms =
  qt_source :: network
  qt_settlement :: network
  qt_route :: route
  qt_fee :: resolved_fee

definition quote_terms_of :: "viem \<Rightarrow> bindings \<Rightarrow> quote_input \<Rightarrow> int \<Rightarrow> err + quote_terms" where
  "quote_terms_of V env inp now = (let i = qi_intent inp in
     if qi_sourceChainId inp \<notin> set (enabledChains env) then Inl (QuoteError ''CHAIN_DISABLED'')
     else (case (getPaymentNetworkCapabilities (qi_sourceChainId inp), getPaymentNetworkCapabilities (i_settlementChainId i)) of
       (Some source, Some settlement) \<Rightarrow>
         if \<not> n_paymentSource source \<or> \<not> n_paymentSource settlement then Inl (QuoteError ''CHAIN_DISABLED'')
         else if n_settlementChainId source \<noteq> i_settlementChainId i then Inl (QuoteError ''ROUTE_UNAVAILABLE'')
         else if i_status i \<noteq> AwaitingPayment then Inl (QuoteError ''INTENT_NOT_PAYABLE'')
         else if (case i_expiresAt i of None \<Rightarrow> False | Some e \<Rightarrow> e \<le> now) then Inl (QuoteError ''INTENT_EXPIRED'')
         else bindE (choose_route source (qi_requestedRoute inp)) (\<lambda>route.
           case (if route = Local then n_localPaymentMaxPlatformFeeBps source else n_cctpPaymentMaxPlatformFeeBps source) of
             None \<Rightarrow> Inl (QuoteError ''ROUTE_UNAVAILABLE'')
           | Some cap \<Rightarrow>
               (case resolvePaymentFee V env \<lparr>fi_intent = i, fi_sourceChainId = qi_sourceChainId inp, fi_route = route\<rparr> cap of
                  Inl (FeePolicyError code) \<Rightarrow> Inl (QuoteError code)
                | Inl e \<Rightarrow> Inl e
                | Inr fee \<Rightarrow> Inr \<lparr>qt_source = source, qt_settlement = settlement, qt_route = route, qt_fee = fee\<rparr>))
     | _ \<Rightarrow> Inl (QuoteError ''CHAIN_DISABLED'')))"

definition finality_threshold :: "route \<Rightarrow> int" where
  "finality_threshold route = (if route = CctpFast then 1000 else 2000)"

definition quote_json :: "quote_input \<Rightarrow> quote_terms \<Rightarrow> string \<Rightarrow> int \<Rightarrow> int \<Rightarrow> json" where
  "quote_json inp t quoteId cctpFee expiresAt = (let f = rf_snapshot (qt_fee t) in
     JObj [(''id'', JStr quoteId), (''intentId'', JStr (i_id (qi_intent inp))), (''payer'', JStr (qi_payer inp)),
       (''sourceChainId'', JInt (qi_sourceChainId inp)), (''route'', JStr (route_text (qt_route t))),
       (''settlementAmount'', JStr (string_of_int (i_amountAtomic (qi_intent inp)))),
       (''platformFee'', JStr (string_of_int (rf_platformFeeAtomic (qt_fee t)))),
       (''cctpFee'', JStr (string_of_int cctpFee)), (''feePolicyId'', JStr (f_policyId f)),
       (''feePolicyVersion'', JInt (f_policyVersion f)), (''feeRuleId'', JStr (f_ruleId f)),
       (''feeBps'', JInt (f_platformFeeBps f)),
       (''feeRecipient'', (case f_platformFeeRecipient f of None \<Rightarrow> JNull | Some a \<Rightarrow> JStr a)),
       (''routeFeeCapBps'', JInt (f_routeFeeCapBps f)), (''expiresAt'', JStr (toISOString expiresAt))])"

definition quote_of ::
    "viem \<Rightarrow> quote_input \<Rightarrow> quote_terms \<Rightarrow> int \<Rightarrow> int \<Rightarrow> fee_source \<Rightarrow> string \<Rightarrow> int \<Rightarrow> payment_quote" where
  "quote_of V inp t cctpFee feeObservedAt source uuid now = (
     let quoteId = ''qt_'' @ uuid; platformFee = rf_platformFeeAtomic (qt_fee t); amount = i_amountAtomic (qi_intent inp);
         expiresAt = now + 120000
     in \<lparr>q_id = quoteId, q_intentId = i_id (qi_intent inp), q_payer = qi_payer inp,
         q_sourceChainId = qi_sourceChainId inp, q_route = qt_route t, q_settlementAmountAtomic = amount,
         q_platformFeeAtomic = platformFee, q_cctpFeeAtomic = cctpFee,
         q_grossPayerAmountAtomic = amount + platformFee + cctpFee, q_fee = rf_snapshot (qt_fee t),
         q_feeSource = source, q_feeObservedAt = feeObservedAt, q_expiresAt = expiresAt,
         q_quoteHash = v_keccak256 V (v_jsonText V (quote_json inp t quoteId cctpFee expiresAt)), q_createdAt = now\<rparr>)"

definition live_quote_fee :: "viem \<Rightarrow> services \<Rightarrow> quote_input \<Rightarrow> quote_terms \<Rightarrow> live_fee pact" where
  "live_quote_fee V sv inp t = catchA
     (getLiveCctpFee V sv \<lparr>lq_sourceDomain = n_cctpDomain (qt_source t), lq_destinationDomain = n_cctpDomain (qt_settlement t),
        lq_finalityThreshold = finality_threshold (qt_route t), lq_settlementAmountAtomic = i_amountAtomic (qi_intent inp)\<rparr>)
     (\<lambda>e. throw (QuoteError ''FEE_UNAVAILABLE''))"

definition buildQuote :: "viem \<Rightarrow> services \<Rightarrow> bindings \<Rightarrow> quote_input \<Rightarrow> payment_quote pact" where
  "buildQuote V sv env inp = bindA date_now (\<lambda>start.
     bindA (liftE (quote_terms_of V env inp start)) (\<lambda>t.
     bindA (if qt_route t = Local then ret (0, start, FeeLocal)
        else bindA (live_quote_fee V sv inp t) (\<lambda>live. ret (lf_maxFeeAtomic live, lf_observedAt live, FeeCircleLive)))
       (\<lambda>(cctpFee, feeObservedAt, source).
     bindA randomUUID (\<lambda>uuid. bindA date_now (\<lambda>now.
     ret (quote_of V inp t cctpFee feeObservedAt source uuid now))))))"

subsection \<open>Authorizations\<close>

record authorize_input =
  ai_intent :: payment_intent
  ai_quote :: payment_quote
  ai_payerUid :: "string option"

text \<open>The router of the quote's route and the typed data it verifies.\<close>

definition authorization_of ::
    "viem \<Rightarrow> network \<Rightarrow> authorize_input \<Rightarrow> string \<Rightarrow> int \<times> int \<Rightarrow> err + string \<times> authorization" where
  "authorization_of V source inp attemptId window = (
     let i = ai_intent inp; q = ai_quote inp; attemptHash = uuidHash V attemptId; intentHash = uuidHash V (i_id i);
         metadataHash = stableMetadataHash V (i_metadata i)
     in if q_route q = Local
        then (case n_localPaymentRouter source of
            None \<Rightarrow> Inl (QuoteError ''ROUTE_UNAVAILABLE'')
          | Some router \<Rightarrow> if router = [] then Inl (QuoteError ''ROUTE_UNAVAILABLE'') else
              Inr (router, PaymentAuthorization intentHash attemptHash (q_payer q) (i_settlementWallet i)
                (q_settlementAmountAtomic q) (q_platformFeeAtomic q) (fst window) (snd window) metadataHash))
        else (case n_cctpPaymentRouter source of
            None \<Rightarrow> Inl (QuoteError ''ROUTE_UNAVAILABLE'')
          | Some router \<Rightarrow> if router = [] then Inl (QuoteError ''ROUTE_UNAVAILABLE'') else
              (case getPaymentNetworkCapabilities (i_settlementChainId i) of
                 None \<Rightarrow> Inl (QuoteError ''CHAIN_DISABLED'')
               | Some settlement \<Rightarrow> if \<not> n_paymentSource settlement then Inl (QuoteError ''CHAIN_DISABLED'') else
                   Inr (router, CctpPaymentAuthorization intentHash attemptHash (q_payer q) (i_settlementWallet i)
                     (i_settlementChainId i) (n_cctpDomain settlement) (q_settlementAmountAtomic q)
                     (q_grossPayerAmountAtomic q) (q_platformFeeAtomic q) (q_cctpFeeAtomic q)
                     (finality_threshold (q_route q)) (fst window) (snd window) metadataHash))))"

definition attempt_of ::
    "viem \<Rightarrow> network \<Rightarrow> authorize_input \<Rightarrow> string \<Rightarrow> int \<times> int \<Rightarrow> string \<Rightarrow> authorization \<Rightarrow> string \<Rightarrow> int \<Rightarrow> payment_attempt" where
  "attempt_of V source inp attemptId window router authorization signature now = (let q = ai_quote inp in
     \<lparr>a_id = attemptId, a_attemptHash = uuidHash V attemptId, a_intentId = i_id (ai_intent inp), a_quoteId = q_id q,
      a_payerUid = ai_payerUid inp, a_payerAddress = q_payer q, a_sourceChainId = n_chainId source,
      a_route = q_route q, a_status = Reserved, a_routerAddress = router,
      a_authorizationHash = v_hashAuthorization V (n_chainId source) router authorization,
      a_authorization = authorization, a_signature = signature, a_checkoutCapabilityHash = None,
      a_payerProofSignature = None, a_payerProofMessageHash = None, a_validAfter = fst window, a_validUntil = snd window,
      a_userOpHash = None, a_sourceTxHash = None, a_destinationTxHash = None,
      a_settlementAmountAtomic = q_settlementAmountAtomic q, a_platformFeeAtomic = q_platformFeeAtomic q,
      a_cctpFeeAtomic = q_cctpFeeAtomic q, a_grossPayerAmountAtomic = q_grossPayerAmountAtomic q, a_fee = q_fee q,
      a_settledAmountAtomic = 0, a_createdAt = now, a_updatedAt = now, a_expiresAt = snd window * 1000\<rparr>)"

definition authorizeAttempt ::
    "viem \<Rightarrow> services \<Rightarrow> bindings \<Rightarrow> authorize_input \<Rightarrow> payment_attempt pact" where
  "authorizeAttempt V sv env inp = (let q = ai_quote inp in bindA date_now (\<lambda>start.
     if q_expiresAt q \<le> start then throw (QuoteError ''QUOTE_STALE'')
     else (case getPaymentNetworkCapabilities (q_sourceChainId q) of
       None \<Rightarrow> throw (QuoteError ''CHAIN_DISABLED'')
     | Some source \<Rightarrow> if \<not> n_paymentSource source then throw (QuoteError ''CHAIN_DISABLED'') else
       bindA randomUUID (\<lambda>uuid. let attemptId = ''pa_'' @ uuid in
       bindA (liftE (authorizationWindow env (ai_intent inp) (q_expiresAt q) start)) (\<lambda>window.
       bindA (liftE (signer env)) (\<lambda>key.
       bindA (catchA (assertPaymentRouterReadyForAuthorization V sv env
             \<lparr>gi_chainId = n_chainId source, gi_route = q_route q, gi_platformFeeBps = f_platformFeeBps (q_fee q),
              gi_platformFeeRecipient = f_platformFeeRecipient (q_fee q)\<rparr> None)
           (\<lambda>e. case e of PreflightError issues \<Rightarrow> throw (QuoteError ''ROUTER_PREFLIGHT_FAILED'') | _ \<Rightarrow> throw e)) (\<lambda>_.
       bindA (liftE (authorization_of V source inp attemptId window)) (\<lambda>(router, authorization).
       bindA (extcall (\<lambda>t. Some (v_signAuthorization V key (n_chainId source) router authorization)) ''signTypedData'') (\<lambda>signature.
       bindA date_now (\<lambda>now.
       ret (attempt_of V source inp attemptId window router authorization signature now)))))))))))"

end
