(* ===== verification/Crosschain.thy ===== *)
theory Crosschain
  imports Chain Guarantees
begin

text \<open>
  The cross-chain operations of CCTP payments and the relayer's mint transactions: the middle of
  \<^verbatim>\<open>repositories/payments.ts\<close>.  An operation remembers the burn on the source chain, Circle's attestation and at most one
  prepared mint transaction at a time.
\<close>

record burn_input =
  bu_attemptId :: string
  bu_sourceChainId :: int
  bu_destinationChainId :: int
  bu_route :: route
  bu_sourceTxHash :: string
  bu_messageHash :: string
  bu_message :: "string option"
  bu_burnAmountAtomic :: int
  bu_platformFeeAtomic :: int

definition cctp_unique :: "pdb \<Rightarrow> bool" where
  "cctp_unique d \<longleftrightarrow> distinct (map cc_opId (db_cctp d)) \<and> distinct (map cc_attemptId (db_cctp d))"

definition new_operation :: "burn_input \<Rightarrow> int \<Rightarrow> cctp_row" where
  "new_operation inp ts = \<lparr>cc_opId = ''cctp_'' @ bu_attemptId inp, cc_attemptId = bu_attemptId inp,
     cc_sourceChainId = bu_sourceChainId inp, cc_destinationChainId = bu_destinationChainId inp,
     cc_route = bu_route inp, cc_status = Burned, cc_sourceTxHash = Some (toLowerCase (bu_sourceTxHash inp)),
     cc_messageHash = Some (toLowerCase (bu_messageHash inp)), cc_message = bu_message inp, cc_attestation = None,
     cc_burnAmountAtomic = Some (bu_burnAmountAtomic inp), cc_platformFeeAtomic = Some (bu_platformFeeAtomic inp),
     cc_networkFeeAtomic = None, cc_destinationTxHash = None, cc_messageNonce = None, cc_mintedAmountAtomic = None,
     cc_mintRawTransaction = None, cc_mintSignerAddress = None, cc_mintNonce = None, cc_mintBroadcastAt = None,
     cc_attemptCount = 0, cc_lastErrorCode = None, cc_nextAttemptAt = Some ts, cc_createdAt = ts, cc_updatedAt = ts\<rparr>"

definition merge_operation :: "cctp_row \<Rightarrow> cctp_row \<Rightarrow> cctp_row" where
  "merge_operation new old = old\<lparr>cc_sourceTxHash := coalesce (cc_sourceTxHash old) (cc_sourceTxHash new),
     cc_messageHash := coalesce (cc_messageHash old) (cc_messageHash new),
     cc_message := coalesce (cc_message old) (cc_message new),
     cc_burnAmountAtomic := coalesce (cc_burnAmountAtomic old) (cc_burnAmountAtomic new),
     cc_platformFeeAtomic := coalesce (cc_platformFeeAtomic old) (cc_platformFeeAtomic new),
     cc_status := (if cc_status old = AwaitingBurn then Burned else cc_status old),
     cc_updatedAt := cc_updatedAt new\<rparr>"

definition upsert_operation_stmt :: "cctp_row \<Rightarrow> pdb stmt" where
  "upsert_operation_stmt r = (let p = (\<lambda>c. cc_attemptId c = cc_attemptId r) in
     checked (\<lambda>d. cctp_unique d \<and> attempt_exists (cc_attemptId r) d)
       (\<lambda>d. (d\<lparr>db_cctp := (if list_ex p (db_cctp d) then upd p (merge_operation r) (db_cctp d) else db_cctp d @ [r])\<rparr>, 1)))"

definition upsertCrosschainOperation :: "burn_input \<Rightarrow> string pact" where
  "upsertCrosschainOperation inp = bindA date_now (\<lambda>ts.
     bindA (dbx (upsert_operation_stmt (new_operation inp ts))) (\<lambda>_. ret (''cctp_'' @ bu_attemptId inp)))"

definition getCrosschainOperation :: "string \<Rightarrow> cctp_row pact" where
  "getCrosschainOperation x = bindA (dbq (\<lambda>d. find (\<lambda>c. cc_opId c = x \<or> cc_attemptId c = x) (db_cctp d))) (\<lambda>row.
     case row of None \<Rightarrow> throw (Thrown ''Crosschain operation not found'') | Some c \<Rightarrow> ret c)"

record operation_update =
  up_status :: cctp_status
  up_message :: "string option"
  up_attestation :: "string option"
  up_destinationTxHash :: "string option"
  up_networkFeeAtomic :: "int option"
  up_messageNonce :: "string option"
  up_mintedAmountAtomic :: "int option"
  up_lastErrorCode :: "string option"

definition status_update :: "cctp_status \<Rightarrow> operation_update" where
  "status_update s = \<lparr>up_status = s, up_message = None, up_attestation = None, up_destinationTxHash = None,
     up_networkFeeAtomic = None, up_messageNonce = None, up_mintedAmountAtomic = None, up_lastErrorCode = None\<rparr>"

definition update_operation :: "operation_update \<Rightarrow> int \<Rightarrow> cctp_row \<Rightarrow> cctp_row" where
  "update_operation f ts c = c\<lparr>cc_status := up_status f, cc_message := coalesce (up_message f) (cc_message c),
     cc_attestation := coalesce (up_attestation f) (cc_attestation c),
     cc_destinationTxHash := coalesce (up_destinationTxHash f) (cc_destinationTxHash c),
     cc_networkFeeAtomic := coalesce (up_networkFeeAtomic f) (cc_networkFeeAtomic c),
     cc_messageNonce := coalesce (up_messageNonce f) (cc_messageNonce c),
     cc_mintedAmountAtomic := coalesce (up_mintedAmountAtomic f) (cc_mintedAmountAtomic c),
     cc_lastErrorCode := up_lastErrorCode f, cc_nextAttemptAt := Some (ts + 30000), cc_updatedAt := ts\<rparr>"

definition update_operation_stmt :: "string \<Rightarrow> operation_update \<Rightarrow> int \<Rightarrow> pdb stmt" where
  "update_operation_stmt x f ts = plain (\<lambda>d. (d\<lparr>db_cctp := upd (\<lambda>c. cc_opId c = x) (update_operation f ts) (db_cctp d)\<rparr>,
     hits (\<lambda>c. cc_opId c = x) (db_cctp d)))"

definition updateCrosschainOperation :: "string \<Rightarrow> operation_update \<Rightarrow> unit pact" where
  "updateCrosschainOperation x f = bindA date_now (\<lambda>ts. bindA (dbx (update_operation_stmt x f ts)) (\<lambda>_. ret ()))"

subsection \<open>Mint transactions\<close>

definition mints_unique :: "pdb \<Rightarrow> bool" where
  "mints_unique d \<longleftrightarrow> distinct (map ma_id (db_mints d)) \<and> distinct (map ma_txHash (db_mints d))"

definition operation_exists :: "string \<Rightarrow> pdb \<Rightarrow> bool" where
  "operation_exists x d \<longleftrightarrow> list_ex (\<lambda>c. cc_opId c = x) (db_cctp d)"

definition mint_nonces_ok :: "pdb \<Rightarrow> bool" where
  "mint_nonces_ok d \<longleftrightarrow> list_all (\<lambda>c. case cc_mintNonce c of None \<Rightarrow> True | Some n \<Rightarrow> 0 \<le> n) (db_cctp d)"

text \<open>The identifier of a mint attempt: a UUID without its dashes.\<close>

definition mint_id :: "string \<Rightarrow> string" where
  "mint_id u = ''cma_'' @ filter (\<lambda>c. c \<noteq> CHR ''-'') u"

record prepared_mint =
  pm_opId :: string
  pm_txHash :: string
  pm_rawTransaction :: string
  pm_signerAddress :: string
  pm_nonce :: int

definition mintable :: "string \<Rightarrow> cctp_row \<Rightarrow> bool" where
  "mintable x c \<longleftrightarrow> cc_opId c = x \<and> cc_status c = Minting \<and> cc_destinationTxHash c = None"

definition prepare_operation :: "prepared_mint \<Rightarrow> int \<Rightarrow> cctp_row \<Rightarrow> cctp_row" where
  "prepare_operation m ts c = c\<lparr>cc_destinationTxHash := Some (toLowerCase (pm_txHash m)),
     cc_mintRawTransaction := Some (pm_rawTransaction m),
     cc_mintSignerAddress := Some (toLowerCase (pm_signerAddress m)), cc_mintNonce := Some (pm_nonce m),
     cc_attemptCount := cc_attemptCount c + 1, cc_lastErrorCode := None, cc_updatedAt := ts\<rparr>"

definition prepare_stmt :: "prepared_mint \<Rightarrow> int \<Rightarrow> pdb stmt" where
  "prepare_stmt m ts = (let p = mintable (pm_opId m) in
     checked mint_nonces_ok (\<lambda>d. (d\<lparr>db_cctp := upd p (prepare_operation m ts) (db_cctp d)\<rparr>, hits p (db_cctp d))))"

definition insert_mint_stmt :: "mint_row \<Rightarrow> pdb stmt" where
  "insert_mint_stmt r d = (if list_ex (\<lambda>c. cc_opId c = ma_opId r \<and> cc_destinationTxHash c = Some (ma_txHash r)) (db_cctp d)
     then or_ignore mints_unique (operation_exists (ma_opId r)) (\<lambda>d. (d\<lparr>db_mints := db_mints d @ [r]\<rparr>, 1)) d
     else Some (d, 0))"

definition prepare_batch :: "prepared_mint \<Rightarrow> string \<Rightarrow> int \<Rightarrow> pdb stmt list" where
  "prepare_batch m u ts = [prepare_stmt m ts,
     insert_mint_stmt \<lparr>ma_id = mint_id u, ma_opId = pm_opId m, ma_txHash = toLowerCase (pm_txHash m),
       ma_status = MintPrepared, ma_createdAt = ts, ma_updatedAt = ts\<rparr>]"

definition recordCrosschainMintPrepared :: "prepared_mint \<Rightarrow> bool pact" where
  "recordCrosschainMintPrepared m = bindA date_now (\<lambda>ts. bindA randomUUID (\<lambda>u.
     bindA (dbb (prepare_batch m u ts)) (\<lambda>ns. ret (0 < hd ns))))"

definition set_mint_stmt :: "string \<Rightarrow> string \<Rightarrow> mint_status \<Rightarrow> int \<Rightarrow> pdb stmt" where
  "set_mint_stmt x tx s ts = (let p = (\<lambda>m. ma_opId m = x \<and> ma_txHash m = tx) in
     plain (\<lambda>d. (d\<lparr>db_mints := upd p (\<lambda>m. m\<lparr>ma_status := s, ma_updatedAt := ts\<rparr>) (db_mints d)\<rparr>, hits p (db_mints d))))"

definition broadcast_operation :: "int \<Rightarrow> cctp_row \<Rightarrow> cctp_row" where
  "broadcast_operation ts c = c\<lparr>cc_mintBroadcastAt := coalesce (cc_mintBroadcastAt c) (Some ts), cc_updatedAt := ts\<rparr>"

definition minting_with :: "string \<Rightarrow> string \<Rightarrow> cctp_row \<Rightarrow> bool" where
  "minting_with x tx c \<longleftrightarrow> cc_opId c = x \<and> cc_destinationTxHash c = Some tx \<and> cc_status c = Minting"

definition broadcast_batch :: "string \<Rightarrow> string \<Rightarrow> int \<Rightarrow> pdb stmt list" where
  "broadcast_batch x tx ts = [plain (\<lambda>d. (d\<lparr>db_cctp := upd (minting_with x tx) (broadcast_operation ts) (db_cctp d)\<rparr>,
       hits (minting_with x tx) (db_cctp d))),
     set_mint_stmt x tx MintBroadcast ts]"

definition recordCrosschainMintBroadcast :: "string \<Rightarrow> string \<Rightarrow> unit pact" where
  "recordCrosschainMintBroadcast x txHash = bindA date_now (\<lambda>ts.
     bindA (dbb (broadcast_batch x (toLowerCase txHash) ts)) (\<lambda>_. ret ()))"

definition upsert_mint_stmt :: "mint_row \<Rightarrow> pdb stmt" where
  "upsert_mint_stmt r = (let p = (\<lambda>m. ma_txHash m = ma_txHash r) in
     checked (\<lambda>d. mints_unique d \<and> operation_exists (ma_opId r) d)
       (\<lambda>d. (d\<lparr>db_mints := (if list_ex p (db_mints d)
          then upd p (\<lambda>m. m\<lparr>ma_status := ma_status r, ma_updatedAt := ma_updatedAt r\<rparr>) (db_mints d)
          else db_mints d @ [r])\<rparr>, 1)))"

definition recordCrosschainMintResult :: "string \<Rightarrow> string \<Rightarrow> mint_status \<Rightarrow> unit pact" where
  "recordCrosschainMintResult x txHash s = bindA date_now (\<lambda>ts. bindA randomUUID (\<lambda>u.
     bindA (dbx (upsert_mint_stmt \<lparr>ma_id = mint_id u, ma_opId = x, ma_txHash = toLowerCase txHash, ma_status = s,
       ma_createdAt = ts, ma_updatedAt = ts\<rparr>)) (\<lambda>_. ret ())))"

definition clear_operation :: "int \<Rightarrow> cctp_row \<Rightarrow> cctp_row" where
  "clear_operation ts c = c\<lparr>cc_destinationTxHash := None, cc_mintRawTransaction := None, cc_mintSignerAddress := None,
     cc_mintNonce := None, cc_mintBroadcastAt := None, cc_lastErrorCode := Some ''CCTP_MINT_REVERTED'',
     cc_nextAttemptAt := Some (ts + 30000), cc_updatedAt := ts\<rparr>"

definition clear_batch :: "string \<Rightarrow> string \<Rightarrow> int \<Rightarrow> pdb stmt list" where
  "clear_batch x tx ts = [set_mint_stmt x tx MintReverted ts,
     plain (\<lambda>d. (d\<lparr>db_cctp := upd (minting_with x tx) (clear_operation ts) (db_cctp d)\<rparr>,
       hits (minting_with x tx) (db_cctp d)))]"

definition clearRevertedCrosschainMint :: "string \<Rightarrow> string \<Rightarrow> unit pact" where
  "clearRevertedCrosschainMint x txHash = bindA date_now (\<lambda>ts.
     bindA (dbb (clear_batch x (toLowerCase txHash) ts)) (\<lambda>_. ret ()))"

subsection \<open>These operations leave the accounts alone\<close>

lemma keeps_crosschain [intro]:
  "keeps (upsert_operation_stmt c)" "keeps (update_operation_stmt x f ts)" "keeps (prepare_stmt m ts)"
  "keeps (set_mint_stmt x tx s ts)" "keeps (upsert_mint_stmt r)"
  "keeps (plain (\<lambda>d. (d\<lparr>db_cctp := upd p g (db_cctp d)\<rparr>, n d)))"
  unfolding upsert_operation_stmt_def update_operation_stmt_def prepare_stmt_def set_mint_stmt_def upsert_mint_stmt_def Let_def
  by (rule keeps_same; auto dest!: stmt_SomeD simp: same_accounts_def)+

lemma keeps_insert_mint [intro]: "keeps (insert_mint_stmt r)"
  unfolding insert_mint_stmt_def [abs_def]
  by (rule keeps_same) (auto dest!: stmt_SomeD simp: same_accounts_def split: if_splits)

lemma guar_crosschain [intro]:
  "guar pay_I pay_R (upsertCrosschainOperation inp)" "guar pay_I pay_R (getCrosschainOperation x)"
  "guar pay_I pay_R (updateCrosschainOperation x f)" "guar pay_I pay_R (recordCrosschainMintResult x tx s)"
  unfolding upsertCrosschainOperation_def getCrosschainOperation_def updateCrosschainOperation_def
    recordCrosschainMintResult_def
  by (intro pay.guar_bindA pay.guar_calm pay.guar_randomUUID guar_dbx_keeps keeps_crosschain | split option.split
      | intro conjI allI impI)+

lemma guar_crosschain_batches [intro]:
  "guar pay_I pay_R (recordCrosschainMintPrepared m)" "guar pay_I pay_R (recordCrosschainMintBroadcast x tx)"
  "guar pay_I pay_R (clearRevertedCrosschainMint x tx)"
  unfolding recordCrosschainMintPrepared_def recordCrosschainMintBroadcast_def clearRevertedCrosschainMint_def
    prepare_batch_def broadcast_batch_def clear_batch_def
  by (intro pay.guar_bindA pay.guar_calm pay.guar_randomUUID guar_dbb_keeps keeps_batch; auto)+

end
