(* ===== verification/Reconciliation.thy ===== *)
theory Reconciliation
  imports Circle Crosschain ChainJournal Leases Queue
begin

text \<open>
  Reconciliation of payments with the chains (\<^verbatim>\<open>services/reconciliation.ts\<close>): validating the evidence of a
  source transaction, settling local payments, following a CCTP burn through attestation and mint, and scanning
  the routers' events.  The clients of the code are the chain identifiers they are made for.
\<close>

definition MAX_CCTP_MINT_ATTEMPTS :: int where
  "MAX_CCTP_MINT_ATTEMPTS = 20"

text \<open>\<open>isHex\<close> of viem, strict.\<close>

definition hex_ok :: "string \<Rightarrow> bool" where
  "hex_ok s \<longleftrightarrow> startsWith s ''0x'' \<and> list_all is_hex (drop 2 s)"

definition cctpMessageNonce :: "string \<Rightarrow> err + string" where
  "cctpMessageNonce message = (if \<not> hex_ok message \<or> length message < 90
     then Inl (Thrown ''CCTP message is too short'') else Inr (''0x'' @ take 64 (drop 26 message)))"

definition messageReceivedArgs :: "chain_log \<Rightarrow> string \<Rightarrow> int \<Rightarrow> bool" where
  "messageReceivedArgs lg nonce sourceDomain = (case lg_messageReceived lg of None \<Rightarrow> False
     | Some (n, domain) \<Rightarrow> toLowerCase n = toLowerCase nonce \<and> domain = sourceDomain)"

subsection \<open>Reads of a chain\<close>

definition getBlockNumber :: "services \<Rightarrow> int \<Rightarrow> int pact" where
  "getBlockNumber sv c = extcall (\<lambda>t. sv_blockNumber sv c t) ''getBlockNumber''"

definition getBlock :: "services \<Rightarrow> int \<Rightarrow> int \<Rightarrow> chain_block pact" where
  "getBlock sv c n = extcall (\<lambda>t. sv_block sv c n t) ''getBlock''"

definition getTransactionReceipt :: "services \<Rightarrow> int \<Rightarrow> string \<Rightarrow> chain_receipt pact" where
  "getTransactionReceipt sv c h = bindA (extcall (\<lambda>t. Some (sv_receipt sv c h t)) ''getTransactionReceipt'') (\<lambda>r.
     case r of ReceiptFound x \<Rightarrow> ret x
     | ReceiptNotFound \<Rightarrow> throw (ExternalError ''TransactionReceiptNotFoundError'')
     | ReceiptFailed \<Rightarrow> throw (ExternalError ''getTransactionReceipt''))"

definition tryA :: "'a pact \<Rightarrow> 'a option pact" where
  "tryA m = catchA (bindA m (\<lambda>x. ret (Some x))) (\<lambda>e. ret None)"

subsection \<open>Checkpoints and reorganisations\<close>

definition block_matches :: "services \<Rightarrow> int \<Rightarrow> router_checkpoint \<Rightarrow> bool pact" where
  "block_matches sv c cp = bindA (tryA (getBlock sv c (rp_number cp))) (\<lambda>b.
     ret (case b of None \<Rightarrow> False | Some x \<Rightarrow> toLowerCase (cb_hash x) = toLowerCase (rp_hash cp)))"

fun first_match :: "services \<Rightarrow> int \<Rightarrow> router_checkpoint list \<Rightarrow> router_checkpoint option pact" where
  "first_match sv c [] = ret None"
| "first_match sv c (cp # cps) = bindA (block_matches sv c cp) (\<lambda>ok. if ok then ret (Some cp) else first_match sv c cps)"

definition verifyRouterCheckpoint :: "services \<Rightarrow> int \<Rightarrow> router_checkpoint option \<Rightarrow> router_checkpoint option pact" where
  "verifyRouterCheckpoint sv c checkpoint = (case checkpoint of None \<Rightarrow> ret None
     | Some cp \<Rightarrow> bindA (block_matches sv c cp) (\<lambda>ok. if ok then ret (Some cp) else
       bindA (listCanonicalRouterBlocksBefore c (rp_number cp)) (\<lambda>candidates.
       bindA (first_match sv c candidates) (\<lambda>found.
       bindA (case found of Some a \<Rightarrow> ret a
         | None \<Rightarrow> let n = max 0 (rp_number cp - 2000) in
             bindA (getBlock sv c n) (\<lambda>b. ret \<lparr>rp_number = n, rp_hash = cb_hash b\<rparr>)) (\<lambda>ancestor.
       bindA (rollbackRouterJournal c cp ancestor) (\<lambda>_. ret (Some ancestor)))))))"

subsection \<open>The evidence of a source transaction\<close>

datatype source_evidence = LocalEvidence event_args | BurnEvidence burn_args string

text \<open>What \<open>eventArgs\<close> reads of a log under the event of the attempt's route.\<close>

definition route_args :: "route \<Rightarrow> chain_log \<Rightarrow> event_args option" where
  "route_args r lg = (if r = Local then lg_settled lg else map_option event_args.truncate (lg_burned lg))"

definition event_name :: "route \<Rightarrow> string" where
  "event_name r = (if r = Local then ''PaymentSettled'' else ''CctpPaymentBurned'')"

definition args_match :: "attempt_core \<Rightarrow> payment_intent \<Rightarrow> event_args \<Rightarrow> bool" where
  "args_match attempt intent args \<longleftrightarrow>
     toLowerCase (ea_attemptId args) = toLowerCase (a_attemptHash attempt) \<and>
     toLowerCase (ea_intentId args) = toLowerCase (au_intentId (a_authorization attempt)) \<and>
     sameAddress (Some (ea_payer args)) (a_payerAddress attempt) \<and>
     sameAddress (Some (ea_merchant args)) (i_settlementWallet intent) \<and>
     ea_settlementAmount args = a_settlementAmountAtomic attempt \<and>
     ea_platformFee args = a_platformFeeAtomic attempt"

definition validatePaymentSourceReceipt ::
    "attempt_core \<Rightarrow> payment_intent \<Rightarrow> chain_receipt \<Rightarrow> err + source_evidence" where
  "validatePaymentSourceReceipt attempt intent receipt = (
     if \<not> rc_success receipt then Inl (EvidenceMismatchError ''Payment source transaction reverted'')
     else if \<not> sameAddress (Some (rc_from receipt)) (a_payerAddress attempt) \<or>
       \<not> sameAddress (rc_to receipt) (a_routerAddress attempt)
     then Inl (EvidenceMismatchError ''Payment source transaction sender or router does not match the signed attempt'')
     else (case find (\<lambda>lg. sameAddress (Some (lg_address lg)) (a_routerAddress attempt) \<and>
            route_args (a_route attempt) lg \<noteq> None) (rc_logs receipt) of
         None \<Rightarrow> Inl (EvidenceMismatchError (event_name (a_route attempt) @ '' evidence is missing''))
       | Some lg \<Rightarrow>
         if \<not> args_match attempt intent (the (route_args (a_route attempt) lg))
         then Inl (EvidenceMismatchError (event_name (a_route attempt) @ '' evidence does not match the signed attempt''))
         else if a_route attempt = Local then Inr (LocalEvidence (the (lg_settled lg)))
         else let args = the (lg_burned lg) in
           if ea_grossPayerAmount args \<noteq> a_grossPayerAmountAtomic attempt \<or>
             ea_maxCctpFee args \<noteq> a_cctpFeeAtomic attempt
           then Inl (EvidenceMismatchError ''CCTP burn economics do not match the signed attempt'')
           else (case find (\<lambda>lg. lg_messageSent lg \<noteq> None) (rc_logs receipt) of
               None \<Rightarrow> Inl (EvidenceMismatchError ''CCTP MessageSent evidence is missing'')
             | Some ml \<Rightarrow> Inr (BurnEvidence args (the (lg_messageSent ml))))))"

definition verifyReportedSourceTransaction :: "viem \<Rightarrow> services \<Rightarrow> bindings \<Rightarrow> string \<Rightarrow> string \<Rightarrow> bool pact" where
  "verifyReportedSourceTransaction V sv env attemptId txHash =
     bindA (getAttempt attemptId) (\<lambda>attempt. case attempt of
       None \<Rightarrow> throw (EvidenceMismatchError ''Payment attempt is missing'')
     | Some a \<Rightarrow> bindA (getPaymentIntent (a_intentId a)) (\<lambda>intent. case intent of
         None \<Rightarrow> throw (EvidenceMismatchError ''Payment intent is missing'')
       | Some i \<Rightarrow>
         bindA (catchA (bindA (liftE (paymentPublicClient V env (a_sourceChainId a))) (\<lambda>_.
             bindA (getTransactionReceipt sv (a_sourceChainId a) txHash) (\<lambda>r. ret (Some r))))
           (\<lambda>e. if e = ExternalError ''TransactionReceiptNotFoundError'' then ret None else throw e)) (\<lambda>receipt.
         case receipt of None \<Rightarrow> ret False
         | Some r \<Rightarrow> bindA (liftE (validatePaymentSourceReceipt (attempt_core.truncate a) i r)) (\<lambda>_. ret True))))"

definition confirmedReceipt :: "viem \<Rightarrow> services \<Rightarrow> bindings \<Rightarrow> int \<Rightarrow> string \<Rightarrow> chain_receipt option pact" where
  "confirmedReceipt V sv env c txHash =
     bindA (liftE (paymentPublicClient V env c)) (\<lambda>_.
     bindA (getTransactionReceipt sv c txHash) (\<lambda>receipt.
     if \<not> rc_success receipt then throw (Thrown ''Payment source transaction reverted'')
     else bindA (getBlockNumber sv c) (\<lambda>current. bindA (liftE (requiredConfirmations V env c)) (\<lambda>required.
       ret (if current - rc_blockNumber receipt + 1 < required then None else Some receipt)))))"

subsection \<open>Reconciling an attempt\<close>

definition local_settlement :: "payment_attempt \<Rightarrow> string \<Rightarrow> event_args \<Rightarrow> settle_input" where
  "local_settlement a txHash args = \<lparr>st_attemptId = a_id a, st_sourceTxHash = txHash, st_destinationTxHash = None,
     st_settledAmountAtomic = ea_settlementAmount args, st_payerAddress = a_payerAddress a,
     st_platformFeeAtomic = Some (ea_platformFee args), st_networkFeeAtomic = Some 0\<rparr>"

definition reconcileLocal :: "viem \<Rightarrow> services \<Rightarrow> bindings \<Rightarrow> string \<Rightarrow> string \<Rightarrow> bool pact" where
  "reconcileLocal V sv env attemptId txHash =
     bindA (getAttempt attemptId) (\<lambda>attempt. case attempt of None \<Rightarrow> ret True
     | Some a \<Rightarrow> if settled_status (a_status a) then ret True
       else bindA (getPaymentIntent (a_intentId a)) (\<lambda>intent. case intent of
         None \<Rightarrow> throw (Thrown ''Payment intent missing for attempt'')
       | Some i \<Rightarrow> bindA (confirmedReceipt V sv env (a_sourceChainId a) txHash) (\<lambda>receipt. case receipt of
           None \<Rightarrow> ret False
         | Some r \<Rightarrow> bindA (liftE (validatePaymentSourceReceipt (attempt_core.truncate a) i r)) (\<lambda>ev. case ev of
             LocalEvidence args \<Rightarrow> bindA (settleAttempt V (local_settlement a txHash args)) (\<lambda>_.
               bindA (flushPaymentOutbox sv env 10) (\<lambda>_. ret True))
           | BurnEvidence args m \<Rightarrow> bindA (settleAttempt V (local_settlement a txHash (event_args.truncate args))) (\<lambda>_.
               bindA (flushPaymentOutbox sv env 10) (\<lambda>_. ret True))))))"

definition burn_operation :: "viem \<Rightarrow> payment_attempt \<Rightarrow> payment_intent \<Rightarrow> string \<Rightarrow> burn_args \<Rightarrow> string \<Rightarrow> burn_input" where
  "burn_operation V a i txHash args message = \<lparr>bu_attemptId = a_id a, bu_sourceChainId = a_sourceChainId a,
     bu_destinationChainId = i_settlementChainId i, bu_route = a_route a, bu_sourceTxHash = txHash,
     bu_messageHash = v_keccak256 V message, bu_message = Some message,
     bu_burnAmountAtomic = ea_amountBurned args, bu_platformFeeAtomic = ea_platformFee args\<rparr>"

definition attestation_job :: "string \<Rightarrow> int \<Rightarrow> job_input" where
  "attestation_job opId c = \<lparr>ji_job = CctpAttestation, ji_resourceId = opId,
     ji_dedupeKey = Some (''cctp-attestation:'' @ opId), ji_partition = Some (string_of_int c), ji_delaySeconds = Some 5\<rparr>"

definition reconcileBurn :: "viem \<Rightarrow> services \<Rightarrow> bindings \<Rightarrow> string \<Rightarrow> string \<Rightarrow> bool pact" where
  "reconcileBurn V sv env attemptId txHash =
     bindA (getAttempt attemptId) (\<lambda>attempt. case attempt of None \<Rightarrow> ret True
     | Some a \<Rightarrow> if settled_status (a_status a) then ret True
       else bindA (getPaymentIntent (a_intentId a)) (\<lambda>intent. case intent of
         None \<Rightarrow> throw (Thrown ''Payment intent missing for attempt'')
       | Some i \<Rightarrow> bindA (confirmedReceipt V sv env (a_sourceChainId a) txHash) (\<lambda>receipt. case receipt of
           None \<Rightarrow> ret False
         | Some r \<Rightarrow> bindA (liftE (validatePaymentSourceReceipt (attempt_core.truncate a) i r)) (\<lambda>ev. case ev of
             LocalEvidence args \<Rightarrow> throw (Thrown ''CCTP MessageSent evidence is missing'')
           | BurnEvidence args message \<Rightarrow>
               if message = [] then throw (Thrown ''CCTP MessageSent evidence is missing'')
               else bindA (upsertCrosschainOperation (burn_operation V a i txHash args message)) (\<lambda>opId.
                 bindA (recordAttemptFeeEvidence (a_id a) (ea_platformFee args) None txHash) (\<lambda>_.
                 bindA (markAttemptProcessing (a_id a) txHash) (\<lambda>_.
                 bindA (schedulePaymentJob sv env (attestation_job opId (a_sourceChainId a))) (\<lambda>_. ret True))))))))"

definition reconcileAttempt :: "viem \<Rightarrow> services \<Rightarrow> bindings \<Rightarrow> string \<Rightarrow> bool pact" where
  "reconcileAttempt V sv env attemptId =
     bindA (getAttempt attemptId) (\<lambda>attempt. case attempt of None \<Rightarrow> ret True
     | Some a \<Rightarrow> if settled_status (a_status a) \<or> a_status a = Failed then ret True
       else (case a_sourceTxHash a of None \<Rightarrow> ret False
         | Some tx \<Rightarrow> if tx = [] \<or> \<not> hex_ok tx then ret False
           else if a_route a = Local then reconcileLocal V sv env (a_id a) tx
           else reconcileBurn V sv env (a_id a) tx))"

end
