(* ===== verification/Checkout.thy ===== *)
theory Checkout
  imports Access QuoteEngine Reconciliation
begin

text \<open>
  The public checkout routes (\<^verbatim>\<open>routes/checkout.routes.ts\<close>): reading a link, quoting, authorizing an attempt,
  registering its transaction, reading and canceling it.  The human message of a \<open>QuoteError\<close> is not
  modelled, only its code.
\<close>

subsection \<open>Payloads\<close>

definition fee_source_text :: "fee_source \<Rightarrow> string" where
  "fee_source_text s = (case s of FeeLocal \<Rightarrow> ''local'' | FeeCircleLive \<Rightarrow> ''circle_live'')"

definition attempt_status_text :: "attempt_status \<Rightarrow> string" where
  "attempt_status_text s = (case s of Reserved \<Rightarrow> ''reserved'' | Submitted \<Rightarrow> ''submitted'' | Processing \<Rightarrow> ''processing''
     | Paid \<Rightarrow> ''paid'' | Overpaid \<Rightarrow> ''overpaid'' | Failed \<Rightarrow> ''failed'' | Expired \<Rightarrow> ''expired'' | Canceled \<Rightarrow> ''canceled'')"

definition quotePayload :: "payment_quote \<Rightarrow> string \<Rightarrow> json" where
  "quotePayload q payerProofMessage = (let f = q_fee q in
     JObj [(''id'', JStr (q_id q)), (''intent_id'', JStr (q_intentId q)), (''payer'', JStr (q_payer q)),
       (''source_chain_id'', JInt (q_sourceChainId q)), (''route'', JStr (route_text (q_route q))),
       (''settlement_amount_atomic'', jatomic (q_settlementAmountAtomic q)),
       (''platform_fee_atomic'', jatomic (q_platformFeeAtomic q)), (''cctp_fee_atomic'', jatomic (q_cctpFeeAtomic q)),
       (''gross_payer_amount_atomic'', jatomic (q_grossPayerAmountAtomic q)),
       (''fee_source'', JStr (fee_source_text (q_feeSource q))),
       (''fee_policy'', JObj [(''id'', JStr (f_policyId f)), (''version'', JInt (f_policyVersion f)), (''rule_id'', JStr (f_ruleId f))]),
       (''platform_fee_bps'', JInt (f_platformFeeBps f)), (''platform_fee_bearer'', JStr (bearer_text (f_platformFeeBearer f))),
       (''platform_fee_recipient'', jopt JStr (f_platformFeeRecipient f)), (''route_fee_cap_bps'', JInt (f_routeFeeCapBps f)),
       (''fee_observed_at'', JStr (toISOString (q_feeObservedAt q))), (''expires_at'', JStr (toISOString (q_expiresAt q))),
       (''quote_hash'', JStr (q_quoteHash q)), (''payer_proof_message'', JStr payerProofMessage)])"

definition checkoutIntent :: "payment_intent \<Rightarrow> json" where
  "checkoutIntent i = (case publicIntent i of JObj fs \<Rightarrow> JObj (filter (\<lambda>(k, v). k \<noteq> ''metadata'') fs) | v \<Rightarrow> v)"

definition authorization_json :: "authorization \<Rightarrow> json" where
  "authorization_json au = (case au of
       PaymentAuthorization intentId attemptId payer merchant settlementAmount platformFee validAfter validUntil metadataHash \<Rightarrow>
         JObj [(''intentId'', JStr intentId), (''attemptId'', JStr attemptId), (''payer'', JStr payer), (''merchant'', JStr merchant),
           (''settlementAmount'', jatomic settlementAmount), (''platformFee'', jatomic platformFee),
           (''validAfter'', JInt validAfter), (''validUntil'', JInt validUntil), (''metadataHash'', JStr metadataHash)]
     | CctpPaymentAuthorization intentId attemptId payer merchant settlementChainId destinationDomain settlementAmount
         grossPayerAmount platformFee maxCctpFee minFinalityThreshold validAfter validUntil metadataHash \<Rightarrow>
         JObj [(''intentId'', JStr intentId), (''attemptId'', JStr attemptId), (''payer'', JStr payer), (''merchant'', JStr merchant),
           (''settlementChainId'', jatomic settlementChainId), (''destinationDomain'', JInt destinationDomain),
           (''settlementAmount'', jatomic settlementAmount), (''grossPayerAmount'', jatomic grossPayerAmount),
           (''platformFee'', jatomic platformFee), (''maxCctpFee'', jatomic maxCctpFee),
           (''minFinalityThreshold'', JInt minFinalityThreshold), (''validAfter'', JInt validAfter),
           (''validUntil'', JInt validUntil), (''metadataHash'', JStr metadataHash)])"

definition attempt_fields :: "payment_attempt \<Rightarrow> (string \<times> json) list" where
  "attempt_fields a = (let f = a_fee a in
     [(''id'', JStr (a_id a)), (''intent_id'', JStr (a_intentId a)), (''payer'', JStr (a_payerAddress a)),
      (''source_chain_id'', JInt (a_sourceChainId a)), (''route'', JStr (route_text (a_route a))),
      (''status'', JStr (attempt_status_text (a_status a))), (''router'', JStr (a_routerAddress a)),
      (''authorization'', authorization_json (a_authorization a)), (''signature'', JStr (a_signature a)),
      (''authorization_hash'', JStr (a_authorizationHash a)), (''valid_after'', JInt (a_validAfter a)),
      (''valid_until'', JInt (a_validUntil a)), (''source_tx_hash'', jopt JStr (a_sourceTxHash a)),
      (''destination_tx_hash'', jopt JStr (a_destinationTxHash a)), (''user_op_hash'', jopt JStr (a_userOpHash a)),
      (''settled_amount_atomic'', jatomic (a_settledAmountAtomic a)),
      (''fee_snapshot'', JObj [(''policy_id'', JStr (f_policyId f)), (''policy_version'', JInt (f_policyVersion f)),
         (''rule_id'', JStr (f_ruleId f)), (''platform_fee_bps'', JInt (f_platformFeeBps f)),
         (''platform_fee_atomic'', jatomic (a_platformFeeAtomic a)), (''network_fee_max_atomic'', jatomic (a_cctpFeeAtomic a)),
         (''gross_payer_amount_atomic'', jatomic (a_grossPayerAmountAtomic a)),
         (''bearer'', JStr (bearer_text (f_platformFeeBearer f))), (''recipient'', jopt JStr (f_platformFeeRecipient f)),
         (''route_fee_cap_bps'', JInt (f_routeFeeCapBps f))])])"

definition attemptPayload :: "payment_attempt \<Rightarrow> json" where
  "attemptPayload a = JObj (attempt_fields a)"

subsection \<open>The intent a quote or an attempt is made for\<close>

definition quoteIntent :: "viem \<Rightarrow> payment_intent \<Rightarrow> json option \<Rightarrow> err + payment_intent" where
  "quoteIntent V i requestedAmount = (if i_amountMode i = Fixed then Inr i
     else bindE (amount V requestedAmount) (\<lambda>(decimal, atomic).
       if i_status i \<noteq> AwaitingPayment \<or> i_paidAmountAtomic i \<noteq> 0 then Inl (QuoteError ''INTENT_NOT_PAYABLE'')
       else Inr (i\<lparr>i_amount := decimal, i_amountAtomic := atomic\<rparr>)))"

definition attemptIntent :: "viem \<Rightarrow> payment_intent \<Rightarrow> int \<Rightarrow> err + payment_intent" where
  "attemptIntent V i settlementAmountAtomic = (if i_amountMode i = Fixed
     then (if i_amountAtomic i \<noteq> settlementAmountAtomic then Inl (QuoteError ''QUOTE_STALE'') else Inr i)
     else if i_status i \<noteq> AwaitingPayment \<or> i_paidAmountAtomic i \<noteq> 0 then Inl (QuoteError ''INTENT_NOT_PAYABLE'')
     else Inr (i\<lparr>i_amount := v_formatUnits6 V settlementAmountAtomic, i_amountAtomic := settlementAmountAtomic\<rparr>))"

subsection \<open>Registering and reading an attempt\<close>

definition requestCapabilityHash :: "viem \<Rightarrow> http_request \<Rightarrow> string option pact" where
  "requestCapabilityHash V rq = (if isCheckoutCapability (rq_capability rq)
     then bindA (hashCheckoutCapability V (the (rq_capability rq))) (\<lambda>h. ret (Some h)) else ret None)"

definition attemptNotFound :: "http_request \<Rightarrow> http_response" where
  "attemptNotFound rq = respond_error rq 404 ''Attempt not found'' ''ATTEMPT_NOT_FOUND''"

definition intentNotFound :: "http_request \<Rightarrow> http_response" where
  "intentNotFound rq = respond_error rq 404 ''Intent not found'' ''INTENT_NOT_FOUND''"

text \<open>\<open>isHash\<close> of viem: 32 bytes of hexadecimal text.\<close>

definition is_hash :: "string \<Rightarrow> bool" where
  "is_hash s \<longleftrightarrow> hex_ok s \<and> length s = 66"

definition text_field :: "(string \<times> json) list \<Rightarrow> string \<Rightarrow> string option" where
  "text_field fs k = (case jget fs k of Some (JStr s) \<Rightarrow> Some s | _ \<Rightarrow> None)"

text \<open>The rate limit of a route, then the rest of its handler.\<close>

definition limited :: "viem \<Rightarrow> http_request \<Rightarrow> rate_rule \<Rightarrow> http_response pact \<Rightarrow> http_response pact" where
  "limited V rq ru m = bindA (enforceRateLimit V rq ru) (\<lambda>r. case r of Some resp \<Rightarrow> ret resp | None \<Rightarrow> m)"

definition watch_job :: "payment_attempt \<Rightarrow> string \<Rightarrow> job_input" where
  "watch_job a suffix = \<lparr>ji_job = RouterWatch, ji_resourceId = a_id a,
     ji_dedupeKey = Some (''checkout-router-watch:'' @ a_id a @ '':'' @ suffix),
     ji_partition = Some (string_of_int (a_sourceChainId a)), ji_delaySeconds = None\<rparr>"

definition reconcile_job :: "payment_attempt \<Rightarrow> string \<Rightarrow> job_input" where
  "reconcile_job a txHash = \<lparr>ji_job = AttemptReconcile, ji_resourceId = a_id a,
     ji_dedupeKey = Some (''attempt_reconcile:'' @ a_id a @ '':'' @ toLowerCase txHash),
     ji_partition = Some (string_of_int (a_sourceChainId a)), ji_delaySeconds = None\<rparr>"

text \<open>A link-scoped route serves an attempt of the link's intent only.\<close>

definition in_link :: "string option \<Rightarrow> string \<Rightarrow> string \<Rightarrow> bool pact" where
  "in_link linkId attemptId capabilityHash = (case linkId of None \<Rightarrow> ret True
     | Some l \<Rightarrow> if l = [] then ret True else
         bindA (getIntentByLink l) (\<lambda>linked. bindA (getCheckoutAttempt attemptId capabilityHash) (\<lambda>current.
         ret (case (linked, current) of (Some i, Some a) \<Rightarrow> a_intentId a = i_id i | _ \<Rightarrow> False))))"

datatype evidence_check = Proven | NotYet | Contradicted | Unavailable

definition check_evidence :: "viem \<Rightarrow> services \<Rightarrow> bindings \<Rightarrow> string \<Rightarrow> string \<Rightarrow> evidence_check pact" where
  "check_evidence V sv env attemptId txHash = catchA
     (bindA (verifyReportedSourceTransaction V sv env attemptId txHash) (\<lambda>ok. ret (if ok then Proven else NotYet)))
     (\<lambda>e. ret (case e of EvidenceMismatchError m \<Rightarrow> Contradicted | _ \<Rightarrow> Unavailable))"

definition pending_evidence ::
    "services \<Rightarrow> bindings \<Rightarrow> http_request \<Rightarrow> string \<Rightarrow> string \<Rightarrow> http_response pact" where
  "pending_evidence sv env rq attemptId capabilityHash =
     bindA (getCheckoutAttempt attemptId capabilityHash) (\<lambda>current. case current of
       None \<Rightarrow> ret (attemptNotFound rq)
     | Some a \<Rightarrow> bindA date_now (\<lambda>now.
         bindA (enqueuePaymentJob sv env (watch_job a (string_of_int (now div 30000)))) (\<lambda>_.
         ret (respond 409 (JObj (error_fields rq ''Transaction receipt is not available yet'' ''PAYMENT_EVIDENCE_PENDING'' @
           [(''retryable'', JBool True)]))))))"

definition register_verified ::
    "services \<Rightarrow> bindings \<Rightarrow> http_request \<Rightarrow> string \<Rightarrow> string \<Rightarrow> string \<Rightarrow> http_response pact" where
  "register_verified sv env rq attemptId capabilityHash txHash =
     bindA (registerSourceTransaction attemptId capabilityHash txHash) (\<lambda>attempt. case attempt of
       None \<Rightarrow> ret (attemptNotFound rq)
     | Some a \<Rightarrow> bindA (enqueuePaymentJob sv env (reconcile_job a txHash)) (\<lambda>_.
         bindA (enqueuePaymentJob sv env (watch_job a (toLowerCase txHash))) (\<lambda>_.
         ret (respond 200 (attemptPayload a)))))"

definition registerAttempt ::
    "viem \<Rightarrow> services \<Rightarrow> bindings \<Rightarrow> http_request \<Rightarrow> string \<Rightarrow> string option \<Rightarrow> http_response pact" where
  "registerAttempt V sv env rq attemptId linkId =
     limited V rq (per_minute ''checkout_register'' (requestIdentity rq @ '':'' @ attemptId) 60) (
     bindA (read_body rq) (\<lambda>body.
     let txHash = (case text_field body ''source_tx_hash'' of None \<Rightarrow> [] | Some s \<Rightarrow> s) in
     if \<not> is_hash txHash then ret (respond_error rq 400 ''Invalid transaction hash'' ''INVALID_TX_HASH'')
     else bindA (requestCapabilityHash V rq) (\<lambda>capability. case capability of
       None \<Rightarrow> ret (attemptNotFound rq)
     | Some capabilityHash \<Rightarrow> bindA (in_link linkId attemptId capabilityHash) (\<lambda>ok.
         if \<not> ok then ret (attemptNotFound rq)
         else bindA (check_evidence V sv env attemptId txHash) (\<lambda>evidence. case evidence of
             Contradicted \<Rightarrow> ret (respond_error rq 400 ''Transaction does not prove this payment attempt'' ''PAYMENT_EVIDENCE_INVALID'')
           | Unavailable \<Rightarrow> ret (respond 503 (JObj (error_fields rq ''Transaction evidence is temporarily unavailable'' ''SERVICE_UNAVAILABLE'' @
               [(''retryable'', JBool True)])))
           | NotYet \<Rightarrow> pending_evidence sv env rq attemptId capabilityHash
           | Proven \<Rightarrow> register_verified sv env rq attemptId capabilityHash txHash)))))"

definition readAttempt ::
    "viem \<Rightarrow> http_request \<Rightarrow> string \<Rightarrow> string option \<Rightarrow> http_response pact" where
  "readAttempt V rq attemptId linkId =
     limited V rq (per_minute ''checkout_attempt_read'' (requestIdentity rq @ '':'' @ attemptId) 240) (
     bindA (requestCapabilityHash V rq) (\<lambda>capability. case capability of
       None \<Rightarrow> ret (attemptNotFound rq)
     | Some capabilityHash \<Rightarrow> bindA (getCheckoutAttempt attemptId capabilityHash) (\<lambda>attempt. case attempt of
         None \<Rightarrow> ret (attemptNotFound rq)
       | Some a \<Rightarrow> bindA (case linkId of None \<Rightarrow> ret True | Some l \<Rightarrow> if l = [] then ret True else
             bindA (getIntentByLink l) (\<lambda>linked. ret (map_option i_id linked = Some (a_intentId a)))) (\<lambda>ok.
           if \<not> ok then ret (attemptNotFound rq)
           else bindA (getPaymentIntent (a_intentId a)) (\<lambda>intent.
             ret (respond 200 (JObj (attempt_fields a @
               [(''intent_status'', jopt (\<lambda>i. JStr (intent_status_text (i_status i))) intent)]))))))))"

end
