(* ===== verification/CheckoutRoutes.thy ===== *)
theory CheckoutRoutes
  imports Checkout
begin

text \<open>
  The route handlers of \<^verbatim>\<open>routes/checkout.routes.ts\<close> and their error handler.
\<close>

text \<open>\<open>body[a] ?? body[b]\<close>, and \<open>Number\<close> of a JSON value; a value that is no integer is 0, which is no chain.\<close>

definition either_field :: "(string \<times> json) list \<Rightarrow> string \<Rightarrow> string \<Rightarrow> json option" where
  "either_field fs a b = (case jget fs a of None \<Rightarrow> jget fs b | Some JNull \<Rightarrow> jget fs b | Some v \<Rightarrow> Some v)"

definition chain_number :: "json option \<Rightarrow> int" where
  "chain_number value = (case value of Some (JInt n) \<Rightarrow> n
     | Some (JStr s) \<Rightarrow> (case js_Number s of Some n \<Rightarrow> n | None \<Rightarrow> 0)
     | Some (JBool b) \<Rightarrow> if b then 1 else 0 | _ \<Rightarrow> 0)"

subsection \<open>Reading a link\<close>

definition network_routes :: "network \<Rightarrow> json list" where
  "network_routes n = (if n_isHomeChain n then [JStr ''local'']
     else (if n_cctpFast n then [JStr ''cctp_fast''] else []) @ (if n_cctpStandard n then [JStr ''cctp_standard''] else []))"

definition permit_text :: "permit_mode \<Rightarrow> string" where
  "permit_text m = (case m of Eip2612 \<Rightarrow> ''eip2612'' | Approve \<Rightarrow> ''approve'')"

text \<open>\<open>Object.values\<close> lists the integer keys in ascending order; the configured list is not trimmed.\<close>

definition checkout_networks :: "bindings \<Rightarrow> json" where
  "checkout_networks env = JArr (map (\<lambda>n. JObj [(''chain_id'', JInt (n_chainId n)), (''name'', JStr (n_name n)),
       (''routes'', JArr (network_routes n)), (''usdc'', JStr (n_usdc n)), (''permit_mode'', JStr (permit_text (n_permitMode n)))])
     (filter (\<lambda>n. n_paymentSource n \<and> string_of_int (n_chainId n) \<in> set (split_comma (e_enabledChainIds env)))
       (map snd (sort_key fst PAYMENT_NETWORKS))))"

definition link_view :: "payment_link \<Rightarrow> payment_intent \<Rightarrow> json" where
  "link_view l i = publicLink (if i_amountMode i = PayerDefined \<and> i_paidAmountAtomic i = 0 then l\<lparr>l_amount := ''0''\<rparr> else l)"

definition getCheckoutLink :: "viem \<Rightarrow> bindings \<Rightarrow> http_request \<Rightarrow> string \<Rightarrow> http_response pact" where
  "getCheckoutLink V env rq linkId =
     limited V rq (per_minute ''checkout_read'' (requestIdentity rq @ '':'' @ linkId) 240) (
     bindA (getPaymentLink linkId) (\<lambda>link. case link of
       None \<Rightarrow> ret (respond_error rq 404 ''Link not found'' ''LINK_NOT_FOUND'')
     | Some l \<Rightarrow> bindA (releaseExpiredPayerDefinedAmount (l_intentId l)) (\<lambda>_.
         bindA (getIntentByLink (l_id l)) (\<lambda>intent. case intent of
           None \<Rightarrow> ret (intentNotFound rq)
         | Some i \<Rightarrow> ret (respond 200 (JObj [(''link'', link_view l i), (''intent'', checkoutIntent i),
             (''networks'', checkout_networks env)]))))))"

subsection \<open>Quotes\<close>

text \<open>The intent of a link after an expired payer-defined amount was released.\<close>

definition releasedIntent :: "string \<Rightarrow> payment_intent option pact" where
  "releasedIntent linkId = bindA (getIntentByLink linkId) (\<lambda>current.
     bindA (case current of None \<Rightarrow> ret () | Some i \<Rightarrow> releaseExpiredPayerDefinedAmount (i_id i)) (\<lambda>_.
     getIntentByLink linkId))"

definition requested_route_of :: "json option \<Rightarrow> requested_route" where
  "requested_route_of value = (if value = Some (JStr ''fast'') then RequestFast
     else if value = Some (JStr ''standard'') then RequestStandard else RequestAuto)"

definition postQuote :: "viem \<Rightarrow> services \<Rightarrow> bindings \<Rightarrow> http_request \<Rightarrow> string \<Rightarrow> http_response pact" where
  "postQuote V sv env rq linkId =
     limited V rq (per_minute ''checkout_quote'' (requestIdentity rq @ '':'' @ linkId) 30) (
     bindA (releasedIntent linkId) (\<lambda>intent. case intent of
       None \<Rightarrow> ret (intentNotFound rq)
     | Some i \<Rightarrow> bindA (read_body rq) (\<lambda>body.
         bindA (liftE (walletAddress V (either_field body ''payer'' ''payer_address''))) (\<lambda>payer.
         case jget body ''attempt_capability_hash'' of
           Some (JStr capabilityHash) \<Rightarrow> if \<not> isCheckoutCapabilityHash (Some (JStr capabilityHash))
             then ret (respond_error rq 400 ''Invalid checkout capability hash'' ''INVALID_CALLDATA'')
             else bindA (liftE (quoteIntent V i (jget body ''amount''))) (\<lambda>quoted.
               bindA (buildQuote V sv env \<lparr>qi_intent = quoted, qi_payer = payer,
                   qi_sourceChainId = chain_number (either_field body ''source_chain_id'' ''sourceChainId''),
                   qi_requestedRoute = requested_route_of (jget body ''route'')\<rparr>) (\<lambda>quote.
               bindA (insertQuote quote) (\<lambda>_.
               ret (respond 201 (quotePayload quote (checkoutPayerProofMessage linkId quote capabilityHash))))))
         | _ \<Rightarrow> ret (respond_error rq 400 ''Invalid checkout capability hash'' ''INVALID_CALLDATA'')))))"

subsection \<open>Attempts\<close>

text \<open>An attempt that exists under the key is shown to the holder of its capability only.\<close>

definition replay_response :: "http_request \<Rightarrow> string \<Rightarrow> payment_attempt \<Rightarrow> http_response" where
  "replay_response rq capabilityHash a = (
     if map_option toLowerCase (a_checkoutCapabilityHash a) \<noteq> Some (toLowerCase capabilityHash) then attemptNotFound rq
     else respond 200 (JObj (attempt_fields a @ [(''idempotent_replay'', JBool True)])))"

record attempt_request =
  at_linkId :: string
  at_key :: string
  at_capabilityHash :: string
  at_signature :: string
  at_intent :: payment_intent
  at_quote :: payment_quote

definition existing_attempt :: "attempt_request \<Rightarrow> payment_attempt option pact" where
  "existing_attempt r = getAttemptByIdempotency (i_id (at_intent r)) (q_payer (at_quote r)) (q_sourceChainId (at_quote r)) (at_key r)"

definition store_attempt ::
    "http_request \<Rightarrow> attempt_request \<Rightarrow> payer_proof \<Rightarrow> payment_attempt \<Rightarrow> http_response pact" where
  "store_attempt rq r proof a = catchA
     (bindA (insertAttempt a (at_key r) (Some \<lparr>ca_capabilityHash = at_capabilityHash r,
         ca_payerProofSignature = at_signature r, ca_payerProofMessageHash = pp_messageHash proof\<rparr>)) (\<lambda>stored.
       ret (respond 201 (attemptPayload stored))))
     (\<lambda>e. bindA (existing_attempt r) (\<lambda>replay. case replay of
         Some x \<Rightarrow> ret (replay_response rq (at_capabilityHash r) x)
       | None \<Rightarrow> bindA (getPaymentIntent (i_id (at_intent r))) (\<lambda>current.
           if map_option i_status current \<noteq> Some AwaitingPayment
           then ret (respond_error rq 409 ''Payment intent is not payable'' ''INTENT_NOT_PAYABLE'')
           else throw e)))"

definition payer_rate :: "attempt_request \<Rightarrow> rate_rule" where
  "payer_rate r = \<lparr>ru_scope = ''checkout_attempt_payer'',
     ru_key = i_id (at_intent r) @ '':'' @ toLowerCase (q_payer (at_quote r)), ru_limit = 5, ru_windowSeconds = 600\<rparr>"

definition create_attempt ::
    "viem \<Rightarrow> services \<Rightarrow> bindings \<Rightarrow> http_request \<Rightarrow> attempt_request \<Rightarrow> http_response pact" where
  "create_attempt V sv env rq r = (let q = at_quote r in bindA date_now (\<lambda>now.
     if q_expiresAt q \<le> now \<or> 120000 < now - q_feeObservedAt q
     then ret (respond_error rq 400 ''Quote is stale'' ''QUOTE_STALE'')
     else bindA (verifyCheckoutPayerProof V (checkoutPayerProofMessage (at_linkId r) q (at_capabilityHash r)) (q_payer q) (at_signature r)) (\<lambda>proof.
       if \<not> pp_valid proof then ret (respond_error rq 400 ''Checkout wallet proof is invalid'' ''AUTHORIZATION_INVALID'')
       else limited V rq (payer_rate r) (
         bindA (liftE (attemptIntent V (at_intent r) (q_settlementAmountAtomic q))) (\<lambda>intent.
         bindA (authorizeAttempt V sv env \<lparr>ai_intent = intent, ai_quote = q, ai_payerUid = rq_user rq\<rparr>) (\<lambda>a.
         store_attempt rq r proof a))))))"

definition quote_id_of :: "(string \<times> json) list \<Rightarrow> string" where
  "quote_id_of body = (case text_field body ''quote_id'' of Some s \<Rightarrow> s
     | None \<Rightarrow> (case text_field body ''quoteId'' of Some s \<Rightarrow> s | None \<Rightarrow> []))"

definition find_attempt_request ::
    "viem \<Rightarrow> services \<Rightarrow> bindings \<Rightarrow> http_request \<Rightarrow> string \<Rightarrow> string \<Rightarrow> payment_intent \<Rightarrow> http_response pact" where
  "find_attempt_request V sv env rq linkId key i =
     bindA (read_body rq) (\<lambda>body.
     case (rq_capability rq, text_field body ''payer_proof_signature'') of
       (Some capability, Some signature) \<Rightarrow>
         if \<not> isCheckoutCapability (Some capability) \<or> \<not> isCheckoutProofSignature (Some (JStr signature))
         then ret (respond_error rq 400 ''Checkout wallet proof is required'' ''AUTHORIZATION_INVALID'')
         else bindA (hashCheckoutCapability V capability) (\<lambda>capabilityHash.
           bindA (getQuote (quote_id_of body)) (\<lambda>quote. case quote of
             None \<Rightarrow> ret (respond_error rq 404 ''Quote not found'' ''QUOTE_NOT_FOUND'')
           | Some q \<Rightarrow> if q_intentId q \<noteq> i_id i then ret (respond_error rq 404 ''Quote not found'' ''QUOTE_NOT_FOUND'')
             else let r = \<lparr>at_linkId = linkId, at_key = key, at_capabilityHash = capabilityHash, at_signature = signature,
                  at_intent = i, at_quote = q\<rparr> in
               bindA (existing_attempt r) (\<lambda>replay. case replay of
                 Some x \<Rightarrow> ret (replay_response rq capabilityHash x)
               | None \<Rightarrow> create_attempt V sv env rq r)))
     | _ \<Rightarrow> ret (respond_error rq 400 ''Checkout wallet proof is required'' ''AUTHORIZATION_INVALID''))"

definition postAttempt :: "viem \<Rightarrow> services \<Rightarrow> bindings \<Rightarrow> http_request \<Rightarrow> string \<Rightarrow> http_response pact" where
  "postAttempt V sv env rq linkId =
     limited V rq (per_minute ''checkout_attempt'' (requestIdentity rq @ '':'' @ linkId) 20) (
     bindA (releasedIntent linkId) (\<lambda>intent. case intent of
       None \<Rightarrow> ret (intentNotFound rq)
     | Some i \<Rightarrow> (let key = (case rq_idempotencyKey rq of None \<Rightarrow> [] | Some k \<Rightarrow> trim k) in
         if key = [] \<or> 160 < length key then ret (respond_error rq 400 ''Idempotency-Key is required'' ''INVALID_CALLDATA'')
         else find_attempt_request V sv env rq linkId key i)))"

definition cancelCheckoutAttempt :: "viem \<Rightarrow> http_request \<Rightarrow> string \<Rightarrow> http_response pact" where
  "cancelCheckoutAttempt V rq attemptId = bindA (requestCapabilityHash V rq) (\<lambda>capability. case capability of
       None \<Rightarrow> ret (attemptNotFound rq)
     | Some h \<Rightarrow> bindA (getCheckoutAttempt attemptId h) (\<lambda>current. case current of
         None \<Rightarrow> ret (attemptNotFound rq)
       | Some a \<Rightarrow> bindA (cancelAttempt attemptId h) (\<lambda>canceled.
           if \<not> canceled then ret (respond_error rq 409
             ''Attempt cannot be canceled while its authorization or transaction is active'' ''ATTEMPT_ACTIVE'')
           else ret (respond 200 (JObj [(''id'', JStr attemptId), (''status'', JStr ''canceled'')])))))"

subsection \<open>The error handler\<close>

definition quote_error_status :: "string \<Rightarrow> int" where
  "quote_error_status code = (
     if code \<in> {''INTENT_NOT_PAYABLE'', ''INTENT_EXPIRED'', ''ATTEMPT_ACTIVE''} then 409
     else if code \<in> {''SIGNER_UNAVAILABLE'', ''FEE_UNAVAILABLE'', ''INVALID_FEE_POLICY'', ''AMBIGUOUS_FEE_POLICY'',
       ''INVALID_ROUTE_CAPABILITY'', ''ROUTER_FEE_CAP_EXCEEDED'', ''ROUTER_PREFLIGHT_REQUIRED'', ''ROUTER_PREFLIGHT_FAILED''} then 503
     else 400)"

definition with_quote_errors :: "http_request \<Rightarrow> http_response pact \<Rightarrow> http_response pact" where
  "with_quote_errors rq handler = catchA handler (\<lambda>e. case e of
       QuoteError code \<Rightarrow> ret (respond (quote_error_status code) (JObj [(''error_code'', JStr code), (''requestId'', JStr (rq_id rq))]))
     | _ \<Rightarrow> throw e)"

text \<open>The router: the paths of the module and the handlers they reach.\<close>

datatype checkout_route =
    GetLink string
  | PostQuote string
  | PostAttempt string
  | RegisterAttempt string "string option"
  | ReadAttempt string "string option"
  | CancelAttempt string

definition checkout_handler ::
    "viem \<Rightarrow> services \<Rightarrow> bindings \<Rightarrow> http_request \<Rightarrow> checkout_route \<Rightarrow> http_response pact" where
  "checkout_handler V sv env rq route = with_quote_errors rq (case route of
       GetLink l \<Rightarrow> getCheckoutLink V env rq l
     | PostQuote l \<Rightarrow> postQuote V sv env rq l
     | PostAttempt l \<Rightarrow> postAttempt V sv env rq l
     | RegisterAttempt a l \<Rightarrow> registerAttempt V sv env rq a l
     | ReadAttempt a l \<Rightarrow> readAttempt V rq a l
     | CancelAttempt a \<Rightarrow> cancelCheckoutAttempt V rq a)"

end
