(* ===== verification/MerchantApi.thy ===== *)
theory MerchantApi
  imports CheckoutRoutes
begin

text \<open>
  The merchant's API under an API key (\<^verbatim>\<open>routes/v1.routes.ts\<close>) and the payment links of a signed-in
  owner (\<^verbatim>\<open>routes/links.routes.ts\<close>, \<open>requireAuth\<close> of \<^verbatim>\<open>middlewares/auth.ts\<close>).  The verified
  token's subject is the field \<open>rq_user\<close> of a request; parameters of the query are arguments of the handlers.
\<close>

subsection \<open>JavaScript conversions\<close>

fun js_truthy :: "json \<Rightarrow> bool" where
  "js_truthy JNull = False"
| "js_truthy (JBool b) = b"
| "js_truthy (JInt n) = (n \<noteq> 0)"
| "js_truthy (JStr s) = (s \<noteq> [])"
| "js_truthy _ = True"

text \<open>\<open>String\<close> of a JSON value; an array prints its elements, \<open>null\<close> among them as nothing.\<close>

fun js_String :: "json \<Rightarrow> string" where
  "js_String JNull = ''null''"
| "js_String (JBool b) = (if b then ''true'' else ''false'')"
| "js_String (JInt n) = string_of_int n"
| "js_String (JDec s) = s"
| "js_String (JStr s) = s"
| "js_String (JArr xs) = text_join '','' (map (\<lambda>x. if x = JNull then [] else js_String x) xs)"
| "js_String (JObj fs) = ''[object Object]''"

text \<open>\<open>encodeURIComponent\<close>: the unreserved characters stay, the bytes of the UTF-8 form of the others are escaped.\<close>

definition hex_upper :: "nat \<Rightarrow> char" where
  "hex_upper n = (if n < 10 then char_of (48 + n) else char_of (55 + n))"

definition percent :: "nat \<Rightarrow> string" where
  "percent n = [CHR ''%'', hex_upper (n div 16), hex_upper (n mod 16)]"

definition encode_char :: "char \<Rightarrow> string" where
  "encode_char c = (if is_alnum c \<or> c \<in> set ''-_.!~*()'' \<or> ccode c = 39 then [c]
     else if ccode c < 128 then percent (ccode c)
     else percent (192 + ccode c div 64) @ percent (128 + ccode c mod 64))"

definition encodeURIComponent :: "string \<Rightarrow> string" where
  "encodeURIComponent s = concat (map encode_char s)"

definition checkout_url :: "bindings \<Rightarrow> string \<Rightarrow> string" where
  "checkout_url env linkId = e_checkoutBaseUrl env @ ''?id='' @ encodeURIComponent linkId"

text \<open>\<open>{ ...object, key: value }\<close> for keys the object does not have.\<close>

definition spread :: "json \<Rightarrow> (string \<times> json) list \<Rightarrow> json" where
  "spread j fs = (case j of JObj gs \<Rightarrow> JObj (gs @ fs) | _ \<Rightarrow> JObj fs)"

subsection \<open>Shared checks\<close>

definition unsupported_currency :: "json option \<Rightarrow> bool" where
  "unsupported_currency v = (case v of None \<Rightarrow> False | Some j \<Rightarrow> js_truthy j \<and> toUpperCase (js_String j) \<noteq> ''USDC'')"

definition live_reason_text :: "live_reason \<Rightarrow> string" where
  "live_reason_text r = (case r of feature_flag_disabled \<Rightarrow> ''feature_flag_disabled''
     | settlement_network_unknown \<Rightarrow> ''settlement_network_unknown'' | settlement_is_testnet \<Rightarrow> ''settlement_is_testnet''
     | mainnet_routes_unavailable \<Rightarrow> ''mainnet_routes_unavailable'')"

definition live_unavailable :: "http_request \<Rightarrow> mode_capabilities \<Rightarrow> http_response" where
  "live_unavailable rq caps = respond 503 (JObj (error_fields rq
     ''Live payments are not enabled for the configured settlement network'' ''SERVICE_UNAVAILABLE'' @
     [(''live_mode_reason'', jopt (\<lambda>r. JStr (live_reason_text r)) (mc_live_reason caps))]))"

text \<open>A settlement network the manifest says is no testnet takes live payments only, every other one test payments.\<close>

definition settlement_mode :: "merchant \<Rightarrow> mode" where
  "settlement_mode m = (case getPaymentNetworkCapabilities (m_settlementChainId m) of
       Some n \<Rightarrow> if n_isTestnet n then Test else Live | None \<Rightarrow> Test)"

text \<open>The reference, the metadata and the expiry of a new intent, checked in this order.\<close>

definition intent_details ::
    "viem \<Rightarrow> int \<Rightarrow> (string \<times> json) list \<Rightarrow> json option \<Rightarrow> err + string \<times> json \<times> int" where
  "intent_details V now body expiry = bindE (shortText (jget body ''reference'') 160 []) (\<lambda>reference.
     bindE (metadata V (jget body ''metadata'')) (\<lambda>meta. bindE (futureExpiry V now expiry) (\<lambda>e.
     Inr (reference, meta, e))))"

definition new_intent_input ::
    "merchant \<Rightarrow> string \<times> int \<Rightarrow> amount_mode option \<Rightarrow> string \<times> json \<times> int \<Rightarrow> string option \<Rightarrow> mode \<Rightarrow> create_input" where
  "new_intent_input m amt am det key md = \<lparr>ci_merchant = m, ci_amount = fst amt, ci_amountAtomic = snd amt,
     ci_reference = fst det, ci_amountMode = am, ci_metadata = fst (snd det), ci_expiresAt = snd (snd det),
     ci_idempotencyKey = key, ci_mode = Some md, ci_intentId = None, ci_linkId = None\<rparr>"

subsection \<open>The routes under an API key\<close>

text \<open>The API key, then the limit of 600 requests a minute of its merchant.\<close>

definition with_api_key ::
    "viem \<Rightarrow> http_request \<Rightarrow> (string \<Rightarrow> mode \<Rightarrow> http_response pact) \<Rightarrow> http_response pact" where
  "with_api_key V rq handler = requireApiKey V rq (\<lambda>(merchantId, apiMode).
     limited V rq (per_minute ''merchant_api'' merchantId 600) (handler merchantId apiMode))"

definition merchant_unavailable :: "http_request \<Rightarrow> http_response" where
  "merchant_unavailable rq = respond_error rq 409 ''Merchant is unavailable'' ''MERCHANT_NOT_CONFIGURED''"

definition created_response :: "json \<Rightarrow> (string \<times> json) list \<Rightarrow> bool \<Rightarrow> http_response" where
  "created_response view fs replay = respond (if replay then 200 else 201) (spread view (fs @ [(''idempotent_replay'', JBool replay)]))"

definition create_api_intent ::
    "viem \<Rightarrow> bindings \<Rightarrow> http_request \<Rightarrow> mode \<Rightarrow> merchant \<Rightarrow> http_response pact" where
  "create_api_intent V env rq apiMode m = bindA (read_body rq) (\<lambda>body.
     bindA (liftE (amount V (jget body ''amount''))) (\<lambda>amt.
     if unsupported_currency (jget body ''currency'')
     then ret (respond_error rq 400 ''Only USDC settlement is supported'' ''UNSUPPORTED_CURRENCY'')
     else bindA date_now (\<lambda>now. bindA (liftE (intent_details V now body (jget body ''expires_at''))) (\<lambda>det.
       bindA (createIntentAndLink (new_intent_input m amt None det (rq_idempotencyKey rq) apiMode)) (\<lambda>created.
       ret (created_response (publicIntent (cr_intent created))
         [(''checkout_link_id'', JStr (l_id (cr_link created))), (''checkout_url'', JStr (checkout_url env (l_id (cr_link created))))]
         (cr_replay created)))))))"

definition postPaymentIntent ::
    "viem \<Rightarrow> bindings \<Rightarrow> http_request \<Rightarrow> string \<Rightarrow> mode \<Rightarrow> http_response pact" where
  "postPaymentIntent V env rq merchantId apiMode = bindA (getMerchantById merchantId) (\<lambda>found. case found of
       None \<Rightarrow> ret (merchant_unavailable rq)
     | Some m \<Rightarrow>
       if m_status m \<noteq> MerchantActive then ret (merchant_unavailable rq)
       else if apiMode \<noteq> settlement_mode m
       then ret (respond_error rq 503 ''This API-key mode is not enabled for the settlement network'' ''SERVICE_UNAVAILABLE'')
       else let caps = paymentModeCapabilities env (Some (m_settlementChainId m)) in
         if apiMode = Live \<and> \<not> mc_live_enabled caps then ret (live_unavailable rq caps)
         else create_api_intent V env rq apiMode m)"

definition no_cursor :: list_input where
  "no_cursor = \<lparr>li_startingAfter = None, li_status = None, li_mode = None\<rparr>"

definition listApiIntents :: "string \<Rightarrow> http_response pact" where
  "listApiIntents merchantId = bindA (listPaymentIntents merchantId 100 no_cursor) (\<lambda>rows.
     ret (respond 200 (JObj [(''data'', JArr (map publicIntent rows))])))"

text \<open>An intent of another merchant is not found.\<close>

definition owned_intent ::
    "http_request \<Rightarrow> string \<Rightarrow> string \<Rightarrow> (payment_intent \<Rightarrow> http_response pact) \<Rightarrow> http_response pact" where
  "owned_intent rq merchantId intentId handler = bindA (getPaymentIntent intentId) (\<lambda>intent. case intent of
       None \<Rightarrow> ret (intentNotFound rq)
     | Some i \<Rightarrow> if i_merchantId i \<noteq> merchantId then ret (intentNotFound rq) else handler i)"

definition getApiIntent :: "http_request \<Rightarrow> string \<Rightarrow> string \<Rightarrow> http_response pact" where
  "getApiIntent rq merchantId intentId = owned_intent rq merchantId intentId (\<lambda>i.
     bindA (getPaymentIntentFeeBreakdown (i_id i)) (\<lambda>fees.
     ret (respond 200 (spread (publicIntent i) [(''fee_breakdown'', publicFeeBreakdown fees)]))))"

definition cancelApiIntent :: "http_request \<Rightarrow> string \<Rightarrow> string \<Rightarrow> http_response pact" where
  "cancelApiIntent rq merchantId intentId = bindA (cancelPaymentIntent merchantId intentId) (\<lambda>canceled.
     if \<not> canceled then ret (respond_error rq 409 ''Intent cannot be canceled in its current state'' ''INTENT_NOT_PAYABLE'')
     else bindA (getPaymentIntent intentId) (\<lambda>intent. ret (respond 200 (case intent of Some i \<Rightarrow> publicIntent i
       | None \<Rightarrow> JObj [(''id'', JStr intentId), (''status'', JStr ''canceled'')]))))"

subsection \<open>The compatibility endpoint\<close>

definition legacy_view :: "payment_attempt \<Rightarrow> http_response" where
  "legacy_view a = respond 200 (JObj [(''id'', JStr (a_id a)), (''router'', JStr (a_routerAddress a)),
     (''authorization'', authorization_json (a_authorization a)), (''signature'', JStr (a_signature a)),
     (''authorization_hash'', JStr (a_authorizationHash a)), (''deprecated'', JBool True)])"

text \<open>\<open>Number\<close> of a text that is no integer is given as 0, which is no chain.\<close>

definition onchain_chain :: "string option \<Rightarrow> payment_intent \<Rightarrow> int" where
  "onchain_chain query i = (case query of None \<Rightarrow> i_settlementChainId i | Some s \<Rightarrow> (case js_Number s of None \<Rightarrow> 0 | Some n \<Rightarrow> n))"

definition onchain_key :: "http_request \<Rightarrow> payment_intent \<Rightarrow> string \<Rightarrow> int \<Rightarrow> string" where
  "onchain_key rq i payer chainId = (case rq_idempotencyKey rq of Some k \<Rightarrow> k
     | None \<Rightarrow> ''legacy-onchain:'' @ i_id i @ '':'' @ payer @ '':'' @ string_of_int chainId)"

definition getOnchain ::
    "viem \<Rightarrow> services \<Rightarrow> bindings \<Rightarrow> http_request \<Rightarrow> string \<Rightarrow> string \<Rightarrow> string option \<Rightarrow> string option \<Rightarrow> http_response pact" where
  "getOnchain V sv env rq merchantId intentId payerText chainText = owned_intent rq merchantId intentId (\<lambda>i.
     bindA (liftE (walletAddress V (map_option JStr payerText))) (\<lambda>payer.
     let chainId = onchain_chain chainText i; key = onchain_key rq i payer chainId in
     bindA (getAttemptByIdempotency (i_id i) payer chainId key) (\<lambda>replay. case replay of
       Some a \<Rightarrow> ret (legacy_view a)
     | None \<Rightarrow> bindA (buildQuote V sv env \<lparr>qi_intent = i, qi_payer = payer, qi_sourceChainId = chainId,
           qi_requestedRoute = RequestAuto\<rparr>) (\<lambda>quote.
         bindA (insertQuote quote) (\<lambda>_.
         bindA (authorizeAttempt V sv env \<lparr>ai_intent = i, ai_quote = quote, ai_payerUid = None\<rparr>) (\<lambda>attempt.
         bindA (insertAttempt attempt key None) (\<lambda>stored. ret (legacy_view stored))))))))"

subsection \<open>Simulation and events\<close>

definition postSimulate ::
    "services \<Rightarrow> bindings \<Rightarrow> http_request \<Rightarrow> string \<Rightarrow> mode \<Rightarrow> string \<Rightarrow> http_response pact" where
  "postSimulate sv env rq merchantId apiMode intentId = (if apiMode \<noteq> Test
     then ret (respond_error rq 400 ''Simulation is sandbox-only'' ''SANDBOX_ONLY'')
     else owned_intent rq merchantId intentId (\<lambda>i.
       bindA (simulatePaymentIntent merchantId (i_id i)) (\<lambda>paid. case paid of
         None \<Rightarrow> ret (respond_error rq 409 ''Intent is not payable'' ''INTENT_NOT_PAYABLE'')
       | Some p \<Rightarrow> bindA (flushPaymentOutbox sv env 10) (\<lambda>_.
           ret (respond 200 (spread (publicIntent p) [(''simulated'', JBool True)]))))))"

definition event_json :: "event_row \<Rightarrow> json" where
  "event_json e = JObj [(''id'', JStr (ev_id e)), (''type'', JStr (ev_type e)), (''objectId'', JStr (ev_objectId e)),
     (''payload'', ev_payload e), (''data'', ev_payload e), (''mode'', JStr (mode_text (ev_mode e))),
     (''createdAt'', JInt (ev_createdAt e))]"

definition getApiEvents :: "string \<Rightarrow> http_response pact" where
  "getApiEvents merchantId = bindA (listEvents merchantId 100 None) (\<lambda>es.
     ret (respond 200 (JObj [(''data'', JArr (map event_json es))])))"

definition getApiEvent :: "http_request \<Rightarrow> string \<Rightarrow> string \<Rightarrow> http_response pact" where
  "getApiEvent rq merchantId eventId = bindA (listEvents merchantId 100 None) (\<lambda>es.
     case find (\<lambda>e. ev_id e = eventId) es of
       None \<Rightarrow> ret (respond_error rq 404 ''Event not found'' ''EVENT_NOT_FOUND'')
     | Some e \<Rightarrow> ret (respond 200 (event_json e)))"

datatype api_route =
    CreateIntent | ListIntents | GetIntent string | CancelIntent string
  | Onchain string "string option" "string option" | Simulate string | ListEvents | GetEvent string

definition api_handler ::
    "viem \<Rightarrow> services \<Rightarrow> bindings \<Rightarrow> http_request \<Rightarrow> api_route \<Rightarrow> http_response pact" where
  "api_handler V sv env rq route = with_api_key V rq (\<lambda>m md. case route of
       CreateIntent \<Rightarrow> postPaymentIntent V env rq m md
     | ListIntents \<Rightarrow> listApiIntents m
     | GetIntent i \<Rightarrow> getApiIntent rq m i
     | CancelIntent i \<Rightarrow> cancelApiIntent rq m i
     | Onchain i payer chain \<Rightarrow> getOnchain V sv env rq m i payer chain
     | Simulate i \<Rightarrow> postSimulate sv env rq m md i
     | ListEvents \<Rightarrow> getApiEvents m
     | GetEvent e \<Rightarrow> getApiEvent rq m e)"

subsection \<open>Payment links\<close>

definition requireAuth :: "http_request \<Rightarrow> (string \<Rightarrow> http_response pact) \<Rightarrow> http_response pact" where
  "requireAuth rq next_handler = (case rq_user rq of
       None \<Rightarrow> ret (respond_error rq 401 ''Unauthorized: missing, invalid, or expired Firebase token'' ''UNAUTHENTICATED'')
     | Some uid \<Rightarrow> next_handler uid)"

definition create_link :: "viem \<Rightarrow> http_request \<Rightarrow> merchant \<Rightarrow> http_response pact" where
  "create_link V rq m = bindA (read_body rq) (\<lambda>body.
     bindA (liftE (optionalAmount V (jget body ''amount''))) (\<lambda>(decimal, atomic, am).
     if unsupported_currency (jget body ''currency'')
     then ret (respond_error rq 400 ''Universal Checkout currently settles USDC'' ''UNSUPPORTED_CURRENCY'')
     else bindA date_now (\<lambda>now.
       bindA (liftE (intent_details V now body (either_field body ''expires_at'' ''expiresAt''))) (\<lambda>det.
       bindA (createIntentAndLink (new_intent_input m (decimal, atomic) (Some am) det (rq_idempotencyKey rq) (settlement_mode m))) (\<lambda>created.
       ret (created_response (publicLink (cr_link created)) [(''intent'', JStr (i_id (cr_intent created)))] (cr_replay created)))))))"

definition postLink :: "viem \<Rightarrow> http_request \<Rightarrow> http_response pact" where
  "postLink V rq = requireAuth rq (\<lambda>uid. limited V rq (per_minute ''links_write'' uid 60) (
     bindA (getMerchantByOwner uid) (\<lambda>found. case found of
       None \<Rightarrow> ret (respond_error rq 409 ''Settlement account is not configured'' ''MERCHANT_NOT_CONFIGURED'')
     | Some m \<Rightarrow> if m_status m \<noteq> MerchantActive
         then ret (respond_error rq 409 ''Settlement account is not configured'' ''MERCHANT_NOT_CONFIGURED'')
         else create_link V rq m)))"

definition listLinks :: "viem \<Rightarrow> http_request \<Rightarrow> http_response pact" where
  "listLinks V rq = requireAuth rq (\<lambda>uid. limited V rq (per_minute ''links_owner_read'' uid 240) (
     bindA (listPaymentLinks uid 50) (\<lambda>links. ret (respond 200 (JObj [(''links'', JArr (map publicLink links))])))))"

definition getLink :: "viem \<Rightarrow> http_request \<Rightarrow> string \<Rightarrow> http_response pact" where
  "getLink V rq linkId = limited V rq (per_minute ''links_public_read'' (requestIdentity rq @ '':'' @ linkId) 240) (
     bindA (getPaymentLink linkId) (\<lambda>link. case link of
       None \<Rightarrow> ret (respond_error rq 404 ''Link not found'' ''LINK_NOT_FOUND'')
     | Some l \<Rightarrow> ret (respond 200 (publicLink l))))"

end
