(* ===== verification/Dashboard.thy ===== *)
theory Dashboard
  imports MerchantApi
begin

text \<open>
  The dashboard of a signed-in merchant (\<^verbatim>\<open>routes/merchant.routes.ts\<close>): its API keys, webhook endpoints,
  intents, events and deliveries, and the sandbox.
\<close>

definition not_configured :: "http_request \<Rightarrow> http_response" where
  "not_configured rq = respond_error rq 409 ''Merchant is not configured'' ''MERCHANT_NOT_CONFIGURED''"

definition merchant_json :: "merchant \<Rightarrow> json" where
  "merchant_json m = JObj [(''id'', JStr (m_id m)), (''ownerUid'', JStr (m_ownerUid m)),
     (''displayName'', JStr (m_displayName m)), (''settlementWallet'', JStr (m_settlementWallet m)),
     (''settlementChainId'', JInt (m_settlementChainId m)), (''accountVersion'', JInt (m_accountVersion m)),
     (''status'', JStr (case m_status m of MerchantActive \<Rightarrow> ''active'' | MerchantDisabled \<Rightarrow> ''disabled'')),
     (''createdAt'', JInt (m_createdAt m)), (''updatedAt'', JInt (m_updatedAt m))]"

definition capabilities_json :: "mode_capabilities \<Rightarrow> json" where
  "capabilities_json c = JObj [
     (''settlement'', JObj [(''chainId'', jopt JInt (mc_chainId c)), (''name'', jopt JStr (mc_name c)),
       (''isTestnet'', jopt JBool (mc_isTestnet c))]),
     (''modes'', JObj [(''test'', JObj [(''enabled'', JBool True)]),
       (''live'', JObj [(''enabled'', JBool (mc_live_enabled c)), (''reason'', jopt (\<lambda>r. JStr (live_reason_text r)) (mc_live_reason c))])])]"

definition getProfile :: "http_request \<Rightarrow> string \<Rightarrow> http_response pact" where
  "getProfile rq uid = bindA (getMerchantByOwner uid) (\<lambda>found. ret (case found of
       None \<Rightarrow> respond_error rq 404 ''Merchant is not configured'' ''MERCHANT_NOT_CONFIGURED''
     | Some m \<Rightarrow> respond 200 (spread (merchant_json m) [(''name'', JStr (m_displayName m)), (''created_at'', JInt (m_createdAt m))])))"

definition getCapabilities :: "bindings \<Rightarrow> string \<Rightarrow> http_response pact" where
  "getCapabilities env uid = bindA (getMerchantByOwner uid) (\<lambda>found.
     ret (respond 200 (capabilities_json (paymentModeCapabilities env (map_option m_settlementChainId found)))))"

text \<open>The handler of the owner's merchant, or the response when there is none.\<close>

definition with_merchant :: "string \<Rightarrow> http_response \<Rightarrow> (merchant \<Rightarrow> http_response pact) \<Rightarrow> http_response pact" where
  "with_merchant uid missing handler = bindA (getMerchantByOwner uid) (\<lambda>found. case found of
       None \<Rightarrow> ret missing | Some m \<Rightarrow> handler m)"

definition liveModeUnavailable :: "bindings \<Rightarrow> http_request \<Rightarrow> mode \<Rightarrow> int \<Rightarrow> http_response option" where
  "liveModeUnavailable env rq md settlementChainId = (if md \<noteq> Live then None
     else let caps = paymentModeCapabilities env (Some settlementChainId) in
       if mc_live_enabled caps then None else Some (live_unavailable rq caps))"

definition mode_of :: "(string \<times> json) list \<Rightarrow> mode" where
  "mode_of body = (if jget body ''mode'' = Some (JStr ''live'') then Live else Test)"

subsection \<open>API keys\<close>

definition postKey :: "viem \<Rightarrow> bindings \<Rightarrow> http_request \<Rightarrow> string \<Rightarrow> http_response pact" where
  "postKey V env rq uid = with_merchant uid (not_configured rq) (\<lambda>m. bindA (read_body rq) (\<lambda>body.
     case liveModeUnavailable env rq (mode_of body) (m_settlementChainId m) of
       Some resp \<Rightarrow> ret resp
     | None \<Rightarrow> bindA (liftE (shortText (jget body ''name'') 80 ''Default'')) (\<lambda>name.
         bindA (createApiKey V (m_id m) (mode_of body) name) (\<lambda>(secret, k).
         ret (respond 201 (JObj [(''id'', JStr (ak_id k)), (''key'', JStr secret), (''secret'', JStr secret),
           (''prefix'', JStr (ak_prefix k)), (''mode'', JStr (mode_text (ak_mode k))), (''name'', JStr (ak_name k)),
           (''created_at'', JInt (ak_createdAt k))]))))))"

definition key_json :: "api_key_row \<Rightarrow> json" where
  "key_json k = JObj [(''id'', JStr (ak_id k)), (''prefix'', JStr (ak_prefix k)), (''mode'', JStr (mode_text (ak_mode k))),
     (''name'', JStr (ak_name k)), (''last_used_at'', jopt JInt (ak_lastUsedAt k)),
     (''revoked'', JBool (ak_revokedAt k \<noteq> None)), (''created_at'', JInt (ak_createdAt k))]"

definition no_data :: http_response where
  "no_data = respond 200 (JObj [(''data'', JArr [])])"

definition getKeys :: "string \<Rightarrow> http_response pact" where
  "getKeys uid = with_merchant uid no_data (\<lambda>m.
     bindA (listApiKeys (m_id m)) (\<lambda>ks. ret (respond 200 (JObj [(''data'', JArr (map key_json ks))]))))"

definition deleteKey :: "http_request \<Rightarrow> string \<Rightarrow> string \<Rightarrow> http_response pact" where
  "deleteKey rq uid x = (let missing = respond_error rq 404 ''API key not found'' ''INVALID_API_KEY'' in
     with_merchant uid missing (\<lambda>m. bindA (revokeApiKey (m_id m) x) (\<lambda>ok. ret (if \<not> ok then missing
       else respond 200 (JObj [(''id'', JStr x), (''revoked'', JBool True)])))))"

subsection \<open>Webhook endpoints\<close>

fun split_on :: "char \<Rightarrow> string \<Rightarrow> string list" where
  "split_on sep [] = [[]]"
| "split_on sep (c # s) = (if c = sep then [] # split_on sep s
     else (case split_on sep s of [] \<Rightarrow> [[c]] | w # ws \<Rightarrow> (c # w) # ws))"

text \<open>The pattern \<^verbatim>\<open>^\d{1,3}(?:\.\d{1,3}){3}$\<close>.\<close>

definition ipv4_text :: "string \<Rightarrow> bool" where
  "ipv4_text s \<longleftrightarrow> (let ps = split_on (CHR ''.'') s in
     length ps = 4 \<and> list_all (\<lambda>p. 1 \<le> length p \<and> length p \<le> 3 \<and> list_all is_digit p) ps)"

definition webhookUrl :: "viem \<Rightarrow> json option \<Rightarrow> err + string" where
  "webhookUrl V value = (case value of
       Some (JStr s) \<Rightarrow> (case v_parseUrl V s of
           None \<Rightarrow> Inl (ExternalError ''TypeError'')
         | Some u \<Rightarrow> if u_protocol u \<noteq> ''https:'' \<or> u_username u \<noteq> [] \<or> u_password u \<noteq> [] \<or> u_port u \<noteq> [] \<or>
               u_hostname u = ''localhost'' \<or> ipv4_text (u_hostname u) \<or> CHR '':'' \<in> set (u_hostname u)
             then Inl (Thrown ''Invalid webhook URL'') else Inr (u_text u))
     | _ \<Rightarrow> Inl (Thrown ''Invalid webhook URL''))"

definition webhook_request :: "viem \<Rightarrow> http_request \<Rightarrow> ((string \<times> json) list \<times> string) option pact" where
  "webhook_request V rq = catchA (bindA (read_body rq) (\<lambda>body.
       bindA (liftE (webhookUrl V (jget body ''url''))) (\<lambda>url. ret (Some (body, url)))))
     (\<lambda>_. ret None)"

text \<open>Only a list of texts selects events, at most its first twenty.\<close>

definition selected_events :: "json option \<Rightarrow> string list option" where
  "selected_events value = (case value of
       Some (JArr xs) \<Rightarrow> if list_all (\<lambda>x. case x of JStr s \<Rightarrow> True | _ \<Rightarrow> False) xs
         then Some (map js_String (take 20 xs)) else None
     | _ \<Rightarrow> None)"

definition events_json :: "string list option \<Rightarrow> json" where
  "events_json es = jopt (\<lambda>xs. JArr (map JStr xs)) es"

definition active_text :: "bool \<Rightarrow> string" where
  "active_text b = (if b then ''active'' else ''disabled'')"

definition postWebhook :: "viem \<Rightarrow> bindings \<Rightarrow> http_request \<Rightarrow> string \<Rightarrow> http_response pact" where
  "postWebhook V env rq uid = with_merchant uid (not_configured rq) (\<lambda>m.
     bindA (webhook_request V rq) (\<lambda>parsed. case parsed of
       None \<Rightarrow> ret (respond_error rq 400 ''Webhook URL must be a public HTTPS URL'' ''INVALID_WEBHOOK_URL'')
     | Some (body, url) \<Rightarrow> (case liveModeUnavailable env rq (mode_of body) (m_settlementChainId m) of
         Some resp \<Rightarrow> ret resp
       | None \<Rightarrow> bindA (createWebhookEndpoint V env (m_id m) url (mode_of body) (selected_events (jget body ''events'')))
           (\<lambda>(secret, e). ret (respond 201 (JObj [(''id'', JStr (ep_id e)), (''url'', JStr (ep_url e)), (''secret'', JStr secret),
             (''mode'', JStr (mode_text (ep_mode e))), (''events'', events_json (ep_enabledEvents e)),
             (''status'', JStr (active_text (ep_active e))), (''created_at'', JInt (ep_createdAt e))]))))))"

definition endpoint_json :: "endpoint_row \<Rightarrow> json" where
  "endpoint_json e = JObj [(''id'', JStr (ep_id e)), (''url'', JStr (ep_url e)), (''mode'', JStr (mode_text (ep_mode e))),
     (''events'', events_json (ep_enabledEvents e)), (''status'', JStr (active_text (ep_active e))),
     (''created_at'', JInt (ep_createdAt e))]"

definition getWebhooks :: "string \<Rightarrow> http_response pact" where
  "getWebhooks uid = with_merchant uid no_data (\<lambda>m.
     bindA (listWebhookEndpoints (m_id m)) (\<lambda>es. ret (respond 200 (JObj [(''data'', JArr (map endpoint_json es))]))))"

definition deleteWebhook :: "http_request \<Rightarrow> string \<Rightarrow> string \<Rightarrow> http_response pact" where
  "deleteWebhook rq uid x = (let missing = respond_error rq 404 ''Webhook not found'' ''OPERATION_NOT_FOUND'' in
     with_merchant uid missing (\<lambda>m. bindA (disableWebhookEndpoint (m_id m) x) (\<lambda>ok. ret (if \<not> ok then missing
       else respond 200 (JObj [(''id'', JStr x), (''disabled'', JBool True)])))))"

subsection \<open>Pages of intents and events\<close>

record page_query =
  pq_limit :: "string option"
  pq_startingAfter :: "string option"
  pq_status :: "string option"
  pq_mode :: "string option"

definition page_limit :: "string option \<Rightarrow> nat" where
  "page_limit text = (case text of None \<Rightarrow> 100 | Some s \<Rightarrow> (case js_Number s of None \<Rightarrow> 100
     | Some n \<Rightarrow> if isSafeInteger n then nat (max 1 (min n 100)) else 100))"

definition INTENT_STATUSES :: "intent_status list" where
  "INTENT_STATUSES = [AwaitingPayment, IntentProcessing, IntentPaid, IntentOverpaid, IntentCanceled, IntentExpired, IntentFailed]"

definition status_filter :: "string option \<Rightarrow> intent_status option" where
  "status_filter text = (case text of None \<Rightarrow> None | Some s \<Rightarrow> find (\<lambda>t. intent_status_text t = s) INTENT_STATUSES)"

definition mode_filter :: "string option \<Rightarrow> mode option" where
  "mode_filter text = (if text = Some ''test'' then Some Test else if text = Some ''live'' then Some Live else None)"

text \<open>One row more than the page is read, to see whether there is a next page.\<close>

definition page_response :: "nat \<Rightarrow> ('r \<Rightarrow> json) \<Rightarrow> 'r list \<Rightarrow> http_response" where
  "page_response limit view rows = respond 200 (JObj [(''data'', JArr (map view (take limit rows))),
     (''has_more'', JBool (limit < length rows))])"

definition getIntents :: "string \<Rightarrow> page_query \<Rightarrow> http_response pact" where
  "getIntents uid pq = with_merchant uid (page_response 0 publicIntent []) (\<lambda>m. let limit = page_limit (pq_limit pq) in
     bindA (listPaymentIntents (m_id m) (limit + 1) \<lparr>li_startingAfter = pq_startingAfter pq,
       li_status = status_filter (pq_status pq), li_mode = mode_filter (pq_mode pq)\<rparr>) (\<lambda>rows.
     ret (page_response limit publicIntent rows)))"

definition getIntent :: "bindings \<Rightarrow> http_request \<Rightarrow> string \<Rightarrow> string \<Rightarrow> http_response pact" where
  "getIntent env rq uid x = bindA (getMerchantByOwner uid) (\<lambda>found. bindA (getPaymentIntent x) (\<lambda>intent.
     case (found, intent) of
       (Some m, Some i) \<Rightarrow> if i_merchantId i \<noteq> m_id m then ret (intentNotFound rq)
         else bindA (getPaymentIntentFeeBreakdown (i_id i)) (\<lambda>fees.
           ret (respond 200 (spread (publicIntent i) [
             (''checkout_url'', if truthy (i_linkId i) then JStr (checkout_url env (the (i_linkId i))) else JNull),
             (''fee_breakdown'', publicFeeBreakdown fees), (''onchain'', JNull)])))
     | _ \<Rightarrow> ret (intentNotFound rq)))"

definition getEvents :: "string \<Rightarrow> page_query \<Rightarrow> http_response pact" where
  "getEvents uid pq = with_merchant uid (page_response 0 event_json []) (\<lambda>m. let limit = page_limit (pq_limit pq) in
     bindA (listEvents (m_id m) (limit + 1) (pq_startingAfter pq)) (\<lambda>es.
     ret (page_response limit event_json es)))"

subsection \<open>Deliveries\<close>

definition delivery_status_text :: "delivery_status \<Rightarrow> string" where
  "delivery_status_text s = (case s of WdPending \<Rightarrow> ''pending'' | WdProcessing \<Rightarrow> ''processing''
     | WdDelivered \<Rightarrow> ''delivered'' | WdFailed \<Rightarrow> ''failed'' | WdDead \<Rightarrow> ''dead'')"

definition delivery_json :: "delivery_row \<times> event_row \<times> endpoint_row \<Rightarrow> json" where
  "delivery_json x = (case x of (d, e, w) \<Rightarrow> JObj [(''id'', JStr (wd_id d)), (''eventId'', JStr (wd_eventId d)),
     (''endpointId'', JStr (wd_endpointId d)), (''eventType'', JStr (ev_type e)), (''url'', JStr (ep_url w)),
     (''status'', JStr (delivery_status_text (wd_status d))), (''attempt'', JInt (wd_attemptCount d)),
     (''attemptCount'', JInt (wd_attemptCount d)), (''nextRetryAt'', JInt (wd_nextRetryAt d)),
     (''responseCode'', jopt JInt (wd_lastStatusCode d)), (''lastStatusCode'', jopt JInt (wd_lastStatusCode d)),
     (''lastError'', jopt JStr (wd_lastError d)), (''deliveredAt'', jopt JInt (wd_deliveredAt d)),
     (''createdAt'', JInt (wd_createdAt d))])"

definition getDeliveries :: "string \<Rightarrow> http_response pact" where
  "getDeliveries uid = with_merchant uid no_data (\<lambda>m.
     bindA (listWebhookDeliveries (m_id m) 100) (\<lambda>ds. ret (respond 200 (JObj [(''data'', JArr (map delivery_json ds))]))))"

definition postResend :: "services \<Rightarrow> bindings \<Rightarrow> http_request \<Rightarrow> string \<Rightarrow> string \<Rightarrow> http_response pact" where
  "postResend sv env rq uid x = (let missing = respond_error rq 404 ''Delivery not found'' ''OPERATION_NOT_FOUND'' in
     with_merchant uid missing (\<lambda>m. bindA (resendWebhookDelivery (m_id m) x) (\<lambda>ok. if \<not> ok then ret missing
       else bindA randomUUID (\<lambda>u. bindA (enqueuePaymentJob sv env \<lparr>ji_job = WebhookDelivery, ji_resourceId = x,
           ji_dedupeKey = Some (''webhook_manual:'' @ x @ '':'' @ u), ji_partition = None, ji_delaySeconds = None\<rparr>) (\<lambda>_.
         ret (respond 200 (JObj [(''id'', JStr x), (''queued'', JBool True)])))))))"

subsection \<open>The sandbox\<close>

definition postCharge :: "viem \<Rightarrow> bindings \<Rightarrow> http_request \<Rightarrow> string \<Rightarrow> http_response pact" where
  "postCharge V env rq uid = with_merchant uid (not_configured rq) (\<lambda>m. bindA (read_body rq) (\<lambda>body.
     bindA (liftE (amount V (jget body ''amount''))) (\<lambda>amt.
     bindA date_now (\<lambda>now. bindA (liftE (intent_details V now body (jget body ''expires_at''))) (\<lambda>det.
     bindA (createIntentAndLink (new_intent_input m amt None det None Test)) (\<lambda>created.
     ret (respond 201 (spread (publicIntent (cr_intent created))
       [(''checkout_url'', JStr (checkout_url env (l_id (cr_link created))))]))))))))"

definition postSandboxPayment :: "services \<Rightarrow> bindings \<Rightarrow> http_request \<Rightarrow> string \<Rightarrow> string \<Rightarrow> http_response pact" where
  "postSandboxPayment sv env rq uid x = bindA (getMerchantByOwner uid) (\<lambda>found.
     bindA (case found of None \<Rightarrow> ret None | Some m \<Rightarrow> simulatePaymentIntent (m_id m) x) (\<lambda>intent. case intent of
       None \<Rightarrow> ret (respond_error rq 409 ''Test intent is not payable'' ''INTENT_NOT_PAYABLE'')
     | Some i \<Rightarrow> bindA (flushPaymentOutbox sv env 10) (\<lambda>_. ret (respond 200 (publicIntent i)))))"

datatype dashboard_route =
    Profile | Capabilities | PostKey | GetKeys | DeleteKey string | PostWebhook | GetWebhooks | DeleteWebhook string
  | GetIntents page_query | GetMerchantIntent string | GetEvents page_query | GetDeliveries | PostResend string
  | PostCharge | PostSandboxPayment string

definition dashboard_handler ::
    "viem \<Rightarrow> services \<Rightarrow> bindings \<Rightarrow> http_request \<Rightarrow> dashboard_route \<Rightarrow> http_response pact" where
  "dashboard_handler V sv env rq route = requireAuth rq (\<lambda>uid. limited V rq (per_minute ''dashboard'' uid 300) (case route of
       Profile \<Rightarrow> getProfile rq uid
     | Capabilities \<Rightarrow> getCapabilities env uid
     | PostKey \<Rightarrow> postKey V env rq uid
     | GetKeys \<Rightarrow> getKeys uid
     | DeleteKey x \<Rightarrow> deleteKey rq uid x
     | PostWebhook \<Rightarrow> postWebhook V env rq uid
     | GetWebhooks \<Rightarrow> getWebhooks uid
     | DeleteWebhook x \<Rightarrow> deleteWebhook rq uid x
     | GetIntents pq \<Rightarrow> getIntents uid pq
     | GetMerchantIntent x \<Rightarrow> getIntent env rq uid x
     | GetEvents pq \<Rightarrow> getEvents uid pq
     | GetDeliveries \<Rightarrow> getDeliveries uid
     | PostResend x \<Rightarrow> postResend sv env rq uid x
     | PostCharge \<Rightarrow> postCharge V env rq uid
     | PostSandboxPayment x \<Rightarrow> postSandboxPayment sv env rq uid x))"

end
