(* ===== verification/Cutover.thy ===== *)
theory Cutover
  imports RouterHealth Webhooks "HOL-Library.Word"
begin

unbundle bit_operations_syntax

text \<open>
  The gates of the writes (\<^verbatim>\<open>services/bootstrap.ts\<close>, \<^verbatim>\<open>services/dataCutover.ts\<close>), the operator's
  view of the database (\<^verbatim>\<open>stores/opsStore.ts\<close>) and the health routes of \<^verbatim>\<open>index.ts\<close>.
\<close>

subsection \<open>Bootstrap\<close>

record bootstrap_state =
  bs_active :: bool
  bs_configuredValue :: "string option"
  bs_valid :: bool

definition normal_flag :: "string option \<Rightarrow> string option" where
  "normal_flag value = (case value of None \<Rightarrow> None
     | Some s \<Rightarrow> (let t = toLowerCase (trim s) in if t = [] then None else Some t))"

definition paymentsBootstrapState :: "bindings \<Rightarrow> bootstrap_state" where
  "paymentsBootstrapState env = (let configured = normal_flag (e_bootstrapMode env) in
     if configured = Some ''false'' then \<lparr>bs_active = False, bs_configuredValue = configured, bs_valid = True\<rparr>
     else if configured = Some ''true'' \<or> configured = None
     then \<lparr>bs_active = True, bs_configuredValue = configured, bs_valid = True\<rparr>
     else \<lparr>bs_active = True, bs_configuredValue = configured, bs_valid = False\<rparr>)"

subsection \<open>The data cutover\<close>

definition paymentMigrationControl :: "migration_row option pact" where
  "paymentMigrationControl = dbq db_migration"

datatype cutover_reason =
    ConfiguredChecksumPending | ConfiguredChecksumInvalid | MigrationControlUnavailable | MigrationControlMissing
  | MigrationIncomplete | MigrationChecksumInvalid | MigrationChecksumMismatch | CutoverVerified

datatype cutover_status = StatusVerified | StatusPending | StatusInvalid

record cutover_state =
  cs_ready :: bool
  cs_status :: cutover_status
  cs_configValid :: bool
  cs_databaseValid :: bool
  cs_reason :: cutover_reason

definition sha256_hex_ok :: "string \<Rightarrow> bool" where
  "sha256_hex_ok s \<longleftrightarrow> length s = 64 \<and> list_all is_hex_lower s"

definition normalizeChecksum :: "string option \<Rightarrow> string option" where
  "normalizeChecksum value = normal_flag value"

definition trimmed :: "string option \<Rightarrow> string" where
  "trimmed value = (case value of None \<Rightarrow> [] | Some s \<Rightarrow> trim s)"

definition classifyPaymentsDataCutover :: "string option \<Rightarrow> migration_row option \<Rightarrow> cutover_state" where
  "classifyPaymentsDataCutover configuredChecksum control = (let expected = normalizeChecksum configuredChecksum in
     if expected = Some ''pending''
     then \<lparr>cs_ready = False, cs_status = StatusPending, cs_configValid = True, cs_databaseValid = False,
         cs_reason = ConfiguredChecksumPending\<rparr>
     else if (case expected of None \<Rightarrow> True | Some e \<Rightarrow> \<not> sha256_hex_ok e)
     then \<lparr>cs_ready = False, cs_status = StatusInvalid, cs_configValid = False, cs_databaseValid = False,
         cs_reason = ConfiguredChecksumInvalid\<rparr>
     else (case control of
         None \<Rightarrow> \<lparr>cs_ready = False, cs_status = StatusInvalid, cs_configValid = True, cs_databaseValid = True,
           cs_reason = MigrationControlMissing\<rparr>
       | Some m \<Rightarrow>
           if mg_copyVersion m \<noteq> 1 \<or> trimmed (mg_completedAt m) = []
           then \<lparr>cs_ready = False, cs_status = StatusPending, cs_configValid = True, cs_databaseValid = True,
             cs_reason = MigrationIncomplete\<rparr>
           else let source = toLowerCase (trimmed (mg_sourceChecksum m)); target = toLowerCase (trimmed (mg_targetChecksum m)) in
             if \<not> sha256_hex_ok source \<or> \<not> sha256_hex_ok target
             then \<lparr>cs_ready = False, cs_status = StatusInvalid, cs_configValid = True, cs_databaseValid = True,
               cs_reason = MigrationChecksumInvalid\<rparr>
             else if source \<noteq> target \<or> Some source \<noteq> expected
             then \<lparr>cs_ready = False, cs_status = StatusInvalid, cs_configValid = True, cs_databaseValid = True,
               cs_reason = MigrationChecksumMismatch\<rparr>
             else \<lparr>cs_ready = True, cs_status = StatusVerified, cs_configValid = True, cs_databaseValid = True,
               cs_reason = CutoverVerified\<rparr>))"

definition paymentsDataCutoverState :: "bindings \<Rightarrow> cutover_state pact" where
  "paymentsDataCutoverState env = (let configured = classifyPaymentsDataCutover (e_cutoverChecksum env) None in
     if \<not> cs_configValid configured \<or> cs_reason configured = ConfiguredChecksumPending then ret configured
     else catchA (bindA paymentMigrationControl (\<lambda>control.
         ret (classifyPaymentsDataCutover (e_cutoverChecksum env) control)))
       (\<lambda>_. ret \<lparr>cs_ready = False, cs_status = StatusInvalid, cs_configValid = True, cs_databaseValid = False,
         cs_reason = MigrationControlUnavailable\<rparr>))"

datatype write_reason = WritesReady | BootstrapActive | BootstrapInvalid | CutoverBlocked cutover_reason

record write_availability =
  wa_available :: bool
  wa_bootstrap :: bootstrap_state
  wa_dataCutover :: "cutover_state option"
  wa_reason :: write_reason

definition paymentsWriteAvailability :: "bindings \<Rightarrow> write_availability pact" where
  "paymentsWriteAvailability env = (let b = paymentsBootstrapState env in
     if \<not> bs_valid b
     then ret \<lparr>wa_available = False, wa_bootstrap = b, wa_dataCutover = None, wa_reason = BootstrapInvalid\<rparr>
     else if bs_active b
     then ret \<lparr>wa_available = False, wa_bootstrap = b, wa_dataCutover = None, wa_reason = BootstrapActive\<rparr>
     else bindA (paymentsDataCutoverState env) (\<lambda>c.
       ret \<lparr>wa_available = cs_ready c, wa_bootstrap = b, wa_dataCutover = Some c,
         wa_reason = (if cs_ready c then WritesReady else CutoverBlocked (cs_reason c))\<rparr>))"

subsection \<open>The operator's view\<close>

record ops_counts =
  oc_activeAttempts :: nat
  oc_pendingWebhooks :: nat
  oc_pendingOutbox :: nat
  oc_activeJobLeases :: nat
  oc_openReorgIncidents :: nat
  oc_pendingFeeEvidence :: nat
  oc_webhookKeysPendingRotation :: nat

definition ops_counts_of :: "string \<Rightarrow> pdb \<Rightarrow> ops_counts" where
  "ops_counts_of keyId d = \<lparr>oc_activeAttempts = hits (\<lambda>a. active_status (a_status a)) (db_attempts d),
     oc_pendingWebhooks = hits (\<lambda>r. wd_status r \<in> {WdPending, WdProcessing, WdFailed}) (db_deliveries d),
     oc_pendingOutbox = hits (\<lambda>r. ob_status r \<in> {ObPending, ObEnqueued, ObFailed}) (db_outbox d),
     oc_activeJobLeases = hits (\<lambda>r. jr_status r = JobProcessing) (db_jobs d),
     oc_openReorgIncidents = hits ri_open (db_incidents d),
     oc_pendingFeeEvidence = hits (\<lambda>f. fl_status f = FeeQuoted) (db_fees d),
     oc_webhookKeysPendingRotation = hits (\<lambda>e. ep_keyId e \<noteq> keyId) (db_endpoints d)\<rparr>"

definition paymentOpsCounts :: "bindings \<Rightarrow> ops_counts pact" where
  "paymentOpsCounts env = dbq (ops_counts_of (case e_webhookKeyId env of None \<Rightarrow> [] | Some k \<Rightarrow> k))"

definition paymentDatabaseAvailable :: "bool pact" where
  "paymentDatabaseAvailable = catchA (bindA (dbq (\<lambda>d. ())) (\<lambda>_. ret True)) (\<lambda>_. ret False)"

definition cleanup_stmt :: "int \<Rightarrow> pdb stmt" where
  "cleanup_stmt before = (let p = (\<lambda>r. rl_windowStart r < before) in
     plain (\<lambda>d. (d\<lparr>db_rates := filter (\<lambda>r. \<not> p r) (db_rates d)\<rparr>, hits p (db_rates d))))"

definition cleanupExpiredRateLimits :: "int \<Rightarrow> unit pact" where
  "cleanupExpiredRateLimits beforeEpochSeconds = bindA (dbx (cleanup_stmt beforeEpochSeconds)) (\<lambda>_. ret ())"

definition listActivePaymentChainIds :: "int list pact" where
  "listActivePaymentChainIds = dbq (\<lambda>d. remdups (map a_sourceChainId (filter (\<lambda>a. active_status (a_status a)) (db_attempts d))))"

subsection \<open>Health\<close>

text \<open>The bytes of the two digests are compared without an early exit.\<close>

fun mismatch :: "8 word \<Rightarrow> 8 word list \<Rightarrow> 8 word list \<Rightarrow> 8 word" where
  "mismatch m (x # xs) (y # ys) = mismatch (m OR (x XOR y)) xs ys"
| "mismatch m _ _ = m"

definition equalDigest :: "8 word list \<Rightarrow> 8 word list \<Rightarrow> bool" where
  "equalDigest left right \<longleftrightarrow> (if length left \<noteq> length right then False else mismatch 0 left right = 0)"

definition digest_bytes :: "viem \<Rightarrow> string \<Rightarrow> 8 word list" where
  "digest_bytes V s = map (\<lambda>c. of_nat (ccode c)) (v_sha256 V s)"

definition validOpsHealthToken :: "viem \<Rightarrow> string option \<Rightarrow> string option \<Rightarrow> bool pact" where
  "validOpsHealthToken V provided expected = (case (provided, expected) of
       (Some p, Some e) \<Rightarrow> if p = [] \<or> length e < 32 then ret False
         else bindA (extcall (\<lambda>t. Some (digest_bytes V p)) ''digest'') (\<lambda>providedHash.
           bindA (extcall (\<lambda>t. Some (digest_bytes V e)) ''digest'') (\<lambda>expectedHash.
           ret (equalDigest providedHash expectedHash)))
     | _ \<Rightarrow> ret False)"

record health_report =
  he_ready :: bool
  he_degraded :: bool

definition getHealth :: "viem \<Rightarrow> services \<Rightarrow> bindings \<Rightarrow> health_report pact" where
  "getHealth V sv env = (let b = paymentsBootstrapState env in
     bindA paymentDatabaseAvailable (\<lambda>database.
     bindA (paymentsDataCutoverState env) (\<lambda>c.
     let signerOk = (case e_authorizationSignerKey env of None \<Rightarrow> False | Some k \<Rightarrow> private_key_ok k) in
     bindA (liftE (validatePaymentRouterPreflightConfig V env)) (\<lambda>routerIssues.
     bindA (collectPaymentRouterHealth V sv env None) (\<lambda>router.
     let ready = \<not> bs_active b \<and> bs_valid b \<and> cs_ready c \<and> database \<and> signerOk \<and> e_queueAvailable env \<and>
           e_schedulerAvailable env \<and> validatePaymentFeePolicyConfig V env = [] \<and> routerIssues = [] \<and>
           validateWebhookEncryptionConfig V env = [] \<and> rh_status router \<noteq> HealthError
     in ret \<lparr>he_ready = ready, he_degraded = (ready \<and> rh_status router = HealthDegraded)\<rparr>)))))"

end
