(* ===== verification/CctpMint.thy ===== *)
theory CctpMint
  imports Reconciliation
begin

text \<open>
  The second half of a CCTP payment (\<^verbatim>\<open>services/reconciliation.ts\<close>): waiting for Circle's attestation of
  the burn, minting on the settlement chain under the relayer's lease, recovering a mint somebody else sent, and the
  settlement of the payment.
\<close>

subsection \<open>Attestation\<close>

text \<open>
  A message of Circle's answer that attests the burn of this attempt; reading its amount may fail.
\<close>

definition message_fits :: "network \<Rightarrow> network \<Rightarrow> payment_attempt \<Rightarrow> payment_intent \<Rightarrow> circle_message \<Rightarrow> err + bool" where
  "message_fits source destination a i m = (
     if cm_cctpVersion m = 2 \<and> cm_status m = ''complete'' \<and> hex_ok (cm_message m) \<and> hex_ok (cm_attestation m) \<and>
       cm_sourceDomain m = Some (string_of_int (n_cctpDomain source)) \<and>
       cm_destinationDomain m = Some (string_of_int (n_cctpDomain destination)) \<and>
       sameAddress (cm_burnToken m) (n_usdc source) \<and>
       sameAddress (cm_mintRecipient m) (i_settlementWallet i) \<and>
       sameAddress (cm_messageSender m) (a_routerAddress a)
     then (case to_BigInt (case cm_amount m of None \<Rightarrow> ''0'' | Some x \<Rightarrow> x) of
         None \<Rightarrow> Inl (ExternalError ''BigInt'') | Some n \<Rightarrow> Inr (a_settlementAmountAtomic a \<le> n))
     else Inr False)"

fun find_message :: "(circle_message \<Rightarrow> err + bool) \<Rightarrow> circle_message list \<Rightarrow> err + circle_message option" where
  "find_message p [] = Inr None"
| "find_message p (m # ms) = bindE (p m) (\<lambda>ok. if ok then Inr (Some m) else find_message p ms)"

definition minted_amount :: "circle_message \<Rightarrow> err + int" where
  "minted_amount m = (case cm_amount m of None \<Rightarrow> Inl (ExternalError ''BigInt'')
     | Some x \<Rightarrow> (case to_BigInt x of None \<Rightarrow> Inl (ExternalError ''BigInt'') | Some n \<Rightarrow> Inr n))"

text \<open>The checks between Circle's answer and the first write: the minted amount and the network fee.\<close>

definition attested_amounts :: "viem \<Rightarrow> cctp_row \<Rightarrow> payment_attempt \<Rightarrow> circle_message \<Rightarrow> err + int \<times> int" where
  "attested_amounts V op a m = (
     if (case cc_messageHash op of None \<Rightarrow> False
       | Some h \<Rightarrow> h \<noteq> [] \<and> toLowerCase (v_keccak256 V (cm_message m)) \<noteq> toLowerCase h)
     then Inl (Thrown ''Circle message does not match the source MessageSent event'')
     else (case (cc_burnAmountAtomic op, cc_platformFeeAtomic op) of
         (Some burned, Some platformFee) \<Rightarrow> bindE (minted_amount m) (\<lambda>minted.
           let networkFee = burned - minted in
           if networkFee < 0 \<or> a_cctpFeeAtomic a < networkFee
           then Inl (Thrown ''Circle message fee does not match the signed quote'')
           else Inr (minted, networkFee))
       | _ \<Rightarrow> Inl (Thrown ''CCTP burn economic evidence is incomplete'')))"

definition mint_job :: "viem \<Rightarrow> cctp_row \<Rightarrow> circle_message \<Rightarrow> job_input" where
  "mint_job V op m = \<lparr>ji_job = CctpMint, ji_resourceId = cc_opId op,
     ji_dedupeKey = Some (''cctp-mint:'' @ cc_opId op @ '':'' @ v_keccak256 V (cm_message m)),
     ji_partition = Some (string_of_int (cc_destinationChainId op)), ji_delaySeconds = None\<rparr>"

definition attested_update :: "circle_message \<Rightarrow> int \<Rightarrow> int \<Rightarrow> string \<Rightarrow> operation_update" where
  "attested_update m minted networkFee nonce = (status_update Minting)\<lparr>up_message := Some (cm_message m),
     up_attestation := Some (cm_attestation m), up_networkFeeAtomic := Some networkFee,
     up_messageNonce := Some nonce, up_mintedAmountAtomic := Some minted\<rparr>"

definition advanceCctpAttestation :: "viem \<Rightarrow> services \<Rightarrow> bindings \<Rightarrow> string \<Rightarrow> bool pact" where
  "advanceCctpAttestation V sv env opId =
     bindA (getCrosschainOperation opId) (\<lambda>op.
     if cc_status op = CctpSettled then ret True
     else (case cc_sourceTxHash op of None \<Rightarrow> ret False
     | Some sourceTx \<Rightarrow> if sourceTx = [] then ret False else
       bindA (getAttempt (cc_attemptId op)) (\<lambda>attempt.
       bindA (case attempt of None \<Rightarrow> ret None | Some a \<Rightarrow> getPaymentIntent (a_intentId a)) (\<lambda>intent.
       case (attempt, intent, getPaymentNetworkCapabilities (cc_sourceChainId op),
           getPaymentNetworkCapabilities (cc_destinationChainId op)) of
         (Some a, Some i, Some source, Some destination) \<Rightarrow>
           bindA (getCctpMessages sv (n_cctpDomain source) sourceTx) (\<lambda>answer. case answer of None \<Rightarrow> ret False
           | Some messages \<Rightarrow>
             bindA (liftE (find_message (message_fits source destination a i) messages)) (\<lambda>candidate. case candidate of
               None \<Rightarrow> ret False
             | Some m \<Rightarrow> bindA (liftE (attested_amounts V op a m)) (\<lambda>(minted, networkFee).
                 bindA (recordAttemptFeeEvidence (a_id a) (the (cc_platformFeeAtomic op)) (Some networkFee) sourceTx) (\<lambda>_.
                 bindA (liftE (cctpMessageNonce (cm_message m))) (\<lambda>nonce.
                 bindA (updateCrosschainOperation (cc_opId op) (attested_update m minted networkFee nonce)) (\<lambda>_.
                 bindA (enqueuePaymentJob sv env (mint_job V op m)) (\<lambda>_. ret True)))))))
       | _ \<Rightarrow> throw (Thrown ''CCTP operation configuration is incomplete'')))))"

subsection \<open>Finding a mint that already happened\<close>

definition nonceWasUsed :: "services \<Rightarrow> int \<Rightarrow> string \<Rightarrow> string \<Rightarrow> bool pact" where
  "nonceWasUsed sv c transmitter nonce =
     bindA (extcall (\<lambda>t. sv_usedNonce sv c transmitter nonce t) ''readContract'') (\<lambda>used. ret (used \<noteq> 0))"

record mint_search =
  ms_chainId :: int
  ms_transmitter :: string
  ms_nonce :: string
  ms_sourceDomain :: int

definition mint_receipt_ok :: "mint_search \<Rightarrow> chain_receipt \<Rightarrow> bool" where
  "mint_receipt_ok s r \<longleftrightarrow> list_ex (\<lambda>lg. sameAddress (Some (lg_address lg)) (ms_transmitter s) \<and>
     messageReceivedArgs lg (ms_nonce s) (ms_sourceDomain s)) (rc_logs r)"

definition confirmedMintTransaction :: "viem \<Rightarrow> services \<Rightarrow> bindings \<Rightarrow> mint_search \<Rightarrow> string \<Rightarrow> bool pact" where
  "confirmedMintTransaction V sv env s txHash =
     bindA (tryA (getTransactionReceipt sv (ms_chainId s) txHash)) (\<lambda>receipt. case receipt of None \<Rightarrow> ret False
     | Some r \<Rightarrow> if \<not> rc_success r then ret False
       else bindA (getBlockNumber sv (ms_chainId s)) (\<lambda>current.
         bindA (liftE (requiredConfirmations V env (ms_chainId s))) (\<lambda>required.
         ret (if current - rc_blockNumber r + 1 < required then False else mint_receipt_ok s r))))"

fun first_confirmed :: "viem \<Rightarrow> services \<Rightarrow> bindings \<Rightarrow> mint_search \<Rightarrow> chain_log list \<Rightarrow> string option pact" where
  "first_confirmed V sv env s [] = ret None"
| "first_confirmed V sv env s (lg # lgs) = (case lg_txHash lg of
       None \<Rightarrow> first_confirmed V sv env s lgs
     | Some tx \<Rightarrow> if tx = [] \<or> map_option snd (lg_messageReceived lg) \<noteq> Some (ms_sourceDomain s)
         then first_confirmed V sv env s lgs
         else bindA (confirmedMintTransaction V sv env s tx) (\<lambda>ok.
           if ok then ret (Some tx) else first_confirmed V sv env s lgs))"

definition recoverMintTransactionHash ::
    "viem \<Rightarrow> services \<Rightarrow> bindings \<Rightarrow> mint_search \<Rightarrow> string option \<Rightarrow> string option pact" where
  "recoverMintTransactionHash V sv env s storedHash =
     bindA (case storedHash of None \<Rightarrow> ret False
       | Some h \<Rightarrow> if h = [] \<or> \<not> hex_ok h then ret False else confirmedMintTransaction V sv env s h) (\<lambda>stored.
     if stored then ret storedHash
     else bindA (getBlockNumber sv (ms_chainId s)) (\<lambda>tip.
       bindA (extcall (\<lambda>t. sv_receivedLogs sv (ms_chainId s) (ms_transmitter s) (ms_nonce s) tip t) ''getLogs'') (\<lambda>logs.
       first_confirmed V sv env s (rev logs))))"

subsection \<open>Settling and broadcasting\<close>

definition cctp_settlement :: "cctp_row \<Rightarrow> payment_attempt \<Rightarrow> string \<Rightarrow> int \<Rightarrow> int \<Rightarrow> int \<Rightarrow> string \<Rightarrow> settle_input" where
  "cctp_settlement op a sourceTx platformFee networkFee minted destinationTxHash = \<lparr>st_attemptId = a_id a,
     st_sourceTxHash = sourceTx, st_destinationTxHash = Some destinationTxHash, st_settledAmountAtomic = minted,
     st_payerAddress = a_payerAddress a, st_platformFeeAtomic = Some platformFee, st_networkFeeAtomic = Some networkFee\<rparr>"

definition finalizeCctpSettlement ::
    "viem \<Rightarrow> services \<Rightarrow> bindings \<Rightarrow> cctp_row \<Rightarrow> payment_attempt \<Rightarrow> string \<Rightarrow> unit pact" where
  "finalizeCctpSettlement V sv env op a destinationTxHash =
     (case (cc_sourceTxHash op, cc_platformFeeAtomic op, cc_networkFeeAtomic op, cc_mintedAmountAtomic op) of
        (Some sourceTx, Some platformFee, Some networkFee, Some minted) \<Rightarrow>
          if sourceTx = [] then throw (Thrown ''CCTP settlement evidence is incomplete'')
          else bindA (settleAttempt V (cctp_settlement op a sourceTx platformFee networkFee minted destinationTxHash)) (\<lambda>_.
            bindA (updateCrosschainOperation (cc_opId op) ((status_update CctpSettled)
                \<lparr>up_destinationTxHash := Some destinationTxHash, up_mintedAmountAtomic := Some minted\<rparr>)) (\<lambda>_.
            bindA (flushPaymentOutbox sv env 10) (\<lambda>_. ret ())))
      | _ \<Rightarrow> throw (Thrown ''CCTP settlement evidence is incomplete''))"

definition broadcastPreparedMint :: "services \<Rightarrow> int \<Rightarrow> string \<Rightarrow> string \<Rightarrow> string \<Rightarrow> unit pact" where
  "broadcastPreparedMint sv c opId txHash raw =
     catchA
       (bindA (callA (SentRawTransaction c raw) (\<lambda>t. sv_sendRaw sv c raw t) ''sendRawTransaction'') (\<lambda>sentHash.
        if toLowerCase sentHash \<noteq> toLowerCase txHash
        then throw (Thrown ''CCTP RPC returned a different transaction hash'')
        else recordCrosschainMintBroadcast opId txHash))
       (\<lambda>error. catchA
         (bindA (extcall (\<lambda>t. sv_transactionKnown sv c txHash t) ''getTransaction'') (\<lambda>_.
          bindA (recordCrosschainMintBroadcast opId txHash) (\<lambda>_.
          recordCrosschainMintResult opId txHash MintPending)))
         (\<lambda>_. throw error))"

subsection \<open>The mint\<close>

text \<open>What runs under the signer's lease.\<close>

definition prepare_mint ::
    "viem \<Rightarrow> services \<Rightarrow> int \<Rightarrow> string \<Rightarrow> string \<Rightarrow> string \<Rightarrow> cctp_row \<Rightarrow> unit pact" where
  "prepare_mint V sv c transmitter nonce account op0 =
     bindA (getCrosschainOperation (cc_opId op0)) (\<lambda>op.
     if cc_destinationTxHash op \<noteq> None \<and> cc_destinationTxHash op \<noteq> Some [] then ret ()
     else bindA (nonceWasUsed sv c transmitter nonce) (\<lambda>used. if used then ret ()
     else (case (cc_message op, cc_attestation op) of
       (Some message, Some attestation) \<Rightarrow>
         bindA (extcall (\<lambda>t. sv_simulateMint sv c account message attestation t) ''simulateContract'') (\<lambda>_.
         bindA (extcall (\<lambda>t. sv_prepareMint sv c account message attestation t) ''prepareTransactionRequest'') (\<lambda>request.
         case request of None \<Rightarrow> throw (Thrown ''Prepared CCTP mint is missing a signer nonce'')
         | Some n \<Rightarrow>
           bindA (extcall (\<lambda>t. Some (sv_signMint sv c account message attestation n t)) ''signTransaction'') (\<lambda>raw.
           let txHash = v_keccak256 V raw in
           bindA (recordCrosschainMintPrepared \<lparr>pm_opId = cc_opId op, pm_txHash = txHash, pm_rawTransaction = raw,
               pm_signerAddress = account, pm_nonce = n\<rparr>) (\<lambda>inserted.
           if \<not> inserted then ret () else broadcastPreparedMint sv c (cc_opId op) txHash raw))))
     | _ \<Rightarrow> throw (ExternalError ''simulateContract''))))"

definition mint_under_lease ::
    "viem \<Rightarrow> services \<Rightarrow> bindings \<Rightarrow> string \<Rightarrow> string \<Rightarrow> cctp_row \<Rightarrow> bool pact" where
  "mint_under_lease V sv env transmitter nonce op = (let c = cc_destinationChainId op in
     bindA (liftE (paymentWalletClient V env c)) (\<lambda>account.
     bindA (catchA
       (bindA (withPaymentSignerLease c account (prepare_mint V sv c transmitter nonce account op)) (\<lambda>_. ret None))
       (\<lambda>e. if e = SignerLeaseBusyError then ret (Some False)
          else bindA (nonceWasUsed sv c transmitter nonce) (\<lambda>used. if used then ret (Some False) else throw e))) (\<lambda>_.
     ret False)))"

text \<open>A mint that was prepared before: look at its receipt, or broadcast it again.\<close>

definition resume_mint :: "services \<Rightarrow> cctp_row \<Rightarrow> string \<Rightarrow> string \<Rightarrow> bool pact" where
  "resume_mint sv op hash raw = (let c = cc_destinationChainId op in
     catchA
       (bindA (getTransactionReceipt sv c hash) (\<lambda>r.
        if \<not> rc_success r then bindA (clearRevertedCrosschainMint (cc_opId op) hash) (\<lambda>_. ret False)
        else bindA (recordCrosschainMintResult (cc_opId op) hash MintPending) (\<lambda>_. ret False)))
       (\<lambda>_. bindA (broadcastPreparedMint sv c (cc_opId op) hash raw) (\<lambda>_. ret False)))"

definition prepared_pair :: "cctp_row \<Rightarrow> (string \<times> string) option" where
  "prepared_pair op = (case (cc_destinationTxHash op, cc_mintRawTransaction op) of
       (Some h, Some raw) \<Rightarrow> if h \<noteq> [] \<and> raw \<noteq> [] \<and> hex_ok h \<and> hex_ok raw then Some (h, raw) else None
     | _ \<Rightarrow> None)"

definition mintCctpSettlement :: "viem \<Rightarrow> services \<Rightarrow> bindings \<Rightarrow> string \<Rightarrow> bool pact" where
  "mintCctpSettlement V sv env opId =
     bindA (getCrosschainOperation opId) (\<lambda>op.
     if cc_status op = CctpSettled then ret True
     else (case (cc_message op, cc_attestation op) of
       (Some message, Some attestation) \<Rightarrow>
         if \<not> hex_ok message \<or> \<not> hex_ok attestation then ret False else
         bindA (getAttempt (cc_attemptId op)) (\<lambda>attempt.
         bindA (case attempt of None \<Rightarrow> ret None | Some a \<Rightarrow> getPaymentIntent (a_intentId a)) (\<lambda>intent.
         case (attempt, intent, getPaymentNetworkCapabilities (cc_sourceChainId op),
             getCctpChainByChainId (cc_destinationChainId op)) of
           (Some a, Some i, Some source, Some cctp) \<Rightarrow>
             if cc_platformFeeAtomic op = None \<or> cc_networkFeeAtomic op = None \<or> cc_mintedAmountAtomic op = None
             then throw (Thrown ''CCTP fee or minted-amount evidence is incomplete'')
             else bindA (liftE (cctpMessageNonce message)) (\<lambda>nonce.
             if (case cc_messageNonce op of None \<Rightarrow> False | Some n \<Rightarrow> n \<noteq> [] \<and> toLowerCase n \<noteq> toLowerCase nonce)
             then throw (Thrown ''Stored CCTP nonce does not match the attested message'')
             else bindA (liftE (paymentPublicClient V env (cc_destinationChainId op))) (\<lambda>_.
             bindA (nonceWasUsed sv (cc_destinationChainId op) (c_messageTransmitter cctp) nonce) (\<lambda>used.
             if used then
               bindA (recoverMintTransactionHash V sv env \<lparr>ms_chainId = cc_destinationChainId op,
                   ms_transmitter = c_messageTransmitter cctp, ms_nonce = nonce, ms_sourceDomain = n_cctpDomain source\<rparr>
                 (cc_destinationTxHash op)) (\<lambda>recovered. case recovered of None \<Rightarrow> ret False
               | Some h \<Rightarrow> bindA (recordCrosschainMintResult (cc_opId op) h MintSuccess) (\<lambda>_.
                   bindA (finalizeCctpSettlement V sv env op a h) (\<lambda>_. ret True)))
             else (case prepared_pair op of
               Some (h, raw) \<Rightarrow> resume_mint sv op h raw
             | None \<Rightarrow> if MAX_CCTP_MINT_ATTEMPTS \<le> cc_attemptCount op
                 then bindA (updateCrosschainOperation (cc_opId op) ((status_update NeedsSupport)
                     \<lparr>up_lastErrorCode := Some ''CCTP_MINT_ATTEMPTS_EXHAUSTED''\<rparr>)) (\<lambda>_. ret True)
                 else mint_under_lease V sv env (c_messageTransmitter cctp) nonce op))))
         | _ \<Rightarrow> throw (Thrown ''CCTP destination configuration is incomplete'')))
     | _ \<Rightarrow> ret False))"

end
