(* ===== verification/RouterScan.thy ===== *)
theory RouterScan
  imports Reconciliation
begin

text \<open>
  The scan of a chain's routers (\<open>scanPaymentRouters\<close> of \<^verbatim>\<open>services/reconciliation.ts\<close>): every event in the
  next range of confirmed blocks is recorded in the journal and its attempt reconciled; then the checkpoint moves.
\<close>

subsection \<open>The scan\<close>

definition log_args :: "chain_log \<Rightarrow> event_args option" where
  "log_args lg = (case lg_settled lg of Some a \<Rightarrow> Some a | None \<Rightarrow> map_option event_args.truncate (lg_burned lg))"

definition nonempty :: "string \<Rightarrow> string option" where
  "nonempty s = (if s = [] then None else Some s)"

definition log_event :: "int \<Rightarrow> chain_log \<Rightarrow> string \<Rightarrow> int \<Rightarrow> chain_event_row" where
  "log_event c lg tx ix = \<lparr>ce_chainId = c, ce_txHash = toLowerCase tx, ce_logIndex = ix,
     ce_blockNumber = lg_blockNumber lg, ce_blockHash = lg_blockHash lg,
     ce_eventName = (if lg_settled lg \<noteq> None then ''PaymentSettled'' else ''CctpPaymentBurned''),
     ce_intentHash = Option.bind (map_option ea_intentId (log_args lg)) nonempty,
     ce_attemptHash = Option.bind (map_option ea_attemptId (log_args lg)) nonempty,
     ce_payload = (if log_args lg = None then ''{}'' else lg_evidence lg), ce_canonical = True, ce_createdAt = 0\<rparr>"

definition journal_log :: "int \<Rightarrow> chain_log \<Rightarrow> unit pact" where
  "journal_log c lg = (case (lg_txHash lg, lg_logIndex lg) of
       (Some tx, Some ix) \<Rightarrow> if tx = [] then ret () else upsertPaymentChainEvent (log_event c lg tx ix)
     | _ \<Rightarrow> ret ())"

definition reconcile_log :: "viem \<Rightarrow> services \<Rightarrow> bindings \<Rightarrow> chain_log \<Rightarrow> unit pact" where
  "reconcile_log V sv env lg =
     bindA (case Option.bind (map_option ea_attemptId (log_args lg)) nonempty of
         None \<Rightarrow> ret None | Some h \<Rightarrow> getAttemptByHash h) (\<lambda>attempt.
     case (attempt, lg_txHash lg) of
       (Some a, Some tx) \<Rightarrow> if tx = [] then ret () else
         bindA (markAttemptProcessing (a_id a) tx) (\<lambda>_. bindA (reconcileAttempt V sv env (a_id a)) (\<lambda>_. ret ()))
     | _ \<Rightarrow> ret ())"

definition scan_log :: "viem \<Rightarrow> services \<Rightarrow> bindings \<Rightarrow> int \<Rightarrow> chain_log \<Rightarrow> unit pact" where
  "scan_log V sv env c lg = bindA (journal_log c lg) (\<lambda>_. reconcile_log V sv env lg)"

definition scan_from :: "router_checkpoint option \<Rightarrow> int \<Rightarrow> int" where
  "scan_from checkpoint confirmedTip = (case checkpoint of Some cp \<Rightarrow> rp_number cp + 1
     | None \<Rightarrow> if 2000 < confirmedTip then confirmedTip - 2000 else 0)"

definition scan_to :: "int \<Rightarrow> int \<Rightarrow> int" where
  "scan_to fromBlock confirmedTip = (if fromBlock + 1999 < confirmedTip then fromBlock + 1999 else confirmedTip)"

definition scanned_block :: "int \<Rightarrow> int \<Rightarrow> chain_block \<Rightarrow> block_row" where
  "scanned_block c n b = \<lparr>bk_chainId = c, bk_number = n, bk_hash = cb_hash b, bk_parentHash = cb_parentHash b,
     bk_timestamp = toISOString (cb_timestamp b * 1000), bk_canonical = True\<rparr>"

definition scan_range :: "viem \<Rightarrow> services \<Rightarrow> bindings \<Rightarrow> int \<Rightarrow> string list \<Rightarrow> int \<Rightarrow> int \<Rightarrow> bool pact" where
  "scan_range V sv env c addresses fromBlock confirmedTip = (let toBlock = scan_to fromBlock confirmedTip in
     bindA (extcall (\<lambda>t. sv_logs sv c (map (v_getAddress V) addresses) fromBlock toBlock t) ''getLogs'') (\<lambda>logs.
     bindA (forA (scan_log V sv env c) logs) (\<lambda>_.
     bindA (getBlock sv c toBlock) (\<lambda>block.
     bindA (commitRouterCheckpoint (scanned_block c toBlock block)) (\<lambda>_.
     ret (confirmedTip \<le> toBlock))))))"

definition scanPaymentRouters :: "viem \<Rightarrow> services \<Rightarrow> bindings \<Rightarrow> int \<Rightarrow> bool pact" where
  "scanPaymentRouters V sv env c =
     bindA (liftE (paymentPublicClient V env c)) (\<lambda>_.
     bindA (getBlockNumber sv c) (\<lambda>current.
     bindA (liftE (requiredConfirmations V env c)) (\<lambda>required.
     let confirmedTip = current - (required - 1) in
     bindA (getRouterCheckpoint c) (\<lambda>stored.
     bindA (verifyRouterCheckpoint sv c stored) (\<lambda>checkpoint.
     bindA (listActiveRouterAddressesByChain c) (\<lambda>addresses.
     if addresses = [] then ret True
     else let fromBlock = scan_from checkpoint confirmedTip in
       if confirmedTip < fromBlock then ret False
       else scan_range V sv env c addresses fromBlock confirmedTip))))))"

end
