(* ===== verification/Jobs.thy ===== *)
theory Jobs
  imports CctpMint RouterScan JobStore Webhooks
begin

text \<open>
  The consumer of the job queue (\<^verbatim>\<open>services/jobs.ts\<close>): delivering webhooks, running the payment jobs and
  answering every message of a batch with an acknowledgement or a retry.
\<close>

definition UNKNOWN_QUEUE_RETRY_SECONDS :: int where
  "UNKNOWN_QUEUE_RETRY_SECONDS = 15"

definition PAYMENT_JOBS_QUEUE_NAME :: string where
  "PAYMENT_JOBS_QUEUE_NAME = ''gatopago-payment-jobs''"

text \<open>What a batch shows of a message; \<open>attempts\<close> counts from 1.\<close>

record queue_message =
  qm_id :: string
  qm_body :: json
  qm_attempts :: int

subsection \<open>Webhooks\<close>

definition hmac :: "viem \<Rightarrow> string \<Rightarrow> string \<Rightarrow> string \<Rightarrow> string pact" where
  "hmac V secret body timestamp = bindA (extcall (\<lambda>t. Some ()) ''importKey'') (\<lambda>_.
     extcall (\<lambda>t. Some (v_hmac V secret (timestamp @ ''.'' @ body))) ''sign'')"

definition delivery_body :: "viem \<Rightarrow> delivery_job \<Rightarrow> string" where
  "delivery_body V dj = v_jsonText V (JObj [(''id'', JStr (dj_eventId dj)), (''type'', JStr (dj_eventType dj)),
     (''data'', dj_payload dj)])"

definition post_delivery :: "viem \<Rightarrow> services \<Rightarrow> delivery_job \<Rightarrow> string \<Rightarrow> string \<Rightarrow> int pact" where
  "post_delivery V sv dj secret timestamp = (let body = delivery_body V dj in
     bindA (hmac V secret body timestamp) (\<lambda>signature.
     let request = \<lparr>wr_url = dj_url dj, wr_deliveryId = dj_id dj, wr_eventId = dj_eventId dj,
         wr_timestamp = timestamp, wr_signature = ''v1='' @ signature, wr_body = body\<rparr> in
     callA (SentWebhook request) (sv_webhook sv request) ''fetch''))"

definition deliverOne :: "viem \<Rightarrow> services \<Rightarrow> bindings \<Rightarrow> delivery_job \<Rightarrow> bool pact" where
  "deliverOne V sv env dj =
     bindA randomUUID (\<lambda>leaseOwner. bindA date_now (\<lambda>now.
     bindA (claimWebhookDelivery (dj_id dj) leaseOwner (now + 30000)) (\<lambda>claimed.
     if \<not> claimed then ret False
     else bindA date_now (\<lambda>ts. let timestamp = string_of_int (floor_sec ts); attempts = dj_attemptCount dj + 1 in
       bindA (decryptWebhookSecret V env (dj_ciphertext dj) (dj_keyId dj)) (\<lambda>secret.
       bindA (catchA (post_delivery V sv dj secret timestamp)
         (\<lambda>e. bindA (recordWebhookNetworkFailure (dj_id dj) leaseOwner attempts e) (\<lambda>_. throw e))) (\<lambda>status.
       bindA (extcall (\<lambda>t. Some ()) ''cancel'') (\<lambda>_.
       if 200 \<le> status \<and> status \<le> 299
       then bindA (recordWebhookResponse (dj_id dj) leaseOwner attempts status True) (\<lambda>_. ret True)
       else bindA (recordWebhookResponse (dj_id dj) leaseOwner attempts status False) (\<lambda>_.
         throw (Thrown (''Webhook returned HTTP '' @ string_of_int status))))))))))"

text \<open>The deliveries in order; whether every one could be leased.\<close>

fun deliver_all :: "viem \<Rightarrow> services \<Rightarrow> bindings \<Rightarrow> delivery_job list \<Rightarrow> bool pact" where
  "deliver_all V sv env [] = ret True"
| "deliver_all V sv env (dj # djs) = bindA (deliverOne V sv env dj) (\<lambda>ok.
     bindA (deliver_all V sv env djs) (\<lambda>rest. ret (ok \<and> rest)))"

subsection \<open>Running a job\<close>

text \<open>The chain a scan job names, directly or by an attempt.\<close>

definition watched_chain :: "string \<Rightarrow> int option pact" where
  "watched_chain resourceId = (case js_Number resourceId of
       Some n \<Rightarrow> if isSafeInteger n then ret (Some n)
         else bindA (getAttempt resourceId) (\<lambda>attempt. ret (map_option a_sourceChainId attempt))
     | None \<Rightarrow> bindA (getAttempt resourceId) (\<lambda>attempt. ret (map_option a_sourceChainId attempt)))"

definition run_evidence_job :: "viem \<Rightarrow> services \<Rightarrow> bindings \<Rightarrow> payment_job_name \<Rightarrow> string \<Rightarrow> bool pact" where
  "run_evidence_job V sv env job resourceId = (case job of
       AttemptReconcile \<Rightarrow> reconcileAttempt V sv env resourceId
     | RouterWatch \<Rightarrow> bindA (watched_chain resourceId) (\<lambda>chain. case chain of
         None \<Rightarrow> ret True | Some c \<Rightarrow> if c = 0 then ret True else scanPaymentRouters V sv env c)
     | CctpAttestation \<Rightarrow> advanceCctpAttestation V sv env resourceId
     | CctpMint \<Rightarrow> mintCctpSettlement V sv env resourceId
     | WebhookDelivery \<Rightarrow> ret True)"

definition runPaymentJob :: "viem \<Rightarrow> services \<Rightarrow> bindings \<Rightarrow> payment_job_message \<Rightarrow> unit pact" where
  "runPaymentJob V sv env m = (if pj_job m = WebhookDelivery
     then bindA (listWebhookDeliveryJobs (pj_resourceId m)) (\<lambda>djs.
       bindA (deliver_all V sv env djs) (\<lambda>leased.
       if leased then ret () else throw (Thrown ''WEBHOOK_DELIVERY_LEASE_PENDING'')))
     else bindA (run_evidence_job V sv env (pj_job m) (pj_resourceId m)) (\<lambda>completed.
       if completed then ret () else throw (Thrown ''PAYMENT_EVIDENCE_PENDING'')))"

subsection \<open>Consuming a batch\<close>

definition retry_delay :: "int \<Rightarrow> int" where
  "retry_delay attempts = min 900 (15 * 2 ^ nat (min (attempts - 1) 6))"

definition run_claimed ::
    "viem \<Rightarrow> services \<Rightarrow> bindings \<Rightarrow> queue_message \<Rightarrow> payment_job_message \<Rightarrow> job_claim \<Rightarrow> unit pact" where
  "run_claimed V sv env q m claim = (case claim of
       AlreadyCompleted \<Rightarrow> bindA (completePaymentJob (pj_dedupeKey m)) (\<lambda>_. emitA (QueueAck (qm_id q)))
     | Leased s \<Rightarrow> emitA (QueueRetry (qm_id q) (min 900 s))
     | Claimed \<Rightarrow> bindA (runPaymentJob V sv env m) (\<lambda>_.
         bindA (completePaymentJob (pj_dedupeKey m)) (\<lambda>_. emitA (QueueAck (qm_id q)))))"

definition consume_one :: "viem \<Rightarrow> services \<Rightarrow> bindings \<Rightarrow> queue_message \<Rightarrow> unit pact" where
  "consume_one V sv env q = (case parsePaymentJobMessage V (qm_body q) of
       None \<Rightarrow> emitA (QueueAck (qm_id q))
     | Some m \<Rightarrow> catchA
         (bindA (claimPaymentJob m) (run_claimed V sv env q m))
         (\<lambda>e. bindA (failPaymentJob (pj_dedupeKey m) e) (\<lambda>_.
           emitA (QueueRetry (qm_id q) (retry_delay (qm_attempts q))))))"

definition consumePaymentQueue :: "viem \<Rightarrow> services \<Rightarrow> bindings \<Rightarrow> queue_message list \<Rightarrow> unit pact" where
  "consumePaymentQueue V sv env messages = forA (consume_one V sv env) messages"

definition consumePaymentsWorkerQueue ::
    "viem \<Rightarrow> services \<Rightarrow> bindings \<Rightarrow> string \<Rightarrow> queue_message list \<Rightarrow> unit pact" where
  "consumePaymentsWorkerQueue V sv env queue messages = (if queue = PAYMENT_JOBS_QUEUE_NAME
     then consumePaymentQueue V sv env messages else emitA (QueueRetryAll UNKNOWN_QUEUE_RETRY_SECONDS))"

end
