(* ===== verification/Rpc.thy ===== *)
theory Rpc
  imports Checkout Cutover Jobs
begin

text \<open>
  The entry points of the Payments Worker (\<^verbatim>\<open>index.ts\<close>): the RPC the App Worker calls, the queue consumer, the
  cron handler and the gate of the HTTP writes.  A command is the JSON value received; a field of the wrong type where
  the code passes it on unchecked is an error of the database binding.
\<close>

datatype rpc_error_code = INVALID_CONTRACT | INVALID_CLAIM | INVALID_COMMAND | NOT_FOUND | CONFLICT | UNAVAILABLE

datatype 'a rpc_result = RpcOk 'a | RpcError rpc_error_code string

definition rpcError :: "rpc_error_code \<Rightarrow> string \<Rightarrow> 'a rpc_result" where
  "rpcError code message = RpcError code message"

subsection \<open>Normalizing the commands\<close>

text \<open>\<open>{ ...command, key: value }\<close>.\<close>

definition override :: "(string \<times> json) list \<Rightarrow> (string \<times> json) list \<Rightarrow> (string \<times> json) list" where
  "override fs new = filter (\<lambda>(k, v). k \<notin> set (map fst new)) fs @ new"

definition legacy_id :: "viem \<Rightarrow> (string \<times> json) list \<Rightarrow> json" where
  "legacy_id V fs = JStr (''legacy:'' @ v_keccak256 V (v_jsonText V (JObj fs)))"

definition settlement_chain :: "bindings \<Rightarrow> json" where
  "settlement_chain env = (case e_settlementChainId env of None \<Rightarrow> JNull | Some c \<Rightarrow> JInt c)"

record command =
  cm_claim :: app_service_claim
  cm_fields :: "(string \<times> json) list"

text \<open>The checks the three normalizers share, and the fields each adds to a version 1 command.\<close>

definition normalize_command ::
    "viem \<Rightarrow> ((string \<times> json) list \<Rightarrow> (string \<times> json) list) \<Rightarrow> json \<Rightarrow> command option" where
  "normalize_command V added value = (case isRecord value of None \<Rightarrow> None
     | Some fs \<Rightarrow> if \<not> isSupportedPaymentsContractVersion (jget fs ''contractVersion'') then None
       else (case Option.bind (jget fs ''claim'') isAppServiceClaim of None \<Rightarrow> None
         | Some claim \<Rightarrow> Some \<lparr>cm_claim = claim, cm_fields =
             (if jget fs ''contractVersion'' = Some (JInt 2) then fs
              else override fs ([(''contractVersion'', JInt 2), (''commandId'', legacy_id V fs)] @ added fs))\<rparr>))"

definition normalizeSettlementCommand :: "viem \<Rightarrow> bindings \<Rightarrow> json \<Rightarrow> command option" where
  "normalizeSettlementCommand V env = normalize_command V (\<lambda>_. [(''chainId'', settlement_chain env)])"

definition normalizeReserveCommand :: "viem \<Rightarrow> bindings \<Rightarrow> json \<Rightarrow> command option" where
  "normalizeReserveCommand V env = normalize_command V (\<lambda>_. [(''sourceChainId'', settlement_chain env), (''requestedRoute'', JStr ''local'')])"

definition normalizeRegisterCommand :: "viem \<Rightarrow> bindings \<Rightarrow> json \<Rightarrow> command option" where
  "normalizeRegisterCommand V env = normalize_command V (\<lambda>_. [(''sourceChainId'', settlement_chain env)])"

definition need_text :: "command \<Rightarrow> string \<Rightarrow> err + string" where
  "need_text c k = (case jget (cm_fields c) k of Some (JStr s) \<Rightarrow> Inr s | _ \<Rightarrow> Inl (ExternalError ''D1_TYPE_ERROR''))"

definition need_int :: "command \<Rightarrow> string \<Rightarrow> err + int" where
  "need_int c k = (case jget (cm_fields c) k of Some (JInt n) \<Rightarrow> Inr n | _ \<Rightarrow> Inl (ExternalError ''D1_TYPE_ERROR''))"

definition safe_field :: "command \<Rightarrow> string \<Rightarrow> int option" where
  "safe_field c k = (case jget (cm_fields c) k of Some (JInt n) \<Rightarrow> if isSafeInteger n then Some n else None | _ \<Rightarrow> None)"

subsection \<open>The RPC\<close>

text \<open>Every method first asks whether writes are available.\<close>

definition when_available :: "bindings \<Rightarrow> 'a rpc_result pact \<Rightarrow> 'a rpc_result pact" where
  "when_available env m = bindA (paymentsWriteAvailability env) (\<lambda>a.
     if \<not> wa_available a then ret (rpcError UNAVAILABLE ''Payments writes have not been activated'') else m)"

definition contractVersion :: int where
  "contractVersion = PAYMENTS_CONTRACT_VERSION"

definition upsertSettlementAccountRpc :: "viem \<Rightarrow> bindings \<Rightarrow> json \<Rightarrow> settlement_account_result rpc_result pact" where
  "upsertSettlementAccountRpc V env value = when_available env (
     case normalizeSettlementCommand V env value of
       None \<Rightarrow> ret (rpcError INVALID_CONTRACT ''Unsupported or malformed settlement account command'')
     | Some c \<Rightarrow> catchA
         (case (safe_field c ''accountVersion'', safe_field c ''chainId'') of
            (Some version, Some chainId) \<Rightarrow>
              if version < 1 then ret (rpcError INVALID_COMMAND ''Invalid account version or chain'')
              else bindA (liftE (walletAddress V (jget (cm_fields c) ''walletAddress''))) (\<lambda>wallet.
                bindA (liftE (need_text c ''commandId'')) (\<lambda>commandId.
                bindA (upsertSettlementAccount V \<lparr>si_commandId = commandId, si_ownerUid = cl_uid (cm_claim c),
                    si_accountVersion = version, si_walletAddress = wallet, si_chainId = chainId\<rparr>) (\<lambda>r. ret (RpcOk r))))
          | _ \<Rightarrow> ret (rpcError INVALID_COMMAND ''Invalid account version or chain''))
         (\<lambda>e. ret (rpcError INVALID_COMMAND (err_message e))))"

record reserved_attempt =
  rs_attemptId :: string
  rs_intentId :: string
  rs_linkId :: string
  rs_merchant :: string
  rs_amount :: string
  rs_sourceChainId :: int
  rs_router :: string
  rs_authorization :: authorization
  rs_signature :: string
  rs_authorizationHash :: string
  rs_expiresAt :: int

definition reserved_of :: "viem \<Rightarrow> payment_link \<Rightarrow> payment_intent \<Rightarrow> payment_attempt \<Rightarrow> reserved_attempt" where
  "reserved_of V l i a = \<lparr>rs_attemptId = a_id a, rs_intentId = i_id i, rs_linkId = l_id l, rs_merchant = i_settlementWallet i,
     rs_amount = v_formatUnits6 V (a_settlementAmountAtomic a), rs_sourceChainId = a_sourceChainId a,
     rs_router = a_routerAddress a, rs_authorization = a_authorization a, rs_signature = a_signature a,
     rs_authorizationHash = a_authorizationHash a, rs_expiresAt = a_expiresAt a\<rparr>"

definition effective_intent :: "viem \<Rightarrow> payment_intent \<Rightarrow> json option \<Rightarrow> err + payment_intent" where
  "effective_intent V i requested = (if i_amountMode i = PayerDefined
     then bindE (amount V requested) (\<lambda>(decimal, atomic). Inr (i\<lparr>i_amount := decimal, i_amountAtomic := atomic\<rparr>))
     else Inr i)"

definition reserve_new ::
    "viem \<Rightarrow> services \<Rightarrow> bindings \<Rightarrow> command \<Rightarrow> payment_intent \<Rightarrow> string \<Rightarrow> int \<Rightarrow> string \<Rightarrow> payment_attempt pact" where
  "reserve_new V sv env c i payer chainId commandId =
     bindA (liftE (effective_intent V i (jget (cm_fields c) ''amount''))) (\<lambda>ei.
     bindA (buildQuote V sv env \<lparr>qi_intent = ei, qi_payer = payer, qi_sourceChainId = chainId, qi_requestedRoute = RequestAuto\<rparr>) (\<lambda>quote.
     if q_route quote \<noteq> Local then throw (QuoteError ''ROUTE_UNAVAILABLE'')
     else bindA (authorizeAttempt V sv env \<lparr>ai_intent = ei, ai_quote = quote, ai_payerUid = Some (cl_uid (cm_claim c))\<rparr>) (\<lambda>authorized.
       insertQuoteAndAttempt quote authorized commandId)))"

definition reserve_error :: "err \<Rightarrow> 'a rpc_result" where
  "reserve_error e = (case e of
       QuoteError code \<Rightarrow> rpcError (if code = ''SIGNER_UNAVAILABLE'' then UNAVAILABLE else CONFLICT) (err_message e)
     | _ \<Rightarrow> rpcError INVALID_COMMAND (err_message e))"

definition reserve_on ::
    "viem \<Rightarrow> services \<Rightarrow> bindings \<Rightarrow> command \<Rightarrow> payment_link \<Rightarrow> payment_intent \<Rightarrow> reserved_attempt rpc_result pact" where
  "reserve_on V sv env c l initial =
     bindA (liftE (walletAddress V (jget (cm_fields c) ''payerAddress''))) (\<lambda>payer.
     bindA (liftE (need_int c ''sourceChainId'')) (\<lambda>chainId. bindA (liftE (need_text c ''commandId'')) (\<lambda>commandId.
     bindA (getAttemptByIdempotency (i_id initial) payer chainId commandId) (\<lambda>replay.
     bindA (if replay = None then releaseExpiredPayerDefinedAmount (i_id initial) else ret ()) (\<lambda>_.
     bindA (getIntentByLink (l_id l)) (\<lambda>intent. case intent of
       None \<Rightarrow> ret (rpcError NOT_FOUND ''Payment intent not found'')
     | Some i \<Rightarrow> bindA (case replay of Some a \<Rightarrow> ret a | None \<Rightarrow> reserve_new V sv env c i payer chainId commandId) (\<lambda>a.
         ret (RpcOk (reserved_of V l i a)))))))))"

definition reserveAppPaymentAttempt ::
    "viem \<Rightarrow> services \<Rightarrow> bindings \<Rightarrow> json \<Rightarrow> reserved_attempt rpc_result pact" where
  "reserveAppPaymentAttempt V sv env value = when_available env (
     case normalizeReserveCommand V env value of
       None \<Rightarrow> ret (rpcError INVALID_CONTRACT ''Unsupported or malformed attempt command'')
     | Some c \<Rightarrow> catchA
         (bindA (liftE (need_text c ''linkId'')) (\<lambda>linkId. bindA (getPaymentLink linkId) (\<lambda>link. case link of
            None \<Rightarrow> ret (rpcError NOT_FOUND ''Payment link not found'')
          | Some l \<Rightarrow> bindA (getIntentByLink (l_id l)) (\<lambda>initial. case initial of
              None \<Rightarrow> ret (rpcError NOT_FOUND ''Payment link not found'')
            | Some i \<Rightarrow> reserve_on V sv env c l i))))
         (\<lambda>e. ret (reserve_error e)))"

definition execution_jobs :: "registered_execution \<Rightarrow> int \<Rightarrow> job_input list" where
  "execution_jobs v chainId = [
     \<lparr>ji_job = AttemptReconcile, ji_resourceId = re_attemptId v,
      ji_dedupeKey = Some (''app-execution:'' @ re_attemptId v @ '':'' @ re_userOpHash v),
      ji_partition = Some (string_of_int chainId), ji_delaySeconds = None\<rparr>,
     \<lparr>ji_job = RouterWatch, ji_resourceId = re_attemptId v,
      ji_dedupeKey = Some (''app-router-watch:'' @ re_attemptId v @ '':'' @ re_userOpHash v),
      ji_partition = Some (string_of_int chainId), ji_delaySeconds = None\<rparr>]"

definition registerAppPaymentExecution ::
    "viem \<Rightarrow> services \<Rightarrow> bindings \<Rightarrow> json \<Rightarrow> registered_execution rpc_result pact" where
  "registerAppPaymentExecution V sv env value = when_available env (
     case normalizeRegisterCommand V env value of
       None \<Rightarrow> ret (rpcError INVALID_CONTRACT ''Unsupported or malformed execution command'')
     | Some c \<Rightarrow> (case jget (cm_fields c) ''userOpHash'' of
         Some (JStr h) \<Rightarrow> if \<not> is_hash h then ret (rpcError INVALID_COMMAND ''Invalid UserOperation hash'')
           else bindA (liftE (need_text c ''commandId'')) (\<lambda>commandId. bindA (liftE (need_text c ''attemptId'')) (\<lambda>attemptId.
             bindA (liftE (need_int c ''sourceChainId'')) (\<lambda>chainId.
             bindA (registerAppExecution \<lparr>ae_commandId = commandId, ae_attemptId = attemptId, ae_userOpHash = h,
                 ae_sourceChainId = chainId\<rparr>) (\<lambda>r. case r of
               None \<Rightarrow> ret (rpcError CONFLICT ''Attempt and execution do not match'')
             | Some v \<Rightarrow> bindA (forA (enqueuePaymentJob sv env) (execution_jobs v chainId)) (\<lambda>_. ret (RpcOk v))))))
       | _ \<Rightarrow> ret (rpcError INVALID_COMMAND ''Invalid UserOperation hash'')))"

subsection \<open>The queue and the cron\<close>

definition queue :: "viem \<Rightarrow> services \<Rightarrow> bindings \<Rightarrow> string \<Rightarrow> queue_message list \<Rightarrow> unit pact" where
  "queue V sv env name messages = bindA (paymentsWriteAvailability env) (\<lambda>a.
     if \<not> wa_available a then emitA (QueueRetryAll 900) else consumePaymentsWorkerQueue V sv env name messages)"

definition scan_job :: "int \<Rightarrow> int \<Rightarrow> job_input" where
  "scan_job minute chainId = \<lparr>ji_job = RouterWatch, ji_resourceId = string_of_int chainId,
     ji_dedupeKey = Some (''scheduled-router-watch:'' @ string_of_int chainId @ '':'' @ string_of_int minute),
     ji_partition = Some (string_of_int chainId), ji_delaySeconds = None\<rparr>"

definition rotate_secrets :: "viem \<Rightarrow> bindings \<Rightarrow> unit pact" where
  "rotate_secrets V env = (if validateWebhookEncryptionConfig V env = []
     then catchA (bindA (rotateWebhookEncryptionBatch V env 25) (\<lambda>_. ret ())) (\<lambda>_. ret ()) else ret ())"

definition scheduled :: "viem \<Rightarrow> services \<Rightarrow> bindings \<Rightarrow> unit pact" where
  "scheduled V sv env = bindA (paymentsWriteAvailability env) (\<lambda>a.
     if \<not> wa_available a then ret ()
     else bindA (flushPaymentOutbox sv env 50) (\<lambda>_.
       bindA (rotate_secrets V env) (\<lambda>_.
       bindA date_now (\<lambda>now. bindA (cleanupExpiredRateLimits (floor_sec now - 86400)) (\<lambda>_.
       bindA listActivePaymentChainIds (\<lambda>chains. bindA date_now (\<lambda>later.
       forA (\<lambda>c. enqueuePaymentJob sv env (scan_job (later div 60000) c)) chains)))))))"

subsection \<open>The gate of the HTTP writes\<close>

definition MUTATING_HTTP_METHODS :: "string list" where
  "MUTATING_HTTP_METHODS = [''POST'', ''PUT'', ''PATCH'', ''DELETE'']"

definition write_gate :: "bindings \<Rightarrow> http_request \<Rightarrow> string \<Rightarrow> http_response pact \<Rightarrow> http_response pact" where
  "write_gate env rq verb next_handler = (if toUpperCase verb \<in> set MUTATING_HTTP_METHODS
     then bindA (paymentsWriteAvailability env) (\<lambda>a.
       if wa_available a then next_handler
       else let boot = bs_active (wa_bootstrap a) in
         ret (respond 503 (JObj (error_fields rq
           (if boot then ''Payments is in controlled bootstrap mode'' else ''Payments data cutover is not verified'')
           ''SERVICE_UNAVAILABLE'' @ [(''gate'', JStr (if boot then ''bootstrap'' else ''data_cutover'')), (''retryable'', JBool True)]))))
     else next_handler)"

text \<open>The error handler of the application; the code of a validation error is its text here.\<close>

definition app_error_status :: "string \<Rightarrow> int" where
  "app_error_status code = (
     if code \<in> {''SIGNER_UNAVAILABLE'', ''FEE_UNAVAILABLE'', ''ROUTER_FEE_CAP_EXCEEDED'', ''ROUTER_PREFLIGHT_REQUIRED'',
       ''ROUTER_PREFLIGHT_FAILED''} then 503
     else if startsWith code ''INTENT_'' then 409 else 400)"

definition with_app_errors :: "http_request \<Rightarrow> http_response pact \<Rightarrow> http_response pact" where
  "with_app_errors rq handler = catchA handler (\<lambda>e. ret (case e of
       DomainValidationError code \<Rightarrow> respond 400 (JObj [(''error_code'', JStr code), (''requestId'', JStr (rq_id rq))])
     | QuoteError code \<Rightarrow> respond (app_error_status code) (JObj [(''error_code'', JStr code), (''requestId'', JStr (rq_id rq))])
     | _ \<Rightarrow> respond_error rq 500 ''Internal server error'' ''SERVER_ERROR''))"

end
