(* ===== verification/ReconcileGuards.thy ===== *)
theory ReconcileGuards
  imports CctpMint RouterScan
begin

text \<open>
  Reconciliation among other requests: every step of it keeps the accounting invariant and moves the
  database along \<open>pay_R\<close>.
\<close>

lemma guar_tryA [intro]: "guar pay_I pay_R m \<Longrightarrow> guar pay_I pay_R (tryA m)"
  unfolding tryA_def by (intro pay.guar_catchA pay.guar_bindA pay.guar_calm)

lemma guar_chain_reads [intro]:
  "guar pay_I pay_R (getBlockNumber sv c)" "guar pay_I pay_R (getBlock sv c n)"
  "guar pay_I pay_R (getTransactionReceipt sv c h)"
  unfolding getBlockNumber_def getBlock_def getTransactionReceipt_def
  by (intro pay.guar_bindA pay.guar_calm | split receipt_answer.split | intro conjI allI impI)+

lemma guar_first_match [intro]: "guar pay_I pay_R (first_match sv c cps)"
  by (induction cps) (auto simp: block_matches_def intro!: pay.guar_bindA)

lemma guar_verifyRouterCheckpoint [intro]: "guar pay_I pay_R (verifyRouterCheckpoint sv c cp)"
  unfolding verifyRouterCheckpoint_def block_matches_def Let_def
  by (intro pay.guar_bindA pay.guar_calm guar_tryA guar_chain_reads guar_first_match guar_journal_reads
      guar_rollbackRouterJournal | split option.split if_split | intro conjI allI impI)+

lemma guar_verifyReported [intro]: "guar pay_I pay_R (verifyReportedSourceTransaction V sv env x tx)"
  unfolding verifyReportedSourceTransaction_def
  by (intro pay.guar_bindA pay.guar_catchA pay.guar_calm guar_reads_ok guar_chain_reads
      | split option.split if_split | intro conjI allI impI)+

lemma guar_confirmedReceipt [intro]: "guar pay_I pay_R (confirmedReceipt V sv env c tx)"
  unfolding confirmedReceipt_def
  by (intro pay.guar_bindA pay.guar_calm guar_chain_reads | split if_split | intro conjI impI)+

lemma guar_reconcileLocal [intro]: "guar pay_I pay_R (reconcileLocal V sv env x tx)"
  unfolding reconcileLocal_def
  by (intro pay.guar_bindA pay.guar_calm guar_reads_ok guar_confirmedReceipt guar_settleAttempt guar_flushPaymentOutbox
      | split option.split if_split source_evidence.split | intro conjI allI impI)+

lemma guar_reconcileBurn [intro]: "guar pay_I pay_R (reconcileBurn V sv env x tx)"
  unfolding reconcileBurn_def
  by (intro pay.guar_bindA pay.guar_calm guar_reads_ok guar_confirmedReceipt guar_crosschain guar_recordAttemptFeeEvidence
      guar_markAttemptProcessing guar_schedulePaymentJob
      | split option.split if_split source_evidence.split | intro conjI allI impI)+

lemma guar_reconcileAttempt [intro]: "guar pay_I pay_R (reconcileAttempt V sv env x)"
  unfolding reconcileAttempt_def
  by (intro pay.guar_bindA pay.guar_calm guar_reads_ok guar_reconcileLocal guar_reconcileBurn
      | split option.split if_split | intro conjI allI impI)+

lemma guar_option_intent [intro]:
  "guar pay_I pay_R (case attempt of None \<Rightarrow> ret None | Some a \<Rightarrow> getPaymentIntent (a_intentId a))"
  by (auto split: option.split)

lemma guar_advanceCctpAttestation [intro]: "guar pay_I pay_R (advanceCctpAttestation V sv env x)"
  unfolding advanceCctpAttestation_def getCctpMessages_def
  by (intro pay.guar_bindA pay.guar_calm guar_reads_ok guar_option_intent guar_crosschain guar_recordAttemptFeeEvidence
      guar_enqueuePaymentJob | split option.split if_split prod.split | intro conjI allI impI)+

lemma guar_nonceWasUsed [intro]: "guar pay_I pay_R (nonceWasUsed sv c m n)"
  unfolding nonceWasUsed_def by (intro pay.guar_bindA pay.guar_calm)

lemma guar_confirmedMint [intro]: "guar pay_I pay_R (confirmedMintTransaction V sv env s tx)"
  unfolding confirmedMintTransaction_def
  by (intro pay.guar_bindA pay.guar_calm guar_tryA guar_chain_reads | split option.split if_split | intro conjI allI impI)+

lemma guar_first_confirmed [intro]: "guar pay_I pay_R (first_confirmed V sv env s lgs)"
  by (induction lgs) (auto intro!: pay.guar_bindA split: option.split)

lemma guar_recoverMint [intro]: "guar pay_I pay_R (recoverMintTransactionHash V sv env s h)"
  unfolding recoverMintTransactionHash_def
  by (intro pay.guar_bindA pay.guar_calm guar_chain_reads guar_confirmedMint guar_first_confirmed
      | split option.split if_split | intro conjI allI impI)+

lemma guar_finalize [intro]: "guar pay_I pay_R (finalizeCctpSettlement V sv env op a h)"
  unfolding finalizeCctpSettlement_def
  by (intro pay.guar_bindA pay.guar_calm guar_settleAttempt guar_crosschain guar_flushPaymentOutbox
      | split option.split if_split prod.split | intro conjI allI impI)+

lemma guar_broadcast [intro]: "guar pay_I pay_R (broadcastPreparedMint sv c x tx raw)"
  unfolding broadcastPreparedMint_def
  by (intro pay.guar_bindA pay.guar_catchA pay.guar_calm guar_crosschain guar_crosschain_batches
      | split if_split | intro conjI allI impI)+

lemma keeps_leases [intro]:
  "keeps (update_lease_stmt k u e ts)" "keeps (insert_lease_stmt k u e ts)" "keeps (delete_lease_stmt k u)"
  unfolding update_lease_stmt_def insert_lease_stmt_def delete_lease_stmt_def Let_def
  by (rule keeps_same; auto dest!: stmt_SomeD simp: same_accounts_def)+

lemma guar_acquire [intro]: "guar pay_I pay_R (acquirePaymentSignerLease k t)"
  unfolding acquirePaymentSignerLease_def
  by (intro pay.guar_bindA pay.guar_calm pay.guar_randomUUID guar_dbx_keeps keeps_leases
      | split if_split | intro conjI allI impI)+

lemma guar_release [intro]: "guar pay_I pay_R (releasePaymentSignerLease k u)"
  unfolding releasePaymentSignerLease_def by (intro pay.guar_bindA pay.guar_calm guar_dbx_keeps keeps_leases)

lemma guar_withPaymentSignerLease [intro]:
  "guar pay_I pay_R action \<Longrightarrow> guar pay_I pay_R (withPaymentSignerLease c a action)"
  unfolding withPaymentSignerLease_def Let_def
  by (intro pay.guar_bindA pay.guar_catchA pay.guar_calm guar_acquire guar_release
      | split option.split | intro conjI allI impI | assumption)+

lemma guar_prepare_mint [intro]: "guar pay_I pay_R (prepare_mint V sv c m n account op)"
  unfolding prepare_mint_def Let_def
  by (intro pay.guar_bindA pay.guar_calm guar_crosschain guar_crosschain_batches guar_nonceWasUsed guar_broadcast
      | split option.split if_split prod.split | intro conjI allI impI)+

lemma guar_mint_under_lease [intro]: "guar pay_I pay_R (mint_under_lease V sv env m n op)"
  unfolding mint_under_lease_def Let_def
  by (intro pay.guar_bindA pay.guar_catchA pay.guar_calm guar_withPaymentSignerLease guar_prepare_mint guar_nonceWasUsed
      | split if_split | intro conjI allI impI)+

lemma guar_resume_mint [intro]: "guar pay_I pay_R (resume_mint sv op h raw)"
  unfolding resume_mint_def Let_def
  by (intro pay.guar_bindA pay.guar_catchA pay.guar_calm guar_chain_reads guar_crosschain guar_crosschain_batches
      guar_broadcast | split if_split | intro conjI allI impI)+

lemma guar_mintCctpSettlement [intro]: "guar pay_I pay_R (mintCctpSettlement V sv env x)"
  unfolding mintCctpSettlement_def
  by (intro pay.guar_bindA pay.guar_calm guar_reads_ok guar_option_intent guar_crosschain guar_nonceWasUsed guar_recoverMint
      guar_finalize guar_resume_mint guar_mint_under_lease
      | split option.split if_split prod.split | intro conjI allI impI)+

lemma guar_scan_log [intro]: "guar pay_I pay_R (scan_log V sv env c lg)"
  unfolding scan_log_def journal_log_def reconcile_log_def
  by (intro pay.guar_bindA pay.guar_calm guar_reads_ok guar_upsertPaymentChainEvent guar_markAttemptProcessing
      guar_reconcileAttempt | split option.split if_split prod.split | intro conjI allI impI)+

lemma guar_scanPaymentRouters [intro]: "guar pay_I pay_R (scanPaymentRouters V sv env c)"
  unfolding scanPaymentRouters_def scan_range_def listActiveRouterAddressesByChain_def Let_def
  by (intro pay.guar_bindA pay.guar_calm guar_reads_ok guar_chain_reads guar_journal_reads guar_verifyRouterCheckpoint
      pay.guar_forA guar_scan_log guar_commitRouterCheckpoint | split if_split | intro conjI allI impI)+

end
