(* ===== verification/CheckoutGuards.thy ===== *)
theory CheckoutGuards
  imports CheckoutRoutes Jobs ReconcileGuards
begin

text \<open>
  The queue's consumer and the checkout routes among other requests: each keeps the accounting invariant and moves
  the database along \<open>pay_R\<close>.
\<close>

subsection \<open>The queue\<close>

lemma guar_post_delivery [intro]: "guar pay_I pay_R (post_delivery V sv dj s ts)"
  unfolding post_delivery_def hmac_def Let_def by (intro pay.guar_bindA pay.guar_calm)

lemma guar_decrypt [intro]: "guar pay_I pay_R (decryptWebhookSecret V env c k)"
  unfolding decryptWebhookSecret_def by (intro pay.guar_bindA pay.guar_calm)

lemma guar_deliverOne [intro]: "guar pay_I pay_R (deliverOne V sv env dj)"
  unfolding deliverOne_def Let_def
  by (intro pay.guar_bindA pay.guar_catchA pay.guar_calm pay.guar_randomUUID guar_job_store guar_post_delivery guar_decrypt
      conjI impI | split if_split)+

lemma guar_deliver_all [intro]: "guar pay_I pay_R (deliver_all V sv env djs)"
  by (induction djs) (auto intro!: pay.guar_bindA)

lemma guar_run_evidence [intro]: "guar pay_I pay_R (run_evidence_job V sv env j x)"
proof -
  have w: "guar pay_I pay_R (watched_chain y)" for y
    unfolding watched_chain_def
    by (intro pay.guar_bindA pay.guar_calm guar_reads_ok allI impI conjI | split option.split if_split)+
  show ?thesis
    unfolding run_evidence_job_def
    by (intro pay.guar_bindA pay.guar_calm w guar_reconcileAttempt guar_scanPaymentRouters guar_advanceCctpAttestation
        guar_mintCctpSettlement allI impI conjI | split payment_job_name.split option.split if_split)+
qed

lemma guar_runPaymentJob [intro]: "guar pay_I pay_R (runPaymentJob V sv env m)"
  unfolding runPaymentJob_def
  by (intro pay.guar_bindA pay.guar_calm guar_job_store guar_deliver_all guar_run_evidence conjI impI | split if_split)+

lemma guar_emitA [intro]: "guar pay_I pay_R (emitA x)"
  by (rule calm_guar) (rule pay.calm_emitA)

lemma guar_consume [intro]: "guar pay_I pay_R (consumePaymentsWorkerQueue V sv env queue qs)"
proof -
  have r: "guar pay_I pay_R (run_claimed V sv env q m c)" for q m c
    unfolding run_claimed_def
    by (intro pay.guar_bindA pay.guar_calm guar_emitA guar_job_store guar_runPaymentJob allI impI conjI | split job_claim.split)+
  have "guar pay_I pay_R (consume_one V sv env q)" for q
    unfolding consume_one_def
    by (intro pay.guar_bindA pay.guar_catchA pay.guar_calm guar_emitA guar_job_store r allI impI conjI | split option.split)+
  then show ?thesis
    unfolding consumePaymentsWorkerQueue_def consumePaymentQueue_def by (auto intro: pay.guar_forA)
qed

subsection \<open>Quotes and authorizations\<close>

text \<open>Code that touches only the memory of the isolate.\<close>

lemma guar_memory:
  assumes "\<And>d. same_accounts d (snd (f d))"
  shows "guar pay_I pay_R (syncA f)"
proof (rule calm_guar, rule pay.calm_syncA)
  fix g k d
  assume i: "pay_I g k d"
  have "keeps (\<lambda>d. Some (snd (f d), 0 :: nat))" by (rule keeps_same) (use assms in auto)
  then have "pay.stmt_ok (\<lambda>d. Some (snd (f d), 0 :: nat))" by (rule keeps_stmt_ok)
  then show "pay_I g k (snd (f d)) \<and> pay_R d (snd (f d))" using i unfolding pay.stmt_ok_def by blast
qed

lemma guar_memories [intro]:
  "guar pay_I pay_R (syncA (\<lambda>d. (h d, d)))" "guar pay_I pay_R (syncA (remember k t ob))"
  "guar pay_I pay_R (syncA (remember_last k t ob))"
  by (rule guar_memory, simp add: same_accounts_def remember_def remember_last_def)+

lemma guar_cachedObservation [intro]: "guar pay_I pay_R (cachedObservation V sv env t None)"
  unfolding cachedObservation_def readPaymentRouter_def Let_def option.case
  by (intro pay.guar_bindA pay.guar_calm guar_memories allI impI conjI | split option.split if_split prod.split)+

lemma guar_gate [intro]: "guar pay_I pay_R (assertPaymentRouterReadyForAuthorization V sv env inp None)"
  unfolding assertPaymentRouterReadyForAuthorization_def Let_def
  by (intro pay.guar_bindA pay.guar_catchA pay.guar_calm guar_cachedObservation allI impI conjI
      | split option.split if_split)+

lemma guar_health [intro]: "guar pay_I pay_R (collectPaymentRouterHealth V sv env None)"
proof -
  have "guar pay_I pay_R (check_route V sv env None t)" for t
    unfolding check_route_def recentObservation_def Let_def
    by (intro pay.guar_bindA pay.guar_catchA pay.guar_calm guar_cachedObservation guar_memories allI impI conjI
        | split option.split if_split prod.split)+
  then show ?thesis
    unfolding collectPaymentRouterHealth_def
    by (auto intro!: pay.guar_bindA pay.guar_mapA split: prod.split)
qed

lemma guar_buildQuote [intro]: "guar pay_I pay_R (buildQuote V sv env inp)"
  unfolding buildQuote_def live_quote_fee_def getLiveCctpFee_def
  by (intro pay.guar_bindA pay.guar_catchA pay.guar_calm pay.guar_randomUUID allI impI conjI
      | split if_split prod.split)+

lemma guar_authorizeAttempt [intro]: "guar pay_I pay_R (authorizeAttempt V sv env inp)"
  unfolding authorizeAttempt_def Let_def
  by (intro pay.guar_bindA pay.guar_catchA pay.guar_calm pay.guar_randomUUID guar_gate allI impI conjI
      | split option.split if_split prod.split err.split)+

subsection \<open>The checkout routes\<close>

lemma keeps_rate: "keeps (batch [insert_rate_stmt sc k ws ts, count_rate_stmt sc k ws ts])"
  by (rule keeps_batch) (auto simp: insert_rate_stmt_def count_rate_stmt_def Let_def plain_def same_accounts_def
      intro!: keeps_same split: if_splits)

lemma guar_access [intro]:
  "guar pay_I pay_R (enforceRateLimit V rq ru)" "guar pay_I pay_R (requestCapabilityHash V rq)"
  "guar pay_I pay_R (hashCheckoutCapability V c)" "guar pay_I pay_R (read_body rq)"
  "guar pay_I pay_R (verifyCheckoutPayerProof V m p s)"
  unfolding enforceRateLimit_def sha256Hex_def incrementRateLimit_def requestCapabilityHash_def hashCheckoutCapability_def
    read_body_def verifyCheckoutPayerProof_def Let_def
  by (intro pay.guar_bindA pay.guar_catchA pay.guar_calm guar_dbb_keeps keeps_rate allI impI conjI | split if_split)+

lemma guar_limited [intro]: "guar pay_I pay_R m \<Longrightarrow> guar pay_I pay_R (limited V rq ru m)"
  unfolding limited_def by (intro pay.guar_bindA guar_access | split option.split | intro allI impI conjI pay.guar_calm | assumption)+

lemmas checkout_rules = pay.guar_bindA pay.guar_catchA pay.guar_calm guar_reads_ok guar_access guar_limited
  guar_enqueuePaymentJob guar_releaseExpired guar_insertQuote guar_insertAttempt guar_registerSourceTransaction
  guar_cancelAttempt guar_verifyReported guar_buildQuote guar_authorizeAttempt

lemma guar_registerAttempt [intro]: "guar pay_I pay_R (registerAttempt V sv env rq x l)"
  unfolding registerAttempt_def in_link_def check_evidence_def pending_evidence_def register_verified_def Let_def
  by (intro checkout_rules allI impI conjI | split option.split if_split evidence_check.split err.split)+

lemma guar_readAttempt [intro]: "guar pay_I pay_R (readAttempt V rq x l)"
  unfolding readAttempt_def by (intro checkout_rules allI impI conjI | split option.split if_split)+

lemma guar_releasedIntent [intro]: "guar pay_I pay_R (releasedIntent l)"
  unfolding releasedIntent_def by (intro checkout_rules allI impI conjI | split option.split)+

lemma guar_getCheckoutLink [intro]: "guar pay_I pay_R (getCheckoutLink V env rq l)"
  unfolding getCheckoutLink_def by (intro checkout_rules allI impI conjI | split option.split)+

lemma guar_postQuote [intro]: "guar pay_I pay_R (postQuote V sv env rq l)"
  unfolding postQuote_def
  by (intro checkout_rules guar_releasedIntent allI impI conjI | split option.split json.split if_split)+

lemma guar_postAttempt [intro]: "guar pay_I pay_R (postAttempt V sv env rq l)"
  unfolding postAttempt_def find_attempt_request_def create_attempt_def store_attempt_def existing_attempt_def Let_def
  by (intro checkout_rules guar_releasedIntent allI impI conjI | split option.split if_split prod.split)+

lemma guar_cancelCheckout [intro]: "guar pay_I pay_R (cancelCheckoutAttempt V rq x)"
  unfolding cancelCheckoutAttempt_def by (intro checkout_rules allI impI conjI | split option.split if_split)+

lemma guar_checkout [intro]: "guar pay_I pay_R (checkout_handler V sv env rq route)"
  unfolding checkout_handler_def with_quote_errors_def
  by (cases route) (auto intro!: pay.guar_catchA split: err.split)

end
