(* ===== verification/ApiGuards.thy ===== *)
theory ApiGuards
  imports Dashboard Rpc CheckoutGuards
begin

text \<open>
  The merchant's API, the dashboard, the links, the RPC, the queue and the cron among other requests: each keeps the
  accounting invariant and moves the database along \<open>pay_R\<close>.
\<close>

subsection \<open>Statements outside the accounts\<close>

lemma keeps_api_statements [intro]:
  "keeps (insert_key_stmt k)" "keeps (touch_key_stmt x ts)" "keeps (revoke_stmt m x ts)"
  "keeps (insert_endpoint_stmt ep)" "keeps (disable_endpoint_stmt m x ts)" "keeps (resend_stmt m x ts)"
  "keeps (rotate_stmt ep c i ts)" "keeps (cleanup_stmt before)"
  unfolding insert_key_stmt_def touch_key_stmt_def revoke_stmt_def insert_endpoint_stmt_def disable_endpoint_stmt_def
    resend_stmt_def rotate_stmt_def cleanup_stmt_def Let_def
  by (rule keeps_same; auto dest!: stmt_SomeD simp: same_accounts_def)+

lemma guar_liftE_bind:
  assumes "\<And>x. r = Inr x \<Longrightarrow> guar pay_I pay_R (f x)"
  shows "guar pay_I pay_R (bindA (liftE r) f)"
  by (rule pay.guar_bindA_post [where P = "\<lambda>x. r = Inr x"])
    (use assms in \<open>auto simp: liftE_def intro: pay.guar_calm\<close>)

lemma guar_keys [intro]:
  "guar pay_I pay_R (createApiKey V m md name)" "guar pay_I pay_R (authenticateApiKey V raw)"
  "guar pay_I pay_R (revokeApiKey m x)" "guar pay_I pay_R (listApiKeys m)"
  unfolding createApiKey_def authenticateApiKey_def revokeApiKey_def listApiKeys_def randomSecret_def sha256Hex_def Let_def
  by (intro pay.guar_bindA pay.guar_calm pay.guar_randomUUID guar_dbx_keeps keeps_api_statements allI impI conjI
      | split option.split if_split)+

lemma guar_encryptSecret [intro]: "guar pay_I pay_R (encryptWebhookSecret V env s)"
  unfolding encryptWebhookSecret_def Let_def
  by (intro pay.guar_bindA pay.guar_calm pay.guar_randomUUID allI impI conjI | split option.split if_split prod.split)+

lemma guar_endpoints [intro]:
  "guar pay_I pay_R (createWebhookEndpoint V env m url md es)" "guar pay_I pay_R (disableWebhookEndpoint m x)"
  "guar pay_I pay_R (resendWebhookDelivery m x)" "guar pay_I pay_R (listWebhookEndpoints m)"
  "guar pay_I pay_R (listEvents m n c)" "guar pay_I pay_R (listWebhookDeliveries m n)"
  unfolding createWebhookEndpoint_def disableWebhookEndpoint_def resendWebhookDelivery_def listWebhookEndpoints_def
    listEvents_def listWebhookDeliveries_def randomSecret_def Let_def
  by (intro pay.guar_bindA pay.guar_calm pay.guar_randomUUID guar_dbx_keeps keeps_api_statements guar_encryptSecret
      allI impI conjI | split option.split if_split prod.split)+

lemma guar_rotate_rows_pay [intro]: "guar pay_I pay_R (rotate_rows V env rows n)"
  by (induction rows arbitrary: n)
    (auto intro!: pay.guar_bindA pay.guar_calm guar_dbx_keeps keeps_api_statements split: prod.split)

lemma guar_rotateBatch [intro]: "guar pay_I pay_R (rotateWebhookEncryptionBatch V env n)"
  unfolding rotateWebhookEncryptionBatch_def Let_def
  by (intro pay.guar_bindA pay.guar_calm guar_rotate_rows_pay allI impI conjI | split option.split if_split prod.split)+

subsection \<open>The API\<close>

lemma create_ok_amount: "amount V v = Inr amt \<Longrightarrow> create_ok (new_intent_input m amt None det key md)"
  by (cases amt) (use amount_positive in \<open>fastforce simp: create_ok_def new_intent_input_def\<close>)

lemma create_ok_optional:
  "optionalAmount V v = Inr (d, a, am) \<Longrightarrow> create_ok (new_intent_input m (d, a) (Some am) det key md)"
  using optionalAmount_mode [of V v d a am] by (cases am) (auto simp: create_ok_def new_intent_input_def)

lemmas api_rules = checkout_rules guar_keys guar_endpoints guar_cancelPaymentIntent guar_simulatePaymentIntent
  guar_flushPaymentOutbox pay.guar_randomUUID

lemma guar_apiReads [intro]:
  "guar pay_I pay_R (getPaymentIntentFeeBreakdown x)" "guar pay_I pay_R (listPaymentIntents m n li)"
  "guar pay_I pay_R (listPaymentLinks u n)" "guar pay_I pay_R (getMerchantByOwner u)" "guar pay_I pay_R (getMerchantById u)"
  unfolding getPaymentIntentFeeBreakdown_def listPaymentIntents_def listPaymentLinks_def getMerchantByOwner_def getMerchantById_def
    getAttemptFeeBreakdown_def
  by (intro pay.guar_bindA pay.guar_calm allI | split list.split | intro allI impI conjI)+

lemma guar_create_api [intro]: "guar pay_I pay_R (create_api_intent V env rq md m)"
  unfolding create_api_intent_def
  by (intro pay.guar_bindA guar_access guar_liftE_bind guar_createIntentAndLink create_ok_amount pay.guar_calm allI impI conjI
      | split if_split | assumption)+

lemma guar_create_link [intro]: "guar pay_I pay_R (create_link V rq m)"
  unfolding create_link_def
  by (intro pay.guar_bindA guar_access guar_liftE_bind guar_createIntentAndLink create_ok_optional pay.guar_calm allI impI conjI
      | split if_split prod.split | (simp; fail))+

lemma guar_owned: "(\<And>i. guar pay_I pay_R (h i)) \<Longrightarrow> guar pay_I pay_R (owned_intent rq m x h)"
  unfolding owned_intent_def by (intro pay.guar_bindA pay.guar_calm guar_reads_ok allI impI conjI | split option.split if_split | simp)+

lemma guar_apiHandlers [intro]:
  "guar pay_I pay_R (postPaymentIntent V env rq m md)" "guar pay_I pay_R (listApiIntents m)"
  "guar pay_I pay_R (getApiIntent rq m i)" "guar pay_I pay_R (cancelApiIntent rq m i)"
  "guar pay_I pay_R (getOnchain V sv env rq m i p c)" "guar pay_I pay_R (postSimulate sv env rq m md i)"
  "guar pay_I pay_R (getApiEvents m)" "guar pay_I pay_R (getApiEvent rq m e)"
  unfolding postPaymentIntent_def listApiIntents_def getApiIntent_def cancelApiIntent_def getOnchain_def postSimulate_def
    getApiEvents_def getApiEvent_def Let_def
  by (intro api_rules guar_apiReads guar_create_api guar_owned allI impI conjI | split option.split if_split)+

lemma guar_requireApiKey: "(\<And>m. guar pay_I pay_R (h m)) \<Longrightarrow> guar pay_I pay_R (requireApiKey V rq h)"
  unfolding requireApiKey_def Let_def by (intro api_rules allI impI conjI | split option.split if_split | simp)+

lemma guar_api [intro]: "guar pay_I pay_R (api_handler V sv env rq route)"
  unfolding api_handler_def with_api_key_def
  by (intro guar_requireApiKey guar_limited guar_apiHandlers allI impI conjI | split prod.split api_route.split)+

lemma guar_requireAuth: "(\<And>u. guar pay_I pay_R (h u)) \<Longrightarrow> guar pay_I pay_R (requireAuth rq h)"
  unfolding requireAuth_def by (intro pay.guar_calm allI impI conjI | split option.split | simp)+

lemma guar_links [intro]:
  "guar pay_I pay_R (postLink V rq)" "guar pay_I pay_R (listLinks V rq)" "guar pay_I pay_R (getLink V rq l)"
  unfolding postLink_def listLinks_def getLink_def
  by (intro guar_requireAuth api_rules guar_apiReads guar_create_link allI impI conjI | split option.split if_split)+

subsection \<open>The dashboard\<close>

lemma guar_with_merchant: "(\<And>m. guar pay_I pay_R (h m)) \<Longrightarrow> guar pay_I pay_R (with_merchant u r h)"
  unfolding with_merchant_def
  by (intro pay.guar_bindA pay.guar_calm guar_apiReads allI impI conjI | split option.split | simp)+

lemma guar_webhook_request [intro]: "guar pay_I pay_R (webhook_request V rq)"
  unfolding webhook_request_def by (intro pay.guar_catchA pay.guar_bindA pay.guar_calm guar_access)

lemma guar_postCharge [intro]: "guar pay_I pay_R (postCharge V env rq u)"
  unfolding postCharge_def
  by (intro guar_with_merchant pay.guar_bindA guar_access guar_liftE_bind guar_createIntentAndLink create_ok_amount
      pay.guar_calm allI impI conjI | assumption)+

lemma guar_dashboardHandlers [intro]:
  "guar pay_I pay_R (getProfile rq u)" "guar pay_I pay_R (getCapabilities env u)" "guar pay_I pay_R (postKey V env rq u)"
  "guar pay_I pay_R (getKeys u)" "guar pay_I pay_R (deleteKey rq u x)" "guar pay_I pay_R (postWebhook V env rq u)"
  "guar pay_I pay_R (getWebhooks u)" "guar pay_I pay_R (deleteWebhook rq u x)" "guar pay_I pay_R (getIntents u pq)"
  "guar pay_I pay_R (getIntent env rq u x)" "guar pay_I pay_R (getEvents u pq)" "guar pay_I pay_R (getDeliveries u)"
  "guar pay_I pay_R (postResend sv env rq u x)" "guar pay_I pay_R (postSandboxPayment sv env rq u x)"
  unfolding getProfile_def getCapabilities_def postKey_def getKeys_def deleteKey_def postWebhook_def getWebhooks_def
    deleteWebhook_def getIntents_def getIntent_def getEvents_def getDeliveries_def postResend_def postSandboxPayment_def
    Let_def
  by (intro guar_with_merchant api_rules guar_apiReads guar_webhook_request allI impI conjI
      | split option.split if_split prod.split)+

lemma guar_dashboard [intro]: "guar pay_I pay_R (dashboard_handler V sv env rq route)"
  unfolding dashboard_handler_def
  by (intro guar_requireAuth guar_limited guar_dashboardHandlers guar_postCharge allI impI conjI | split dashboard_route.split)+

subsection \<open>RPC, queue and cron\<close>

lemma guar_availability [intro]: "guar pay_I pay_R (paymentsWriteAvailability env)"
  unfolding paymentsWriteAvailability_def paymentsDataCutoverState_def paymentMigrationControl_def Let_def
  by (intro pay.guar_bindA pay.guar_catchA pay.guar_calm allI impI conjI | split if_split)+

lemma guar_when_available: "guar pay_I pay_R m \<Longrightarrow> guar pay_I pay_R (when_available env m)"
  unfolding when_available_def by (intro pay.guar_bindA pay.guar_calm guar_availability conjI impI | split if_split | assumption)+

lemmas rpc_rules = guar_when_available pay.guar_catchA api_rules guar_apiReads guar_upsertSettlementAccount
  guar_insertQuoteAndAttempt guar_registerAppExecution pay.guar_forA

lemma guar_rpc [intro]:
  "guar pay_I pay_R (upsertSettlementAccountRpc V env v)" "guar pay_I pay_R (reserveAppPaymentAttempt V sv env v)"
  "guar pay_I pay_R (registerAppPaymentExecution V sv env v)"
  unfolding upsertSettlementAccountRpc_def reserveAppPaymentAttempt_def reserve_on_def reserve_new_def
    registerAppPaymentExecution_def
  by (intro rpc_rules allI impI conjI | split option.split if_split json.split prod.split)+

lemma guar_background [intro]:
  "guar pay_I pay_R (queue V sv env name qs)" "guar pay_I pay_R (scheduled V sv env)"
  unfolding queue_def scheduled_def rotate_secrets_def cleanupExpiredRateLimits_def listActivePaymentChainIds_def
  by (intro rpc_rules guar_consume guar_rotateBatch guar_dbx_keeps keeps_api_statements guar_availability guar_emitA
      allI impI conjI | split if_split)+

end
