(* ===== verification/Worker.thy ===== *)
theory Worker
  imports ApiGuards
begin

text \<open>
  The Payments Worker as a whole (\<^verbatim>\<open>index.ts\<close>): the HTTP application behind its write gate and error handler,
  the RPC methods, the queue and the cron, and any sequence of calls of them.
\<close>

subsection \<open>The HTTP application\<close>

datatype http_target =
    CheckoutTarget checkout_route
  | ApiTarget api_route
  | DashboardTarget dashboard_route
  | PostLinks | ListLinks | ReadLink string

text \<open>The method each route is registered with.\<close>

definition verb_of :: "http_target \<Rightarrow> string" where
  "verb_of t = (case t of
       CheckoutTarget r \<Rightarrow> (case r of GetLink l \<Rightarrow> ''GET'' | ReadAttempt a l \<Rightarrow> ''GET'' | _ \<Rightarrow> ''POST'')
     | ApiTarget r \<Rightarrow> (case r of CreateIntent \<Rightarrow> ''POST'' | CancelIntent i \<Rightarrow> ''POST'' | Simulate i \<Rightarrow> ''POST'' | _ \<Rightarrow> ''GET'')
     | DashboardTarget r \<Rightarrow> (case r of PostKey \<Rightarrow> ''POST'' | DeleteKey x \<Rightarrow> ''DELETE'' | PostWebhook \<Rightarrow> ''POST''
         | DeleteWebhook x \<Rightarrow> ''DELETE'' | PostResend x \<Rightarrow> ''POST'' | PostCharge \<Rightarrow> ''POST'' | PostSandboxPayment x \<Rightarrow> ''POST''
         | _ \<Rightarrow> ''GET'')
     | PostLinks \<Rightarrow> ''POST'' | ListLinks \<Rightarrow> ''GET'' | ReadLink l \<Rightarrow> ''GET'')"

definition route_handler ::
    "viem \<Rightarrow> services \<Rightarrow> bindings \<Rightarrow> http_request \<Rightarrow> http_target \<Rightarrow> http_response pact" where
  "route_handler V sv env rq t = (case t of
       CheckoutTarget r \<Rightarrow> checkout_handler V sv env rq r
     | ApiTarget r \<Rightarrow> api_handler V sv env rq r
     | DashboardTarget r \<Rightarrow> dashboard_handler V sv env rq r
     | PostLinks \<Rightarrow> postLink V rq
     | ListLinks \<Rightarrow> listLinks V rq
     | ReadLink l \<Rightarrow> getLink V rq l)"

definition app_handler ::
    "viem \<Rightarrow> services \<Rightarrow> bindings \<Rightarrow> http_request \<Rightarrow> http_target \<Rightarrow> http_response pact" where
  "app_handler V sv env rq t = with_app_errors rq (write_gate env rq (verb_of t) (route_handler V sv env rq t))"

subsection \<open>Calls of the worker\<close>

datatype worker_call =
    Fetch http_request http_target
  | UpsertAccount json
  | ReserveAttempt json
  | RegisterExecution json
  | QueueBatch string "queue_message list"
  | Cron

text \<open>What a call does; its result goes to the caller.\<close>

definition run_call :: "viem \<Rightarrow> services \<Rightarrow> bindings \<Rightarrow> worker_call \<Rightarrow> unit pact" where
  "run_call V sv env c = (case c of
       Fetch rq t \<Rightarrow> bindA (app_handler V sv env rq t) (\<lambda>_. ret ())
     | UpsertAccount v \<Rightarrow> bindA (upsertSettlementAccountRpc V env v) (\<lambda>_. ret ())
     | ReserveAttempt v \<Rightarrow> bindA (reserveAppPaymentAttempt V sv env v) (\<lambda>_. ret ())
     | RegisterExecution v \<Rightarrow> bindA (registerAppPaymentExecution V sv env v) (\<lambda>_. ret ())
     | QueueBatch name qs \<Rightarrow> queue V sv env name qs
     | Cron \<Rightarrow> scheduled V sv env)"

text \<open>Calls one after another: an exception of one reaches its caller only.\<close>

definition run_calls :: "viem \<Rightarrow> services \<Rightarrow> bindings \<Rightarrow> worker_call list \<Rightarrow> unit pact" where
  "run_calls V sv env cs = forA (\<lambda>c. catchA (run_call V sv env c) (\<lambda>_. ret ())) cs"

subsection \<open>Every call among other requests\<close>

lemma guar_app [intro]: "guar pay_I pay_R (app_handler V sv env rq t)"
  unfolding app_handler_def with_app_errors_def write_gate_def route_handler_def Let_def
  by (intro pay.guar_catchA pay.guar_bindA pay.guar_calm guar_availability guar_checkout guar_api guar_dashboard guar_links
      allI impI conjI | split http_target.split if_split)+

lemma guar_call [intro]: "guar pay_I pay_R (run_call V sv env c)"
  unfolding run_call_def
  by (intro pay.guar_bindA pay.guar_calm guar_app guar_rpc guar_background allI impI conjI | split worker_call.split)+

lemma guar_calls: "guar pay_I pay_R (run_calls V sv env cs)"
  unfolding run_calls_def by (intro pay.guar_forA pay.guar_catchA guar_call pay.guar_calm)

lemma calls_keep:
  assumes "holds_at pay_I (w_ix w) w" and "env_ok pay_I pay_R w"
  shows "pay_inv (w_db (snd (run_calls V sv env cs w)))" "pay_R (w_db w) (w_db (snd (run_calls V sv env cs w)))"
  using guarD [OF guar_calls assms, of V sv env cs] by (auto simp: ends_ok_def holds_at_def pay_I_def)

subsection \<open>While writes are blocked\<close>

text \<open>The calls the gate covers: everything but the routes that only read.\<close>

definition gated :: "worker_call \<Rightarrow> bool" where
  "gated c \<longleftrightarrow> (case c of Fetch rq t \<Rightarrow> verb_of t \<noteq> ''GET'' | _ \<Rightarrow> True)"

lemma verbs: "verb_of t \<in> {''GET'', ''POST'', ''DELETE''}"
  by (simp add: verb_of_def split: http_target.split checkout_route.split api_route.split dashboard_route.split)

lemma mutating_verb: "verb_of t \<noteq> ''GET'' \<Longrightarrow> toUpperCase (verb_of t) \<in> set MUTATING_HTTP_METHODS"
  using verbs [of t] by (auto simp: MUTATING_HTTP_METHODS_def) (code_simp+)

end
