(* ===== verification/SettlementProps.thy ===== *)
theory SettlementProps
  imports Guarantees Samples
begin

text \<open>
  What a settlement does when nothing interferes, the states the database can reach, and the
  properties of the settlement component.
\<close>

subsection \<open>Undisturbed settlement\<close>

lemma dbb_quiet:
  "w_env w = [] \<Longrightarrow> dbb ss w = (case batch ss (w_db w) of None \<Rightarrow> (Inl ConstraintFailed, w)
     | Some (d, ns) \<Rightarrow> (Inr ns, w\<lparr>w_db := d\<rparr>))"
  unfolding dbb_def by (rule dbx_quiet)

definition attempt_row_of :: "string \<Rightarrow> pdb \<Rightarrow> attempt_row option" where
  "attempt_row_of x d = find (\<lambda>a. a_id a = x) (db_attempts d)"

lemma getAttempt_quiet:
  "w_env w = [] \<Longrightarrow> getAttempt x w = (Inr (map_option mapAttempt (attempt_row_of x (w_db w))), w)"
  by (simp add: getAttempt_def dbq_quiet attempt_row_of_def)

lemma getPaymentIntent_quiet:
  "w_env w = [] \<Longrightarrow> getPaymentIntent x w = (Inr (map_option mapIntent (find_intent x (db_intents (w_db w)))), w)"
  by (simp add: getPaymentIntent_def dbq_quiet find_intent_def)

lemma same_accounts_refl [simp]: "same_accounts d d"
  by (simp add: same_accounts_def)

lemma recordAttemptFeeEvidence_quiet:
  assumes "w_env w = []"
  obtains r w' where "recordAttemptFeeEvidence x f n tx w = (r, w')" and "same_accounts (w_db w) (w_db w')"
    and "w_env w' = []" and "w_uuid w' = w_uuid w" and "w_ix w' = w_ix w" and "w_now w' = w_now w"
proof -
  have inert: "same_accounts d d'" if "batch (charge_line y FeePlatform f tx ts #
      (case n of None \<Rightarrow> [] | Some m \<Rightarrow> [charge_line y FeeNetwork m tx ts])) d = Some (d', ns)" for y ts d d' ns
  proof (rule batch_inert [OF _ that])
    fix s assume "s \<in> set (charge_line y FeePlatform f tx ts #
      (case n of None \<Rightarrow> [] | Some m \<Rightarrow> [charge_line y FeeNetwork m tx ts]))"
    then show "inert s"
      by (auto simp: inert_def charge_line_def plain_def same_accounts_def Let_def split: option.splits)
  qed
  show ?thesis
  proof (cases "attempt_row_of x (w_db w)")
    case None
    then show ?thesis
      by (intro that [of "Inl (Thrown ''Payment attempt is missing for fee evidence'')" w])
        (use assms in \<open>simp_all add: recordAttemptFeeEvidence_def bindA_def getAttempt_quiet throw_def\<close>)
  next
    case (Some a)
    let ?ss = "charge_line (a_id a) FeePlatform f tx (w_now w) #
      (case n of None \<Rightarrow> [] | Some m \<Rightarrow> [charge_line (a_id a) FeeNetwork m tx (w_now w)])"
    show ?thesis
    proof (cases "f = a_platformFeeAtomic a \<and> \<not> (case n of None \<Rightarrow> False | Some m \<Rightarrow> m < 0 \<or> a_cctpFeeAtomic a < m)")
      case False
      then have "\<exists>e. recordAttemptFeeEvidence x f n tx w = (Inl e, w)"
        using Some assms
        by (cases n) (auto simp: recordAttemptFeeEvidence_def bindA_def getAttempt_quiet throw_def)
      then show ?thesis using assms by (elim exE) (rule that, simp_all)
    next
      case True
      obtain d ns where b: "batch ?ss (w_db w) = Some (d, ns)"
        by (cases n) (auto simp: charge_line_def plain_def Let_def)
      have "recordAttemptFeeEvidence x f n tx w = (Inr (), w\<lparr>w_db := d\<rparr>)"
        using True Some assms b
        by (cases n) (auto simp: recordAttemptFeeEvidence_def bindA_def getAttempt_quiet date_now_def
            dbb_quiet ret_def simp del: batch.simps)
      then show ?thesis by (rule that) (use inert [OF b] assms in simp_all)
    qed
  qed
qed

definition plan_for :: "viem \<Rightarrow> settle_input \<Rightarrow> ('d, 'm) world \<Rightarrow> attempt_row \<Rightarrow> intent_row \<Rightarrow> settle_plan" where
  "plan_for V inp w a i =
     settle_plan_of V inp (mapAttempt a) (mapIntent i) (''stc_'' @ w_uuid w (w_ix w)) (w_now w)"

lemma plan_for_ids: "sp_intentId (plan_for V inp w a i) = i_id i" "sp_attemptId (plan_for V inp w a i) = a_id a"
    "sp_previousPaid (plan_for V inp w a i) = i_paidAmountAtomic i"
    "sp_commitId (plan_for V inp w a i) = ''stc_'' @ w_uuid w (w_ix w)"
  by (simp_all add: plan_for_def settle_plan_of_def Let_def)

lemma attempt_row_of_Some: "attempt_row_of x d = Some a \<Longrightarrow> a \<in> set (db_attempts d) \<and> a_id a = x"
  unfolding attempt_row_of_def by (drule find_SomeD) simp

lemma holds_at_inv: "holds_at pay_I k w \<Longrightarrow> pay_inv (w_db w)"
  by (simp add: holds_at_def pay_I_def)

lemma holds_at_fresh: "holds_at pay_I k w \<Longrightarrow> fresh_commit (w_uuid w k) (w_db w)"
  by (simp add: holds_at_def pay_I_def)

text \<open>One round, with the rows it reads.\<close>

lemma settle_round_quiet:
  assumes q: "w_env w = []" and I: "holds_at pay_I (w_ix w) w"
    and a: "attempt_row_of (st_attemptId inp) (w_db w) = Some a"
    and i: "find_intent (a_intentId a) (db_intents (w_db w)) = Some i"
    and act: "active_status (a_status a)"
  shows "(\<exists>w' r. settle_round V inp fees ev w = (Inr (Some r), w') \<and> sr_applied r \<and> accepts_settlement (i_status i) \<and>
        settled_accounts (plan_for V inp w a i) (w_db w) (w_db w')) \<or>
    (\<exists>w'. settle_round V inp fees ev w = (Inr None, w') \<and> \<not> accepts_settlement (i_status i) \<and>
        w_db w' = w_db w \<and> w_env w' = [] \<and> holds_at pay_I (w_ix w') w') \<or>
    (\<exists>w'. settle_round V inp fees ev w = (Inl ConstraintFailed, w') \<and> w_db w' = w_db w)"
proof -
  let ?p = "plan_for V inp w a i" and ?w = "w\<lparr>w_ix := Suc (w_ix w)\<rparr>"
  define eps where "eps = map ep_id (filter (subscribed (i_merchantId i) (i_mode i)
    (event_type_of (sp_status ?p))) (db_endpoints (w_db w)))"
  define b where "b = settle_batch ?p (settlement_event ?p (mapIntent i) fees ev) eps"
  note a' = attempt_row_of_Some [OF a] and i' = find_intent_Some [OF i]
  have not_settled: "\<not> settled_status (a_status a)" using active_not_settled act by blast
  have run: "settle_round V inp fees ev w = (case batch b (w_db w) of None \<Rightarrow> (Inl ConstraintFailed, ?w)
      | Some (d, ns) \<Rightarrow> if 0 < hd ns
          then (Inr (Some \<lparr>sr_applied = True, sr_intent = map_option mapIntent (find_intent (i_id i) (db_intents d)),
             sr_eventId = Some ev\<rparr>), ?w\<lparr>w_db := d\<rparr>)
          else (Inr None, ?w\<lparr>w_db := d\<rparr>))"
    using q a i act not_settled
    by (simp add: settle_round_def bindA_def getAttempt_quiet getPaymentIntent_quiet date_now_def
        randomUUID_def endpoints_for_def dbq_quiet dbb_quiet Let_def ret_def b_def eps_def plan_for_def
        split: option.splits)
  have nc: "\<not> committed ?p (w_db w)"
    using holds_at_fresh [OF I] by (auto simp: committed_def list_ex_iff fresh_commit_def plan_for_ids)
  have cas: "cas_holds ?p (w_db w) = accepts_settlement (i_status i)"
  proof -
    have acc: "accounts_ok (db_intents (w_db w)) (db_links (w_db w)) (db_attempts (w_db w)) (db_commits (w_db w))"
      using holds_at_inv [OF I] by (simp add: pay_inv_def)
    then have dist: "distinct (map i_id (db_intents (w_db w)))" unfolding accounts_ok_def by blast
    have ex: "list_ex (\<lambda>b. a_intentId b = a_intentId a \<and> a_id b = a_id a \<and> active_status (a_status b)) (db_attempts (w_db w))"
      using a' act by (auto simp: list_ex_iff)
    have "cas_holds ?p (w_db w) = list_ex (\<lambda>j. i_id j = a_intentId a \<and> (i_paidAmountAtomic j = i_paidAmountAtomic i \<and>
        accepts_settlement (i_status j) \<and>
        list_ex (\<lambda>b. a_intentId b = i_id j \<and> a_id b = a_id a \<and> active_status (a_status b)) (db_attempts (w_db w))))
        (db_intents (w_db w))"
      using i' by (simp add: cas_holds_def plan_for_ids)
    also have "\<dots> = accepts_settlement (i_status i)"
      using list_ex_id [OF dist i] ex i' by simp
    finally show ?thesis .
  qed
  show ?thesis
  proof (cases "batch b (w_db w)")
    case None
    then show ?thesis using run by simp
  next
    case (Some dn)
    then obtain d ns where b: "batch b (w_db w) = Some (d, ns)" by (cases dn) auto
    from settle_batch_cases [OF holds_at_inv [OF I] nc b [unfolded b_def]]
    show ?thesis
    proof (elim disjE conjE)
      assume no: "\<not> cas_holds ?p (w_db w)" "d = w_db w" "hd ns = 0"
      then show ?thesis
        using run b cas q pay.I_Suc [of "w_uuid w" "w_ix w" "w_db w"] I by (simp add: holds_at_def)
    next
      assume yes: "cas_holds ?p (w_db w)" "settled_accounts ?p (w_db w) d" "hd ns = 1"
      then show ?thesis using run b cas by simp
    qed
  qed
qed

text \<open>An undisturbed loop never goes round twice for an intent that accepts settlements.\<close>

lemma settle_loop_quiet:
  assumes q: "w_env w = []" and I: "holds_at pay_I (w_ix w) w"
    and a: "attempt_row_of (st_attemptId inp) (w_db w) = Some a"
    and i: "find_intent (a_intentId a) (db_intents (w_db w)) = Some i"
    and act: "active_status (a_status a)" and accepts: "accepts_settlement (i_status i)"
  shows "(\<exists>w' r. settle_loop (Suc n) V inp fees ev w = (Inr (Some r), w') \<and> sr_applied r \<and>
        settled_accounts (plan_for V inp w a i) (w_db w) (w_db w')) \<or>
    (\<exists>w'. settle_loop (Suc n) V inp fees ev w = (Inl ConstraintFailed, w') \<and> w_db w' = w_db w)"
  using settle_round_quiet [OF q I a i act, of V fees ev] accepts
  by (auto simp: bindA_def ret_def)

subsection \<open>The outcome of an undisturbed settlement\<close>

text \<open>The row of \<open>recordAttemptFeeEvidence\<close> changes only the ledger, so the loop reads what was read.\<close>

lemma same_accounts_holds:
  assumes "holds_at pay_I (w_ix w) w" and "same_accounts (w_db w) (w_db w')" and "w_uuid w' = w_uuid w"
    and "w_ix w' = w_ix w"
  shows "holds_at pay_I (w_ix w') w'"
  using assms by (simp add: holds_at_def pay_I_def pay_inv_def fresh_commit_def same_accounts_def)

lemma settled_accounts_same:
  "same_accounts d1 d2 \<Longrightarrow> settled_accounts p d2 d3 \<Longrightarrow> settled_accounts p d1 d3"
  by (simp add: settled_accounts_def same_accounts_def)

lemma plan_for_same:
  "w_uuid w' = w_uuid w \<Longrightarrow> w_ix w' = w_ix w \<Longrightarrow> w_now w' = w_now w \<Longrightarrow>
   plan_for V inp w' a i = plan_for V inp w a i"
  by (simp add: plan_for_def)

text \<open>An attempt that is no longer active is left alone by every round.\<close>

lemma settle_loop_inactive:
  assumes q: "w_env w = []" and a: "attempt_row_of (st_attemptId inp) (w_db w) = Some a"
    and i: "find_intent (a_intentId a) (db_intents (w_db w)) = Some i" and act: "\<not> active_status (a_status a)"
  shows "settle_loop (Suc n) V inp fees ev w = (Inr (Some (not_applied (Some (mapIntent i)) (Some ev))), w)"
  using q a i act
  by (simp add: settle_round_def bindA_def getAttempt_quiet getPaymentIntent_quiet ret_def)

lemma settle_tail:
  assumes q: "w_env w = []" and I: "holds_at pay_I (w_ix w) w"
    and a: "attempt_row_of (st_attemptId inp) (w_db w) = Some a"
    and i: "find_intent (a_intentId a) (db_intents (w_db w)) = Some i" and accepts: "accepts_settlement (i_status i)"
    and m_def: "m = bindA (recordAttemptFeeEvidence x f n tx) (\<lambda>_.
    bindA (settle_loop (Suc k) V inp fees ev) (\<lambda>r. case r of Some y \<Rightarrow> ret y | None \<Rightarrow> settle_exhausted inp ev))"
  shows "case m w of (Inl e, w') \<Rightarrow> same_accounts (w_db w) (w_db w')
    | (Inr r, w') \<Rightarrow> sr_applied r = active_status (a_status a) \<and>
        (if sr_applied r then settled_accounts (plan_for V inp w a i) (w_db w) (w_db w')
         else same_accounts (w_db w) (w_db w'))"
proof -
  obtain r w1 where 1: "recordAttemptFeeEvidence x f n tx w = (r, w1)" "same_accounts (w_db w) (w_db w1)"
      "w_env w1 = []" "w_uuid w1 = w_uuid w" "w_ix w1 = w_ix w" "w_now w1 = w_now w"
    using q by (rule recordAttemptFeeEvidence_quiet)
  have I1: "holds_at pay_I (w_ix w1) w1" using same_accounts_holds [OF I 1(2,4,5)] .
  have a1: "attempt_row_of (st_attemptId inp) (w_db w1) = Some a"
    using a 1(2) by (simp add: attempt_row_of_def same_accounts_def)
  have i1: "find_intent (a_intentId a) (db_intents (w_db w1)) = Some i"
    using i 1(2) by (simp add: same_accounts_def)
  have P: "plan_for V inp w1 a i = plan_for V inp w a i" using 1(4,5,6) by (rule plan_for_same)
  show ?thesis
  proof (cases r)
    case (Inl e)
    then show ?thesis using 1 by (simp add: m_def bindA_def)
  next
    case (Inr u)
    show ?thesis
    proof (cases "active_status (a_status a)")
      case False
      have "m w = (Inr (not_applied (Some (mapIntent i)) (Some ev)), w1)"
        using Inr 1(1) settle_loop_inactive [OF 1(3) a1 i1 False, of k V fees ev]
        by (simp add: m_def bindA_def ret_def del: settle_loop.simps)
      then show ?thesis using False 1(2) by (simp add: not_applied_def)
    next
      case True
      from settle_loop_quiet [OF 1(3) I1 a1 i1 True accepts, of k V fees ev]
      show ?thesis
      proof (elim disjE exE conjE)
        fix w2 y
        assume "settle_loop (Suc k) V inp fees ev w1 = (Inr (Some y), w2)" "sr_applied y"
          "settled_accounts (plan_for V inp w1 a i) (w_db w1) (w_db w2)"
        then show ?thesis
          using Inr 1(1,2) P True settled_accounts_same
          by (simp add: m_def bindA_def ret_def del: settle_loop.simps)
      next
        fix w2
        assume "settle_loop (Suc k) V inp fees ev w1 = (Inl ConstraintFailed, w2)" "w_db w2 = w_db w1"
        then show ?thesis using Inr 1(1,2) by (simp add: m_def bindA_def del: settle_loop.simps)
      qed
    qed
  qed
qed

lemma settle_cases:
  assumes "w_env w = []" and "holds_at pay_I (w_ix w) w"
    and "attempt_row_of (st_attemptId inp) (w_db w) = Some a"
    and "find_intent (a_intentId a) (db_intents (w_db w)) = Some i"
    and "accepts_settlement (i_status i)"
  shows "case settleAttempt V inp w of
      (Inl e, w') \<Rightarrow> same_accounts (w_db w) (w_db w')
    | (Inr r, w') \<Rightarrow> sr_applied r = active_status (a_status a) \<and>
        (if sr_applied r then settled_accounts (plan_for V inp w a i) (w_db w) (w_db w')
         else same_accounts (w_db w) (w_db w'))"
proof -
  note tail = settle_tail [OF assms refl]
  show ?thesis
  proof (cases "settled_status (a_status a)")
    case True
    then have "\<not> active_status (a_status a)" using active_not_settled by blast
    then show ?thesis
      using assms True
      by (simp add: settleAttempt_def bindA_def getAttempt_quiet getPaymentIntent_quiet ret_def not_applied_def)
  next
    case False
    show ?thesis
    proof (cases "st_settledAmountAtomic inp \<le> 0 \<or> (a_route a \<noteq> Local \<and> st_networkFeeAtomic inp = None)")
      case True
      then show ?thesis
        using assms False
        by (auto simp: settleAttempt_def bindA_def getAttempt_quiet getPaymentIntent_quiet throw_def Let_def)
    next
      case no: False
      have five: "SETTLE_RETRIES = Suc 4" by (simp add: SETTLE_RETRIES_def)
      have eq: "settleAttempt V inp w = bindA (recordAttemptFeeEvidence (a_id a)
            (case st_platformFeeAtomic inp of None \<Rightarrow> a_platformFeeAtomic a | Some f \<Rightarrow> f)
            (Some (case st_networkFeeAtomic inp of None \<Rightarrow> 0 | Some f \<Rightarrow> f)) (st_sourceTxHash inp)) (\<lambda>_.
          bindA (settle_loop (Suc 4) V inp (actualFeeBreakdown (mapAttempt a)
            (case st_platformFeeAtomic inp of None \<Rightarrow> a_platformFeeAtomic a | Some f \<Rightarrow> f)
            (case st_networkFeeAtomic inp of None \<Rightarrow> 0 | Some f \<Rightarrow> f)) (''evt_'' @ a_id a)) (\<lambda>r.
          case r of Some y \<Rightarrow> ret y | None \<Rightarrow> settle_exhausted inp (''evt_'' @ a_id a))) w"
        using assms False no
        by (simp add: settleAttempt_def bindA_def [of "getAttempt _"] bindA_def [of "getPaymentIntent _"]
            getAttempt_quiet getPaymentIntent_quiet Let_def five del: append.simps settle_loop.simps
            cong: option.case_cong) auto
      show ?thesis unfolding eq by (rule tail)
    qed
  qed
qed

lemma plan_for_totals:
  "sp_paid (plan_for V inp w a i) = i_paidAmountAtomic i + st_settledAmountAtomic inp"
  "sp_expected (plan_for V inp w a i) =
     (if i_amountMode i = PayerDefined \<and> i_paidAmountAtomic i = 0 then a_settlementAmountAtomic a else i_amountAtomic i)"
  "sp_status (plan_for V inp w a i) =
     (if sp_expected (plan_for V inp w a i) < sp_paid (plan_for V inp w a i) then IntentOverpaid else IntentPaid)"
  "sp_settled (plan_for V inp w a i) = st_settledAmountAtomic inp"
  by (simp_all add: plan_for_def settle_plan_of_def mapIntent_def mapAttempt_def Let_def
    payment_intent.defs attempt_core.defs payment_attempt.defs)

text \<open>
  C3: an undisturbed settlement of an attempt whose intent accepts settlements either fails and leaves
  the accounts as they were, or answers whether the attempt was still active; if it was, exactly the
  attempt, its intent, its link and one new commit row change, and otherwise nothing changes.  The paid
  amount grows by the settled amount; the first payment of an intent without a price sets it; and the
  intent is overpaid exactly when the new total exceeds the price.
\<close>
theorem settle_outcome:
  assumes "w_env w = []" and "holds_at pay_I (w_ix w) w"
    and "attempt_row_of (st_attemptId inp) (w_db w) = Some a"
    and "find_intent (a_intentId a) (db_intents (w_db w)) = Some i"
    and "accepts_settlement (i_status i)" and "p = plan_for V inp w a i"
  shows "(case settleAttempt V inp w of
      (Inl e, w') \<Rightarrow> same_accounts (w_db w) (w_db w')
    | (Inr r, w') \<Rightarrow> sr_applied r = active_status (a_status a) \<and>
        (if sr_applied r then settled_accounts p (w_db w) (w_db w') else same_accounts (w_db w) (w_db w'))) \<and>
    sp_paid p = i_paidAmountAtomic i + st_settledAmountAtomic inp \<and> sp_settled p = st_settledAmountAtomic inp \<and>
    sp_expected p = (if i_amountMode i = PayerDefined \<and> i_paidAmountAtomic i = 0
      then a_settlementAmountAtomic a else i_amountAtomic i) \<and>
    sp_status p = (if sp_expected p < sp_paid p then IntentOverpaid else IntentPaid)"
  unfolding assms(6) by (intro conjI plan_for_totals settle_cases [OF assms(1-5)])

theorem settle_outcome_witness:
  "case settleAttempt sample_viem sample_settle sample_world of
      (Inl e, w') \<Rightarrow> same_accounts sample_db (w_db w')
    | (Inr r, w') \<Rightarrow> sr_applied r \<and>
        settled_accounts (plan_for sample_viem sample_settle sample_world sample_attempt_row sample_intent_row)
          sample_db (w_db w')"
proof -
  have a: "attempt_row_of (st_attemptId sample_settle) (w_db sample_world) = Some sample_attempt_row"
    and i: "find_intent (a_intentId sample_attempt_row) (db_intents (w_db sample_world)) = Some sample_intent_row"
    and s: "active_status (a_status sample_attempt_row)" "accepts_settlement (i_status sample_intent_row)"
    and q: "w_env sample_world = []"
    by (simp_all add: attempt_row_of_def find_intent_def sample_defs active_status_def accepts_settlement_def)
  have db: "w_db sample_world = sample_db" by (simp add: sample_world_def)
  obtain r w' where run: "settleAttempt sample_viem sample_settle sample_world = (r, w')"
    by (cases "settleAttempt sample_viem sample_settle sample_world")
  note out = settle_outcome [OF q sample_I a i s(2) refl, of sample_viem, THEN conjunct1, unfolded run db]
  show ?thesis using out s(1) by (cases r) (simp_all only: run prod.case sum.case if_True simp_thms)
qed

lemma sample_settled:
  "case settleAttempt sample_viem sample_settle sample_world of
      (Inl e, w') \<Rightarrow> False
    | (Inr r, w') \<Rightarrow> sr_applied r \<and> map i_paidAmountAtomic (db_intents (w_db w')) = [10000000] \<and>
        map a_status (db_attempts (w_db w')) = [Paid]"
  by code_simp

end
