(* ===== verification/ReconcileProps.thy ===== *)
theory ReconcileProps
  imports ReconcileGuards SettlementProps
begin

text \<open>
  Money is credited on evidence only: what a receipt must show to be accepted, and that reconciliation
  writes a commit only for a payment whose receipt shows it.
\<close>

subsection \<open>Accepted receipts\<close>

text \<open>A log of the attempt's router that decodes under the event of its route.\<close>

definition router_event :: "attempt_core \<Rightarrow> chain_log \<Rightarrow> bool" where
  "router_event a lg \<longleftrightarrow> sameAddress (Some (lg_address lg)) (a_routerAddress a) \<and> route_args (a_route a) lg \<noteq> None"

text \<open>The economics of a burn, and the message it sent.\<close>

definition burn_matches :: "attempt_core \<Rightarrow> chain_receipt \<Rightarrow> chain_log \<Rightarrow> bool" where
  "burn_matches a r lg \<longleftrightarrow> a_route a \<noteq> Local \<longrightarrow>
     ea_grossPayerAmount (the (lg_burned lg)) = a_grossPayerAmountAtomic a \<and>
     ea_maxCctpFee (the (lg_burned lg)) = a_cctpFeeAtomic a \<and> (\<exists>m \<in> set (rc_logs r). lg_messageSent m \<noteq> None)"

definition proves_payment :: "attempt_core \<Rightarrow> payment_intent \<Rightarrow> chain_receipt \<Rightarrow> chain_log \<Rightarrow> bool" where
  "proves_payment a i r lg \<longleftrightarrow> rc_success r \<and> sameAddress (Some (rc_from r)) (a_payerAddress a) \<and>
     sameAddress (rc_to r) (a_routerAddress a) \<and> lg \<in> set (rc_logs r) \<and> router_event a lg \<and>
     args_match a i (the (route_args (a_route a) lg)) \<and> burn_matches a r lg"

definition evidence_args :: "source_evidence \<Rightarrow> event_args" where
  "evidence_args ev = (case ev of LocalEvidence args \<Rightarrow> args | BurnEvidence args m \<Rightarrow> event_args.truncate args)"

lemma find_first:
  "find p xs = Some x \<longleftrightarrow> (\<exists>us vs. xs = us @ x # vs \<and> p x \<and> (\<forall>y \<in> set us. \<not> p y))"
proof (induction xs)
  case (Cons y ys)
  show ?case
  proof (cases "p y")
    case True
    then show ?thesis by (auto simp: Cons_eq_append_conv)
  next
    case False
    then have "find p (y # ys) = Some x \<longleftrightarrow> (\<exists>us vs. ys = us @ x # vs \<and> p x \<and> (\<forall>y \<in> set us. \<not> p y))"
      using Cons by simp
    also have "\<dots> \<longleftrightarrow> (\<exists>us vs. y # ys = us @ x # vs \<and> p x \<and> (\<forall>y \<in> set us. \<not> p y))"
    proof
      assume "\<exists>us vs. ys = us @ x # vs \<and> p x \<and> (\<forall>y \<in> set us. \<not> p y)"
      then obtain us vs where "ys = us @ x # vs" "p x" "\<forall>y \<in> set us. \<not> p y" by blast
      then show "\<exists>us vs. y # ys = us @ x # vs \<and> p x \<and> (\<forall>y \<in> set us. \<not> p y)"
        using False by (intro exI [of _ "y # us"] exI [of _ vs]) simp
    next
      assume "\<exists>us vs. y # ys = us @ x # vs \<and> p x \<and> (\<forall>y \<in> set us. \<not> p y)"
      then show "\<exists>us vs. ys = us @ x # vs \<and> p x \<and> (\<forall>y \<in> set us. \<not> p y)"
        using False by (auto simp: Cons_eq_append_conv)
    qed
    finally show ?thesis .
  qed
qed simp

lemma event_args_truncate [simp]:
  "ea_settlementAmount (event_args.truncate b) = ea_settlementAmount b"
  "ea_platformFee (event_args.truncate b) = ea_platformFee b"
  by (simp_all add: event_args.truncate_def)

text \<open>The code with the test of the search named.\<close>

lemma validate_unfold:
  "validatePaymentSourceReceipt attempt intent receipt = (
     if \<not> rc_success receipt then Inl (EvidenceMismatchError ''Payment source transaction reverted'')
     else if \<not> sameAddress (Some (rc_from receipt)) (a_payerAddress attempt) \<or>
       \<not> sameAddress (rc_to receipt) (a_routerAddress attempt)
     then Inl (EvidenceMismatchError ''Payment source transaction sender or router does not match the signed attempt'')
     else (case find (router_event attempt) (rc_logs receipt) of
         None \<Rightarrow> Inl (EvidenceMismatchError (event_name (a_route attempt) @ '' evidence is missing''))
       | Some lg \<Rightarrow>
         if \<not> args_match attempt intent (the (route_args (a_route attempt) lg))
         then Inl (EvidenceMismatchError (event_name (a_route attempt) @ '' evidence does not match the signed attempt''))
         else if a_route attempt = Local then Inr (LocalEvidence (the (lg_settled lg)))
         else let args = the (lg_burned lg) in
           if ea_grossPayerAmount args \<noteq> a_grossPayerAmountAtomic attempt \<or>
             ea_maxCctpFee args \<noteq> a_cctpFeeAtomic attempt
           then Inl (EvidenceMismatchError ''CCTP burn economics do not match the signed attempt'')
           else (case find (\<lambda>lg. lg_messageSent lg \<noteq> None) (rc_logs receipt) of
               None \<Rightarrow> Inl (EvidenceMismatchError ''CCTP MessageSent evidence is missing'')
             | Some ml \<Rightarrow> Inr (BurnEvidence args (the (lg_messageSent ml))))))"
  unfolding validatePaymentSourceReceipt_def router_event_def [abs_def] ..

text \<open>An accepted receipt proves the payment by one of its logs, whose arguments are returned.\<close>

lemma accepted_receipt:
  assumes "validatePaymentSourceReceipt a i r = Inr ev"
  obtains lg where "find (router_event a) (rc_logs r) = Some lg" and "proves_payment a i r lg" and "evidence_args ev = the (route_args (a_route a) lg)"
    and "a_route a = Local \<longleftrightarrow> (\<exists>args. ev = LocalEvidence args)"
proof -
  from assms obtain lg where ok: "rc_success r" "sameAddress (Some (rc_from r)) (a_payerAddress a)"
      "sameAddress (rc_to r) (a_routerAddress a)"
      "find (router_event a) (rc_logs r) = Some lg"
      "args_match a i (the (route_args (a_route a) lg))"
    unfolding validate_unfold
    by (auto split: if_splits option.splits)
  note lg = find_SomeD [OF ok(4)]
  show ?thesis
  proof (cases "a_route a = Local")
    case True
    then have "ev = LocalEvidence (the (lg_settled lg))"
      using assms ok unfolding validate_unfold by simp
    then show ?thesis
      using that [of lg] True ok lg
      by (simp add: proves_payment_def router_event_def burn_matches_def evidence_args_def route_args_def)
  next
    case False
    with assms ok obtain ml where b: "find (\<lambda>lg. lg_messageSent lg \<noteq> None) (rc_logs r) = Some ml"
        "ev = BurnEvidence (the (lg_burned lg)) (the (lg_messageSent ml))"
        "ea_grossPayerAmount (the (lg_burned lg)) = a_grossPayerAmountAtomic a"
        "ea_maxCctpFee (the (lg_burned lg)) = a_cctpFeeAtomic a"
      unfolding validate_unfold
      by (auto simp: Let_def split: if_splits option.splits)
    then have "burn_matches a r lg" using find_SomeD [OF b(1)] by (auto simp: burn_matches_def)
    moreover obtain x where "lg_burned lg = Some x" using lg False by (auto simp: router_event_def route_args_def)
    ultimately show ?thesis
      using that [of lg] False ok lg b
      by (simp add: proves_payment_def router_event_def evidence_args_def route_args_def)
  qed
qed

lemma proven_receipt:
  assumes "find (router_event a) (rc_logs r) = Some lg" and "proves_payment a i r lg"
  obtains ev where "validatePaymentSourceReceipt a i r = Inr ev" and "evidence_args ev = the (route_args (a_route a) lg)"
proof (cases "a_route a = Local")
  case True
  then have "validatePaymentSourceReceipt a i r = Inr (LocalEvidence (the (lg_settled lg)))"
    using assms unfolding validate_unfold
    by (simp add: proves_payment_def)
  then show ?thesis using that True by (simp add: evidence_args_def route_args_def)
next
  case False
  then have b: "ea_grossPayerAmount (the (lg_burned lg)) = a_grossPayerAmountAtomic a"
      "ea_maxCctpFee (the (lg_burned lg)) = a_cctpFeeAtomic a" "\<exists>m \<in> set (rc_logs r). lg_messageSent m \<noteq> None"
    using assms(2) by (simp_all add: proves_payment_def burn_matches_def)
  obtain x where x: "lg_burned lg = Some x"
    using assms(2) False by (auto simp: proves_payment_def router_event_def route_args_def)
  obtain m where "find (\<lambda>lg. lg_messageSent lg \<noteq> None) (rc_logs r) = Some m"
    using b(3) by (cases "find (\<lambda>lg. lg_messageSent lg \<noteq> None) (rc_logs r)") (auto simp: find_None_iff)
  then have "validatePaymentSourceReceipt a i r = Inr (BurnEvidence x (the (lg_messageSent m)))"
    using assms False b(1,2) x unfolding validate_unfold
    by (simp add: proves_payment_def Let_def)
  then show ?thesis using that False x by (simp add: evidence_args_def route_args_def)
qed


subsection \<open>Steps that write no commit\<close>

definition same_commits :: "pdb \<Rightarrow> pdb \<Rightarrow> bool" where
  "same_commits d d' \<longleftrightarrow> db_commits d' = db_commits d"

interpretation frozen: rely_guarantee pay_I same_commits
  by unfold_locales (auto simp: same_commits_def pay.I_Suc)

lemma keeps_frozen:
  assumes "keeps s"
  shows "frozen.stmt_ok s"
  unfolding frozen.stmt_ok_def
proof (intro allI impI)
  fix g k d d' n
  assume "pay_I g k d" "s d = Some (d', n)"
  then show "pay_I g k d' \<and> same_commits d d'"
    using keepsD [OF assms, of d d' n] by (simp add: pay_I_def fresh_commit_def same_commits_def)
qed

lemma frozen_dbx: "keeps s \<Longrightarrow> guar pay_I same_commits (dbx s)"
  by (rule frozen.guar_dbx [OF keeps_frozen])

lemma frozen_dbb: "keeps (batch ss) \<Longrightarrow> guar pay_I same_commits (dbb ss)"
  unfolding dbb_def by (rule frozen_dbx)

lemmas frozen_rules = frozen.guar_bindA frozen.guar_catchA frozen.guar_calm frozen.guar_randomUUID frozen_dbx frozen_dbb

lemma frozen_queue [intro]:
  "guar pay_I same_commits (enqueuePaymentJob sv env j)" "guar pay_I same_commits (schedulePaymentJob sv env j)"
  unfolding schedulePaymentJob_def enqueuePaymentJob_def paymentJobMessage_def Let_def
  by (intro frozen_rules conjI impI | split if_split)+

lemma frozen_publish [intro]: "guar pay_I same_commits (publish_rows sv env rows n)"
  by (induction rows arbitrary: n)
    (auto simp: markPaymentOutboxEnqueued_def markPaymentOutboxFailed_def intro!: frozen_rules keeps_enqueued keeps_outbox_failed)

lemma frozen_flush [intro]: "guar pay_I same_commits (flushPaymentOutbox sv env limit)"
  unfolding flushPaymentOutbox_def listDuePaymentOutbox_def
  by (intro frozen_rules frozen_publish conjI impI | split if_split)+

lemma frozen_crosschain [intro]:
  "guar pay_I same_commits (upsertCrosschainOperation inp)" "guar pay_I same_commits (getCrosschainOperation x)"
  "guar pay_I same_commits (updateCrosschainOperation x f)" "guar pay_I same_commits (recordCrosschainMintResult x tx s)"
  unfolding upsertCrosschainOperation_def getCrosschainOperation_def updateCrosschainOperation_def
    recordCrosschainMintResult_def
  by (intro frozen_rules keeps_crosschain conjI allI impI | split option.split)+

lemma keeps_charges: "keeps (batch (charge_line x ty f tx ts # (case n of None \<Rightarrow> [] | Some m \<Rightarrow> [charge_line x ty' m tx ts])))"
  by (rule keeps_batch) (auto split: option.splits)

lemma frozen_evidence [intro]: "guar pay_I same_commits (recordAttemptFeeEvidence a f n tx)"
  unfolding recordAttemptFeeEvidence_def getAttempt_def
  by (intro frozen_rules keeps_charges conjI allI impI | split option.split if_split | simp)+

lemma frozen_processing [intro]: "guar pay_I same_commits (markAttemptProcessing a tx)"
  unfolding markAttemptProcessing_def
  by (intro frozen_rules keeps_attempts) (auto simp: unsettling_simps)

lemma frozen_reads [intro]:
  "guar pay_I same_commits (getAttempt x)" "guar pay_I same_commits (getPaymentIntent x)"
  unfolding getAttempt_def getPaymentIntent_def by (intro frozen_rules)+

lemma frozen_confirmedReceipt [intro]: "guar pay_I same_commits (confirmedReceipt V sv env c tx)"
  unfolding confirmedReceipt_def getTransactionReceipt_def getBlockNumber_def
  by (intro frozen_rules conjI allI impI | split if_split receipt_answer.split)+

lemma frozen_reconcileBurn [intro]: "guar pay_I same_commits (reconcileBurn V sv env x tx)"
  unfolding reconcileBurn_def
  by (intro frozen_rules frozen_reads frozen_confirmedReceipt frozen_crosschain frozen_evidence frozen_processing frozen_queue
      conjI allI impI | split option.split if_split source_evidence.split)+

lemma frozen_run:
  assumes "guar pay_I same_commits m" and "w_env w = []" and "holds_at pay_I (w_ix w) w"
  shows "db_commits (w_db (snd (m w))) = db_commits (w_db w)"
  using guarD [OF assms(1,3) env_ok_quiet [OF assms(2)]] by (simp add: ends_ok_def same_commits_def)

lemma guar_run:
  assumes "guar pay_I pay_R m" and "w_env w = []" and "holds_at pay_I (w_ix w) w" and "m w = (r, w')"
  shows "holds_at pay_I (w_ix w') w'"
  using guarD [OF assms(1,3) env_ok_quiet [OF assms(2)]] assms(4) by (simp add: ends_ok_def)

subsection \<open>Undisturbed reads\<close>

definition reads :: "'a pact \<Rightarrow> bool" where
  "reads m \<longleftrightarrow> (\<forall>w. w_env w = [] \<longrightarrow> snd (m w) = w)"

lemma reads_bind:
  assumes "reads m" and "w_env w = []"
  shows "bindA m f w = (case fst (m w) of Inl e \<Rightarrow> (Inl e, w) | Inr x \<Rightarrow> f x w)"
proof -
  have "m w = (fst (m w), w)" using assms by (metis reads_def prod.collapse)
  then show ?thesis by (auto simp: bindA_def split: sum.split prod.split)
qed

lemma reads_basic [intro]: "reads (ret x)" "reads (throw e)" "reads (liftE r)" "reads date_now" "reads (dbq f)" "reads (extcall g n)"
  by (auto simp: reads_def ret_def throw_def liftE_def date_now_def dbq_def extcall_def split: option.split)

lemma reads_bindA [intro]: "reads m \<Longrightarrow> (\<And>x. reads (f x)) \<Longrightarrow> reads (bindA m f)"
  unfolding reads_def [of "bindA m f"] using reads_bind [of m _ f] by (auto simp: reads_def split: sum.split)

lemma reads_catchA [intro]: "reads m \<Longrightarrow> (\<And>e. reads (h e)) \<Longrightarrow> reads (catchA m h)"
  unfolding reads_def
proof (intro allI impI)
  fix w :: pworld assume a: "\<forall>w. w_env w = [] \<longrightarrow> snd (m w) = w" "\<And>e. \<forall>w. w_env w = [] \<longrightarrow> snd (h e w) = w" and w: "w_env w = []"
  obtain r where "m w = (r, w)" using a(1) w by (metis prod.collapse)
  then show "snd (catchA m h w) = w" using a(2) w by (cases r) (auto simp: catchA_def)
qed

lemma reads_reconcile [intro]:
  "reads (getAttempt x)" "reads (getPaymentIntent y)" "reads (confirmedReceipt V sv env c tx)"
  unfolding getAttempt_def getPaymentIntent_def confirmedReceipt_def getTransactionReceipt_def getBlockNumber_def
  by (intro reads_basic reads_bindA conjI allI impI | split if_split receipt_answer.split)+

text \<open>A receipt that was found, succeeded and has the confirmations the chain requires.\<close>

definition confirmed_at :: "viem \<Rightarrow> services \<Rightarrow> bindings \<Rightarrow> int \<Rightarrow> string \<Rightarrow> int \<Rightarrow> chain_receipt \<Rightarrow> bool" where
  "confirmed_at V sv env c tx now r \<longleftrightarrow> sv_receipt sv c tx now = ReceiptFound r \<and> rc_success r \<and>
     (\<exists>current required. sv_blockNumber sv c now = Some current \<and> requiredConfirmations V env c = Inr required \<and>
        rc_blockNumber r + required \<le> current + 1)"

lemma confirmedReceipt_Some:
  assumes "w_env w = []" and "fst (confirmedReceipt V sv env c tx w) = Inr (Some r)"
  shows "confirmed_at V sv env c tx (w_now w) r"
  using assms
  by (auto simp: confirmedReceipt_def confirmed_at_def bindA_def liftE_def getTransactionReceipt_def getBlockNumber_def
      extcall_quiet ret_def throw_def split: sum.splits receipt_answer.splits if_splits option.splits)

subsection \<open>Every commit of a reconciliation has its evidence\<close>

lemma accepts_intent: "intent_ok cs i \<Longrightarrow> accepts_settlement (i_status i)"
  by (auto simp: intent_ok_def accepts_settlement_def)

lemma find_intent_ok:
  assumes "holds_at pay_I k w" and "find_intent x (db_intents (w_db w)) = Some i"
  shows "accepts_settlement (i_status i)"
proof -
  have "intent_ok (db_commits (w_db w)) i"
    using holds_at_inv [OF assms(1)] find_intent_Some [OF assms(2)] unfolding pay_inv_def accounts_ok_def by blast
  then show ?thesis by (rule accepts_intent)
qed

lemma settle_effect:
  assumes q: "w_env w = []" and I: "holds_at pay_I (w_ix w) w" and run: "settleAttempt V inp w = (r, w')"
    and c: "c \<in> set (db_commits (w_db w'))" "c \<notin> set (db_commits (w_db w))"
  shows "\<exists>a. attempt_row_of (st_attemptId inp) (w_db w) = Some a \<and> active_status (a_status a) \<and>
    sc_attemptId c = a_id a \<and> sc_intentId c = a_intentId a \<and> sc_settled c = st_settledAmountAtomic inp"
proof (cases "attempt_row_of (st_attemptId inp) (w_db w)")
  case None
  then have "w' = w" using run q by (simp add: settleAttempt_def bindA_def getAttempt_quiet ret_def)
  then show ?thesis using c by simp
next
  case a: (Some a)
  show ?thesis
  proof (cases "find_intent (a_intentId a) (db_intents (w_db w))")
    case None
    then have "w' = w" using run q a
      by (simp add: settleAttempt_def bindA_def getAttempt_quiet getPaymentIntent_quiet ret_def Let_def)
    then show ?thesis using c by simp
  next
    case i: (Some i)
    note out = settle_cases [OF q I a i find_intent_ok [OF I i], of V, unfolded run]
    have no: "\<not> same_accounts (w_db w) (w_db w')" using c by (auto simp: same_accounts_def)
    then obtain y where y: "r = Inr y" using out by (cases r) auto
    then have ap: "sr_applied y" "active_status (a_status a)" "settled_accounts (plan_for V inp w a i) (w_db w) (w_db w')"
      using out no by (auto split: if_splits)
    then have "c = commit_of (plan_for V inp w a i)" using c by (auto simp: settled_accounts_def)
    moreover have "i_id i = a_intentId a" using find_intent_Some [OF i] by simp
    ultimately show ?thesis
      using a ap(2) by (simp add: commit_of_def plan_for_def settle_plan_of_def Let_def)
  qed
qed

text \<open>Settling and then flushing the outbox writes the commit of the settlement only.\<close>

lemma settle_flush_effect:
  assumes "w_env w = []" and "holds_at pay_I (w_ix w) w"
    and "bindA (settleAttempt V inp) (\<lambda>_. bindA (flushPaymentOutbox sv env n) f) w = (r, w')"
    and "\<And>y. guar pay_I same_commits (f y)"
    and "w_env (snd (settleAttempt V inp w)) = []"
    and "c \<in> set (db_commits (w_db w'))" "c \<notin> set (db_commits (w_db w))"
  shows "\<exists>a. attempt_row_of (st_attemptId inp) (w_db w) = Some a \<and> active_status (a_status a) \<and>
    sc_attemptId c = a_id a \<and> sc_intentId c = a_intentId a \<and> sc_settled c = st_settledAmountAtomic inp"
proof -
  obtain s w1 where s: "settleAttempt V inp w = (s, w1)" by (cases "settleAttempt V inp w")
  have I1: "holds_at pay_I (w_ix w1) w1" by (rule guar_run [OF guar_settleAttempt assms(1,2) s])
  have "db_commits (w_db w') = db_commits (w_db w1)"
  proof (cases s)
    case (Inl e)
    then show ?thesis using assms(3) s by (simp add: bindA_def)
  next
    case (Inr y)
    have "guar pay_I same_commits (bindA (flushPaymentOutbox sv env n) f)"
      using assms(4) by (intro frozen.guar_bindA frozen_flush)
    from frozen_run [OF this _ I1] show ?thesis using Inr assms(3,5) s by (simp add: bindA_def)
  qed
  then show ?thesis using settle_effect [OF assms(1,2) s] assms(6,7) by simp
qed

text \<open>An undisturbed world stays undisturbed.\<close>

definition quietly :: "'a pact \<Rightarrow> bool" where
  "quietly m \<longleftrightarrow> (\<forall>w. w_env w = [] \<longrightarrow> w_env (snd (m w)) = [])"

lemma quietly_basic [intro]:
  "quietly (ret x)" "quietly (throw e)" "quietly (liftE r)" "quietly date_now" "quietly (dbq f)" "quietly (extcall g n)"
  "quietly randomUUID" "quietly (dbx s)" "quietly (dbb ss)" "quietly (callA y g n)"
  by (auto simp: quietly_def ret_def throw_def liftE_def date_now_def dbq_def extcall_def randomUUID_def dbx_def dbb_def callA_def
      Let_def split: option.split)

lemma quietly_bindA [intro]: "quietly m \<Longrightarrow> (\<And>x. quietly (f x)) \<Longrightarrow> quietly (bindA m f)"
  by (auto simp: quietly_def bindA_def split: prod.split sum.split)

lemma quietly_catchA [intro]: "quietly m \<Longrightarrow> (\<And>e. quietly (h e)) \<Longrightarrow> quietly (catchA m h)"
  by (auto simp: quietly_def catchA_def split: prod.split sum.split)

lemma quietly_settle [intro]: "quietly (settleAttempt V inp)"
proof -
  have g: "quietly (getAttempt x)" "quietly (getPaymentIntent y)" "quietly (endpoints_for m md t)" for x y m md t
    unfolding getAttempt_def getPaymentIntent_def endpoints_for_def by blast+
  have round: "quietly (settle_round V inp fees ev)" for fees ev
    unfolding settle_round_def Let_def
    by (intro quietly_bindA quietly_basic g conjI allI impI | split option.split if_split)+
  have loop: "quietly (settle_loop n V inp fees ev)" for n fees ev
    by (induction n) (auto intro!: quietly_bindA round split: option.split)
  have evidence: "quietly (recordAttemptFeeEvidence x f n tx)" for x f n tx
    unfolding recordAttemptFeeEvidence_def
    by (intro quietly_bindA quietly_basic g conjI allI impI | split option.split if_split)+
  have exhausted: "quietly (settle_exhausted inp ev)" for ev
    unfolding settle_exhausted_def
    by (intro quietly_bindA quietly_basic g conjI allI impI | split option.split if_split)+
  show ?thesis
    unfolding settleAttempt_def Let_def
    by (intro quietly_bindA quietly_basic g loop evidence exhausted conjI allI impI | split option.split if_split)+
qed

lemma quiet_run: "quietly m \<Longrightarrow> w_env w = [] \<Longrightarrow> w_env (snd (m w)) = []"
  by (simp add: quietly_def)

lemma truncate_mapAttempt [simp]: "attempt_core.truncate (mapAttempt a) = attempt_core.truncate a"
  by (simp add: mapAttempt_def attempt_core.defs)

lemma reconcileLocal_effect:
  assumes q: "w_env w = []" and I: "holds_at pay_I (w_ix w) w" and run: "reconcileLocal V sv env x tx w = (r, w')"
    and c: "c \<in> set (db_commits (w_db w'))" "c \<notin> set (db_commits (w_db w))"
    and a: "attempt_row_of x (w_db w) = Some a"
  shows "active_status (a_status a) \<and> (\<exists>i rc ev.
    find_intent (a_intentId a) (db_intents (w_db w)) = Some i \<and>
    confirmed_at V sv env (a_sourceChainId a) tx (w_now w) rc \<and>
    validatePaymentSourceReceipt (attempt_core.truncate a) (mapIntent i) rc = Inr ev \<and>
    sc_attemptId c = x \<and> sc_settled c = ea_settlementAmount (evidence_args ev))"
proof -
  have nw: "w' \<noteq> w" using c by auto
  note R = reads_bind [OF _ q]
  obtain i rc ev where i: "find_intent (a_intentId a) (db_intents (w_db w)) = Some i"
    and rc: "fst (confirmedReceipt V sv env (a_sourceChainId a) tx w) = Inr (Some rc)"
    and ev: "validatePaymentSourceReceipt (attempt_core.truncate a) (mapIntent i) rc = Inr ev"
    and s: "bindA (settleAttempt V (local_settlement (mapAttempt a) tx (evidence_args ev))) (\<lambda>_.
        bindA (flushPaymentOutbox sv env 10) (\<lambda>_. ret True)) w = (r, w')"
  proof -
    from run nw obtain i where i: "find_intent (a_intentId a) (db_intents (w_db w)) = Some i"
      and run1: "bindA (confirmedReceipt V sv env (a_sourceChainId a) tx) (\<lambda>receipt. case receipt of
           None \<Rightarrow> ret False
         | Some r \<Rightarrow> bindA (liftE (validatePaymentSourceReceipt (attempt_core.truncate a) (mapIntent i) r)) (\<lambda>ev. case ev of
             LocalEvidence args \<Rightarrow> bindA (settleAttempt V (local_settlement (mapAttempt a) tx args)) (\<lambda>_.
               bindA (flushPaymentOutbox sv env 10) (\<lambda>_. ret True))
           | BurnEvidence args m \<Rightarrow> bindA (settleAttempt V (local_settlement (mapAttempt a) tx (event_args.truncate args))) (\<lambda>_.
               bindA (flushPaymentOutbox sv env 10) (\<lambda>_. ret True)))) w = (r, w')"
      unfolding reconcileLocal_def
      by (auto simp: bindA_def [of "getAttempt _"] bindA_def [of "getPaymentIntent _"] getAttempt_quiet getPaymentIntent_quiet
          q a ret_def throw_def split: if_splits option.splits)
    from run1 nw obtain rc where rc: "fst (confirmedReceipt V sv env (a_sourceChainId a) tx w) = Inr (Some rc)"
      and run2: "bindA (liftE (validatePaymentSourceReceipt (attempt_core.truncate a) (mapIntent i) rc)) (\<lambda>ev. case ev of
             LocalEvidence args \<Rightarrow> bindA (settleAttempt V (local_settlement (mapAttempt a) tx args)) (\<lambda>_.
               bindA (flushPaymentOutbox sv env 10) (\<lambda>_. ret True))
           | BurnEvidence args m \<Rightarrow> bindA (settleAttempt V (local_settlement (mapAttempt a) tx (event_args.truncate args))) (\<lambda>_.
               bindA (flushPaymentOutbox sv env 10) (\<lambda>_. ret True))) w = (r, w')"
      unfolding R [OF reads_reconcile(3)] by (auto simp: ret_def split: sum.splits option.splits)
    from run2 nw obtain ev where ev: "validatePaymentSourceReceipt (attempt_core.truncate a) (mapIntent i) rc = Inr ev"
      and run3: "(case ev of
             LocalEvidence args \<Rightarrow> bindA (settleAttempt V (local_settlement (mapAttempt a) tx args)) (\<lambda>_.
               bindA (flushPaymentOutbox sv env 10) (\<lambda>_. ret True))
           | BurnEvidence args m \<Rightarrow> bindA (settleAttempt V (local_settlement (mapAttempt a) tx (event_args.truncate args))) (\<lambda>_.
               bindA (flushPaymentOutbox sv env 10) (\<lambda>_. ret True))) w = (r, w')"
      unfolding R [OF reads_basic(3)] by (auto simp: liftE_def split: sum.splits)
    from run3 have "bindA (settleAttempt V (local_settlement (mapAttempt a) tx (evidence_args ev))) (\<lambda>_.
        bindA (flushPaymentOutbox sv env 10) (\<lambda>_. ret True)) w = (r, w')"
      by (cases ev) (simp_all add: evidence_args_def)
    then show ?thesis using that i rc ev by blast
  qed
  have "\<exists>b. attempt_row_of (st_attemptId (local_settlement (mapAttempt a) tx (evidence_args ev))) (w_db w) = Some b \<and>
      active_status (a_status b) \<and> sc_attemptId c = a_id b \<and> sc_intentId c = a_intentId b \<and>
      sc_settled c = st_settledAmountAtomic (local_settlement (mapAttempt a) tx (evidence_args ev))"
    by (rule settle_flush_effect [OF q I s _ quiet_run [OF quietly_settle q] c]) (rule frozen.guar_calm)
  then show ?thesis
    using a i ev confirmedReceipt_Some [OF q rc] attempt_row_of_Some [OF a] by (auto simp: local_settlement_def)
qed

text \<open>
  C10: an undisturbed reconciliation commits a payment only on evidence.  If it writes a commit, then its attempt is an
  active one of the local route; the receipt of the attempt's registered transaction was found, succeeded and has the
  confirmations its chain requires; one of its logs proves the payment; and the commit credits exactly the
  signed settlement amount to this attempt.
\<close>
theorem commits_need_evidence:
  assumes "w_env w = []" and "holds_at pay_I (w_ix w) w" and "reconcileAttempt V sv env x w = (r, w')"
    and "c \<in> set (db_commits (w_db w'))" and "c \<notin> set (db_commits (w_db w))"
  shows "\<exists>a i tx rc lg. attempt_row_of x (w_db w) = Some a \<and> a_route a = Local \<and> active_status (a_status a) \<and>
    a_sourceTxHash a = Some tx \<and> find_intent (a_intentId a) (db_intents (w_db w)) = Some i \<and>
    confirmed_at V sv env (a_sourceChainId a) tx (w_now w) rc \<and>
    proves_payment (attempt_core.truncate a) (mapIntent i) rc lg \<and>
    sc_attemptId c = x \<and> sc_settled c = a_settlementAmountAtomic a"
proof -
  have nw: "w' \<noteq> w" using assms(4,5) by auto
  from assms(3) nw obtain a tx where a: "attempt_row_of x (w_db w) = Some a" "a_sourceTxHash a = Some tx"
    and run: "(if a_route a = Local then reconcileLocal V sv env (a_id a) tx else reconcileBurn V sv env (a_id a) tx) w = (r, w')"
    unfolding reconcileAttempt_def
    by (auto simp: bindA_def [of "getAttempt _"] getAttempt_quiet assms(1) ret_def split: if_splits option.splits)
  have id: "a_id a = x" using attempt_row_of_Some [OF a(1)] by simp
  have loc: "a_route a = Local"
  proof (rule ccontr)
    assume "a_route a \<noteq> Local"
    then have "reconcileBurn V sv env (a_id a) tx w = (r, w')" using run by simp
    then have "db_commits (w_db w') = db_commits (w_db w)"
      using frozen_run [OF frozen_reconcileBurn assms(1,2), of V sv env "a_id a" tx] by simp
    then show False using assms(4,5) by simp
  qed
  then have "reconcileLocal V sv env x tx w = (r, w')" using run id by simp
  from reconcileLocal_effect [OF assms(1,2) this assms(4,5) a(1)] obtain i rc ev where
    e: "active_status (a_status a)" "find_intent (a_intentId a) (db_intents (w_db w)) = Some i"
      "confirmed_at V sv env (a_sourceChainId a) tx (w_now w) rc"
      "validatePaymentSourceReceipt (attempt_core.truncate a) (mapIntent i) rc = Inr ev"
      "sc_attemptId c = x" "sc_settled c = ea_settlementAmount (evidence_args ev)"
    by blast
  from e(4) obtain lg where lg: "proves_payment (attempt_core.truncate a) (mapIntent i) rc lg"
      "evidence_args ev = the (route_args (a_route (attempt_core.truncate a)) lg)"
    by (rule accepted_receipt)
  then have "ea_settlementAmount (evidence_args ev) = a_settlementAmountAtomic a"
    by (simp add: proves_payment_def args_match_def attempt_core.truncate_def)
  then show ?thesis using a loc e lg(1) by auto
qed

subsection \<open>A payment seen on its chain\<close>

definition seen_env :: bindings where
  "seen_env = sample_env\<lparr>e_rpcUrls := Some ''urls''\<rparr>"

definition seen_viem :: viem where
  "seen_viem = sample_viem\<lparr>v_jsonParse := (\<lambda>s. Some (JObj [(''421614'', JArr [JStr ''https://rpc''])]))\<rparr>"

definition seen_args :: event_args where
  "seen_args = \<lparr>ea_intentId = ''0xpi_1'', ea_attemptId = ''0xatt_1'', ea_payer = ''0xpayer'',
     ea_merchant = ''0xmerchant'', ea_settlementAmount = 10000000, ea_platformFee = 0\<rparr>"

definition seen_log :: chain_log where
  "seen_log = \<lparr>lg_address = ''0xrouter'', lg_txHash = Some ''0xab'', lg_logIndex = Some 0, lg_blockNumber = 90,
     lg_blockHash = ''0xb90'', lg_settled = Some seen_args, lg_burned = None, lg_messageSent = None,
     lg_messageReceived = None, lg_evidence = ''{}''\<rparr>"

definition seen_receipt :: chain_receipt where
  "seen_receipt = \<lparr>rc_success = True, rc_from = ''0xpayer'', rc_to = Some ''0xrouter'', rc_blockNumber = 90, rc_logs = [seen_log]\<rparr>"

definition seen_services :: services where
  "seen_services = quiet_services\<lparr>sv_receipt := (\<lambda>c h t. if h = ''0xab'' then ReceiptFound seen_receipt else ReceiptNotFound)\<rparr>"

definition seen_world :: pworld where
  "seen_world = sample_world\<lparr>w_db := sample_db\<lparr>db_attempts := [sample_attempt_row\<lparr>a_sourceTxHash := Some ''0xab'', a_status := Submitted\<rparr>]\<rparr>\<rparr>"

lemmas seen_defs = seen_env_def seen_viem_def seen_args_def seen_log_def seen_receipt_def seen_services_def seen_world_def

lemma seen_I: "holds_at pay_I (w_ix seen_world) seen_world"
proof -
  have "pay_inv (w_db seen_world)"
    by (simp add: seen_world_def pay_inv_def accounts_ok_def sample_defs commit_ok_def settled_status_def intent_ok_def
        intent_total_def link_ok_def find_intent_def)
  then show ?thesis
    using inj_sample_uuid by (simp add: holds_at_def pay_I_def seen_world_def sample_world_def fresh_commit_def sample_db_def empty_db_def)
qed

definition seen_row :: attempt_row where
  "seen_row = sample_attempt_row\<lparr>a_sourceTxHash := Some ''0xab'', a_status := Submitted\<rparr>"

lemma seen_reads: "fst (confirmedReceipt seen_viem seen_services seen_env 421614 ''0xab'' seen_world) = Inr (Some seen_receipt)"
  by code_simp

lemma seen_valid:
  "validatePaymentSourceReceipt (attempt_core.truncate seen_row) (mapIntent sample_intent_row) seen_receipt =
    Inr (LocalEvidence seen_args)"
  by code_simp

lemma seen_settle:
  "case settleAttempt seen_viem (local_settlement (mapAttempt seen_row) ''0xab'' seen_args) seen_world of
     (Inr y, w') \<Rightarrow> map sc_settled (db_commits (w_db w')) = [10000000] | _ \<Rightarrow> False"
  by code_simp

lemma seen_hash: "hex_ok ''0xab''"
  by code_simp

text \<open>What reconciling an open attempt of the local route runs.\<close>

lemma reconcileAttempt_local:
  assumes "w_env w = []" and "attempt_row_of x (w_db w) = Some a" and "a_sourceTxHash a = Some tx" and "a_route a = Local"
    and "\<not> settled_status (a_status a)" and "a_status a \<noteq> Failed" and "tx \<noteq> []" and "hex_ok tx"
  shows "reconcileAttempt V sv env x w = reconcileLocal V sv env x tx w"
  using assms attempt_row_of_Some [OF assms(2)]
  by (simp add: reconcileAttempt_def bindA_def [of "getAttempt _"] getAttempt_quiet)

lemma reconcileLocal_settles:
  assumes "w_env w = []" and "attempt_row_of x (w_db w) = Some a" and "\<not> settled_status (a_status a)"
    and "find_intent (a_intentId a) (db_intents (w_db w)) = Some i"
    and "fst (confirmedReceipt V sv env (a_sourceChainId a) tx w) = Inr (Some rc)"
    and "validatePaymentSourceReceipt (attempt_core.truncate a) (mapIntent i) rc = Inr ev"
  shows "reconcileLocal V sv env x tx w =
    bindA (settleAttempt V (local_settlement (mapAttempt a) tx (evidence_args ev))) (\<lambda>_.
      bindA (flushPaymentOutbox sv env 10) (\<lambda>_. ret True)) w"
proof -
  have "reconcileLocal V sv env x tx w =
      bindA (confirmedReceipt V sv env (a_sourceChainId a) tx) (\<lambda>receipt. case receipt of
           None \<Rightarrow> ret False
         | Some r \<Rightarrow> bindA (liftE (validatePaymentSourceReceipt (attempt_core.truncate a) (mapIntent i) r)) (\<lambda>ev. case ev of
             LocalEvidence args \<Rightarrow> bindA (settleAttempt V (local_settlement (mapAttempt a) tx args)) (\<lambda>_.
               bindA (flushPaymentOutbox sv env 10) (\<lambda>_. ret True))
           | BurnEvidence args m \<Rightarrow> bindA (settleAttempt V (local_settlement (mapAttempt a) tx (event_args.truncate args))) (\<lambda>_.
               bindA (flushPaymentOutbox sv env 10) (\<lambda>_. ret True)))) w"
    using assms(1-4)
    by (simp add: reconcileLocal_def bindA_def [of "getAttempt _"] bindA_def [of "getPaymentIntent _"] getAttempt_quiet
        getPaymentIntent_quiet)
  also have "\<dots> = bindA (settleAttempt V (local_settlement (mapAttempt a) tx (evidence_args ev))) (\<lambda>_.
      bindA (flushPaymentOutbox sv env 10) (\<lambda>_. ret True)) w"
    unfolding reads_bind [OF reads_reconcile(3) assms(1)] assms(5)
    using assms(6) by (cases ev) (simp_all add: bindA_def [of "liftE _"] liftE_def evidence_args_def)
  finally show ?thesis .
qed

lemma seen_run:
  "db_commits (w_db (snd (reconcileAttempt seen_viem seen_services seen_env ''att_1'' seen_world))) \<noteq> []"
proof -
  have q: "w_env seen_world = []" by (simp add: seen_world_def sample_world_def)
  have a: "attempt_row_of ''att_1'' (w_db seen_world) = Some seen_row"
    and i: "find_intent (a_intentId seen_row) (db_intents (w_db seen_world)) = Some sample_intent_row"
    by (simp_all add: seen_world_def seen_row_def attempt_row_of_def find_intent_def sample_defs)
  have f: "a_id seen_row = ''att_1''" "a_route seen_row = Local" "a_sourceTxHash seen_row = Some ''0xab''"
      "a_status seen_row = Submitted" "a_sourceChainId seen_row = 421614" "a_intentId seen_row = a_intentId seen_row"
    by (simp_all add: seen_row_def sample_defs)
  let ?st = "settleAttempt seen_viem (local_settlement (mapAttempt seen_row) ''0xab'' seen_args)"
  let ?rest = "\<lambda>_. bindA (flushPaymentOutbox seen_services seen_env 10) (\<lambda>_. ret True)"
  obtain y w1 where s: "?st seen_world = (Inr y, w1)" and c: "db_commits (w_db w1) \<noteq> []"
    using seen_settle by (cases "?st seen_world"; cases "fst (?st seen_world)") auto
  have "reconcileAttempt seen_viem seen_services seen_env ''att_1'' seen_world =
      reconcileLocal seen_viem seen_services seen_env ''att_1'' ''0xab'' seen_world"
    by (rule reconcileAttempt_local [OF q a f(3)]) (simp_all add: f seen_hash settled_status_def)
  also have "\<dots> = bindA ?st ?rest seen_world"
    using reconcileLocal_settles [OF q a _ i, of seen_viem seen_services seen_env "''0xab''" seen_receipt "LocalEvidence seen_args"]
    by (simp add: f seen_reads seen_valid settled_status_def evidence_args_def)
  finally have run: "reconcileAttempt seen_viem seen_services seen_env ''att_1'' seen_world = ?rest y w1"
    using s by (simp add: bindA_def [of ?st])
  have "holds_at pay_I (w_ix w1) w1" by (rule guar_run [OF guar_settleAttempt q seen_I s])
  moreover have "w_env w1 = []" using quiet_run [OF quietly_settle q] s by (metis snd_conv)
  moreover have "guar pay_I same_commits (?rest y)"
    by (intro frozen.guar_bindA frozen_flush frozen.guar_calm)
  ultimately have "db_commits (w_db (snd (?rest y w1))) = db_commits (w_db w1)"
    using frozen_run [of "?rest y" w1] by (cases "?rest y w1") auto
  then show ?thesis using c run by simp
qed

lemma commits_need_evidence_witness:
  "\<exists>a i tx rc lg. attempt_row_of ''att_1'' (w_db seen_world) = Some a \<and> a_sourceTxHash a = Some tx \<and>
    confirmed_at seen_viem seen_services seen_env (a_sourceChainId a) tx (w_now seen_world) rc \<and>
    proves_payment (attempt_core.truncate a) (mapIntent i) rc lg"
proof -
  obtain r w' where run: "reconcileAttempt seen_viem seen_services seen_env ''att_1'' seen_world = (r, w')"
    by (cases "reconcileAttempt seen_viem seen_services seen_env ''att_1'' seen_world")
  then obtain c where c: "c \<in> set (db_commits (w_db w'))" using seen_run by (cases "db_commits (w_db w')") auto
  have "c \<notin> set (db_commits (w_db seen_world))" by (simp add: seen_world_def sample_db_def empty_db_def)
  from commits_need_evidence [OF _ seen_I run c this] show ?thesis
    by (simp add: seen_world_def sample_world_def) blast
qed

end
