(* ===== verification/QuoteProps.thy ===== *)
theory QuoteProps
  imports QuoteEngine Samples
begin

text \<open>
  What a quote promises, what a signature binds, and what a router must have shown before anything is signed for it.
\<close>

subsection \<open>Healthy routers\<close>

definition same_as :: "viem \<Rightarrow> string option \<Rightarrow> string option \<Rightarrow> bool" where
  "same_as V observed expected \<longleftrightarrow> (\<exists>s. expected = Some s \<and> s \<noteq> [] \<and> same_checksummed V observed s)"

text \<open>The deployed router is the declared one, accepts our signatures and is not paused.\<close>

definition healthy :: "viem \<Rightarrow> bindings \<Rightarrow> router_target \<Rightarrow> router_observation \<Rightarrow> string option \<Rightarrow> int \<Rightarrow> bool" where
  "healthy V env t obs treasury bps \<longleftrightarrow> ro_codePresent obs \<and>
     ro_maxPlatformFeeBps obs = Some (rt_declaredMaxPlatformFeeBps t) \<and> bps \<le> rt_declaredMaxPlatformFeeBps t \<and>
     same_as V (ro_authorizationSigner obs) (authorizationSigner V env) \<and>
     (0 < bps \<longrightarrow> same_as V (ro_treasury obs) treasury) \<and> same_checksummed V (ro_usdc obs) (rt_usdc t) \<and>
     ro_paused obs = Some False \<and>
     (rt_kind t = CctpRouter \<longrightarrow> same_as V (ro_tokenMessenger obs) (rt_tokenMessenger t) \<and>
        ro_settlementChainId obs = Some (rt_settlementChainId t) \<and>
        ro_fastTransferEnabled obs = rt_fastTransferEnabled t)"

lemma issue_Nil: "issue b s = [] \<longleftrightarrow> \<not> b"
  by (simp add: issue_def)

lemma no_issue_iff:
  "evaluatePaymentRouterObservation V t obs (authorizationSigner V env) treasury bps = [] \<longleftrightarrow> healthy V env t obs treasury bps"
proof -
  have s: "(case e of None \<Rightarrow> True | Some s \<Rightarrow> s = [] \<or> \<not> same_checksummed V o1 s) \<longleftrightarrow> \<not> same_as V o1 e" for e o1
    by (auto simp: same_as_def split: option.split)
  show ?thesis
    unfolding evaluatePaymentRouterObservation_def Let_def healthy_def s append_is_Nil_conv issue_Nil by (auto simp: issue_Nil)
qed

text \<open>What a read of the router returns at a time.\<close>

definition router_shows :: "viem \<Rightarrow> services \<Rightarrow> bindings \<Rightarrow> router_target \<Rightarrow> int \<Rightarrow> router_observation \<Rightarrow> bool" where
  "router_shows V sv env t now obs \<longleftrightarrow> paymentPublicClient V env (rt_chainId t) = Inr () \<and>
     (\<exists>code. sv_code sv (rt_chainId t) (rt_address t) now = Some code \<and>
       (if code = None \<or> code = Some [] \<or> code = Some ''0x'' then obs = missing_router
        else \<exists>v. sv_multicall sv (rt_chainId t) (rt_address t) (rt_kind t = CctpRouter) now = Some v \<and>
          obs = observed_router (rt_kind t) v))"

text \<open>An observation of the memory of the isolate that has not expired.\<close>

definition remembered :: "pdb \<Rightarrow> router_target \<Rightarrow> int \<Rightarrow> router_observation \<Rightarrow> bool" where
  "remembered d t now obs \<longleftrightarrow> (\<exists>expiresAt. map_of (db_observationCache d) (observationKey t) = Some (expiresAt, obs) \<and> now < expiresAt)"

lemma read_router_quiet:
  assumes "w_env w = []" and "readPaymentRouter V sv env t w = (Inr obs, w')"
  shows "router_shows V sv env t (w_now w) obs" and "w' = w"
  using assms
  by (auto simp: readPaymentRouter_def router_shows_def bindA_def liftE_def extcall_quiet ret_def split: sum.splits option.splits if_splits)

lemma cached_quiet:
  assumes q: "w_env w = []" and run: "cachedObservation V sv env t None w = (Inr obs, w')"
  shows "remembered (w_db w) t (w_now w) obs \<or> router_shows V sv env t (w_now w) obs"
proof (cases "map_of (db_observationCache (w_db w)) (observationKey t)")
  case None
  then obtain w1 where "readPaymentRouter V sv env t w = (Inr obs, w1)"
    using run by (auto simp: cachedObservation_def bindA_def syncA_def date_now_def ret_def remember_def Let_def split: prod.splits sum.splits)
  then show ?thesis using read_router_quiet [OF q] by blast
next
  case (Some p)
  obtain e ob where p: "p = (e, ob)" by (cases p)
  show ?thesis
  proof (cases "w_now w < e")
    case True
    then have "obs = ob" using run Some p by (simp add: cachedObservation_def bindA_def syncA_def date_now_def ret_def Let_def)
    then show ?thesis using Some p True by (auto simp: remembered_def)
  next
    case False
    then obtain w1 where "readPaymentRouter V sv env t w = (Inr obs, w1)"
      using run Some p
      by (auto simp: cachedObservation_def bindA_def syncA_def date_now_def ret_def remember_def Let_def split: prod.splits sum.splits)
    then show ?thesis using read_router_quiet [OF q] by blast
  qed
qed

lemma gate_quiet:
  assumes q: "w_env w = []" and on: "e_routerPreflight env = Some ''true''"
    and run: "assertPaymentRouterReadyForAuthorization V sv env inp None w = (Inr (), w')"
  shows "\<exists>n t obs. getPaymentNetworkCapabilities (gi_chainId inp) = Some n \<and> targetFor V n = Inr (Some t) \<and>
    (gi_route inp = Local) = (rt_kind t = LocalRouter) \<and>
    healthy V env t obs (gi_platformFeeRecipient inp) (gi_platformFeeBps inp) \<and>
    (remembered (w_db w) t (w_now w) obs \<or> router_shows V sv env t (w_now w) obs)"
proof -
  from run on obtain n t where n: "getPaymentNetworkCapabilities (gi_chainId inp) = Some n" "targetFor V n = Inr (Some t)"
      "(gi_route inp = Local) = (rt_kind t = LocalRouter)"
    by (auto simp: assertPaymentRouterReadyForAuthorization_def bindA_def liftE_def throw_def ret_def Let_def
        split: option.splits sum.splits if_splits)
  from run on n obtain obs w1 where obs: "cachedObservation V sv env t None w = (Inr obs, w1)"
      "evaluatePaymentRouterObservation V t obs (authorizationSigner V env) (gi_platformFeeRecipient inp) (gi_platformFeeBps inp) = []"
    by (auto simp: assertPaymentRouterReadyForAuthorization_def bindA_def catchA_def liftE_def throw_def ret_def Let_def
        split: option.splits sum.splits if_splits prod.splits)
  then show ?thesis using n cached_quiet [OF q obs(1)] no_issue_iff by blast
qed

subsection \<open>Quotes\<close>

lemma chosen_route:
  assumes "choose_route n req = Inr r"
  shows "(r = Local \<longleftrightarrow> n_isHomeChain n) \<and> (r = CctpFast \<longrightarrow> n_cctpFast n) \<and>
    (r = CctpStandard \<longrightarrow> n_cctpStandard n \<or> req = RequestAuto)"
  using assms by (auto simp: choose_route_def split: if_splits requested_route.splits)

lemma quote_terms_cases:
  assumes "quote_terms_of V env inp now = Inr t"
  obtains cap where "qi_sourceChainId inp \<in> set (enabledChains env)"
    and "getPaymentNetworkCapabilities (qi_sourceChainId inp) = Some (qt_source t)"
    and "getPaymentNetworkCapabilities (i_settlementChainId (qi_intent inp)) = Some (qt_settlement t)"
    and "n_paymentSource (qt_source t)" and "n_settlementChainId (qt_source t) = i_settlementChainId (qi_intent inp)"
    and "i_status (qi_intent inp) = AwaitingPayment" and "\<forall>e. i_expiresAt (qi_intent inp) = Some e \<longrightarrow> now < e"
    and "choose_route (qt_source t) (qi_requestedRoute inp) = Inr (qt_route t)"
    and "resolvePaymentFee V env \<lparr>fi_intent = qi_intent inp, fi_sourceChainId = qi_sourceChainId inp, fi_route = qt_route t\<rparr>
      cap = Inr (qt_fee t)"
  using assms unfolding quote_terms_of_def Let_def
  by (auto simp: bindE_Inr_iff not_le split: if_splits option.splits sum.splits err.splits)

lemma buildQuote_cases:
  assumes "buildQuote V sv env inp w = (Inr q, w')"
  obtains t cctpFee observed src uuid now where "quote_terms_of V env inp (w_now w) = Inr t"
    and "q = quote_of V inp t cctpFee observed src uuid now"
    and "qt_route t = Local \<longrightarrow> cctpFee = 0 \<and> src = FeeLocal" and "qt_route t \<noteq> Local \<longrightarrow> src = FeeCircleLive"
proof -
  from assms obtain t w1 cctpFee observed src uuid now where t: "quote_terms_of V env inp (w_now w) = Inr t"
      and q: "q = quote_of V inp t cctpFee observed src uuid now"
      and f: "(if qt_route t = Local then ret (0, w_now w, FeeLocal)
        else bindA (live_quote_fee V sv inp t) (\<lambda>live. ret (lf_maxFeeAtomic live, lf_observedAt live, FeeCircleLive))) w
          = (Inr (cctpFee, observed, src), w1)"
    by (auto simp: buildQuote_def bindA_def [of date_now] bindA_def [of "liftE _"] bindA_def [of "if _ then _ else _"]
        bindA_def [of randomUUID] date_now_def liftE_def randomUUID_def ret_def [of "quote_of _ _ _ _ _ _ _ _"]
        split: sum.splits prod.splits)
  have "qt_route t = Local \<Longrightarrow> cctpFee = 0 \<and> src = FeeLocal" using f by (simp add: ret_def)
  moreover have "qt_route t \<noteq> Local \<Longrightarrow> src = FeeCircleLive"
    using f by (auto simp: bindA_def ret_def split: sum.splits prod.splits)
  ultimately show ?thesis using that t q by blast
qed


subsection \<open>Authorizations\<close>

lemma window_bounds:
  assumes "authorizationWindow env i qe now = Inr (va, vu)"
  shows "va = floor_sec now - 15 \<and> floor_sec now + 15 < vu \<and> vu \<le> floor_sec now + 3600 \<and> vu \<le> floor_sec qe \<and>
    (\<forall>e. i_expiresAt i = Some e \<longrightarrow> vu \<le> floor_sec e)"
  using assms by (auto simp: authorizationWindow_def Let_def split: option.splits if_splits)

text \<open>The typed data of the quote's route carries the quote's terms.\<close>

definition binds :: "viem \<Rightarrow> authorize_input \<Rightarrow> payment_attempt \<Rightarrow> bool" where
  "binds V inp a \<longleftrightarrow> (let q = ai_quote inp; i = ai_intent inp; au = a_authorization a in
     au_intentId au = uuidHash V (i_id i) \<and> au_attemptId au = uuidHash V (a_id a) \<and> au_payer au = q_payer q \<and>
     au_merchant au = i_settlementWallet i \<and> au_settlementAmount au = q_settlementAmountAtomic q \<and>
     au_platformFee au = q_platformFeeAtomic q \<and> au_validAfter au = a_validAfter a \<and> au_validUntil au = a_validUntil a \<and>
     au_metadataHash au = stableMetadataHash V (i_metadata i) \<and>
     (q_route q \<noteq> Local \<longrightarrow> au_grossPayerAmount au = q_grossPayerAmountAtomic q \<and>
        au_maxCctpFee au = q_cctpFeeAtomic q \<and> au_settlementChainId au = i_settlementChainId i \<and>
        au_minFinalityThreshold au = finality_threshold (q_route q)))"

lemma authorization_of_cases:
  assumes "authorization_of V source inp x win = Inr (router, au)"
  shows "au_intentId au = uuidHash V (i_id (ai_intent inp)) \<and> au_attemptId au = uuidHash V x \<and>
    au_payer au = q_payer (ai_quote inp) \<and> au_merchant au = i_settlementWallet (ai_intent inp) \<and>
    au_settlementAmount au = q_settlementAmountAtomic (ai_quote inp) \<and> au_platformFee au = q_platformFeeAtomic (ai_quote inp) \<and>
    au_validAfter au = fst win \<and> au_validUntil au = snd win \<and>
    au_metadataHash au = stableMetadataHash V (i_metadata (ai_intent inp)) \<and>
    (if q_route (ai_quote inp) = Local then n_localPaymentRouter source = Some router
     else n_cctpPaymentRouter source = Some router \<and> au_grossPayerAmount au = q_grossPayerAmountAtomic (ai_quote inp) \<and>
       au_maxCctpFee au = q_cctpFeeAtomic (ai_quote inp) \<and> au_settlementChainId au = i_settlementChainId (ai_intent inp) \<and>
       au_minFinalityThreshold au = finality_threshold (q_route (ai_quote inp)))"
  using assms by (auto simp: authorization_of_def Let_def split: if_splits option.splits)

lemma authorizeAttempt_cases:
  assumes "authorizeAttempt V sv env inp w = (Inr a, w')"
  obtains source uuid va vu key w1 router au signature now where
    "getPaymentNetworkCapabilities (q_sourceChainId (ai_quote inp)) = Some source" and "w_now w < q_expiresAt (ai_quote inp)"
    and "authorizationWindow env (ai_intent inp) (q_expiresAt (ai_quote inp)) (w_now w) = Inr (va, vu)"
    and "signer env = Inr key"
    and "assertPaymentRouterReadyForAuthorization V sv env \<lparr>gi_chainId = n_chainId source, gi_route = q_route (ai_quote inp),
        gi_platformFeeBps = f_platformFeeBps (q_fee (ai_quote inp)),
        gi_platformFeeRecipient = f_platformFeeRecipient (q_fee (ai_quote inp))\<rparr> None (w\<lparr>w_ix := Suc (w_ix w)\<rparr>) = (Inr (), w1)"
    and "authorization_of V source inp (''pa_'' @ uuid) (va, vu) = Inr (router, au)"
    and "signature = v_signAuthorization V key (n_chainId source) router au"
    and "a = attempt_of V source inp (''pa_'' @ uuid) (va, vu) router au signature now"
  using assms unfolding authorizeAttempt_def Let_def
  by (auto simp: bindA_def catchA_def date_now_def randomUUID_def liftE_def throw_def ret_def extcall_def Let_def not_le
      split: if_splits option.splits sum.splits prod.splits err.splits)

text \<open>
  C15: a signed authorization binds the quote.  The attempt carries the quote's payer, route, amounts and fee
  snapshot; the signed typed data states the intent, the attempt, the payer, the merchant's wallet, the settlement amount
  and the fees of the quote; it is signed with the configured key for the router the manifest gives for the source chain
  and route; and it is valid for at most an hour, and never beyond the quote or the intent.
\<close>
theorem authorization_binds_quote:
  assumes "authorizeAttempt V sv env inp w = (Inr a, w')"
  shows "let q = ai_quote inp in binds V inp a \<and> a_status a = Reserved \<and> a_intentId a = i_id (ai_intent inp) \<and>
    a_quoteId a = q_id q \<and> a_payerAddress a = q_payer q \<and> a_route a = q_route q \<and> a_sourceChainId a = q_sourceChainId q \<and>
    a_settlementAmountAtomic a = q_settlementAmountAtomic q \<and> a_platformFeeAtomic a = q_platformFeeAtomic q \<and>
    a_cctpFeeAtomic a = q_cctpFeeAtomic q \<and> a_grossPayerAmountAtomic a = q_grossPayerAmountAtomic q \<and> a_fee a = q_fee q \<and>
    (\<exists>n key. getPaymentNetworkCapabilities (q_sourceChainId q) = Some n \<and> signer env = Inr key \<and>
      Some (a_routerAddress a) = (if q_route q = Local then n_localPaymentRouter n else n_cctpPaymentRouter n) \<and>
      a_signature a = v_signAuthorization V key (q_sourceChainId q) (a_routerAddress a) (a_authorization a)) \<and>
    w_now w < q_expiresAt q \<and> a_validUntil a - a_validAfter a \<le> 3615 \<and> floor_sec (w_now w) + 15 < a_validUntil a \<and>
    a_validUntil a \<le> floor_sec (q_expiresAt q) \<and>
    (\<forall>e. i_expiresAt (ai_intent inp) = Some e \<longrightarrow> a_validUntil a \<le> floor_sec e)"
proof -
  obtain source uuid va vu key w1 router au signature now where
    n: "getPaymentNetworkCapabilities (q_sourceChainId (ai_quote inp)) = Some source" "w_now w < q_expiresAt (ai_quote inp)"
    and win: "authorizationWindow env (ai_intent inp) (q_expiresAt (ai_quote inp)) (w_now w) = Inr (va, vu)"
    and key: "signer env = Inr key" and au: "authorization_of V source inp (''pa_'' @ uuid) (va, vu) = Inr (router, au)"
    and s: "signature = v_signAuthorization V key (n_chainId source) router au"
    and a: "a = attempt_of V source inp (''pa_'' @ uuid) (va, vu) router au signature now"
    by (rule authorizeAttempt_cases [OF assms])
  note c = authorization_of_cases [OF au] and b = window_bounds [OF win] and i = network_chainId [OF n(1)]
  have "binds V inp a" using c by (auto simp: binds_def a attempt_of_def Let_def)
  moreover have "Some router = (if q_route (ai_quote inp) = Local then n_localPaymentRouter source else n_cctpPaymentRouter source)"
    using c by (auto split: if_splits)
  ultimately show ?thesis
    using n b i key s by (simp add: a attempt_of_def Let_def)
qed

text \<open>
  C16: nothing is signed for a router that is not the declared one.  An undisturbed authorization with the
  preflight on was given an observation of the deployed router, read now or remembered and not expired, that shows its code, the
  declared fee cap and at least the rate charged, our signer, the settlement token, the treasury if a fee is charged, no
  pause, and on a CCTP route the messenger, the settlement chain and the fast-transfer flag; with the preflight off, no
  platform fee is charged.
\<close>
theorem signed_for_healthy_router:
  assumes "authorizeAttempt V sv env inp w = (Inr a, w')" and "w_env w = []"
  shows "(e_routerPreflight env \<noteq> Some ''true'' \<longrightarrow> f_platformFeeBps (a_fee a) \<le> 0) \<and>
    (e_routerPreflight env = Some ''true'' \<longrightarrow> (\<exists>n t obs. getPaymentNetworkCapabilities (a_sourceChainId a) = Some n \<and>
      targetFor V n = Inr (Some t) \<and> (a_route a = Local) = (rt_kind t = LocalRouter) \<and>
      healthy V env t obs (f_platformFeeRecipient (a_fee a)) (f_platformFeeBps (a_fee a)) \<and>
      (remembered (w_db w) t (w_now w) obs \<or> router_shows V sv env t (w_now w) obs)))"
proof -
  obtain source uuid va vu key w1 router au signature now where
    n: "getPaymentNetworkCapabilities (q_sourceChainId (ai_quote inp)) = Some source"
    and g: "assertPaymentRouterReadyForAuthorization V sv env \<lparr>gi_chainId = n_chainId source, gi_route = q_route (ai_quote inp),
        gi_platformFeeBps = f_platformFeeBps (q_fee (ai_quote inp)),
        gi_platformFeeRecipient = f_platformFeeRecipient (q_fee (ai_quote inp))\<rparr> None (w\<lparr>w_ix := Suc (w_ix w)\<rparr>) = (Inr (), w1)"
    and a: "a = attempt_of V source inp (''pa_'' @ uuid) (va, vu) router au signature now"
    by (rule authorizeAttempt_cases [OF assms(1)])
  have off: "e_routerPreflight env \<noteq> Some ''true'' \<Longrightarrow> f_platformFeeBps (q_fee (ai_quote inp)) \<le> 0"
    using g by (auto simp: assertPaymentRouterReadyForAuthorization_def throw_def split: if_splits)
  show ?thesis
  proof (intro conjI impI)
    assume "e_routerPreflight env \<noteq> Some ''true''"
    then show "f_platformFeeBps (a_fee a) \<le> 0" using off by (simp add: a attempt_of_def Let_def)
  next
    assume on: "e_routerPreflight env = Some ''true''"
    from gate_quiet [OF _ on g] assms(2) show "\<exists>n t obs. getPaymentNetworkCapabilities (a_sourceChainId a) = Some n \<and>
      targetFor V n = Inr (Some t) \<and> (a_route a = Local) = (rt_kind t = LocalRouter) \<and>
      healthy V env t obs (f_platformFeeRecipient (a_fee a)) (f_platformFeeBps (a_fee a)) \<and>
      (remembered (w_db w) t (w_now w) obs \<or> router_shows V sv env t (w_now w) obs)"
      by (simp add: a attempt_of_def Let_def)
  qed
qed

subsection \<open>A quote and its authorization\<close>

definition quote_env :: bindings where
  "quote_env = sample_env\<lparr>e_authorizationSignerKey := Some (replicate 64 (CHR ''1'')), e_rpcUrls := Some ''urls''\<rparr>"

definition quote_viem :: viem where
  "quote_viem = sample_viem\<lparr>v_jsonParse := (\<lambda>s. Some (JObj [(''421614'', JArr [JStr ''https://rpc''])]))\<rparr>"

definition quote_services :: services where
  "quote_services = quiet_services\<lparr>sv_code := (\<lambda>c a t. Some (Some ''0x60'')),
     sv_multicall := (\<lambda>c a k t. Some \<lparr>rv_maxPlatformFeeBps = 100, rv_usdc = ''0x75faf114eafb1BDbe2F0316DF893fd58CE46AA4d'',
       rv_treasury = ''0xfee'', rv_authorizationSigner = ''0x'' @ replicate 64 (CHR ''1''), rv_paused = False,
       rv_tokenMessenger = None, rv_settlementChainId = None, rv_fastTransferEnabled = None\<rparr>)\<rparr>"

definition quote_request :: quote_input where
  "quote_request = \<lparr>qi_intent = sample_intent, qi_payer = ''0xpayer'', qi_sourceChainId = 421614, qi_requestedRoute = RequestAuto\<rparr>"

definition authorize_request :: authorize_input where
  "authorize_request = \<lparr>ai_intent = sample_intent, ai_quote = sample_quote, ai_payerUid = None\<rparr>"

lemma quote_run:
  "case fst (buildQuote quote_viem quote_services quote_env quote_request sample_world) of
     Inr q \<Rightarrow> q_grossPayerAmountAtomic q = 10000000 | Inl e \<Rightarrow> False"
  by code_simp

lemma authorize_run:
  "case fst (authorizeAttempt quote_viem quote_services quote_env authorize_request sample_world) of
     Inr a \<Rightarrow> a_validUntil a = 300 | Inl e \<Rightarrow> False"
  by code_simp


lemma authorization_binds_quote_witness:
  "case fst (authorizeAttempt quote_viem quote_services quote_env authorize_request sample_world) of
     Inr a \<Rightarrow> a_settlementAmountAtomic a = q_settlementAmountAtomic sample_quote | Inl e \<Rightarrow> False"
proof -
  obtain r w' where run: "authorizeAttempt quote_viem quote_services quote_env authorize_request sample_world = (r, w')"
    by (cases "authorizeAttempt quote_viem quote_services quote_env authorize_request sample_world")
  then obtain a where r: "r = Inr a" using authorize_run by (cases r) auto
  from authorization_binds_quote [OF run [unfolded r]] show ?thesis
    unfolding run r by (simp add: Let_def authorize_request_def)
qed

lemma signed_for_healthy_router_witness:
  "case fst (authorizeAttempt quote_viem quote_services quote_env authorize_request sample_world) of
     Inr a \<Rightarrow> (\<exists>t obs. healthy quote_viem quote_env t obs (f_platformFeeRecipient (a_fee a)) (f_platformFeeBps (a_fee a)) \<and>
       (remembered (w_db sample_world) t 5000 obs \<or> router_shows quote_viem quote_services quote_env t 5000 obs)) | Inl e \<Rightarrow> False"
proof -
  obtain r w' where run: "authorizeAttempt quote_viem quote_services quote_env authorize_request sample_world = (r, w')"
    by (cases "authorizeAttempt quote_viem quote_services quote_env authorize_request sample_world")
  then obtain a where r: "r = Inr a" using authorize_run by (cases r) auto
  have q: "w_env sample_world = []" "w_now sample_world = 5000" and on: "e_routerPreflight quote_env = Some ''true''"
    by (simp_all add: sample_world_def quote_env_def sample_env_def)
  from signed_for_healthy_router [OF run [unfolded r] q(1)] on show ?thesis
    unfolding run r q by auto
qed

end
