(* ===== verification/AccessProps.thy ===== *)
theory AccessProps
  imports Access Samples
begin

text \<open>
  The fixed window of the rate limiter: what a run of requests under one key gets.
\<close>

lemma find_upd_same: "(\<And>r. p r \<Longrightarrow> p (f r)) \<Longrightarrow> find p (upd p f rs) = map_option f (find p rs)"
  by (induction rs) (auto simp: upd_def)

definition count_before :: "rate_rule \<Rightarrow> string \<Rightarrow> pworld \<Rightarrow> int" where
  "count_before ru keyHash w = (case rate_count (ru_scope ru) keyHash (window_start ru (floor_sec (w_now w))) (w_db w) of
     None \<Rightarrow> 0 | Some n \<Rightarrow> n)"

lemma limiter_step:
  assumes "w_env w = []" and h: "h = v_sha256 V (ru_key ru)"
  obtains r w' where "enforceRateLimit V rq ru w = (Inr r, w')" and "w_env w' = []" and "w_now w' = w_now w"
    and "r = None \<longleftrightarrow> count_before ru h w < ru_limit ru" and "\<forall>x. r = Some x \<longrightarrow> hs_status x = 429"
    and "count_before ru h w' = count_before ru h w + 1"
proof -
  let ?ws = "window_start ru (floor_sec (w_now w))" and ?d = "w_db w"
  let ?p = "rate_row_is (ru_scope ru) h ?ws"
  let ?ss = "[insert_rate_stmt (ru_scope ru) h ?ws (w_now w), count_rate_stmt (ru_scope ru) h ?ws (w_now w)]"
  let ?f = "\<lambda>r. r\<lparr>rl_count := rl_count r + 1, rl_updatedAt := w_now w\<rparr>"
  have f: "find ?p (upd ?p ?f rs) = map_option ?f (find ?p rs)" for rs
    by (rule find_upd_same) (simp add: rate_row_is_def)
  obtain d' ns where b: "batch ?ss ?d = Some (d', ns)"
    and c: "rate_count (ru_scope ru) h ?ws d' = Some (count_before ru h w + 1)"
  proof (cases "list_ex ?p (db_rates ?d)")
    case True
    then obtain x where x: "find ?p (db_rates ?d) = Some x" by (cases "find ?p (db_rates ?d)") (auto simp: list_ex_iff find_None_iff)
    show ?thesis
    proof (rule that)
      show "batch ?ss ?d = Some (?d\<lparr>db_rates := upd ?p (\<lambda>r. r\<lparr>rl_count := rl_count r + 1, rl_updatedAt := w_now w\<rparr>) (db_rates ?d)\<rparr>,
          [0, hits ?p (db_rates ?d)])"
        using True by (simp add: insert_rate_stmt_def count_rate_stmt_def plain_def Let_def)
    qed (use x in \<open>simp add: rate_count_def f count_before_def\<close>)
  next
    case False
    let ?new = "\<lparr>rl_scope = ru_scope ru, rl_keyHash = h, rl_windowStart = ?ws, rl_count = 0, rl_updatedAt = w_now w\<rparr>"
    have n: "find ?p (db_rates ?d) = None" using False by (auto simp: list_ex_iff find_None_iff)
    have l: "find ?p (db_rates ?d @ [?new]) = Some ?new"
      by (subst find_append_last) (use False in \<open>auto simp: list_ex_iff rate_row_is_def\<close>)
    show ?thesis
    proof (rule that)
      show "batch ?ss ?d = Some (?d\<lparr>db_rates := upd ?p (\<lambda>r. r\<lparr>rl_count := rl_count r + 1, rl_updatedAt := w_now w\<rparr>) (db_rates ?d @ [?new])\<rparr>,
          [1, hits ?p (db_rates ?d @ [?new])])"
        using False by (simp add: insert_rate_stmt_def count_rate_stmt_def plain_def Let_def)
    qed (simp add: rate_count_def f count_before_def n l)
  qed
  have run: "enforceRateLimit V rq ru w = (Inr r, w\<lparr>w_db := d'\<rparr>)"
    if "r = (if count_before ru h w + 1 \<le> ru_limit ru then None
        else Some (respond 429 (JObj (error_fields rq ''Too many requests'' ''RATE_LIMITED'' @
         [(''retry_after'', JInt (max 1 (?ws + ru_windowSeconds ru - floor_sec (w_now w))))]))))" for r
    using assms(1) b c that
    by (simp add: enforceRateLimit_def incrementRateLimit_def sha256Hex_def dbb_def act_simps bindA_def Let_def h [symmetric])
  show ?thesis
    by (rule that [OF run [OF refl]]) (use assms(1) c in \<open>auto simp: count_before_def respond_def\<close>)
qed

text \<open>
  C23: what a window admits.  In a run of requests of one client under one rule, all in the same window of time, the
  request at position k (counted from 0) is let through exactly when the requests counted before plus k
  are below the limit; every other one is answered with 429.
\<close>
theorem window_admits:
  assumes "w_env w = []" and "mapA (\<lambda>rq. enforceRateLimit V rq ru) rqs w = (Inr rs, w')"
    and "k < length rqs"
  shows "length rs = length rqs \<and>
    (rs ! k = None \<longleftrightarrow> count_before ru (v_sha256 V (ru_key ru)) w + int k < ru_limit ru) \<and>
    (\<forall>r. rs ! k = Some r \<longrightarrow> hs_status r = 429)"
  using assms
proof (induction rqs arbitrary: w rs k)
  case Nil
  then show ?case by simp
next
  case (Cons rq rqs)
  let ?h = "v_sha256 V (ru_key ru)"
  obtain r w1 where r: "enforceRateLimit V rq ru w = (Inr r, w1)" "w_env w1 = []"
      "r = None \<longleftrightarrow> count_before ru ?h w < ru_limit ru" "\<forall>x. r = Some x \<longrightarrow> hs_status x = 429"
      "count_before ru ?h w1 = count_before ru ?h w + 1"
    using limiter_step [OF Cons.prems(1) refl] by metis
  from Cons.prems(2) r(1) obtain rs1 where rs1: "mapA (\<lambda>rq. enforceRateLimit V rq ru) rqs w1 = (Inr rs1, w')" "rs = r # rs1"
    by (auto simp: bindA_def ret_def split: prod.splits sum.splits)
  show ?case
  proof (cases rqs)
    case Nil
    then show ?thesis using rs1 r(3,4) Cons.prems(3) by (simp add: ret_def)
  next
    case (Cons q qs)
    then have l: "length rs1 = length rqs" using Cons.IH [OF r(2) rs1(1), of 0] by simp
    show ?thesis
    proof (cases k)
      case 0
      then show ?thesis using rs1(2) r(3,4) l by simp
    next
      case (Suc j)
      then show ?thesis using Cons.IH [OF r(2) rs1(1), of j] Cons.prems(3) rs1(2) r(5) by (simp add: algebra_simps)
    qed
  qed
qed

definition plain_request :: http_request where
  "plain_request = \<lparr>rq_id = ''req_1'', rq_connectingIp = Some ''10.0.0.1'', rq_realIp = None, rq_authorization = None,
     rq_apiKey = None, rq_capability = None, rq_idempotencyKey = None, rq_body = None, rq_user = None\<rparr>"

lemma three_requests: "case mapA (\<lambda>rq. enforceRateLimit sample_viem rq (per_minute ''scope'' ''key'' 2))
      [plain_request, plain_request, plain_request] sample_world of (Inr rs, w) \<Rightarrow> True | _ \<Rightarrow> False"
  by code_simp

lemma none_before: "count_before (per_minute ''scope'' ''key'' 2) (v_sha256 sample_viem ''key'') sample_world = 0"
  by code_simp

theorem window_admits_witness:
  "\<exists>rs w. mapA (\<lambda>rq. enforceRateLimit sample_viem rq (per_minute ''scope'' ''key'' 2))
      [plain_request, plain_request, plain_request] sample_world = (Inr rs, w) \<and> rs ! 1 = None \<and> rs ! 2 \<noteq> None"
proof -
  obtain rs w where run: "mapA (\<lambda>rq. enforceRateLimit sample_viem rq (per_minute ''scope'' ''key'' 2))
      [plain_request, plain_request, plain_request] sample_world = (Inr rs, w)"
    using three_requests by (auto split: prod.splits sum.splits)
  have q: "w_env sample_world = []" by (simp add: sample_world_def)
  have "rs ! k = None \<longleftrightarrow> int k < 2" if "k < 3" for k
    using window_admits [OF q run, of k] that none_before by (simp add: per_minute_def)
  from this [of 1] this [of 2] run show ?thesis by auto
qed

end
