(* ===== verification/CutoverProps.thy ===== *)
theory CutoverProps
  imports Cutover Samples
begin

text \<open>
  When writes are available, and the comparison of the operator's token.
\<close>

lemma xor_zero: "x XOR y = (0 :: 8 word) \<longleftrightarrow> x = y"
proof
  assume z: "x XOR y = 0"
  show "x = y"
  proof (rule bit_eqI)
    fix n
    have "bit (x XOR y) n \<longleftrightarrow> bit (0 :: 8 word) n" by (simp only: z)
    then show "bit x n \<longleftrightarrow> bit y n" by (simp add: bit_xor_iff)
  qed
qed simp

lemma mismatch_zero:
  "length xs = length ys \<Longrightarrow> mismatch m xs ys = 0 \<longleftrightarrow> m = 0 \<and> xs = ys"
  by (induction m xs ys rule: mismatch.induct) (auto simp: or_eq_0_iff xor_zero)

text \<open>
  The token comparison that never stops early is plain equality of the digests: two digests of any lengths are
  accepted exactly when they are the same bytes.
\<close>
theorem equalDigest_iff: "equalDigest left right \<longleftrightarrow> left = right"
  by (auto simp: equalDigest_def mismatch_zero)

text \<open>
  C22: when writes are available.  Undisturbed, the gate opens exactly when the bootstrap flag is the text false,
  the configured checksum is 64 hexadecimal digits, and the imported data's control row is complete, of version 1, with a source and
  a target checksum that both equal the configured one; it reads the database and changes nothing.
\<close>
theorem writes_available_iff:
  assumes "w_env w = []"
  shows "\<exists>a. paymentsWriteAvailability env w = (Inr a, w) \<and>
    (wa_available a \<longleftrightarrow> normal_flag (e_bootstrapMode env) = Some ''false'' \<and>
      (\<exists>e m. normalizeChecksum (e_cutoverChecksum env) = Some e \<and> sha256_hex_ok e \<and> db_migration (w_db w) = Some m \<and>
        mg_copyVersion m = 1 \<and> trimmed (mg_completedAt m) \<noteq> [] \<and>
        toLowerCase (trimmed (mg_sourceChecksum m)) = e \<and> toLowerCase (trimmed (mg_targetChecksum m)) = e))"
proof -
  have pending: "\<not> sha256_hex_ok ''pending''" by code_simp
  have ready: "cs_ready (classifyPaymentsDataCutover c (db_migration (w_db w))) \<longleftrightarrow>
      (\<exists>e m. normalizeChecksum c = Some e \<and> sha256_hex_ok e \<and> db_migration (w_db w) = Some m \<and>
        mg_copyVersion m = 1 \<and> trimmed (mg_completedAt m) \<noteq> [] \<and>
        toLowerCase (trimmed (mg_sourceChecksum m)) = e \<and> toLowerCase (trimmed (mg_targetChecksum m)) = e)" for c
    using pending by (auto simp: classifyPaymentsDataCutover_def Let_def split: option.splits)
  have state: "\<exists>s. paymentsDataCutoverState env w = (Inr s, w) \<and>
      (cs_ready s \<longleftrightarrow> cs_ready (classifyPaymentsDataCutover (e_cutoverChecksum env) (db_migration (w_db w))))"
    using assms
    by (auto simp: paymentsDataCutoverState_def paymentMigrationControl_def classifyPaymentsDataCutover_def catchA_def bindA_def
        ret_def dbq_quiet Let_def split: option.splits)
  show ?thesis
    using state ready [of "e_cutoverChecksum env"]
    by (auto simp: paymentsWriteAvailability_def paymentsBootstrapState_def bindA_def ret_def Let_def)
qed

definition imported :: migration_row where
  "imported = \<lparr>mg_copyVersion = 1, mg_completedAt = Some ''2026-01-01'', mg_sourceChecksum = Some (replicate 64 CHR ''a''),
     mg_targetChecksum = Some (replicate 64 CHR ''a'')\<rparr>"

definition open_world :: pworld where
  "open_world = sample_world\<lparr>w_db := sample_db\<lparr>db_migration := Some imported\<rparr>\<rparr>"

definition open_env :: bindings where
  "open_env = sample_env\<lparr>e_bootstrapMode := Some '' False '', e_cutoverChecksum := Some (replicate 64 CHR ''A'')\<rparr>"

lemma open_flags: "normal_flag (e_bootstrapMode open_env) = Some ''false''"
  "normalizeChecksum (e_cutoverChecksum open_env) = Some (replicate 64 CHR ''a'')" "sha256_hex_ok (replicate 64 CHR ''a'')"
  "trimmed (mg_completedAt imported) \<noteq> []" "toLowerCase (trimmed (mg_sourceChecksum imported)) = replicate 64 CHR ''a''"
  "toLowerCase (trimmed (mg_targetChecksum imported)) = replicate 64 CHR ''a''"
  by code_simp+

theorem writes_available_iff_witness:
  "\<exists>a. paymentsWriteAvailability open_env open_world = (Inr a, open_world) \<and> wa_available a"
  using writes_available_iff [of open_world open_env] open_flags
  by (auto simp: open_world_def sample_world_def imported_def)

end
