(* ===== verification/Sends.thy ===== *)
theory Sends
  imports Jobs
begin

text \<open>
  What a handler sends: the list of requests only grows, and a handler that is not the queue's consumer never answers
  a queue message.
\<close>

definition sends :: "(effect \<Rightarrow> bool) \<Rightarrow> 'a pact \<Rightarrow> bool" where
  "sends P m \<longleftrightarrow> (\<forall>w. \<exists>es. w_sent (snd (m w)) = w_sent w @ es \<and> list_all P es)"

lemma sent_await [simp]: "w_sent (await w) = w_sent w"
  by (auto simp: await_def split: list.splits prod.splits)

lemma sendsD: "sends P m \<Longrightarrow> \<exists>es. w_sent (snd (m w)) = w_sent w @ es \<and> list_all P es"
  by (auto simp: sends_def)

lemma sends_basic:
  "sends P (ret x)" "sends P (throw e)" "sends P (liftE r)" "sends P date_now" "sends P (dbq f)" "sends P (extcall g n)"
  "sends P randomUUID" "sends P (dbx s)" "sends P (dbb ss)" "sends P (syncA k)"
  by (auto simp: sends_def ret_def throw_def liftE_def date_now_def dbq_def extcall_def randomUUID_def dbx_def dbb_def syncA_def
      Let_def split: option.split prod.split)

lemma sends_callA: "P x \<Longrightarrow> sends P (callA x f n)"
  by (auto simp: sends_def callA_def Let_def split: option.split)

lemma sends_bindA: "sends P m \<Longrightarrow> (\<And>x. sends P (f x)) \<Longrightarrow> sends P (bindA m f)"
  unfolding sends_def
proof (intro allI)
  fix w
  assume m: "\<forall>w. \<exists>es. w_sent (snd (m w)) = w_sent w @ es \<and> list_all P es"
    and f: "\<And>x. \<forall>w. \<exists>es. w_sent (snd (f x w)) = w_sent w @ es \<and> list_all P es"
  obtain r w1 where mw: "m w = (r, w1)" by (cases "m w")
  obtain es where es: "w_sent w1 = w_sent w @ es" "list_all P es" using m mw by (metis snd_conv)
  show "\<exists>es. w_sent (snd (bindA m f w)) = w_sent w @ es \<and> list_all P es"
  proof (cases r)
    case (Inl e)
    then show ?thesis using es mw by (simp add: bindA_def)
  next
    case (Inr x)
    then obtain es' where "w_sent (snd (f x w1)) = w_sent w1 @ es'" "list_all P es'" using f by blast
    then show ?thesis using es mw Inr by (intro exI [of _ "es @ es'"]) (simp add: bindA_def)
  qed
qed

lemma sends_catchA: "sends P m \<Longrightarrow> (\<And>e. sends P (h e)) \<Longrightarrow> sends P (catchA m h)"
  unfolding sends_def
proof (intro allI)
  fix w
  assume m: "\<forall>w. \<exists>es. w_sent (snd (m w)) = w_sent w @ es \<and> list_all P es"
    and h: "\<And>e. \<forall>w. \<exists>es. w_sent (snd (h e w)) = w_sent w @ es \<and> list_all P es"
  obtain r w1 where mw: "m w = (r, w1)" by (cases "m w")
  obtain es where es: "w_sent w1 = w_sent w @ es" "list_all P es" using m mw by (metis snd_conv)
  show "\<exists>es. w_sent (snd (catchA m h w)) = w_sent w @ es \<and> list_all P es"
  proof (cases r)
    case (Inl e)
    then obtain es' where "w_sent (snd (h e w1)) = w_sent w1 @ es'" "list_all P es'" using h by blast
    then show ?thesis using es mw Inl by (intro exI [of _ "es @ es'"]) (simp add: catchA_def)
  next
    case (Inr x)
    then show ?thesis using es mw by (simp add: catchA_def)
  qed
qed

lemmas sends_rules = sends_basic sends_bindA sends_catchA

lemma sends_forA: "(\<And>x. sends P (f x)) \<Longrightarrow> sends P (forA f xs)"
  by (induction xs) (auto intro: sends_rules)

lemma sends_mapA: "(\<And>x. sends P (f x)) \<Longrightarrow> sends P (mapA f xs)"
  by (induction xs) (auto intro!: sends_rules)

subsection \<open>Answers to the queue\<close>

fun is_answer :: "effect \<Rightarrow> bool" where
  "is_answer (QueueAck x) = True"
| "is_answer (QueueRetry x s) = True"
| "is_answer (QueueRetryAll s) = True"
| "is_answer _ = False"

abbreviation silent :: "'a pact \<Rightarrow> bool" where
  "silent m \<equiv> sends (\<lambda>e. \<not> is_answer e) m"

lemma silent_db_reads [simp]:
  "silent (getAttempt x)" "silent (getPaymentIntent x)" "silent (getCrosschainOperation x)" "silent (getAttemptByHash x)"
  "silent (listActiveRouterAddressesByChain c)" "silent (listWebhookDeliveryJobs x)" "silent (getRouterCheckpoint c)"
  "silent (listCanonicalRouterBlocksBefore c n)" "silent (endpoints_for a b tp)" "silent (listDuePaymentOutbox k)"
  unfolding getAttempt_def getPaymentIntent_def getCrosschainOperation_def getAttemptByHash_def
    listActiveRouterAddressesByChain_def listWebhookDeliveryJobs_def getRouterCheckpoint_def
    listCanonicalRouterBlocksBefore_def endpoints_for_def listDuePaymentOutbox_def
  by (intro sends_rules allI impI conjI | split option.split if_split)+

lemma silent_db_writes [simp]:
  "silent (recordAttemptFeeEvidence x p n tx)" "silent (markAttemptProcessing x tx)" "silent (upsertCrosschainOperation inp)"
  "silent (updateCrosschainOperation x u)" "silent (recordCrosschainMintPrepared pm)" "silent (recordCrosschainMintBroadcast x tx)"
  "silent (recordCrosschainMintResult x tx s)" "silent (clearRevertedCrosschainMint x tx)"
  "silent (rollbackRouterJournal c cp an)" "silent (upsertPaymentChainEvent ev)" "silent (commitRouterCheckpoint b)"
  "silent (markPaymentOutboxEnqueued oid)" "silent (markPaymentOutboxFailed oid k)"
  "silent (claimPaymentJob m)" "silent (completePaymentJob key)" "silent (failPaymentJob key err)"
  "silent (claimWebhookDelivery x ow until)" "silent (recordWebhookNetworkFailure x ow k err)"
  "silent (recordWebhookResponse x ow k code dl)" "silent (decryptWebhookSecret V env ct kid)"
  unfolding recordAttemptFeeEvidence_def markAttemptProcessing_def upsertCrosschainOperation_def updateCrosschainOperation_def
    recordCrosschainMintPrepared_def recordCrosschainMintBroadcast_def recordCrosschainMintResult_def
    clearRevertedCrosschainMint_def rollbackRouterJournal_def upsertPaymentChainEvent_def commitRouterCheckpoint_def
    markPaymentOutboxEnqueued_def markPaymentOutboxFailed_def claimPaymentJob_def completePaymentJob_def failPaymentJob_def
    claimWebhookDelivery_def recordWebhookNetworkFailure_def recordWebhookResponse_def decryptWebhookSecret_def Let_def
  by (intro sends_rules silent_db_reads allI impI conjI | split option.split if_split)+

lemma silent_settle [simp]: "silent (settleAttempt V inp)"
proof -
  have round: "silent (settle_round V inp fees ev)" for fees ev
    unfolding settle_round_def Let_def by (intro sends_rules silent_db_reads allI impI conjI | split option.split if_split)+
  have loop: "silent (settle_loop n V inp fees ev)" for n fees ev
    by (induction n) (auto intro!: sends_rules round split: option.split)
  have exhausted: "silent (settle_exhausted inp ev)" for ev
    unfolding settle_exhausted_def by (intro sends_rules silent_db_reads allI impI conjI | split option.split if_split)+
  show ?thesis
    unfolding settleAttempt_def Let_def
    by (intro sends_rules silent_db_reads silent_db_writes loop exhausted allI impI conjI | split option.split if_split)+
qed

lemma silent_publish [simp]:
  "silent (enqueuePaymentJob sv env inp)" "silent (schedulePaymentJob sv env inp)" "silent (flushPaymentOutbox sv env n)"
proof -
  show e: "silent (enqueuePaymentJob sv env inp)" for inp
    unfolding enqueuePaymentJob_def paymentJobMessage_def Let_def
    by (intro sends_rules sends_callA allI impI conjI | split option.split if_split | simp)+
  show "silent (schedulePaymentJob sv env inp)"
    unfolding schedulePaymentJob_def Let_def
    by (intro sends_rules sends_callA e allI impI conjI | split option.split if_split | simp)+
  have "silent (publish_rows sv env rows n)" for rows n
    by (induction rows arbitrary: n) (auto intro!: sends_rules sends_callA e)
  then show "silent (flushPaymentOutbox sv env n)"
    unfolding flushPaymentOutbox_def
    by (intro sends_rules sends_callA silent_db_reads allI impI conjI | split option.split if_split | simp)+
qed

lemmas silent_rules = sends_rules sends_callA sends_forA sends_mapA silent_db_reads silent_db_writes silent_settle silent_publish

lemma silent_tryA [simp]: "silent m \<Longrightarrow> silent (tryA m)"
  unfolding tryA_def by (intro silent_rules)

lemma silent_chain [simp]:
  "silent (getBlockNumber sv c)" "silent (getBlock sv c n)" "silent (getTransactionReceipt sv c h)"
  "silent (nonceWasUsed sv c m nonce)" "silent (getCctpMessages sv dmn h)"
  unfolding getBlockNumber_def getBlock_def getTransactionReceipt_def nonceWasUsed_def getCctpMessages_def
  by (intro silent_rules allI impI conjI | split receipt_answer.split)+

lemma silent_verify [simp]: "silent (verifyRouterCheckpoint sv c cp)"
proof -
  have b: "silent (block_matches sv c x)" for x
    unfolding block_matches_def by (intro silent_rules silent_tryA silent_chain)
  have f: "silent (first_match sv c xs)" for xs
    by (induction xs) (auto intro!: silent_rules b)
  show ?thesis
    unfolding verifyRouterCheckpoint_def Let_def
    by (intro silent_rules silent_chain b f allI impI conjI | split option.split if_split)+
qed

lemma silent_reconcile [simp]: "silent (reconcileAttempt V sv env x)"
proof -
  have c: "silent (confirmedReceipt V sv env k tx)" for k tx
    unfolding confirmedReceipt_def by (intro silent_rules silent_chain allI impI conjI | split if_split)+
  have l: "silent (reconcileLocal V sv env y tx)" for y tx
    unfolding reconcileLocal_def
    by (intro silent_rules c allI impI conjI | split option.split if_split source_evidence.split)+
  have b: "silent (reconcileBurn V sv env y tx)" for y tx
    unfolding reconcileBurn_def
    by (intro silent_rules c allI impI conjI | split option.split if_split source_evidence.split)+
  show ?thesis
    unfolding reconcileAttempt_def by (intro silent_rules l b allI impI conjI | split option.split if_split)+
qed

lemma silent_option_intent [simp]: "silent (case attempt of None \<Rightarrow> ret None | Some a \<Rightarrow> getPaymentIntent (a_intentId a))"
  by (simp add: sends_basic split: option.split)

lemma silent_attestation [simp]: "silent (advanceCctpAttestation V sv env x)"
  unfolding advanceCctpAttestation_def
  by (intro silent_rules silent_chain silent_option_intent allI impI conjI | split option.split if_split prod.split)+

lemma silent_recover [simp]: "silent (recoverMintTransactionHash V sv env s h)"
proof -
  have c: "silent (confirmedMintTransaction V sv env s tx)" for tx
    unfolding confirmedMintTransaction_def
    by (intro silent_rules silent_tryA silent_chain allI impI conjI | split option.split if_split)+
  have f: "silent (first_confirmed V sv env s lgs)" for lgs
    by (induction lgs) (auto intro!: silent_rules c split: option.split)
  show ?thesis
    unfolding recoverMintTransactionHash_def
    by (intro silent_rules silent_chain c f allI impI conjI | split option.split if_split)+
qed

lemma silent_broadcast [simp]: "silent (broadcastPreparedMint sv c x tx raw)"
  unfolding broadcastPreparedMint_def by (intro silent_rules allI impI conjI | split if_split | simp)+

lemma silent_lease [simp]: "silent m \<Longrightarrow> silent (withPaymentSignerLease c account m)"
  unfolding withPaymentSignerLease_def acquirePaymentSignerLease_def releasePaymentSignerLease_def Let_def
  by (intro silent_rules allI impI conjI | split option.split if_split sum.split prod.split | assumption)+

lemma silent_mint [simp]: "silent (mintCctpSettlement V sv env x)"
proof -
  have p: "silent (prepare_mint V sv c tm nonce account op)" for c tm nonce account op
    unfolding prepare_mint_def Let_def
    by (intro silent_rules silent_chain silent_broadcast allI impI conjI | split option.split if_split prod.split)+
  have l: "silent (mint_under_lease V sv env tm nonce op)" for tm nonce op
    unfolding mint_under_lease_def Let_def
    by (intro silent_rules silent_chain silent_lease p allI impI conjI | split if_split)+
  have r: "silent (resume_mint sv op h raw)" for op h raw
    unfolding resume_mint_def Let_def
    by (intro silent_rules silent_chain silent_broadcast allI impI conjI | split if_split)+
  have f: "silent (finalizeCctpSettlement V sv env op a h)" for op a h
    unfolding finalizeCctpSettlement_def
    by (intro silent_rules allI impI conjI | split option.split if_split prod.split)+
  show ?thesis
    unfolding mintCctpSettlement_def
    by (intro silent_rules silent_chain silent_option_intent silent_recover l r f allI impI conjI
        | split option.split if_split prod.split)+
qed

lemma silent_scan [simp]: "silent (scanPaymentRouters V sv env c)"
proof -
  have l: "silent (scan_log V sv env k lg)" for k lg
    unfolding scan_log_def journal_log_def reconcile_log_def
    by (intro silent_rules silent_reconcile allI impI conjI | split option.split if_split prod.split)+
  have r: "silent (scan_range V sv env k as f t)" for k as f t
    unfolding scan_range_def Let_def by (intro silent_rules silent_chain l)
  show ?thesis
    unfolding scanPaymentRouters_def Let_def
    by (intro silent_rules silent_chain silent_verify r allI impI conjI | split if_split)+
qed

lemma silent_deliver [simp]: "silent (deliver_all V sv env djs)"
proof -
  have p: "silent (post_delivery V sv dj sec ts)" for dj sec ts
    unfolding post_delivery_def hmac_def Let_def by (intro silent_rules | simp)+
  have d: "silent (deliverOne V sv env dj)" for dj
    unfolding deliverOne_def Let_def
    by (intro silent_rules p allI impI conjI | split if_split)+
  show ?thesis by (induction djs) (auto intro!: silent_rules d)
qed

lemma silent_runPaymentJob [simp]: "silent (runPaymentJob V sv env m)"
proof -
  have w: "silent (watched_chain x)" for x
    unfolding watched_chain_def by (intro silent_rules allI impI conjI | split option.split if_split)+
  have e: "silent (run_evidence_job V sv env j x)" for j x
    unfolding run_evidence_job_def
    by (intro silent_rules silent_reconcile silent_attestation silent_mint silent_scan w allI impI conjI
        | split payment_job_name.split option.split if_split)+
  show ?thesis
    unfolding runPaymentJob_def by (intro silent_rules silent_deliver e allI impI conjI | split if_split)+
qed

end
