(* ===== verification/JobsProps.thy ===== *)
theory JobsProps
  imports Sends
begin

text \<open>
  What the queue's consumer promises: every message of a batch is answered once, in order, whatever the handlers and
  the services do.
\<close>

definition answers :: "effect list \<Rightarrow> effect list" where
  "answers es = filter is_answer es"

text \<open>An acknowledgement, or a retry within a quarter of an hour.\<close>

definition answer_for :: "queue_message \<Rightarrow> effect \<Rightarrow> bool" where
  "answer_for q v \<longleftrightarrow> v = QueueAck (qm_id q) \<or> (\<exists>s. v = QueueRetry (qm_id q) s \<and> 1 \<le> s \<and> s \<le> 900)"

text \<open>An action that answers once when it returns, and not at all when it throws.\<close>

definition answers_once :: "(effect \<Rightarrow> bool) \<Rightarrow> unit pact \<Rightarrow> bool" where
  "answers_once P m \<longleftrightarrow> (\<forall>w. case m w of
       (Inl e, w') \<Rightarrow> answers (w_sent w') = answers (w_sent w)
     | (Inr _, w') \<Rightarrow> \<exists>v. P v \<and> answers (w_sent w') = answers (w_sent w) @ [v])"

lemma silent_answers:
  assumes "silent m" shows "answers (w_sent (snd (m w))) = answers (w_sent w)"
proof -
  obtain es where "w_sent (snd (m w)) = w_sent w @ es" "list_all (\<lambda>e. \<not> is_answer e) es"
    using sendsD [OF assms] by blast
  then show ?thesis by (simp add: answers_def list_all_iff)
qed

lemma once_emit: "is_answer x \<Longrightarrow> P x \<Longrightarrow> answers_once P (emitA x)"
  by (simp add: answers_once_def emitA_def answers_def)

lemma once_bind:
  assumes "silent m" and "\<And>w x w'. m w = (Inr x, w') \<Longrightarrow> answers_once P (f x)"
  shows "answers_once P (bindA m f)"
  unfolding answers_once_def
proof
  fix w
  obtain r w1 where mw: "m w = (r, w1)" by (cases "m w")
  have a: "answers (w_sent w1) = answers (w_sent w)" using silent_answers [OF assms(1), of w] mw by simp
  show "case bindA m f w of (Inl e, w') \<Rightarrow> answers (w_sent w') = answers (w_sent w)
     | (Inr _, w') \<Rightarrow> \<exists>v. P v \<and> answers (w_sent w') = answers (w_sent w) @ [v]"
  proof (cases r)
    case (Inl e)
    then show ?thesis using a mw by (simp add: bindA_def)
  next
    case (Inr x)
    then have "answers_once P (f x)" using assms(2) mw by blast
    from this [unfolded answers_once_def, rule_format, of w1, unfolded a] show ?thesis
      using mw Inr by (simp add: bindA_def)
  qed
qed

text \<open>What an action returns, whatever happens around it.\<close>

definition results :: "('a \<Rightarrow> bool) \<Rightarrow> 'a pact \<Rightarrow> bool" where
  "results P m \<longleftrightarrow> (\<forall>w x w'. m w = (Inr x, w') \<longrightarrow> P x)"

lemma results_ret: "P x \<Longrightarrow> results P (ret x)"
  by (simp add: results_def ret_def)

lemma results_bind: "(\<And>x. results P (f x)) \<Longrightarrow> results P (bindA m f)"
  by (auto simp: results_def bindA_def split: prod.splits sum.splits)

lemma seconds_left_pos: "1 \<le> seconds_left a b"
  by (simp add: seconds_left_def)

lemma leased_positive: "results (\<lambda>c. case c of Leased s \<Rightarrow> 1 \<le> s | _ \<Rightarrow> True) (claimPaymentJob m)"
  unfolding claimPaymentJob_def Let_def
  by (intro results_bind results_ret allI impI conjI | split if_split | simp add: seconds_left_pos)+

lemma leasedD: "claimPaymentJob m w = (Inr (Leased s), w') \<Longrightarrow> 1 \<le> s"
  using leased_positive [unfolded results_def, rule_format, of m w "Leased s" w'] by simp

lemma fail_returns: "\<exists>w'. failPaymentJob key e w = (Inr (), w')"
  by (simp add: failPaymentJob_def fail_stmt_def plain_def bindA_def date_now_def dbx_def ret_def Let_def)

lemma retry_delay_bounds: "1 \<le> retry_delay n \<and> retry_delay n \<le> 900"
proof -
  have "(1 :: int) \<le> 2 ^ nat (min (n - 1) 6)" by simp
  then have "(1 :: int) \<le> 15 * 2 ^ nat (min (n - 1) 6)" by linarith
  then show ?thesis by (simp add: retry_delay_def)
qed

lemma run_claimed_once: "\<exists>w w'. claimPaymentJob m w = (Inr c, w') \<Longrightarrow> answers_once (answer_for q) (run_claimed V sv env q m c)"
  by (cases c) (auto simp: run_claimed_def answer_for_def dest!: leasedD intro!: once_bind once_emit)

lemma consume_one_answer:
  "\<exists>v w'. consume_one V sv env q w = (Inr (), w') \<and> answer_for q v \<and> answers (w_sent w') = answers (w_sent w) @ [v]"
proof (cases "parsePaymentJobMessage V (qm_body q)")
  case None
  then show ?thesis by (simp add: consume_one_def emitA_def answers_def answer_for_def)
next
  case (Some m)
  let ?run = "bindA (claimPaymentJob m) (run_claimed V sv env q m)"
  have once: "answers_once (answer_for q) ?run"
    by (rule once_bind) (auto intro: run_claimed_once)
  obtain r w1 where run: "?run w = (r, w1)" by (cases "?run w")
  note o = once [unfolded answers_once_def, rule_format, of w, unfolded run]
  show ?thesis
  proof (cases r)
    case (Inr u)
    then show ?thesis using o run Some by (auto simp: consume_one_def catchA_def)
  next
    case (Inl e)
    obtain w2 where w2: "failPaymentJob (pj_dedupeKey m) e w1 = (Inr (), w2)" using fail_returns by blast
    have "silent (failPaymentJob (pj_dedupeKey m) e)" by simp
    from silent_answers [OF this, of w1] have "answers (w_sent w2) = answers (w_sent w)"
      using o Inl w2 by simp
    then show ?thesis
      using run Some Inl w2 retry_delay_bounds
      by (intro exI [of _ "QueueRetry (qm_id q) (retry_delay (qm_attempts q))"])
        (simp add: consume_one_def catchA_def bindA_def emitA_def answers_def answer_for_def)
  qed
qed


end
