(* ===== verification/CheckoutProps.thy ===== *)
theory CheckoutProps
  imports CheckoutRoutes JobsProps AccessProps ReconcileProps
begin

text \<open>
  What an attempt of the public checkout proves about its payer, and what its registration proves about the payment.
\<close>

subsection \<open>Results of actions\<close>

lemma results_bind_post:
  assumes "results Q m" and "\<And>x. Q x \<Longrightarrow> results P (f x)"
  shows "results P (bindA m f)"
  unfolding results_def
proof (intro allI impI)
  fix w x w'
  assume "bindA m f w = (Inr x, w')"
  then obtain y w1 where "m w = (Inr y, w1)" "f y w1 = (Inr x, w')"
    by (auto simp: bindA_def split: prod.splits sum.splits)
  then show "P x" using assms unfolding results_def by blast
qed

lemma results_catch: "results P m \<Longrightarrow> (\<And>e. results P (h e)) \<Longrightarrow> results P (catchA m h)"
  by (auto simp: results_def catchA_def split: prod.splits sum.splits)

lemma results_any: "(\<And>x. P x) \<Longrightarrow> results P m"
  by (simp add: results_def)

lemma results_throw: "results P (throw e)"
  by (simp add: results_def throw_def)

lemma results_liftE: "results (\<lambda>x. r = Inr x) (liftE r)"
  by (simp add: results_def liftE_def)

lemma results_extcall: "results (\<lambda>x. \<exists>t. f t = Some x) (extcall f s)"
  by (auto simp: results_def extcall_def Let_def split: option.splits)

lemma results_dbq: "results (\<lambda>x. \<exists>d. x = f d) (dbq f)"
  by (auto simp: results_def dbq_def Let_def)

lemma results_mono: "results P m \<Longrightarrow> (\<And>x. P x \<Longrightarrow> Q x) \<Longrightarrow> results Q m"
  by (auto simp: results_def)

subsection \<open>Created attempts\<close>

definition payer_signed :: "viem \<Rightarrow> string \<Rightarrow> payment_quote \<Rightarrow> string \<Rightarrow> string \<Rightarrow> bool" where
  "payer_signed V linkId q capabilityHash signature \<longleftrightarrow> (\<exists>addr.
     v_recoverMessageAddress V (checkoutPayerProofMessage linkId q capabilityHash) signature = Some addr \<and>
     toLowerCase addr = toLowerCase (q_payer q))"

lemma proof_result:
  "results (\<lambda>p. pp_valid p \<longrightarrow> payer_signed V l q h s)
     (verifyCheckoutPayerProof V (checkoutPayerProofMessage l q h) (q_payer q) s)"
  unfolding verifyCheckoutPayerProof_def Let_def
  by (intro results_catch results_bind_post [OF results_extcall] results_ret) (auto simp: payer_signed_def)

lemma limited_result:
  assumes "results P m" and "\<And>x. hs_status x = 429 \<Longrightarrow> P x"
  shows "results P (limited V rq ru m)"
proof -
  have "results (\<lambda>r. \<forall>x. r = Some x \<longrightarrow> hs_status x = 429) (enforceRateLimit V rq ru)"
    unfolding enforceRateLimit_def Let_def
    by (intro results_bind results_ret allI impI conjI | split if_split | simp add: respond_def | force)+
  then show ?thesis
    unfolding limited_def by (rule results_bind_post) (use assms in \<open>auto intro: results_ret split: option.split\<close>)
qed

lemma create_result:
  "results (\<lambda>resp. hs_status resp = 201 \<longrightarrow> payer_signed V (at_linkId r) (at_quote r) (at_capabilityHash r) (at_signature r))
     (create_attempt V sv env rq r)"
  unfolding create_attempt_def Let_def
  by (intro results_bind results_ret results_bind_post [OF proof_result] conjI impI | split if_split
      | rule results_any | simp add: respond_error_def respond_def)+

lemma replay_status: "hs_status (replay_response rq h a) \<noteq> 201"
  by (simp add: replay_response_def attemptNotFound_def respond_error_def respond_def)

lemma error_status: "hs_status (respond_error rq st m c) = st"
  by (simp add: respond_error_def respond_def)

lemma hash_result: "results (\<lambda>h. h = v_sha256 V c \<and> isCheckoutCapability (Some c)) (hashCheckoutCapability V c)"
  unfolding hashCheckoutCapability_def
  by (cases "isCheckoutCapability (Some c)") (auto simp: results_throw intro: results_mono [OF results_extcall])

lemma quote_result: "results (\<lambda>q. \<forall>x. q = Some x \<longrightarrow> q_id x = i) (getQuote i)"
  unfolding getQuote_def by (rule results_mono [OF results_dbq]) (auto simp: find_Some_iff)

lemma body_result: "results (\<lambda>fs. json_fields (rq_body rq) = Inr fs) (read_body rq)"
  unfolding read_body_def by (intro results_bind results_liftE)

text \<open>The request carries a signature of the payer of the stored quote it names.\<close>

definition signed_request :: "viem \<Rightarrow> http_request \<Rightarrow> string \<Rightarrow> bool" where
  "signed_request V rq linkId \<longleftrightarrow> (\<exists>fs q cap sig. json_fields (rq_body rq) = Inr fs \<and>
     text_field fs ''payer_proof_signature'' = Some sig \<and> rq_capability rq = Some cap \<and> isCheckoutCapability (Some cap) \<and>
     q_id q = quote_id_of fs \<and> payer_signed V linkId q (v_sha256 V cap) sig)"

definition signed_if_created :: "viem \<Rightarrow> http_request \<Rightarrow> string \<Rightarrow> http_response \<Rightarrow> bool" where
  "signed_if_created V rq linkId resp \<longleftrightarrow> (hs_status resp = 201 \<longrightarrow> signed_request V rq linkId)"

lemma not_created:
  "st \<noteq> 201 \<Longrightarrow> signed_if_created V rq l (respond_error rq' st m c)" "signed_if_created V rq l (replay_response rq' h a)"
  "hs_status resp = 429 \<Longrightarrow> signed_if_created V rq l resp" "signed_if_created V rq l (intentNotFound rq')"
  by (simp_all add: signed_if_created_def error_status replay_status intentNotFound_def)

lemma created_signed:
  assumes "json_fields (rq_body rq) = Inr fs" and "(rq_capability rq, text_field fs ''payer_proof_signature'') = (Some cap, Some sig)"
    and "h = v_sha256 V cap \<and> isCheckoutCapability (Some cap)" and "\<forall>x. quote = Some x \<longrightarrow> q_id x = quote_id_of fs" and "quote = Some q"
  shows "results (signed_if_created V rq linkId) (create_attempt V sv env rq
     \<lparr>at_linkId = linkId, at_key = key, at_capabilityHash = h, at_signature = sig, at_intent = i, at_quote = q\<rparr>)"
  by (rule results_mono [OF create_result]) (use assms in \<open>auto simp: signed_if_created_def signed_request_def\<close>)

lemma find_request_signed: "results (signed_if_created V rq linkId) (find_attempt_request V sv env rq linkId key i)"
  unfolding find_attempt_request_def Let_def
  by (intro results_bind_post [OF body_result] results_bind_post [OF hash_result] results_bind_post [OF quote_result]
      allI impI conjI not_created results_ret
    | split option.split prod.split if_split
    | (rule results_bind, split option.split) | (rule created_signed; (assumption | simp; fail)) | (simp; fail))+


definition paying_viem :: viem where
  "paying_viem = sample_viem\<lparr>v_recoverMessageAddress := (\<lambda>m s. Some ''0xPAYER'')\<rparr>"

definition paying_env :: bindings where
  "paying_env = sample_env\<lparr>e_routerPreflight := None, e_authorizationSignerKey := Some (replicate 64 CHR ''a'')\<rparr>"

definition paying_request :: http_request where
  "paying_request = plain_request\<lparr>rq_capability := Some (replicate 43 CHR ''c''), rq_idempotencyKey := Some ''key_9'',
     rq_body := Some (JObj [(''quote_id'', JStr ''quo_1''), (''payer_proof_signature'', JStr (''0x'' @ replicate 130 CHR ''1''))])\<rparr>"

lemma paying_run:
  "case postAttempt paying_viem quiet_services paying_env paying_request ''lnk_1'' sample_world of
     (Inr resp, w') \<Rightarrow> hs_status resp = 201 | _ \<Rightarrow> False"
  by code_simp


subsection \<open>Registered transactions\<close>

text \<open>The chain showed a receipt of the transaction that proves the payment of this attempt.\<close>

definition reported_payment :: "services \<Rightarrow> string \<Rightarrow> string \<Rightarrow> bool" where
  "reported_payment sv x txHash \<longleftrightarrow> (\<exists>(a :: payment_attempt) (i :: payment_intent) r lg t. a_id a = x \<and> i_id i = a_intentId a \<and>
     sv_receipt sv (a_sourceChainId a) txHash t = ReceiptFound r \<and> proves_payment (attempt_core.truncate a) i r lg)"

lemma attempt_result: "results (\<lambda>r. \<forall>a. r = Some a \<longrightarrow> a_id a = x) (getAttempt x)"
  unfolding getAttempt_def by (rule results_mono [OF results_dbq]) (auto simp: find_Some_iff)

lemma intent_result: "results (\<lambda>r. \<forall>i. r = Some i \<longrightarrow> i_id i = x) (getPaymentIntent x)"
  unfolding getPaymentIntent_def by (rule results_mono [OF results_dbq]) (auto simp: find_Some_iff)

lemma receipt_result: "results (\<lambda>r. \<exists>t. sv_receipt sv c tx t = ReceiptFound r) (getTransactionReceipt sv c tx)"
  unfolding getTransactionReceipt_def
  by (auto simp: results_def bindA_def extcall_def throw_def ret_def Let_def split: prod.splits sum.splits option.splits receipt_answer.splits)

lemma reported_result: "results (\<lambda>ok. ok \<longrightarrow> reported_payment sv x tx) (verifyReportedSourceTransaction V sv env x tx)"
  unfolding verifyReportedSourceTransaction_def
proof (rule results_bind_post [OF attempt_result], split option.split, intro conjI allI impI results_throw)
  fix found and a :: payment_attempt
  assume "\<forall>b. found = Some b \<longrightarrow> a_id b = x" and "found = Some a"
  then have a: "a_id a = x" by simp
  let ?receipt = "catchA (bindA (liftE (paymentPublicClient V env (a_sourceChainId a))) (\<lambda>_.
      bindA (getTransactionReceipt sv (a_sourceChainId a) tx) (\<lambda>r. ret (Some r))))
    (\<lambda>e. if e = ExternalError ''TransactionReceiptNotFoundError'' then ret None else throw e)"
  have r: "results (\<lambda>r. \<forall>y. r = Some y \<longrightarrow> (\<exists>t. sv_receipt sv (a_sourceChainId a) tx t = ReceiptFound y)) ?receipt"
    by (intro results_catch results_bind results_bind_post [OF receipt_result] results_ret)
      (auto simp: results_ret results_throw)
  have v: "results (\<lambda>ok. ok \<longrightarrow> reported_payment sv x tx)
      (bindA (liftE (validatePaymentSourceReceipt (attempt_core.truncate a) i y)) (\<lambda>_. ret True))"
    if "i_id i = a_intentId a" "sv_receipt sv (a_sourceChainId a) tx t = ReceiptFound y" for i :: payment_intent and y t
  proof (rule results_bind_post [OF results_liftE], rule results_ret, rule impI)
    fix ev assume "validatePaymentSourceReceipt (attempt_core.truncate a) i y = Inr ev"
    then obtain lg where "proves_payment (attempt_core.truncate a) i y lg" by (rule accepted_receipt)
    then show "reported_payment sv x tx" using a that unfolding reported_payment_def by - (intro exI [of _ a] exI [of _ i] exI [of _ y] exI [of _ lg] exI [of _ t], simp)
  qed
  show "results (\<lambda>ok. ok \<longrightarrow> reported_payment sv x tx)
      (bindA (getPaymentIntent (a_intentId a)) (\<lambda>intent. case intent of
         None \<Rightarrow> throw (EvidenceMismatchError ''Payment intent is missing'')
       | Some i \<Rightarrow> bindA ?receipt (\<lambda>receipt. case receipt of None \<Rightarrow> ret False
         | Some r \<Rightarrow> bindA (liftE (validatePaymentSourceReceipt (attempt_core.truncate a) i r)) (\<lambda>_. ret True))))"
  proof (rule results_bind_post [OF intent_result], split option.split, intro conjI allI impI results_throw)
    fix found and i :: payment_intent
    assume "\<forall>j. found = Some j \<longrightarrow> i_id j = a_intentId a" and "found = Some i"
    then have i: "i_id i = a_intentId a" by simp
    show "results (\<lambda>ok. ok \<longrightarrow> reported_payment sv x tx) (bindA ?receipt (\<lambda>receipt. case receipt of None \<Rightarrow> ret False
        | Some r \<Rightarrow> bindA (liftE (validatePaymentSourceReceipt (attempt_core.truncate a) i r)) (\<lambda>_. ret True)))"
      by (rule results_bind_post [OF r], split option.split) (auto intro: results_ret v [OF i])
  qed
qed

lemma check_result: "results (\<lambda>e. e = Proven \<longrightarrow> reported_payment sv x tx) (check_evidence V sv env x tx)"
  unfolding check_evidence_def
  by (intro results_catch results_bind_post [OF reported_result] results_ret) (auto split: err.splits)

definition reported_if_ok :: "services \<Rightarrow> http_request \<Rightarrow> string \<Rightarrow> http_response \<Rightarrow> bool" where
  "reported_if_ok sv rq x resp \<longleftrightarrow> (hs_status resp = 200 \<longrightarrow> (\<exists>fs tx. json_fields (rq_body rq) = Inr fs \<and>
     text_field fs ''source_tx_hash'' = Some tx \<and> is_hash tx \<and> reported_payment sv x tx))"

lemma not_registered:
  "reported_if_ok sv rq x (attemptNotFound rq')" "st \<noteq> 200 \<Longrightarrow> reported_if_ok sv rq x (respond_error rq' st m c)" "st \<noteq> 200 \<Longrightarrow> reported_if_ok sv rq x (respond st b)"
  "hs_status resp = 429 \<Longrightarrow> reported_if_ok sv rq x resp"
  by (simp_all add: reported_if_ok_def error_status respond_def attemptNotFound_def)

lemma pending_not_registered: "results (reported_if_ok sv rq x) (pending_evidence sv env rq' y h)"
  unfolding pending_evidence_def
  by (intro results_bind results_ret not_registered allI impI conjI | split option.split | (simp; fail))+

lemma checked_registered:
  assumes "json_fields (rq_body rq) = Inr fs" and "text_field fs ''source_tx_hash'' = Some tx" and "\<not> \<not> is_hash tx"
    and "e = Proven \<longrightarrow> reported_payment sv x tx" and "e = Proven"
  shows "results (reported_if_ok sv rq x) m"
  by (rule results_any) (use assms in \<open>simp add: reported_if_ok_def\<close>)


definition registering_services :: services where
  "registering_services = quiet_services\<lparr>sv_receipt := (\<lambda>c h t. ReceiptFound seen_receipt)\<rparr>"

definition registering_request :: http_request where
  "registering_request = plain_request\<lparr>rq_capability := Some (replicate 43 CHR ''c''),
     rq_body := Some (JObj [(''source_tx_hash'', JStr (''0x'' @ replicate 64 CHR ''a''))])\<rparr>"

definition registering_world :: pworld where
  "registering_world = sample_world\<lparr>w_db := sample_db\<lparr>db_attempts :=
     [sample_attempt_row\<lparr>a_checkoutCapabilityHash := Some (replicate 43 CHR ''c'')\<rparr>]\<rparr>\<rparr>"

text \<open>A registration whose evidence is proven, step by step.\<close>

lemma enqueue_now:
  assumes "w_env w = []" and "e_queueAvailable env" and "\<And>m t. sv_queueSend sv m t = Some ()" and "ji_delaySeconds inp = None"
  obtains w' where "enqueuePaymentJob sv env inp w = (Inr (), w')" and "w_env w' = []"
  using assms
  by (simp add: enqueuePaymentJob_def validateDelay_def isSafeInteger_def MAX_SAFE_INTEGER_def bindA_def liftE_def
      paymentJobMessage_def randomUUID_def date_now_def ret_def callA_quiet)

lemma register_verified_ok:
  assumes "registerSourceTransaction x h tx w = (Inr (Some a), w1)" and "w_env w1 = []" and "e_queueAvailable env"
    and "\<And>m t. sv_queueSend sv m t = Some ()"
  obtains w' where "register_verified sv env rq x h tx w = (Inr (respond 200 (attemptPayload a)), w')"
proof -
  have d: "ji_delaySeconds (reconcile_job a tx) = None" "ji_delaySeconds (watch_job a (toLowerCase tx)) = None"
    by (simp_all add: reconcile_job_def watch_job_def)
  obtain w2 where w2: "enqueuePaymentJob sv env (reconcile_job a tx) w1 = (Inr (), w2)" "w_env w2 = []"
    by (rule enqueue_now [OF assms(2-4) d(1)])
  obtain w3 where "enqueuePaymentJob sv env (watch_job a (toLowerCase tx)) w2 = (Inr (), w3)"
    by (rule enqueue_now [OF w2(2) assms(3,4) d(2)])
  with w2 assms(1) that show thesis by (simp add: register_verified_def bindA_def ret_def)
qed

lemma reads_register [intro]: "reads (requestCapabilityHash V rq)" "reads (read_body rq)" "reads (in_link l x h)"
  "reads (check_evidence V sv env x tx)"
  unfolding requestCapabilityHash_def hashCheckoutCapability_def read_body_def in_link_def getIntentByLink_def getCheckoutAttempt_def
    check_evidence_def verifyReportedSourceTransaction_def getAttempt_def getPaymentIntent_def getTransactionReceipt_def
  by (intro reads_basic reads_bindA reads_catchA conjI allI impI | split option.split if_split receipt_answer.split err.split)+

lemma reads_run: "reads m \<Longrightarrow> w_env w = [] \<Longrightarrow> fst (m w) = r \<Longrightarrow> m w = (r, w)"
  by (cases "m w") (auto simp: reads_def)

lemma registerAttempt_ok:
  assumes "enforceRateLimit V rq (per_minute ''checkout_register'' (requestIdentity rq @ '':'' @ x) 60) w = (Inr None, w1)"
    and q: "w_env w1 = []" and "json_fields (rq_body rq) = Inr fs" and "text_field fs ''source_tx_hash'' = Some tx" and "is_hash tx"
    and cap: "fst (requestCapabilityHash V rq w1) = Inr (Some h)" and link: "fst (in_link linkId x h w1) = Inr True"
    and ev: "fst (check_evidence V sv env x tx w1) = Inr Proven"
  shows "registerAttempt V sv env rq x linkId w = register_verified sv env rq x h tx w1"
proof -
  have body: "fst (read_body rq w1) = Inr fs" using q assms(3) by (simp add: read_body_def bindA_def extcall_quiet liftE_def)
  note runs = reads_run [OF reads_register(2) q body] reads_run [OF reads_register(1) q cap]
    reads_run [OF reads_register(3) q link] reads_run [OF reads_register(4) q ev]
  show ?thesis using assms(1,4,5) by (simp add: registerAttempt_def limited_def bindA_def runs Let_def)
qed

definition register_rule :: rate_rule where
  "register_rule = per_minute ''checkout_register'' (requestIdentity registering_request @ '':'' @ ''att_1'') 60"

lemma register_limit: "case enforceRateLimit seen_viem registering_request register_rule registering_world of
     (Inr None, w) \<Rightarrow> (case w_env w of [] \<Rightarrow> True | _ \<Rightarrow> False) \<and>
       fst (requestCapabilityHash seen_viem registering_request w) = Inr (Some (replicate 43 CHR ''c'')) \<and>
       fst (in_link (Some ''lnk_1'') ''att_1'' (replicate 43 CHR ''c'') w) = Inr True
   | _ \<Rightarrow> False"
  by code_simp

lemma register_check: "case enforceRateLimit seen_viem registering_request register_rule registering_world of
     (Inr None, w) \<Rightarrow> fst (check_evidence seen_viem registering_services seen_env ''att_1'' (''0x'' @ replicate 64 CHR ''a'') w) = Inr Proven
   | _ \<Rightarrow> False"
  by code_simp

lemma register_write: "case enforceRateLimit seen_viem registering_request register_rule registering_world of
     (Inr None, w) \<Rightarrow> (case registerSourceTransaction ''att_1'' (replicate 43 CHR ''c'') (''0x'' @ replicate 64 CHR ''a'') w of
       (Inr (Some a), w') \<Rightarrow> (case w_env w' of [] \<Rightarrow> True | _ \<Rightarrow> False) | _ \<Rightarrow> False)
   | _ \<Rightarrow> False"
  by code_simp

lemma register_input: "is_hash (''0x'' @ replicate 64 CHR ''a'')" "e_queueAvailable seen_env"
  by code_simp+


end
