(* ===== verification/DeliveryProps.thy ===== *)
theory DeliveryProps
  imports JobsProps Samples
begin

text \<open>
  Two promises of the queue's consumer: a job that is done is not run again, and what is sent to a merchant's endpoint
  is signed with the endpoint's secret.
\<close>

subsection \<open>Redelivery\<close>

definition completed_in :: "pdb \<Rightarrow> string \<Rightarrow> bool" where
  "completed_in d key \<longleftrightarrow> (\<exists>r. job_of key d = Some r \<and> jr_status r = JobCompleted)"

lemma find_upd_status:
  "(\<And>r. jr_dedupeKey (f r) = jr_dedupeKey r) \<Longrightarrow>
   find (\<lambda>r. jr_dedupeKey r = k) (upd p f rs) = map_option (\<lambda>r. if p r then f r else r) (find (\<lambda>r. jr_dedupeKey r = k) rs)"
  by (induction rs) (auto simp: upd_def)

lemma complete_quiet:
  assumes "w_env w = []"
  obtains d where "completePaymentJob key w = (Inr (), w\<lparr>w_db := d\<rparr>)" and "same_accounts (w_db w) d"
    and "\<And>k. completed_in (w_db w) k \<Longrightarrow> completed_in d k"
proof -
  let ?f = "complete_job (w_now w)"
  let ?d = "(w_db w)\<lparr>db_jobs := upd (\<lambda>r. jr_dedupeKey r = key) ?f (db_jobs (w_db w))\<rparr>"
  have "\<exists>d ns. batch (complete_batch key (w_now w)) (w_db w) = Some (d, ns) \<and> db_jobs d = db_jobs ?d \<and> same_accounts (w_db w) d"
    by (cases "startsWith key ''outbox:''")
      (simp_all add: complete_batch_def complete_outbox_stmt_def plain_def Let_def same_accounts_def)
  then obtain d ns where b: "batch (complete_batch key (w_now w)) (w_db w) = Some (d, ns)"
    and d: "db_jobs d = db_jobs ?d" "same_accounts (w_db w) d" by blast
  have "completed_in d k" if c: "completed_in (w_db w) k" for k
  proof -
    obtain r where r: "find (\<lambda>r. jr_dedupeKey r = k) (db_jobs (w_db w)) = Some r" "jr_status r = JobCompleted"
      using c unfolding completed_in_def job_of_def by blast
    then show ?thesis
      using find_upd_status [of ?f k "\<lambda>r. jr_dedupeKey r = key" "db_jobs (w_db w)"]
      by (simp add: completed_in_def job_of_def d complete_job_def)
  qed
  with b d assms that show thesis
    by (simp add: completePaymentJob_def bindA_def date_now_def dbb_def dbx_quiet ret_def)
qed

lemma claim_completed:
  assumes "w_env w = []" and "completed_in (w_db w) (pj_dedupeKey m)"
  shows "claimPaymentJob m w = (Inr AlreadyCompleted, w)"
  using assms by (auto simp: completed_in_def claimPaymentJob_def bindA_def date_now_def dbx_quiet dbq_quiet
      insert_job_present ret_def Let_def)

text \<open>
  A job that was completed is not run again.  When the queue delivers messages whose keys are recorded as
  completed, undisturbed, each of them is acknowledged, in order; nothing else is sent, and no intent, link, attempt or commit changes.
\<close>
theorem completed_jobs_not_rerun:
  assumes "w_env w = []"
    and "\<forall>q \<in> set qs. \<exists>m. parsePaymentJobMessage V (qm_body q) = Some m \<and> completed_in (w_db w) (pj_dedupeKey m)"
  shows "\<exists>w'. consumePaymentQueue V sv env qs w = (Inr (), w') \<and>
    w_sent w' = w_sent w @ map (\<lambda>q. QueueAck (qm_id q)) qs \<and> same_accounts (w_db w) (w_db w')"
  using assms
proof (induction qs arbitrary: w)
  case Nil
  then show ?case by (simp add: consumePaymentQueue_def ret_def same_accounts_def)
next
  case (Cons q qs)
  obtain m where m: "parsePaymentJobMessage V (qm_body q) = Some m" "completed_in (w_db w) (pj_dedupeKey m)"
    using Cons.prems(2) by auto
  obtain d where d: "completePaymentJob (pj_dedupeKey m) w = (Inr (), w\<lparr>w_db := d\<rparr>)" "same_accounts (w_db w) d"
      "\<And>k. completed_in (w_db w) k \<Longrightarrow> completed_in d k"
    using complete_quiet [OF Cons.prems(1), of "pj_dedupeKey m"] by blast
  let ?w = "w\<lparr>w_db := d, w_sent := w_sent w @ [QueueAck (qm_id q)]\<rparr>"
  have one: "consume_one V sv env q w = (Inr (), ?w)"
    using m(1) d(1) claim_completed [OF Cons.prems(1) m(2)]
    by (simp add: consume_one_def run_claimed_def catchA_def bindA_def emitA_def)
  have "\<exists>w'. consumePaymentQueue V sv env qs ?w = (Inr (), w') \<and>
      w_sent w' = w_sent ?w @ map (\<lambda>q. QueueAck (qm_id q)) qs \<and> same_accounts (w_db ?w) (w_db w')"
    by (rule Cons.IH) (use Cons.prems d(3) in \<open>simp_all, blast\<close>)
  then show ?case
    using one d(2) by (auto simp: consumePaymentQueue_def bindA_def same_accounts_def)
qed

subsection \<open>Signed webhooks\<close>

text \<open>A request that carries the signature of its time and body under the secret of this delivery's endpoint.\<close>

definition signed_delivery :: "viem \<Rightarrow> bindings \<Rightarrow> delivery_job \<Rightarrow> effect \<Rightarrow> bool" where
  "signed_delivery V env dj e \<longleftrightarrow> (\<exists>secret rq. unseal V env (dj_ciphertext dj) (dj_keyId dj) = Inr secret \<and> e = SentWebhook rq \<and>
     wr_url rq = dj_url dj \<and> wr_deliveryId rq = dj_id dj \<and> wr_eventId rq = dj_eventId dj \<and> wr_body rq = delivery_body V dj \<and>
     wr_signature rq = ''v1='' @ v_hmac V secret (wr_timestamp rq @ ''.'' @ wr_body rq))"

lemma sends_bind_post:
  assumes "sends P m" and "\<And>w x w'. m w = (Inr x, w') \<Longrightarrow> sends P (f x)"
  shows "sends P (bindA m f)"
  unfolding sends_def
proof
  fix w
  obtain r w1 where mw: "m w = (r, w1)" by (cases "m w")
  obtain es where es: "w_sent w1 = w_sent w @ es" "list_all P es" using sendsD [OF assms(1), of w] mw by auto
  show "\<exists>es. w_sent (snd (bindA m f w)) = w_sent w @ es \<and> list_all P es"
  proof (cases r)
    case (Inl e)
    then show ?thesis using es mw by (simp add: bindA_def)
  next
    case (Inr x)
    then obtain es' where "w_sent (snd (f x w1)) = w_sent w1 @ es'" "list_all P es'"
      using sendsD [OF assms(2), of w x w1 w1] mw by auto
    then show ?thesis using es mw Inr by (intro exI [of _ "es @ es'"]) (simp add: bindA_def)
  qed
qed

lemma sends_store:
  "sends P (claimWebhookDelivery x u until)" "sends P (recordWebhookNetworkFailure x u k e)" "sends P (recordWebhookResponse x u k code ok)"
  "sends P (decryptWebhookSecret V env c kid)"
  unfolding claimWebhookDelivery_def recordWebhookNetworkFailure_def recordWebhookResponse_def decryptWebhookSecret_def Let_def
  by (intro sends_rules allI impI conjI | split if_split)+

lemma sends_post:
  assumes "unseal V env (dj_ciphertext dj) (dj_keyId dj) = Inr secret"
  shows "sends (signed_delivery V env dj) (post_delivery V sv dj secret ts)"
proof -
  have h: "sends P (hmac V secret body ts)" for P body
    unfolding hmac_def by (intro sends_rules)
  have s: "signature = v_hmac V secret (ts @ ''.'' @ body)" if "hmac V secret body ts w = (Inr signature, w')" for signature body w w'
    using that by (auto simp: hmac_def bindA_def extcall_def Let_def split: prod.splits)
  show ?thesis
    unfolding post_delivery_def Let_def
    by (rule sends_bind_post [OF h], rule sends_callA) (use assms s in \<open>auto simp: signed_delivery_def\<close>)
qed

text \<open>
  C24: a merchant receives only signed webhooks.  Whatever else happens during a delivery, all it sends is requests to
  the URL of the delivery's endpoint, with the delivery's event as body and the HMAC of the time and the body under the secret that the
  endpoint's stored ciphertext opens to.
\<close>
theorem webhooks_signed:
  "\<exists>es. w_sent (snd (deliverOne V sv env dj w)) = w_sent w @ es \<and> list_all (signed_delivery V env dj) es"
proof -
  have d: "sends (signed_delivery V env dj)
      (bindA (decryptWebhookSecret V env (dj_ciphertext dj) (dj_keyId dj)) (\<lambda>secret.
       bindA (catchA (post_delivery V sv dj secret ts)
         (\<lambda>e. bindA (recordWebhookNetworkFailure (dj_id dj) u k e) (\<lambda>_. throw e))) (K secret)))"
    if "\<And>secret status. sends (signed_delivery V env dj) (K secret status)" for K ts u k
    by (rule sends_bind_post [OF sends_store(4)])
      (intro sends_rules sends_store that sends_post, erule decrypt_result)
  have "sends (signed_delivery V env dj) (deliverOne V sv env dj)"
    unfolding deliverOne_def Let_def
    by (intro sends_basic sends_store d allI impI conjI | rule sends_bindA | split if_split)+
  then show ?thesis by (rule sendsD)
qed

definition done_world :: pworld where
  "done_world = jobs_world JobCompleted None"

definition redelivered :: "string \<Rightarrow> queue_message" where
  "redelivered x = \<lparr>qm_id = x, qm_body = job_message_json (sample_message\<lparr>pj_createdAt := ''2026-01-01''\<rparr>), qm_attempts = 2\<rparr>"

lemma redelivered_parses: "parsePaymentJobMessage sample_viem (qm_body (redelivered x)) = Some (sample_message\<lparr>pj_createdAt := ''2026-01-01''\<rparr>)"
  by (simp add: redelivered_def) (code_simp)

theorem completed_jobs_not_rerun_witness:
  "\<exists>w'. consumePaymentQueue sample_viem quiet_services sample_env [redelivered ''m1'', redelivered ''m2''] done_world = (Inr (), w') \<and>
    w_sent w' = [QueueAck ''m1'', QueueAck ''m2'']"
proof -
  let ?m = "sample_message\<lparr>pj_createdAt := ''2026-01-01''\<rparr>"
  have c: "completed_in (w_db done_world) (pj_dedupeKey ?m)"
    by (simp add: completed_in_def job_of_def done_world_def jobs_world_def new_job_row_def)
  have q: "w_env done_world = []" "w_sent done_world = []" by (simp_all add: done_world_def jobs_world_def sample_world_def)
  have "\<forall>q \<in> set [redelivered ''m1'', redelivered ''m2'']. \<exists>m. parsePaymentJobMessage sample_viem (qm_body q) = Some m \<and>
      completed_in (w_db done_world) (pj_dedupeKey m)"
    using redelivered_parses c by auto
  from completed_jobs_not_rerun [OF q(1) this, of quiet_services sample_env] show ?thesis
    by (auto simp: q redelivered_def)
qed

end
