(* ===== verification/TargetProps.thy ===== *)
theory TargetProps
  imports RouterHealth Samples
begin

text \<open>
  What the router targets of the preflight carry: they are the routers the network manifest declares, one per
  configured chain.
\<close>

subsection \<open>A target and its network\<close>

definition target_ok :: "viem \<Rightarrow> router_target \<Rightarrow> bool" where
  "target_ok V t \<longleftrightarrow> (case getPaymentNetworkCapabilities (rt_chainId t) of None \<Rightarrow> False | Some n \<Rightarrow>
     n_paymentSource n \<and> 0 \<le> rt_declaredMaxPlatformFeeBps t \<and> rt_declaredMaxPlatformFeeBps t \<le> 100 \<and>
     rt_usdc t = v_getAddress V (n_usdc n) \<and> rt_settlementChainId t = n_settlementChainId n \<and>
     (case rt_kind t of
        LocalRouter \<Rightarrow> rt_settlementChainId t = rt_chainId t \<and>
          map_option (v_getAddress V) (n_localPaymentRouter n) = Some (rt_address t) \<and> rt_tokenMessenger t = None \<and>
          rt_standardTransferEnabled t = None \<and> rt_fastTransferEnabled t = None
      | CctpRouter \<Rightarrow> rt_settlementChainId t \<noteq> rt_chainId t \<and>
          map_option (v_getAddress V) (n_cctpPaymentRouter n) = Some (rt_address t) \<and>
          rt_tokenMessenger t = Some (v_getAddress V (n_tokenMessenger n)) \<and>
          rt_standardTransferEnabled t = Some (n_cctpStandard n) \<and> rt_fastTransferEnabled t = Some (n_cctpFast n)))"

lemma getAddress_Inr: "getAddress V s = Inr a \<longleftrightarrow> v_isAddressLax V s \<and> a = v_getAddress V s"
  by (auto simp: getAddress_def)

lemma targetFor_ok:
  assumes "getPaymentNetworkCapabilities c = Some n" and "n_paymentSource n" and "targetFor V n = Inr (Some t)"
  shows "rt_chainId t = c \<and> target_ok V t"
proof -
  have "n_chainId n = c" "network_consistent (c, n)"
    using network_chainId network_consistentI assms(1) by blast+
  then show ?thesis using assms
    by (cases "n_localPaymentRouter n"; cases "n_cctpPaymentRouter n")
      (auto simp: target_ok_def targetFor_def network_consistent_def getAddress_Inr bindE_Inr_iff split: if_splits option.splits)
qed

lemma chain_target_ok:
  assumes "chain_target V c = Inr (Inr t)"
  shows "rt_chainId t = c \<and> target_ok V t"
  using assms targetFor_ok [of c _ V t]
  by (auto simp: chain_target_def Let_def bindE_Inr_iff split: option.splits if_splits)

lemma rights_of_chains:
  assumes "list_all2 (\<lambda>i r. chain_target V (the i) = Inr r) ids rs" and "distinct ids" and "None \<notin> set ids"
  shows "list_all (target_ok V) (List.map_filter (\<lambda>r. case r of Inl _ \<Rightarrow> None | Inr t \<Rightarrow> Some t) rs) \<and>
    distinct (map rt_chainId (List.map_filter (\<lambda>r. case r of Inl _ \<Rightarrow> None | Inr t \<Rightarrow> Some t) rs)) \<and>
    Some ` rt_chainId ` set (List.map_filter (\<lambda>r. case r of Inl _ \<Rightarrow> None | Inr t \<Rightarrow> Some t) rs) \<subseteq> set ids"
  using assms
proof (induction rule: list_all2_induct)
  case Nil
  then show ?case by (simp add: map_filter_simps)
next
  case (Cons i ids r rs)
  then obtain c where i: "i = Some c" "Some c \<notin> set ids" by (cases i) auto
  show ?case
  proof (cases r)
    case (Inl e)
    then show ?thesis using Cons by (auto simp: map_filter_simps)
  next
    case (Inr t)
    then have "rt_chainId t = c" "target_ok V t"
      using chain_target_ok [of V c t] Cons.hyps i by simp_all
    then show ?thesis using Cons i Inr by (auto simp: map_filter_simps)
  qed
qed

text \<open>
  C18: The targets of the router preflight are well formed: each is the router the manifest declares for a chain that
  is a payment source, a local router exactly on its own settlement chain and then without CCTP settings, with a
  declared fee cap of at most one percent, and no chain has two targets.
\<close>
theorem targets_well_formed:
  assumes "enabledTargets V env = Inr (targets, issues)"
  shows "list_all (target_ok V) targets \<and> distinct (map rt_chainId targets)"
proof (cases "targets = []")
  case False
  let ?ids = "map js_Number (filter (\<lambda>s. s \<noteq> []) (map trim (split_comma (e_enabledChainIds env))))"
  have "chain_ids_valid ?ids" "\<exists>rs. mapE (\<lambda>i. chain_target V (the i)) ?ids = Inr rs \<and>
      targets = List.map_filter (\<lambda>r. case r of Inl _ \<Rightarrow> None | Inr t \<Rightarrow> Some t) rs"
    using assms False unfolding enabledTargets_def Let_def by (auto simp: bindE_Inr_iff split: if_splits)
  moreover have "None \<notin> set ?ids" "distinct ?ids"
    using calculation(1) unfolding chain_ids_valid_def list_all_iff by (metis option.simps(4), blast)
  ultimately show ?thesis using rights_of_chains [OF mapE_Inr] by blast
qed simp

definition two_chains :: bindings where
  "two_chains = sample_env\<lparr>e_enabledChainIds := ''421614, 84532, 8453''\<rparr>"

lemma two_chain_targets:
  "case enabledTargets sample_viem two_chains of
     Inr (ts, ps) \<Rightarrow> map rt_kind ts = [LocalRouter, CctpRouter] \<and> ps = [''payment_router_8453_disabled''] | Inl _ \<Rightarrow> False"
  by code_simp

theorem targets_well_formed_witness:
  "\<exists>ts. enabledTargets sample_viem two_chains = Inr (ts, [''payment_router_8453_disabled'']) \<and> length ts = 2 \<and>
    list_all (target_ok sample_viem) ts \<and> distinct (map rt_chainId ts)"
proof -
  obtain ts where ts: "enabledTargets sample_viem two_chains = Inr (ts, [''payment_router_8453_disabled''])"
      "map rt_kind ts = [LocalRouter, CctpRouter]"
    using two_chain_targets by (auto split: sum.splits)
  then have "length ts = 2" by (metis length_map list.size(3,4) numeral_2_eq_2 One_nat_def add.right_neutral add_Suc_right)
  then show ?thesis using targets_well_formed [OF ts(1)] ts(1) by blast
qed

end
