(* ===== verification/Spec2Isabelle.thy ===== *)
theory Spec2Isabelle
  imports EmailProps EventMessages RpcCircuitProps IndexerProps ShardProps RelayProps Worker SettlementProps ReconcileProps QuoteProps AccessProps CutoverProps CheckoutProps DeliveryProps TargetProps
begin

text \<open>
  Verification development for the Payments Worker of GatoPago.

  \<^bold>\<open>The program.\<close>  \<^verbatim>\<open>src/payments-worker/src\<close> is a Cloudflare Worker with one D1 database.  A merchant creates a payment intent
  and its link (\<^verbatim>\<open>routes/v1.routes.ts\<close>, \<^verbatim>\<open>links.routes.ts\<close>, \<^verbatim>\<open>merchant.routes.ts\<close>).  A payer opens the link
  (\<^verbatim>\<open>routes/checkout.routes.ts\<close>), asks for a quote (\<^verbatim>\<open>services/quoteEngine.ts\<close>, \<^verbatim>\<open>services/feePolicy.ts\<close>), proves the wallet and receives
  a signed authorization, an attempt.  The transaction is registered, or found by scanning the routers' logs; a job reads its receipt, compares
  the event with the attempt and settles it, for a cross-chain payment after Circle's attestation and a mint
  (\<^verbatim>\<open>services/reconciliation.ts\<close>).  A settlement writes its commit row, the attempt, the intent, the link, the event and the outbox in one batch
  (\<^verbatim>\<open>repositories/payments.ts\<close>); the outbox, a queue and a Durable Object carry the jobs (\<^verbatim>\<open>stores/\<close>, \<^verbatim>\<open>services/queue.ts\<close>,
  \<^verbatim>\<open>services/jobScheduler.ts\<close>, \<^verbatim>\<open>services/jobs.ts\<close>); webhooks tell the merchant.  \<^verbatim>\<open>index.ts\<close> ties these to HTTP, RPC, queue and cron.

  \<^bold>\<open>How code is modelled.\<close>  The theory \<open>Prelude\<close> has the monad \<open>pact\<close>, a function from a world to a result or an error and a world.  The world has the
  database, the clock, the entropy and what was sent.  Every \<open>await\<close> is one step: a call of the database runs its statements in one
  transaction, and before each of them the world lets other requests change the database and the clock (its list \<open>w_env\<close> of changes).  A
  world with an empty list is called undisturbed.  An exception is a value \<open>Inl\<close>.  \<open>Js\<close> has the conversions of JavaScript, over unbounded
  integers with the check for safe integers written out.  Amounts are \<open>int\<close>, as \<open>bigint\<close> in the code.  Functions outside the repository are
  parameters: the record \<open>viem\<close> (addresses, hashes, signatures, JSON, base64, AES-GCM, dates) and the record \<open>services\<close> (what RPC nodes, Circle, queues
  and webhook receivers answer at a time); nothing is assumed of them but what a theorem names.

  \<^bold>\<open>Theories and the code they model\<close> (paths under \<^verbatim>\<open>src/payments-worker/src\<close> unless they start with \<^verbatim>\<open>shared\<close>).
  \<^item> Data: \<open>Models\<close> (\<^verbatim>\<open>domain/models.ts\<close>, \<^verbatim>\<open>env.ts\<close>, \<^verbatim>\<open>shared/fees.ts\<close>, \<^verbatim>\<open>shared/paymentAuthorizations.ts\<close>), \<open>Networks\<close> (\<^verbatim>\<open>shared/networks.ts\<close>,
    \<^verbatim>\<open>services/capabilities.ts\<close>), \<open>Contracts\<close> (\<^verbatim>\<open>shared/paymentContracts.ts\<close>), \<open>Validation\<close> (\<^verbatim>\<open>domain/validation.ts\<close>), \<open>PaymentsDb\<close> (the tables of
    \<^verbatim>\<open>migrations\<close> as lists of rows with their unique keys).
  \<^item> Money: \<open>FeePolicy\<close> (\<^verbatim>\<open>services/feePolicy.ts\<close>), \<open>Intents\<close>, \<open>Attempts\<close>, \<open>Settlement\<close> and \<open>Crosschain\<close> (\<^verbatim>\<open>repositories/payments.ts\<close>), \<open>QuoteEngine\<close>
    (\<^verbatim>\<open>services/quoteEngine.ts\<close>).
  \<^item> Chains: \<open>Chain\<close> (\<^verbatim>\<open>services/clients.ts\<close>), \<open>Leases\<close> (\<^verbatim>\<open>stores/signerLeaseStore.ts\<close>, \<^verbatim>\<open>services/signerLease.ts\<close>), \<open>Circle\<close>
    (\<^verbatim>\<open>rails/onchain/circleClient.ts\<close>), \<open>ChainJournal\<close> (\<^verbatim>\<open>stores/chainJournalStore.ts\<close>), \<open>Reconciliation\<close>, \<open>CctpMint\<close> and \<open>RouterScan\<close>
    (\<^verbatim>\<open>services/reconciliation.ts\<close>), \<open>RouterHealth\<close> (\<^verbatim>\<open>services/routerHealth.ts\<close>).
  \<^item> Jobs: \<open>Queue\<close> (\<^verbatim>\<open>stores/outboxStore.ts\<close>, \<^verbatim>\<open>services/queue.ts\<close>, \<^verbatim>\<open>services/jobScheduler.ts\<close>), \<open>JobStore\<close> (\<^verbatim>\<open>stores/jobStore.ts\<close>), \<open>Jobs\<close>
    (\<^verbatim>\<open>services/jobs.ts\<close>), \<open>Webhooks\<close> (\<^verbatim>\<open>repositories/merchant.ts\<close>, \<^verbatim>\<open>services/crypto.ts\<close>).
  \<^item> Entry points: \<open>Access\<close> (capability, rate limit, API key), \<open>Checkout\<close> and \<open>CheckoutRoutes\<close> (\<^verbatim>\<open>routes/checkout.routes.ts\<close>), \<open>MerchantApi\<close>
    (\<^verbatim>\<open>routes/v1.routes.ts\<close>, \<^verbatim>\<open>links.routes.ts\<close>), \<open>Dashboard\<close> (\<^verbatim>\<open>merchant.routes.ts\<close>), \<open>Cutover\<close> (\<^verbatim>\<open>services/dataCutover.ts\<close>, bootstrap and health), \<open>Rpc\<close>
    and \<open>Worker\<close> (\<^verbatim>\<open>index.ts\<close>: gate, error handler, RPC methods, queue and cron; a call is one \<open>worker_call\<close>).

  \<^item> The App backend, another Worker (\<^verbatim>\<open>src/server/src/services\<close>): \<open>LogScan\<close> (\<^verbatim>\<open>adaptiveLogs.ts\<close>), \<open>RpcAdmission\<close> (\<^verbatim>\<open>rpcAdmission.ts\<close> and the semaphore
    of \<^verbatim>\<open>rpcControlPlane.ts\<close>), \<open>RpcCircuit\<close> (the rest of \<^verbatim>\<open>rpcControlPlane.ts\<close>: the circuit of an endpoint and one request), \<open>EmailCodes\<close> (\<^verbatim>\<open>emailOtp.ts\<close>), \<open>EventScheduler\<close> and \<open>EventMessages\<close> (\<^verbatim>\<open>eventScheduler.ts\<close>);
    on its database, \<open>AppDb\<close> (the tables of \<^verbatim>\<open>src/server/migrations\<close>, \<^verbatim>\<open>chainEpoch.ts\<close>, \<^verbatim>\<open>storage/syncState.ts\<close>), \<open>AppJournal\<close> (\<^verbatim>\<open>chainJournal.ts\<close>), \<open>BalanceModel\<close>
    (\<^verbatim>\<open>balanceReadModel.ts\<close>), \<open>Projector\<close> (\<^verbatim>\<open>balanceProjector.ts\<close>), \<open>AppLedger\<close> (\<^verbatim>\<open>storage/ledger.ts\<close>) and \<open>Reorg\<close> (\<^verbatim>\<open>reorg.ts\<close> and the names of
    \<^verbatim>\<open>indexerPartitions.ts\<close>).  \<open>ReorgProps\<close> interprets the rely/guarantee locale on the epochs of the chains: no statement lowers one, and a recovery
    raises it; \<open>RollbackProps\<close> says what a recovery leaves of the tables.
  \<^item> Its transfer indexer: \<open>AppNetworks\<close> (\<^verbatim>\<open>shared/networks.ts\<close>, \<^verbatim>\<open>chainScope.ts\<close>), \<open>ChainReader\<close> (\<^verbatim>\<open>rpcProviders.ts\<close>, the provider pool of \<^verbatim>\<open>clients.ts\<close>,
    \<^verbatim>\<open>chainHead.ts\<close>, \<^verbatim>\<open>arbitrumFinality.ts\<close>; what a node answers is the record \<open>node_services\<close>), \<open>IndexerShards\<close> (\<^verbatim>\<open>indexerShards.ts\<close>) and \<open>Indexer\<close>
    (\<^verbatim>\<open>indexer.ts\<close>, one delivery).  \<open>IndexerProps\<close> shows that no deposit is lost: the scan covers its window, every block up to the committed end
    is journaled and credited before the cursor moves, and a recovery that takes a credited row away raises the epoch, so that the guard
    of the cursor's batch rejects it.  \<open>ShardProps\<close> has the capacity and the stability of the shards.

  \<^item> Its user operations: \<open>UserOps\<close> (the two forms of an operation, gas and keys of \<^verbatim>\<open>userOp.ts\<close> and \<^verbatim>\<open>userOperationTransport.ts\<close>),
    \<open>AccountStore\<close> (\<^verbatim>\<open>storage/accountOperations.ts\<close>, \<^verbatim>\<open>storage/leases.ts\<close>, \<^verbatim>\<open>signerLease.ts\<close>) and \<open>UserOpTransport\<close> (the transports by bundlers and by
    the server's signer; what bundlers and the node answer is the record \<open>relay_services\<close>).  \<open>RelayProps\<close> follows what a call sends: an operation is
    handed over at most once, and an error that allows another attempt means that nobody was asked.

  \<^bold>\<open>How the proofs are organised.\<close>  Three contracts are locales: a lease on a row
  (\<open>Leases\<close>, interpreted for signer leases and for webhook deliveries), a status that only moves along a relation (\<open>Accounting\<close>, interpreted for
  attempts and intents), and rely/guarantee for a world invariant and a step relation (\<open>Prelude\<close>).  \<open>Guarantees\<close> interprets the last on the
  invariant \<open>pay_I\<close> (the accounts balance) and the relation \<open>pay_R\<close> (nothing settled is lost) and proves every statement of the
  repositories to preserve them; \<open>ReconcileGuards\<close>, \<open>CheckoutGuards\<close> and \<open>ApiGuards\<close> compose these along the code, so that \<open>Worker\<close> has it for any
  sequence of calls.  \<open>Sends\<close> has the same scheme for what an action sends, and \<open>JobsProps\<close> and \<open>CheckoutProps\<close> for its results.  Theories named
  \<^verbatim>\<open>...Props\<close> hold the properties of one part, and \<open>Samples\<close> the concrete world of the witnesses.  The properties here span the whole Worker.

  \<^bold>\<open>Bounds.\<close>  The settlement loop has the five rounds of the code; everything else recurses over a finite list, so every handler
  is a total function.  The log scan of the App backend is a \<open>partial_function\<close> that is proved to return, its drawing of a code one that may not end.

  \<^bold>\<open>Simplifications.\<close>  The calls of a \<open>Promise.all\<close> run one after another.  \<open>Number()\<close> is modelled on integer texts, on every other text as not a number.
  Response headers, log lines and the message of a quote error are left out (its code is kept).  The 64 KiB limit of a body, CORS and routing by path
  are Hono's; a request comes with its route and, where the code verifies a Firebase token, with the verified subject.  SQL timestamps are integers.

  \<^bold>\<open>Not modelled.\<close>  The verification of JWTs (\<^verbatim>\<open>middlewares/auth.ts\<close>, signatures over keys fetched from Google), logging, the rest of the App backend in
  \<^verbatim>\<open>src/server\<close> (its routes, most of its storage, the other indexers and their scheduling, the construction of RPC clients, the building, signing
  and sponsoring of user operations and the reconciliation of account operations), the web client, the Solidity contracts and the tools.
\<close>

subsection \<open>Any sequence of calls\<close>

text \<open>
  C1: the books always balance.  From a database whose accounts balance, after any sequence of HTTP requests, RPC
  calls, queue batches and cron runs, with other requests doing whatever preserves the balance between any two statements, no attempt
  is credited twice; exactly the settled attempts have a commit row, of their own positive settled amount; each intent has been paid
  the total of its commits (a sandbox payment adds its amount once), is paid or overpaid as soon as that is positive, overpaid only
  beyond its amount; and each link shows the status of its intent.
\<close>
theorem accounts_balanced:
  assumes "holds_at pay_I (w_ix w) w" and "env_ok pay_I pay_R w" and "d = w_db (snd (run_calls V sv env cs w))"
  shows "distinct (map sc_attemptId (db_commits d)) \<and>
    (\<forall>a \<in> set (db_attempts d). settled_status (a_status a) \<longleftrightarrow> a_id a \<in> sc_attemptId ` set (db_commits d)) \<and>
    (\<forall>c \<in> set (db_commits d). \<exists>a \<in> set (db_attempts d). a_id a = sc_attemptId c \<and> a_intentId a = sc_intentId c \<and>
      0 < sc_settled c \<and> a_settledAmountAtomic a = sc_settled c) \<and>
    (\<forall>i \<in> set (db_intents d). (let total = intent_total (db_commits d) (i_id i) in
      (i_paidAmountAtomic i = total \<or> i_mode i = Test \<and> i_paidAmountAtomic i = i_amountAtomic i + total) \<and>
      (i_status i \<in> {IntentPaid, IntentOverpaid} \<or> i_paidAmountAtomic i = 0 \<and> total = 0) \<and>
      (i_status i = IntentOverpaid \<longrightarrow> i_amountAtomic i < i_paidAmountAtomic i) \<and>
      (i_status i = IntentPaid \<longrightarrow> i_paidAmountAtomic i \<le> i_amountAtomic i))) \<and>
    (\<forall>l \<in> set (db_links d). \<exists>i \<in> set (db_intents d). i_id i = l_intentId l \<and> l_status l = link_status_of (i_status i))"
proof -
  have acc: "accounts_ok (db_intents d) (db_links d) (db_attempts d) (db_commits d)"
    using calls_keep(1) [OF assms(1,2)] assms(3) by (simp add: pay_inv_def)
  note parts = acc [unfolded accounts_ok_def]
  have commits: "\<exists>a \<in> set (db_attempts d). a_id a = sc_attemptId c \<and> a_intentId a = sc_intentId c \<and> 0 < sc_settled c \<and>
      a_settledAmountAtomic a = sc_settled c \<and> settled_status (a_status a)" if "c \<in> set (db_commits d)" for c
    using parts that by (auto simp: commit_ok_def attempt_status_of_def settled_status_def split: if_splits)
  have attempts: "settled_status (a_status a) \<longleftrightarrow> a_id a \<in> sc_attemptId ` set (db_commits d)"
    if a: "a \<in> set (db_attempts d)" for a
  proof
    assume "settled_status (a_status a)"
    then obtain c where "c \<in> set (db_commits d)" "sc_attemptId c = a_id a" using parts a by blast
    then show "a_id a \<in> sc_attemptId ` set (db_commits d)" by (metis image_eqI)
  next
    assume "a_id a \<in> sc_attemptId ` set (db_commits d)"
    then obtain c where "c \<in> set (db_commits d)" "a_id a = sc_attemptId c" by blast
    then obtain b where b: "b \<in> set (db_attempts d)" "a_id b = a_id a" "settled_status (a_status b)"
      using commits by metis
    moreover have "distinct (map a_id (db_attempts d))" using parts by blast
    ultimately show "settled_status (a_status a)" using key_unique [of a_id "db_attempts d" b a] a by metis
  qed
  have links: "\<exists>i \<in> set (db_intents d). i_id i = l_intentId l \<and> l_status l = link_status_of (i_status i)"
    if l: "l \<in> set (db_links d)" for l
  proof -
    have "link_ok (db_intents d) l" using parts l by blast
    then obtain i where "find_intent (l_intentId l) (db_intents d) = Some i" "l_status l = link_status_of (i_status i)"
      by (auto simp: link_ok_def split: option.splits)
    then show ?thesis using find_intent_Some [of "l_intentId l" "db_intents d" i] by blast
  qed
  have intents: "let total = intent_total (db_commits d) (i_id i) in
      (i_paidAmountAtomic i = total \<or> i_mode i = Test \<and> i_paidAmountAtomic i = i_amountAtomic i + total) \<and>
      (i_status i \<in> {IntentPaid, IntentOverpaid} \<or> i_paidAmountAtomic i = 0 \<and> total = 0) \<and>
      (i_status i = IntentOverpaid \<longrightarrow> i_amountAtomic i < i_paidAmountAtomic i) \<and>
      (i_status i = IntentPaid \<longrightarrow> i_paidAmountAtomic i \<le> i_amountAtomic i)" if i: "i \<in> set (db_intents d)" for i
  proof -
    have "intent_ok (db_commits d) i" using parts i by blast
    then show ?thesis by (auto simp: intent_ok_def Let_def)
  qed
  have one: "distinct (map sc_attemptId (db_commits d))" using parts by blast
  have commits': "\<exists>a \<in> set (db_attempts d). a_id a = sc_attemptId c \<and> a_intentId a = sc_intentId c \<and> 0 < sc_settled c \<and>
      a_settledAmountAtomic a = sc_settled c" if "c \<in> set (db_commits d)" for c
    using commits [OF that] by blast
  show ?thesis
    by (intro conjI ballI) (rule one attempts commits' intents links, assumption?)+
qed

text \<open>
  C2: nothing is unsettled.  Over the same sequences of calls, every attempt and intent keeps its identity and the terms that
  were signed, moves only along the allowed transitions, a settled attempt keeps its status and amount, a registered source
  transaction is never replaced, the paid amount of an intent never decreases, a fixed price never changes, and no commit row is
  ever changed or removed.
\<close>
theorem history_kept:
  assumes "holds_at pay_I (w_ix w) w" and "env_ok pay_I pay_R w" and "d = w_db (snd (run_calls V sv env cs w))"
  shows "(\<forall>a \<in> set (db_attempts (w_db w)). \<exists>b \<in> set (db_attempts d). a_id b = a_id a \<and> attempt_terms b = attempt_terms a \<and>
      attempt_next (a_status a) (a_status b) \<and>
      (settled_status (a_status a) \<longrightarrow> a_status b = a_status a \<and> a_settledAmountAtomic b = a_settledAmountAtomic a) \<and>
      (a_sourceTxHash a \<noteq> None \<longrightarrow> a_sourceTxHash b = a_sourceTxHash a)) \<and>
    (\<forall>i \<in> set (db_intents (w_db w)). \<exists>j \<in> set (db_intents d). i_id j = i_id i \<and> intent_terms j = intent_terms i \<and>
      intent_next (i_status i) (i_status j) \<and> i_paidAmountAtomic i \<le> i_paidAmountAtomic j \<and>
      (i_amountMode i = Fixed \<longrightarrow> i_amountAtomic j = i_amountAtomic i)) \<and>
    (\<forall>c \<in> set (db_commits (w_db w)). c \<in> set (db_commits d))"
proof -
  have R: "grows attempt_step (db_attempts (w_db w)) (db_attempts d)" "grows intent_step (db_intents (w_db w)) (db_intents d)"
    "grows (=) (db_commits (w_db w)) (db_commits d)"
    using calls_keep(2) [OF assms(1,2)] assms(3) by (auto simp: pay_R_def)
  have a: "\<exists>b \<in> set (db_attempts d). attempt_step a b" if "a \<in> set (db_attempts (w_db w))" for a
    using grows_mem [OF R(1) that] by blast
  have i: "\<exists>j \<in> set (db_intents d). intent_step i j" if "i \<in> set (db_intents (w_db w))" for i
    using grows_mem [OF R(2) that] by blast
  have c: "c \<in> set (db_commits d)" if "c \<in> set (db_commits (w_db w))" for c
    using grows_mem [OF R(3) that] by blast
  have step: "a_id y = a_id x \<and> attempt_terms y = attempt_terms x \<and> attempt_next (a_status x) (a_status y) \<and>
      (settled_status (a_status x) \<longrightarrow> a_status y = a_status x \<and> a_settledAmountAtomic y = a_settledAmountAtomic x) \<and>
      (a_sourceTxHash x \<noteq> None \<longrightarrow> a_sourceTxHash y = a_sourceTxHash x)" if s: "attempt_step x y" for x y
  proof -
    have "attempt_terms y = attempt_terms x" "attempt_next (a_status x) (a_status y)"
      using s by (simp_all add: attempt_step_def)
    moreover have "settled_status (a_status x) \<longrightarrow> a_status y = a_status x"
      using attempts.final_next [of "a_status x" "a_status y"] calculation(2) by (auto simp: attempt_final_def settled_status_def)
    moreover have "a_id y = a_id x" by (rule attempt_terms_ids(1)) (rule calculation(1))
    ultimately show ?thesis using s by (intro conjI impI) (simp_all add: attempt_step_def kept_def)
  qed
  have istep: "i_id y = i_id x \<and> intent_terms y = intent_terms x \<and> intent_next (i_status x) (i_status y) \<and>
      i_paidAmountAtomic x \<le> i_paidAmountAtomic y \<and> (i_amountMode x = Fixed \<longrightarrow> i_amountAtomic y = i_amountAtomic x)"
    if "intent_step x y" for x y
    using that by (intro conjI impI) (simp_all add: intent_step_def intent_terms_ids(1) [of y x])
  show ?thesis
  proof (intro conjI ballI)
    fix x assume "x \<in> set (db_attempts (w_db w))"
    from a [OF this] obtain b where "b \<in> set (db_attempts d)" "attempt_step x b" by blast
    then show "\<exists>b \<in> set (db_attempts d). a_id b = a_id x \<and> attempt_terms b = attempt_terms x \<and>
      attempt_next (a_status x) (a_status b) \<and>
      (settled_status (a_status x) \<longrightarrow> a_status b = a_status x \<and> a_settledAmountAtomic b = a_settledAmountAtomic x) \<and>
      (a_sourceTxHash x \<noteq> None \<longrightarrow> a_sourceTxHash b = a_sourceTxHash x)"
      using step by (intro bexI [of _ b])
  next
    fix x assume "x \<in> set (db_intents (w_db w))"
    from i [OF this] obtain j where "j \<in> set (db_intents d)" "intent_step x j" by blast
    then show "\<exists>j \<in> set (db_intents d). i_id j = i_id x \<and> intent_terms j = intent_terms x \<and>
      intent_next (i_status x) (i_status j) \<and> i_paidAmountAtomic x \<le> i_paidAmountAtomic j \<and>
      (i_amountMode x = Fixed \<longrightarrow> i_amountAtomic j = i_amountAtomic x)"
      using istep by (intro bexI [of _ j])
  next
    fix x assume "x \<in> set (db_commits (w_db w))"
    then show "x \<in> set (db_commits d)" by (rule c)
  qed
qed

text \<open>
  C21: while the write gate is shut (bootstrap mode, or an imported database that has not been verified), a POST or DELETE request, an
  RPC call, a queue batch and the cron leave the database and every external system as they are; a queue batch is retried after 15
  minutes.
\<close>
theorem writes_blocked:
  assumes "paymentsWriteAvailability env w = (Inr av, w)" and "\<not> wa_available av" and "gated c"
  shows "\<exists>vs. snd (run_call V sv env c w) = w\<lparr>w_sent := w_sent w @ vs\<rparr> \<and> set vs \<subseteq> {QueueRetryAll 900}"
proof -
  have gate: "snd (app_handler V sv env rq t w) = w" if "verb_of t \<noteq> ''GET''" for rq t
    using mutating_verb [OF that] assms(1,2)
    by (simp add: app_handler_def with_app_errors_def write_gate_def bindA_def catchA_def ret_def Let_def)
  have rpc: "when_available env m w = (Inr (rpcError UNAVAILABLE ''Payments writes have not been activated''), w)" for m :: "'a rpc_result pact"
    using assms(1,2) by (simp add: when_available_def bindA_def ret_def)
  show ?thesis
  proof (cases c)
    case (Fetch rq t)
    then have "snd (run_call V sv env c w) = w"
      using gate [of t rq] assms(3) by (auto simp: run_call_def gated_def bindA_def ret_def split: prod.splits sum.splits)
    then show ?thesis by (intro exI [of _ "[]"]) simp
  next
    case (QueueBatch name qs)
    then show ?thesis
      using assms(1,2) by (intro exI [of _ "[QueueRetryAll 900]"]) (simp add: run_call_def queue_def bindA_def emitA_def)
  next
    case Cron
    then show ?thesis
      using assms(1,2) by (intro exI [of _ "[]"]) (simp add: run_call_def scheduled_def bindA_def ret_def)
  next
    case (UpsertAccount v)
    then show ?thesis
      by (intro exI [of _ "[]"]) (simp add: run_call_def upsertSettlementAccountRpc_def when_available_def bindA_def ret_def assms(1,2))
  next
    case (ReserveAttempt v)
    then show ?thesis
      by (intro exI [of _ "[]"]) (simp add: run_call_def reserveAppPaymentAttempt_def when_available_def bindA_def ret_def assms(1,2))
  next
    case (RegisterExecution v)
    then show ?thesis
      by (intro exI [of _ "[]"]) (simp add: run_call_def registerAppPaymentExecution_def when_available_def bindA_def ret_def assms(1,2))
  qed
qed

definition late_world :: pworld where
  "late_world = sample_world\<lparr>w_now := 100000000\<rparr>"

lemma sample_blocked:
  "paymentsWriteAvailability sample_env w = (Inr \<lparr>wa_available = False,
    wa_bootstrap = \<lparr>bs_active = True, bs_configuredValue = None, bs_valid = True\<rparr>,
    wa_dataCutover = None, wa_reason = BootstrapActive\<rparr>, w)"
  by (simp add: paymentsWriteAvailability_def paymentsBootstrapState_def normal_flag_def sample_env_def ret_def)

text \<open>
  The gate does not cover the routes that read: while writes are blocked, reading a link expires the
  reserved attempt of its intent in the database.
\<close>
theorem reads_write_while_blocked:
  "\<exists>c w. \<not> gated c \<and> (case paymentsWriteAvailability sample_env w of (Inr av, _) \<Rightarrow> \<not> wa_available av | _ \<Rightarrow> False) \<and>
    map a_status (db_attempts (w_db w)) = [Reserved] \<and>
    map a_status (db_attempts (w_db (snd (run_call sample_viem quiet_services sample_env c w)))) = [Expired]"
proof (intro exI conjI)
  let ?c = "Fetch plain_request (CheckoutTarget (GetLink ''lnk_1''))"
  show "\<not> gated ?c" by (simp add: gated_def verb_of_def)
  show "case paymentsWriteAvailability sample_env late_world of (Inr av, _) \<Rightarrow> \<not> wa_available av | _ \<Rightarrow> False"
    unfolding sample_blocked by simp
  show "map a_status (db_attempts (w_db late_world)) = [Reserved]" by code_simp
  show "map a_status (db_attempts (w_db (snd (run_call sample_viem quiet_services sample_env ?c late_world)))) = [Expired]"
    by code_simp
qed

theorem writes_blocked_witness:
  "\<exists>vs. snd (run_call sample_viem quiet_services sample_env Cron sample_world) = sample_world\<lparr>w_sent := w_sent sample_world @ vs\<rparr> \<and>
    set vs \<subseteq> {QueueRetryAll 900}"
  by (rule writes_blocked [OF sample_blocked]) (simp_all add: gated_def)

definition expiry_step :: "pdb \<Rightarrow> pdb" where
  "expiry_step d = (case batch (release_batch ''pi_1'' 100000000) d of None \<Rightarrow> d | Some (d', ns) \<Rightarrow> d')"

definition disturbed_world :: pworld where
  "disturbed_world = sample_world\<lparr>w_env := [(5000, \<lambda>d. d), (100000000, expiry_step)]\<rparr>"

lemma disturbed_ok: "holds_at pay_I (w_ix disturbed_world) disturbed_world" "env_ok pay_I pay_R disturbed_world"
proof -
  show "holds_at pay_I (w_ix disturbed_world) disturbed_world"
    using sample_I by (simp add: disturbed_world_def holds_at_def)
  have "pay_I g k (expiry_step d) \<and> pay_R d (expiry_step d)" if "pay_I g k d" for g k d
    using keeps_stmt_ok [OF keeps_release, of "''pi_1''" 100000000] that
    unfolding pay.stmt_ok_def by (auto simp: expiry_step_def pay_R_refl split: option.splits)
  then show "env_ok pay_I pay_R disturbed_world"
    by (auto simp: env_ok_def disturbed_world_def pay_R_refl)
qed

lemmas sample_run = disturbed_ok refl [of "w_db (snd (run_calls sample_viem quiet_services sample_env
  [Fetch plain_request (CheckoutTarget (GetLink ''lnk_1'')), Cron] disturbed_world))"]

theorem accounts_balanced_witness:
  "let d = w_db (snd (run_calls sample_viem quiet_services sample_env
      [Fetch plain_request (CheckoutTarget (GetLink ''lnk_1'')), Cron] disturbed_world))
   in distinct (map sc_attemptId (db_commits d)) \<and> (\<forall>i \<in> set (db_intents d). i_status i = IntentPaid \<longrightarrow> i_paidAmountAtomic i \<le> i_amountAtomic i)"
  using accounts_balanced [OF sample_run] unfolding Let_def by blast

theorem history_kept_witness:
  "let d = w_db (snd (run_calls sample_viem quiet_services sample_env
      [Fetch plain_request (CheckoutTarget (GetLink ''lnk_1'')), Cron] disturbed_world))
   in \<forall>a \<in> set (db_attempts sample_db). \<exists>b \<in> set (db_attempts d). a_id b = a_id a \<and> attempt_next (a_status a) (a_status b)"
  using history_kept [OF sample_run] unfolding Let_def disturbed_world_def by (simp add: sample_world_def) blast

end
